(* ===== verification/Prelude.thy ===== *)
theory Prelude
  imports Main "HOL-Library.AList" "HOL-Library.List_Lexorder" "HOL-Library.Char_ord"
    "HOL-Library.Product_Lexorder" "HOL-Library.Multiset"
begin

text \<open>
  Shared vocabulary of the development: the exception classes the engine raises, the error
  monad used to write fallible Python functions, insertion-ordered dictionaries, the string
  predicates of the identifier checks, bounded unsigned integers, and the binary searches of
  the standard library's \<^verbatim>\<open>bisect\<close> module with their specifications.
\<close>

named_theorems exn_simps
named_theorems wf_defs

section \<open>Exceptions and the error monad\<close>

text \<open>
  Typed stable codes of \<^verbatim>\<open>TransactionClockErrorCode\<close>, \<^verbatim>\<open>PumpQuoteErrorCode\<close> and
  \<^verbatim>\<open>SolanaCostErrorCode\<close>.
\<close>

datatype transaction_clock_error_code =
    EMPTY_CLOCK | ARRAY_LENGTH_MISMATCH | BLOCK_ORDER_INVALID | TRANSACTION_COUNT_INVALID
  | PREFIX_INVALID | PREFIX_OVERFLOW | MISSING_BLOCK_TIME | BLOCK_TIME_RESOLUTION_INVALID
  | BLOCK_TIME_REGRESSION | POSITION_OUTSIDE_CLOCK | TRANSACTION_INDEX_OUT_OF_RANGE
  | NON_POSITIVE_TRANSACTION_DELAY | SETTLEMENT_TAIL_EXHAUSTED | DURATION_TARGET_OUTSIDE_CLOCK

datatype pump_quote_error_code =
    UNSUPPORTED_PROGRAM_VERSION | UNSUPPORTED_FORMULA_VERSION | PROFILE_NOT_EFFECTIVE
  | UNKNOWN_MODE | UNKNOWN_LIFECYCLE | CURVE_COMPLETED | PUMPSWAP_ROUTING_FORBIDDEN
  | INPUT_OUT_OF_BOUNDS | OUTPUT_OUT_OF_BOUNDS | INSUFFICIENT_REAL_TOKEN_RESERVES
  | INSUFFICIENT_REAL_SOL_RESERVES | ARITHMETIC_OVERFLOW

datatype solana_cost_error_code =
    COST_PROFILE_NOT_EFFECTIVE | UNSUPPORTED_FEE_FORMULA | UNSUPPORTED_TRANSACTION_FORMAT
  | UNKNOWN_ACCOUNT_SCHEMA | NON_REFUNDABLE_ACCOUNT_COST | COST_ARITHMETIC_OVERFLOW

datatype sniping_engine_error_code =
    SOURCE_ORDER_INVALID | SOURCE_COUNT_MISMATCH | MIXED_TRANSACTION_GROUP | MIXED_NETWORK
  | DUPLICATE_ROUNDTRIP | DYNAMIC_ITEM_LIMIT_EXCEEDED | PORTFOLIO_INVARIANT | QUOTE_CONTRACT_MISMATCH
  | DELIVERY_SCHEDULE_INVALID | INTERNAL_STATE_INVALID

datatype protocol_contract_error_code =
    UNSUPPORTED_PAYLOAD_SCHEMA | UNSUPPORTED_PROTOCOL_VERSION | UNKNOWN_PROGRAM_MODE | EXCLUDED_PROGRAM_MODE
  | PROTOCOL_UNKNOWN_LIFECYCLE | NON_SUPPORTED_QUOTE_ASSET | MALFORMED_PROTOCOL_PAYLOAD | UNKNOWN_VENUE
  | INCONSISTENT_VENUE_IDENTITY | PROTOCOL_PROFILE_NOT_EFFECTIVE

text \<open>
  One constructor per exception class; the string is the message (or the stable code) the
  source raises it with.
\<close>

datatype exn =
    TypeError string
  | ValueError string
  | OverflowError string
  | LookupError string
  | RuntimeError string
  | UnsupportedPositionSchemaError string
  | ChainIdentityMismatchError string
  | PortfolioInvariantError string
  | HistoricalStateError string
  | EngineInvariantError string
  | WalletProvisioningError string
  | ExecutionRejected string
  | TransactionClockError transaction_clock_error_code
  | PumpQuoteError pump_quote_error_code
  | SolanaCostError solana_cost_error_code
  | SnipingEngineError sniping_engine_error_code
  | ProtocolContractError protocol_contract_error_code
  | ProtocolExecutionRejected string
  | NetworkCostContractError string
  | CopyStateError string
  | AssertionError string
  | PumpfunProjectionError string
  | KeyError string | IndexError string

type_synonym 'a res = "exn + 'a"

definition bindE :: "'e + 'a \<Rightarrow> ('a \<Rightarrow> 'e + 'b) \<Rightarrow> 'e + 'b" where
  "bindE m f = (case m of Inl e \<Rightarrow> Inl e | Inr x \<Rightarrow> f x)"

definition raise_if :: "bool \<Rightarrow> 'e \<Rightarrow> 'e + unit" where
  "raise_if c e = (if c then Inl e else Inr ())"

fun foldE :: "('s \<Rightarrow> 'a \<Rightarrow> 'e + 's) \<Rightarrow> 's \<Rightarrow> 'a list \<Rightarrow> 'e + 's" where
  "foldE f s [] = Inr s"
| "foldE f s (x # xs) = bindE (f s x) (\<lambda>s'. foldE f s' xs)"

fun mapE :: "('a \<Rightarrow> 'e + 'b) \<Rightarrow> 'a list \<Rightarrow> 'e + 'b list" where
  "mapE f [] = Inr []"
| "mapE f (x # xs) = bindE (f x) (\<lambda>y. bindE (mapE f xs) (\<lambda>ys. Inr (y # ys)))"

lemma bindE_Inl [simp, exn_simps]: "bindE (Inl e) f = Inl e"
  by (simp add: bindE_def)

lemma bindE_Inr [simp, exn_simps]: "bindE (Inr x) f = f x"
  by (simp add: bindE_def)

lemma bindE_eq_Inr [simp, exn_simps]: "bindE m f = Inr y \<longleftrightarrow> (\<exists>x. m = Inr x \<and> f x = Inr y)"
  by (cases m) auto

lemma bindE_eq_Inl [exn_simps]:
  "bindE m f = Inl e \<longleftrightarrow> m = Inl e \<or> (\<exists>x. m = Inr x \<and> f x = Inl e)"
  by (cases m) auto

lemma bindE_assoc: "bindE (bindE m f) g = bindE m (\<lambda>x. bindE (f x) g)"
  by (cases m) auto

lemma bindE_cong [fundef_cong]:
  "m = m' \<Longrightarrow> (\<And>x. m' = Inr x \<Longrightarrow> f x = f' x) \<Longrightarrow> bindE m f = bindE m' f'"
  by (cases m') auto

lemma raise_if_eq_Inr [simp, exn_simps]: "raise_if c e = Inr u \<longleftrightarrow> \<not> c"
  by (simp add: raise_if_def)

lemma raise_if_eq_Inl [simp, exn_simps]: "raise_if c e = Inl e' \<longleftrightarrow> c \<and> e' = e"
  by (auto simp: raise_if_def)

lemma raise_if_simps [simp]: "raise_if False e = Inr ()" "raise_if True e = Inl e"
  by (simp_all add: raise_if_def)

lemma foldE_append: "foldE f s (xs @ ys) = bindE (foldE f s xs) (\<lambda>s'. foldE f s' ys)"
  by (induction xs arbitrary: s) (simp_all add: bindE_assoc)

lemma foldE_invariant:
  assumes "foldE f s xs = Inr s'" and "P s"
    and "\<And>s x s'. x \<in> set xs \<Longrightarrow> P s \<Longrightarrow> f s x = Inr s' \<Longrightarrow> P s'"
  shows "P s'"
  using assms by (induction xs arbitrary: s) auto

lemma foldE_preserves:
  assumes "foldE f s xs = Inr s'" and "\<And>s x s'. f s x = Inr s' \<Longrightarrow> g s' = g s"
  shows "g s' = g s"
  by (rule foldE_invariant[OF assms(1), where P = "\<lambda>t. g t = g s"]) (auto dest: assms(2))

lemma foldE_total:
  assumes "P s" and "\<And>s x. x \<in> set xs \<Longrightarrow> P s \<Longrightarrow> \<exists>s'. f s x = Inr s' \<and> P s'"
  shows "\<exists>s'. foldE f s xs = Inr s' \<and> P s'"
  using assms
proof (induction xs arbitrary: s)
  case Nil
  then show ?case by simp
next
  case (Cons x xs)
  then obtain s1 where "f s x = Inr s1" "P s1" by force
  with Cons show ?case by auto
qed

lemma foldE_cong [fundef_cong]:
  "xs = ys \<Longrightarrow> s = t \<Longrightarrow> (\<And>u x. x \<in> set ys \<Longrightarrow> f u x = g u x) \<Longrightarrow> foldE f s xs = foldE g t ys"
proof (induction ys arbitrary: xs s t)
  case Nil
  then show ?case by simp
next
  case (Cons y ys)
  then show ?case by (auto intro!: bindE_cong)
qed

lemma mapE_length: "mapE f xs = Inr ys \<Longrightarrow> length ys = length xs"
  by (induction xs arbitrary: ys) auto

lemma mapE_preimage: "mapE f xs = Inr ys \<Longrightarrow> y \<in> set ys \<Longrightarrow> \<exists>x \<in> set xs. f x = Inr y"
  by (induction xs arbitrary: ys) auto

lemma mapE_Inr_iff:
  "mapE f xs = Inr ys \<longleftrightarrow> list_all2 (\<lambda>x y. f x = Inr y) xs ys"
proof (induction xs arbitrary: ys)
  case Nil
  then show ?case by auto
next
  case (Cons x xs)
  then show ?case by (cases ys) auto
qed

section \<open>Dictionaries\<close>

text \<open>
  A Python dict iterates in insertion order and an update of a present key keeps its place:
  exactly \<^const>\<open>AList.update\<close> on an association list.
\<close>

type_synonym ('k, 'v) dict = "('k \<times> 'v) list"

abbreviation dict_get :: "('k, 'v) dict \<Rightarrow> 'k \<Rightarrow> 'v option" where
  "dict_get d k \<equiv> map_of d k"

abbreviation dict_set :: "'k \<Rightarrow> 'v \<Rightarrow> ('k, 'v) dict \<Rightarrow> ('k, 'v) dict" where
  "dict_set k v d \<equiv> AList.update k v d"

abbreviation dict_keys :: "('k, 'v) dict \<Rightarrow> 'k list" where
  "dict_keys d \<equiv> map fst d"

definition dict_get_default :: "('k, 'v) dict \<Rightarrow> 'k \<Rightarrow> 'v \<Rightarrow> 'v" where
  "dict_get_default d k z = (case dict_get d k of None \<Rightarrow> z | Some v \<Rightarrow> v)"

lemma dict_get_set: "dict_get (dict_set k v d) k' = (if k' = k then Some v else dict_get d k')"
  by (simp add: update_conv')

lemma dict_get_default_set:
  "dict_get_default (dict_set k v d) k' z = (if k' = k then v else dict_get_default d k' z)"
  by (simp add: dict_get_default_def dict_get_set)

lemma dict_get_default_Nil [simp]: "dict_get_default [] k z = z"
  by (simp add: dict_get_default_def)

lemma dict_keys_set: "set (dict_keys (dict_set k v d)) = insert k (set (dict_keys d))"
  using dom_update[of k v d] by (simp add: dom_map_of_conv_image_fst)

section \<open>Strings\<close>

text \<open>
  A Python \<^verbatim>\<open>str\<close> is a list of characters (code points below 256) ordered
  lexicographically by code point; the whitespace is that of \<^verbatim>\<open>str.isspace\<close> in that range.
\<close>

definition is_space :: "char \<Rightarrow> bool" where
  "is_space c = (let n = (of_char c :: nat) in
     (9 \<le> n \<and> n \<le> 13) \<or> (28 \<le> n \<and> n \<le> 32) \<or> n = 133 \<or> n = 160)"

definition strip :: "string \<Rightarrow> string" where
  "strip s = rev (dropWhile is_space (rev (dropWhile is_space s)))"

definition char_code :: "char \<Rightarrow> nat" where
  "char_code c = of_char c"

fun remove_prefix :: "string \<Rightarrow> string \<Rightarrow> string" where
  "remove_prefix p s = (if take (length p) s = p then drop (length p) s else s)"

lemma strip_Nil [simp]: "strip [] = []"
  by (simp add: strip_def)

lemma dropWhile_same_length: "length s \<le> length (dropWhile P s) \<Longrightarrow> dropWhile P s = s"
  by (cases s) (use length_dropWhile_le[of P "tl s"] in auto)

lemma strip_ends:
  assumes "s = strip s" and "s \<noteq> []"
  shows "\<not> is_space (hd s)" and "\<not> is_space (last s)"
proof -
  let ?d = "dropWhile is_space s"
  have eq: "s = rev (dropWhile is_space (rev ?d))"
    using assms(1) by (simp add: strip_def)
  then have "length s \<le> length ?d"
    by (metis length_dropWhile_le length_rev)
  then have d: "?d = s"
    by (rule dropWhile_same_length)
  then show "\<not> is_space (hd s)"
    using assms(2) by (metis hd_dropWhile)
  have "dropWhile is_space (rev s) = rev s"
    using eq unfolding d by (metis rev_rev_ident)
  then show "\<not> is_space (last s)"
    using assms(2) by (metis hd_dropWhile hd_rev rev_is_Nil_conv)
qed

section \<open>Bounded unsigned integers\<close>

definition UINT32_SIZE :: int where "UINT32_SIZE = 4294967296"
definition UINT32_MAX :: int where "UINT32_MAX = 4294967295"
definition UINT64_MAX :: int where "UINT64_MAX = 18446744073709551615"
definition UINT128_MAX :: int where "UINT128_MAX = 340282366920938463463374607431768211455"

lemma uint_bounds:
  "UINT32_SIZE = 2 ^ 32" "UINT32_MAX = 2 ^ 32 - 1" "UINT64_MAX = 2 ^ 64 - 1"
  "UINT128_MAX = 2 ^ 128 - 1"
  by (simp_all add: UINT32_SIZE_def UINT32_MAX_def UINT64_MAX_def UINT128_MAX_def)

text \<open>Floor division by a positive divisor brackets the dividend.\<close>

lemma floor_div_le: "0 < (d :: int) \<Longrightarrow> n div d * d \<le> n"
  using pos_mod_sign[of d n] by (simp add: minus_mod_eq_div_mult [symmetric])

lemma floor_div_gt: "0 < (d :: int) \<Longrightarrow> n < (n div d + 1) * d"
  using pos_mod_bound[of d n] by (simp add: distrib_right minus_mod_eq_div_mult [symmetric])

text \<open>Ceiling division of non-negative integers as \<^verbatim>\<open>(n + d - 1) // d\<close>.\<close>

definition ceil_div :: "int \<Rightarrow> int \<Rightarrow> int" where
  "ceil_div n d = (n + d - 1) div d"

lemma ceil_div_lower: "0 < d \<Longrightarrow> n \<le> ceil_div n d * d"
proof -
  assume d: "0 < d"
  have "n + d - 1 = ceil_div n d * d + (n + d - 1) mod d"
    by (simp add: ceil_div_def)
  moreover have "(n + d - 1) mod d \<le> d - 1"
    using pos_mod_bound[OF d, of "n + d - 1"] by simp
  ultimately show ?thesis by linarith
qed

lemma ceil_div_upper: "0 < d \<Longrightarrow> ceil_div n d * d < n + d"
proof -
  assume d: "0 < d"
  have "n + d - 1 = ceil_div n d * d + (n + d - 1) mod d"
    by (simp add: ceil_div_def)
  moreover have "0 \<le> (n + d - 1) mod d"
    using d by (rule pos_mod_sign)
  ultimately show ?thesis by linarith
qed

lemma ceil_div_nonneg: "0 < d \<Longrightarrow> 0 \<le> n \<Longrightarrow> 0 \<le> ceil_div n d"
  by (simp add: ceil_div_def pos_imp_zdiv_nonneg_iff)

section \<open>Adjacent pairs and binary search\<close>

text \<open>\<^verbatim>\<open>any(p(left, right) for left, right in itertools.pairwise(xs))\<close>\<close>

fun any_pairwise :: "('a \<Rightarrow> 'a \<Rightarrow> bool) \<Rightarrow> 'a list \<Rightarrow> bool" where
  "any_pairwise p (x # y # zs) = (p x y \<or> any_pairwise p (y # zs))"
| "any_pairwise p _ = False"

lemma any_pairwise_sorted:
  fixes xs :: "'a :: linorder list"
  shows "\<not> any_pairwise (\<lambda>l r. r < l) xs \<longleftrightarrow> sorted xs"
  by (induction "\<lambda>l r. r < (l :: 'a)" xs rule: any_pairwise.induct)
    (auto simp: not_less intro: order_trans)

lemma any_pairwise_strict:
  fixes xs :: "'a :: linorder list"
  shows "\<not> any_pairwise (\<lambda>l r. r \<le> l) xs \<longleftrightarrow> sorted_wrt (<) xs"
  by (induction "\<lambda>l r. r \<le> (l :: 'a)" xs rule: any_pairwise.induct)
    (auto simp: not_le intro: less_trans)

text \<open>The library's \<^verbatim>\<open>bisect_left\<close> and \<^verbatim>\<open>bisect_right\<close> loops.\<close>

function bisect_left_loop :: "'a :: linorder list \<Rightarrow> 'a \<Rightarrow> nat \<Rightarrow> nat \<Rightarrow> nat" where
  "bisect_left_loop a x lo hi =
     (if lo < hi then
        (let mid = (lo + hi) div 2 in
         if a ! mid < x then bisect_left_loop a x (mid + 1) hi else bisect_left_loop a x lo mid)
      else lo)"
  by pat_completeness auto
termination
  by (relation "measure (\<lambda>(a, x, lo, hi). hi - lo)") auto

function bisect_right_loop :: "'a :: linorder list \<Rightarrow> 'a \<Rightarrow> nat \<Rightarrow> nat \<Rightarrow> nat" where
  "bisect_right_loop a x lo hi =
     (if lo < hi then
        (let mid = (lo + hi) div 2 in
         if x < a ! mid then bisect_right_loop a x lo mid else bisect_right_loop a x (mid + 1) hi)
      else lo)"
  by pat_completeness auto
termination
  by (relation "measure (\<lambda>(a, x, lo, hi). hi - lo)") auto

declare bisect_left_loop.simps [simp del] bisect_right_loop.simps [simp del]

definition bisect_left :: "'a :: linorder list \<Rightarrow> 'a \<Rightarrow> nat \<Rightarrow> nat" where
  "bisect_left a x lo = bisect_left_loop a x lo (length a)"

definition bisect_right :: "'a :: linorder list \<Rightarrow> 'a \<Rightarrow> nat" where
  "bisect_right a x = bisect_right_loop a x 0 (length a)"

lemma bisect_left_loop_cases:
  "\<not> lo < hi \<Longrightarrow> bisect_left_loop a x lo hi = lo"
  "lo < hi \<Longrightarrow> a ! ((lo + hi) div 2) < x \<Longrightarrow>
     bisect_left_loop a x lo hi = bisect_left_loop a x ((lo + hi) div 2 + 1) hi"
  "lo < hi \<Longrightarrow> \<not> a ! ((lo + hi) div 2) < x \<Longrightarrow>
     bisect_left_loop a x lo hi = bisect_left_loop a x lo ((lo + hi) div 2)"
  by (subst bisect_left_loop.simps, simp add: Let_def)+

lemma bisect_right_loop_cases:
  "\<not> lo < hi \<Longrightarrow> bisect_right_loop a x lo hi = lo"
  "lo < hi \<Longrightarrow> x < a ! ((lo + hi) div 2) \<Longrightarrow>
     bisect_right_loop a x lo hi = bisect_right_loop a x lo ((lo + hi) div 2)"
  "lo < hi \<Longrightarrow> \<not> x < a ! ((lo + hi) div 2) \<Longrightarrow>
     bisect_right_loop a x lo hi = bisect_right_loop a x ((lo + hi) div 2 + 1) hi"
  by (subst bisect_right_loop.simps, simp add: Let_def)+

text \<open>
  The value found splits the scanned part of a sorted list: everything before it fails the
  search predicate and everything after satisfies it.
\<close>

definition splits_at :: "('a \<Rightarrow> bool) \<Rightarrow> 'a list \<Rightarrow> nat \<Rightarrow> nat \<Rightarrow> bool" where
  "splits_at p a lo k \<longleftrightarrow> lo \<le> k \<and> k \<le> length a
     \<and> (\<forall>i. lo \<le> i \<longrightarrow> i < k \<longrightarrow> \<not> p (a ! i)) \<and> (\<forall>i. k \<le> i \<longrightarrow> i < length a \<longrightarrow> p (a ! i))"

lemma splits_at_unique: "splits_at p a lo k \<Longrightarrow> splits_at p a lo k' \<Longrightarrow> k = k'"
  unfolding splits_at_def by (metis leI le_less_trans less_le_trans nat_less_le)

lemma bisect_left_loop_spec:
  assumes "sorted a" and "l0 \<le> lo" and "lo \<le> hi" and "hi \<le> length a"
    and "\<And>i. l0 \<le> i \<Longrightarrow> i < lo \<Longrightarrow> a ! i < x"
    and "\<And>i. hi \<le> i \<Longrightarrow> i < length a \<Longrightarrow> x \<le> a ! i"
  shows "splits_at (\<lambda>y. x \<le> y) a l0 (bisect_left_loop a x lo hi)"
  using assms
proof (induction a x lo hi rule: bisect_left_loop.induct)
  case (1 a x lo hi)
  let ?mid = "(lo + hi) div 2"
  consider (stop) "\<not> lo < hi" | (right) "lo < hi" "a ! ?mid < x" | (left) "lo < hi" "\<not> a ! ?mid < x"
    by blast
  then show ?case
  proof cases
    case stop
    then show ?thesis
      using 1(4-8) by (auto simp: bisect_left_loop_cases splits_at_def not_le)
  next
    case right
    have "i < ?mid + 1 \<Longrightarrow> a ! i < x" for i
    proof -
      assume "i < ?mid + 1"
      moreover have "?mid < length a" using right(1) 1(6) by linarith
      ultimately have "a ! i \<le> a ! ?mid" using 1(3) by (intro sorted_nth_mono) simp_all
      then show "a ! i < x" using right(2) by (rule le_less_trans)
    qed
    then show ?thesis
      using 1(1)[OF right(1) refl right(2)] 1(3-8) right
      by (auto simp: bisect_left_loop_cases)
  next
    case left
    have "?mid \<le> i \<Longrightarrow> i < length a \<Longrightarrow> x \<le> a ! i" for i
      using left 1(3) by (meson not_less order_trans sorted_nth_mono)
    then show ?thesis
      using 1(2)[OF left(1) refl left(2)] 1(3-8) left
      by (auto simp: bisect_left_loop_cases)
  qed
qed

lemma bisect_right_loop_spec:
  assumes "sorted a" and "lo \<le> hi" and "hi \<le> length a"
    and "\<And>i. i < lo \<Longrightarrow> a ! i \<le> x"
    and "\<And>i. hi \<le> i \<Longrightarrow> i < length a \<Longrightarrow> x < a ! i"
  shows "splits_at (\<lambda>y. x < y) a 0 (bisect_right_loop a x lo hi)"
  using assms
proof (induction a x lo hi rule: bisect_right_loop.induct)
  case (1 a x lo hi)
  let ?mid = "(lo + hi) div 2"
  consider (stop) "\<not> lo < hi" | (left) "lo < hi" "x < a ! ?mid" | (right) "lo < hi" "\<not> x < a ! ?mid"
    by blast
  then show ?case
  proof cases
    case stop
    then show ?thesis
      using 1(4-7) by (auto simp: bisect_right_loop_cases splits_at_def not_less)
  next
    case left
    have "?mid \<le> i \<Longrightarrow> i < length a \<Longrightarrow> x < a ! i" for i
      using left 1(3) by (meson less_le_trans sorted_nth_mono)
    then show ?thesis
      using 1(1)[OF left(1) refl left(2)] 1(3-7) left
      by (auto simp: bisect_right_loop_cases)
  next
    case right
    have "i < ?mid + 1 \<Longrightarrow> a ! i \<le> x" for i
    proof -
      assume "i < ?mid + 1"
      moreover have "?mid < length a" using right(1) 1(5) by linarith
      ultimately have "a ! i \<le> a ! ?mid" using 1(3) by (intro sorted_nth_mono) simp_all
      then show "a ! i \<le> x" using right(2) by (simp add: not_less order_trans)
    qed
    then show ?thesis
      using 1(2)[OF right(1) refl right(2)] 1(3-7) right
      by (auto simp: bisect_right_loop_cases)
  qed
qed

lemma bisect_left_spec:
  "sorted a \<Longrightarrow> lo \<le> length a \<Longrightarrow> splits_at (\<lambda>y. x \<le> y) a lo (bisect_left a x lo)"
  unfolding bisect_left_def by (rule bisect_left_loop_spec) auto

lemma bisect_right_spec: "sorted a \<Longrightarrow> splits_at (\<lambda>y. x < y) a 0 (bisect_right a x)"
  unfolding bisect_right_def by (rule bisect_right_loop_spec) auto

lemma splits_at_le: "splits_at p a lo k \<Longrightarrow> k \<le> length a"
  by (simp add: splits_at_def)

lemma bisect_left_found:
  assumes "sorted_wrt (<) a" and "i < length a"
  shows "bisect_left a (a ! i) 0 = i"
proof (rule splits_at_unique)
  show "splits_at (\<lambda>y. a ! i \<le> y) a 0 (bisect_left a (a ! i) 0)"
    using assms by (intro bisect_left_spec) (auto simp: strict_sorted_imp_sorted)
  show "splits_at (\<lambda>y. a ! i \<le> y) a 0 i"
    using assms unfolding splits_at_def
    by (auto simp: not_le sorted_wrt_nth_less)
       (metis le_less less_imp_le sorted_wrt_nth_less)
qed

end
