(* ===== verification/Identifiers.thy ===== *)
theory Identifiers
  imports Prelude
begin

text \<open>
  Strong identifiers (\<^verbatim>\<open>domain/identifiers.py\<close>): the validation each identifier class runs in
  its \<^verbatim>\<open>__post_init__\<close>, as a function from the proposed string to the accepted string or the
  exception. An accepted identifier of any class is the string itself.
\<close>

type_synonym digest = string
type_synonym asset_id = string
type_synonym account_id = string
type_synonym pool_id = string
type_synonym venue_id = string
type_synonym order_id = string

definition Identifier :: "string \<Rightarrow> string res" where
  "Identifier v =
     (if v = [] \<or> v \<noteq> strip v then
        Inl (ValueError ''identifier must be non-empty and have no outer whitespace'')
      else if 256 < length v then
        Inl (ValueError ''identifier is longer than 256 characters'')
      else if list_ex (\<lambda>c. char_code c < 32) v then
        Inl (ValueError ''identifier must not contain control characters'')
      else Inr v)"

definition is_lower_hex :: "char \<Rightarrow> bool" where
  "is_lower_hex c = (let n = char_code c in (48 \<le> n \<and> n \<le> 57) \<or> (97 \<le> n \<and> n \<le> 102))"

text \<open>\<^verbatim>\<open>_SHA256_RE\<close>: an optional \<^verbatim>\<open>sha256:\<close> and exactly 64 lowercase hexadecimal digits.\<close>

definition sha256_prefix :: string where "sha256_prefix = ''sha256:''"

definition digest_hex :: "digest \<Rightarrow> string" where
  "digest_hex v = remove_prefix sha256_prefix v"

definition sha256_re :: "string \<Rightarrow> bool" where
  "sha256_re v = (let body = digest_hex v in length body = 64 \<and> list_all is_lower_hex body)"

definition ContentDigest :: "string \<Rightarrow> digest res" where
  "ContentDigest v = bindE (Identifier v) (\<lambda>v.
     if \<not> sha256_re v then Inl (ValueError ''content digest must be a lowercase SHA-256 digest'')
     else Inr v)"

definition is_lower :: "char \<Rightarrow> bool" where
  "is_lower c = (97 \<le> char_code c \<and> char_code c \<le> 122)"

definition is_digit :: "char \<Rightarrow> bool" where
  "is_digit c = (48 \<le> char_code c \<and> char_code c \<le> 57)"

definition is_kebab :: "char \<Rightarrow> bool" where
  "is_kebab c = (is_lower c \<or> is_digit c \<or> c = CHR ''-'')"

text \<open>
  \<^verbatim>\<open>_POSITION_SCHEMA_RE\<close>, \<^verbatim>\<open>[a-z][a-z0-9-]*-v[1-9][0-9]*\<close>: the version number is the maximal
  digit suffix, so the match reads the string from its end.
\<close>

definition position_schema_re :: "string \<Rightarrow> bool" where
  "position_schema_re v =
     (let digits = takeWhile is_digit (rev v); rest = dropWhile is_digit (rev v) in
      digits \<noteq> [] \<and> last digits \<noteq> CHR ''0'' \<and> take 2 rest = ''v-'' \<and>
      (case rev (drop 2 rest) of [] \<Rightarrow> False | c # cs \<Rightarrow> is_lower c \<and> list_all is_kebab cs))"

definition PositionSchemaId :: "string \<Rightarrow> string res" where
  "PositionSchemaId v = bindE (Identifier v) (\<lambda>v.
     if \<not> position_schema_re v then
       Inl (ValueError ''position schema ID must be versioned lowercase kebab-case'')
     else Inr v)"

definition ProtocolPayloadSchemaId :: "string \<Rightarrow> string res" where
  "ProtocolPayloadSchemaId v = bindE (Identifier v) (\<lambda>v.
     if \<not> position_schema_re v then
       Inl (ValueError ''protocol payload schema ID must be versioned lowercase kebab-case'')
     else Inr v)"

text \<open>\<^verbatim>\<open>_NETWORK_FAMILY_RE\<close>: \<^verbatim>\<open>[a-z][a-z0-9-]{0,31}\<close>.\<close>

definition network_family_re :: "string \<Rightarrow> bool" where
  "network_family_re v =
     (case v of [] \<Rightarrow> False | c # cs \<Rightarrow> is_lower c \<and> length cs \<le> 31 \<and> list_all is_kebab cs)"

definition mutable_network_aliases :: "string list" where
  "mutable_network_aliases = [''devnet'', ''mainnet'', ''mainnet-beta'', ''production'', ''testnet'']"

text \<open>
  \<^verbatim>\<open>str.casefold\<close> as far as equality with an ASCII alias without a double s can see it: the
  ASCII capitals.
\<close>

definition casefold :: "string \<Rightarrow> string" where
  "casefold s = map (\<lambda>c. if 65 \<le> char_code c \<and> char_code c \<le> 90
                         then char_of (char_code c + 32) else c) s"

section \<open>Base58 genesis references\<close>

definition base58_alphabet :: string where
  "base58_alphabet = ''123456789ABCDEFGHJKLMNPQRSTUVWXYZabcdefghijkmnopqrstuvwxyz''"

fun index_of :: "'a list \<Rightarrow> 'a \<Rightarrow> nat option" where
  "index_of [] x = None"
| "index_of (y # ys) x = (if x = y then Some 0 else map_option Suc (index_of ys x))"

definition solana_genesis_re :: "string \<Rightarrow> bool" where
  "solana_genesis_re v =
     (32 \<le> length v \<and> length v \<le> 44 \<and>
      list_all (\<lambda>c. let n = char_code c in
        (49 \<le> n \<and> n \<le> 57) \<or> (65 \<le> n \<and> n \<le> 72) \<or> (74 \<le> n \<and> n \<le> 78) \<or> (80 \<le> n \<and> n \<le> 90) \<or>
        (97 \<le> n \<and> n \<le> 107) \<or> (109 \<le> n \<and> n \<le> 122)) v)"

definition base58_decode :: "string \<Rightarrow> nat" where
  "base58_decode v =
     foldl (\<lambda>acc c. acc * 58 + (case index_of base58_alphabet c of None \<Rightarrow> 0 | Some d \<Rightarrow> d)) 0 v"

fun bit_length :: "nat \<Rightarrow> nat" where
  "bit_length n = (if n = 0 then 0 else Suc (bit_length (n div 2)))"

declare bit_length.simps [simp del]

definition leading_ones :: "string \<Rightarrow> nat" where
  "leading_ones v = length v - length (dropWhile (\<lambda>c. c = CHR ''1'') v)"

definition validate_solana_genesis_reference :: "string \<Rightarrow> unit res" where
  "validate_solana_genesis_reference v =
     (if \<not> solana_genesis_re v then
        Inl (ValueError ''Solana network reference must be a complete base58 genesis hash'')
      else
        (let decoded = base58_decode v; significant_bytes = (bit_length decoded + 7) div 8 in
         if leading_ones v + significant_bytes \<noteq> 32 then
           Inl (ValueError ''Solana network reference must encode exactly 32 genesis bytes'')
         else Inr ()))"

definition partition_colon :: "string \<Rightarrow> string \<times> bool \<times> string" where
  "partition_colon v =
     (let family = takeWhile (\<lambda>c. c \<noteq> CHR '':'') v; rest = dropWhile (\<lambda>c. c \<noteq> CHR '':'') v in
      (family, rest \<noteq> [], tl rest))"

definition NetworkId :: "string \<Rightarrow> string res" where
  "NetworkId v = bindE (Identifier v) (\<lambda>v.
     let (family, separator, chain_reference) = partition_colon v in
     if \<not> separator \<or> family = [] \<or> chain_reference = [] then
       Inl (ValueError ''network ID must use family:immutable-chain-reference'')
     else if \<not> network_family_re family then
       Inl (ValueError ''network family must be lowercase kebab-case'')
     else if casefold chain_reference \<in> set mutable_network_aliases then
       Inl (ValueError ''network ID must not use a mutable network alias'')
     else if list_ex is_space chain_reference then
       Inl (ValueError ''network chain reference must not contain whitespace'')
     else if list_ex (\<lambda>d. d \<in> set chain_reference)
          [CHR ''/'', CHR 92, CHR ''?'', CHR ''#'', CHR ''@''] then
       Inl (ValueError ''network chain reference must not contain endpoint or credentials'')
     else if family = ''solana'' then
       bindE (validate_solana_genesis_reference chain_reference) (\<lambda>_. Inr v)
     else Inr v)"

definition network_family :: "string \<Rightarrow> string" where
  "network_family v = fst (partition_colon v)"

definition network_chain_reference :: "string \<Rightarrow> string" where
  "network_chain_reference v = snd (snd (partition_colon v))"

section \<open>What the validators accept\<close>

lemma Identifier_Inr: "Identifier v = Inr w \<Longrightarrow> w = v \<and> v \<noteq> [] \<and> strip v = v \<and> length v \<le> 256"
  by (auto simp: Identifier_def split: if_splits)

lemma ContentDigest_Inr: "ContentDigest v = Inr w \<Longrightarrow> w = v \<and> sha256_re v"
  by (auto simp: ContentDigest_def dest: Identifier_Inr split: if_splits)

lemma bit_length_0 [simp]: "bit_length 0 = 0"
  by (simp add: bit_length.simps)

lemma bit_length_bound: "n < 2 ^ bit_length n"
proof (induction n rule: bit_length.induct)
  case (1 n)
  show ?case
  proof (cases "n = 0")
    case True
    then show ?thesis by simp
  next
    case False
    with 1 have "n div 2 < 2 ^ bit_length (n div 2)" by simp
    then have "n < 2 * 2 ^ bit_length (n div 2)" by linarith
    with False show ?thesis by (subst bit_length.simps) simp
  qed
qed

lemma bit_length_pos: "0 < n \<Longrightarrow> 2 ^ (bit_length n - 1) \<le> n"
proof (induction n rule: bit_length.induct)
  case (1 n)
  show ?case
  proof (cases "n div 2 = 0")
    case True
    with 1(2) show ?thesis by (subst bit_length.simps) simp
  next
    case False
    with 1 have "2 ^ (bit_length (n div 2) - 1) \<le> n div 2" by simp
    then have "2 * 2 ^ (bit_length (n div 2) - 1) \<le> n" by linarith
    moreover have "0 < bit_length (n div 2)"
      using False by (subst bit_length.simps) simp
    ultimately show ?thesis
      using 1(2) by (subst bit_length.simps) (simp flip: power_Suc)
  qed
qed

lemma index_of_Some: "index_of xs x = Some i \<Longrightarrow> i < length xs \<and> xs ! i = x"
  by (induction xs arbitrary: i) (auto split: if_splits)

lemma index_of_iff: "(\<exists>i. index_of xs x = Some i) \<longleftrightarrow> x \<in> set xs"
  by (induction xs) auto

end
