(* ===== verification/Chain.thy ===== *)
theory Chain
  imports Identifiers
begin

unbundle bit_operations_syntax

text \<open>
  Chain positions and their UInt64 boundary ordinals (\<^verbatim>\<open>domain/chain.py\<close>), half-open block and
  slot ranges (\<^verbatim>\<open>domain/time.py\<close>) and replay boundaries (\<^verbatim>\<open>engine/replay.py\<close>). The locale
  \<open>ordinal_codec\<close> states what the replay path relies on: an order-preserving code with a
  left inverse; \<open>half_open_split\<close> states what the two range classes share.
\<close>

section \<open>Boundary ordinals\<close>

definition BLOCK32_TRANSACTION32_POSITION_SCHEMA_ID :: string where
  "BLOCK32_TRANSACTION32_POSITION_SCHEMA_ID = ''block32-transaction32-v1''"

definition require_supported_schema :: "string \<Rightarrow> unit res" where
  "require_supported_schema schema =
     (if schema \<noteq> BLOCK32_TRANSACTION32_POSITION_SCHEMA_ID
      then Inl (UnsupportedPositionSchemaError (''unsupported position schema: '' @ schema))
      else Inr ())"

definition checked_transaction_index :: "int \<Rightarrow> int res" where
  "checked_transaction_index v =
     (if v < -1 then Inl (ValueError ''transaction_index must be -1 or non-negative'')
      else if UINT32_MAX \<le> v then
        Inl (OverflowError ''transaction_index exceeds block32-transaction32-v1 capacity'')
      else Inr v)"

definition checked_uint32 :: "int \<Rightarrow> string \<Rightarrow> int res" where
  "checked_uint32 v name =
     (if v < 0 then Inl (ValueError (name @ '' must be non-negative''))
      else if UINT32_MAX < v then Inl (OverflowError (name @ '' exceeds UInt32''))
      else Inr v)"

definition checked_uint64 :: "int \<Rightarrow> string \<Rightarrow> int res" where
  "checked_uint64 v name =
     (if v < 0 then Inl (ValueError (name @ '' must be non-negative''))
      else if UINT64_MAX < v then Inl (OverflowError (name @ '' exceeds UInt64''))
      else Inr v)"

definition boundary_ordinal :: "int \<Rightarrow> int \<Rightarrow> string \<Rightarrow> int res" where
  "boundary_ordinal block_ordinal transaction_index schema =
     bindE (require_supported_schema schema) (\<lambda>_.
     bindE (checked_uint32 block_ordinal ''block_ordinal'') (\<lambda>block.
     bindE (checked_transaction_index transaction_index) (\<lambda>transaction.
       let value = push_bit 32 block + transaction + 1 in
       if UINT64_MAX < value then Inl (OverflowError ''canonical boundary ordinal exceeds UInt64'')
       else Inr value)))"

definition boundary_coordinates :: "int \<Rightarrow> string \<Rightarrow> (int \<times> int) res" where
  "boundary_coordinates v schema =
     bindE (require_supported_schema schema) (\<lambda>_.
     bindE (checked_uint64 v ''boundary_ordinal'') (\<lambda>ordinal.
       Inr (drop_bit 32 ordinal, (ordinal AND UINT32_MAX) - 1)))"

lemma UINT32_MAX_mask: "UINT32_MAX = mask 32"
  by (simp add: UINT32_MAX_def mask_eq_exp_minus_1)

lemma boundary_ordinal_iff:
  "boundary_ordinal b t s = Inr v \<longleftrightarrow>
     s = BLOCK32_TRANSACTION32_POSITION_SCHEMA_ID \<and> 0 \<le> b \<and> b < 2 ^ 32 \<and> -1 \<le> t \<and> t < 2 ^ 32 - 1
     \<and> v = b * 2 ^ 32 + t + 1"
  by (auto simp: boundary_ordinal_def require_supported_schema_def checked_uint32_def
      checked_transaction_index_def uint_bounds push_bit_eq_mult Let_def)

lemma boundary_coordinates_iff:
  "boundary_coordinates v s = Inr (b, t) \<longleftrightarrow>
     s = BLOCK32_TRANSACTION32_POSITION_SCHEMA_ID \<and> 0 \<le> v \<and> v < 2 ^ 64
     \<and> b = v div 2 ^ 32 \<and> t = v mod 2 ^ 32 - 1"
  unfolding boundary_coordinates_def require_supported_schema_def checked_uint64_def
    UINT32_MAX_mask take_bit_eq_mask [symmetric]
  by (auto simp: uint_bounds drop_bit_eq_div take_bit_eq_mod)

text \<open>
  The contract of an ordinal code over positions: encoding succeeds exactly on the valid
  positions, decoding inverts it, and it preserves the order.
\<close>

locale ordinal_codec =
  fixes enc :: "'p :: linorder \<Rightarrow> exn + int"
    and dec :: "int \<Rightarrow> exn + 'p"
  assumes dec_enc: "enc p = Inr v \<Longrightarrow> dec v = Inr p"
    and enc_dec: "dec v = Inr p \<Longrightarrow> enc p = Inr v"
    and enc_mono: "enc p = Inr v \<Longrightarrow> enc q = Inr w \<Longrightarrow> p < q \<Longrightarrow> v < w"
begin

lemma enc_inj: "enc p = Inr v \<Longrightarrow> enc q = Inr v \<Longrightarrow> p = q"
  by (metis dec_enc Inr_inject)

lemma enc_less_iff: "enc p = Inr v \<Longrightarrow> enc q = Inr w \<Longrightarrow> v < w \<longleftrightarrow> p < q"
  by (metis enc_mono Inr_inject linorder_neqE less_asym less_irrefl)

lemma enc_le_iff: "enc p = Inr v \<Longrightarrow> enc q = Inr w \<Longrightarrow> v \<le> w \<longleftrightarrow> p \<le> q"
  by (metis enc_less_iff linorder_not_le)

lemma enc_sorted:
  "list_all2 (\<lambda>p v. enc p = Inr v) ps vs \<Longrightarrow> sorted_wrt (<) ps \<longleftrightarrow> sorted_wrt (<) vs"
proof (induction ps vs rule: list_all2_induct)
  case (Cons p ps v vs)
  have fwd: "\<exists>w \<in> set vs. enc q = Inr w" if "q \<in> set ps" for q
    using Cons(2) that by (fastforce simp: list_all2_conv_all_nth in_set_conv_nth)
  have bwd: "\<exists>q \<in> set ps. enc q = Inr w" if "w \<in> set vs" for w
    using Cons(2) that by (fastforce simp: list_all2_conv_all_nth in_set_conv_nth)
  have "(\<forall>q \<in> set ps. p < q) \<longleftrightarrow> (\<forall>w \<in> set vs. v < w)"
    using fwd bwd enc_less_iff[OF Cons(1)] by blast
  with Cons(3) show ?case by simp
qed simp

end

definition block32_enc :: "int \<times> int \<Rightarrow> int res" where
  "block32_enc p = boundary_ordinal (fst p) (snd p) BLOCK32_TRANSACTION32_POSITION_SCHEMA_ID"

definition block32_dec :: "int \<Rightarrow> (int \<times> int) res" where
  "block32_dec v = boundary_coordinates v BLOCK32_TRANSACTION32_POSITION_SCHEMA_ID"

lemma block32_arith:
  fixes b t :: int
  assumes "-1 \<le> t" "t < 4294967295"
  shows "(b * 4294967296 + t + 1) div 4294967296 = b"
    and "(b * 4294967296 + t + 1) mod 4294967296 = t + 1"
  using assms
  by (intro int_div_pos_eq[where r = "t + 1"] int_mod_pos_eq[where q = b]; simp)+

lemma u64_words:
  fixes v :: int
  assumes "0 \<le> v" "v < 18446744073709551616"
  shows "0 \<le> v div 4294967296" "v div 4294967296 < 4294967296"
    "0 \<le> v mod 4294967296" "v mod 4294967296 < 4294967296"
proof -
  have "v div 4294967296 * 4294967296 \<le> v"
    using pos_mod_sign[of 4294967296 v] by (simp add: minus_mod_eq_div_mult [symmetric])
  then show "v div 4294967296 < 4294967296" using assms(2) by linarith
qed (use assms in \<open>simp_all add: pos_imp_zdiv_nonneg_iff\<close>)

interpretation block32: ordinal_codec block32_enc block32_dec
proof unfold_locales
  fix p :: "int \<times> int" and v
  assume "block32_enc p = Inr v"
  then obtain b t where p: "p = (b, t)" and v: "v = b * 4294967296 + t + 1"
    and bounds: "0 \<le> b" "b < 4294967296" "-1 \<le> t" "t < 4294967295"
    unfolding block32_enc_def by (cases p) (simp add: boundary_ordinal_iff)
  have "v div 4294967296 = b" "v mod 4294967296 = t + 1"
    unfolding v using bounds(3,4) by (rule block32_arith)+
  then show "block32_dec v = Inr p"
    using bounds v unfolding block32_dec_def p by (simp add: boundary_coordinates_iff)
next
  fix p :: "int \<times> int" and v
  assume "block32_dec v = Inr p"
  then have "fst p = v div 2 ^ 32" "snd p = v mod 2 ^ 32 - 1" "0 \<le> v" "v < 2 ^ 64"
    unfolding block32_dec_def by (cases p; simp add: boundary_coordinates_iff)+
  then show "block32_enc p = Inr v"
    using u64_words[of v] unfolding block32_enc_def boundary_ordinal_iff by simp
next
  fix p q :: "int \<times> int" and v w
  assume "block32_enc p = Inr v" "block32_enc q = Inr w" "p < q"
  then show "v < w"
    unfolding block32_enc_def by (cases p; cases q) (auto simp: boundary_ordinal_iff less_prod_def)
qed

section \<open>Chain positions\<close>

record chain_position =
  cp_network_id :: string
  cp_position_schema_id :: string
  cp_block_ordinal :: int
  cp_transaction_index :: int
  cp_event_index :: "int option"

definition ChainPosition ::
  "string \<Rightarrow> string \<Rightarrow> int \<Rightarrow> int \<Rightarrow> int option \<Rightarrow> chain_position res" where
  "ChainPosition network schema block transaction event =
     bindE (require_supported_schema schema) (\<lambda>_.
     bindE (boundary_ordinal block transaction schema) (\<lambda>_.
     bindE (case event of None \<Rightarrow> Inr 0 | Some e \<Rightarrow> checked_uint32 e ''event_index'') (\<lambda>_.
       Inr \<lparr>cp_network_id = network, cp_position_schema_id = schema, cp_block_ordinal = block,
            cp_transaction_index = transaction, cp_event_index = event\<rparr>)))"

definition from_boundary_ordinal ::
  "string \<Rightarrow> string \<Rightarrow> int \<Rightarrow> int option \<Rightarrow> chain_position res" where
  "from_boundary_ordinal network schema v event =
     bindE (boundary_coordinates v schema) (\<lambda>(block, transaction).
       ChainPosition network schema block transaction event)"

definition position_boundary_ordinal :: "chain_position \<Rightarrow> int res" where
  "position_boundary_ordinal p =
     boundary_ordinal (cp_block_ordinal p) (cp_transaction_index p) (cp_position_schema_id p)"

definition chain_identity :: "chain_position \<Rightarrow> string \<times> string" where
  "chain_identity p = (cp_network_id p, cp_position_schema_id p)"

definition require_same_chain :: "chain_position \<Rightarrow> chain_position \<Rightarrow> unit res" where
  "require_same_chain p q =
     (if chain_identity p \<noteq> chain_identity q then
        Inl (ChainIdentityMismatchError
          ''chain positions use different network or position schema identities'')
      else Inr ())"

definition valid_position :: "chain_position \<Rightarrow> bool" where
  "valid_position p \<longleftrightarrow>
     ChainPosition (cp_network_id p) (cp_position_schema_id p) (cp_block_ordinal p)
       (cp_transaction_index p) (cp_event_index p) = Inr p"

text \<open>
  The boundary ordinal of a constructed position: the property of the source is total on
  instances, and so is this reading of it on valid positions.
\<close>

definition ordinal_of :: "chain_position \<Rightarrow> int" where
  "ordinal_of p = (case position_boundary_ordinal p of Inr v \<Rightarrow> v | Inl _ \<Rightarrow> 0)"

lemma ChainPosition_iff:
  "ChainPosition n s b t e = Inr p \<longleftrightarrow>
     s = BLOCK32_TRANSACTION32_POSITION_SCHEMA_ID \<and> 0 \<le> b \<and> b < 2 ^ 32 \<and> -1 \<le> t \<and> t < 2 ^ 32 - 1
     \<and> (\<forall>i. e = Some i \<longrightarrow> 0 \<le> i \<and> i < 2 ^ 32)
     \<and> p = \<lparr>cp_network_id = n, cp_position_schema_id = s, cp_block_ordinal = b,
            cp_transaction_index = t, cp_event_index = e\<rparr>"
  by (cases e) (auto simp: ChainPosition_def require_supported_schema_def boundary_ordinal_iff
      checked_uint32_def uint_bounds)

lemma valid_position_iff:
  "valid_position p \<longleftrightarrow>
     cp_position_schema_id p = BLOCK32_TRANSACTION32_POSITION_SCHEMA_ID
     \<and> 0 \<le> cp_block_ordinal p \<and> cp_block_ordinal p < 2 ^ 32
     \<and> -1 \<le> cp_transaction_index p \<and> cp_transaction_index p < 2 ^ 32 - 1
     \<and> (\<forall>i. cp_event_index p = Some i \<longrightarrow> 0 \<le> i \<and> i < 2 ^ 32)"
  by (auto simp: valid_position_def ChainPosition_iff)

lemma position_boundary_ordinal_valid:
  "valid_position p \<Longrightarrow>
     position_boundary_ordinal p = Inr (cp_block_ordinal p * 2 ^ 32 + cp_transaction_index p + 1)"
  by (simp add: position_boundary_ordinal_def boundary_ordinal_iff valid_position_iff)

lemma valid_position_enc:
  "valid_position p \<Longrightarrow>
     block32_enc (cp_block_ordinal p, cp_transaction_index p) = Inr (ordinal_of p)"
  using position_boundary_ordinal_valid[of p]
  by (simp add: ordinal_of_def block32_enc_def valid_position_iff position_boundary_ordinal_def)

lemma ordinal_of_eq:
  "valid_position p \<Longrightarrow>
     ordinal_of p = cp_block_ordinal p * 2 ^ 32 + cp_transaction_index p + 1"
  using valid_position_enc[of p] by (simp add: block32_enc_def boundary_ordinal_iff)

lemma ordinal_of_range: "valid_position p \<Longrightarrow> 0 \<le> ordinal_of p \<and> ordinal_of p \<le> UINT64_MAX"
  using ordinal_of_eq[of p] by (auto simp: valid_position_iff UINT64_MAX_def)

lemma ordinal_of_less_iff:
  assumes "valid_position p" "valid_position q"
  shows "ordinal_of p < ordinal_of q \<longleftrightarrow>
    (cp_block_ordinal p, cp_transaction_index p) < (cp_block_ordinal q, cp_transaction_index q)"
  by (rule block32.enc_less_iff[OF valid_position_enc valid_position_enc]) (rule assms)+

section \<open>Half-open ranges and their split\<close>

text \<open>
  The \<^verbatim>\<open>while start < stop\<close> loop of \<^verbatim>\<open>BlockRange.split\<close> and \<^verbatim>\<open>SlotRange.split\<close>: each round
  constructs one range (whose constructor validates) and restarts at its end.
\<close>

function split_loop :: "(int \<Rightarrow> int \<Rightarrow> 'r res) \<Rightarrow> int \<Rightarrow> int \<Rightarrow> int \<Rightarrow> 'r list res" where
  "split_loop mk max_span start stop =
     (if start < stop \<and> 0 < max_span then
        (let end' = min (start + max_span) stop in
         bindE (mk start end') (\<lambda>r. bindE (split_loop mk max_span end' stop) (\<lambda>rs. Inr (r # rs))))
      else Inr [])"
  by pat_completeness auto
termination
  by (relation "measure (\<lambda>(mk, n, start, stop). nat (stop - start))") auto

declare split_loop.simps [simp del]

text \<open>A list of ranges tiles \<open>[a, b)\<close>: each is non-empty and starts where the one before ends.\<close>

fun tiles :: "('r \<Rightarrow> int) \<Rightarrow> ('r \<Rightarrow> int) \<Rightarrow> 'r list \<Rightarrow> int \<Rightarrow> int \<Rightarrow> bool" where
  "tiles lo hi [] a b = (a = b)"
| "tiles lo hi (r # rs) a b = (lo r = a \<and> a < hi r \<and> tiles lo hi rs (hi r) b)"

lemma tiles_le: "tiles lo hi rs a b \<Longrightarrow> a \<le> b"
  by (induction rs arbitrary: a) fastforce+

lemma tiles_bounds: "tiles lo hi rs a b \<Longrightarrow> r \<in> set rs \<Longrightarrow> a \<le> lo r \<and> lo r < hi r \<and> hi r \<le> b"
proof (induction rs arbitrary: a)
  case (Cons q rs)
  then have "lo q = a" "a < hi q" "tiles lo hi rs (hi q) b" by auto
  with Cons tiles_le[of lo hi rs "hi q" b] show ?case by fastforce
qed simp

text \<open>Every point of the range lies in exactly one tile: no gap and no overlap.\<close>

lemma tiles_unique_index:
  assumes "tiles lo hi rs a b" and "a \<le> x" and "x < b"
  shows "\<exists>!i. i < length rs \<and> lo (rs ! i) \<le> x \<and> x < hi (rs ! i)"
  using assms
proof (induction rs arbitrary: a)
  case (Cons r rs)
  then have r: "lo r = a" "a < hi r" and rest: "tiles lo hi rs (hi r) b" by auto
  show ?case
  proof (cases "x < hi r")
    case True
    have out: "\<not> lo q \<le> x" if "q \<in> set rs" for q
      using tiles_bounds[OF rest that] True by linarith
    show ?thesis
    proof (rule ex1I[of _ 0])
      show "0 < length (r # rs) \<and> lo ((r # rs) ! 0) \<le> x \<and> x < hi ((r # rs) ! 0)"
        using True r Cons.prems(2) by simp
      show "j = 0" if "j < length (r # rs) \<and> lo ((r # rs) ! j) \<le> x \<and> x < hi ((r # rs) ! j)" for j
        using that out nth_mem[of "j - 1" rs] by (cases j) auto
    qed
  next
    case False
    with Cons.IH[OF rest] Cons.prems(3)
    have ex1: "\<exists>!i. i < length rs \<and> lo (rs ! i) \<le> x \<and> x < hi (rs ! i)" by simp
    then obtain i where i: "i < length rs \<and> lo (rs ! i) \<le> x \<and> x < hi (rs ! i)" by blast
    show ?thesis
    proof (rule ex1I[of _ "Suc i"])
      show "Suc i < length (r # rs) \<and> lo ((r # rs) ! Suc i) \<le> x \<and> x < hi ((r # rs) ! Suc i)"
        using i by simp
      show "j = Suc i"
        if j: "j < length (r # rs) \<and> lo ((r # rs) ! j) \<le> x \<and> x < hi ((r # rs) ! j)" for j
      proof (cases j)
        case 0
        with j False show ?thesis by simp
      next
        case (Suc k)
        with j have "k < length rs \<and> lo (rs ! k) \<le> x \<and> x < hi (rs ! k)" by simp
        with ex1 i Suc show ?thesis by blast
      qed
    qed
  qed
qed simp

locale half_open_split =
  fixes mk :: "int \<Rightarrow> int \<Rightarrow> exn + 'r" and lo hi :: "'r \<Rightarrow> int" and cap :: "int option"
  assumes mk_ok: "0 \<le> a \<Longrightarrow> a < b \<Longrightarrow> (\<forall>c. cap = Some c \<longrightarrow> b \<le> c) \<Longrightarrow>
      \<exists>r. mk a b = Inr r \<and> lo r = a \<and> hi r = b"
begin

lemma split_loop_ok:
  assumes "0 \<le> start" "start \<le> stop" "\<forall>c. cap = Some c \<longrightarrow> stop \<le> c" "0 < n"
  shows "\<exists>rs. split_loop mk n start stop = Inr rs \<and> tiles lo hi rs start stop
    \<and> (\<forall>r \<in> set rs. hi r - lo r \<le> n)"
  using assms(1,2)
proof (induction "nat (stop - start)" arbitrary: start rule: less_induct)
  case less
  show ?case
  proof (cases "start < stop")
    case True
    let ?cut = "min (start + n) stop"
    have "\<exists>r. mk start ?cut = Inr r \<and> lo r = start \<and> hi r = ?cut"
      by (rule mk_ok) (use True less.prems assms(3,4) in auto)
    then obtain r where r: "mk start ?cut = Inr r" "lo r = start" "hi r = ?cut" by blast
    have "\<exists>rs. split_loop mk n ?cut stop = Inr rs \<and> tiles lo hi rs ?cut stop
      \<and> (\<forall>r \<in> set rs. hi r - lo r \<le> n)"
      by (rule less.hyps) (use True less.prems assms(4) in auto)
    then obtain rs where rs: "split_loop mk n ?cut stop = Inr rs" "tiles lo hi rs ?cut stop"
      "\<forall>r \<in> set rs. hi r - lo r \<le> n" by blast
    have "split_loop mk n start stop = Inr (r # rs)"
      by (subst split_loop.simps) (simp add: True assms(4) r(1) rs(1) Let_def)
    moreover have "tiles lo hi (r # rs) start stop"
      using r rs(2) True assms(4) by simp
    moreover have "\<forall>q \<in> set (r # rs). hi q - lo q \<le> n"
      using r rs(3) by auto
    ultimately show ?thesis by blast
  next
    case False
    with less.prems show ?thesis by (subst split_loop.simps) auto
  qed
qed

end

record block_range =
  br_network_id :: string
  br_position_schema_id :: string
  br_from :: int
  br_to :: int

definition BlockRange :: "string \<Rightarrow> string \<Rightarrow> int \<Rightarrow> int \<Rightarrow> block_range res" where
  "BlockRange network schema from_block to_block =
     (if schema \<noteq> BLOCK32_TRANSACTION32_POSITION_SCHEMA_ID then
        Inl (ValueError ''BlockRange uses an unsupported position schema'')
      else if from_block < 0 then Inl (ValueError ''from_block_ordinal must be non-negative'')
      else if to_block \<le> from_block then Inl (ValueError ''block range must be non-empty'')
      else if UINT32_SIZE < to_block then
        Inl (OverflowError ''block range exceeds block32-transaction32-v1 capacity'')
      else Inr \<lparr>br_network_id = network, br_position_schema_id = schema,
                br_from = from_block, br_to = to_block\<rparr>)"

definition block_range_span :: "block_range \<Rightarrow> int" where
  "block_range_span r = br_to r - br_from r"

definition contains_block :: "block_range \<Rightarrow> int \<Rightarrow> bool" where
  "contains_block r b = (br_from r \<le> b \<and> b < br_to r)"

definition contains_position :: "block_range \<Rightarrow> chain_position \<Rightarrow> bool res" where
  "contains_position r p =
     (if cp_network_id p \<noteq> br_network_id r \<or> cp_position_schema_id p \<noteq> br_position_schema_id r then
        Inl (ChainIdentityMismatchError
          ''position does not belong to the block range chain identity'')
      else Inr (contains_block r (cp_block_ordinal p)))"

definition block_range_with_warmup :: "block_range \<Rightarrow> int \<Rightarrow> block_range res" where
  "block_range_with_warmup r warmup =
     (if warmup < 0 then Inl (ValueError ''warmup_blocks must be non-negative'')
      else BlockRange (br_network_id r) (br_position_schema_id r)
             (max 0 (br_from r - warmup)) (br_to r))"

definition block_range_split :: "block_range \<Rightarrow> int \<Rightarrow> block_range list res" where
  "block_range_split r max_span =
     (if max_span \<le> 0 then Inl (ValueError ''max_span must be positive'')
      else split_loop (BlockRange (br_network_id r) (br_position_schema_id r)) max_span
             (br_from r) (br_to r))"

record slot_range =
  sr_from :: int
  sr_to :: int

definition SlotRange :: "int \<Rightarrow> int \<Rightarrow> slot_range res" where
  "SlotRange from_slot to_slot =
     (if from_slot < 0 then Inl (ValueError ''from_slot must be non-negative'')
      else if to_slot \<le> from_slot then Inl (ValueError ''slot range must be non-empty'')
      else Inr \<lparr>sr_from = from_slot, sr_to = to_slot\<rparr>)"

definition slot_range_contains :: "slot_range \<Rightarrow> int \<Rightarrow> bool" where
  "slot_range_contains r s = (sr_from r \<le> s \<and> s < sr_to r)"

definition slot_range_with_warmup :: "slot_range \<Rightarrow> int \<Rightarrow> slot_range res" where
  "slot_range_with_warmup r warmup =
     (if warmup < 0 then Inl (ValueError ''warmup_slots must be non-negative'')
      else SlotRange (max 0 (sr_from r - warmup)) (sr_to r))"

definition slot_range_split :: "slot_range \<Rightarrow> int \<Rightarrow> slot_range list res" where
  "slot_range_split r max_span =
     (if max_span \<le> 0 then Inl (ValueError ''max_span must be positive'')
      else split_loop SlotRange max_span (sr_from r) (sr_to r))"

definition valid_block_range :: "block_range \<Rightarrow> bool" where
  "valid_block_range r \<longleftrightarrow>
     BlockRange (br_network_id r) (br_position_schema_id r) (br_from r) (br_to r) = Inr r"

definition valid_slot_range :: "slot_range \<Rightarrow> bool" where
  "valid_slot_range r \<longleftrightarrow> SlotRange (sr_from r) (sr_to r) = Inr r"

interpretation block_ranges:
  half_open_split "BlockRange network BLOCK32_TRANSACTION32_POSITION_SCHEMA_ID" br_from br_to
    "Some UINT32_SIZE" for network
  by unfold_locales (auto simp: BlockRange_def)

interpretation slot_ranges: half_open_split SlotRange sr_from sr_to None
  by unfold_locales (auto simp: SlotRange_def)

lemma block_range_split_ok:
  assumes "valid_block_range r" "0 < n"
  shows "\<exists>rs. block_range_split r n = Inr rs \<and> tiles br_from br_to rs (br_from r) (br_to r)
    \<and> (\<forall>q \<in> set rs. block_range_span q \<le> n)"
proof -
  have r: "br_position_schema_id r = BLOCK32_TRANSACTION32_POSITION_SCHEMA_ID" "0 \<le> br_from r"
    "br_from r \<le> br_to r" "\<forall>c. Some UINT32_SIZE = Some c \<longrightarrow> br_to r \<le> c"
    using assms(1) by (auto simp: valid_block_range_def BlockRange_def split: if_splits)
  show ?thesis
    using block_ranges.split_loop_ok[OF r(2-4) assms(2), of "br_network_id r"] assms(2)
    by (simp add: block_range_split_def r(1) block_range_span_def)
qed

lemma slot_range_split_ok:
  assumes "valid_slot_range r" "0 < n"
  shows "\<exists>rs. slot_range_split r n = Inr rs \<and> tiles sr_from sr_to rs (sr_from r) (sr_to r)
    \<and> (\<forall>q \<in> set rs. sr_to q - sr_from q \<le> n)"
proof -
  have r: "0 \<le> sr_from r" "sr_from r \<le> sr_to r"
    using assms(1) by (auto simp: valid_slot_range_def SlotRange_def split: if_splits)
  show ?thesis
    using slot_ranges.split_loop_ok[OF r _ assms(2)] assms(2) by (simp add: slot_range_split_def)
qed

section \<open>Replay boundaries\<close>

record replay_boundary =
  rb_network_id :: string
  rb_position_schema_id :: string
  rb_boundary_ordinal :: int
  rb_block_ordinal :: int

definition ReplayBoundary :: "string \<Rightarrow> string \<Rightarrow> int \<Rightarrow> int \<Rightarrow> replay_boundary res" where
  "ReplayBoundary network schema boundary block =
     bindE (boundary_coordinates boundary schema) (\<lambda>(decoded_block, _).
       if decoded_block \<noteq> block then
         Inl (ValueError ''replay boundary block does not match its ordinal'')
       else Inr \<lparr>rb_network_id = network, rb_position_schema_id = schema,
                 rb_boundary_ordinal = boundary, rb_block_ordinal = block\<rparr>)"

definition replay_boundary_from_position :: "chain_position \<Rightarrow> replay_boundary res" where
  "replay_boundary_from_position p =
     bindE (position_boundary_ordinal p) (\<lambda>boundary.
       ReplayBoundary (cp_network_id p) (cp_position_schema_id p) boundary (cp_block_ordinal p))"

definition rb_transaction_index :: "replay_boundary \<Rightarrow> int res" where
  "rb_transaction_index b =
     bindE (boundary_coordinates (rb_boundary_ordinal b) (rb_position_schema_id b)) (\<lambda>(_, t). Inr t)"

definition rb_chain_position :: "replay_boundary \<Rightarrow> chain_position res" where
  "rb_chain_position b =
     bindE (rb_transaction_index b) (\<lambda>t.
       ChainPosition (rb_network_id b) (rb_position_schema_id b) (rb_block_ordinal b) t None)"

definition valid_replay_boundary :: "replay_boundary \<Rightarrow> bool" where
  "valid_replay_boundary b \<longleftrightarrow>
     ReplayBoundary (rb_network_id b) (rb_position_schema_id b) (rb_boundary_ordinal b)
       (rb_block_ordinal b) = Inr b"

lemma valid_replay_boundary_coordinates:
  assumes "valid_replay_boundary b"
  obtains t where
    "boundary_coordinates (rb_boundary_ordinal b) (rb_position_schema_id b) = Inr (rb_block_ordinal b, t)"
  using assms unfolding valid_replay_boundary_def ReplayBoundary_def
  by (auto split: if_splits)

lemma boundary_encode_decode_iff:
  "boundary_ordinal b t s = Inr v \<longleftrightarrow> boundary_coordinates v s = Inr (b, t)"
proof
  assume enc: "boundary_ordinal b t s = Inr v"
  then have s: "s = BLOCK32_TRANSACTION32_POSITION_SCHEMA_ID" by (simp add: boundary_ordinal_iff)
  then show "boundary_coordinates v s = Inr (b, t)"
    using enc block32.dec_enc[of "(b, t)" v] by (simp add: block32_enc_def block32_dec_def)
next
  assume dec: "boundary_coordinates v s = Inr (b, t)"
  then have s: "s = BLOCK32_TRANSACTION32_POSITION_SCHEMA_ID" by (simp add: boundary_coordinates_iff)
  then show "boundary_ordinal b t s = Inr v"
    using dec block32.enc_dec[of v "(b, t)"] by (simp add: block32_enc_def block32_dec_def)
qed

lemma replay_boundary_position:
  assumes "valid_replay_boundary b"
  obtains p where "rb_chain_position b = Inr p" and "valid_position p"
    and "ordinal_of p = rb_boundary_ordinal b" and "cp_block_ordinal p = rb_block_ordinal b"
    and "cp_network_id p = rb_network_id b"
    and "cp_position_schema_id p = rb_position_schema_id b"
    and "rb_transaction_index b = Inr (cp_transaction_index p)"
proof -
  from assms obtain t where dec:
    "boundary_coordinates (rb_boundary_ordinal b) (rb_position_schema_id b) = Inr (rb_block_ordinal b, t)"
    by (rule valid_replay_boundary_coordinates)
  then have enc: "boundary_ordinal (rb_block_ordinal b) t (rb_position_schema_id b)
      = Inr (rb_boundary_ordinal b)"
    by (simp add: boundary_encode_decode_iff)
  define p where "p = \<lparr>cp_network_id = rb_network_id b,
    cp_position_schema_id = rb_position_schema_id b, cp_block_ordinal = rb_block_ordinal b,
    cp_transaction_index = t, cp_event_index = None\<rparr>"
  have "rb_transaction_index b = Inr t" using dec by (simp add: rb_transaction_index_def)
  moreover have "valid_position p"
    using enc by (simp add: valid_position_iff boundary_ordinal_iff p_def)
  moreover have "ordinal_of p = rb_boundary_ordinal b"
    using enc by (simp add: ordinal_of_def position_boundary_ordinal_def p_def)
  moreover have "rb_chain_position b = Inr p"
    using calculation(1,2) by (simp add: rb_chain_position_def valid_position_def p_def)
  ultimately show ?thesis
    by (intro that[of p]) (simp_all add: p_def)
qed

section \<open>Properties\<close>

text \<open>C30: The boundary ordinal is a bijection between the valid (block, transaction) coordinates,
  the synthetic block boundary \<open>-1\<close> included, and the UInt64 values: encoding gives exactly the
  ordinals that decode back to the same coordinates, and every UInt64 decodes.\<close>

theorem boundary_ordinal_bijection:
  "(boundary_ordinal b t s = Inr v \<longleftrightarrow> boundary_coordinates v s = Inr (b, t))
   \<and> ((\<exists>p. boundary_coordinates v BLOCK32_TRANSACTION32_POSITION_SCHEMA_ID = Inr p)
        \<longleftrightarrow> 0 \<le> v \<and> v \<le> UINT64_MAX)"
  by (auto simp: boundary_encode_decode_iff boundary_coordinates_iff UINT64_MAX_def)

text \<open>Ordinals order positions as the chain does: two encodable coordinates compare like their
  ordinals, block first and transaction second.\<close>

theorem boundary_ordinal_order:
  assumes "boundary_ordinal b t s = Inr v" and "boundary_ordinal b' t' s = Inr v'"
  shows "v < v' \<longleftrightarrow> b < b' \<or> (b = b' \<and> t < t')"
proof -
  have "s = BLOCK32_TRANSACTION32_POSITION_SCHEMA_ID"
    using assms(1) by (simp add: boundary_ordinal_iff)
  then have "block32_enc (b, t) = Inr v" "block32_enc (b', t') = Inr v'"
    using assms by (simp_all add: block32_enc_def)
  from block32.enc_less_iff[OF this] show ?thesis by (auto simp: less_prod_def)
qed

theorem boundary_ordinal_order_witness:
  "boundary_ordinal 7 (-1) BLOCK32_TRANSACTION32_POSITION_SCHEMA_ID = Inr 30064771072
   \<and> boundary_ordinal 7 0 BLOCK32_TRANSACTION32_POSITION_SCHEMA_ID = Inr 30064771073
   \<and> (30064771072::int) < 30064771073"
proof -
  have a: "boundary_ordinal 7 (-1) BLOCK32_TRANSACTION32_POSITION_SCHEMA_ID = Inr 30064771072"
    and b: "boundary_ordinal 7 0 BLOCK32_TRANSACTION32_POSITION_SCHEMA_ID = Inr 30064771073"
    by (simp_all add: boundary_ordinal_iff)
  with boundary_ordinal_order[OF a b] show ?thesis by simp
qed

text \<open>Splitting a block range never fails for a positive span; the pieces are ranges of the same
  chain no longer than the span, and every block of the range lies in exactly one piece.\<close>

theorem block_range_split_partitions:
  assumes "valid_block_range r" and "0 < max_span"
  shows "\<exists>rs. block_range_split r max_span = Inr rs
    \<and> (\<forall>q \<in> set rs. block_range_span q \<le> max_span \<and> br_from r \<le> br_from q \<and> br_to q \<le> br_to r)
    \<and> (\<forall>b. contains_block r b \<longrightarrow> (\<exists>!i. i < length rs \<and> contains_block (rs ! i) b))"
proof -
  obtain rs where rs: "block_range_split r max_span = Inr rs"
    "tiles br_from br_to rs (br_from r) (br_to r)" "\<forall>q \<in> set rs. block_range_span q \<le> max_span"
    using block_range_split_ok[OF assms] by blast
  have "\<forall>q \<in> set rs. block_range_span q \<le> max_span \<and> br_from r \<le> br_from q \<and> br_to q \<le> br_to r"
    using rs(3) tiles_bounds[OF rs(2)] by blast
  moreover have "\<forall>b. contains_block r b \<longrightarrow> (\<exists>!i. i < length rs \<and> contains_block (rs ! i) b)"
    unfolding contains_block_def using tiles_unique_index[OF rs(2)] by blast
  ultimately show ?thesis using rs(1) by blast
qed

theorem block_range_split_partitions_witness:
  "block_range_split \<lparr>br_network_id = ''evm:1'',
      br_position_schema_id = BLOCK32_TRANSACTION32_POSITION_SCHEMA_ID, br_from = 10, br_to = 15\<rparr> 2
    \<noteq> Inr []"
proof -
  let ?r = "\<lparr>br_network_id = ''evm:1'',
      br_position_schema_id = BLOCK32_TRANSACTION32_POSITION_SCHEMA_ID, br_from = 10, br_to = 15\<rparr>"
  have "valid_block_range ?r" by (simp add: valid_block_range_def BlockRange_def UINT32_SIZE_def)
  from block_range_split_partitions[OF this, of 2] obtain rs where
    "block_range_split ?r 2 = Inr rs"
    "contains_block ?r 10 \<longrightarrow> (\<exists>!i. i < length rs \<and> contains_block (rs ! i) 10)" by auto
  then show ?thesis by (auto simp: contains_block_def)
qed

text \<open>A replay boundary built from a chain position names that position again: the boundary is
  accepted, carries the position's ordinal, and its chain position is the original one without an
  event index.\<close>

theorem replay_boundary_roundtrip:
  assumes "valid_position p"
  shows "\<exists>b. replay_boundary_from_position p = Inr b
    \<and> Inr (rb_boundary_ordinal b) = position_boundary_ordinal p
    \<and> rb_chain_position b = Inr (p\<lparr>cp_event_index := None\<rparr>)"
proof -
  let ?v = "ordinal_of p"
  have enc: "position_boundary_ordinal p = Inr ?v"
    using position_boundary_ordinal_valid[OF assms] by (simp add: ordinal_of_def)
  then have dec: "boundary_coordinates ?v (cp_position_schema_id p)
      = Inr (cp_block_ordinal p, cp_transaction_index p)"
    by (simp add: position_boundary_ordinal_def boundary_encode_decode_iff)
  then show ?thesis
    using assms enc
    by (auto simp: replay_boundary_from_position_def ReplayBoundary_def rb_chain_position_def
        rb_transaction_index_def ChainPosition_iff valid_position_iff)
qed

theorem replay_boundary_roundtrip_witness:
  "\<exists>b. replay_boundary_from_position
      \<lparr>cp_network_id = ''evm:1'', cp_position_schema_id = BLOCK32_TRANSACTION32_POSITION_SCHEMA_ID,
       cp_block_ordinal = 3, cp_transaction_index = 4, cp_event_index = Some 5\<rparr> = Inr b"
  using replay_boundary_roundtrip[of
      "\<lparr>cp_network_id = ''evm:1'', cp_position_schema_id = BLOCK32_TRANSACTION32_POSITION_SCHEMA_ID,
        cp_block_ordinal = 3, cp_transaction_index = 4, cp_event_index = Some 5\<rparr>"]
  by (auto simp: valid_position_iff)

end
