(* ===== verification/Canonical_Json.thy ===== *)
theory Canonical_Json
  imports Identifiers
begin

text \<open>
  The one exact encoding behind every semantic identity (\<^verbatim>\<open>domain/hashing.py\<close>) and the
  length-framed record streams built on it (\<^verbatim>\<open>engine/audit.py\<close>). JSON-compatible Python values
  are a datatype; \<open>dumps\<close> is \<^verbatim>\<open>json.dumps(..., ensure_ascii=False, separators=(",", ":"),
  sort_keys=True)\<close>. SHA-256 itself is a parameter \<open>sha\<close> from bytes to the hexadecimal digest. A
  byte string is a list of characters.
\<close>

type_synonym bytes = "char list"

section \<open>Values and validation\<close>

datatype json =
    JNull
  | JBool bool
  | JInt int
  | JStr string
  | JArr "json list"
  | JObj "(string \<times> json) list"
  | JFloat
  | JOther

text \<open>\<^verbatim>\<open>_validate\<close>: the first floating-point or unsupported value found raises.\<close>

fun json_validate :: "json \<Rightarrow> unit res"
  and json_validate_list :: "json list \<Rightarrow> unit res"
  and json_validate_items :: "(string \<times> json) list \<Rightarrow> unit res" where
  "json_validate JNull = Inr ()"
| "json_validate (JBool b) = Inr ()"
| "json_validate (JInt i) = Inr ()"
| "json_validate (JStr s) = Inr ()"
| "json_validate JFloat =
     Inl (TypeError ''floating-point values are forbidden in semantic identities'')"
| "json_validate (JArr vs) = json_validate_list vs"
| "json_validate (JObj kvs) = json_validate_items kvs"
| "json_validate JOther = Inl (TypeError ''unsupported canonical JSON value'')"
| "json_validate_list [] = Inr ()"
| "json_validate_list (v # vs) = bindE (json_validate v) (\<lambda>_. json_validate_list vs)"
| "json_validate_items [] = Inr ()"
| "json_validate_items ((k, v) # kvs) = bindE (json_validate v) (\<lambda>_. json_validate_items kvs)"

section \<open>Encoding\<close>

definition digit_char :: "nat \<Rightarrow> char" where
  "digit_char d = char_of (48 + d)"

fun decimal :: "nat \<Rightarrow> string" where
  "decimal n = (if n < 10 then [digit_char n] else decimal (n div 10) @ [digit_char (n mod 10)])"

declare decimal.simps [simp del]

definition int_repr :: "int \<Rightarrow> string" where
  "int_repr i = (if i < 0 then CHR ''-'' # decimal (nat (- i)) else decimal (nat i))"

definition hex_char :: "nat \<Rightarrow> char" where
  "hex_char d = (if d < 10 then char_of (48 + d) else char_of (87 + d))"

definition escape_char :: "char \<Rightarrow> string" where
  "escape_char c =
     (let n = char_code c in
      if c = CHR 34 then [CHR 92, CHR 34]
      else if n = 92 then [CHR 92, CHR 92]
      else if n = 8 then [CHR 92, CHR ''b'']
      else if n = 12 then [CHR 92, CHR ''f'']
      else if n = 10 then [CHR 92, CHR ''n'']
      else if n = 13 then [CHR 92, CHR ''r'']
      else if n = 9 then [CHR 92, CHR ''t'']
      else if n < 32 then [CHR 92, CHR ''u'', CHR ''0'', CHR ''0'', hex_char (n div 16), hex_char (n mod 16)]
      else [c])"

definition quote :: "string \<Rightarrow> string" where
  "quote s = CHR 34 # concat (map escape_char s) @ [CHR 34]"

fun join_comma :: "string list \<Rightarrow> string" where
  "join_comma [] = []"
| "join_comma [s] = s"
| "join_comma (s # t # ts) = s @ CHR '','' # join_comma (t # ts)"

fun dumps :: "json \<Rightarrow> string" where
  "dumps JNull = ''null''"
| "dumps (JBool b) = (if b then ''true'' else ''false'')"
| "dumps (JInt i) = int_repr i"
| "dumps (JStr s) = quote s"
| "dumps (JArr vs) = CHR ''['' # join_comma (map dumps vs) @ [CHR '']'']"
| "dumps (JObj kvs) = CHR ''{'' #
     join_comma (map (\<lambda>(k, s). quote k @ CHR '':'' # s)
       (sort_key fst (map (\<lambda>(k, v). (k, dumps v)) kvs))) @ [CHR ''}'']"
| "dumps JFloat = ''''"
| "dumps JOther = ''''"

definition utf8_char :: "char \<Rightarrow> bytes" where
  "utf8_char c = (let n = char_code c in
     if n < 128 then [c] else [char_of (192 + n div 64), char_of (128 + n mod 64)])"

definition utf8 :: "string \<Rightarrow> bytes" where
  "utf8 s = concat (map utf8_char s)"

definition canonical_json_bytes :: "json \<Rightarrow> bytes res" where
  "canonical_json_bytes v = bindE (json_validate v) (\<lambda>_. Inr (utf8 (dumps v)))"

definition nul :: char where "nul = CHR 0x00"

definition domain_digest :: "(bytes \<Rightarrow> string) \<Rightarrow> string \<Rightarrow> json \<Rightarrow> digest res" where
  "domain_digest sha domain v =
     (if domain = [] \<or> domain \<noteq> strip domain \<or> nul \<in> set domain then
        Inl (ValueError ''hash domain must be non-empty, trimmed and NUL-free'')
      else bindE (canonical_json_bytes v) (\<lambda>encoded.
        ContentDigest (sha (utf8 domain @ nul # encoded))))"

text \<open>
  The value an encoding stands for: the same value with every object's keys in order, which is
  what equality of Python dictionaries ignores.
\<close>

fun jnorm :: "json \<Rightarrow> json" where
  "jnorm (JArr vs) = JArr (map jnorm vs)"
| "jnorm (JObj kvs) = JObj (sort_key fst (map (\<lambda>(k, v). (k, jnorm v)) kvs))"
| "jnorm v = v"

fun render :: "json \<Rightarrow> string" where
  "render JNull = ''null''"
| "render (JBool b) = (if b then ''true'' else ''false'')"
| "render (JInt i) = int_repr i"
| "render (JStr s) = quote s"
| "render (JArr vs) = CHR ''['' # join_comma (map render vs) @ [CHR '']'']"
| "render (JObj kvs) = CHR ''{'' #
     join_comma (map (\<lambda>(k, v). quote k @ CHR '':'' # render v) kvs) @ [CHR ''}'']"
| "render JFloat = ''''"
| "render JOther = ''''"

lemma sort_key_map_fst:
  assumes "\<And>x. key (f x) = key' x"
  shows "sort_key key (map f xs) = map f (sort_key key' xs)"
proof -
  have ins: "insort_key key (f x) (map f ys) = map f (insort_key key' x ys)" for x ys
    by (induction ys) (auto simp: assms)
  show ?thesis by (induction xs) (auto simp: ins)
qed

lemma sort_key_map_snd:
  "sort_key fst (map (\<lambda>p. (fst p, g (snd p))) kvs) = map (\<lambda>p. (fst p, g (snd p))) (sort_key fst kvs)"
  by (rule sort_key_map_fst) auto

lemma dumps_render: "dumps v = render (jnorm v)"
proof (induction v rule: dumps.induct)
  case (5 vs)
  then have "map dumps vs = map (render \<circ> jnorm) vs" by (auto intro!: map_cong)
  then show ?case by (simp only: dumps.simps jnorm.simps render.simps map_map)
next
  case (6 kvs)
  have eq: "map (\<lambda>p. quote (fst p) @ CHR '':'' # dumps (snd p)) (sort_key fst kvs) =
      map (\<lambda>p. quote (fst p) @ CHR '':'' # render (jnorm (snd p))) (sort_key fst kvs)"
    using 6 by (intro map_cong) force+
  show ?case
    unfolding dumps.simps jnorm.simps render.simps case_prod_unfold sort_key_map_snd map_map comp_def
      fst_conv snd_conv eq ..
qed auto

section \<open>Reading the encoding back\<close>

text \<open>
  A reader of canonical text, used only to state what the encoding determines. Fuel bounds the
  nesting; the length of the text is always enough.
\<close>

definition digit_value :: "char \<Rightarrow> nat" where
  "digit_value c = char_code c - 48"

fun read_digits :: "nat \<Rightarrow> string \<Rightarrow> nat \<times> string" where
  "read_digits acc [] = (acc, [])"
| "read_digits acc (c # cs) =
     (if is_digit c then read_digits (acc * 10 + digit_value c) cs else (acc, c # cs))"

definition hex_value :: "char \<Rightarrow> nat" where
  "hex_value c = (let n = char_code c in if n < 58 then n - 48 else n - 87)"

fun read_string :: "string \<Rightarrow> (string \<times> string) option" where
  "read_string (c # cs) =
     (if c = CHR 34 then Some ([], cs)
      else if c = CHR 92 then
        (case cs of
           [] \<Rightarrow> None
         | d # ds \<Rightarrow>
             if d = CHR ''u'' then
               (case ds of a # b # x # y # rest \<Rightarrow>
                  map_option (\<lambda>(s, r). (char_of (16 * hex_value x + hex_value y) # s, r)) (read_string rest)
                | _ \<Rightarrow> None)
             else map_option (\<lambda>(s, r). ((if d = CHR ''b'' then char_of (8 :: nat)
                 else if d = CHR ''f'' then char_of (12 :: nat)
                 else if d = CHR ''n'' then char_of (10 :: nat)
                 else if d = CHR ''r'' then char_of (13 :: nat)
                 else if d = CHR ''t'' then char_of (9 :: nat) else d) # s, r)) (read_string ds))
      else map_option (\<lambda>(s, r). (c # s, r)) (read_string cs))"
| "read_string [] = None"

fun read_json :: "nat \<Rightarrow> string \<Rightarrow> (json \<times> string) option"
  and read_elems :: "nat \<Rightarrow> string \<Rightarrow> (json list \<times> string) option"
  and read_members :: "nat \<Rightarrow> string \<Rightarrow> ((string \<times> json) list \<times> string) option" where
  "read_json 0 s = None"
| "read_json (Suc f) [] = None"
| "read_json (Suc f) (c # cs) =
     (if c = CHR 34 then map_option (\<lambda>(s, r). (JStr s, r)) (read_string cs)
      else if c = CHR ''n'' then Some (JNull, drop 3 cs)
      else if c = CHR ''t'' then Some (JBool True, drop 3 cs)
      else if c = CHR ''f'' then Some (JBool False, drop 4 cs)
      else if c = CHR ''-'' then (case read_digits 0 cs of (n, r) \<Rightarrow> Some (JInt (- int n), r))
      else if is_digit c then (case read_digits 0 (c # cs) of (n, r) \<Rightarrow> Some (JInt (int n), r))
      else if c = CHR ''['' then
        (if take 1 cs = '']'' then Some (JArr [], drop 1 cs)
         else map_option (\<lambda>(vs, r). (JArr vs, r)) (read_elems f cs))
      else if c = CHR ''{'' then
        (if take 1 cs = ''}'' then Some (JObj [], drop 1 cs)
         else map_option (\<lambda>(kvs, r). (JObj kvs, r)) (read_members f cs))
      else None)"
| "read_elems 0 s = None"
| "read_elems (Suc f) s =
     (case read_json f s of
        Some (v, d # r) \<Rightarrow>
          (if d = CHR '','' then map_option (\<lambda>(vs, r'). (v # vs, r')) (read_elems f r)
           else if d = CHR '']'' then Some ([v], r) else None)
      | _ \<Rightarrow> None)"
| "read_members 0 s = None"
| "read_members (Suc f) s =
     (case s of
        q # s' \<Rightarrow>
          (case read_string s' of
             Some (k, colon # r) \<Rightarrow>
               (case read_json f r of
                  Some (v, d # r') \<Rightarrow>
                    (if d = CHR '','' then
                       map_option (\<lambda>(kvs, r''). ((k, v) # kvs, r'')) (read_members f r')
                     else if d = CHR ''}'' then Some ([(k, v)], r') else None)
                | _ \<Rightarrow> None)
           | _ \<Rightarrow> None)
      | [] \<Rightarrow> None)"


text \<open>Text that may follow a value: it does not continue a number.\<close>

definition no_digit_first :: "string \<Rightarrow> bool" where
  "no_digit_first s \<longleftrightarrow> s = [] \<or> \<not> is_digit (hd s)"

lemma char_code_char_of: "n < 256 \<Longrightarrow> char_code (char_of (n :: nat)) = n"
  by (simp add: char_code_def)

lemma char_of_char_code [simp]: "char_of (char_code c) = c"
  by (simp add: char_code_def)

lemma char_code_lt: "char_code c < 256"
  by (simp add: char_code_def)

lemma char_code_inject: "char_code c = char_code d \<longleftrightarrow> c = d"
  by (metis char_of_char_code)

lemma char_code_consts:
  "char_code (CHR 34) = 34" "char_code (CHR 92) = 92" "char_code (CHR '','') = 44"
  "char_code (CHR '']'') = 93" "char_code (CHR ''}'') = 125" "char_code (CHR ''-'') = 45"
  "char_code (CHR ''n'') = 110" "char_code (CHR ''t'') = 116" "char_code (CHR ''f'') = 102"
  "char_code (CHR ''['') = 91" "char_code (CHR ''{'') = 123" "char_code (CHR '':'') = 58"
  by (simp_all add: char_code_def)

lemma digit_char: "d < 10 \<Longrightarrow> is_digit (digit_char d) \<and> digit_value (digit_char d) = d"
  by (simp add: digit_char_def is_digit_def digit_value_def char_code_char_of)

lemma read_digits_stop: "no_digit_first r \<Longrightarrow> read_digits acc r = (acc, r)"
  by (cases r) (auto simp: no_digit_first_def)

lemma read_digits_run:
  "list_all is_digit ds \<Longrightarrow>
     read_digits acc (ds @ r) = read_digits (foldl (\<lambda>a c. a * 10 + digit_value c) acc ds) r"
  by (induction ds arbitrary: acc) auto

lemma decimal_digits: "list_all is_digit (decimal n)"
proof (induction n rule: decimal.induct)
  case (1 n)
  then show ?case by (subst decimal.simps) (simp add: digit_char)
qed

lemma decimal_value: "foldl (\<lambda>a c. a * 10 + digit_value c) 0 (decimal n) = n"
proof (induction n rule: decimal.induct)
  case (1 n)
  then show ?case by (subst decimal.simps) (simp add: digit_char)
qed

lemma decimal_Cons: "\<exists>d ds. decimal n = d # ds \<and> is_digit d"
proof -
  have "decimal n \<noteq> []" by (subst decimal.simps) simp
  with decimal_digits[of n] show ?thesis by (cases "decimal n") auto
qed

lemma read_digits_decimal: "no_digit_first r \<Longrightarrow> read_digits 0 (decimal n @ r) = (n, r)"
  by (simp add: read_digits_run decimal_digits decimal_value read_digits_stop)

lemma hex_char_value: "d < 16 \<Longrightarrow> hex_value (hex_char d) = d"
  by (simp add: hex_char_def hex_value_def char_code_char_of)

lemma char_eq_code: "n < 256 \<Longrightarrow> c = char_of (n :: nat) \<longleftrightarrow> char_code c = n"
  by (metis char_code_char_of char_of_char_code)

lemma read_string_escape:
  "read_string (escape_char c @ s) = map_option (\<lambda>(t, r). (c # t, r)) (read_string s)"
proof -
  consider (special) "c \<in> {CHR 34, CHR 92, char_of (8 :: nat), char_of (12 :: nat),
      char_of (10 :: nat), char_of (13 :: nat), char_of (9 :: nat)}"
    | (control) "c \<noteq> CHR 34" "c \<noteq> CHR 92" "char_code c < 32"
        "char_code c \<notin> {8, 9, 10, 12, 13}"
    | (plain) "c \<noteq> CHR 34" "c \<noteq> CHR 92" "\<not> char_code c < 32"
    by (simp add: char_eq_code) blast
  then show ?thesis
  proof cases
    case special
    then show ?thesis by (auto simp: escape_char_def char_code_def)
  next
    case control
    let ?n = "char_code c"
    have "char_code c \<noteq> 92" using control(2) by (metis char_code_consts(2) char_code_inject)
    moreover have "16 * (?n div 16) + ?n mod 16 = ?n" by simp
    ultimately show ?thesis
      using control by (simp add: escape_char_def Let_def hex_char_value)
  next
    case plain
    then have "char_code c \<noteq> 92" by (metis char_code_consts(2) char_code_inject)
    with plain show ?thesis by (simp add: escape_char_def Let_def)
  qed
qed

lemma read_string_quoted:
  "read_string (concat (map escape_char s) @ CHR 34 # r) = Some (s, r)"
  by (induction s) (simp_all add: read_string_escape)

lemma quote_read: "quote s @ r = CHR 34 # (concat (map escape_char s) @ CHR 34 # r)"
  by (simp add: quote_def)

text \<open>Rendered values the encoder accepts: no float and no unsupported object inside.\<close>

fun json_plain :: "json \<Rightarrow> bool" where
  "json_plain (JArr vs) = list_all json_plain vs"
| "json_plain (JObj kvs) = list_all (\<lambda>(k, v). json_plain v) kvs"
| "json_plain JFloat = False"
| "json_plain JOther = False"
| "json_plain v = True"

lemma json_validate_plain:
  "json_validate v = Inr () \<longleftrightarrow> json_plain v"
  "json_validate_list vs = Inr () \<longleftrightarrow> list_all json_plain vs"
  "json_validate_items kvs = Inr () \<longleftrightarrow> list_all (\<lambda>(k, v). json_plain v) kvs"
  by (induction v and vs and kvs rule: json_validate_json_validate_list_json_validate_items.induct)
     auto

lemma is_digit_brackets: "is_digit d \<Longrightarrow> d \<noteq> CHR '']'' \<and> d \<noteq> CHR ''}'' \<and> d \<noteq> CHR ''-''
    \<and> d \<noteq> CHR 34 \<and> d \<noteq> CHR ''n'' \<and> d \<noteq> CHR ''t'' \<and> d \<noteq> CHR ''f'' \<and> d \<noteq> CHR ''['' \<and> d \<noteq> CHR ''{''"
  by (auto simp: is_digit_def char_code_consts)

lemma render_head:
  assumes "json_plain v"
  shows "\<exists>c cs. render v = c # cs \<and> c \<noteq> CHR '']'' \<and> c \<noteq> CHR ''}''"
proof (cases v)
  case (JInt i)
  obtain d ds where "decimal (nat i) = d # ds" "is_digit d" using decimal_Cons by blast
  with JInt is_digit_brackets show ?thesis by (auto simp: int_repr_def)
qed (use assms in \<open>auto simp: quote_def\<close>)

lemma read_int: "no_digit_first r \<Longrightarrow> read_json (Suc f) (int_repr i @ r) = Some (JInt i, r)"
proof (cases "i < 0")
  case True
  moreover assume "no_digit_first r"
  ultimately show ?thesis by (simp add: int_repr_def read_digits_decimal)
next
  case False
  assume r: "no_digit_first r"
  obtain d ds where d: "decimal (nat i) = d # ds" "is_digit d" using decimal_Cons by blast
  have "read_digits 0 (d # ds @ r) = (nat i, r)"
    using read_digits_decimal[OF r, of "nat i"] d by simp
  with d False is_digit_brackets[OF d(2)] show ?thesis
    by (simp add: int_repr_def del: read_digits.simps)
qed

lemma is_digit_consts [simp]:
  "\<not> is_digit (CHR ''['')" "\<not> is_digit (CHR ''{'')" "\<not> is_digit (CHR '','')"
  "\<not> is_digit (CHR '']'')" "\<not> is_digit (CHR ''}'')"
  by (simp_all add: is_digit_def char_code_consts)

lemma no_digit_first_consts [simp]:
  "no_digit_first []" "no_digit_first (CHR '','' # r)" "no_digit_first (CHR '']'' # r)"
  "no_digit_first (CHR ''}'' # r)"
  by (simp_all add: no_digit_first_def)

lemma join_comma_Cons: "join_comma (s # ss) = s @ (if ss = [] then [] else CHR '','' # join_comma ss)"
  by (cases ss) auto

text \<open>
  The reader recovers every rendered value and leaves the text that follows it, with fuel equal
  to the length of the rendering.
\<close>

lemma read_render:
  shows "json_plain v \<Longrightarrow> length (render v) \<le> f \<Longrightarrow> no_digit_first r \<Longrightarrow>
      read_json f (render v @ r) = Some (v, r)"
    and "list_all json_plain vs \<Longrightarrow> vs \<noteq> [] \<Longrightarrow> length (join_comma (map render vs)) < f \<Longrightarrow>
      read_elems f (join_comma (map render vs) @ CHR '']'' # r) = Some (vs, r)"
    and "list_all (\<lambda>(k, v). json_plain v) kvs \<Longrightarrow> kvs \<noteq> [] \<Longrightarrow>
      length (join_comma (map (\<lambda>(k, v). quote k @ CHR '':'' # render v) kvs)) < f \<Longrightarrow>
      read_members f (join_comma (map (\<lambda>(k, v). quote k @ CHR '':'' # render v) kvs) @ CHR ''}'' # r)
        = Some (kvs, r)"
proof (induction v and vs and kvs arbitrary: f r and f r and f r
    rule: json_validate_json_validate_list_json_validate_items.induct)
  case 1
  then show ?case by (cases f) auto
next
  case (2 b)
  then show ?case by (cases f) (auto split: if_splits)
next
  case (3 i)
  then obtain g where f: "f = Suc g"
    by (cases f) (use decimal_Cons[of "nat i"] in \<open>auto simp: int_repr_def split: if_splits\<close>)
  show ?case unfolding f render.simps by (rule read_int[OF 3(3)])
next
  case (4 s)
  then show ?case by (cases f) (auto simp: quote_def read_string_quoted)
next
  case (6 vs)
  then obtain g where f: "f = Suc g" by (cases f) auto
  show ?case
  proof (cases "vs = []")
    case True
    then show ?thesis by (simp add: f)
  next
    case False
    have "\<exists>c cs. render (hd vs) = c # cs \<and> c \<noteq> CHR '']'' \<and> c \<noteq> CHR ''}''"
      using 6(2) False by (intro render_head) (cases vs; simp)
    then have "take 1 (join_comma (map render vs) @ CHR '']'' # r) \<noteq> '']''"
      using False by (cases vs) (auto simp: join_comma_Cons)
    moreover have "read_elems g (join_comma (map render vs) @ CHR '']'' # r) = Some (vs, r)"
      by (rule 6(1)) (use 6(2,3) False f in auto)
    ultimately show ?thesis by (simp add: f)
  qed
next
  case (7 kvs)
  then obtain g where f: "f = Suc g" by (cases f) auto
  show ?case
  proof (cases "kvs = []")
    case True
    then show ?thesis by (simp add: f)
  next
    case False
    then have "take 1 (join_comma (map (\<lambda>(k, v). quote k @ CHR '':'' # render v) kvs) @ CHR ''}'' # r)
        \<noteq> ''}''"
      by (cases kvs) (auto simp: join_comma_Cons quote_def)
    moreover have "read_members g
        (join_comma (map (\<lambda>(k, v). quote k @ CHR '':'' # render v) kvs) @ CHR ''}'' # r) = Some (kvs, r)"
      by (rule 7(1)) (use 7(2,3) False f in auto)
    ultimately show ?thesis by (simp add: f)
  qed
next
  case (10 v vs)
  then obtain g where f: "f = Suc g" by (cases f) auto
  show ?case
  proof (cases "vs = []")
    case True
    have "read_json g (render v @ CHR '']'' # r) = Some (v, CHR '']'' # r)"
      by (rule 10(1)) (use 10(3,5) f True in auto)
    with True show ?thesis by (simp add: f)
  next
    case False
    let ?t = "join_comma (map render vs) @ CHR '']'' # r"
    have "read_json g (render v @ CHR '','' # ?t) = Some (v, CHR '','' # ?t)"
      by (rule 10(1)) (use 10(3,5) f False in \<open>auto simp: join_comma_Cons\<close>)
    moreover have "read_elems g ?t = Some (vs, r)"
      by (rule 10(2))
         (use 10(3,5) f False in \<open>auto simp: join_comma_Cons json_validate_plain(1)\<close>)
    ultimately show ?thesis using False by (simp add: f join_comma_Cons)
  qed
next
  case (12 k v kvs)
  then obtain g where f: "f = Suc g" by (cases f) auto
  show ?case
  proof (cases "kvs = []")
    case True
    have "read_json g (render v @ CHR ''}'' # r) = Some (v, CHR ''}'' # r)"
      by (rule 12(1)) (use 12(3,5) f True in auto)
    with True show ?thesis by (simp add: f quote_def read_string_quoted)
  next
    case False
    let ?t = "join_comma (map (\<lambda>(k, v). quote k @ CHR '':'' # render v) kvs) @ CHR ''}'' # r"
    have "read_json g (render v @ CHR '','' # ?t) = Some (v, CHR '','' # ?t)"
      by (rule 12(1)) (use 12(3,5) f False in \<open>auto simp: join_comma_Cons\<close>)
    moreover have "read_members g ?t = Some (kvs, r)"
      by (rule 12(2))
         (use 12(3,5) f False in \<open>auto simp: join_comma_Cons json_validate_plain(1)\<close>)
    ultimately show ?thesis
      using False by (simp add: f join_comma_Cons quote_def read_string_quoted)
  qed
qed (auto simp: Suc_le_eq gr0_conv_Suc split: if_splits elim!: less_SucE)

section \<open>Bytes\<close>

lemma utf8_char_inj:
  "utf8_char c @ a = utf8_char d @ b \<Longrightarrow> c = d \<and> a = b"
proof -
  assume eq: "utf8_char c @ a = utf8_char d @ b"
  let ?m = "char_code c" and ?n = "char_code d"
  have hi: "char_code (char_of (192 + k div 64)) = 192 + k div 64" if "k < 256" for k :: nat
    using that by (intro char_code_char_of) simp
  have lo: "char_code (char_of (128 + k mod 64)) = 128 + k mod 64" for k :: nat
    by (intro char_code_char_of) (use pos_mod_bound[of 64 "int k"] in linarith)
  show ?thesis
  proof (cases "?m < 128"; cases "?n < 128")
    assume "?m < 128" "?n < 128"
    with eq show ?thesis by (simp add: utf8_char_def Let_def)
  next
    assume m: "?m < 128" "\<not> ?n < 128"
    with eq have "c = char_of (192 + ?n div 64)" by (simp add: utf8_char_def Let_def)
    then have "?m = 192 + ?n div 64" using hi[OF char_code_lt, of d] by simp
    with m show ?thesis by simp
  next
    assume m: "\<not> ?m < 128" "?n < 128"
    with eq have "char_of (192 + ?m div 64) = d" by (simp add: utf8_char_def Let_def)
    then have "?n = 192 + ?m div 64" using hi[OF char_code_lt, of c] by auto
    with m show ?thesis by simp
  next
    assume "\<not> ?m < 128" "\<not> ?n < 128"
    with eq have h: "char_of (192 + ?m div 64) = (char_of (192 + ?n div 64) :: char)"
      and l: "char_of (128 + ?m mod 64) = (char_of (128 + ?n mod 64) :: char)" and "a = b"
      by (simp_all add: utf8_char_def Let_def)
    from h have "?m div 64 = ?n div 64"
      using hi[OF char_code_lt, of c] hi[OF char_code_lt, of d] by (metis add_left_cancel)
    moreover from l have "?m mod 64 = ?n mod 64"
      using lo[of ?m] lo[of ?n] by (metis add_left_cancel)
    ultimately have "?m = ?n" by (metis div_mult_mod_eq)
    with \<open>a = b\<close> show ?thesis by (simp add: char_code_inject)
  qed
qed

lemma utf8_Cons: "utf8 (c # s) = utf8_char c @ utf8 s"
  by (simp add: utf8_def)

lemma utf8_char_nonempty: "utf8_char c \<noteq> []"
  by (simp add: utf8_char_def Let_def)

lemma utf8_inj: "utf8 s = utf8 t \<Longrightarrow> s = t"
proof (induction s arbitrary: t)
  case Nil
  then show ?case using utf8_char_nonempty by (cases t) (auto simp: utf8_def)
next
  case (Cons c s)
  then obtain d t' where t: "t = d # t'"
    using utf8_char_nonempty by (cases t) (auto simp: utf8_def)
  with Cons.prems have "c = d \<and> utf8 s = utf8 t'"
    using utf8_char_inj[of c "utf8 s" d "utf8 t'"] by (simp add: utf8_Cons)
  with Cons.IH t show ?case by blast
qed

lemma jnorm_plain: "json_plain v \<Longrightarrow> json_plain (jnorm v)"
proof (induction v rule: jnorm.induct)
  case (1 vs)
  then show ?case by (auto simp: list_all_iff)
next
  case (2 kvs)
  then show ?case by (fastforce simp: list_all_iff)
qed auto

lemma render_inj:
  assumes "json_plain v" "json_plain w" "render v = render w"
  shows "v = w"
proof -
  have "read_json (length (render v)) (render v @ []) = Some (v, [])"
    by (rule read_render(1)) (use assms in auto)
  moreover have "read_json (length (render v)) (render w @ []) = Some (w, [])"
    by (rule read_render(1)) (use assms in auto)
  ultimately show ?thesis using assms(3) by simp
qed

lemma canonical_json_bytes_Inr:
  "canonical_json_bytes v = Inr x \<longleftrightarrow> json_plain v \<and> x = utf8 (render (jnorm v))"
  using json_validate_plain(1)[of v]
  by (cases "json_validate v") (auto simp: canonical_json_bytes_def dumps_render)

section \<open>Length-framed record streams\<close>

text \<open>\<^verbatim>\<open>n.to_bytes(k, "big")\<close> for a value that fits.\<close>

fun big_endian :: "nat \<Rightarrow> nat \<Rightarrow> bytes" where
  "big_endian 0 n = []"
| "big_endian (Suc k) n = big_endian k (n div 256) @ [char_of (n mod 256)]"

definition to_bytes :: "nat \<Rightarrow> nat \<Rightarrow> bytes res" where
  "to_bytes k n = (if 256 ^ k \<le> n then Inl (OverflowError ''int too big to convert'')
                   else Inr (big_endian k n))"

lemma to_bytes_code [code]:
  "to_bytes k n = (if (256 :: int) ^ k \<le> int n then Inl (OverflowError ''int too big to convert'')
                   else Inr (big_endian k n))"
proof -
  have "(256 :: int) ^ k \<le> int n \<longleftrightarrow> 256 ^ k \<le> n"
    by (metis of_nat_le_iff of_nat_numeral of_nat_power)
  then show ?thesis by (simp only: to_bytes_def)
qed

record stream_hasher =
  sh_fed :: bytes
  sh_count :: nat

definition CanonicalStreamHasher :: "string \<Rightarrow> stream_hasher res" where
  "CanonicalStreamHasher domain =
     (if domain = [] \<or> domain \<noteq> strip domain \<or> nul \<in> set domain then
        Inl (ValueError ''stream hash domain must be non-empty, trimmed and NUL-free'')
      else Inr \<lparr>sh_fed = utf8 domain @ [nul], sh_count = 0\<rparr>)"

definition append_canonical_bytes :: "stream_hasher \<Rightarrow> bytes \<Rightarrow> stream_hasher res" where
  "append_canonical_bytes h encoded =
     (if encoded = [] then Inl (ValueError ''canonical stream record must be non-empty bytes'')
      else bindE (to_bytes 8 (length encoded)) (\<lambda>framing.
        Inr (h\<lparr>sh_fed := sh_fed h @ framing @ encoded, sh_count := Suc (sh_count h)\<rparr>)))"

definition stream_append :: "stream_hasher \<Rightarrow> json \<Rightarrow> stream_hasher res" where
  "stream_append h v = bindE (canonical_json_bytes v) (append_canonical_bytes h)"

definition stream_digest :: "(bytes \<Rightarrow> string) \<Rightarrow> stream_hasher \<Rightarrow> digest res" where
  "stream_digest sha h = ContentDigest (sha (sh_fed h))"

definition stream_append_all :: "stream_hasher \<Rightarrow> json list \<Rightarrow> stream_hasher res" where
  "stream_append_all h vs = foldE stream_append h vs"

lemma big_endian_length [simp]: "length (big_endian k n) = k"
  by (induction k arbitrary: n) auto

lemma big_endian_inj: "m < 256 ^ k \<Longrightarrow> n < 256 ^ k \<Longrightarrow> big_endian k m = big_endian k n \<Longrightarrow> m = n"
proof (induction k arbitrary: m n)
  case (Suc k)
  then have "m div 256 < 256 ^ k" "n div 256 < 256 ^ k" by (simp_all add: less_mult_imp_div_less mult.commute)
  moreover have "big_endian k (m div 256) = big_endian k (n div 256)"
    and low: "char_of (m mod 256) = (char_of (n mod 256) :: char)"
    using Suc.prems(3) by simp_all
  ultimately have "m div 256 = n div 256" using Suc.IH by blast
  moreover have "m mod 256 = n mod 256"
    using arg_cong[OF low, of char_code] by (simp add: char_code_def)
  ultimately show ?case by (metis div_mult_mod_eq)
qed simp

definition frame :: "bytes \<Rightarrow> bytes" where
  "frame r = big_endian 8 (length r) @ r"

definition frame_ok :: "bytes \<Rightarrow> bool" where
  "frame_ok r \<longleftrightarrow> r \<noteq> [] \<and> length r < 256 ^ 8"

lemma append_canonical_bytes_Inr:
  "append_canonical_bytes h r = Inr h' \<longleftrightarrow>
     frame_ok r \<and> h' = h\<lparr>sh_fed := sh_fed h @ frame r, sh_count := Suc (sh_count h)\<rparr>"
  by (auto simp: append_canonical_bytes_def to_bytes_def frame_def frame_ok_def)

lemma frame_prefix_free:
  assumes "frame_ok r" "frame_ok s" "frame r @ a = frame s @ b"
  shows "r = s \<and> a = b"
proof -
  have "big_endian 8 (length r) = big_endian 8 (length s)" and rest: "r @ a = s @ b"
    using assms(3) unfolding frame_def by (simp_all add: append_eq_append_conv)
  then have "length r = length s"
    using assms(1,2) big_endian_inj[of "length r" 8 "length s"] by (simp add: frame_ok_def)
  with rest show ?thesis by simp
qed

lemma frames_inj:
  "list_all frame_ok rs \<Longrightarrow> list_all frame_ok ss \<Longrightarrow>
     concat (map frame rs) = concat (map frame ss) \<Longrightarrow> rs = ss"
proof (induction rs arbitrary: ss)
  case Nil
  then show ?case by (cases ss) (auto simp: frame_def frame_ok_def)
next
  case (Cons r rs)
  then obtain s ss' where ss: "ss = s # ss'"
    by (cases ss) (auto simp: frame_def frame_ok_def)
  with Cons.prems have "r = s \<and> concat (map frame rs) = concat (map frame ss')"
    using frame_prefix_free[of r s "concat (map frame rs)" "concat (map frame ss')"] by simp
  with Cons ss show ?case by simp
qed

text \<open>What a successful run of appends has fed the digest.\<close>

lemma stream_append_all_fed:
  "stream_append_all h vs = Inr h' \<Longrightarrow>
     list_all json_plain vs
     \<and> list_all (\<lambda>v. frame_ok (utf8 (render (jnorm v)))) vs
     \<and> sh_fed h' = sh_fed h @ concat (map (\<lambda>v. frame (utf8 (render (jnorm v)))) vs)
     \<and> sh_count h' = sh_count h + length vs"
  unfolding stream_append_all_def
  by (induction vs arbitrary: h)
     (auto simp: stream_append_def canonical_json_bytes_Inr append_canonical_bytes_Inr)

section \<open>Totality of the stream\<close>

text \<open>
  A bound on the encoded length that is cheap to evaluate: a value without floating-point leaves and
  with a small weight is always accepted by a stream.
\<close>

lemma decimal_length: "length (decimal n) \<le> Suc n"
proof (induction n rule: decimal.induct)
  case (1 n)
  show ?case
  proof (cases "n < 10")
    case True then show ?thesis by (subst decimal.simps) simp
  next
    case False
    then have "n div 10 < n" by simp
    with 1[OF False] False show ?thesis by (subst decimal.simps) simp
  qed
qed

fun json_weight :: "json \<Rightarrow> nat" where
  "json_weight JNull = 4"
| "json_weight (JBool b) = 5"
| "json_weight (JInt i) = nat \<bar>i\<bar> + 2"
| "json_weight (JStr s) = 6 * length s + 2"
| "json_weight (JArr vs) = sum_list (map (\<lambda>v. Suc (json_weight v)) vs) + 2"
| "json_weight (JObj kvs) = sum_list (map (\<lambda>(k, v). 6 * length k + 4 + json_weight v) kvs) + 2"
| "json_weight JFloat = 0"
| "json_weight JOther = 0"

lemma escape_char_length: "length (escape_char c) \<le> 6"
  by (simp add: escape_char_def Let_def)

lemma quote_length: "length (quote s) \<le> 6 * length s + 2"
proof -
  have "length (concat (map escape_char s)) \<le> 6 * length s"
    using escape_char_length by (induction s) (simp_all add: add_mono)
  then show ?thesis by (simp add: quote_def)
qed

lemma join_comma_length: "length (join_comma ss) \<le> sum_list (map (\<lambda>s. Suc (length s)) ss)"
  by (induction ss rule: join_comma.induct) simp_all

lemma sum_list_sort: "sum_list (map f (sort_key k xs)) = (sum_list (map f xs) :: nat)"
  by (metis mset_map mset_sort sum_mset_sum_list)

lemma dumps_length: "length (dumps v) \<le> json_weight v"
proof (induction v rule: dumps.induct)
  case (3 i) show ?case using decimal_length[of "nat i"] decimal_length[of "nat (- i)"] by (auto simp: int_repr_def)
next
  case (4 s) show ?case using quote_length[of s] by simp
next
  case (5 vs)
  have "sum_list (map (\<lambda>s. Suc (length s)) (map dumps vs)) \<le> sum_list (map (\<lambda>v. Suc (json_weight v)) vs)"
    unfolding map_map comp_def using 5 by (intro sum_list_mono) simp
  with join_comma_length[of "map dumps vs"] show ?case by simp
next
  case (6 kvs)
  let ?f = "\<lambda>(k, s). quote k @ CHR '':'' # s"
  have "sum_list (map (\<lambda>s. Suc (length s)) (map ?f (sort_key fst (map (\<lambda>(k, v). (k, dumps v)) kvs))))
     = sum_list (map (\<lambda>(k, v). Suc (length (?f (k, dumps v)))) kvs)"
    unfolding map_map by (subst sum_list_sort) (simp add: comp_def case_prod_unfold)
  also have "\<dots> \<le> sum_list (map (\<lambda>(k, v). 6 * length k + 4 + json_weight v) kvs)"
  proof (rule sum_list_mono)
    fix x assume "x \<in> set kvs"
    moreover obtain k v where x: "x = (k, v)" by (cases x)
    ultimately have "length (dumps v) \<le> json_weight v" using 6[of x k v] by blast
    then show "(case x of (k, v) \<Rightarrow> Suc (length (?f (k, dumps v)))) \<le> (case x of (k, v) \<Rightarrow> 6 * length k + 4 + json_weight v)"
      using quote_length[of k] by (simp add: x)
  qed
  finally show ?case using join_comma_length[of "map ?f (sort_key fst (map (\<lambda>(k, v). (k, dumps v)) kvs))"] by simp
qed simp_all

lemma utf8_length: "length (utf8 s) \<le> 2 * length s" and utf8_Nil: "utf8 s = [] \<longleftrightarrow> s = []"
  by (induction s) (auto simp: utf8_def utf8_char_def Let_def split: if_splits)

definition stream_fed :: "stream_hasher \<Rightarrow> json \<Rightarrow> stream_hasher" where
  "stream_fed h v = h\<lparr>sh_fed := sh_fed h @ frame (utf8 (dumps v)), sh_count := Suc (sh_count h)\<rparr>"

lemma sh_count_fed [simp]: "sh_count (stream_fed h v) = Suc (sh_count h)"
  by (simp add: stream_fed_def)

lemma stream_append_fed:
  assumes "json_validate v = Inr ()" and "json_weight v < 1000000000000" and "0 < json_weight v"
  shows "stream_append h v = Inr (stream_fed h v)"
proof -
  have "dumps v \<noteq> []"
    using assms(1,3) decimal_Cons[of "nat (case v of JInt i \<Rightarrow> i | _ \<Rightarrow> 0)"]
    by (cases v) (auto simp: quote_def int_repr_def)
  moreover have "length (utf8 (dumps v)) < 256 ^ 8"
    using utf8_length[of "dumps v"] dumps_length[of v] assms(2) by simp
  ultimately have "frame_ok (utf8 (dumps v))" by (simp add: frame_ok_def utf8_Nil)
  then show ?thesis
    using assms(1) by (simp add: stream_append_def canonical_json_bytes_def append_canonical_bytes_Inr stream_fed_def)
qed

section \<open>Properties\<close>

text \<open>C31: The canonical encoding determines the value: two values with the same canonical bytes are
  equal up to the order in which object keys were inserted, at every depth.\<close>

theorem canonical_json_injective:
  assumes "canonical_json_bytes v = Inr x" and "canonical_json_bytes w = Inr x"
  shows "jnorm v = jnorm w"
proof -
  from assms have "json_plain v" "json_plain w" "utf8 (render (jnorm v)) = utf8 (render (jnorm w))"
    by (simp_all add: canonical_json_bytes_Inr)
  then show ?thesis using render_inj jnorm_plain utf8_inj by blast
qed

theorem canonical_json_injective_witness:
  "canonical_json_bytes (JObj [(''b'', JInt (-12)), (''a'', JArr [JNull, JBool True])])
     = Inr (utf8 (dumps (JObj [(''a'', JArr [JNull, JBool True]), (''b'', JInt (-12))])))
   \<and> jnorm (JObj [(''b'', JInt (-12)), (''a'', JArr [JNull, JBool True])])
     = jnorm (JObj [(''a'', JArr [JNull, JBool True]), (''b'', JInt (-12))])"
proof -
  let ?v = "JObj [(''b'', JInt (-12)), (''a'', JArr [JNull, JBool True])]"
  let ?w = "JObj [(''a'', JArr [JNull, JBool True]), (''b'', JInt (-12))]"
  have v: "canonical_json_bytes ?v = Inr (utf8 (dumps ?w))" by (simp add: canonical_json_bytes_def)
  have w: "canonical_json_bytes ?w = Inr (utf8 (dumps ?w))" by (simp add: canonical_json_bytes_def)
  show ?thesis using v canonical_json_injective[OF v w] by blast
qed

text \<open>C34: Record boundaries of a hashed stream cannot be ambiguous: two runs of appends on hashers of
  one domain that fed SHA-256 the same bytes appended the same sequence of records (up to key
  order), and their counts agree.\<close>

theorem stream_framing_injective:
  assumes "CanonicalStreamHasher domain = Inr h"
    and "stream_append_all h vs = Inr h1" and "stream_append_all h ws = Inr h2"
    and "sh_fed h1 = sh_fed h2"
  shows "map jnorm vs = map jnorm ws \<and> sh_count h1 = sh_count h2"
proof -
  let ?enc = "\<lambda>v. utf8 (render (jnorm v))"
  note vs = stream_append_all_fed[OF assms(2)] and ws = stream_append_all_fed[OF assms(3)]
  have "concat (map frame (map ?enc vs)) = concat (map frame (map ?enc ws))"
    using vs ws assms(4) by (simp add: comp_def)
  then have eq: "map ?enc vs = map ?enc ws"
    using vs ws by (intro frames_inj) (simp_all add: list_all_iff)
  have "map jnorm vs = map jnorm ws"
  proof (rule nth_equalityI)
    show len: "length (map jnorm vs) = length (map jnorm ws)"
      using eq by (metis length_map)
    fix i assume i: "i < length (map jnorm vs)"
    then have "?enc (vs ! i) = ?enc (ws ! i)" using eq len by (metis length_map nth_map)
    then have "render (jnorm (vs ! i)) = render (jnorm (ws ! i))" by (rule utf8_inj)
    moreover have "json_plain (jnorm (vs ! i))" "json_plain (jnorm (ws ! i))"
      using vs ws i len by (auto simp: list_all_length intro: jnorm_plain)
    ultimately have "jnorm (vs ! i) = jnorm (ws ! i)" by (intro render_inj)
    then show "map jnorm vs ! i = map jnorm ws ! i" using i len by simp
  qed
  moreover from this have "length vs = length ws" by (metis length_map)
  ultimately show ?thesis using vs ws by simp
qed

theorem stream_framing_injective_witness:
  "\<exists>h h1 h2. CanonicalStreamHasher ''d'' = Inr h
     \<and> stream_append_all h [JObj [(''b'', JNull), (''a'', JNull)]] = Inr h1
     \<and> stream_append_all h [JObj [(''a'', JNull), (''b'', JNull)]] = Inr h2
     \<and> map jnorm [JObj [(''b'', JNull), (''a'', JNull)]]
         = map jnorm [JObj [(''a'', JNull), (''b'', JNull)]]
     \<and> sh_count h1 = sh_count h2"
proof -
  let ?v = "JObj [(''b'', JNull), (''a'', JNull)]" and ?w = "JObj [(''a'', JNull), (''b'', JNull)]"
  define h where "h = \<lparr>sh_fed = utf8 ''d'' @ [nul], sh_count = 0\<rparr>"
  have dom: "CanonicalStreamHasher ''d'' = Inr h"
    by (simp add: CanonicalStreamHasher_def strip_def is_space_def nul_def h_def)
  have ok: "frame_ok (utf8 (dumps ?w))"
    by (simp add: frame_ok_def quote_def escape_char_def char_code_def utf8_def utf8_char_def)
  have same: "canonical_json_bytes ?v = Inr (utf8 (dumps ?w))"
    "canonical_json_bytes ?w = Inr (utf8 (dumps ?w))"
    by (simp_all add: canonical_json_bytes_def)
  obtain h1 where h1: "stream_append_all h [?v] = Inr h1" "stream_append_all h [?w] = Inr h1"
    using ok by (auto simp: stream_append_all_def stream_append_def same append_canonical_bytes_Inr
        simp del: dumps.simps)
  from stream_framing_injective[OF dom h1(1) h1(2) refl] dom h1 show ?thesis by blast
qed

end
