(* ===== verification/Causal_Data.thy ===== *)
theory Causal_Data
  imports Chain Canonical_Json
begin

text \<open>
  Point-in-time inputs of a strategy: the as-of scalar overlay (\<^verbatim>\<open>engine/causal_data.py\<close>) and the
  keyed random draws (\<^verbatim>\<open>engine/rng.py\<close>). A scalar provider is a function from a name, an entity and
  a boundary; HMAC-SHA-256 is a parameter \<open>hmac\<close> from key and message to the tag.
\<close>

section \<open>Scalar rows and the in-memory provider\<close>

record causal_scalar_row =
  cr_name :: string
  cr_entity_id :: int
  cr_available :: int
  cr_value :: "int option"

definition CausalScalarRow :: "string \<Rightarrow> int \<Rightarrow> int \<Rightarrow> int option \<Rightarrow> causal_scalar_row res" where
  "CausalScalarRow name entity available v =
     (if name = [] \<or> name \<noteq> strip name then
        Inl (ValueError ''scalar name must be non-empty and trimmed'')
      else if entity < 0 \<or> available < 0 then
        Inl (ValueError ''scalar coordinates must be non-negative'')
      else Inr \<lparr>cr_name = name, cr_entity_id = entity, cr_available = available, cr_value = v\<rparr>)"

definition row_coordinates :: "causal_scalar_row \<Rightarrow> string \<times> int \<times> int" where
  "row_coordinates r = (cr_name r, cr_entity_id r, cr_available r)"

definition row_key :: "causal_scalar_row \<Rightarrow> string \<times> int" where
  "row_key r = (cr_name r, cr_entity_id r)"

type_synonym scalar_provider = "(string \<times> int, causal_scalar_row list) dict"

definition group_rows :: "causal_scalar_row list \<Rightarrow> scalar_provider" where
  "group_rows rows = foldl (\<lambda>grouped r.
     dict_set (row_key r) (dict_get_default grouped (row_key r) [] @ [r]) grouped) [] rows"

definition InMemoryCausalScalarProvider :: "causal_scalar_row list \<Rightarrow> scalar_provider res" where
  "InMemoryCausalScalarProvider rows =
     (if sort_key row_coordinates rows \<noteq> rows then
        Inl (ValueError ''causal scalar rows must be in canonical order'')
      else if \<not> distinct (map row_coordinates rows) then
        Inl (ValueError ''causal scalar coordinates must be unique'')
      else Inr (group_rows rows))"

definition value_at :: "scalar_provider \<Rightarrow> string \<Rightarrow> int \<Rightarrow> int \<Rightarrow> int option res" where
  "value_at p name entity boundary =
     (if boundary < 0 then Inl (ValueError ''decision boundary must be non-negative'')
      else
        (let rows = dict_get_default p (name, entity) [];
             position = int (bisect_right (map cr_available rows) boundary) - 1 in
         Inr (if position < 0 then None else cr_value (rows ! nat position))))"

definition empty_value_at :: "string \<Rightarrow> int \<Rightarrow> int \<Rightarrow> int option res" where
  "empty_value_at name entity boundary = Inr None"

section \<open>The boundary-bound view\<close>

record causal_scalar_view =
  cv_provider :: "string \<Rightarrow> int \<Rightarrow> int \<Rightarrow> int option res"
  cv_boundary :: int
  cv_bound_entity :: "int option"

definition CausalScalarView ::
  "(string \<Rightarrow> int \<Rightarrow> int \<Rightarrow> int option res) \<Rightarrow> int \<Rightarrow> int option \<Rightarrow> causal_scalar_view res" where
  "CausalScalarView provider boundary bound_entity =
     (if boundary < 0 then Inl (ValueError ''view boundary must be non-negative'')
      else if (case bound_entity of None \<Rightarrow> False | Some e \<Rightarrow> e < 0) then
        Inl (ValueError ''bound entity ID must be non-negative'')
      else Inr \<lparr>cv_provider = provider, cv_boundary = boundary, cv_bound_entity = bound_entity\<rparr>)"

definition view_value :: "causal_scalar_view \<Rightarrow> string \<Rightarrow> int \<Rightarrow> int option res" where
  "view_value v name entity =
     (if name = [] \<or> name \<noteq> strip name then
        Inl (ValueError ''scalar name must be non-empty and trimmed'')
      else if entity < 0 then Inl (ValueError ''entity_id must be non-negative'')
      else cv_provider v name entity (cv_boundary v))"

definition view_current :: "causal_scalar_view \<Rightarrow> string \<Rightarrow> int option res" where
  "view_current v name =
     (case cv_bound_entity v of
        None \<Rightarrow> Inl (RuntimeError ''causal scalar view is not bound to a current event row'')
      | Some e \<Rightarrow> view_value v name e)"

section \<open>Keyed random draws\<close>

fun unhex :: "string \<Rightarrow> bytes" where
  "unhex (a # b # s) = char_of (16 * hex_value a + hex_value b) # unhex s"
| "unhex _ = []"

definition from_bytes_big :: "bytes \<Rightarrow> nat" where
  "from_bytes_big bs = foldl (\<lambda>acc b. acc * 256 + char_code b) 0 bs"

definition KeyedRng :: "int \<Rightarrow> int res" where
  "KeyedRng root_seed =
     (if \<not> (0 \<le> root_seed \<and> root_seed < 2 ^ 256) then
        Inl (ValueError ''root_seed must be an unsigned 256-bit integer'')
      else Inr root_seed)"

definition rng_label :: bytes where
  "rng_label = ''local-backtest/rng/v1'' @ [nul]"

text \<open>The HMAC key and message of one draw.\<close>

definition draw_input :: "int \<Rightarrow> digest \<Rightarrow> digest \<Rightarrow> int \<Rightarrow> (bytes \<times> bytes) res" where
  "draw_input root_seed component_id causal_id draw_index =
     (if draw_index < 0 then Inl (ValueError ''draw_index must be a non-negative integer'')
      else bindE (to_bytes 32 (nat root_seed)) (\<lambda>key.
        bindE (to_bytes 16 (nat draw_index)) (\<lambda>index.
          Inr (key, rng_label @ unhex (digest_hex component_id) @ unhex (digest_hex causal_id) @ index))))"

definition draw_bytes ::
  "(bytes \<Rightarrow> bytes \<Rightarrow> bytes) \<Rightarrow> int \<Rightarrow> digest \<Rightarrow> digest \<Rightarrow> int \<Rightarrow> bytes res" where
  "draw_bytes hmac root_seed component_id causal_id draw_index =
     bindE (draw_input root_seed component_id causal_id draw_index) (\<lambda>(key, message).
       Inr (hmac key message))"

definition draw_u64 ::
  "(bytes \<Rightarrow> bytes \<Rightarrow> bytes) \<Rightarrow> int \<Rightarrow> digest \<Rightarrow> digest \<Rightarrow> int \<Rightarrow> nat res" where
  "draw_u64 hmac root_seed component_id causal_id draw_index =
     bindE (draw_bytes hmac root_seed component_id causal_id draw_index) (\<lambda>tag.
       Inr (from_bytes_big (take 8 tag)))"

section \<open>Lemmas\<close>

lemma group_rows_get:
  "dict_get_default (group_rows rows) k [] = filter (\<lambda>r. row_key r = k) rows"
proof -
  have "dict_get_default (foldl (\<lambda>grouped r. dict_set (row_key r)
          (dict_get_default grouped (row_key r) [] @ [r]) grouped) d rows) k []
        = dict_get_default d k [] @ filter (\<lambda>r. row_key r = k) rows" for d
    by (induction rows arbitrary: d) (auto simp: dict_get_default_set)
  from this[of "[]"] show ?thesis by (simp add: group_rows_def)
qed

lemma provider_rows_sorted:
  assumes "InMemoryCausalScalarProvider rows = Inr p"
  shows "sorted (map cr_available (filter (\<lambda>r. row_key r = k) rows))"
proof -
  have "sorted (map row_coordinates rows)"
  proof -
    have "sort_key row_coordinates rows = rows"
      using assms by (simp add: InMemoryCausalScalarProvider_def split: if_splits)
    with sorted_sort_key[of row_coordinates rows] show ?thesis by simp
  qed
  then have "sorted_wrt (\<lambda>r s. row_coordinates r \<le> row_coordinates s) rows"
    by (simp add: sorted_map)
  then show ?thesis
    by (induction rows) (auto simp: row_coordinates_def row_key_def less_eq_prod_def less_prod_def)
qed

lemma filter_prefix:
  fixes b :: "'k :: linorder"
  assumes "splits_at (\<lambda>y. b < y) (map f xs) 0 k"
  shows "filter (\<lambda>x. f x \<le> b) xs = take k xs"
proof -
  have k: "k \<le> length xs"
    using splits_at_le[OF assms] by simp
  have "filter (\<lambda>x. f x \<le> b) (take k xs) = take k xs"
  proof -
    have "f x \<le> b" if "x \<in> set (take k xs)" for x
      using assms k that by (auto simp: splits_at_def in_set_conv_nth not_less)
    then show ?thesis by (simp add: filter_id_conv)
  qed
  moreover have "filter (\<lambda>x. f x \<le> b) (drop k xs) = []"
  proof -
    have "\<not> f x \<le> b" if "x \<in> set (drop k xs)" for x
      using assms k that by (auto simp: splits_at_def in_set_conv_nth not_le)
    then show ?thesis by (auto simp: filter_empty_conv)
  qed
  ultimately show ?thesis
    by (metis append_Nil2 append_take_drop_id filter_append)
qed

lemma value_at_spec:
  assumes "InMemoryCausalScalarProvider rows = Inr p" and "0 \<le> b"
  shows "value_at p name entity b = Inr
    (case filter (\<lambda>r. row_key r = (name, entity) \<and> cr_available r \<le> b) rows of
       [] \<Rightarrow> None | r # rs \<Rightarrow> cr_value (last (r # rs)))"
proof -
  let ?rows = "filter (\<lambda>r. row_key r = (name, entity)) rows"
  let ?k = "bisect_right (map cr_available ?rows) b"
  have p: "dict_get_default p (name, entity) [] = ?rows"
    using assms(1) group_rows_get by (auto simp: InMemoryCausalScalarProvider_def split: if_splits)
  have split: "splits_at (\<lambda>y. b < y) (map cr_available ?rows) 0 ?k"
    using provider_rows_sorted[OF assms(1)] by (rule bisect_right_spec)
  have take: "filter (\<lambda>r. row_key r = (name, entity) \<and> cr_available r \<le> b) rows = take ?k ?rows"
    using filter_prefix[OF split] by (simp add: conj_commute)
  have k: "?k \<le> length ?rows"
    using splits_at_le[OF split] by simp
  show ?thesis
  proof (cases ?k)
    case 0
    then show ?thesis using assms(2) by (simp add: value_at_def p take Let_def)
  next
    case (Suc n)
    then have "take ?k ?rows \<noteq> []" "last (take ?k ?rows) = ?rows ! n"
      using k by (auto simp: take_Suc_conv_app_nth)
    then show ?thesis
      using assms(2) Suc by (cases "take ?k ?rows") (auto simp: value_at_def p take Let_def)
  qed
qed

lemma sixteen_bound: "(m :: nat) < 16 \<Longrightarrow> n < 16 \<Longrightarrow> 16 * m + n < 256"
  by simp

lemma sixteen_inj:
  assumes "(n :: nat) < 16" "y < 16" "16 * m + n = 16 * x + y"
  shows "m = x \<and> n = y"
proof -
  have "(16 * m + n) div 16 = m" "(16 * x + y) div 16 = x"
    using assms(1,2) by simp_all
  with assms(3) show ?thesis by simp
qed

lemma unhex_length: "length (unhex s) = length s div 2"
  by (induction s rule: unhex.induct) auto

lemma hex_value_lt: "is_lower_hex c \<Longrightarrow> hex_value c < 16"
  by (auto simp: is_lower_hex_def hex_value_def Let_def)

lemma hex_value_inj: "is_lower_hex c \<Longrightarrow> is_lower_hex d \<Longrightarrow> hex_value c = hex_value d \<Longrightarrow> c = d"
  by (auto simp: is_lower_hex_def hex_value_def Let_def char_code_inject [symmetric] split: if_splits)

lemma unhex_inj:
  "list_all is_lower_hex s \<Longrightarrow> list_all is_lower_hex t \<Longrightarrow> even (length s) \<Longrightarrow> even (length t) \<Longrightarrow>
     unhex s = unhex t \<Longrightarrow> s = t"
proof (induction s arbitrary: t rule: unhex.induct)
  case (1 a b s)
  then obtain x y u where t: "t = x # y # u"
    by (cases t rule: unhex.cases) auto
  have hex: "is_lower_hex a" "is_lower_hex b" "is_lower_hex x" "is_lower_hex y"
    using "1.prems"(1,2) t by simp_all
  have code: "char_code (char_of (16 * hex_value a + hex_value b)) = char_code (char_of (16 * hex_value x + hex_value y))"
    and rest: "unhex s = unhex u"
    using "1.prems"(5) unfolding t unhex.simps(1) by (simp_all only: list.inject)
  have "16 * hex_value a + hex_value b = 16 * hex_value x + hex_value y"
    using code by (simp only: char_code_char_of[OF sixteen_bound[OF hex_value_lt[OF hex(1)] hex_value_lt[OF hex(2)]]]
        char_code_char_of[OF sixteen_bound[OF hex_value_lt[OF hex(3)] hex_value_lt[OF hex(4)]]])
  then have "hex_value a = hex_value x" "hex_value b = hex_value y"
    using sixteen_inj[OF hex_value_lt[OF hex(2)] hex_value_lt[OF hex(4)]] by simp_all
  then have "a = x" "b = y" using hex hex_value_inj by simp_all
  with "1.IH"[OF _ _ _ _ rest] "1.prems" t show ?case by simp
next
  case "2_1"
  then show ?case by (cases t rule: unhex.cases) auto
qed auto

text \<open>Two valid digests are the same 32 bytes exactly when their hexadecimal digits agree.\<close>

lemma digest_hex_valid:
  "ContentDigest d = Inr e \<Longrightarrow> length (digest_hex d) = 64 \<and> list_all is_lower_hex (digest_hex d)"
  by (auto simp: ContentDigest_def sha256_re_def Let_def dest!: Identifier_Inr split: if_splits)

section \<open>Properties\<close>

text \<open>C33: A scalar read through a boundary-bound view never depends on the future: two providers whose
  rows agree on everything available at or before the view's boundary answer every read alike, and
  the answer is the latest row available by then.\<close>

theorem scalar_view_no_lookahead:
  assumes "InMemoryCausalScalarProvider rows = Inr p" and "InMemoryCausalScalarProvider rows' = Inr p'"
    and "filter (\<lambda>r. cr_available r \<le> b) rows = filter (\<lambda>r. cr_available r \<le> b) rows'"
    and "CausalScalarView (value_at p) b bound = Inr v"
    and "CausalScalarView (value_at p') b bound = Inr v'"
  shows "view_value v name entity = view_value v' name entity
    \<and> view_current v name = view_current v' name
    \<and> (view_value v name entity = Inr x \<longrightarrow>
        x = (case filter (\<lambda>r. cr_name r = name \<and> cr_entity_id r = entity \<and> cr_available r \<le> b) rows of
               [] \<Rightarrow> None | r # rs \<Rightarrow> cr_value (last (r # rs))))"
proof -
  have b: "0 \<le> b"
    and v: "v = \<lparr>cv_provider = value_at p, cv_boundary = b, cv_bound_entity = bound\<rparr>"
      "v' = \<lparr>cv_provider = value_at p', cv_boundary = b, cv_bound_entity = bound\<rparr>"
    using assms(4,5) by (auto simp: CausalScalarView_def split: if_splits)
  have split: "filter (\<lambda>r. row_key r = k \<and> cr_available r \<le> b) xs
      = filter (\<lambda>r. row_key r = k) (filter (\<lambda>r. cr_available r \<le> b) xs)" for k xs
    by (simp add: conj_commute)
  have "value_at p n e b = value_at p' n e b" for n e
    unfolding value_at_spec[OF assms(1) b] value_at_spec[OF assms(2) b] split assms(3) ..
  then show ?thesis
    using value_at_spec[OF assms(1) b, of name entity]
    by (auto simp: v view_value_def view_current_def row_key_def split: option.split)
qed

theorem scalar_view_no_lookahead_witness:
  "\<exists>p p' v v'. InMemoryCausalScalarProvider
       [\<lparr>cr_name = ''x'', cr_entity_id = 1, cr_available = 3, cr_value = Some 30\<rparr>,
        \<lparr>cr_name = ''x'', cr_entity_id = 1, cr_available = 9, cr_value = Some 90\<rparr>] = Inr p
     \<and> InMemoryCausalScalarProvider
       [\<lparr>cr_name = ''x'', cr_entity_id = 1, cr_available = 3, cr_value = Some 30\<rparr>] = Inr p'
     \<and> CausalScalarView (value_at p) 8 None = Inr v \<and> CausalScalarView (value_at p') 8 None = Inr v'
     \<and> view_value v ''x'' 1 = view_value v' ''x'' 1 \<and> view_value v' ''x'' 1 = Inr (Some 30)"
proof -
  let ?r = "\<lparr>cr_name = ''x'', cr_entity_id = 1, cr_available = 3, cr_value = Some 30\<rparr>"
  let ?s = "\<lparr>cr_name = ''x'', cr_entity_id = 1, cr_available = 9, cr_value = Some 90\<rparr>"
  obtain p where p: "InMemoryCausalScalarProvider [?r, ?s] = Inr p"
    by (simp add: InMemoryCausalScalarProvider_def row_coordinates_def)
  obtain p' where p': "InMemoryCausalScalarProvider [?r] = Inr p'"
    by (simp add: InMemoryCausalScalarProvider_def row_coordinates_def)
  obtain v where v: "CausalScalarView (value_at p) 8 None = Inr v"
    by (simp add: CausalScalarView_def)
  obtain v' where v': "CausalScalarView (value_at p') 8 None = Inr v'"
    by (simp add: CausalScalarView_def)
  have "view_value v' ''x'' 1 = Inr (Some 30)"
    using v' value_at_spec[OF p', of 8 "''x''" 1]
    by (auto simp: CausalScalarView_def view_value_def row_key_def strip_def is_space_def)
  moreover have "filter (\<lambda>r. cr_available r \<le> 8) [?r, ?s] = filter (\<lambda>r. cr_available r \<le> 8) [?r]"
    by simp
  note scalar_view_no_lookahead[OF p p' this v v', of "''x''" 1]
  ultimately show ?thesis using p p' v v' by blast
qed

text \<open>C35: Keyed draws never reuse an input: two draws feed the same key and message to HMAC only if they
  have the same root seed, component, causal identity and draw index.\<close>

theorem keyed_draw_injective:
  assumes "KeyedRng seed = Inr s" and "KeyedRng seed' = Inr s'"
    and "ContentDigest c = Inr c" and "ContentDigest c' = Inr c'"
    and "ContentDigest d = Inr d" and "ContentDigest d' = Inr d'"
    and "draw_input s c d i = Inr km" and "draw_input s' c' d' i' = Inr km"
  shows "seed = seed' \<and> digest_hex c = digest_hex c' \<and> digest_hex d = digest_hex d' \<and> i = i'"
proof -
  have seeds: "s = seed" "s' = seed'" "0 \<le> seed" "0 \<le> seed'"
    using assms(1,2) by (auto simp: KeyedRng_def split: if_splits)
  have dig: "length (digest_hex x) = 64 \<and> list_all is_lower_hex (digest_hex x)"
    if "x \<in> {c, c', d, d'}" for x
    using that assms(3-6) digest_hex_valid by blast
  have len: "length (unhex (digest_hex x)) = 32" if "x \<in> {c, c', d, d'}" for x
    using dig[OF that] by (simp add: unhex_length)
  obtain key index where r: "0 \<le> i" "to_bytes 32 (nat s) = Inr key" "to_bytes 16 (nat i) = Inr index"
    "km = (key, rng_label @ unhex (digest_hex c) @ unhex (digest_hex d) @ index)"
    using assms(7) by (auto simp: draw_input_def split: if_splits)
  obtain key' index' where r': "0 \<le> i'" "to_bytes 32 (nat s') = Inr key'" "to_bytes 16 (nat i') = Inr index'"
    "km = (key', rng_label @ unhex (digest_hex c') @ unhex (digest_hex d') @ index')"
    using assms(8) by (auto simp: draw_input_def split: if_splits)
  have "key = key'" "unhex (digest_hex c) = unhex (digest_hex c')"
    "unhex (digest_hex d) = unhex (digest_hex d')" "index = index'"
    using r(4) r'(4) len by auto
  moreover have inj: "m = n" if "to_bytes k m = Inr x" "to_bytes k n = Inr x" for k m n x
    using that big_endian_inj[of m k n] by (auto simp: to_bytes_def split: if_splits)
  ultimately have "nat s = nat s'" "nat i = nat i'"
    using inj[OF r(2)] inj[OF r(3)] r'(2,3) by auto
  moreover have "digest_hex x = digest_hex y"
    if "unhex (digest_hex x) = unhex (digest_hex y)" "x \<in> {c, c', d, d'}" "y \<in> {c, c', d, d'}" for x y
    using unhex_inj[OF _ _ _ _ that(1)] dig[OF that(2)] dig[OF that(3)] by simp
  ultimately show ?thesis
    using r(1) r'(1) seeds \<open>unhex (digest_hex c) = _\<close> \<open>unhex (digest_hex d) = _\<close> by auto
qed

theorem keyed_draw_injective_witness:
  "\<exists>km. draw_input 7 (replicate 64 CHR ''a'') (replicate 64 CHR ''b'') 3 = Inr km
     \<and> digest_hex (replicate 64 CHR ''a'') = digest_hex (replicate 64 CHR ''a'')
     \<and> (3 :: int) = 3"
proof -
  have dig: "ContentDigest (replicate 64 c) = Inr (replicate 64 c)" if "c = CHR ''a'' \<or> c = CHR ''b''" for c
    using that by (auto simp: ContentDigest_def Identifier_def sha256_re_def digest_hex_def sha256_prefix_def
        strip_def is_space_def is_lower_hex_def char_code_def numeral_eq_Suc)
  obtain km where km: "draw_input 7 (replicate 64 CHR ''a'') (replicate 64 CHR ''b'') 3 = Inr km"
    by (simp add: draw_input_def to_bytes_def)
  show ?thesis
    using keyed_draw_injective[of 7 7 7 7, OF _ _ dig dig dig dig km km] km by (auto simp: KeyedRng_def)
qed

end
