(* ===== verification/Fidelity.thy ===== *)
theory Fidelity
  imports Identifiers
begin

text \<open>
  The fidelity vocabulary a dataset advertises and a plugin requires (\<^verbatim>\<open>domain/fidelity.py\<close>). Every
  enumeration is ranked by its declaration order, which is the list of its members.
\<close>

section \<open>Rankings\<close>

definition rank_index :: "'a list \<Rightarrow> 'a \<Rightarrow> nat" where
  "rank_index members x = (case index_of members x of Some i \<Rightarrow> i | None \<Rightarrow> length members)"

text \<open>\<^verbatim>\<open>max(items, key=...)\<close> of a non-empty sequence: the first element of the greatest key.\<close>

definition max_by :: "('a \<Rightarrow> nat) \<Rightarrow> 'a list \<Rightarrow> 'a" where
  "max_by key xs = foldl (\<lambda>best x. if key best < key x then x else best) (hd xs) (tl xs)"

datatype identity_fidelity = ID_UNKNOWN | ID_AMBIGUOUS | ID_CANDIDATE | ID_EXACT
datatype ordering_fidelity = ORD_UNKNOWN | TRANSACTION_PARTIAL | TRANSACTION_EXACT | INSTRUCTION_EXACT
datatype state_fidelity = STATE_NONE | AFTER_ONLY | RECONSTRUCTABLE | BEFORE_AFTER
datatype fees_fidelity = FEES_UNKNOWN | TOTAL_ONLY | COMPONENTS
datatype chain_finality = FINALITY_UNKNOWN | CONFIRMED | FINALIZED
datatype ingestion_completeness = COMPLETENESS_UNKNOWN | COMPLETENESS_PARTIAL | COMPLETE_TO_WATERMARK
datatype source_consistency = CONSISTENCY_UNKNOWN | BEST_EFFORT | SNAPSHOT_CONSISTENT

definition identity_members :: "(identity_fidelity \<times> string) list" where
  "identity_members = [(ID_UNKNOWN, ''UNKNOWN''), (ID_AMBIGUOUS, ''AMBIGUOUS''),
     (ID_CANDIDATE, ''CANDIDATE''), (ID_EXACT, ''EXACT'')]"

definition ordering_members :: "(ordering_fidelity \<times> string) list" where
  "ordering_members = [(ORD_UNKNOWN, ''UNKNOWN''), (TRANSACTION_PARTIAL, ''TRANSACTION_PARTIAL''),
     (TRANSACTION_EXACT, ''TRANSACTION_EXACT''), (INSTRUCTION_EXACT, ''INSTRUCTION_EXACT'')]"

definition state_members :: "(state_fidelity \<times> string) list" where
  "state_members = [(STATE_NONE, ''NONE''), (AFTER_ONLY, ''AFTER_ONLY''),
     (RECONSTRUCTABLE, ''RECONSTRUCTABLE''), (BEFORE_AFTER, ''BEFORE_AFTER'')]"

definition fees_members :: "(fees_fidelity \<times> string) list" where
  "fees_members = [(FEES_UNKNOWN, ''UNKNOWN''), (TOTAL_ONLY, ''TOTAL_ONLY''), (COMPONENTS, ''COMPONENTS'')]"

definition finality_members :: "(chain_finality \<times> string) list" where
  "finality_members = [(FINALITY_UNKNOWN, ''UNKNOWN''), (CONFIRMED, ''CONFIRMED''), (FINALIZED, ''FINALIZED'')]"

definition completeness_members :: "(ingestion_completeness \<times> string) list" where
  "completeness_members = [(COMPLETENESS_UNKNOWN, ''UNKNOWN''), (COMPLETENESS_PARTIAL, ''PARTIAL''),
     (COMPLETE_TO_WATERMARK, ''COMPLETE_TO_WATERMARK'')]"

definition consistency_members :: "(source_consistency \<times> string) list" where
  "consistency_members = [(CONSISTENCY_UNKNOWN, ''UNKNOWN''), (BEST_EFFORT, ''BEST_EFFORT''),
     (SNAPSHOT_CONSISTENT, ''SNAPSHOT_CONSISTENT'')]"

definition member_rank :: "('a \<times> string) list \<Rightarrow> 'a \<Rightarrow> nat" where
  "member_rank members = rank_index (map fst members)"

definition member_value :: "('a \<times> string) list \<Rightarrow> 'a \<Rightarrow> string" where
  "member_value members x = dict_get_default members x ''''"

section \<open>Requirements, sources and gaps\<close>

record fidelity =
  fd_identity :: identity_fidelity
  fd_ordering :: ordering_fidelity
  fd_state :: state_fidelity
  fd_fees :: fees_fidelity
  fd_chain_finality :: chain_finality
  fd_completeness :: ingestion_completeness
  fd_consistency :: source_consistency

type_synonym fidelity_requirement = fidelity
type_synonym source_fidelity = fidelity

record fidelity_gap =
  fg_field :: string
  fg_required :: string
  fg_available :: string

definition default_requirement :: fidelity_requirement where
  "default_requirement = \<lparr>fd_identity = ID_UNKNOWN, fd_ordering = ORD_UNKNOWN, fd_state = STATE_NONE,
     fd_fees = FEES_UNKNOWN, fd_chain_finality = FINALITY_UNKNOWN,
     fd_completeness = COMPLETENESS_UNKNOWN, fd_consistency = CONSISTENCY_UNKNOWN\<rparr>"

definition combine :: "fidelity_requirement list \<Rightarrow> fidelity_requirement" where
  "combine requirements =
     (if requirements = [] then default_requirement
      else \<lparr>fd_identity = max_by (member_rank identity_members) (map fd_identity requirements),
            fd_ordering = max_by (member_rank ordering_members) (map fd_ordering requirements),
            fd_state = max_by (member_rank state_members) (map fd_state requirements),
            fd_fees = max_by (member_rank fees_members) (map fd_fees requirements),
            fd_chain_finality = max_by (member_rank finality_members) (map fd_chain_finality requirements),
            fd_completeness = max_by (member_rank completeness_members) (map fd_completeness requirements),
            fd_consistency = max_by (member_rank consistency_members) (map fd_consistency requirements)\<rparr>)"

definition field_gap :: "string \<Rightarrow> ('a \<times> string) list \<Rightarrow> 'a \<Rightarrow> 'a \<Rightarrow> fidelity_gap list" where
  "field_gap field members available required =
     (if member_rank members available < member_rank members required
      then [\<lparr>fg_field = field, fg_required = member_value members required,
             fg_available = member_value members available\<rparr>]
      else [])"

definition gaps :: "source_fidelity \<Rightarrow> fidelity_requirement \<Rightarrow> fidelity_gap list" where
  "gaps s r =
     field_gap ''identity'' identity_members (fd_identity s) (fd_identity r)
     @ field_gap ''ordering'' ordering_members (fd_ordering s) (fd_ordering r)
     @ field_gap ''state'' state_members (fd_state s) (fd_state r)
     @ field_gap ''fees'' fees_members (fd_fees s) (fd_fees r)
     @ field_gap ''chain_finality'' finality_members (fd_chain_finality s) (fd_chain_finality r)
     @ field_gap ''completeness'' completeness_members (fd_completeness s) (fd_completeness r)
     @ field_gap ''consistency'' consistency_members (fd_consistency s) (fd_consistency r)"

definition satisfies :: "source_fidelity \<Rightarrow> fidelity_requirement \<Rightarrow> bool" where
  "satisfies s r = (gaps s r = [])"

section \<open>Lemmas\<close>

lemma max_by_fold_le:
  "key (foldl (\<lambda>best x. if key best < key x then x else best) b xs) \<le> n \<longleftrightarrow>
     key b \<le> n \<and> list_all (\<lambda>x. key x \<le> n) xs"
  for key :: "'a \<Rightarrow> nat"
proof (induction xs arbitrary: b)
  case (Cons x xs)
  show ?case
    by (cases "key b < key x") (simp_all only: foldl_Cons if_True if_False Cons.IH list.pred_inject(2), auto)
qed simp

lemma max_by_le: "xs \<noteq> [] \<Longrightarrow> key (max_by key xs) \<le> n \<longleftrightarrow> list_all (\<lambda>x. key x \<le> n) xs"
  by (cases xs) (simp_all add: max_by_def max_by_fold_le)

lemma field_gap_empty:
  "field_gap f members a r = [] \<longleftrightarrow> member_rank members r \<le> member_rank members a"
  by (simp add: field_gap_def not_less)

lemma satisfies_iff:
  "satisfies s r \<longleftrightarrow>
     member_rank identity_members (fd_identity r) \<le> member_rank identity_members (fd_identity s)
     \<and> member_rank ordering_members (fd_ordering r) \<le> member_rank ordering_members (fd_ordering s)
     \<and> member_rank state_members (fd_state r) \<le> member_rank state_members (fd_state s)
     \<and> member_rank fees_members (fd_fees r) \<le> member_rank fees_members (fd_fees s)
     \<and> member_rank finality_members (fd_chain_finality r) \<le> member_rank finality_members (fd_chain_finality s)
     \<and> member_rank completeness_members (fd_completeness r) \<le> member_rank completeness_members (fd_completeness s)
     \<and> member_rank consistency_members (fd_consistency r) \<le> member_rank consistency_members (fd_consistency s)"
  by (simp add: satisfies_def gaps_def field_gap_empty)

lemma satisfies_default: "satisfies s default_requirement"
  by (simp add: satisfies_iff default_requirement_def member_rank_def rank_index_def identity_members_def
      ordering_members_def state_members_def fees_members_def finality_members_def completeness_members_def
      consistency_members_def)

section \<open>Properties\<close>

text \<open>A source satisfies the combined requirement of a set of plugins exactly when it satisfies the
  requirement of every one of them (and always satisfies the combination of none).\<close>

theorem satisfies_combine:
  "satisfies s (combine requirements) \<longleftrightarrow> list_all (satisfies s) requirements"
proof (cases requirements)
  case Nil
  then show ?thesis by (simp add: combine_def satisfies_default)
next
  case (Cons r rs)
  then have "requirements \<noteq> []" by simp
  then show ?thesis
    unfolding satisfies_iff by (auto simp: combine_def max_by_le list_all_iff)
qed

end
