(* ===== verification/Transaction_Clock.thy ===== *)
theory Transaction_Clock
  imports Chain
begin

text \<open>
  The compact all-transaction clock (\<^verbatim>\<open>engine/transaction_clock.py\<close>): one row per produced block
  with its transaction count, the cumulative transaction prefix and the block time. Lookups are the
  binary searches of the prelude. Row indices are natural numbers.
\<close>

definition NANOSECONDS_PER_SECOND :: int where
  "NANOSECONDS_PER_SECOND = 1000000000"

record transaction_clock =
  tc_network_id :: string
  tc_position_schema_id :: string
  tc_blocks :: "int list"
  tc_counts :: "int list"
  tc_prefix :: "int list"
  tc_times :: "int list"
  tc_ends :: "int list"

text \<open>The loop over prefixes and counts: the expected prefix and the transaction ends so far.\<close>

definition clock_prefix_step :: "int \<times> int list \<Rightarrow> int \<times> int \<Rightarrow> (int \<times> int list) res" where
  "clock_prefix_step = (\<lambda>(expected, ends) (prefix, count).
     if prefix \<noteq> expected then Inl (TransactionClockError PREFIX_INVALID)
     else if UINT64_MAX < expected + count then Inl (TransactionClockError PREFIX_OVERFLOW)
     else Inr (expected + count, ends @ [expected + count]))"

definition CompactTransactionClock ::
  "string \<Rightarrow> string \<Rightarrow> int list \<Rightarrow> int list \<Rightarrow> int list \<Rightarrow> int list \<Rightarrow> transaction_clock res" where
  "CompactTransactionClock network schema blocks counts prefix block_times =
     (if blocks = [] then Inl (TransactionClockError EMPTY_CLOCK)
      else if list_ex (\<lambda>value. length value \<noteq> length blocks) [counts, prefix, block_times] then
        Inl (TransactionClockError ARRAY_LENGTH_MISMATCH)
      else if list_ex (\<lambda>value. value < 0) blocks \<or> any_pairwise (\<lambda>left right. right \<le> left) blocks then
        Inl (TransactionClockError BLOCK_ORDER_INVALID)
      else if list_ex (\<lambda>value. \<not> (0 \<le> value \<and> value \<le> UINT32_MAX)) counts then
        Inl (TransactionClockError TRANSACTION_COUNT_INVALID)
      else bindE (foldE clock_prefix_step (0, []) (zip prefix counts)) (\<lambda>(_, ends).
        if list_ex (\<lambda>value. value < 0 \<or> value mod NANOSECONDS_PER_SECOND \<noteq> 0) block_times then
          Inl (TransactionClockError BLOCK_TIME_RESOLUTION_INVALID)
        else if any_pairwise (\<lambda>left right. right < left) block_times then
          Inl (TransactionClockError BLOCK_TIME_REGRESSION)
        else Inr \<lparr>tc_network_id = network, tc_position_schema_id = schema, tc_blocks = blocks,
                  tc_counts = counts, tc_prefix = prefix, tc_times = block_times, tc_ends = ends\<rparr>))"

definition total_transaction_count :: "transaction_clock \<Rightarrow> int" where
  "total_transaction_count c = last (tc_prefix c) + last (tc_counts c)"

definition require_position :: "transaction_clock \<Rightarrow> chain_position \<Rightarrow> nat res" where
  "require_position c p =
     (if cp_network_id p \<noteq> tc_network_id c \<or> cp_position_schema_id p \<noteq> tc_position_schema_id c then
        Inl (ChainIdentityMismatchError ''position and transaction clock use different chain identities'')
      else
        (let i = bisect_left (tc_blocks c) (cp_block_ordinal p) 0 in
         if i = length (tc_blocks c) \<or> tc_blocks c ! i \<noteq> cp_block_ordinal p then
           Inl (TransactionClockError POSITION_OUTSIDE_CLOCK)
         else if \<not> (0 \<le> cp_transaction_index p \<and> cp_transaction_index p < tc_counts c ! i) then
           Inl (TransactionClockError TRANSACTION_INDEX_OUT_OF_RANGE)
         else Inr i))"

definition block_time_for_position :: "transaction_clock \<Rightarrow> chain_position \<Rightarrow> int res" where
  "block_time_for_position c p = bindE (require_position c p) (\<lambda>i. Inr (tc_times c ! i))"

definition block_time_for_block :: "transaction_clock \<Rightarrow> int \<Rightarrow> int res" where
  "block_time_for_block c block =
     (let i = bisect_left (tc_blocks c) block 0 in
      if i = length (tc_blocks c) \<or> tc_blocks c ! i \<noteq> block then
        Inl (TransactionClockError POSITION_OUTSIDE_CLOCK)
      else Inr (tc_times c ! i))"

definition global_transaction_index :: "transaction_clock \<Rightarrow> chain_position \<Rightarrow> int res" where
  "global_transaction_index c p =
     bindE (require_position c p) (\<lambda>i. Inr (tc_prefix c ! i + cp_transaction_index p))"

definition transaction_after :: "transaction_clock \<Rightarrow> chain_position \<Rightarrow> int \<Rightarrow> chain_position res" where
  "transaction_after c p delay =
     (if delay < 1 then Inl (TransactionClockError NON_POSITIVE_TRANSACTION_DELAY)
      else bindE (global_transaction_index c p) (\<lambda>g.
        let target = g + delay in
        if total_transaction_count c \<le> target then
          Inl (TransactionClockError SETTLEMENT_TAIL_EXHAUSTED)
        else
          (let i = bisect_right (tc_ends c) target in
           ChainPosition (tc_network_id c) (tc_position_schema_id c) (tc_blocks c ! i)
             (target - tc_prefix c ! i) None)))"

lemma bisect_left_loop_ge: "lo \<le> bisect_left_loop a x lo hi"
proof (induction a x lo hi rule: bisect_left_loop.induct)
  case (1 a x lo hi)
  show ?case
  proof (cases "lo < hi")
    case True
    then show ?thesis
      using 1(1)[OF True refl] 1(2)[OF True refl]
      by (cases "a ! ((lo + hi) div 2) < x") (simp_all add: bisect_left_loop_cases)
  qed (simp add: bisect_left_loop_cases)
qed

lemma bisect_left_ge: "lo \<le> bisect_left a x lo"
  by (simp add: bisect_left_def bisect_left_loop_ge)

text \<open>The \<^verbatim>\<open>while\<close> loop that skips empty blocks.\<close>

function skip_empty_blocks :: "transaction_clock \<Rightarrow> int \<Rightarrow> nat \<Rightarrow> nat" where
  "skip_empty_blocks c target i =
     (if i < length (tc_blocks c) \<and> tc_counts c ! i = 0 then
        skip_empty_blocks c target
          (if i + 1 < length (tc_blocks c) \<and> tc_times c ! (i + 1) < target
           then bisect_left (tc_times c) target (i + 1) else i + 1)
      else i)"
  by pat_completeness auto
termination
  by (relation "measure (\<lambda>(c, target, i). length (tc_blocks c) - i)")
     (auto intro!: diff_less_mono2 Suc_le_lessD[OF bisect_left_ge])

declare skip_empty_blocks.simps [simp del]

definition first_nonempty_transaction_at_or_after ::
  "transaction_clock \<Rightarrow> chain_position \<Rightarrow> int \<Rightarrow> chain_position res" where
  "first_nonempty_transaction_at_or_after c after target =
     bindE (require_position c after) (\<lambda>row.
       let start = row + 1 in
       if target < 0 then Inl (ValueError ''target_time_ns must be a non-negative integer'')
       else
         (let i = skip_empty_blocks c target (bisect_left (tc_times c) target start) in
          if i = length (tc_blocks c) then
            Inl (TransactionClockError DURATION_TARGET_OUTSIDE_CLOCK)
          else ChainPosition (tc_network_id c) (tc_position_schema_id c) (tc_blocks c ! i) 0 None))"

section \<open>The clock invariant\<close>

definition clock_inv :: "transaction_clock \<Rightarrow> bool" where
  "clock_inv c \<longleftrightarrow>
     (let n = length (tc_blocks c) in
      0 < n \<and> length (tc_counts c) = n \<and> length (tc_prefix c) = n \<and> length (tc_times c) = n
      \<and> length (tc_ends c) = n \<and> sorted_wrt (<) (tc_blocks c) \<and> sorted (tc_times c)
      \<and> (\<forall>i < n. 0 \<le> tc_blocks c ! i \<and> 0 \<le> tc_counts c ! i \<and> tc_counts c ! i \<le> UINT32_MAX
           \<and> tc_ends c ! i = tc_prefix c ! i + tc_counts c ! i)
      \<and> tc_prefix c ! 0 = 0 \<and> (\<forall>i. Suc i < n \<longrightarrow> tc_prefix c ! Suc i = tc_ends c ! i))"

lemma prefix_fold:
  assumes "foldE clock_prefix_step (e, ends) (zip prefix counts) = Inr (e', ends')"
    and "length prefix = length counts"
  shows "\<exists>new. ends' = ends @ new \<and> length new = length counts
     \<and> (\<forall>i < length counts. prefix ! i = (if i = 0 then e else new ! (i - 1))
          \<and> new ! i = prefix ! i + counts ! i)"
  using assms(2,1)
proof (induction prefix counts arbitrary: e ends rule: list_induct2)
  case (Cons p ps n ns)
  then have p: "p = e" and rest: "foldE clock_prefix_step (e + n, ends @ [e + n]) (zip ps ns) = Inr (e', ends')"
    by (auto simp: clock_prefix_step_def split: if_splits)
  from Cons.IH[OF rest] obtain new where new: "ends' = ends @ [e + n] @ new" "length new = length ns"
    "\<And>i. i < length ns \<Longrightarrow> ps ! i = (if i = 0 then e + n else new ! (i - 1)) \<and> new ! i = ps ! i + ns ! i"
    by auto
  show ?case
  proof (intro exI[of _ "(e + n) # new"] conjI allI impI)
    fix i
    assume i: "i < length (n # ns)"
    show "(p # ps) ! i = (if i = 0 then e else ((e + n) # new) ! (i - 1))"
      using i new(3)[of "i - 1"] p by (cases i) (auto simp: nth_Cons')
    show "((e + n) # new) ! i = (p # ps) ! i + (n # ns) ! i"
      using i new(3)[of "i - 1"] p by (cases i) auto
  qed (use new in auto)
qed auto

lemma CompactTransactionClock_inv:
  assumes "CompactTransactionClock network schema blocks counts prefix block_times = Inr c"
  shows "clock_inv c"
proof -
  obtain e ends where fold: "foldE clock_prefix_step (0, []) (zip prefix counts) = Inr (e, ends)"
    and c: "c = \<lparr>tc_network_id = network, tc_position_schema_id = schema, tc_blocks = blocks,
        tc_counts = counts, tc_prefix = prefix, tc_times = block_times, tc_ends = ends\<rparr>"
    and len: "blocks \<noteq> []" "length counts = length blocks" "length prefix = length blocks"
      "length block_times = length blocks"
    and order: "\<not> any_pairwise (\<lambda>left right. right \<le> left) blocks"
      "\<not> any_pairwise (\<lambda>left right. right < left) block_times"
    and range: "list_all (\<lambda>v. 0 \<le> v) blocks" "list_all (\<lambda>v. 0 \<le> v \<and> v \<le> UINT32_MAX) counts"
    using assms unfolding CompactTransactionClock_def
    by (auto simp: list_ex_iff list_all_iff not_less not_le split: if_splits)
  from prefix_fold[OF fold] len have ends: "length ends = length blocks"
    "\<And>i. i < length blocks \<Longrightarrow> prefix ! i = (if i = 0 then 0 else ends ! (i - 1))
       \<and> ends ! i = prefix ! i + counts ! i"
    by auto
  show ?thesis
    using len ends range order
    by (auto simp: clock_inv_def c Let_def any_pairwise_strict any_pairwise_sorted list_all_length)
qed

text \<open>The transaction ends are monotone, and every later prefix is at least an earlier end.\<close>

lemma clock_ends_mono:
  assumes "clock_inv c" and "i < j" and "j < length (tc_blocks c)"
  shows "tc_ends c ! i \<le> tc_prefix c ! j"
  using assms(2,3)
proof (induction j)
  case (Suc j)
  have next_p: "tc_prefix c ! Suc j = tc_ends c ! j"
    and j: "tc_ends c ! j = tc_prefix c ! j + tc_counts c ! j" "0 \<le> tc_counts c ! j"
    using assms(1) Suc.prems(2) by (simp_all add: clock_inv_def Let_def)
  show ?case
    using Suc next_p j by (cases "i = j") auto
qed simp

lemma clock_ends_sorted: "clock_inv c \<Longrightarrow> sorted (tc_ends c)"
  unfolding sorted_iff_nth_mono_less
proof (intro allI impI)
  fix i j
  assume inv: "clock_inv c" and ij: "i < j" "j < length (tc_ends c)"
  have "length (tc_ends c) = length (tc_blocks c)"
    using inv by (simp add: clock_inv_def Let_def)
  then show "tc_ends c ! i \<le> tc_ends c ! j"
    using clock_ends_mono[OF inv ij(1)] inv ij by (fastforce simp: clock_inv_def Let_def)
qed

lemma clock_total: "clock_inv c \<Longrightarrow> total_transaction_count c = tc_ends c ! (length (tc_blocks c) - 1)"
  unfolding total_transaction_count_def clock_inv_def Let_def
  by (metis One_nat_def diff_Suc_less last_conv_nth length_0_conv less_irrefl)

text \<open>The row a clock position stands in, as a proposition about its coordinates.\<close>

lemma require_position_iff:
  assumes "clock_inv c"
  shows "require_position c p = Inr i \<longleftrightarrow>
     cp_network_id p = tc_network_id c \<and> cp_position_schema_id p = tc_position_schema_id c
     \<and> i < length (tc_blocks c) \<and> tc_blocks c ! i = cp_block_ordinal p
     \<and> 0 \<le> cp_transaction_index p \<and> cp_transaction_index p < tc_counts c ! i"
proof -
  have s: "sorted_wrt (<) (tc_blocks c)"
    using assms by (simp add: clock_inv_def Let_def)
  have "bisect_left (tc_blocks c) (cp_block_ordinal p) 0 \<le> length (tc_blocks c)"
    using s by (intro splits_at_le[OF bisect_left_spec]) (simp_all add: strict_sorted_imp_sorted)
  moreover have "bisect_left (tc_blocks c) b 0 = j" if "j < length (tc_blocks c)" "tc_blocks c ! j = b" for b j
    using bisect_left_found[OF s that(1)] that(2) by simp
  ultimately show ?thesis
    unfolding require_position_def Let_def by (auto simp: le_less split: if_splits)
qed

lemma global_index_eq:
  assumes "clock_inv c" and "require_position c p = Inr i"
  shows "global_transaction_index c p = Inr (tc_prefix c ! i + cp_transaction_index p)"
    and "tc_prefix c ! i \<le> tc_prefix c ! i + cp_transaction_index p"
    and "tc_prefix c ! i + cp_transaction_index p < tc_ends c ! i"
  using assms(2) require_position_iff[OF assms(1), of p i] assms(1)
  by (auto simp: global_transaction_index_def clock_inv_def Let_def)

text \<open>The global index is strictly monotone in the (block, transaction) coordinates.\<close>

lemma global_index_mono:
  assumes "clock_inv c" and "require_position c p = Inr i" and "require_position c q = Inr j"
    and "(cp_block_ordinal p, cp_transaction_index p) < (cp_block_ordinal q, cp_transaction_index q)"
  shows "tc_prefix c ! i + cp_transaction_index p < tc_prefix c ! j + cp_transaction_index q"
proof -
  have s: "sorted_wrt (<) (tc_blocks c)"
    using assms(1) by (simp add: clock_inv_def Let_def)
  have i: "i < length (tc_blocks c)" "tc_blocks c ! i = cp_block_ordinal p"
    and j: "j < length (tc_blocks c)" "tc_blocks c ! j = cp_block_ordinal q"
    using assms(2,3) require_position_iff[OF assms(1)] by auto
  consider "cp_block_ordinal p < cp_block_ordinal q"
    | "cp_block_ordinal p = cp_block_ordinal q" "cp_transaction_index p < cp_transaction_index q"
    using assms(4) by (auto simp: less_prod_def le_less)
  then show ?thesis
  proof cases
    case 1
    have "i < j"
    proof (rule ccontr)
      assume "\<not> i < j"
      then have "tc_blocks c ! j \<le> tc_blocks c ! i"
        using s i(1) by (intro sorted_nth_mono) (simp_all add: strict_sorted_imp_sorted)
      with 1 i j show False by simp
    qed
    then show ?thesis
      using clock_ends_mono[OF assms(1) _ j(1), of i] global_index_eq(3)[OF assms(1,2)]
        global_index_eq(2)[OF assms(1,3)] by linarith
  next
    case 2
    then have "i = j"
      using bisect_left_found[OF s i(1)] bisect_left_found[OF s j(1)] i j by simp
    with 2 show ?thesis by simp
  qed
qed

lemma global_index_less_iff:
  assumes "clock_inv c" and "global_transaction_index c p = Inr g" and "global_transaction_index c q = Inr h"
  shows "g < h \<longleftrightarrow> (cp_block_ordinal p, cp_transaction_index p) < (cp_block_ordinal q, cp_transaction_index q)"
proof -
  obtain i j where ij: "require_position c p = Inr i" "require_position c q = Inr j"
    using assms(2,3) by (auto simp: global_transaction_index_def)
  have g: "g = tc_prefix c ! i + cp_transaction_index p" and h: "h = tc_prefix c ! j + cp_transaction_index q"
    using assms(2,3) ij by (simp_all add: global_transaction_index_def)
  have s: "sorted_wrt (<) (tc_blocks c)"
    using assms(1) by (simp add: clock_inv_def Let_def)
  have eq: "i = j" if "cp_block_ordinal p = cp_block_ordinal q"
    using that ij bisect_left_found[OF s] require_position_iff[OF assms(1)] by metis
  show ?thesis
    using global_index_mono[OF assms(1) ij] global_index_mono[OF assms(1) ij(2,1)] eq g h
    by (cases "(cp_block_ordinal p, cp_transaction_index p)"
        "(cp_block_ordinal q, cp_transaction_index q)" rule: linorder_cases) auto
qed

text \<open>The row of a global index below the total: the transaction it names lies in that row.\<close>

lemma transaction_row:
  assumes "clock_inv c" and "0 \<le> t" and "t < total_transaction_count c"
  shows "bisect_right (tc_ends c) t < length (tc_blocks c)"
    and "tc_prefix c ! bisect_right (tc_ends c) t \<le> t"
    and "t < tc_prefix c ! bisect_right (tc_ends c) t + tc_counts c ! bisect_right (tc_ends c) t"
proof -
  let ?k = "bisect_right (tc_ends c) t"
  have len: "length (tc_ends c) = length (tc_blocks c)" "tc_blocks c \<noteq> []"
    using assms(1) by (auto simp: clock_inv_def Let_def)
  have b: "splits_at (\<lambda>y. t < y) (tc_ends c) 0 ?k"
    using clock_ends_sorted[OF assms(1)] by (rule bisect_right_spec)
  show k: "?k < length (tc_blocks c)"
  proof (rule ccontr)
    assume "\<not> ?k < length (tc_blocks c)"
    then have "\<not> t < tc_ends c ! (length (tc_blocks c) - 1)"
      using b len unfolding splits_at_def by (simp add: not_less)
    then show False using assms(3) clock_total[OF assms(1)] by simp
  qed
  show "tc_prefix c ! ?k \<le> t"
  proof (cases ?k)
    case 0
    then show ?thesis using assms(1,2) by (simp add: clock_inv_def Let_def)
  next
    case (Suc n)
    then have "\<not> t < tc_ends c ! n"
      using b by (simp add: splits_at_def)
    moreover have "tc_prefix c ! Suc n = tc_ends c ! n"
      using assms(1) k Suc by (simp add: clock_inv_def Let_def)
    ultimately show ?thesis using Suc by simp
  qed
  have "t < tc_ends c ! ?k"
    using b k len by (simp add: splits_at_def)
  then show "t < tc_prefix c ! ?k + tc_counts c ! ?k"
    using assms(1) k by (simp add: clock_inv_def Let_def)
qed

lemma global_index_range:
  assumes inv: "clock_inv c" and "global_transaction_index c p = Inr g"
  shows "0 \<le> g \<and> g < total_transaction_count c"
proof -
  obtain i where i: "require_position c p = Inr i"
    using assms(2) by (auto simp: global_transaction_index_def)
  have n: "i < length (tc_blocks c)" "0 \<le> cp_transaction_index p"
    using i require_position_iff[OF inv] by auto
  have "0 \<le> tc_prefix c ! i"
  proof (cases i)
    case 0
    then show ?thesis using inv by (simp add: clock_inv_def Let_def)
  next
    case (Suc m)
    then have "tc_ends c ! 0 \<le> tc_prefix c ! i" using clock_ends_mono[OF inv _ n(1)] by simp
    moreover have "tc_prefix c ! 0 = 0" "tc_ends c ! 0 = tc_prefix c ! 0 + tc_counts c ! 0" "0 \<le> tc_counts c ! 0"
      using inv by (simp_all add: clock_inv_def Let_def)
    ultimately show ?thesis by simp
  qed
  moreover have "tc_ends c ! i \<le> total_transaction_count c"
    using clock_ends_sorted[OF inv] n(1) inv unfolding clock_total[OF inv]
    by (intro sorted_nth_mono) (auto simp: clock_inv_def Let_def)
  ultimately show ?thesis
    using global_index_eq[OF inv i] assms(2) n(2) by auto
qed

text \<open>
  Skipping stops at the first row from the start on that is non-empty and late enough: since the
  times are sorted, every row it can stop at is late enough, and every row passed is empty.
\<close>

lemma skip_empty_blocks_spec:
  assumes inv: "clock_inv c" and "i \<le> length (tc_blocks c)"
    and "i < length (tc_blocks c) \<Longrightarrow> target \<le> tc_times c ! i"
  shows "i \<le> skip_empty_blocks c target i \<and> skip_empty_blocks c target i \<le> length (tc_blocks c)
    \<and> (\<forall>j. i \<le> j \<longrightarrow> j < skip_empty_blocks c target i \<longrightarrow> tc_counts c ! j = 0)
    \<and> (skip_empty_blocks c target i < length (tc_blocks c) \<longrightarrow>
         tc_counts c ! skip_empty_blocks c target i \<noteq> 0
         \<and> target \<le> tc_times c ! skip_empty_blocks c target i)"
  using assms(2,3)
proof (induction "length (tc_blocks c) - i" arbitrary: i rule: less_induct)
  case less
  show ?case
  proof (cases "i < length (tc_blocks c) \<and> tc_counts c ! i = 0")
    case False
    then show ?thesis
      using less.prems by (subst (1 2 3 4 5 6) skip_empty_blocks.simps) auto
  next
    case True
    have late: "target \<le> tc_times c ! (i + 1)" if "i + 1 < length (tc_blocks c)"
    proof -
      have "tc_times c ! i \<le> tc_times c ! (i + 1)"
        using inv that by (intro sorted_nth_mono) (auto simp: clock_inv_def Let_def)
      then show ?thesis using less.prems(2) True by simp
    qed
    then have eq: "skip_empty_blocks c target i = skip_empty_blocks c target (i + 1)"
      using True by (subst skip_empty_blocks.simps) (auto simp: not_less)
    have "length (tc_blocks c) - (i + 1) < length (tc_blocks c) - i" "i + 1 \<le> length (tc_blocks c)"
      using True by auto
    note IH = less.hyps[OF this(1,2) late, simplified]
    have "tc_counts c ! j = 0" if "i \<le> j" "j < skip_empty_blocks c target (i + 1)" for j
      using IH True that by (cases "j = i") auto
    with IH show ?thesis unfolding eq by auto
  qed
qed

section \<open>A sample clock\<close>

definition sample_position :: "int \<Rightarrow> int \<Rightarrow> chain_position" where
  "sample_position block transaction = \<lparr>cp_network_id = ''n'',
     cp_position_schema_id = BLOCK32_TRANSACTION32_POSITION_SCHEMA_ID,
     cp_block_ordinal = block, cp_transaction_index = transaction, cp_event_index = None\<rparr>"

definition sample_clock :: transaction_clock where
  "sample_clock = \<lparr>tc_network_id = ''n'', tc_position_schema_id = BLOCK32_TRANSACTION32_POSITION_SCHEMA_ID,
     tc_blocks = [10, 12, 15], tc_counts = [2, 0, 3], tc_prefix = [0, 2, 2],
     tc_times = [0, 1000000000, 2000000000], tc_ends = [2, 2, 5]\<rparr>"

lemma sample_clock_made:
  "CompactTransactionClock ''n'' BLOCK32_TRANSACTION32_POSITION_SCHEMA_ID [10, 12, 15] [2, 0, 3]
     [0, 2, 2] [0, 1000000000, 2000000000] = Inr sample_clock"
  by (simp add: CompactTransactionClock_def clock_prefix_step_def sample_clock_def UINT32_MAX_def
      UINT64_MAX_def NANOSECONDS_PER_SECOND_def)

lemma sample_position_valid:
  "0 \<le> b \<Longrightarrow> b < 2 ^ 32 \<Longrightarrow> -1 \<le> t \<Longrightarrow> t < 2 ^ 32 - 1 \<Longrightarrow> valid_position (sample_position b t)"
  by (simp add: valid_position_iff sample_position_def)

lemma sample_clock_start: "bisect_left (tc_times sample_clock) 500000000 (Suc 0) = 1"
  by (simp add: sample_clock_def bisect_left_def bisect_left_loop_cases)

lemma sample_clock_index:
  "global_transaction_index sample_clock (sample_position 10 1) = Inr 1"
  "global_transaction_index sample_clock (sample_position 15 2) = Inr 4"
  by (simp_all add: global_transaction_index_def require_position_def sample_clock_def
      sample_position_def bisect_left_def bisect_left_loop_cases Let_def)

section \<open>Properties\<close>

text \<open>On every clock the constructor accepts, the global transaction index orders the clock's
  positions exactly as their boundary ordinals do, starts at zero and stays below the total count.\<close>

theorem global_index_order:
  assumes "CompactTransactionClock network schema blocks counts prefix block_times = Inr c"
    and "valid_position p" and "valid_position q"
    and "global_transaction_index c p = Inr g" and "global_transaction_index c q = Inr h"
  shows "(g < h \<longleftrightarrow> ordinal_of p < ordinal_of q) \<and> 0 \<le> g \<and> g < total_transaction_count c"
  using global_index_less_iff[OF CompactTransactionClock_inv[OF assms(1)] assms(4,5)]
    ordinal_of_less_iff[OF assms(2,3)]
    global_index_range[OF CompactTransactionClock_inv[OF assms(1)] assms(4)] by simp

theorem global_index_order_witness:
  "\<exists>c. CompactTransactionClock ''n'' BLOCK32_TRANSACTION32_POSITION_SCHEMA_ID [10, 12, 15] [2, 0, 3]
         [0, 2, 2] [0, 1000000000, 2000000000] = Inr c
     \<and> global_transaction_index c (sample_position 10 1) = Inr 1
     \<and> global_transaction_index c (sample_position 15 2) = Inr 4
     \<and> (1 < (4 :: int) \<longleftrightarrow> ordinal_of (sample_position 10 1) < ordinal_of (sample_position 15 2))"
  using global_index_order[OF sample_clock_made sample_position_valid sample_position_valid
      sample_clock_index(1,2)] sample_clock_made sample_clock_index by auto



text \<open>A duration target resolves to the start of the first later block that is non-empty and not
  before the target time; the lookup fails with \<^verbatim>\<open>DURATION_TARGET_OUTSIDE_CLOCK\<close> exactly when every
  later block is empty or too early.\<close>

theorem first_nonempty_transaction_spec:
  assumes "CompactTransactionClock network schema blocks counts prefix block_times = Inr c"
    and "list_all (\<lambda>b. b \<le> UINT32_MAX) blocks"
    and "valid_position p" and "require_position c p = Inr row" and "0 \<le> target"
  shows "(case first_nonempty_transaction_at_or_after c p target of
      Inr q \<Rightarrow> (\<exists>i. row < i \<and> i < length blocks \<and> cp_block_ordinal q = blocks ! i
          \<and> cp_transaction_index q = 0 \<and> counts ! i \<noteq> 0 \<and> target \<le> block_times ! i
          \<and> (\<forall>j. row < j \<and> j < i \<longrightarrow> counts ! j = 0 \<or> block_times ! j < target))
        \<and> ordinal_of p < ordinal_of q
    | Inl e \<Rightarrow> e = TransactionClockError DURATION_TARGET_OUTSIDE_CLOCK
        \<and> (\<forall>j. row < j \<and> j < length blocks \<longrightarrow> counts ! j = 0 \<or> block_times ! j < target))"
proof -
  have inv: "clock_inv c" using CompactTransactionClock_inv[OF assms(1)] .
  have rows: "tc_blocks c = blocks" "tc_counts c = counts" "tc_times c = block_times"
    using assms(1) by (auto simp: CompactTransactionClock_def split: if_splits)
  have len: "length block_times = length blocks" "length counts = length blocks" "sorted block_times"
    using inv rows by (auto simp: clock_inv_def Let_def)
  note p = assms(4)[unfolded require_position_iff[OF inv], unfolded rows]
  let ?s = "bisect_left block_times target (row + 1)"
  let ?i = "skip_empty_blocks c target ?s"
  have b: "splits_at (\<lambda>y. target \<le> y) block_times (row + 1) ?s"
    using len p by (intro bisect_left_spec) auto
  have skip: "?s \<le> ?i" "?i \<le> length blocks" "\<And>j. ?s \<le> j \<Longrightarrow> j < ?i \<Longrightarrow> counts ! j = 0"
    "?i < length blocks \<Longrightarrow> counts ! ?i \<noteq> 0 \<and> target \<le> block_times ! ?i"
    using skip_empty_blocks_spec[OF inv, of ?s target] b len unfolding rows splits_at_def by auto
  have passed: "counts ! j = 0 \<or> block_times ! j < target" if "row < j" "j < ?i" for j
    using that b skip(3)[of j] unfolding splits_at_def by (cases "j < ?s") (auto simp: not_le)
  have run: "first_nonempty_transaction_at_or_after c p target =
     (if ?i = length blocks then Inl (TransactionClockError DURATION_TARGET_OUTSIDE_CLOCK)
      else ChainPosition (tc_network_id c) (tc_position_schema_id c) (blocks ! ?i) 0 None)"
    using assms(4,5) by (simp add: first_nonempty_transaction_at_or_after_def Let_def rows)
  show ?thesis
  proof (cases "?i = length blocks")
    case True
    then show ?thesis using passed by (simp add: run)
  next
    case False
    then have i: "?i < length blocks" "row < ?i"
      using skip(1,2) b by (auto simp: splits_at_def)
    let ?q = "\<lparr>cp_network_id = tc_network_id c, cp_position_schema_id = tc_position_schema_id c,
      cp_block_ordinal = blocks ! ?i, cp_transaction_index = 0, cp_event_index = None\<rparr>"
    have "0 \<le> blocks ! ?i" "blocks ! ?i \<le> UINT32_MAX"
      using inv i(1) assms(2) rows by (auto simp: clock_inv_def Let_def list_all_length)
    then have q: "ChainPosition (tc_network_id c) (tc_position_schema_id c) (blocks ! ?i) 0 None = Inr ?q"
      using p assms(3) by (simp add: ChainPosition_iff uint_bounds valid_position_iff)
    then have "valid_position ?q" by (simp add: valid_position_def)
    moreover have "blocks ! row < blocks ! ?i"
      using inv i rows by (intro sorted_wrt_nth_less[of "(<)"]) (simp_all add: clock_inv_def Let_def)
    ultimately have "ordinal_of p < ordinal_of ?q"
      using ordinal_of_less_iff[OF assms(3)] p by (simp add: less_prod_def)
    moreover have "first_nonempty_transaction_at_or_after c p target = Inr ?q"
      using False q by (simp add: run)
    moreover have "row < ?i \<and> ?i < length blocks \<and> cp_block_ordinal ?q = blocks ! ?i
        \<and> cp_transaction_index ?q = 0 \<and> counts ! ?i \<noteq> 0 \<and> target \<le> block_times ! ?i
        \<and> (\<forall>j. row < j \<and> j < ?i \<longrightarrow> counts ! j = 0 \<or> block_times ! j < target)"
      using i skip(4)[OF i(1)] passed by simp
    ultimately show ?thesis by (simp only: sum.case) blast
  qed
qed

theorem first_nonempty_transaction_spec_witness:
  "first_nonempty_transaction_at_or_after sample_clock (sample_position 10 1) 500000000
     = Inr (sample_position 15 0)
   \<and> ordinal_of (sample_position 10 1) < ordinal_of (sample_position 15 0)"
proof -
  have v: "valid_position (sample_position 10 1)" by (rule sample_position_valid) simp_all
  have r: "require_position sample_clock (sample_position 10 1) = Inr 0"
    by (simp add: require_position_def sample_clock_def sample_position_def bisect_left_def
        bisect_left_loop_cases Let_def)
  have "skip_empty_blocks sample_clock 500000000 1 = skip_empty_blocks sample_clock 500000000 2"
    by (subst skip_empty_blocks.simps) (simp add: sample_clock_def numeral_2_eq_2)
  also have "\<dots> = 2"
    by (subst skip_empty_blocks.simps) (simp add: sample_clock_def numeral_2_eq_2)
  finally have "skip_empty_blocks sample_clock 500000000 1 = 2" .
  then have "first_nonempty_transaction_at_or_after sample_clock (sample_position 10 1) 500000000
     = Inr (sample_position 15 0)"
    unfolding first_nonempty_transaction_at_or_after_def r bindE_Inr
    by (simp add: Let_def ChainPosition_iff sample_clock_start sample_position_def)
       (simp add: sample_clock_def)
  with first_nonempty_transaction_spec[OF sample_clock_made _ v r, of 500000000] show ?thesis
    by (simp add: UINT32_MAX_def)
qed

end
