(* ===== verification/Market_Events.thy ===== *)
theory Market_Events
  imports Causal_Data Fidelity
begin

text \<open>
  Canonical historical events (\<^verbatim>\<open>domain/market_events.py\<close>) and their representation-independent
  documents and hashes (\<^verbatim>\<open>domain/event_hashing.py\<close>). The four event classes are records, their
  union is a datatype, and a class's \<^verbatim>\<open>__post_init__\<close> is a smart constructor. \<open>json_loads\<close> reads
  canonical text only: a payload in any other form is refused by the source a few lines later,
  because its bytes differ from the canonical encoding of the value.
\<close>

definition REFERENCE_AMM_TRADE_PAYLOAD_SCHEMA_ID :: string where
  "REFERENCE_AMM_TRADE_PAYLOAD_SCHEMA_ID = ''reference-amm-trade-payload-v1''"

section \<open>Event classes\<close>

datatype event_kind = BLOCK | TOKEN_LAUNCH | VENUE_TRADE | LIQUIDITY | TRANSFER | VENUE_LIFECYCLE

fun event_kind_code :: "event_kind \<Rightarrow> int" where
  "event_kind_code BLOCK = 1"
| "event_kind_code TOKEN_LAUNCH = 2"
| "event_kind_code VENUE_TRADE = 3"
| "event_kind_code LIQUIDITY = 4"
| "event_kind_code TRANSFER = 5"
| "event_kind_code VENUE_LIFECYCLE = 6"

fun event_kind_name :: "event_kind \<Rightarrow> string" where
  "event_kind_name BLOCK = ''BLOCK''"
| "event_kind_name TOKEN_LAUNCH = ''TOKEN_LAUNCH''"
| "event_kind_name VENUE_TRADE = ''VENUE_TRADE''"
| "event_kind_name LIQUIDITY = ''LIQUIDITY''"
| "event_kind_name TRANSFER = ''TRANSFER''"
| "event_kind_name VENUE_LIFECYCLE = ''VENUE_LIFECYCLE''"

datatype venue_lifecycle_kind = COMPLETED | MIGRATED | CLOSED

fun lifecycle_value :: "venue_lifecycle_kind \<Rightarrow> string" where
  "lifecycle_value COMPLETED = ''COMPLETED''"
| "lifecycle_value MIGRATED = ''MIGRATED''"
| "lifecycle_value CLOSED = ''CLOSED''"

record event_envelope =
  ee_position :: chain_position
  ee_transaction_group_id :: digest
  ee_source_record_id :: digest
  ee_canonical_event_id :: digest
  ee_stable_causal_id :: digest
  ee_capability_id :: string
  ee_protocol :: string
  ee_protocol_version :: string
  ee_ordering_fidelity :: ordering_fidelity

definition exact_ordering :: "ordering_fidelity \<Rightarrow> bool" where
  "exact_ordering f \<longleftrightarrow> f = TRANSACTION_EXACT \<or> f = INSTRUCTION_EXACT"

definition EventEnvelope :: "event_envelope \<Rightarrow> event_envelope res" where
  "EventEnvelope e =
     (if ee_protocol e = [] \<or> ee_protocol e \<noteq> strip (ee_protocol e) then
        Inl (ValueError ''protocol must be non-empty and trimmed'')
      else if ee_protocol_version e = [] \<or> ee_protocol_version e \<noteq> strip (ee_protocol_version e) then
        Inl (ValueError ''protocol_version must be non-empty and trimmed'')
      else if exact_ordering (ee_ordering_fidelity e) \<and> cp_event_index (ee_position e) = None then
        Inl (ValueError ''exact event ordering requires an event_index'')
      else Inr e)"

definition envelope_boundary_ordinal :: "event_envelope \<Rightarrow> int" where
  "envelope_boundary_ordinal e = ordinal_of (ee_position e)"

record block_event =
  be_envelope :: event_envelope
  be_block_time_ns :: "int option"
  be_tx_count :: "int option"
  be_block_hash :: "string option"

definition BlockEvent :: "block_event \<Rightarrow> block_event res" where
  "BlockEvent b =
     (if cp_transaction_index (ee_position (be_envelope b)) \<noteq> -1 then
        Inl (ValueError ''block events must use the synthetic block boundary'')
      else if (case be_tx_count b of None \<Rightarrow> False | Some n \<Rightarrow> \<not> (0 \<le> n \<and> n \<le> UINT32_MAX)) then
        Inl (ValueError ''tx_count must fit the position schema transaction capacity'')
      else Inr b)"

record fee_component =
  fc_component_id :: string
  fc_asset_id :: asset_id
  fc_amount_atomic :: int

definition FeeComponent :: "string \<Rightarrow> asset_id \<Rightarrow> int \<Rightarrow> fee_component res" where
  "FeeComponent component asset amount =
     (if amount \<le> 0 then Inl (ValueError ''fee component amount must be a positive integer'')
      else Inr \<lparr>fc_component_id = component, fc_asset_id = asset, fc_amount_atomic = amount\<rparr>)"

record token_launch_event =
  tl_envelope :: event_envelope
  tl_asset_id :: asset_id
  tl_developer_id :: account_id
  tl_creation_user_id :: account_id
  tl_venue_id :: venue_id
  tl_quote_asset_id :: asset_id
  tl_protocol_payload_schema :: string
  tl_protocol_payload :: bytes
  tl_decimals :: "int option"

definition TokenLaunchEvent :: "token_launch_event \<Rightarrow> token_launch_event res" where
  "TokenLaunchEvent t =
     (if tl_asset_id t = tl_quote_asset_id t then
        Inl (ValueError ''launched and quote assets must be different'')
      else if (case tl_decimals t of None \<Rightarrow> False | Some d \<Rightarrow> \<not> (0 \<le> d \<and> d \<le> 38)) then
        Inl (ValueError ''decimals must be between 0 and 38 or None'')
      else Inr t)"

record venue_trade_event =
  vt_envelope :: event_envelope
  vt_venue_id :: venue_id
  vt_sold_asset_id :: asset_id
  vt_bought_asset_id :: asset_id
  vt_sold_amount_atomic :: int
  vt_bought_amount_atomic :: int
  vt_fee_components :: "fee_component list"
  vt_protocol_payload_schema :: string
  vt_protocol_payload :: bytes

definition fee_component_key :: "fee_component \<Rightarrow> string \<times> string" where
  "fee_component_key c = (fc_component_id c, fc_asset_id c)"

definition VenueTradeEvent :: "venue_trade_event \<Rightarrow> venue_trade_event res" where
  "VenueTradeEvent t =
     (let keys = map fee_component_key (vt_fee_components t) in
      if vt_sold_asset_id t = vt_bought_asset_id t then
        Inl (ValueError ''a venue trade must exchange two different assets'')
      else if vt_sold_amount_atomic t < 0 then
        Inl (ValueError ''sold_amount_atomic must be a non-negative integer'')
      else if vt_bought_amount_atomic t < 0 then
        Inl (ValueError ''bought_amount_atomic must be a non-negative integer'')
      else if vt_sold_amount_atomic t = 0 \<and> vt_bought_amount_atomic t = 0 then
        Inl (ValueError ''a venue trade must have at least one positive amount'')
      else if \<not> distinct keys then
        Inl (ValueError ''fee components must have unique component/asset identities'')
      else if keys \<noteq> sort keys then
        Inl (ValueError ''fee components must use canonical component/asset order'')
      else Inr t)"

record venue_lifecycle_event =
  vl_envelope :: event_envelope
  vl_venue_id :: venue_id
  vl_lifecycle_kind :: venue_lifecycle_kind
  vl_protocol_payload_schema :: string
  vl_protocol_payload :: bytes

datatype canonical_event =
    Block_Event block_event
  | Token_Launch_Event token_launch_event
  | Venue_Trade_Event venue_trade_event
  | Venue_Lifecycle_Event venue_lifecycle_event

fun event_envelope_of :: "canonical_event \<Rightarrow> event_envelope" where
  "event_envelope_of (Block_Event b) = be_envelope b"
| "event_envelope_of (Token_Launch_Event t) = tl_envelope t"
| "event_envelope_of (Venue_Trade_Event t) = vt_envelope t"
| "event_envelope_of (Venue_Lifecycle_Event l) = vl_envelope l"

fun event_kind_of :: "canonical_event \<Rightarrow> event_kind" where
  "event_kind_of (Block_Event b) = BLOCK"
| "event_kind_of (Token_Launch_Event t) = TOKEN_LAUNCH"
| "event_kind_of (Venue_Trade_Event t) = VENUE_TRADE"
| "event_kind_of (Venue_Lifecycle_Event l) = VENUE_LIFECYCLE"

definition event_boundary :: "canonical_event \<Rightarrow> int" where
  "event_boundary e = envelope_boundary_ordinal (event_envelope_of e)"

definition event_group :: "canonical_event \<Rightarrow> digest" where
  "event_group e = ee_transaction_group_id (event_envelope_of e)"

definition event_causal_hex :: "canonical_event \<Rightarrow> string" where
  "event_causal_hex e = digest_hex (ee_stable_causal_id (event_envelope_of e))"

definition canonical_event_sort_key ::
  "canonical_event \<Rightarrow> string \<times> string \<times> int \<times> string \<times> int \<times> string" where
  "canonical_event_sort_key e =
     (let v = event_envelope_of e; p = ee_position v in
      (cp_network_id p, cp_position_schema_id p, envelope_boundary_ordinal v,
       digest_hex (ee_transaction_group_id v),
       (case cp_event_index p of None \<Rightarrow> -1 | Some i \<Rightarrow> i),
       digest_hex (ee_stable_causal_id v)))"

section \<open>The reference AMM payload\<close>

fun utf8_decode :: "bytes \<Rightarrow> string option" where
  "utf8_decode [] = Some []"
| "utf8_decode (c # cs) =
     (if char_code c < 128 then map_option ((#) c) (utf8_decode cs)
      else (case cs of
          [] \<Rightarrow> None
        | d # ds \<Rightarrow>
            if 194 \<le> char_code c \<and> char_code c \<le> 195 \<and> 128 \<le> char_code d \<and> char_code d \<le> 191 then
              map_option ((#) (char_of ((char_code c - 192) * 64 + (char_code d - 128)))) (utf8_decode ds)
            else None))"

definition json_loads :: "bytes \<Rightarrow> json option" where
  "json_loads bs =
     (case utf8_decode bs of
        None \<Rightarrow> None
      | Some s \<Rightarrow> (case read_json (length s) s of Some (v, []) \<Rightarrow> Some v | _ \<Rightarrow> None))"

text \<open>Building a dict from the members in order: a repeated key keeps its last value.\<close>

definition dict_of_pairs :: "(string \<times> 'v) list \<Rightarrow> (string, 'v) dict" where
  "dict_of_pairs kvs = foldl (\<lambda>d (k, v). dict_set k v d) [] kvs"

definition payload_string :: "(string, json) dict \<Rightarrow> string \<Rightarrow> string res" where
  "payload_string d field =
     (case dict_get d field of
        Some (JStr s) \<Rightarrow> Inr s
      | _ \<Rightarrow> Inl (ValueError (''reference AMM payload '' @ field @ '' must be a string'')))"

definition payload_optional_integer :: "(string, json) dict \<Rightarrow> string \<Rightarrow> int option res" where
  "payload_optional_integer d field =
     (case dict_get d field of
        None \<Rightarrow> Inr None
      | Some JNull \<Rightarrow> Inr None
      | Some (JInt i) \<Rightarrow>
          if i < 0 then Inl (ValueError (''reference AMM payload '' @ field @ '' must be non-negative or null''))
          else Inr (Some i)
      | Some _ \<Rightarrow> Inl (ValueError (''reference AMM payload '' @ field @ '' must be non-negative or null'')))"

definition amm_payload_keys :: "string list" where
  "amm_payload_keys =
     [''asset_a_id'', ''asset_b_id'', ''reserve_a_after_atomic'', ''reserve_b_after_atomic'']"

definition reference_amm_payload :: "venue_trade_event \<Rightarrow> (string, json) dict res" where
  "reference_amm_payload t =
     (if vt_protocol_payload_schema t \<noteq> REFERENCE_AMM_TRADE_PAYLOAD_SCHEMA_ID then
        Inl (ValueError ''legacy pool view requires reference AMM payload schema'')
      else (case json_loads (vt_protocol_payload t) of
          None \<Rightarrow> Inl (ValueError ''reference AMM payload is not canonical JSON'')
        | Some (JObj kvs) \<Rightarrow>
            (let d = dict_of_pairs kvs in
             if set (dict_keys d) \<noteq> set amm_payload_keys then
               Inl (ValueError ''reference AMM payload fields are invalid'')
             else bindE (canonical_json_bytes (JObj d)) (\<lambda>bs.
               if bs \<noteq> vt_protocol_payload t then
                 Inl (ValueError ''reference AMM payload bytes are not canonical'')
               else bindE (payload_string d ''asset_a_id'') (\<lambda>a.
                 bindE (payload_string d ''asset_b_id'') (\<lambda>b.
                 bindE (Identifier a) (\<lambda>a'.
                 bindE (Identifier b) (\<lambda>b'.
                   if a' = b' then Inl (ValueError ''reference AMM payload assets must be different'')
                   else bindE (payload_optional_integer d ''reserve_a_after_atomic'') (\<lambda>ra.
                     bindE (payload_optional_integer d ''reserve_b_after_atomic'') (\<lambda>rb.
                       if (ra = None) \<noteq> (rb = None) then
                         Inl (ValueError ''reference AMM reserves must both be present or absent'')
                       else Inr d))))))))
        | Some _ \<Rightarrow> Inl (ValueError ''reference AMM payload fields are invalid'')))"

definition trade_pool_id :: "venue_trade_event \<Rightarrow> pool_id res" where
  "trade_pool_id t = bindE (reference_amm_payload t) (\<lambda>_. Identifier (vt_venue_id t))"

definition trade_fee_amount_atomic :: "venue_trade_event \<Rightarrow> int res" where
  "trade_fee_amount_atomic t = bindE (reference_amm_payload t) (\<lambda>_.
     if list_ex (\<lambda>c. fc_asset_id c \<noteq> vt_sold_asset_id t) (vt_fee_components t) then
       Inl (ValueError ''legacy aggregate fee requires sold-asset fee components'')
     else Inr (sum_list (map fc_amount_atomic (vt_fee_components t))))"

definition trade_asset_a_id :: "venue_trade_event \<Rightarrow> asset_id res" where
  "trade_asset_a_id t = bindE (reference_amm_payload t) (\<lambda>d.
     bindE (payload_string d ''asset_a_id'') Identifier)"

definition trade_asset_b_id :: "venue_trade_event \<Rightarrow> asset_id res" where
  "trade_asset_b_id t = bindE (reference_amm_payload t) (\<lambda>d.
     bindE (payload_string d ''asset_b_id'') Identifier)"

definition trade_reserve_a_after :: "venue_trade_event \<Rightarrow> int option res" where
  "trade_reserve_a_after t = bindE (reference_amm_payload t) (\<lambda>d.
     payload_optional_integer d ''reserve_a_after_atomic'')"

definition trade_reserve_b_after :: "venue_trade_event \<Rightarrow> int option res" where
  "trade_reserve_b_after t = bindE (reference_amm_payload t) (\<lambda>d.
     payload_optional_integer d ''reserve_b_after_atomic'')"

definition json_optional_int :: "int option \<Rightarrow> json" where
  "json_optional_int v = (case v of None \<Rightarrow> JNull | Some i \<Rightarrow> JInt i)"

definition json_optional_string :: "string option \<Rightarrow> json" where
  "json_optional_string v = (case v of None \<Rightarrow> JNull | Some s \<Rightarrow> JStr s)"

definition reference_amm_trade_payload ::
  "asset_id \<Rightarrow> asset_id \<Rightarrow> int option \<Rightarrow> int option \<Rightarrow> bytes res" where
  "reference_amm_trade_payload a b ra rb =
     (if a = b then Inl (ValueError ''reference AMM payload assets must be different'')
      else if (case ra of None \<Rightarrow> False | Some v \<Rightarrow> v < 0) then
        Inl (ValueError ''reserve_a_after_atomic must be a non-negative integer or None'')
      else if (case rb of None \<Rightarrow> False | Some v \<Rightarrow> v < 0) then
        Inl (ValueError ''reserve_b_after_atomic must be a non-negative integer or None'')
      else if (ra = None) \<noteq> (rb = None) then
        Inl (ValueError ''reference AMM reserves must both be present or absent'')
      else canonical_json_bytes (JObj
        [(''asset_a_id'', JStr a), (''asset_b_id'', JStr b),
         (''reserve_a_after_atomic'', json_optional_int ra),
         (''reserve_b_after_atomic'', json_optional_int rb)]))"

section \<open>Canonical documents and hashes\<close>

definition hex_bytes :: "bytes \<Rightarrow> string" where
  "hex_bytes bs = concat (map (\<lambda>b. [hex_char (char_code b div 16), hex_char (char_code b mod 16)]) bs)"

definition fee_component_document :: "fee_component \<Rightarrow> json" where
  "fee_component_document c = JObj
     [(''amount_atomic'', JInt (fc_amount_atomic c)), (''asset_id'', JStr (fc_asset_id c)),
      (''component_id'', JStr (fc_component_id c))]"

fun event_payload_document :: "canonical_event \<Rightarrow> json" where
  "event_payload_document (Block_Event b) = JObj
     [(''block_hash'', json_optional_string (be_block_hash b)),
      (''block_time_ns'', json_optional_int (be_block_time_ns b)),
      (''tx_count'', json_optional_int (be_tx_count b))]"
| "event_payload_document (Token_Launch_Event t) = JObj
     [(''asset_id'', JStr (tl_asset_id t)), (''creation_user_id'', JStr (tl_creation_user_id t)),
      (''decimals'', json_optional_int (tl_decimals t)), (''developer_id'', JStr (tl_developer_id t)),
      (''protocol_payload'', JStr (hex_bytes (tl_protocol_payload t))),
      (''protocol_payload_schema'', JStr (tl_protocol_payload_schema t)),
      (''quote_asset_id'', JStr (tl_quote_asset_id t)), (''venue_id'', JStr (tl_venue_id t))]"
| "event_payload_document (Venue_Trade_Event t) = JObj
     [(''bought_amount_atomic'', JInt (vt_bought_amount_atomic t)),
      (''bought_asset_id'', JStr (vt_bought_asset_id t)),
      (''fee_components'', JArr (map fee_component_document (vt_fee_components t))),
      (''protocol_payload'', JStr (hex_bytes (vt_protocol_payload t))),
      (''protocol_payload_schema'', JStr (vt_protocol_payload_schema t)),
      (''sold_amount_atomic'', JInt (vt_sold_amount_atomic t)),
      (''sold_asset_id'', JStr (vt_sold_asset_id t)), (''venue_id'', JStr (vt_venue_id t))]"
| "event_payload_document (Venue_Lifecycle_Event l) = JObj
     [(''lifecycle_kind'', JStr (lifecycle_value (vl_lifecycle_kind l))),
      (''protocol_payload'', JStr (hex_bytes (vl_protocol_payload l))),
      (''protocol_payload_schema'', JStr (vl_protocol_payload_schema l)),
      (''venue_id'', JStr (vl_venue_id l))]"

definition canonical_event_document :: "canonical_event \<Rightarrow> json" where
  "canonical_event_document e =
     (let v = event_envelope_of e; p = ee_position v in JObj
      [(''boundary_ordinal'', JInt (envelope_boundary_ordinal v)),
       (''block_ordinal'', JInt (cp_block_ordinal p)),
       (''canonical_event_id'', JStr (digest_hex (ee_canonical_event_id v))),
       (''capability_id'', JStr (ee_capability_id v)),
       (''event_index'', json_optional_int (cp_event_index p)),
       (''event_kind'', JStr (event_kind_name (event_kind_of e))),
       (''network_id'', JStr (cp_network_id p)),
       (''ordering_fidelity'', JStr (member_value ordering_members (ee_ordering_fidelity v))),
       (''position_schema_id'', JStr (cp_position_schema_id p)),
       (''protocol'', JStr (ee_protocol v)),
       (''protocol_version'', JStr (ee_protocol_version v)),
       (''source_record_id'', JStr (digest_hex (ee_source_record_id v))),
       (''stable_causal_id'', JStr (digest_hex (ee_stable_causal_id v))),
       (''transaction_group_id'', JStr (digest_hex (ee_transaction_group_id v))),
       (''transaction_index'', JInt (cp_transaction_index p)),
       (''payload'', event_payload_document e)])"

definition canonical_event_digest :: "(bytes \<Rightarrow> string) \<Rightarrow> canonical_event \<Rightarrow> digest res" where
  "canonical_event_digest sha e =
     domain_digest sha ''backtest.canonical-logical-row.v3'' (canonical_event_document e)"

definition logical_stream_domain :: bytes where
  "logical_stream_domain = ''backtest.canonical-logical-stream.v3'' @ [nul]"

definition event_hasher_update :: "(bytes \<Rightarrow> string) \<Rightarrow> bytes \<Rightarrow> canonical_event \<Rightarrow> bytes res" where
  "event_hasher_update sha fed e =
     bindE (canonical_event_digest sha e) (\<lambda>d. Inr (fed @ unhex (digest_hex d)))"

definition canonical_event_stream_hash :: "(bytes \<Rightarrow> string) \<Rightarrow> canonical_event list \<Rightarrow> digest res" where
  "canonical_event_stream_hash sha events =
     bindE (foldE (event_hasher_update sha) logical_stream_domain events) (\<lambda>fed.
       ContentDigest (sha fed))"

section \<open>Lemmas\<close>

fun json_items :: "json \<Rightarrow> (string \<times> json) list" where
  "json_items (JObj kvs) = kvs"
| "json_items v = []"

text \<open>Looking up a key of a normalised object gives the normalised value.\<close>

lemma map_of_sort_key:
  assumes "distinct (map fst kvs)"
  shows "map_of (sort_key fst kvs) = map_of kvs"
proof -
  have "mset (map fst (sort_key fst kvs)) = mset (map fst kvs)" by simp
  with assms have "distinct (map fst (sort_key fst kvs))" by (metis mset_eq_imp_distinct_iff)
  with assms show ?thesis by (simp add: map_of_inject_set)
qed

lemma jnorm_get:
  assumes "jnorm (JObj kvs) = jnorm (JObj kvs')" and "distinct (map fst kvs)" and "distinct (map fst kvs')"
  shows "map_option jnorm (map_of kvs k) = map_option jnorm (map_of kvs' k)"
proof -
  have get: "map_of (json_items (jnorm (JObj d))) k = map_option jnorm (map_of d k)"
    if "distinct (map fst d)" for d
  proof -
    have keys: "map fst (map (\<lambda>(k, v). (k, jnorm v)) d) = map fst d" by auto
    have "map_of (sort_key fst (map (\<lambda>(k, v). (k, jnorm v)) d)) = map_of (map (\<lambda>(k, v). (k, jnorm v)) d)"
      by (rule map_of_sort_key) (simp only: keys that)
    then show ?thesis by (simp add: map_of_map)
  qed
  show ?thesis using get[OF assms(2)] get[OF assms(3)] assms(1) by simp
qed

lemma hex_char_range: "d < 16 \<Longrightarrow> hex_value (hex_char d) = d"
  by (rule hex_char_value)

lemma unhex_hex_bytes: "unhex (hex_bytes bs) = bs"
proof (induction bs)
  case (Cons b bs)
  have "char_code b div 16 < 16" "char_code b mod 16 < 16"
    using char_code_lt[of b] by simp_all
  then have "16 * hex_value (hex_char (char_code b div 16)) + hex_value (hex_char (char_code b mod 16)) = char_code b"
    by (simp add: hex_char_value)
  moreover have "hex_bytes (b # bs) = hex_char (char_code b div 16) # hex_char (char_code b mod 16) # hex_bytes bs"
    by (simp add: hex_bytes_def)
  ultimately show ?case using Cons by simp
qed (simp add: hex_bytes_def)

lemma hex_bytes_inj: "hex_bytes a = hex_bytes b \<longleftrightarrow> a = b"
  by (metis unhex_hex_bytes)

lemma json_optional_inj [simp]:
  "jnorm (json_optional_int a) = jnorm (json_optional_int b) \<longleftrightarrow> a = b"
  "jnorm (json_optional_string s) = jnorm (json_optional_string t) \<longleftrightarrow> s = t"
  by (auto simp: json_optional_int_def json_optional_string_def split: option.splits)

lemma utf8_decode_utf8: "utf8_decode (utf8 s) = Some s"
proof (induction s)
  case (Cons c s)
  show ?case
  proof (cases "char_code c < 128")
    case True
    then show ?thesis using Cons by (simp add: utf8_Cons utf8_char_def)
  next
    case False
    have c: "char_code c < 256" by (rule char_code_lt)
    then have hi: "char_code c div 64 \<in> {2, 3}" using False by auto
    define q m where "q = char_code c div 64" and "m = char_code c mod 64"
    have qm: "q \<in> {2, 3}" "m \<le> 63" "char_of (q * 64 + m) = c"
      using hi by (auto simp: q_def m_def intro!: mod_less_divisor Suc_leI[THEN order_trans])
    have codes: "char_code (char_of (192 + q)) = 192 + q" "char_code (char_of (128 + m)) = 128 + m"
      using qm by (auto intro!: char_code_char_of)
    have "utf8 (c # s) = char_of (192 + q) # char_of (128 + m) # utf8 s"
      using False by (simp add: utf8_Cons utf8_char_def q_def m_def Let_def)
    then show ?thesis
      using Cons qm(1,2) by (auto simp: codes qm(3) simp flip: qm(3))
  qed
qed (simp add: utf8_def)

lemma json_loads_canonical:
  "canonical_json_bytes v = Inr bs \<Longrightarrow> json_loads bs = Some (jnorm v)"
  using read_render(1)[of "jnorm v" "length (render (jnorm v))" "[]"]
  by (auto simp: canonical_json_bytes_Inr json_loads_def utf8_decode_utf8 jnorm_plain)

lemma member_value_ordering_inj:
  "member_value ordering_members a = member_value ordering_members b \<longleftrightarrow> a = b"
  by (cases a; cases b) (simp_all add: member_value_def ordering_members_def dict_get_default_def)

lemma lifecycle_value_inj: "lifecycle_value a = lifecycle_value b \<longleftrightarrow> a = b"
  by (cases a; cases b) simp_all

lemma fee_component_document_inj:
  "jnorm (fee_component_document c) = jnorm (fee_component_document d) \<longleftrightarrow> c = d"
  by (auto simp: fee_component_document_def)

lemma fee_documents_inj:
  "map jnorm (map fee_component_document cs) = map jnorm (map fee_component_document ds) \<longleftrightarrow> cs = ds"
  unfolding map_map by (rule inj_map_eq_map) (auto simp: inj_def fee_component_document_inj)

text \<open>An event with the optional digest prefixes dropped: what its document shows of the digests.\<close>

definition bare_envelope :: "event_envelope \<Rightarrow> event_envelope" where
  "bare_envelope v = v\<lparr>ee_transaction_group_id := digest_hex (ee_transaction_group_id v),
     ee_source_record_id := digest_hex (ee_source_record_id v),
     ee_canonical_event_id := digest_hex (ee_canonical_event_id v),
     ee_stable_causal_id := digest_hex (ee_stable_causal_id v)\<rparr>"

fun bare_event :: "canonical_event \<Rightarrow> canonical_event" where
  "bare_event (Block_Event b) = Block_Event (b\<lparr>be_envelope := bare_envelope (be_envelope b)\<rparr>)"
| "bare_event (Token_Launch_Event t) = Token_Launch_Event (t\<lparr>tl_envelope := bare_envelope (tl_envelope t)\<rparr>)"
| "bare_event (Venue_Trade_Event t) = Venue_Trade_Event (t\<lparr>vt_envelope := bare_envelope (vt_envelope t)\<rparr>)"
| "bare_event (Venue_Lifecycle_Event l) =
     Venue_Lifecycle_Event (l\<lparr>vl_envelope := bare_envelope (vl_envelope l)\<rparr>)"

definition event_document_items :: "canonical_event \<Rightarrow> (string \<times> json) list" where
  "event_document_items e = json_items (canonical_event_document e)"

lemma event_document_get:
  assumes "jnorm (canonical_event_document e) = jnorm (canonical_event_document f)"
  shows "map_option jnorm (map_of (event_document_items e) k)
       = map_option jnorm (map_of (event_document_items f) k)"
proof -
  have doc: "canonical_event_document x = JObj (event_document_items x)"
    and keys: "distinct (map fst (event_document_items x))" for x
    by (simp_all add: event_document_items_def canonical_event_document_def Let_def)
  show ?thesis using assms unfolding doc by (rule jnorm_get[OF _ keys keys])
qed

lemma event_envelope_document:
  assumes "jnorm (canonical_event_document e) = jnorm (canonical_event_document f)"
  shows "bare_envelope (event_envelope_of e) = bare_envelope (event_envelope_of f)
    \<and> event_kind_of e = event_kind_of f
    \<and> jnorm (event_payload_document e) = jnorm (event_payload_document f)"
proof -
  note get = event_document_get[OF assms]
  note items = event_document_items_def canonical_event_document_def Let_def
  have pos: "cp_block_ordinal (ee_position (event_envelope_of e)) = cp_block_ordinal (ee_position (event_envelope_of f))"
    "cp_event_index (ee_position (event_envelope_of e)) = cp_event_index (ee_position (event_envelope_of f))"
    "cp_network_id (ee_position (event_envelope_of e)) = cp_network_id (ee_position (event_envelope_of f))"
    "cp_position_schema_id (ee_position (event_envelope_of e)) = cp_position_schema_id (ee_position (event_envelope_of f))"
    "cp_transaction_index (ee_position (event_envelope_of e)) = cp_transaction_index (ee_position (event_envelope_of f))"
    using get[of "''block_ordinal''"] get[of "''event_index''"] get[of "''network_id''"]
      get[of "''position_schema_id''"] get[of "''transaction_index''"]
    by (simp_all add: items)
  have ids: "digest_hex (ee_canonical_event_id (event_envelope_of e)) = digest_hex (ee_canonical_event_id (event_envelope_of f))"
    "digest_hex (ee_source_record_id (event_envelope_of e)) = digest_hex (ee_source_record_id (event_envelope_of f))"
    "digest_hex (ee_stable_causal_id (event_envelope_of e)) = digest_hex (ee_stable_causal_id (event_envelope_of f))"
    "digest_hex (ee_transaction_group_id (event_envelope_of e)) = digest_hex (ee_transaction_group_id (event_envelope_of f))"
    using get[of "''canonical_event_id''"] get[of "''source_record_id''"] get[of "''stable_causal_id''"]
      get[of "''transaction_group_id''"]
    by (simp_all add: items)
  have strs: "ee_capability_id (event_envelope_of e) = ee_capability_id (event_envelope_of f)"
    "ee_protocol (event_envelope_of e) = ee_protocol (event_envelope_of f)"
    "ee_protocol_version (event_envelope_of e) = ee_protocol_version (event_envelope_of f)"
    "ee_ordering_fidelity (event_envelope_of e) = ee_ordering_fidelity (event_envelope_of f)"
    using get[of "''capability_id''"] get[of "''protocol''"] get[of "''protocol_version''"]
      get[of "''ordering_fidelity''"]
    by (simp_all add: items member_value_ordering_inj)
  have "event_kind_name (event_kind_of e) = event_kind_name (event_kind_of f)"
    using get[of "''event_kind''"] by (simp add: items)
  then have kind: "event_kind_of e = event_kind_of f"
    by (cases e; cases f) simp_all
  have "jnorm (event_payload_document e) = jnorm (event_payload_document f)"
    using get[of "''payload''"] by (simp add: items)
  then show ?thesis
    using pos ids strs kind by (auto simp: bare_envelope_def intro!: chain_position.equality event_envelope.equality)
qed

section \<open>Sample events\<close>

definition sample_envelope :: event_envelope where
  "sample_envelope = \<lparr>ee_position = \<lparr>cp_network_id = ''n'',
      cp_position_schema_id = BLOCK32_TRANSACTION32_POSITION_SCHEMA_ID, cp_block_ordinal = 1,
      cp_transaction_index = -1, cp_event_index = Some 0\<rparr>,
     ee_transaction_group_id = ''g'', ee_source_record_id = ''s'', ee_canonical_event_id = ''e'',
     ee_stable_causal_id = ''c'', ee_capability_id = ''cap'', ee_protocol = ''p'',
     ee_protocol_version = ''v1'', ee_ordering_fidelity = INSTRUCTION_EXACT\<rparr>"

definition sample_block_record :: block_event where
  "sample_block_record = \<lparr>be_envelope = sample_envelope, be_block_time_ns = Some 0,
     be_tx_count = Some 2, be_block_hash = None\<rparr>"

definition sample_block :: canonical_event where
  "sample_block = Block_Event sample_block_record"

definition sample_trade :: "bytes \<Rightarrow> venue_trade_event" where
  "sample_trade bs = \<lparr>vt_envelope = sample_envelope, vt_venue_id = ''P'', vt_sold_asset_id = ''A'',
     vt_bought_asset_id = ''B'', vt_sold_amount_atomic = 1, vt_bought_amount_atomic = 1,
     vt_fee_components = [], vt_protocol_payload_schema = REFERENCE_AMM_TRADE_PAYLOAD_SCHEMA_ID,
     vt_protocol_payload = bs\<rparr>"

lemma amm_payload_read:
  assumes "reference_amm_trade_payload a b ra rb = Inr bs"
    and "Identifier a = Inr a" and "Identifier b = Inr b" and "Identifier (vt_venue_id t) = Inr v"
    and "vt_protocol_payload t = bs"
    and "vt_protocol_payload_schema t = REFERENCE_AMM_TRADE_PAYLOAD_SCHEMA_ID"
  shows "trade_asset_a_id t = Inr a \<and> trade_asset_b_id t = Inr b
    \<and> trade_reserve_a_after t = Inr ra \<and> trade_reserve_b_after t = Inr rb
    \<and> trade_pool_id t = Inr v"
proof -
  let ?d = "[(''asset_a_id'', JStr a), (''asset_b_id'', JStr b),
    (''reserve_a_after_atomic'', json_optional_int ra), (''reserve_b_after_atomic'', json_optional_int rb)]"
  have bs: "canonical_json_bytes (JObj ?d) = Inr bs" and guards: "a \<noteq> b" "(ra = None) = (rb = None)"
    "\<not> (case ra of None \<Rightarrow> False | Some v \<Rightarrow> v < 0)" "\<not> (case rb of None \<Rightarrow> False | Some v \<Rightarrow> v < 0)"
    using assms(1) by (auto simp: reference_amm_trade_payload_def split: if_splits)
  have norm: "jnorm (JObj ?d) = JObj ?d"
    by (cases ra; cases rb) (simp_all add: json_optional_int_def)
  have loads: "json_loads bs = Some (JObj ?d)"
    using json_loads_canonical[OF bs] by (simp only: norm)
  have dict: "dict_of_pairs ?d = ?d"
    by (simp add: dict_of_pairs_def)
  have opt: "payload_optional_integer ?d ''reserve_a_after_atomic'' = Inr ra"
    "payload_optional_integer ?d ''reserve_b_after_atomic'' = Inr rb"
    using guards by (auto simp: payload_optional_integer_def json_optional_int_def split: option.splits)
  have str: "payload_string ?d ''asset_a_id'' = Inr a" "payload_string ?d ''asset_b_id'' = Inr b"
    by (simp_all add: payload_string_def)
  have keys: "set (dict_keys ?d) = set amm_payload_keys"
    by (simp add: amm_payload_keys_def)
  have "reference_amm_payload t = Inr ?d"
    unfolding reference_amm_payload_def assms(5,6) loads
    by (simp only: option.case json.case Let_def dict keys bs bindE_Inr str opt assms(2,3) guards)
       (use guards in simp)
  then show ?thesis
    using str opt assms(2-4)
    by (simp add: trade_asset_a_id_def trade_asset_b_id_def trade_reserve_a_after_def
        trade_reserve_b_after_def trade_pool_id_def del: list.map map_of.simps)
qed

lemma sample_trade_view:
  assumes "reference_amm_trade_payload ''A'' ''B'' (Some 5) (Some 7) = Inr bs"
  shows "trade_asset_a_id (sample_trade bs) = Inr ''A'' \<and> trade_asset_b_id (sample_trade bs) = Inr ''B''
    \<and> trade_reserve_a_after (sample_trade bs) = Inr (Some 5)
    \<and> trade_reserve_b_after (sample_trade bs) = Inr (Some 7) \<and> trade_pool_id (sample_trade bs) = Inr ''P''"
proof -
  have ids: "Identifier [c] = Inr [c]" if "c \<in> {CHR ''A'', CHR ''B'', CHR ''P''}" for c
    using that by (auto simp: Identifier_def strip_def is_space_def char_code_def)
  show ?thesis
    by (rule amm_payload_read[OF assms]) (use ids in \<open>simp_all add: sample_trade_def\<close>)
qed

section \<open>Properties\<close>

text \<open>C28: The canonical document of an event determines it: two events whose documents are equal up to key
  order agree in their class and in every field of the event and its envelope (a digest is read
  without its optional prefix). So equal canonical rows are equal events.\<close>

theorem event_document_injective:
  assumes "jnorm (canonical_event_document e) = jnorm (canonical_event_document f)"
  shows "bare_event e = bare_event f"
proof -
  have env: "bare_envelope (event_envelope_of e) = bare_envelope (event_envelope_of f)"
    and kind: "event_kind_of e = event_kind_of f"
    and payload: "jnorm (event_payload_document e) = jnorm (event_payload_document f)"
    using event_envelope_document[OF assms] by auto
  show ?thesis
  proof (cases e)
    case (Block_Event b)
    with kind obtain c where "f = Block_Event c" by (cases f) auto
    with Block_Event env payload show ?thesis by (auto intro: block_event.equality)
  next
    case (Token_Launch_Event t)
    with kind obtain u where "f = Token_Launch_Event u" by (cases f) auto
    with Token_Launch_Event env payload show ?thesis
      by (auto simp: hex_bytes_inj intro: token_launch_event.equality)
  next
    case (Venue_Trade_Event t)
    with kind obtain u where "f = Venue_Trade_Event u" by (cases f) auto
    with Venue_Trade_Event env payload show ?thesis
      by (auto simp: hex_bytes_inj fee_documents_inj[unfolded map_map] intro: venue_trade_event.equality)
  next
    case (Venue_Lifecycle_Event l)
    with kind obtain m where "f = Venue_Lifecycle_Event m" by (cases f) auto
    with Venue_Lifecycle_Event env payload show ?thesis
      by (auto simp: hex_bytes_inj lifecycle_value_inj intro: venue_lifecycle_event.equality)
  qed
qed

theorem event_document_injective_witness:
  "jnorm (canonical_event_document sample_block) = jnorm (canonical_event_document
     (Block_Event (sample_block_record\<lparr>be_envelope := sample_envelope\<lparr>
        ee_source_record_id := ''sha256:s''\<rparr>\<rparr>)))
   \<and> bare_event sample_block = bare_event (Block_Event (sample_block_record\<lparr>be_envelope :=
        sample_envelope\<lparr>ee_source_record_id := ''sha256:s''\<rparr>\<rparr>))"
proof -
  have "canonical_event_document sample_block = canonical_event_document
     (Block_Event (sample_block_record\<lparr>be_envelope := sample_envelope\<lparr>ee_source_record_id := ''sha256:s''\<rparr>\<rparr>))"
    by (simp add: canonical_event_document_def sample_block_def sample_block_record_def sample_envelope_def
        digest_hex_def sha256_prefix_def envelope_boundary_ordinal_def)
  then have "jnorm (canonical_event_document sample_block) = jnorm (canonical_event_document
     (Block_Event (sample_block_record\<lparr>be_envelope := sample_envelope\<lparr>ee_source_record_id := ''sha256:s''\<rparr>\<rparr>)))"
    by simp
  from event_document_injective[OF this] this show ?thesis by blast
qed

text \<open>What \<^verbatim>\<open>reference_amm_trade_payload\<close> writes, the trade event's legacy pool view reads back: both
  assets, both reserves, and the venue as the pool.\<close>

theorem amm_payload_roundtrip:
  assumes "reference_amm_trade_payload a b ra rb = Inr bs"
    and "Identifier a = Inr a" and "Identifier b = Inr b" and "Identifier (vt_venue_id t) = Inr v"
    and "vt_protocol_payload t = bs"
    and "vt_protocol_payload_schema t = REFERENCE_AMM_TRADE_PAYLOAD_SCHEMA_ID"
  shows "trade_asset_a_id t = Inr a \<and> trade_asset_b_id t = Inr b
    \<and> trade_reserve_a_after t = Inr ra \<and> trade_reserve_b_after t = Inr rb
    \<and> trade_pool_id t = Inr v"
  using amm_payload_read[OF assms] .

theorem amm_payload_roundtrip_witness:
  "\<exists>bs. reference_amm_trade_payload ''A'' ''B'' (Some 5) (Some 7) = Inr bs
     \<and> trade_reserve_b_after (sample_trade bs) = Inr (Some 7) \<and> trade_pool_id (sample_trade bs) = Inr ''P''"
proof -
  have ids: "Identifier [c] = Inr [c]" if "c \<in> {CHR ''A'', CHR ''B'', CHR ''P''}" for c
    using that by (auto simp: Identifier_def strip_def is_space_def char_code_def)
  obtain bs where bs: "reference_amm_trade_payload ''A'' ''B'' (Some 5) (Some 7) = Inr bs"
    by (simp add: reference_amm_trade_payload_def json_optional_int_def canonical_json_bytes_def)
  have "Identifier (vt_venue_id (sample_trade bs)) = Inr ''P''"
    using ids[of "CHR ''P''"] by (simp add: sample_trade_def)
  with amm_payload_roundtrip[OF bs ids ids this] bs show ?thesis
    by (simp add: sample_trade_def)
qed

end
