(* ===== verification/Ledger.thy ===== *)
theory Ledger
  imports Canonical_Json
begin

text \<open>
  The double-entry ledger (\<^verbatim>\<open>domain/ledger.py\<close>), the portfolio reducer built on it
  (\<^verbatim>\<open>engine/portfolio.py\<close>) and the canonical ledger documents (\<^verbatim>\<open>engine/audit.py\<close>). The locale
  \<open>preview_commit\<close> is the contract of every reducer of the engine that validates a candidate first
  and commits it afterwards; the portfolio is its first instance.
\<close>

section \<open>Ledger contracts\<close>

datatype account_kind =
    PORTFOLIO_AVAILABLE | PORTFOLIO_RESERVED | PORTFOLIO_LOCKED | RECEIVABLE
  | VENUE | PROTOCOL_FEE | CREATOR_FEE | NETWORK_FEE | EXTERNAL

fun account_kind_value :: "account_kind \<Rightarrow> string" where
  "account_kind_value PORTFOLIO_AVAILABLE = ''PORTFOLIO_AVAILABLE''"
| "account_kind_value PORTFOLIO_RESERVED = ''PORTFOLIO_RESERVED''"
| "account_kind_value PORTFOLIO_LOCKED = ''PORTFOLIO_LOCKED''"
| "account_kind_value RECEIVABLE = ''RECEIVABLE''"
| "account_kind_value VENUE = ''VENUE''"
| "account_kind_value PROTOCOL_FEE = ''PROTOCOL_FEE''"
| "account_kind_value CREATOR_FEE = ''CREATOR_FEE''"
| "account_kind_value NETWORK_FEE = ''NETWORK_FEE''"
| "account_kind_value EXTERNAL = ''EXTERNAL''"

datatype ledger_correlation_kind = ORDER | ROUNDTRIP

fun ledger_correlation_kind_value :: "ledger_correlation_kind \<Rightarrow> string" where
  "ledger_correlation_kind_value ORDER = ''ORDER''"
| "ledger_correlation_kind_value ROUNDTRIP = ''ROUNDTRIP''"

record ledger_account =
  la_account_id :: account_id
  la_kind :: account_kind

definition LedgerAccount :: "account_id \<Rightarrow> account_kind \<Rightarrow> ledger_account" where
  "LedgerAccount a k = \<lparr>la_account_id = a, la_kind = k\<rparr>"

record posting =
  po_account :: ledger_account
  po_asset_id :: asset_id
  po_amount_atomic :: int

definition Posting :: "ledger_account \<Rightarrow> asset_id \<Rightarrow> int \<Rightarrow> posting res" where
  "Posting account asset amount =
     (if amount = 0 then Inl (ValueError ''zero-value postings are forbidden'')
      else Inr \<lparr>po_account = account, po_asset_id = asset, po_amount_atomic = amount\<rparr>)"

record ledger_transaction =
  lt_transaction_id :: digest
  lt_correlation_kind :: ledger_correlation_kind
  lt_correlation_id :: digest
  lt_boundary_ordinal :: int
  lt_postings :: "posting list"
  lt_reason :: string

definition posting_totals :: "posting list \<Rightarrow> (asset_id, int) dict" where
  "posting_totals ps = foldl (\<lambda>totals p.
     dict_set (po_asset_id p) (dict_get_default totals (po_asset_id p) 0 + po_amount_atomic p) totals)
     [] ps"

definition LedgerTransaction ::
  "digest \<Rightarrow> ledger_correlation_kind \<Rightarrow> digest \<Rightarrow> int \<Rightarrow> posting list \<Rightarrow> string \<Rightarrow> ledger_transaction res"
where
  "LedgerTransaction transaction_id kind correlation_id boundary postings reason =
     (if boundary < 0 then Inl (ValueError ''ledger boundary must be non-negative'')
      else if reason = [] \<or> reason \<noteq> strip reason then
        Inl (ValueError ''ledger reason must be non-empty and trimmed'')
      else if length postings < 2 then
        Inl (ValueError ''double-entry transaction requires at least two postings'')
      else if list_ex (\<lambda>(_, total). total \<noteq> 0) (posting_totals postings) then
        Inl (ValueError ''ledger postings must conserve every asset'')
      else Inr \<lparr>lt_transaction_id = transaction_id, lt_correlation_kind = kind,
                lt_correlation_id = correlation_id, lt_boundary_ordinal = boundary,
                lt_postings = postings, lt_reason = reason\<rparr>)"

definition valid_transaction :: "ledger_transaction \<Rightarrow> bool" where
  "valid_transaction t \<longleftrightarrow>
     LedgerTransaction (lt_transaction_id t) (lt_correlation_kind t) (lt_correlation_id t)
       (lt_boundary_ordinal t) (lt_postings t) (lt_reason t) = Inr t"

section \<open>The portfolio reducer\<close>

record portfolio_commit =
  pc_balances :: "(account_id \<times> asset_id, int) dict"
  pc_account_kinds :: "(account_id, account_kind) dict"

record portfolio_state =
  pf_balances :: "(account_id \<times> asset_id, int) dict"
  pf_account_kinds :: "(account_id, account_kind) dict"
  pf_transaction_count :: nat

definition available_account_id :: "asset_id \<Rightarrow> account_id res" where
  "available_account_id a = Identifier (''portfolio:available:'' @ a)"

definition reserved_account_id :: "asset_id \<Rightarrow> account_id res" where
  "reserved_account_id a = Identifier (''portfolio:reserved:'' @ a)"

definition PortfolioState :: "(asset_id, int) dict \<Rightarrow> portfolio_state res" where
  "PortfolioState initial_available = foldE (\<lambda>st (asset, amount).
     if amount < 0 then
       Inl (ValueError ''initial portfolio balances must be non-negative integers'')
     else bindE (available_account_id asset) (\<lambda>account.
       Inr (st\<lparr>pf_account_kinds := dict_set account PORTFOLIO_AVAILABLE (pf_account_kinds st),
               pf_balances := dict_set (account, asset) amount (pf_balances st)\<rparr>)))
     \<lparr>pf_balances = [], pf_account_kinds = [], pf_transaction_count = 0\<rparr> initial_available"

definition is_portfolio_kind :: "account_kind \<Rightarrow> bool" where
  "is_portfolio_kind k \<longleftrightarrow>
     k \<in> {PORTFOLIO_AVAILABLE, PORTFOLIO_RESERVED, PORTFOLIO_LOCKED, RECEIVABLE}"

definition preview_posting :: "portfolio_commit \<Rightarrow> posting \<Rightarrow> portfolio_commit res" where
  "preview_posting c p =
     (let account_id = la_account_id (po_account p); kind = la_kind (po_account p);
          key = (account_id, po_asset_id p);
          balance = dict_get_default (pc_balances c) key 0 + po_amount_atomic p in
      if (case dict_get (pc_account_kinds c) account_id of None \<Rightarrow> False | Some k \<Rightarrow> k \<noteq> kind) then
        Inl (PortfolioInvariantError ''ledger account kind changed'')
      else if is_portfolio_kind kind \<and> balance < 0 then
        Inl (PortfolioInvariantError ''portfolio balance would become negative'')
      else Inr \<lparr>pc_balances = dict_set key balance (pc_balances c),
                pc_account_kinds = dict_set account_id kind (pc_account_kinds c)\<rparr>)"

definition portfolio_preview :: "portfolio_state \<Rightarrow> ledger_transaction \<Rightarrow> portfolio_commit res" where
  "portfolio_preview st t =
     foldE preview_posting \<lparr>pc_balances = pf_balances st, pc_account_kinds = pf_account_kinds st\<rparr>
       (lt_postings t)"

definition portfolio_commit_candidate :: "portfolio_state \<Rightarrow> portfolio_commit \<Rightarrow> portfolio_state" where
  "portfolio_commit_candidate st c =
     st\<lparr>pf_balances := pc_balances c, pf_account_kinds := pc_account_kinds c,
        pf_transaction_count := Suc (pf_transaction_count st)\<rparr>"

definition portfolio_apply :: "portfolio_state \<Rightarrow> ledger_transaction \<Rightarrow> portfolio_state res" where
  "portfolio_apply st t =
     bindE (portfolio_preview st t) (\<lambda>c. Inr (portfolio_commit_candidate st c))"

text \<open>
  Reading a \<^verbatim>\<open>defaultdict\<close> inserts the missing key with balance zero. The model reads without
  inserting; \<open>semantic_balances_touch\<close> and \<open>portfolio_preview_touch\<close> show the difference is never
  observed.
\<close>

definition balance_of :: "portfolio_state \<Rightarrow> account_id \<Rightarrow> asset_id \<Rightarrow> int" where
  "balance_of st account asset = dict_get_default (pf_balances st) (account, asset) 0"

definition available :: "portfolio_state \<Rightarrow> asset_id \<Rightarrow> int res" where
  "available st a = bindE (available_account_id a) (\<lambda>account. Inr (balance_of st account a))"

definition reserved :: "portfolio_state \<Rightarrow> asset_id \<Rightarrow> int res" where
  "reserved st a = bindE (reserved_account_id a) (\<lambda>account. Inr (balance_of st account a))"

definition semantic_balances ::
  "portfolio_state \<Rightarrow> (string \<times> string \<times> string \<times> int) list res" where
  "semantic_balances st =
     bindE (mapE (\<lambda>((account, asset), amount).
        case dict_get (pf_account_kinds st) account of
          None \<Rightarrow> Inl (LookupError account)
        | Some k \<Rightarrow> Inr (account, account_kind_value k, asset, amount))
       (filter (\<lambda>(_, amount). amount \<noteq> 0) (pf_balances st)))
     (\<lambda>rows. Inr (sort rows))"

section \<open>Canonical ledger documents\<close>

record posting_document =
  pd_account_id :: string
  pd_account_kind :: string
  pd_amount_atomic :: int
  pd_asset_id :: string

definition posting_document_sort_key :: "posting_document \<Rightarrow> string \<times> string \<times> int" where
  "posting_document_sort_key d = (pd_account_id d, pd_asset_id d, pd_amount_atomic d)"

definition posting_documents :: "posting list \<Rightarrow> posting_document list" where
  "posting_documents ps = sort_key posting_document_sort_key
     (map (\<lambda>p. \<lparr>pd_account_id = la_account_id (po_account p),
                pd_account_kind = account_kind_value (la_kind (po_account p)),
                pd_amount_atomic = po_amount_atomic p, pd_asset_id = po_asset_id p\<rparr>) ps)"

definition posting_document_json :: "posting_document \<Rightarrow> json" where
  "posting_document_json d = JObj
     [(''account_id'', JStr (pd_account_id d)), (''account_kind'', JStr (pd_account_kind d)),
      (''amount_atomic'', JInt (pd_amount_atomic d)), (''asset_id'', JStr (pd_asset_id d))]"

definition ledger_document :: "ledger_transaction \<Rightarrow> json" where
  "ledger_document t = JObj
     [(''boundary_ordinal'', JInt (lt_boundary_ordinal t)),
      (''correlation_id'', JStr (digest_hex (lt_correlation_id t))),
      (''correlation_kind'', JStr (ledger_correlation_kind_value (lt_correlation_kind t))),
      (''postings'', JArr (map posting_document_json (posting_documents (lt_postings t)))),
      (''reason'', JStr (lt_reason t)),
      (''transaction_id'', JStr (digest_hex (lt_transaction_id t)))]"

section \<open>The preview-and-commit contract\<close>

text \<open>
  A reducer validates a proposed transition against its state without changing it and commits the
  validated candidate. The law: committing a candidate that preview accepted keeps the invariant.
\<close>

locale preview_commit =
  fixes preview :: "'s \<Rightarrow> 't \<Rightarrow> exn + 'c"
    and commit :: "'s \<Rightarrow> 'c \<Rightarrow> 's"
    and allowed :: "'t \<Rightarrow> bool"
    and inv :: "'s \<Rightarrow> bool"
  assumes commit_keeps: "inv s \<Longrightarrow> allowed t \<Longrightarrow> preview s t = Inr c \<Longrightarrow> inv (commit s c)"
begin

lemma step_keeps:
  "inv s \<Longrightarrow> allowed t \<Longrightarrow> bindE (preview s t) (\<lambda>c. Inr (commit s c)) = Inr s' \<Longrightarrow> inv s'"
  using commit_keeps by auto

lemma run_keeps:
  assumes "foldE (\<lambda>s t. bindE (preview s t) (\<lambda>c. Inr (commit s c))) s ts = Inr s'"
    and "inv s" and "list_all allowed ts"
  shows "inv s'"
  by (rule foldE_invariant[where P = inv, OF assms(1,2)])
     (use assms(3) step_keeps in \<open>auto simp: list_all_iff\<close>)

end

section \<open>Sums over postings and balances\<close>

definition posting_sum :: "posting list \<Rightarrow> asset_id \<Rightarrow> int" where
  "posting_sum ps a = sum_list (map po_amount_atomic (filter (\<lambda>p. po_asset_id p = a) ps))"

definition posting_net :: "posting list \<Rightarrow> account_id \<Rightarrow> asset_id \<Rightarrow> int" where
  "posting_net ps account a = sum_list (map po_amount_atomic
     (filter (\<lambda>p. la_account_id (po_account p) = account \<and> po_asset_id p = a) ps))"

definition asset_total :: "(account_id \<times> asset_id, int) dict \<Rightarrow> asset_id \<Rightarrow> int" where
  "asset_total bal a = sum_list (map snd (filter (\<lambda>(k, _). snd k = a) bal))"

definition portfolio_total :: "portfolio_state \<Rightarrow> asset_id \<Rightarrow> int" where
  "portfolio_total st a = asset_total (pf_balances st) a"

lemma posting_sum_simps [simp]:
  "posting_sum [] a = 0"
  "posting_sum (p # ps) a = (if po_asset_id p = a then po_amount_atomic p else 0) + posting_sum ps a"
  by (simp_all add: posting_sum_def)

lemma posting_net_simps [simp]:
  "posting_net [] account a = 0"
  "posting_net (p # ps) account a =
     (if la_account_id (po_account p) = account \<and> po_asset_id p = a then po_amount_atomic p else 0)
     + posting_net ps account a"
  by (simp_all add: posting_net_def)

lemma asset_total_set:
  "asset_total (dict_set k v bal) a =
     asset_total bal a + (if snd k = a then v - dict_get_default bal k 0 else 0)"
  by (induction bal) (auto simp: asset_total_def dict_get_default_def)

lemma posting_totals_sum: "dict_get_default (posting_totals ps) a 0 = posting_sum ps a"
proof -
  have "dict_get_default (foldl (\<lambda>totals p. dict_set (po_asset_id p)
          (dict_get_default totals (po_asset_id p) 0 + po_amount_atomic p) totals) d ps) a 0
        = dict_get_default d a 0 + posting_sum ps a" for d
    by (induction ps arbitrary: d) (auto simp: dict_get_default_set)
  from this[of "[]"] show ?thesis by (simp add: posting_totals_def)
qed

lemma dict_get_list_ex:
  "\<not> list_ex (\<lambda>(_, total). total \<noteq> 0) d \<Longrightarrow> dict_get_default d a (0 :: int) = 0"
  by (auto simp: dict_get_default_def list_ex_iff split: option.split dest: map_of_SomeD)

lemma valid_transaction_sum: "valid_transaction t \<Longrightarrow> posting_sum (lt_postings t) a = 0"
  using dict_get_list_ex[of "posting_totals (lt_postings t)" a]
  by (auto simp: valid_transaction_def LedgerTransaction_def posting_totals_sum split: if_splits)

lemma posting_totals_distinct: "distinct (dict_keys (posting_totals ps))"
proof -
  have "distinct (dict_keys (foldl (\<lambda>totals p. dict_set (po_asset_id p)
      (dict_get_default totals (po_asset_id p) 0 + po_amount_atomic p) totals) d ps))"
    if "distinct (dict_keys d)" for d
    using that by (induction ps arbitrary: d) (auto simp: distinct_update)
  then show ?thesis by (simp add: posting_totals_def)
qed

text \<open>The constructor's conservation check is exactly "every asset nets to zero".\<close>

lemma conserves_iff:
  "\<not> list_ex (\<lambda>(_, total). total \<noteq> 0) (posting_totals ps) \<longleftrightarrow> (\<forall>a. posting_sum ps a = 0)"
proof
  assume "\<not> list_ex (\<lambda>(_, total). total \<noteq> 0) (posting_totals ps)"
  then show "\<forall>a. posting_sum ps a = 0"
    using dict_get_list_ex posting_totals_sum by metis
next
  assume zero: "\<forall>a. posting_sum ps a = 0"
  have "total = 0" if "(a, total) \<in> set (posting_totals ps)" for a total
    using map_of_is_SomeI[OF posting_totals_distinct that] zero
      posting_totals_sum[of ps a] by (simp add: dict_get_default_def)
  then show "\<not> list_ex (\<lambda>(_, total). total \<noteq> 0) (posting_totals ps)"
    by (auto simp: list_ex_iff)
qed

section \<open>The portfolio invariant\<close>

definition balances_ok ::
  "(account_id \<times> asset_id, int) dict \<Rightarrow> (account_id, account_kind) dict \<Rightarrow> bool" where
  "balances_ok bal kinds \<longleftrightarrow> distinct (dict_keys bal) \<and>
     (\<forall>account asset v. dict_get bal (account, asset) = Some v \<longrightarrow>
        (\<exists>k. dict_get kinds account = Some k \<and> (is_portfolio_kind k \<longrightarrow> 0 \<le> v)))"

definition portfolio_inv :: "portfolio_state \<Rightarrow> bool" where
  "portfolio_inv st \<longleftrightarrow> balances_ok (pf_balances st) (pf_account_kinds st)"

lemma preview_posting_ok:
  assumes "preview_posting c p = Inr c'" and "balances_ok (pc_balances c) (pc_account_kinds c)"
  shows "balances_ok (pc_balances c') (pc_account_kinds c')"
proof -
  let ?a = "la_account_id (po_account p)" and ?k = "la_kind (po_account p)"
  from assms(1) have known: "\<And>k. dict_get (pc_account_kinds c) ?a = Some k \<Longrightarrow> k = ?k"
    by (auto simp: preview_posting_def Let_def split: if_splits option.splits)
  from assms(1) have c': "pc_account_kinds c' = dict_set ?a ?k (pc_account_kinds c)"
    "\<exists>v. pc_balances c' = dict_set (?a, po_asset_id p) v (pc_balances c) \<and> (is_portfolio_kind ?k \<longrightarrow> 0 \<le> v)"
    by (auto simp: preview_posting_def Let_def split: if_splits)
  then obtain v where v: "pc_balances c' = dict_set (?a, po_asset_id p) v (pc_balances c)"
    "is_portfolio_kind ?k \<longrightarrow> 0 \<le> v" by blast
  show ?thesis
    using assms(2) known unfolding balances_ok_def v(1) c'(1)
    by (auto simp: dict_get_set distinct_update v(2) split: if_splits) (metis option.sel)+
qed

lemma portfolio_preview_ok:
  assumes "portfolio_preview st t = Inr c" and "portfolio_inv st"
  shows "balances_ok (pc_balances c) (pc_account_kinds c)"
  by (rule foldE_invariant[OF assms(1)[unfolded portfolio_preview_def],
        where P = "\<lambda>c. balances_ok (pc_balances c) (pc_account_kinds c)"])
     (use assms(2) preview_posting_ok in \<open>auto simp: portfolio_inv_def\<close>)

text \<open>Every accepted posting moves exactly its own amount.\<close>

lemma preview_fold_effect:
  assumes "foldE preview_posting c ps = Inr c'"
  shows "asset_total (pc_balances c') a = asset_total (pc_balances c) a + posting_sum ps a
    \<and> dict_get_default (pc_balances c') (account, a) 0
        = dict_get_default (pc_balances c) (account, a) 0 + posting_net ps account a"
  using assms
proof (induction ps arbitrary: c)
  case (Cons p ps)
  then obtain d where d: "preview_posting c p = Inr d" "foldE preview_posting d ps = Inr c'"
    by auto
  from d(1) have "pc_balances d = dict_set (la_account_id (po_account p), po_asset_id p)
      (dict_get_default (pc_balances c) (la_account_id (po_account p), po_asset_id p) 0
        + po_amount_atomic p) (pc_balances c)"
    by (auto simp: preview_posting_def Let_def split: if_splits)
  with Cons.IH[OF d(2)] show ?case
    by (auto simp: asset_total_set dict_get_default_set)
qed simp

lemma portfolio_apply_effect:
  assumes "portfolio_apply st t = Inr st'"
  shows "portfolio_total st' a = portfolio_total st a + posting_sum (lt_postings t) a"
    and "balance_of st' account a = balance_of st account a + posting_net (lt_postings t) account a"
    and "pf_transaction_count st' = Suc (pf_transaction_count st)"
  using assms preview_fold_effect[of _ "lt_postings t" _ a account]
  by (auto simp: portfolio_apply_def portfolio_preview_def portfolio_commit_candidate_def
      portfolio_total_def balance_of_def)

lemma kinds_grow:
  assumes "foldE preview_posting c ps = Inr c'" and "dict_get (pc_account_kinds c) account = Some k"
  shows "dict_get (pc_account_kinds c') account = Some k"
  by (rule foldE_invariant[OF assms(1), where P = "\<lambda>c. dict_get (pc_account_kinds c) account = Some k"])
     (use assms(2) in \<open>auto simp: preview_posting_def Let_def dict_get_set split: if_splits\<close>)

interpretation portfolio_reducer:
  preview_commit portfolio_preview portfolio_commit_candidate "\<lambda>_. True" portfolio_inv
  by unfold_locales (simp add: portfolio_inv_def portfolio_commit_candidate_def portfolio_preview_ok)

lemma portfolio_apply_inv: "portfolio_inv st \<Longrightarrow> portfolio_apply st t = Inr st' \<Longrightarrow> portfolio_inv st'"
  unfolding portfolio_apply_def by (rule portfolio_reducer.step_keeps) auto

lemma portfolio_inv_balance:
  "portfolio_inv st \<Longrightarrow> dict_get (pf_account_kinds st) account = Some k \<Longrightarrow> is_portfolio_kind k \<Longrightarrow>
     0 \<le> balance_of st account a"
  by (auto simp: portfolio_inv_def balances_ok_def balance_of_def dict_get_default_def
      split: option.split) force

text \<open>Opening balances: one available account per asset, holding exactly the configured amount.\<close>

lemma available_account_id_eq:
  "available_account_id a = Inr account \<Longrightarrow> account = ''portfolio:available:'' @ a"
  by (auto simp: available_account_id_def dest: Identifier_Inr)

lemma reserved_account_id_eq:
  "reserved_account_id a = Inr account \<Longrightarrow> account = ''portfolio:reserved:'' @ a"
  by (auto simp: reserved_account_id_def dest: Identifier_Inr)

lemma available_reserved_distinct:
  "available_account_id a = Inr x \<Longrightarrow> reserved_account_id b = Inr y \<Longrightarrow> x \<noteq> y"
  by (auto dest!: available_account_id_eq reserved_account_id_eq)

lemma PortfolioState_inv:
  assumes "PortfolioState initial = Inr st"
  shows "portfolio_inv st"
    and "dict_get (pf_account_kinds st) account = Some k \<Longrightarrow> k = PORTFOLIO_AVAILABLE"
proof -
  have "portfolio_inv st \<and> (\<forall>account k. dict_get (pf_account_kinds st) account = Some k \<longrightarrow>
      k = PORTFOLIO_AVAILABLE)"
    by (rule foldE_invariant[OF assms[unfolded PortfolioState_def]])
       (fastforce simp: portfolio_inv_def balances_ok_def dict_get_set distinct_update
          split: if_splits)+
  then show "portfolio_inv st"
    and "dict_get (pf_account_kinds st) account = Some k \<Longrightarrow> k = PORTFOLIO_AVAILABLE" by auto
qed

lemma PortfolioState_total:
  assumes "PortfolioState initial = Inr st" and "distinct (dict_keys initial)"
  shows "portfolio_total st a = dict_get_default initial a 0"
proof -
  define step where "step = (\<lambda>(st :: portfolio_state) (asset :: asset_id, amount :: int).
     if amount < 0 then
       Inl (ValueError ''initial portfolio balances must be non-negative integers'')
     else bindE (available_account_id asset) (\<lambda>account.
       Inr (st\<lparr>pf_account_kinds := dict_set account PORTFOLIO_AVAILABLE (pf_account_kinds st),
               pf_balances := dict_set (account, asset) amount (pf_balances st)\<rparr>)))"
  have "portfolio_total st' a = portfolio_total st0 a + dict_get_default d a 0"
    if "foldE step st0 d = Inr st'" "distinct (dict_keys d)"
      "\<forall>b \<in> set (dict_keys d). \<forall>account. dict_get (pf_balances st0) (account, b) = None" for st0 st' d
    using that
  proof (induction d arbitrary: st0)
    case (Cons x d)
    obtain b v where x: "x = (b, v)" by (cases x)
    with Cons.prems(1) obtain account where acc: "available_account_id b = Inr account" "\<not> v < 0"
      and rest: "foldE step (st0\<lparr>pf_account_kinds := dict_set account PORTFOLIO_AVAILABLE
          (pf_account_kinds st0), pf_balances := dict_set (account, b) v (pf_balances st0)\<rparr>) d = Inr st'"
      by (auto simp: step_def split: if_splits)
    have "dict_get d b = None"
      using Cons.prems(2) x by (simp add: map_of_eq_None_iff)
    moreover have "portfolio_total st' a = portfolio_total (st0\<lparr>pf_account_kinds :=
        dict_set account PORTFOLIO_AVAILABLE (pf_account_kinds st0),
        pf_balances := dict_set (account, b) v (pf_balances st0)\<rparr>) a + dict_get_default d a 0"
      by (rule Cons.IH[OF rest]) (use Cons.prems(2,3) x in \<open>auto simp: dict_get_set\<close>)
    ultimately show ?case
      using Cons.prems(3) x
      by (auto simp: portfolio_total_def asset_total_set dict_get_default_def)
  qed simp
  from this[of "\<lparr>pf_balances = [], pf_account_kinds = [], pf_transaction_count = 0\<rparr>" initial st]
  show ?thesis
    using assms by (simp add: PortfolioState_def step_def portfolio_total_def asset_total_def)
qed

section \<open>Reads that insert a default\<close>

definition touch :: "portfolio_state \<Rightarrow> account_id \<Rightarrow> asset_id \<Rightarrow> portfolio_state" where
  "touch st account a =
     (case dict_get (pf_balances st) (account, a) of
        None \<Rightarrow> st\<lparr>pf_balances := dict_set (account, a) 0 (pf_balances st)\<rparr>
      | Some _ \<Rightarrow> st)"

lemma dict_set_new: "dict_get d k = None \<Longrightarrow> dict_set k v d = d @ [(k, v)]"
  by (induction d) (auto split: if_splits)

lemma semantic_balances_touch: "semantic_balances (touch st account a) = semantic_balances st"
  by (auto simp: touch_def semantic_balances_def dict_set_new split: option.split)

lemma balance_of_touch: "balance_of (touch st account a) account' b = balance_of st account' b"
  by (auto simp: touch_def balance_of_def dict_get_default_def dict_get_set split: option.split)

text \<open>Two candidates that answer every lookup alike stay so: they accept and reject together.\<close>

definition same_view :: "portfolio_commit \<Rightarrow> portfolio_commit \<Rightarrow> bool" where
  "same_view c d \<longleftrightarrow> pc_account_kinds c = pc_account_kinds d
     \<and> (\<forall>k. dict_get_default (pc_balances c) k 0 = dict_get_default (pc_balances d) k 0)"

definition same_outcome :: "portfolio_commit res \<Rightarrow> portfolio_commit res \<Rightarrow> bool" where
  "same_outcome x y = (case (x, y) of
      (Inl e, Inl e') \<Rightarrow> e = e' | (Inr c, Inr d) \<Rightarrow> same_view c d | _ \<Rightarrow> False)"

lemma preview_posting_sim:
  "same_view c d \<Longrightarrow> same_outcome (preview_posting c p) (preview_posting d p)"
  by (auto simp: same_view_def same_outcome_def preview_posting_def Let_def dict_get_default_set
      split: option.split)

lemma preview_fold_sim:
  "same_view c d \<Longrightarrow> same_outcome (foldE preview_posting c ps) (foldE preview_posting d ps)"
proof (induction ps arbitrary: c d)
  case Nil
  then show ?case by (simp add: same_outcome_def)
next
  case (Cons p ps)
  show ?case
    using preview_posting_sim[OF Cons.prems, of p] Cons.IH
    by (cases "preview_posting c p"; cases "preview_posting d p") (simp_all add: same_outcome_def)
qed

lemma portfolio_preview_touch:
  "same_outcome (portfolio_preview (touch st account a) t) (portfolio_preview st t)"
  unfolding portfolio_preview_def
  by (rule preview_fold_sim)
     (auto simp: same_view_def touch_def dict_get_default_def dict_get_set split: option.split)

section \<open>Properties\<close>

text \<open>A ledger transaction is constructed exactly when its boundary is non-negative, its reason is
  non-empty and trimmed, it has at least two postings and, asset by asset, the postings net to zero;
  the constructed record carries the arguments unchanged.\<close>

theorem ledger_transaction_double_entry:
  "LedgerTransaction i kind c boundary ps reason = Inr t \<longleftrightarrow>
     0 \<le> boundary \<and> reason \<noteq> [] \<and> strip reason = reason \<and> 2 \<le> length ps
     \<and> (\<forall>a. sum_list (map po_amount_atomic (filter (\<lambda>p. po_asset_id p = a) ps)) = 0)
     \<and> t = \<lparr>lt_transaction_id = i, lt_correlation_kind = kind, lt_correlation_id = c,
            lt_boundary_ordinal = boundary, lt_postings = ps, lt_reason = reason\<rparr>"
  using conserves_iff[of ps] unfolding posting_sum_def LedgerTransaction_def by auto

text \<open>C17: Applying any sequence of valid ledger transactions conserves every asset over all accounts,
  counts each transaction, keeps the portfolio invariant, and never leaves an available, reserved,
  locked or receivable account with a negative balance.\<close>

theorem portfolio_conserves_assets:
  assumes "portfolio_inv st" and "list_all valid_transaction ts"
    and "foldE portfolio_apply st ts = Inr st'"
  shows "portfolio_inv st'
    \<and> (\<forall>a. portfolio_total st' a = portfolio_total st a)
    \<and> pf_transaction_count st' = pf_transaction_count st + length ts
    \<and> (\<forall>account a k. dict_get (pf_account_kinds st') account = Some k \<longrightarrow> is_portfolio_kind k \<longrightarrow>
         0 \<le> balance_of st' account a)"
proof -
  have "portfolio_inv st' \<and> (\<forall>a. portfolio_total st' a = portfolio_total st a)
    \<and> pf_transaction_count st' = pf_transaction_count st + length ts"
    using assms
  proof (induction ts arbitrary: st)
    case (Cons t ts)
    then obtain s where s: "portfolio_apply st t = Inr s" "foldE portfolio_apply s ts = Inr st'"
      by auto
    have "portfolio_inv s" using portfolio_apply_inv[OF Cons.prems(1) s(1)] .
    with Cons.IH[OF this _ s(2)] Cons.prems(2) portfolio_apply_effect[OF s(1)]
    show ?case by (auto simp: valid_transaction_sum)
  qed simp
  then show ?thesis using portfolio_inv_balance by blast
qed

theorem portfolio_conserves_assets_witness:
  "\<exists>st st' t. PortfolioState [(''SOL'', 10)] = Inr st \<and> valid_transaction t
     \<and> foldE portfolio_apply st [t] = Inr st' \<and> portfolio_total st' ''SOL'' = 10
     \<and> available st' ''SOL'' = Inr 7 \<and> reserved st' ''SOL'' = Inr 3"
proof -
  let ?av = "''portfolio:available:SOL''" and ?rs = "''portfolio:reserved:SOL''"
  have ids: "available_account_id ''SOL'' = Inr ?av" "reserved_account_id ''SOL'' = Inr ?rs"
    by (simp_all add: available_account_id_def reserved_account_id_def Identifier_def strip_def
        is_space_def char_code_def)
  define st where "st = \<lparr>pf_balances = [((?av, ''SOL''), 10)],
    pf_account_kinds = [(?av, PORTFOLIO_AVAILABLE)], pf_transaction_count = 0\<rparr>"
  define t where "t = \<lparr>lt_transaction_id = ''t'', lt_correlation_kind = ORDER,
    lt_correlation_id = ''o'', lt_boundary_ordinal = 1, lt_postings =
      [\<lparr>po_account = LedgerAccount ?av PORTFOLIO_AVAILABLE, po_asset_id = ''SOL'', po_amount_atomic = -3\<rparr>,
       \<lparr>po_account = LedgerAccount ?rs PORTFOLIO_RESERVED, po_asset_id = ''SOL'', po_amount_atomic = 3\<rparr>],
    lt_reason = ''R''\<rparr>"
  define st' where "st' = \<lparr>pf_balances = [((?av, ''SOL''), 7), ((?rs, ''SOL''), 3)],
    pf_account_kinds = [(?av, PORTFOLIO_AVAILABLE), (?rs, PORTFOLIO_RESERVED)],
    pf_transaction_count = 1\<rparr>"
  have init: "PortfolioState [(''SOL'', 10)] = Inr st"
    by (simp add: PortfolioState_def ids st_def)
  have t: "valid_transaction t"
    by (simp add: valid_transaction_def LedgerTransaction_def t_def posting_totals_def
        dict_get_default_def strip_def is_space_def)
  have run: "foldE portfolio_apply st [t] = Inr st'"
    by (simp add: portfolio_apply_def portfolio_preview_def preview_posting_def st_def t_def st'_def
        portfolio_commit_candidate_def LedgerAccount_def dict_get_default_def Let_def)
  have "portfolio_total st' ''SOL'' = portfolio_total st ''SOL''"
    using portfolio_conserves_assets[OF PortfolioState_inv(1)[OF init] _ run] t by simp
  moreover have "available st' ''SOL'' = Inr 7" "reserved st' ''SOL'' = Inr 3"
    by (simp_all add: available_def reserved_def ids balance_of_def st'_def dict_get_default_def)
  ultimately show ?thesis
    using init t run by (auto simp: portfolio_total_def asset_total_def st_def)
qed

end
