(* ===== verification/Venue_State.thy ===== *)
theory Venue_State
  imports Market_Events Ledger
begin

text \<open>
  Intents (\<^verbatim>\<open>domain/intents.py\<close>), execution plans and notifications (\<^verbatim>\<open>domain/execution.py\<close>) and
  the separated historical, observed and simulated venue states (\<^verbatim>\<open>engine/state.py\<close>). A Python set
  that is only tested for membership is a HOL set; the simulated venue is the second reducer that
  satisfies the \<open>preview_commit\<close> contract.
\<close>

section \<open>Intents\<close>

datatype execution_mode =
    EXOGENOUS_REPLAY | EXOGENOUS_VIRTUAL_SETTLEMENT | SHADOW_STATE_REPLAY | CONDITIONAL_PROTOCOL_REPLAY

fun execution_mode_value :: "execution_mode \<Rightarrow> string" where
  "execution_mode_value EXOGENOUS_REPLAY = ''EXOGENOUS_REPLAY''"
| "execution_mode_value EXOGENOUS_VIRTUAL_SETTLEMENT = ''EXOGENOUS_VIRTUAL_SETTLEMENT''"
| "execution_mode_value SHADOW_STATE_REPLAY = ''SHADOW_STATE_REPLAY''"
| "execution_mode_value CONDITIONAL_PROTOCOL_REPLAY = ''CONDITIONAL_PROTOCOL_REPLAY''"

datatype order_status = ACCEPTED | FILLED | REJECTED | EXECUTION_FAILED

fun order_status_value :: "order_status \<Rightarrow> string" where
  "order_status_value ACCEPTED = ''ACCEPTED''"
| "order_status_value FILLED = ''FILLED''"
| "order_status_value REJECTED = ''REJECTED''"
| "order_status_value EXECUTION_FAILED = ''EXECUTION_FAILED''"

record swap_intent =
  in_order_id :: order_id
  in_pool_id :: pool_id
  in_sold_asset_id :: asset_id
  in_bought_asset_id :: asset_id
  in_amount_in_atomic :: int
  in_minimum_amount_out_atomic :: int
  in_created_boundary_ordinal :: int

definition SwapExactInIntent :: "swap_intent \<Rightarrow> swap_intent res" where
  "SwapExactInIntent i =
     (if in_sold_asset_id i = in_bought_asset_id i then
        Inl (ValueError ''a swap intent must exchange different assets'')
      else if in_amount_in_atomic i \<le> 0 then
        Inl (ValueError ''amount_in_atomic must be positive'')
      else if in_minimum_amount_out_atomic i < 0 then
        Inl (ValueError ''minimum_amount_out_atomic must be non-negative'')
      else if in_created_boundary_ordinal i < 0 then
        Inl (ValueError ''created_boundary_ordinal must be non-negative'')
      else Inr i)"

definition PUMPFUN_SNIPING_BUY_DELAY_TRANSACTIONS :: int where
  "PUMPFUN_SNIPING_BUY_DELAY_TRANSACTIONS = 500"

definition PUMPFUN_SNIPING_SELL_DECISION_DELAY_NS :: int where
  "PUMPFUN_SNIPING_SELL_DECISION_DELAY_NS = 2000000000"

record roundtrip_intent =
  ri_roundtrip_id :: digest
  ri_target_event_id :: digest
  ri_target_position :: chain_position
  ri_asset_id :: asset_id
  ri_developer_id :: account_id
  ri_creation_user_id :: account_id
  ri_venue_id :: venue_id
  ri_quote_asset_id :: asset_id
  ri_gross_buy_budget_atomic :: int
  ri_buy_slippage_bps :: int
  ri_sell_slippage_bps :: int
  ri_sell_delay_transactions :: int
  ri_created_boundary_ordinal :: int
  ri_buy_delay_transactions :: int
  ri_sell_decision_delay_ns :: int
  ri_execution_mode :: execution_mode

definition RoundTripIntent :: "roundtrip_intent \<Rightarrow> roundtrip_intent res" where
  "RoundTripIntent i =
     (if ri_asset_id i = ri_quote_asset_id i then
        Inl (ValueError ''round-trip assets must be different'')
      else if ri_gross_buy_budget_atomic i \<le> 0 then
        Inl (ValueError ''gross buy budget must be a positive integer'')
      else if \<not> (0 \<le> ri_buy_slippage_bps i \<and> ri_buy_slippage_bps i \<le> 10000) then
        Inl (ValueError ''buy_slippage_bps must be in [0, 10000]'')
      else if \<not> (0 \<le> ri_sell_slippage_bps i \<and> ri_sell_slippage_bps i \<le> 10000) then
        Inl (ValueError ''sell_slippage_bps must be in [0, 10000]'')
      else if ri_sell_delay_transactions i < 1 then
        Inl (ValueError ''sell delay transactions must be positive'')
      else if ri_created_boundary_ordinal i \<noteq> ordinal_of (ri_target_position i) then
        Inl (ValueError ''intent decision boundary must equal its target boundary'')
      else if ri_buy_delay_transactions i \<noteq> PUMPFUN_SNIPING_BUY_DELAY_TRANSACTIONS then
        Inl (ValueError ''Pump.fun sniping v1 buy delay is fixed at 500 transactions'')
      else if ri_sell_decision_delay_ns i \<noteq> PUMPFUN_SNIPING_SELL_DECISION_DELAY_NS then
        Inl (ValueError ''Pump.fun sniping v1 sell decision delay is fixed at two seconds'')
      else if ri_execution_mode i \<noteq> EXOGENOUS_REPLAY
           \<and> ri_execution_mode i \<noteq> EXOGENOUS_VIRTUAL_SETTLEMENT then
        Inl (ValueError ''Pump.fun sniping requires a supported exogenous execution mode'')
      else Inr i)"

section \<open>Execution plans\<close>

text \<open>\<^verbatim>\<open>str.isalnum\<close> on code points below 256.\<close>

definition is_alnum_char :: "char \<Rightarrow> bool" where
  "is_alnum_char c = (let n = char_code c in
     (48 \<le> n \<and> n \<le> 57) \<or> (65 \<le> n \<and> n \<le> 90) \<or> (97 \<le> n \<and> n \<le> 122)
     \<or> n \<in> {170, 178, 179, 181, 185, 186, 188, 189, 190}
     \<or> (192 \<le> n \<and> n \<noteq> 215 \<and> n \<noteq> 247))"

definition make_execution_rejected :: "string \<Rightarrow> exn" where
  "make_execution_rejected code =
     (let bare = filter (\<lambda>c. c \<noteq> CHR ''_'') code in
      if code = [] \<or> code \<noteq> strip code \<or> bare = [] \<or> \<not> list_all is_alnum_char bare then
        ValueError ''execution rejection code must be a stable token''
      else ExecutionRejected code)"

record venue_transition =
  vr_pool_id :: pool_id
  vr_reserve_a_after :: int
  vr_reserve_b_after :: int

definition VenueTransition :: "pool_id \<Rightarrow> int \<Rightarrow> int \<Rightarrow> venue_transition res" where
  "VenueTransition pool a b =
     (if a < 0 \<or> b < 0 then Inl (ValueError ''venue reserves must remain non-negative'')
      else Inr \<lparr>vr_pool_id = pool, vr_reserve_a_after = a, vr_reserve_b_after = b\<rparr>)"

record fill =
  fl_order_id :: order_id
  fl_pool_id :: pool_id
  fl_sold_asset_id :: asset_id
  fl_bought_asset_id :: asset_id
  fl_amount_in_atomic :: int
  fl_amount_out_atomic :: int
  fl_fee_amount_atomic :: int
  fl_boundary_ordinal :: int

definition Fill :: "fill \<Rightarrow> fill res" where
  "Fill f =
     (if fl_sold_asset_id f = fl_bought_asset_id f then Inl (ValueError ''fill assets must be different'')
      else if fl_amount_in_atomic f \<le> 0 \<or> fl_amount_out_atomic f \<le> 0 then
        Inl (ValueError ''fill amounts must be positive'')
      else if \<not> (0 \<le> fl_fee_amount_atomic f \<and> fl_fee_amount_atomic f \<le> fl_amount_in_atomic f) then
        Inl (ValueError ''fill fee is outside its input amount'')
      else if fl_boundary_ordinal f < 0 then Inl (ValueError ''fill boundary must be non-negative'')
      else Inr f)"

record execution_plan =
  ep_transition :: "venue_transition option"
  ep_fills :: "fill list"
  ep_ledger_postings :: "posting list"
  ep_reports :: "string list"

definition ExecutionPlan :: "execution_plan \<Rightarrow> execution_plan res" where
  "ExecutionPlan p =
     (if ep_fills p = [] then Inl (ValueError ''an execution plan must contain at least one fill'')
      else if \<not> distinct (map fl_order_id (ep_fills p)) then
        Inl (ValueError ''an execution plan cannot fill one order twice'')
      else if length (ep_ledger_postings p) < 2 then
        Inl (ValueError ''an execution plan requires balanced ledger postings'')
      else Inr p)"

record execution_notification =
  en_order_id :: order_id
  en_status :: order_status
  en_boundary_ordinal :: int
  en_fills :: "fill list"
  en_reports :: "string list"

definition ExecutionNotification :: "execution_notification \<Rightarrow> execution_notification res" where
  "ExecutionNotification n =
     (if en_boundary_ordinal n < 0 then Inl (ValueError ''notification boundary must be non-negative'')
      else if list_ex (\<lambda>f. fl_order_id f \<noteq> en_order_id n) (en_fills n) then
        Inl (ValueError ''notification contains a fill for another order'')
      else if en_status n = FILLED \<and> en_fills n = [] then
        Inl (ValueError ''filled notification requires at least one fill'')
      else Inr n)"

section \<open>Pool snapshots and the historical state\<close>

record pool_snapshot =
  ps_pool_id :: pool_id
  ps_asset_a_id :: asset_id
  ps_asset_b_id :: asset_id
  ps_reserve_a :: int
  ps_reserve_b :: int
  ps_boundary_ordinal :: int

definition PoolSnapshot :: "pool_snapshot \<Rightarrow> pool_snapshot res" where
  "PoolSnapshot p =
     (if ps_asset_a_id p = ps_asset_b_id p then Inl (ValueError ''pool assets must be different'')
      else if ps_reserve_a p < 0 \<or> ps_reserve_b p < 0 then
        Inl (ValueError ''pool reserves must be non-negative'')
      else Inr p)"

record historical_state =
  hs_pools :: "(pool_id, pool_snapshot) dict"
  hs_assets :: "asset_id set"
  hs_block_times_ns :: "(int, int) dict"

definition HistoricalReferenceState :: historical_state where
  "HistoricalReferenceState = \<lparr>hs_pools = [], hs_assets = {}, hs_block_times_ns = []\<rparr>"

text \<open>The snapshot a swap event shows, if it carries reserves.\<close>

definition trade_snapshot :: "venue_trade_event \<Rightarrow> int \<Rightarrow> string \<Rightarrow> pool_snapshot option res" where
  "trade_snapshot t boundary incomplete =
     bindE (trade_reserve_a_after t) (\<lambda>ra. case ra of
        None \<Rightarrow> Inr None
      | Some a \<Rightarrow> bindE (trade_reserve_b_after t) (\<lambda>rb. case rb of
            None \<Rightarrow> Inl (HistoricalStateError incomplete)
          | Some b \<Rightarrow>
              bindE (trade_pool_id t) (\<lambda>pool.
              bindE (trade_asset_a_id t) (\<lambda>asset_a.
              bindE (trade_asset_b_id t) (\<lambda>asset_b.
              bindE (PoolSnapshot \<lparr>ps_pool_id = pool, ps_asset_a_id = asset_a, ps_asset_b_id = asset_b,
                  ps_reserve_a = a, ps_reserve_b = b, ps_boundary_ordinal = boundary\<rparr>) (\<lambda>s.
                Inr (Some s)))))))"

fun apply_historical_event :: "int \<Rightarrow> historical_state \<Rightarrow> canonical_event \<Rightarrow> historical_state res" where
  "apply_historical_event boundary st (Block_Event b) =
     (case be_block_time_ns b of
        None \<Rightarrow> Inr st
      | Some v \<Rightarrow> Inr (st\<lparr>hs_block_times_ns := dict_set boundary v (hs_block_times_ns st)\<rparr>))"
| "apply_historical_event boundary st (Token_Launch_Event t) =
     Inr (st\<lparr>hs_assets := insert (tl_asset_id t) (hs_assets st)\<rparr>)"
| "apply_historical_event boundary st (Venue_Trade_Event t) =
     bindE (trade_asset_a_id t) (\<lambda>a.
     bindE (trade_asset_b_id t) (\<lambda>b.
     bindE (trade_snapshot t boundary ''swap reserve pair is incomplete'') (\<lambda>s.
       let st' = st\<lparr>hs_assets := {a, b} \<union> hs_assets st\<rparr> in
       case s of None \<Rightarrow> Inr st'
       | Some s \<Rightarrow> Inr (st'\<lparr>hs_pools := dict_set (ps_pool_id s) s (hs_pools st')\<rparr>))))"
| "apply_historical_event boundary st (Venue_Lifecycle_Event l) = Inr st"

definition apply_group :: "historical_state \<Rightarrow> canonical_event list \<Rightarrow> historical_state res" where
  "apply_group st events =
     (case events of
        [] \<Rightarrow> Inl (HistoricalStateError ''historical group must not be empty'')
      | e # _ \<Rightarrow>
          if list_ex (\<lambda>x. event_boundary x \<noteq> event_boundary e \<or> event_group x \<noteq> event_group e) events then
            Inl (HistoricalStateError ''historical group contains mixed boundaries or identities'')
          else if list_ex (\<lambda>x. \<not> exact_ordering (ee_ordering_fidelity (event_envelope_of x))) events then
            Inl (HistoricalStateError
              ''historical group ordering is ambiguous and has no invariant reducer'')
          else foldE (apply_historical_event (event_boundary e)) st events)"

definition historical_pool :: "historical_state \<Rightarrow> pool_id \<Rightarrow> pool_snapshot option" where
  "historical_pool st p = dict_get (hs_pools st) p"

definition historical_block_time_ns :: "historical_state \<Rightarrow> int \<Rightarrow> int option" where
  "historical_block_time_ns st b = dict_get (hs_block_times_ns st) b"

section \<open>The observed state\<close>

record observed_state =
  os_pools :: "(pool_id, pool_snapshot) dict"
  os_assets :: "asset_id set"

definition ObservedState :: observed_state where
  "ObservedState = \<lparr>os_pools = [], os_assets = {}\<rparr>"

fun observed_apply :: "observed_state \<Rightarrow> canonical_event \<Rightarrow> observed_state res" where
  "observed_apply st (Token_Launch_Event t) =
     Inr (st\<lparr>os_assets := insert (tl_asset_id t) (os_assets st)\<rparr>)"
| "observed_apply st (Venue_Trade_Event t) =
     bindE (trade_snapshot t (envelope_boundary_ordinal (vt_envelope t))
       ''observed swap reserve pair is incomplete'') (\<lambda>s.
       case s of None \<Rightarrow> Inr st
       | Some s \<Rightarrow> Inr (st\<lparr>os_pools := dict_set (ps_pool_id s) s (os_pools st)\<rparr>))"
| "observed_apply st e = Inr st"

definition observed_pool :: "observed_state \<Rightarrow> pool_id \<Rightarrow> pool_snapshot option" where
  "observed_pool st p = dict_get (os_pools st) p"

definition knows_asset :: "observed_state \<Rightarrow> asset_id \<Rightarrow> bool" where
  "knows_asset st a = (a \<in> os_assets st)"

section \<open>The simulated venue\<close>

record venue_state =
  vs_mode :: execution_mode
  vs_pools :: "(pool_id, pool_snapshot) dict"

definition SimulationVenueState :: "execution_mode \<Rightarrow> venue_state" where
  "SimulationVenueState mode = \<lparr>vs_mode = mode, vs_pools = []\<rparr>"

text \<open>The touched pools, a set comprehension in the source: listed here once each.\<close>

fun swap_events :: "canonical_event list \<Rightarrow> venue_trade_event list" where
  "swap_events [] = []"
| "swap_events (Venue_Trade_Event t # es) = t # swap_events es"
| "swap_events (_ # es) = swap_events es"

definition touched_pools :: "canonical_event list \<Rightarrow> pool_id list res" where
  "touched_pools events = bindE (mapE trade_pool_id (swap_events events)) (\<lambda>ps. Inr (remdups ps))"

definition reconcile_pool :: "historical_state \<Rightarrow> venue_state \<Rightarrow> pool_id \<Rightarrow> venue_state res" where
  "reconcile_pool historical v p =
     (case historical_pool historical p of
        None \<Rightarrow> Inr v
      | Some s \<Rightarrow>
          if vs_mode v = EXOGENOUS_REPLAY \<or> vs_mode v = SHADOW_STATE_REPLAY then
            Inr (v\<lparr>vs_pools := dict_set p s (vs_pools v)\<rparr>)
          else Inl (HistoricalStateError
            ''conditional protocol replay requires a protocol-specific fork reducer''))"

definition reconcile_group ::
  "venue_state \<Rightarrow> canonical_event list \<Rightarrow> historical_state \<Rightarrow> venue_state res" where
  "reconcile_group v events historical =
     bindE (touched_pools events) (\<lambda>touched. foldE (reconcile_pool historical) v touched)"

definition venue_pool :: "venue_state \<Rightarrow> pool_id \<Rightarrow> pool_snapshot option" where
  "venue_pool v p = dict_get (vs_pools v) p"

type_synonym venue_commit = "(pool_id, pool_snapshot) dict"

definition preview_transition :: "venue_state \<Rightarrow> venue_transition \<Rightarrow> venue_commit res" where
  "preview_transition v t =
     (case venue_pool v (vr_pool_id t) of
        None \<Rightarrow> Inl (HistoricalStateError ''venue transition references an unknown pool'')
      | Some current \<Rightarrow>
          if vs_mode v = EXOGENOUS_REPLAY then Inr (vs_pools v)
          else bindE (PoolSnapshot (current\<lparr>ps_reserve_a := vr_reserve_a_after t,
                                            ps_reserve_b := vr_reserve_b_after t\<rparr>))
            (\<lambda>s. Inr (dict_set (vr_pool_id t) s (vs_pools v))))"

definition venue_commit_candidate :: "venue_state \<Rightarrow> venue_commit \<Rightarrow> venue_state" where
  "venue_commit_candidate v candidate = v\<lparr>vs_pools := candidate\<rparr>"

definition apply_transition :: "venue_state \<Rightarrow> venue_transition \<Rightarrow> venue_state res" where
  "apply_transition v t =
     bindE (preview_transition v t) (\<lambda>c. Inr (venue_commit_candidate v c))"

section \<open>Well-formed pools\<close>

definition pool_ok :: "pool_id \<Rightarrow> pool_snapshot \<Rightarrow> bool" where
  "pool_ok p s \<longleftrightarrow> ps_pool_id s = p \<and> ps_asset_a_id s \<noteq> ps_asset_b_id s
     \<and> 0 \<le> ps_reserve_a s \<and> 0 \<le> ps_reserve_b s"

definition pools_ok :: "(pool_id, pool_snapshot) dict \<Rightarrow> bool" where
  "pools_ok d \<longleftrightarrow> (\<forall>p s. dict_get d p = Some s \<longrightarrow> pool_ok p s)"

lemma pools_ok_set: "pools_ok d \<Longrightarrow> pool_ok p s \<Longrightarrow> pools_ok (dict_set p s d)"
  by (simp add: pools_ok_def dict_get_set)

lemma pools_ok_Nil: "pools_ok []"
  by (simp add: pools_ok_def)

lemma PoolSnapshot_Inr:
  "PoolSnapshot s = Inr s' \<Longrightarrow> s' = s \<and> pool_ok (ps_pool_id s) s"
  by (auto simp: PoolSnapshot_def pool_ok_def split: if_splits)

lemma trade_snapshot_ok:
  assumes "trade_snapshot t b m = Inr (Some s)"
  shows "pool_ok (ps_pool_id s) s \<and> trade_pool_id t = Inr (ps_pool_id s) \<and> ps_boundary_ordinal s = b
     \<and> trade_reserve_a_after t = Inr (Some (ps_reserve_a s))
     \<and> trade_reserve_b_after t = Inr (Some (ps_reserve_b s))"
proof -
  obtain ra where ra: "trade_reserve_a_after t = Inr (Some ra)"
    using assms unfolding trade_snapshot_def
    by (cases "trade_reserve_a_after t") (simp_all add: bindE_def split: option.splits)
  obtain rb where rb: "trade_reserve_b_after t = Inr (Some rb)"
    using assms unfolding trade_snapshot_def ra
    by (cases "trade_reserve_b_after t") (simp_all add: bindE_def split: option.splits)
  obtain pool asset_a asset_b where ids: "trade_pool_id t = Inr pool" "PoolSnapshot
      \<lparr>ps_pool_id = pool, ps_asset_a_id = asset_a, ps_asset_b_id = asset_b, ps_reserve_a = ra,
       ps_reserve_b = rb, ps_boundary_ordinal = b\<rparr> = Inr s"
    using assms unfolding trade_snapshot_def ra rb by auto
  then have s: "s = \<lparr>ps_pool_id = pool, ps_asset_a_id = asset_a, ps_asset_b_id = asset_b,
      ps_reserve_a = ra, ps_reserve_b = rb, ps_boundary_ordinal = b\<rparr>" "pool_ok pool s"
    using PoolSnapshot_Inr[OF ids(2)] by auto
  then show ?thesis using ra rb ids(1) by simp
qed

lemma apply_historical_event_pools_ok:
  assumes "apply_historical_event b st e = Inr st'" and "pools_ok (hs_pools st)"
  shows "pools_ok (hs_pools st')"
  using assms
  by (cases e) (auto simp: Let_def split: option.splits intro!: pools_ok_set dest!: trade_snapshot_ok)

lemma apply_group_pools_ok:
  assumes "apply_group st es = Inr st'" and "pools_ok (hs_pools st)"
  shows "pools_ok (hs_pools st')"
proof -
  obtain b where "foldE (apply_historical_event b) st es = Inr st'"
    using assms(1) by (auto simp: apply_group_def split: list.splits if_splits)
  then show ?thesis
    by (rule foldE_invariant[where P = "\<lambda>st. pools_ok (hs_pools st)"])
       (use assms(2) apply_historical_event_pools_ok in auto)
qed

lemma preview_transition_ok:
  "pools_ok (vs_pools v) \<Longrightarrow> preview_transition v t = Inr c \<Longrightarrow> pools_ok c"
  by (auto simp: preview_transition_def venue_pool_def pools_ok_def[of "vs_pools v"] pool_ok_def
      split: option.splits if_splits intro!: pools_ok_set dest!: PoolSnapshot_Inr)

interpretation venue_reducer:
  preview_commit preview_transition venue_commit_candidate "\<lambda>_. True" "\<lambda>v. pools_ok (vs_pools v)"
  by unfold_locales (simp add: venue_commit_candidate_def preview_transition_ok)

lemma reconcile_group_ok:
  assumes "reconcile_group v es h = Inr v'" and "pools_ok (vs_pools v)" and "pools_ok (hs_pools h)"
  shows "pools_ok (vs_pools v') \<and> vs_mode v' = vs_mode v"
proof -
  obtain ps where "foldE (reconcile_pool h) v ps = Inr v'"
    using assms(1) by (auto simp: reconcile_group_def)
  then show ?thesis
    by (rule foldE_invariant[where P = "\<lambda>w. pools_ok (vs_pools w) \<and> vs_mode w = vs_mode v"])
       (use assms(2,3) in \<open>auto simp: reconcile_pool_def historical_pool_def pools_ok_def[of "hs_pools h"]
          split: option.splits if_splits intro!: pools_ok_set\<close>)
qed

text \<open>After the fold every listed pool that history knows is history's, every other is untouched.\<close>

lemma reconcile_fold_pools:
  assumes "foldE (reconcile_pool h) v ps = Inr v'"
  shows "venue_pool v' p = (if p \<in> set ps \<and> historical_pool h p \<noteq> None then historical_pool h p
     else venue_pool v p)"
  using assms
proof (induction ps arbitrary: v)
  case (Cons q ps)
  then obtain w where w: "reconcile_pool h v q = Inr w" "foldE (reconcile_pool h) w ps = Inr v'"
    by auto
  have "venue_pool w p = (if p = q \<and> historical_pool h p \<noteq> None then historical_pool h p else venue_pool v p)"
    using w(1) by (auto simp: reconcile_pool_def venue_pool_def dict_get_set split: option.splits if_splits)
  with Cons.IH[OF w(2)] show ?case by auto
qed simp

lemma touched_pools_set:
  assumes "touched_pools es = Inr touched"
  shows "distinct touched \<and> (p \<in> set touched \<longleftrightarrow> (\<exists>t \<in> set (swap_events es). trade_pool_id t = Inr p))"
proof -
  obtain ps where ps: "list_all2 (\<lambda>t p. trade_pool_id t = Inr p) (swap_events es) ps" "touched = remdups ps"
    using assms by (auto simp: touched_pools_def mapE_Inr_iff)
  have "p \<in> set ps \<longleftrightarrow> (\<exists>t \<in> set (swap_events es). trade_pool_id t = Inr p)"
    using ps(1) by (induction rule: list_all2_induct) auto
  with ps(2) show ?thesis by simp
qed

section \<open>A sample pool\<close>

definition sample_pool :: pool_snapshot where
  "sample_pool = \<lparr>ps_pool_id = ''P'', ps_asset_a_id = ''A'', ps_asset_b_id = ''B'', ps_reserve_a = 5,
     ps_reserve_b = 7, ps_boundary_ordinal = 1\<rparr>"

section \<open>Properties\<close>

text \<open>C26: When a historical group is applied and the simulated venue reconciled with it, every pool traded
  in the group that history has a snapshot of is exactly history's snapshot in the venue, every other
  pool of the venue is untouched, and all pools of both states stay well formed.\<close>

theorem reconcile_follows_history:
  assumes "apply_group h events = Inr h'" and "reconcile_group v events h' = Inr v'"
    and "touched_pools events = Inr touched"
    and "pools_ok (hs_pools h)" and "pools_ok (vs_pools v)"
  shows "venue_pool v' p = (if p \<in> set touched \<and> historical_pool h' p \<noteq> None
           then historical_pool h' p else venue_pool v p)
    \<and> pools_ok (hs_pools h') \<and> pools_ok (vs_pools v') \<and> vs_mode v' = vs_mode v"
proof -
  have "foldE (reconcile_pool h') v touched = Inr v'"
    using assms(2,3) by (simp add: reconcile_group_def)
  from reconcile_fold_pools[OF this, of p] reconcile_group_ok[OF assms(2,5) apply_group_pools_ok[OF assms(1,4)]]
    apply_group_pools_ok[OF assms(1,4)] show ?thesis by simp
qed

theorem reconcile_follows_history_witness:
  "\<exists>bs h' v'. reference_amm_trade_payload ''A'' ''B'' (Some 5) (Some 7) = Inr bs
     \<and> apply_group HistoricalReferenceState [Venue_Trade_Event (sample_trade bs)] = Inr h'
     \<and> reconcile_group (SimulationVenueState SHADOW_STATE_REPLAY) [Venue_Trade_Event (sample_trade bs)] h' = Inr v'
     \<and> map_option ps_reserve_b (venue_pool v' ''P'') = Some 7"
proof -
  obtain bs where bs: "reference_amm_trade_payload ''A'' ''B'' (Some 5) (Some 7) = Inr bs"
    by (simp add: reference_amm_trade_payload_def json_optional_int_def canonical_json_bytes_def)
  let ?t = "sample_trade bs"
  have ids: "Identifier [c] = Inr [c]" if "c \<in> {CHR ''A'', CHR ''B'', CHR ''P''}" for c
    using that by (auto simp: Identifier_def strip_def is_space_def char_code_def)
  have t: "trade_asset_a_id ?t = Inr ''A''" "trade_asset_b_id ?t = Inr ''B''" "trade_pool_id ?t = Inr ''P''"
    "trade_reserve_a_after ?t = Inr (Some 5)" "trade_reserve_b_after ?t = Inr (Some 7)"
    using sample_trade_view[OF bs] by auto
  let ?s = "\<lparr>ps_pool_id = ''P'', ps_asset_a_id = ''A'', ps_asset_b_id = ''B'', ps_reserve_a = 5,
    ps_reserve_b = 7, ps_boundary_ordinal = event_boundary (Venue_Trade_Event ?t)\<rparr>"
  have snap: "trade_snapshot ?t (event_boundary (Venue_Trade_Event ?t)) m = Inr (Some ?s)" for m
    by (simp add: trade_snapshot_def t PoolSnapshot_def)
  let ?h = "\<lparr>hs_pools = [(''P'', ?s)], hs_assets = {''A'', ''B''}, hs_block_times_ns = []\<rparr>"
  have h: "apply_group HistoricalReferenceState [Venue_Trade_Event ?t] = Inr ?h"
    using snap by (simp add: apply_group_def HistoricalReferenceState_def t exact_ordering_def Let_def)
      (simp add: sample_trade_def sample_envelope_def)
  have touched: "touched_pools [Venue_Trade_Event ?t] = Inr [''P'']"
    by (simp add: touched_pools_def t)
  have "reconcile_group (SimulationVenueState SHADOW_STATE_REPLAY) [Venue_Trade_Event ?t] ?h
      = Inr \<lparr>vs_mode = SHADOW_STATE_REPLAY, vs_pools = [(''P'', ?s)]\<rparr>"
    using touched by (simp add: reconcile_group_def reconcile_pool_def historical_pool_def SimulationVenueState_def)
  from reconcile_follows_history[OF h this touched, of "''P''"] this h bs show ?thesis
    by (simp add: historical_pool_def pools_ok_Nil HistoricalReferenceState_def SimulationVenueState_def)
qed

text \<open>A committed venue transition of an own order changes at most the reserves of its own pool; in
  exogenous replay it changes nothing, so own orders never feed back into the historical prices.\<close>

theorem own_transition_effect:
  assumes "pools_ok (vs_pools v)" and "apply_transition v t = Inr v'"
  shows "pools_ok (vs_pools v') \<and> vs_mode v' = vs_mode v
    \<and> (if vs_mode v = EXOGENOUS_REPLAY then v' = v
       else venue_pool v' p =
         (if p = vr_pool_id t then map_option (\<lambda>s. s\<lparr>ps_reserve_a := vr_reserve_a_after t,
            ps_reserve_b := vr_reserve_b_after t\<rparr>) (venue_pool v p) else venue_pool v p))"
proof -
  obtain c where c: "preview_transition v t = Inr c" "v' = venue_commit_candidate v c"
    using assms(2) by (auto simp: apply_transition_def)
  have "pools_ok (vs_pools v')"
    using venue_reducer.step_keeps[OF assms(1) TrueI] assms(2) unfolding apply_transition_def by blast
  moreover obtain s where s: "venue_pool v (vr_pool_id t) = Some s"
    using c(1) by (auto simp: preview_transition_def split: option.splits)
  have "v' = v" if "vs_mode v = EXOGENOUS_REPLAY"
    using c that by (simp add: preview_transition_def s venue_commit_candidate_def)
  moreover have "c = dict_set (vr_pool_id t) (s\<lparr>ps_reserve_a := vr_reserve_a_after t,
      ps_reserve_b := vr_reserve_b_after t\<rparr>) (vs_pools v)" if "vs_mode v \<noteq> EXOGENOUS_REPLAY"
    using c(1) that by (auto simp: preview_transition_def s dest!: PoolSnapshot_Inr)
  ultimately show ?thesis
    using s c(2) by (auto simp: venue_commit_candidate_def venue_pool_def dict_get_set)
qed

theorem own_transition_effect_witness:
  "apply_transition \<lparr>vs_mode = SHADOW_STATE_REPLAY, vs_pools = [(''P'', sample_pool)]\<rparr>
     \<lparr>vr_pool_id = ''P'', vr_reserve_a_after = 6, vr_reserve_b_after = 4\<rparr>
   = Inr \<lparr>vs_mode = SHADOW_STATE_REPLAY, vs_pools = [(''P'', sample_pool\<lparr>ps_reserve_a := 6, ps_reserve_b := 4\<rparr>)]\<rparr>
   \<and> venue_pool \<lparr>vs_mode = SHADOW_STATE_REPLAY, vs_pools = [(''P'', sample_pool\<lparr>ps_reserve_a := 6, ps_reserve_b := 4\<rparr>)]\<rparr> ''P''
     = Some (sample_pool\<lparr>ps_reserve_a := 6, ps_reserve_b := 4\<rparr>)"
proof -
  let ?v = "\<lparr>vs_mode = SHADOW_STATE_REPLAY, vs_pools = [(''P'', sample_pool)]\<rparr>"
  let ?t = "\<lparr>vr_pool_id = ''P'', vr_reserve_a_after = 6, vr_reserve_b_after = 4\<rparr>"
  have ok: "pools_ok (vs_pools ?v)"
    by (simp add: pools_ok_def pool_ok_def sample_pool_def)
  have run: "apply_transition ?v ?t = Inr \<lparr>vs_mode = SHADOW_STATE_REPLAY,
      vs_pools = [(''P'', sample_pool\<lparr>ps_reserve_a := 6, ps_reserve_b := 4\<rparr>)]\<rparr>"
    by (simp add: apply_transition_def preview_transition_def venue_pool_def PoolSnapshot_def
        sample_pool_def venue_commit_candidate_def)
  from own_transition_effect[OF ok run, of "''P''"] run show ?thesis by (simp add: venue_pool_def)
qed

end
