(* ===== verification/Scheduler.thy ===== *)
theory Scheduler
  imports Chain
begin

text \<open>
  The causal scheduler (\<^verbatim>\<open>engine/scheduler.py\<close>): its phase table, keys, the heap of pending
  items and the two helpers that turn a latency target into a replay boundary. The standard
  library's \<^verbatim>\<open>heapq\<close> is used through the locale \<open>min_heap\<close>, whose laws are what its documentation
  promises (the item at index 0 is a smallest one, pushing and popping change the contents by one
  item); the model's heap keeps its items in key order.
\<close>

section \<open>Phases, instants and keys\<close>

datatype scheduler_phase =
    HISTORICAL_REFERENCE_APPLY | SIMULATION_STATE_RECONCILE | OBSERVATION_DELIVERY
  | STRATEGY_CALLBACK | RISK_AND_ORDER_ACCEPTANCE | VENUE_EXECUTION_AND_LEDGER_COMMIT
  | STRATEGY_EXECUTION_NOTIFICATION | CHECKPOINT

fun phase_value :: "scheduler_phase \<Rightarrow> int" where
  "phase_value HISTORICAL_REFERENCE_APPLY = 10"
| "phase_value SIMULATION_STATE_RECONCILE = 20"
| "phase_value OBSERVATION_DELIVERY = 30"
| "phase_value STRATEGY_CALLBACK = 40"
| "phase_value RISK_AND_ORDER_ACCEPTANCE = 50"
| "phase_value VENUE_EXECUTION_AND_LEDGER_COMMIT = 60"
| "phase_value STRATEGY_EXECUTION_NOTIFICATION = 70"
| "phase_value CHECKPOINT = 80"

lemma phase_value_inj: "phase_value p = phase_value q \<longleftrightarrow> p = q"
  by (cases p; cases q) simp_all

record scheduler_instant =
  si_boundary_ordinal :: int
  si_chain_position :: "chain_position option"
  si_monotone_logical_ns :: "int option"

definition SchedulerInstant ::
  "int \<Rightarrow> chain_position option \<Rightarrow> int option \<Rightarrow> scheduler_instant res" where
  "SchedulerInstant boundary pos ns =
     (if boundary < 0 then Inl (ValueError ''boundary_ordinal must be a non-negative integer'')
      else bindE (case pos of
          None \<Rightarrow> Inr ()
        | Some p \<Rightarrow> bindE (position_boundary_ordinal p) (\<lambda>v.
            if v \<noteq> boundary then
              Inl (ValueError ''scheduler instant position does not match its boundary ordinal'')
            else Inr ()))
        (\<lambda>_. Inr \<lparr>si_boundary_ordinal = boundary, si_chain_position = pos,
                  si_monotone_logical_ns = ns\<rparr>))"

text \<open>\<^verbatim>\<open>SchedulerKey\<close> is a dataclass with \<^verbatim>\<open>order=True\<close>: its order is that of the field tuples.\<close>

datatype scheduler_key = Scheduler_Key
  (sk_release: int) (sk_phase: scheduler_phase) (sk_creator: int) (sk_causal_id: string)

definition scheduler_key_tuple :: "scheduler_key \<Rightarrow> int \<times> int \<times> int \<times> string" where
  "scheduler_key_tuple k = (sk_release k, phase_value (sk_phase k), sk_creator k, sk_causal_id k)"

lemma scheduler_key_tuple_inj: "scheduler_key_tuple k = scheduler_key_tuple l \<longleftrightarrow> k = l"
  by (cases k; cases l) (auto simp: scheduler_key_tuple_def phase_value_inj)

instantiation scheduler_key :: linorder
begin

definition less_eq_scheduler_key :: "scheduler_key \<Rightarrow> scheduler_key \<Rightarrow> bool" where
  "less_eq_scheduler_key k l \<longleftrightarrow> scheduler_key_tuple k \<le> scheduler_key_tuple l"

definition less_scheduler_key :: "scheduler_key \<Rightarrow> scheduler_key \<Rightarrow> bool" where
  "less_scheduler_key k l \<longleftrightarrow> scheduler_key_tuple k < scheduler_key_tuple l"

instance
  by standard (auto simp: less_eq_scheduler_key_def less_scheduler_key_def
      simp flip: scheduler_key_tuple_inj)

end

definition SchedulerKey :: "int \<Rightarrow> scheduler_phase \<Rightarrow> int \<Rightarrow> string \<Rightarrow> scheduler_key res" where
  "SchedulerKey release phase creator causal_id =
     (if release < 0 then Inl (ValueError ''release boundary must be non-negative'')
      else if creator < 0 then Inl (ValueError ''source/creator boundary must be non-negative'')
      else bindE (ContentDigest causal_id) (\<lambda>_.
        Inr (Scheduler_Key release phase creator causal_id)))"

section \<open>The heap\<close>

locale min_heap =
  fixes push :: "'k :: linorder \<times> 'v \<Rightarrow> 'h \<Rightarrow> 'h"
    and top :: "'h \<Rightarrow> ('k \<times> 'v) option"
    and pop :: "'h \<Rightarrow> 'h"
    and items :: "'h \<Rightarrow> ('k \<times> 'v) multiset"
    and inv :: "'h \<Rightarrow> bool"
  assumes push_inv: "inv h \<Longrightarrow> inv (push x h)"
    and push_items: "inv h \<Longrightarrow> items (push x h) = add_mset x (items h)"
    and top_None: "inv h \<Longrightarrow> top h = None \<longleftrightarrow> items h = {#}"
    and top_min: "inv h \<Longrightarrow> top h = Some x \<Longrightarrow> x \<in># items h \<and> (\<forall>y \<in># items h. fst x \<le> fst y)"
    and pop_inv: "inv h \<Longrightarrow> top h = Some x \<Longrightarrow> inv (pop h)"
    and pop_items: "inv h \<Longrightarrow> top h = Some x \<Longrightarrow> items (pop h) = items h - {#x#}"
begin

lemma pop_shrinks: "inv h \<Longrightarrow> top h = Some x \<Longrightarrow> size (items (pop h)) < size (items h)"
  by (metis pop_items top_min size_Diff1_less)

lemma pop_le:
  "inv h \<Longrightarrow> top h = Some x \<Longrightarrow> y \<in># items (pop h) \<Longrightarrow> fst x \<le> fst y"
  by (metis in_diffD pop_items top_min)

end

definition heappush :: "'k :: linorder \<times> 'v \<Rightarrow> ('k \<times> 'v) list \<Rightarrow> ('k \<times> 'v) list" where
  "heappush x h = insort_key fst x h"

definition heap_top :: "('k \<times> 'v) list \<Rightarrow> ('k \<times> 'v) option" where
  "heap_top h = (case h of [] \<Rightarrow> None | x # _ \<Rightarrow> Some x)"

definition heappop :: "('k \<times> 'v) list \<Rightarrow> ('k \<times> 'v) list" where
  "heappop h = tl h"

interpretation heapq: min_heap heappush heap_top heappop mset "\<lambda>h. sorted (map fst h)"
  by unfold_locales
     (auto simp: heappush_def heap_top_def heappop_def sorted_insort_key sorted_tl map_tl
        split: list.splits)

section \<open>The scheduler\<close>

record 'a causal_scheduler =
  cs_heap :: "(scheduler_key \<times> 'a) list"
  cs_keys :: "scheduler_key set"

definition CausalScheduler :: "'a causal_scheduler" where
  "CausalScheduler = \<lparr>cs_heap = [], cs_keys = {}\<rparr>"

definition enqueue :: "'a causal_scheduler \<Rightarrow> scheduler_key \<Rightarrow> 'a \<Rightarrow> 'a causal_scheduler res" where
  "enqueue s key payload =
     (if key \<in> cs_keys s then Inl (ValueError ''scheduler key collision'')
      else Inr \<lparr>cs_heap = heappush (key, payload) (cs_heap s),
                cs_keys = insert key (cs_keys s)\<rparr>)"

definition item_prefix :: "scheduler_key \<Rightarrow> int \<times> int" where
  "item_prefix k = (sk_release k, phase_value (sk_phase k))"

text \<open>The \<^verbatim>\<open>while self._heap\<close> loop of \<^verbatim>\<open>pop_ready\<close>, returning the popped items and the rest.\<close>

function pop_ready_loop ::
  "int \<times> int \<Rightarrow> 'a causal_scheduler \<Rightarrow> (scheduler_key \<times> 'a) list \<times> 'a causal_scheduler" where
  "pop_ready_loop limit s =
     (case heap_top (cs_heap s) of
        None \<Rightarrow> ([], s)
      | Some item \<Rightarrow>
          if limit < item_prefix (fst item) then ([], s)
          else (let (ready, s') = pop_ready_loop limit
                      \<lparr>cs_heap = heappop (cs_heap s), cs_keys = cs_keys s - {fst item}\<rparr>
                in (item # ready, s')))"
  by pat_completeness auto
termination
  by (relation "measure (\<lambda>(limit, s). length (cs_heap s))")
     (auto simp: heap_top_def heappop_def split: list.splits)

declare pop_ready_loop.simps [simp del]

definition pop_ready ::
  "'a causal_scheduler \<Rightarrow> int \<Rightarrow> scheduler_phase \<Rightarrow>
     (scheduler_key \<times> 'a) list \<times> 'a causal_scheduler" where
  "pop_ready s boundary through_phase = pop_ready_loop (boundary, phase_value through_phase) s"

definition scheduler_len :: "'a causal_scheduler \<Rightarrow> nat" where
  "scheduler_len s = length (cs_heap s)"

section \<open>Latency targets\<close>

definition first_boundary_at_or_after_slot :: "int \<Rightarrow> int list \<Rightarrow> int list \<Rightarrow> int res" where
  "first_boundary_at_or_after_slot target_slot boundary_slots boundary_ordinals =
     (if target_slot < 0 then Inl (ValueError ''target_slot must be non-negative'')
      else if length boundary_slots \<noteq> length boundary_ordinals \<or> boundary_slots = [] then
        Inl (ValueError ''boundary slot and ordinal arrays must be non-empty and aligned'')
      else if any_pairwise (\<lambda>left right. right < left) boundary_slots then
        Inl (ValueError ''boundary slots must be monotone'')
      else (let index = bisect_left boundary_slots target_slot 0 in
        if index = length boundary_slots then
          Inl (LookupError ''latency target is outside the replay horizon'')
        else Inr (boundary_ordinals ! index)))"

definition first_boundary_at_or_after_block :: "int \<Rightarrow> int list \<Rightarrow> int list \<Rightarrow> int res" where
  "first_boundary_at_or_after_block target_block boundary_blocks boundary_ordinals =
     (if target_block < 0 then Inl (ValueError ''target_block_ordinal must be non-negative'')
      else if length boundary_blocks \<noteq> length boundary_ordinals \<or> boundary_blocks = [] then
        Inl (ValueError ''boundary block and ordinal arrays must be non-empty and aligned'')
      else if any_pairwise (\<lambda>left right. right < left) boundary_blocks then
        Inl (ValueError ''boundary blocks must be monotone'')
      else (let index = bisect_left boundary_blocks target_block 0 in
        if index = length boundary_blocks then
          Inl (LookupError ''latency target is outside the replay horizon'')
        else Inr (boundary_ordinals ! index)))"

definition next_order_eligible_boundary :: "int \<Rightarrow> int \<Rightarrow> int res" where
  "next_order_eligible_boundary current_decision candidate =
     (if current_decision < 0 \<or> candidate < 0 then
        Inl (ValueError ''boundary ordinals must be non-negative'')
      else if candidate \<le> current_decision then Inr (current_decision + 1)
      else Inr candidate)"

section \<open>Lemmas\<close>

definition scheduler_inv :: "'a causal_scheduler \<Rightarrow> bool" where
  "scheduler_inv s \<longleftrightarrow> sorted_wrt (<) (map fst (cs_heap s)) \<and> cs_keys s = set (map fst (cs_heap s))"

lemma scheduler_inv_sorted: "scheduler_inv s \<Longrightarrow> sorted (map fst (cs_heap s))"
  by (simp add: scheduler_inv_def strict_sorted_imp_sorted)

lemma scheduler_inv_init: "scheduler_inv CausalScheduler"
  by (simp add: scheduler_inv_def CausalScheduler_def)

lemma enqueue_keeps:
  assumes "scheduler_inv s" and "enqueue s key payload = Inr s'"
  shows "scheduler_inv s'" and "mset (cs_heap s') = add_mset (key, payload) (mset (cs_heap s))"
proof -
  from assms have new: "key \<notin> set (map fst (cs_heap s))"
    and s': "s' = \<lparr>cs_heap = heappush (key, payload) (cs_heap s), cs_keys = insert key (cs_keys s)\<rparr>"
    by (auto simp: enqueue_def scheduler_inv_def split: if_splits)
  show items: "mset (cs_heap s') = add_mset (key, payload) (mset (cs_heap s))"
    using heapq.push_items[OF scheduler_inv_sorted[OF assms(1)]] by (simp add: s')
  have "sorted (map fst (cs_heap s'))"
    using heapq.push_inv[OF scheduler_inv_sorted[OF assms(1)]] by (simp add: s')
  moreover have "mset (map fst (cs_heap s')) = add_mset key (mset (map fst (cs_heap s)))"
    using items by simp
  then have "distinct (map fst (cs_heap s')) \<and> set (map fst (cs_heap s')) = insert key (set (map fst (cs_heap s)))"
    using new assms(1) by (metis distinct.simps(2) list.simps(15) mset.simps(2) mset_eq_imp_distinct_iff
        mset_eq_setD scheduler_inv_def strict_sorted_iff)
  ultimately show "scheduler_inv s'"
    using assms(1) by (auto simp: scheduler_inv_def s' strict_sorted_iff)
qed

text \<open>The sort order refines the limit: what comes after a released item in the heap has no smaller prefix.\<close>

lemma item_prefix_mono: "k \<le> l \<Longrightarrow> item_prefix k \<le> item_prefix l"
  by (auto simp: less_eq_scheduler_key_def scheduler_key_tuple_def item_prefix_def less_eq_prod_def
      split: if_splits)

lemma pop_ready_loop_split:
  assumes "scheduler_inv s"
  shows "pop_ready_loop limit s =
     (takeWhile (\<lambda>x. item_prefix (fst x) \<le> limit) (cs_heap s),
      \<lparr>cs_heap = dropWhile (\<lambda>x. item_prefix (fst x) \<le> limit) (cs_heap s),
       cs_keys = set (map fst (dropWhile (\<lambda>x. item_prefix (fst x) \<le> limit) (cs_heap s)))\<rparr>)"
  using assms
proof (induction "length (cs_heap s)" arbitrary: s)
  case 0
  then show ?case
    by (subst pop_ready_loop.simps) (simp add: heap_top_def scheduler_inv_def)
next
  case (Suc n)
  then obtain x h where h: "cs_heap s = x # h" by (cases "cs_heap s") auto
  let ?s = "\<lparr>cs_heap = h, cs_keys = cs_keys s - {fst x}\<rparr>"
  have "scheduler_inv ?s"
    using Suc.prems by (auto simp: scheduler_inv_def h)
  from Suc.hyps(1)[OF _ this] Suc.hyps(2) have "pop_ready_loop limit ?s =
     (takeWhile (\<lambda>x. item_prefix (fst x) \<le> limit) h,
      \<lparr>cs_heap = dropWhile (\<lambda>x. item_prefix (fst x) \<le> limit) h,
       cs_keys = set (map fst (dropWhile (\<lambda>x. item_prefix (fst x) \<le> limit) h))\<rparr>)"
    by (simp add: h)
  with Suc.prems show ?case
    by (subst pop_ready_loop.simps)
       (auto simp: heap_top_def heappop_def h scheduler_inv_def not_le)
qed

lemma prefix_split:
  "sorted (map fst h) \<Longrightarrow>
     takeWhile (\<lambda>x. item_prefix (fst x) \<le> limit) h = filter (\<lambda>x. item_prefix (fst x) \<le> limit) h \<and>
     dropWhile (\<lambda>x. item_prefix (fst x) \<le> limit) h = filter (\<lambda>x. \<not> item_prefix (fst x) \<le> limit) h"
proof (induction h)
  case (Cons x h)
  have "\<not> item_prefix (fst y) \<le> limit" if "\<not> item_prefix (fst x) \<le> limit" "y \<in> set h" for y
    using Cons.prems that item_prefix_mono[of "fst x" "fst y"] by fastforce
  then have "\<not> item_prefix (fst x) \<le> limit \<Longrightarrow>
      filter (\<lambda>x. item_prefix (fst x) \<le> limit) h = [] \<and> filter (\<lambda>x. \<not> item_prefix (fst x) \<le> limit) h = h"
    by (auto simp: filter_empty_conv filter_id_conv)
  with Cons show ?case by simp
qed simp

lemma pop_ready_filter:
  assumes "scheduler_inv s" and "pop_ready s boundary phase = (ready, s')"
  shows "ready = filter (\<lambda>x. item_prefix (fst x) \<le> (boundary, phase_value phase)) (cs_heap s)"
    and "cs_heap s' = filter (\<lambda>x. \<not> item_prefix (fst x) \<le> (boundary, phase_value phase)) (cs_heap s)"
    and "scheduler_inv s'"
proof -
  let ?l = "(boundary, phase_value phase)"
  have eq: "ready = filter (\<lambda>x. item_prefix (fst x) \<le> ?l) (cs_heap s)"
    "s' = \<lparr>cs_heap = filter (\<lambda>x. \<not> item_prefix (fst x) \<le> ?l) (cs_heap s),
          cs_keys = set (map fst (filter (\<lambda>x. \<not> item_prefix (fst x) \<le> ?l) (cs_heap s)))\<rparr>"
    using assms(2) prefix_split[OF scheduler_inv_sorted[OF assms(1)], of ?l]
    unfolding pop_ready_def pop_ready_loop_split[OF assms(1)] by auto
  then show "ready = filter (\<lambda>x. item_prefix (fst x) \<le> ?l) (cs_heap s)"
    and "cs_heap s' = filter (\<lambda>x. \<not> item_prefix (fst x) \<le> ?l) (cs_heap s)"
    by simp_all
  show "scheduler_inv s'"
    using assms(1) unfolding eq(2) scheduler_inv_def
    by (auto simp: sorted_wrt_map intro: sorted_wrt_filter)
qed

text \<open>A strictly sorted association list is determined by its items.\<close>

lemma sorted_items_unique:
  fixes xs ys :: "('k :: linorder \<times> 'v) list"
  assumes "mset xs = mset ys" and "sorted_wrt (<) (map fst xs)" and "sorted_wrt (<) (map fst ys)"
  shows "xs = ys"
proof (rule map_sorted_distinct_set_unique)
  show "set xs = set ys" using assms(1) by (rule mset_eq_setD)
  then show "inj_on fst (set xs \<union> set ys)"
    using assms(2) by (simp add: strict_sorted_iff distinct_map)
qed (use assms(2,3) in \<open>simp_all add: strict_sorted_iff\<close>)

lemma enqueue_all_spec:
  assumes "foldE (\<lambda>s (key, payload). enqueue s key payload) s items = Inr s'" and "scheduler_inv s"
  shows "scheduler_inv s' \<and> mset (cs_heap s') = mset (cs_heap s) + mset items"
  using assms
proof (induction items arbitrary: s)
  case (Cons item items)
  then obtain t where t: "enqueue s (fst item) (snd item) = Inr t"
    "foldE (\<lambda>s (key, payload). enqueue s key payload) t items = Inr s'"
    by (cases item) auto
  show ?case
    using Cons.IH[OF t(2)] enqueue_keeps[OF Cons.prems(2) t(1)] by simp
qed simp

lemma enqueue_all_total:
  assumes "scheduler_inv s" and "distinct (map fst items)"
    and "set (map fst items) \<inter> cs_keys s = {}"
  shows "\<exists>s'. foldE (\<lambda>s (key, payload). enqueue s key payload) s items = Inr s'"
  using assms
proof (induction items arbitrary: s)
  case (Cons item items)
  obtain k v where kv: "item = (k, v)" by (cases item)
  let ?t = "\<lparr>cs_heap = heappush (k, v) (cs_heap s), cs_keys = insert k (cs_keys s)\<rparr>"
  have "enqueue s k v = Inr ?t"
    using Cons.prems(3) kv by (simp add: enqueue_def)
  moreover have "\<exists>s'. foldE (\<lambda>s (key, payload). enqueue s key payload) ?t items = Inr s'"
    by (rule Cons.IH) (use Cons.prems kv enqueue_keeps(1)[OF Cons.prems(1) calculation] in auto)
  ultimately show ?case by (simp add: kv)
qed simp

section \<open>Properties\<close>

text \<open>C32: Whatever the order in which items were enqueued, \<^verbatim>\<open>pop_ready\<close> releases exactly the items whose
  (boundary, phase) is at or before the limit, each once and in strictly increasing key order, and
  leaves exactly the others.\<close>

theorem pop_ready_releases_in_order:
  assumes "foldE (\<lambda>s (key, payload). enqueue s key payload) CausalScheduler items = Inr s"
    and "pop_ready s boundary phase = (ready, s')"
  shows "sorted_wrt (<) (map fst ready)
    \<and> mset ready = filter_mset (\<lambda>x. (sk_release (fst x), phase_value (sk_phase (fst x)))
        \<le> (boundary, phase_value phase)) (mset items)
    \<and> mset (cs_heap s') = filter_mset (\<lambda>x. \<not> (sk_release (fst x), phase_value (sk_phase (fst x)))
        \<le> (boundary, phase_value phase)) (mset items)"
proof -
  have s: "scheduler_inv s" "mset (cs_heap s) = mset items"
    using enqueue_all_spec[OF assms(1) scheduler_inv_init] by (simp_all add: CausalScheduler_def)
  have "sorted_wrt (<) (map fst ready)"
    using s(1) unfolding pop_ready_filter(1)[OF s(1) assms(2)] scheduler_inv_def
    by (auto simp: sorted_wrt_map intro: sorted_wrt_filter)
  then show ?thesis
    using pop_ready_filter(1,2)[OF s(1) assms(2)] s(2) by (simp add: item_prefix_def flip: s(2))
qed

theorem pop_ready_releases_in_order_witness:
  "\<exists>s s'. foldE (\<lambda>s (key, payload). enqueue s key payload) CausalScheduler
       [(Scheduler_Key 7 STRATEGY_CALLBACK 1 ''b'', 2 :: nat), (Scheduler_Key 5 CHECKPOINT 1 ''a'', 1),
        (Scheduler_Key 7 CHECKPOINT 1 ''a'', 3)] = Inr s
     \<and> pop_ready s 7 STRATEGY_CALLBACK =
         ([(Scheduler_Key 5 CHECKPOINT 1 ''a'', 1), (Scheduler_Key 7 STRATEGY_CALLBACK 1 ''b'', 2)], s')
     \<and> mset (cs_heap s') = {#(Scheduler_Key 7 CHECKPOINT 1 ''a'', 3)#}"
proof -
  let ?items = "[(Scheduler_Key 7 STRATEGY_CALLBACK 1 ''b'', 2 :: nat),
    (Scheduler_Key 5 CHECKPOINT 1 ''a'', 1), (Scheduler_Key 7 CHECKPOINT 1 ''a'', 3)]"
  obtain s where s: "foldE (\<lambda>s (key, payload). enqueue s key payload) CausalScheduler ?items = Inr s"
    by (simp add: CausalScheduler_def enqueue_def)
  have heap: "cs_heap s = [(Scheduler_Key 5 CHECKPOINT 1 ''a'', 1),
      (Scheduler_Key 7 STRATEGY_CALLBACK 1 ''b'', 2), (Scheduler_Key 7 CHECKPOINT 1 ''a'', 3)]"
    using s by (auto simp: CausalScheduler_def enqueue_def heappush_def less_eq_scheduler_key_def
        scheduler_key_tuple_def)
  obtain ready s' where p: "pop_ready s 7 STRATEGY_CALLBACK = (ready, s')" by fastforce
  have inv: "scheduler_inv s"
    using enqueue_all_spec[OF s scheduler_inv_init] by simp
  have "ready = [(Scheduler_Key 5 CHECKPOINT 1 ''a'', 1), (Scheduler_Key 7 STRATEGY_CALLBACK 1 ''b'', 2)]"
    using pop_ready_filter(1)[OF inv p] by (simp add: heap item_prefix_def)
  then show ?thesis
    using s p pop_ready_releases_in_order[OF s p] by auto
qed

text \<open>The scheduler is deterministic: enqueuing the same items in any other order succeeds as well and
  reaches the same state, so every later release is the same.\<close>

theorem enqueue_order_independent:
  assumes "foldE (\<lambda>s (key, payload). enqueue s key payload) CausalScheduler items = Inr s"
    and "mset items' = mset items"
  shows "foldE (\<lambda>s (key, payload). enqueue s key payload) CausalScheduler items' = Inr s"
proof -
  have s: "scheduler_inv s" "mset (cs_heap s) = mset items"
    using enqueue_all_spec[OF assms(1) scheduler_inv_init] by (simp_all add: CausalScheduler_def)
  have "mset (map fst items') = mset (map fst (cs_heap s))"
    using s(2) assms(2) by simp
  moreover have "distinct (map fst (cs_heap s))"
    using s(1) by (simp add: scheduler_inv_def strict_sorted_iff)
  ultimately have "distinct (map fst items')"
    by (metis mset_eq_imp_distinct_iff)
  then obtain s' where run: "foldE (\<lambda>s (key, payload). enqueue s key payload) CausalScheduler items' = Inr s'"
    using enqueue_all_total[OF scheduler_inv_init, of items'] by (auto simp: CausalScheduler_def)
  have s': "scheduler_inv s'" "mset (cs_heap s') = mset items'"
    using enqueue_all_spec[OF run scheduler_inv_init] by (simp_all add: CausalScheduler_def)
  have "cs_heap s' = cs_heap s"
    using s s' assms(2) by (intro sorted_items_unique) (simp_all add: scheduler_inv_def)
  with s(1) s'(1) have "s' = s"
    by (cases s; cases s') (simp add: scheduler_inv_def)
  with run show ?thesis by simp
qed

theorem enqueue_order_independent_witness:
  "foldE (\<lambda>s (key, payload). enqueue s key payload) CausalScheduler
     [(Scheduler_Key 3 STRATEGY_CALLBACK 1 ''a'', True), (Scheduler_Key 2 STRATEGY_CALLBACK 1 ''b'', False)]
   = Inr \<lparr>cs_heap = [(Scheduler_Key 2 STRATEGY_CALLBACK 1 ''b'', False),
                    (Scheduler_Key 3 STRATEGY_CALLBACK 1 ''a'', True)],
         cs_keys = {Scheduler_Key 2 STRATEGY_CALLBACK 1 ''b'', Scheduler_Key 3 STRATEGY_CALLBACK 1 ''a''}\<rparr>"
  by (rule enqueue_order_independent[where items =
        "[(Scheduler_Key 2 STRATEGY_CALLBACK 1 ''b'', False),
          (Scheduler_Key 3 STRATEGY_CALLBACK 1 ''a'', True)]"])
     (auto simp: CausalScheduler_def enqueue_def heappush_def less_eq_scheduler_key_def
        scheduler_key_tuple_def)

text \<open>On aligned monotone arrays a latency target resolves to the ordinal of the first boundary whose
  slot is at or after it; it fails exactly when the target is negative or beyond the last slot.\<close>

theorem latency_target_first_boundary:
  assumes "sorted slots" and "slots \<noteq> []" and "length slots = length ordinals"
  shows "(case first_boundary_at_or_after_slot target slots ordinals of
      Inr v \<Rightarrow> 0 \<le> target \<and>
        (\<exists>i. i < length slots \<and> ordinals ! i = v \<and> target \<le> slots ! i \<and> list_all (\<lambda>s. s < target) (take i slots))
    | Inl e \<Rightarrow> target < 0 \<or> last slots < target \<and>
        e = LookupError ''latency target is outside the replay horizon'')"
proof -
  let ?k = "bisect_left slots target 0"
  have b: "splits_at (\<lambda>y. target \<le> y) slots 0 ?k"
    using assms(1) by (rule bisect_left_spec) simp
  have "\<not> any_pairwise (\<lambda>left right. right < left) slots"
    using assms(1) by (simp add: any_pairwise_sorted)
  then have eq: "first_boundary_at_or_after_slot target slots ordinals =
     (if target < 0 then Inl (ValueError ''target_slot must be non-negative'')
      else if ?k = length slots then Inl (LookupError ''latency target is outside the replay horizon'')
      else Inr (ordinals ! ?k))"
    using assms(2,3) by (simp add: first_boundary_at_or_after_slot_def Let_def)
  have before: "list_all (\<lambda>s. s < target) (take ?k slots)"
    using b by (auto simp: splits_at_def list_all_length)
  have "last slots < target" if "?k = length slots"
    using before that assms(2) by (simp add: list_all_iff)
  moreover have "target \<le> slots ! ?k" if "?k < length slots"
    using b that by (simp add: splits_at_def)
  ultimately show ?thesis
    using before splits_at_le[OF b] unfolding eq by (auto simp: le_less)
qed

theorem latency_target_first_boundary_witness:
  "first_boundary_at_or_after_slot 6 [3, 5, 7, 7] [30, 50, 70, 71] = Inr 70
   \<and> (\<exists>i < length [3, 5, 7, 7 :: int]. [30, 50, 70, 71] ! i = (70 :: int) \<and> 6 \<le> [3, 5, 7, 7 :: int] ! i)"
proof -
  have "bisect_left [3, 5, 7, 7] (6 :: int) 0 = 2"
    by (simp add: bisect_left_def bisect_left_loop_cases)
  then have r: "first_boundary_at_or_after_slot 6 [3, 5, 7, 7] [30, 50, 70, 71] = Inr 70"
    by (simp add: first_boundary_at_or_after_slot_def Let_def)
  have "sorted [3, 5, 7, 7 :: int]" "length [3, 5, 7, 7 :: int] = length [30, 50, 70, 71 :: int]"
    by simp_all
  from latency_target_first_boundary[OF this(1) _ this(2), of 6] r show ?thesis by auto
qed

end
