(* ===== verification/Replay_Timeline.thy ===== *)
theory Replay_Timeline
  imports Venue_State Scheduler
begin

text \<open>
  What the reference reducer replays along (\<^verbatim>\<open>engine/reference.py\<close> and \<^verbatim>\<open>engine/replay.py\<close>): the slot
  latency policy, the index of real boundaries that resolves releases, the merge of a materialized
  delivery stream, and the recorder of the canonical audit, ledger and fill streams.
\<close>

section \<open>Latency policy\<close>

record slot_latency =
  sl_observation_slots :: int
  sl_order_slots :: int
  sl_bundle_identity :: digest

definition SlotLatencyModel :: "int \<Rightarrow> int \<Rightarrow> digest \<Rightarrow> slot_latency res" where
  "SlotLatencyModel observation_slots order_slots bundle =
     (if observation_slots < 0 then
        Inl (ValueError ''observation_slots must be a non-negative integer'')
      else if order_slots < 0 then Inl (ValueError ''order_slots must be a non-negative integer'')
      else Inr \<lparr>sl_observation_slots = observation_slots, sl_order_slots = order_slots,
                sl_bundle_identity = bundle\<rparr>)"

definition latency_config_digest :: "(bytes \<Rightarrow> string) \<Rightarrow> slot_latency \<Rightarrow> digest res" where
  "latency_config_digest sha l =
     domain_digest sha ''backtest.component-config.v1''
       (JObj [(''observation_slots'', JInt (sl_observation_slots l)),
              (''order_slots'', JInt (sl_order_slots l))])"

section \<open>The boundary timeline\<close>

record boundary_timeline =
  bt_boundaries :: "replay_boundary list"
  bt_ordinals :: "int list"
  bt_blocks :: "int list"
  bt_index_by_ordinal :: "(int, nat) dict"

definition rb_identity :: "replay_boundary \<Rightarrow> string \<times> string" where
  "rb_identity b = (rb_network_id b, rb_position_schema_id b)"

definition BoundaryTimeline :: "replay_boundary list \<Rightarrow> boundary_timeline res" where
  "BoundaryTimeline boundaries =
     (if boundaries = [] then
        Inl (EngineInvariantError ''replay boundary index must not be empty'')
      else if any_pairwise (\<lambda>left right. rb_boundary_ordinal right \<le> rb_boundary_ordinal left) boundaries then
        Inl (EngineInvariantError ''replay boundaries must have strictly increasing ordinals'')
      else if list_ex (\<lambda>item. rb_identity item \<noteq> rb_identity (hd boundaries)) boundaries then
        Inl (EngineInvariantError ''replay boundaries mix network or position schema identities'')
      else if any_pairwise (\<lambda>left right. rb_block_ordinal right < rb_block_ordinal left) boundaries then
        Inl (EngineInvariantError ''replay boundary blocks must be monotone'')
      else Inr \<lparr>bt_boundaries = boundaries, bt_ordinals = map rb_boundary_ordinal boundaries,
                bt_blocks = map rb_block_ordinal boundaries,
                bt_index_by_ordinal = zip (map rb_boundary_ordinal boundaries) [0..<length boundaries]\<rparr>)"

definition timeline_index :: "boundary_timeline \<Rightarrow> int \<Rightarrow> nat res" where
  "timeline_index line boundary =
     (case dict_get (bt_index_by_ordinal line) boundary of
        None \<Rightarrow> Inl (EngineInvariantError ''item references a non-existent replay boundary'')
      | Some i \<Rightarrow> Inr i)"

definition observation_release :: "boundary_timeline \<Rightarrow> int \<Rightarrow> int \<Rightarrow> int option res" where
  "observation_release line source_boundary delay_slots =
     bindE (timeline_index line source_boundary) (\<lambda>source_index.
       let target_slot = bt_blocks line ! source_index + delay_slots;
           candidate = max source_index (bisect_left (bt_blocks line) target_slot 0) in
       Inr (if length (bt_boundaries line) \<le> candidate then None else Some (bt_ordinals line ! candidate)))"

definition order_release :: "boundary_timeline \<Rightarrow> int \<Rightarrow> int \<Rightarrow> int option res" where
  "order_release line decision_boundary delay_slots =
     bindE (timeline_index line decision_boundary) (\<lambda>current_index.
       let target_slot = bt_blocks line ! current_index + delay_slots;
           candidate = max (current_index + 1) (bisect_left (bt_blocks line) target_slot 0) in
       Inr (if length (bt_boundaries line) \<le> candidate then None else Some (bt_ordinals line ! candidate)))"

definition timeline_instant :: "boundary_timeline \<Rightarrow> int \<Rightarrow> scheduler_instant res" where
  "timeline_instant line boundary =
     bindE (timeline_index line boundary) (\<lambda>i.
     bindE (rb_chain_position (bt_boundaries line ! i)) (\<lambda>p.
       SchedulerInstant boundary (Some p) None))"

definition timeline_require :: "boundary_timeline \<Rightarrow> int \<Rightarrow> unit res" where
  "timeline_require line boundary = bindE (timeline_index line boundary) (\<lambda>_. Inr ())"

definition timeline_require_event :: "boundary_timeline \<Rightarrow> canonical_event \<Rightarrow> unit res" where
  "timeline_require_event line e =
     bindE (timeline_index line (event_boundary e)) (\<lambda>i.
       let boundary = bt_boundaries line ! i; p = ee_position (event_envelope_of e) in
       if cp_network_id p \<noteq> rb_network_id boundary
          \<or> cp_position_schema_id p \<noteq> rb_position_schema_id boundary
          \<or> cp_block_ordinal p \<noteq> rb_block_ordinal boundary
          \<or> rb_transaction_index boundary \<noteq> Inr (cp_transaction_index p) then
         Inl (EngineInvariantError
           ''historical event differs from replay network, schema or boundary position'')
       else Inr ())"

section \<open>Materialized observation deliveries\<close>

record observation =
  ob_event :: canonical_event
  ob_event_row_id :: int

record observation_delivery =
  od_release_boundary_ordinal :: int
  od_event_row_index :: int

definition ObservationDelivery :: "int \<Rightarrow> int \<Rightarrow> observation_delivery res" where
  "ObservationDelivery release row =
     (if release < 0 \<or> row < 0 then
        Inl (ValueError ''observation delivery coordinates must be non-negative'')
      else Inr \<lparr>od_release_boundary_ordinal = release, od_event_row_index = row\<rparr>)"

text \<open>
  A delivery source: the declared counts and the deliveries its iterator yields. The row-indexed
  event source is a function \<open>event_at\<close>.
\<close>

record delivery_source =
  dv_input_event_count :: int
  dv_delivery_count :: int
  dv_outside_horizon_count :: int
  dv_deliveries :: "observation_delivery list"

record observation_merge =
  mm_source :: delivery_source
  mm_observation_slots :: int
  mm_iterator :: "observation_delivery list"
  mm_next :: "observation_delivery option"
  mm_seen_event_count :: int
  mm_pending_count :: int
  mm_previous_key :: "scheduler_key option"
  mm_consumed :: int
  mm_outside :: int

definition merge_advance :: "observation_merge \<Rightarrow> observation_merge res" where
  "merge_advance m =
     (case mm_iterator m of
        [] \<Rightarrow> Inr (m\<lparr>mm_next := None\<rparr>)
      | delivery # rest \<Rightarrow>
          if dv_delivery_count (mm_source m) \<le> mm_consumed m then
            Inl (EngineInvariantError ''materialized delivery stream exceeds declared count'')
          else if dv_input_event_count (mm_source m) \<le> od_event_row_index delivery then
            Inl (EngineInvariantError ''materialized delivery event row is out of bounds'')
          else Inr (m\<lparr>mm_iterator := rest, mm_next := Some delivery\<rparr>))"

definition MaterializedObservationMerge :: "delivery_source \<Rightarrow> int \<Rightarrow> observation_merge res" where
  "MaterializedObservationMerge src observation_slots =
     (if list_ex (\<lambda>n. n < 0) [dv_input_event_count src, dv_delivery_count src, dv_outside_horizon_count src] then
        Inl (EngineInvariantError ''materialized delivery counts must be non-negative integers'')
      else if dv_input_event_count src \<le> 0 then
        Inl (EngineInvariantError ''materialized delivery input count must be positive'')
      else if dv_delivery_count src + dv_outside_horizon_count src \<noteq> dv_input_event_count src then
        Inl (EngineInvariantError ''materialized delivery counts do not cover the replay'')
      else merge_advance \<lparr>mm_source = src, mm_observation_slots = observation_slots,
             mm_iterator = dv_deliveries src, mm_next = None, mm_seen_event_count = 0,
             mm_pending_count = 0, mm_previous_key = None, mm_consumed = 0, mm_outside = 0\<rparr>)"

definition merge_register :: "observation_merge \<Rightarrow> int \<Rightarrow> int option \<Rightarrow> observation_merge res" where
  "merge_register m event_row_index expected_release =
     (if event_row_index \<noteq> mm_seen_event_count m then
        Inl (EngineInvariantError ''historical replay row indexes are not contiguous'')
      else if dv_input_event_count (mm_source m) \<le> event_row_index then
        Inl (EngineInvariantError ''historical replay exceeds materialized input count'')
      else
        (let m' = m\<lparr>mm_seen_event_count := mm_seen_event_count m + 1\<rparr> in
         case expected_release of
           None \<Rightarrow> Inr (m'\<lparr>mm_outside := mm_outside m' + 1\<rparr>)
         | Some _ \<Rightarrow> Inr (m'\<lparr>mm_pending_count := mm_pending_count m' + 1\<rparr>)))"

text \<open>One round of the \<^verbatim>\<open>while\<close> loop of \<^verbatim>\<open>pop_ready\<close>: check the next delivery and advance.\<close>

definition merge_deliver ::
  "boundary_timeline \<Rightarrow> (int \<Rightarrow> canonical_event res) \<Rightarrow> int \<Rightarrow> observation_delivery \<Rightarrow> observation_merge \<Rightarrow>
     ((scheduler_key \<times> observation) \<times> observation_merge) res" where
  "merge_deliver line event_at boundary delivery m =
     (if od_release_boundary_ordinal delivery \<noteq> boundary then
        Inl (EngineInvariantError ''materialized delivery was not released on its boundary'')
      else bindE (timeline_require line (od_release_boundary_ordinal delivery)) (\<lambda>_.
        if mm_seen_event_count m \<le> od_event_row_index delivery then
          Inl (EngineInvariantError ''materialized delivery references an unseen historical event row'')
        else bindE (event_at (od_event_row_index delivery)) (\<lambda>event.
        bindE (observation_release line (event_boundary event) (mm_observation_slots m)) (\<lambda>expected.
          if expected = None then
            Inl (EngineInvariantError ''materialized delivery references an outside-horizon event row'')
          else if Some (od_release_boundary_ordinal delivery) \<noteq> expected then
            Inl (EngineInvariantError ''materialized delivery differs from resolved latency'')
          else bindE (SchedulerKey (od_release_boundary_ordinal delivery) OBSERVATION_DELIVERY
                        (event_boundary event) (event_causal_hex event)) (\<lambda>key.
            if (case mm_previous_key m of None \<Rightarrow> False | Some k \<Rightarrow> key \<le> k) then
              Inl (EngineInvariantError ''materialized deliveries violate scheduler ordering'')
            else if mm_pending_count m - 1 < 0 then
              Inl (EngineInvariantError ''materialized delivery duplicates an event row'')
            else bindE (merge_advance (m\<lparr>mm_previous_key := Some key,
                     mm_pending_count := mm_pending_count m - 1, mm_consumed := mm_consumed m + 1\<rparr>)) (\<lambda>m'.
              Inr ((key, \<lparr>ob_event = event, ob_event_row_id = od_event_row_index delivery\<rparr>), m')))))))"

definition merge_size :: "observation_merge \<Rightarrow> nat" where
  "merge_size m = length (mm_iterator m) + (if mm_next m = None then 0 else 1)"

lemma merge_advance_size:
  "merge_advance m = Inr m' \<Longrightarrow> merge_size m' \<le> length (mm_iterator m)"
  by (auto simp: merge_advance_def merge_size_def split: list.splits if_splits)

lemma merge_deliver_advance:
  assumes "merge_deliver line event_at boundary d m = Inr (x, m')"
  obtains key where "merge_advance (m\<lparr>mm_previous_key := Some key,
    mm_pending_count := mm_pending_count m - 1, mm_consumed := mm_consumed m + 1\<rparr>) = Inr m'"
  using assms by (auto simp: merge_deliver_def split: if_splits)

lemma merge_deliver_size:
  assumes "mm_next m = Some d'" and "merge_deliver line event_at boundary d m = Inr (x, m')"
  shows "merge_size m' < merge_size m"
proof -
  obtain key where "merge_advance (m\<lparr>mm_previous_key := Some key,
    mm_pending_count := mm_pending_count m - 1, mm_consumed := mm_consumed m + 1\<rparr>) = Inr m'"
    using merge_deliver_advance[OF assms(2)] .
  from merge_advance_size[OF this] show ?thesis
    using assms(1) by (simp add: merge_size_def)
qed

function merge_pop_ready ::
  "boundary_timeline \<Rightarrow> (int \<Rightarrow> canonical_event res) \<Rightarrow> int \<Rightarrow> observation_merge \<Rightarrow>
     ((scheduler_key \<times> observation) list \<times> observation_merge) res" where
  "merge_pop_ready line event_at boundary m =
     (case mm_next m of
        None \<Rightarrow> Inr ([], m)
      | Some delivery \<Rightarrow>
          if boundary < od_release_boundary_ordinal delivery then Inr ([], m)
          else bindE (merge_deliver line event_at boundary delivery m) (\<lambda>(x, m').
            bindE (merge_pop_ready line event_at boundary m') (\<lambda>(xs, m''). Inr (x # xs, m''))))"
  by pat_completeness auto
termination
  by (relation "measure (\<lambda>(line, event_at, boundary, m). merge_size m)")
     (auto dest: merge_deliver_size)

declare merge_pop_ready.simps [simp del]

definition merge_finish :: "observation_merge \<Rightarrow> int \<Rightarrow> unit res" where
  "merge_finish m historical_event_count =
     (if historical_event_count \<noteq> dv_input_event_count (mm_source m) then
        Inl (EngineInvariantError ''materialized delivery input count differs from replay'')
      else if mm_next m \<noteq> None then
        Inl (EngineInvariantError ''materialized delivery remains beyond the replay horizon'')
      else if mm_consumed m \<noteq> dv_delivery_count (mm_source m) then
        Inl (EngineInvariantError ''materialized delivery stream ended at the wrong count'')
      else if mm_outside m \<noteq> dv_outside_horizon_count (mm_source m) then
        Inl (EngineInvariantError ''materialized outside-horizon count differs from replay'')
      else if mm_pending_count m \<noteq> 0 then
        Inl (EngineInvariantError ''materialized delivery stream omitted replay event rows'')
      else Inr ())"

section \<open>The recorder\<close>

definition fill_document :: "fill \<Rightarrow> json" where
  "fill_document f = JObj
     [(''amount_in_atomic'', JInt (fl_amount_in_atomic f)),
      (''amount_out_atomic'', JInt (fl_amount_out_atomic f)),
      (''boundary_ordinal'', JInt (fl_boundary_ordinal f)),
      (''bought_asset_id'', JStr (fl_bought_asset_id f)),
      (''fee_amount_atomic'', JInt (fl_fee_amount_atomic f)),
      (''order_id'', JStr (digest_hex (fl_order_id f))),
      (''pool_id'', JStr (fl_pool_id f)), (''sold_asset_id'', JStr (fl_sold_asset_id f))]"

text \<open>The sink is the list of records it was given.\<close>

record recorder =
  rd_audit :: stream_hasher
  rd_ledger :: stream_hasher
  rd_fills :: stream_hasher
  rd_audit_sink :: "json list"
  rd_ledger_sink :: "ledger_transaction list"
  rd_fill_sink :: "fill list"

definition Recorder :: "recorder res" where
  "Recorder =
     bindE (CanonicalStreamHasher ''backtest.canonical-audit-stream.v1'') (\<lambda>audit.
     bindE (CanonicalStreamHasher ''backtest.canonical-ledger-stream.v2'') (\<lambda>ledger.
     bindE (CanonicalStreamHasher ''backtest.canonical-fill-stream.v1'') (\<lambda>fills.
       Inr \<lparr>rd_audit = audit, rd_ledger = ledger, rd_fills = fills, rd_audit_sink = [],
            rd_ledger_sink = [], rd_fill_sink = []\<rparr>)))"

definition append_audit :: "recorder \<Rightarrow> json \<Rightarrow> recorder res" where
  "append_audit r document =
     bindE (stream_append (rd_audit r) document) (\<lambda>h.
       Inr (r\<lparr>rd_audit := h, rd_audit_sink := rd_audit_sink r @ [document]\<rparr>))"

definition append_ledger :: "recorder \<Rightarrow> ledger_transaction \<Rightarrow> recorder res" where
  "append_ledger r t =
     bindE (stream_append (rd_ledger r) (ledger_document t)) (\<lambda>h.
       Inr (r\<lparr>rd_ledger := h, rd_ledger_sink := rd_ledger_sink r @ [t]\<rparr>))"

definition append_fill :: "recorder \<Rightarrow> fill \<Rightarrow> recorder res" where
  "append_fill r f =
     bindE (stream_append (rd_fills r) (fill_document f)) (\<lambda>h.
       Inr (r\<lparr>rd_fills := h, rd_fill_sink := rd_fill_sink r @ [f]\<rparr>))"

section \<open>The timeline invariant and releases\<close>

definition timeline_inv :: "boundary_timeline \<Rightarrow> bool" where
  "timeline_inv line \<longleftrightarrow>
     bt_ordinals line = map rb_boundary_ordinal (bt_boundaries line)
     \<and> bt_blocks line = map rb_block_ordinal (bt_boundaries line)
     \<and> bt_index_by_ordinal line = zip (bt_ordinals line) [0..<length (bt_boundaries line)]
     \<and> sorted_wrt (<) (bt_ordinals line) \<and> sorted (bt_blocks line) \<and> bt_boundaries line \<noteq> []"

lemma any_pairwise_map: "any_pairwise (\<lambda>l r. p (f l) (f r)) xs \<longleftrightarrow> any_pairwise p (map f xs)"
  by (induction "\<lambda>l r. p (f l) (f r)" xs rule: any_pairwise.induct) auto

lemma BoundaryTimeline_inv:
  "BoundaryTimeline bs = Inr line \<Longrightarrow> timeline_inv line \<and> bt_boundaries line = bs"
  unfolding BoundaryTimeline_def any_pairwise_map[where f = rb_boundary_ordinal and p = "\<lambda>l r. r \<le> l"]
    any_pairwise_map[where f = rb_block_ordinal and p = "\<lambda>l r. r < l"]
  by (auto simp: timeline_inv_def split: if_splits simp flip: any_pairwise_strict any_pairwise_sorted)

lemma timeline_index_iff:
  assumes "timeline_inv line"
  shows "timeline_index line b = Inr i \<longleftrightarrow> i < length (bt_boundaries line) \<and> bt_ordinals line ! i = b"
proof -
  have d: "distinct (bt_ordinals line)" "length (bt_ordinals line) = length (bt_boundaries line)"
    "bt_index_by_ordinal line = zip (bt_ordinals line) [0..<length (bt_boundaries line)]"
    using assms by (auto simp: timeline_inv_def strict_sorted_iff)
  have "dict_get (bt_index_by_ordinal line) b = Some i \<longleftrightarrow> (b, i) \<in> set (bt_index_by_ordinal line)"
    unfolding d(3) using d(1,2) by (intro map_of_eq_Some_iff) simp
  also have "\<dots> \<longleftrightarrow> i < length (bt_boundaries line) \<and> bt_ordinals line ! i = b"
    unfolding d(3) using d(2) by (auto simp: set_zip)
  finally show ?thesis
    by (cases "dict_get (bt_index_by_ordinal line) b") (auto simp: timeline_index_def)
qed

lemma timeline_ordinal_less:
  assumes "timeline_inv line" and "i < length (bt_boundaries line)" and "j < length (bt_boundaries line)"
  shows "bt_ordinals line ! i < bt_ordinals line ! j \<longleftrightarrow> i < j"
  using assms sorted_wrt_nth_less[of "(<)" "bt_ordinals line" i j] sorted_wrt_nth_less[of "(<)" "bt_ordinals line" j i]
  by (cases i j rule: linorder_cases) (auto simp: timeline_inv_def)

text \<open>The earliest boundary that is eligible: no release means that none is.\<close>

definition earliest :: "replay_boundary list \<Rightarrow> (replay_boundary \<Rightarrow> bool) \<Rightarrow> int option \<Rightarrow> bool" where
  "earliest bs p r = (case r of
      None \<Rightarrow> list_all (\<lambda>x. \<not> p x) bs
    | Some v \<Rightarrow> list_ex (\<lambda>x. p x \<and> rb_boundary_ordinal x = v) bs
        \<and> list_all (\<lambda>y. p y \<longrightarrow> v \<le> rb_boundary_ordinal y) bs)"

lemma release_candidate:
  fixes target :: int
  assumes inv: "timeline_inv line"
  shows "earliest (bt_boundaries line)
      (\<lambda>x. (\<exists>j. lo \<le> j \<and> j < length (bt_boundaries line) \<and> rb_boundary_ordinal x = bt_ordinals line ! j)
        \<and> target \<le> rb_block_ordinal x)
      (if length (bt_boundaries line) \<le> max lo (bisect_left (bt_blocks line) target 0) then None
       else Some (bt_ordinals line ! max lo (bisect_left (bt_blocks line) target 0)))"
proof -
  let ?bs = "bt_boundaries line" and ?k = "bisect_left (bt_blocks line) target 0"
  have rows: "bt_ordinals line ! j = rb_boundary_ordinal (?bs ! j)" "bt_blocks line ! j = rb_block_ordinal (?bs ! j)"
    if "j < length ?bs" for j
    using inv that by (simp_all add: timeline_inv_def)
  have inj: "bt_ordinals line ! i = bt_ordinals line ! j \<longleftrightarrow> i = j" if "i < length ?bs" "j < length ?bs" for i j
    using timeline_ordinal_less[OF inv that] timeline_ordinal_less[OF inv that(2,1)] by (cases i j rule: linorder_cases) auto
  have b: "splits_at (\<lambda>y. target \<le> y) (bt_blocks line) 0 ?k"
    using inv by (intro bisect_left_spec) (auto simp: timeline_inv_def)
  have len: "length (bt_blocks line) = length ?bs"
    using inv by (simp add: timeline_inv_def)
  have elig: "(\<exists>j'. lo \<le> j' \<and> j' < length ?bs \<and> rb_boundary_ordinal (?bs ! j) = bt_ordinals line ! j')
      \<and> target \<le> rb_block_ordinal (?bs ! j) \<longleftrightarrow> max lo ?k \<le> j" if j: "j < length ?bs" for j
  proof -
    have "(\<exists>j'. lo \<le> j' \<and> j' < length ?bs \<and> rb_boundary_ordinal (?bs ! j) = bt_ordinals line ! j') \<longleftrightarrow> lo \<le> j"
      using rows(1)[OF j] inj[OF j] j by auto
    moreover have "target \<le> rb_block_ordinal (?bs ! j) \<longleftrightarrow> ?k \<le> j"
    proof
      assume "target \<le> rb_block_ordinal (?bs ! j)"
      then show "?k \<le> j" using b rows(2)[OF j] by (cases "j < ?k") (auto simp: splits_at_def)
    next
      assume "?k \<le> j"
      then have "target \<le> bt_blocks line ! j" using b j len by (simp add: splits_at_def)
      then show "target \<le> rb_block_ordinal (?bs ! j)" using rows(2)[OF j] by simp
    qed
    ultimately show ?thesis by simp
  qed
  have mono: "bt_ordinals line ! i \<le> bt_ordinals line ! j" if "i \<le> j" "j < length ?bs" for i j
    using timeline_ordinal_less[OF inv, of j i] that by force
  have "earliest ?bs p (if length ?bs \<le> k then None else Some (bt_ordinals line ! k))"
    if p: "\<And>j. j < length ?bs \<Longrightarrow> p (?bs ! j) \<longleftrightarrow> k \<le> j" for p k
    using p mono rows(1) unfolding earliest_def
    by (cases "length ?bs \<le> k") (auto simp: list_all_length list_ex_length not_le intro!: exI[of _ k])
  from this[OF elig] show ?thesis .
qed

lemma release_lo:
  assumes "timeline_inv line" and "timeline_index line b = Inr i" and "x \<in> set (bt_boundaries line)"
  shows "(\<exists>j. i \<le> j \<and> j < length (bt_boundaries line) \<and> rb_boundary_ordinal x = bt_ordinals line ! j)
      \<longleftrightarrow> b \<le> rb_boundary_ordinal x"
    and "(\<exists>j. i + 1 \<le> j \<and> j < length (bt_boundaries line) \<and> rb_boundary_ordinal x = bt_ordinals line ! j)
      \<longleftrightarrow> b < rb_boundary_ordinal x"
proof -
  note i = assms(2)[unfolded timeline_index_iff[OF assms(1)]]
  obtain k where k: "k < length (bt_boundaries line)" "rb_boundary_ordinal x = bt_ordinals line ! k"
    using assms(1,3) by (auto simp: timeline_inv_def in_set_conv_nth)
  have less: "b < bt_ordinals line ! j \<longleftrightarrow> i < j" "bt_ordinals line ! j < b \<longleftrightarrow> j < i"
    if "j < length (bt_boundaries line)" for j
    using timeline_ordinal_less[OF assms(1)] i that by auto
  show "(\<exists>j. i \<le> j \<and> j < length (bt_boundaries line) \<and> rb_boundary_ordinal x = bt_ordinals line ! j)
      \<longleftrightarrow> b \<le> rb_boundary_ordinal x"
    using less k by (metis not_le)
  show "(\<exists>j. i + 1 \<le> j \<and> j < length (bt_boundaries line) \<and> rb_boundary_ordinal x = bt_ordinals line ! j)
      \<longleftrightarrow> b < rb_boundary_ordinal x"
    using less k by (metis Suc_eq_plus1 Suc_le_eq)
qed

lemma earliest_cong:
  "(\<And>x. x \<in> set bs \<Longrightarrow> p x = q x) \<Longrightarrow> earliest bs p r = earliest bs q r"
  by (auto simp: earliest_def list_all_iff list_ex_iff split: option.split)

lemma observation_release_earliest:
  assumes "timeline_inv line" and "timeline_index line b = Inr i"
    and "observation_release line b delay = Inr r"
  shows "earliest (bt_boundaries line) (\<lambda>x. b \<le> rb_boundary_ordinal x
    \<and> bt_blocks line ! i + delay \<le> rb_block_ordinal x) r"
proof (rule iffD1[OF earliest_cong])
  show "earliest (bt_boundaries line)
      (\<lambda>x. (\<exists>j. i \<le> j \<and> j < length (bt_boundaries line) \<and> rb_boundary_ordinal x = bt_ordinals line ! j)
        \<and> bt_blocks line ! i + delay \<le> rb_block_ordinal x) r"
    using release_candidate[OF assms(1), of "i" "bt_blocks line ! i + delay"]
    unfolding assms(3)[unfolded observation_release_def assms(2) bindE_Inr Let_def sum.inject(2)] .
qed (use release_lo(1)[OF assms(1,2)] in simp)

lemma order_release_earliest:
  assumes "timeline_inv line" and "timeline_index line b = Inr i"
    and "order_release line b delay = Inr r"
  shows "earliest (bt_boundaries line) (\<lambda>x. b < rb_boundary_ordinal x
    \<and> bt_blocks line ! i + delay \<le> rb_block_ordinal x) r"
proof (rule iffD1[OF earliest_cong])
  show "earliest (bt_boundaries line)
      (\<lambda>x. (\<exists>j. i + 1 \<le> j \<and> j < length (bt_boundaries line) \<and> rb_boundary_ordinal x = bt_ordinals line ! j)
        \<and> bt_blocks line ! i + delay \<le> rb_block_ordinal x) r"
    using release_candidate[OF assms(1), of "i + 1" "bt_blocks line ! i + delay"]
    unfolding assms(3)[unfolded order_release_def assms(2) bindE_Inr Let_def sum.inject(2)] .
qed (use release_lo(2)[OF assms(1,2)] in simp)

lemma order_release_later:
  assumes "timeline_inv line" and "order_release line b delay = Inr (Some r)"
  shows "b < r"
proof -
  obtain i where i: "timeline_index line b = Inr i"
    using assms(2) by (auto simp: order_release_def)
  from order_release_earliest[OF assms(1) i assms(2)] show ?thesis
    by (auto simp: earliest_def list_ex_iff)
qed

lemma observation_release_not_before:
  assumes "timeline_inv line" and "observation_release line b delay = Inr (Some r)"
  shows "b \<le> r"
proof -
  obtain i where i: "timeline_index line b = Inr i"
    using assms(2) by (auto simp: observation_release_def)
  from observation_release_earliest[OF assms(1) i assms(2)] show ?thesis
    by (auto simp: earliest_def list_ex_iff)
qed

section \<open>Sample boundaries\<close>

definition sample_boundaries :: "replay_boundary list" where
  "sample_boundaries =
     [\<lparr>rb_network_id = ''n'', rb_position_schema_id = ''s'', rb_boundary_ordinal = 10, rb_block_ordinal = 1\<rparr>,
      \<lparr>rb_network_id = ''n'', rb_position_schema_id = ''s'', rb_boundary_ordinal = 20, rb_block_ordinal = 2\<rparr>,
      \<lparr>rb_network_id = ''n'', rb_position_schema_id = ''s'', rb_boundary_ordinal = 30, rb_block_ordinal = 4\<rparr>]"

section \<open>Properties\<close>

text \<open>C27: Releases are causal and as early as the latency allows: an order is released at the first real
  boundary strictly after its decision, and an observation at the first one at or after its source,
  whose block is at least the delay later; there is no release exactly when no boundary qualifies.\<close>

theorem releases_are_causal:
  assumes "BoundaryTimeline bs = Inr line" and "b \<in> set bs"
    and "order_release line (rb_boundary_ordinal b) delay = Inr r"
    and "observation_release line (rb_boundary_ordinal b) delay' = Inr r'"
  shows "earliest bs (\<lambda>x. rb_boundary_ordinal b < rb_boundary_ordinal x
           \<and> rb_block_ordinal b + delay \<le> rb_block_ordinal x) r
    \<and> earliest bs (\<lambda>x. rb_boundary_ordinal b \<le> rb_boundary_ordinal x
           \<and> rb_block_ordinal b + delay' \<le> rb_block_ordinal x) r'"
proof -
  have inv: "timeline_inv line" and bs: "bt_boundaries line = bs"
    using BoundaryTimeline_inv[OF assms(1)] by auto
  obtain i where i: "i < length bs" "bs ! i = b"
    using assms(2) by (auto simp: in_set_conv_nth)
  then have "timeline_index line (rb_boundary_ordinal b) = Inr i" and "bt_blocks line ! i = rb_block_ordinal b"
    unfolding timeline_index_iff[OF inv] using inv bs by (auto simp: timeline_inv_def)
  with order_release_earliest[OF inv _ assms(3)] observation_release_earliest[OF inv _ assms(4)] bs
  show ?thesis by auto
qed

theorem releases_are_causal_witness:
  "\<exists>line. BoundaryTimeline sample_boundaries = Inr line
     \<and> order_release line 10 2 = Inr (Some 30) \<and> observation_release line 10 0 = Inr (Some 10)
     \<and> earliest sample_boundaries (\<lambda>x. 10 < rb_boundary_ordinal x \<and> 3 \<le> rb_block_ordinal x) (Some 30)"
proof -
  obtain line where line: "BoundaryTimeline sample_boundaries = Inr line"
    by (simp add: BoundaryTimeline_def sample_boundaries_def rb_identity_def)
  then have parts: "timeline_index line 10 = Inr 0" "bt_blocks line = [1, 2, 4]" "bt_ordinals line = [10, 20, 30]"
    "length (bt_boundaries line) = 3"
    by (auto simp: BoundaryTimeline_def sample_boundaries_def rb_identity_def timeline_index_def)
  have r: "order_release line 10 2 = Inr (Some 30)" "observation_release line 10 0 = Inr (Some 10)"
    unfolding order_release_def observation_release_def parts bindE_Inr
    by (simp_all add: bisect_left_def bisect_left_loop_cases)
  have b: "hd sample_boundaries \<in> set sample_boundaries" "rb_boundary_ordinal (hd sample_boundaries) = 10"
    "rb_block_ordinal (hd sample_boundaries) = 1"
    by (simp_all add: sample_boundaries_def)
  from releases_are_causal[OF line b(1), of 2 "Some 30" 0 "Some 10"] r line b(2,3) show ?thesis by simp
qed

end
