(* ===== verification/Constant_Product.thy ===== *)
theory Constant_Product
  imports Venue_State
begin

text \<open>
  The constant-product reference venue (\<^verbatim>\<open>plugins/execution/constant_product.py\<close>) and the static
  risk policy (\<^verbatim>\<open>plugins/risk/static.py\<close>). The locale \<open>venue_execution\<close> is the contract of an
  execution model as the engine uses it: what the fills, the ledger postings and the transition of a
  returned plan are. The constant-product model is its instance.
\<close>

section \<open>The static risk policy\<close>

definition StaticRiskPolicy :: "int \<Rightarrow> int res" where
  "StaticRiskPolicy maximum_order_input =
     (if maximum_order_input \<le> 0 then Inl (ValueError ''maximum order input must be positive'')
      else Inr maximum_order_input)"

definition static_risk_accept :: "int \<Rightarrow> swap_intent \<Rightarrow> portfolio_state \<Rightarrow> bool res" where
  "static_risk_accept maximum_order_input i pf =
     (if in_amount_in_atomic i \<le> maximum_order_input then
        bindE (available pf (in_sold_asset_id i)) (\<lambda>v. Inr (in_amount_in_atomic i \<le> v))
      else Inr False)"

section \<open>The constant-product execution model\<close>

definition ConstantProductExecutionModel :: "int \<Rightarrow> int res" where
  "ConstantProductExecutionModel fee_bps =
     (if \<not> (0 \<le> fee_bps \<and> fee_bps < 10000) then
        Inl (ValueError ''fee_bps must be in [0, 10000)'')
      else Inr fee_bps)"

text \<open>The reserves as the intent sees them: (in, out, sold asset is A).\<close>

definition pool_orientation :: "swap_intent \<Rightarrow> pool_snapshot \<Rightarrow> (int \<times> int \<times> bool) res" where
  "pool_orientation i pool =
     (if (in_sold_asset_id i, in_bought_asset_id i) = (ps_asset_a_id pool, ps_asset_b_id pool) then
        Inr (ps_reserve_a pool, ps_reserve_b pool, True)
      else if (in_sold_asset_id i, in_bought_asset_id i) = (ps_asset_b_id pool, ps_asset_a_id pool) then
        Inr (ps_reserve_b pool, ps_reserve_a pool, False)
      else Inl (make_execution_rejected ''POOL_ASSET_MISMATCH''))"

definition swap_fee :: "int \<Rightarrow> int \<Rightarrow> int" where
  "swap_fee fee_bps amount_in = amount_in * fee_bps div 10000"

definition swap_output :: "int \<Rightarrow> int \<Rightarrow> int \<Rightarrow> int" where
  "swap_output reserve_in reserve_out effective =
     reserve_out * effective div (reserve_in + effective)"

definition swap_postings :: "swap_intent \<Rightarrow> int \<Rightarrow> int \<Rightarrow> int \<Rightarrow> posting list res" where
  "swap_postings i fee effective amount_out =
     bindE (Identifier (''venue:'' @ in_pool_id i)) (\<lambda>venue_id.
     let venue_account = LedgerAccount venue_id VENUE in
     bindE (reserved_account_id (in_sold_asset_id i)) (\<lambda>reserved_id.
     bindE (Posting (LedgerAccount reserved_id PORTFOLIO_RESERVED) (in_sold_asset_id i)
              (- in_amount_in_atomic i)) (\<lambda>p1.
     bindE (Posting venue_account (in_sold_asset_id i) effective) (\<lambda>p2.
     bindE (Posting venue_account (in_bought_asset_id i) (- amount_out)) (\<lambda>p3.
     bindE (available_account_id (in_bought_asset_id i)) (\<lambda>available_id.
     bindE (Posting (LedgerAccount available_id PORTFOLIO_AVAILABLE) (in_bought_asset_id i)
              amount_out) (\<lambda>p4.
     if fee \<noteq> 0 then
       bindE (Identifier (''protocol-fee:'' @ in_pool_id i)) (\<lambda>fee_id.
       bindE (Posting (LedgerAccount fee_id PROTOCOL_FEE) (in_sold_asset_id i) fee) (\<lambda>p5.
         Inr [p1, p2, p3, p4, p5]))
     else Inr [p1, p2, p3, p4])))))))"

definition constant_product_execute ::
  "int \<Rightarrow> swap_intent \<Rightarrow> venue_state \<Rightarrow> int \<Rightarrow> execution_mode \<Rightarrow> execution_plan res" where
  "constant_product_execute fee_bps i venue boundary mode =
     (case venue_pool venue (in_pool_id i) of
        None \<Rightarrow> Inl (make_execution_rejected ''UNKNOWN_POOL'')
      | Some pool \<Rightarrow>
          bindE (pool_orientation i pool) (\<lambda>(reserve_in, reserve_out, sold_is_a).
          if reserve_in \<le> 0 \<or> reserve_out \<le> 0 then Inl (make_execution_rejected ''EMPTY_POOL'')
          else
            (let fee = swap_fee fee_bps (in_amount_in_atomic i);
                 effective = in_amount_in_atomic i - fee;
                 amount_out = swap_output reserve_in reserve_out effective in
             if amount_out \<le> 0 \<or> reserve_out \<le> amount_out then
               Inl (make_execution_rejected ''OUTPUT_OUT_OF_BOUNDS'')
             else if amount_out < in_minimum_amount_out_atomic i then
               Inl (make_execution_rejected ''MINIMUM_OUTPUT_NOT_MET'')
             else
               (let next_in = reserve_in + effective; next_out = reserve_out - amount_out;
                    (reserve_a, reserve_b) = (if sold_is_a then (next_in, next_out) else (next_out, next_in))
                in
                bindE (if mode = EXOGENOUS_REPLAY then Inr None
                       else bindE (VenueTransition (in_pool_id i) reserve_a reserve_b) (\<lambda>t. Inr (Some t)))
                  (\<lambda>transition.
                bindE (Fill \<lparr>fl_order_id = in_order_id i, fl_pool_id = in_pool_id i,
                    fl_sold_asset_id = in_sold_asset_id i, fl_bought_asset_id = in_bought_asset_id i,
                    fl_amount_in_atomic = in_amount_in_atomic i, fl_amount_out_atomic = amount_out,
                    fl_fee_amount_atomic = fee, fl_boundary_ordinal = boundary\<rparr>) (\<lambda>f.
                bindE (swap_postings i fee effective amount_out) (\<lambda>postings.
                ExecutionPlan \<lparr>ep_transition = transition, ep_fills = [f],
                  ep_ledger_postings = postings, ep_reports = [''FILLED'']\<rparr>)))))))"

section \<open>The contract of an execution model\<close>

text \<open>
  What a plan's postings must do to the portfolio: conserve every asset, take exactly the reserved
  input of the order out of the reserved account of the sold asset, touch no other portfolio account
  than available ones, and only credit those.
\<close>

definition settles :: "swap_intent \<Rightarrow> posting list \<Rightarrow> bool" where
  "settles i ps \<longleftrightarrow>
     (\<forall>a. posting_sum ps a = 0)
     \<and> (\<forall>p \<in> set ps. is_portfolio_kind (la_kind (po_account p)) \<longrightarrow>
          (la_kind (po_account p) = PORTFOLIO_RESERVED
             \<and> reserved_account_id (in_sold_asset_id i) = Inr (la_account_id (po_account p))
             \<and> po_asset_id p = in_sold_asset_id i)
          \<or> (la_kind (po_account p) = PORTFOLIO_AVAILABLE
             \<and> available_account_id (po_asset_id p) = Inr (la_account_id (po_account p))
             \<and> 0 < po_amount_atomic p))
     \<and> (\<forall>p \<in> set ps. \<not> is_portfolio_kind (la_kind (po_account p)) \<longrightarrow>
          (\<forall>b. reserved_account_id b \<noteq> Inr (la_account_id (po_account p))))
     \<and> (\<forall>r. reserved_account_id (in_sold_asset_id i) = Inr r \<longrightarrow>
          posting_net ps r (in_sold_asset_id i) = - in_amount_in_atomic i)"

definition plan_ok :: "swap_intent \<Rightarrow> int \<Rightarrow> execution_mode \<Rightarrow> execution_plan \<Rightarrow> bool" where
  "plan_ok i boundary mode p \<longleftrightarrow>
     ep_fills p \<noteq> []
     \<and> list_all (\<lambda>f. fl_order_id f = in_order_id i \<and> fl_boundary_ordinal f = boundary) (ep_fills p)
     \<and> sum_list (map fl_amount_in_atomic (ep_fills p)) = in_amount_in_atomic i
     \<and> (ep_transition p = None \<longleftrightarrow> mode = EXOGENOUS_REPLAY)
     \<and> settles i (ep_ledger_postings p)"

locale venue_execution =
  fixes execute :: "swap_intent \<Rightarrow> venue_state \<Rightarrow> int \<Rightarrow> execution_mode \<Rightarrow> exn + execution_plan"
  assumes execute_ok: "SwapExactInIntent i = Inr i \<Longrightarrow> pools_ok (vs_pools v) \<Longrightarrow>
      execute i v boundary mode = Inr p \<Longrightarrow> plan_ok i boundary mode p"
begin

lemma settles_plan:
  "SwapExactInIntent i = Inr i \<Longrightarrow> pools_ok (vs_pools v) \<Longrightarrow> execute i v boundary mode = Inr p \<Longrightarrow>
     settles i (ep_ledger_postings p)"
  using execute_ok by (simp add: plan_ok_def)

end

section \<open>Lemmas\<close>

lemma swap_fee_bounds:
  assumes "0 \<le> fee_bps" "fee_bps < 10000" "0 < amount"
  shows "0 \<le> swap_fee fee_bps amount" and "swap_fee fee_bps amount < amount"
proof -
  show "0 \<le> swap_fee fee_bps amount"
    using assms by (simp add: swap_fee_def pos_imp_zdiv_nonneg_iff)
  have "amount * fee_bps < amount * 10000"
    using assms by simp
  with floor_div_le[of 10000 "amount * fee_bps"] show "swap_fee fee_bps amount < amount"
    unfolding swap_fee_def by linarith
qed

text \<open>Flooring the output leaves the product of the reserves no smaller.\<close>

lemma swap_output_product:
  assumes "0 < x" "0 < y" "0 \<le> e"
  shows "x * y \<le> (x + e) * (y - swap_output x y e)"
    and "swap_output x y e < y"
    and "0 \<le> swap_output x y e"
proof -
  let ?q = "swap_output x y e"
  have pos: "0 < x + e" using assms by simp
  have floor: "?q * (x + e) \<le> y * e"
    unfolding swap_output_def using pos by (rule floor_div_le)
  have "(x + e) * (y - ?q) = x * y + (y * e - ?q * (x + e))"
    by (simp add: algebra_simps)
  with floor show "x * y \<le> (x + e) * (y - ?q)" by simp
  show "0 \<le> ?q"
    unfolding swap_output_def using assms pos by (simp add: pos_imp_zdiv_nonneg_iff)
  have "y * e < y * (x + e)" using assms by simp
  then have "?q * (x + e) < y * (x + e)" using floor by simp
  then show "?q < y" using pos by simp
qed

lemma Posting_Inr:
  "Posting account asset amount = Inr p \<longleftrightarrow> amount \<noteq> 0 \<and>
     p = \<lparr>po_account = account, po_asset_id = asset, po_amount_atomic = amount\<rparr>"
  by (auto simp: Posting_def)

lemma venue_ids_distinct:
  "Identifier (''venue:'' @ p) = Inr v \<Longrightarrow> reserved_account_id b \<noteq> Inr v"
  "Identifier (''protocol-fee:'' @ p) = Inr w \<Longrightarrow> reserved_account_id b \<noteq> Inr w"
  by (auto simp: reserved_account_id_def dest!: Identifier_Inr)

lemma swap_postings_settle:
  assumes "swap_postings i fee effective amount_out = Inr ps"
    and "in_sold_asset_id i \<noteq> in_bought_asset_id i" and "fee + effective = in_amount_in_atomic i"
    and "0 < amount_out"
  shows "settles i ps" and "4 \<le> length ps"
proof -
  obtain v r av where ids: "Identifier (''venue:'' @ in_pool_id i) = Inr v"
    "reserved_account_id (in_sold_asset_id i) = Inr r" "available_account_id (in_bought_asset_id i) = Inr av"
    using assms(1) by (auto simp: swap_postings_def Let_def)
  define base where "base =
    [\<lparr>po_account = \<lparr>la_account_id = r, la_kind = PORTFOLIO_RESERVED\<rparr>, po_asset_id = in_sold_asset_id i,
      po_amount_atomic = - in_amount_in_atomic i\<rparr>,
     \<lparr>po_account = \<lparr>la_account_id = v, la_kind = VENUE\<rparr>, po_asset_id = in_sold_asset_id i,
      po_amount_atomic = effective\<rparr>,
     \<lparr>po_account = \<lparr>la_account_id = v, la_kind = VENUE\<rparr>, po_asset_id = in_bought_asset_id i,
      po_amount_atomic = - amount_out\<rparr>,
     \<lparr>po_account = \<lparr>la_account_id = av, la_kind = PORTFOLIO_AVAILABLE\<rparr>, po_asset_id = in_bought_asset_id i,
      po_amount_atomic = amount_out\<rparr>]"
  have distinct: "v \<noteq> r" "av \<noteq> r" "reserved_account_id b \<noteq> Inr v" for b
    using venue_ids_distinct(1)[OF ids(1)] ids(2) available_reserved_distinct[OF ids(3) ids(2)] by auto
  consider (free) "fee = 0" "ps = base"
    | (fee) w where "fee \<noteq> 0" "Identifier (''protocol-fee:'' @ in_pool_id i) = Inr w"
        "ps = base @ [\<lparr>po_account = \<lparr>la_account_id = w, la_kind = PROTOCOL_FEE\<rparr>,
           po_asset_id = in_sold_asset_id i, po_amount_atomic = fee\<rparr>]"
    using assms(1) ids
    by (auto simp: swap_postings_def Let_def Posting_Inr LedgerAccount_def base_def split: if_splits)
  then have "settles i ps \<and> 4 \<le> length ps"
  proof cases
    case free
    then show ?thesis
      using assms(2-4) ids distinct unfolding settles_def
      by (auto simp: base_def is_portfolio_kind_def)
  next
    case fee
    have "w \<noteq> r" "reserved_account_id b \<noteq> Inr w" for b
      using venue_ids_distinct(2)[OF fee(2)] ids(2) by auto
    with fee show ?thesis
      using assms(2-4) ids distinct unfolding settles_def
      by (auto simp: base_def is_portfolio_kind_def)
  qed
  then show "settles i ps" "4 \<le> length ps" by auto
qed

text \<open>What a returned plan is made of.\<close>

lemma constant_product_plan:
  assumes "constant_product_execute fee_bps i v boundary mode = Inr p"
  obtains pool x y a_sold fee out ps f where
    "venue_pool v (in_pool_id i) = Some pool" and "pool_orientation i pool = Inr (x, y, a_sold)"
    and "0 < x" and "0 < y" and "fee = swap_fee fee_bps (in_amount_in_atomic i)"
    and "out = swap_output x y (in_amount_in_atomic i - fee)" and "0 < out" and "out < y"
    and "in_minimum_amount_out_atomic i \<le> out"
    and "swap_postings i fee (in_amount_in_atomic i - fee) out = Inr ps"
    and "Fill f = Inr f" and "fl_order_id f = in_order_id i" and "fl_boundary_ordinal f = boundary"
    and "fl_amount_in_atomic f = in_amount_in_atomic i" and "fl_amount_out_atomic f = out"
    and "p = \<lparr>ep_transition = (if mode = EXOGENOUS_REPLAY then None else Some
          (if a_sold then \<lparr>vr_pool_id = in_pool_id i, vr_reserve_a_after = x + (in_amount_in_atomic i - fee),
              vr_reserve_b_after = y - out\<rparr>
           else \<lparr>vr_pool_id = in_pool_id i, vr_reserve_a_after = y - out,
              vr_reserve_b_after = x + (in_amount_in_atomic i - fee)\<rparr>)),
        ep_fills = [f], ep_ledger_postings = ps, ep_reports = [''FILLED'']\<rparr>"
proof -
  obtain pool where pool: "venue_pool v (in_pool_id i) = Some pool"
    using assms by (auto simp: constant_product_execute_def split: option.splits)
  obtain x y a_sold where o: "pool_orientation i pool = Inr (x, y, a_sold)"
    using assms pool by (auto simp: constant_product_execute_def)
  let ?fee = "swap_fee fee_bps (in_amount_in_atomic i)"
  let ?e = "in_amount_in_atomic i - ?fee"
  let ?out = "swap_output x y ?e"
  let ?f = "\<lparr>fl_order_id = in_order_id i, fl_pool_id = in_pool_id i,
                    fl_sold_asset_id = in_sold_asset_id i, fl_bought_asset_id = in_bought_asset_id i,
                    fl_amount_in_atomic = in_amount_in_atomic i, fl_amount_out_atomic = ?out,
                    fl_fee_amount_atomic = ?fee, fl_boundary_ordinal = boundary\<rparr>"
  let ?t = "if a_sold then \<lparr>vr_pool_id = in_pool_id i, vr_reserve_a_after = x + ?e, vr_reserve_b_after = y - ?out\<rparr>
     else \<lparr>vr_pool_id = in_pool_id i, vr_reserve_a_after = y - ?out, vr_reserve_b_after = x + ?e\<rparr>"
  note run = assms[unfolded constant_product_execute_def pool option.case o bindE_Inr prod.case Let_def]
  have g: "0 < x" "0 < y" "0 < ?out" "?out < y" "in_minimum_amount_out_atomic i \<le> ?out"
    using run by (simp_all split: if_splits)
  obtain ps t where ps: "swap_postings i ?fee ?e ?out = Inr ps" "Fill ?f = Inr ?f"
    "p = \<lparr>ep_transition = t, ep_fills = [?f], ep_ledger_postings = ps, ep_reports = [''FILLED'']\<rparr>"
    "t = (if mode = EXOGENOUS_REPLAY then None else Some ?t)"
    using run g
    by (cases a_sold) (auto simp: ExecutionPlan_def VenueTransition_def Fill_def split: if_splits)
  show thesis
    by (rule that[OF pool o g(1,2) refl refl g(3,4,5) ps(1) ps(2)]) (simp_all add: ps(3,4))
qed

lemma constant_product_plan_ok:
  assumes "0 \<le> fee_bps" "fee_bps < 10000" and "SwapExactInIntent i = Inr i"
    and "constant_product_execute fee_bps i v boundary mode = Inr p"
  shows "plan_ok i boundary mode p"
proof (rule constant_product_plan[OF assms(4)])
  fix pool x y a_sold fee out ps f
  assume ps: "swap_postings i fee (in_amount_in_atomic i - fee) out = Inr ps" and "0 < out"
    and f: "fl_order_id f = in_order_id i" "fl_boundary_ordinal f = boundary"
      "fl_amount_in_atomic f = in_amount_in_atomic i"
    and p: "p = \<lparr>ep_transition = (if mode = EXOGENOUS_REPLAY then None else Some
          (if a_sold then \<lparr>vr_pool_id = in_pool_id i, vr_reserve_a_after = x + (in_amount_in_atomic i - fee),
              vr_reserve_b_after = y - out\<rparr>
           else \<lparr>vr_pool_id = in_pool_id i, vr_reserve_a_after = y - out,
              vr_reserve_b_after = x + (in_amount_in_atomic i - fee)\<rparr>)),
        ep_fills = [f], ep_ledger_postings = ps, ep_reports = [''FILLED'']\<rparr>"
  have "in_sold_asset_id i \<noteq> in_bought_asset_id i"
    using assms(3) by (auto simp: SwapExactInIntent_def split: if_splits)
  then have "settles i ps"
    using swap_postings_settle(1)[OF ps _ _ \<open>0 < out\<close>] by simp
  then show ?thesis
    using f by (simp add: plan_ok_def p)
qed

text \<open>Construction of the model followed by its use, as the engine's caller does it.\<close>

definition constant_product_model ::
  "int \<Rightarrow> swap_intent \<Rightarrow> venue_state \<Rightarrow> int \<Rightarrow> execution_mode \<Rightarrow> execution_plan res" where
  "constant_product_model fee_bps i v boundary mode =
     bindE (ConstantProductExecutionModel fee_bps) (\<lambda>fee.
       constant_product_execute fee i v boundary mode)"

interpretation constant_product: venue_execution "constant_product_model fee_bps" for fee_bps
  by unfold_locales
     (auto simp: constant_product_model_def ConstantProductExecutionModel_def constant_product_plan_ok
        split: if_splits)

section \<open>A sample order\<close>

definition sample_intent :: swap_intent where
  "sample_intent = \<lparr>in_order_id = ''o'', in_pool_id = ''P'', in_sold_asset_id = ''A'',
     in_bought_asset_id = ''B'', in_amount_in_atomic = 100, in_minimum_amount_out_atomic = 150,
     in_created_boundary_ordinal = 3\<rparr>"

definition sample_deep_pool :: pool_snapshot where
  "sample_deep_pool = \<lparr>ps_pool_id = ''P'', ps_asset_a_id = ''A'', ps_asset_b_id = ''B'',
     ps_reserve_a = 1000, ps_reserve_b = 2000, ps_boundary_ordinal = 1\<rparr>"

definition sample_venue :: venue_state where
  "sample_venue = \<lparr>vs_mode = SHADOW_STATE_REPLAY, vs_pools = [(''P'', sample_deep_pool)]\<rparr>"

lemma sample_execution:
  "\<exists>p. constant_product_execute 30 sample_intent sample_venue 9 SHADOW_STATE_REPLAY = Inr p"
  by (simp add: constant_product_execute_def sample_venue_def sample_intent_def sample_deep_pool_def
      venue_pool_def pool_orientation_def swap_fee_def swap_output_def swap_postings_def Posting_def
      VenueTransition_def Fill_def ExecutionPlan_def Let_def Identifier_def strip_def is_space_def
      char_code_def available_account_id_def reserved_account_id_def)

section \<open>Properties\<close>

text \<open>C16: Every plan the constant-product model returns keeps the engine's contract: one fill of the whole
  order at the current boundary, a transition exactly outside exogenous replay, and postings that
  conserve every asset, take exactly the order's input out of the reserved account of the sold asset
  and otherwise only credit available accounts.\<close>

theorem constant_product_contract:
  assumes "ConstantProductExecutionModel fee_bps = Inr fee" and "SwapExactInIntent i = Inr i"
    and "constant_product_execute fee i v boundary mode = Inr p"
  shows "plan_ok i boundary mode p"
  by (rule constant_product_plan_ok[OF _ _ assms(2,3)])
     (use assms(1) in \<open>auto simp: ConstantProductExecutionModel_def split: if_splits\<close>)

theorem constant_product_contract_witness:
  "\<exists>p. constant_product_execute 30 sample_intent sample_venue 9 SHADOW_STATE_REPLAY = Inr p
     \<and> plan_ok sample_intent 9 SHADOW_STATE_REPLAY p"
proof -
  obtain p where p: "constant_product_execute 30 sample_intent sample_venue 9 SHADOW_STATE_REPLAY = Inr p"
    using sample_execution by blast
  have "ConstantProductExecutionModel 30 = Inr 30" "SwapExactInIntent sample_intent = Inr sample_intent"
    by (simp_all add: ConstantProductExecutionModel_def SwapExactInIntent_def sample_intent_def)
  from constant_product_contract[OF this p] p show ?thesis by blast
qed

text \<open>Outside exogenous replay a filled order never lets value out of the pool: the product of the
  reserves does not decrease, both reserves stay positive, the buyer receives at least the minimum and
  strictly less than the pool holds, and the simulated venue accepts the transition.\<close>

theorem constant_product_reserves:
  assumes "ConstantProductExecutionModel fee_bps = Inr fee" and "SwapExactInIntent i = Inr i"
    and "pools_ok (vs_pools v)" and "venue_pool v (in_pool_id i) = Some s"
    and "mode \<noteq> EXOGENOUS_REPLAY" and "constant_product_execute fee i v boundary mode = Inr p"
  shows "\<exists>t f. ep_transition p = Some t \<and> ep_fills p = [f]
    \<and> ps_reserve_a s * ps_reserve_b s \<le> vr_reserve_a_after t * vr_reserve_b_after t
    \<and> 0 < vr_reserve_a_after t \<and> 0 < vr_reserve_b_after t
    \<and> in_minimum_amount_out_atomic i \<le> fl_amount_out_atomic f
    \<and> fl_amount_out_atomic f < max (ps_reserve_a s) (ps_reserve_b s)
    \<and> (\<exists>v'. apply_transition v t = Inr v')"
proof (rule constant_product_plan[OF assms(6)])
  fix pool x y a_sold f_amount out ps f
  assume pool: "venue_pool v (in_pool_id i) = Some pool" and o: "pool_orientation i pool = Inr (x, y, a_sold)"
    and x: "0 < x" "0 < y" and fa: "f_amount = swap_fee fee (in_amount_in_atomic i)"
    and out: "out = swap_output x y (in_amount_in_atomic i - f_amount)" "0 < out" "out < y"
      "in_minimum_amount_out_atomic i \<le> out"
    and f: "fl_amount_out_atomic f = out"
    and p: "p = \<lparr>ep_transition = (if mode = EXOGENOUS_REPLAY then None else Some
          (if a_sold then \<lparr>vr_pool_id = in_pool_id i, vr_reserve_a_after = x + (in_amount_in_atomic i - f_amount),
              vr_reserve_b_after = y - out\<rparr>
           else \<lparr>vr_pool_id = in_pool_id i, vr_reserve_a_after = y - out,
              vr_reserve_b_after = x + (in_amount_in_atomic i - f_amount)\<rparr>)),
        ep_fills = [f], ep_ledger_postings = ps, ep_reports = [''FILLED'']\<rparr>"
  have fee: "0 \<le> fee" "fee < 10000"
    using assms(1) by (auto simp: ConstantProductExecutionModel_def split: if_splits)
  have amount: "0 < in_amount_in_atomic i"
    using assms(2) by (auto simp: SwapExactInIntent_def split: if_splits)
  have e: "0 < in_amount_in_atomic i - f_amount"
    using swap_fee_bounds[OF fee amount] by (simp add: fa)
  have prod: "x * y \<le> (x + (in_amount_in_atomic i - f_amount)) * (y - out)"
    using swap_output_product(1)[OF x] e out(1) by simp
  have s: "s = pool" "pool_ok (in_pool_id i) pool"
    using assms(3,4) pool by (auto simp: pools_ok_def venue_pool_def)
  have orient: "if a_sold then x = ps_reserve_a pool \<and> y = ps_reserve_b pool
      else x = ps_reserve_b pool \<and> y = ps_reserve_a pool"
    using o by (auto simp: pool_orientation_def split: if_splits)
  have accepted: "\<exists>v'. apply_transition v t = Inr v'"
    if "vr_pool_id t = in_pool_id i" "0 < vr_reserve_a_after t" "0 < vr_reserve_b_after t" for t
    using that pool s(2) by (auto simp: apply_transition_def preview_transition_def PoolSnapshot_def pool_ok_def)
  show ?thesis
    using assms(5) orient prod x e out f accepted
    by (cases a_sold) (auto simp: p s(1) mult.commute)
qed

theorem constant_product_reserves_witness:
  "\<exists>p t. constant_product_execute 30 sample_intent sample_venue 9 SHADOW_STATE_REPLAY = Inr p
     \<and> ep_transition p = Some t \<and> 1000 * 2000 \<le> vr_reserve_a_after t * vr_reserve_b_after t"
proof -
  obtain p where p: "constant_product_execute 30 sample_intent sample_venue 9 SHADOW_STATE_REPLAY = Inr p"
    using sample_execution by blast
  have m: "ConstantProductExecutionModel 30 = Inr 30" "SwapExactInIntent sample_intent = Inr sample_intent"
    by (simp_all add: ConstantProductExecutionModel_def SwapExactInIntent_def sample_intent_def)
  have v: "pools_ok (vs_pools sample_venue)" "venue_pool sample_venue (in_pool_id sample_intent) = Some sample_deep_pool"
    by (simp_all add: sample_venue_def sample_deep_pool_def sample_intent_def venue_pool_def pools_ok_def pool_ok_def)
  from constant_product_reserves[OF m v _ p] p show ?thesis
    by (auto simp: sample_deep_pool_def)
qed

end
