(* ===== verification/Reference_Engine.thy ===== *)
theory Reference_Engine
  imports Replay_Timeline Constant_Product
begin

text \<open>
  The reference backtest reducer (\<^verbatim>\<open>engine/reference.py\<close>). \<^verbatim>\<open>ReferenceBacktestEngine.run\<close> is one long
  loop over transaction groups; here its mutable locals are one state record, each scheduler phase is
  one function on that record, and the loop is the fold of their composition. Strategy, risk policy
  and execution model are parameters (functions that may raise); a strategy carries its own state.
  The market and portfolio views handed to a strategy are the reading functions of the live states.
\<close>

section \<open>Configuration\<close>

datatype intent = Swap_Intent swap_intent | Round_Trip_Intent roundtrip_intent

record run_config =
  rc_execution_mode :: execution_mode
  rc_latency :: slot_latency
  rc_root_seed :: int
  rc_initial_available :: "(asset_id, int) dict"
  rc_maximum_dynamic_items :: int
  rc_engine_bundle_id :: digest

definition ReferenceRunConfig :: "run_config \<Rightarrow> run_config res" where
  "ReferenceRunConfig c =
     bindE (KeyedRng (rc_root_seed c)) (\<lambda>_.
       if rc_execution_mode c \<noteq> EXOGENOUS_REPLAY \<and> rc_execution_mode c \<noteq> SHADOW_STATE_REPLAY then
         Inl (ValueError ''reference FirstSwap engine execution mode is unsupported'')
       else if rc_maximum_dynamic_items c \<le> 0 then
         Inl (ValueError ''maximum_dynamic_items must be positive'')
       else Inr c)"

section \<open>Plugin interfaces\<close>

record portfolio_view =
  pv_available :: "asset_id \<Rightarrow> int res"
  pv_reserved :: "asset_id \<Rightarrow> int res"

definition PortfolioView :: "portfolio_state \<Rightarrow> portfolio_view" where
  "PortfolioView pf = \<lparr>pv_available = available pf, pv_reserved = reserved pf\<rparr>"

record market_view =
  mv_pool :: "pool_id \<Rightarrow> pool_snapshot option"
  mv_knows_asset :: "asset_id \<Rightarrow> bool"

definition ObservedMarketView :: "observed_state \<Rightarrow> market_view" where
  "ObservedMarketView st = \<lparr>mv_pool = observed_pool st, mv_knows_asset = knows_asset st\<rparr>"

record strategy_context =
  sc_instant :: scheduler_instant
  sc_observed_market :: market_view
  sc_portfolio :: portfolio_view
  sc_rng :: int
  sc_features :: causal_scalar_view
  sc_predictions :: causal_scalar_view
  sc_event_row_id :: "int option"

definition StrategyContext :: "strategy_context \<Rightarrow> strategy_context res" where
  "StrategyContext c =
     (if (case sc_event_row_id c of None \<Rightarrow> False | Some r \<Rightarrow> r < 0) then
        Inl (ValueError ''strategy event row ID must be non-negative'')
      else Inr c)"

text \<open>The parameters of one run; \<open>'s\<close> is the strategy's own state.\<close>

record 's run_env =
  ev_sha :: "bytes \<Rightarrow> string"
  ev_on_event :: "'s \<Rightarrow> canonical_event \<Rightarrow> strategy_context \<Rightarrow> (intent list \<times> 's) res"
  ev_on_execution :: "'s \<Rightarrow> execution_notification \<Rightarrow> strategy_context \<Rightarrow> 's res"
  ev_execute :: "swap_intent \<Rightarrow> venue_state \<Rightarrow> int \<Rightarrow> execution_mode \<Rightarrow> execution_plan res"
  ev_accept :: "swap_intent \<Rightarrow> portfolio_view \<Rightarrow> bool res"
  ev_config :: run_config
  ev_features :: "string \<Rightarrow> int \<Rightarrow> int \<Rightarrow> int option res"
  ev_predictions :: "string \<Rightarrow> int \<Rightarrow> int \<Rightarrow> int option res"
  ev_event_at :: "int \<Rightarrow> canonical_event res"
  ev_timeline :: boundary_timeline
  ev_rng :: int

section \<open>The reducer's state\<close>

record 's engine_state =
  es_historical :: historical_state
  es_observed :: observed_state
  es_venue :: venue_state
  es_portfolio :: portfolio_state
  es_strategy :: 's
  es_recorder :: recorder
  es_observations :: "observation causal_scheduler"
  es_materialized :: "observation_merge option"
  es_orders :: "swap_intent causal_scheduler"
  es_seen_orders :: "order_id set"
  es_terminal_orders :: "order_id set"
  es_group_count :: nat
  es_event_count :: nat
  es_delivered_count :: nat
  es_accepted_count :: nat
  es_rejected_count :: nat
  es_filled_order_count :: nat
  es_failed_order_count :: nat
  es_previous_sort_key :: "(string \<times> string \<times> int \<times> string \<times> int \<times> string) option"
  es_previous_group_boundary :: "int option"
  es_event_row_index :: int

definition record_audit :: "'s engine_state \<Rightarrow> (string \<times> json) list \<Rightarrow> 's engine_state res" where
  "record_audit st members =
     bindE (append_audit (es_recorder st) (JObj members)) (\<lambda>r. Inr (st\<lparr>es_recorder := r\<rparr>))"

definition record_ledger :: "'s engine_state \<Rightarrow> ledger_transaction \<Rightarrow> 's engine_state res" where
  "record_ledger st t =
     bindE (append_ledger (es_recorder st) t) (\<lambda>r. Inr (st\<lparr>es_recorder := r\<rparr>))"

definition record_fill :: "'s engine_state \<Rightarrow> fill \<Rightarrow> 's engine_state res" where
  "record_fill st f =
     bindE (append_fill (es_recorder st) f) (\<lambda>r. Inr (st\<lparr>es_recorder := r\<rparr>))"

definition phase_member :: "scheduler_phase \<Rightarrow> string \<times> json" where
  "phase_member p = (''phase'', JInt (phase_value p))"

section \<open>Ledger transactions of an order\<close>

definition order_causal_digest :: "order_id \<Rightarrow> digest res" where
  "order_causal_digest order = ContentDigest (digest_hex order)"

definition reservation_transaction ::
  "(bytes \<Rightarrow> string) \<Rightarrow> swap_intent \<Rightarrow> int \<Rightarrow> ledger_transaction res" where
  "reservation_transaction sha i boundary =
     bindE (available_account_id (in_sold_asset_id i)) (\<lambda>av.
     bindE (Posting (LedgerAccount av PORTFOLIO_AVAILABLE) (in_sold_asset_id i)
              (- in_amount_in_atomic i)) (\<lambda>p1.
     bindE (reserved_account_id (in_sold_asset_id i)) (\<lambda>rs.
     bindE (Posting (LedgerAccount rs PORTFOLIO_RESERVED) (in_sold_asset_id i)
              (in_amount_in_atomic i)) (\<lambda>p2.
     bindE (domain_digest sha ''backtest.ledger-reservation.v1'' (JObj
        [(''amount_atomic'', JInt (in_amount_in_atomic i)), (''asset_id'', JStr (in_sold_asset_id i)),
         (''boundary_ordinal'', JInt boundary), (''order_id'', JStr (digest_hex (in_order_id i)))])) (\<lambda>d.
     bindE (order_causal_digest (in_order_id i)) (\<lambda>correlation.
       LedgerTransaction d ORDER correlation boundary [p1, p2] ''ORDER_RESERVATION''))))))"

definition release_transaction ::
  "(bytes \<Rightarrow> string) \<Rightarrow> swap_intent \<Rightarrow> int \<Rightarrow> string \<Rightarrow> ledger_transaction res" where
  "release_transaction sha i boundary reason_code =
     bindE (reserved_account_id (in_sold_asset_id i)) (\<lambda>rs.
     bindE (Posting (LedgerAccount rs PORTFOLIO_RESERVED) (in_sold_asset_id i)
              (- in_amount_in_atomic i)) (\<lambda>p1.
     bindE (available_account_id (in_sold_asset_id i)) (\<lambda>av.
     bindE (Posting (LedgerAccount av PORTFOLIO_AVAILABLE) (in_sold_asset_id i)
              (in_amount_in_atomic i)) (\<lambda>p2.
     bindE (domain_digest sha ''backtest.ledger-release.v1'' (JObj
        [(''amount_atomic'', JInt (in_amount_in_atomic i)), (''asset_id'', JStr (in_sold_asset_id i)),
         (''boundary_ordinal'', JInt boundary), (''order_id'', JStr (digest_hex (in_order_id i))),
         (''reason'', JStr reason_code)])) (\<lambda>d.
     bindE (order_causal_digest (in_order_id i)) (\<lambda>correlation.
       LedgerTransaction d ORDER correlation boundary [p1, p2] ''ORDER_RELEASE''))))))"

definition settlement_transaction ::
  "(bytes \<Rightarrow> string) \<Rightarrow> swap_intent \<Rightarrow> posting list \<Rightarrow> int \<Rightarrow> ledger_transaction res" where
  "settlement_transaction sha i postings boundary =
     bindE (domain_digest sha ''backtest.ledger-settlement.v1'' (JObj
        [(''boundary_ordinal'', JInt boundary), (''order_id'', JStr (digest_hex (in_order_id i))),
         (''postings'', JArr (map posting_document_json (posting_documents postings)))])) (\<lambda>d.
     bindE (order_causal_digest (in_order_id i)) (\<lambda>correlation.
       LedgerTransaction d ORDER correlation boundary postings ''ORDER_SETTLEMENT''))"

definition validate_execution_plan ::
  "swap_intent \<Rightarrow> execution_plan \<Rightarrow> int \<Rightarrow> execution_mode \<Rightarrow> unit res" where
  "validate_execution_plan i p boundary mode =
     (if list_ex (\<lambda>f. fl_order_id f \<noteq> in_order_id i) (ep_fills p) then
        Inl (EngineInvariantError ''execution plan contains another order ID'')
      else if list_ex (\<lambda>f. fl_boundary_ordinal f \<noteq> boundary) (ep_fills p) then
        Inl (EngineInvariantError ''execution plan fill has a non-current boundary'')
      else if sum_list (map fl_amount_in_atomic (ep_fills p)) \<noteq> in_amount_in_atomic i then
        Inl (EngineInvariantError ''execution plan input amount differs from reserved input'')
      else if mode = EXOGENOUS_REPLAY \<and> ep_transition p \<noteq> None then
        Inl (EngineInvariantError ''exogenous execution must not mutate venue state'')
      else if mode \<noteq> EXOGENOUS_REPLAY \<and> ep_transition p = None then
        Inl (EngineInvariantError ''stateful execution requires a venue transition'')
      else Inr ())"

section \<open>The phases of one transaction group\<close>

definition pending_observation_count :: "'s engine_state \<Rightarrow> int" where
  "pending_observation_count st =
     (case es_materialized st of
        None \<Rightarrow> int (scheduler_len (es_observations st))
      | Some m \<Rightarrow> mm_pending_count m)"

definition check_queue_budget :: "'s run_env \<Rightarrow> 's engine_state \<Rightarrow> unit res" where
  "check_queue_budget env st =
     (if rc_maximum_dynamic_items (ev_config env)
           < pending_observation_count st + int (scheduler_len (es_orders st)) then
        Inl (EngineInvariantError ''dynamic scheduler item budget exceeded'')
      else Inr ())"

definition check_sort_key :: "'s engine_state \<Rightarrow> canonical_event \<Rightarrow> 's engine_state res" where
  "check_sort_key st e =
     (let key = canonical_event_sort_key e in
      if (case es_previous_sort_key st of None \<Rightarrow> False | Some previous \<Rightarrow> key \<le> previous) then
        Inl (EngineInvariantError ''historical events are not in strict canonical order'')
      else Inr (st\<lparr>es_previous_sort_key := Some key\<rparr>))"

definition check_group ::
  "'s run_env \<Rightarrow> int \<Rightarrow> canonical_event list \<Rightarrow> 's engine_state \<Rightarrow> 's engine_state res" where
  "check_group env boundary events st =
     bindE (foldE check_sort_key st events) (\<lambda>st.
       if es_previous_group_boundary st = Some boundary then
         Inl (EngineInvariantError ''one boundary contains more than one transaction group'')
       else bindE (timeline_require (ev_timeline env) boundary) (\<lambda>_.
         bindE (foldE (\<lambda>_ e. timeline_require_event (ev_timeline env) e) () events) (\<lambda>_.
           Inr (st\<lparr>es_previous_group_boundary := Some boundary\<rparr>))))"

definition apply_history_phase ::
  "'s run_env \<Rightarrow> int \<Rightarrow> string \<Rightarrow> canonical_event list \<Rightarrow> 's engine_state \<Rightarrow> 's engine_state res" where
  "apply_history_phase env boundary group_id events st =
     bindE (apply_group (es_historical st) events) (\<lambda>historical.
     bindE (record_audit (st\<lparr>es_historical := historical, es_group_count := Suc (es_group_count st),
          es_event_count := es_event_count st + length events\<rparr>)
        [(''boundary_ordinal'', JInt boundary),
         (''event_ids'', JArr (map (\<lambda>e. JStr (digest_hex (ee_canonical_event_id (event_envelope_of e)))) events)),
         (''group_id'', JStr group_id), phase_member HISTORICAL_REFERENCE_APPLY,
         (''record_type'', JStr ''HISTORICAL_GROUP_APPLIED'')]) (\<lambda>st.
     bindE (reconcile_group (es_venue st) events (es_historical st)) (\<lambda>venue.
     record_audit (st\<lparr>es_venue := venue\<rparr>)
        [(''boundary_ordinal'', JInt boundary),
         (''execution_mode'', JStr (execution_mode_value (rc_execution_mode (ev_config env)))),
         (''group_id'', JStr group_id), phase_member SIMULATION_STATE_RECONCILE,
         (''record_type'', JStr ''SIMULATION_RECONCILED'')])))"

definition register_observation ::
  "'s run_env \<Rightarrow> int \<Rightarrow> 's engine_state \<Rightarrow> canonical_event \<Rightarrow> 's engine_state res" where
  "register_observation env boundary st e =
     bindE (observation_release (ev_timeline env) (event_boundary e)
              (sl_observation_slots (rc_latency (ev_config env)))) (\<lambda>release.
       let next_row = (\<lambda>st. st\<lparr>es_event_row_index := es_event_row_index st + 1\<rparr>) in
       case release of
         None \<Rightarrow>
           bindE (record_audit st
             [(''boundary_ordinal'', JInt boundary),
              (''event_id'', JStr (digest_hex (ee_canonical_event_id (event_envelope_of e)))),
              phase_member OBSERVATION_DELIVERY,
              (''record_type'', JStr ''OBSERVATION_OUTSIDE_HORIZON'')]) (\<lambda>st.
           case es_materialized st of
             None \<Rightarrow> Inr (next_row st)
           | Some m \<Rightarrow> bindE (merge_register m (es_event_row_index st) None) (\<lambda>m'.
               Inr (next_row (st\<lparr>es_materialized := Some m'\<rparr>))))
       | Some r \<Rightarrow>
           (case es_materialized st of
             None \<Rightarrow>
               bindE (SchedulerKey r OBSERVATION_DELIVERY (event_boundary e) (event_causal_hex e)) (\<lambda>key.
               bindE (enqueue (es_observations st) key
                   \<lparr>ob_event = e, ob_event_row_id = es_event_row_index st\<rparr>) (\<lambda>q.
               Inr (next_row (st\<lparr>es_observations := q\<rparr>))))
           | Some m \<Rightarrow> bindE (merge_register m (es_event_row_index st) (Some r)) (\<lambda>m'.
               Inr (next_row (st\<lparr>es_materialized := Some m'\<rparr>)))))"

definition register_phase ::
  "'s run_env \<Rightarrow> int \<Rightarrow> canonical_event list \<Rightarrow> 's engine_state \<Rightarrow> 's engine_state res" where
  "register_phase env boundary events st =
     bindE (foldE (register_observation env boundary) st events) (\<lambda>st.
     bindE (check_queue_budget env st) (\<lambda>_. Inr st))"

definition ready_observations ::
  "'s run_env \<Rightarrow> int \<Rightarrow> 's engine_state \<Rightarrow> ((scheduler_key \<times> observation) list \<times> 's engine_state) res"
where
  "ready_observations env boundary st =
     (case es_materialized st of
        None \<Rightarrow>
          (let (ready, q) = pop_ready (es_observations st) boundary OBSERVATION_DELIVERY in
           Inr (ready, st\<lparr>es_observations := q\<rparr>))
      | Some m \<Rightarrow> bindE (merge_pop_ready (ev_timeline env) (ev_event_at env) boundary m) (\<lambda>(ready, m').
          Inr (ready, st\<lparr>es_materialized := Some m'\<rparr>)))"

definition deliver_observation ::
  "int \<Rightarrow> 's engine_state \<Rightarrow> scheduler_key \<times> observation \<Rightarrow> 's engine_state res" where
  "deliver_observation boundary st = (\<lambda>(key, item).
     bindE (observed_apply (es_observed st) (ob_event item)) (\<lambda>observed.
     record_audit (st\<lparr>es_observed := observed, es_delivered_count := Suc (es_delivered_count st)\<rparr>)
        [(''boundary_ordinal'', JInt boundary),
         (''event_id'', JStr (digest_hex (ee_canonical_event_id (event_envelope_of (ob_event item))))),
         phase_member OBSERVATION_DELIVERY,
         (''record_type'', JStr ''OBSERVATION_DELIVERED''),
         (''source_boundary_ordinal'', JInt (sk_creator key))]))"

definition deliver_phase ::
  "'s run_env \<Rightarrow> int \<Rightarrow> 's engine_state \<Rightarrow> (observation list \<times> 's engine_state) res" where
  "deliver_phase env boundary st =
     bindE (ready_observations env boundary st) (\<lambda>(ready, st).
     bindE (foldE (deliver_observation boundary) st ready) (\<lambda>st. Inr (map snd ready, st)))"

definition strategy_context_of ::
  "'s run_env \<Rightarrow> int \<Rightarrow> scheduler_instant \<Rightarrow> int option \<Rightarrow> 's engine_state \<Rightarrow> strategy_context res" where
  "strategy_context_of env boundary instant row st =
     bindE (CausalScalarView (ev_features env) boundary row) (\<lambda>features.
     bindE (CausalScalarView (ev_predictions env) boundary row) (\<lambda>predictions.
     StrategyContext \<lparr>sc_instant = instant, sc_observed_market = ObservedMarketView (es_observed st),
       sc_portfolio = PortfolioView (es_portfolio st), sc_rng = ev_rng env, sc_features = features,
       sc_predictions = predictions, sc_event_row_id = row\<rparr>))"

definition propose_intent ::
  "int \<Rightarrow> swap_intent list \<times> 's engine_state \<Rightarrow> intent \<Rightarrow> (swap_intent list \<times> 's engine_state) res" where
  "propose_intent boundary = (\<lambda>(proposed, st) it.
     case it of
       Round_Trip_Intent _ \<Rightarrow> Inl (EngineInvariantError ''strategy emitted an unsupported intent type'')
     | Swap_Intent i \<Rightarrow>
         if in_created_boundary_ordinal i \<noteq> boundary then
           Inl (EngineInvariantError ''strategy intent has a non-current decision boundary'')
         else if in_order_id i \<in> es_seen_orders st then
           Inl (EngineInvariantError ''strategy emitted a duplicate order ID'')
         else
           bindE (record_audit (st\<lparr>es_seen_orders := insert (in_order_id i) (es_seen_orders st)\<rparr>)
             [(''boundary_ordinal'', JInt boundary), (''order_id'', JStr (digest_hex (in_order_id i))),
              phase_member STRATEGY_CALLBACK, (''record_type'', JStr ''INTENT_PROPOSED'')]) (\<lambda>st.
           Inr (proposed @ [i], st)))"

definition observe_strategy ::
  "'s run_env \<Rightarrow> int \<Rightarrow> scheduler_instant \<Rightarrow> swap_intent list \<times> 's engine_state \<Rightarrow> observation \<Rightarrow>
     (swap_intent list \<times> 's engine_state) res" where
  "observe_strategy env boundary instant = (\<lambda>(proposed, st) item.
     bindE (strategy_context_of env boundary instant (Some (ob_event_row_id item)) st) (\<lambda>context.
     bindE (ev_on_event env (es_strategy st) (ob_event item) context) (\<lambda>(intents, strategy).
     foldE (propose_intent boundary) (proposed, st\<lparr>es_strategy := strategy\<rparr>) intents)))"

definition strategy_phase ::
  "'s run_env \<Rightarrow> int \<Rightarrow> scheduler_instant \<Rightarrow> observation list \<Rightarrow> 's engine_state \<Rightarrow>
     (swap_intent list \<times> 's engine_state) res" where
  "strategy_phase env boundary instant delivered st =
     bindE (foldE (observe_strategy env boundary instant) ([], st) delivered) (\<lambda>(proposed, st).
       Inr (sort_key (\<lambda>i. digest_hex (in_order_id i)) proposed, st))"

text \<open>Acceptance of the proposed orders, in order of their ids.\<close>

type_synonym 's order_step = "execution_notification list \<times> 's engine_state"

definition reject_order ::
  "int \<Rightarrow> swap_intent \<Rightarrow> string \<Rightarrow> 's order_step \<Rightarrow> 's order_step res" where
  "reject_order boundary i reason = (\<lambda>(notifications, st).
     bindE (record_audit (st\<lparr>es_rejected_count := Suc (es_rejected_count st),
          es_terminal_orders := insert (in_order_id i) (es_terminal_orders st)\<rparr>)
        [(''boundary_ordinal'', JInt boundary), (''order_id'', JStr (digest_hex (in_order_id i))),
         phase_member RISK_AND_ORDER_ACCEPTANCE, (''reason'', JStr reason),
         (''record_type'', JStr ''ORDER_REJECTED'')]) (\<lambda>st.
     bindE (ExecutionNotification \<lparr>en_order_id = in_order_id i, en_status = REJECTED,
        en_boundary_ordinal = boundary, en_fills = [], en_reports = [reason]\<rparr>) (\<lambda>n.
     Inr (notifications @ [n], st))))"

definition accept_and_reserve ::
  "'s run_env \<Rightarrow> int \<Rightarrow> swap_intent \<Rightarrow> int \<Rightarrow> 's order_step \<Rightarrow> 's order_step res" where
  "accept_and_reserve env boundary i release = (\<lambda>(notifications, st).
     bindE (reservation_transaction (ev_sha env) i boundary) (\<lambda>reservation.
     bindE (portfolio_apply (es_portfolio st) reservation) (\<lambda>portfolio.
     bindE (record_ledger (st\<lparr>es_portfolio := portfolio\<rparr>) reservation) (\<lambda>st.
     bindE (record_audit (st\<lparr>es_accepted_count := Suc (es_accepted_count st)\<rparr>)
        [(''boundary_ordinal'', JInt boundary), (''eligible_boundary_ordinal'', JInt release),
         (''order_id'', JStr (digest_hex (in_order_id i))), phase_member RISK_AND_ORDER_ACCEPTANCE,
         (''record_type'', JStr ''ORDER_ACCEPTED_AND_RESERVED'')]) (\<lambda>st.
     bindE (order_causal_digest (in_order_id i)) (\<lambda>causal.
     bindE (SchedulerKey release VENUE_EXECUTION_AND_LEDGER_COMMIT boundary (digest_hex causal)) (\<lambda>key.
     bindE (enqueue (es_orders st) key i) (\<lambda>orders.
     bindE (ExecutionNotification \<lparr>en_order_id = in_order_id i, en_status = ACCEPTED,
        en_boundary_ordinal = boundary, en_fills = [], en_reports = []\<rparr>) (\<lambda>n.
     Inr (notifications @ [n], st\<lparr>es_orders := orders\<rparr>))))))))))"

definition accept_order ::
  "'s run_env \<Rightarrow> int \<Rightarrow> 's order_step \<Rightarrow> swap_intent \<Rightarrow> 's order_step res" where
  "accept_order env boundary = (\<lambda>(notifications, st) i.
     bindE (order_release (ev_timeline env) boundary (sl_order_slots (rc_latency (ev_config env)))) (\<lambda>release.
     case release of
       None \<Rightarrow> reject_order boundary i ''HORIZON_EXHAUSTED'' (notifications, st)
     | Some r \<Rightarrow>
         bindE (ev_accept env i (PortfolioView (es_portfolio st))) (\<lambda>ok.
           if \<not> ok then reject_order boundary i ''RISK_REJECTED'' (notifications, st)
           else accept_and_reserve env boundary i r (notifications, st))))"

definition acceptance_phase ::
  "'s run_env \<Rightarrow> int \<Rightarrow> swap_intent list \<Rightarrow> 's engine_state \<Rightarrow> 's order_step res" where
  "acceptance_phase env boundary proposed st =
     bindE (foldE (accept_order env boundary) ([], st) proposed) (\<lambda>(notifications, st).
     bindE (check_queue_budget env st) (\<lambda>_. Inr (notifications, st)))"

text \<open>Execution of the orders whose release boundary is reached.\<close>

definition release_failed_order ::
  "'s run_env \<Rightarrow> int \<Rightarrow> swap_intent \<Rightarrow> string \<Rightarrow> 's order_step \<Rightarrow> 's order_step res" where
  "release_failed_order env boundary i code = (\<lambda>(notifications, st).
     bindE (release_transaction (ev_sha env) i boundary code) (\<lambda>t.
     bindE (portfolio_apply (es_portfolio st) t) (\<lambda>portfolio.
     bindE (record_ledger (st\<lparr>es_portfolio := portfolio\<rparr>) t) (\<lambda>st.
     bindE (record_audit (st\<lparr>es_terminal_orders := insert (in_order_id i) (es_terminal_orders st),
          es_failed_order_count := Suc (es_failed_order_count st)\<rparr>)
        [(''boundary_ordinal'', JInt boundary), (''order_id'', JStr (digest_hex (in_order_id i))),
         phase_member VENUE_EXECUTION_AND_LEDGER_COMMIT, (''reason'', JStr code),
         (''record_type'', JStr ''ORDER_EXECUTION_FAILED_AND_RELEASED'')]) (\<lambda>st.
     bindE (ExecutionNotification \<lparr>en_order_id = in_order_id i, en_status = EXECUTION_FAILED,
        en_boundary_ordinal = boundary, en_fills = [], en_reports = [code]\<rparr>) (\<lambda>n.
     Inr (notifications @ [n], st)))))))"

text \<open>Preview portfolio and venue, then commit both.\<close>

definition commit_settlement ::
  "ledger_transaction \<Rightarrow> execution_plan \<Rightarrow> 's engine_state \<Rightarrow> 's engine_state res" where
  "commit_settlement settlement plan st =
     bindE (portfolio_preview (es_portfolio st) settlement) (\<lambda>portfolio_candidate.
     bindE (case ep_transition plan of
              None \<Rightarrow> Inr None
            | Some t \<Rightarrow> bindE (preview_transition (es_venue st) t) (\<lambda>c. Inr (Some c))) (\<lambda>venue_candidate.
     let st' = st\<lparr>es_portfolio := portfolio_commit_candidate (es_portfolio st) portfolio_candidate\<rparr> in
     Inr (case venue_candidate of
            None \<Rightarrow> st'
          | Some c \<Rightarrow> st'\<lparr>es_venue := venue_commit_candidate (es_venue st') c\<rparr>)))"

definition settle_order ::
  "'s run_env \<Rightarrow> int \<Rightarrow> swap_intent \<Rightarrow> execution_plan \<Rightarrow> 's order_step \<Rightarrow> 's order_step res" where
  "settle_order env boundary i plan = (\<lambda>(notifications, st).
     bindE (validate_execution_plan i plan boundary (rc_execution_mode (ev_config env))) (\<lambda>_.
     bindE (settlement_transaction (ev_sha env) i (ep_ledger_postings plan) boundary) (\<lambda>settlement.
     bindE (commit_settlement settlement plan st) (\<lambda>st.
     bindE (record_ledger st settlement) (\<lambda>st.
     bindE (foldE record_fill st (sort_key (\<lambda>f. digest_hex (fl_order_id f)) (ep_fills plan))) (\<lambda>st.
     bindE (record_audit (st\<lparr>es_terminal_orders := insert (in_order_id i) (es_terminal_orders st),
          es_filled_order_count := Suc (es_filled_order_count st)\<rparr>)
        [(''boundary_ordinal'', JInt boundary), (''fill_count'', JInt (int (length (ep_fills plan)))),
         (''order_id'', JStr (digest_hex (in_order_id i))), phase_member VENUE_EXECUTION_AND_LEDGER_COMMIT,
         (''record_type'', JStr ''ORDER_FILLED_ATOMICALLY'')]) (\<lambda>st.
     bindE (ExecutionNotification \<lparr>en_order_id = in_order_id i, en_status = FILLED,
        en_boundary_ordinal = boundary, en_fills = ep_fills plan, en_reports = ep_reports plan\<rparr>) (\<lambda>n.
     Inr (notifications @ [n], st)))))))))"

definition execute_order ::
  "'s run_env \<Rightarrow> int \<Rightarrow> 's order_step \<Rightarrow> swap_intent \<Rightarrow> 's order_step res" where
  "execute_order env boundary = (\<lambda>(notifications, st) i.
     if in_order_id i \<in> es_terminal_orders st then
       Inl (EngineInvariantError ''terminal order was scheduled for execution twice'')
     else (case ev_execute env i (es_venue st) boundary (rc_execution_mode (ev_config env)) of
         Inr plan \<Rightarrow> settle_order env boundary i plan (notifications, st)
       | Inl (ExecutionRejected code) \<Rightarrow> release_failed_order env boundary i code (notifications, st)
       | Inl e \<Rightarrow> Inl e))"

definition execution_phase ::
  "'s run_env \<Rightarrow> int \<Rightarrow> 's order_step \<Rightarrow> 's order_step res" where
  "execution_phase env boundary = (\<lambda>(notifications, st).
     let (ready, orders) = pop_ready (es_orders st) boundary VENUE_EXECUTION_AND_LEDGER_COMMIT in
     foldE (execute_order env boundary) (notifications, st\<lparr>es_orders := orders\<rparr>) (map snd ready))"

definition notify_strategy ::
  "'s run_env \<Rightarrow> int \<Rightarrow> strategy_context \<Rightarrow> 's engine_state \<Rightarrow> execution_notification \<Rightarrow> 's engine_state res" where
  "notify_strategy env boundary context st n =
     bindE (ev_on_execution env (es_strategy st) n context) (\<lambda>strategy.
     record_audit (st\<lparr>es_strategy := strategy\<rparr>)
        [(''boundary_ordinal'', JInt boundary), (''order_id'', JStr (digest_hex (en_order_id n))),
         phase_member STRATEGY_EXECUTION_NOTIFICATION, (''record_type'', JStr ''STRATEGY_NOTIFIED''),
         (''status'', JStr (order_status_value (en_status n)))])"

definition notification_phase ::
  "'s run_env \<Rightarrow> int \<Rightarrow> scheduler_instant \<Rightarrow> 's order_step \<Rightarrow> 's engine_state res" where
  "notification_phase env boundary instant = (\<lambda>(notifications, st).
     bindE (strategy_context_of env boundary instant None st) (\<lambda>context.
     bindE (foldE (notify_strategy env boundary context) st
        (sort_key (\<lambda>n. (digest_hex (en_order_id n), order_status_value (en_status n))) notifications)) (\<lambda>st.
     record_audit st [(''boundary_ordinal'', JInt boundary), phase_member CHECKPOINT,
        (''record_type'', JStr ''BOUNDARY_CHECKPOINT'')])))"

definition reduce_group ::
  "'s run_env \<Rightarrow> 's engine_state \<Rightarrow> (int \<times> string) \<times> canonical_event list \<Rightarrow> 's engine_state res" where
  "reduce_group env st = (\<lambda>((boundary, group_id), events).
     bindE (check_group env boundary events st) (\<lambda>st.
     bindE (apply_history_phase env boundary group_id events st) (\<lambda>st.
     bindE (register_phase env boundary events st) (\<lambda>st.
     bindE (deliver_phase env boundary st) (\<lambda>(delivered, st).
     bindE (timeline_instant (ev_timeline env) boundary) (\<lambda>instant.
     bindE (strategy_phase env boundary instant delivered st) (\<lambda>(proposed, st).
     bindE (acceptance_phase env boundary proposed st) (\<lambda>step.
     bindE (execution_phase env boundary step) (\<lambda>step.
     notification_phase env boundary instant step)))))))))"

section \<open>The run\<close>

text \<open>\<^verbatim>\<open>itertools.groupby\<close> by (boundary, transaction group).\<close>

definition group_key :: "canonical_event \<Rightarrow> int \<times> string" where
  "group_key e = (event_boundary e, digest_hex (event_group e))"

fun group_events :: "canonical_event list \<Rightarrow> ((int \<times> string) \<times> canonical_event list) list" where
  "group_events [] = []"
| "group_events (e # es) =
     (case group_events es of
        (k, g) # rest \<Rightarrow> if k = group_key e then (k, e # g) # rest else (group_key e, [e]) # (k, g) # rest
      | [] \<Rightarrow> [(group_key e, [e])])"

record historical_source =
  hx_logical_content_hash :: digest
  hx_replay_semantics_id :: digest
  hx_boundaries :: "replay_boundary list"
  hx_events :: "canonical_event list"
  hx_event_at :: "(int \<Rightarrow> canonical_event res) option"

record run_summary =
  rs_dataset_logical_content_hash :: digest
  rs_replay_semantics_id :: digest
  rs_engine_bundle_id :: digest
  rs_latency_bundle_id :: digest
  rs_historical_group_count :: nat
  rs_historical_event_count :: nat
  rs_delivered_event_count :: nat
  rs_accepted_order_count :: nat
  rs_rejected_order_count :: nat
  rs_filled_order_count :: nat
  rs_failed_order_count :: nat
  rs_ledger_transaction_count :: nat
  rs_fill_count :: nat
  rs_audit_hash :: digest
  rs_ledger_hash :: digest
  rs_fill_hash :: digest
  rs_result_hash :: digest
  rs_final_balances :: "(string \<times> string \<times> string \<times> int) list"

definition initial_merge ::
  "historical_source \<Rightarrow> run_config \<Rightarrow> delivery_source option \<Rightarrow> observation_merge option res" where
  "initial_merge src config delivery_schedule =
     (case delivery_schedule of
        None \<Rightarrow> Inr None
      | Some deliveries \<Rightarrow>
          if hx_event_at src = None then
            Inl (EngineInvariantError ''materialized deliveries require a stable row-indexed ReplayPack'')
          else bindE (MaterializedObservationMerge deliveries (sl_observation_slots (rc_latency config)))
            (\<lambda>m. Inr (Some m)))"

definition initial_state ::
  "historical_source \<Rightarrow> run_config \<Rightarrow> delivery_source option \<Rightarrow> 's \<Rightarrow> 's engine_state res" where
  "initial_state src config delivery_schedule strategy =
     bindE Recorder (\<lambda>recorder.
     bindE (PortfolioState (rc_initial_available config)) (\<lambda>portfolio.
     bindE (KeyedRng (rc_root_seed config)) (\<lambda>_.
     bindE (initial_merge src config delivery_schedule) (\<lambda>merge.
     Inr \<lparr>es_historical = HistoricalReferenceState, es_observed = ObservedState,
          es_venue = SimulationVenueState (rc_execution_mode config), es_portfolio = portfolio,
          es_strategy = strategy, es_recorder = recorder, es_observations = CausalScheduler,
          es_materialized = merge, es_orders = CausalScheduler, es_seen_orders = {},
          es_terminal_orders = {}, es_group_count = 0, es_event_count = 0, es_delivered_count = 0,
          es_accepted_count = 0, es_rejected_count = 0, es_filled_order_count = 0,
          es_failed_order_count = 0, es_previous_sort_key = None, es_previous_group_boundary = None,
          es_event_row_index = 0\<rparr>))))"

definition finish_run ::
  "'s run_env \<Rightarrow> historical_source \<Rightarrow> 's engine_state \<Rightarrow> run_summary res" where
  "finish_run env src st =
     (if es_event_count st = 0 then
        Inl (EngineInvariantError ''replay source emitted no canonical events'')
      else bindE (case es_materialized st of
                    None \<Rightarrow> Inr () | Some m \<Rightarrow> merge_finish m (int (es_event_count st))) (\<lambda>_.
        if scheduler_len (es_observations st) \<noteq> 0 \<or> scheduler_len (es_orders st) \<noteq> 0 then
          Inl (EngineInvariantError ''replay ended with supposedly reachable dynamic items'')
        else
          bindE (semantic_balances (es_portfolio st)) (\<lambda>final_balances.
          bindE (stream_digest (ev_sha env) (rd_audit (es_recorder st))) (\<lambda>audit_hash.
          bindE (stream_digest (ev_sha env) (rd_ledger (es_recorder st))) (\<lambda>ledger_hash.
          bindE (stream_digest (ev_sha env) (rd_fills (es_recorder st))) (\<lambda>fill_hash.
          bindE (domain_digest (ev_sha env) ''backtest.canonical-run-result.v1'' (JObj
            [(''accepted_order_count'', JInt (int (es_accepted_count st))),
             (''failed_order_count'', JInt (int (es_failed_order_count st))),
             (''fill_count'', JInt (int (sh_count (rd_fills (es_recorder st))))),
             (''fill_hash'', JStr (digest_hex fill_hash)),
             (''filled_order_count'', JInt (int (es_filled_order_count st))),
             (''final_balances'', JArr (map (\<lambda>(account, kind, asset, amount).
                 JArr [JStr account, JStr kind, JStr asset, JInt amount]) final_balances)),
             (''ledger_hash'', JStr (digest_hex ledger_hash)),
             (''ledger_transaction_count'', JInt (int (sh_count (rd_ledger (es_recorder st))))),
             (''rejected_order_count'', JInt (int (es_rejected_count st)))])) (\<lambda>result_hash.
          Inr \<lparr>rs_dataset_logical_content_hash = hx_logical_content_hash src,
            rs_replay_semantics_id = hx_replay_semantics_id src,
            rs_engine_bundle_id = rc_engine_bundle_id (ev_config env),
            rs_latency_bundle_id = sl_bundle_identity (rc_latency (ev_config env)),
            rs_historical_group_count = es_group_count st, rs_historical_event_count = es_event_count st,
            rs_delivered_event_count = es_delivered_count st,
            rs_accepted_order_count = es_accepted_count st, rs_rejected_order_count = es_rejected_count st,
            rs_filled_order_count = es_filled_order_count st,
            rs_failed_order_count = es_failed_order_count st,
            rs_ledger_transaction_count = sh_count (rd_ledger (es_recorder st)),
            rs_fill_count = sh_count (rd_fills (es_recorder st)), rs_audit_hash = audit_hash,
            rs_ledger_hash = ledger_hash, rs_fill_hash = fill_hash, rs_result_hash = result_hash,
            rs_final_balances = final_balances\<rparr>)))))))"

text \<open>
  The run: the environment is completed with the timeline of the source, its row index and the seeded
  generator. The final state is returned beside the summary.
\<close>

definition run_engine ::
  "'s run_env \<Rightarrow> historical_source \<Rightarrow> delivery_source option \<Rightarrow> 's \<Rightarrow>
     (run_summary \<times> 's engine_state) res" where
  "run_engine env src delivery_schedule strategy =
     bindE (BoundaryTimeline (hx_boundaries src)) (\<lambda>line.
     bindE (initial_state src (ev_config env) delivery_schedule strategy) (\<lambda>st.
     let env = env\<lparr>ev_timeline := line, ev_rng := rc_root_seed (ev_config env),
           ev_event_at := (case hx_event_at src of
              Some f \<Rightarrow> f | None \<Rightarrow> (\<lambda>_. Inl (EngineInvariantError ''no row index'')))\<rparr> in
     bindE (foldE (reduce_group env) st (group_events (hx_events src))) (\<lambda>st.
     bindE (finish_run env src st) (\<lambda>summary. Inr (summary, st)))))"

section \<open>What the phases leave alone\<close>

text \<open>The books: everything the order phases change and the other phases must not.\<close>

definition books :: "'s engine_state \<Rightarrow>
    portfolio_state \<times> swap_intent causal_scheduler \<times> order_id set \<times> nat \<times> nat \<times> nat \<times> nat
    \<times> ledger_transaction list \<times> fill list" where
  "books st = (es_portfolio st, es_orders st, es_terminal_orders st, es_accepted_count st,
     es_rejected_count st, es_filled_order_count st, es_failed_order_count st,
     rd_ledger_sink (es_recorder st), rd_fill_sink (es_recorder st))"

text \<open>The books with the two venue states: what no observation or strategy phase touches.\<close>

definition core :: "'s engine_state \<Rightarrow> _" where
  "core st = (books st, es_venue st, es_historical st)"

lemma record_audit_Inr:
  assumes "record_audit st ms = Inr st'"
  obtains r where "st' = st\<lparr>es_recorder := r\<rparr>" and "rd_ledger_sink r = rd_ledger_sink (es_recorder st)"
    and "rd_fill_sink r = rd_fill_sink (es_recorder st)"
  using assms by (auto simp: record_audit_def append_audit_def)

lemma record_ledger_Inr:
  assumes "record_ledger st t = Inr st'"
  obtains r where "st' = st\<lparr>es_recorder := r\<rparr>"
    and "rd_ledger_sink r = rd_ledger_sink (es_recorder st) @ [t]"
    and "rd_fill_sink r = rd_fill_sink (es_recorder st)"
  using assms by (auto simp: record_ledger_def append_ledger_def)

lemma record_fill_Inr:
  assumes "record_fill st f = Inr st'"
  obtains r where "st' = st\<lparr>es_recorder := r\<rparr>"
    and "rd_ledger_sink r = rd_ledger_sink (es_recorder st)"
    and "rd_fill_sink r = rd_fill_sink (es_recorder st) @ [f]"
  using assms by (auto simp: record_fill_def append_fill_def)

lemma record_fills_ex:
  assumes "foldE record_fill st fs = Inr st'"
  shows "\<exists>r. st' = st\<lparr>es_recorder := r\<rparr> \<and> rd_ledger_sink r = rd_ledger_sink (es_recorder st)
    \<and> rd_fill_sink r = rd_fill_sink (es_recorder st) @ fs"
  using assms
proof (induction fs arbitrary: st)
  case Nil
  then show ?case by (intro exI[of _ "es_recorder st"]) simp
next
  case (Cons f fs)
  then obtain s where s: "record_fill st f = Inr s" "foldE record_fill s fs = Inr st'"
    by auto
  obtain r where r: "s = st\<lparr>es_recorder := r\<rparr>" "rd_ledger_sink r = rd_ledger_sink (es_recorder st)"
    "rd_fill_sink r = rd_fill_sink (es_recorder st) @ [f]"
    using record_fill_Inr[OF s(1)] .
  from Cons.IH[OF s(2)] r show ?case by auto
qed

lemma core_audit: "record_audit st ms = Inr st' \<Longrightarrow> core st' = core st"
  by (erule record_audit_Inr) (simp add: core_def books_def)

text \<open>Updates of the fields outside the core.\<close>

lemma core_updates:
  "core (st\<lparr>es_previous_sort_key := a\<rparr>) = core st"
  "core (st\<lparr>es_previous_group_boundary := b\<rparr>) = core st"
  "core (st\<lparr>es_materialized := m\<rparr>) = core st"
  "core (st\<lparr>es_observations := q\<rparr>) = core st"
  "core (st\<lparr>es_event_row_index := i\<rparr>) = core st"
  "core (st\<lparr>es_strategy := sg\<rparr>) = core st"
  "core (st\<lparr>es_seen_orders := seen\<rparr>) = core st"
  "core (st\<lparr>es_observed := ob\<rparr>) = core st"
  "core (st\<lparr>es_delivered_count := n\<rparr>) = core st"
  by (simp_all add: core_def books_def)

lemma core_check_group:
  assumes "check_group env b es st = Inr st'"
  shows "core st' = core st"
proof -
  obtain s where s: "foldE check_sort_key st es = Inr s" "st' = s\<lparr>es_previous_group_boundary := Some b\<rparr>"
    using assms by (auto simp: check_group_def split: if_splits)
  have "core s = core st"
    by (rule foldE_preserves[OF s(1)])
       (auto simp: check_sort_key_def Let_def core_updates split: if_splits)
  with s(2) show ?thesis by (simp add: core_updates)
qed

lemma core_register_observation:
  assumes "register_observation env b st e = Inr st'"
  shows "core st' = core st"
proof -
  obtain release where r: "observation_release (ev_timeline env) (event_boundary e)
       (sl_observation_slots (rc_latency (ev_config env))) = Inr release"
    using assms by (auto simp: register_observation_def)
  note run = assms[unfolded register_observation_def r bindE_Inr Let_def]
  show ?thesis
  proof (cases release)
    case None
    with run obtain ms s where s: "record_audit st ms = Inr s"
      "(case es_materialized s of None \<Rightarrow> Inr (s\<lparr>es_event_row_index := es_event_row_index s + 1\<rparr>)
        | Some m \<Rightarrow> bindE (merge_register m (es_event_row_index s) None) (\<lambda>m'.
            Inr (s\<lparr>es_materialized := Some m', es_event_row_index :=
              es_event_row_index (s\<lparr>es_materialized := Some m'\<rparr>) + 1\<rparr>))) = Inr st'"
      by auto
    then have "core st' = core s"
      by (cases "es_materialized s") (auto simp: core_updates)
    with core_audit[OF s(1)] show ?thesis by simp
  next
    case (Some v)
    with run show ?thesis
      by (cases "es_materialized st") (auto simp: core_updates)
  qed
qed

lemma core_register:
  assumes "register_phase env b es st = Inr st'"
  shows "core st' = core st"
proof -
  have "foldE (register_observation env b) st es = Inr st'"
    using assms by (auto simp: register_phase_def)
  then show ?thesis by (rule foldE_preserves) (rule core_register_observation)
qed

lemma core_deliver_observation:
  assumes "deliver_observation b st x = Inr st'"
  shows "core st' = core st"
proof -
  obtain ob ms where "record_audit (st\<lparr>es_observed := ob, es_delivered_count := Suc (es_delivered_count st)\<rparr>) ms
      = Inr st'"
    using assms by (cases x) (auto simp: deliver_observation_def)
  from core_audit[OF this] show ?thesis by (simp add: core_updates)
qed

lemma core_deliver:
  assumes "deliver_phase env b st = Inr (ds, st')"
  shows "core st' = core st"
proof -
  obtain ready s where s: "ready_observations env b st = Inr (ready, s)"
    "foldE (deliver_observation b) s ready = Inr st'"
    using assms by (auto simp: deliver_phase_def)
  have "core s = core st"
    using s(1) by (cases "es_materialized st")
      (auto simp: ready_observations_def core_updates split: prod.splits)
  moreover have "core st' = core s"
    by (rule foldE_preserves[OF s(2)]) (rule core_deliver_observation)
  ultimately show ?thesis by simp
qed

lemma core_propose:
  assumes "propose_intent b x it = Inr x'"
  shows "core (snd x') = core (snd x)"
proof -
  obtain ps st i ms st' where "x = (ps, st)" "x' = (ps @ [i], st')"
    "record_audit (st\<lparr>es_seen_orders := insert (in_order_id i) (es_seen_orders st)\<rparr>) ms = Inr st'"
    using assms by (cases x) (auto simp: propose_intent_def split: intent.splits if_splits)
  with core_audit[OF this(3)] show ?thesis by (simp add: core_updates)
qed

lemma core_observe:
  assumes "observe_strategy env b inst x item = Inr x'"
  shows "core (snd x') = core (snd x)"
proof -
  obtain ps st where x: "x = (ps, st)" by (cases x)
  obtain its sg where run: "foldE (propose_intent b) (ps, st\<lparr>es_strategy := sg\<rparr>) its = Inr x'"
    using assms unfolding observe_strategy_def x by auto
  have "core (snd x') = core (snd (ps, st\<lparr>es_strategy := sg\<rparr>))"
    by (rule foldE_preserves[OF run]) (rule core_propose)
  then show ?thesis by (simp add: x core_updates)
qed

lemma core_strategy:
  assumes "strategy_phase env b inst ds st = Inr (proposed, st')"
  shows "core st' = core st"
proof -
  obtain ps where "foldE (observe_strategy env b inst) ([], st) ds = Inr (ps, st')"
    using assms by (auto simp: strategy_phase_def)
  from foldE_preserves[where g = "\<lambda>x. core (snd x)", OF this core_observe] show ?thesis by simp
qed

lemma core_notify: "notify_strategy env b c st n = Inr st' \<Longrightarrow> core st' = core st"
  by (auto simp: notify_strategy_def core_updates dest!: core_audit)

lemma core_notification:
  assumes "notification_phase env b inst (ns, st) = Inr st'"
  shows "core st' = core st"
proof -
  obtain c s ms where s: "foldE (notify_strategy env b c) st
        (sort_key (\<lambda>n. (digest_hex (en_order_id n), order_status_value (en_status n))) ns) = Inr s"
    "record_audit s ms = Inr st'"
    using assms unfolding notification_phase_def prod.case bindE_eq_Inr by blast
  have "core s = core st"
    by (rule foldE_preserves[OF s(1)]) (rule core_notify)
  with core_audit[OF s(2)] show ?thesis by simp
qed

text \<open>The history phase changes the venue states only, and keeps their pools well formed.\<close>

lemma core_history:
  assumes "apply_history_phase env b g es st = Inr st'"
    and "pools_ok (vs_pools (es_venue st))" and "pools_ok (hs_pools (es_historical st))"
  shows "books st' = books st \<and> pools_ok (vs_pools (es_venue st')) \<and> pools_ok (hs_pools (es_historical st'))"
proof -
  obtain h s1 v ms ms' where h: "apply_group (es_historical st) es = Inr h"
    and s1: "record_audit (st\<lparr>es_historical := h, es_group_count := Suc (es_group_count st),
          es_event_count := es_event_count st + length es\<rparr>) ms = Inr s1"
    and v: "reconcile_group (es_venue s1) es (es_historical s1) = Inr v"
    and s2: "record_audit (s1\<lparr>es_venue := v\<rparr>) ms' = Inr st'"
    using assms(1) unfolding apply_history_phase_def bindE_eq_Inr by blast
  have "books s1 = books st \<and> es_venue s1 = es_venue st \<and> es_historical s1 = h"
    using core_audit[OF s1] by (simp add: core_def books_def)
  moreover have "books st' = books s1 \<and> es_venue st' = v \<and> es_historical st' = es_historical s1"
    using core_audit[OF s2] by (simp add: core_def books_def)
  ultimately show ?thesis
    using apply_group_pools_ok[OF h assms(3)] reconcile_group_ok[OF v] assms(2) by simp
qed

section \<open>What the order phases do to the books\<close>

lemma LedgerTransaction_valid:
  "LedgerTransaction d kind c b ps reason = Inr t \<Longrightarrow> valid_transaction t \<and> lt_postings t = ps
     \<and> lt_reason t = reason \<and> lt_boundary_ordinal t = b \<and> lt_correlation_id t = c"
  by (auto simp: valid_transaction_def LedgerTransaction_def split: if_splits)

lemma order_causal_digest_Inr: "order_causal_digest order = Inr c \<Longrightarrow> c = digest_hex order"
  by (auto simp: order_causal_digest_def ContentDigest_def split: if_splits dest!: Identifier_Inr)

lemma reservation_Inr:
  assumes "reservation_transaction sha i b = Inr t"
  obtains av rs where "available_account_id (in_sold_asset_id i) = Inr av"
    and "reserved_account_id (in_sold_asset_id i) = Inr rs" and "valid_transaction t"
    and "lt_postings t =
      [\<lparr>po_account = \<lparr>la_account_id = av, la_kind = PORTFOLIO_AVAILABLE\<rparr>, po_asset_id = in_sold_asset_id i,
        po_amount_atomic = - in_amount_in_atomic i\<rparr>,
       \<lparr>po_account = \<lparr>la_account_id = rs, la_kind = PORTFOLIO_RESERVED\<rparr>, po_asset_id = in_sold_asset_id i,
        po_amount_atomic = in_amount_in_atomic i\<rparr>]"
    and "lt_reason t = ''ORDER_RESERVATION''" and "lt_boundary_ordinal t = b"
    and "lt_correlation_id t = digest_hex (in_order_id i)"
  using assms unfolding reservation_transaction_def
  by (auto simp: Posting_Inr LedgerAccount_def dest!: LedgerTransaction_valid order_causal_digest_Inr)

lemma release_Inr:
  assumes "release_transaction sha i b code = Inr t"
  obtains av rs where "available_account_id (in_sold_asset_id i) = Inr av"
    and "reserved_account_id (in_sold_asset_id i) = Inr rs" and "valid_transaction t"
    and "lt_postings t =
      [\<lparr>po_account = \<lparr>la_account_id = rs, la_kind = PORTFOLIO_RESERVED\<rparr>, po_asset_id = in_sold_asset_id i,
        po_amount_atomic = - in_amount_in_atomic i\<rparr>,
       \<lparr>po_account = \<lparr>la_account_id = av, la_kind = PORTFOLIO_AVAILABLE\<rparr>, po_asset_id = in_sold_asset_id i,
        po_amount_atomic = in_amount_in_atomic i\<rparr>]"
  using assms unfolding release_transaction_def
  by (auto simp: Posting_Inr LedgerAccount_def dest!: LedgerTransaction_valid)

lemma settlement_Inr:
  "settlement_transaction sha i ps b = Inr t \<Longrightarrow> valid_transaction t \<and> lt_postings t = ps"
  by (auto simp: settlement_transaction_def dest!: LedgerTransaction_valid)

text \<open>The decomposition of each order step: one ledger transaction and what it goes with.\<close>

lemma accept_and_reserve_Inr:
  assumes "accept_and_reserve env b i release (ns, st) = Inr (ns', st')"
  obtains t key where "reservation_transaction (ev_sha env) i b = Inr t"
    and "portfolio_apply (es_portfolio st) t = Inr (es_portfolio st')"
    and "enqueue (es_orders st) key i = Inr (es_orders st')" and "sk_release key = release"
    and "rd_ledger_sink (es_recorder st') = rd_ledger_sink (es_recorder st) @ [t]"
    and "rd_fill_sink (es_recorder st') = rd_fill_sink (es_recorder st)"
    and "es_accepted_count st' = Suc (es_accepted_count st)"
    and "es_filled_order_count st' = es_filled_order_count st"
    and "es_failed_order_count st' = es_failed_order_count st"
    and "es_venue st' = es_venue st" and "es_historical st' = es_historical st"
proof -
  obtain t pf s1 s2 causal key q ms where t: "reservation_transaction (ev_sha env) i b = Inr t"
    and pf: "portfolio_apply (es_portfolio st) t = Inr pf"
    and s1: "record_ledger (st\<lparr>es_portfolio := pf\<rparr>) t = Inr s1"
    and s2: "record_audit (s1\<lparr>es_accepted_count := Suc (es_accepted_count s1)\<rparr>) ms = Inr s2"
    and key: "SchedulerKey release VENUE_EXECUTION_AND_LEDGER_COMMIT b (digest_hex causal) = Inr key"
    and q: "enqueue (es_orders s2) key i = Inr q" and st': "st' = s2\<lparr>es_orders := q\<rparr>"
    using assms unfolding accept_and_reserve_def prod.case bindE_eq_Inr by blast
  obtain r1 where r1: "s1 = st\<lparr>es_portfolio := pf, es_recorder := r1\<rparr>"
    "rd_ledger_sink r1 = rd_ledger_sink (es_recorder st) @ [t]" "rd_fill_sink r1 = rd_fill_sink (es_recorder st)"
    using record_ledger_Inr[OF s1] by auto
  obtain r2 where r2: "s2 = st\<lparr>es_portfolio := pf, es_accepted_count := Suc (es_accepted_count st), es_recorder := r2\<rparr>"
    "rd_ledger_sink r2 = rd_ledger_sink r1" "rd_fill_sink r2 = rd_fill_sink r1"
    using record_audit_Inr[OF s2] r1 by auto
  have "sk_release key = release"
    using key by (auto simp: SchedulerKey_def split: if_splits)
  then show thesis
    using that[OF t, of key] pf q st' r1 r2 by simp
qed

lemma release_failed_order_Inr:
  assumes "release_failed_order env b i code (ns, st) = Inr (ns', st')"
  obtains t where "release_transaction (ev_sha env) i b code = Inr t"
    and "portfolio_apply (es_portfolio st) t = Inr (es_portfolio st')"
    and "es_orders st' = es_orders st"
    and "rd_ledger_sink (es_recorder st') = rd_ledger_sink (es_recorder st) @ [t]"
    and "rd_fill_sink (es_recorder st') = rd_fill_sink (es_recorder st)"
    and "es_accepted_count st' = es_accepted_count st"
    and "es_filled_order_count st' = es_filled_order_count st"
    and "es_failed_order_count st' = Suc (es_failed_order_count st)"
    and "es_venue st' = es_venue st" and "es_historical st' = es_historical st"
proof -
  obtain t pf s1 s2 ms where t: "release_transaction (ev_sha env) i b code = Inr t"
    and pf: "portfolio_apply (es_portfolio st) t = Inr pf"
    and s1: "record_ledger (st\<lparr>es_portfolio := pf\<rparr>) t = Inr s1"
    and s2: "record_audit (s1\<lparr>es_terminal_orders := insert (in_order_id i) (es_terminal_orders s1),
        es_failed_order_count := Suc (es_failed_order_count s1)\<rparr>) ms = Inr s2" and st': "st' = s2"
    using assms unfolding release_failed_order_def prod.case bindE_eq_Inr by blast
  obtain r1 where r1: "s1 = st\<lparr>es_portfolio := pf, es_recorder := r1\<rparr>"
    "rd_ledger_sink r1 = rd_ledger_sink (es_recorder st) @ [t]" "rd_fill_sink r1 = rd_fill_sink (es_recorder st)"
    using record_ledger_Inr[OF s1] by auto
  obtain r2 where r2: "s2 = s1\<lparr>es_terminal_orders := insert (in_order_id i) (es_terminal_orders s1),
        es_failed_order_count := Suc (es_failed_order_count s1), es_recorder := r2\<rparr>"
    "rd_ledger_sink r2 = rd_ledger_sink r1" "rd_fill_sink r2 = rd_fill_sink r1"
    using record_audit_Inr[OF s2] r1 by auto
  show thesis
    using that[OF t] pf st' r1 r2 by simp
qed

lemma commit_settlement_Inr:
  assumes "commit_settlement t plan st = Inr st'"
  shows "portfolio_apply (es_portfolio st) t = Inr (es_portfolio st')
    \<and> (\<exists>v. st' = st\<lparr>es_portfolio := es_portfolio st', es_venue := v\<rparr>
        \<and> (v = es_venue st \<or> (\<exists>x. apply_transition (es_venue st) x = Inr v)))"
proof -
  obtain c where c: "portfolio_preview (es_portfolio st) t = Inr c"
    using assms by (auto simp: commit_settlement_def)
  show ?thesis
  proof (cases "ep_transition plan")
    case None
    then show ?thesis
      using assms c by (auto simp: commit_settlement_def portfolio_apply_def Let_def intro!: exI[of _ "es_venue st"])
  next
    case (Some x)
    then obtain d where "preview_transition (es_venue st) x = Inr d"
      using assms c by (auto simp: commit_settlement_def)
    then show ?thesis
      using assms c Some
      by (auto simp: commit_settlement_def portfolio_apply_def apply_transition_def Let_def
          intro!: exI[of _ "venue_commit_candidate (es_venue st) d"])
  qed
qed

lemma settle_order_Inr:
  assumes "settle_order env b i plan (ns, st) = Inr (ns', st')"
  obtains t where "validate_execution_plan i plan b (rc_execution_mode (ev_config env)) = Inr ()"
    and "settlement_transaction (ev_sha env) i (ep_ledger_postings plan) b = Inr t"
    and "portfolio_apply (es_portfolio st) t = Inr (es_portfolio st')"
    and "es_orders st' = es_orders st"
    and "rd_ledger_sink (es_recorder st') = rd_ledger_sink (es_recorder st) @ [t]"
    and "rd_fill_sink (es_recorder st') = rd_fill_sink (es_recorder st)
        @ sort_key (\<lambda>f. digest_hex (fl_order_id f)) (ep_fills plan)"
    and "es_accepted_count st' = es_accepted_count st"
    and "es_filled_order_count st' = Suc (es_filled_order_count st)"
    and "es_failed_order_count st' = es_failed_order_count st"
    and "es_venue st' = es_venue st \<or> (\<exists>x. apply_transition (es_venue st) x = Inr (es_venue st'))"
    and "es_historical st' = es_historical st"
proof -
  obtain t s1 s2 s3 s4 ms where
    val: "validate_execution_plan i plan b (rc_execution_mode (ev_config env)) = Inr ()"
    and t: "settlement_transaction (ev_sha env) i (ep_ledger_postings plan) b = Inr t"
    and s1: "commit_settlement t plan st = Inr s1" and s2: "record_ledger s1 t = Inr s2"
    and s3: "foldE record_fill s2 (sort_key (\<lambda>f. digest_hex (fl_order_id f)) (ep_fills plan)) = Inr s3"
    and s4: "record_audit (s3\<lparr>es_terminal_orders := insert (in_order_id i) (es_terminal_orders s3),
        es_filled_order_count := Suc (es_filled_order_count s3)\<rparr>) ms = Inr s4" and st': "st' = s4"
    using assms unfolding settle_order_def prod.case bindE_eq_Inr by auto
  obtain v where v: "portfolio_apply (es_portfolio st) t = Inr (es_portfolio s1)"
    "s1 = st\<lparr>es_portfolio := es_portfolio s1, es_venue := v\<rparr>"
    "v = es_venue st \<or> (\<exists>x. apply_transition (es_venue st) x = Inr v)"
    using commit_settlement_Inr[OF s1] by blast
  obtain r2 where r2: "s2 = s1\<lparr>es_recorder := r2\<rparr>"
    "rd_ledger_sink r2 = rd_ledger_sink (es_recorder s1) @ [t]" "rd_fill_sink r2 = rd_fill_sink (es_recorder s1)"
    using record_ledger_Inr[OF s2] by auto
  obtain r3 where r3: "s3 = s2\<lparr>es_recorder := r3\<rparr>" "rd_ledger_sink r3 = rd_ledger_sink r2"
    "rd_fill_sink r3 = rd_fill_sink r2 @ sort_key (\<lambda>f. digest_hex (fl_order_id f)) (ep_fills plan)"
    using record_fills_ex[OF s3] r2 by auto
  obtain r4 where r4: "s4 = s3\<lparr>es_terminal_orders := insert (in_order_id i) (es_terminal_orders s3),
        es_filled_order_count := Suc (es_filled_order_count s3), es_recorder := r4\<rparr>"
    "rd_ledger_sink r4 = rd_ledger_sink r3" "rd_fill_sink r4 = rd_fill_sink r3"
    using record_audit_Inr[OF s4] r3 by auto
  have "es_recorder s1 = es_recorder st" "es_orders s1 = es_orders st" "es_venue s1 = v"
    "es_historical s1 = es_historical st" "es_accepted_count s1 = es_accepted_count st"
    "es_filled_order_count s1 = es_filled_order_count st" "es_failed_order_count s1 = es_failed_order_count st"
    by (subst v(2), simp)+
  then show thesis
    using that[OF val t] v(1,3) st' r2 r3 r4 by simp
qed

lemma reject_order_Inr:
  assumes "reject_order b i reason (ns, st) = Inr (ns', st')"
  shows "es_portfolio st' = es_portfolio st \<and> es_orders st' = es_orders st
    \<and> rd_ledger_sink (es_recorder st') = rd_ledger_sink (es_recorder st)
    \<and> rd_fill_sink (es_recorder st') = rd_fill_sink (es_recorder st)
    \<and> es_accepted_count st' = es_accepted_count st
    \<and> es_filled_order_count st' = es_filled_order_count st
    \<and> es_failed_order_count st' = es_failed_order_count st
    \<and> es_venue st' = es_venue st \<and> es_historical st' = es_historical st"
  using assms unfolding reject_order_def prod.case bindE_eq_Inr
  by (auto elim!: record_audit_Inr)


section \<open>The invariant of the books\<close>

text \<open>An order has a reservation in the ledger at a boundary before \<open>b\<close>.\<close>

definition reserved_before :: "ledger_transaction list \<Rightarrow> order_id \<Rightarrow> int \<Rightarrow> bool" where
  "reserved_before ledger order b \<longleftrightarrow>
     list_ex (\<lambda>t. lt_reason t = ''ORDER_RESERVATION'' \<and> lt_correlation_id t = digest_hex order
       \<and> lt_boundary_ordinal t < b) ledger"

lemma reserved_before_mono:
  "reserved_before ledger order b \<Longrightarrow> b \<le> b' \<Longrightarrow> reserved_before (ledger @ ts) order b'"
  by (fastforce simp: reserved_before_def list_ex_iff)

text \<open>
  \<open>ready\<close> holds the orders of the execution phase that are popped and not yet executed. \<open>T\<close> gives the
  total of every asset over all accounts.
\<close>

definition books_ok ::
  "(asset_id \<Rightarrow> int) \<Rightarrow> 's engine_state \<Rightarrow> (scheduler_key \<times> swap_intent) list \<Rightarrow> bool" where
  "books_ok T st ready \<longleftrightarrow>
     portfolio_inv (es_portfolio st) \<and> (\<forall>a. portfolio_total (es_portfolio st) a = T a)
     \<and> scheduler_inv (es_orders st)
     \<and> es_accepted_count st = es_filled_order_count st + es_failed_order_count st
         + scheduler_len (es_orders st) + length ready
     \<and> (\<forall>x \<in> set (cs_heap (es_orders st)) \<union> set ready.
          reserved_before (rd_ledger_sink (es_recorder st)) (in_order_id (snd x)) (sk_release (fst x)))
     \<and> (\<forall>f \<in> set (rd_fill_sink (es_recorder st)).
          reserved_before (rd_ledger_sink (es_recorder st)) (fl_order_id f) (fl_boundary_ordinal f))"

definition pending_input :: "asset_id \<Rightarrow> swap_intent multiset \<Rightarrow> int" where
  "pending_input a M = (\<Sum>i\<in>#M. if in_sold_asset_id i = a then in_amount_in_atomic i else 0)"

lemma pending_input_simps [simp]:
  "pending_input a {#} = 0"
  "pending_input a (add_mset i M) =
     (if in_sold_asset_id i = a then in_amount_in_atomic i else 0) + pending_input a M"
  "pending_input a (M + N) = pending_input a M + pending_input a N"
  by (simp_all add: pending_input_def)

definition pending_orders ::
  "'s engine_state \<Rightarrow> (scheduler_key \<times> swap_intent) list \<Rightarrow> swap_intent multiset" where
  "pending_orders st ready = image_mset snd (mset (cs_heap (es_orders st)) + mset ready)"

text \<open>The reserved account of every asset holds exactly the inputs of the pending orders.\<close>

definition reserves_ok :: "'s engine_state \<Rightarrow> (scheduler_key \<times> swap_intent) list \<Rightarrow> bool" where
  "reserves_ok st ready \<longleftrightarrow>
     pools_ok (vs_pools (es_venue st)) \<and> pools_ok (hs_pools (es_historical st))
     \<and> (\<forall>i \<in># pending_orders st ready. SwapExactInIntent i = Inr i)
     \<and> (\<forall>a r. reserved_account_id a = Inr r \<longrightarrow>
          balance_of (es_portfolio st) r a = pending_input a (pending_orders st ready))"

lemma core_fields:
  assumes "core st' = core st"
  shows "books_ok T st' ready = books_ok T st ready" and "reserves_ok st' ready = reserves_ok st ready"
  using assms by (simp_all add: core_def books_def books_ok_def reserves_ok_def pending_orders_def)

text \<open>A valid transaction appended to the ledger keeps what the books say of the portfolio.\<close>

lemma apply_valid:
  assumes "portfolio_apply pf t = Inr pf'" and "valid_transaction t" and "portfolio_inv pf"
  shows "portfolio_inv pf'" and "portfolio_total pf' a = portfolio_total pf a"
  using portfolio_apply_inv[OF assms(3,1)] portfolio_apply_effect(1)[OF assms(1), of a]
    valid_transaction_sum[OF assms(2)] by simp_all

lemma accept_books:
  assumes "accept_and_reserve env b i release (ns, st) = Inr (ns', st')" and "b < release"
    and "books_ok T st []"
  shows "books_ok T st' []"
proof (rule accept_and_reserve_Inr[OF assms(1)])
  fix t key
  assume t: "reservation_transaction (ev_sha env) i b = Inr t"
    and pf: "portfolio_apply (es_portfolio st) t = Inr (es_portfolio st')"
    and q: "enqueue (es_orders st) key i = Inr (es_orders st')" and key: "sk_release key = release"
    and led: "rd_ledger_sink (es_recorder st') = rd_ledger_sink (es_recorder st) @ [t]"
      "rd_fill_sink (es_recorder st') = rd_fill_sink (es_recorder st)"
    and counts: "es_accepted_count st' = Suc (es_accepted_count st)"
      "es_filled_order_count st' = es_filled_order_count st"
      "es_failed_order_count st' = es_failed_order_count st"
  have v: "valid_transaction t" "lt_reason t = ''ORDER_RESERVATION''" "lt_boundary_ordinal t = b"
    "lt_correlation_id t = digest_hex (in_order_id i)"
    using t by (auto elim: reservation_Inr)
  have inv: "scheduler_inv (es_orders st)" using assms(3) by (simp add: books_ok_def)
  have heap: "mset (cs_heap (es_orders st')) = add_mset (key, i) (mset (cs_heap (es_orders st)))"
    using enqueue_keeps(2)[OF inv q] .
  have items: "set (cs_heap (es_orders st')) = insert (key, i) (set (cs_heap (es_orders st)))"
    using arg_cong[OF heap, of set_mset] by simp
  have len: "scheduler_len (es_orders st') = Suc (scheduler_len (es_orders st))"
    using arg_cong[OF heap, of size] by (simp add: scheduler_len_def)
  have new: "reserved_before (rd_ledger_sink (es_recorder st) @ [t]) (in_order_id i) release"
    using v assms(2) by (simp add: reserved_before_def)
  show ?thesis
    using assms(3) apply_valid[OF pf v(1)] enqueue_keeps(1)[OF inv q] new key
    by (auto simp: books_ok_def items len counts led intro!: reserved_before_mono)
qed

lemma reject_books:
  assumes "reject_order b i reason (ns, st) = Inr (ns', st')" and "books_ok T st ready"
  shows "books_ok T st' ready"
  using assms(2) reject_order_Inr[OF assms(1)] by (simp add: books_ok_def)

lemma accept_order_books:
  assumes "accept_order env b (ns, st) i = Inr (ns', st')" and "timeline_inv (ev_timeline env)"
    and "books_ok T st []"
  shows "books_ok T st' []"
proof -
  obtain release where r: "order_release (ev_timeline env) b (sl_order_slots (rc_latency (ev_config env))) = Inr release"
    using assms(1) by (auto simp: accept_order_def)
  show ?thesis
  proof (cases release)
    case None
    then show ?thesis
      using assms(1,3) r reject_books by (auto simp: accept_order_def)
  next
    case (Some v)
    have "b < v" using order_release_later[OF assms(2)] r Some by blast
    then show ?thesis
      using assms(1,3) r Some by (auto simp: accept_order_def intro: reject_books accept_books split: if_splits)
  qed
qed

lemma fail_books:
  assumes "release_failed_order env b i code (ns, st) = Inr (ns', st')"
    and "books_ok T st ((key, i) # ready)"
  shows "books_ok T st' ready"
proof (rule release_failed_order_Inr[OF assms(1)])
  fix t
  assume t: "release_transaction (ev_sha env) i b code = Inr t"
    and pf: "portfolio_apply (es_portfolio st) t = Inr (es_portfolio st')"
    and led: "rd_ledger_sink (es_recorder st') = rd_ledger_sink (es_recorder st) @ [t]"
      "rd_fill_sink (es_recorder st') = rd_fill_sink (es_recorder st)"
    and rest: "es_orders st' = es_orders st" "es_accepted_count st' = es_accepted_count st"
      "es_filled_order_count st' = es_filled_order_count st"
      "es_failed_order_count st' = Suc (es_failed_order_count st)"
  have "valid_transaction t" using t by (auto elim: release_Inr)
  then show ?thesis
    using assms(2) apply_valid[OF pf] by (auto simp: books_ok_def led rest intro: reserved_before_mono)
qed

lemma settle_books:
  assumes "settle_order env b i plan (ns, st) = Inr (ns', st')" and "sk_release key \<le> b"
    and "books_ok T st ((key, i) # ready)"
  shows "books_ok T st' ready"
proof (rule settle_order_Inr[OF assms(1)])
  fix t
  assume val: "validate_execution_plan i plan b (rc_execution_mode (ev_config env)) = Inr ()"
    and t: "settlement_transaction (ev_sha env) i (ep_ledger_postings plan) b = Inr t"
    and pf: "portfolio_apply (es_portfolio st) t = Inr (es_portfolio st')"
    and led: "rd_ledger_sink (es_recorder st') = rd_ledger_sink (es_recorder st) @ [t]"
      "rd_fill_sink (es_recorder st') = rd_fill_sink (es_recorder st)
        @ sort_key (\<lambda>f. digest_hex (fl_order_id f)) (ep_fills plan)"
    and rest: "es_orders st' = es_orders st" "es_accepted_count st' = es_accepted_count st"
      "es_filled_order_count st' = Suc (es_filled_order_count st)"
      "es_failed_order_count st' = es_failed_order_count st"
  have fills: "fl_order_id f = in_order_id i \<and> fl_boundary_ordinal f = b" if "f \<in> set (ep_fills plan)" for f
    using val that by (auto simp: validate_execution_plan_def list_ex_iff split: if_splits)
  have mine: "reserved_before (rd_ledger_sink (es_recorder st) @ [t]) (in_order_id i) b"
    using assms(2,3) by (auto simp: books_ok_def intro: reserved_before_mono)
  show ?thesis
    using assms(3) apply_valid[OF pf] settlement_Inr[OF t] fills mine
    by (auto simp: books_ok_def led rest intro: reserved_before_mono)
qed

lemma execute_books:
  assumes "execute_order env b (ns, st) i = Inr (ns', st')" and "sk_release key \<le> b"
    and "books_ok T st ((key, i) # ready)"
  shows "books_ok T st' ready"
  using assms fail_books settle_books
  by (auto simp: execute_order_def split: if_splits sum.splits exn.splits)

lemma execute_all_books:
  assumes "foldE (execute_order env b) x (map snd ready) = Inr x'"
    and "\<forall>y \<in> set ready. sk_release (fst y) \<le> b" and "books_ok T (snd x) ready"
  shows "books_ok T (snd x') []"
  using assms
proof (induction ready arbitrary: x)
  case Nil
  then show ?case by simp
next
  case (Cons y ready)
  then obtain x1 where "execute_order env b x (snd y) = Inr x1" "foldE (execute_order env b) x1 (map snd ready) = Inr x'"
    by auto
  then show ?case
    using Cons.IH[of x1] Cons.prems(2,3) execute_books[of env b "fst x" "snd x" "snd y" "fst x1" "snd x1" "fst y" T ready]
    by simp
qed


section \<open>The reserved accounts\<close>

text \<open>What each kind of order transaction adds to a reserved account.\<close>

lemma reserved_inj:
  "reserved_account_id a = Inr r \<Longrightarrow> reserved_account_id b = Inr r \<Longrightarrow> a = b"
  by (auto dest!: reserved_account_id_eq)

lemma reservation_net:
  assumes "reservation_transaction sha i b = Inr t" and "reserved_account_id a = Inr r"
  shows "posting_net (lt_postings t) r a = (if in_sold_asset_id i = a then in_amount_in_atomic i else 0)"
  by (rule reservation_Inr[OF assms(1)])
     (use assms(2) in \<open>auto dest: reserved_inj available_reserved_distinct\<close>)

lemma release_net:
  assumes "release_transaction sha i b code = Inr t" and "reserved_account_id a = Inr r"
  shows "posting_net (lt_postings t) r a = - (if in_sold_asset_id i = a then in_amount_in_atomic i else 0)"
  by (rule release_Inr[OF assms(1)])
     (use assms(2) in \<open>auto dest: reserved_inj available_reserved_distinct\<close>)

lemma posting_net_none:
  "\<forall>p \<in> set ps. la_account_id (po_account p) = r \<longrightarrow> po_asset_id p \<noteq> a \<Longrightarrow> posting_net ps r a = 0"
  by (induction ps) auto

lemma settles_net:
  assumes "settles i ps" and "reserved_account_id a = Inr r"
  shows "posting_net ps r a = - (if in_sold_asset_id i = a then in_amount_in_atomic i else 0)"
proof (cases "in_sold_asset_id i = a")
  case True
  then show ?thesis using assms by (auto simp: settles_def)
next
  case False
  have "po_asset_id p \<noteq> a" if "p \<in> set ps" "la_account_id (po_account p) = r" for p
  proof (cases "is_portfolio_kind (la_kind (po_account p))")
    case True
    then show ?thesis
      using assms that False unfolding settles_def
      by (metis available_reserved_distinct)
  next
    case no: False
    then show ?thesis using assms that unfolding settles_def by metis
  qed
  then show ?thesis using False posting_net_none[of ps r a] by simp
qed

lemma accept_reserves:
  assumes "accept_and_reserve env b i release (ns, st) = Inr (ns', st')"
    and "scheduler_inv (es_orders st)" and "SwapExactInIntent i = Inr i" and "reserves_ok st []"
  shows "reserves_ok st' []"
proof (rule accept_and_reserve_Inr[OF assms(1)])
  fix t key
  assume t: "reservation_transaction (ev_sha env) i b = Inr t"
    and pf: "portfolio_apply (es_portfolio st) t = Inr (es_portfolio st')"
    and q: "enqueue (es_orders st) key i = Inr (es_orders st')"
    and rest: "es_venue st' = es_venue st" "es_historical st' = es_historical st"
  have heap: "pending_orders st' [] = add_mset i (pending_orders st [])"
    using enqueue_keeps(2)[OF assms(2) q] by (simp add: pending_orders_def)
  show ?thesis
    using assms(3,4) portfolio_apply_effect(2)[OF pf] reservation_net[OF t]
    by (simp add: reserves_ok_def heap rest)
qed

lemma reject_reserves:
  assumes "reject_order b i reason (ns, st) = Inr (ns', st')" and "reserves_ok st ready"
  shows "reserves_ok st' ready"
  using assms(2) reject_order_Inr[OF assms(1)] by (simp add: reserves_ok_def pending_orders_def)

lemma accept_order_reserves:
  assumes "accept_order env b (ns, st) i = Inr (ns', st')" and "scheduler_inv (es_orders st)"
    and "SwapExactInIntent i = Inr i" and "reserves_ok st []"
  shows "reserves_ok st' []"
proof -
  obtain release where r: "order_release (ev_timeline env) b (sl_order_slots (rc_latency (ev_config env))) = Inr release"
    using assms(1) by (auto simp: accept_order_def)
  show ?thesis
    using assms r by (cases release)
      (auto simp: accept_order_def intro: reject_reserves accept_reserves split: if_splits)
qed

lemma fail_reserves:
  assumes "release_failed_order env b i code (ns, st) = Inr (ns', st')"
    and "reserves_ok st ((key, i) # ready)"
  shows "reserves_ok st' ready"
proof (rule release_failed_order_Inr[OF assms(1)])
  fix t
  assume t: "release_transaction (ev_sha env) i b code = Inr t"
    and pf: "portfolio_apply (es_portfolio st) t = Inr (es_portfolio st')"
    and rest: "es_orders st' = es_orders st" "es_venue st' = es_venue st" "es_historical st' = es_historical st"
  have heap: "pending_orders st ((key, i) # ready) = add_mset i (pending_orders st' ready)"
    by (simp add: pending_orders_def rest)
  show ?thesis
    using assms(2) portfolio_apply_effect(2)[OF pf] release_net[OF t]
    by (simp add: reserves_ok_def heap rest)
qed

lemma settle_reserves:
  assumes "settle_order env b i plan (ns, st) = Inr (ns', st')"
    and "settles i (ep_ledger_postings plan)" and "reserves_ok st ((key, i) # ready)"
  shows "reserves_ok st' ready"
proof (rule settle_order_Inr[OF assms(1)])
  fix t
  assume t: "settlement_transaction (ev_sha env) i (ep_ledger_postings plan) b = Inr t"
    and pf: "portfolio_apply (es_portfolio st) t = Inr (es_portfolio st')"
    and rest: "es_orders st' = es_orders st" "es_historical st' = es_historical st"
    and v: "es_venue st' = es_venue st \<or> (\<exists>x. apply_transition (es_venue st) x = Inr (es_venue st'))"
  have heap: "pending_orders st ((key, i) # ready) = add_mset i (pending_orders st' ready)"
    by (simp add: pending_orders_def rest)
  have pools: "pools_ok (vs_pools (es_venue st'))"
    using v assms(3) venue_reducer.step_keeps[OF _ TrueI] unfolding apply_transition_def reserves_ok_def
    by metis
  show ?thesis
    using assms(3) pools portfolio_apply_effect(2)[OF pf] settles_net[OF assms(2)] settlement_Inr[OF t]
    by (simp add: reserves_ok_def heap rest)
qed

text \<open>The client side of the execution contract.\<close>

context venue_execution
begin

lemma execute_reserves:
  assumes "ev_execute env = execute" and "execute_order env b (ns, st) i = Inr (ns', st')"
    and "reserves_ok st ((key, i) # ready)"
  shows "reserves_ok st' ready"
proof -
  have i: "SwapExactInIntent i = Inr i" "pools_ok (vs_pools (es_venue st))"
    using assms(3) by (simp_all add: reserves_ok_def pending_orders_def)
  have plan: "settles i (ep_ledger_postings p)" if "ev_execute env i (es_venue st) b m = Inr p" for p m
    using settles_plan[OF i] that assms(1) by simp
  show ?thesis
    using assms(2,3)
    by (auto simp: execute_order_def intro: fail_reserves settle_reserves plan split: if_splits sum.splits exn.splits)
qed

lemma execute_all_reserves:
  assumes "ev_execute env = execute" and "foldE (execute_order env b) x (map snd ready) = Inr x'"
    and "reserves_ok (snd x) ready"
  shows "reserves_ok (snd x') []"
  using assms(2,3)
proof (induction ready arbitrary: x)
  case Nil
  then show ?case by simp
next
  case (Cons y ready)
  then obtain x1 where "execute_order env b x (snd y) = Inr x1" "foldE (execute_order env b) x1 (map snd ready) = Inr x'"
    by auto
  then show ?case
    using Cons.IH[of x1] Cons.prems(2)
      execute_reserves[OF assms(1), of b "fst x" "snd x" "snd y" "fst x1" "snd x1" "fst y" ready]
    by simp
qed

end


section \<open>One transaction group\<close>

lemma acceptance_books:
  assumes "acceptance_phase env b proposed st = Inr (ns, st')" and "timeline_inv (ev_timeline env)"
    and "books_ok T st []"
  shows "books_ok T st' []"
proof -
  have run: "foldE (accept_order env b) ([], st) proposed = Inr (ns, st')"
    using assms(1) by (auto simp: acceptance_phase_def)
  have "books_ok T (snd (ns, st')) []"
    by (rule foldE_invariant[OF run, where P = "\<lambda>x. books_ok T (snd x) []"])
       (use assms(2,3) accept_order_books in auto)
  then show ?thesis by simp
qed

lemma acceptance_reserves:
  assumes "acceptance_phase env b proposed st = Inr (ns, st')" and "timeline_inv (ev_timeline env)"
    and "books_ok T st []" and "\<forall>i \<in> set proposed. SwapExactInIntent i = Inr i" and "reserves_ok st []"
  shows "reserves_ok st' []"
proof -
  have run: "foldE (accept_order env b) ([], st) proposed = Inr (ns, st')"
    using assms(1) by (auto simp: acceptance_phase_def)
  have "books_ok T (snd (ns, st')) [] \<and> reserves_ok (snd (ns, st')) []"
  proof (rule foldE_invariant[OF run, where P = "\<lambda>x. books_ok T (snd x) [] \<and> reserves_ok (snd x) []"])
    fix x i x'
    assume i: "i \<in> set proposed" and inv: "books_ok T (snd x) [] \<and> reserves_ok (snd x) []"
      and step: "accept_order env b x i = Inr x'"
    obtain ms s ms' s' where x: "x = (ms, s)" "x' = (ms', s')" by (cases x; cases x')
    have "scheduler_inv (es_orders s)" using inv by (simp add: x books_ok_def)
    then show "books_ok T (snd x') [] \<and> reserves_ok (snd x') []"
      using inv step i assms(2,4) accept_order_books[of env b ms s i ms' s' T]
        accept_order_reserves[of env b ms s i ms' s'] by (simp add: x)
  qed (use assms in simp)
  then show ?thesis by simp
qed

lemma pop_orders:
  assumes "scheduler_inv q" and "pop_ready q b phase = (ready, q')"
  shows "scheduler_inv q'" and "mset (cs_heap q) = mset (cs_heap q') + mset ready"
    and "\<forall>x \<in> set ready. sk_release (fst x) \<le> b"
  using pop_ready_filter[OF assms] by (auto simp: item_prefix_def less_eq_prod_def)

lemma execution_start:
  assumes "pop_ready (es_orders st) b phase = (ready, q)" and "books_ok T st []"
  shows "books_ok T (st\<lparr>es_orders := q\<rparr>) ready"
    and "reserves_ok st [] \<Longrightarrow> reserves_ok (st\<lparr>es_orders := q\<rparr>) ready"
proof -
  have "scheduler_inv (es_orders st)" using assms(2) by (simp add: books_ok_def)
  note pop = pop_orders[OF this assms(1)]
  have items: "set (cs_heap (es_orders st)) = set (cs_heap q) \<union> set ready"
    using arg_cong[OF pop(2), of set_mset] by simp
  have "scheduler_len (es_orders st) = scheduler_len q + length ready"
    using arg_cong[OF pop(2), of size] by (simp add: scheduler_len_def)
  then show "books_ok T (st\<lparr>es_orders := q\<rparr>) ready"
    using assms(2) pop(1) by (simp add: books_ok_def items)
  show "reserves_ok st [] \<Longrightarrow> reserves_ok (st\<lparr>es_orders := q\<rparr>) ready"
    using pop(2) by (simp add: reserves_ok_def pending_orders_def)
qed

lemma execution_books:
  assumes "execution_phase env b (ns, st) = Inr (ns', st')" and "books_ok T st []"
  shows "books_ok T st' []"
proof -
  obtain ready q where pop: "pop_ready (es_orders st) b VENUE_EXECUTION_AND_LEDGER_COMMIT = (ready, q)"
    by fastforce
  have run: "foldE (execute_order env b) (ns, st\<lparr>es_orders := q\<rparr>) (map snd ready) = Inr (ns', st')"
    using assms(1) by (simp add: execution_phase_def pop)
  have "scheduler_inv (es_orders st)" using assms(2) by (simp add: books_ok_def)
  then show ?thesis
    using execute_all_books[OF run pop_orders(3)] execution_start(1)[OF pop assms(2)] pop by simp
qed

lemma propose_valid:
  assumes "propose_intent b (ps, st) it = Inr (ps', st')"
  shows "\<exists>i. it = Swap_Intent i \<and> ps' = ps @ [i]"
  using assms by (auto simp: propose_intent_def split: intent.splits if_splits)

text \<open>
  A strategy hands over intents built by their constructors, which is where Python checks them.
\<close>

definition intents_valid :: "'s run_env \<Rightarrow> bool" where
  "intents_valid env \<longleftrightarrow> (\<forall>s e c its s'. ev_on_event env s e c = Inr (its, s') \<longrightarrow>
     list_all (\<lambda>it. case it of Swap_Intent i \<Rightarrow> SwapExactInIntent i = Inr i | Round_Trip_Intent _ \<Rightarrow> True) its)"

lemma strategy_valid:
  assumes "strategy_phase env b inst ds st = Inr (proposed, st')" and "intents_valid env"
  shows "\<forall>i \<in> set proposed. SwapExactInIntent i = Inr i"
proof -
  let ?ok = "\<lambda>x. \<forall>i \<in> set (fst x). SwapExactInIntent i = Inr i"
  obtain ps where run: "foldE (observe_strategy env b inst) ([], st) ds = Inr (ps, st')"
    and sorted: "proposed = sort_key (\<lambda>i. digest_hex (in_order_id i)) ps"
    using assms(1) by (auto simp: strategy_phase_def)
  have "?ok (ps, st')"
  proof (rule foldE_invariant[OF run, where P = ?ok])
    fix x item x'
    assume ok: "?ok x" and step: "observe_strategy env b inst x item = Inr x'"
    obtain qs s where x: "x = (qs, s)" by (cases x)
    obtain c its sg where ev: "ev_on_event env (es_strategy s) (ob_event item) c = Inr (its, sg)"
      and props: "foldE (propose_intent b) (qs, s\<lparr>es_strategy := sg\<rparr>) its = Inr x'"
      using step unfolding observe_strategy_def x by auto
    have valid: "SwapExactInIntent i = Inr i" if "Swap_Intent i \<in> set its" for i
      using assms(2) ev that by (fastforce simp: intents_valid_def list_all_iff)
    show "?ok x'"
    proof (rule foldE_invariant[OF props, where P = ?ok])
      fix y it y'
      assume "it \<in> set its" "?ok y" "propose_intent b y it = Inr y'"
      then show "?ok y'"
        using propose_valid[of b "fst y" "snd y" it "fst y'" "snd y'"] valid by auto
    qed (use ok in \<open>simp add: x\<close>)
  qed simp
  then show ?thesis by (simp add: sorted)
qed

text \<open>The phases of one group, with what the first five leave of the books.\<close>

lemma reduce_group_phases:
  assumes "reduce_group env st ((b, g), es) = Inr st'"
  obtains s1 s2 s3 s4 ds inst s5 proposed ns s6 ns' s7 where
    "core s1 = core st" and "apply_history_phase env b g es s1 = Inr s2" and "core s4 = core s2"
    and "strategy_phase env b inst ds s4 = Inr (proposed, s5)" and "core s5 = core s4"
    and "acceptance_phase env b proposed s5 = Inr (ns, s6)"
    and "execution_phase env b (ns, s6) = Inr (ns', s7)" and "core st' = core s7"
proof -
  obtain s1 s2 s3 s4 ds inst s5 proposed x6 x7 where s: "check_group env b es st = Inr s1"
    "apply_history_phase env b g es s1 = Inr s2" "register_phase env b es s2 = Inr s3"
    "deliver_phase env b s3 = Inr (ds, s4)" "strategy_phase env b inst ds s4 = Inr (proposed, s5)"
    "acceptance_phase env b proposed s5 = Inr x6" "execution_phase env b x6 = Inr x7"
    "notification_phase env b inst x7 = Inr st'"
    using assms unfolding reduce_group_def prod.case bindE_eq_Inr by (auto split: prod.splits)
  obtain ns s6 ns' s7 where x: "x6 = (ns, s6)" "x7 = (ns', s7)" by (cases x6; cases x7)
  show thesis
    using that[of s1 s2 s4 inst ds proposed s5 ns s6 ns' s7] s core_check_group[OF s(1)]
      core_register[OF s(3)] core_deliver[OF s(4)] core_strategy[OF s(5)] core_notification[OF s(8)[unfolded x]]
    by (simp add: x)
qed


lemma history_reserves:
  assumes "apply_history_phase env b g es st = Inr st'" and "reserves_ok st ready"
  shows "reserves_ok st' ready"
  using core_history[OF assms(1)] assms(2) by (simp add: books_def reserves_ok_def pending_orders_def)

lemma history_books:
  assumes "apply_history_phase env b g es st = Inr st'"
  shows "books st' = books st"
proof -
  obtain h s1 v ms ms' where s1: "record_audit (st\<lparr>es_historical := h, es_group_count := Suc (es_group_count st),
          es_event_count := es_event_count st + length es\<rparr>) ms = Inr s1"
    and s2: "record_audit (s1\<lparr>es_venue := v\<rparr>) ms' = Inr st'"
    using assms(1) unfolding apply_history_phase_def bindE_eq_Inr by blast
  show ?thesis
    using core_audit[OF s1] core_audit[OF s2] by (simp add: core_def books_def)
qed

lemma books_ok_books: "books st' = books st \<Longrightarrow> books_ok T st' ready = books_ok T st ready"
  by (simp add: books_def books_ok_def)

lemma reduce_group_books:
  assumes "reduce_group env st x = Inr st'" and "timeline_inv (ev_timeline env)" and "books_ok T st []"
  shows "books_ok T st' []"
proof -
  obtain b g es where x: "x = ((b, g), es)" by (metis prod.exhaust)
  show ?thesis
  proof (rule reduce_group_phases[OF assms(1)[unfolded x]])
    fix s1 s2 s4 ds inst s5 proposed ns s6 ns' s7
    assume s: "core s1 = core st" "apply_history_phase env b g es s1 = Inr s2" "core s4 = core s2"
      "core s5 = core s4" "core st' = core s7"
      and acc: "acceptance_phase env b proposed s5 = Inr (ns, s6)"
      and exe: "execution_phase env b (ns, s6) = Inr (ns', s7)"
    have "books_ok T s5 []"
      using assms(3) core_fields(1)[OF s(1)] core_fields(1)[OF s(3)] core_fields(1)[OF s(4)]
        books_ok_books[OF history_books[OF s(2)]] by metis
    with acceptance_books[OF acc assms(2)] execution_books[OF exe] core_fields(1)[OF s(5)]
    show ?thesis by metis
  qed
qed

lemma run_books:
  assumes "foldE (reduce_group env) st gs = Inr st'" and "timeline_inv (ev_timeline env)"
    and "books_ok T st []"
  shows "books_ok T st' []"
  by (rule foldE_invariant[OF assms(1), where P = "\<lambda>s. books_ok T s []"])
     (use assms(2,3) reduce_group_books in auto)

context venue_execution
begin

lemma execution_reserves:
  assumes "ev_execute env = execute" and "execution_phase env b (ns, st) = Inr (ns', st')"
    and "books_ok T st []" and "reserves_ok st []"
  shows "reserves_ok st' []"
proof -
  obtain ready q where pop: "pop_ready (es_orders st) b VENUE_EXECUTION_AND_LEDGER_COMMIT = (ready, q)"
    by fastforce
  have run: "foldE (execute_order env b) (ns, st\<lparr>es_orders := q\<rparr>) (map snd ready) = Inr (ns', st')"
    using assms(2) by (simp add: execution_phase_def pop)
  show ?thesis
    using execute_all_reserves[OF assms(1) run] execution_start(2)[OF pop assms(3,4)] by simp
qed

lemma reduce_group_reserves:
  assumes "ev_execute env = execute" and "intents_valid env"
    and "reduce_group env st x = Inr st'" and "timeline_inv (ev_timeline env)"
    and "books_ok T st []" and "reserves_ok st []"
  shows "reserves_ok st' []"
proof -
  obtain b g es where x: "x = ((b, g), es)" by (metis prod.exhaust)
  show ?thesis
  proof (rule reduce_group_phases[OF assms(3)[unfolded x]])
    fix s1 s2 s4 ds inst s5 proposed ns s6 ns' s7
    assume s: "core s1 = core st" "apply_history_phase env b g es s1 = Inr s2" "core s4 = core s2"
      "core s5 = core s4" "core st' = core s7"
      and strat: "strategy_phase env b inst ds s4 = Inr (proposed, s5)"
      and acc: "acceptance_phase env b proposed s5 = Inr (ns, s6)"
      and exe: "execution_phase env b (ns, s6) = Inr (ns', s7)"
    have r1: "reserves_ok s1 []" "books_ok T s1 []"
      using assms(5,6) core_fields[OF s(1)] by simp_all
    then have "reserves_ok s2 []" "books_ok T s2 []"
      using history_reserves[OF s(2)] books_ok_books[OF history_books[OF s(2)]] by simp_all
    then have r5: "reserves_ok s5 []" "books_ok T s5 []"
      using core_fields[OF s(3)] core_fields[OF s(4)] by simp_all
    have "reserves_ok s6 []" "books_ok T s6 []"
      using acceptance_reserves[OF acc assms(4) r5(2) strategy_valid[OF strat assms(2)] r5(1)]
        acceptance_books[OF acc assms(4) r5(2)] by simp_all
    then show ?thesis
      using execution_reserves[OF assms(1) exe] core_fields(2)[OF s(5)] by simp
  qed
qed

lemma run_reserves:
  assumes "ev_execute env = execute" and "intents_valid env"
    and "foldE (reduce_group env) st gs = Inr st'" and "timeline_inv (ev_timeline env)"
    and "books_ok T st []" and "reserves_ok st []"
  shows "books_ok T st' [] \<and> reserves_ok st' []"
  by (rule foldE_invariant[OF assms(3), where P = "\<lambda>s. books_ok T s [] \<and> reserves_ok s []"])
     (use assms reduce_group_books reduce_group_reserves in blast)+

end

section \<open>A run from its start\<close>

lemma initial_reserved:
  assumes "PortfolioState initial = Inr pf" and "reserved_account_id a = Inr r"
  shows "balance_of pf r a = 0"
proof -
  have "\<forall>k v. dict_get (pf_balances pf) k = Some v \<longrightarrow> fst k \<noteq> r"
    by (rule foldE_invariant[OF assms(1)[unfolded PortfolioState_def]])
       (use assms(2) in \<open>fastforce simp: dict_get_set dest: available_reserved_distinct split: if_splits\<close>)+
  then show ?thesis
    by (auto simp: balance_of_def dict_get_default_def split: option.split)
qed

lemma initial_state_ok:
  assumes "initial_state src c ds s = Inr st"
  shows "\<exists>pf. PortfolioState (rc_initial_available c) = Inr pf \<and> books_ok (portfolio_total pf) st []
    \<and> reserves_ok st []"
proof -
  obtain rec pf m where st: "Recorder = Inr rec" "PortfolioState (rc_initial_available c) = Inr pf"
    "st = \<lparr>es_historical = HistoricalReferenceState, es_observed = ObservedState,
          es_venue = SimulationVenueState (rc_execution_mode c), es_portfolio = pf,
          es_strategy = s, es_recorder = rec, es_observations = CausalScheduler,
          es_materialized = m, es_orders = CausalScheduler, es_seen_orders = {},
          es_terminal_orders = {}, es_group_count = 0, es_event_count = 0, es_delivered_count = 0,
          es_accepted_count = 0, es_rejected_count = 0, es_filled_order_count = 0,
          es_failed_order_count = 0, es_previous_sort_key = None, es_previous_group_boundary = None,
          es_event_row_index = 0\<rparr>"
    using assms unfolding initial_state_def bindE_eq_Inr by blast
  have "rd_fill_sink rec = []"
    using st(1) by (auto simp: Recorder_def)
  then show ?thesis
    using PortfolioState_inv(1)[OF st(2)] initial_reserved[OF st(2)] scheduler_inv_init
    by (auto simp: books_ok_def reserves_ok_def pending_orders_def st HistoricalReferenceState_def
        SimulationVenueState_def pools_ok_Nil scheduler_len_def CausalScheduler_def)
qed

text \<open>A run is a fold of \<open>reduce_group\<close> from a good state, ended with an empty order queue.\<close>

lemma run_engine_Inr:
  assumes "run_engine env src ds s = Inr (summary, st)"
  obtains env' st0 pf where "ev_execute env' = ev_execute env" and "ev_on_event env' = ev_on_event env"
    and "timeline_inv (ev_timeline env')" and "foldE (reduce_group env') st0 (group_events (hx_events src)) = Inr st"
    and "PortfolioState (rc_initial_available (ev_config env)) = Inr pf"
    and "books_ok (portfolio_total pf) st0 []" and "reserves_ok st0 []"
    and "cs_heap (es_orders st) = []" and "finish_run env' src st = Inr summary"
proof -
  obtain line st0 where l: "BoundaryTimeline (hx_boundaries src) = Inr line"
    "initial_state src (ev_config env) ds s = Inr st0"
    using assms unfolding run_engine_def bindE_eq_Inr by blast
  define env' where "env' = env\<lparr>ev_timeline := line, ev_rng := rc_root_seed (ev_config env),
           ev_event_at := (case hx_event_at src of
              Some f \<Rightarrow> f | None \<Rightarrow> (\<lambda>_. Inl (EngineInvariantError ''no row index'')))\<rparr>"
  have run: "foldE (reduce_group env') st0 (group_events (hx_events src)) = Inr st" "finish_run env' src st = Inr summary"
    using assms unfolding run_engine_def l bindE_Inr Let_def env'_def[symmetric] by auto
  have "cs_heap (es_orders st) = []"
    using run(2) by (auto simp: finish_run_def scheduler_len_def split: if_splits)
  then show thesis
    using that[of env' st0] run initial_state_ok[OF l(2)] BoundaryTimeline_inv[OF l(1)] by (auto simp: env'_def)
qed

end
