(* ===== verification/Engine_Sample.thy ===== *)
theory Engine_Sample
  imports Reference_Engine
begin

text \<open>
  A two-group run of the engine, small enough to follow by hand: a swap gives the pool its reserves, the
  strategy answers the observation with one order, the order is reserved, and the constant-product
  venue fills it at the next boundary. The streams' bytes are not computed: the recording lemmas
  say that a small record is always accepted.
\<close>

section \<open>Recording is total on small records\<close>

definition json_ok :: "json \<Rightarrow> bool" where
  "json_ok v \<longleftrightarrow> json_validate v = Inr () \<and> 0 < json_weight v \<and> json_weight v < 1000000000000"

definition audited :: "recorder \<Rightarrow> json \<Rightarrow> recorder" where
  "audited r v = r\<lparr>rd_audit := stream_fed (rd_audit r) v, rd_audit_sink := rd_audit_sink r @ [v]\<rparr>"

definition booked :: "recorder \<Rightarrow> ledger_transaction \<Rightarrow> recorder" where
  "booked r t = r\<lparr>rd_ledger := stream_fed (rd_ledger r) (ledger_document t), rd_ledger_sink := rd_ledger_sink r @ [t]\<rparr>"

definition filled_in :: "recorder \<Rightarrow> fill \<Rightarrow> recorder" where
  "filled_in r f = r\<lparr>rd_fills := stream_fed (rd_fills r) (fill_document f), rd_fill_sink := rd_fill_sink r @ [f]\<rparr>"

lemma recorder_sinks:
  "rd_ledger_sink (audited r v) = rd_ledger_sink r" "rd_fill_sink (audited r v) = rd_fill_sink r"
  "rd_ledger_sink (booked r t) = rd_ledger_sink r @ [t]" "rd_fill_sink (booked r t) = rd_fill_sink r"
  "rd_ledger_sink (filled_in r f) = rd_ledger_sink r" "rd_fill_sink (filled_in r f) = rd_fill_sink r @ [f]"
  by (simp_all add: audited_def booked_def filled_in_def)

lemma record_audit_ok: "json_ok (JObj ms) \<Longrightarrow> record_audit st ms = Inr (st\<lparr>es_recorder := audited (es_recorder st) (JObj ms)\<rparr>)"
  by (simp add: record_audit_def append_audit_def json_ok_def stream_append_fed audited_def)

lemma record_ledger_ok: "json_ok (ledger_document t) \<Longrightarrow> record_ledger st t = Inr (st\<lparr>es_recorder := booked (es_recorder st) t\<rparr>)"
  by (simp add: record_ledger_def append_ledger_def json_ok_def stream_append_fed booked_def)

lemma record_fill_ok: "json_ok (fill_document t) \<Longrightarrow> record_fill st t = Inr (st\<lparr>es_recorder := filled_in (es_recorder st) t\<rparr>)"
  by (simp add: record_fill_def append_fill_def json_ok_def stream_append_fed filled_in_def)

lemma domain_digest_ok:
  "json_validate v = Inr () \<Longrightarrow> domain \<noteq> [] \<Longrightarrow> domain = strip domain \<Longrightarrow> nul \<notin> set domain \<Longrightarrow>
   domain_digest (\<lambda>_. replicate 64 (CHR ''0'')) domain v = ContentDigest (replicate 64 (CHR ''0''))"
  by (simp add: domain_digest_def canonical_json_bytes_def)


section \<open>The sample inputs\<close>

definition sample_digest :: "char \<Rightarrow> digest" where
  "sample_digest c = sha256_prefix @ replicate 64 c"

definition run_envelope :: "int \<Rightarrow> char \<Rightarrow> event_envelope" where
  "run_envelope index c = sample_envelope\<lparr>ee_position := \<lparr>cp_network_id = ''n'',
         cp_position_schema_id = BLOCK32_TRANSACTION32_POSITION_SCHEMA_ID, cp_block_ordinal = 0,
         cp_transaction_index = index, cp_event_index = Some 0\<rparr>,
       ee_transaction_group_id := sample_digest c, ee_canonical_event_id := sample_digest c,
       ee_stable_causal_id := sample_digest c\<rparr>"

definition run_payload :: bytes where
  "run_payload = (case reference_amm_trade_payload ''A'' ''B'' (Some 1000) (Some 2000) of
     Inr bs \<Rightarrow> bs | Inl _ \<Rightarrow> [])"

definition run_trade :: venue_trade_event where
  "run_trade = sample_trade run_payload\<lparr>vt_envelope := run_envelope 0 (CHR ''1'')\<rparr>"

definition run_swap :: canonical_event where
  "run_swap = Venue_Trade_Event run_trade"

definition run_block :: canonical_event where
  "run_block = Block_Event \<lparr>be_envelope = run_envelope 1 (CHR ''2''), be_block_time_ns = None,
     be_tx_count = None, be_block_hash = None\<rparr>"

definition run_boundary :: "int \<Rightarrow> replay_boundary" where
  "run_boundary b = \<lparr>rb_network_id = ''n'', rb_position_schema_id = BLOCK32_TRANSACTION32_POSITION_SCHEMA_ID,
     rb_boundary_ordinal = b, rb_block_ordinal = 0\<rparr>"

definition run_source :: historical_source where
  "run_source = \<lparr>hx_logical_content_hash = sample_digest (CHR ''a''),
     hx_replay_semantics_id = sample_digest (CHR ''b''), hx_boundaries = [run_boundary 1, run_boundary 2],
     hx_events = [run_swap, run_block], hx_event_at = None\<rparr>"

definition run_intent :: swap_intent where
  "run_intent = sample_intent\<lparr>in_order_id := sample_digest (CHR ''f''), in_created_boundary_ordinal := 1\<rparr>"

text \<open>The strategy emits one order, at the first event it observes.\<close>

definition sample_env :: "nat run_env" where
  "sample_env = \<lparr>ev_sha = (\<lambda>_. replicate 64 (CHR ''0'')),
     ev_on_event = (\<lambda>n e c. Inr (if n = 0 then [Swap_Intent run_intent] else [], Suc n)),
     ev_on_execution = (\<lambda>n x c. Inr n),
     ev_execute = constant_product_model 30,
     ev_accept = (\<lambda>i v. bindE (pv_available v (in_sold_asset_id i)) (\<lambda>b. Inr (in_amount_in_atomic i \<le> b))),
     ev_config = \<lparr>rc_execution_mode = SHADOW_STATE_REPLAY,
       rc_latency = \<lparr>sl_observation_slots = 0, sl_order_slots = 0, sl_bundle_identity = sample_digest (CHR ''c'')\<rparr>,
       rc_root_seed = 7, rc_initial_available = [(''A'', 500)], rc_maximum_dynamic_items = 10,
       rc_engine_bundle_id = sample_digest (CHR ''d'')\<rparr>,
     ev_features = (\<lambda>_ _ _. Inr None), ev_predictions = (\<lambda>_ _ _. Inr None),
     ev_event_at = (\<lambda>_. Inl (EngineInvariantError ''no row index'')),
     ev_timeline = \<lparr>bt_boundaries = [run_boundary 1, run_boundary 2], bt_ordinals = [1, 2], bt_blocks = [0, 0],
                bt_index_by_ordinal = [(1, 0), (2, 1)]\<rparr>,
     ev_rng = 7\<rparr>"

section \<open>What the engine reads of them\<close>

lemma sample_hex [simp]: "digest_hex (sample_digest c) = replicate 64 c"
  by (simp add: digest_hex_def sample_digest_def sha256_prefix_def)

lemma sample_hex_valid:
  assumes c: "is_lower_hex c"
  shows "ContentDigest (replicate 64 c) = Inr (replicate 64 c)"
proof -
  have "\<not> is_space c" "\<not> char_code c < 32"
    using c by (auto simp: is_lower_hex_def is_space_def char_code_def Let_def)
  then have s: "strip (replicate 64 c) = replicate 64 c" "list_all is_lower_hex (replicate 64 c)"
    "\<not> list_ex (\<lambda>c. char_code c < 32) (replicate 64 c)"
    using c by (simp_all add: strip_def list_all_iff list_ex_iff)
  moreover have "digest_hex (replicate 64 c) = replicate 64 c"
    by (simp add: digest_hex_def sha256_prefix_def)
  ultimately show ?thesis
    by (simp add: ContentDigest_def sha256_re_def Identifier_def)
qed

lemma sample_digests:
  "ContentDigest (replicate 64 (CHR ''0'')) = Inr (replicate 64 (CHR ''0''))"
  "ContentDigest (replicate 64 (CHR ''1'')) = Inr (replicate 64 (CHR ''1''))"
  "ContentDigest (replicate 64 (CHR ''2'')) = Inr (replicate 64 (CHR ''2''))"
  "ContentDigest (replicate 64 (CHR ''f'')) = Inr (replicate 64 (CHR ''f''))"
  by (rule sample_hex_valid; simp add: is_lower_hex_def char_code_def)+

lemma run_payload: "reference_amm_trade_payload ''A'' ''B'' (Some 1000) (Some 2000) = Inr run_payload"
  by (simp add: run_payload_def reference_amm_trade_payload_def json_optional_int_def canonical_json_bytes_def)

lemma run_trade_view:
  "trade_snapshot run_trade b m = Inr (Some \<lparr>ps_pool_id = ''P'', ps_asset_a_id = ''A'', ps_asset_b_id = ''B'',
     ps_reserve_a = 1000, ps_reserve_b = 2000, ps_boundary_ordinal = b\<rparr>)"
  "trade_pool_id run_trade = Inr ''P''" "trade_asset_a_id run_trade = Inr ''A''"
  "trade_asset_b_id run_trade = Inr ''B''"
proof -
  have ids: "Identifier [c] = Inr [c]" if "c \<in> {CHR ''A'', CHR ''B'', CHR ''P''}" for c
    using that by (auto simp: Identifier_def strip_def is_space_def char_code_def)
  have v: "trade_asset_a_id run_trade = Inr ''A'' \<and> trade_asset_b_id run_trade = Inr ''B''
    \<and> trade_reserve_a_after run_trade = Inr (Some 1000)
    \<and> trade_reserve_b_after run_trade = Inr (Some 2000) \<and> trade_pool_id run_trade = Inr ''P''"
    by (rule amm_payload_read[OF run_payload])
       (use ids in \<open>simp_all add: run_trade_def sample_trade_def\<close>)
  then show "trade_snapshot run_trade b m = Inr (Some \<lparr>ps_pool_id = ''P'', ps_asset_a_id = ''A'',
      ps_asset_b_id = ''B'', ps_reserve_a = 1000, ps_reserve_b = 2000, ps_boundary_ordinal = b\<rparr>)"
    by (simp add: trade_snapshot_def PoolSnapshot_def)
  from v show "trade_pool_id run_trade = Inr ''P''" "trade_asset_a_id run_trade = Inr ''A''"
    "trade_asset_b_id run_trade = Inr ''B''" by blast+
qed

lemma run_envelope_fields:
  "ee_transaction_group_id (run_envelope k c) = sample_digest c"
  "ee_canonical_event_id (run_envelope k c) = sample_digest c"
  "ee_stable_causal_id (run_envelope k c) = sample_digest c"
  "exact_ordering (ee_ordering_fidelity (run_envelope k c))"
  "ee_position (run_envelope k c) = \<lparr>cp_network_id = ''n'',
         cp_position_schema_id = BLOCK32_TRANSACTION32_POSITION_SCHEMA_ID, cp_block_ordinal = 0,
         cp_transaction_index = k, cp_event_index = Some 0\<rparr>"
  "envelope_boundary_ordinal (run_envelope 0 c) = 1" "envelope_boundary_ordinal (run_envelope 1 c) = 2"
  by (simp_all add: run_envelope_def sample_envelope_def exact_ordering_def envelope_boundary_ordinal_def
      ordinal_of_def position_boundary_ordinal_def boundary_ordinal_def require_supported_schema_def
      checked_uint32_def checked_transaction_index_def UINT64_MAX_def UINT32_MAX_def)

lemma run_envelopes:
  "event_envelope_of run_swap = run_envelope 0 (CHR ''1'')" "event_envelope_of run_block = run_envelope 1 (CHR ''2'')"
  "vt_envelope run_trade = run_envelope 0 (CHR ''1'')"
  by (simp_all add: run_swap_def run_block_def run_trade_def)

lemma run_coordinates:
  "event_boundary run_swap = 1" "event_boundary run_block = 2"
  "event_group run_swap = sample_digest (CHR ''1'')" "event_group run_block = sample_digest (CHR ''2'')"
  "event_causal_hex run_swap = replicate 64 (CHR ''1'')" "event_causal_hex run_block = replicate 64 (CHR ''2'')"
  by (simp_all add: event_boundary_def event_group_def event_causal_hex_def run_envelopes run_envelope_fields)

lemma run_sort_keys:
  "canonical_event_sort_key run_swap =
     (''n'', BLOCK32_TRANSACTION32_POSITION_SCHEMA_ID, 1, replicate 64 (CHR ''1''), 0, replicate 64 (CHR ''1''))"
  "canonical_event_sort_key run_block =
     (''n'', BLOCK32_TRANSACTION32_POSITION_SCHEMA_ID, 2, replicate 64 (CHR ''2''), 0, replicate 64 (CHR ''2''))"
  by (simp_all add: canonical_event_sort_key_def Let_def run_envelopes run_envelope_fields)

lemma run_groups:
  "group_events [run_swap, run_block] =
     [((1, replicate 64 (CHR ''1'')), [run_swap]), ((2, replicate 64 (CHR ''2'')), [run_block])]"
  by (simp add: group_key_def run_coordinates)

abbreviation "run_line \<equiv> ev_timeline sample_env"

lemma run_timeline: "BoundaryTimeline (hx_boundaries run_source) = Inr run_line"
  by (simp add: BoundaryTimeline_def run_boundary_def rb_identity_def run_source_def sample_env_def)

lemma run_env_eq:
  "sample_env\<lparr>ev_timeline := run_line, ev_rng := rc_root_seed (ev_config sample_env),
     ev_event_at := (case hx_event_at run_source of
        Some f \<Rightarrow> f | None \<Rightarrow> (\<lambda>_. Inl (EngineInvariantError ''no row index'')))\<rparr> = sample_env"
  by (simp add: sample_env_def run_source_def)

lemma run_bisect: "bisect_left [0, 0] (0 :: int) 0 = 0"
  by (simp add: bisect_left_def bisect_left_loop_cases)

lemma run_releases:
  "observation_release run_line 1 0 = Inr (Some 1)" "observation_release run_line 2 0 = Inr (Some 2)"
  "order_release run_line 1 0 = Inr (Some 2)"
  by (simp_all add: sample_env_def observation_release_def order_release_def timeline_index_def run_bisect Let_def)

lemma run_boundary_coordinates:
  "boundary_coordinates 1 BLOCK32_TRANSACTION32_POSITION_SCHEMA_ID = Inr (0, 0)"
  "boundary_coordinates 2 BLOCK32_TRANSACTION32_POSITION_SCHEMA_ID = Inr (0, 1)"
  by (simp_all add: boundary_coordinates_iff)

lemma run_line_facts:
  "timeline_require run_line 1 = Inr ()" "timeline_require run_line 2 = Inr ()"
  "timeline_require_event run_line run_swap = Inr ()" "timeline_require_event run_line run_block = Inr ()"
  by (simp_all add: sample_env_def timeline_require_def timeline_index_def timeline_require_event_def Let_def
      run_coordinates run_envelopes run_envelope_fields run_boundary_def rb_transaction_index_def
      run_boundary_coordinates)

definition run_instant :: "int \<Rightarrow> scheduler_instant" where
  "run_instant b = \<lparr>si_boundary_ordinal = b, si_chain_position = Some \<lparr>cp_network_id = ''n'',
     cp_position_schema_id = BLOCK32_TRANSACTION32_POSITION_SCHEMA_ID, cp_block_ordinal = 0,
     cp_transaction_index = b - 1, cp_event_index = None\<rparr>, si_monotone_logical_ns = None\<rparr>"

lemma run_instants:
  "timeline_instant run_line 1 = Inr (run_instant 1)" "timeline_instant run_line 2 = Inr (run_instant 2)"
  by (simp_all add: sample_env_def timeline_instant_def timeline_index_def rb_chain_position_def
      rb_transaction_index_def run_boundary_def run_boundary_coordinates run_instant_def ChainPosition_def
      require_supported_schema_def checked_uint32_def checked_transaction_index_def UINT32_MAX_def
      SchedulerInstant_def position_boundary_ordinal_def boundary_ordinal_def UINT64_MAX_def Let_def)

section \<open>The first group\<close>

lemmas bindE_weak_cong = arg_cong2[of _ _ _ _ bindE, OF _ refl]

definition run_recorder :: recorder where
  "run_recorder = \<lparr>
     rd_audit = \<lparr>sh_fed = utf8 ''backtest.canonical-audit-stream.v1'' @ [nul], sh_count = 0\<rparr>,
     rd_ledger = \<lparr>sh_fed = utf8 ''backtest.canonical-ledger-stream.v2'' @ [nul], sh_count = 0\<rparr>,
     rd_fills = \<lparr>sh_fed = utf8 ''backtest.canonical-fill-stream.v1'' @ [nul], sh_count = 0\<rparr>,
     rd_audit_sink = [], rd_ledger_sink = [], rd_fill_sink = []\<rparr>"

definition run_start :: "nat engine_state" where
  "run_start = \<lparr>es_historical = HistoricalReferenceState, es_observed = ObservedState,
     es_venue = SimulationVenueState SHADOW_STATE_REPLAY,
     es_portfolio = \<lparr>pf_balances = [((''portfolio:available:A'', ''A''), 500)],
       pf_account_kinds = [(''portfolio:available:A'', PORTFOLIO_AVAILABLE)], pf_transaction_count = 0\<rparr>,
     es_strategy = 0, es_recorder = run_recorder,
     es_observations = CausalScheduler, es_materialized = None, es_orders = CausalScheduler,
     es_seen_orders = {}, es_terminal_orders = {}, es_group_count = 0, es_event_count = 0,
     es_delivered_count = 0, es_accepted_count = 0, es_rejected_count = 0, es_filled_order_count = 0,
     es_failed_order_count = 0, es_previous_sort_key = None, es_previous_group_boundary = None,
     es_event_row_index = 0\<rparr>"

lemma run_accounts:
  "available_account_id ''A'' = Inr ''portfolio:available:A''"
  "available_account_id ''B'' = Inr ''portfolio:available:B''"
  "reserved_account_id ''A'' = Inr ''portfolio:reserved:A''" "Identifier ''venue:P'' = Inr ''venue:P''"
  by (simp_all add: available_account_id_def reserved_account_id_def Identifier_def strip_def is_space_def char_code_def)

lemma run_recorder: "Recorder = Inr run_recorder"
  by (simp add: run_recorder_def Recorder_def CanonicalStreamHasher_def strip_def is_space_def char_code_def nul_def)

lemma run_initial: "initial_state run_source (ev_config sample_env) None 0 = Inr run_start"
  by (simp add: initial_state_def run_start_def sample_env_def PortfolioState_def KeyedRng_def initial_merge_def
      run_accounts run_recorder)

lemma group1_check:
  "check_group sample_env 1 [run_swap] run_start = Inr (run_start\<lparr>
     es_previous_sort_key := Some (canonical_event_sort_key run_swap), es_previous_group_boundary := Some 1\<rparr>)"
  by (simp add: check_group_def check_sort_key_def run_start_def Let_def run_line_facts)


definition run_pool :: pool_snapshot where
  "run_pool = \<lparr>ps_pool_id = ''P'', ps_asset_a_id = ''A'', ps_asset_b_id = ''B'',
     ps_reserve_a = 1000, ps_reserve_b = 2000, ps_boundary_ordinal = 1\<rparr>"

definition run_history :: historical_state where
  "run_history = \<lparr>hs_pools = [(''P'', run_pool)], hs_assets = {''A'', ''B''}, hs_block_times_ns = []\<rparr>"

lemma run_apply_swap: "apply_group HistoricalReferenceState [run_swap] = Inr run_history"
  by (simp add: apply_group_def run_coordinates run_envelopes run_envelope_fields)
     (simp add: run_swap_def run_trade_view HistoricalReferenceState_def run_history_def run_pool_def Let_def)

lemma run_reconcile_swap:
  "reconcile_group (SimulationVenueState SHADOW_STATE_REPLAY) [run_swap] run_history
     = Inr \<lparr>vs_mode = SHADOW_STATE_REPLAY, vs_pools = [(''P'', run_pool)]\<rparr>"
  by (simp add: reconcile_group_def touched_pools_def run_swap_def run_trade_view reconcile_pool_def
      historical_pool_def run_history_def SimulationVenueState_def)

lemma run_observe_swap:
  "observed_apply ObservedState run_swap = Inr \<lparr>os_pools = [(''P'', run_pool)], os_assets = {}\<rparr>"
  by (simp add: run_swap_def run_trade_view run_envelopes run_envelope_fields ObservedState_def run_pool_def)

text \<open>The state between the two groups, for any recorder: the order is reserved and due at boundary 2.\<close>

definition run_order_key :: scheduler_key where
  "run_order_key = Scheduler_Key 2 VENUE_EXECUTION_AND_LEDGER_COMMIT 1 (replicate 64 (CHR ''f''))"

definition run_reserved :: portfolio_state where
  "run_reserved = \<lparr>pf_balances = [((''portfolio:available:A'', ''A''), 400), ((''portfolio:reserved:A'', ''A''), 100)],
     pf_account_kinds = [(''portfolio:available:A'', PORTFOLIO_AVAILABLE), (''portfolio:reserved:A'', PORTFOLIO_RESERVED)],
     pf_transaction_count = 1\<rparr>"

definition run_middle :: "recorder \<Rightarrow> nat engine_state" where
  "run_middle r = \<lparr>es_historical = run_history,
     es_observed = \<lparr>os_pools = [(''P'', run_pool)], os_assets = {}\<rparr>,
     es_venue = \<lparr>vs_mode = SHADOW_STATE_REPLAY, vs_pools = [(''P'', run_pool)]\<rparr>,
     es_portfolio = run_reserved,
     es_strategy = 1, es_recorder = r,
     es_observations = CausalScheduler, es_materialized = None,
     es_orders = \<lparr>cs_heap = [(run_order_key, run_intent)], cs_keys = {run_order_key}\<rparr>,
     es_seen_orders = {sample_digest (CHR ''f'')}, es_terminal_orders = {}, es_group_count = 1, es_event_count = 1,
     es_delivered_count = 1, es_accepted_count = 1, es_rejected_count = 0, es_filled_order_count = 0,
     es_failed_order_count = 0, es_previous_sort_key = Some (canonical_event_sort_key run_swap),
     es_previous_group_boundary = Some 1, es_event_row_index = 1\<rparr>"

lemmas run_evals = record_audit_ok record_ledger_ok record_fill_ok json_ok_def recorder_sinks phase_member_def
  run_coordinates run_envelopes run_envelope_fields run_line_facts run_releases run_instants run_accounts sample_digests
  Let_def

lemma sample_env_fields:
  "ev_sha sample_env = (\<lambda>_. replicate 64 (CHR ''0''))"
  "ev_on_event sample_env = (\<lambda>n e c. Inr (if n = 0 then [Swap_Intent run_intent] else [], Suc n))"
  "ev_on_execution sample_env = (\<lambda>n x c. Inr n)"
  "ev_execute sample_env = constant_product_model 30"
  "ev_accept sample_env = (\<lambda>i v. bindE (pv_available v (in_sold_asset_id i)) (\<lambda>b. Inr (in_amount_in_atomic i \<le> b)))"
  "rc_execution_mode (ev_config sample_env) = SHADOW_STATE_REPLAY"
  "sl_observation_slots (rc_latency (ev_config sample_env)) = 0"
  "sl_order_slots (rc_latency (ev_config sample_env)) = 0"
  "rc_maximum_dynamic_items (ev_config sample_env) = 10"
  by (simp_all add: sample_env_def)

lemma run_intent_fields:
  "in_order_id run_intent = sample_digest (CHR ''f'')" "in_created_boundary_ordinal run_intent = 1"
  "in_pool_id run_intent = ''P''" "in_sold_asset_id run_intent = ''A''" "in_bought_asset_id run_intent = ''B''"
  "in_amount_in_atomic run_intent = 100" "in_minimum_amount_out_atomic run_intent = 150"
  by (simp_all add: run_intent_def sample_intent_def)

lemma hex_of_digits [simp]: "c \<noteq> CHR ''s'' \<Longrightarrow> digest_hex (replicate 64 c) = replicate 64 c"
  by (simp add: digest_hex_def sha256_prefix_def)

lemmas run_ledger_evals = run_intent_fields run_accounts Posting_def LedgerAccount_def
  domain_digest_ok order_causal_digest_def sample_digests LedgerTransaction_def strip_def is_space_def
  char_code_def nul_def posting_totals_def dict_get_default_def json_ok_def ledger_document_def
  posting_documents_def posting_document_sort_key_def posting_document_json_def
  portfolio_apply_def portfolio_preview_def preview_posting_def is_portfolio_kind_def portfolio_commit_candidate_def Let_def

lemma run_reservation:
  "\<exists>t. reservation_transaction (\<lambda>_. replicate 64 (CHR ''0'')) run_intent 1 = Inr t
     \<and> json_ok (ledger_document t)
     \<and> portfolio_apply (es_portfolio run_start) t = Inr run_reserved"
  by (simp add: reservation_transaction_def run_ledger_evals run_start_def run_reserved_def
      cong: bindE_weak_cong)

lemma group1_history:
  assumes "es_historical st = HistoricalReferenceState"
    and "es_venue st = SimulationVenueState SHADOW_STATE_REPLAY"
  shows "\<exists>r. apply_history_phase sample_env 1 (replicate 64 (CHR ''1'')) [run_swap] st = Inr (st\<lparr>
    es_historical := run_history, es_venue := \<lparr>vs_mode = SHADOW_STATE_REPLAY, vs_pools = [(''P'', run_pool)]\<rparr>,
    es_group_count := Suc (es_group_count st), es_event_count := Suc (es_event_count st), es_recorder := r\<rparr>)
   \<and> rd_ledger_sink r = rd_ledger_sink (es_recorder st) \<and> rd_fill_sink r = rd_fill_sink (es_recorder st)"
  using assms
  by (cases st) (simp add: apply_history_phase_def run_apply_swap run_reconcile_swap run_evals sample_env_fields
      cong: bindE_weak_cong)

lemma group1_strategy:
  assumes "es_strategy st = 0" and "es_seen_orders st = {}"
  shows "\<exists>r. strategy_phase sample_env 1 (run_instant 1) [\<lparr>ob_event = run_swap, ob_event_row_id = 0\<rparr>] st =
      Inr ([run_intent], st\<lparr>es_strategy := 1, es_seen_orders := {sample_digest (CHR ''f'')}, es_recorder := r\<rparr>)
    \<and> rd_ledger_sink r = rd_ledger_sink (es_recorder st) \<and> rd_fill_sink r = rd_fill_sink (es_recorder st)"
  using assms
  by (cases st) (simp add: strategy_phase_def observe_strategy_def strategy_context_of_def CausalScalarView_def
     StrategyContext_def sample_env_fields propose_intent_def run_intent_fields run_evals cong: bindE_weak_cong)


lemma group1_register:
  assumes "es_materialized st = None" and "es_observations st = CausalScheduler"
    and "es_orders st = CausalScheduler" and "es_event_row_index st = 0"
  shows "\<exists>k. sk_creator k = 1 \<and> sk_release k = 1 \<and> sk_phase k = OBSERVATION_DELIVERY
    \<and> register_phase sample_env 1 [run_swap] st = Inr (st\<lparr>
      es_observations := \<lparr>cs_heap = [(k, \<lparr>ob_event = run_swap, ob_event_row_id = 0\<rparr>)], cs_keys = {k}\<rparr>,
      es_event_row_index := 1\<rparr>)"
  using assms
  by (cases st) (simp add: register_phase_def register_observation_def sample_env_fields SchedulerKey_def
     enqueue_def CausalScheduler_def heappush_def check_queue_budget_def pending_observation_count_def
     scheduler_len_def run_evals cong: bindE_weak_cong)

lemma pop_ready_Nil: "pop_ready CausalScheduler b p = ([], CausalScheduler)"
  unfolding pop_ready_def pop_ready_loop_split[OF scheduler_inv_init] by (simp add: CausalScheduler_def)

lemma pop_ready_single:
  assumes "(sk_release k, phase_value (sk_phase k)) \<le> (b, phase_value p)"
  shows "pop_ready \<lparr>cs_heap = [(k, v)], cs_keys = {k}\<rparr> b p = ([(k, v)], CausalScheduler)"
proof -
  have "scheduler_inv \<lparr>cs_heap = [(k, v)], cs_keys = {k}\<rparr>"
    by (simp add: scheduler_inv_def)
  from pop_ready_loop_split[OF this] assms show ?thesis
    by (simp add: pop_ready_def item_prefix_def CausalScheduler_def)
qed

lemma pop_ready_later:
  assumes "\<not> (sk_release k, phase_value (sk_phase k)) \<le> (b, phase_value p)"
  shows "pop_ready \<lparr>cs_heap = [(k, v)], cs_keys = {k}\<rparr> b p = ([], \<lparr>cs_heap = [(k, v)], cs_keys = {k}\<rparr>)"
proof -
  have "scheduler_inv \<lparr>cs_heap = [(k, v)], cs_keys = {k}\<rparr>"
    by (simp add: scheduler_inv_def)
  from pop_ready_loop_split[OF this] assms show ?thesis
    by (simp add: pop_ready_def item_prefix_def)
qed

lemma group1_deliver:
  assumes "es_materialized st = None" and "es_observed st = ObservedState"
    and "es_observations st = \<lparr>cs_heap = [(k, \<lparr>ob_event = run_swap, ob_event_row_id = 0\<rparr>)], cs_keys = {k}\<rparr>"
    and "sk_creator k = 1" "sk_release k = 1" "sk_phase k = OBSERVATION_DELIVERY"
  shows "\<exists>r. deliver_phase sample_env 1 st = Inr ([\<lparr>ob_event = run_swap, ob_event_row_id = 0\<rparr>],
      st\<lparr>es_observed := \<lparr>os_pools = [(''P'', run_pool)], os_assets = {}\<rparr>, es_observations := CausalScheduler,
        es_delivered_count := Suc (es_delivered_count st), es_recorder := r\<rparr>)
    \<and> rd_ledger_sink r = rd_ledger_sink (es_recorder st) \<and> rd_fill_sink r = rd_fill_sink (es_recorder st)"
  using assms
  by (cases st) (simp add: deliver_phase_def ready_observations_def deliver_observation_def pop_ready_single
     run_observe_swap run_evals cong: bindE_weak_cong)

lemma group1_accept:
  assumes "es_portfolio st = es_portfolio run_start" and "es_orders st = CausalScheduler"
    and "es_materialized st = None" and "es_observations st = CausalScheduler"
  shows "\<exists>r n. acceptance_phase sample_env 1 [run_intent] st = Inr ([n], st\<lparr>
      es_portfolio := run_reserved,
      es_orders := \<lparr>cs_heap = [(run_order_key, run_intent)], cs_keys = {run_order_key}\<rparr>,
      es_accepted_count := Suc (es_accepted_count st), es_recorder := r\<rparr>)
    \<and> rd_fill_sink r = rd_fill_sink (es_recorder st)
    \<and> en_order_id n = sample_digest (CHR ''f'') \<and> en_status n = ACCEPTED"
proof -
  obtain t where t: "reservation_transaction (\<lambda>_. replicate 64 (CHR ''0'')) run_intent 1 = Inr t"
    "json_ok (ledger_document t)" "portfolio_apply (es_portfolio run_start) t = Inr run_reserved"
    using run_reservation by blast
  have a: "available (es_portfolio run_start) ''A'' = Inr 500"
    by (simp add: available_def run_start_def run_accounts balance_of_def dict_get_default_def)
  show ?thesis
    using assms
    by (cases st) (simp add: acceptance_phase_def accept_order_def accept_and_reserve_def sample_env_fields t(1,3) a
       record_ledger_ok[OF t(2)]
       run_intent_fields run_order_key_def PortfolioView_def order_causal_digest_def SchedulerKey_def enqueue_def
       CausalScheduler_def heappush_def ExecutionNotification_def check_queue_budget_def
       pending_observation_count_def scheduler_len_def run_evals cong: bindE_weak_cong)
qed


lemma run_empty_queue_execution:
  "execution_phase env b (ns, st) = Inr (ns, st)"
  if "pop_ready (es_orders st) b VENUE_EXECUTION_AND_LEDGER_COMMIT = ([], es_orders st)"
  using that by (simp add: execution_phase_def)

lemma run_notify:
  assumes "ns = [n]" and "b = 1 \<or> b = 2"
    and "en_order_id n = sample_digest (CHR ''f'')" and "en_status n \<in> {ACCEPTED, FILLED}"
  shows "\<exists>r. notification_phase sample_env b (run_instant b) (ns, st) = Inr (st\<lparr>es_recorder := r\<rparr>)
    \<and> rd_fill_sink r = rd_fill_sink (es_recorder st)"
  using assms
  by (cases st) (auto simp: notification_phase_def notify_strategy_def strategy_context_of_def CausalScalarView_def
     StrategyContext_def sample_env_fields run_evals cong: bindE_weak_cong)

lemma run_group1:
  "\<exists>r. reduce_group sample_env run_start ((1, replicate 64 (CHR ''1'')), [run_swap]) = Inr (run_middle r)
    \<and> rd_fill_sink r = []"
proof -
  let ?s1 = "run_start\<lparr>es_previous_sort_key := Some (canonical_event_sort_key run_swap),
     es_previous_group_boundary := Some 1\<rparr>"
  obtain r2 where s2: "apply_history_phase sample_env 1 (replicate 64 (CHR ''1'')) [run_swap] ?s1 = Inr (?s1\<lparr>
    es_historical := run_history, es_venue := \<lparr>vs_mode = SHADOW_STATE_REPLAY, vs_pools = [(''P'', run_pool)]\<rparr>,
    es_group_count := Suc (es_group_count ?s1), es_event_count := Suc (es_event_count ?s1), es_recorder := r2\<rparr>)"
    (is "_ = Inr ?s2") "rd_fill_sink r2 = []"
    using group1_history[of ?s1] by (auto simp: run_start_def run_recorder_def)
  obtain k where k: "sk_creator k = 1" "sk_release k = 1" "sk_phase k = OBSERVATION_DELIVERY"
    and s3: "register_phase sample_env 1 [run_swap] ?s2 = Inr (?s2\<lparr>
      es_observations := \<lparr>cs_heap = [(k, \<lparr>ob_event = run_swap, ob_event_row_id = 0\<rparr>)], cs_keys = {k}\<rparr>,
      es_event_row_index := 1\<rparr>)" (is "_ = Inr ?s3")
    using group1_register[of ?s2] by (auto simp: run_start_def)
  obtain r4 where s4: "deliver_phase sample_env 1 ?s3 = Inr ([\<lparr>ob_event = run_swap, ob_event_row_id = 0\<rparr>],
      ?s3\<lparr>es_observed := \<lparr>os_pools = [(''P'', run_pool)], os_assets = {}\<rparr>, es_observations := CausalScheduler,
        es_delivered_count := Suc (es_delivered_count ?s3), es_recorder := r4\<rparr>)" (is "_ = Inr (_, ?s4)")
    "rd_fill_sink r4 = []"
    using group1_deliver[of ?s3 k] k s2(2) by (auto simp: run_start_def)
  obtain r5 where s5: "strategy_phase sample_env 1 (run_instant 1) [\<lparr>ob_event = run_swap, ob_event_row_id = 0\<rparr>] ?s4 =
      Inr ([run_intent], ?s4\<lparr>es_strategy := 1, es_seen_orders := {sample_digest (CHR ''f'')}, es_recorder := r5\<rparr>)"
    (is "_ = Inr (_, ?s5)") "rd_fill_sink r5 = []"
    using group1_strategy[of ?s4] s4(2) by (auto simp: run_start_def)
  obtain r6 n where s6: "acceptance_phase sample_env 1 [run_intent] ?s5 = Inr ([n], ?s5\<lparr>
      es_portfolio := run_reserved,
      es_orders := \<lparr>cs_heap = [(run_order_key, run_intent)], cs_keys = {run_order_key}\<rparr>,
      es_accepted_count := Suc (es_accepted_count ?s5), es_recorder := r6\<rparr>)" (is "_ = Inr (_, ?s6)")
    "rd_fill_sink r6 = []" "en_order_id n = sample_digest (CHR ''f'')" "en_status n = ACCEPTED"
    using group1_accept[of ?s5] s5(2) by (auto simp: run_start_def)
  have s7: "execution_phase sample_env 1 ([n], ?s6) = Inr ([n], ?s6)"
    by (rule run_empty_queue_execution) (simp add: pop_ready_later run_order_key_def)
  obtain r8 where s8: "notification_phase sample_env 1 (run_instant 1) ([n], ?s6) = Inr (?s6\<lparr>es_recorder := r8\<rparr>)"
    "rd_fill_sink r8 = []"
    using run_notify[of "[n]" n 1 ?s6] s6 by auto
  have "?s6\<lparr>es_recorder := r8\<rparr> = run_middle r8"
    by (simp add: run_start_def run_middle_def)
  moreover have "reduce_group sample_env run_start ((1, replicate 64 (CHR ''1'')), [run_swap])
      = Inr (?s6\<lparr>es_recorder := r8\<rparr>)"
    unfolding reduce_group_def prod.case group1_check s2(1) s3 s4(1) run_instants s5(1) s6(1) s7 s8(1) bindE_Inr ..
  ultimately show ?thesis using s8(2) by metis
qed


section \<open>The second group\<close>

text \<open>The order fills: 100 in at 30 basis points, no fee after flooring, 181 out of reserves 1000 and 2000.\<close>

definition run_fill :: fill where
  "run_fill = \<lparr>fl_order_id = sample_digest (CHR ''f''), fl_pool_id = ''P'', fl_sold_asset_id = ''A'',
     fl_bought_asset_id = ''B'', fl_amount_in_atomic = 100, fl_amount_out_atomic = 181,
     fl_fee_amount_atomic = 0, fl_boundary_ordinal = 2\<rparr>"

definition run_postings :: "posting list" where
  "run_postings = [
     \<lparr>po_account = \<lparr>la_account_id = ''portfolio:reserved:A'', la_kind = PORTFOLIO_RESERVED\<rparr>,
      po_asset_id = ''A'', po_amount_atomic = -100\<rparr>,
     \<lparr>po_account = \<lparr>la_account_id = ''venue:P'', la_kind = VENUE\<rparr>, po_asset_id = ''A'', po_amount_atomic = 100\<rparr>,
     \<lparr>po_account = \<lparr>la_account_id = ''venue:P'', la_kind = VENUE\<rparr>, po_asset_id = ''B'', po_amount_atomic = -181\<rparr>,
     \<lparr>po_account = \<lparr>la_account_id = ''portfolio:available:B'', la_kind = PORTFOLIO_AVAILABLE\<rparr>,
      po_asset_id = ''B'', po_amount_atomic = 181\<rparr>]"

definition run_plan :: execution_plan where
  "run_plan = \<lparr>ep_transition = Some \<lparr>vr_pool_id = ''P'', vr_reserve_a_after = 1100, vr_reserve_b_after = 1819\<rparr>,
     ep_fills = [run_fill], ep_ledger_postings = run_postings, ep_reports = [''FILLED'']\<rparr>"

lemma run_execute:
  "constant_product_model 30 run_intent \<lparr>vs_mode = SHADOW_STATE_REPLAY, vs_pools = [(''P'', run_pool)]\<rparr> 2
     SHADOW_STATE_REPLAY = Inr run_plan"
  by (simp add: constant_product_model_def ConstantProductExecutionModel_def constant_product_execute_def
      venue_pool_def run_pool_def run_intent_fields pool_orientation_def swap_fee_def swap_output_def
      swap_postings_def Posting_def LedgerAccount_def VenueTransition_def Fill_def ExecutionPlan_def Let_def
      run_accounts run_plan_def run_fill_def run_postings_def)

definition run_settled :: portfolio_state where
  "run_settled = \<lparr>pf_balances = [((''portfolio:available:A'', ''A''), 400), ((''portfolio:reserved:A'', ''A''), 0),
       ((''venue:P'', ''A''), 100), ((''venue:P'', ''B''), -181), ((''portfolio:available:B'', ''B''), 181)],
     pf_account_kinds = [(''portfolio:available:A'', PORTFOLIO_AVAILABLE), (''portfolio:reserved:A'', PORTFOLIO_RESERVED),
       (''venue:P'', VENUE), (''portfolio:available:B'', PORTFOLIO_AVAILABLE)],
     pf_transaction_count = 2\<rparr>"

lemma run_settlement:
  "\<exists>t c. settlement_transaction (\<lambda>_. replicate 64 (CHR ''0'')) run_intent run_postings 2 = Inr t
     \<and> json_ok (ledger_document t)
     \<and> portfolio_preview run_reserved t = Inr c \<and> portfolio_commit_candidate run_reserved c = run_settled"
  by (simp add: settlement_transaction_def run_ledger_evals run_postings_def run_reserved_def run_settled_def
      cong: bindE_weak_cong)

definition run_end :: "recorder \<Rightarrow> nat engine_state" where
  "run_end r = (run_middle r)\<lparr>
     es_venue := \<lparr>vs_mode = SHADOW_STATE_REPLAY,
       vs_pools = [(''P'', run_pool\<lparr>ps_reserve_a := 1100, ps_reserve_b := 1819\<rparr>)]\<rparr>,
     es_portfolio := run_settled, es_strategy := 2, es_orders := CausalScheduler,
     es_terminal_orders := {sample_digest (CHR ''f'')}, es_group_count := 2, es_event_count := 2,
     es_delivered_count := 2, es_filled_order_count := 1,
     es_previous_sort_key := Some (canonical_event_sort_key run_block),
     es_previous_group_boundary := Some 2, es_event_row_index := 2\<rparr>"

lemma group2_check:
  "check_group sample_env 2 [run_block] (run_middle r) = Inr ((run_middle r)\<lparr>
     es_previous_sort_key := Some (canonical_event_sort_key run_block), es_previous_group_boundary := Some 2\<rparr>)"
  by (simp add: check_group_def check_sort_key_def run_middle_def Let_def run_line_facts run_sort_keys)

lemma group2_history:
  assumes "es_historical st = run_history" and "es_venue st = \<lparr>vs_mode = SHADOW_STATE_REPLAY, vs_pools = ps\<rparr>"
  shows "\<exists>r. apply_history_phase sample_env 2 (replicate 64 (CHR ''2'')) [run_block] st = Inr (st\<lparr>
    es_group_count := Suc (es_group_count st), es_event_count := Suc (es_event_count st), es_recorder := r\<rparr>)
   \<and> rd_fill_sink r = rd_fill_sink (es_recorder st)"
proof -
  have "apply_group run_history [run_block] = Inr run_history"
    by (simp add: apply_group_def run_coordinates run_envelopes run_envelope_fields) (simp add: run_block_def)
  moreover have "reconcile_group v [run_block] h = Inr v" for v h
    by (simp add: reconcile_group_def touched_pools_def run_block_def)
  ultimately show ?thesis
    using assms by (cases st) (simp add: apply_history_phase_def run_evals sample_env_fields cong: bindE_weak_cong)
qed

lemma group2_register:
  assumes "es_materialized st = None" and "es_observations st = CausalScheduler"
    and "scheduler_len (es_orders st) = 1" and "es_event_row_index st = 1"
  shows "\<exists>k. sk_creator k = 2 \<and> sk_release k = 2 \<and> sk_phase k = OBSERVATION_DELIVERY
    \<and> register_phase sample_env 2 [run_block] st = Inr (st\<lparr>
      es_observations := \<lparr>cs_heap = [(k, \<lparr>ob_event = run_block, ob_event_row_id = 1\<rparr>)], cs_keys = {k}\<rparr>,
      es_event_row_index := 2\<rparr>)"
  using assms
  by (cases st) (simp add: register_phase_def register_observation_def sample_env_fields SchedulerKey_def
     enqueue_def CausalScheduler_def heappush_def check_queue_budget_def pending_observation_count_def
     scheduler_len_def run_evals cong: bindE_weak_cong)

lemma group2_deliver:
  assumes "es_materialized st = None"
    and "es_observations st = \<lparr>cs_heap = [(k, \<lparr>ob_event = run_block, ob_event_row_id = 1\<rparr>)], cs_keys = {k}\<rparr>"
    and "sk_creator k = 2" "sk_release k = 2" "sk_phase k = OBSERVATION_DELIVERY"
  shows "\<exists>r. deliver_phase sample_env 2 st = Inr ([\<lparr>ob_event = run_block, ob_event_row_id = 1\<rparr>],
      st\<lparr>es_observations := CausalScheduler,
        es_delivered_count := Suc (es_delivered_count st), es_recorder := r\<rparr>)
    \<and> rd_fill_sink r = rd_fill_sink (es_recorder st)"
proof -
  have "observed_apply st run_block = Inr st" for st by (simp add: run_block_def)
  then show ?thesis
    using assms
    by (cases st) (simp add: deliver_phase_def ready_observations_def deliver_observation_def pop_ready_single
       run_evals cong: bindE_weak_cong)
qed

lemma group2_strategy:
  assumes "es_strategy st = 1"
  shows "strategy_phase sample_env 2 (run_instant 2) [\<lparr>ob_event = run_block, ob_event_row_id = 1\<rparr>] st =
      Inr ([], st\<lparr>es_strategy := 2\<rparr>)"
  using assms
  by (cases st) (simp add: strategy_phase_def observe_strategy_def strategy_context_of_def CausalScalarView_def
     StrategyContext_def sample_env_fields run_evals numeral_2_eq_2 cong: bindE_weak_cong)

lemma group2_accept:
  assumes "scheduler_len (es_orders st) = 1"
    and "es_materialized st = None" and "es_observations st = CausalScheduler"
  shows "acceptance_phase sample_env 2 [] st = Inr ([], st)"
  using assms by (simp add: acceptance_phase_def check_queue_budget_def pending_observation_count_def
      scheduler_len_def CausalScheduler_def sample_env_fields)

lemma group2_execute:
  assumes "es_portfolio st = run_reserved" and "es_terminal_orders st = {}"
    and "es_orders st = \<lparr>cs_heap = [(run_order_key, run_intent)], cs_keys = {run_order_key}\<rparr>"
    and "es_venue st = \<lparr>vs_mode = SHADOW_STATE_REPLAY, vs_pools = [(''P'', run_pool)]\<rparr>"
  shows "\<exists>r n. execution_phase sample_env 2 ([], st) = Inr ([n], st\<lparr>
      es_venue := \<lparr>vs_mode = SHADOW_STATE_REPLAY,
        vs_pools = [(''P'', run_pool\<lparr>ps_reserve_a := 1100, ps_reserve_b := 1819\<rparr>)]\<rparr>,
      es_portfolio := run_settled, es_orders := CausalScheduler,
      es_terminal_orders := {sample_digest (CHR ''f'')},
      es_filled_order_count := Suc (es_filled_order_count st), es_recorder := r\<rparr>)
    \<and> rd_fill_sink r = rd_fill_sink (es_recorder st) @ [run_fill]
    \<and> en_order_id n = sample_digest (CHR ''f'') \<and> en_status n = FILLED"
proof -
  obtain t c where t: "settlement_transaction (\<lambda>_. replicate 64 (CHR ''0'')) run_intent run_postings 2 = Inr t"
    "json_ok (ledger_document t)" "portfolio_preview run_reserved t = Inr c"
    "portfolio_commit_candidate run_reserved c = run_settled"
    using run_settlement by blast
  have f: "json_ok (fill_document run_fill)"
    by (simp add: json_ok_def fill_document_def run_fill_def)
  have p: "ep_transition run_plan = Some \<lparr>vr_pool_id = ''P'', vr_reserve_a_after = 1100, vr_reserve_b_after = 1819\<rparr>"
    "ep_fills run_plan = [run_fill]" "ep_ledger_postings run_plan = run_postings"
    "fl_order_id run_fill = sample_digest (CHR ''f'')"
    by (simp_all add: run_plan_def run_fill_def)
  have x: "preview_transition \<lparr>vs_mode = SHADOW_STATE_REPLAY, vs_pools = [(''P'', run_pool)]\<rparr>
      \<lparr>vr_pool_id = ''P'', vr_reserve_a_after = 1100, vr_reserve_b_after = 1819\<rparr>
    = Inr [(''P'', run_pool\<lparr>ps_reserve_a := 1100, ps_reserve_b := 1819\<rparr>)]"
    by (simp add: preview_transition_def venue_pool_def PoolSnapshot_def run_pool_def)
  have v: "validate_execution_plan run_intent run_plan 2 SHADOW_STATE_REPLAY = Inr ()"
    by (simp add: validate_execution_plan_def run_plan_def run_fill_def run_intent_fields)
  show ?thesis
    using assms
    by (cases st) (simp add: execution_phase_def pop_ready_single run_order_key_def execute_order_def run_intent_fields
       sample_env_fields run_execute settle_order_def v t(1,3,4) record_ledger_ok[OF t(2)] record_fill_ok[OF f]
       commit_settlement_def x p venue_commit_candidate_def ExecutionNotification_def run_evals
       cong: bindE_weak_cong)
qed


lemma run_group2:
  assumes "rd_fill_sink r = []"
  shows "\<exists>r'. reduce_group sample_env (run_middle r) ((2, replicate 64 (CHR ''2'')), [run_block])
      = Inr ((run_end r)\<lparr>es_recorder := r'\<rparr>) \<and> rd_fill_sink r' = [run_fill]"
proof -
  let ?s1 = "(run_middle r)\<lparr>es_previous_sort_key := Some (canonical_event_sort_key run_block),
     es_previous_group_boundary := Some 2\<rparr>"
  obtain r2 where s2: "apply_history_phase sample_env 2 (replicate 64 (CHR ''2'')) [run_block] ?s1 = Inr (?s1\<lparr>
    es_group_count := Suc (es_group_count ?s1), es_event_count := Suc (es_event_count ?s1), es_recorder := r2\<rparr>)"
    (is "_ = Inr ?s2") "rd_fill_sink r2 = []"
    using group2_history[of ?s1] assms by (auto simp: run_middle_def)
  obtain k where k: "sk_creator k = 2" "sk_release k = 2" "sk_phase k = OBSERVATION_DELIVERY"
    and s3: "register_phase sample_env 2 [run_block] ?s2 = Inr (?s2\<lparr>
      es_observations := \<lparr>cs_heap = [(k, \<lparr>ob_event = run_block, ob_event_row_id = 1\<rparr>)], cs_keys = {k}\<rparr>,
      es_event_row_index := 2\<rparr>)" (is "_ = Inr ?s3")
    using group2_register[of ?s2] by (auto simp: run_middle_def scheduler_len_def)
  obtain r4 where s4: "deliver_phase sample_env 2 ?s3 = Inr ([\<lparr>ob_event = run_block, ob_event_row_id = 1\<rparr>],
      ?s3\<lparr>es_observations := CausalScheduler,
        es_delivered_count := Suc (es_delivered_count ?s3), es_recorder := r4\<rparr>)" (is "_ = Inr (_, ?s4)")
    "rd_fill_sink r4 = []"
    using group2_deliver[of ?s3 k] k s2(2) by (auto simp: run_middle_def)
  have s5: "strategy_phase sample_env 2 (run_instant 2) [\<lparr>ob_event = run_block, ob_event_row_id = 1\<rparr>] ?s4 =
      Inr ([], ?s4\<lparr>es_strategy := 2\<rparr>)" (is "_ = Inr (_, ?s5)")
    by (rule group2_strategy) (simp add: run_middle_def)
  have s6: "acceptance_phase sample_env 2 [] ?s5 = Inr ([], ?s5)"
    by (rule group2_accept) (simp_all add: run_middle_def scheduler_len_def)
  obtain r7 n where s7: "execution_phase sample_env 2 ([], ?s5) = Inr ([n], ?s5\<lparr>
      es_venue := \<lparr>vs_mode = SHADOW_STATE_REPLAY,
        vs_pools = [(''P'', run_pool\<lparr>ps_reserve_a := 1100, ps_reserve_b := 1819\<rparr>)]\<rparr>,
      es_portfolio := run_settled, es_orders := CausalScheduler,
      es_terminal_orders := {sample_digest (CHR ''f'')},
      es_filled_order_count := Suc (es_filled_order_count ?s5), es_recorder := r7\<rparr>)" (is "_ = Inr (_, ?s7)")
    "rd_fill_sink r7 = [run_fill]" "en_order_id n = sample_digest (CHR ''f'')" "en_status n = FILLED"
    using group2_execute[of ?s5] s4(2) by (auto simp: run_middle_def)
  obtain r8 where s8: "notification_phase sample_env 2 (run_instant 2) ([n], ?s7) = Inr (?s7\<lparr>es_recorder := r8\<rparr>)"
    "rd_fill_sink r8 = [run_fill]"
    using run_notify[of "[n]" n 2 ?s7] s7 by auto
  have "?s7\<lparr>es_recorder := r8\<rparr> = (run_end r)\<lparr>es_recorder := r8\<rparr>"
    by (simp add: run_end_def run_middle_def)
  moreover have "reduce_group sample_env (run_middle r) ((2, replicate 64 (CHR ''2'')), [run_block])
      = Inr (?s7\<lparr>es_recorder := r8\<rparr>)"
    unfolding reduce_group_def prod.case group2_check s2(1) s3 s4(1) run_instants s5 s6 s7(1) s8(1) bindE_Inr ..
  ultimately show ?thesis using s8(2) by metis
qed

section \<open>The whole run\<close>

lemma sample_stream_digest: "stream_digest (\<lambda>_. replicate 64 (CHR ''0'')) h = Inr (replicate 64 (CHR ''0''))"
  by (simp add: stream_digest_def sample_digests)

lemma run_finish:
  "\<exists>s. finish_run sample_env run_source ((run_end r)\<lparr>es_recorder := r'\<rparr>) = Inr s
     \<and> rs_accepted_order_count s = 1 \<and> rs_filled_order_count s = 1"
proof -
  have b: "\<exists>bs. semantic_balances run_settled = Inr bs"
    by (simp add: semantic_balances_def run_settled_def)
  then obtain bs where bs: "semantic_balances run_settled = Inr bs" ..
  have v: "json_validate (JArr (map (\<lambda>(account, kind, asset, amount).
      JArr [JStr account, JStr kind, JStr asset, JInt amount]) bs)) = Inr ()" for bs
    by (induction bs) (auto split: prod.splits)
  show ?thesis
    by (simp add: finish_run_def run_end_def run_middle_def bs sample_env_fields sample_stream_digest
        scheduler_len_def CausalScheduler_def domain_digest_ok sample_digests v[simplified]
        strip_def is_space_def char_code_def nul_def cong: bindE_weak_cong)
qed

lemma sample_run:
  "\<exists>s st. run_engine sample_env run_source None 0 = Inr (s, st)
     \<and> rs_accepted_order_count s = 1 \<and> rs_filled_order_count s = 1 \<and> es_portfolio st = run_settled
     \<and> rd_fill_sink (es_recorder st) = [run_fill]"
proof -
  obtain r where r: "reduce_group sample_env run_start ((1, replicate 64 (CHR ''1'')), [run_swap]) = Inr (run_middle r)"
    "rd_fill_sink r = []" using run_group1 by blast
  obtain r' where r': "reduce_group sample_env (run_middle r) ((2, replicate 64 (CHR ''2'')), [run_block])
      = Inr ((run_end r)\<lparr>es_recorder := r'\<rparr>)" "rd_fill_sink r' = [run_fill]"
    using run_group2[OF r(2)] by blast
  obtain s where s: "finish_run sample_env run_source ((run_end r)\<lparr>es_recorder := r'\<rparr>) = Inr s"
    "rs_accepted_order_count s = 1" "rs_filled_order_count s = 1"
    using run_finish by blast
  have es: "hx_events run_source = [run_swap, run_block]" by (simp add: run_source_def)
  have "run_engine sample_env run_source None 0 = Inr (s, (run_end r)\<lparr>es_recorder := r'\<rparr>)"
    unfolding run_engine_def run_timeline run_initial bindE_Inr Let_def run_env_eq es run_groups foldE.simps
      r(1) r'(1) s(1) ..
  then show ?thesis
    using s r'(2) by (simp add: run_end_def)
qed


lemma sample_intents_valid: "intents_valid sample_env"
  by (simp add: intents_valid_def sample_env_fields SwapExactInIntent_def run_intent_fields)

section \<open>Properties\<close>

text \<open>C1: No strategy, risk policy or execution model can create or destroy value: after a completed run the
  total of every asset over all ledger accounts is its initial balance, and no portfolio account is
  overdrawn.\<close>

theorem run_conserves_assets:
  assumes "run_engine env src deliveries strategy = Inr (summary, st)"
    and "distinct (dict_keys (rc_initial_available (ev_config env)))"
  shows "portfolio_inv (es_portfolio st)
    \<and> (\<forall>a. portfolio_total (es_portfolio st) a = dict_get_default (rc_initial_available (ev_config env)) a 0)"
proof (rule run_engine_Inr[OF assms(1)])
  fix env' st0 pf
  assume run: "foldE (reduce_group env') st0 (group_events (hx_events src)) = Inr st"
    and line: "timeline_inv (ev_timeline env')" and ok: "books_ok (portfolio_total pf) st0 []"
    and pf: "PortfolioState (rc_initial_available (ev_config env)) = Inr pf"
  from run_books[OF run line ok] PortfolioState_total[OF pf assms(2)] show ?thesis
    by (simp add: books_ok_def)
qed

theorem run_conserves_assets_witness:
  "\<exists>s st. run_engine sample_env run_source None 0 = Inr (s, st)
     \<and> rs_filled_order_count s = 1 \<and> portfolio_total (es_portfolio st) ''A'' = 500
     \<and> portfolio_total (es_portfolio st) ''B'' = 0"
proof -
  obtain s st where run: "run_engine sample_env run_source None 0 = Inr (s, st)" "rs_filled_order_count s = 1"
    using sample_run by blast
  have "rc_initial_available (ev_config sample_env) = [(''A'', 500)]" by (simp add: sample_env_def)
  with run_conserves_assets[OF run(1)] run show ?thesis by (simp add: dict_get_default_def)
qed

text \<open>C2: With the constant-product venue a completed run leaves no order open: every accepted order was
  filled or failed exactly once, and nothing is left in the reserved account of any asset.\<close>

theorem run_settles_every_order:
  assumes "run_engine env src deliveries strategy = Inr (summary, st)"
    and "ev_execute env = constant_product_model fee_bps" and "intents_valid env"
  shows "rs_accepted_order_count summary = rs_filled_order_count summary + rs_failed_order_count summary
    \<and> (\<forall>a v. reserved (es_portfolio st) a = Inr v \<longrightarrow> v = 0)"
proof (rule run_engine_Inr[OF assms(1)])
  fix env' st0 pf
  assume env: "ev_execute env' = ev_execute env" "ev_on_event env' = ev_on_event env"
    and run: "foldE (reduce_group env') st0 (group_events (hx_events src)) = Inr st"
    and line: "timeline_inv (ev_timeline env')"
    and ok: "books_ok (portfolio_total pf) st0 []" "reserves_ok st0 []"
    and empty: "cs_heap (es_orders st) = []" and fin: "finish_run env' src st = Inr summary"
  have counts: "rs_accepted_order_count summary = es_accepted_count st"
    "rs_filled_order_count summary = es_filled_order_count st"
    "rs_failed_order_count summary = es_failed_order_count st"
    using fin by (auto simp: finish_run_def split: if_splits)
  have "intents_valid env'" using assms(3) by (simp add: intents_valid_def env(2))
  from constant_product.run_reserves[OF _ this run line ok] env(1) assms(2)
  have "books_ok (portfolio_total pf) st [] \<and> reserves_ok st []" by simp
  then show ?thesis
    using empty by (auto simp: books_ok_def reserves_ok_def pending_orders_def scheduler_len_def counts reserved_def)
qed

theorem run_settles_every_order_witness:
  "\<exists>s st. run_engine sample_env run_source None 0 = Inr (s, st)
     \<and> rs_accepted_order_count s = 1 \<and> rs_filled_order_count s + rs_failed_order_count s = 1
     \<and> reserved (es_portfolio st) ''A'' = Inr 0"
proof -
  obtain s st where run: "run_engine sample_env run_source None 0 = Inr (s, st)" "rs_accepted_order_count s = 1"
    using sample_run by blast
  have "\<exists>v. reserved (es_portfolio st) ''A'' = Inr v" by (simp add: reserved_def run_accounts)
  with run_settles_every_order[OF run(1) sample_env_fields(4) sample_intents_valid] run show ?thesis by auto
qed

text \<open>C3: No look-ahead in execution, whatever the plugins do: every fill a run records is preceded by the
  reservation of its own order, booked at a strictly earlier boundary.\<close>

theorem fills_follow_reservation:
  assumes "run_engine env src deliveries strategy = Inr (summary, st)"
    and "f \<in> set (rd_fill_sink (es_recorder st))"
  shows "\<exists>t \<in> set (rd_ledger_sink (es_recorder st)). lt_reason t = ''ORDER_RESERVATION''
    \<and> lt_correlation_id t = digest_hex (fl_order_id f) \<and> lt_boundary_ordinal t < fl_boundary_ordinal f"
proof (rule run_engine_Inr[OF assms(1)])
  fix env' st0 pf
  assume run: "foldE (reduce_group env') st0 (group_events (hx_events src)) = Inr st"
    and line: "timeline_inv (ev_timeline env')" and ok: "books_ok (portfolio_total pf) st0 []"
  from run_books[OF run line ok] assms(2)
  have "reserved_before (rd_ledger_sink (es_recorder st)) (fl_order_id f) (fl_boundary_ordinal f)"
    by (simp add: books_ok_def)
  then show ?thesis by (auto simp: reserved_before_def list_ex_iff)
qed

theorem fills_follow_reservation_witness:
  "\<exists>s st t. run_engine sample_env run_source None 0 = Inr (s, st)
     \<and> run_fill \<in> set (rd_fill_sink (es_recorder st)) \<and> t \<in> set (rd_ledger_sink (es_recorder st))
     \<and> lt_boundary_ordinal t < 2"
proof -
  obtain s st where run: "run_engine sample_env run_source None 0 = Inr (s, st)"
    "rd_fill_sink (es_recorder st) = [run_fill]"
    using sample_run by blast
  have f: "run_fill \<in> set (rd_fill_sink (es_recorder st))" "fl_boundary_ordinal run_fill = 2"
    by (simp_all add: run(2) run_fill_def)
  from fills_follow_reservation[OF run(1) f(1)] f run(1) show ?thesis by auto
qed

end
