(* ===== verification/Pump_Curve.thy ===== *)
theory Pump_Curve
  imports Identifiers
begin

text \<open>
  The checked-integer Pump bonding curve (\<^verbatim>\<open>plugins/protocols/pumpfun/model.py\<close>): curve states, fee
  profiles, buy and sell quotes, historical fee components and slippage limits. Every quote is a pure
  function that returns a validated record or the stable error code of the source.
\<close>

section \<open>Constants and closed enumerations\<close>

definition BASIS_POINTS_DENOMINATOR :: int where "BASIS_POINTS_DENOMINATOR = 10000"

definition PUMP_STATIC_PROGRAM_CONTRACT_V1 :: string where
  "PUMP_STATIC_PROGRAM_CONTRACT_V1 = ''pump-program-static-fee-v1''"

definition PUMP_BUY_EXACT_GROSS_SOL_FORMULA_V1 :: string where
  "PUMP_BUY_EXACT_GROSS_SOL_FORMULA_V1 = ''pump-buy-exact-gross-sol-v1''"

definition PUMP_BUY_LEGACY_EXACT_NET_SOL_FORMULA_V1 :: string where
  "PUMP_BUY_LEGACY_EXACT_NET_SOL_FORMULA_V1 = ''pump-buy-legacy-exact-net-sol-v1''"

definition PUMP_SELL_EXACT_TOKEN_IN_FORMULA_V1 :: string where
  "PUMP_SELL_EXACT_TOKEN_IN_FORMULA_V1 = ''pump-sell-exact-token-in-v1''"

definition supported_buy_formulas :: "string list" where
  "supported_buy_formulas =
     [PUMP_BUY_EXACT_GROSS_SOL_FORMULA_V1, PUMP_BUY_LEGACY_EXACT_NET_SOL_FORMULA_V1]"

definition supported_sell_formulas :: "string list" where
  "supported_sell_formulas = [PUMP_SELL_EXACT_TOKEN_IN_FORMULA_V1]"

datatype pump_mode = MODE_NORMAL | MODE_TOKEN_2022 | MODE_CASHBACK | MODE_MAYHEM | MODE_UNKNOWN

datatype curve_lifecycle = CURVE_ACTIVE | CURVE_COMPLETE | CURVE_MIGRATED | CURVE_UNKNOWN

datatype token_program = LEGACY_SPL_TOKEN | TOKEN_2022_PROGRAM

datatype protocol_fee_route = NORMAL_RECIPIENT | MAYHEM_RECIPIENT

datatype creator_fee_route = CREATOR_VAULT | CASHBACK_RECEIVABLE

datatype sell_liquidity_policy =
    REAL_RESERVE_CAPPED_V1
  | VIRTUAL_RESERVE_OUTPUT_WITH_EXPLICIT_SYNTHETIC_SHORTFALL_V1

section \<open>Checked integers\<close>

definition require_u64 :: "string \<Rightarrow> int \<Rightarrow> bool \<Rightarrow> unit res" where
  "require_u64 name v positive =
     (if (if positive then 1 else 0) \<le> v \<and> v \<le> UINT64_MAX then Inr ()
      else Inl (ValueError (name @ '' must be a '' @ (if positive then ''positive '' else '''') @ ''u64'')))"

definition require_basis_points :: "string \<Rightarrow> int \<Rightarrow> bool \<Rightarrow> unit res" where
  "require_basis_points name v allow_full =
     (if 0 \<le> v \<and> v \<le> (if allow_full then BASIS_POINTS_DENOMINATOR else BASIS_POINTS_DENOMINATOR - 1)
      then Inr () else Inl (ValueError (name @ '' is outside its basis-point range'')))"

definition require_stable_name :: "string \<Rightarrow> string \<Rightarrow> unit res" where
  "require_stable_name name v =
     (if v = [] \<or> v \<noteq> strip v \<or> 128 < length v then
        Inl (ValueError (name @ '' must be non-empty, trimmed and at most 128 characters''))
      else if list_ex (\<lambda>c. char_code c < 32 \<or> 126 < char_code c) v then
        Inl (ValueError (name @ '' must contain printable ASCII only''))
      else Inr ())"

definition require_quote_input :: "int \<Rightarrow> unit res" where
  "require_quote_input v =
     (case require_u64 ''quote input'' v True of
        Inl (ValueError _) \<Rightarrow> Inl (PumpQuoteError INPUT_OUT_OF_BOUNDS)
      | r \<Rightarrow> r)"

definition checked_mul_u128 :: "int \<Rightarrow> int \<Rightarrow> int res" where
  "checked_mul_u128 left right =
     (let v = left * right in
      if UINT128_MAX < v then Inl (PumpQuoteError ARITHMETIC_OVERFLOW) else Inr v)"

definition checked_add_u64 :: "int \<Rightarrow> int \<Rightarrow> int res" where
  "checked_add_u64 left right =
     (let v = left + right in
      if UINT64_MAX < v then Inl (PumpQuoteError ARITHMETIC_OVERFLOW) else Inr v)"

definition fee_ceil :: "int \<Rightarrow> int \<Rightarrow> int res" where
  "fee_ceil amount fee_bps =
     (if fee_bps = 0 then Inr 0
      else bindE (checked_mul_u128 amount fee_bps) (\<lambda>numerator.
        Inr ((numerator + BASIS_POINTS_DENOMINATOR - 1) div BASIS_POINTS_DENOMINATOR)))"

section \<open>Records\<close>

record curve_state =
  pc_virtual_token :: int
  pc_virtual_sol :: int
  pc_real_token :: int
  pc_real_sol :: int
  pc_token_supply :: int
  pc_lifecycle :: curve_lifecycle
  pc_mode :: pump_mode

definition PumpCurveStateV1 :: "curve_state \<Rightarrow> curve_state res" where
  "PumpCurveStateV1 s =
     bindE (require_u64 ''virtual_token_reserves_atomic'' (pc_virtual_token s) True) (\<lambda>_.
     bindE (require_u64 ''virtual_sol_reserves_lamports'' (pc_virtual_sol s) True) (\<lambda>_.
     bindE (require_u64 ''real_token_reserves_atomic'' (pc_real_token s) False) (\<lambda>_.
     bindE (require_u64 ''real_sol_reserves_lamports'' (pc_real_sol s) False) (\<lambda>_.
     bindE (require_u64 ''token_total_supply_atomic'' (pc_token_supply s) True) (\<lambda>_.
     if pc_token_supply s < pc_real_token s then
       Inl (ValueError ''real token reserves cannot exceed total token supply'')
     else Inr s)))))"

record fee_profile =
  fp_profile_id :: string
  fp_program_version :: string
  fp_buy_formula :: string
  fp_sell_formula :: string
  fp_effective_from :: int
  fp_effective_until :: int
  fp_protocol_fee_bps :: int
  fp_creator_fee_bps :: int

definition PumpFeeProfile :: "fee_profile \<Rightarrow> fee_profile res" where
  "PumpFeeProfile p =
     bindE (require_stable_name ''profile_id'' (fp_profile_id p)) (\<lambda>_.
     bindE (require_stable_name ''program_version'' (fp_program_version p)) (\<lambda>_.
     bindE (require_stable_name ''buy_formula_version'' (fp_buy_formula p)) (\<lambda>_.
     bindE (require_stable_name ''sell_formula_version'' (fp_sell_formula p)) (\<lambda>_.
     bindE (require_u64 ''effective_from_unix_s'' (fp_effective_from p) False) (\<lambda>_.
     bindE (require_u64 ''effective_until_unix_s'' (fp_effective_until p) False) (\<lambda>_.
     if fp_effective_until p \<le> fp_effective_from p then
       Inl (ValueError ''fee profile effective interval must be non-empty and half-open'')
     else
       bindE (require_basis_points ''protocol_fee_bps'' (fp_protocol_fee_bps p) False) (\<lambda>_.
       bindE (require_basis_points ''creator_fee_bps'' (fp_creator_fee_bps p) False) (\<lambda>_.
       if BASIS_POINTS_DENOMINATOR \<le> fp_protocol_fee_bps p + fp_creator_fee_bps p then
         Inl (ValueError ''combined Pump fees must be below 10000 basis points'')
       else Inr p))))))))"

definition static_95_30 :: "string \<Rightarrow> int \<Rightarrow> int \<Rightarrow> fee_profile res" where
  "static_95_30 profile_id effective_from effective_until =
     PumpFeeProfile \<lparr>fp_profile_id = profile_id, fp_program_version = PUMP_STATIC_PROGRAM_CONTRACT_V1,
       fp_buy_formula = PUMP_BUY_EXACT_GROSS_SOL_FORMULA_V1,
       fp_sell_formula = PUMP_SELL_EXACT_TOKEN_IN_FORMULA_V1, fp_effective_from = effective_from,
       fp_effective_until = effective_until, fp_protocol_fee_bps = 95, fp_creator_fee_bps = 30\<rparr>"

record fee_routing =
  fr_token_program :: token_program
  fr_protocol_route :: protocol_fee_route
  fr_creator_route :: creator_fee_route

record fee_breakdown =
  fb_protocol :: int
  fb_creator :: int
  fb_routing :: fee_routing
  fb_cashback :: "int option"

definition PumpFeeBreakdown :: "fee_breakdown \<Rightarrow> fee_breakdown res" where
  "PumpFeeBreakdown f =
     bindE (require_u64 ''protocol_fee_lamports'' (fb_protocol f) False) (\<lambda>_.
     bindE (require_u64 ''creator_fee_lamports'' (fb_creator f) False) (\<lambda>_.
     if fr_creator_route (fb_routing f) = CASHBACK_RECEIVABLE then
       (if fb_cashback f \<noteq> Some (fb_creator f) then
          Inl (ValueError ''cashback receivable must equal the routed creator fee'')
        else Inr f)
     else if fb_cashback f \<noteq> None then
       Inl (ValueError ''non-cashback routing cannot expose a cashback receivable'')
     else Inr f))"

definition total_fee :: "fee_breakdown \<Rightarrow> int" where
  "total_fee f = fb_protocol f + fb_creator f"

fun fee_routing_of :: "pump_mode \<Rightarrow> fee_routing res" where
  "fee_routing_of MODE_NORMAL = Inr \<lparr>fr_token_program = LEGACY_SPL_TOKEN,
     fr_protocol_route = NORMAL_RECIPIENT, fr_creator_route = CREATOR_VAULT\<rparr>"
| "fee_routing_of MODE_TOKEN_2022 = Inr \<lparr>fr_token_program = TOKEN_2022_PROGRAM,
     fr_protocol_route = NORMAL_RECIPIENT, fr_creator_route = CREATOR_VAULT\<rparr>"
| "fee_routing_of MODE_CASHBACK = Inr \<lparr>fr_token_program = TOKEN_2022_PROGRAM,
     fr_protocol_route = NORMAL_RECIPIENT, fr_creator_route = CASHBACK_RECEIVABLE\<rparr>"
| "fee_routing_of MODE_MAYHEM = Inr \<lparr>fr_token_program = TOKEN_2022_PROGRAM,
     fr_protocol_route = MAYHEM_RECIPIENT, fr_creator_route = CREATOR_VAULT\<rparr>"
| "fee_routing_of MODE_UNKNOWN = Inl (PumpQuoteError UNKNOWN_MODE)"

definition fee_breakdown_of :: "pump_mode \<Rightarrow> int \<Rightarrow> int \<Rightarrow> fee_breakdown res" where
  "fee_breakdown_of mode protocol_fee creator_fee =
     bindE (fee_routing_of mode) (\<lambda>routing.
       PumpFeeBreakdown \<lparr>fb_protocol = protocol_fee, fb_creator = creator_fee, fb_routing = routing,
         fb_cashback = (if fr_creator_route routing = CASHBACK_RECEIVABLE then Some creator_fee else None)\<rparr>)"

record pump_buy_quote =
  bq_formula :: string
  bq_spendable_gross :: int
  bq_gross_spent :: int
  bq_fee_basis :: int
  bq_net_curve :: int
  bq_tokens_out :: int
  bq_fees :: fee_breakdown

definition PumpBuyQuote :: "pump_buy_quote \<Rightarrow> pump_buy_quote res" where
  "PumpBuyQuote q =
     bindE (require_stable_name ''formula_version'' (bq_formula q)) (\<lambda>_.
     bindE (require_u64 ''spendable_gross_sol_lamports'' (bq_spendable_gross q) True) (\<lambda>_.
     bindE (require_u64 ''gross_sol_spent_lamports'' (bq_gross_spent q) True) (\<lambda>_.
     bindE (require_u64 ''fee_basis_sol_lamports'' (bq_fee_basis q) True) (\<lambda>_.
     bindE (require_u64 ''net_curve_sol_lamports'' (bq_net_curve q) True) (\<lambda>_.
     bindE (require_u64 ''tokens_out_atomic'' (bq_tokens_out q) True) (\<lambda>_.
     if bq_gross_spent q \<noteq> bq_net_curve q + total_fee (bq_fees q) then
       Inl (ValueError ''buy gross spend must equal curve input plus fee components'')
     else if bq_spendable_gross q < bq_gross_spent q then
       Inl (ValueError ''buy gross spend cannot exceed the spendable budget'')
     else if bq_fee_basis q < bq_net_curve q then
       Inl (ValueError ''buy fee basis cannot be below the adjusted curve input'')
     else Inr q))))))"

definition unspent_sol :: "pump_buy_quote \<Rightarrow> int" where
  "unspent_sol q = bq_spendable_gross q - bq_gross_spent q"

record pump_sell_quote =
  sq_formula :: string
  sq_tokens_in :: int
  sq_gross_curve :: int
  sq_sol_out :: int
  sq_liquidity_policy :: sell_liquidity_policy
  sq_observed_real_sol :: int
  sq_synthetic_shortfall :: int
  sq_fees :: fee_breakdown

definition PumpSellQuote :: "pump_sell_quote \<Rightarrow> pump_sell_quote res" where
  "PumpSellQuote q =
     bindE (require_stable_name ''formula_version'' (sq_formula q)) (\<lambda>_.
     bindE (require_u64 ''tokens_in_atomic'' (sq_tokens_in q) True) (\<lambda>_.
     bindE (require_u64 ''gross_curve_sol_lamports'' (sq_gross_curve q) True) (\<lambda>_.
     bindE (require_u64 ''sol_out_lamports'' (sq_sol_out q) True) (\<lambda>_.
     bindE (require_u64 ''observed_real_sol_reserves_lamports'' (sq_observed_real_sol q) False) (\<lambda>_.
     bindE (require_u64 ''synthetic_shortfall_lamports'' (sq_synthetic_shortfall q) False) (\<lambda>_.
     if sq_gross_curve q \<noteq> sq_sol_out q + total_fee (sq_fees q) then
       Inl (ValueError ''sell gross output must equal net output plus fee components'')
     else if sq_synthetic_shortfall q \<noteq> max 0 (sq_gross_curve q - sq_observed_real_sol q) then
       Inl (ValueError ''sell synthetic shortfall is inconsistent with real reserves'')
     else if sq_liquidity_policy q = REAL_RESERVE_CAPPED_V1 \<and> sq_synthetic_shortfall q \<noteq> 0 then
       Inl (ValueError ''real-reserve-capped quote cannot contain a synthetic shortfall'')
     else Inr q))))))"

record slippage_assessment =
  sa_reference_output :: int
  sa_landing_output :: int
  sa_minimum_output :: int
  sa_raw_delta :: int
  sa_limit_met :: bool

definition PumpSlippageAssessment :: "slippage_assessment \<Rightarrow> slippage_assessment res" where
  "PumpSlippageAssessment a =
     bindE (require_u64 ''reference_output_atomic'' (sa_reference_output a) True) (\<lambda>_.
     bindE (require_u64 ''landing_output_atomic'' (sa_landing_output a) False) (\<lambda>_.
     bindE (require_u64 ''minimum_output_atomic'' (sa_minimum_output a) False) (\<lambda>_.
     if sa_raw_delta a \<noteq> sa_landing_output a - sa_reference_output a then
       Inl (ValueError ''raw slippage delta is inconsistent with quote outputs'')
     else if sa_limit_met a \<noteq> (sa_minimum_output a \<le> sa_landing_output a) then
       Inl (ValueError ''slippage limit status is inconsistent with minimum output'')
     else Inr a)))"

section \<open>Quotes\<close>

definition effective_at :: "fee_profile \<Rightarrow> int \<Rightarrow> bool" where
  "effective_at p t \<longleftrightarrow> fp_effective_from p \<le> t \<and> t < fp_effective_until p"

definition validate_quote_contract ::
  "curve_state \<Rightarrow> fee_profile \<Rightarrow> int \<Rightarrow> string list \<Rightarrow> string \<Rightarrow> unit res" where
  "validate_quote_contract s p t supported_formulas actual_formula =
     bindE (require_u64 ''effective_at_unix_s'' t False) (\<lambda>_.
     if fp_program_version p \<noteq> PUMP_STATIC_PROGRAM_CONTRACT_V1 then
       Inl (PumpQuoteError UNSUPPORTED_PROGRAM_VERSION)
     else if actual_formula \<notin> set supported_formulas then
       Inl (PumpQuoteError UNSUPPORTED_FORMULA_VERSION)
     else if \<not> effective_at p t then Inl (PumpQuoteError PROFILE_NOT_EFFECTIVE)
     else if pc_lifecycle s = CURVE_UNKNOWN then Inl (PumpQuoteError UNKNOWN_LIFECYCLE)
     else if pc_lifecycle s = CURVE_COMPLETE then Inl (PumpQuoteError CURVE_COMPLETED)
     else if pc_lifecycle s = CURVE_MIGRATED then Inl (PumpQuoteError PUMPSWAP_ROUTING_FORBIDDEN)
     else if pc_mode s = MODE_UNKNOWN then Inl (PumpQuoteError UNKNOWN_MODE)
     else Inr ())"

definition buy_quote :: "curve_state \<Rightarrow> int \<Rightarrow> fee_profile \<Rightarrow> int \<Rightarrow> pump_buy_quote res" where
  "buy_quote s spendable p t =
     bindE (validate_quote_contract s p t supported_buy_formulas (fp_buy_formula p)) (\<lambda>_.
     if fp_buy_formula p = PUMP_BUY_LEGACY_EXACT_NET_SOL_FORMULA_V1 \<and> pc_mode s \<noteq> MODE_NORMAL then
       Inl (PumpQuoteError UNSUPPORTED_FORMULA_VERSION)
     else
       bindE (require_quote_input spendable) (\<lambda>_.
       let total_fee_bps = fp_protocol_fee_bps p + fp_creator_fee_bps p in
       bindE (checked_mul_u128 spendable BASIS_POINTS_DENOMINATOR) (\<lambda>scaled.
       let initial_net_sol = scaled div (BASIS_POINTS_DENOMINATOR + total_fee_bps) in
       bindE (fee_ceil initial_net_sol (fp_protocol_fee_bps p)) (\<lambda>protocol_fee.
       bindE (fee_ceil initial_net_sol (fp_creator_fee_bps p)) (\<lambda>creator_fee.
       let gross_before_adjustment = initial_net_sol + protocol_fee + creator_fee;
           budget_excess = max 0 (gross_before_adjustment - spendable);
           net_curve_sol = initial_net_sol - budget_excess in
       bindE (if fp_buy_formula p = PUMP_BUY_EXACT_GROSS_SOL_FORMULA_V1 then
                (if net_curve_sol \<le> 1 then Inl (PumpQuoteError OUTPUT_OUT_OF_BOUNDS)
                 else Inr (net_curve_sol - 1))
              else if net_curve_sol \<le> 0 then Inl (PumpQuoteError OUTPUT_OUT_OF_BOUNDS)
              else Inr net_curve_sol) (\<lambda>curve_sol.
       bindE (checked_add_u64 (pc_virtual_sol s) net_curve_sol) (\<lambda>_.
       bindE (checked_add_u64 (pc_real_sol s) net_curve_sol) (\<lambda>_.
       bindE (checked_mul_u128 curve_sol (pc_virtual_token s)) (\<lambda>product.
       let tokens_out = product div (pc_virtual_sol s + curve_sol) in
       if tokens_out \<le> 0 \<or> pc_virtual_token s \<le> tokens_out then
         Inl (PumpQuoteError OUTPUT_OUT_OF_BOUNDS)
       else if pc_real_token s < tokens_out then
         Inl (PumpQuoteError INSUFFICIENT_REAL_TOKEN_RESERVES)
       else
         bindE (fee_breakdown_of (pc_mode s) protocol_fee creator_fee) (\<lambda>fees.
         let gross_spent = net_curve_sol + total_fee fees in
         if spendable < gross_spent then Inl (PumpQuoteError ARITHMETIC_OVERFLOW)
         else PumpBuyQuote \<lparr>bq_formula = fp_buy_formula p, bq_spendable_gross = spendable,
           bq_gross_spent = gross_spent, bq_fee_basis = initial_net_sol, bq_net_curve = net_curve_sol,
           bq_tokens_out = tokens_out, bq_fees = fees\<rparr>))))))))))"

definition sell_quote ::
  "curve_state \<Rightarrow> int \<Rightarrow> fee_profile \<Rightarrow> int \<Rightarrow> sell_liquidity_policy \<Rightarrow> pump_sell_quote res" where
  "sell_quote s tokens_in p t policy =
     bindE (validate_quote_contract s p t supported_sell_formulas (fp_sell_formula p)) (\<lambda>_.
     bindE (require_quote_input tokens_in) (\<lambda>_.
     bindE (checked_add_u64 (pc_virtual_token s) tokens_in) (\<lambda>_.
     bindE (checked_add_u64 (pc_real_token s) tokens_in) (\<lambda>_.
     bindE (checked_mul_u128 tokens_in (pc_virtual_sol s)) (\<lambda>product.
     let gross_curve_sol = product div (pc_virtual_token s + tokens_in) in
     if gross_curve_sol \<le> 0 \<or> pc_virtual_sol s \<le> gross_curve_sol then
       Inl (PumpQuoteError OUTPUT_OUT_OF_BOUNDS)
     else
       let synthetic_shortfall = max 0 (gross_curve_sol - pc_real_sol s) in
       if policy = REAL_RESERVE_CAPPED_V1 \<and> 0 < synthetic_shortfall then
         Inl (PumpQuoteError INSUFFICIENT_REAL_SOL_RESERVES)
       else
         bindE (fee_ceil gross_curve_sol (fp_protocol_fee_bps p)) (\<lambda>protocol_fee.
         bindE (fee_ceil gross_curve_sol (fp_creator_fee_bps p)) (\<lambda>creator_fee.
         if gross_curve_sol \<le> protocol_fee + creator_fee then
           Inl (PumpQuoteError OUTPUT_OUT_OF_BOUNDS)
         else
           bindE (fee_breakdown_of (pc_mode s) protocol_fee creator_fee) (\<lambda>fees.
           PumpSellQuote \<lparr>sq_formula = PUMP_SELL_EXACT_TOKEN_IN_FORMULA_V1, sq_tokens_in = tokens_in,
             sq_gross_curve = gross_curve_sol, sq_sol_out = gross_curve_sol - (protocol_fee + creator_fee),
             sq_liquidity_policy = policy, sq_observed_real_sol = pc_real_sol s,
             sq_synthetic_shortfall = synthetic_shortfall, sq_fees = fees\<rparr>))))))))"

definition minimum_output_atomic :: "int \<Rightarrow> int \<Rightarrow> int res" where
  "minimum_output_atomic reference_output slippage_bps =
     bindE (require_u64 ''reference_output_atomic'' reference_output True) (\<lambda>_.
     bindE (require_basis_points ''slippage_bps'' slippage_bps True) (\<lambda>_.
     bindE (checked_mul_u128 reference_output (BASIS_POINTS_DENOMINATOR - slippage_bps)) (\<lambda>v.
       Inr (v div BASIS_POINTS_DENOMINATOR))))"

definition historical_trade_fee_breakdown ::
  "pump_mode \<Rightarrow> int \<Rightarrow> fee_profile \<Rightarrow> int \<Rightarrow> fee_breakdown res" where
  "historical_trade_fee_breakdown mode curve_sol p t =
     bindE (require_u64 ''curve_sol_lamports'' curve_sol False) (\<lambda>_.
     bindE (require_u64 ''effective_at_unix_s'' t False) (\<lambda>_.
     if fp_program_version p \<noteq> PUMP_STATIC_PROGRAM_CONTRACT_V1 then
       Inl (PumpQuoteError UNSUPPORTED_PROGRAM_VERSION)
     else if \<not> effective_at p t then Inl (PumpQuoteError PROFILE_NOT_EFFECTIVE)
     else if mode = MODE_UNKNOWN then Inl (PumpQuoteError UNKNOWN_MODE)
     else
       bindE (fee_ceil curve_sol (fp_protocol_fee_bps p)) (\<lambda>protocol_fee.
       bindE (fee_ceil curve_sol (fp_creator_fee_bps p)) (\<lambda>creator_fee.
         fee_breakdown_of mode protocol_fee creator_fee))))"

definition assess_slippage :: "int \<Rightarrow> int \<Rightarrow> int \<Rightarrow> slippage_assessment res" where
  "assess_slippage reference_output landing_output slippage_bps =
     bindE (minimum_output_atomic reference_output slippage_bps) (\<lambda>minimum.
     bindE (require_u64 ''landing_output_atomic'' landing_output False) (\<lambda>_.
       PumpSlippageAssessment \<lparr>sa_reference_output = reference_output, sa_landing_output = landing_output,
         sa_minimum_output = minimum, sa_raw_delta = landing_output - reference_output,
         sa_limit_met = (minimum \<le> landing_output)\<rparr>))"


section \<open>Lemmas\<close>

lemma require_u64_Inr: "require_u64 name v positive = Inr u \<longleftrightarrow> (if positive then 1 else 0) \<le> v \<and> v \<le> UINT64_MAX"
  by (auto simp: require_u64_def)

lemma require_quote_input_Inr: "require_quote_input v = Inr u \<longleftrightarrow> 1 \<le> v \<and> v \<le> UINT64_MAX"
  by (auto simp: require_quote_input_def require_u64_def split: sum.splits exn.splits)

lemma checked_mul_u128_Inr: "checked_mul_u128 a b = Inr v \<longleftrightarrow> v = a * b \<and> a * b \<le> UINT128_MAX"
  by (auto simp: checked_mul_u128_def Let_def)

lemma checked_add_u64_Inr: "checked_add_u64 a b = Inr v \<longleftrightarrow> v = a + b \<and> a + b \<le> UINT64_MAX"
  by (auto simp: checked_add_u64_def Let_def)

lemma fee_ceil_Inr: "fee_ceil a bps = Inr f \<Longrightarrow> f = ceil_div (a * bps) BASIS_POINTS_DENOMINATOR"
  by (auto simp: fee_ceil_def ceil_div_def checked_mul_u128_Inr BASIS_POINTS_DENOMINATOR_def split: if_splits)

lemma fee_ceil_bounds:
  assumes "fee_ceil a bps = Inr f"
  shows "a * bps \<le> f * 10000" and "f * 10000 < a * bps + 10000"
    and "0 \<le> a \<Longrightarrow> 0 \<le> bps \<Longrightarrow> 0 \<le> f" and "0 \<le> a \<Longrightarrow> 0 \<le> bps \<Longrightarrow> bps < 10000 \<Longrightarrow> f \<le> a"
proof -
  have f: "f = ceil_div (a * bps) 10000"
    using fee_ceil_Inr[OF assms] by (simp add: BASIS_POINTS_DENOMINATOR_def)
  show l: "a * bps \<le> f * 10000" and u: "f * 10000 < a * bps + 10000"
    unfolding f by (simp_all add: ceil_div_lower ceil_div_upper)
  show "0 \<le> a \<Longrightarrow> 0 \<le> bps \<Longrightarrow> 0 \<le> f"
    unfolding f by (simp add: ceil_div_nonneg)
  show "f \<le> a" if "0 \<le> a" "0 \<le> bps" "bps < 10000"
  proof -
    have "a * bps \<le> a * 10000" using that by (intro mult_left_mono) auto
    with u show ?thesis by linarith
  qed
qed

text \<open>Rounding both fees up exceeds the budget by at most one lamport.\<close>

lemma budget_excess_le_one:
  assumes "fee_ceil n p = Inr pf" and "fee_ceil n c = Inr cf" and "n = spendable * 10000 div (10000 + (p + c))"
    and "0 \<le> p" "0 \<le> c"
  shows "n + pf + cf \<le> spendable + 1"
proof -
  have "n * (10000 + (p + c)) \<le> spendable * 10000"
    unfolding assms(3) using assms(4,5) by (intro floor_div_le) simp
  then have "n * 10000 + n * p + n * c \<le> spendable * 10000"
    by (simp add: algebra_simps)
  moreover have "pf * 10000 < n * p + 10000" "cf * 10000 < n * c + 10000"
    using fee_ceil_bounds(2)[OF assms(1)] fee_ceil_bounds(2)[OF assms(2)] .
  ultimately show ?thesis by linarith
qed

lemma valid_curve_bounds:
  assumes "PumpCurveStateV1 s = Inr s"
  shows "0 < pc_virtual_token s" "pc_virtual_token s \<le> UINT64_MAX" "0 < pc_virtual_sol s"
    "pc_virtual_sol s \<le> UINT64_MAX" "0 \<le> pc_real_token s" "pc_real_token s \<le> UINT64_MAX" "0 \<le> pc_real_sol s"
    "pc_real_sol s \<le> UINT64_MAX"
  using assms by (auto simp: PumpCurveStateV1_def require_u64_Inr split: if_splits)

lemma valid_profile_bounds:
  assumes "PumpFeeProfile p = Inr p"
  shows "0 \<le> fp_protocol_fee_bps p" "0 \<le> fp_creator_fee_bps p"
    "fp_protocol_fee_bps p + fp_creator_fee_bps p < 10000"
    "fp_protocol_fee_bps p < 10000" "fp_creator_fee_bps p < 10000"
    "\<And>n. require_stable_name n (fp_buy_formula p) = Inr ()"
  using assms
  by (auto simp: PumpFeeProfile_def require_basis_points_def require_stable_name_def BASIS_POINTS_DENOMINATOR_def split: if_splits)

lemma fee_breakdown_of_Inr:
  "fee_breakdown_of mode pf cf = Inr f \<Longrightarrow> fb_protocol f = pf \<and> fb_creator f = cf \<and> total_fee f = pf + cf"
  by (auto simp: fee_breakdown_of_def PumpFeeBreakdown_def total_fee_def split: if_splits)

text \<open>The constant-product step: what leaves the curve for \<open>c\<close> put in.\<close>

lemma curve_step:
  fixes vt vs c :: int
  assumes "0 < vt" "0 < vs" "0 \<le> c"
  defines "out \<equiv> c * vt div (vs + c)"
  shows "out * (vs + c) \<le> c * vt" and "out < vt" and "0 \<le> out" and "vt * vs \<le> (vt - out) * (vs + c)"
proof -
  have pos: "0 < vs + c" using assms by simp
  show le: "out * (vs + c) \<le> c * vt"
    unfolding out_def using pos by (rule floor_div_le)
  have "c * vt < vt * (vs + c)" using assms by (simp add: algebra_simps)
  then have "out * (vs + c) < vt * (vs + c)" using le by simp
  then show "out < vt" using pos by simp
  show "0 \<le> out" unfolding out_def using assms pos by (simp add: pos_imp_zdiv_nonneg_iff)
  have "(vt - out) * (vs + c) = vt * vs + (c * vt - out * (vs + c))" by (simp add: algebra_simps)
  with le show "vt * vs \<le> (vt - out) * (vs + c)" by simp
qed

lemma curve_step_mono:
  fixes vt vs c c' :: int
  assumes "0 < vt" "0 < vs" "0 \<le> c" "c \<le> c'"
  shows "c * vt div (vs + c) \<le> c' * vt div (vs + c')"
proof -
  let ?o = "c * vt div (vs + c)"
  note step = curve_step[OF assms(1-3)]
  have "?o * (c' - c) \<le> vt * (c' - c)" using step(2) assms(4) by (intro mult_right_mono) auto
  then have "?o * (vs + c') \<le> c' * vt" using step(1) by (simp add: algebra_simps)
  then have "?o * (vs + c') div (vs + c') \<le> c' * vt div (vs + c')"
    using assms by (intro zdiv_mono1) auto
  then show ?thesis using assms by simp
qed

text \<open>What a returned buy quote is made of.\<close>

lemma buy_quote_Inr:
  assumes "buy_quote s spendable p t = Inr q"
  obtains n pf cf net curve fees where
    "n = spendable * 10000 div (10000 + (fp_protocol_fee_bps p + fp_creator_fee_bps p))"
    and "fee_ceil n (fp_protocol_fee_bps p) = Inr pf" and "fee_ceil n (fp_creator_fee_bps p) = Inr cf"
    and "net = n - max 0 (n + pf + cf - spendable)" and "1 \<le> spendable"
    and "curve = (if fp_buy_formula p = PUMP_BUY_EXACT_GROSS_SOL_FORMULA_V1 then net - 1 else net)" and "0 < curve"
    and "bq_tokens_out q = curve * pc_virtual_token s div (pc_virtual_sol s + curve)"
    and "0 < bq_tokens_out q" and "bq_tokens_out q < pc_virtual_token s" and "bq_tokens_out q \<le> pc_real_token s"
    and "fee_breakdown_of (pc_mode s) pf cf = Inr fees" and "bq_fees q = fees" and "bq_fee_basis q = n"
    and "bq_net_curve q = net" and "bq_gross_spent q = net + pf + cf" and "bq_spendable_gross q = spendable"
    and "pc_virtual_sol s + net \<le> UINT64_MAX" and "pc_lifecycle s = CURVE_ACTIVE"
proof -
  define n where "n = spendable * 10000 div (10000 + (fp_protocol_fee_bps p + fp_creator_fee_bps p))"
  note run = assms[unfolded buy_quote_def BASIS_POINTS_DENOMINATOR_def Let_def n_def[symmetric]]
  have v: "validate_quote_contract s p t supported_buy_formulas (fp_buy_formula p) = Inr ()"
    using run by (cases "validate_quote_contract s p t supported_buy_formulas (fp_buy_formula p)")
      (simp_all del: bindE_eq_Inr)
  note run = run[unfolded v bindE_Inr]
  have guard: "\<not> (fp_buy_formula p = PUMP_BUY_LEGACY_EXACT_NET_SOL_FORMULA_V1 \<and> pc_mode s \<noteq> MODE_NORMAL)"
    using run by (simp only: split: if_splits) simp_all
  note run = run[unfolded if_not_P[OF guard]]
  have sp: "require_quote_input spendable = Inr ()"
    using run by (cases "require_quote_input spendable") (simp_all del: bindE_eq_Inr)
  have mul: "checked_mul_u128 spendable 10000 = Inr (spendable * 10000)"
    using run unfolding sp bindE_Inr
    by (cases "checked_mul_u128 spendable 10000") (simp_all add: checked_mul_u128_Inr del: bindE_eq_Inr)
  note run = run[unfolded sp mul bindE_Inr n_def[symmetric]]
  obtain pf where f1: "fee_ceil n (fp_protocol_fee_bps p) = Inr pf"
    using run by (cases "fee_ceil n (fp_protocol_fee_bps p)") (simp_all del: bindE_eq_Inr)
  obtain cf where f2: "fee_ceil n (fp_creator_fee_bps p) = Inr cf"
    using run unfolding f1 bindE_Inr by (cases "fee_ceil n (fp_creator_fee_bps p)") (simp_all del: bindE_eq_Inr)
  note f = f1 f2
  note run = run[unfolded f bindE_Inr]
  define net where "net = n - max 0 (n + pf + cf - spendable)"
  note run2 = run[folded net_def]
  define curve where "curve = (if fp_buy_formula p = PUMP_BUY_EXACT_GROSS_SOL_FORMULA_V1 then net - 1 else net)"
  have c: "0 < curve" and sel: "(if fp_buy_formula p = PUMP_BUY_EXACT_GROSS_SOL_FORMULA_V1 then
                (if net \<le> 1 then Inl (PumpQuoteError OUTPUT_OUT_OF_BOUNDS) else Inr (net - 1))
              else if net \<le> 0 then Inl (PumpQuoteError OUTPUT_OUT_OF_BOUNDS) else Inr net) = Inr curve"
    using run2 unfolding curve_def by (auto split: if_splits)
  define out where "out = curve * pc_virtual_token s div (pc_virtual_sol s + curve)"
  have mul2: "checked_mul_u128 curve (pc_virtual_token s) = Inr (curve * pc_virtual_token s)"
    and add: "checked_add_u64 (pc_virtual_sol s) net = Inr (pc_virtual_sol s + net)"
    using run2 unfolding sel by (auto simp: checked_mul_u128_Inr checked_add_u64_Inr split: if_splits)
  note run3 = run2[unfolded sel bindE_Inr mul2 add out_def[symmetric]]
  obtain fees where r: "0 < out" "out < pc_virtual_token s" "out \<le> pc_real_token s"
    "fee_breakdown_of (pc_mode s) pf cf = Inr fees"
    and q: "q = \<lparr>bq_formula = fp_buy_formula p, bq_spendable_gross = spendable, bq_gross_spent = net + total_fee fees,
       bq_fee_basis = n, bq_net_curve = net, bq_tokens_out = out, bq_fees = fees\<rparr>"
    using run3 by (auto simp: PumpBuyQuote_def split: if_splits)
  have life: "pc_lifecycle s = CURVE_ACTIVE"
    using v by (cases "pc_lifecycle s") (auto simp: validate_quote_contract_def split: if_splits)
  have "1 \<le> spendable" using sp by (simp add: require_quote_input_Inr)
  moreover have "total_fee fees = pf + cf" using fee_breakdown_of_Inr[OF r(4)] by simp
  ultimately show thesis
    using that[OF n_def f net_def _ curve_def c] r q add life by (simp add: out_def checked_add_u64_Inr)
qed


text \<open>What a returned sell quote is made of.\<close>

lemma sell_quote_Inr:
  assumes "sell_quote s tokens p t policy = Inr q"
  obtains gross pf cf fees where
    "gross = tokens * pc_virtual_sol s div (pc_virtual_token s + tokens)" and "1 \<le> tokens"
    and "0 < gross" and "gross < pc_virtual_sol s"
    and "fee_ceil gross (fp_protocol_fee_bps p) = Inr pf" and "fee_ceil gross (fp_creator_fee_bps p) = Inr cf"
    and "pf + cf < gross" and "fee_breakdown_of (pc_mode s) pf cf = Inr fees"
    and "policy = REAL_RESERVE_CAPPED_V1 \<Longrightarrow> gross \<le> pc_real_sol s"
    and "validate_quote_contract s p t supported_sell_formulas (fp_sell_formula p) = Inr ()"
    and "pc_virtual_token s + tokens \<le> UINT64_MAX" and "pc_real_token s + tokens \<le> UINT64_MAX"
    and "tokens * pc_virtual_sol s \<le> UINT128_MAX"
    and "q = \<lparr>sq_formula = PUMP_SELL_EXACT_TOKEN_IN_FORMULA_V1, sq_tokens_in = tokens, sq_gross_curve = gross,
      sq_sol_out = gross - (pf + cf), sq_liquidity_policy = policy, sq_observed_real_sol = pc_real_sol s,
      sq_synthetic_shortfall = max 0 (gross - pc_real_sol s), sq_fees = fees\<rparr>"
proof -
  define gross where "gross = tokens * pc_virtual_sol s div (pc_virtual_token s + tokens)"
  note run = assms[unfolded sell_quote_def Let_def]
  have v: "validate_quote_contract s p t supported_sell_formulas (fp_sell_formula p) = Inr ()"
    using run by (cases "validate_quote_contract s p t supported_sell_formulas (fp_sell_formula p)")
      (simp_all del: bindE_eq_Inr)
  have sp: "require_quote_input tokens = Inr ()"
    using run unfolding v bindE_Inr by (cases "require_quote_input tokens") (simp_all del: bindE_eq_Inr)
  note run = run[unfolded v sp bindE_Inr]
  have a1: "checked_add_u64 (pc_virtual_token s) tokens = Inr (pc_virtual_token s + tokens)"
    using run by (cases "checked_add_u64 (pc_virtual_token s) tokens")
      (simp_all add: checked_add_u64_Inr del: bindE_eq_Inr)
  have a2: "checked_add_u64 (pc_real_token s) tokens = Inr (pc_real_token s + tokens)"
    using run unfolding a1 bindE_Inr by (cases "checked_add_u64 (pc_real_token s) tokens")
      (simp_all add: checked_add_u64_Inr del: bindE_eq_Inr)
  have mul: "checked_mul_u128 tokens (pc_virtual_sol s) = Inr (tokens * pc_virtual_sol s)"
    using run unfolding a1 a2 bindE_Inr by (cases "checked_mul_u128 tokens (pc_virtual_sol s)")
      (simp_all add: checked_mul_u128_Inr del: bindE_eq_Inr)
  note run = run[unfolded a1 a2 mul bindE_Inr gross_def[symmetric]]
  have g: "0 < gross" "gross < pc_virtual_sol s"
    and cap: "\<not> (policy = REAL_RESERVE_CAPPED_V1 \<and> 0 < max 0 (gross - pc_real_sol s))"
    using run by (auto simp del: bindE_eq_Inr split: if_splits)
  have g': "\<not> (gross \<le> 0 \<or> pc_virtual_sol s \<le> gross)" using g by simp
  note run = run[unfolded if_not_P[OF g'] if_not_P[OF cap]]
  obtain pf where f1: "fee_ceil gross (fp_protocol_fee_bps p) = Inr pf"
    using run by (cases "fee_ceil gross (fp_protocol_fee_bps p)") (simp_all del: bindE_eq_Inr)
  obtain cf where f2: "fee_ceil gross (fp_creator_fee_bps p) = Inr cf"
    using run unfolding f1 bindE_Inr by (cases "fee_ceil gross (fp_creator_fee_bps p)") (simp_all del: bindE_eq_Inr)
  note run = run[unfolded f1 f2 bindE_Inr]
  obtain fees where r: "pf + cf < gross" "fee_breakdown_of (pc_mode s) pf cf = Inr fees"
    "q = \<lparr>sq_formula = PUMP_SELL_EXACT_TOKEN_IN_FORMULA_V1, sq_tokens_in = tokens, sq_gross_curve = gross,
      sq_sol_out = gross - (pf + cf), sq_liquidity_policy = policy, sq_observed_real_sol = pc_real_sol s,
      sq_synthetic_shortfall = max 0 (gross - pc_real_sol s), sq_fees = fees\<rparr>"
    using run by (auto simp: PumpSellQuote_def split: if_splits)
  show thesis
    using that[OF gross_def _ g f1 f2 r(1,2) _ v _ _ _ r(3)] sp cap a1 a2 mul
    by (auto simp: require_quote_input_Inr checked_add_u64_Inr checked_mul_u128_Inr)
qed

section \<open>A sample curve\<close>

definition sample_curve :: curve_state where
  "sample_curve = \<lparr>pc_virtual_token = 1000000, pc_virtual_sol = 30000, pc_real_token = 800000,
     pc_real_sol = 100, pc_token_supply = 1000000, pc_lifecycle = CURVE_ACTIVE, pc_mode = MODE_CASHBACK\<rparr>"

definition sample_fees :: fee_profile where
  "sample_fees = \<lparr>fp_profile_id = ''p'', fp_program_version = PUMP_STATIC_PROGRAM_CONTRACT_V1,
     fp_buy_formula = PUMP_BUY_EXACT_GROSS_SOL_FORMULA_V1, fp_sell_formula = PUMP_SELL_EXACT_TOKEN_IN_FORMULA_V1,
     fp_effective_from = 10, fp_effective_until = 20, fp_protocol_fee_bps = 95, fp_creator_fee_bps = 30\<rparr>"

lemma sample_curve_valid: "PumpCurveStateV1 sample_curve = Inr sample_curve"
  by (simp add: PumpCurveStateV1_def sample_curve_def require_u64_def UINT64_MAX_def)

lemma sample_fees_valid: "PumpFeeProfile sample_fees = Inr sample_fees"
  by (simp add: PumpFeeProfile_def sample_fees_def require_stable_name_def require_u64_def require_basis_points_def
      UINT64_MAX_def BASIS_POINTS_DENOMINATOR_def PUMP_STATIC_PROGRAM_CONTRACT_V1_def
      PUMP_BUY_EXACT_GROSS_SOL_FORMULA_V1_def PUMP_SELL_EXACT_TOKEN_IN_FORMULA_V1_def strip_def is_space_def char_code_def)

lemmas quote_evals = validate_quote_contract_def require_u64_def UINT64_MAX_def UINT128_MAX_def
  supported_buy_formulas_def supported_sell_formulas_def effective_at_def require_quote_input_def
  checked_mul_u128_def checked_add_u64_def fee_ceil_def fee_breakdown_of_def PumpFeeBreakdown_def
  total_fee_def PumpBuyQuote_def PumpSellQuote_def require_stable_name_def BASIS_POINTS_DENOMINATOR_def
  PUMP_BUY_EXACT_GROSS_SOL_FORMULA_V1_def PUMP_BUY_LEGACY_EXACT_NET_SOL_FORMULA_V1_def
  PUMP_SELL_EXACT_TOKEN_IN_FORMULA_V1_def PUMP_STATIC_PROGRAM_CONTRACT_V1_def
  strip_def is_space_def char_code_def Let_def

lemma sample_buy: "\<exists>q. buy_quote sample_curve 1000 sample_fees 15 = Inr q \<and> bq_gross_spent q = 1000
    \<and> bq_tokens_out q = 31820"
  by (simp add: buy_quote_def sample_curve_def sample_fees_def quote_evals)

lemma sample_sell:
  "\<exists>q. sell_quote sample_curve 31820 sample_fees 15
      VIRTUAL_RESERVE_OUTPUT_WITH_EXPLICIT_SYNTHETIC_SHORTFALL_V1 = Inr q \<and> sq_sol_out q = 913"
  by (simp add: sell_quote_def sample_curve_def sample_fees_def quote_evals)

section \<open>Properties\<close>



text \<open>C20: No instant profit: tokens bought from a curve state and sold back into the same state, under any two
  fee profiles and any liquidity policy, return strictly less SOL than the buy spent.\<close>

theorem no_instant_profit:
  assumes "PumpCurveStateV1 s = Inr s" and "PumpFeeProfile p = Inr p" and "PumpFeeProfile p' = Inr p'"
    and "buy_quote s spendable p t = Inr q" and "sell_quote s (bq_tokens_out q) p' t' policy = Inr q'"
  shows "sq_sol_out q' < bq_gross_spent q"
proof (rule buy_quote_Inr[OF assms(4)], rule sell_quote_Inr[OF assms(5)])
  fix n pf cf net curve fees gross pf' cf' fees'
  assume n: "n = spendable * 10000 div (10000 + (fp_protocol_fee_bps p + fp_creator_fee_bps p))"
    and f: "fee_ceil n (fp_protocol_fee_bps p) = Inr pf" "fee_ceil n (fp_creator_fee_bps p) = Inr cf"
    and c: "curve = (if fp_buy_formula p = PUMP_BUY_EXACT_GROSS_SOL_FORMULA_V1 then net - 1 else net)" "0 < curve"
    and out: "bq_tokens_out q = curve * pc_virtual_token s div (pc_virtual_sol s + curve)" "0 < bq_tokens_out q"
    and spent: "bq_gross_spent q = net + pf + cf" and sp: "1 \<le> spendable"
    and g: "gross = bq_tokens_out q * pc_virtual_sol s div (pc_virtual_token s + bq_tokens_out q)" "0 < gross"
    and f': "fee_ceil gross (fp_protocol_fee_bps p') = Inr pf'" "fee_ceil gross (fp_creator_fee_bps p') = Inr cf'"
    and q': "q' = \<lparr>sq_formula = PUMP_SELL_EXACT_TOKEN_IN_FORMULA_V1, sq_tokens_in = bq_tokens_out q,
      sq_gross_curve = gross, sq_sol_out = gross - (pf' + cf'), sq_liquidity_policy = policy,
      sq_observed_real_sol = pc_real_sol s, sq_synthetic_shortfall = max 0 (gross - pc_real_sol s), sq_fees = fees'\<rparr>"
  note vs = valid_curve_bounds[OF assms(1)] and vp = valid_profile_bounds[OF assms(2)]
    and vp' = valid_profile_bounds[OF assms(3)]
  let ?o = "bq_tokens_out q" and ?vt = "pc_virtual_token s" and ?vs = "pc_virtual_sol s"
  have "gross * (?vt + ?o) \<le> ?o * ?vs"
    unfolding g(1) using vs(1) out(2) by (intro floor_div_le) simp
  moreover have "?o * ?vs \<le> curve * ?vt - ?o * curve"
    using curve_step(1)[OF vs(1,3), of curve] c(2) by (simp add: out(1) algebra_simps)
  moreover have "0 < ?o * curve" using out(2) c(2) by simp
  moreover have "0 \<le> curve * ?o" using out(2) c(2) by simp
  ultimately have "gross * (?vt + ?o) < curve * (?vt + ?o)"
    by (simp add: distrib_left mult.commute)
  then have "gross < curve" using vs(1) out(2) by simp
  moreover have "curve \<le> net" using c(1) by simp
  moreover have "0 \<le> n" unfolding n using sp vp(1,2) by (simp add: pos_imp_zdiv_nonneg_iff)
  then have "0 \<le> pf" "0 \<le> cf"
    using fee_ceil_bounds(3)[OF f(1)] fee_ceil_bounds(3)[OF f(2)] vp by simp_all
  moreover have "0 \<le> pf'" "0 \<le> cf'"
    using fee_ceil_bounds(3)[OF f'(1)] fee_ceil_bounds(3)[OF f'(2)] vp' g(2) by simp_all
  ultimately show ?thesis by (simp add: q' spent)
qed

theorem no_instant_profit_witness:
  "\<exists>q q'. buy_quote sample_curve 1000 sample_fees 15 = Inr q
     \<and> sell_quote sample_curve (bq_tokens_out q) sample_fees 15
         VIRTUAL_RESERVE_OUTPUT_WITH_EXPLICIT_SYNTHETIC_SHORTFALL_V1 = Inr q'
     \<and> sq_sol_out q' < bq_gross_spent q \<and> bq_gross_spent q = 1000"
proof -
  obtain q where q: "buy_quote sample_curve 1000 sample_fees 15 = Inr q" "bq_gross_spent q = 1000" "bq_tokens_out q = 31820"
    using sample_buy by blast
  obtain q' where q': "sell_quote sample_curve (bq_tokens_out q) sample_fees 15
      VIRTUAL_RESERVE_OUTPUT_WITH_EXPLICIT_SYNTHETIC_SHORTFALL_V1 = Inr q'"
    using sample_sell q(3) by auto
  from no_instant_profit[OF sample_curve_valid sample_fees_valid sample_fees_valid q(1) q'] q q' show ?thesis by blast
qed

section \<open>Errors of a quote\<close>

text \<open>A call whose only failures are the stable quote errors.\<close>

definition quote_error_typed :: "'a res \<Rightarrow> bool" where
  "quote_error_typed m \<longleftrightarrow> (case m of Inr _ \<Rightarrow> True | Inl (PumpQuoteError _) \<Rightarrow> True | Inl _ \<Rightarrow> False)"

lemma typed_Inr: "quote_error_typed (Inr x)"
  by (simp add: quote_error_typed_def)

lemma typed_quote_error: "quote_error_typed (Inl (PumpQuoteError c))"
  by (simp add: quote_error_typed_def)

lemma typed_bind:
  "quote_error_typed m \<Longrightarrow> (\<And>x. m = Inr x \<Longrightarrow> quote_error_typed (f x)) \<Longrightarrow> quote_error_typed (bindE m f)"
  by (cases m) (auto simp: quote_error_typed_def split: exn.splits)

lemma typed_if:
  "(b \<Longrightarrow> quote_error_typed x) \<Longrightarrow> (\<not> b \<Longrightarrow> quote_error_typed y) \<Longrightarrow> quote_error_typed (if b then x else y)"
  by simp

lemma typed_if_fail:
  "(\<not> b \<Longrightarrow> quote_error_typed y) \<Longrightarrow> quote_error_typed (if b then Inl (PumpQuoteError c) else y)"
  by (simp add: typed_quote_error)

lemma typed_let: "(\<And>x. x = a \<Longrightarrow> quote_error_typed (f x)) \<Longrightarrow> quote_error_typed (Let a f)"
  by simp

lemma typed_helpers:
  "quote_error_typed (require_quote_input v)" "quote_error_typed (checked_mul_u128 a b)"
  "quote_error_typed (checked_add_u64 a b)" "quote_error_typed (fee_ceil a bps)"
  by (auto simp: quote_error_typed_def require_quote_input_def require_u64_def checked_mul_u128_def Let_def
      checked_add_u64_def fee_ceil_def split: sum.splits exn.splits)

lemma typed_contract: "0 \<le> t \<Longrightarrow> t \<le> UINT64_MAX \<Longrightarrow> quote_error_typed (validate_quote_contract s p t fs f)"
  by (simp add: validate_quote_contract_def require_u64_def quote_error_typed_def)

lemma typed_breakdown:
  assumes "0 \<le> pf" "pf \<le> UINT64_MAX" "0 \<le> cf" "cf \<le> UINT64_MAX"
  shows "quote_error_typed (fee_breakdown_of mode pf cf)"
  using assms by (cases mode)
    (auto simp: fee_breakdown_of_def PumpFeeBreakdown_def require_u64_def quote_error_typed_def)

lemmas typed_intros = typed_bind typed_let typed_if typed_helpers typed_contract typed_quote_error typed_Inr

lemma sell_formula_name: "require_stable_name n PUMP_SELL_EXACT_TOKEN_IN_FORMULA_V1 = Inr ()"
  by (simp add: quote_evals)

lemma buy_tail_typed:
  assumes p: "PumpFeeProfile p = Inr p"
    and f: "0 \<le> pf" "0 \<le> cf" "pf + cf \<le> UINT64_MAX"
    and n: "1 \<le> spendable" "spendable \<le> UINT64_MAX" "0 < net" "net \<le> n" "n \<le> UINT64_MAX"
    and out: "0 < out" "out \<le> UINT64_MAX"
  shows "quote_error_typed (bindE (fee_breakdown_of mode pf cf) (\<lambda>fees.
     let gross_spent = net + total_fee fees in
     if spendable < gross_spent then Inl (PumpQuoteError ARITHMETIC_OVERFLOW)
     else PumpBuyQuote \<lparr>bq_formula = fp_buy_formula p, bq_spendable_gross = spendable,
       bq_gross_spent = gross_spent, bq_fee_basis = n, bq_net_curve = net, bq_tokens_out = out, bq_fees = fees\<rparr>))"
proof (intro typed_bind typed_breakdown)
  fix fees assume "fee_breakdown_of mode pf cf = Inr fees"
  then have "total_fee fees = pf + cf" using fee_breakdown_of_Inr by blast
  then show "quote_error_typed (let gross_spent = net + total_fee fees in
     if spendable < gross_spent then Inl (PumpQuoteError ARITHMETIC_OVERFLOW)
     else PumpBuyQuote \<lparr>bq_formula = fp_buy_formula p, bq_spendable_gross = spendable,
       bq_gross_spent = gross_spent, bq_fee_basis = n, bq_net_curve = net, bq_tokens_out = out, bq_fees = fees\<rparr>)"
    using assms valid_profile_bounds(6)[OF p]
    by (simp add: Let_def typed_quote_error PumpBuyQuote_def require_u64_def typed_Inr)
qed (use f in auto)

lemma buy_quote_typed:
  assumes s: "PumpCurveStateV1 s = Inr s" and p: "PumpFeeProfile p = Inr p" and t: "0 \<le> t" "t \<le> UINT64_MAX"
  shows "quote_error_typed (buy_quote s spendable p t)"
proof -
  note vs = valid_curve_bounds[OF s] and vp = valid_profile_bounds[OF p]
  define tail where "tail pf cf n net out = bindE (fee_breakdown_of (pc_mode s) pf cf) (\<lambda>fees.
       let gross_spent = net + total_fee fees in
       if spendable < gross_spent then Inl (PumpQuoteError ARITHMETIC_OVERFLOW)
       else PumpBuyQuote \<lparr>bq_formula = fp_buy_formula p, bq_spendable_gross = spendable,
         bq_gross_spent = gross_spent, bq_fee_basis = n, bq_net_curve = net, bq_tokens_out = out,
         bq_fees = fees\<rparr>)" for pf cf n net out
  show ?thesis
    unfolding buy_quote_def tail_def[symmetric]
  proof (intro typed_bind typed_let typed_if_fail typed_helpers typed_contract t)
    fix bps scaled n pf cf gross excess net curve out u
    assume sp: "require_quote_input spendable = Inr u"
      and bps: "bps = fp_protocol_fee_bps p + fp_creator_fee_bps p"
      and sc: "checked_mul_u128 spendable BASIS_POINTS_DENOMINATOR = Inr scaled"
      and n: "n = scaled div (BASIS_POINTS_DENOMINATOR + bps)"
      and f: "fee_ceil n (fp_protocol_fee_bps p) = Inr pf" "fee_ceil n (fp_creator_fee_bps p) = Inr cf"
      and g: "gross = n + pf + cf" and e: "excess = max 0 (gross - spendable)" and net: "net = n - excess"
      and c: "(if fp_buy_formula p = PUMP_BUY_EXACT_GROSS_SOL_FORMULA_V1
               then if net \<le> 1 then Inl (PumpQuoteError OUTPUT_OUT_OF_BOUNDS) else Inr (net - 1)
               else if net \<le> 0 then Inl (PumpQuoteError OUTPUT_OUT_OF_BOUNDS) else Inr net) = Inr curve"
      and out: "\<not> (out \<le> 0 \<or> pc_virtual_token s \<le> out)" "\<not> pc_real_token s < out"
    have n': "n = spendable * 10000 div (10000 + (fp_protocol_fee_bps p + fp_creator_fee_bps p))"
      using n sc bps by (simp add: checked_mul_u128_Inr BASIS_POINTS_DENOMINATOR_def)
    have sp: "1 \<le> spendable" "spendable \<le> UINT64_MAX" using sp by (simp_all add: require_quote_input_Inr)
    have excess: "n + pf + cf \<le> spendable + 1" by (rule budget_excess_le_one[OF f n' vp(1,2)])
    have net1: "0 < net" "net \<le> n" using c e by (auto simp: net split: if_splits)
    have fees: "0 \<le> pf" "0 \<le> cf"
      using fee_ceil_bounds(3)[OF f(1)] fee_ceil_bounds(3)[OF f(2)] vp net1 by simp_all
    have "n * 10000 \<le> n * (10000 + (fp_protocol_fee_bps p + fp_creator_fee_bps p))"
      using net1 vp by (intro mult_left_mono) auto
    also have "\<dots> \<le> spendable * 10000" unfolding n' using vp by (intro floor_div_le) simp
    finally have le: "n \<le> spendable" by simp
    show "quote_error_typed (tail pf cf n net out)"
      unfolding tail_def by (rule buy_tail_typed[OF p]) (use sp excess net1 fees out vs le in auto)
  qed (auto intro: typed_if typed_quote_error typed_Inr)
qed

lemma sell_tail_typed:
  assumes f: "0 \<le> pf" "0 \<le> cf" "pf + cf < gross" and g: "gross \<le> UINT64_MAX"
    and k: "1 \<le> tokens_in" "tokens_in \<le> UINT64_MAX" and r: "0 \<le> real" "real \<le> UINT64_MAX"
    and cap: "\<not> (policy = REAL_RESERVE_CAPPED_V1 \<and> 0 < max 0 (gross - real))"
  shows "quote_error_typed (bindE (fee_breakdown_of mode pf cf) (\<lambda>fees.
     PumpSellQuote \<lparr>sq_formula = PUMP_SELL_EXACT_TOKEN_IN_FORMULA_V1, sq_tokens_in = tokens_in,
       sq_gross_curve = gross, sq_sol_out = gross - (pf + cf), sq_liquidity_policy = policy,
       sq_observed_real_sol = real, sq_synthetic_shortfall = max 0 (gross - real), sq_fees = fees\<rparr>))"
proof (intro typed_bind typed_breakdown)
  fix fees assume "fee_breakdown_of mode pf cf = Inr fees"
  then have "total_fee fees = pf + cf" using fee_breakdown_of_Inr by blast
  then show "quote_error_typed (PumpSellQuote \<lparr>sq_formula = PUMP_SELL_EXACT_TOKEN_IN_FORMULA_V1,
       sq_tokens_in = tokens_in, sq_gross_curve = gross, sq_sol_out = gross - (pf + cf),
       sq_liquidity_policy = policy, sq_observed_real_sol = real,
       sq_synthetic_shortfall = max 0 (gross - real), sq_fees = fees\<rparr>)"
    using assms sell_formula_name
    by (auto simp: PumpSellQuote_def require_u64_def typed_Inr max_def)
qed (use f g in auto)

lemma sell_quote_typed:
  assumes s: "PumpCurveStateV1 s = Inr s" and p: "PumpFeeProfile p = Inr p" and t: "0 \<le> t" "t \<le> UINT64_MAX"
  shows "quote_error_typed (sell_quote s tokens_in p t policy)"
proof -
  note vs = valid_curve_bounds[OF s] and vp = valid_profile_bounds[OF p]
  define tail where "tail pf cf gross short = bindE (fee_breakdown_of (pc_mode s) pf cf) (\<lambda>fees.
       PumpSellQuote \<lparr>sq_formula = PUMP_SELL_EXACT_TOKEN_IN_FORMULA_V1, sq_tokens_in = tokens_in,
         sq_gross_curve = gross, sq_sol_out = gross - (pf + cf), sq_liquidity_policy = policy,
         sq_observed_real_sol = pc_real_sol s, sq_synthetic_shortfall = short, sq_fees = fees\<rparr>)"
    for pf cf gross short
  show ?thesis
    unfolding sell_quote_def tail_def[symmetric]
  proof (intro typed_bind typed_let typed_if_fail typed_helpers typed_contract t)
    fix pf cf gross short u
    assume k: "require_quote_input tokens_in = Inr u"
      and short: "short = max 0 (gross - pc_real_sol s)"
      and g: "\<not> (gross \<le> 0 \<or> pc_virtual_sol s \<le> gross)"
      and cap: "\<not> (policy = REAL_RESERVE_CAPPED_V1 \<and> 0 < short)"
      and f: "fee_ceil gross (fp_protocol_fee_bps p) = Inr pf" "fee_ceil gross (fp_creator_fee_bps p) = Inr cf"
        "\<not> gross \<le> pf + cf"
    have fees: "0 \<le> pf" "0 \<le> cf"
      using fee_ceil_bounds(3)[OF f(1)] fee_ceil_bounds(3)[OF f(2)] vp g by simp_all
    show "quote_error_typed (tail pf cf gross short)"
      unfolding short tail_def
      by (rule sell_tail_typed)
        (use k fees f(3) g vs cap short in \<open>auto simp: require_quote_input_Inr\<close>)
  qed
qed

text \<open>C36: On validated curves, profiles and times a quote either returns its validated record or fails with one of
  the stable quote error codes: no other exception of the record constructors escapes.\<close>

theorem quotes_fail_typed:
  assumes "PumpCurveStateV1 s = Inr s" and "PumpFeeProfile p = Inr p" and "0 \<le> t" and "t \<le> UINT64_MAX"
  shows "((\<exists>q. buy_quote s amount p t = Inr q) \<or> (\<exists>c. buy_quote s amount p t = Inl (PumpQuoteError c)))
    \<and> ((\<exists>q. sell_quote s amount p t policy = Inr q)
        \<or> (\<exists>c. sell_quote s amount p t policy = Inl (PumpQuoteError c)))"
  using buy_quote_typed[OF assms, of amount] sell_quote_typed[OF assms, of amount policy]
  by (auto simp: quote_error_typed_def split: sum.splits exn.splits)

theorem quotes_fail_typed_witness:
  "\<exists>c. sell_quote sample_curve 900000000 sample_fees 15 REAL_RESERVE_CAPPED_V1 = Inl (PumpQuoteError c)"
proof -
  have fail: "\<nexists>q. sell_quote sample_curve 900000000 sample_fees 15 REAL_RESERVE_CAPPED_V1 = Inr q"
    by (simp add: sell_quote_def sample_curve_def sample_fees_def quote_evals)
  have "(0::int) \<le> 15" "15 \<le> UINT64_MAX" by (simp_all add: UINT64_MAX_def)
  from quotes_fail_typed[OF sample_curve_valid sample_fees_valid this, of 900000000 REAL_RESERVE_CAPPED_V1] fail
  show ?thesis by blast
qed

text \<open>A larger budget never buys fewer tokens from the same curve under the same profile, although the
  adjusted curve input gives back the lamport that rounding both fees up may cost.\<close>

theorem buy_quote_monotone:
  assumes "PumpCurveStateV1 s = Inr s" and "PumpFeeProfile p = Inr p" and "b \<le> b'"
    and "buy_quote s b p t = Inr q" and "buy_quote s b' p t' = Inr q'"
  shows "bq_tokens_out q \<le> bq_tokens_out q'"
proof (rule buy_quote_Inr[OF assms(4)], rule buy_quote_Inr[OF assms(5)])
  let ?bps = "fp_protocol_fee_bps p + fp_creator_fee_bps p"
  fix n pf cf net curve n' pf' cf' net' curve' fees fees'
  assume n: "n = b * 10000 div (10000 + ?bps)" and n': "n' = b' * 10000 div (10000 + ?bps)"
    and f: "fee_ceil n (fp_protocol_fee_bps p) = Inr pf" "fee_ceil n (fp_creator_fee_bps p) = Inr cf"
    and f': "fee_ceil n' (fp_protocol_fee_bps p) = Inr pf'" "fee_ceil n' (fp_creator_fee_bps p) = Inr cf'"
    and net: "net = n - max 0 (n + pf + cf - b)" and net': "net' = n' - max 0 (n' + pf' + cf' - b')"
    and c: "curve = (if fp_buy_formula p = PUMP_BUY_EXACT_GROSS_SOL_FORMULA_V1 then net - 1 else net)" "0 < curve"
    and c': "curve' = (if fp_buy_formula p = PUMP_BUY_EXACT_GROSS_SOL_FORMULA_V1 then net' - 1 else net')"
    and out: "bq_tokens_out q = curve * pc_virtual_token s div (pc_virtual_sol s + curve)"
    and out': "bq_tokens_out q' = curve' * pc_virtual_token s div (pc_virtual_sol s + curve')"
  note vs = valid_curve_bounds[OF assms(1)] and vp = valid_profile_bounds[OF assms(2)]
  have nn: "n \<le> n'" unfolding n n' using assms(3) vp by (intro zdiv_mono1) auto
  have excess: "n' + pf' + cf' \<le> b' + 1" by (rule budget_excess_le_one[OF f' n' vp(1,2)])
  have "net \<le> net'"
  proof (cases "n = n'")
    case True
    then have "pf = pf'" "cf = cf'" using f f' by simp_all
    then show ?thesis using True assms(3) by (simp add: net net' max_def)
  next
    case False
    then show ?thesis using nn excess by (simp add: net net' max_def)
  qed
  then have "curve \<le> curve'" by (simp add: c(1) c')
  then show ?thesis unfolding out out' using vs c(2) by (intro curve_step_mono) auto
qed

theorem buy_quote_monotone_witness:
  "\<exists>q q'. buy_quote sample_curve 1000 sample_fees 15 = Inr q \<and> buy_quote sample_curve 1001 sample_fees 15 = Inr q'
     \<and> bq_tokens_out q \<le> bq_tokens_out q'"
proof -
  obtain q where q: "buy_quote sample_curve 1000 sample_fees 15 = Inr q" using sample_buy by blast
  obtain q' where q': "buy_quote sample_curve 1001 sample_fees 15 = Inr q'"
    by (simp add: buy_quote_def sample_curve_def sample_fees_def quote_evals)
  have "(1000::int) \<le> 1001" by simp
  from buy_quote_monotone[OF sample_curve_valid sample_fees_valid this q q'] q q' show ?thesis by blast
qed

end
