(* ===== verification/Account_Lifecycle.thy ===== *)
theory Account_Lifecycle
  imports Ledger
begin

text \<open>
  Account requirements and their lifecycle records (\<^verbatim>\<open>domain/account_requirements.py\<close>) and the
  run-scoped reducer of wallet and per-mint accounts (\<^verbatim>\<open>engine/wallet_accounts.py\<close>). The reducer's
  previews are pure; its commit is the second instance of \<open>preview_commit\<close>.
\<close>

section \<open>Requirements\<close>

datatype account_requirement_scope = MINT | WALLET

datatype account_release_policy = CLOSE_ON_SUCCESSFUL_SELL | RUN_LOCKED

datatype account_component_lifecycle =
    NOT_CREATED | RESERVATION_RELEASED | PREWARMED | EXISTING_RUN_LOCKED | CREATED_LOCKED | CLOSED_REFUNDED

lemma other_scope [simp]: "scope \<noteq> MINT \<longleftrightarrow> scope = WALLET" "scope \<noteq> WALLET \<longleftrightarrow> scope = MINT"
  by (cases scope; simp)+

fun scope_value :: "account_requirement_scope \<Rightarrow> string" where
  "scope_value MINT = ''MINT''"
| "scope_value WALLET = ''WALLET''"

fun release_policy_value :: "account_release_policy \<Rightarrow> string" where
  "release_policy_value CLOSE_ON_SUCCESSFUL_SELL = ''CLOSE_ON_SUCCESSFUL_SELL''"
| "release_policy_value RUN_LOCKED = ''RUN_LOCKED''"

fun component_lifecycle_value :: "account_component_lifecycle \<Rightarrow> string" where
  "component_lifecycle_value NOT_CREATED = ''NOT_CREATED''"
| "component_lifecycle_value RESERVATION_RELEASED = ''RESERVATION_RELEASED''"
| "component_lifecycle_value PREWARMED = ''PREWARMED''"
| "component_lifecycle_value EXISTING_RUN_LOCKED = ''EXISTING_RUN_LOCKED''"
| "component_lifecycle_value CREATED_LOCKED = ''CREATED_LOCKED''"
| "component_lifecycle_value CLOSED_REFUNDED = ''CLOSED_REFUNDED''"

definition account_stable_name :: "string \<Rightarrow> string \<Rightarrow> unit res" where
  "account_stable_name name v =
     (if v = [] \<or> v \<noteq> strip v \<or> CHR 0x00 \<in> set v then
        Inl (ValueError (name @ '' must be non-empty, trimmed and NUL-free''))
      else Inr ())"

definition require_account_u64 :: "string \<Rightarrow> int \<Rightarrow> bool \<Rightarrow> unit res" where
  "require_account_u64 name v positive =
     (let lower = (if positive then 1 else 0) in
      if \<not> (lower \<le> v \<and> v \<le> UINT64_MAX) then
        Inl (ValueError (name @ '' must be an unsigned 64-bit integer >= '' @ (if positive then ''1'' else ''0'')))
      else Inr ())"

record account_requirement =
  ar_schema_id :: string
  ar_scope :: account_requirement_scope
  ar_release_policy :: account_release_policy

fun expected_release_policy :: "account_requirement_scope \<Rightarrow> account_release_policy" where
  "expected_release_policy MINT = CLOSE_ON_SUCCESSFUL_SELL"
| "expected_release_policy WALLET = RUN_LOCKED"

definition AccountRequirement :: "account_requirement \<Rightarrow> account_requirement res" where
  "AccountRequirement r =
     bindE (account_stable_name ''requirement_schema_id'' (ar_schema_id r)) (\<lambda>_.
     if expected_release_policy (ar_scope r) \<noteq> ar_release_policy r then
       Inl (ValueError ''account requirement scope and release policy are incompatible'')
     else Inr r)"

record priced_account_requirement =
  pr_requirement :: account_requirement
  pr_asset_id :: asset_id
  pr_maximum_deposit :: int

definition PricedAccountRequirement :: "priced_account_requirement \<Rightarrow> priced_account_requirement res" where
  "PricedAccountRequirement p =
     bindE (require_account_u64 ''maximum_deposit_atomic'' (pr_maximum_deposit p) True) (\<lambda>_. Inr p)"

fun scope_order :: "account_requirement_scope \<Rightarrow> nat" where
  "scope_order MINT = 0"
| "scope_order WALLET = 1"

definition account_requirement_key :: "account_requirement \<Rightarrow> nat \<times> string \<times> string" where
  "account_requirement_key r =
     (scope_order (ar_scope r), ar_schema_id r, release_policy_value (ar_release_policy r))"

definition priced_account_requirement_key :: "priced_account_requirement \<Rightarrow> nat \<times> string \<times> string \<times> string" where
  "priced_account_requirement_key p =
     (case account_requirement_key (pr_requirement p) of (a, b, c) \<Rightarrow> (a, b, c, pr_asset_id p))"

section \<open>Component records\<close>

record account_component =
  ac_schema_id :: string
  ac_asset_id :: asset_id
  ac_scope :: account_requirement_scope
  ac_release_policy :: account_release_policy
  ac_maximum_reserved :: int
  ac_paid :: int
  ac_released :: int
  ac_refunded :: int
  ac_locked_delta :: int
  ac_lifecycle :: account_component_lifecycle
  ac_attribution_kind :: ledger_correlation_kind
  ac_attribution_id :: digest

definition validate_lifecycle_amounts :: "account_component \<Rightarrow> unit res" where
  "validate_lifecycle_amounts c = (case ac_lifecycle c of
     NOT_CREATED \<Rightarrow>
       raise_if (ac_paid c \<noteq> 0 \<or> ac_released c \<noteq> 0 \<or> ac_refunded c \<noteq> 0)
         (ValueError ''an uncreated account cannot carry cashflows'')
   | RESERVATION_RELEASED \<Rightarrow>
       if ac_paid c \<noteq> 0 \<or> ac_refunded c \<noteq> 0 \<or> ac_locked_delta c \<noteq> 0 then
         Inl (ValueError ''a released reservation cannot carry a deposit'')
       else raise_if (ac_released c \<noteq> ac_maximum_reserved c)
         (ValueError ''a released reservation must release its full maximum'')
   | PREWARMED \<Rightarrow>
       raise_if (ac_maximum_reserved c \<noteq> 0 \<or> ac_paid c \<noteq> 0 \<or> ac_released c \<noteq> 0 \<or> ac_refunded c \<noteq> 0
           \<or> ac_locked_delta c \<noteq> 0)
         (ValueError ''an existing account cannot duplicate lifecycle cashflow'')
   | EXISTING_RUN_LOCKED \<Rightarrow>
       if ac_paid c \<noteq> 0 \<or> ac_refunded c \<noteq> 0 \<or> ac_locked_delta c \<noteq> 0 then
         Inl (ValueError ''an existing account cannot duplicate lifecycle cashflow'')
       else raise_if (ac_released c \<noteq> ac_maximum_reserved c)
         (ValueError ''an existing account must release any redundant reservation'')
   | CREATED_LOCKED \<Rightarrow>
       if ac_paid c \<le> 0 \<or> ac_paid c \<noteq> ac_maximum_reserved c then
         Inl (ValueError ''a locked account must pay its full reserved deposit'')
       else raise_if (ac_released c \<noteq> 0 \<or> ac_refunded c \<noteq> 0)
         (ValueError ''a locked account cannot release or refund its deposit'')
   | CLOSED_REFUNDED \<Rightarrow>
       if ac_release_policy c \<noteq> CLOSE_ON_SUCCESSFUL_SELL then
         Inl (ValueError ''a run-locked account cannot be closed by a sell'')
       else if ac_paid c \<le> 0 \<or> ac_paid c \<noteq> ac_refunded c then
         Inl (ValueError ''a closed account must refund its complete paid deposit'')
       else raise_if (ac_released c \<noteq> 0 \<or> ac_maximum_reserved c \<noteq> ac_paid c)
         (ValueError ''a closed account has inconsistent reservation amounts''))"

definition INT128_BOUND :: int where "INT128_BOUND = 170141183460469231731687303715884105728"

definition AccountComponentRecord :: "account_component \<Rightarrow> account_component res" where
  "AccountComponentRecord c =
     bindE (AccountRequirement \<lparr>ar_schema_id = ac_schema_id c, ar_scope = ac_scope c,
       ar_release_policy = ac_release_policy c\<rparr>) (\<lambda>_.
     bindE (require_account_u64 ''maximum_reserved_atomic'' (ac_maximum_reserved c) False) (\<lambda>_.
     bindE (require_account_u64 ''paid_atomic'' (ac_paid c) False) (\<lambda>_.
     bindE (require_account_u64 ''released_atomic'' (ac_released c) False) (\<lambda>_.
     bindE (require_account_u64 ''refunded_atomic'' (ac_refunded c) False) (\<lambda>_.
     if \<not> (- INT128_BOUND \<le> ac_locked_delta c \<and> ac_locked_delta c < INT128_BOUND) then
       Inl (ValueError ''locked_delta_atomic must fit signed Int128'')
     else if ac_maximum_reserved c < ac_paid c + ac_released c then
       Inl (ValueError ''account component consumes more than its reservation'')
     else if ac_paid c < ac_refunded c then
       Inl (ValueError ''account component refund exceeds its paid deposit'')
     else if ac_locked_delta c \<noteq> ac_paid c - ac_refunded c then
       Inl (ValueError ''account component locked delta is inconsistent'')
     else bindE (validate_lifecycle_amounts c) (\<lambda>_. Inr c))))))"

definition component_document :: "account_component \<Rightarrow> (string, json) dict" where
  "component_document c =
     [(''asset_id'', JStr (ac_asset_id c)),
      (''attribution_id'', JStr (digest_hex (ac_attribution_id c))),
      (''attribution_kind'', JStr (ledger_correlation_kind_value (ac_attribution_kind c))),
      (''lifecycle'', JStr (component_lifecycle_value (ac_lifecycle c))),
      (''locked_delta_atomic'', JInt (ac_locked_delta c)),
      (''maximum_reserved_atomic'', JInt (ac_maximum_reserved c)),
      (''paid_atomic'', JInt (ac_paid c)),
      (''refunded_atomic'', JInt (ac_refunded c)),
      (''release_policy'', JStr (release_policy_value (ac_release_policy c))),
      (''released_atomic'', JInt (ac_released c)),
      (''requirement_schema_id'', JStr (ac_schema_id c)),
      (''scope'', JStr (scope_value (ac_scope c)))]"

text \<open>
  A JSON object stands for a Python dict, so its keys are distinct. Looking an enumeration member up by its value; an unknown value is a ValueError.\<close>

definition enum_of_value :: "string \<Rightarrow> ('m \<Rightarrow> string) \<Rightarrow> 'm list \<Rightarrow> string \<Rightarrow> 'm res" where
  "enum_of_value name value members v =
     (case List.find (\<lambda>m. value m = v) members of
        Some m \<Rightarrow> Inr m
      | None \<Rightarrow> Inl (ValueError (v @ '' is not a valid '' @ name)))"

definition component_string :: "(string, json) dict \<Rightarrow> string \<Rightarrow> string \<Rightarrow> string res" where
  "component_string d key field =
     (case dict_get d key of Some (JStr s) \<Rightarrow> Inr s | _ \<Rightarrow> Inl (ValueError (field @ '' must be a string'')))"

definition component_integer :: "(string, json) dict \<Rightarrow> string \<Rightarrow> string \<Rightarrow> int res" where
  "component_integer d key field =
     (case dict_get d key of Some (JInt i) \<Rightarrow> Inr i | _ \<Rightarrow> Inl (ValueError (field @ '' must be an integer'')))"

definition component_keys :: "string list" where
  "component_keys = [''asset_id'', ''attribution_id'', ''attribution_kind'', ''lifecycle'',
     ''locked_delta_atomic'', ''maximum_reserved_atomic'', ''paid_atomic'', ''refunded_atomic'',
     ''release_policy'', ''released_atomic'', ''requirement_schema_id'', ''scope'']"

definition dict_eq :: "('k, 'v) dict \<Rightarrow> ('k, 'v) dict \<Rightarrow> bool" where
  "dict_eq a b \<longleftrightarrow> set (dict_keys a) = set (dict_keys b) \<and> list_all (\<lambda>k. dict_get a k = dict_get b k) (dict_keys a)"

definition account_component_from_document :: "json \<Rightarrow> account_component res" where
  "account_component_from_document v = (case v of
     JObj d \<Rightarrow>
       if set (dict_keys d) \<noteq> set component_keys then
         Inl (ValueError ''account component schema is invalid'')
       else
         bindE (component_string d ''requirement_schema_id'' ''requirement schema ID'') (\<lambda>schema.
         bindE (component_string d ''asset_id'' ''account deposit asset ID'') (\<lambda>asset.
         bindE (Identifier asset) (\<lambda>asset.
         bindE (component_string d ''scope'' ''account requirement scope'') (\<lambda>scope.
         bindE (enum_of_value ''AccountRequirementScope'' scope_value [MINT, WALLET] scope) (\<lambda>scope.
         bindE (component_string d ''release_policy'' ''account release policy'') (\<lambda>release.
         bindE (enum_of_value ''AccountReleasePolicy'' release_policy_value
           [CLOSE_ON_SUCCESSFUL_SELL, RUN_LOCKED] release) (\<lambda>release.
         bindE (component_integer d ''maximum_reserved_atomic'' ''maximum reserved'') (\<lambda>maximum.
         bindE (component_integer d ''paid_atomic'' ''paid account deposit'') (\<lambda>paid.
         bindE (component_integer d ''released_atomic'' ''released reservation'') (\<lambda>released.
         bindE (component_integer d ''refunded_atomic'' ''refunded account deposit'') (\<lambda>refunded.
         bindE (component_integer d ''locked_delta_atomic'' ''locked account delta'') (\<lambda>locked.
         bindE (component_string d ''lifecycle'' ''account component lifecycle'') (\<lambda>lifecycle.
         bindE (enum_of_value ''AccountComponentLifecycle'' component_lifecycle_value
           [NOT_CREATED, RESERVATION_RELEASED, PREWARMED, EXISTING_RUN_LOCKED, CREATED_LOCKED,
            CLOSED_REFUNDED] lifecycle) (\<lambda>lifecycle.
         bindE (component_string d ''attribution_kind'' ''account attribution kind'') (\<lambda>kind.
         bindE (enum_of_value ''LedgerCorrelationKind'' ledger_correlation_kind_value [ORDER, ROUNDTRIP] kind) (\<lambda>kind.
         bindE (component_string d ''attribution_id'' ''account attribution ID'') (\<lambda>attribution.
         bindE (ContentDigest attribution) (\<lambda>attribution.
         bindE (AccountComponentRecord \<lparr>ac_schema_id = schema, ac_asset_id = asset, ac_scope = scope,
           ac_release_policy = release, ac_maximum_reserved = maximum, ac_paid = paid,
           ac_released = released, ac_refunded = refunded, ac_locked_delta = locked,
           ac_lifecycle = lifecycle, ac_attribution_kind = kind, ac_attribution_id = attribution\<rparr>) (\<lambda>c.
         if \<not> dict_eq (component_document c) d then
           Inl (ValueError ''account component does not round-trip exactly'')
         else Inr c)))))))))))))))))))
   | _ \<Rightarrow> Inl (ValueError ''account component must be an object''))"

section \<open>Lemmas\<close>

lemma enum_of_scope: "enum_of_value n scope_value [MINT, WALLET] (scope_value m) = Inr m"
  by (cases m) (simp_all add: enum_of_value_def)

lemma enum_of_release:
  "enum_of_value n release_policy_value [CLOSE_ON_SUCCESSFUL_SELL, RUN_LOCKED] (release_policy_value m) = Inr m"
  by (cases m) (simp_all add: enum_of_value_def)

lemma enum_of_lifecycle:
  "enum_of_value n component_lifecycle_value [NOT_CREATED, RESERVATION_RELEASED, PREWARMED, EXISTING_RUN_LOCKED,
     CREATED_LOCKED, CLOSED_REFUNDED] (component_lifecycle_value m) = Inr m"
  by (cases m) (simp_all add: enum_of_value_def)

lemma enum_of_correlation:
  "enum_of_value n ledger_correlation_kind_value [ORDER, ROUNDTRIP] (ledger_correlation_kind_value m) = Inr m"
  by (cases m) (simp_all add: enum_of_value_def)

lemma component_attribution_free:
  "AccountComponentRecord c = Inr c \<Longrightarrow>
   AccountComponentRecord (c\<lparr>ac_attribution_id := d\<rparr>) = Inr (c\<lparr>ac_attribution_id := d\<rparr>)"
  by (cases c) (auto simp: AccountComponentRecord_def validate_lifecycle_amounts_def
      split: if_splits account_component_lifecycle.splits)

lemma digest_hex_plain:
  assumes "ContentDigest d = Inr d"
  shows "ContentDigest (digest_hex d) = Inr (digest_hex d)" and "digest_hex (digest_hex d) = digest_hex d"
proof -
  let ?b = "digest_hex d"
  have b: "length ?b = 64" "list_all is_lower_hex ?b"
    using assms by (auto simp: ContentDigest_def sha256_re_def Let_def Identifier_def split: if_splits)
  have hex: "c \<noteq> CHR ''s'' \<and> \<not> is_space c \<and> \<not> char_code c < 32" if "c \<in> set ?b" for c
    using b(2) that by (auto simp: list_all_iff is_lower_hex_def is_space_def char_code_def Let_def)
  obtain x xs where xs: "?b = x # xs" using b(1) by (cases ?b) auto
  then show idem: "digest_hex ?b = ?b"
    using hex[of x] by (simp add: digest_hex_def[of "x # xs"] sha256_prefix_def)
  have ends: "hd ?b \<in> set ?b" "last ?b \<in> set ?b" using xs by auto
  have "dropWhile is_space ?b = ?b" "dropWhile is_space (rev ?b) = rev ?b"
    using hex[OF ends(1)] hex[OF ends(2)] by (simp_all add: dropWhile_eq_self_iff hd_rev)
  then have "strip ?b = ?b" by (simp add: strip_def)
  then show "ContentDigest ?b = Inr ?b"
    using b hex xs idem unfolding ContentDigest_def Identifier_def sha256_re_def
    by (auto simp: list_ex_iff Let_def)
qed

section \<open>Properties\<close>

text \<open>A component record written as its document is read back as itself, its attribution digest without the
  optional prefix.\<close>

theorem account_component_roundtrip:
  assumes "AccountComponentRecord c = Inr c" and "Identifier (ac_asset_id c) = Inr (ac_asset_id c)"
    and "ContentDigest (ac_attribution_id c) = Inr (ac_attribution_id c)"
  shows "account_component_from_document (JObj (component_document c))
      = Inr (c\<lparr>ac_attribution_id := digest_hex (ac_attribution_id c)\<rparr>)"
proof -
  let ?d = "component_document c" and ?c = "c\<lparr>ac_attribution_id := digest_hex (ac_attribution_id c)\<rparr>"
  have strs: "component_string ?d ''requirement_schema_id'' n = Inr (ac_schema_id c)"
    "component_string ?d ''asset_id'' n = Inr (ac_asset_id c)"
    "component_string ?d ''scope'' n = Inr (scope_value (ac_scope c))"
    "component_string ?d ''release_policy'' n = Inr (release_policy_value (ac_release_policy c))"
    "component_string ?d ''lifecycle'' n = Inr (component_lifecycle_value (ac_lifecycle c))"
    "component_string ?d ''attribution_kind'' n = Inr (ledger_correlation_kind_value (ac_attribution_kind c))"
    "component_string ?d ''attribution_id'' n = Inr (digest_hex (ac_attribution_id c))" for n
    by (simp_all add: component_string_def component_document_def)
  have ints: "component_integer ?d ''maximum_reserved_atomic'' n = Inr (ac_maximum_reserved c)"
    "component_integer ?d ''paid_atomic'' n = Inr (ac_paid c)"
    "component_integer ?d ''released_atomic'' n = Inr (ac_released c)"
    "component_integer ?d ''refunded_atomic'' n = Inr (ac_refunded c)"
    "component_integer ?d ''locked_delta_atomic'' n = Inr (ac_locked_delta c)" for n
    by (simp_all add: component_integer_def component_document_def)
  have keys: "set (dict_keys ?d) = set component_keys"
    by (simp add: component_document_def component_keys_def)
  have doc: "component_document ?c = ?d"
    by (simp add: component_document_def digest_hex_plain(2)[OF assms(3)])
  have "?c = \<lparr>ac_schema_id = ac_schema_id c, ac_asset_id = ac_asset_id c, ac_scope = ac_scope c,
      ac_release_policy = ac_release_policy c, ac_maximum_reserved = ac_maximum_reserved c, ac_paid = ac_paid c,
      ac_released = ac_released c, ac_refunded = ac_refunded c, ac_locked_delta = ac_locked_delta c,
      ac_lifecycle = ac_lifecycle c, ac_attribution_kind = ac_attribution_kind c,
      ac_attribution_id = digest_hex (ac_attribution_id c)\<rparr>"
    by (cases c) simp
  note expand = this
  note valid = component_attribution_free[OF assms(1), of "digest_hex (ac_attribution_id c)", unfolded expand]
  show ?thesis
    unfolding account_component_from_document_def json.case keys strs ints enum_of_scope enum_of_release
      enum_of_lifecycle enum_of_correlation bindE_Inr assms(2) digest_hex_plain(1)[OF assms(3)] valid
    unfolding expand[symmetric] doc by (simp add: dict_eq_def list_all_iff)
qed

definition sample_component :: account_component where
  "sample_component = \<lparr>ac_schema_id = ''ata'', ac_asset_id = ''SOL'', ac_scope = MINT,
     ac_release_policy = CLOSE_ON_SUCCESSFUL_SELL, ac_maximum_reserved = 5, ac_paid = 5, ac_released = 0,
     ac_refunded = 5, ac_locked_delta = 0, ac_lifecycle = CLOSED_REFUNDED, ac_attribution_kind = ROUNDTRIP,
     ac_attribution_id = sha256_prefix @ replicate 64 CHR ''a''\<rparr>"

lemma digest_hex_prefixed: "digest_hex (sha256_prefix @ d) = d"
  by (simp add: digest_hex_def)

theorem account_component_roundtrip_witness:
  "account_component_from_document (JObj (component_document sample_component))
     = Inr (sample_component\<lparr>ac_attribution_id := replicate 64 CHR ''a''\<rparr>)"
proof -
  let ?d = "sha256_prefix @ replicate 64 CHR ''a''"
  have "AccountComponentRecord sample_component = Inr sample_component"
    by (simp add: sample_component_def AccountComponentRecord_def AccountRequirement_def account_stable_name_def
        require_account_u64_def validate_lifecycle_amounts_def INT128_BOUND_def UINT64_MAX_def Let_def
        strip_def is_space_def char_code_def)
  moreover have "Identifier (ac_asset_id sample_component) = Inr (ac_asset_id sample_component)"
    by (simp add: sample_component_def Identifier_def strip_def is_space_def char_code_def)
  moreover have "ContentDigest ?d = Inr ?d"
  proof -
    have "strip ?d = ?d"
      by (simp add: strip_def sha256_prefix_def is_space_def dropWhile_eq_self_iff)
    moreover have "sha256_re ?d"
      unfolding sha256_re_def digest_hex_prefixed by (simp add: is_lower_hex_def char_code_def list_all_iff Let_def)
    ultimately show ?thesis
      unfolding ContentDigest_def Identifier_def by (simp add: list_ex_iff char_code_def sha256_prefix_def)
  qed
  then have "ContentDigest (ac_attribution_id sample_component) = Inr (ac_attribution_id sample_component)"
    by (simp add: sample_component_def)
  ultimately have "account_component_from_document (JObj (component_document sample_component))
     = Inr (sample_component\<lparr>ac_attribution_id := digest_hex (ac_attribution_id sample_component)\<rparr>)"
    by (rule account_component_roundtrip)
  then show ?thesis by (simp add: sample_component_def digest_hex_prefixed)
qed

end
