(* ===== verification/Wallet_Accounts.thy ===== *)
theory Wallet_Accounts
  imports Account_Lifecycle
begin

text \<open>
  The run-scoped reducer of wallet and per-mint accounts (\<^verbatim>\<open>engine/wallet_accounts.py\<close>). A preview computes
  the candidate state and the lifecycle records of one order without changing the reducer; \<open>wallet_commit\<close>
  installs it. The second instance of \<open>preview_commit\<close>.
\<close>

section \<open>State\<close>

datatype wallet_uva_initial_state = UVA_FRESH | UVA_PREWARMED

type_synonym open_mint_account = "asset_id \<times> string \<times> digest"

record wallet_state =
  ws_initial_uva :: wallet_uva_initial_state
  ws_uva_schema_id :: string
  ws_uva_created_by :: "digest option"
  ws_open_mint_accounts :: "open_mint_account list"

definition WalletProvisioningState :: "wallet_state \<Rightarrow> wallet_state res" where
  "WalletProvisioningState s =
     bindE (account_stable_name ''UVA schema ID'' (ws_uva_schema_id s)) (\<lambda>_.
     if ws_initial_uva s = UVA_PREWARMED \<and> ws_uva_created_by s \<noteq> None then
       Inl (ValueError ''prewarmed UVA cannot have an in-run creator'')
     else if ws_open_mint_accounts s \<noteq> sort (ws_open_mint_accounts s) then
       Inl (ValueError ''open mint accounts must be canonically sorted'')
     else if card (set (map fst (ws_open_mint_accounts s))) \<noteq> length (ws_open_mint_accounts s) then
       Inl (ValueError ''a mint cannot have multiple open accounts'')
     else Inr s)"

definition uva_exists :: "wallet_state \<Rightarrow> bool" where
  "uva_exists s \<longleftrightarrow> ws_initial_uva s = UVA_PREWARMED \<or> ws_uva_created_by s \<noteq> None"

definition initial_wallet_provisioning_state :: "wallet_uva_initial_state \<Rightarrow> string \<Rightarrow> wallet_state res" where
  "initial_wallet_provisioning_state initial schema =
     WalletProvisioningState \<lparr>ws_initial_uva = initial, ws_uva_schema_id = schema, ws_uva_created_by = None,
       ws_open_mint_accounts = []\<rparr>"

definition mint_open :: "wallet_state \<Rightarrow> asset_id \<Rightarrow> bool" where
  "mint_open s mint \<longleftrightarrow> list_ex (\<lambda>opened. fst opened = mint) (ws_open_mint_accounts s)"

section \<open>Reservations\<close>

record reservation_component =
  rc_priced :: priced_account_requirement
  rc_maximum_reserved :: int

definition AccountReservationComponent :: "priced_account_requirement \<Rightarrow> int \<Rightarrow> reservation_component res" where
  "AccountReservationComponent priced maximum =
     (if \<not> (0 \<le> maximum \<and> maximum \<le> pr_maximum_deposit priced) then
        Inl (ValueError ''account reservation is outside its priced maximum'')
      else Inr \<lparr>rc_priced = priced, rc_maximum_reserved = maximum\<rparr>)"

definition component_key :: "priced_account_requirement \<Rightarrow> string \<times> string" where
  "component_key p = (scope_value (ar_scope (pr_requirement p)), ar_schema_id (pr_requirement p))"

abbreviation rc_scope :: "reservation_component \<Rightarrow> account_requirement_scope" where
  "rc_scope c \<equiv> ar_scope (pr_requirement (rc_priced c))"

record reservation_plan =
  rp_roundtrip_id :: digest
  rp_mint_asset_id :: asset_id
  rp_components :: "reservation_component list"

definition AccountReservationPlan :: "reservation_plan \<Rightarrow> reservation_plan res" where
  "AccountReservationPlan p =
     (let keys = map (\<lambda>c. component_key (rc_priced c)) (rp_components p);
          scopes = map rc_scope (rp_components p) in
      if keys \<noteq> sort keys \<or> length keys \<noteq> card (set keys) then
        Inl (ValueError ''account reservation components must be sorted and unique'')
      else if count_list scopes MINT \<noteq> 1 then
        Inl (ValueError ''account reservation requires exactly one mint component'')
      else if count_list scopes WALLET \<noteq> 1 then
        Inl (ValueError ''account reservation requires exactly one wallet component'')
      else Inr p)"

text \<open>Adding amounts per asset in a dict, then listing it in asset order.\<close>

definition asset_totals :: "(asset_id \<times> int) list \<Rightarrow> (asset_id, int) dict" where
  "asset_totals rows = foldl (\<lambda>totals (asset, amount).
     dict_set asset (dict_get_default totals asset 0 + amount) totals) [] rows"

definition reserved_asset_amounts :: "reservation_plan \<Rightarrow> (asset_id \<times> int) list" where
  "reserved_asset_amounts p =
     sort_key fst (asset_totals (map (\<lambda>c. (pr_asset_id (rc_priced c), rc_maximum_reserved c))
       (filter (\<lambda>c. rc_maximum_reserved c \<noteq> 0) (rp_components p))))"

definition prepare_account_reservation ::
  "wallet_state \<Rightarrow> digest \<Rightarrow> asset_id \<Rightarrow> priced_account_requirement list \<Rightarrow> reservation_plan res" where
  "prepare_account_reservation s roundtrip mint priced =
     (if priced = [] then Inl (TypeError ''priced account requirements must be a non-empty tuple'')
      else if mint_open s mint then Inl (WalletProvisioningError ''mint account is already open'')
      else (case filter (\<lambda>p. ar_scope (pr_requirement p) = WALLET) priced of
          [w] \<Rightarrow>
            if ar_schema_id (pr_requirement w) \<noteq> ws_uva_schema_id s then
              Inl (WalletProvisioningError ''wallet requirement does not match the resolved UVA'')
            else bindE (mapE (\<lambda>p. AccountReservationComponent p
                (if ar_scope (pr_requirement p) = WALLET \<and> uva_exists s then 0 else pr_maximum_deposit p)) priced)
              (\<lambda>components. AccountReservationPlan \<lparr>rp_roundtrip_id = roundtrip, rp_mint_asset_id = mint,
                 rp_components = sort_key (\<lambda>c. component_key (rc_priced c)) components\<rparr>)
        | _ \<Rightarrow> Inl (WalletProvisioningError ''exactly one wallet requirement is required'')))"

section \<open>Transitions\<close>

record provisioning_transition =
  pt_state :: wallet_state
  pt_records :: "account_component list"

definition existing_wallet_lifecycle ::
  "wallet_state \<Rightarrow> priced_account_requirement \<Rightarrow> account_component_lifecycle option" where
  "existing_wallet_lifecycle s p =
     (if ar_scope (pr_requirement p) \<noteq> WALLET then None
      else if ws_initial_uva s = UVA_PREWARMED then Some PREWARMED
      else if ws_uva_created_by s \<noteq> None then Some EXISTING_RUN_LOCKED
      else None)"

definition component_record ::
  "reservation_component \<Rightarrow> digest \<Rightarrow> account_component_lifecycle \<Rightarrow> int \<Rightarrow> int \<Rightarrow> account_component res" where
  "component_record c roundtrip lifecycle paid released =
     (let priced = rc_priced c in
      AccountComponentRecord \<lparr>ac_schema_id = ar_schema_id (pr_requirement priced), ac_asset_id = pr_asset_id priced,
        ac_scope = ar_scope (pr_requirement priced), ac_release_policy = ar_release_policy (pr_requirement priced),
        ac_maximum_reserved = rc_maximum_reserved c, ac_paid = paid, ac_released = released, ac_refunded = 0,
        ac_locked_delta = paid, ac_lifecycle = lifecycle, ac_attribution_kind = ROUNDTRIP,
        ac_attribution_id = roundtrip\<rparr>)"

definition unsubmitted_account_records :: "wallet_state \<Rightarrow> reservation_plan \<Rightarrow> account_component list res" where
  "unsubmitted_account_records s plan =
     mapE (\<lambda>c. component_record c (rp_roundtrip_id plan)
       (case existing_wallet_lifecycle s (rc_priced c) of None \<Rightarrow> NOT_CREATED | Some l \<Rightarrow> l) 0 0)
     (rp_components plan)"

definition failed_buy_record :: "wallet_state \<Rightarrow> digest \<Rightarrow> reservation_component \<Rightarrow> account_component res" where
  "failed_buy_record s roundtrip c =
     component_record c roundtrip
       (case existing_wallet_lifecycle s (rc_priced c) of None \<Rightarrow> RESERVATION_RELEASED | Some l \<Rightarrow> l)
       0 (rc_maximum_reserved c)"

definition buy_step ::
  "reservation_plan \<Rightarrow> wallet_state \<times> account_component list \<Rightarrow> reservation_component
    \<Rightarrow> (wallet_state \<times> account_component list) res" where
  "buy_step plan acc c = (case acc of (candidate, records) \<Rightarrow>
     let requirement = pr_requirement (rc_priced c); roundtrip = rp_roundtrip_id plan in
     if ar_scope requirement = MINT then
       bindE (WalletProvisioningState (candidate\<lparr>ws_open_mint_accounts :=
           sort (ws_open_mint_accounts candidate @ [(rp_mint_asset_id plan, ar_schema_id requirement, roundtrip)])\<rparr>))
         (\<lambda>candidate.
       bindE (component_record c roundtrip CREATED_LOCKED (rc_maximum_reserved c) 0) (\<lambda>record.
         Inr (candidate, records @ [record])))
     else (case existing_wallet_lifecycle candidate (rc_priced c) of
         Some existing \<Rightarrow>
           bindE (component_record c roundtrip existing 0 (rc_maximum_reserved c)) (\<lambda>record.
             Inr (candidate, records @ [record]))
       | None \<Rightarrow>
           bindE (WalletProvisioningState (candidate\<lparr>ws_uva_created_by := Some roundtrip\<rparr>)) (\<lambda>candidate.
           bindE (component_record c roundtrip CREATED_LOCKED (rc_maximum_reserved c) 0) (\<lambda>record.
             Inr (candidate, records @ [record])))))"

definition apply_buy_account_transition ::
  "wallet_state \<Rightarrow> reservation_plan \<Rightarrow> bool \<Rightarrow> provisioning_transition res" where
  "apply_buy_account_transition s plan successful =
     (if mint_open s (rp_mint_asset_id plan) then
        Inl (WalletProvisioningError ''mint account is already open'')
      else if \<not> successful then
        bindE (mapE (failed_buy_record s (rp_roundtrip_id plan)) (rp_components plan)) (\<lambda>failed_records.
          Inr \<lparr>pt_state = s, pt_records = failed_records\<rparr>)
      else bindE (foldE (buy_step plan) (s, []) (rp_components plan)) (\<lambda>(candidate, records).
        Inr \<lparr>pt_state = candidate, pt_records = records\<rparr>))"

definition closed_record :: "account_component \<Rightarrow> account_component res" where
  "closed_record r =
     (if ac_scope r = MINT then
        (if ac_lifecycle r \<noteq> CREATED_LOCKED then
           Inl (WalletProvisioningError ''mint account is not in a closable state'')
         else AccountComponentRecord (r\<lparr>ac_refunded := ac_paid r, ac_locked_delta := 0,
           ac_lifecycle := CLOSED_REFUNDED\<rparr>))
      else Inr r)"

definition apply_sell_account_transition ::
  "wallet_state \<Rightarrow> digest \<Rightarrow> asset_id \<Rightarrow> account_component list \<Rightarrow> bool \<Rightarrow> provisioning_transition res" where
  "apply_sell_account_transition s roundtrip mint records successful =
     (if \<not> successful then Inr \<lparr>pt_state = s, pt_records = records\<rparr>
      else (case filter (\<lambda>item. fst item = mint) (ws_open_mint_accounts s) of
          [(_, _, owner)] \<Rightarrow>
            if owner \<noteq> roundtrip then Inl (WalletProvisioningError ''sell does not own the open mint account'')
            else bindE (mapE closed_record records) (\<lambda>updated.
              bindE (WalletProvisioningState (s\<lparr>ws_open_mint_accounts :=
                  filter (\<lambda>item. fst item \<noteq> mint) (ws_open_mint_accounts s)\<rparr>)) (\<lambda>state.
                Inr \<lparr>pt_state = state, pt_records = updated\<rparr>))
        | _ \<Rightarrow> Inl (WalletProvisioningError ''sell does not own the open mint account'')))"

definition refundable_mint_deposits :: "account_component list \<Rightarrow> (asset_id \<times> int) list" where
  "refundable_mint_deposits records =
     sort_key fst (asset_totals (map (\<lambda>r. (ac_asset_id r, ac_locked_delta r))
       (filter (\<lambda>r. ac_scope r = MINT \<and> ac_release_policy r = CLOSE_ON_SUCCESSFUL_SELL
          \<and> 0 < ac_locked_delta r) records)))"

definition run_locked_value :: "account_component list \<Rightarrow> (asset_id \<times> int) list" where
  "run_locked_value records =
     sort_key fst (asset_totals (map (\<lambda>r. (ac_asset_id r, ac_locked_delta r))
       (filter (\<lambda>r. ac_scope r = WALLET \<and> ac_release_policy r = RUN_LOCKED
          \<and> 0 < ac_locked_delta r) records)))"

section \<open>The reducer\<close>

text \<open>The previews of the reducer as requests, and its one state change.\<close>

datatype wallet_request =
    PreviewBuy reservation_plan bool
  | PreviewSell digest asset_id "account_component list" bool

fun wallet_preview :: "wallet_state \<Rightarrow> wallet_request \<Rightarrow> provisioning_transition res" where
  "wallet_preview s (PreviewBuy plan successful) = apply_buy_account_transition s plan successful"
| "wallet_preview s (PreviewSell roundtrip mint records successful) =
     apply_sell_account_transition s roundtrip mint records successful"

definition wallet_commit :: "wallet_state \<Rightarrow> provisioning_transition \<Rightarrow> wallet_state" where
  "wallet_commit s t = pt_state t"

section \<open>Lemmas\<close>

lemma filter_fst_unique:
  "distinct (map fst xs) \<Longrightarrow> (k, v) \<in> set xs \<Longrightarrow> filter (\<lambda>item. fst item = k) xs = [(k, v)]"
  by (induction xs) (auto simp: rev_image_eqI filter_empty_conv)

definition wallet_ok :: "wallet_state \<Rightarrow> bool" where
  "wallet_ok s \<longleftrightarrow> account_stable_name ''UVA schema ID'' (ws_uva_schema_id s) = Inr ()
     \<and> (ws_initial_uva s = UVA_PREWARMED \<longrightarrow> ws_uva_created_by s = None)
     \<and> sorted (ws_open_mint_accounts s) \<and> distinct (map fst (ws_open_mint_accounts s))"

lemma sort_fixed: "xs = sort xs \<longleftrightarrow> sorted xs"
  by (metis sorted_sort sorted_sort_id)

lemma card_distinct_fst: "card (set (map fst xs)) = length xs \<longleftrightarrow> distinct (map fst xs)"
  by (metis card_distinct distinct_card length_map)

lemma WalletProvisioningState_Inr [simp]: "WalletProvisioningState s = Inr s' \<longleftrightarrow> s' = s \<and> wallet_ok s"
  unfolding WalletProvisioningState_def wallet_ok_def
  by (auto simp: sort_fixed card_distinct_fst simp del: set_map split: if_splits)

lemma mint_open_iff: "mint_open s mint \<longleftrightarrow> mint \<in> fst ` set (ws_open_mint_accounts s)"
  by (auto simp: mint_open_def list_ex_iff image_iff)

lemma initial_wallet_ok: "initial_wallet_provisioning_state u schema = Inr s \<Longrightarrow> wallet_ok s"
  by (simp add: initial_wallet_provisioning_state_def)

lemma buy_step_keeps:
  assumes "buy_step plan (s, rs) c = Inr (s', rs')" and "wallet_ok s"
  shows "wallet_ok s' \<and> ws_initial_uva s' = ws_initial_uva s \<and> ws_uva_schema_id s' = ws_uva_schema_id s
    \<and> (uva_exists s \<longrightarrow> ws_uva_created_by s' = ws_uva_created_by s)"
  using assms by (auto simp: buy_step_def Let_def existing_wallet_lifecycle_def uva_exists_def
      split: if_splits option.splits account_requirement_scope.splits)

text \<open>What every committed transition keeps of the reducer's state.\<close>

definition wallet_extends :: "wallet_state \<Rightarrow> wallet_state \<Rightarrow> bool" where
  "wallet_extends s s' \<longleftrightarrow> wallet_ok s' \<and> ws_initial_uva s' = ws_initial_uva s
     \<and> ws_uva_schema_id s' = ws_uva_schema_id s \<and> (uva_exists s \<longrightarrow> ws_uva_created_by s' = ws_uva_created_by s)"

lemma wallet_extends_refl: "wallet_ok s \<Longrightarrow> wallet_extends s s"
  by (simp add: wallet_extends_def)

lemma wallet_extends_trans: "wallet_extends s s' \<Longrightarrow> wallet_extends s' s'' \<Longrightarrow> wallet_extends s s''"
  by (auto simp: wallet_extends_def uva_exists_def)

lemma buy_extends:
  assumes "apply_buy_account_transition s plan successful = Inr t" and "wallet_ok s"
  shows "wallet_extends s (pt_state t)"
proof (cases successful)
  case False
  then show ?thesis using assms
    by (auto simp: apply_buy_account_transition_def wallet_extends_refl split: if_splits)
next
  case True
  then obtain rs where run: "foldE (buy_step plan) (s, []) (rp_components plan) = Inr (pt_state t, rs)"
    using assms(1) by (auto simp: apply_buy_account_transition_def split: if_splits)
  have "wallet_extends s (fst (pt_state t, rs))"
    by (rule foldE_invariant[where P = "\<lambda>a. wallet_extends s (fst a)", OF run])
      (use assms(2) buy_step_keeps wallet_extends_trans in \<open>auto simp: wallet_extends_def uva_exists_def\<close>)
  then show ?thesis by simp
qed

lemma sell_extends:
  assumes "apply_sell_account_transition s roundtrip mint records successful = Inr t" and "wallet_ok s"
  shows "wallet_extends s (pt_state t)"
  using assms by (auto simp: apply_sell_account_transition_def wallet_extends_def
      split: if_splits list.splits prod.splits)

lemma preview_extends: "wallet_preview s r = Inr t \<Longrightarrow> wallet_ok s \<Longrightarrow> wallet_extends s (pt_state t)"
  by (cases r) (auto intro: buy_extends sell_extends)

interpretation wallet_reducer:
  preview_commit wallet_preview wallet_commit "\<lambda>_. True" "wallet_extends s0" for s0
proof unfold_locales
  fix s r t
  assume "wallet_extends s0 s" and "wallet_preview s r = Inr t"
  moreover from this have "wallet_ok s" by (simp add: wallet_extends_def)
  ultimately show "wallet_extends s0 (wallet_commit s t)"
    using wallet_extends_trans preview_extends unfolding wallet_commit_def by blast
qed

text \<open>A history of the reducer: each request previewed and committed, in order.\<close>

definition wallet_run :: "wallet_state \<Rightarrow> wallet_request list \<Rightarrow> wallet_state res" where
  "wallet_run s rs = foldE (\<lambda>s r. bindE (wallet_preview s r) (\<lambda>t. Inr (wallet_commit s t))) s rs"

lemma wallet_run_extends:
  assumes "wallet_run s rs = Inr s'" and "wallet_ok s"
  shows "wallet_extends s s'"
  using assms(1) wallet_extends_refl[OF assms(2)] unfolding wallet_run_def
  by (rule wallet_reducer.run_keeps) (simp add: list_all_iff)

section \<open>Plans\<close>

definition priced_ok :: "priced_account_requirement \<Rightarrow> bool" where
  "priced_ok p \<longleftrightarrow> AccountRequirement (pr_requirement p) = Inr (pr_requirement p) \<and> PricedAccountRequirement p = Inr p"

definition component_ok :: "reservation_component \<Rightarrow> bool" where
  "component_ok c \<longleftrightarrow> AccountRequirement (pr_requirement (rc_priced c)) = Inr (pr_requirement (rc_priced c))
     \<and> 0 \<le> rc_maximum_reserved c \<and> rc_maximum_reserved c \<le> UINT64_MAX"

abbreviation raw_record ::
  "reservation_component \<Rightarrow> digest \<Rightarrow> account_component_lifecycle \<Rightarrow> int \<Rightarrow> int \<Rightarrow> account_component" where
  "raw_record c roundtrip lifecycle paid released \<equiv>
     \<lparr>ac_schema_id = ar_schema_id (pr_requirement (rc_priced c)), ac_asset_id = pr_asset_id (rc_priced c),
      ac_scope = rc_scope c, ac_release_policy = ar_release_policy (pr_requirement (rc_priced c)),
      ac_maximum_reserved = rc_maximum_reserved c, ac_paid = paid, ac_released = released, ac_refunded = 0,
      ac_locked_delta = paid, ac_lifecycle = lifecycle, ac_attribution_kind = ROUNDTRIP,
      ac_attribution_id = roundtrip\<rparr>"

lemma requirement_fields:
  "AccountRequirement r = Inr r \<Longrightarrow>
   AccountRequirement \<lparr>ar_schema_id = ar_schema_id r, ar_scope = ar_scope r,
     ar_release_policy = ar_release_policy r\<rparr> = Inr r"
  by (cases r) simp

lemma record_created:
  assumes "component_ok c" and "0 < rc_maximum_reserved c"
  shows "component_record c roundtrip CREATED_LOCKED (rc_maximum_reserved c) 0
    = Inr (raw_record c roundtrip CREATED_LOCKED (rc_maximum_reserved c) 0)"
  using assms
  by (auto simp: component_ok_def component_record_def AccountComponentRecord_def requirement_fields
      require_account_u64_def validate_lifecycle_amounts_def INT128_BOUND_def UINT64_MAX_def Let_def)

lemma record_released:
  assumes "component_ok c" and "l = RESERVATION_RELEASED \<or> l = EXISTING_RUN_LOCKED \<or> (l = PREWARMED \<and> rc_maximum_reserved c = 0)"
  shows "component_record c roundtrip l 0 (rc_maximum_reserved c)
    = Inr (raw_record c roundtrip l 0 (rc_maximum_reserved c))"
  using assms
  by (auto simp: component_ok_def component_record_def AccountComponentRecord_def requirement_fields
      require_account_u64_def validate_lifecycle_amounts_def INT128_BOUND_def UINT64_MAX_def Let_def)

lemma count_scopes: "length (scopes :: account_requirement_scope list) = count_list scopes MINT + count_list scopes WALLET"
  by (induction scopes) auto

lemma plan_shape:
  assumes "AccountReservationPlan p = Inr p'"
  obtains m w where "p' = p" and "rp_components p = [m, w]" and "rc_scope m = MINT" and "rc_scope w = WALLET"
proof -
  let ?keys = "map (\<lambda>c. component_key (rc_priced c)) (rp_components p)" and ?scopes = "map rc_scope (rp_components p)"
  have p: "p' = p" "?keys = sort ?keys" "count_list ?scopes MINT = 1" "count_list ?scopes WALLET = 1"
    using assms by (auto simp: AccountReservationPlan_def Let_def split: if_splits)
  then have "length (rp_components p) = 2" using count_scopes[of ?scopes] by simp
  then obtain a b where ab: "rp_components p = [a, b]"
    by (metis One_nat_def Suc_1 length_0_conv length_Suc_conv)
  have "sorted ?keys" using p(2) sort_fixed by blast
  then have key: "component_key (rc_priced a) \<le> component_key (rc_priced b)" by (simp add: ab)
  have "\<not> (rc_scope a = WALLET \<and> rc_scope b = MINT)"
  proof
    assume "rc_scope a = WALLET \<and> rc_scope b = MINT"
    with key show False by (simp add: component_key_def less_eq_char_def less_char_def)
  qed
  then have "rc_scope a = MINT \<and> rc_scope b = WALLET"
    using p(3,4) by (cases "rc_scope a"; cases "rc_scope b") (auto simp: ab)
  then show thesis using that p(1) ab by blast
qed

lemma prepared_plan:
  assumes "prepare_account_reservation s roundtrip mint priced = Inr plan" and "list_all priced_ok priced"
  obtains m w where "plan = \<lparr>rp_roundtrip_id = roundtrip, rp_mint_asset_id = mint, rp_components = [m, w]\<rparr>"
    and "rc_scope m = MINT" and "rc_scope w = WALLET" and "component_ok m" and "component_ok w"
    and "0 < rc_maximum_reserved m" and "uva_exists s \<longleftrightarrow> rc_maximum_reserved w = 0" and "\<not> mint_open s mint"
proof -
  let ?f = "\<lambda>p. AccountReservationComponent p
    (if ar_scope (pr_requirement p) = WALLET \<and> uva_exists s then 0 else pr_maximum_deposit p)"
  obtain cs where cs: "mapE ?f priced = Inr cs" and open_mint: "\<not> mint_open s mint"
    and plan: "AccountReservationPlan \<lparr>rp_roundtrip_id = roundtrip, rp_mint_asset_id = mint,
      rp_components = sort_key (\<lambda>c. component_key (rc_priced c)) cs\<rparr> = Inr plan"
    using assms(1) by (auto simp: prepare_account_reservation_def split: if_splits list.splits)
  have each: "component_ok c \<and> rc_maximum_reserved c
      = (if rc_scope c = WALLET \<and> uva_exists s then 0 else pr_maximum_deposit (rc_priced c))
      \<and> 0 < pr_maximum_deposit (rc_priced c)" if mem: "c \<in> set cs" for c
  proof -
    obtain p where "p \<in> set priced" and "?f p = Inr c"
      using mapE_preimage[OF cs mem] by blast
    then show ?thesis using assms(2)
      by (auto simp: list_all_iff priced_ok_def component_ok_def AccountReservationComponent_def
          PricedAccountRequirement_def require_account_u64_def Let_def split: if_splits)
  qed
  show thesis
  proof (rule plan_shape[OF plan])
    fix m w
    assume shape: "plan = \<lparr>rp_roundtrip_id = roundtrip, rp_mint_asset_id = mint,
        rp_components = sort_key (\<lambda>c. component_key (rc_priced c)) cs\<rparr>"
      "rp_components \<lparr>rp_roundtrip_id = roundtrip, rp_mint_asset_id = mint,
        rp_components = sort_key (\<lambda>c. component_key (rc_priced c)) cs\<rparr> = [m, w]"
      and sc: "rc_scope m = MINT" "rc_scope w = WALLET"
    then have "set cs = {m, w}" by (metis list.set(1) list.set(2) reservation_plan.select_convs(3) set_sort)
    then show thesis using that[of m w] each[of m] each[of w] shape sc open_mint by auto
  qed
qed

lemma existing_lifecycle_wallet:
  "rc_scope w = WALLET \<Longrightarrow> existing_wallet_lifecycle s (rc_priced w) =
     (if ws_initial_uva s = UVA_PREWARMED then Some PREWARMED
      else if ws_uva_created_by s \<noteq> None then Some EXISTING_RUN_LOCKED else None)"
  by (simp add: existing_wallet_lifecycle_def)

lemma existing_lifecycle_mint: "rc_scope m = MINT \<Longrightarrow> existing_wallet_lifecycle s (rc_priced m) = None"
  by (simp add: existing_wallet_lifecycle_def)

section \<open>Landing a plan\<close>

lemma open_mint_ok:
  assumes "wallet_ok s" and "\<not> mint_open s mint"
  shows "wallet_ok (s\<lparr>ws_open_mint_accounts := sort (ws_open_mint_accounts s @ [(mint, schema, roundtrip)])\<rparr>)"
proof -
  have "mset (map fst (sort (ws_open_mint_accounts s @ [(mint, schema, roundtrip)])))
      = mset (map fst (ws_open_mint_accounts s @ [(mint, schema, roundtrip)]))"
    by simp
  then have "distinct (map fst (sort (ws_open_mint_accounts s @ [(mint, schema, roundtrip)])))
      = distinct (map fst (ws_open_mint_accounts s @ [(mint, schema, roundtrip)]))"
    by (rule mset_eq_imp_distinct_iff)
  then show ?thesis using assms by (simp add: wallet_ok_def mint_open_iff)
qed

text \<open>The state a successful buy leaves behind.\<close>

definition landed_state :: "wallet_state \<Rightarrow> asset_id \<Rightarrow> string \<Rightarrow> digest \<Rightarrow> wallet_state" where
  "landed_state s mint schema roundtrip = s\<lparr>
     ws_open_mint_accounts := sort (ws_open_mint_accounts s @ [(mint, schema, roundtrip)]),
     ws_uva_created_by := (if uva_exists s then ws_uva_created_by s else Some roundtrip)\<rparr>"

lemma landed_ok:
  assumes "wallet_ok s" and "\<not> mint_open s mint"
  shows "wallet_ok (landed_state s mint schema roundtrip)"
  using open_mint_ok[OF assms, of schema roundtrip]
  by (auto simp: landed_state_def wallet_ok_def uva_exists_def)

lemma landed_exists: "uva_exists (landed_state s mint schema roundtrip)"
  by (auto simp: landed_state_def uva_exists_def)

definition wallet_lands :: "wallet_state \<Rightarrow> reservation_component \<Rightarrow> digest \<Rightarrow> account_component" where
  "wallet_lands s w roundtrip = (case existing_wallet_lifecycle s (rc_priced w) of
     Some l \<Rightarrow> raw_record w roundtrip l 0 (rc_maximum_reserved w)
   | None \<Rightarrow> raw_record w roundtrip CREATED_LOCKED (rc_maximum_reserved w) 0)"

lemma buy_lands:
  assumes s: "wallet_ok s" and open_mint: "\<not> mint_open s mint"
    and m: "rc_scope m = MINT" "component_ok m" "0 < rc_maximum_reserved m"
    and w: "rc_scope w = WALLET" "component_ok w"
    and u: "ws_initial_uva s = UVA_PREWARMED \<longrightarrow> rc_maximum_reserved w = 0"
      "\<not> uva_exists s \<longrightarrow> 0 < rc_maximum_reserved w"
  shows "apply_buy_account_transition s \<lparr>rp_roundtrip_id = r, rp_mint_asset_id = mint, rp_components = [m, w]\<rparr> True
    = Inr \<lparr>pt_state = landed_state s mint (ar_schema_id (pr_requirement (rc_priced m))) r,
       pt_records = [raw_record m r CREATED_LOCKED (rc_maximum_reserved m) 0, wallet_lands s w r]\<rparr>"
proof -
  let ?plan = "\<lparr>rp_roundtrip_id = r, rp_mint_asset_id = mint, rp_components = [m, w]\<rparr>"
  let ?schema = "ar_schema_id (pr_requirement (rc_priced m))"
  let ?s1 = "s\<lparr>ws_open_mint_accounts := sort (ws_open_mint_accounts s @ [(mint, ?schema, r)])\<rparr>"
  let ?m = "raw_record m r CREATED_LOCKED (rc_maximum_reserved m) 0"
  note ok1 = open_mint_ok[OF s open_mint, of ?schema r]
  have one: "buy_step ?plan (s, []) m = Inr (?s1, [?m])"
    using ok1 m record_created[OF m(2,3)] by (simp add: buy_step_def Let_def)
  have life: "existing_wallet_lifecycle ?s1 (rc_priced w) = existing_wallet_lifecycle s (rc_priced w)"
    by (simp add: existing_wallet_lifecycle_def)
  have two: "buy_step ?plan (?s1, [?m]) w = Inr (landed_state s mint ?schema r, [?m, wallet_lands s w r])"
  proof (cases "existing_wallet_lifecycle s (rc_priced w)")
    case None
    then have "\<not> uva_exists s" using w(1) by (auto simp: existing_lifecycle_wallet uva_exists_def split: if_splits)
    then show ?thesis using None life w u record_created[OF w(2)] landed_ok[OF s open_mint, of ?schema r]
      by (simp add: buy_step_def Let_def wallet_lands_def landed_state_def)
  next
    case (Some l)
    then have "uva_exists s" and l: "l = EXISTING_RUN_LOCKED \<or> (l = PREWARMED \<and> rc_maximum_reserved w = 0)"
      using w(1) u(1) by (auto simp: existing_lifecycle_wallet uva_exists_def split: if_splits)
    then show ?thesis using Some life w record_released[OF w(2), of l]
      by (auto simp: buy_step_def Let_def wallet_lands_def landed_state_def)
  qed
  show ?thesis
    unfolding apply_buy_account_transition_def using open_mint one two by simp
qed

lemma failed_buy_lands:
  assumes "\<not> mint_open s mint"
    and m: "rc_scope m = MINT" "component_ok m" and w: "rc_scope w = WALLET" "component_ok w"
    and u: "ws_initial_uva s = UVA_PREWARMED \<longrightarrow> rc_maximum_reserved w = 0"
  shows "\<exists>l. apply_buy_account_transition s \<lparr>rp_roundtrip_id = r, rp_mint_asset_id = mint, rp_components = [m, w]\<rparr> False
    = Inr \<lparr>pt_state = s, pt_records = [raw_record m r RESERVATION_RELEASED 0 (rc_maximum_reserved m),
        raw_record w r l 0 (rc_maximum_reserved w)]\<rparr>"
proof -
  let ?l = "case existing_wallet_lifecycle s (rc_priced w) of None \<Rightarrow> RESERVATION_RELEASED | Some l \<Rightarrow> l"
  have "?l = RESERVATION_RELEASED \<or> ?l = EXISTING_RUN_LOCKED \<or> (?l = PREWARMED \<and> rc_maximum_reserved w = 0)"
    using w(1) u by (auto simp: existing_lifecycle_wallet split: if_splits)
  then show ?thesis
    using assms(1) record_released[OF m(2)] record_released[OF w(2)] m(1)
    by (intro exI[of _ ?l])
      (simp add: apply_buy_account_transition_def failed_buy_record_def existing_lifecycle_mint)
qed

text \<open>A plan prepared in one state lands in any later state of the reducer.\<close>

lemma plan_lands_later:
  assumes "wallet_ok s" and "list_all priced_ok priced" and "prepare_account_reservation s r mint priced = Inr plan"
    and "wallet_run s rs = Inr s'" and "\<not> mint_open s' mint"
  obtains m w where "plan = \<lparr>rp_roundtrip_id = r, rp_mint_asset_id = mint, rp_components = [m, w]\<rparr>"
    and "rc_scope m = MINT" and "rc_scope w = WALLET" and "component_ok m" and "0 < rc_maximum_reserved m"
    and "apply_buy_account_transition s' plan True
      = Inr \<lparr>pt_state = landed_state s' mint (ar_schema_id (pr_requirement (rc_priced m))) r,
          pt_records = [raw_record m r CREATED_LOCKED (rc_maximum_reserved m) 0, wallet_lands s' w r]\<rparr>"
    and "\<exists>l. apply_buy_account_transition s' plan False
      = Inr \<lparr>pt_state = s', pt_records = [raw_record m r RESERVATION_RELEASED 0 (rc_maximum_reserved m),
          raw_record w r l 0 (rc_maximum_reserved w)]\<rparr>"
proof (rule prepared_plan[OF assms(3,2)])
  fix m w
  assume plan: "plan = \<lparr>rp_roundtrip_id = r, rp_mint_asset_id = mint, rp_components = [m, w]\<rparr>"
    and m: "rc_scope m = MINT" "component_ok m" "0 < rc_maximum_reserved m"
    and w: "rc_scope w = WALLET" "component_ok w" "uva_exists s \<longleftrightarrow> rc_maximum_reserved w = 0"
  note ext = wallet_run_extends[OF assms(4,1)]
  then have s': "wallet_ok s'" by (simp add: wallet_extends_def)
  have pre: "ws_initial_uva s' = UVA_PREWARMED \<longrightarrow> rc_maximum_reserved w = 0"
    using ext w(3) by (auto simp: wallet_extends_def uva_exists_def)
  have fresh: "\<not> uva_exists s' \<longrightarrow> 0 < rc_maximum_reserved w"
    using ext w(2,3) by (auto simp: wallet_extends_def uva_exists_def component_ok_def)
  show thesis
    by (rule that[OF plan m(1) w(1) m(2,3)])
      (unfold plan, rule buy_lands[OF s' assms(5) m w(1,2) pre fresh],
       rule failed_buy_lands[OF assms(5) m(1,2) w(1,2) pre])
qed

lemma asset_totals_single: "asset_totals [(a, v)] = [(a, v)]"
  by (simp add: asset_totals_def dict_get_default_def)

lemma wallet_lands_scope: "rc_scope w = WALLET \<Longrightarrow> ac_scope (wallet_lands s w r) = WALLET"
  by (simp add: wallet_lands_def split: option.splits)

lemma mint_policy: "component_ok m \<Longrightarrow> rc_scope m = MINT \<Longrightarrow>
    ar_release_policy (pr_requirement (rc_priced m)) = CLOSE_ON_SUCCESSFUL_SELL"
  by (auto simp: component_ok_def AccountRequirement_def split: if_splits)

lemma mint_record_closes:
  assumes "component_ok m" and "rc_scope m = MINT" and "0 < rc_maximum_reserved m"
  shows "closed_record (raw_record m r CREATED_LOCKED (rc_maximum_reserved m) 0)
    = Inr (raw_record m r CLOSED_REFUNDED (rc_maximum_reserved m) 0
        \<lparr>ac_refunded := rc_maximum_reserved m, ac_locked_delta := 0\<rparr>)"
  using assms requirement_fields[of "pr_requirement (rc_priced m)"] mint_policy[OF assms(1,2)]
  by (auto simp: closed_record_def component_ok_def AccountComponentRecord_def require_account_u64_def
      validate_lifecycle_amounts_def INT128_BOUND_def UINT64_MAX_def Let_def)

section \<open>Properties\<close>

text \<open>C18: A reservation prepared in a valid state lands in every later state of the reducer in which its mint is
  not open, with no error: a failed buy changes nothing and releases the whole reservation, a successful
  one opens the mint account and leaves the wallet account in place, and every record pays or
  releases exactly what was reserved.\<close>

theorem reservation_lands:
  assumes "wallet_ok s" and "list_all priced_ok priced" and "prepare_account_reservation s r mint priced = Inr plan"
    and "wallet_run s rs = Inr s'" and "\<not> mint_open s' mint"
  shows "\<exists>t f. apply_buy_account_transition s' plan True = Inr t \<and> apply_buy_account_transition s' plan False = Inr f
    \<and> wallet_ok (pt_state t) \<and> mint_open (pt_state t) mint \<and> uva_exists (pt_state t) \<and> pt_state f = s'
    \<and> map ac_released (pt_records f) = map rc_maximum_reserved (rp_components plan)
    \<and> map (\<lambda>c. ac_paid c + ac_released c) (pt_records t) = map rc_maximum_reserved (rp_components plan)"
proof (rule plan_lands_later[OF assms])
  fix m w
  assume plan: "plan = \<lparr>rp_roundtrip_id = r, rp_mint_asset_id = mint, rp_components = [m, w]\<rparr>"
    and t: "apply_buy_account_transition s' plan True
      = Inr \<lparr>pt_state = landed_state s' mint (ar_schema_id (pr_requirement (rc_priced m))) r,
          pt_records = [raw_record m r CREATED_LOCKED (rc_maximum_reserved m) 0, wallet_lands s' w r]\<rparr>"
    and f: "\<exists>l. apply_buy_account_transition s' plan False
      = Inr \<lparr>pt_state = s', pt_records = [raw_record m r RESERVATION_RELEASED 0 (rc_maximum_reserved m),
          raw_record w r l 0 (rc_maximum_reserved w)]\<rparr>"
  have "wallet_ok s'" using wallet_run_extends[OF assms(4,1)] by (simp add: wallet_extends_def)
  moreover have "ac_paid (wallet_lands s' w r) + ac_released (wallet_lands s' w r) = rc_maximum_reserved w"
    by (simp add: wallet_lands_def split: option.splits)
  ultimately show ?thesis
    using f landed_ok[OF _ assms(5)] unfolding t
    by (auto simp: plan mint_open_iff landed_exists) (auto simp: landed_state_def)
qed

text \<open>C19: Selling a landed buy succeeds as long as its mint account is still open under its round trip: it closes
  exactly that account, refunds the full mint deposit that the buy locked, and leaves what the round
  trip locked in the wallet account unchanged.\<close>

theorem sell_refunds_mint_deposit:
  assumes "wallet_ok s" and "list_all priced_ok priced" and "prepare_account_reservation s r mint priced = Inr plan"
    and "wallet_run s rs = Inr s'" and "apply_buy_account_transition s' plan True = Inr t"
    and "wallet_run (pt_state t) rs' = Inr s''" and "(mint, schema, r) \<in> set (ws_open_mint_accounts s'')"
  shows "\<exists>t'. apply_sell_account_transition s'' r mint (pt_records t) True = Inr t'
    \<and> ws_open_mint_accounts (pt_state t') = filter (\<lambda>item. fst item \<noteq> mint) (ws_open_mint_accounts s'')
    \<and> map snd (refundable_mint_deposits (pt_records t)) = [rc_maximum_reserved (hd (rp_components plan))]
    \<and> refundable_mint_deposits (pt_records t') = []
    \<and> run_locked_value (pt_records t') = run_locked_value (pt_records t)"
proof -
  have closed: "\<not> mint_open s' mint"
  proof (rule prepared_plan[OF assms(3,2)])
    fix m w
    assume "plan = \<lparr>rp_roundtrip_id = r, rp_mint_asset_id = mint, rp_components = [m, w]\<rparr>"
    then show ?thesis using assms(5) by (simp add: apply_buy_account_transition_def split: if_splits)
  qed
  show ?thesis
  proof (rule plan_lands_later[OF assms(1-4) closed])
    fix m w
    assume plan: "plan = \<lparr>rp_roundtrip_id = r, rp_mint_asset_id = mint, rp_components = [m, w]\<rparr>"
      and sc: "rc_scope m = MINT" "rc_scope w = WALLET" and m: "component_ok m" "0 < rc_maximum_reserved m"
      and buy: "apply_buy_account_transition s' plan True
      = Inr \<lparr>pt_state = landed_state s' mint (ar_schema_id (pr_requirement (rc_priced m))) r,
          pt_records = [raw_record m r CREATED_LOCKED (rc_maximum_reserved m) 0, wallet_lands s' w r]\<rparr>"
    have "wallet_ok s''"
      using buy_extends[OF assms(5)] wallet_run_extends[OF assms(4,1)] wallet_run_extends[OF assms(6)]
      by (simp add: wallet_extends_def)
    then have d: "distinct (map fst (ws_open_mint_accounts s''))"
      and ok: "wallet_ok (s''\<lparr>ws_open_mint_accounts := filter (\<lambda>item. fst item \<noteq> mint) (ws_open_mint_accounts s'')\<rparr>)"
      by (auto simp: wallet_ok_def sorted_wrt_filter distinct_map_filter)
    have one: "filter (\<lambda>item. fst item = mint) (ws_open_mint_accounts s'') = [(mint, schema, r)]"
      using filter_fst_unique[OF d assms(7)] by simp
    have rec: "pt_records t = [raw_record m r CREATED_LOCKED (rc_maximum_reserved m) 0, wallet_lands s' w r]"
      using buy assms(5) by simp
    let ?m = "raw_record m r CREATED_LOCKED (rc_maximum_reserved m) 0" and ?w = "wallet_lands s' w r"
    let ?c = "raw_record m r CLOSED_REFUNDED (rc_maximum_reserved m) 0
        \<lparr>ac_refunded := rc_maximum_reserved m, ac_locked_delta := 0\<rparr>"
    have wl: "ac_scope ?w = WALLET" by (rule wallet_lands_scope[OF sc(2)])
    then have "closed_record ?w = Inr ?w" by (simp add: closed_record_def)
    then have closing: "mapE closed_record (pt_records t) = Inr [?c, ?w]"
      by (simp only: rec mapE.simps mint_record_closes[OF m(1) sc(1) m(2)] bindE_Inr)
    have "map snd (refundable_mint_deposits (pt_records t)) = [rc_maximum_reserved (hd (rp_components plan))]"
      using wl m(2) sc(1) mint_policy[OF m(1) sc(1)]
      by (simp add: rec plan refundable_mint_deposits_def asset_totals_single)
    moreover have "refundable_mint_deposits [?c, ?w] = []"
      using wl by (simp add: refundable_mint_deposits_def asset_totals_def)
    moreover have "run_locked_value [?c, ?w] = run_locked_value (pt_records t)"
      using sc(1) by (simp add: rec run_locked_value_def)
    ultimately show ?thesis
      using ok by (simp add: apply_sell_account_transition_def one closing)
  qed
qed

section \<open>A sample history\<close>

definition sample_wallet :: wallet_state where
  "sample_wallet = \<lparr>ws_initial_uva = UVA_FRESH, ws_uva_schema_id = ''uva'', ws_uva_created_by = None,
     ws_open_mint_accounts = []\<rparr>"

definition sample_priced :: "priced_account_requirement list" where
  "sample_priced =
     [\<lparr>pr_requirement = \<lparr>ar_schema_id = ''ata'', ar_scope = MINT, ar_release_policy = CLOSE_ON_SUCCESSFUL_SELL\<rparr>,
       pr_asset_id = ''SOL'', pr_maximum_deposit = 20\<rparr>,
      \<lparr>pr_requirement = \<lparr>ar_schema_id = ''uva'', ar_scope = WALLET, ar_release_policy = RUN_LOCKED\<rparr>,
       pr_asset_id = ''SOL'', pr_maximum_deposit = 30\<rparr>]"

definition sample_plan :: "digest \<Rightarrow> asset_id \<Rightarrow> reservation_plan" where
  "sample_plan r mint = \<lparr>rp_roundtrip_id = r, rp_mint_asset_id = mint, rp_components =
     [\<lparr>rc_priced = sample_priced ! 0, rc_maximum_reserved = 20\<rparr>,
      \<lparr>rc_priced = sample_priced ! 1, rc_maximum_reserved = 30\<rparr>]\<rparr>"

lemma sample_wallet_ok: "wallet_ok sample_wallet"
  by (simp add: wallet_ok_def sample_wallet_def account_stable_name_def strip_def is_space_def char_code_def)

lemma sample_priced_ok: "list_all priced_ok sample_priced"
  by (simp add: sample_priced_def priced_ok_def AccountRequirement_def PricedAccountRequirement_def
      account_stable_name_def require_account_u64_def UINT64_MAX_def Let_def strip_def is_space_def char_code_def)

lemma sample_prepared: "prepare_account_reservation sample_wallet r mint sample_priced = Inr (sample_plan r mint)"
  by (simp add: prepare_account_reservation_def sample_priced_def sample_wallet_def mint_open_def uva_exists_def
      AccountReservationComponent_def AccountReservationPlan_def Let_def component_key_def sample_plan_def
      less_eq_char_def less_char_def)

lemma sample_first_buy: "\<exists>s' t. wallet_run sample_wallet [PreviewBuy (sample_plan ''R1'' ''M1'') True] = Inr s'
    \<and> ws_open_mint_accounts s' = [(''M1'', ''ata'', ''R1'')] \<and> ws_uva_created_by s' = Some ''R1''"
proof -
  have empty: "wallet_run sample_wallet [] = Inr sample_wallet" "\<not> mint_open sample_wallet ''M1''"
    by (simp_all add: wallet_run_def mint_open_def sample_wallet_def)
  show ?thesis
  proof (rule plan_lands_later[OF sample_wallet_ok sample_priced_ok sample_prepared empty, of "''R1''"])
    fix m w
    assume "sample_plan ''R1'' ''M1'' = \<lparr>rp_roundtrip_id = ''R1'', rp_mint_asset_id = ''M1'', rp_components = [m, w]\<rparr>"
      and buy: "apply_buy_account_transition sample_wallet (sample_plan ''R1'' ''M1'') True
      = Inr \<lparr>pt_state = landed_state sample_wallet ''M1'' (ar_schema_id (pr_requirement (rc_priced m))) ''R1'',
          pt_records = [raw_record m ''R1'' CREATED_LOCKED (rc_maximum_reserved m) 0, wallet_lands sample_wallet w ''R1'']\<rparr>"
    then have "ar_schema_id (pr_requirement (rc_priced m)) = ''ata''"
      by (auto simp: sample_plan_def sample_priced_def)
    then show ?thesis
      by (simp add: wallet_run_def buy wallet_commit_def) (simp add: landed_state_def sample_wallet_def uva_exists_def)
  qed
qed

theorem reservation_lands_witness:
  "\<exists>s' t. wallet_run sample_wallet [PreviewBuy (sample_plan ''R1'' ''M1'') True] = Inr s'
     \<and> apply_buy_account_transition s' (sample_plan ''R2'' ''M2'') True = Inr t
     \<and> map (\<lambda>c. ac_paid c + ac_released c) (pt_records t) = [20, 30]"
proof -
  obtain s' where s': "wallet_run sample_wallet [PreviewBuy (sample_plan ''R1'' ''M1'') True] = Inr s'"
    and o: "\<not> mint_open s' ''M2''"
    using sample_first_buy by (auto simp: mint_open_def)
  from reservation_lands[OF sample_wallet_ok sample_priced_ok sample_prepared s' o, of "''R2''"] s' show ?thesis
    by (auto simp: sample_plan_def)
qed

theorem sell_refunds_mint_deposit_witness:
  "\<exists>t t'. apply_buy_account_transition sample_wallet (sample_plan ''R1'' ''M1'') True = Inr t
     \<and> apply_sell_account_transition (pt_state t) ''R1'' ''M1'' (pt_records t) True = Inr t'
     \<and> map snd (refundable_mint_deposits (pt_records t)) = [20] \<and> refundable_mint_deposits (pt_records t') = []"
proof -
  obtain s' where s': "wallet_run sample_wallet [PreviewBuy (sample_plan ''R1'' ''M1'') True] = Inr s'"
    and o: "ws_open_mint_accounts s' = [(''M1'', ''ata'', ''R1'')]"
    using sample_first_buy by auto
  obtain t where t: "apply_buy_account_transition sample_wallet (sample_plan ''R1'' ''M1'') True = Inr t"
    and st: "pt_state t = s'"
    using s' by (auto simp: wallet_run_def wallet_commit_def)
  have runs: "wallet_run sample_wallet [] = Inr sample_wallet" "wallet_run (pt_state t) [] = Inr (pt_state t)"
    by (simp_all add: wallet_run_def)
  have mem: "(''M1'', ''ata'', ''R1'') \<in> set (ws_open_mint_accounts (pt_state t))" by (simp add: st o)
  from sell_refunds_mint_deposit[OF sample_wallet_ok sample_priced_ok sample_prepared runs(1) t runs(2) mem] t
  show ?thesis by (auto simp: sample_plan_def)
qed

end
