(* ===== verification/Solana_Costs.thy ===== *)
theory Solana_Costs
  imports Wallet_Accounts
begin

text \<open>
  Versioned Solana fee and account-deposit profiles (\<^verbatim>\<open>plugins/networks/solana/costs.py\<close>): the base plus
  ceil-rounded priority fee of a legacy or v0 transaction, the rent deposits of a list of account
  requirements, and the pricing of protocol-owned requirements for the wallet reducer.
\<close>

section \<open>Profiles\<close>

definition MICRO_LAMPORTS_PER_LAMPORT :: int where "MICRO_LAMPORTS_PER_LAMPORT = 1000000"

definition SOLANA_LEGACY_V0_FEE_FORMULA_V1 :: string where
  "SOLANA_LEGACY_V0_FEE_FORMULA_V1 = ''solana-legacy-v0-base-priority-v1''"

definition SOLANA_LEGACY_V0_MAX_COMPUTE_UNIT_LIMIT :: int where
  "SOLANA_LEGACY_V0_MAX_COMPUTE_UNIT_LIMIT = 1400000"

datatype solana_transaction_format = FORMAT_LEGACY | FORMAT_V0 | FORMAT_V1 | FORMAT_UNKNOWN

definition solana_u64 :: "string \<Rightarrow> int \<Rightarrow> bool \<Rightarrow> unit res" where
  "solana_u64 name v positive =
     (if \<not> ((if positive then 1 else 0) \<le> v \<and> v \<le> UINT64_MAX) then
        Inl (ValueError (name @ '' must be a '' @ (if positive then ''positive '' else '''') @ ''u64''))
      else Inr ())"

definition solana_stable_name :: "string \<Rightarrow> string \<Rightarrow> unit res" where
  "solana_stable_name name v =
     (if v = [] \<or> v \<noteq> strip v \<or> 128 < length v then
        Inl (ValueError (name @ '' must be non-empty, trimmed and at most 128 characters''))
      else if list_ex (\<lambda>c. char_code c < 32 \<or> 126 < char_code c) v then
        Inl (ValueError (name @ '' must contain printable ASCII only''))
      else Inr ())"

definition validate_effective_interval :: "int \<Rightarrow> int \<Rightarrow> unit res" where
  "validate_effective_interval start until =
     bindE (solana_u64 ''effective_from_unix_s'' start False) (\<lambda>_.
     bindE (solana_u64 ''effective_until_unix_s'' until False) (\<lambda>_.
     if until \<le> start then Inl (ValueError ''profile effective interval must be non-empty and half-open'')
     else Inr ()))"

definition require_effective :: "int \<Rightarrow> int \<Rightarrow> int \<Rightarrow> unit res" where
  "require_effective start until t =
     bindE (solana_u64 ''effective_at_unix_s'' t False) (\<lambda>_.
     if \<not> (start \<le> t \<and> t < until) then Inl (SolanaCostError COST_PROFILE_NOT_EFFECTIVE) else Inr ())"

definition solana_mul_u64 :: "int \<Rightarrow> int \<Rightarrow> int res" where
  "solana_mul_u64 left right =
     (let v = left * right in if UINT64_MAX < v then Inl (SolanaCostError COST_ARITHMETIC_OVERFLOW) else Inr v)"

definition solana_mul_u128 :: "int \<Rightarrow> int \<Rightarrow> int res" where
  "solana_mul_u128 left right =
     (let v = left * right in if UINT128_MAX < v then Inl (SolanaCostError COST_ARITHMETIC_OVERFLOW) else Inr v)"

definition solana_add_u64 :: "int \<Rightarrow> int \<Rightarrow> int res" where
  "solana_add_u64 left right =
     (let v = left + right in if UINT64_MAX < v then Inl (SolanaCostError COST_ARITHMETIC_OVERFLOW) else Inr v)"

record solana_fee_profile =
  sp_profile_id :: string
  sp_formula_version :: string
  sp_transaction_format :: solana_transaction_format
  sp_effective_from :: int
  sp_effective_until :: int
  sp_charged_signature_count :: int
  sp_lamports_per_signature :: int
  sp_compute_unit_limit :: int
  sp_micro_lamports_per_compute_unit :: int

definition SolanaFeeProfile :: "solana_fee_profile \<Rightarrow> solana_fee_profile res" where
  "SolanaFeeProfile p =
     bindE (solana_stable_name ''profile_id'' (sp_profile_id p)) (\<lambda>_.
     bindE (solana_stable_name ''formula_version'' (sp_formula_version p)) (\<lambda>_.
     bindE (validate_effective_interval (sp_effective_from p) (sp_effective_until p)) (\<lambda>_.
     bindE (solana_u64 ''charged_signature_count'' (sp_charged_signature_count p) True) (\<lambda>_.
     bindE (solana_u64 ''lamports_per_signature'' (sp_lamports_per_signature p) False) (\<lambda>_.
     bindE (solana_u64 ''compute_unit_limit'' (sp_compute_unit_limit p) False) (\<lambda>_.
     if SOLANA_LEGACY_V0_MAX_COMPUTE_UNIT_LIMIT < sp_compute_unit_limit p then
       Inl (ValueError ''compute_unit_limit exceeds the legacy/v0 protocol maximum'')
     else
       bindE (solana_u64 ''micro_lamports_per_compute_unit'' (sp_micro_lamports_per_compute_unit p) False)
         (\<lambda>_. Inr p)))))))"

definition legacy_v0 ::
  "string \<Rightarrow> solana_transaction_format \<Rightarrow> int \<Rightarrow> int \<Rightarrow> int \<Rightarrow> int \<Rightarrow> int \<Rightarrow> int \<Rightarrow> solana_fee_profile res" where
  "legacy_v0 profile_id format from until signatures per_signature limit per_unit =
     SolanaFeeProfile \<lparr>sp_profile_id = profile_id, sp_formula_version = SOLANA_LEGACY_V0_FEE_FORMULA_V1,
       sp_transaction_format = format, sp_effective_from = from, sp_effective_until = until,
       sp_charged_signature_count = signatures, sp_lamports_per_signature = per_signature,
       sp_compute_unit_limit = limit, sp_micro_lamports_per_compute_unit = per_unit\<rparr>"

record transaction_fee_quote =
  tf_base_fee :: int
  tf_priority_fee :: int
  tf_total_fee :: int
  tf_charged_on_failure :: bool

definition SolanaTransactionFeeQuote :: "transaction_fee_quote \<Rightarrow> transaction_fee_quote res" where
  "SolanaTransactionFeeQuote q =
     bindE (solana_u64 ''base_fee_lamports'' (tf_base_fee q) False) (\<lambda>_.
     bindE (solana_u64 ''priority_fee_lamports'' (tf_priority_fee q) False) (\<lambda>_.
     bindE (solana_u64 ''total_fee_lamports'' (tf_total_fee q) False) (\<lambda>_.
     if tf_total_fee q \<noteq> tf_base_fee q + tf_priority_fee q then
       Inl (ValueError ''total fee must equal base plus priority fee'')
     else if \<not> tf_charged_on_failure q then
       Inl (ValueError ''legacy/v0 transaction fee must be charged on execution failure'')
     else Inr q)))"

record deposit_cost =
  dc_schema_id :: string
  dc_deposit :: int
  dc_refundable :: bool

definition SolanaAccountDepositCost :: "deposit_cost \<Rightarrow> deposit_cost res" where
  "SolanaAccountDepositCost c =
     bindE (solana_stable_name ''account_schema_id'' (dc_schema_id c)) (\<lambda>_.
     bindE (solana_u64 ''deposit_lamports'' (dc_deposit c) False) (\<lambda>_. Inr c))"

record account_cost_profile =
  cp_profile_id :: string
  cp_effective_from :: int
  cp_effective_until :: int
  cp_costs :: "deposit_cost list"

definition SolanaAccountCostProfile :: "account_cost_profile \<Rightarrow> account_cost_profile res" where
  "SolanaAccountCostProfile p =
     bindE (solana_stable_name ''profile_id'' (cp_profile_id p)) (\<lambda>_.
     bindE (validate_effective_interval (cp_effective_from p) (cp_effective_until p)) (\<lambda>_.
     let schema_ids = map dc_schema_id (cp_costs p) in
     if schema_ids \<noteq> sort schema_ids \<or> length schema_ids \<noteq> card (set schema_ids) then
       Inl (ValueError ''account costs must be uniquely sorted by account_schema_id'')
     else Inr p))"

record counted_requirement =
  cr_schema_id :: string
  cr_count :: int

definition SolanaAccountRequirement :: "counted_requirement \<Rightarrow> counted_requirement res" where
  "SolanaAccountRequirement r =
     bindE (solana_stable_name ''account_schema_id'' (cr_schema_id r)) (\<lambda>_.
     bindE (solana_u64 ''count'' (cr_count r) True) (\<lambda>_. Inr r))"

record deposit_quote =
  dq_required :: int
  dq_refundable :: int

definition SolanaAccountDepositQuote :: "deposit_quote \<Rightarrow> deposit_quote res" where
  "SolanaAccountDepositQuote q =
     bindE (solana_u64 ''required_deposit_lamports'' (dq_required q) False) (\<lambda>_.
     bindE (solana_u64 ''refundable_deposit_lamports'' (dq_refundable q) False) (\<lambda>_.
     if dq_required q < dq_refundable q then
       Inl (ValueError ''refundable deposit cannot exceed the required deposit'')
     else Inr q))"

section \<open>Quotes\<close>

definition quote_transaction_fee :: "solana_fee_profile \<Rightarrow> int \<Rightarrow> transaction_fee_quote res" where
  "quote_transaction_fee p t =
     bindE (require_effective (sp_effective_from p) (sp_effective_until p) t) (\<lambda>_.
     if sp_formula_version p \<noteq> SOLANA_LEGACY_V0_FEE_FORMULA_V1 then
       Inl (SolanaCostError UNSUPPORTED_FEE_FORMULA)
     else if sp_transaction_format p \<notin> {FORMAT_LEGACY, FORMAT_V0} then
       Inl (SolanaCostError UNSUPPORTED_TRANSACTION_FORMAT)
     else
       bindE (solana_mul_u64 (sp_charged_signature_count p) (sp_lamports_per_signature p)) (\<lambda>base_fee.
       bindE (solana_mul_u128 (sp_compute_unit_limit p) (sp_micro_lamports_per_compute_unit p)) (\<lambda>numerator.
       let priority_fee = (numerator + MICRO_LAMPORTS_PER_LAMPORT - 1) div MICRO_LAMPORTS_PER_LAMPORT in
       bindE (solana_add_u64 base_fee priority_fee) (\<lambda>total_fee.
         SolanaTransactionFeeQuote \<lparr>tf_base_fee = base_fee, tf_priority_fee = priority_fee,
           tf_total_fee = total_fee, tf_charged_on_failure = True\<rparr>))))"

definition costs_by_schema :: "account_cost_profile \<Rightarrow> (string, deposit_cost) dict" where
  "costs_by_schema p = foldl (\<lambda>d c. dict_set (dc_schema_id c) c d) [] (cp_costs p)"

definition deposit_step ::
  "(string, deposit_cost) dict \<Rightarrow> int \<times> int \<Rightarrow> counted_requirement \<Rightarrow> (int \<times> int) res" where
  "deposit_step costs acc r = (case acc of (required_total, refundable_total) \<Rightarrow>
     case dict_get costs (cr_schema_id r) of
       None \<Rightarrow> Inl (SolanaCostError UNKNOWN_ACCOUNT_SCHEMA)
     | Some cost \<Rightarrow>
         bindE (solana_mul_u64 (dc_deposit cost) (cr_count r)) (\<lambda>subtotal.
         bindE (solana_add_u64 required_total subtotal) (\<lambda>required_total.
         if dc_refundable cost then
           bindE (solana_add_u64 refundable_total subtotal) (\<lambda>refundable_total.
             Inr (required_total, refundable_total))
         else Inr (required_total, refundable_total))))"

definition quote_account_deposits ::
  "account_cost_profile \<Rightarrow> counted_requirement list \<Rightarrow> int \<Rightarrow> deposit_quote res" where
  "quote_account_deposits p requirements t =
     bindE (require_effective (cp_effective_from p) (cp_effective_until p) t) (\<lambda>_.
     bindE (foldE (deposit_step (costs_by_schema p)) (0, 0) requirements) (\<lambda>(required, refundable).
       SolanaAccountDepositQuote \<lparr>dq_required = required, dq_refundable = refundable\<rparr>))"

definition price_requirement ::
  "(string, deposit_cost) dict \<Rightarrow> asset_id \<Rightarrow> account_requirement \<Rightarrow> priced_account_requirement res" where
  "price_requirement costs asset r =
     (case dict_get costs (ar_schema_id r) of
        None \<Rightarrow> Inl (SolanaCostError UNKNOWN_ACCOUNT_SCHEMA)
      | Some cost \<Rightarrow>
          if \<not> dc_refundable cost then Inl (SolanaCostError NON_REFUNDABLE_ACCOUNT_COST)
          else PricedAccountRequirement \<lparr>pr_requirement = r, pr_asset_id = asset,
            pr_maximum_deposit = dc_deposit cost\<rparr>)"

definition price_account_requirements ::
  "account_cost_profile \<Rightarrow> account_requirement list \<Rightarrow> asset_id \<Rightarrow> int \<Rightarrow> priced_account_requirement list res" where
  "price_account_requirements p requirements asset t =
     (if requirements \<noteq> sort_key account_requirement_key requirements then
        Inl (ValueError ''account requirements must be canonically sorted'')
      else
        bindE (require_effective (cp_effective_from p) (cp_effective_until p) t) (\<lambda>_.
        bindE (mapE (price_requirement (costs_by_schema p) asset) requirements) (\<lambda>priced.
          Inr (sort_key priced_account_requirement_key priced))))"

section \<open>Lemmas\<close>

lemma ceil_div_iff:
  fixes u f :: int
  shows "f = (u + 1000000 - 1) div 1000000 \<longleftrightarrow> (f - 1) * 1000000 < u \<and> u \<le> f * 1000000"
proof -
  have "(u + 1000000 - 1) div 1000000 * 1000000 \<le> u + 1000000 - 1"
    "u + 1000000 - 1 < ((u + 1000000 - 1) div 1000000 + 1) * 1000000"
    using floor_div_le[of 1000000 "u + 1000000 - 1"] floor_div_gt[of 1000000 "u + 1000000 - 1"] by simp_all
  then show ?thesis by (auto simp: algebra_simps)
qed

lemma solana_checked_Inr:
  "solana_u64 n v b = Inr u \<longleftrightarrow> (if b then 1 else 0) \<le> v \<and> v \<le> UINT64_MAX"
  "solana_mul_u64 x y = Inr z \<longleftrightarrow> z = x * y \<and> x * y \<le> UINT64_MAX"
  "solana_mul_u128 x y = Inr z \<longleftrightarrow> z = x * y \<and> x * y \<le> UINT128_MAX"
  "solana_add_u64 x y = Inr z \<longleftrightarrow> z = x + y \<and> x + y \<le> UINT64_MAX"
  by (auto simp: solana_u64_def solana_mul_u64_def solana_mul_u128_def solana_add_u64_def Let_def)

lemma require_effective_Inr:
  "require_effective a b t = Inr u \<longleftrightarrow> 0 \<le> t \<and> t \<le> UINT64_MAX \<and> a \<le> t \<and> t < b"
  by (auto simp: require_effective_def solana_checked_Inr)

text \<open>What a counted requirement deposits, and the part of it that can be refunded.\<close>

definition deposit_of :: "(string, deposit_cost) dict \<Rightarrow> counted_requirement \<Rightarrow> int" where
  "deposit_of costs r = (case dict_get costs (cr_schema_id r) of None \<Rightarrow> 0 | Some c \<Rightarrow> dc_deposit c * cr_count r)"

definition refundable_of :: "(string, deposit_cost) dict \<Rightarrow> counted_requirement \<Rightarrow> int" where
  "refundable_of costs r = (case dict_get costs (cr_schema_id r) of None \<Rightarrow> 0
     | Some c \<Rightarrow> if dc_refundable c then dc_deposit c * cr_count r else 0)"

lemma deposit_step_Inr:
  "deposit_step costs (a, b) r = Inr s \<Longrightarrow> s = (a + deposit_of costs r, b + refundable_of costs r)"
  by (auto simp: deposit_step_def solana_checked_Inr deposit_of_def refundable_of_def
      split: option.splits if_splits)

lemma deposit_fold:
  assumes "foldE (deposit_step costs) (a, b) rs = Inr (a', b')"
  shows "a' = a + sum_list (map (deposit_of costs) rs) \<and> b' = b + sum_list (map (refundable_of costs) rs)"
  using assms
proof (induction rs arbitrary: a b)
  case (Cons r rs)
  then obtain s where "deposit_step costs (a, b) r = Inr s" and "foldE (deposit_step costs) s rs = Inr (a', b')"
    by auto
  with Cons.IH[of "a + deposit_of costs r" "b + refundable_of costs r"] deposit_step_Inr show ?case by fastforce
qed simp

lemma dict_set_values: "(k, v) \<in> set (dict_set k' v' d) \<Longrightarrow> (k, v) \<in> set d \<or> v = v'"
  by (induction d) (auto split: if_splits)

lemma costs_from_profile: "dict_get (costs_by_schema p) k = Some c \<Longrightarrow> c \<in> set (cp_costs p)"
proof -
  have "(k, c) \<in> set (foldl (\<lambda>d c. dict_set (dc_schema_id c) c d) d cs) \<Longrightarrow> (k, c) \<in> set d \<or> c \<in> set cs" for d cs
  proof (induction cs arbitrary: d)
    case (Cons x cs)
    then show ?case using dict_set_values[of k c "dc_schema_id x" x d] by auto
  qed simp
  moreover assume "dict_get (costs_by_schema p) k = Some c"
  then have "(k, c) \<in> set (costs_by_schema p)" by (simp add: map_of_SomeD)
  ultimately show ?thesis unfolding costs_by_schema_def by fastforce
qed

text \<open>Priced requirements are what the wallet reducer's theorems ask of them.\<close>

lemma price_account_requirements_ok:
  assumes "price_account_requirements p rs asset t = Inr priced"
    and "list_all (\<lambda>r. AccountRequirement r = Inr r) rs"
  shows "list_all priced_ok priced \<and> length priced = length rs \<and> set (map pr_requirement priced) = set rs"
proof -
  obtain ps where ps: "mapE (price_requirement (costs_by_schema p) asset) rs = Inr ps"
    and sorted: "priced = sort_key priced_account_requirement_key ps"
    using assms(1) by (auto simp: price_account_requirements_def split: if_splits)
  have one: "AccountRequirement r = Inr r \<Longrightarrow> price_requirement d asset r = Inr q \<Longrightarrow> priced_ok q \<and> pr_requirement q = r"
    for d r q
    by (auto simp: price_requirement_def priced_ok_def PricedAccountRequirement_def split: option.splits if_splits)
  have "list_all priced_ok ps \<and> set (map pr_requirement ps) = set rs"
    using ps assms(2)
  proof (induction rs arbitrary: ps)
    case (Cons r rs)
    then show ?case using one by fastforce
  qed simp
  then show ?thesis using mapE_length[OF ps] by (simp add: sorted list_all_iff)
qed

section \<open>Properties\<close>

text \<open>A transaction fee quote is the signatures' base fee plus the priority fee rounded up to a whole lamport;
  it is refused exactly outside the profile's interval, for another formula or format, or when the
  total exceeds 64 bits.\<close>

theorem transaction_fee_exact:
  assumes "SolanaFeeProfile p = Inr p"
  shows "quote_transaction_fee p t = Inr q \<longleftrightarrow>
    (0 \<le> t \<and> t \<le> UINT64_MAX \<and> sp_effective_from p \<le> t \<and> t < sp_effective_until p
     \<and> sp_formula_version p = SOLANA_LEGACY_V0_FEE_FORMULA_V1 \<and> sp_transaction_format p \<in> {FORMAT_LEGACY, FORMAT_V0}
     \<and> tf_base_fee q = sp_charged_signature_count p * sp_lamports_per_signature p
     \<and> (tf_priority_fee q - 1) * 1000000 < sp_compute_unit_limit p * sp_micro_lamports_per_compute_unit p
     \<and> sp_compute_unit_limit p * sp_micro_lamports_per_compute_unit p \<le> tf_priority_fee q * 1000000
     \<and> tf_total_fee q = tf_base_fee q + tf_priority_fee q \<and> tf_total_fee q \<le> UINT64_MAX
     \<and> tf_charged_on_failure q)"
proof -
  let ?u = "sp_compute_unit_limit p * sp_micro_lamports_per_compute_unit p"
  let ?b = "sp_charged_signature_count p * sp_lamports_per_signature p"
  have bounds: "0 \<le> ?b" "0 \<le> ?u" "?u \<le> UINT128_MAX"
  proof -
    have "0 \<le> sp_compute_unit_limit p \<and> sp_compute_unit_limit p \<le> 1400000
        \<and> 0 \<le> sp_micro_lamports_per_compute_unit p \<and> sp_micro_lamports_per_compute_unit p \<le> UINT64_MAX
        \<and> 0 \<le> sp_charged_signature_count p \<and> 0 \<le> sp_lamports_per_signature p"
      using assms by (auto simp: SolanaFeeProfile_def solana_checked_Inr
          SOLANA_LEGACY_V0_MAX_COMPUTE_UNIT_LIMIT_def split: if_splits)
    then show "0 \<le> ?b" "0 \<le> ?u" "?u \<le> UINT128_MAX"
      using mult_mono[of "sp_compute_unit_limit p" 1400000 "sp_micro_lamports_per_compute_unit p" UINT64_MAX]
      by (auto simp: UINT64_MAX_def UINT128_MAX_def)
  qed
  have ceil: "f = (?u + 1000000 - 1) div 1000000 \<longleftrightarrow> (f - 1) * 1000000 < ?u \<and> ?u \<le> f * 1000000" for f :: int
    using ceil_div_iff .
  have nonneg: "0 \<le> (?u + 1000000 - 1) div 1000000" using bounds by linarith
  show ?thesis
    using bounds nonneg unfolding ceil[symmetric]
    by (cases q) (auto simp: quote_transaction_fee_def require_effective_Inr solana_checked_Inr Let_def
        SolanaTransactionFeeQuote_def MICRO_LAMPORTS_PER_LAMPORT_def)
qed

definition sample_solana_fees :: solana_fee_profile where
  "sample_solana_fees = \<lparr>sp_profile_id = ''p'', sp_formula_version = SOLANA_LEGACY_V0_FEE_FORMULA_V1,
     sp_transaction_format = FORMAT_V0, sp_effective_from = 10, sp_effective_until = 20,
     sp_charged_signature_count = 2, sp_lamports_per_signature = 5000, sp_compute_unit_limit = 200000,
     sp_micro_lamports_per_compute_unit = 7\<rparr>"

lemma sample_solana_fees_valid: "SolanaFeeProfile sample_solana_fees = Inr sample_solana_fees"
  by (simp add: sample_solana_fees_def SolanaFeeProfile_def solana_stable_name_def validate_effective_interval_def
      solana_u64_def UINT64_MAX_def SOLANA_LEGACY_V0_MAX_COMPUTE_UNIT_LIMIT_def SOLANA_LEGACY_V0_FEE_FORMULA_V1_def
      strip_def is_space_def char_code_def)

theorem transaction_fee_exact_witness:
  "quote_transaction_fee sample_solana_fees 15
     = Inr \<lparr>tf_base_fee = 10000, tf_priority_fee = 2, tf_total_fee = 10002, tf_charged_on_failure = True\<rparr>"
  using transaction_fee_exact[OF sample_solana_fees_valid, of 15
      "\<lparr>tf_base_fee = 10000, tf_priority_fee = 2, tf_total_fee = 10002, tf_charged_on_failure = True\<rparr>"]
  by (simp add: sample_solana_fees_def UINT64_MAX_def)

text \<open>A deposit quote is the sum of deposit times count over the requirements, its refundable part the sum
  over the refundable schemas; every schema is known, and neither sum leaves 64 bits.\<close>

theorem account_deposits_exact:
  assumes "quote_account_deposits p rs t = Inr q"
  shows "dq_required q = sum_list (map (deposit_of (costs_by_schema p)) rs)
    \<and> dq_refundable q = sum_list (map (refundable_of (costs_by_schema p)) rs)
    \<and> dq_refundable q \<le> dq_required q \<and> dq_required q \<le> UINT64_MAX
    \<and> list_all (\<lambda>r. \<exists>c \<in> set (cp_costs p). dict_get (costs_by_schema p) (cr_schema_id r) = Some c) rs"
proof -
  obtain a b where run: "foldE (deposit_step (costs_by_schema p)) (0, 0) rs = Inr (a, b)"
    and q: "SolanaAccountDepositQuote \<lparr>dq_required = a, dq_refundable = b\<rparr> = Inr q"
    using assms by (auto simp: quote_account_deposits_def)
  have known: "foldE (deposit_step costs) acc rs = Inr acc' \<Longrightarrow>
      list_all (\<lambda>r. \<exists>c. dict_get costs (cr_schema_id r) = Some c) rs" for costs acc acc'
    by (induction rs arbitrary: acc) (auto simp: deposit_step_def split: option.splits)
  have "list_all (\<lambda>r. \<exists>c \<in> set (cp_costs p). dict_get (costs_by_schema p) (cr_schema_id r) = Some c) rs"
    using known[OF run] costs_from_profile[of p] by (fastforce simp: list_all_iff)
  moreover have "dq_required q = a \<and> dq_refundable q = b \<and> b \<le> a \<and> a \<le> UINT64_MAX"
    using q by (auto simp: SolanaAccountDepositQuote_def solana_checked_Inr split: if_splits)
  ultimately show ?thesis using deposit_fold[OF run] by simp
qed

definition sample_costs :: account_cost_profile where
  "sample_costs = \<lparr>cp_profile_id = ''c'', cp_effective_from = 10, cp_effective_until = 20, cp_costs =
     [\<lparr>dc_schema_id = ''ata'', dc_deposit = 20, dc_refundable = True\<rparr>,
      \<lparr>dc_schema_id = ''log'', dc_deposit = 5, dc_refundable = False\<rparr>]\<rparr>"

theorem account_deposits_exact_witness:
  "\<exists>q. quote_account_deposits sample_costs [\<lparr>cr_schema_id = ''ata'', cr_count = 2\<rparr>,
       \<lparr>cr_schema_id = ''log'', cr_count = 3\<rparr>] 15 = Inr q \<and> dq_required q = 55 \<and> dq_refundable q = 40"
proof -
  let ?rs = "[\<lparr>cr_schema_id = ''ata'', cr_count = 2\<rparr>, \<lparr>cr_schema_id = ''log'', cr_count = 3\<rparr>]"
  obtain q where q: "quote_account_deposits sample_costs ?rs 15 = Inr q"
    by (simp add: quote_account_deposits_def sample_costs_def require_effective_def solana_u64_def UINT64_MAX_def
        deposit_step_def costs_by_schema_def solana_mul_u64_def solana_add_u64_def SolanaAccountDepositQuote_def)
  from account_deposits_exact[OF q] q show ?thesis
    by (simp add: deposit_of_def refundable_of_def costs_by_schema_def sample_costs_def)
qed

end
