(* ===== verification/Roundtrips.thy ===== *)
theory Roundtrips
  imports Venue_State Account_Lifecycle
begin

text \<open>
  Canonical round-trip results (\<^verbatim>\<open>domain/roundtrips.py\<close>): the status machine's values, the quote evidence
  and leg records, the record of one target's whole lifecycle with every check its constructor makes,
  its documents, and the completeness checks of the current result schema.
\<close>

section \<open>Enumerations\<close>

datatype roundtrip_status =
    COOLDOWN_SKIPPED
  | BUY_REFERENCE_REJECTED
  | BUY_PRE_SUBMIT_INSUFFICIENT_FUNDS
  | BUY_LANDED_FAILED
  | SELL_REFERENCE_UNAVAILABLE_OPEN
  | SELL_PRE_SUBMIT_INSUFFICIENT_FUNDS_OPEN
  | SELL_LANDED_FAILED_OPEN
  | OPEN_AT_HORIZON
  | CLOSED

fun roundtrip_status_value :: "roundtrip_status \<Rightarrow> string" where
  "roundtrip_status_value COOLDOWN_SKIPPED = ''COOLDOWN_SKIPPED''"
| "roundtrip_status_value BUY_REFERENCE_REJECTED = ''BUY_REFERENCE_REJECTED''"
| "roundtrip_status_value BUY_PRE_SUBMIT_INSUFFICIENT_FUNDS = ''BUY_PRE_SUBMIT_INSUFFICIENT_FUNDS''"
| "roundtrip_status_value BUY_LANDED_FAILED = ''BUY_LANDED_FAILED''"
| "roundtrip_status_value SELL_REFERENCE_UNAVAILABLE_OPEN = ''SELL_REFERENCE_UNAVAILABLE_OPEN''"
| "roundtrip_status_value SELL_PRE_SUBMIT_INSUFFICIENT_FUNDS_OPEN = ''SELL_PRE_SUBMIT_INSUFFICIENT_FUNDS_OPEN''"
| "roundtrip_status_value SELL_LANDED_FAILED_OPEN = ''SELL_LANDED_FAILED_OPEN''"
| "roundtrip_status_value OPEN_AT_HORIZON = ''OPEN_AT_HORIZON''"
| "roundtrip_status_value CLOSED = ''CLOSED''"

datatype leg_side = LEG_BUY | LEG_SELL

fun leg_side_value :: "leg_side \<Rightarrow> string" where
  "leg_side_value LEG_BUY = ''BUY''"
| "leg_side_value LEG_SELL = ''SELL''"

datatype mtm_status = NOT_APPLICABLE | EXECUTABLE | STALE_PRE_MIGRATION | UNAVAILABLE

fun mtm_status_value :: "mtm_status \<Rightarrow> string" where
  "mtm_status_value NOT_APPLICABLE = ''NOT_APPLICABLE''"
| "mtm_status_value EXECUTABLE = ''EXECUTABLE''"
| "mtm_status_value STALE_PRE_MIGRATION = ''STALE_PRE_MIGRATION''"
| "mtm_status_value UNAVAILABLE = ''UNAVAILABLE''"

definition ROUNDTRIP_RESULT_SCHEMA_V3 :: string where "ROUNDTRIP_RESULT_SCHEMA_V3 = ''pumpfun-roundtrips/v3''"
definition ROUNDTRIP_RESULT_SCHEMA_V4 :: string where "ROUNDTRIP_RESULT_SCHEMA_V4 = ''pumpfun-roundtrips/v4''"

section \<open>Checks\<close>

definition require_non_negative :: "string \<Rightarrow> int \<Rightarrow> unit res" where
  "require_non_negative name v =
     (if v < 0 then Inl (ValueError (name @ '' must be a non-negative integer'')) else Inr ())"

definition require_optional_non_negative :: "string \<Rightarrow> int option \<Rightarrow> unit res" where
  "require_optional_non_negative name v =
     (case v of None \<Rightarrow> Inr () | Some i \<Rightarrow> require_non_negative name i)"

definition require_stable_token :: "string \<Rightarrow> string \<Rightarrow> unit res" where
  "require_stable_token name v =
     (let bare = filter (\<lambda>c. c \<noteq> CHR ''_'') v in
      if v = [] \<or> v \<noteq> strip v \<or> bare = [] \<or> \<not> list_all is_alnum_char bare then
        Inl (ValueError (name @ '' must be a stable token''))
      else Inr ())"

definition require_nonempty_trimmed :: "string \<Rightarrow> string \<Rightarrow> unit res" where
  "require_nonempty_trimmed name v =
     (if v = [] \<or> v \<noteq> strip v \<or> CHR 0x00 \<in> set v then
        Inl (ValueError (name @ '' must be non-empty, trimmed and NUL-free''))
      else Inr ())"

section \<open>Quote evidence\<close>

record quote_evidence =
  qe_policy_id :: string
  qe_asset_id :: asset_id
  qe_required_output :: int
  qe_observed_output :: int
  qe_synthetic_shortfall :: int

definition QuoteLiquidityEvidenceRecord :: "quote_evidence \<Rightarrow> quote_evidence res" where
  "QuoteLiquidityEvidenceRecord q =
     bindE (require_nonempty_trimmed ''liquidity policy ID'' (qe_policy_id q)) (\<lambda>_.
     bindE (require_non_negative ''required_output_atomic'' (qe_required_output q)) (\<lambda>_.
     bindE (require_non_negative ''observed_available_output_atomic'' (qe_observed_output q)) (\<lambda>_.
     bindE (require_non_negative ''synthetic_shortfall_atomic'' (qe_synthetic_shortfall q)) (\<lambda>_.
     if qe_required_output q = 0 then Inl (ValueError ''liquidity required output must be positive'')
     else if qe_synthetic_shortfall q \<noteq> max 0 (qe_required_output q - qe_observed_output q) then
       Inl (ValueError ''synthetic shortfall differs from required-observed liquidity'')
     else Inr q))))"

definition evidence_document :: "quote_evidence \<Rightarrow> json" where
  "evidence_document q = JObj
     [(''asset_id'', JStr (qe_asset_id q)),
      (''observed_available_output_atomic'', JInt (qe_observed_output q)),
      (''policy_id'', JStr (qe_policy_id q)),
      (''required_output_atomic'', JInt (qe_required_output q)),
      (''synthetic_shortfall_atomic'', JInt (qe_synthetic_shortfall q))]"

section \<open>Legs\<close>

record roundtrip_leg =
  lg_side :: leg_side
  lg_decision_position :: chain_position
  lg_landing_position :: "chain_position option"
  lg_amount_in :: "int option"
  lg_reference_out :: int
  lg_landing_out :: "int option"
  lg_minimum_out :: int
  lg_signed_slippage :: "int option"
  lg_protocol_fee :: int
  lg_creator_fee :: int
  lg_network_base_fee :: int
  lg_network_priority_fee :: int
  lg_failure_code :: "string option"

definition leg_landing_check :: "roundtrip_leg \<Rightarrow> unit res" where
  "leg_landing_check l = (case lg_landing_position l of
     None \<Rightarrow> Inr ()
   | Some landing \<Rightarrow>
       bindE (require_same_chain (lg_decision_position l) landing) (\<lambda>_.
       if ordinal_of landing \<le> ordinal_of (lg_decision_position l) then
         Inl (ValueError ''leg landing must be strictly after its decision'')
       else Inr ()))"

definition leg_slippage_check :: "roundtrip_leg \<Rightarrow> unit res" where
  "leg_slippage_check l = (case lg_signed_slippage l of
     None \<Rightarrow> Inr ()
   | Some slippage \<Rightarrow>
       (case lg_landing_out l of
          None \<Rightarrow> Inl (ValueError ''signed slippage requires a landing output'')
        | Some landing \<Rightarrow> raise_if (slippage \<noteq> landing - lg_reference_out l)
            (ValueError ''signed slippage does not match landing-reference'')))"

definition RoundTripLegRecord :: "roundtrip_leg \<Rightarrow> roundtrip_leg res" where
  "RoundTripLegRecord l =
     bindE (leg_landing_check l) (\<lambda>_.
     bindE (require_non_negative ''reference_out_atomic'' (lg_reference_out l)) (\<lambda>_.
     bindE (require_non_negative ''minimum_out_atomic'' (lg_minimum_out l)) (\<lambda>_.
     bindE (require_non_negative ''protocol_fee_atomic'' (lg_protocol_fee l)) (\<lambda>_.
     bindE (require_non_negative ''creator_fee_atomic'' (lg_creator_fee l)) (\<lambda>_.
     bindE (require_non_negative ''network_base_fee_atomic'' (lg_network_base_fee l)) (\<lambda>_.
     bindE (require_non_negative ''network_priority_fee_atomic'' (lg_network_priority_fee l)) (\<lambda>_.
     bindE (require_optional_non_negative ''amount_in_atomic'' (lg_amount_in l)) (\<lambda>_.
     bindE (require_optional_non_negative ''landing_out_atomic'' (lg_landing_out l)) (\<lambda>_.
     bindE (leg_slippage_check l) (\<lambda>_.
     bindE (case lg_failure_code l of None \<Rightarrow> Inr () | Some c \<Rightarrow> require_stable_token ''failure_code'' c) (\<lambda>_.
       Inr l)))))))))))"

definition optional_int :: "int option \<Rightarrow> json" where
  "optional_int v = (case v of None \<Rightarrow> JNull | Some i \<Rightarrow> JInt i)"

definition position_document :: "chain_position \<Rightarrow> json" where
  "position_document p = JObj
     [(''block_ordinal'', JInt (cp_block_ordinal p)), (''boundary_ordinal'', JInt (ordinal_of p)),
      (''event_index'', optional_int (cp_event_index p)), (''transaction_index'', JInt (cp_transaction_index p))]"

definition leg_document :: "roundtrip_leg \<Rightarrow> json" where
  "leg_document l = JObj
     [(''amount_in_atomic'', optional_int (lg_amount_in l)),
      (''creator_fee_atomic'', JInt (lg_creator_fee l)),
      (''decision_position'', position_document (lg_decision_position l)),
      (''failure_code'', (case lg_failure_code l of None \<Rightarrow> JNull | Some c \<Rightarrow> JStr c)),
      (''landing_out_atomic'', optional_int (lg_landing_out l)),
      (''landing_position'', (case lg_landing_position l of None \<Rightarrow> JNull | Some p \<Rightarrow> position_document p)),
      (''minimum_out_atomic'', JInt (lg_minimum_out l)),
      (''network_base_fee_atomic'', JInt (lg_network_base_fee l)),
      (''network_priority_fee_atomic'', JInt (lg_network_priority_fee l)),
      (''protocol_fee_atomic'', JInt (lg_protocol_fee l)),
      (''reference_out_atomic'', JInt (lg_reference_out l)),
      (''side'', JStr (leg_side_value (lg_side l))),
      (''signed_slippage_atomic'', optional_int (lg_signed_slippage l))]"

section \<open>Round-trip records\<close>

record roundtrip_record =
  rt_roundtrip_id :: digest
  rt_network_id :: string
  rt_position_schema_id :: string
  rt_target_event_id :: digest
  rt_target_position :: chain_position
  rt_target_time_ns :: int
  rt_developer_id :: account_id
  rt_creation_user_id :: account_id
  rt_asset_id :: asset_id
  rt_quote_asset_id :: asset_id
  rt_venue_id :: venue_id
  rt_cooldown_consumed :: bool
  rt_cooldown_until_ns :: "int option"
  rt_status :: roundtrip_status
  rt_buy :: "roundtrip_leg option"
  rt_sell :: "roundtrip_leg option"
  rt_acquired :: int
  rt_cashback :: int
  rt_realized_pnl :: "int option"
  rt_mtm_status :: mtm_status
  rt_mtm_value :: "int option"
  rt_mtm_pnl :: "int option"
  rt_economic_pnl :: "int option"
  rt_account_profile_id :: string
  rt_account_components :: "account_component list"
  rt_execution_mode :: execution_mode
  rt_sell_reference_liquidity :: "quote_evidence option"
  rt_sell_landing_liquidity :: "quote_evidence option"
  rt_mtm_liquidity :: "quote_evidence option"
  rt_settled_venue :: int
  rt_settled_synthetic :: int
  rt_source_schema_id :: string

definition account_component_key :: "account_component \<Rightarrow> string \<times> string \<times> string \<times> string" where
  "account_component_key c = (scope_value (ac_scope c), ac_schema_id c,
     ledger_correlation_kind_value (ac_attribution_kind c), digest_hex (ac_attribution_id c))"

definition option_list :: "'a option list \<Rightarrow> 'a list" where
  "option_list xs = concat (map (\<lambda>x. case x of None \<Rightarrow> [] | Some y \<Rightarrow> [y]) xs)"

definition liquidity_values :: "roundtrip_record \<Rightarrow> quote_evidence list" where
  "liquidity_values r =
     option_list [rt_sell_reference_liquidity r, rt_sell_landing_liquidity r, rt_mtm_liquidity r]"

definition successful_sell :: "roundtrip_record \<Rightarrow> bool" where
  "successful_sell r \<longleftrightarrow> rt_status r = CLOSED \<and> (case rt_sell r of None \<Rightarrow> False
     | Some l \<Rightarrow> lg_failure_code l = None \<and> lg_landing_position l \<noteq> None)"

definition validate_settled_liquidity :: "roundtrip_record \<Rightarrow> unit res" where
  "validate_settled_liquidity r =
     bindE (require_non_negative ''settled_venue_funded_atomic'' (rt_settled_venue r)) (\<lambda>_.
     bindE (require_non_negative ''settled_synthetic_funded_atomic'' (rt_settled_synthetic r)) (\<lambda>_.
     if rt_settled_venue r + rt_settled_synthetic r \<noteq> 0 \<and> \<not> successful_sell r then
       Inl (ValueError ''only a successful closed sell may use settlement funding'')
     else (case (successful_sell r, rt_sell_landing_liquidity r) of
         (True, Some evidence) \<Rightarrow>
           if rt_settled_synthetic r \<noteq> qe_synthetic_shortfall evidence then
             Inl (ValueError ''settled synthetic funding differs from landing shortfall'')
           else raise_if (rt_settled_venue r \<noteq> qe_required_output evidence - qe_synthetic_shortfall evidence)
             (ValueError ''settled venue funding differs from landing available output'')
       | _ \<Rightarrow> Inr ())))"

definition validate_legacy_v3_projection :: "roundtrip_record \<Rightarrow> unit res" where
  "validate_legacy_v3_projection r =
     (if rt_execution_mode r \<noteq> EXOGENOUS_REPLAY then
        Inl (ValueError ''legacy round trips require strict exogenous replay'')
      else if liquidity_values r \<noteq> [] then
        Inl (ValueError ''legacy round trips cannot invent liquidity evidence'')
      else raise_if (rt_settled_venue r \<noteq> 0 \<or> rt_settled_synthetic r \<noteq> 0)
        (ValueError ''legacy round trips cannot invent settlement funding''))"

definition validate_roundtrip_components :: "roundtrip_record \<Rightarrow> unit res" where
  "validate_roundtrip_components r =
     (let mint = filter (\<lambda>c. ac_scope c = MINT) (rt_account_components r);
          wallet = filter (\<lambda>c. ac_scope c = WALLET) (rt_account_components r) in
      if rt_cooldown_consumed r \<and> (length mint \<noteq> 1 \<or> length wallet \<noteq> 1) then
        Inl (ValueError ''a consumed target must record one mint and one wallet requirement'')
      else if \<not> rt_cooldown_consumed r \<and> rt_account_components r \<noteq> [] then
        Inl (ValueError ''a suppressed target cannot carry account requirements'')
      else if 0 < rt_acquired r
          \<and> \<not> list_ex (\<lambda>c. ac_lifecycle c \<in> {CREATED_LOCKED, CLOSED_REFUNDED}) mint then
        Inl (ValueError ''acquired tokens require a successfully created mint account'')
      else raise_if (list_ex (\<lambda>c. ac_lifecycle c = CLOSED_REFUNDED) mint \<and> rt_status r \<noteq> CLOSED)
        (ValueError ''a refunded mint account requires a closed round trip''))"

definition RoundTripRecord :: "roundtrip_record \<Rightarrow> roundtrip_record res" where
  "RoundTripRecord r =
     (if cp_network_id (rt_target_position r) \<noteq> rt_network_id r
         \<or> cp_position_schema_id (rt_target_position r) \<noteq> rt_position_schema_id r then
        Inl (ValueError ''target position does not match round-trip chain identity'')
      else if rt_asset_id r = rt_quote_asset_id r then Inl (ValueError ''round-trip assets must differ'')
      else
        bindE (require_non_negative ''target_time_ns'' (rt_target_time_ns r)) (\<lambda>_.
        bindE (case rt_cooldown_until_ns r of None \<Rightarrow> Inr () | Some until \<Rightarrow>
          bindE (require_non_negative ''cooldown_until_ns'' until) (\<lambda>_.
          raise_if (until \<le> rt_target_time_ns r) (ValueError ''cooldown expiry must be after target time''))) (\<lambda>_.
        if rt_source_schema_id r \<notin> {ROUNDTRIP_RESULT_SCHEMA_V3, ROUNDTRIP_RESULT_SCHEMA_V4} then
          Inl (ValueError ''unsupported round-trip source schema'')
        else
          bindE (require_nonempty_trimmed ''account_profile_id'' (rt_account_profile_id r)) (\<lambda>_.
          let keys = map account_component_key (rt_account_components r) in
          if keys \<noteq> sort keys then Inl (ValueError ''account components must be canonically ordered'')
          else if length keys \<noteq> card (set keys) then Inl (ValueError ''account components must be unique'')
          else
            bindE (foldE (\<lambda>_ l. require_same_chain (rt_target_position r) (lg_decision_position l)) ()
              (option_list [rt_buy r, rt_sell r])) (\<lambda>_.
            bindE (require_non_negative ''acquired_token_amount_atomic'' (rt_acquired r)) (\<lambda>_.
            bindE (require_non_negative ''cashback_receivable_atomic'' (rt_cashback r)) (\<lambda>_.
            bindE (validate_roundtrip_components r) (\<lambda>_.
            if rt_mtm_status r = NOT_APPLICABLE \<and> (rt_mtm_value r \<noteq> None \<or> rt_mtm_pnl r \<noteq> None) then
              Inl (ValueError ''not-applicable MTM cannot carry valuation amounts'')
            else if list_ex (\<lambda>q. qe_asset_id q \<noteq> rt_quote_asset_id r) (liquidity_values r) then
              Inl (ValueError ''liquidity evidence asset differs from the quote asset'')
            else if 1 < card (set (map qe_policy_id (liquidity_values r))) then
              Inl (ValueError ''round-trip liquidity evidence mixes settlement policies'')
            else
              bindE (validate_settled_liquidity r) (\<lambda>_.
              bindE (if rt_source_schema_id r = ROUNDTRIP_RESULT_SCHEMA_V3 then validate_legacy_v3_projection r
                else Inr ()) (\<lambda>_. Inr r))))))))))"

definition expected_policy :: "execution_mode \<Rightarrow> string option" where
  "expected_policy mode = (case mode of
     EXOGENOUS_REPLAY \<Rightarrow> Some ''real-reserve-capped-v1''
   | EXOGENOUS_VIRTUAL_SETTLEMENT \<Rightarrow> Some ''virtual-reserve-output-with-explicit-synthetic-shortfall-v1''
   | _ \<Rightarrow> None)"

definition validate_v4_sell :: "roundtrip_record \<Rightarrow> unit res" where
  "validate_v4_sell r = (case rt_sell r of
     None \<Rightarrow> raise_if (rt_sell_reference_liquidity r \<noteq> None \<or> rt_sell_landing_liquidity r \<noteq> None)
       (ValueError ''sell liquidity evidence requires a sell result leg'')
   | Some l \<Rightarrow> raise_if (rt_sell_reference_liquidity r = None)
       (ValueError ''a sell result leg requires reference liquidity evidence''))"

definition validate_v4_closed :: "roundtrip_record \<Rightarrow> unit res" where
  "validate_v4_closed r =
     (if rt_status r \<noteq> CLOSED then Inr ()
      else (case rt_sell r of
          Some l \<Rightarrow> (case (lg_failure_code l, lg_landing_position l, lg_landing_out l) of
              (None, Some _, Some out) \<Rightarrow>
                (case rt_sell_landing_liquidity r of
                   None \<Rightarrow> Inl (ValueError ''a successful sell requires landing liquidity evidence'')
                 | Some landed \<Rightarrow>
                     if qe_required_output landed \<noteq> out + lg_protocol_fee l + lg_creator_fee l then
                       Inl (ValueError ''landing liquidity gross output differs from net output plus Pump fees'')
                     else raise_if (rt_settled_venue r + rt_settled_synthetic r \<noteq> qe_required_output landed)
                       (ValueError ''settled sell funding does not equal landing required output''))
            | _ \<Rightarrow> Inl (ValueError ''a closed round trip requires one successful landed sell''))
        | None \<Rightarrow> Inl (ValueError ''a closed round trip requires one successful landed sell'')))"

definition validate_roundtrip_record_v4 :: "roundtrip_record \<Rightarrow> unit res" where
  "validate_roundtrip_record_v4 r =
     (if rt_source_schema_id r \<noteq> ROUNDTRIP_RESULT_SCHEMA_V4 then
        Inl (ValueError ''new result writes require the round-trip v4 schema'')
      else (case expected_policy (rt_execution_mode r) of
          None \<Rightarrow> Inl (ValueError ''unsupported round-trip execution mode'')
        | Some policy \<Rightarrow>
            bindE (validate_v4_sell r) (\<lambda>_.
            if (case rt_sell r of None \<Rightarrow> False | Some l \<Rightarrow> lg_landing_out l \<noteq> None)
                \<and> rt_sell_landing_liquidity r = None then
              Inl (ValueError ''a materialized sell landing requires liquidity evidence'')
            else if rt_sell_landing_liquidity r \<noteq> None
                \<and> (case rt_sell r of None \<Rightarrow> True | Some l \<Rightarrow> lg_landing_position l = None) then
              Inl (ValueError ''landing liquidity evidence requires a landed sell result leg'')
            else if rt_mtm_status r = NOT_APPLICABLE \<and> rt_mtm_liquidity r \<noteq> None then
              Inl (ValueError ''not-applicable MTM cannot carry liquidity evidence'')
            else if rt_mtm_liquidity r \<noteq> None \<and> (rt_status r = CLOSED \<or> rt_acquired r = 0) then
              Inl (ValueError ''MTM liquidity evidence requires an open acquired position'')
            else if list_ex (\<lambda>q. qe_policy_id q \<noteq> policy) (liquidity_values r) then
              Inl (ValueError ''liquidity evidence policy differs from execution mode'')
            else if rt_execution_mode r = EXOGENOUS_REPLAY
                \<and> list_ex (\<lambda>q. qe_synthetic_shortfall q \<noteq> 0) (liquidity_values r) then
              Inl (ValueError ''strict exogenous replay cannot record synthetic shortfall'')
            else validate_v4_closed r)))"

definition optional_evidence :: "quote_evidence option \<Rightarrow> json" where
  "optional_evidence q = (case q of None \<Rightarrow> JNull | Some e \<Rightarrow> evidence_document e)"

definition optional_leg :: "roundtrip_leg option \<Rightarrow> json" where
  "optional_leg l = (case l of None \<Rightarrow> JNull | Some x \<Rightarrow> leg_document x)"

definition v4_only_fields :: "string list" where
  "v4_only_fields = [''execution_mode'', ''mtm_liquidity'', ''sell_landing_liquidity'',
     ''sell_reference_liquidity'', ''settled_synthetic_funded_atomic'', ''settled_venue_funded_atomic'']"

definition roundtrip_document :: "roundtrip_record \<Rightarrow> (string, json) dict" where
  "roundtrip_document r =
     (let document =
       [(''acquired_token_amount_atomic'', JInt (rt_acquired r)),
        (''account_components'', JArr (map (\<lambda>c. JObj (component_document c)) (rt_account_components r))),
        (''account_profile_id'', JStr (rt_account_profile_id r)),
        (''asset_id'', JStr (rt_asset_id r)),
        (''buy'', optional_leg (rt_buy r)),
        (''cashback_receivable_atomic'', JInt (rt_cashback r)),
        (''cooldown_consumed'', JBool (rt_cooldown_consumed r)),
        (''cooldown_until_ns'', optional_int (rt_cooldown_until_ns r)),
        (''creation_user_id'', JStr (rt_creation_user_id r)),
        (''developer_id'', JStr (rt_developer_id r)),
        (''economic_pnl_atomic'', optional_int (rt_economic_pnl r)),
        (''execution_mode'', JStr (execution_mode_value (rt_execution_mode r))),
        (''mtm_liquidity'', optional_evidence (rt_mtm_liquidity r)),
        (''mtm_cash_pnl_atomic'', optional_int (rt_mtm_pnl r)),
        (''mtm_liquidation_value_atomic'', optional_int (rt_mtm_value r)),
        (''mtm_status'', JStr (mtm_status_value (rt_mtm_status r))),
        (''network_id'', JStr (rt_network_id r)),
        (''position_schema_id'', JStr (rt_position_schema_id r)),
        (''quote_asset_id'', JStr (rt_quote_asset_id r)),
        (''realized_cash_pnl_atomic'', optional_int (rt_realized_pnl r)),
        (''roundtrip_id'', JStr (digest_hex (rt_roundtrip_id r))),
        (''sell'', optional_leg (rt_sell r)),
        (''sell_landing_liquidity'', optional_evidence (rt_sell_landing_liquidity r)),
        (''sell_reference_liquidity'', optional_evidence (rt_sell_reference_liquidity r)),
        (''settled_synthetic_funded_atomic'', JInt (rt_settled_synthetic r)),
        (''settled_venue_funded_atomic'', JInt (rt_settled_venue r)),
        (''status'', JStr (roundtrip_status_value (rt_status r))),
        (''target_event_id'', JStr (digest_hex (rt_target_event_id r))),
        (''target_position'', position_document (rt_target_position r)),
        (''target_time_ns'', JInt (rt_target_time_ns r)),
        (''venue_id'', JStr (rt_venue_id r))] in
      if rt_source_schema_id r = ROUNDTRIP_RESULT_SCHEMA_V3 then
        filter (\<lambda>(k, _). k \<notin> set v4_only_fields) document
      else document)"

end
