(* ===== verification/Sniping_Contracts.thy ===== *)
theory Sniping_Contracts
  imports Roundtrips Wallet_Accounts Transaction_Clock
begin

text \<open>
  The values that cross the ports of the launchpad round-trip engine
  (\<^verbatim>\<open>engine/sniping_contracts.py\<close>): launch targets and decisions, liquidity evidence, protocol quotes and
  network costs, with the checks of their constructors, and the order in which the launches of one
  boundary are handled.
\<close>

section \<open>Liquidity policies\<close>

definition REAL_RESERVE_CAPPED_LIQUIDITY_POLICY_ID :: string where
  "REAL_RESERVE_CAPPED_LIQUIDITY_POLICY_ID = ''real-reserve-capped-v1''"

definition VIRTUAL_RESERVE_EXPLICIT_SHORTFALL_LIQUIDITY_POLICY_ID :: string where
  "VIRTUAL_RESERVE_EXPLICIT_SHORTFALL_LIQUIDITY_POLICY_ID =
     ''virtual-reserve-output-with-explicit-synthetic-shortfall-v1''"

fun liquidity_policy_id_for_execution_mode :: "execution_mode \<Rightarrow> string res" where
  "liquidity_policy_id_for_execution_mode EXOGENOUS_REPLAY = Inr REAL_RESERVE_CAPPED_LIQUIDITY_POLICY_ID"
| "liquidity_policy_id_for_execution_mode EXOGENOUS_VIRTUAL_SETTLEMENT =
     Inr VIRTUAL_RESERVE_EXPLICIT_SHORTFALL_LIQUIDITY_POLICY_ID"
| "liquidity_policy_id_for_execution_mode _ = Inl (ValueError ''unsupported Pump.fun Sniping execution mode'')"

definition is_upper :: "char \<Rightarrow> bool" where
  "is_upper c = (65 \<le> char_code c \<and> char_code c \<le> 90)"

definition synthetic_liquidity_account_id ::
  "(bytes \<Rightarrow> string) \<Rightarrow> string \<Rightarrow> string \<Rightarrow> venue_id \<Rightarrow> account_id res" where
  "synthetic_liquidity_account_id sha namespace network venue =
     (let stable = filter (\<lambda>c. c \<noteq> CHR ''-'') namespace in
      if namespace = [] \<or> list_ex is_upper namespace \<or> list_ex (\<lambda>c. 127 < char_code c) namespace
          \<or> stable = [] \<or> \<not> list_all is_alnum_char stable then
        Inl (ValueError ''protocol_namespace must be a lowercase ASCII token'')
      else bindE (domain_digest sha (''backtest.'' @ namespace @ ''-synthetic-liquidity-account.v1'')
          (JObj [(''network_id'', JStr network), (''venue_id'', JStr venue)])) (\<lambda>d.
        Identifier (''synthetic-liquidity:'' @ namespace @ '':'' @ digest_hex d)))"

section \<open>Launches\<close>

datatype launch_decision_status = ELIGIBLE | COOLDOWN_SUPPRESSED

record launch_target =
  lu_target_event_id :: digest
  lu_position :: chain_position
  lu_asset_id :: asset_id
  lu_developer_id :: account_id
  lu_creation_user_id :: account_id
  lu_venue_id :: venue_id
  lu_quote_asset_id :: asset_id

record launch_decision =
  ld_roundtrip_id :: digest
  ld_status :: launch_decision_status
  ld_cooldown_until_ns :: "int option"
  ld_intent :: "roundtrip_intent option"

definition LaunchDecision :: "launch_decision \<Rightarrow> launch_decision res" where
  "LaunchDecision d =
     (if (ld_status d = ELIGIBLE) = (ld_intent d = None) then
        Inl (ValueError ''only an eligible decision carries an intent'')
      else if (case ld_cooldown_until_ns d of None \<Rightarrow> False | Some t \<Rightarrow> t < 0) then
        Inl (ValueError ''cooldown_until_ns must be non-negative or None'')
      else Inr d)"

definition launch_sort_key :: "launch_target \<Rightarrow> int \<times> int \<times> string" where
  "launch_sort_key t = (ordinal_of (lu_position t),
     (case cp_event_index (lu_position t) of None \<Rightarrow> -1 | Some i \<Rightarrow> i), digest_hex (lu_target_event_id t))"

definition ensure_single_launch :: "launch_target list \<Rightarrow> launch_target list res" where
  "ensure_single_launch launches =
     (let identities = map lu_target_event_id launches in
      if length identities \<noteq> card (set identities) then
        Inl (ProtocolContractError INCONSISTENT_VENUE_IDENTITY)
      else Inr (sort_key launch_sort_key launches))"

section \<open>Quotes\<close>

record liquidity_evidence =
  lv_policy_id :: string
  lv_asset_id :: asset_id
  lv_required_output :: int
  lv_observed_output :: int
  lv_synthetic_shortfall :: int
  lv_synthetic_source :: "account_id option"

definition ProtocolLiquidityEvidence :: "liquidity_evidence \<Rightarrow> liquidity_evidence res" where
  "ProtocolLiquidityEvidence e =
     (if lv_policy_id e = [] \<or> lv_policy_id e \<noteq> strip (lv_policy_id e) then
        Inl (ValueError ''liquidity policy ID must be non-empty and trimmed'')
      else if 128 < length (lv_policy_id e)
          \<or> list_ex (\<lambda>c. char_code c < 32 \<or> 126 < char_code c) (lv_policy_id e) then
        Inl (ValueError ''liquidity policy ID must be printable ASCII up to 128 characters'')
      else
        bindE (require_non_negative ''required_output_atomic'' (lv_required_output e)) (\<lambda>_.
        bindE (require_non_negative ''observed_available_output_atomic'' (lv_observed_output e)) (\<lambda>_.
        bindE (require_non_negative ''synthetic_shortfall_atomic'' (lv_synthetic_shortfall e)) (\<lambda>_.
        if lv_required_output e \<le> 0 then Inl (ValueError ''required liquidity output must be positive'')
        else if lv_synthetic_shortfall e \<noteq> max 0 (lv_required_output e - lv_observed_output e) then
          Inl (ValueError ''synthetic shortfall is inconsistent with observed liquidity'')
        else if 0 < lv_synthetic_shortfall e then
          (if lv_synthetic_source e = None then
             Inl (TypeError ''positive synthetic shortfall requires an AccountId source'')
           else Inr e)
        else if lv_synthetic_source e \<noteq> None then
          Inl (ValueError ''zero synthetic shortfall must not carry a source account'')
        else Inr e))))"

datatype protocol_quote_side = QUOTE_BUY | QUOTE_SELL

fun quote_side_value :: "protocol_quote_side \<Rightarrow> string" where
  "quote_side_value QUOTE_BUY = ''BUY''"
| "quote_side_value QUOTE_SELL = ''SELL''"

record protocol_quote =
  pq_side :: protocol_quote_side
  pq_input_asset_id :: asset_id
  pq_output_asset_id :: asset_id
  pq_amount_in :: int
  pq_amount_out :: int
  pq_venue_input :: int
  pq_venue_output :: int
  pq_protocol_fee :: int
  pq_creator_fee :: int
  pq_cashback :: int
  pq_protocol_fee_account :: account_id
  pq_creator_fee_account :: account_id
  pq_cashback_source_account :: account_id
  pq_liquidity :: "liquidity_evidence option"

definition validate_quote_side :: "protocol_quote \<Rightarrow> unit res" where
  "validate_quote_side q = (case pq_side q of
     QUOTE_BUY \<Rightarrow>
       if pq_amount_in q \<noteq> pq_venue_input q + pq_protocol_fee q + pq_creator_fee q then
         Inl (ValueError ''buy gross input does not conserve fee components'')
       else if pq_venue_output q \<noteq> pq_amount_out q then
         Inl (ValueError ''buy venue output must equal token output'')
       else raise_if (pq_liquidity q \<noteq> None) (ValueError ''buy quote must not carry sell-liquidity evidence'')
   | QUOTE_SELL \<Rightarrow>
       if pq_venue_input q \<noteq> pq_amount_in q then
         Inl (ValueError ''sell venue input must equal sold token amount'')
       else if pq_venue_output q \<noteq> pq_amount_out q + pq_protocol_fee q + pq_creator_fee q then
         Inl (ValueError ''sell gross output does not conserve fee components'')
       else (case pq_liquidity q of
           None \<Rightarrow> Inl (TypeError ''sell quote requires ProtocolLiquidityEvidence'')
         | Some e \<Rightarrow>
             if lv_asset_id e \<noteq> pq_output_asset_id q then
               Inl (ValueError ''sell-liquidity evidence uses the wrong output asset'')
             else raise_if (lv_required_output e \<noteq> pq_venue_output q)
               (ValueError ''sell-liquidity evidence must cover the gross venue output'')))"

definition ProtocolQuote :: "protocol_quote \<Rightarrow> protocol_quote res" where
  "ProtocolQuote q =
     (if pq_input_asset_id q = pq_output_asset_id q then Inl (ValueError ''protocol quote assets must differ'')
      else
        bindE (require_non_negative ''amount_in_atomic'' (pq_amount_in q)) (\<lambda>_.
        bindE (require_non_negative ''amount_out_atomic'' (pq_amount_out q)) (\<lambda>_.
        bindE (require_non_negative ''venue_input_atomic'' (pq_venue_input q)) (\<lambda>_.
        bindE (require_non_negative ''venue_output_atomic'' (pq_venue_output q)) (\<lambda>_.
        bindE (require_non_negative ''protocol_fee_atomic'' (pq_protocol_fee q)) (\<lambda>_.
        bindE (require_non_negative ''creator_fee_atomic'' (pq_creator_fee q)) (\<lambda>_.
        bindE (require_non_negative ''cashback_receivable_atomic'' (pq_cashback q)) (\<lambda>_.
        if pq_amount_in q \<le> 0 \<or> pq_amount_out q \<le> 0 then
          Inl (ValueError ''protocol quote input/output must be positive'')
        else if pq_cashback q \<notin> {0, pq_creator_fee q} then
          Inl (ValueError ''cashback receivable must be zero or the creator fee'')
        else bindE (validate_quote_side q) (\<lambda>_. Inr q)))))))))"

record network_cost_quote =
  nq_fee_asset_id :: asset_id
  nq_base_fee :: int
  nq_priority_fee :: int
  nq_account_requirements :: "priced_account_requirement list"

definition NetworkCostQuote :: "network_cost_quote \<Rightarrow> network_cost_quote res" where
  "NetworkCostQuote q =
     bindE (require_non_negative ''base_fee_atomic'' (nq_base_fee q)) (\<lambda>_.
     bindE (require_non_negative ''priority_fee_atomic'' (nq_priority_fee q)) (\<lambda>_.
     if nq_account_requirements q \<noteq> sort_key priced_account_requirement_key (nq_account_requirements q) then
       Inl (ValueError ''account requirements must be canonically sorted'')
     else Inr q))"

definition transaction_fee_atomic :: "network_cost_quote \<Rightarrow> int" where
  "transaction_fee_atomic q = nq_base_fee q + nq_priority_fee q"

record valuation_quote =
  vq_quote :: protocol_quote
  vq_stale_pre_migration :: bool

section \<open>Lemmas\<close>

lemma require_non_negative_Inr [simp]: "require_non_negative n v = Inr u \<longleftrightarrow> 0 \<le> v"
  by (auto simp: require_non_negative_def)

lemma ProtocolQuote_amounts:
  assumes "ProtocolQuote q = Inr q"
  shows "0 < pq_amount_in q" "0 < pq_amount_out q" "0 \<le> pq_venue_input q" "0 \<le> pq_venue_output q"
    "0 \<le> pq_protocol_fee q" "0 \<le> pq_creator_fee q" "0 \<le> pq_cashback q" "pq_input_asset_id q \<noteq> pq_output_asset_id q"
    "validate_quote_side q = Inr ()"
  using assms by (auto simp: ProtocolQuote_def split: if_splits)

lemma ProtocolQuote_buy:
  assumes "ProtocolQuote q = Inr q" and "pq_side q = QUOTE_BUY"
  shows "pq_amount_in q = pq_venue_input q + pq_protocol_fee q + pq_creator_fee q"
    and "pq_venue_output q = pq_amount_out q" and "pq_liquidity q = None"
  using ProtocolQuote_amounts(9)[OF assms(1)] assms(2)
  by (auto simp: validate_quote_side_def split: if_splits)

lemma ProtocolQuote_sell:
  assumes "ProtocolQuote q = Inr q" and "pq_side q = QUOTE_SELL"
  obtains e where "pq_liquidity q = Some e" and "pq_venue_input q = pq_amount_in q"
    and "lv_required_output e = pq_amount_out q + pq_protocol_fee q + pq_creator_fee q"
    and "lv_asset_id e = pq_output_asset_id q"
  using ProtocolQuote_amounts(9)[OF assms(1)] assms(2)
  by (auto simp: validate_quote_side_def split: if_splits option.splits)

lemma ProtocolLiquidityEvidence_shortfall:
  assumes "ProtocolLiquidityEvidence e = Inr e"
  shows "0 < lv_required_output e" "0 \<le> lv_observed_output e"
    "lv_synthetic_shortfall e = max 0 (lv_required_output e - lv_observed_output e)"
    "lv_synthetic_shortfall e \<le> lv_required_output e"
    "0 < lv_synthetic_shortfall e \<longleftrightarrow> lv_synthetic_source e \<noteq> None"
  using assms by (auto simp: ProtocolLiquidityEvidence_def max_def split: if_splits)

end
