(* ===== verification/Sniping_Settlement.thy ===== *)
theory Sniping_Settlement
  imports Sniping_Contracts
begin

text \<open>
  The accounting of the sniping engine (\<^verbatim>\<open>engine/sniping.py\<close>, from \<^verbatim>\<open>_validate_buy_quote\<close> on): the
  quote checks, the amounts an order reserves, the four settlements of a round trip as double-entry
  transactions, the fills and the result legs. A helper of the source that appends to a list of postings is
  here the function from its arguments to the postings it appends.
\<close>

section \<open>Quote checks\<close>

definition validate_buy_quote :: "roundtrip_intent \<Rightarrow> protocol_quote \<Rightarrow> unit res" where
  "validate_buy_quote i q =
     raise_if (pq_side q \<noteq> QUOTE_BUY \<or> pq_input_asset_id q \<noteq> ri_quote_asset_id i
         \<or> pq_output_asset_id q \<noteq> ri_asset_id i \<or> ri_gross_buy_budget_atomic i < pq_amount_in q)
       (SnipingEngineError QUOTE_CONTRACT_MISMATCH)"

definition expected_source ::
  "(bytes \<Rightarrow> string) \<Rightarrow> roundtrip_intent \<Rightarrow> int \<Rightarrow> account_id option res" where
  "expected_source sha i shortfall =
     (if 0 < shortfall then
        bindE (synthetic_liquidity_account_id sha ''pumpfun'' (cp_network_id (ri_target_position i)) (ri_venue_id i))
          (\<lambda>a. Inr (Some a))
      else Inr None)"

definition validate_sell_quote ::
  "(bytes \<Rightarrow> string) \<Rightarrow> roundtrip_intent \<Rightarrow> int \<Rightarrow> protocol_quote \<Rightarrow> unit res" where
  "validate_sell_quote sha i tokens q =
     (if pq_side q \<noteq> QUOTE_SELL \<or> pq_input_asset_id q \<noteq> ri_asset_id i
          \<or> pq_output_asset_id q \<noteq> ri_quote_asset_id i \<or> pq_amount_in q \<noteq> tokens then
        Inl (SnipingEngineError QUOTE_CONTRACT_MISMATCH)
      else (case pq_liquidity q of
          None \<Rightarrow> Inl (SnipingEngineError QUOTE_CONTRACT_MISMATCH)
        | Some e \<Rightarrow>
            bindE (liquidity_policy_id_for_execution_mode (ri_execution_mode i)) (\<lambda>policy.
            if lv_policy_id e \<noteq> policy then Inl (SnipingEngineError QUOTE_CONTRACT_MISMATCH)
            else if ri_execution_mode i = EXOGENOUS_REPLAY then
              raise_if (lv_synthetic_shortfall e \<noteq> 0 \<or> lv_synthetic_source e \<noteq> None)
                (SnipingEngineError QUOTE_CONTRACT_MISMATCH)
            else
              let shortfall = max 0 (lv_required_output e - lv_observed_output e) in
              bindE (expected_source sha i shortfall) (\<lambda>source.
              raise_if (ri_execution_mode i \<noteq> EXOGENOUS_VIRTUAL_SETTLEMENT
                  \<or> lv_synthetic_shortfall e \<noteq> shortfall \<or> lv_synthetic_source e \<noteq> source)
                (SnipingEngineError QUOTE_CONTRACT_MISMATCH)))))"

definition sniping_minimum_output :: "int \<Rightarrow> int \<Rightarrow> int" where
  "sniping_minimum_output reference slippage_bps = reference * (10000 - slippage_bps) div 10000"

section \<open>Amounts per asset\<close>

type_synonym asset_amounts = "(asset_id \<times> int) list"

definition canonical_asset_amounts :: "(asset_id \<times> int) list \<Rightarrow> asset_amounts" where
  "canonical_asset_amounts components =
     sort_key fst (asset_totals (filter (\<lambda>(_, amount). amount \<noteq> 0) components))"

definition buy_reservation :: "roundtrip_intent \<Rightarrow> network_cost_quote \<Rightarrow> reservation_plan \<Rightarrow> asset_amounts" where
  "buy_reservation i network plan = canonical_asset_amounts
     ([(ri_quote_asset_id i, ri_gross_buy_budget_atomic i),
       (nq_fee_asset_id network, transaction_fee_atomic network)] @ reserved_asset_amounts plan)"

definition sell_reservation :: "roundtrip_intent \<Rightarrow> int \<Rightarrow> network_cost_quote \<Rightarrow> asset_amounts" where
  "sell_reservation i tokens network = canonical_asset_amounts
     [(ri_asset_id i, tokens), (nq_fee_asset_id network, transaction_fee_atomic network)]"

fun has_available :: "portfolio_state \<Rightarrow> asset_amounts \<Rightarrow> bool res" where
  "has_available portfolio [] = Inr True"
| "has_available portfolio ((asset, amount) # amounts) =
     bindE (available portfolio asset) (\<lambda>v.
       if amount \<le> v then has_available portfolio amounts else Inr False)"

definition asset_amounts_document :: "asset_amounts \<Rightarrow> json" where
  "asset_amounts_document amounts =
     JArr (map (\<lambda>(asset, amount). JObj [(''amount_atomic'', JInt amount), (''asset_id'', JStr asset)]) amounts)"

definition amount_if_asset :: "asset_id \<Rightarrow> asset_id \<Rightarrow> int \<Rightarrow> int" where
  "amount_if_asset asset expected amount = (if asset = expected then amount else 0)"

definition asset_amount :: "asset_amounts \<Rightarrow> asset_id \<Rightarrow> int" where
  "asset_amount amounts expected = dict_get_default amounts expected 0"

section \<open>Postings\<close>

definition posting_of :: "account_id \<Rightarrow> account_kind \<Rightarrow> asset_id \<Rightarrow> int \<Rightarrow> posting list" where
  "posting_of account kind asset amount =
     (if amount \<noteq> 0 then
        [\<lparr>po_account = LedgerAccount account kind, po_asset_id = asset, po_amount_atomic = amount\<rparr>]
      else [])"

definition ledger_transaction_of ::
  "(bytes \<Rightarrow> string) \<Rightarrow> digest \<Rightarrow> int \<Rightarrow> string \<Rightarrow> posting list \<Rightarrow> ledger_transaction res" where
  "ledger_transaction_of sha roundtrip boundary reason postings =
     bindE (domain_digest sha ''backtest.sniping-ledger-transaction.v2'' (JObj
         [(''boundary_ordinal'', JInt boundary), (''reason'', JStr reason),
          (''roundtrip_id'', JStr (digest_hex roundtrip))])) (\<lambda>transaction_id.
     LedgerTransaction transaction_id ROUNDTRIP roundtrip boundary postings reason)"

definition reserve_amounts :: "asset_amounts \<Rightarrow> posting list res" where
  "reserve_amounts amounts =
     bindE (mapE (\<lambda>(asset, amount).
         bindE (available_account_id asset) (\<lambda>av.
         bindE (reserved_account_id asset) (\<lambda>rs.
         Inr (posting_of av PORTFOLIO_AVAILABLE asset (- amount)
           @ posting_of rs PORTFOLIO_RESERVED asset amount)))) amounts)
       (\<lambda>pss. Inr (concat pss))"

definition reserve_buy ::
  "(bytes \<Rightarrow> string) \<Rightarrow> roundtrip_intent \<Rightarrow> network_cost_quote \<Rightarrow> reservation_plan \<Rightarrow> ledger_transaction res" where
  "reserve_buy sha i network plan =
     bindE (reserve_amounts (buy_reservation i network plan)) (\<lambda>postings.
     ledger_transaction_of sha (ri_roundtrip_id i) (ri_created_boundary_ordinal i)
       ''SNIPING_BUY_RESERVATION'' postings)"

definition reserve_sell ::
  "(bytes \<Rightarrow> string) \<Rightarrow> roundtrip_intent \<Rightarrow> int \<Rightarrow> network_cost_quote \<Rightarrow> int \<Rightarrow> ledger_transaction res" where
  "reserve_sell sha i tokens network boundary =
     bindE (reserve_amounts (sell_reservation i tokens network)) (\<lambda>postings.
     ledger_transaction_of sha (ri_roundtrip_id i) boundary ''SNIPING_SELL_RESERVATION'' postings)"

definition settle_reserved_amounts :: "asset_amounts \<Rightarrow> asset_amounts \<Rightarrow> posting list res" where
  "settle_reserved_amounts held consumed =
     (if list_ex (\<lambda>asset. asset \<notin> set (map fst held)) (dict_keys consumed) then
        Inl (SnipingEngineError PORTFOLIO_INVARIANT)
      else bindE (mapE (\<lambda>(asset, reserved_amount).
          let consumed_amount = dict_get_default consumed asset 0 in
          if reserved_amount < consumed_amount then Inl (SnipingEngineError PORTFOLIO_INVARIANT)
          else bindE (reserved_account_id asset) (\<lambda>rs.
            bindE (available_account_id asset) (\<lambda>av.
            Inr (posting_of rs PORTFOLIO_RESERVED asset (- reserved_amount)
              @ posting_of av PORTFOLIO_AVAILABLE asset (reserved_amount - consumed_amount))))) held)
        (\<lambda>pss. Inr (concat pss)))"

definition cashback_receivable_account_id :: "digest \<Rightarrow> account_id res" where
  "cashback_receivable_account_id roundtrip = Identifier (''portfolio:receivable:cashback:'' @ digest_hex roundtrip)"

definition locked_deposit_account_id :: "account_component \<Rightarrow> account_id res" where
  "locked_deposit_account_id r =
     (let owner = (if ac_scope r = WALLET then ''wallet'' else ''mint:'' @ digest_hex (ac_attribution_id r)) in
      Identifier (''portfolio:locked-account-deposit:'' @ owner @ '':'' @ ac_schema_id r))"

definition cashback_postings :: "roundtrip_intent \<Rightarrow> protocol_quote \<Rightarrow> posting list res" where
  "cashback_postings i q =
     bindE (cashback_receivable_account_id (ri_roundtrip_id i)) (\<lambda>receivable.
     Inr (posting_of receivable RECEIVABLE (ri_quote_asset_id i) (pq_cashback q)
       @ posting_of (pq_cashback_source_account q) EXTERNAL (ri_quote_asset_id i) (- pq_cashback q)))"

section \<open>Settlements\<close>

definition failed_postings ::
  "network_cost_quote \<Rightarrow> account_id \<Rightarrow> asset_amounts \<Rightarrow> posting list res" where
  "failed_postings network fee_account held =
     bindE (settle_reserved_amounts held
         (canonical_asset_amounts [(nq_fee_asset_id network, transaction_fee_atomic network)])) (\<lambda>settled.
     Inr (settled @ posting_of fee_account NETWORK_FEE (nq_fee_asset_id network) (transaction_fee_atomic network)))"

definition failed_buy_settlement ::
  "(bytes \<Rightarrow> string) \<Rightarrow> roundtrip_intent \<Rightarrow> int \<Rightarrow> network_cost_quote \<Rightarrow> reservation_plan \<Rightarrow> account_id \<Rightarrow> string
    \<Rightarrow> ledger_transaction res" where
  "failed_buy_settlement sha i boundary network plan fee_account reason =
     bindE (failed_postings network fee_account (buy_reservation i network plan)) (\<lambda>postings.
     ledger_transaction_of sha (ri_roundtrip_id i) boundary (''SNIPING_BUY_FAILED_'' @ reason) postings)"

definition buy_consumed ::
  "roundtrip_intent \<Rightarrow> protocol_quote \<Rightarrow> network_cost_quote \<Rightarrow> account_component list \<Rightarrow> asset_amounts" where
  "buy_consumed i q network records = canonical_asset_amounts
     ([(ri_quote_asset_id i, pq_amount_in q), (nq_fee_asset_id network, transaction_fee_atomic network)]
      @ map (\<lambda>r. (ac_asset_id r, ac_paid r)) (filter (\<lambda>r. ac_paid r \<noteq> 0) records))"

definition locked_postings :: "account_component list \<Rightarrow> posting list res" where
  "locked_postings records =
     bindE (mapE (\<lambda>r. bindE (locked_deposit_account_id r) (\<lambda>account.
         Inr (posting_of account PORTFOLIO_LOCKED (ac_asset_id r) (ac_paid r)))) records)
       (\<lambda>pss. Inr (concat pss))"

definition successful_buy_postings ::
  "roundtrip_intent \<Rightarrow> protocol_quote \<Rightarrow> network_cost_quote \<Rightarrow> reservation_plan \<Rightarrow> account_component list
    \<Rightarrow> account_id \<Rightarrow> posting list res" where
  "successful_buy_postings i q network plan records fee_account =
     bindE (settle_reserved_amounts (buy_reservation i network plan) (buy_consumed i q network records)) (\<lambda>settled.
     bindE (Identifier (''venue:'' @ ri_venue_id i)) (\<lambda>venue.
     let quote_asset = ri_quote_asset_id i; asset = ri_asset_id i in
     bindE (locked_postings records) (\<lambda>locked.
     bindE (available_account_id asset) (\<lambda>av.
     bindE (cashback_postings i q) (\<lambda>cashback.
     Inr (settled @ posting_of venue VENUE quote_asset (pq_venue_input q)
       @ posting_of (pq_protocol_fee_account q) PROTOCOL_FEE quote_asset (pq_protocol_fee q)
       @ posting_of (pq_creator_fee_account q) CREATOR_FEE quote_asset (pq_creator_fee q)
       @ posting_of fee_account NETWORK_FEE (nq_fee_asset_id network) (transaction_fee_atomic network)
       @ locked @ posting_of venue VENUE asset (- pq_amount_out q)
       @ posting_of av PORTFOLIO_AVAILABLE asset (pq_amount_out q) @ cashback))))))"

definition successful_buy_settlement ::
  "(bytes \<Rightarrow> string) \<Rightarrow> roundtrip_intent \<Rightarrow> int \<Rightarrow> protocol_quote \<Rightarrow> network_cost_quote \<Rightarrow> reservation_plan
    \<Rightarrow> provisioning_transition \<Rightarrow> account_id \<Rightarrow> ledger_transaction res" where
  "successful_buy_settlement sha i boundary q network plan transition fee_account =
     bindE (successful_buy_postings i q network plan (pt_records transition) fee_account) (\<lambda>postings.
     ledger_transaction_of sha (ri_roundtrip_id i) boundary ''SNIPING_BUY_FILLED'' postings)"

definition failed_sell_settlement ::
  "(bytes \<Rightarrow> string) \<Rightarrow> roundtrip_intent \<Rightarrow> int \<Rightarrow> int \<Rightarrow> network_cost_quote \<Rightarrow> account_id \<Rightarrow> string
    \<Rightarrow> ledger_transaction res" where
  "failed_sell_settlement sha i boundary tokens network fee_account reason =
     bindE (failed_postings network fee_account (sell_reservation i tokens network)) (\<lambda>postings.
     ledger_transaction_of sha (ri_roundtrip_id i) boundary (''SNIPING_SELL_FAILED_'' @ reason) postings)"

definition refund_postings :: "account_component list \<Rightarrow> posting list res" where
  "refund_postings records =
     bindE (mapE (\<lambda>r. bindE (locked_deposit_account_id r) (\<lambda>account.
         bindE (available_account_id (ac_asset_id r)) (\<lambda>av.
         Inr (posting_of account PORTFOLIO_LOCKED (ac_asset_id r) (- ac_refunded r)
           @ posting_of av PORTFOLIO_AVAILABLE (ac_asset_id r) (ac_refunded r))))) records)
       (\<lambda>pss. Inr (concat pss))"

definition synthetic_postings :: "roundtrip_intent \<Rightarrow> liquidity_evidence \<Rightarrow> posting list res" where
  "synthetic_postings i e =
     (if lv_synthetic_shortfall e = 0 then Inr []
      else (case lv_synthetic_source e of
          None \<Rightarrow> Inl (SnipingEngineError QUOTE_CONTRACT_MISMATCH)
        | Some source \<Rightarrow> Inr (posting_of source EXTERNAL (ri_quote_asset_id i) (- lv_synthetic_shortfall e))))"

definition sell_consumed :: "roundtrip_intent \<Rightarrow> int \<Rightarrow> network_cost_quote \<Rightarrow> asset_amounts" where
  "sell_consumed i tokens network = canonical_asset_amounts
     [(ri_asset_id i, tokens), (nq_fee_asset_id network, transaction_fee_atomic network)]"

definition successful_sell_postings ::
  "roundtrip_intent \<Rightarrow> protocol_quote \<Rightarrow> network_cost_quote \<Rightarrow> int \<Rightarrow> account_component list \<Rightarrow> account_id
    \<Rightarrow> posting list res" where
  "successful_sell_postings i q network tokens records fee_account =
     bindE (Identifier (''venue:'' @ ri_venue_id i)) (\<lambda>venue.
     case pq_liquidity q of
       None \<Rightarrow> Inl (SnipingEngineError QUOTE_CONTRACT_MISMATCH)
     | Some e \<Rightarrow>
         let venue_funded = lv_required_output e - lv_synthetic_shortfall e; quote_asset = ri_quote_asset_id i in
         bindE (settle_reserved_amounts (sell_reservation i tokens network) (sell_consumed i tokens network)) (\<lambda>settled.
         bindE (synthetic_postings i e) (\<lambda>synthetic.
         bindE (available_account_id quote_asset) (\<lambda>av.
         bindE (refund_postings records) (\<lambda>refunds.
         bindE (cashback_postings i q) (\<lambda>cashback.
         Inr (settled @ posting_of venue VENUE (ri_asset_id i) tokens
           @ posting_of fee_account NETWORK_FEE (nq_fee_asset_id network) (transaction_fee_atomic network)
           @ posting_of venue VENUE quote_asset (- venue_funded) @ synthetic
           @ posting_of av PORTFOLIO_AVAILABLE quote_asset (pq_amount_out q)
           @ posting_of (pq_protocol_fee_account q) PROTOCOL_FEE quote_asset (pq_protocol_fee q)
           @ posting_of (pq_creator_fee_account q) CREATOR_FEE quote_asset (pq_creator_fee q)
           @ refunds @ cashback)))))))"

definition successful_sell_settlement ::
  "(bytes \<Rightarrow> string) \<Rightarrow> roundtrip_intent \<Rightarrow> int \<Rightarrow> protocol_quote \<Rightarrow> network_cost_quote \<Rightarrow> int
    \<Rightarrow> provisioning_transition \<Rightarrow> account_id \<Rightarrow> ledger_transaction res" where
  "successful_sell_settlement sha i boundary q network tokens transition fee_account =
     bindE (successful_sell_postings i q network tokens (pt_records transition) fee_account) (\<lambda>postings.
     ledger_transaction_of sha (ri_roundtrip_id i) boundary ''SNIPING_SELL_FILLED_ACCOUNT_CLOSED'' postings)"

definition sniping_fill ::
  "(bytes \<Rightarrow> string) \<Rightarrow> roundtrip_intent \<Rightarrow> protocol_quote_side \<Rightarrow> protocol_quote \<Rightarrow> int \<Rightarrow> fill res" where
  "sniping_fill sha i side q boundary =
     bindE (domain_digest sha ''backtest.sniping-order.v1'' (JObj
         [(''roundtrip_id'', JStr (digest_hex (ri_roundtrip_id i))), (''side'', JStr (quote_side_value side))])) (\<lambda>d.
     bindE (ContentDigest (digest_hex d)) (\<lambda>order.
     bindE (Identifier (ri_venue_id i)) (\<lambda>pool.
     Fill \<lparr>fl_order_id = order, fl_pool_id = pool, fl_sold_asset_id = pq_input_asset_id q,
       fl_bought_asset_id = pq_output_asset_id q, fl_amount_in_atomic = pq_amount_in q,
       fl_amount_out_atomic = pq_amount_out q, fl_fee_amount_atomic = pq_protocol_fee q + pq_creator_fee q,
       fl_boundary_ordinal = boundary\<rparr>)))"

section \<open>Amounts and sums\<close>

definition amounts_at :: "(asset_id \<times> int) list \<Rightarrow> asset_id \<Rightarrow> int" where
  "amounts_at rows a = sum_list (map snd (filter (\<lambda>r. fst r = a) rows))"

lemma amounts_at_simps [simp]:
  "amounts_at [] a = 0"
  "amounts_at (r # rows) a = (if fst r = a then snd r else 0) + amounts_at rows a"
  "amounts_at (rows @ rows') a = amounts_at rows a + amounts_at rows' a"
  by (simp_all add: amounts_at_def)

lemma amounts_at_nonzero: "amounts_at (filter (\<lambda>(_, amount). amount \<noteq> 0) rows) a = amounts_at rows a"
  by (induction rows) auto

lemma posting_sum_append [simp]: "posting_sum (ps @ qs) a = posting_sum ps a + posting_sum qs a"
  by (simp add: posting_sum_def)

lemma posting_sum_of [simp]: "posting_sum (posting_of account kind asset amount) a = (if asset = a then amount else 0)"
  by (simp add: posting_of_def)

lemma asset_totals_at: "dict_get_default (asset_totals rows) a 0 = amounts_at rows a"
proof -
  have "dict_get_default (foldl (\<lambda>totals (asset, amount).
      dict_set asset (dict_get_default totals asset 0 + amount) totals) d rows) a 0
      = dict_get_default d a 0 + amounts_at rows a" for d
    by (induction rows arbitrary: d) (auto simp: dict_get_default_set)
  from this[of "[]"] show ?thesis by (simp add: asset_totals_def)
qed

lemma asset_totals_keys: "set (dict_keys (asset_totals rows)) = fst ` set rows \<and> distinct (dict_keys (asset_totals rows))"
proof -
  define step where "step = (\<lambda>(totals :: (asset_id, int) dict) (asset, amount).
      dict_set asset (dict_get_default totals asset 0 + amount) totals)"
  have keys: "set (dict_keys (step d r)) = insert (fst r) (set (dict_keys d))"
    and dist: "distinct (dict_keys d) \<Longrightarrow> distinct (dict_keys (step d r))" for d r
    unfolding step_def by (cases r; simp only: prod.case fst_conv dict_keys_set distinct_update)+
  have "set (dict_keys (foldl step d rows)) = set (dict_keys d) \<union> fst ` set rows
    \<and> (distinct (dict_keys d) \<longrightarrow> distinct (dict_keys (foldl step d rows)))" for d
  proof (induction rows arbitrary: d)
    case (Cons r rows)
    show ?case using Cons.IH[of "step d r"] keys[of d r] dist[of d r]
      by (simp only: foldl_Cons list.set image_insert Un_insert_left Un_insert_right simp_thms) blast
  qed simp
  from this[of "[]"] show ?thesis by (simp add: asset_totals_def step_def)
qed

lemma map_of_sorted: "distinct (map fst d) \<Longrightarrow> map_of (sort_key fst d) = map_of d"
  by (rule map_of_inject_set[THEN iffD2]) (auto simp: distinct_map)

lemma canonical_amounts:
  "distinct (dict_keys (canonical_asset_amounts rows))"
  "set (dict_keys (canonical_asset_amounts rows)) = fst ` set (filter (\<lambda>(_, amount). amount \<noteq> 0) rows)"
  "dict_get_default (canonical_asset_amounts rows) a 0 = amounts_at rows a"
proof -
  let ?d = "asset_totals (filter (\<lambda>(_, amount). amount \<noteq> 0) rows)"
  note keys = asset_totals_keys[of "filter (\<lambda>(_, amount). amount \<noteq> 0) rows"]
  have m: "mset (map fst (sort_key fst ?d)) = mset (map fst ?d)" by simp
  show "distinct (dict_keys (canonical_asset_amounts rows))"
    using mset_eq_imp_distinct_iff[OF m] keys by (simp add: canonical_asset_amounts_def)
  show "set (dict_keys (canonical_asset_amounts rows)) = fst ` set (filter (\<lambda>(_, amount). amount \<noteq> 0) rows)"
    using keys by (simp add: canonical_asset_amounts_def)
  show "dict_get_default (canonical_asset_amounts rows) a 0 = amounts_at rows a"
    using asset_totals_at[of "filter (\<lambda>(_, amount). amount \<noteq> 0) rows" a] map_of_sorted[of ?d] keys
    by (simp add: canonical_asset_amounts_def dict_get_default_def amounts_at_nonzero)
qed

lemma amounts_at_dict: "distinct (map fst d) \<Longrightarrow> amounts_at d a = dict_get_default d a 0"
proof (induction d)
  case (Cons r d)
  show ?case
  proof (cases "fst r = a")
    case True
    then have "map_of d a = None" using Cons.prems by (simp add: map_of_eq_None_iff)
    then show ?thesis using Cons True by (cases r) (simp add: dict_get_default_def)
  qed (use Cons in \<open>cases r; simp add: dict_get_default_def\<close>)
qed (simp add: dict_get_default_def)

text \<open>Reserving moves an amount between two portfolio accounts; settling takes out what was consumed.\<close>

lemma reserve_amounts_sum: "reserve_amounts amounts = Inr ps \<Longrightarrow> posting_sum ps a = 0"
  unfolding reserve_amounts_def
  by (induction amounts arbitrary: ps) (fastforce simp: Let_def)+

lemma settle_fold_sum:
  assumes "mapE (\<lambda>(asset, reserved_amount).
      let consumed_amount = dict_get_default consumed asset 0 in
      if reserved_amount < consumed_amount then Inl (SnipingEngineError PORTFOLIO_INVARIANT)
      else bindE (reserved_account_id asset) (\<lambda>rs.
        bindE (available_account_id asset) (\<lambda>av.
        Inr (posting_of rs PORTFOLIO_RESERVED asset (- reserved_amount)
          @ posting_of av PORTFOLIO_AVAILABLE asset (reserved_amount - consumed_amount))))) held = Inr pss"
    and "distinct (map fst held)"
  shows "posting_sum (concat pss) a = (if a \<in> set (map fst held) then - dict_get_default consumed a 0 else 0)"
  using assms
proof (induction held arbitrary: pss)
  case (Cons h held)
  obtain asset amount where h: "h = (asset, amount)" by (cases h)
  from Cons.prems(1) obtain ps pss' where pss: "pss = ps # pss'"
    and ps: "posting_sum ps a = (if asset = a then - dict_get_default consumed a 0 else 0)"
    and tail: "mapE (\<lambda>(asset, reserved_amount).
      let consumed_amount = dict_get_default consumed asset 0 in
      if reserved_amount < consumed_amount then Inl (SnipingEngineError PORTFOLIO_INVARIANT)
      else bindE (reserved_account_id asset) (\<lambda>rs.
        bindE (available_account_id asset) (\<lambda>av.
        Inr (posting_of rs PORTFOLIO_RESERVED asset (- reserved_amount)
          @ posting_of av PORTFOLIO_AVAILABLE asset (reserved_amount - consumed_amount))))) held = Inr pss'"
    by (auto simp: h Let_def split: if_splits)
  show ?case using Cons.IH[OF tail] Cons.prems(2) ps by (auto simp: pss h)
qed simp

lemma settle_sum:
  assumes "settle_reserved_amounts held consumed = Inr ps" and "distinct (map fst held)"
  shows "posting_sum ps a = - dict_get_default consumed a 0"
proof -
  have keys: "set (dict_keys consumed) \<subseteq> set (map fst held)"
    using assms(1) by (auto simp: settle_reserved_amounts_def list_ex_iff split: if_splits)
  then have out: "a \<notin> set (map fst held) \<Longrightarrow> dict_get_default consumed a 0 = 0"
    by (auto simp: dict_get_default_def split: option.splits dest!: map_of_SomeD) force
  show ?thesis
    using assms(1) settle_fold_sum[OF _ assms(2)] out
    by (auto simp: settle_reserved_amounts_def split: if_splits)
qed

section \<open>Every settlement nets to zero\<close>

lemma failed_postings_sum:
  assumes "failed_postings network fee_account held = Inr ps" and "distinct (map fst held)"
  shows "posting_sum ps a = 0"
proof -
  obtain settled where "settle_reserved_amounts held
      (canonical_asset_amounts [(nq_fee_asset_id network, transaction_fee_atomic network)]) = Inr settled"
    and "ps = settled @ posting_of fee_account NETWORK_FEE (nq_fee_asset_id network) (transaction_fee_atomic network)"
    using assms(1) by (auto simp: failed_postings_def)
  then show ?thesis using settle_sum[OF _ assms(2), of _ settled a] canonical_amounts(3) by simp
qed

lemma locked_postings_sum:
  "locked_postings rs = Inr ps \<Longrightarrow> posting_sum ps a = amounts_at (map (\<lambda>r. (ac_asset_id r, ac_paid r)) rs) a"
  unfolding locked_postings_def by (induction rs arbitrary: ps) fastforce+

lemma paid_filter:
  "amounts_at (map (\<lambda>r. (ac_asset_id r, ac_paid r)) (filter (\<lambda>r. ac_paid r \<noteq> 0) rs)) a
    = amounts_at (map (\<lambda>r. (ac_asset_id r, ac_paid r)) rs) a"
  by (induction rs) auto

lemma refund_postings_sum: "refund_postings rs = Inr ps \<Longrightarrow> posting_sum ps a = 0"
  unfolding refund_postings_def by (induction rs arbitrary: ps) fastforce+

lemma cashback_postings_sum: "cashback_postings i q = Inr ps \<Longrightarrow> posting_sum ps a = 0"
  by (auto simp: cashback_postings_def)

lemma synthetic_postings_sum:
  "synthetic_postings i e = Inr ps \<Longrightarrow> posting_sum ps a = (if ri_quote_asset_id i = a then - lv_synthetic_shortfall e else 0)"
  by (auto simp: synthetic_postings_def split: if_splits option.splits)

lemma buy_postings_sum:
  assumes run: "successful_buy_postings i q network plan rs fee_account = Inr ps"
    and q: "pq_amount_in q = pq_venue_input q + pq_protocol_fee q + pq_creator_fee q"
  shows "posting_sum ps a = 0"
proof -
  obtain settled venue locked av cashback where
      s: "settle_reserved_amounts (buy_reservation i network plan) (buy_consumed i q network rs) = Inr settled"
    and l: "locked_postings rs = Inr locked" and c: "cashback_postings i q = Inr cashback"
    and ps: "ps = settled @ posting_of venue VENUE (ri_quote_asset_id i) (pq_venue_input q)
       @ posting_of (pq_protocol_fee_account q) PROTOCOL_FEE (ri_quote_asset_id i) (pq_protocol_fee q)
       @ posting_of (pq_creator_fee_account q) CREATOR_FEE (ri_quote_asset_id i) (pq_creator_fee q)
       @ posting_of fee_account NETWORK_FEE (nq_fee_asset_id network) (transaction_fee_atomic network)
       @ locked @ posting_of venue VENUE (ri_asset_id i) (- pq_amount_out q)
       @ posting_of av PORTFOLIO_AVAILABLE (ri_asset_id i) (pq_amount_out q) @ cashback"
    using run by (auto simp: successful_buy_postings_def Let_def)
  have "posting_sum settled a = - dict_get_default (buy_consumed i q network rs) a 0"
    by (rule settle_sum[OF s]) (simp add: buy_reservation_def canonical_amounts(1)[simplified])
  then show ?thesis
    using locked_postings_sum[OF l, of a] cashback_postings_sum[OF c, of a]
    by (simp add: ps buy_consumed_def canonical_amounts(3) paid_filter q)
qed

lemma sell_postings_sum:
  assumes run: "successful_sell_postings i q network tokens rs fee_account = Inr ps"
    and q: "pq_liquidity q = Some e" "lv_required_output e = pq_amount_out q + pq_protocol_fee q + pq_creator_fee q"
  shows "posting_sum ps a = 0"
proof -
  obtain settled venue synthetic refunds av cashback where
      s: "settle_reserved_amounts (sell_reservation i tokens network) (sell_consumed i tokens network) = Inr settled"
    and y: "synthetic_postings i e = Inr synthetic" and r: "refund_postings rs = Inr refunds"
    and c: "cashback_postings i q = Inr cashback"
    and ps: "ps = settled @ posting_of venue VENUE (ri_asset_id i) tokens
       @ posting_of fee_account NETWORK_FEE (nq_fee_asset_id network) (transaction_fee_atomic network)
       @ posting_of venue VENUE (ri_quote_asset_id i) (- (lv_required_output e - lv_synthetic_shortfall e)) @ synthetic
       @ posting_of av PORTFOLIO_AVAILABLE (ri_quote_asset_id i) (pq_amount_out q)
       @ posting_of (pq_protocol_fee_account q) PROTOCOL_FEE (ri_quote_asset_id i) (pq_protocol_fee q)
       @ posting_of (pq_creator_fee_account q) CREATOR_FEE (ri_quote_asset_id i) (pq_creator_fee q)
       @ refunds @ cashback"
    using run q(1) by (auto simp: successful_sell_postings_def Let_def)
  have "posting_sum settled a = - dict_get_default (sell_consumed i tokens network) a 0"
    by (rule settle_sum[OF s]) (simp add: sell_reservation_def canonical_amounts(1)[simplified])
  then show ?thesis
    using synthetic_postings_sum[OF y, of a] refund_postings_sum[OF r, of a] cashback_postings_sum[OF c, of a]
    by (simp add: ps sell_consumed_def canonical_amounts(3) q(2))
qed

section \<open>A settlement stays within its reservation\<close>

lemma settle_within:
  assumes "set (dict_keys consumed) \<subseteq> set (map fst held)"
    and "\<And>asset amount. (asset, amount) \<in> set held \<Longrightarrow> dict_get_default consumed asset 0 \<le> amount"
  shows "settle_reserved_amounts held consumed \<noteq> Inl (SnipingEngineError PORTFOLIO_INVARIANT)"
proof -
  have id: "Identifier v \<noteq> Inl (SnipingEngineError c)" for v c by (simp add: Identifier_def)
  define step where "step = (\<lambda>(asset, reserved_amount).
      let consumed_amount = dict_get_default consumed asset 0 in
      if reserved_amount < consumed_amount then Inl (SnipingEngineError PORTFOLIO_INVARIANT)
      else bindE (reserved_account_id asset) (\<lambda>rs.
        bindE (available_account_id asset) (\<lambda>av.
        Inr (posting_of rs PORTFOLIO_RESERVED asset (- reserved_amount)
          @ posting_of av PORTFOLIO_AVAILABLE asset (reserved_amount - consumed_amount)))))"
  have one: "step h \<noteq> Inl (SnipingEngineError PORTFOLIO_INVARIANT)" if "h \<in> set held" for h
    using assms(2)[of "fst h" "snd h"] that id
    by (cases h) (auto simp: step_def Let_def bindE_eq_Inl reserved_account_id_def available_account_id_def)
  have "mapE step hs \<noteq> Inl (SnipingEngineError PORTFOLIO_INVARIANT)" if "set hs \<subseteq> set held" for hs
    using that by (induction hs) (auto simp: bindE_eq_Inl dest: one)
  from this[of held] have "mapE step held \<noteq> Inl (SnipingEngineError PORTFOLIO_INVARIANT)" by simp
  moreover have "\<not> list_ex (\<lambda>asset. asset \<notin> set (map fst held)) (dict_keys consumed)"
    using assms(1) by (auto simp: list_ex_iff)
  ultimately show ?thesis
    unfolding settle_reserved_amounts_def step_def[symmetric] by (simp add: bindE_eq_Inl)
qed

lemma canonical_at: "amounts_at (canonical_asset_amounts rows) a = amounts_at rows a"
  using amounts_at_dict[OF canonical_amounts(1)] canonical_amounts(3) by simp

lemma amounts_at_nonneg: "list_all (\<lambda>r. 0 \<le> snd r) rows \<Longrightarrow> 0 \<le> amounts_at rows a"
  by (induction rows) auto

lemma amounts_at_pos: "list_all (\<lambda>r. 0 \<le> snd r) rows \<Longrightarrow> (a, v) \<in> set rows \<Longrightarrow> v \<noteq> 0 \<Longrightarrow> 0 < amounts_at rows a"
proof (induction rows)
  case (Cons r rows)
  then show ?case using amounts_at_nonneg[of rows a] by (cases "r = (a, v)") auto
qed simp

lemma settle_canonical_within:
  assumes "list_all (\<lambda>r. 0 \<le> snd r) consumed" and "\<And>a. amounts_at consumed a \<le> amounts_at held a"
  shows "settle_reserved_amounts (canonical_asset_amounts held) (canonical_asset_amounts consumed)
    \<noteq> Inl (SnipingEngineError PORTFOLIO_INVARIANT)"
proof (rule settle_within)
  show "set (dict_keys (canonical_asset_amounts consumed)) \<subseteq> set (map fst (canonical_asset_amounts held))"
  proof
    fix a assume "a \<in> set (dict_keys (canonical_asset_amounts consumed))"
    then obtain v where "(a, v) \<in> set consumed" "v \<noteq> 0" unfolding canonical_amounts(2) by auto
    then have "0 < amounts_at held a"
      using amounts_at_pos[OF assms(1)] assms(2)[of a] by fastforce
    then have "dict_get_default (canonical_asset_amounts held) a 0 \<noteq> 0" by (simp add: canonical_amounts(3))
    then show "a \<in> set (map fst (canonical_asset_amounts held))"
      by (auto simp: dict_get_default_def split: option.splits dest!: map_of_SomeD) force
  qed
  fix asset amount assume "(asset, amount) \<in> set (canonical_asset_amounts held)"
  then have "dict_get_default (canonical_asset_amounts held) asset 0 = amount"
    using map_of_is_SomeI[OF canonical_amounts(1)] by (simp add: dict_get_default_def)
  then show "dict_get_default (canonical_asset_amounts consumed) asset 0 \<le> amount"
    using assms(2)[of asset] by (simp add: canonical_amounts(3))
qed

lemma reserved_asset_amounts_canonical:
  "reserved_asset_amounts p = canonical_asset_amounts
     (map (\<lambda>c. (pr_asset_id (rc_priced c), rc_maximum_reserved c)) (rp_components p))"
  by (simp add: reserved_asset_amounts_def canonical_asset_amounts_def filter_map comp_def)

text \<open>The records of a landed buy pay at most what their components reserved.\<close>

definition records_within :: "reservation_plan \<Rightarrow> account_component list \<Rightarrow> bool" where
  "records_within plan rs \<longleftrightarrow> list_all2 (\<lambda>c r. ac_asset_id r = pr_asset_id (rc_priced c)
     \<and> 0 \<le> ac_paid r \<and> ac_paid r \<le> rc_maximum_reserved c) (rp_components plan) rs"

lemma component_record_bounds:
  "AccountComponentRecord c = Inr r \<Longrightarrow> r = c \<and> 0 \<le> ac_paid c \<and> 0 \<le> ac_released c
    \<and> ac_paid c + ac_released c \<le> ac_maximum_reserved c \<and> 0 \<le> ac_refunded c \<and> ac_refunded c \<le> ac_paid c"
  by (simp add: AccountComponentRecord_def require_account_u64_def split: if_splits)

lemma component_record_fields:
  assumes "component_record c roundtrip l paid released = Inr r"
  shows "ac_asset_id r = pr_asset_id (rc_priced c) \<and> ac_paid r = paid \<and> ac_released r = released
    \<and> 0 \<le> paid \<and> 0 \<le> released \<and> paid + released \<le> rc_maximum_reserved c \<and> ac_refunded r = 0
    \<and> ac_scope r = rc_scope c \<and> ac_lifecycle r = l"
  using component_record_bounds[OF assms[unfolded component_record_def Let_def]] by simp

lemma buy_step_within:
  assumes "buy_step plan (s, rs) c = Inr (s', rs')"
  shows "\<exists>r. rs' = rs @ [r] \<and> ac_asset_id r = pr_asset_id (rc_priced c) \<and> 0 \<le> ac_paid r
    \<and> ac_paid r \<le> rc_maximum_reserved c"
  using assms component_record_fields
  by (fastforce simp: buy_step_def Let_def split: if_splits option.splits)

lemma buy_fold_within:
  assumes "foldE (buy_step plan) (s, rs0) cs = Inr (s', rs')"
  shows "\<exists>rs. rs' = rs0 @ rs \<and> list_all2 (\<lambda>c r. ac_asset_id r = pr_asset_id (rc_priced c)
     \<and> 0 \<le> ac_paid r \<and> ac_paid r \<le> rc_maximum_reserved c) cs rs"
  using assms
proof (induction cs arbitrary: s rs0)
  case (Cons c cs)
  then obtain t r where "foldE (buy_step plan) (t, rs0 @ [r]) cs = Inr (s', rs')"
    and "ac_asset_id r = pr_asset_id (rc_priced c)" "0 \<le> ac_paid r" "ac_paid r \<le> rc_maximum_reserved c"
    using buy_step_within[of plan s rs0 c] by fastforce
  with Cons.IH[of t "rs0 @ [r]"] show ?case by auto
qed simp

lemma landed_records_within:
  "apply_buy_account_transition s plan True = Inr t \<Longrightarrow> records_within plan (pt_records t)"
  using buy_fold_within[of plan s "[]"]
  by (auto simp: apply_buy_account_transition_def records_within_def split: if_splits)

lemma records_within_at:
  assumes "records_within plan rs"
  shows "amounts_at (map (\<lambda>r. (ac_asset_id r, ac_paid r)) rs) a
    \<le> amounts_at (map (\<lambda>c. (pr_asset_id (rc_priced c), rc_maximum_reserved c)) (rp_components plan)) a"
proof -
  have "list_all2 (\<lambda>c r. ac_asset_id r = pr_asset_id (rc_priced c)
     \<and> 0 \<le> ac_paid r \<and> ac_paid r \<le> rc_maximum_reserved c) cs rs \<Longrightarrow>
    amounts_at (map (\<lambda>r. (ac_asset_id r, ac_paid r)) rs) a
      \<le> amounts_at (map (\<lambda>c. (pr_asset_id (rc_priced c), rc_maximum_reserved c)) cs) a" for cs rs
    by (induction cs rs rule: list_all2_induct) auto
  then show ?thesis using assms by (simp add: records_within_def)
qed

lemma buy_settles_within:
  assumes "pq_amount_in q \<le> ri_gross_buy_budget_atomic i" and "0 \<le> pq_amount_in q"
    and "0 \<le> transaction_fee_atomic network" and "records_within plan rs"
  shows "settle_reserved_amounts (buy_reservation i network plan) (buy_consumed i q network rs)
    \<noteq> Inl (SnipingEngineError PORTFOLIO_INVARIANT)"
  unfolding buy_reservation_def buy_consumed_def
proof (rule settle_canonical_within)
  have "list_all (\<lambda>r. 0 \<le> ac_paid r) rs"
    using assms(4) unfolding records_within_def by (auto simp: list_all2_conv_all_nth list_all_length)
  then show "list_all (\<lambda>r. 0 \<le> snd r) ([(ri_quote_asset_id i, pq_amount_in q),
      (nq_fee_asset_id network, transaction_fee_atomic network)]
      @ map (\<lambda>r. (ac_asset_id r, ac_paid r)) (filter (\<lambda>r. ac_paid r \<noteq> 0) rs))"
    using assms by (auto simp: list_all_iff)
qed (use records_within_at[OF assms(4)] assms(1) in
    \<open>auto simp: reserved_asset_amounts_canonical canonical_at paid_filter intro: add_mono\<close>)

lemma fee_settles_within:
  assumes "0 \<le> transaction_fee_atomic network" and "\<And>a. 0 \<le> amounts_at rows a"
  shows "settle_reserved_amounts
      (canonical_asset_amounts (rows @ [(nq_fee_asset_id network, transaction_fee_atomic network)]))
      (canonical_asset_amounts [(nq_fee_asset_id network, transaction_fee_atomic network)])
    \<noteq> Inl (SnipingEngineError PORTFOLIO_INVARIANT)"
  by (rule settle_canonical_within) (use assms in auto)

end
