(* ===== verification/Copy_Domain.thy ===== *)
theory Copy_Domain
  imports Complex_Main Sniping_Settlement
begin

text \<open>
  The integer prices and immutable policies of copy trading (\<^verbatim>\<open>domain/copytrading.py\<close>): the wallet check,
  reduced prices and their exact comparison, the policy with its exit rule and identity, the observed signal
  and the position intent. All arithmetic is on integers; a boolean or a fraction cannot be expressed here,
  which is what the source's type tests ask.
\<close>

section \<open>Constants and checks\<close>

definition COPY_BUY_POLICY_SCHEMA :: string where "COPY_BUY_POLICY_SCHEMA = ''pumpfun-copy-buy-policy/v1''"

definition COPY_BUY_PRICE_POLICY :: string where
  "COPY_BUY_PRICE_POLICY = ''fill-curve-input-to-observed-marginal-price/v1''"

definition MAXIMUM_SELL_ATTEMPTS :: int where "MAXIMUM_SELL_ATTEMPTS = 4"
definition SELL_RETRY_DELAY_NS :: int where "SELL_RETRY_DELAY_NS = 2000000000"
definition COPY_NANOSECONDS_PER_SECOND :: int where "COPY_NANOSECONDS_PER_SECOND = 1000000000"

datatype copy_exit_reason = STOP_LOSS | TAKE_PROFIT | MAXIMUM_HOLD

fun copy_exit_reason_value :: "copy_exit_reason \<Rightarrow> string" where
  "copy_exit_reason_value STOP_LOSS = ''STOP_LOSS''"
| "copy_exit_reason_value TAKE_PROFIT = ''TAKE_PROFIT''"
| "copy_exit_reason_value MAXIMUM_HOLD = ''MAXIMUM_HOLD''"

definition require_integer :: "int \<Rightarrow> string \<Rightarrow> int \<Rightarrow> unit res" where
  "require_integer v name minimum =
     raise_if (v < minimum) (ValueError (name @ '' must be an integer >= '' @ int_repr minimum))"

definition require_solana_wallet :: "account_id \<Rightarrow> unit res" where
  "require_solana_wallet v =
     (if \<not> (32 \<le> length v \<and> length v \<le> 44) \<or> list_ex (\<lambda>c. c \<notin> set base58_alphabet) v then
        Inl (ValueError ''copy signing wallet must be a Solana public key'')
      else
        (let leading = length v - length (dropWhile (\<lambda>c. c = CHR ''1'') v) in
         raise_if (leading + (bit_length (base58_decode v) + 7) div 8 \<noteq> 32)
           (ValueError ''copy signing wallet must decode to exactly 32 bytes'')))"

section \<open>Prices\<close>

record token_price =
  tp_quote_atomic :: int
  tp_token_atomic :: int

definition TokenPrice :: "int \<Rightarrow> int \<Rightarrow> token_price res" where
  "TokenPrice quote_atomic token_atomic =
     bindE (require_integer quote_atomic ''quote_atomic'' 1) (\<lambda>_.
     bindE (require_integer token_atomic ''token_atomic'' 1) (\<lambda>_.
     let divisor = gcd quote_atomic token_atomic in
     Inr \<lparr>tp_quote_atomic = quote_atomic div divisor, tp_token_atomic = token_atomic div divisor\<rparr>))"

definition scaled_comparison :: "token_price \<Rightarrow> token_price \<Rightarrow> int \<Rightarrow> int res" where
  "scaled_comparison current entry multiplier_bps =
     bindE (require_integer multiplier_bps ''multiplier_bps'' 0) (\<lambda>_.
     let current_scaled = tp_quote_atomic current * tp_token_atomic entry * 10000;
         entry_scaled = tp_quote_atomic entry * tp_token_atomic current * multiplier_bps in
     Inr (current_scaled - entry_scaled))"

definition token_price_document :: "token_price \<Rightarrow> json" where
  "token_price_document p =
     JObj [(''quote_atomic'', JInt (tp_quote_atomic p)), (''token_atomic'', JInt (tp_token_atomic p))]"

section \<open>Policy\<close>

record copy_policy =
  cb_gross_buy_budget_atomic :: int
  cb_take_profit_bps :: int
  cb_stop_loss_bps :: int
  cb_maximum_hold_seconds :: int
  cb_observation_delay_transactions :: int
  cb_buy_delay_transactions :: int
  cb_sell_delay_transactions :: int
  cb_buy_slippage_bps :: int
  cb_sell_slippage_bps :: int

definition require_slippage :: "int \<Rightarrow> string \<Rightarrow> unit res" where
  "require_slippage v name =
     bindE (require_integer v name 0) (\<lambda>_. raise_if (10000 < v) (ValueError (name @ '' must be <= 10000'')))"

definition CopyBuyPolicy :: "copy_policy \<Rightarrow> copy_policy res" where
  "CopyBuyPolicy p =
     bindE (require_integer (cb_gross_buy_budget_atomic p) ''gross_buy_budget_atomic'' 1) (\<lambda>_.
     bindE (require_integer (cb_take_profit_bps p) ''take_profit_bps'' 1) (\<lambda>_.
     bindE (require_integer (cb_stop_loss_bps p) ''stop_loss_bps'' 1) (\<lambda>_.
     bindE (require_integer (cb_maximum_hold_seconds p) ''maximum_hold_seconds'' 1) (\<lambda>_.
     bindE (require_integer (cb_buy_delay_transactions p) ''buy_delay_transactions'' 1) (\<lambda>_.
     bindE (require_integer (cb_sell_delay_transactions p) ''sell_delay_transactions'' 1) (\<lambda>_.
     bindE (require_integer (cb_observation_delay_transactions p) ''observation_delay_transactions'' 0) (\<lambda>_.
     if 10000 < cb_stop_loss_bps p then Inl (ValueError ''stop_loss_bps must be <= 10000'')
     else
       bindE (require_slippage (cb_buy_slippage_bps p) ''buy_slippage_bps'') (\<lambda>_.
       bindE (require_slippage (cb_sell_slippage_bps p) ''sell_slippage_bps'') (\<lambda>_. Inr p)))))))))"

definition maximum_hold_ns :: "copy_policy \<Rightarrow> int" where
  "maximum_hold_ns p = cb_maximum_hold_seconds p * COPY_NANOSECONDS_PER_SECOND"

definition price_exit :: "copy_policy \<Rightarrow> token_price \<Rightarrow> token_price \<Rightarrow> copy_exit_reason option res" where
  "price_exit p entry current =
     bindE (scaled_comparison current entry (10000 - cb_stop_loss_bps p)) (\<lambda>low.
     if low \<le> 0 then Inr (Some STOP_LOSS)
     else bindE (scaled_comparison current entry (10000 + cb_take_profit_bps p)) (\<lambda>high.
       if 0 \<le> high then Inr (Some TAKE_PROFIT) else Inr None))"

definition copy_policy_document :: "copy_policy \<Rightarrow> json" where
  "copy_policy_document p = JObj
     [(''schema'', JStr COPY_BUY_POLICY_SCHEMA),
      (''price_policy'', JStr COPY_BUY_PRICE_POLICY),
      (''gross_buy_budget_atomic'', JInt (cb_gross_buy_budget_atomic p)),
      (''take_profit_bps'', JInt (cb_take_profit_bps p)),
      (''stop_loss_bps'', JInt (cb_stop_loss_bps p)),
      (''maximum_hold_seconds'', JInt (cb_maximum_hold_seconds p)),
      (''maximum_sell_attempts'', JInt MAXIMUM_SELL_ATTEMPTS),
      (''sell_retry_delay_ns'', JInt SELL_RETRY_DELAY_NS),
      (''consume_mint_on_signal'', JBool True),
      (''sell_all'', JBool True),
      (''observation_delay_transactions'', JInt (cb_observation_delay_transactions p)),
      (''buy_delay_transactions'', JInt (cb_buy_delay_transactions p)),
      (''sell_delay_transactions'', JInt (cb_sell_delay_transactions p)),
      (''buy_slippage_bps'', JInt (cb_buy_slippage_bps p)),
      (''sell_slippage_bps'', JInt (cb_sell_slippage_bps p))]"

definition copy_policy_identity :: "(bytes \<Rightarrow> string) \<Rightarrow> copy_policy \<Rightarrow> digest res" where
  "copy_policy_identity sha p = domain_digest sha ''backtest.copy-buy-policy.v1'' (copy_policy_document p)"

section \<open>Signals and intents\<close>

record copy_signal =
  cs_event_id :: digest
  cs_position :: chain_position
  cs_signing_wallet :: account_id
  cs_asset_id :: asset_id
  cs_venue_id :: venue_id
  cs_quote_asset_id :: asset_id

definition CopyBuySignal :: "copy_signal \<Rightarrow> copy_signal res" where
  "CopyBuySignal s =
     (if cp_event_index (cs_position s) = None then
        Inl (ValueError ''copy signal requires an exact event position'')
      else if cs_asset_id s = cs_quote_asset_id s then
        Inl (ValueError ''copy signal must exchange different assets'')
      else Inr s)"

record copy_intent =
  ci_roundtrip_id :: digest
  ci_signal :: copy_signal
  ci_decision_position :: chain_position
  ci_policy :: copy_policy
  ci_execution_mode :: execution_mode

definition CopyBuyIntent :: "copy_intent \<Rightarrow> copy_intent res" where
  "CopyBuyIntent i =
     (let source = cs_position (ci_signal i); decision = ci_decision_position i in
      if chain_identity source \<noteq> chain_identity decision then
        Inl (ValueError ''copy decision has a different chain identity'')
      else if ordinal_of decision < ordinal_of source then
        Inl (ValueError ''copy decision precedes its source purchase'')
      else if ci_execution_mode i \<noteq> EXOGENOUS_REPLAY \<and> ci_execution_mode i \<noteq> EXOGENOUS_VIRTUAL_SETTLEMENT then
        Inl (ValueError ''unsupported copy-buy execution mode'')
      else Inr i)"

text \<open>
  The shared settlement functions of the sniping engine accept either kind of intent and read the same
  attributes of both. This is the copy intent as those functions see it; the fields they do not read of a copy
  intent hold the policy's values.
\<close>

definition shared_intent :: "copy_intent \<Rightarrow> roundtrip_intent" where
  "shared_intent i =
     (let s = ci_signal i; p = ci_policy i in
      \<lparr>ri_roundtrip_id = ci_roundtrip_id i, ri_target_event_id = cs_event_id s, ri_target_position = cs_position s,
       ri_asset_id = cs_asset_id s, ri_developer_id = cs_signing_wallet s, ri_creation_user_id = cs_signing_wallet s,
       ri_venue_id = cs_venue_id s, ri_quote_asset_id = cs_quote_asset_id s,
       ri_gross_buy_budget_atomic = cb_gross_buy_budget_atomic p, ri_buy_slippage_bps = cb_buy_slippage_bps p,
       ri_sell_slippage_bps = cb_sell_slippage_bps p, ri_sell_delay_transactions = cb_sell_delay_transactions p,
       ri_created_boundary_ordinal = ordinal_of (ci_decision_position i),
       ri_buy_delay_transactions = cb_buy_delay_transactions p, ri_sell_decision_delay_ns = 0,
       ri_execution_mode = ci_execution_mode i\<rparr>)"

section \<open>Lemmas\<close>

lemma require_integer_Inr [simp]: "require_integer v name m = Inr u \<longleftrightarrow> m \<le> v"
  by (auto simp: require_integer_def)

lemma require_slippage_Inr [simp]: "require_slippage v name = Inr u \<longleftrightarrow> 0 \<le> v \<and> v \<le> 10000"
  by (auto simp: require_slippage_def)

definition copy_intent_valid :: "copy_intent \<Rightarrow> bool" where
  "copy_intent_valid i \<longleftrightarrow> chain_identity (cs_position (ci_signal i)) = chain_identity (ci_decision_position i)
     \<and> ordinal_of (cs_position (ci_signal i)) \<le> ordinal_of (ci_decision_position i)
     \<and> (ci_execution_mode i = EXOGENOUS_REPLAY \<or> ci_execution_mode i = EXOGENOUS_VIRTUAL_SETTLEMENT)"

lemma CopyBuyIntent_iff: "CopyBuyIntent i = Inr i' \<longleftrightarrow> i' = i \<and> copy_intent_valid i"
  by (auto simp: CopyBuyIntent_def copy_intent_valid_def Let_def)

definition copy_policy_valid :: "copy_policy \<Rightarrow> bool" where
  "copy_policy_valid p \<longleftrightarrow> 1 \<le> cb_gross_buy_budget_atomic p \<and> 1 \<le> cb_take_profit_bps p
     \<and> 1 \<le> cb_stop_loss_bps p \<and> cb_stop_loss_bps p \<le> 10000 \<and> 1 \<le> cb_maximum_hold_seconds p
     \<and> 1 \<le> cb_buy_delay_transactions p \<and> 1 \<le> cb_sell_delay_transactions p
     \<and> 0 \<le> cb_observation_delay_transactions p \<and> 0 \<le> cb_buy_slippage_bps p \<and> cb_buy_slippage_bps p \<le> 10000
     \<and> 0 \<le> cb_sell_slippage_bps p \<and> cb_sell_slippage_bps p \<le> 10000"

lemma CopyBuyPolicy_Inr [simp]: "CopyBuyPolicy p = Inr p' \<longleftrightarrow> p' = p \<and> copy_policy_valid p"
  by (auto simp: CopyBuyPolicy_def copy_policy_valid_def)

definition price_ok :: "token_price \<Rightarrow> bool" where
  "price_ok p \<longleftrightarrow> 0 < tp_quote_atomic p \<and> 0 < tp_token_atomic p \<and> gcd (tp_quote_atomic p) (tp_token_atomic p) = 1"

lemma TokenPrice_reduced:
  assumes "TokenPrice q t = Inr p"
  shows "price_ok p" and "tp_quote_atomic p * t = q * tp_token_atomic p"
proof -
  have pos: "0 < q" "0 < t" and p: "p = \<lparr>tp_quote_atomic = q div gcd q t, tp_token_atomic = t div gcd q t\<rparr>"
    using assms by (auto simp: TokenPrice_def Let_def)
  have "0 < q div gcd q t" "0 < t div gcd q t"
    using pos by (auto simp: pos_imp_zdiv_pos_iff zdvd_imp_le)
  moreover have "gcd (q div gcd q t) (t div gcd q t) = 1"
    using pos by (intro div_gcd_coprime[unfolded coprime_iff_gcd_eq_1]) simp
  ultimately show "price_ok p" by (simp add: price_ok_def p)
  show "tp_quote_atomic p * t = q * tp_token_atomic p"
    by (simp add: p) (metis dvd_div_mult dvd_mult_div_cancel gcd_dvd1 gcd_dvd2 mult.commute)
qed

definition price_ratio :: "token_price \<Rightarrow> rat" where
  "price_ratio p = of_int (tp_quote_atomic p) / of_int (tp_token_atomic p)"

lemma scaled_le:
  fixes a b c d m :: int
  assumes "0 < b" and "0 < d"
  shows "(of_int a / of_int b :: rat) \<le> of_int c / of_int d * (of_int m / 10000) \<longleftrightarrow> a * d * 10000 \<le> c * b * m"
    and "of_int c / of_int d * (of_int m / 10000) \<le> (of_int a / of_int b :: rat) \<longleftrightarrow> c * b * m \<le> a * d * 10000"
proof -
  have b: "0 < (of_int b :: rat)" "0 < (of_int d :: rat)" using assms by simp_all
  have "(of_int a / of_int b :: rat) \<le> of_int c / of_int d * (of_int m / 10000)
      \<longleftrightarrow> of_int (a * d * 10000) \<le> (of_int (c * b * m) :: rat)"
    using b by (simp add: field_simps)
  then show "(of_int a / of_int b :: rat) \<le> of_int c / of_int d * (of_int m / 10000) \<longleftrightarrow> a * d * 10000 \<le> c * b * m"
    by (simp only: of_int_le_iff)
  have "of_int c / of_int d * (of_int m / 10000) \<le> (of_int a / of_int b :: rat)
      \<longleftrightarrow> of_int (c * b * m) \<le> (of_int (a * d * 10000) :: rat)"
    using b by (simp add: field_simps)
  then show "of_int c / of_int d * (of_int m / 10000) \<le> (of_int a / of_int b :: rat) \<longleftrightarrow> c * b * m \<le> a * d * 10000"
    by (simp only: of_int_le_iff)
qed

text \<open>C37: The exit rule compares prices exactly, without division or rounding: a position is stopped out at or
  below the entry price less the stop-loss share, takes profit at or above the entry price plus the
  take-profit share, and stays open strictly between the two.\<close>

theorem price_exit_exact:
  assumes "CopyBuyPolicy p = Inr p" and "TokenPrice q t = Inr entry" and "TokenPrice q' t' = Inr current"
  shows "price_exit p entry current = Inr
    (if price_ratio current \<le> price_ratio entry * (1 - of_int (cb_stop_loss_bps p) / 10000) then Some STOP_LOSS
     else if price_ratio entry * (1 + of_int (cb_take_profit_bps p) / 10000) \<le> price_ratio current then Some TAKE_PROFIT
     else None)
   \<and> price_ratio entry = of_int q / of_int t \<and> price_ratio current = of_int q' / of_int t'"
proof -
  have ok: "0 < tp_token_atomic entry" "0 < tp_token_atomic current"
    using TokenPrice_reduced(1)[OF assms(2)] TokenPrice_reduced(1)[OF assms(3)] by (simp_all add: price_ok_def)
  have ratio: "price_ratio p = of_int q / of_int t" if "TokenPrice q t = Inr p" for p q t
  proof -
    have "0 < t" "0 < tp_token_atomic p" using that TokenPrice_reduced(1)[OF that]
      by (auto simp: TokenPrice_def price_ok_def)
    moreover have "of_int (tp_quote_atomic p * t) = (of_int (q * tp_token_atomic p) :: rat)"
      using TokenPrice_reduced(2)[OF that] by simp
    ultimately show ?thesis by (simp add: price_ratio_def field_simps)
  qed
  have shares: "1 - of_int s / 10000 = (of_int (10000 - s) / 10000 :: rat)"
    "1 + of_int s / 10000 = (of_int (10000 + s) / 10000 :: rat)" for s
    by (simp_all add: field_simps)
  have bps: "cb_stop_loss_bps p \<le> 10000" "0 \<le> 10000 + cb_take_profit_bps p"
    using assms(1) by (auto simp: copy_policy_valid_def)
  show ?thesis
    using bps unfolding shares price_exit_def price_ratio_def scaled_le[OF ok(2,1)] scaled_comparison_def
    using ratio[OF assms(2)] ratio[OF assms(3)]
    by (simp add: require_integer_def Let_def price_ratio_def)
qed

definition sample_policy :: copy_policy where
  "sample_policy = \<lparr>cb_gross_buy_budget_atomic = 100, cb_take_profit_bps = 5000, cb_stop_loss_bps = 2000,
     cb_maximum_hold_seconds = 60, cb_observation_delay_transactions = 1, cb_buy_delay_transactions = 1,
     cb_sell_delay_transactions = 1, cb_buy_slippage_bps = 100, cb_sell_slippage_bps = 100\<rparr>"

lemma sample_policy_valid: "CopyBuyPolicy sample_policy = Inr sample_policy"
  by (simp add: copy_policy_valid_def sample_policy_def)

theorem price_exit_exact_witness:
  "price_exit sample_policy \<lparr>tp_quote_atomic = 1, tp_token_atomic = 5\<rparr> \<lparr>tp_quote_atomic = 4, tp_token_atomic = 25\<rparr>
    = Inr (Some STOP_LOSS)"
proof -
  have p: "TokenPrice 20 100 = Inr \<lparr>tp_quote_atomic = 1, tp_token_atomic = 5\<rparr>"
    "TokenPrice 16 100 = Inr \<lparr>tp_quote_atomic = 4, tp_token_atomic = 25\<rparr>"
    by (simp_all add: TokenPrice_def require_integer_def gcd_non_0_int)
  from price_exit_exact[OF sample_policy_valid p] show ?thesis
    by (simp add: price_ratio_def) (simp add: sample_policy_def)
qed

end
