(* ===== verification/Sniping_Orders.thy ===== *)
theory Sniping_Orders
  imports Sniping_Settlement Replay_Timeline
begin

text \<open>
  The mutable state of a sniping run and the four handlers that move one round trip through its life
  (\<^verbatim>\<open>engine/sniping.py\<close>): accepting a buy, landing it, deciding the sell, landing the sell. The strategy, the
  protocol runtime and the network cost model are ports of the engine: functions of the environment. A
  raised exception ends the run, so a handler returns the new state or the exception.
\<close>

section \<open>Configuration and ports\<close>

record sniping_config =
  sg_quote_asset_id :: asset_id
  sg_decision_range :: block_range
  sg_initial_available :: "(asset_id, int) dict"
  sg_initial_uva_state :: wallet_uva_initial_state
  sg_wallet_account_profile_id :: string
  sg_uva_schema_id :: string
  sg_root_seed :: int
  sg_maximum_dynamic_items :: int
  sg_execution_mode :: execution_mode
  sg_engine_bundle_id :: digest

definition config_text_check :: "string \<Rightarrow> string \<Rightarrow> unit res" where
  "config_text_check name v = raise_if (v = [] \<or> v \<noteq> strip v \<or> CHR 0x00 \<in> set v)
     (ValueError (name @ '' must be non-empty, trimmed and NUL-free''))"

definition SnipingRunConfig :: "sniping_config \<Rightarrow> sniping_config res" where
  "SnipingRunConfig c =
     bindE (KeyedRng (sg_root_seed c)) (\<lambda>_.
     bindE (config_text_check ''wallet_account_profile_id'' (sg_wallet_account_profile_id c)) (\<lambda>_.
     bindE (config_text_check ''uva_schema_id'' (sg_uva_schema_id c)) (\<lambda>_.
     if sg_execution_mode c \<noteq> EXOGENOUS_REPLAY \<and> sg_execution_mode c \<noteq> EXOGENOUS_VIRTUAL_SETTLEMENT then
       Inl (ValueError ''sniping requires an allowlisted exogenous execution mode'')
     else if sg_maximum_dynamic_items c \<le> 0 then
       Inl (ValueError ''maximum dynamic items must be positive'')
     else if sg_quote_asset_id c \<notin> set (dict_keys (sg_initial_available c)) then
       Inl (ValueError ''initial portfolio must contain the quote asset'')
     else Inr c)))"

record ('s, 'p) sniping_env =
  sv_sha :: "bytes \<Rightarrow> string"
  sv_clock :: transaction_clock
  sv_config :: sniping_config
  sv_buy_delay :: int
  sv_sell_decision_delay_ns :: int
  sv_sell_delay :: int
  sv_decide :: "'s \<Rightarrow> launch_target \<Rightarrow> int \<Rightarrow> (launch_decision \<times> 's) res"
  sv_apply_group :: "'p \<Rightarrow> canonical_event list \<Rightarrow> int \<Rightarrow> (launch_target list \<times> 'p) res"
  sv_account_requirements :: "'p \<Rightarrow> roundtrip_intent \<Rightarrow> account_requirement list res"
  sv_quote_buy :: "'p \<Rightarrow> roundtrip_intent \<Rightarrow> int \<Rightarrow> protocol_quote res"
  sv_quote_sell :: "'p \<Rightarrow> roundtrip_intent \<Rightarrow> int \<Rightarrow> int \<Rightarrow> protocol_quote res"
  sv_valuation_quote :: "'p \<Rightarrow> roundtrip_intent \<Rightarrow> int \<Rightarrow> int \<Rightarrow> valuation_quote option res"
  sv_fee_collector :: account_id
  sv_cost_buy :: "int \<Rightarrow> account_requirement list \<Rightarrow> network_cost_quote res"
  sv_cost_sell :: "int \<Rightarrow> network_cost_quote res"
  sv_strategy_bundle_id :: digest
  sv_protocol_bundle_id :: digest
  sv_network_cost_bundle_id :: digest

section \<open>Recording\<close>

record sniping_recorder =
  nr_audit :: stream_hasher
  nr_ledger :: stream_hasher
  nr_fills :: stream_hasher
  nr_roundtrips :: stream_hasher
  nr_cashflows :: "(digest \<times> asset_id, int) dict"
  nr_audit_sink :: "json list"
  nr_ledger_sink :: "ledger_transaction list"
  nr_fill_sink :: "fill list"
  nr_roundtrip_sink :: "roundtrip_record list"

definition SnipingRecorder :: "sniping_recorder res" where
  "SnipingRecorder =
     bindE (CanonicalStreamHasher ''backtest.sniping-audit-stream.v1'') (\<lambda>audit.
     bindE (CanonicalStreamHasher ''backtest.sniping-ledger-stream.v2'') (\<lambda>ledger.
     bindE (CanonicalStreamHasher ''backtest.sniping-fill-stream.v1'') (\<lambda>fills.
     bindE (CanonicalStreamHasher ''backtest.sniping-roundtrip-stream.v4'') (\<lambda>roundtrips.
     Inr \<lparr>nr_audit = audit, nr_ledger = ledger, nr_fills = fills, nr_roundtrips = roundtrips,
       nr_cashflows = [], nr_audit_sink = [], nr_ledger_sink = [], nr_fill_sink = [], nr_roundtrip_sink = []\<rparr>))))"

definition cashflow_append :: "(digest \<times> asset_id, int) dict \<Rightarrow> ledger_transaction \<Rightarrow> (digest \<times> asset_id, int) dict res" where
  "cashflow_append amounts t =
     (if lt_correlation_kind t \<noteq> ROUNDTRIP then Inl (SnipingEngineError INTERNAL_STATE_INVALID)
      else Inr (foldl (\<lambda>d p.
        if la_kind (po_account p) \<notin> {PORTFOLIO_AVAILABLE, PORTFOLIO_RESERVED} then d
        else let key = (lt_correlation_id t, po_asset_id p) in
          dict_set key (dict_get_default d key 0 + po_amount_atomic p) d) amounts (lt_postings t)))"

definition cashflow_amount :: "(digest \<times> asset_id, int) dict \<Rightarrow> digest \<Rightarrow> asset_id \<Rightarrow> int" where
  "cashflow_amount amounts roundtrip asset = dict_get_default amounts (roundtrip, asset) 0"

definition snipe_audit :: "sniping_recorder \<Rightarrow> (string, json) dict \<Rightarrow> sniping_recorder res" where
  "snipe_audit r members =
     bindE (stream_append (nr_audit r) (JObj members)) (\<lambda>h.
       Inr (r\<lparr>nr_audit := h, nr_audit_sink := nr_audit_sink r @ [JObj members]\<rparr>))"

definition snipe_ledger :: "sniping_recorder \<Rightarrow> ledger_transaction \<Rightarrow> sniping_recorder res" where
  "snipe_ledger r t =
     bindE (stream_append (nr_ledger r) (ledger_document t)) (\<lambda>h.
     bindE (cashflow_append (nr_cashflows r) t) (\<lambda>cashflows.
       Inr (r\<lparr>nr_ledger := h, nr_cashflows := cashflows, nr_ledger_sink := nr_ledger_sink r @ [t]\<rparr>)))"

definition snipe_fill :: "sniping_recorder \<Rightarrow> fill \<Rightarrow> sniping_recorder res" where
  "snipe_fill r f =
     bindE (stream_append (nr_fills r) (fill_document f)) (\<lambda>h.
       Inr (r\<lparr>nr_fills := h, nr_fill_sink := nr_fill_sink r @ [f]\<rparr>))"

definition snipe_roundtrip :: "sniping_recorder \<Rightarrow> roundtrip_record \<Rightarrow> sniping_recorder res" where
  "snipe_roundtrip r rt =
     bindE (stream_append (nr_roundtrips r) (JObj (roundtrip_document rt))) (\<lambda>h.
       Inr (r\<lparr>nr_roundtrips := h, nr_roundtrip_sink := nr_roundtrip_sink r @ [rt]\<rparr>))"

section \<open>State\<close>

record roundtrip_state =
  rx_target :: launch_target
  rx_target_time_ns :: int
  rx_cooldown_consumed :: bool
  rx_cooldown_until_ns :: "int option"
  rx_intent :: "roundtrip_intent option"
  rx_status :: roundtrip_status
  rx_buy_reference :: "protocol_quote option"
  rx_buy_landing :: "protocol_quote option"
  rx_buy_landing_position :: "chain_position option"
  rx_buy_minimum_out :: int
  rx_buy_failure_code :: "string option"
  rx_buy_network :: "network_cost_quote option"
  rx_account_reservation :: "reservation_plan option"
  rx_account_components :: "account_component list"
  rx_sell_reference :: "protocol_quote option"
  rx_sell_decision_position :: "chain_position option"
  rx_sell_landing :: "protocol_quote option"
  rx_sell_landing_position :: "chain_position option"
  rx_sell_minimum_out :: int
  rx_sell_failure_code :: "string option"
  rx_sell_network :: "network_cost_quote option"
  rx_acquired :: int
  rx_cashback :: int
  rx_terminal :: bool

definition RoundTripState ::
  "launch_target \<Rightarrow> int \<Rightarrow> bool \<Rightarrow> int option \<Rightarrow> roundtrip_intent option \<Rightarrow> roundtrip_status \<Rightarrow> bool \<Rightarrow> roundtrip_state" where
  "RoundTripState target time consumed until i status terminal =
     \<lparr>rx_target = target, rx_target_time_ns = time, rx_cooldown_consumed = consumed, rx_cooldown_until_ns = until,
      rx_intent = i, rx_status = status, rx_buy_reference = None, rx_buy_landing = None,
      rx_buy_landing_position = None, rx_buy_minimum_out = 0, rx_buy_failure_code = None, rx_buy_network = None,
      rx_account_reservation = None, rx_account_components = [], rx_sell_reference = None,
      rx_sell_decision_position = None, rx_sell_landing = None, rx_sell_landing_position = None,
      rx_sell_minimum_out = 0, rx_sell_failure_code = None, rx_sell_network = None, rx_acquired = 0,
      rx_cashback = 0, rx_terminal = terminal\<rparr>"

datatype sniping_action = BuyLanding digest | SellDecision digest | SellLanding digest

text \<open>The phases in which an action is due; both landings share one value of the source's enumeration.\<close>

datatype action_kind = DECISION_ACTION | LANDING_ACTION

fun action_kind_value :: "action_kind \<Rightarrow> int" where
  "action_kind_value DECISION_ACTION = 40"
| "action_kind_value LANDING_ACTION = 60"

instantiation action_kind :: linorder
begin

definition less_eq_action_kind :: "action_kind \<Rightarrow> action_kind \<Rightarrow> bool" where
  "less_eq_action_kind k l \<longleftrightarrow> action_kind_value k \<le> action_kind_value l"

definition less_action_kind :: "action_kind \<Rightarrow> action_kind \<Rightarrow> bool" where
  "less_action_kind k l \<longleftrightarrow> action_kind_value k < action_kind_value l"

instance
proof
  fix k l :: action_kind
  show "k \<le> l \<Longrightarrow> l \<le> k \<Longrightarrow> k = l" by (cases k; cases l) (simp_all add: less_eq_action_kind_def)
qed (auto simp: less_eq_action_kind_def less_action_kind_def)

end

lemma landing_last [simp]: "\<not> LANDING_ACTION < k"
  by (cases k) (simp_all add: less_action_kind_def)

fun action_phase :: "sniping_action \<Rightarrow> action_kind" where
  "action_phase (SellDecision _) = DECISION_ACTION"
| "action_phase (BuyLanding _) = LANDING_ACTION"
| "action_phase (SellLanding _) = LANDING_ACTION"

fun action_roundtrip :: "sniping_action \<Rightarrow> digest" where
  "action_roundtrip (BuyLanding r) = r"
| "action_roundtrip (SellDecision r) = r"
| "action_roundtrip (SellLanding r) = r"

type_synonym action_key = "int \<times> action_kind \<times> int \<times> string"

record sniping_books =
  sb_portfolio :: portfolio_state
  sb_accounts :: wallet_state
  sb_recorder :: sniping_recorder
  sb_scheduled :: "(action_key \<times> sniping_action) list"

section \<open>Scheduling\<close>

definition action_id :: "(bytes \<Rightarrow> string) \<Rightarrow> digest \<Rightarrow> string \<Rightarrow> digest res" where
  "action_id sha roundtrip action =
     domain_digest sha ''backtest.sniping-scheduled-action.v1''
       (JObj [(''action'', JStr action), (''roundtrip_id'', JStr (digest_hex roundtrip))])"

definition schedule_action ::
  "chain_position \<Rightarrow> int \<Rightarrow> digest \<Rightarrow> sniping_action \<Rightarrow> sniping_books \<Rightarrow> sniping_books res" where
  "schedule_action pos creator causal action b =
     (if ordinal_of pos \<le> creator then Inl (SnipingEngineError INTERNAL_STATE_INVALID)
      else Inr (b\<lparr>sb_scheduled := heappush ((ordinal_of pos, action_phase action, creator, digest_hex causal), action)
        (sb_scheduled b)\<rparr>))"

function pop_actions ::
  "(action_key \<times> sniping_action) list \<Rightarrow> int \<Rightarrow> action_kind \<Rightarrow>
     sniping_action list \<times> (action_key \<times> sniping_action) list" where
  "pop_actions scheduled boundary maximum_phase =
     (case heap_top scheduled of
        None \<Rightarrow> ([], scheduled)
      | Some ((release, phase, _), action) \<Rightarrow>
          if release \<noteq> boundary \<or> maximum_phase < phase then ([], scheduled)
          else (let (values, rest) = pop_actions (heappop scheduled) boundary maximum_phase
                in (action # values, rest)))"
  by pat_completeness auto
termination
  by (relation "measure (\<lambda>(scheduled, _, _). length scheduled)")
     (auto simp: heap_top_def heappop_def split: list.splits)

declare pop_actions.simps [simp del]

section \<open>Committing\<close>

definition sniping_preview :: "portfolio_state \<Rightarrow> ledger_transaction \<Rightarrow> portfolio_commit res" where
  "sniping_preview portfolio t = (case portfolio_preview portfolio t of
     Inl (PortfolioInvariantError _) \<Rightarrow> Inl (SnipingEngineError PORTFOLIO_INVARIANT)
   | r \<Rightarrow> r)"

definition apply_transaction :: "ledger_transaction \<Rightarrow> sniping_books \<Rightarrow> sniping_books res" where
  "apply_transaction t b =
     bindE (sniping_preview (sb_portfolio b) t) (\<lambda>candidate.
     bindE (snipe_ledger (sb_recorder b) t) (\<lambda>recorder.
     Inr (b\<lparr>sb_portfolio := portfolio_commit_candidate (sb_portfolio b) candidate, sb_recorder := recorder\<rparr>)))"

definition apply_transaction_with_accounts ::
  "ledger_transaction \<Rightarrow> provisioning_transition \<Rightarrow> sniping_books \<Rightarrow> sniping_books res" where
  "apply_transaction_with_accounts t transition b =
     bindE (sniping_preview (sb_portfolio b) t) (\<lambda>candidate.
     bindE (snipe_ledger (sb_recorder b) t) (\<lambda>recorder.
     Inr (b\<lparr>sb_portfolio := portfolio_commit_candidate (sb_portfolio b) candidate,
            sb_accounts := wallet_commit (sb_accounts b) transition, sb_recorder := recorder\<rparr>)))"

definition write_audit :: "(string, json) dict \<Rightarrow> sniping_books \<Rightarrow> sniping_books res" where
  "write_audit members b = bindE (snipe_audit (sb_recorder b) members) (\<lambda>r. Inr (b\<lparr>sb_recorder := r\<rparr>))"

definition require_field :: "'a option \<Rightarrow> 'a res" where
  "require_field v = (case v of None \<Rightarrow> Inl (SnipingEngineError INTERNAL_STATE_INVALID) | Some x \<Rightarrow> Inr x)"

text \<open>A quote that the original program refuses is a value; every other exception ends the run.\<close>

definition catch_rejected :: "'a res \<Rightarrow> (string + 'a) res" where
  "catch_rejected m = (case m of
     Inr x \<Rightarrow> Inr (Inr x) | Inl (ProtocolExecutionRejected code) \<Rightarrow> Inr (Inl code) | Inl e \<Rightarrow> Inl e)"

definition SECOND :: int where "SECOND = 1000000000"

section \<open>Accepting a buy\<close>

type_synonym handled = "bool \<times> roundtrip_state \<times> sniping_books"

abbreviation phase_entry :: "scheduler_phase \<Rightarrow> string \<times> json" where
  "phase_entry p \<equiv> (''phase'', JInt (phase_value p))"

abbreviation roundtrip_entry :: "roundtrip_intent \<Rightarrow> string \<times> json" where
  "roundtrip_entry i \<equiv> (''roundtrip_id'', JStr (digest_hex (ri_roundtrip_id i)))"

definition reject_buy ::
  "roundtrip_intent \<Rightarrow> roundtrip_status \<Rightarrow> string \<Rightarrow> string \<Rightarrow> reservation_plan \<Rightarrow> roundtrip_state \<Rightarrow> sniping_books
    \<Rightarrow> handled res" where
  "reject_buy i status reason record_type plan rx b =
     bindE (unsubmitted_account_records (sb_accounts b) plan) (\<lambda>records.
     bindE (write_audit [(''boundary_ordinal'', JInt (ri_created_boundary_ordinal i)),
         phase_entry RISK_AND_ORDER_ACCEPTANCE, (''reason'', JStr reason),
         (''record_type'', JStr record_type), roundtrip_entry i] b) (\<lambda>b.
     Inr (False, rx\<lparr>rx_status := status, rx_terminal := True, rx_account_components := records\<rparr>, b)))"

definition submit_buy ::
  "('s, 'p) sniping_env \<Rightarrow> roundtrip_intent \<Rightarrow> network_cost_quote \<Rightarrow> reservation_plan \<Rightarrow> chain_position
    \<Rightarrow> roundtrip_state \<Rightarrow> sniping_books \<Rightarrow> handled res" where
  "submit_buy env i network plan landing rx b =
     bindE (reserve_buy (sv_sha env) i network plan) (\<lambda>t.
     bindE (apply_transaction t b) (\<lambda>b.
     bindE (action_id (sv_sha env) (ri_roundtrip_id i) ''buy-landing'') (\<lambda>causal.
     bindE (schedule_action landing (ri_created_boundary_ordinal i) causal (BuyLanding (ri_roundtrip_id i)) b) (\<lambda>b.
     bindE (write_audit [(''boundary_ordinal'', JInt (ri_created_boundary_ordinal i)),
         (''eligible_boundary_ordinal'', JInt (ordinal_of landing)), phase_entry RISK_AND_ORDER_ACCEPTANCE,
         (''record_type'', JStr ''BUY_ACCEPTED_AND_RESERVED''),
         (''reserved_assets'', asset_amounts_document (buy_reservation i network plan)), roundtrip_entry i] b) (\<lambda>b.
     Inr (True, rx, b))))))"

definition price_buy ::
  "('s, 'p) sniping_env \<Rightarrow> 'p \<Rightarrow> roundtrip_intent \<Rightarrow> int \<Rightarrow> sniping_books
    \<Rightarrow> (network_cost_quote \<times> reservation_plan) res" where
  "price_buy env protocol i effective b =
     bindE (sv_account_requirements env protocol i) (\<lambda>requirements.
     bindE (sv_cost_buy env effective requirements) (\<lambda>network.
     bindE (prepare_account_reservation (sb_accounts b) (ri_roundtrip_id i) (ri_asset_id i)
       (nq_account_requirements network)) (\<lambda>plan. Inr (network, plan))))"

definition submit_quoted_buy ::
  "('s, 'p) sniping_env \<Rightarrow> roundtrip_intent \<Rightarrow> network_cost_quote \<Rightarrow> reservation_plan \<Rightarrow> protocol_quote
    \<Rightarrow> roundtrip_state \<Rightarrow> sniping_books \<Rightarrow> handled res" where
  "submit_quoted_buy env i network plan reference rx b =
     bindE (validate_buy_quote i reference) (\<lambda>_.
     let rx = rx\<lparr>rx_buy_reference := Some reference,
         rx_buy_minimum_out := sniping_minimum_output (pq_amount_out reference) (ri_buy_slippage_bps i)\<rparr> in
     bindE (transaction_after (sv_clock env) (ri_target_position i) (ri_buy_delay_transactions i)) (\<lambda>landing.
     bindE (has_available (sb_portfolio b) (buy_reservation i network plan)) (\<lambda>funded.
     if \<not> funded then
       reject_buy i BUY_PRE_SUBMIT_INSUFFICIENT_FUNDS ''INSUFFICIENT_FUNDS'' ''BUY_PRE_SUBMIT_REJECTED'' plan rx b
     else submit_buy env i network plan landing rx b)))"

definition accept_buy ::
  "('s, 'p) sniping_env \<Rightarrow> 'p \<Rightarrow> roundtrip_state \<Rightarrow> sniping_books \<Rightarrow> handled res" where
  "accept_buy env protocol rx b =
     bindE (require_field (rx_intent rx)) (\<lambda>i.
     let effective = rx_target_time_ns rx div SECOND in
     bindE (price_buy env protocol i effective b) (\<lambda>(network, plan).
     let rx = rx\<lparr>rx_buy_network := Some network, rx_account_reservation := Some plan\<rparr> in
     bindE (catch_rejected (sv_quote_buy env protocol i effective)) (\<lambda>quoted.
     case quoted of
       Inl code \<Rightarrow> reject_buy i BUY_REFERENCE_REJECTED code ''BUY_REFERENCE_REJECTED'' plan
         (rx\<lparr>rx_buy_failure_code := Some code\<rparr>) b
     | Inr reference \<Rightarrow> submit_quoted_buy env i network plan reference rx b)))"

section \<open>Landing a buy\<close>

definition fail_landed_buy ::
  "('s, 'p) sniping_env \<Rightarrow> roundtrip_intent \<Rightarrow> chain_position \<Rightarrow> network_cost_quote \<Rightarrow> reservation_plan \<Rightarrow> string
    \<Rightarrow> roundtrip_state \<Rightarrow> sniping_books \<Rightarrow> handled res" where
  "fail_landed_buy env i pos network plan code rx b =
     bindE (apply_buy_account_transition (sb_accounts b) plan False) (\<lambda>transition.
     bindE (failed_buy_settlement (sv_sha env) i (ordinal_of pos) network plan (sv_fee_collector env) code) (\<lambda>t.
     bindE (apply_transaction_with_accounts t transition b) (\<lambda>b.
     bindE (write_audit [(''boundary_ordinal'', JInt (ordinal_of pos)),
         phase_entry VENUE_EXECUTION_AND_LEDGER_COMMIT, (''reason'', JStr code),
         (''record_type'', JStr ''BUY_LANDED_FAILED_NETWORK_FEE_CHARGED''), roundtrip_entry i] b) (\<lambda>b.
     Inr (False, rx\<lparr>rx_buy_failure_code := Some code, rx_status := BUY_LANDED_FAILED, rx_terminal := True,
       rx_account_components := pt_records transition\<rparr>, b)))))"

definition fill_buy ::
  "('s, 'p) sniping_env \<Rightarrow> roundtrip_intent \<Rightarrow> chain_position \<Rightarrow> network_cost_quote \<Rightarrow> reservation_plan
    \<Rightarrow> protocol_quote \<Rightarrow> roundtrip_state \<Rightarrow> sniping_books \<Rightarrow> handled res" where
  "fill_buy env i pos network plan landing rx b =
     bindE (apply_buy_account_transition (sb_accounts b) plan True) (\<lambda>transition.
     bindE (successful_buy_settlement (sv_sha env) i (ordinal_of pos) landing network plan transition
       (sv_fee_collector env)) (\<lambda>t.
     bindE (apply_transaction_with_accounts t transition b) (\<lambda>b.
     bindE (sniping_fill (sv_sha env) i QUOTE_BUY landing (ordinal_of pos)) (\<lambda>f.
     bindE (snipe_fill (sb_recorder b) f) (\<lambda>recorder.
     let b = b\<lparr>sb_recorder := recorder\<rparr>;
         rx = rx\<lparr>rx_acquired := pq_amount_out landing, rx_account_components := pt_records transition,
           rx_cashback := rx_cashback rx + pq_cashback landing, rx_status := OPEN_AT_HORIZON\<rparr> in
     bindE (block_time_for_position (sv_clock env) pos) (\<lambda>fill_time.
     bindE (first_nonempty_transaction_at_or_after (sv_clock env) pos (fill_time + ri_sell_decision_delay_ns i))
       (\<lambda>decision.
     bindE (action_id (sv_sha env) (ri_roundtrip_id i) ''sell-decision'') (\<lambda>causal.
     bindE (schedule_action decision (ordinal_of pos) causal (SellDecision (ri_roundtrip_id i)) b) (\<lambda>b.
     bindE (write_audit [(''boundary_ordinal'', JInt (ordinal_of pos)),
         phase_entry VENUE_EXECUTION_AND_LEDGER_COMMIT, (''record_type'', JStr ''BUY_FILLED''), roundtrip_entry i,
         (''sell_decision_boundary_ordinal'', JInt (ordinal_of decision))] b) (\<lambda>b.
     Inr (True, rx, b)))))))))))"

definition settle_landed_buy ::
  "('s, 'p) sniping_env \<Rightarrow> roundtrip_intent \<Rightarrow> chain_position \<Rightarrow> network_cost_quote \<Rightarrow> reservation_plan
    \<Rightarrow> protocol_quote \<Rightarrow> roundtrip_state \<Rightarrow> sniping_books \<Rightarrow> handled res" where
  "settle_landed_buy env i pos network plan landing rx b =
     (if pq_amount_out landing < rx_buy_minimum_out rx then
        fail_landed_buy env i pos network plan ''MINIMUM_OUTPUT_NOT_MET'' rx b
      else fill_buy env i pos network plan landing rx b)"

definition land_buy ::
  "('s, 'p) sniping_env \<Rightarrow> 'p \<Rightarrow> chain_position \<Rightarrow> roundtrip_state \<Rightarrow> sniping_books \<Rightarrow> handled res" where
  "land_buy env protocol pos rx b =
     bindE (require_field (rx_intent rx)) (\<lambda>i.
     bindE (require_field (rx_buy_reference rx)) (\<lambda>_.
     bindE (require_field (rx_buy_network rx)) (\<lambda>network.
     bindE (require_field (rx_account_reservation rx)) (\<lambda>plan.
     bindE (block_time_for_position (sv_clock env) pos) (\<lambda>time.
     let rx = rx\<lparr>rx_buy_landing_position := Some pos\<rparr> in
     bindE (catch_rejected (sv_quote_buy env protocol i (time div SECOND))) (\<lambda>quoted.
     case quoted of
       Inl code \<Rightarrow> fail_landed_buy env i pos network plan code rx b
     | Inr landing \<Rightarrow> bindE (validate_buy_quote i landing) (\<lambda>_.
         settle_landed_buy env i pos network plan landing (rx\<lparr>rx_buy_landing := Some landing\<rparr>) b)))))))"

section \<open>Deciding a sell\<close>

definition reject_sell ::
  "roundtrip_intent \<Rightarrow> chain_position \<Rightarrow> roundtrip_status \<Rightarrow> scheduler_phase \<Rightarrow> string \<Rightarrow> string
    \<Rightarrow> roundtrip_state \<Rightarrow> sniping_books \<Rightarrow> (roundtrip_state \<times> sniping_books) res" where
  "reject_sell i pos status phase reason record_type rx b =
     bindE (write_audit [(''boundary_ordinal'', JInt (ordinal_of pos)), phase_entry phase,
         (''reason'', JStr reason), (''record_type'', JStr record_type), roundtrip_entry i] b) (\<lambda>b.
     Inr (rx\<lparr>rx_status := status, rx_terminal := True\<rparr>, b))"

definition submit_sell ::
  "('s, 'p) sniping_env \<Rightarrow> roundtrip_intent \<Rightarrow> chain_position \<Rightarrow> network_cost_quote \<Rightarrow> chain_position
    \<Rightarrow> roundtrip_state \<Rightarrow> sniping_books \<Rightarrow> (roundtrip_state \<times> sniping_books) res" where
  "submit_sell env i pos network landing rx b =
     bindE (reserve_sell (sv_sha env) i (rx_acquired rx) network (ordinal_of pos)) (\<lambda>t.
     bindE (apply_transaction t b) (\<lambda>b.
     bindE (action_id (sv_sha env) (ri_roundtrip_id i) ''sell-landing'') (\<lambda>causal.
     bindE (schedule_action landing (ordinal_of pos) causal (SellLanding (ri_roundtrip_id i)) b) (\<lambda>b.
     bindE (write_audit [(''boundary_ordinal'', JInt (ordinal_of pos)),
         (''eligible_boundary_ordinal'', JInt (ordinal_of landing)), phase_entry RISK_AND_ORDER_ACCEPTANCE,
         (''record_type'', JStr ''SELL_ACCEPTED_AND_RESERVED''), roundtrip_entry i] b) (\<lambda>b.
     Inr (rx, b))))))"

definition submit_quoted_sell ::
  "('s, 'p) sniping_env \<Rightarrow> roundtrip_intent \<Rightarrow> chain_position \<Rightarrow> int \<Rightarrow> protocol_quote \<Rightarrow> roundtrip_state
    \<Rightarrow> sniping_books \<Rightarrow> (roundtrip_state \<times> sniping_books) res" where
  "submit_quoted_sell env i pos effective reference rx b =
     bindE (validate_sell_quote (sv_sha env) i (rx_acquired rx) reference) (\<lambda>_.
     let rx = rx\<lparr>rx_sell_reference := Some reference,
         rx_sell_minimum_out := sniping_minimum_output (pq_amount_out reference) (ri_sell_slippage_bps i)\<rparr> in
     bindE (transaction_after (sv_clock env) pos (ri_sell_delay_transactions i)) (\<lambda>landing.
     bindE (sv_cost_sell env effective) (\<lambda>network.
     let rx = rx\<lparr>rx_sell_network := Some network\<rparr> in
     bindE (available (sb_portfolio b) (ri_asset_id i)) (\<lambda>tokens.
     if tokens < rx_acquired rx then Inl (SnipingEngineError PORTFOLIO_INVARIANT)
     else bindE (has_available (sb_portfolio b) (sell_reservation i (rx_acquired rx) network)) (\<lambda>funded.
       if \<not> funded then
         reject_sell i pos SELL_PRE_SUBMIT_INSUFFICIENT_FUNDS_OPEN RISK_AND_ORDER_ACCEPTANCE
           ''INSUFFICIENT_NETWORK_FEE'' ''SELL_PRE_SUBMIT_REJECTED'' rx b
       else submit_sell env i pos network landing rx b)))))"

definition decide_sell ::
  "('s, 'p) sniping_env \<Rightarrow> 'p \<Rightarrow> chain_position \<Rightarrow> roundtrip_state \<Rightarrow> sniping_books
    \<Rightarrow> (roundtrip_state \<times> sniping_books) res" where
  "decide_sell env protocol pos rx b =
     bindE (require_field (rx_intent rx)) (\<lambda>i.
     if rx_acquired rx \<le> 0 \<or> rx_terminal rx then Inl (SnipingEngineError INTERNAL_STATE_INVALID)
     else
       bindE (block_time_for_position (sv_clock env) pos) (\<lambda>time.
       let effective = time div SECOND; rx = rx\<lparr>rx_sell_decision_position := Some pos\<rparr> in
       bindE (catch_rejected (sv_quote_sell env protocol i (rx_acquired rx) effective)) (\<lambda>quoted.
       case quoted of
         Inl code \<Rightarrow> reject_sell i pos SELL_REFERENCE_UNAVAILABLE_OPEN STRATEGY_CALLBACK code
           ''SELL_REFERENCE_UNAVAILABLE'' (rx\<lparr>rx_sell_failure_code := Some code\<rparr>) b
       | Inr reference \<Rightarrow> submit_quoted_sell env i pos effective reference rx b)))"

section \<open>Landing a sell\<close>

definition fail_landed_sell ::
  "('s, 'p) sniping_env \<Rightarrow> roundtrip_intent \<Rightarrow> chain_position \<Rightarrow> network_cost_quote \<Rightarrow> string
    \<Rightarrow> roundtrip_state \<Rightarrow> sniping_books \<Rightarrow> handled res" where
  "fail_landed_sell env i pos network code rx b =
     bindE (failed_sell_settlement (sv_sha env) i (ordinal_of pos) (rx_acquired rx) network
       (sv_fee_collector env) code) (\<lambda>t.
     bindE (apply_transaction t b) (\<lambda>b.
     bindE (write_audit [(''boundary_ordinal'', JInt (ordinal_of pos)),
         phase_entry VENUE_EXECUTION_AND_LEDGER_COMMIT, (''reason'', JStr code),
         (''record_type'', JStr ''SELL_LANDED_FAILED_NETWORK_FEE_CHARGED''), roundtrip_entry i] b) (\<lambda>b.
     Inr (False, rx\<lparr>rx_sell_failure_code := Some code, rx_status := SELL_LANDED_FAILED_OPEN,
       rx_terminal := True\<rparr>, b))))"

definition fill_sell ::
  "('s, 'p) sniping_env \<Rightarrow> roundtrip_intent \<Rightarrow> chain_position \<Rightarrow> network_cost_quote \<Rightarrow> protocol_quote
    \<Rightarrow> roundtrip_state \<Rightarrow> sniping_books \<Rightarrow> handled res" where
  "fill_sell env i pos network landing rx b =
     bindE (apply_sell_account_transition (sb_accounts b) (ri_roundtrip_id i) (ri_asset_id i)
       (rx_account_components rx) True) (\<lambda>transition.
     bindE (successful_sell_settlement (sv_sha env) i (ordinal_of pos) landing network (rx_acquired rx)
       transition (sv_fee_collector env)) (\<lambda>t.
     bindE (apply_transaction_with_accounts t transition b) (\<lambda>b.
     bindE (sniping_fill (sv_sha env) i QUOTE_SELL landing (ordinal_of pos)) (\<lambda>f.
     bindE (snipe_fill (sb_recorder b) f) (\<lambda>recorder.
     let b = b\<lparr>sb_recorder := recorder\<rparr> in
     bindE (write_audit [(''boundary_ordinal'', JInt (ordinal_of pos)),
         phase_entry VENUE_EXECUTION_AND_LEDGER_COMMIT,
         (''realized_cash_pnl_atomic'', JInt (cashflow_amount (nr_cashflows recorder) (ri_roundtrip_id i)
            (ri_quote_asset_id i))),
         (''record_type'', JStr ''SELL_FILLED_AND_ACCOUNT_CLOSED''), roundtrip_entry i] b) (\<lambda>b.
     Inr (True, rx\<lparr>rx_cashback := rx_cashback rx + pq_cashback landing,
       rx_account_components := pt_records transition, rx_status := CLOSED, rx_terminal := True\<rparr>, b)))))))"

definition settle_landed_sell ::
  "('s, 'p) sniping_env \<Rightarrow> roundtrip_intent \<Rightarrow> chain_position \<Rightarrow> network_cost_quote \<Rightarrow> protocol_quote
    \<Rightarrow> roundtrip_state \<Rightarrow> sniping_books \<Rightarrow> handled res" where
  "settle_landed_sell env i pos network landing rx b =
     (if pq_amount_out landing < rx_sell_minimum_out rx then
        fail_landed_sell env i pos network ''MINIMUM_OUTPUT_NOT_MET'' rx b
      else fill_sell env i pos network landing rx b)"

definition land_sell ::
  "('s, 'p) sniping_env \<Rightarrow> 'p \<Rightarrow> chain_position \<Rightarrow> roundtrip_state \<Rightarrow> sniping_books \<Rightarrow> handled res" where
  "land_sell env protocol pos rx b =
     bindE (require_field (rx_intent rx)) (\<lambda>i.
     bindE (require_field (rx_sell_reference rx)) (\<lambda>_.
     bindE (require_field (rx_sell_network rx)) (\<lambda>network.
     bindE (block_time_for_position (sv_clock env) pos) (\<lambda>time.
     let rx = rx\<lparr>rx_sell_landing_position := Some pos\<rparr> in
     bindE (catch_rejected (sv_quote_sell env protocol i (rx_acquired rx) (time div SECOND))) (\<lambda>quoted.
     case quoted of
       Inl code \<Rightarrow> fail_landed_sell env i pos network code rx b
     | Inr landing \<Rightarrow>
         bindE (validate_sell_quote (sv_sha env) i (rx_acquired rx) landing) (\<lambda>_.
         settle_landed_sell env i pos network landing (rx\<lparr>rx_sell_landing := Some landing\<rparr>) b))))))"

end
