(* ===== verification/Sniping_Source.thy ===== *)
theory Sniping_Source
  imports Sniping_Orders
begin

text \<open>
  The historical side of a sniping run (\<^verbatim>\<open>engine/sniping.py\<close>): the grouping of the canonical event stream,
  the preflight that proves every settlement of a possible launch lies inside the clock, the check of a
  materialized delivery schedule and its merge with the groups. The generator of the source and its
  consumer alternate, so the scan threads the consumer's state through every completed group.
\<close>

section \<open>Event groups\<close>

type_synonym scan_key = "string \<times> string \<times> int \<times> string \<times> int \<times> string"

record 'a group_scan =
  gs_current :: "canonical_event list"
  gs_identity :: "(int \<times> digest) option"
  gs_previous_key :: "scan_key option"
  gs_consumer :: 'a

definition check_event_clock :: "transaction_clock \<Rightarrow> canonical_event \<Rightarrow> unit res" where
  "check_event_clock clock e =
     (let p = ee_position (event_envelope_of e) in
      if cp_network_id p \<noteq> tc_network_id clock \<or> cp_position_schema_id p \<noteq> tc_position_schema_id clock then
        Inl (SnipingEngineError MIXED_NETWORK)
      else if 0 \<le> cp_transaction_index p then bindE (require_position clock p) (\<lambda>_. Inr ())
      else Inr ())"

definition scan_event ::
  "transaction_clock \<Rightarrow> ('a \<Rightarrow> canonical_event list \<Rightarrow> 'a res) \<Rightarrow> 'a group_scan \<Rightarrow> canonical_event
    \<Rightarrow> 'a group_scan res" where
  "scan_event clock consume s e =
     bindE (check_event_clock clock e) (\<lambda>_.
     let key = canonical_event_sort_key e; identity = (event_boundary e, event_group e) in
     if (case gs_previous_key s of None \<Rightarrow> False | Some previous \<Rightarrow> key \<le> previous) then
       Inl (SnipingEngineError SOURCE_ORDER_INVALID)
     else
       (let s = s\<lparr>gs_previous_key := Some key\<rparr> in
        case gs_identity s of
          None \<Rightarrow> Inr (s\<lparr>gs_current := gs_current s @ [e], gs_identity := Some identity\<rparr>)
        | Some current \<Rightarrow>
            if fst identity = fst current \<and> snd identity \<noteq> snd current then
              Inl (SnipingEngineError MIXED_TRANSACTION_GROUP)
            else if identity = current then Inr (s\<lparr>gs_current := gs_current s @ [e], gs_identity := Some identity\<rparr>)
            else bindE (consume (gs_consumer s) (gs_current s)) (\<lambda>consumer.
              Inr (s\<lparr>gs_current := [e], gs_identity := Some identity, gs_consumer := consumer\<rparr>))))"

definition scan_groups ::
  "transaction_clock \<Rightarrow> ('a \<Rightarrow> canonical_event list \<Rightarrow> 'a res) \<Rightarrow> 'a \<Rightarrow> canonical_event list \<Rightarrow> 'a res" where
  "scan_groups clock consume consumer events =
     bindE (foldE (scan_event clock consume)
       \<lparr>gs_current = [], gs_identity = None, gs_previous_key = None, gs_consumer = consumer\<rparr> events) (\<lambda>s.
     if gs_current s = [] then Inr (gs_consumer s) else consume (gs_consumer s) (gs_current s))"

definition event_groups :: "transaction_clock \<Rightarrow> canonical_event list \<Rightarrow> canonical_event list list res" where
  "event_groups clock events = scan_groups clock (\<lambda>groups g. Inr (groups @ [g])) [] events"

definition sniping_boundary_position :: "canonical_event list \<Rightarrow> chain_position res" where
  "sniping_boundary_position events =
     (let first = ee_position (event_envelope_of (hd events)) in
      ChainPosition (cp_network_id first) (cp_position_schema_id first) (cp_block_ordinal first)
        (cp_transaction_index first) None)"

section \<open>The source\<close>

text \<open>The row index of an indexed source is its event count and its lookup.\<close>

record sniping_source =
  so_logical_content_hash :: digest
  so_replay_semantics_id :: digest
  so_events :: "canonical_event list"
  so_index :: "(int \<times> (int \<Rightarrow> canonical_event res)) option"

definition indexed_count_differs :: "sniping_source \<Rightarrow> int \<Rightarrow> bool" where
  "indexed_count_differs src n = (case so_index src of None \<Rightarrow> False | Some (k, _) \<Rightarrow> n \<noteq> k)"

definition validate_chain_contract :: "transaction_clock \<Rightarrow> sniping_config \<Rightarrow> unit res" where
  "validate_chain_contract clock config =
     raise_if (br_network_id (sg_decision_range config) \<noteq> tc_network_id clock
         \<or> br_position_schema_id (sg_decision_range config) \<noteq> tc_position_schema_id clock)
       (ChainIdentityMismatchError ''decision range and transaction clock use different chain identities'')"

section \<open>Preflight of the clock\<close>

text \<open>The settlement path of a launch: buy landing, sell decision, sell landing.\<close>

definition settlement_path ::
  "transaction_clock \<Rightarrow> int \<Rightarrow> int \<Rightarrow> int \<Rightarrow> chain_position
    \<Rightarrow> (chain_position \<times> chain_position \<times> chain_position) res" where
  "settlement_path clock buy_delay decision_delay_ns sell_delay pos =
     bindE (transaction_after clock pos buy_delay) (\<lambda>landing.
     bindE (block_time_for_position clock landing) (\<lambda>time.
     bindE (first_nonempty_transaction_at_or_after clock landing (time + decision_delay_ns)) (\<lambda>decision.
     bindE (transaction_after clock decision sell_delay) (\<lambda>sale. Inr (landing, decision, sale)))))"

definition preflight_event :: "('s, 'p) sniping_env \<Rightarrow> canonical_event \<Rightarrow> unit res" where
  "preflight_event env e = (case e of
     Token_Launch_Event t \<Rightarrow>
       (let pos = ee_position (tl_envelope t) in
        bindE (contains_position (sg_decision_range (sv_config env)) pos) (\<lambda>inside.
        if \<not> inside then Inr ()
        else bindE (settlement_path (sv_clock env) (sv_buy_delay env) (sv_sell_decision_delay_ns env)
          (sv_sell_delay env) pos) (\<lambda>_. Inr ())))
   | _ \<Rightarrow> Inr ())"

definition preflight_group ::
  "('s, 'p) sniping_env \<Rightarrow> int \<times> int \<Rightarrow> canonical_event list \<Rightarrow> (int \<times> int) res" where
  "preflight_group env = (\<lambda>(events, groups) g.
     bindE (foldE (\<lambda>_ e. preflight_event env e) () g) (\<lambda>_. Inr (events + int (length g), groups + 1)))"

definition preflight_source_clock_coverage :: "('s, 'p) sniping_env \<Rightarrow> sniping_source \<Rightarrow> (int \<times> int) res" where
  "preflight_source_clock_coverage env src =
     bindE (scan_groups (sv_clock env) (preflight_group env) (0, 0) (so_events src)) (\<lambda>(events, groups).
     if indexed_count_differs src events then Inl (SnipingEngineError SOURCE_COUNT_MISMATCH)
     else Inr (events, groups))"

section \<open>Preflight of a delivery schedule\<close>

definition preflight_delivery ::
  "(int \<Rightarrow> canonical_event res) \<Rightarrow> int \<Rightarrow> int \<Rightarrow> (int \<times> int \<times> string) option \<times> int \<Rightarrow> observation_delivery
    \<Rightarrow> ((int \<times> int \<times> string) option \<times> int) res" where
  "preflight_delivery event_at expected declared = (\<lambda>(previous, consumed) d.
     if declared \<le> consumed then Inl (SnipingEngineError DELIVERY_SCHEDULE_INVALID)
     else if \<not> (0 \<le> od_event_row_index d \<and> od_event_row_index d < expected) then
       Inl (SnipingEngineError DELIVERY_SCHEDULE_INVALID)
     else bindE (event_at (od_event_row_index d)) (\<lambda>event.
       if od_release_boundary_ordinal d \<noteq> event_boundary event then
         Inl (SnipingEngineError DELIVERY_SCHEDULE_INVALID)
       else
         (let key = (od_release_boundary_ordinal d, event_boundary event, event_causal_hex event) in
          if (case previous of None \<Rightarrow> False | Some k \<Rightarrow> key \<le> k) then
            Inl (SnipingEngineError DELIVERY_SCHEDULE_INVALID)
          else Inr (Some key, consumed + 1))))"

definition preflight_sniping_delivery_schedule ::
  "sniping_source \<Rightarrow> delivery_source option \<Rightarrow> int \<Rightarrow> unit res" where
  "preflight_sniping_delivery_schedule src schedule expected =
     (case schedule of
        None \<Rightarrow> Inr ()
      | Some s \<Rightarrow> (case so_index src of
          None \<Rightarrow> Inl (SnipingEngineError DELIVERY_SCHEDULE_INVALID)
        | Some (_, event_at) \<Rightarrow>
            if list_ex (\<lambda>n. n < 0) [dv_input_event_count s, dv_delivery_count s, dv_outside_horizon_count s] then
              Inl (SnipingEngineError DELIVERY_SCHEDULE_INVALID)
            else if dv_input_event_count s \<noteq> expected \<or> dv_delivery_count s \<noteq> expected
                \<or> dv_outside_horizon_count s \<noteq> 0 then
              Inl (SnipingEngineError DELIVERY_SCHEDULE_INVALID)
            else bindE (foldE (preflight_delivery event_at expected (dv_delivery_count s)) (None, 0)
                (dv_deliveries s)) (\<lambda>(_, consumed).
              raise_if (consumed \<noteq> dv_delivery_count s) (SnipingEngineError DELIVERY_SCHEDULE_INVALID))))"

section \<open>Merging the deliveries\<close>

record sniping_merge =
  sm_delivery_count :: int
  sm_iterator :: "observation_delivery list"
  sm_next :: "observation_delivery option"
  sm_consumed :: int

definition sniping_merge_advance :: "sniping_merge \<Rightarrow> sniping_merge" where
  "sniping_merge_advance m = (case sm_iterator m of
     [] \<Rightarrow> m\<lparr>sm_next := None\<rparr>
   | d # rest \<Rightarrow> m\<lparr>sm_iterator := rest, sm_next := Some d\<rparr>)"

definition MaterializedSnipingObservationMerge :: "delivery_source \<Rightarrow> sniping_merge" where
  "MaterializedSnipingObservationMerge src = sniping_merge_advance
     \<lparr>sm_delivery_count = dv_delivery_count src, sm_iterator = dv_deliveries src, sm_next = None,
      sm_consumed = 0\<rparr>"

definition expected_rows :: "canonical_event list \<Rightarrow> int \<Rightarrow> int list" where
  "expected_rows events first =
     sort_key (\<lambda>row. event_causal_hex (events ! nat (row - first))) (map (\<lambda>k. first + int k) [0..<length events])"

definition consume_row :: "int \<Rightarrow> sniping_merge \<Rightarrow> int \<Rightarrow> sniping_merge res" where
  "consume_row boundary m row = (case sm_next m of
     None \<Rightarrow> Inl (SnipingEngineError DELIVERY_SCHEDULE_INVALID)
   | Some d \<Rightarrow>
       if od_release_boundary_ordinal d \<noteq> boundary \<or> od_event_row_index d \<noteq> row then
         Inl (SnipingEngineError DELIVERY_SCHEDULE_INVALID)
       else Inr (sniping_merge_advance (m\<lparr>sm_consumed := sm_consumed m + 1\<rparr>)))"

definition consume_group ::
  "int \<Rightarrow> canonical_event list \<Rightarrow> int \<Rightarrow> sniping_merge \<Rightarrow> (int \<times> sniping_merge) res" where
  "consume_group boundary events first m =
     (let rows = expected_rows events first in
      bindE (foldE (consume_row boundary) m rows) (\<lambda>m.
      if (case sm_next m of None \<Rightarrow> False | Some d \<Rightarrow> od_release_boundary_ordinal d = boundary) then
        Inl (SnipingEngineError DELIVERY_SCHEDULE_INVALID)
      else Inr (int (length rows), m)))"

definition finish_sniping_merge :: "sniping_merge option \<Rightarrow> unit res" where
  "finish_sniping_merge merge = (case merge of
     None \<Rightarrow> Inr ()
   | Some m \<Rightarrow> raise_if (sm_next m \<noteq> None \<or> sm_consumed m \<noteq> sm_delivery_count m)
       (SnipingEngineError DELIVERY_SCHEDULE_INVALID))"

end
