(* ===== verification/Sniping_Results.thy ===== *)
theory Sniping_Results
  imports Sniping_Orders
begin

text \<open>
  What a sniping run reports (\<^verbatim>\<open>engine/sniping.py\<close>): the result legs and the record of a finished round
  trip with its valuation, the aggregates over all records, and the shape of the run summary.
\<close>

section \<open>Result legs\<close>

definition charged_network :: "chain_position option \<Rightarrow> network_cost_quote option \<Rightarrow> network_cost_quote option" where
  "charged_network landing network = (if landing = None then None else network)"

definition filled_amount :: "bool \<Rightarrow> protocol_quote option \<Rightarrow> (protocol_quote \<Rightarrow> int) \<Rightarrow> int" where
  "filled_amount filled landing amount = (case landing of None \<Rightarrow> 0 | Some q \<Rightarrow> if filled then amount q else 0)"

definition charged_amount :: "network_cost_quote option \<Rightarrow> (network_cost_quote \<Rightarrow> int) \<Rightarrow> int" where
  "charged_amount network amount = (case network of None \<Rightarrow> 0 | Some n \<Rightarrow> amount n)"

definition buy_leg :: "roundtrip_state \<Rightarrow> roundtrip_leg option res" where
  "buy_leg rx = (case (rx_intent rx, rx_buy_reference rx) of
     (Some i, Some reference) \<Rightarrow>
       let landing = rx_buy_landing rx;
           charged = charged_network (rx_buy_landing_position rx) (rx_buy_network rx);
           filled = 0 < rx_acquired rx in
       bindE (RoundTripLegRecord \<lparr>lg_side = LEG_BUY, lg_decision_position = ri_target_position i,
         lg_landing_position = rx_buy_landing_position rx,
         lg_amount_in = (case landing of None \<Rightarrow> None | Some q \<Rightarrow> if filled then Some (pq_amount_in q) else None),
         lg_reference_out = pq_amount_out reference, lg_landing_out = map_option pq_amount_out landing,
         lg_minimum_out = rx_buy_minimum_out rx,
         lg_signed_slippage = map_option (\<lambda>q. pq_amount_out q - pq_amount_out reference) landing,
         lg_protocol_fee = filled_amount filled landing pq_protocol_fee,
         lg_creator_fee = filled_amount filled landing pq_creator_fee,
         lg_network_base_fee = charged_amount charged nq_base_fee,
         lg_network_priority_fee = charged_amount charged nq_priority_fee,
         lg_failure_code = rx_buy_failure_code rx\<rparr>) (\<lambda>l. Inr (Some l))
   | _ \<Rightarrow> Inr None)"

definition sell_leg :: "roundtrip_state \<Rightarrow> roundtrip_leg option res" where
  "sell_leg rx = (case (rx_sell_reference rx, rx_sell_decision_position rx) of
     (Some reference, Some decision) \<Rightarrow>
       let landing = rx_sell_landing rx;
           charged = charged_network (rx_sell_landing_position rx) (rx_sell_network rx);
           filled = (rx_status rx = CLOSED) in
       bindE (RoundTripLegRecord \<lparr>lg_side = LEG_SELL, lg_decision_position = decision,
         lg_landing_position = rx_sell_landing_position rx,
         lg_amount_in = (if filled then Some (rx_acquired rx) else None),
         lg_reference_out = pq_amount_out reference, lg_landing_out = map_option pq_amount_out landing,
         lg_minimum_out = rx_sell_minimum_out rx,
         lg_signed_slippage = map_option (\<lambda>q. pq_amount_out q - pq_amount_out reference) landing,
         lg_protocol_fee = filled_amount filled landing pq_protocol_fee,
         lg_creator_fee = filled_amount filled landing pq_creator_fee,
         lg_network_base_fee = charged_amount charged nq_base_fee,
         lg_network_priority_fee = charged_amount charged nq_priority_fee,
         lg_failure_code = rx_sell_failure_code rx\<rparr>) (\<lambda>l. Inr (Some l))
   | _ \<Rightarrow> Inr None)"

section \<open>Liquidity and settlement\<close>

definition require_evidence :: "protocol_quote \<Rightarrow> liquidity_evidence res" where
  "require_evidence q = (case pq_liquidity q of
     None \<Rightarrow> Inl (SnipingEngineError QUOTE_CONTRACT_MISMATCH) | Some e \<Rightarrow> Inr e)"

definition quote_liquidity_record :: "protocol_quote \<Rightarrow> quote_evidence res" where
  "quote_liquidity_record q = bindE (require_evidence q) (\<lambda>e.
     QuoteLiquidityEvidenceRecord \<lparr>qe_policy_id = lv_policy_id e, qe_asset_id = lv_asset_id e,
       qe_required_output = lv_required_output e, qe_observed_output = lv_observed_output e,
       qe_synthetic_shortfall = lv_synthetic_shortfall e\<rparr>)"

definition optional_quote_liquidity_record :: "protocol_quote option \<Rightarrow> quote_evidence option res" where
  "optional_quote_liquidity_record q = (case q of
     None \<Rightarrow> Inr None | Some x \<Rightarrow> bindE (quote_liquidity_record x) (\<lambda>r. Inr (Some r)))"

definition settled_synthetic_funded_atomic :: "roundtrip_state \<Rightarrow> int res" where
  "settled_synthetic_funded_atomic rx = (case rx_sell_landing rx of
     Some q \<Rightarrow> if rx_status rx \<noteq> CLOSED then Inr 0
       else bindE (require_evidence q) (\<lambda>e. Inr (lv_synthetic_shortfall e))
   | None \<Rightarrow> Inr 0)"

definition settled_venue_funded_atomic :: "roundtrip_state \<Rightarrow> int res" where
  "settled_venue_funded_atomic rx = (case rx_sell_landing rx of
     Some q \<Rightarrow> if rx_status rx \<noteq> CLOSED then Inr 0
       else bindE (require_evidence q) (\<lambda>e. Inr (lv_required_output e - lv_synthetic_shortfall e))
   | None \<Rightarrow> Inr 0)"

section \<open>Finalizing a round trip\<close>

record roundtrip_valuation =
  va_realized :: "int option"
  va_status :: mtm_status
  va_value :: "int option"
  va_pnl :: "int option"
  va_liquidity :: "quote_evidence option"
  va_economic :: "int option"

definition realized_valuation :: "roundtrip_state \<Rightarrow> int \<Rightarrow> int \<Rightarrow> roundtrip_valuation" where
  "realized_valuation rx cashflow locked = \<lparr>va_realized = Some cashflow, va_status = NOT_APPLICABLE,
     va_value = None, va_pnl = None, va_liquidity = None,
     va_economic = Some (cashflow + rx_cashback rx + locked)\<rparr>"

definition open_valuation ::
  "('s, 'p) sniping_env \<Rightarrow> 'p \<Rightarrow> roundtrip_state \<Rightarrow> int \<Rightarrow> int \<Rightarrow> int \<Rightarrow> roundtrip_valuation res" where
  "open_valuation env protocol rx cashflow locked final_time =
     bindE (require_field (rx_intent rx)) (\<lambda>i.
     bindE (catch_rejected (sv_valuation_quote env protocol i (rx_acquired rx) final_time)) (\<lambda>valued.
     case valued of
       Inr (Some v) \<Rightarrow>
         bindE (sv_cost_sell env final_time) (\<lambda>network.
         bindE (quote_liquidity_record (vq_quote v)) (\<lambda>liquidity.
         let v_out = pq_amount_out (vq_quote v)
               - amount_if_asset (nq_fee_asset_id network) (ri_quote_asset_id i) (transaction_fee_atomic network)
               + asset_amount (refundable_mint_deposits (rx_account_components rx)) (ri_quote_asset_id i) in
         Inr \<lparr>va_realized = None,
           va_status = (if vq_stale_pre_migration v then STALE_PRE_MIGRATION else EXECUTABLE),
           va_value = Some v_out, va_pnl = Some (cashflow + v_out), va_liquidity = Some liquidity,
           va_economic = Some (cashflow + v_out + rx_cashback rx + locked)\<rparr>))
     | _ \<Rightarrow> Inr \<lparr>va_realized = None, va_status = UNAVAILABLE, va_value = None, va_pnl = None,
         va_liquidity = None, va_economic = None\<rparr>))"

definition roundtrip_value ::
  "('s, 'p) sniping_env \<Rightarrow> 'p \<Rightarrow> roundtrip_state \<Rightarrow> int \<Rightarrow> int \<Rightarrow> roundtrip_valuation res" where
  "roundtrip_value env protocol rx cashflow final_time =
     (let locked = asset_amount (run_locked_value (rx_account_components rx))
            (lu_quote_asset_id (rx_target rx)) in
      if rx_status rx = CLOSED then Inr (realized_valuation rx cashflow locked)
      else if 0 < rx_acquired rx then open_valuation env protocol rx cashflow locked final_time
      else Inr (realized_valuation rx cashflow locked))"

definition finalize_roundtrip ::
  "('s, 'p) sniping_env \<Rightarrow> 'p \<Rightarrow> digest \<Rightarrow> roundtrip_state \<Rightarrow> int \<Rightarrow> int \<Rightarrow> roundtrip_record res" where
  "finalize_roundtrip env protocol roundtrip rx cashflow final_time =
     bindE (buy_leg rx) (\<lambda>buy.
     bindE (sell_leg rx) (\<lambda>sell.
     bindE (roundtrip_value env protocol rx cashflow final_time) (\<lambda>v.
     bindE (optional_quote_liquidity_record (rx_sell_reference rx)) (\<lambda>sell_reference.
     bindE (optional_quote_liquidity_record (rx_sell_landing rx)) (\<lambda>sell_landing.
     bindE (settled_venue_funded_atomic rx) (\<lambda>venue.
     bindE (settled_synthetic_funded_atomic rx) (\<lambda>synthetic.
     RoundTripRecord \<lparr>rt_roundtrip_id = roundtrip,
       rt_network_id = cp_network_id (lu_position (rx_target rx)),
       rt_position_schema_id = cp_position_schema_id (lu_position (rx_target rx)),
       rt_target_event_id = lu_target_event_id (rx_target rx), rt_target_position = lu_position (rx_target rx),
       rt_target_time_ns = rx_target_time_ns rx, rt_developer_id = lu_developer_id (rx_target rx),
       rt_creation_user_id = lu_creation_user_id (rx_target rx), rt_asset_id = lu_asset_id (rx_target rx),
       rt_quote_asset_id = lu_quote_asset_id (rx_target rx), rt_venue_id = lu_venue_id (rx_target rx),
       rt_cooldown_consumed = rx_cooldown_consumed rx, rt_cooldown_until_ns = rx_cooldown_until_ns rx,
       rt_status = rx_status rx, rt_buy = buy, rt_sell = sell, rt_acquired = rx_acquired rx,
       rt_cashback = rx_cashback rx, rt_realized_pnl = va_realized v, rt_mtm_status = va_status v,
       rt_mtm_value = va_value v, rt_mtm_pnl = va_pnl v, rt_economic_pnl = va_economic v,
       rt_account_profile_id = sg_wallet_account_profile_id (sv_config env),
       rt_account_components = rx_account_components rx,
       rt_execution_mode = sg_execution_mode (sv_config env), rt_sell_reference_liquidity = sell_reference,
       rt_sell_landing_liquidity = sell_landing, rt_mtm_liquidity = va_liquidity v,
       rt_settled_venue = venue, rt_settled_synthetic = synthetic,
       rt_source_schema_id = ROUNDTRIP_RESULT_SCHEMA_V4\<rparr>)))))))"

section \<open>Aggregates\<close>

record roundtrip_aggregates =
  ag_closed_count :: int
  ag_open_count :: int
  ag_accepted_sell_count :: int
  ag_rejected_buy_count :: int
  ag_rejected_sell_count :: int
  ag_realized_cash_pnl :: int
  ag_valued_economic_pnl :: int
  ag_unvalued_open_count :: int
  ag_cashback_receivable :: int
  ag_protocol_fee_paid :: int
  ag_creator_fee_paid :: int
  ag_network_base_fee_paid :: int
  ag_network_priority_fee_paid :: int
  ag_account_deposit_paid :: int
  ag_account_deposit_refunded :: int
  ag_account_deposit_locked :: int
  ag_favorable_slippage_count :: int
  ag_adverse_slippage_count :: int
  ag_buy_slippage_failures :: int
  ag_sell_slippage_failures :: int
  ag_filled_sell_count :: int
  ag_real_liquidity_sells :: int
  ag_synthetic_liquidity_sells :: int
  ag_gross_sell_settlement :: int
  ag_venue_funded_sells :: int
  ag_synthetic_funded_sells :: int

definition empty_aggregates :: roundtrip_aggregates where
  "empty_aggregates = \<lparr>ag_closed_count = 0, ag_open_count = 0, ag_accepted_sell_count = 0, ag_rejected_buy_count = 0, ag_rejected_sell_count = 0, ag_realized_cash_pnl = 0, ag_valued_economic_pnl = 0, ag_unvalued_open_count = 0, ag_cashback_receivable = 0, ag_protocol_fee_paid = 0, ag_creator_fee_paid = 0, ag_network_base_fee_paid = 0, ag_network_priority_fee_paid = 0, ag_account_deposit_paid = 0, ag_account_deposit_refunded = 0, ag_account_deposit_locked = 0, ag_favorable_slippage_count = 0, ag_adverse_slippage_count = 0, ag_buy_slippage_failures = 0, ag_sell_slippage_failures = 0, ag_filled_sell_count = 0, ag_real_liquidity_sells = 0, ag_synthetic_liquidity_sells = 0, ag_gross_sell_settlement = 0, ag_venue_funded_sells = 0, ag_synthetic_funded_sells = 0\<rparr>"

definition record_closed :: "roundtrip_record \<Rightarrow> bool" where
  "record_closed r \<longleftrightarrow> rt_status r = CLOSED"

definition record_open :: "roundtrip_record \<Rightarrow> bool" where
  "record_open r \<longleftrightarrow> 0 < rt_acquired r \<and> \<not> record_closed r"

definition leg_sum :: "(roundtrip_leg \<Rightarrow> int) \<Rightarrow> roundtrip_record \<Rightarrow> int" where
  "leg_sum amount r = sum_list (map amount (option_list [rt_buy r, rt_sell r]))"

definition component_sum :: "(account_component \<Rightarrow> int) \<Rightarrow> roundtrip_record \<Rightarrow> int" where
  "component_sum amount r = sum_list (map amount (rt_account_components r))"

definition slippage_failure :: "roundtrip_leg option \<Rightarrow> bool" where
  "slippage_failure leg = (case leg of None \<Rightarrow> False
     | Some l \<Rightarrow> lg_failure_code l = Some ''MINIMUM_OUTPUT_NOT_MET'')"

definition aggregate_append :: "roundtrip_aggregates \<Rightarrow> roundtrip_record \<Rightarrow> roundtrip_aggregates" where
  "aggregate_append a r = \<lparr>
     ag_closed_count = ag_closed_count a + of_bool (record_closed r),
     ag_open_count = ag_open_count a + of_bool (record_open r),
     ag_accepted_sell_count = ag_accepted_sell_count a + of_bool (case rt_sell r of None \<Rightarrow> False | Some l \<Rightarrow> lg_landing_position l \<noteq> None),
     ag_rejected_buy_count = ag_rejected_buy_count a + of_bool (rt_status r \<in> {BUY_REFERENCE_REJECTED, BUY_PRE_SUBMIT_INSUFFICIENT_FUNDS}),
     ag_rejected_sell_count = ag_rejected_sell_count a + of_bool (rt_status r \<in> {SELL_REFERENCE_UNAVAILABLE_OPEN, SELL_PRE_SUBMIT_INSUFFICIENT_FUNDS_OPEN}),
     ag_realized_cash_pnl = ag_realized_cash_pnl a + (case rt_realized_pnl r of None \<Rightarrow> 0 | Some v \<Rightarrow> v),
     ag_valued_economic_pnl = ag_valued_economic_pnl a + (case rt_economic_pnl r of None \<Rightarrow> 0 | Some v \<Rightarrow> v),
     ag_unvalued_open_count = ag_unvalued_open_count a + of_bool (rt_economic_pnl r = None \<and> record_open r),
     ag_cashback_receivable = ag_cashback_receivable a + rt_cashback r,
     ag_protocol_fee_paid = ag_protocol_fee_paid a + leg_sum lg_protocol_fee r,
     ag_creator_fee_paid = ag_creator_fee_paid a + leg_sum lg_creator_fee r,
     ag_network_base_fee_paid = ag_network_base_fee_paid a + leg_sum lg_network_base_fee r,
     ag_network_priority_fee_paid = ag_network_priority_fee_paid a + leg_sum lg_network_priority_fee r,
     ag_account_deposit_paid = ag_account_deposit_paid a + component_sum ac_paid r,
     ag_account_deposit_refunded = ag_account_deposit_refunded a + component_sum ac_refunded r,
     ag_account_deposit_locked = ag_account_deposit_locked a + component_sum ac_locked_delta r,
     ag_favorable_slippage_count = ag_favorable_slippage_count a + leg_sum (\<lambda>l. of_bool (case lg_signed_slippage l of None \<Rightarrow> False | Some s \<Rightarrow> 0 < s)) r,
     ag_adverse_slippage_count = ag_adverse_slippage_count a + leg_sum (\<lambda>l. of_bool (case lg_signed_slippage l of None \<Rightarrow> False | Some s \<Rightarrow> s < 0)) r,
     ag_buy_slippage_failures = ag_buy_slippage_failures a + of_bool (slippage_failure (rt_buy r)),
     ag_sell_slippage_failures = ag_sell_slippage_failures a + of_bool (slippage_failure (rt_sell r)),
     ag_filled_sell_count = ag_filled_sell_count a + of_bool (record_closed r),
     ag_real_liquidity_sells = ag_real_liquidity_sells a + of_bool (record_closed r \<and> rt_settled_synthetic r = 0),
     ag_synthetic_liquidity_sells = ag_synthetic_liquidity_sells a + of_bool (record_closed r \<and> rt_settled_synthetic r \<noteq> 0),
     ag_gross_sell_settlement = ag_gross_sell_settlement a + (if record_closed r then rt_settled_venue r + rt_settled_synthetic r else 0),
     ag_venue_funded_sells = ag_venue_funded_sells a + (if record_closed r then rt_settled_venue r else 0),
     ag_synthetic_funded_sells = ag_synthetic_funded_sells a + (if record_closed r then rt_settled_synthetic r else 0)\<rparr>"

definition roundtrip_aggregates_of :: "roundtrip_record list \<Rightarrow> roundtrip_aggregates" where
  "roundtrip_aggregates_of records = foldl aggregate_append empty_aggregates records"

datatype sniping_valuation_status = COMPLETE | PARTIAL_UNVALUED_OPEN_POSITIONS

fun valuation_status_value :: "sniping_valuation_status \<Rightarrow> string" where
  "valuation_status_value COMPLETE = ''COMPLETE''"
| "valuation_status_value PARTIAL_UNVALUED_OPEN_POSITIONS = ''PARTIAL_UNVALUED_OPEN_POSITIONS''"

definition aggregate_valuation_status :: "roundtrip_aggregates \<Rightarrow> sniping_valuation_status" where
  "aggregate_valuation_status a =
     (if ag_unvalued_open_count a \<noteq> 0 then PARTIAL_UNVALUED_OPEN_POSITIONS else COMPLETE)"

definition aggregate_economic_pnl :: "roundtrip_aggregates \<Rightarrow> int option" where
  "aggregate_economic_pnl a = (if ag_unvalued_open_count a \<noteq> 0 then None else Some (ag_valued_economic_pnl a))"

end
