(* ===== verification/Sniping_Effects.thy ===== *)
theory Sniping_Effects
  imports Sniping_Orders
begin

text \<open>
  What the handlers of the sniping engine do to the books: each extends the ledger by valid transactions
  that the portfolio and the cash-flow view applied, moves the wallet forward, and schedules at most the
  next action of its own round trip.
\<close>

section \<open>Extending the books\<close>

definition books_extend :: "sniping_books \<Rightarrow> sniping_books \<Rightarrow> bool" where
  "books_extend b b' \<longleftrightarrow>
     (\<exists>ts. nr_ledger_sink (sb_recorder b') = nr_ledger_sink (sb_recorder b) @ ts
        \<and> foldE portfolio_apply (sb_portfolio b) ts = Inr (sb_portfolio b')
        \<and> foldE cashflow_append (nr_cashflows (sb_recorder b)) ts = Inr (nr_cashflows (sb_recorder b'))
        \<and> list_all valid_transaction ts)
     \<and> (wallet_ok (sb_accounts b) \<longrightarrow> wallet_extends (sb_accounts b) (sb_accounts b'))"

lemma books_extend_refl: "books_extend b b"
  by (auto simp: books_extend_def wallet_extends_refl intro: exI[of _ "[]"])

lemma wallet_extends_ok: "wallet_extends s s' \<Longrightarrow> wallet_ok s'"
  by (simp add: wallet_extends_def)

lemma books_extend_trans:
  assumes "books_extend b b'" and "books_extend b' b''"
  shows "books_extend b b''"
proof -
  obtain ts us where "nr_ledger_sink (sb_recorder b') = nr_ledger_sink (sb_recorder b) @ ts"
    "foldE portfolio_apply (sb_portfolio b) ts = Inr (sb_portfolio b')"
    "foldE cashflow_append (nr_cashflows (sb_recorder b)) ts = Inr (nr_cashflows (sb_recorder b'))"
    "list_all valid_transaction ts" "list_all valid_transaction us"
    "nr_ledger_sink (sb_recorder b'') = nr_ledger_sink (sb_recorder b') @ us"
    "foldE portfolio_apply (sb_portfolio b') us = Inr (sb_portfolio b'')"
    "foldE cashflow_append (nr_cashflows (sb_recorder b')) us = Inr (nr_cashflows (sb_recorder b''))"
    using assms unfolding books_extend_def by blast
  then have "\<exists>vs. nr_ledger_sink (sb_recorder b'') = nr_ledger_sink (sb_recorder b) @ vs
      \<and> foldE portfolio_apply (sb_portfolio b) vs = Inr (sb_portfolio b'')
      \<and> foldE cashflow_append (nr_cashflows (sb_recorder b)) vs = Inr (nr_cashflows (sb_recorder b''))
      \<and> list_all valid_transaction vs"
    by (intro exI[of _ "ts @ us"]) (simp add: foldE_append)
  moreover have "wallet_ok (sb_accounts b) \<longrightarrow> wallet_extends (sb_accounts b) (sb_accounts b'')"
    using assms wallet_extends_trans wallet_extends_ok unfolding books_extend_def by blast
  ultimately show ?thesis unfolding books_extend_def by blast
qed

text \<open>The books move without touching the schedule.\<close>

definition books_step :: "sniping_books \<Rightarrow> sniping_books \<Rightarrow> bool" where
  "books_step b b' \<longleftrightarrow> books_extend b b' \<and> sb_scheduled b' = sb_scheduled b"

lemma books_step_trans [trans]: "books_step b b' \<Longrightarrow> books_step b' b'' \<Longrightarrow> books_step b b''"
  by (auto simp: books_step_def intro: books_extend_trans)

lemma write_audit_step: "write_audit ms b = Inr b' \<Longrightarrow> books_step b b'"
  by (auto simp: write_audit_def snipe_audit_def books_step_def books_extend_def wallet_extends_refl
      intro: exI[of _ "[]"])

lemma fill_step: "snipe_fill (sb_recorder b) f = Inr r \<Longrightarrow> books_step b (b\<lparr>sb_recorder := r\<rparr>)"
  by (auto simp: snipe_fill_def books_step_def books_extend_def wallet_extends_refl intro: exI[of _ "[]"])

lemma sniping_preview_Inr [simp]: "sniping_preview pf t = Inr c \<longleftrightarrow> portfolio_preview pf t = Inr c"
  by (auto simp: sniping_preview_def split: sum.splits exn.splits)

lemma apply_step: "apply_transaction t b = Inr b' \<Longrightarrow> valid_transaction t \<Longrightarrow> books_step b b'"
  by (auto simp: apply_transaction_def snipe_ledger_def books_step_def books_extend_def wallet_extends_refl
      portfolio_apply_def)

lemma apply_accounts_step:
  assumes "apply_transaction_with_accounts t transition b = Inr b'" and "valid_transaction t"
    and "wallet_ok (sb_accounts b) \<Longrightarrow> wallet_extends (sb_accounts b) (pt_state transition)"
  shows "books_step b b'"
  using assms by (auto simp: apply_transaction_with_accounts_def snipe_ledger_def books_step_def books_extend_def
      portfolio_apply_def wallet_commit_def)

lemma schedule_effect:
  assumes "schedule_action pos creator causal act b = Inr b'"
  shows "creator < ordinal_of pos"
    and "b' = b\<lparr>sb_scheduled := heappush ((ordinal_of pos, action_phase act, creator, digest_hex causal), act)
      (sb_scheduled b)\<rparr>"
  using assms by (auto simp: schedule_action_def split: if_splits)

lemma schedule_extends: "books_extend b (b\<lparr>sb_scheduled := s\<rparr>)"
  by (auto simp: books_extend_def wallet_extends_refl intro: exI[of _ "[]"])

section \<open>Settlements are valid transactions\<close>

lemma ledger_transaction_of_valid: "ledger_transaction_of sha r n reason ps = Inr t \<Longrightarrow> valid_transaction t"
  by (auto simp: ledger_transaction_of_def valid_transaction_def LedgerTransaction_def split: if_splits)

lemma settlements_valid:
  "reserve_buy sha i network plan = Inr t \<Longrightarrow> valid_transaction t"
  "reserve_sell sha i tokens network n = Inr t \<Longrightarrow> valid_transaction t"
  "failed_buy_settlement sha i n network plan fees reason = Inr t \<Longrightarrow> valid_transaction t"
  "successful_buy_settlement sha i n q network plan transition fees = Inr t \<Longrightarrow> valid_transaction t"
  "failed_sell_settlement sha i n tokens network fees reason = Inr t \<Longrightarrow> valid_transaction t"
  "successful_sell_settlement sha i n q network tokens transition fees = Inr t \<Longrightarrow> valid_transaction t"
  by (auto simp: reserve_buy_def reserve_sell_def failed_buy_settlement_def successful_buy_settlement_def
      failed_sell_settlement_def successful_sell_settlement_def dest: ledger_transaction_of_valid)

section \<open>Postings by account kind\<close>

text \<open>The liquid kinds are those of the portfolio's own cash: available and reserved.\<close>

definition kind_net :: "posting list \<Rightarrow> account_kind set \<Rightarrow> asset_id \<Rightarrow> int" where
  "kind_net ps K a = sum_list (map po_amount_atomic
     (filter (\<lambda>p. la_kind (po_account p) \<in> K \<and> po_asset_id p = a) ps))"

definition kind_key :: "(account_id, account_kind) dict \<Rightarrow> account_kind set \<Rightarrow> asset_id \<Rightarrow> account_id \<times> asset_id \<Rightarrow> bool" where
  "kind_key kinds K a = (\<lambda>(account, asset). asset = a
     \<and> (case dict_get kinds account of None \<Rightarrow> False | Some k \<Rightarrow> k \<in> K))"

definition balance_sum :: "('k \<Rightarrow> bool) \<Rightarrow> ('k \<times> int) list \<Rightarrow> int" where
  "balance_sum P bal = sum_list (map snd (filter (\<lambda>e. P (fst e)) bal))"

definition kind_total :: "portfolio_state \<Rightarrow> account_kind set \<Rightarrow> asset_id \<Rightarrow> int" where
  "kind_total st K a = balance_sum (kind_key (pf_account_kinds st) K a) (pf_balances st)"

lemma kind_net_simps [simp]:
  "kind_net [] K a = 0"
  "kind_net (p # ps) K a = (if la_kind (po_account p) \<in> K \<and> po_asset_id p = a then po_amount_atomic p else 0)
     + kind_net ps K a"
  "kind_net (ps @ qs) K a = kind_net ps K a + kind_net qs K a"
  by (simp_all add: kind_net_def)

lemma kind_net_of [simp]:
  "kind_net (posting_of account kind asset amount) K a = (if kind \<in> K \<and> asset = a then amount else 0)"
  by (simp add: posting_of_def LedgerAccount_def)

lemma balance_sum_set:
  "balance_sum P (dict_set k v bal) = balance_sum P bal + (if P k then v - dict_get_default bal k 0 else 0)"
  by (induction bal) (auto simp: balance_sum_def dict_get_default_def)

lemma balance_sum_cong: "(\<And>e. e \<in> set bal \<Longrightarrow> P (fst e) = Q (fst e)) \<Longrightarrow> balance_sum P bal = balance_sum Q bal"
  unfolding balance_sum_def by (metis (mono_tags, lifting) filter_cong)

lemma preview_posting_kind:
  assumes "preview_posting c p = Inr c'" and "balances_ok (pc_balances c) (pc_account_kinds c)"
  shows "balance_sum (kind_key (pc_account_kinds c') K a) (pc_balances c')
    = balance_sum (kind_key (pc_account_kinds c) K a) (pc_balances c)
      + (if la_kind (po_account p) \<in> K \<and> po_asset_id p = a then po_amount_atomic p else 0)"
proof -
  let ?a = "la_account_id (po_account p)" and ?k = "la_kind (po_account p)"
  have known: "\<And>k. dict_get (pc_account_kinds c) ?a = Some k \<Longrightarrow> k = ?k"
    using assms(1) by (auto simp: preview_posting_def Let_def split: if_splits option.splits)
  have kinds: "pc_account_kinds c' = dict_set ?a ?k (pc_account_kinds c)"
    and bal: "pc_balances c' = dict_set (?a, po_asset_id p)
      (dict_get_default (pc_balances c) (?a, po_asset_id p) 0 + po_amount_atomic p) (pc_balances c)"
    using assms(1) by (auto simp: preview_posting_def Let_def split: if_splits)
  have keys: "kind_key (pc_account_kinds c') K a (fst e) = kind_key (pc_account_kinds c) K a (fst e)"
    if e: "e \<in> set (pc_balances c)" for e
  proof -
    obtain account asset v where ev: "e = ((account, asset), v)" by (metis surj_pair)
    then have "dict_get (pc_balances c) (account, asset) = Some v"
      using assms(2) e by (simp add: balances_ok_def)
    then obtain k where "dict_get (pc_account_kinds c) account = Some k"
      using assms(2) unfolding balances_ok_def by blast
    then show ?thesis using known by (auto simp: kind_key_def ev kinds dict_get_set)
  qed
  have "balance_sum (kind_key (pc_account_kinds c') K a) (pc_balances c)
      = balance_sum (kind_key (pc_account_kinds c) K a) (pc_balances c)"
    using keys by (rule balance_sum_cong)
  then show ?thesis by (simp add: bal balance_sum_set) (simp add: kind_key_def kinds dict_get_set)
qed

lemma portfolio_apply_kind:
  assumes "portfolio_apply st t = Inr st'" and "portfolio_inv st"
  shows "kind_total st' K a = kind_total st K a + kind_net (lt_postings t) K a"
proof -
  have "balance_sum (kind_key (pc_account_kinds c') K a) (pc_balances c')
      = balance_sum (kind_key (pc_account_kinds c) K a) (pc_balances c) + kind_net ps K a"
    if "foldE preview_posting c ps = Inr c'" "balances_ok (pc_balances c) (pc_account_kinds c)" for c c' ps
    using that
  proof (induction ps arbitrary: c)
    case (Cons p ps)
    then obtain d where "preview_posting c p = Inr d" "foldE preview_posting d ps = Inr c'" by auto
    with Cons preview_posting_ok preview_posting_kind show ?case by fastforce
  qed simp
  with assms show ?thesis
    by (auto simp: portfolio_apply_def portfolio_preview_def portfolio_commit_candidate_def kind_total_def
        portfolio_inv_def)
qed

section \<open>Reserved amounts\<close>

lemma reserve_amounts_kind:
  "reserve_amounts amounts = Inr ps \<Longrightarrow> kind_net ps {PORTFOLIO_RESERVED} a = amounts_at amounts a"
  unfolding reserve_amounts_def by (induction amounts arbitrary: ps) fastforce+

lemma settle_fold_kind:
  assumes "mapE (\<lambda>(asset, reserved_amount).
      let consumed_amount = dict_get_default consumed asset 0 in
      if reserved_amount < consumed_amount then Inl (SnipingEngineError PORTFOLIO_INVARIANT)
      else bindE (reserved_account_id asset) (\<lambda>rs.
        bindE (available_account_id asset) (\<lambda>av.
        Inr (posting_of rs PORTFOLIO_RESERVED asset (- reserved_amount)
          @ posting_of av PORTFOLIO_AVAILABLE asset (reserved_amount - consumed_amount))))) held = Inr pss"
  shows "kind_net (concat pss) {PORTFOLIO_RESERVED} a = - amounts_at held a"
  using assms
proof (induction held arbitrary: pss)
  case (Cons h held)
  then show ?case by (cases h) (fastforce simp: Let_def split: if_splits)
qed simp

lemma settle_kind:
  "settle_reserved_amounts held consumed = Inr ps \<Longrightarrow> kind_net ps {PORTFOLIO_RESERVED} a = - amounts_at held a"
  using settle_fold_kind by (fastforce simp: settle_reserved_amounts_def split: if_splits)

lemmas settlement_defs = reserve_buy_def reserve_sell_def failed_buy_settlement_def
  successful_buy_settlement_def failed_sell_settlement_def successful_sell_settlement_def
  failed_postings_def successful_buy_postings_def successful_sell_postings_def

lemma ledger_transaction_of_kind:
  "ledger_transaction_of sha r n reason ps = Inr t \<Longrightarrow> kind_net (lt_postings t) K a = kind_net ps K a"
  by (auto simp: ledger_transaction_of_def LedgerTransaction_def split: if_splits)

lemma locked_kind: "locked_postings rs = Inr ps \<Longrightarrow> kind_net ps {PORTFOLIO_RESERVED} a = 0"
  unfolding locked_postings_def by (induction rs arbitrary: ps) fastforce+

lemma refund_kind: "refund_postings rs = Inr ps \<Longrightarrow> kind_net ps {PORTFOLIO_RESERVED} a = 0"
  unfolding refund_postings_def by (induction rs arbitrary: ps) fastforce+

lemma cashback_kind: "cashback_postings i q = Inr ps \<Longrightarrow> kind_net ps {PORTFOLIO_RESERVED} a = 0"
  by (auto simp: cashback_postings_def)

lemma synthetic_kind: "synthetic_postings i e = Inr ps \<Longrightarrow> kind_net ps {PORTFOLIO_RESERVED} a = 0"
  by (auto simp: synthetic_postings_def split: if_splits option.splits)

lemmas part_kinds = locked_kind refund_kind cashback_kind synthetic_kind settle_kind reserve_amounts_kind

lemma settlements_reserved:
  "reserve_buy sha i network plan = Inr t \<Longrightarrow>
     kind_net (lt_postings t) {PORTFOLIO_RESERVED} a = amounts_at (buy_reservation i network plan) a"
  "reserve_sell sha i tokens network n = Inr t \<Longrightarrow>
     kind_net (lt_postings t) {PORTFOLIO_RESERVED} a = amounts_at (sell_reservation i tokens network) a"
  "failed_buy_settlement sha i n network plan fees reason = Inr t \<Longrightarrow>
     kind_net (lt_postings t) {PORTFOLIO_RESERVED} a = - amounts_at (buy_reservation i network plan) a"
  "successful_buy_settlement sha i n q network plan transition fees = Inr t \<Longrightarrow>
     kind_net (lt_postings t) {PORTFOLIO_RESERVED} a = - amounts_at (buy_reservation i network plan) a"
  "failed_sell_settlement sha i n tokens network fees reason = Inr t \<Longrightarrow>
     kind_net (lt_postings t) {PORTFOLIO_RESERVED} a = - amounts_at (sell_reservation i tokens network) a"
  "successful_sell_settlement sha i n q network tokens transition fees = Inr t \<Longrightarrow>
     kind_net (lt_postings t) {PORTFOLIO_RESERVED} a = - amounts_at (sell_reservation i tokens network) a"
  by (auto simp: settlement_defs Let_def part_kinds split: option.splits
      dest!: ledger_transaction_of_kind[where K = "{PORTFOLIO_RESERVED}" and a = a])

section \<open>Moves of the reservations\<close>

definition books_reserved :: "sniping_books \<Rightarrow> asset_id \<Rightarrow> int" where
  "books_reserved b a = kind_total (sb_portfolio b) {PORTFOLIO_RESERVED} a"

definition books_move :: "sniping_books \<Rightarrow> sniping_books \<Rightarrow> (asset_id \<Rightarrow> int) \<Rightarrow> bool" where
  "books_move b b' f \<longleftrightarrow> books_step b b'
     \<and> (portfolio_inv (sb_portfolio b) \<longrightarrow> (\<forall>a. books_reserved b' a = books_reserved b a + f a))"

lemma books_extend_inv: "books_extend b b' \<Longrightarrow> portfolio_inv (sb_portfolio b) \<Longrightarrow> portfolio_inv (sb_portfolio b')"
  unfolding books_extend_def by (elim conjE exE, rule foldE_invariant[where P = portfolio_inv]) (auto intro: portfolio_apply_inv)

lemma books_move_trans:
  assumes "books_move b b' f" and "books_move b' b'' g"
  shows "books_move b b'' (\<lambda>a. f a + g a)"
  using assms books_extend_inv[of b b'] books_step_trans[of b b' b'']
  by (auto simp: books_move_def books_step_def)

lemma write_audit_move: "write_audit ms b = Inr b' \<Longrightarrow> books_move b b' (\<lambda>_. 0)"
  by (frule write_audit_step) (auto simp: books_move_def books_reserved_def write_audit_def)

lemma fill_move: "snipe_fill (sb_recorder b) f = Inr r \<Longrightarrow> books_move b (b\<lparr>sb_recorder := r\<rparr>) (\<lambda>_. 0)"
  by (drule fill_step) (simp add: books_move_def books_reserved_def)

lemma apply_kind:
  "apply_transaction t b = Inr b' \<Longrightarrow> portfolio_inv (sb_portfolio b) \<Longrightarrow>
     books_reserved b' a = books_reserved b a + kind_net (lt_postings t) {PORTFOLIO_RESERVED} a"
  using portfolio_apply_kind by (auto simp: apply_transaction_def books_reserved_def portfolio_apply_def)

lemma apply_accounts_kind:
  "apply_transaction_with_accounts t transition b = Inr b' \<Longrightarrow> portfolio_inv (sb_portfolio b) \<Longrightarrow>
     books_reserved b' a = books_reserved b a + kind_net (lt_postings t) {PORTFOLIO_RESERVED} a"
  using portfolio_apply_kind
  by (auto simp: apply_transaction_with_accounts_def books_reserved_def portfolio_apply_def)

lemma apply_move:
  "apply_transaction t b = Inr b' \<Longrightarrow> valid_transaction t \<Longrightarrow>
     books_move b b' (kind_net (lt_postings t) {PORTFOLIO_RESERVED})"
  using apply_step apply_kind by (auto simp: books_move_def)

lemma apply_accounts_move:
  "apply_transaction_with_accounts t transition b = Inr b' \<Longrightarrow> valid_transaction t \<Longrightarrow>
     (wallet_ok (sb_accounts b) \<Longrightarrow> wallet_extends (sb_accounts b) (pt_state transition)) \<Longrightarrow>
     books_move b b' (kind_net (lt_postings t) {PORTFOLIO_RESERVED})"
  using apply_accounts_step apply_accounts_kind by (auto simp: books_move_def)

lemma books_move_step: "books_move b b' f \<Longrightarrow> books_extend b b' \<and> sb_scheduled b' = sb_scheduled b"
  by (simp add: books_move_def books_step_def)

section \<open>Handlers\<close>

text \<open>The action an open round trip waits for, with the state its handler needs.\<close>

fun awaits :: "sniping_action \<Rightarrow> roundtrip_state \<Rightarrow> bool" where
  "awaits (BuyLanding r) rx \<longleftrightarrow> \<not> rx_terminal rx \<and> rx_acquired rx = 0 \<and> rx_status rx = BUY_REFERENCE_REJECTED
     \<and> map_option ri_roundtrip_id (rx_intent rx) = Some r \<and> rx_buy_reference rx \<noteq> None
     \<and> rx_buy_network rx \<noteq> None \<and> rx_account_reservation rx \<noteq> None"
| "awaits (SellDecision r) rx \<longleftrightarrow> \<not> rx_terminal rx \<and> 0 < rx_acquired rx \<and> rx_status rx = OPEN_AT_HORIZON
     \<and> map_option ri_roundtrip_id (rx_intent rx) = Some r"
| "awaits (SellLanding r) rx \<longleftrightarrow> \<not> rx_terminal rx \<and> 0 < rx_acquired rx \<and> rx_status rx = OPEN_AT_HORIZON
     \<and> map_option ri_roundtrip_id (rx_intent rx) = Some r \<and> rx_sell_reference rx \<noteq> None \<and> rx_sell_network rx \<noteq> None"

text \<open>The amount an action's order holds in reserve.\<close>

fun held_for :: "sniping_action \<Rightarrow> roundtrip_state \<Rightarrow> asset_id \<Rightarrow> int" where
  "held_for (BuyLanding r) rx a =
     amounts_at (buy_reservation (the (rx_intent rx)) (the (rx_buy_network rx)) (the (rx_account_reservation rx))) a"
| "held_for (SellDecision r) rx a = 0"
| "held_for (SellLanding r) rx a =
     amounts_at (sell_reservation (the (rx_intent rx)) (rx_acquired rx) (the (rx_sell_network rx))) a"

fun action_weight :: "sniping_action \<Rightarrow> nat" where
  "action_weight (BuyLanding r) = 3"
| "action_weight (SellDecision r) = 2"
| "action_weight (SellLanding r) = 1"

text \<open>
  A handler ends its round trip, or schedules its next action strictly later; the reservation of the
  handled order is released and that of a new order made.
\<close>

definition ends :: "(asset_id \<Rightarrow> int) \<Rightarrow> roundtrip_state \<Rightarrow> sniping_books \<Rightarrow> sniping_books \<Rightarrow> bool" where
  "ends released rx b b' \<longleftrightarrow> rx_terminal rx \<and> rx_status rx \<noteq> OPEN_AT_HORIZON
     \<and> books_move b b' (\<lambda>a. - released a)"

definition reschedules ::
  "digest \<Rightarrow> int \<Rightarrow> nat \<Rightarrow> (asset_id \<Rightarrow> int) \<Rightarrow> roundtrip_state \<Rightarrow> sniping_books \<Rightarrow> sniping_books \<Rightarrow> bool" where
  "reschedules r now w released rx b b' \<longleftrightarrow> (\<exists>c pos causal act.
     action_roundtrip act = r \<and> action_weight act < w \<and> awaits act rx \<and> now < ordinal_of pos
     \<and> books_move b c (\<lambda>a. held_for act rx a - released a)
     \<and> books_move (c\<lparr>sb_scheduled := heappush ((ordinal_of pos, action_phase act, now, causal), act)
          (sb_scheduled c)\<rparr>) b' (\<lambda>_. 0))"

definition handled_to ::
  "digest \<Rightarrow> int \<Rightarrow> nat \<Rightarrow> (asset_id \<Rightarrow> int) \<Rightarrow> roundtrip_state \<Rightarrow> sniping_books \<Rightarrow> sniping_books \<Rightarrow> bool" where
  "handled_to r now w released rx b b' \<longleftrightarrow> ends released rx b b' \<or> reschedules r now w released rx b b'"

lemma reject_buy_ends:
  assumes "reject_buy i status reason record_type plan rx b = Inr (ok, rx', b')" and "status \<noteq> OPEN_AT_HORIZON"
  shows "\<not> ok" and "ends (\<lambda>_. 0) rx' b b'" and "rx_status rx' = status"
  using assms write_audit_move by (auto simp: reject_buy_def ends_def)

lemma submit_buy_reschedules:
  assumes run: "submit_buy env i network plan landing rx b = Inr (ok, rx', b')"
    and rx: "rx_intent rx = Some i" "rx_buy_network rx = Some network" "rx_account_reservation rx = Some plan"
      "awaits (BuyLanding (ri_roundtrip_id i)) rx"
  shows "ok \<and> rx' = rx \<and> reschedules (ri_roundtrip_id i) (ri_created_boundary_ordinal i) 4 (\<lambda>_. 0) rx b b'"
proof -
  obtain t c causal d where t: "reserve_buy (sv_sha env) i network plan = Inr t" and c: "apply_transaction t b = Inr c"
    and d: "schedule_action landing (ri_created_boundary_ordinal i) causal (BuyLanding (ri_roundtrip_id i)) c = Inr d"
    and out: "ok" "rx' = rx" "books_move d b' (\<lambda>_. 0)"
    using run by (auto simp: submit_buy_def dest!: write_audit_move)
  have "kind_net (lt_postings t) {PORTFOLIO_RESERVED} = (\<lambda>a. held_for (BuyLanding (ri_roundtrip_id i)) rx a - 0)"
    using settlements_reserved(1)[OF t] rx by auto
  with apply_move[OF c settlements_valid(1)[OF t]]
  have "books_move b c (\<lambda>a. held_for (BuyLanding (ri_roundtrip_id i)) rx a - 0)" by simp
  then show ?thesis
    using out rx(4) schedule_effect[OF d] unfolding reschedules_def
    by (intro conjI exI[of _ c] exI[of _ landing] exI[of _ "digest_hex causal"]
        exI[of _ "BuyLanding (ri_roundtrip_id i)"]) auto
qed

lemma require_field_Inr [simp]: "require_field v = Inr x \<longleftrightarrow> v = Some x"
  by (auto simp: require_field_def split: option.splits)

lemma sum_case_Inr: "(case q of Inl c \<Rightarrow> f c | Inr x \<Rightarrow> g x) = Inr y \<longleftrightarrow>
    (\<exists>c. q = Inl c \<and> f c = Inr y) \<or> (\<exists>x. q = Inr x \<and> g x = Inr y)"
  by (cases q) auto

lemma if_Inr: "(if c then m else n) = Inr y \<longleftrightarrow> c \<and> m = Inr y \<or> \<not> c \<and> n = Inr y"
  by simp

lemma catch_rejected_Inr: "catch_rejected m = Inr (Inr x) \<longleftrightarrow> m = Inr x"
  by (auto simp: catch_rejected_def split: sum.splits exn.splits)

text \<open>A fresh state of an eligible launch, as the run creates it.\<close>

definition fresh :: "roundtrip_intent \<Rightarrow> roundtrip_state \<Rightarrow> bool" where
  "fresh i rx \<longleftrightarrow> rx_intent rx = Some i \<and> \<not> rx_terminal rx \<and> rx_acquired rx = 0
     \<and> rx_status rx = BUY_REFERENCE_REJECTED"

lemma accept_buy_handled:
  assumes run: "accept_buy env protocol rx b = Inr (ok, rx', b')" and rx: "fresh i rx"
  shows "handled_to (ri_roundtrip_id i) (ri_created_boundary_ordinal i) 4 (\<lambda>_. 0) rx' b b'"
proof -
  obtain network plan quoted where tail: "(case quoted of
       Inl code \<Rightarrow> reject_buy i BUY_REFERENCE_REJECTED code ''BUY_REFERENCE_REJECTED'' plan
         (rx\<lparr>rx_buy_network := Some network, rx_account_reservation := Some plan, rx_buy_failure_code := Some code\<rparr>) b
     | Inr reference \<Rightarrow> submit_quoted_buy env i network plan reference
         (rx\<lparr>rx_buy_network := Some network, rx_account_reservation := Some plan\<rparr>) b) = Inr (ok, rx', b')"
    using run rx by (auto simp: accept_buy_def fresh_def Let_def)
  show ?thesis
  proof (cases quoted)
    case (Inl code)
    then show ?thesis using tail reject_buy_ends(2) unfolding handled_to_def by fastforce
  next
    case (Inr reference)
    have "awaits (BuyLanding (ri_roundtrip_id i)) (rx\<lparr>rx_buy_network := Some network,
        rx_account_reservation := Some plan, rx_buy_reference := Some reference, rx_buy_minimum_out := m\<rparr>)" for m
      using rx by (simp add: fresh_def)
    then show ?thesis
      using tail Inr reject_buy_ends(2) submit_buy_reschedules rx unfolding handled_to_def fresh_def
      by (fastforce simp: submit_quoted_buy_def Let_def split: if_splits)
  qed
qed

lemma fail_landed_buy_ends:
  assumes run: "fail_landed_buy env i pos network plan code rx b = Inr (ok, rx', b')"
    and rx: "rx_intent rx = Some i" "rx_buy_network rx = Some network" "rx_account_reservation rx = Some plan"
  shows "ends (held_for (BuyLanding r) rx) rx' b b'"
proof -
  obtain transition t c where tr: "apply_buy_account_transition (sb_accounts b) plan False = Inr transition"
    and t: "failed_buy_settlement (sv_sha env) i (ordinal_of pos) network plan (sv_fee_collector env) code = Inr t"
    and c: "apply_transaction_with_accounts t transition b = Inr c" and d: "books_move c b' (\<lambda>_. 0)"
    and out: "rx_terminal rx'" "rx_status rx' = BUY_LANDED_FAILED"
    using run by (auto simp: fail_landed_buy_def dest!: write_audit_move)
  have "kind_net (lt_postings t) {PORTFOLIO_RESERVED} = (\<lambda>a. - held_for (BuyLanding r) rx a)"
    using settlements_reserved(3)[OF t] rx by auto
  with books_move_trans[OF apply_accounts_move[OF c settlements_valid(3)[OF t] buy_extends[OF tr]] d] out
  show ?thesis by (simp add: ends_def)
qed

lemma fill_buy_reschedules:
  assumes run: "fill_buy env i pos network plan landing rx b = Inr (ok, rx', b')"
    and rx: "rx_intent rx = Some i" "rx_buy_network rx = Some network" "rx_account_reservation rx = Some plan"
      "\<not> rx_terminal rx" and out: "0 < pq_amount_out landing"
  shows "reschedules (ri_roundtrip_id i) (ordinal_of pos) 3 (held_for (BuyLanding r) rx) rx' b b'"
proof -
  obtain transition t c f recorder decision causal d where
      tr: "apply_buy_account_transition (sb_accounts b) plan True = Inr transition"
    and t: "successful_buy_settlement (sv_sha env) i (ordinal_of pos) landing network plan transition
       (sv_fee_collector env) = Inr t"
    and c: "apply_transaction_with_accounts t transition b = Inr c"
    and f: "snipe_fill (sb_recorder c) f = Inr recorder"
    and d: "schedule_action decision (ordinal_of pos) causal (SellDecision (ri_roundtrip_id i))
       (c\<lparr>sb_recorder := recorder\<rparr>) = Inr d" and e: "books_move d b' (\<lambda>_. 0)"
    and rx': "rx' = rx\<lparr>rx_acquired := pq_amount_out landing, rx_account_components := pt_records transition,
           rx_cashback := rx_cashback rx + pq_cashback landing, rx_status := OPEN_AT_HORIZON\<rparr>"
    using run by (auto simp: fill_buy_def Let_def dest!: write_audit_move)
  have "kind_net (lt_postings t) {PORTFOLIO_RESERVED} = (\<lambda>a. - held_for (BuyLanding r) rx a)"
    using settlements_reserved(4)[OF t] rx by auto
  with books_move_trans[OF apply_accounts_move[OF c settlements_valid(4)[OF t] buy_extends[OF tr]] fill_move[OF f]]
  have "books_move b (c\<lparr>sb_recorder := recorder\<rparr>)
      (\<lambda>a. held_for (SellDecision (ri_roundtrip_id i)) rx' a - held_for (BuyLanding r) rx a)"
    by simp
  then show ?thesis
    using e rx out schedule_effect[OF d] unfolding reschedules_def rx'
    by (intro exI[of _ "c\<lparr>sb_recorder := recorder\<rparr>"] exI[of _ decision] exI[of _ "digest_hex causal"]
        exI[of _ "SellDecision (ri_roundtrip_id i)"]) auto
qed

text \<open>The ports return validated quotes, as the constructor of a quote guarantees.\<close>

definition quotes_valid :: "('s, 'p) sniping_env \<Rightarrow> bool" where
  "quotes_valid env \<longleftrightarrow>
     (\<forall>p i t q. sv_quote_buy env p i t = Inr q \<longrightarrow> ProtocolQuote q = Inr q)
     \<and> (\<forall>p i n t q. sv_quote_sell env p i n t = Inr q \<longrightarrow> ProtocolQuote q = Inr q)"

lemma land_buy_handled:
  assumes run: "land_buy env protocol pos rx b = Inr (ok, rx', b')" and rx: "awaits (BuyLanding r) rx"
    and ports: "quotes_valid env"
  shows "handled_to r (ordinal_of pos) 3 (held_for (BuyLanding r) rx) rx' b b'"
proof -
  obtain i network plan quoted time where i: "rx_intent rx = Some i" "rx_buy_network rx = Some network"
      "rx_account_reservation rx = Some plan" "ri_roundtrip_id i = r" "\<not> rx_terminal rx"
    and q: "catch_rejected (sv_quote_buy env protocol i (time div SECOND)) = Inr quoted"
    and tail: "(case quoted of
       Inl code \<Rightarrow> fail_landed_buy env i pos network plan code (rx\<lparr>rx_buy_landing_position := Some pos\<rparr>) b
     | Inr landing \<Rightarrow> bindE (validate_buy_quote i landing) (\<lambda>_. settle_landed_buy env i pos network plan landing
         (rx\<lparr>rx_buy_landing_position := Some pos, rx_buy_landing := Some landing\<rparr>) b)) = Inr (ok, rx', b')"
    using run rx by (auto simp: land_buy_def Let_def)
  have held: "held_for (BuyLanding r) s = held_for (BuyLanding r) rx"
    if "rx_intent s = rx_intent rx" "rx_buy_network s = rx_buy_network rx"
      "rx_account_reservation s = rx_account_reservation rx" for s
    using that by auto
  have failed: ?thesis if "fail_landed_buy env i pos network plan code s b = Inr (ok, rx', b')"
      "rx_intent s = rx_intent rx" "rx_buy_network s = rx_buy_network rx"
      "rx_account_reservation s = rx_account_reservation rx" for code s
    using fail_landed_buy_ends[OF that(1), of r] held[OF that(2-4)] that i by (simp add: handled_to_def)
  show ?thesis
  proof (cases quoted)
    case (Inl code)
    with tail show ?thesis by (intro failed[of code "rx\<lparr>rx_buy_landing_position := Some pos\<rparr>"]) simp_all
  next
    case (Inr landing)
    let ?s = "rx\<lparr>rx_buy_landing_position := Some pos, rx_buy_landing := Some landing\<rparr>"
    have out: "0 < pq_amount_out landing"
      using q ports ProtocolQuote_amounts(2) unfolding Inr catch_rejected_Inr quotes_valid_def by blast
    from tail consider "fail_landed_buy env i pos network plan ''MINIMUM_OUTPUT_NOT_MET'' ?s b = Inr (ok, rx', b')"
      | "fill_buy env i pos network plan landing ?s b = Inr (ok, rx', b')"
      by (auto simp: Inr settle_landed_buy_def split: if_splits)
    then show ?thesis
    proof cases
      case 1
      then show ?thesis by (rule failed) simp_all
    next
      case 2
      from fill_buy_reschedules[OF 2 _ _ _ _ out, of r] held[of ?s] i show ?thesis by (simp add: handled_to_def)
    qed
  qed
qed

lemma reject_sell_ends:
  assumes "reject_sell i pos status phase reason record_type rx b = Inr (rx', b')" and "status \<noteq> OPEN_AT_HORIZON"
  shows "ends (\<lambda>_. 0) rx' b b'" and "rx_status rx' = status"
  using assms write_audit_move by (auto simp: reject_sell_def ends_def)

lemma submit_sell_reschedules:
  assumes run: "submit_sell env i pos network landing rx b = Inr (rx', b')"
    and rx: "awaits (SellLanding (ri_roundtrip_id i)) rx" "rx_intent rx = Some i" "rx_sell_network rx = Some network"
  shows "rx' = rx \<and> reschedules (ri_roundtrip_id i) (ordinal_of pos) 2 (\<lambda>_. 0) rx b b'"
proof -
  obtain t c causal d where t: "reserve_sell (sv_sha env) i (rx_acquired rx) network (ordinal_of pos) = Inr t"
    and c: "apply_transaction t b = Inr c"
    and d: "schedule_action landing (ordinal_of pos) causal (SellLanding (ri_roundtrip_id i)) c = Inr d"
    and out: "rx' = rx" "books_move d b' (\<lambda>_. 0)"
    using run by (auto simp: submit_sell_def dest!: write_audit_move)
  have "kind_net (lt_postings t) {PORTFOLIO_RESERVED} = (\<lambda>a. held_for (SellLanding (ri_roundtrip_id i)) rx a - 0)"
    using settlements_reserved(2)[OF t] rx by auto
  with apply_move[OF c settlements_valid(2)[OF t]]
  have "books_move b c (\<lambda>a. held_for (SellLanding (ri_roundtrip_id i)) rx a - 0)" by simp
  then show ?thesis
    using out rx(1) schedule_effect[OF d] unfolding reschedules_def
    by (intro conjI exI[of _ c] exI[of _ landing] exI[of _ "digest_hex causal"]
        exI[of _ "SellLanding (ri_roundtrip_id i)"]) auto
qed

lemma decide_sell_handled:
  assumes run: "decide_sell env protocol pos rx b = Inr (rx', b')" and rx: "awaits (SellDecision r) rx"
  shows "handled_to r (ordinal_of pos) 2 (\<lambda>_. 0) rx' b b'"
proof -
  obtain i quoted effective where i: "rx_intent rx = Some i" "ri_roundtrip_id i = r"
    and tail: "(case quoted of
         Inl code \<Rightarrow> reject_sell i pos SELL_REFERENCE_UNAVAILABLE_OPEN STRATEGY_CALLBACK code
           ''SELL_REFERENCE_UNAVAILABLE''
           (rx\<lparr>rx_sell_decision_position := Some pos, rx_sell_failure_code := Some code\<rparr>) b
       | Inr reference \<Rightarrow> submit_quoted_sell env i pos effective reference
           (rx\<lparr>rx_sell_decision_position := Some pos\<rparr>) b) = Inr (rx', b')"
    using run rx by (auto simp: decide_sell_def Let_def split: if_splits)
  show ?thesis
  proof (cases quoted)
    case (Inl code)
    then show ?thesis using tail reject_sell_ends(1) unfolding handled_to_def by fastforce
  next
    case (Inr reference)
    have "awaits (SellLanding r) (rx\<lparr>rx_sell_decision_position := Some pos, rx_sell_reference := Some reference,
        rx_sell_minimum_out := m, rx_sell_network := Some network\<rparr>)" for m network
      using rx by simp
    then show ?thesis
      using tail Inr reject_sell_ends(1) submit_sell_reschedules i unfolding handled_to_def
      by (fastforce simp: submit_quoted_sell_def Let_def split: if_splits)
  qed
qed

lemma fail_landed_sell_ends:
  assumes run: "fail_landed_sell env i pos network code rx b = Inr (ok, rx', b')"
    and rx: "rx_intent rx = Some i" "rx_sell_network rx = Some network"
  shows "ends (held_for (SellLanding r) rx) rx' b b'"
proof -
  obtain t c where t: "failed_sell_settlement (sv_sha env) i (ordinal_of pos) (rx_acquired rx) network
      (sv_fee_collector env) code = Inr t"
    and c: "apply_transaction t b = Inr c" and d: "books_move c b' (\<lambda>_. 0)"
    and out: "rx_terminal rx'" "rx_status rx' = SELL_LANDED_FAILED_OPEN"
    using run by (auto simp: fail_landed_sell_def dest!: write_audit_move)
  have "kind_net (lt_postings t) {PORTFOLIO_RESERVED} = (\<lambda>a. - held_for (SellLanding r) rx a)"
    using settlements_reserved(5)[OF t] rx by auto
  with books_move_trans[OF apply_move[OF c settlements_valid(5)[OF t]] d] out
  show ?thesis by (simp add: ends_def)
qed

lemma fill_sell_ends:
  assumes run: "fill_sell env i pos network landing rx b = Inr (ok, rx', b')"
    and rx: "rx_intent rx = Some i" "rx_sell_network rx = Some network"
  shows "ends (held_for (SellLanding r) rx) rx' b b'"
proof -
  obtain transition t c f recorder where
      tr: "apply_sell_account_transition (sb_accounts b) (ri_roundtrip_id i) (ri_asset_id i)
         (rx_account_components rx) True = Inr transition"
    and t: "successful_sell_settlement (sv_sha env) i (ordinal_of pos) landing network (rx_acquired rx) transition
       (sv_fee_collector env) = Inr t"
    and c: "apply_transaction_with_accounts t transition b = Inr c"
    and f: "snipe_fill (sb_recorder c) f = Inr recorder"
    and e: "books_move (c\<lparr>sb_recorder := recorder\<rparr>) b' (\<lambda>_. 0)"
    and out: "rx_terminal rx'" "rx_status rx' = CLOSED"
    using run by (auto simp: fill_sell_def Let_def dest!: write_audit_move)
  have "kind_net (lt_postings t) {PORTFOLIO_RESERVED} = (\<lambda>a. - held_for (SellLanding r) rx a)"
    using settlements_reserved(6)[OF t] rx by auto
  with books_move_trans[OF books_move_trans[OF apply_accounts_move[OF c settlements_valid(6)[OF t] sell_extends[OF tr]]
      fill_move[OF f]] e] out
  show ?thesis by (simp add: ends_def)
qed

lemma land_sell_handled:
  assumes run: "land_sell env protocol pos rx b = Inr (ok, rx', b')" and rx: "awaits (SellLanding r) rx"
  shows "ends (held_for (SellLanding r) rx) rx' b b'"
proof -
  obtain i network quoted where i: "rx_intent rx = Some i" "rx_sell_network rx = Some network"
    and tail: "(case quoted of
       Inl code \<Rightarrow> fail_landed_sell env i pos network code (rx\<lparr>rx_sell_landing_position := Some pos\<rparr>) b
     | Inr landing \<Rightarrow> bindE (validate_sell_quote (sv_sha env) i (rx_acquired rx) landing) (\<lambda>_.
         settle_landed_sell env i pos network landing
           (rx\<lparr>rx_sell_landing_position := Some pos, rx_sell_landing := Some landing\<rparr>) b)) = Inr (ok, rx', b')"
    using run rx by (auto simp: land_sell_def Let_def)
  have held: "held_for (SellLanding r) s = held_for (SellLanding r) rx"
    if "rx_intent s = rx_intent rx" "rx_acquired s = rx_acquired rx" "rx_sell_network s = rx_sell_network rx" for s
    using that by auto
  have failed: ?thesis if "fail_landed_sell env i pos network code s b = Inr (ok, rx', b')"
      "rx_intent s = rx_intent rx" "rx_acquired s = rx_acquired rx" "rx_sell_network s = rx_sell_network rx" for code s
    using fail_landed_sell_ends[OF that(1), of r] held[of s] that i by simp
  have filled: ?thesis if "fill_sell env i pos network landing s b = Inr (ok, rx', b')"
      "rx_intent s = rx_intent rx" "rx_acquired s = rx_acquired rx" "rx_sell_network s = rx_sell_network rx" for landing s
    using fill_sell_ends[OF that(1), of r] held[of s] that i by simp
  show ?thesis
  proof (cases quoted)
    case (Inl code)
    with tail show ?thesis by (intro failed[of code "rx\<lparr>rx_sell_landing_position := Some pos\<rparr>"]) simp_all
  next
    case (Inr landing)
    let ?s = "rx\<lparr>rx_sell_landing_position := Some pos, rx_sell_landing := Some landing\<rparr>"
    from tail consider "fail_landed_sell env i pos network ''MINIMUM_OUTPUT_NOT_MET'' ?s b = Inr (ok, rx', b')"
      | "fill_sell env i pos network landing ?s b = Inr (ok, rx', b')"
      by (auto simp: Inr settle_landed_sell_def split: if_splits)
    then show ?thesis
    proof cases
      case 1
      then show ?thesis by (rule failed) simp_all
    next
      case 2
      then show ?thesis by (rule filled) simp_all
    qed
  qed
qed

section \<open>Work left on the schedule\<close>

definition scheduled_work :: "sniping_books \<Rightarrow> nat" where
  "scheduled_work b = sum_list (map (action_weight \<circ> snd) (sb_scheduled b))"

lemma scheduled_same:
  "write_audit ms b = Inr b' \<Longrightarrow> sb_scheduled b' = sb_scheduled b"
  "apply_transaction t b = Inr b' \<Longrightarrow> sb_scheduled b' = sb_scheduled b"
  "apply_transaction_with_accounts t transition b = Inr b' \<Longrightarrow> sb_scheduled b' = sb_scheduled b"
  by (auto simp: write_audit_def apply_transaction_def apply_transaction_with_accounts_def)

lemma heappush_work: "sum_list (map f (heappush x h)) = (f x + sum_list (map f h) :: nat)"
proof -
  have "mset (heappush x h) = add_mset x (mset h)" by (simp add: heappush_def)
  then have "mset (map f (heappush x h)) = mset (map f (x # h))" by simp
  then show ?thesis using sum_mset_sum_list by (metis list.simps(9) sum_list.Cons)
qed

lemma schedule_work:
  "schedule_action pos creator causal act b = Inr b' \<Longrightarrow> scheduled_work b' = action_weight act + scheduled_work b"
  by (drule schedule_effect(2)) (simp add: scheduled_work_def heappush_work)

lemmas work_simps = sum_case_Inr if_Inr Let_def scheduled_work_def

lemma decide_sell_work:
  "decide_sell env protocol pos rx b = Inr (rx', b') \<Longrightarrow> scheduled_work b' \<le> 1 + scheduled_work b"
  by (auto simp: decide_sell_def reject_sell_def submit_quoted_sell_def submit_sell_def work_simps
      dest!: scheduled_same schedule_work)

lemma land_buy_work:
  "land_buy env protocol pos rx b = Inr (ok, rx', b') \<Longrightarrow> scheduled_work b' \<le> 2 + scheduled_work b"
  by (auto simp: land_buy_def settle_landed_buy_def fail_landed_buy_def fill_buy_def work_simps
      dest!: scheduled_same schedule_work)

lemma land_sell_work:
  "land_sell env protocol pos rx b = Inr (ok, rx', b') \<Longrightarrow> scheduled_work b' = scheduled_work b"
  by (auto simp: land_sell_def settle_landed_sell_def fail_landed_sell_def fill_sell_def work_simps
      dest!: scheduled_same)

end
