(* ===== verification/Sniping_Engine.thy ===== *)
theory Sniping_Engine
  imports Sniping_Source Sniping_Results Sniping_Effects
begin

text \<open>
  The sniping run (\<^verbatim>\<open>SnipingReferenceEngine.run\<close> of \<^verbatim>\<open>engine/sniping.py\<close>): boundary by boundary it merges the
  historical groups with the scheduled actions. At a boundary the group is applied and its deliveries
  consumed, then due sells are decided, launches are handled, landed orders settle, and the boundary is
  checkpointed. The finished states become the records and the summary.
\<close>

section \<open>State\<close>

record ('s, 'p) sniping_state =
  sn_books :: sniping_books
  sn_states :: "(digest, roundtrip_state) dict"
  sn_strategy :: 's
  sn_protocol :: 'p
  sn_merge :: "sniping_merge option"
  sn_event_count :: int
  sn_delivered_count :: int
  sn_group_count :: int
  sn_target_count :: int
  sn_cooldown_skipped :: int
  sn_accepted_buys :: int
  sn_failed_buys :: int
  sn_failed_sells :: int

definition initial_sniping_state ::
  "sniping_config \<Rightarrow> delivery_source option \<Rightarrow> 's \<Rightarrow> 'p \<Rightarrow> ('s, 'p) sniping_state res" where
  "initial_sniping_state config schedule strategy protocol =
     bindE SnipingRecorder (\<lambda>recorder.
     bindE (PortfolioState (sg_initial_available config)) (\<lambda>portfolio.
     bindE (initial_wallet_provisioning_state (sg_initial_uva_state config) (sg_uva_schema_id config)) (\<lambda>accounts.
     Inr \<lparr>sn_books = \<lparr>sb_portfolio = portfolio, sb_accounts = accounts, sb_recorder = recorder, sb_scheduled = []\<rparr>,
       sn_states = [], sn_strategy = strategy, sn_protocol = protocol,
       sn_merge = map_option MaterializedSnipingObservationMerge schedule, sn_event_count = 0,
       sn_delivered_count = 0, sn_group_count = 0, sn_target_count = 0, sn_cooldown_skipped = 0,
       sn_accepted_buys = 0, sn_failed_buys = 0, sn_failed_sells = 0\<rparr>)))"

definition note_audit :: "(string, json) dict \<Rightarrow> ('s, 'p) sniping_state \<Rightarrow> ('s, 'p) sniping_state res" where
  "note_audit members st = bindE (write_audit members (sn_books st)) (\<lambda>b. Inr (st\<lparr>sn_books := b\<rparr>))"

definition require_state :: "(digest, roundtrip_state) dict \<Rightarrow> digest \<Rightarrow> roundtrip_state res" where
  "require_state states r = (case dict_get states r of
     None \<Rightarrow> Inl (SnipingEngineError INTERNAL_STATE_INVALID) | Some rx \<Rightarrow> Inr rx)"

definition update_roundtrip ::
  "digest \<Rightarrow> roundtrip_state \<Rightarrow> sniping_books \<Rightarrow> ('s, 'p) sniping_state \<Rightarrow> ('s, 'p) sniping_state" where
  "update_roundtrip r rx b st = st\<lparr>sn_states := dict_set r rx (sn_states st), sn_books := b\<rparr>"

section \<open>The historical group\<close>

definition deliver_group ::
  "int \<Rightarrow> canonical_event list \<Rightarrow> int \<Rightarrow> ('s, 'p) sniping_state \<Rightarrow> ('s, 'p) sniping_state res" where
  "deliver_group boundary events first st = (case sn_merge st of
     None \<Rightarrow> Inr (st\<lparr>sn_delivered_count := sn_delivered_count st + int (length events)\<rparr>)
   | Some m \<Rightarrow> bindE (consume_group boundary events first m) (\<lambda>(n, m).
       Inr (st\<lparr>sn_delivered_count := sn_delivered_count st + n, sn_merge := Some m\<rparr>)))"

definition replay_group ::
  "('s, 'p) sniping_env \<Rightarrow> int \<Rightarrow> canonical_event list \<Rightarrow> ('s, 'p) sniping_state
    \<Rightarrow> (chain_position \<times> launch_target list \<times> ('s, 'p) sniping_state) res" where
  "replay_group env boundary events st =
     bindE (sniping_boundary_position events) (\<lambda>pos.
     bindE (block_time_for_block (sv_clock env) (cp_block_ordinal pos)) (\<lambda>time.
     bindE (sv_apply_group env (sn_protocol st) events (time div SECOND)) (\<lambda>(targets, protocol).
     bindE (ensure_single_launch targets) (\<lambda>launches.
     let first = sn_event_count st in
     bindE (note_audit [(''boundary_ordinal'', JInt boundary),
         (''event_ids'', JArr (map (\<lambda>e. JStr (digest_hex (ee_canonical_event_id (event_envelope_of e)))) events)),
         phase_entry HISTORICAL_REFERENCE_APPLY, (''record_type'', JStr ''HISTORICAL_GROUP_APPLIED''),
         (''transaction_group_id'', JStr (digest_hex (event_group (hd events))))]
       (st\<lparr>sn_protocol := protocol, sn_event_count := first + int (length events),
          sn_group_count := sn_group_count st + 1\<rparr>)) (\<lambda>st.
     bindE (deliver_group boundary events first st) (\<lambda>st. Inr (pos, launches, st)))))))"

section \<open>Scheduled actions\<close>

definition take_actions ::
  "int \<Rightarrow> action_kind \<Rightarrow> ('s, 'p) sniping_state \<Rightarrow> sniping_action list \<times> ('s, 'p) sniping_state" where
  "take_actions boundary maximum_phase st =
     (let (actions, rest) = pop_actions (sb_scheduled (sn_books st)) boundary maximum_phase
      in (actions, st\<lparr>sn_books := sn_books st\<lparr>sb_scheduled := rest\<rparr>\<rparr>))"

definition decide_action ::
  "('s, 'p) sniping_env \<Rightarrow> chain_position \<Rightarrow> ('s, 'p) sniping_state \<Rightarrow> sniping_action
    \<Rightarrow> ('s, 'p) sniping_state res" where
  "decide_action env pos st action = (case action of
     SellDecision r \<Rightarrow>
       bindE (require_state (sn_states st) r) (\<lambda>rx.
       bindE (decide_sell env (sn_protocol st) pos rx (sn_books st)) (\<lambda>(rx, b).
       Inr (update_roundtrip r rx b st)))
   | _ \<Rightarrow> Inl (SnipingEngineError INTERNAL_STATE_INVALID))"

definition count_failure :: "bool \<Rightarrow> int" where "count_failure filled = (if filled then 0 else 1)"

definition land_action ::
  "('s, 'p) sniping_env \<Rightarrow> chain_position \<Rightarrow> ('s, 'p) sniping_state \<Rightarrow> sniping_action
    \<Rightarrow> ('s, 'p) sniping_state res" where
  "land_action env pos st action =
     bindE (require_state (sn_states st) (action_roundtrip action)) (\<lambda>rx.
     case action of
       BuyLanding r \<Rightarrow>
         bindE (land_buy env (sn_protocol st) pos rx (sn_books st)) (\<lambda>(filled, rx, b).
         Inr ((update_roundtrip r rx b st)\<lparr>sn_failed_buys := sn_failed_buys st + count_failure filled\<rparr>))
     | SellLanding r \<Rightarrow>
         bindE (land_sell env (sn_protocol st) pos rx (sn_books st)) (\<lambda>(filled, rx, b).
         Inr ((update_roundtrip r rx b st)\<lparr>sn_failed_sells := sn_failed_sells st + count_failure filled\<rparr>))
     | SellDecision r \<Rightarrow> Inl (SnipingEngineError INTERNAL_STATE_INVALID))"

section \<open>Launches\<close>

definition skip_launch ::
  "int \<Rightarrow> launch_target \<Rightarrow> int \<Rightarrow> launch_decision \<Rightarrow> ('s, 'p) sniping_state \<Rightarrow> ('s, 'p) sniping_state res" where
  "skip_launch boundary target time decision st =
     note_audit [(''boundary_ordinal'', JInt boundary), (''developer_id'', JStr (lu_developer_id target)),
         phase_entry STRATEGY_CALLBACK, (''record_type'', JStr ''TARGET_COOLDOWN_SKIPPED''),
         (''roundtrip_id'', JStr (digest_hex (ld_roundtrip_id decision)))]
       (st\<lparr>sn_cooldown_skipped := sn_cooldown_skipped st + 1, sn_states := dict_set (ld_roundtrip_id decision)
          (RoundTripState target time False (ld_cooldown_until_ns decision) None COOLDOWN_SKIPPED True)
          (sn_states st)\<rparr>)"

definition accept_launch ::
  "('s, 'p) sniping_env \<Rightarrow> launch_target \<Rightarrow> int \<Rightarrow> launch_decision \<Rightarrow> ('s, 'p) sniping_state
    \<Rightarrow> ('s, 'p) sniping_state res" where
  "accept_launch env target time decision st =
     bindE (require_field (ld_intent decision)) (\<lambda>i.
     if ri_execution_mode i \<noteq> sg_execution_mode (sv_config env) then
       Inl (SnipingEngineError INTERNAL_STATE_INVALID)
     else
       bindE (accept_buy env (sn_protocol st)
         (RoundTripState target time True (ld_cooldown_until_ns decision) (Some i) BUY_REFERENCE_REJECTED False)
         (sn_books st)) (\<lambda>(accepted, rx, b).
       Inr ((update_roundtrip (ld_roundtrip_id decision) rx b st)
         \<lparr>sn_accepted_buys := sn_accepted_buys st + (if accepted then 1 else 0)\<rparr>)))"

definition handle_launch ::
  "('s, 'p) sniping_env \<Rightarrow> int \<Rightarrow> ('s, 'p) sniping_state \<Rightarrow> launch_target \<Rightarrow> ('s, 'p) sniping_state res" where
  "handle_launch env boundary st target =
     bindE (contains_position (sg_decision_range (sv_config env)) (lu_position target)) (\<lambda>inside.
     if \<not> inside then
       note_audit [(''boundary_ordinal'', JInt boundary), phase_entry STRATEGY_CALLBACK,
         (''record_type'', JStr ''TARGET_OUTSIDE_DECISION_RANGE''),
         (''target_event_id'', JStr (digest_hex (lu_target_event_id target)))] st
     else if sg_maximum_dynamic_items (sv_config env) \<le> int (length (sn_states st)) then
       Inl (SnipingEngineError DYNAMIC_ITEM_LIMIT_EXCEEDED)
     else
       bindE (block_time_for_position (sv_clock env) (lu_position target)) (\<lambda>time.
       bindE (sv_decide env (sn_strategy st) target time) (\<lambda>(decision, strategy).
       let st = st\<lparr>sn_target_count := sn_target_count st + 1, sn_strategy := strategy\<rparr> in
       if ld_roundtrip_id decision \<in> set (dict_keys (sn_states st)) then
         Inl (SnipingEngineError DUPLICATE_ROUNDTRIP)
       else if ld_status decision = COOLDOWN_SUPPRESSED then skip_launch boundary target time decision st
       else accept_launch env target time decision st)))"

section \<open>One boundary\<close>

definition next_boundary :: "int option \<Rightarrow> int option \<Rightarrow> int res" where
  "next_boundary historical scheduled = (case (historical, scheduled) of
     (None, None) \<Rightarrow> Inl (SnipingEngineError INTERNAL_STATE_INVALID)
   | (Some g, None) \<Rightarrow> Inr g | (None, Some s) \<Rightarrow> Inr s | (Some g, Some s) \<Rightarrow> Inr (min g s))"

definition group_boundary :: "canonical_event list list \<Rightarrow> int option" where
  "group_boundary groups = (case groups of [] \<Rightarrow> None | g # _ \<Rightarrow> Some (event_boundary (hd g)))"

definition scheduled_boundary :: "sniping_books \<Rightarrow> int option" where
  "scheduled_boundary b = map_option (\<lambda>((release, _), _). release) (heap_top (sb_scheduled b))"

definition open_boundary ::
  "('s, 'p) sniping_env \<Rightarrow> int \<Rightarrow> canonical_event list list \<Rightarrow> ('s, 'p) sniping_state
    \<Rightarrow> (chain_position \<times> launch_target list \<times> canonical_event list list \<times> ('s, 'p) sniping_state) res" where
  "open_boundary env boundary groups st =
     (if group_boundary groups = Some boundary then
        bindE (replay_group env boundary (hd groups) st) (\<lambda>(pos, launches, st). Inr (pos, launches, tl groups, st))
      else
        bindE (from_boundary_ordinal (tc_network_id (sv_clock env)) (tc_position_schema_id (sv_clock env))
          boundary None) (\<lambda>pos. Inr (pos, [], groups, st)))"

definition decision_phase ::
  "('s, 'p) sniping_env \<Rightarrow> int \<Rightarrow> chain_position \<Rightarrow> ('s, 'p) sniping_state \<Rightarrow> ('s, 'p) sniping_state res" where
  "decision_phase env boundary pos st =
     (let (actions, st) = take_actions boundary DECISION_ACTION st in foldE (decide_action env pos) st actions)"

definition landing_phase ::
  "('s, 'p) sniping_env \<Rightarrow> int \<Rightarrow> chain_position \<Rightarrow> ('s, 'p) sniping_state \<Rightarrow> ('s, 'p) sniping_state res" where
  "landing_phase env boundary pos st =
     (let (actions, st) = take_actions boundary LANDING_ACTION st in foldE (land_action env pos) st actions)"

definition close_boundary ::
  "('s, 'p) sniping_env \<Rightarrow> int \<Rightarrow> ('s, 'p) sniping_state \<Rightarrow> ('s, 'p) sniping_state res" where
  "close_boundary env boundary st =
     (if sg_maximum_dynamic_items (sv_config env) < int (length (sb_scheduled (sn_books st))) then
        Inl (SnipingEngineError DYNAMIC_ITEM_LIMIT_EXCEEDED)
      else note_audit [(''boundary_ordinal'', JInt boundary), phase_entry CHECKPOINT,
          (''record_type'', JStr ''BOUNDARY_CHECKPOINT'')] st)"

definition sniping_boundary ::
  "('s, 'p) sniping_env \<Rightarrow> canonical_event list list \<Rightarrow> ('s, 'p) sniping_state
    \<Rightarrow> (canonical_event list list \<times> ('s, 'p) sniping_state) res" where
  "sniping_boundary env groups st =
     bindE (next_boundary (group_boundary groups) (scheduled_boundary (sn_books st))) (\<lambda>boundary.
     bindE (open_boundary env boundary groups st) (\<lambda>(pos, launches, groups, st).
     bindE (decision_phase env boundary pos st) (\<lambda>st.
     bindE (foldE (handle_launch env boundary) st launches) (\<lambda>st.
     bindE (landing_phase env boundary pos st) (\<lambda>st.
     bindE (close_boundary env boundary st) (\<lambda>st. Inr (groups, st)))))))"

section \<open>The loop\<close>

text \<open>
  A boundary consumes a group or at least one scheduled action, and an action is replaced by a later stage
  of its round trip at most: the pair of the groups left and the work left decreases.
\<close>

abbreviation work_left :: "('s, 'p) sniping_state \<Rightarrow> nat" where
  "work_left st \<equiv> scheduled_work (sn_books st)"

lemma pop_actions_split:
  assumes "pop_actions h n k = (actions, rest)"
  obtains es where "h = es @ rest" and "map snd es = actions"
    and "\<And>e. e \<in> set es \<Longrightarrow> fst (fst e) = n \<and> fst (snd (fst e)) \<le> k"
proof -
  have "\<exists>es. h = es @ rest \<and> map snd es = actions \<and> (\<forall>e \<in> set es. fst (fst e) = n \<and> fst (snd (fst e)) \<le> k)"
    using assms
  proof (induction h n k arbitrary: actions rest rule: pop_actions.induct)
    case (1 h n k)
    show ?case
    proof (cases "\<exists>release phase tie act. heap_top h = Some ((release, phase, tie), act) \<and> release = n \<and> \<not> k < phase")
      case True
      then obtain phase tie act where top: "heap_top h = Some ((n, phase, tie), act)" "\<not> k < phase" by blast
      obtain vs where vs: "pop_actions (heappop h) n k = (vs, rest)" "actions = act # vs"
        using 1(2) top pop_actions.simps[of h n k] by (auto simp: Let_def split: prod.splits)
      have h: "h = ((n, phase, tie), act) # heappop h"
        using top by (cases h) (auto simp: heap_top_def heappop_def)
      obtain es where "heappop h = es @ rest" "map snd es = vs"
          "\<forall>e \<in> set es. fst (fst e) = n \<and> fst (snd (fst e)) \<le> k"
        using 1(1)[OF top(1) refl refl refl, of vs rest] vs(1) top(2) by auto
      then show ?thesis
        using h vs(2) top(2) by (intro exI[of _ "((n, phase, tie), act) # es"]) (simp add: not_less)
    next
      case False
      then have "actions = [] \<and> rest = h"
        using 1(2) pop_actions.simps[of h n k]
        by (auto split: option.splits if_splits prod.splits)
      then show ?thesis by simp
    qed
  qed
  with that show ?thesis by blast
qed

lemma pop_actions_top:
  assumes "pop_actions h n k = ([], rest)" and "heap_top h = Some ((n, phase, tie), act)"
  shows "k < phase" and "rest = h"
  using assms pop_actions.simps[of h n k] by (auto simp: Let_def split: if_splits prod.splits)

lemma take_actions_work:
  assumes "take_actions n k st = (actions, st')"
  shows "work_left st = sum_list (map action_weight actions) + work_left st'"
proof -
  obtain rest where rest: "pop_actions (sb_scheduled (sn_books st)) n k = (actions, rest)"
    and st': "st' = st\<lparr>sn_books := sn_books st\<lparr>sb_scheduled := rest\<rparr>\<rparr>"
    using assms by (auto simp: take_actions_def split: prod.splits)
  from rest obtain es where "sb_scheduled (sn_books st) = es @ rest" "map snd es = actions"
    by (rule pop_actions_split)
  then show ?thesis by (auto simp: st' scheduled_work_def)
qed

lemma decide_action_work: "decide_action env pos st act = Inr st' \<Longrightarrow>
    work_left st' < action_weight act + work_left st"
  by (auto simp: decide_action_def update_roundtrip_def split: sniping_action.splits dest!: decide_sell_work)

lemma land_action_work: "land_action env pos st act = Inr st' \<Longrightarrow>
    work_left st' < action_weight act + work_left st"
  by (cases act) (auto simp: land_action_def update_roundtrip_def dest!: land_buy_work land_sell_work)

lemma actions_work:
  assumes "foldE f st actions = Inr st'"
    and "\<And>st act st'. f st act = Inr st' \<Longrightarrow> work_left st' < action_weight act + work_left st"
  shows "work_left st' + length actions \<le> sum_list (map action_weight actions) + work_left st"
  using assms(1)
proof (induction actions arbitrary: st)
  case (Cons act actions)
  then obtain st1 where "f st act = Inr st1" and rest: "foldE f st1 actions = Inr st'" by auto
  from assms(2)[OF this(1)] Cons.IH[OF rest] show ?case by simp
qed simp

lemma decision_phase_work:
  assumes "decision_phase env n pos st = Inr st'" and "take_actions n DECISION_ACTION st = (actions, st1)"
  shows "work_left st' + length actions \<le> work_left st"
  using actions_work[of "decide_action env pos" st1 actions st', OF _ decide_action_work] take_actions_work[OF assms(2)] assms
  by (auto simp: decision_phase_def)

lemma landing_phase_work:
  assumes "landing_phase env n pos st = Inr st'" and "take_actions n LANDING_ACTION st = (actions, st1)"
  shows "work_left st' + length actions \<le> work_left st"
  using actions_work[of "land_action env pos" st1 actions st', OF _ land_action_work] take_actions_work[OF assms(2)] assms
  by (auto simp: landing_phase_def)

lemma note_audit_Inr: "note_audit ms st = Inr st' \<Longrightarrow> \<exists>b. write_audit ms (sn_books st) = Inr b \<and> st' = st\<lparr>sn_books := b\<rparr>"
  by (auto simp: note_audit_def)

lemma close_boundary_work: "close_boundary env n st = Inr st' \<Longrightarrow> work_left st' = work_left st"
  by (auto simp: close_boundary_def scheduled_work_def split: if_splits dest!: note_audit_Inr scheduled_same)

lemma synthetic_boundary_decreases:
  assumes run: "sniping_boundary env groups st = Inr (groups', st')" and same: "length groups' = length groups"
  shows "work_left st' < work_left st"
proof -
  obtain n pos launches st1 st2 st3 st4 where n: "next_boundary (group_boundary groups) (scheduled_boundary (sn_books st)) = Inr n"
    and o: "open_boundary env n groups st = Inr (pos, launches, groups', st1)"
    and d: "decision_phase env n pos st1 = Inr st2" and l: "foldE (handle_launch env n) st2 launches = Inr st3"
    and s: "landing_phase env n pos st3 = Inr st4" and c: "close_boundary env n st4 = Inr st'"
    using run by (auto simp: sniping_boundary_def)
  have g: "group_boundary groups \<noteq> Some n"
    using o same by (auto simp: open_boundary_def group_boundary_def split: list.splits)
  with o have st1: "st1 = st" and launches: "launches = []" by (auto simp: open_boundary_def)
  obtain phase tie act where top: "heap_top (sb_scheduled (sn_books st)) = Some ((n, phase, tie), act)"
    using n g by (auto simp: next_boundary_def scheduled_boundary_def min_def split: option.splits if_splits)
  obtain ds sd where ds: "take_actions n DECISION_ACTION st1 = (ds, sd)" by (metis surj_pair)
  obtain ls sl where ls: "take_actions n LANDING_ACTION st3 = (ls, sl)" by (metis surj_pair)
  have st3: "st3 = st2" using l launches by simp
  have "0 < length ds + length ls"
  proof (rule ccontr)
    assume "\<not> 0 < length ds + length ls"
    then have none: "ds = []" "ls = []" by auto
    obtain rest where pop: "pop_actions (sb_scheduled (sn_books st)) n DECISION_ACTION = ([], rest)"
        and sd: "sd = st\<lparr>sn_books := sn_books st\<lparr>sb_scheduled := rest\<rparr>\<rparr>"
      using ds none st1 by (auto simp: take_actions_def split: prod.splits)
    from pop_actions_top[OF pop top] sd have "sd = st" by simp
    with d ds none have "st2 = st" by (simp add: decision_phase_def st1)
    with ls none st3 obtain rest' where "pop_actions (sb_scheduled (sn_books st)) n LANDING_ACTION = ([], rest')"
      by (auto simp: take_actions_def split: prod.splits)
    from pop_actions_top[OF this top] show False by simp
  qed
  then show ?thesis
    using decision_phase_work[OF d ds, unfolded st1] landing_phase_work[OF s ls, unfolded st3]
      close_boundary_work[OF c] by linarith
qed

lemma boundary_consumes:
  assumes "sniping_boundary env groups st = Inr (groups', st')"
  shows "groups' = groups \<or> (groups \<noteq> [] \<and> groups' = tl groups)"
  using assms by (auto simp: sniping_boundary_def open_boundary_def group_boundary_def split: if_splits list.splits)

function (sequential) sniping_loop ::
  "('s, 'p) sniping_env \<Rightarrow> canonical_event list list \<Rightarrow> ('s, 'p) sniping_state \<Rightarrow> ('s, 'p) sniping_state res" where
  "sniping_loop env groups st =
     (if groups = [] \<and> sb_scheduled (sn_books st) = [] then Inr st
      else bindE (sniping_boundary env groups st) (\<lambda>(groups', st'). sniping_loop env groups' st'))"
  by pat_completeness auto
termination
proof (relation "measures [\<lambda>(env, groups, st). length groups, \<lambda>(env, groups, st). work_left st]")
  fix env :: "('s, 'p) sniping_env" and groups groups' st st' x
  assume "sniping_boundary env groups st = Inr x" and "(groups', st') = x"
  then have run: "sniping_boundary env groups st = Inr (groups', st')" by simp
  then show "((env, groups', st'), env, groups, st)
      \<in> measures [\<lambda>(env, groups, st). length groups, \<lambda>(env, groups, st). work_left st]"
    using boundary_consumes[OF run] synthetic_boundary_decreases[OF run] by auto
qed simp

declare sniping_loop.simps [simp del]

end
