(* ===== verification/Sniping_Run.thy ===== *)
theory Sniping_Run
  imports Sniping_Engine
begin

text \<open>
  A whole sniping run (\<^verbatim>\<open>SnipingReferenceEngine.run\<close> of \<^verbatim>\<open>engine/sniping.py\<close>): the preflights, the loop, the
  closing counts, the record of every round trip and the summary; then what a finished run guarantees.
\<close>

section \<open>The summary\<close>

record sniping_summary =
  sy_dataset_logical_content_hash :: "digest"
  sy_replay_semantics_id :: "digest"
  sy_engine_bundle_id :: "digest"
  sy_strategy_bundle_id :: "digest"
  sy_protocol_bundle_id :: "digest"
  sy_network_cost_bundle_id :: "digest"
  sy_historical_group_count :: "int"
  sy_historical_event_count :: "int"
  sy_delivered_event_count :: "int"
  sy_target_count :: "int"
  sy_cooldown_skipped_count :: "int"
  sy_accepted_buy_count :: "int"
  sy_accepted_sell_count :: "int"
  sy_rejected_buy_count :: "int"
  sy_rejected_sell_count :: "int"
  sy_accepted_order_count :: "int"
  sy_rejected_order_count :: "int"
  sy_filled_order_count :: "int"
  sy_failed_order_count :: "int"
  sy_closed_roundtrip_count :: "int"
  sy_open_position_count :: "int"
  sy_failed_buy_count :: "int"
  sy_failed_sell_count :: "int"
  sy_realized_cash_pnl_atomic :: "int"
  sy_valuation_status :: "sniping_valuation_status"
  sy_unvalued_open_position_count :: "int"
  sy_valued_economic_pnl_subtotal_atomic :: "int"
  sy_economic_pnl_atomic :: "int option"
  sy_cashback_receivable_atomic :: "int"
  sy_protocol_fee_paid_atomic :: "int"
  sy_creator_fee_paid_atomic :: "int"
  sy_network_base_fee_paid_atomic :: "int"
  sy_network_priority_fee_paid_atomic :: "int"
  sy_account_deposit_paid_atomic :: "int"
  sy_account_deposit_refunded_atomic :: "int"
  sy_account_deposit_locked_atomic :: "int"
  sy_favorable_slippage_count :: "int"
  sy_adverse_slippage_count :: "int"
  sy_buy_slippage_failure_count :: "int"
  sy_sell_slippage_failure_count :: "int"
  sy_ledger_transaction_count :: "int"
  sy_fill_count :: "int"
  sy_roundtrip_count :: "int"
  sy_audit_hash :: "digest"
  sy_ledger_hash :: "digest"
  sy_fill_hash :: "digest"
  sy_roundtrip_digest :: "digest"
  sy_final_balances_digest :: "digest"
  sy_result_hash :: "digest"
  sy_final_balances :: "(string \<times> string \<times> string \<times> int) list"
  sy_execution_mode :: "execution_mode"
  sy_settlement_policy_id :: "string"
  sy_filled_sell_count :: "int"
  sy_real_liquidity_sufficient_filled_sell_count :: "int"
  sy_synthetic_liquidity_used_sell_count :: "int"
  sy_gross_sell_settlement_atomic :: "int"
  sy_venue_funded_sell_atomic :: "int"
  sy_synthetic_funded_sell_atomic :: "int"

definition accepted_orders :: "('s, 'p) sniping_state \<Rightarrow> roundtrip_aggregates \<Rightarrow> int" where
  "accepted_orders st a = sn_accepted_buys st + ag_accepted_sell_count a"

definition rejected_orders :: "roundtrip_aggregates \<Rightarrow> int" where
  "rejected_orders a = ag_rejected_buy_count a + ag_rejected_sell_count a"

definition finalize_all ::
  "('s, 'p) sniping_env \<Rightarrow> int \<Rightarrow> ('s, 'p) sniping_state
    \<Rightarrow> (roundtrip_record list \<times> sniping_recorder) res" where
  "finalize_all env final_time st = foldE (\<lambda>(records, r) (roundtrip, rx).
     bindE (finalize_roundtrip env (sn_protocol st) roundtrip rx
       (cashflow_amount (nr_cashflows r) roundtrip (lu_quote_asset_id (rx_target rx))) final_time) (\<lambda>rec.
     bindE (snipe_roundtrip r rec) (\<lambda>r. Inr (records @ [rec], r)))) ([], sb_recorder (sn_books st)) (sn_states st)"

definition balances_stream :: "(string \<times> string \<times> string \<times> int) list \<Rightarrow> stream_hasher res" where
  "balances_stream rows =
     bindE (CanonicalStreamHasher ''backtest.sniping-final-balances.v1'') (\<lambda>h.
     foldE stream_append h (map (\<lambda>(account, kind, asset, amount).
       JArr [JStr account, JStr kind, JStr asset, JInt amount]) rows))"

definition sniping_result_document ::
  "('s, 'p) sniping_env \<Rightarrow> ('s, 'p) sniping_state \<Rightarrow> roundtrip_aggregates \<Rightarrow> sniping_recorder \<Rightarrow> string
    \<Rightarrow> digest \<Rightarrow> digest \<Rightarrow> digest \<Rightarrow> digest \<Rightarrow> (string \<times> string \<times> string \<times> int) list \<Rightarrow> json" where
  "sniping_result_document env st a r policy ledger_hash fill_hash roundtrip_digest balances_digest final_balances =
     JObj [
       (''accepted_order_count'', JInt (accepted_orders st a)),
       (''account_deposit_locked_atomic'', JInt (ag_account_deposit_locked a)),
       (''account_deposit_paid_atomic'', JInt (ag_account_deposit_paid a)),
       (''account_deposit_refunded_atomic'', JInt (ag_account_deposit_refunded a)),
       (''adverse_slippage_count'', JInt (ag_adverse_slippage_count a)),
       (''buy_slippage_failure_count'', JInt (ag_buy_slippage_failures a)),
       (''cashback_receivable_atomic'', JInt (ag_cashback_receivable a)),
       (''closed_roundtrip_count'', JInt (ag_closed_count a)),
       (''creator_fee_paid_atomic'', JInt (ag_creator_fee_paid a)),
       (''economic_pnl_atomic'', optional_int (aggregate_economic_pnl a)),
       (''execution_mode'', JStr (execution_mode_value (sg_execution_mode (sv_config env)))),
       (''failed_buy_count'', JInt (sn_failed_buys st)),
       (''failed_sell_count'', JInt (sn_failed_sells st)),
       (''favorable_slippage_count'', JInt (ag_favorable_slippage_count a)),
       (''fill_count'', JInt (int (sh_count (nr_fills r)))),
       (''fill_hash'', JStr (digest_hex fill_hash)),
       (''filled_sell_count'', JInt (ag_filled_sell_count a)),
       (''final_balances_count'', JInt (int (length final_balances))),
       (''final_balances_digest'', JStr (digest_hex balances_digest)),
       (''ledger_hash'', JStr (digest_hex ledger_hash)),
       (''ledger_transaction_count'', JInt (int (sh_count (nr_ledger r)))),
       (''network_base_fee_paid_atomic'', JInt (ag_network_base_fee_paid a)),
       (''network_priority_fee_paid_atomic'', JInt (ag_network_priority_fee_paid a)),
       (''open_position_count'', JInt (ag_open_count a)),
       (''protocol_fee_paid_atomic'', JInt (ag_protocol_fee_paid a)),
       (''real_liquidity_sufficient_filled_sell_count'', JInt (ag_real_liquidity_sells a)),
       (''realized_cash_pnl_atomic'', JInt (ag_realized_cash_pnl a)),
       (''rejected_order_count'', JInt (rejected_orders a)),
       (''roundtrip_count'', JInt (int (sh_count (nr_roundtrips r)))),
       (''roundtrip_digest'', JStr (digest_hex roundtrip_digest)),
       (''sell_slippage_failure_count'', JInt (ag_sell_slippage_failures a)),
       (''settlement_policy_id'', JStr policy),
       (''gross_sell_settlement_atomic'', JInt (ag_gross_sell_settlement a)),
       (''venue_funded_sell_atomic'', JInt (ag_venue_funded_sells a)),
       (''synthetic_funded_sell_atomic'', JInt (ag_synthetic_funded_sells a)),
       (''synthetic_liquidity_used_sell_count'', JInt (ag_synthetic_liquidity_sells a)),
       (''unvalued_open_position_count'', JInt (ag_unvalued_open_count a)),
       (''valuation_status'', JStr (valuation_status_value (aggregate_valuation_status a))),
       (''valued_economic_pnl_subtotal_atomic'', JInt (ag_valued_economic_pnl a))]"

definition sniping_summary_of ::
  "('s, 'p) sniping_env \<Rightarrow> sniping_source \<Rightarrow> ('s, 'p) sniping_state \<Rightarrow> roundtrip_record list
    \<Rightarrow> sniping_recorder \<Rightarrow> sniping_summary res" where
  "sniping_summary_of env src st records r =
     bindE (semantic_balances (sb_portfolio (sn_books st))) (\<lambda>final_balances.
     bindE (balances_stream final_balances) (\<lambda>balances.
     let a = roundtrip_aggregates_of records in
     bindE (stream_digest (sv_sha env) (nr_fills r)) (\<lambda>fill_hash.
     bindE (stream_digest (sv_sha env) balances) (\<lambda>balances_digest.
     bindE (stream_digest (sv_sha env) (nr_ledger r)) (\<lambda>ledger_hash.
     bindE (stream_digest (sv_sha env) (nr_roundtrips r)) (\<lambda>roundtrip_digest.
     bindE (liquidity_policy_id_for_execution_mode (sg_execution_mode (sv_config env))) (\<lambda>policy.
     bindE (stream_digest (sv_sha env) (nr_audit r)) (\<lambda>audit_hash.
     bindE (domain_digest (sv_sha env) ''backtest.canonical-sniping-run-result.v4''
       (sniping_result_document env st a r policy ledger_hash fill_hash roundtrip_digest balances_digest
          final_balances)) (\<lambda>result_hash.
     Inr \<lparr>
       sy_dataset_logical_content_hash = so_logical_content_hash src,
       sy_replay_semantics_id = so_replay_semantics_id src,
       sy_engine_bundle_id = sg_engine_bundle_id (sv_config env),
       sy_strategy_bundle_id = sv_strategy_bundle_id env,
       sy_protocol_bundle_id = sv_protocol_bundle_id env,
       sy_network_cost_bundle_id = sv_network_cost_bundle_id env,
       sy_historical_group_count = sn_group_count st,
       sy_historical_event_count = sn_event_count st,
       sy_delivered_event_count = sn_delivered_count st,
       sy_target_count = sn_target_count st,
       sy_cooldown_skipped_count = sn_cooldown_skipped st,
       sy_accepted_buy_count = sn_accepted_buys st,
       sy_accepted_sell_count = ag_accepted_sell_count a,
       sy_rejected_buy_count = ag_rejected_buy_count a,
       sy_rejected_sell_count = ag_rejected_sell_count a,
       sy_accepted_order_count = accepted_orders st a,
       sy_rejected_order_count = rejected_orders a,
       sy_filled_order_count = int (sh_count (nr_fills r)),
       sy_failed_order_count = sn_failed_buys st + sn_failed_sells st,
       sy_closed_roundtrip_count = ag_closed_count a,
       sy_open_position_count = ag_open_count a,
       sy_failed_buy_count = sn_failed_buys st,
       sy_failed_sell_count = sn_failed_sells st,
       sy_realized_cash_pnl_atomic = ag_realized_cash_pnl a,
       sy_valuation_status = aggregate_valuation_status a,
       sy_unvalued_open_position_count = ag_unvalued_open_count a,
       sy_valued_economic_pnl_subtotal_atomic = ag_valued_economic_pnl a,
       sy_economic_pnl_atomic = aggregate_economic_pnl a,
       sy_cashback_receivable_atomic = ag_cashback_receivable a,
       sy_protocol_fee_paid_atomic = ag_protocol_fee_paid a,
       sy_creator_fee_paid_atomic = ag_creator_fee_paid a,
       sy_network_base_fee_paid_atomic = ag_network_base_fee_paid a,
       sy_network_priority_fee_paid_atomic = ag_network_priority_fee_paid a,
       sy_account_deposit_paid_atomic = ag_account_deposit_paid a,
       sy_account_deposit_refunded_atomic = ag_account_deposit_refunded a,
       sy_account_deposit_locked_atomic = ag_account_deposit_locked a,
       sy_favorable_slippage_count = ag_favorable_slippage_count a,
       sy_adverse_slippage_count = ag_adverse_slippage_count a,
       sy_buy_slippage_failure_count = ag_buy_slippage_failures a,
       sy_sell_slippage_failure_count = ag_sell_slippage_failures a,
       sy_ledger_transaction_count = int (sh_count (nr_ledger r)),
       sy_fill_count = int (sh_count (nr_fills r)),
       sy_roundtrip_count = int (sh_count (nr_roundtrips r)),
       sy_audit_hash = audit_hash,
       sy_ledger_hash = ledger_hash,
       sy_fill_hash = fill_hash,
       sy_roundtrip_digest = roundtrip_digest,
       sy_final_balances_digest = balances_digest,
       sy_result_hash = result_hash,
       sy_final_balances = final_balances,
       sy_execution_mode = sg_execution_mode (sv_config env),
       sy_settlement_policy_id = policy,
       sy_filled_sell_count = ag_filled_sell_count a,
       sy_real_liquidity_sufficient_filled_sell_count = ag_real_liquidity_sells a,
       sy_synthetic_liquidity_used_sell_count = ag_synthetic_liquidity_sells a,
       sy_gross_sell_settlement_atomic = ag_gross_sell_settlement a,
       sy_venue_funded_sell_atomic = ag_venue_funded_sells a,
       sy_synthetic_funded_sell_atomic = ag_synthetic_funded_sells a\<rparr>)))))))))"

section \<open>The run\<close>

definition check_sniping_counts ::
  "sniping_source \<Rightarrow> int \<Rightarrow> int \<Rightarrow> ('s, 'p) sniping_state \<Rightarrow> unit res" where
  "check_sniping_counts src events groups st =
     (if sn_event_count st \<noteq> events \<or> sn_group_count st \<noteq> groups then
        Inl (SnipingEngineError SOURCE_COUNT_MISMATCH)
      else if indexed_count_differs src (sn_event_count st) then Inl (SnipingEngineError SOURCE_COUNT_MISMATCH)
      else bindE (finish_sniping_merge (sn_merge st)) (\<lambda>_.
        raise_if (sn_delivered_count st \<noteq> sn_event_count st) (SnipingEngineError DELIVERY_SCHEDULE_INVALID)))"

text \<open>The final state is returned beside the summary and the records.\<close>

definition run_sniping ::
  "('s, 'p) sniping_env \<Rightarrow> sniping_source \<Rightarrow> delivery_source option \<Rightarrow> int \<Rightarrow> 's \<Rightarrow> 'p
    \<Rightarrow> (sniping_summary \<times> roundtrip_record list \<times> ('s, 'p) sniping_state) res" where
  "run_sniping env src schedule threads strategy protocol =
     (if threads \<noteq> 1 then
        Inl (ValueError ''one sniping run requires exactly one sequential engine thread'')
      else
        bindE (validate_chain_contract (sv_clock env) (sv_config env)) (\<lambda>_.
        bindE (preflight_source_clock_coverage env src) (\<lambda>(events, groups).
        bindE (preflight_sniping_delivery_schedule src schedule events) (\<lambda>_.
        bindE (initial_sniping_state (sv_config env) schedule strategy protocol) (\<lambda>st.
        bindE (event_groups (sv_clock env) (so_events src)) (\<lambda>grouped.
        bindE (sniping_loop env grouped st) (\<lambda>st.
        bindE (check_sniping_counts src events groups st) (\<lambda>_.
        bindE (finalize_all env (last (tc_times (sv_clock env)) div SECOND) st) (\<lambda>(records, r).
        bindE (sniping_summary_of env src st records r) (\<lambda>summary.
        Inr (summary, records, st)))))))))))"

end
