(* ===== verification/Sniping_Invariants.thy ===== *)
theory Sniping_Invariants
  imports Sniping_Run
begin

text \<open>
  What every boundary of a sniping run keeps: the scheduled actions are exactly the next actions of the open
  round trips, the reserved balances are exactly what those actions' orders hold, and the books extend the
  opening books. A finished run has nothing scheduled, so every round trip ended and nothing stays reserved.
\<close>

section \<open>Open round trips and their actions\<close>

definition single_actions :: "sniping_action multiset \<Rightarrow> bool" where
  "single_actions M \<longleftrightarrow> (\<forall>r. count (image_mset action_roundtrip M) r \<le> 1)"

definition awaited :: "(digest, roundtrip_state) dict \<Rightarrow> sniping_action \<Rightarrow> bool" where
  "awaited states act \<longleftrightarrow> (\<exists>rx. dict_get states (action_roundtrip act) = Some rx \<and> awaits act rx)"

definition settled_or_due :: "sniping_action multiset \<Rightarrow> digest \<Rightarrow> roundtrip_state \<Rightarrow> bool" where
  "settled_or_due M r rx \<longleftrightarrow>
     (if rx_terminal rx then rx_status rx \<noteq> OPEN_AT_HORIZON else r \<in># image_mset action_roundtrip M)"

definition held_by :: "(digest, roundtrip_state) dict \<Rightarrow> sniping_action multiset \<Rightarrow> asset_id \<Rightarrow> int" where
  "held_by states M a = (\<Sum>act \<in># M. held_for act (the (dict_get states (action_roundtrip act))) a)"

definition keys_distinct :: "('k, 'v) dict \<Rightarrow> bool" where
  "keys_distinct d \<longleftrightarrow> distinct (dict_keys d)"

lemma keys_distinct_set: "keys_distinct d \<Longrightarrow> keys_distinct (dict_set k v d)"
  by (simp add: keys_distinct_def distinct_update)

definition tracks :: "(digest, roundtrip_state) dict \<Rightarrow> sniping_action multiset \<Rightarrow> (asset_id \<Rightarrow> int) \<Rightarrow> bool" where
  "tracks states M res \<longleftrightarrow> keys_distinct states \<and> single_actions M \<and> (\<forall>act \<in># M. awaited states act)
     \<and> (\<forall>r rx. dict_get states r = Some rx \<longrightarrow> settled_or_due M r rx) \<and> (\<forall>a. res a = held_by states M a)"

text \<open>The same for every round trip but one, whose action is being handled.\<close>

definition tracks_except ::
  "digest \<Rightarrow> (digest, roundtrip_state) dict \<Rightarrow> sniping_action multiset \<Rightarrow> (asset_id \<Rightarrow> int) \<Rightarrow> bool" where
  "tracks_except r states M res \<longleftrightarrow> keys_distinct states \<and> single_actions M
     \<and> (\<forall>act \<in># M. action_roundtrip act \<noteq> r \<and> awaited states act)
     \<and> (\<forall>s rx. s \<noteq> r \<longrightarrow> dict_get states s = Some rx \<longrightarrow> settled_or_due M s rx)
     \<and> (\<forall>a. res a = held_by states M a)"

lemma single_add: "single_actions (add_mset act M) \<longleftrightarrow>
    single_actions M \<and> (\<forall>act' \<in># M. action_roundtrip act' \<noteq> action_roundtrip act)"
proof -
  have "count (image_mset action_roundtrip M) (action_roundtrip act) = 0
      \<longleftrightarrow> (\<forall>act' \<in># M. action_roundtrip act' \<noteq> action_roundtrip act)"
    unfolding count_eq_zero_iff set_image_mset image_iff by metis
  moreover have "(\<forall>r. (if x = r then Suc (c r) else c r) \<le> 1) \<longleftrightarrow> (\<forall>r. c r \<le> 1) \<and> c x = 0"
    for c :: "digest \<Rightarrow> nat" and x
  proof
    assume l: "\<forall>r. (if x = r then Suc (c r) else c r) \<le> 1"
    then have "Suc (c x) \<le> 1" by (metis (full_types))
    moreover have "c r \<le> 1" for r using l[rule_format, of r] by (simp split: if_splits)
    ultimately show "(\<forall>r. c r \<le> 1) \<and> c x = 0" by simp
  qed simp
  ultimately have "single_actions (add_mset act M) \<longleftrightarrow>
      single_actions M \<and> (\<forall>act' \<in># M. action_roundtrip act' \<noteq> action_roundtrip act)"
    unfolding single_actions_def image_mset_add_mset count_add_mset by simp
  then show ?thesis .
qed

lemma held_by_set: "(\<forall>act \<in># M. action_roundtrip act \<noteq> r) \<Longrightarrow> held_by (dict_set r rx states) M a = held_by states M a"
  unfolding held_by_def by (rule arg_cong[where f = sum_mset], rule image_mset_cong) (auto simp: dict_get_set)

lemma tracks_take:
  assumes "tracks states (add_mset act M) res"
  obtains rx where "dict_get states (action_roundtrip act) = Some rx" "awaits act rx"
    and "tracks_except (action_roundtrip act) states M (\<lambda>a. res a - held_for act rx a)"
proof -
  from assms obtain rx where rx: "dict_get states (action_roundtrip act) = Some rx" "awaits act rx"
    by (auto simp: tracks_def awaited_def)
  moreover have "tracks_except (action_roundtrip act) states M (\<lambda>a. res a - held_for act rx a)"
    using assms rx(1) unfolding tracks_def tracks_except_def single_add
    by (auto simp: held_by_def settled_or_due_def split: if_splits)
  ultimately show ?thesis by (rule that)
qed

lemma tracks_skip:
  assumes "tracks states M res" and "r \<notin> set (dict_keys states)"
  shows "tracks_except r states M res"
proof -
  have "action_roundtrip act \<noteq> r" if "awaited states act" for act
    using that assms(2) by (metis awaited_def dom_map_of_conv_image_fst domI list.set_map)
  with assms(1) show ?thesis by (simp add: tracks_def tracks_except_def)
qed

lemma tracks_end:
  assumes "tracks_except r states M res" and "rx_terminal rx" and "rx_status rx \<noteq> OPEN_AT_HORIZON"
  shows "tracks (dict_set r rx states) M res"
  using assms held_by_set[of M r rx states]
  by (auto simp: tracks_def tracks_except_def awaited_def settled_or_due_def dict_get_set keys_distinct_set)

lemma tracks_next:
  assumes "tracks_except r states M res" and "awaits act rx" and "action_roundtrip act = r"
  shows "tracks (dict_set r rx states) (add_mset act M) (\<lambda>a. res a + held_for act rx a)"
proof -
  have "held_by (dict_set r rx states) (add_mset act M) a = held_by states M a + held_for act rx a" for a
    using assms held_by_set[of M r rx states a] by (auto simp: tracks_except_def held_by_def dict_get_set)
  moreover have "\<not> rx_terminal rx" using assms(2) by (cases act) auto
  ultimately show ?thesis
    using assms by (auto simp: tracks_def tracks_except_def single_add awaited_def settled_or_due_def dict_get_set
        keys_distinct_set)
qed

section \<open>Handling one action\<close>

abbreviation due :: "sniping_books \<Rightarrow> sniping_action multiset" where
  "due b \<equiv> mset (map snd (sb_scheduled b))"

lemma tracks_reserved: "tracks states M res \<Longrightarrow> (\<And>a. res' a = res a) \<Longrightarrow> tracks states M res'"
  by (simp add: tracks_def)

lemma handled_tracks:
  assumes h: "handled_to r now w released rx b b'" and inv: "portfolio_inv (sb_portfolio b)"
    and t: "tracks_except r states (due b + H) (\<lambda>a. books_reserved b a - released a)"
  shows "books_extend b b'" and "tracks (dict_set r rx states) (due b' + H) (books_reserved b')"
proof -
  have "books_extend b b' \<and> tracks (dict_set r rx states) (due b' + H) (books_reserved b')"
    using h unfolding handled_to_def
  proof
    assume e: "ends released rx b b'"
    then have m: "books_move b b' (\<lambda>a. - released a)" by (simp add: ends_def)
    from books_move_step[OF m] have s: "books_extend b b'" "sb_scheduled b' = sb_scheduled b" by auto
    have "tracks (dict_set r rx states) (due b + H) (\<lambda>a. books_reserved b a - released a)"
      using t e by (intro tracks_end) (auto simp: ends_def)
    with m inv s show ?thesis by (auto simp: books_move_def intro: tracks_reserved)
  next
    assume "reschedules r now w released rx b b'"
    then obtain c pos causal act where act: "action_roundtrip act = r" "awaits act rx"
      and c: "books_move b c (\<lambda>a. held_for act rx a - released a)"
      and d: "books_move (c\<lparr>sb_scheduled := heappush ((ordinal_of pos, action_phase act, now, causal), act)
          (sb_scheduled c)\<rparr>) b' (\<lambda>_. 0)"
      unfolding reschedules_def by blast
    let ?d = "c\<lparr>sb_scheduled := heappush ((ordinal_of pos, action_phase act, now, causal), act) (sb_scheduled c)\<rparr>"
    have ext: "books_extend b b'"
      using books_move_step[OF c] books_move_step[OF d] schedule_extends books_extend_trans by blast
    have "due b' = add_mset act (due b)"
      using books_move_step[OF c] books_move_step[OF d] by (simp add: heappush_def)
    moreover have "books_reserved b' a = books_reserved b a - released a + held_for act rx a" for a
    proof -
      have "portfolio_inv (sb_portfolio c)" using books_move_step[OF c] books_extend_inv inv by blast
      then have "books_reserved b' a = books_reserved ?d a" using d by (simp add: books_move_def)
      moreover have "books_reserved ?d a = books_reserved c a" by (simp add: books_reserved_def)
      ultimately show ?thesis using c inv by (simp add: books_move_def)
    qed
    ultimately show ?thesis using tracks_next[OF t act(2,1)] ext by (auto intro: tracks_reserved)
  qed
  then show "books_extend b b'" and "tracks (dict_set r rx states) (due b' + H) (books_reserved b')" by auto
qed

section \<open>The invariant of the loop\<close>

definition sniping_inv ::
  "sniping_books \<Rightarrow> sniping_action multiset \<Rightarrow> ('s, 'p) sniping_state \<Rightarrow> bool" where
  "sniping_inv b0 H st \<longleftrightarrow> portfolio_inv (sb_portfolio b0) \<and> books_extend b0 (sn_books st)
     \<and> tracks (sn_states st) (due (sn_books st) + H) (books_reserved (sn_books st))"

text \<open>
  What the strategy's decisions promise: the checks of their constructor, and an intent for the round trip
  the decision names.
\<close>

definition decisions_valid :: "('s, 'p) sniping_env \<Rightarrow> bool" where
  "decisions_valid env \<longleftrightarrow> (\<forall>s target time d s'. sv_decide env s target time = Inr (d, s') \<longrightarrow>
     LaunchDecision d = Inr d \<and> (\<forall>i. ld_intent d = Some i \<longrightarrow> ri_roundtrip_id i = ld_roundtrip_id d))"

lemma sniping_inv_books:
  "sniping_inv b0 H st \<Longrightarrow> portfolio_inv (sb_portfolio (sn_books st))"
  using books_extend_inv by (auto simp: sniping_inv_def)

lemma sniping_inv_handled:
  assumes inv: "portfolio_inv (sb_portfolio b0)" "books_extend b0 b"
    and h: "handled_to r now w released rx b b'"
    and t: "tracks_except r (sn_states st) (due b + H) (\<lambda>a. books_reserved b a - released a)"
    and st: "sn_books st' = b'" "sn_states st' = dict_set r rx (sn_states st)"
  shows "sniping_inv b0 H st'"
  using handled_tracks[OF h books_extend_inv[OF inv(2,1)] t] inv books_extend_trans
  by (auto simp: sniping_inv_def st)

lemma note_audit_inv:
  assumes "note_audit ms st = Inr st'" and "sniping_inv b0 H st"
  shows "sniping_inv b0 H st'"
proof -
  obtain b where b: "write_audit ms (sn_books st) = Inr b" "st' = st\<lparr>sn_books := b\<rparr>"
    using note_audit_Inr[OF assms(1)] by blast
  from write_audit_move[OF b(1)] have "books_move (sn_books st) b (\<lambda>_. 0)" .
  moreover from books_move_step[OF this] have "books_extend (sn_books st) b" "sb_scheduled b = sb_scheduled (sn_books st)"
    by auto
  ultimately show ?thesis
    using assms(2) sniping_inv_books[OF assms(2)] books_extend_trans
    by (auto simp: sniping_inv_def b(2) books_move_def intro: tracks_reserved)
qed

lemma take_actions_inv:
  assumes "take_actions n k st = (actions, st')" and "sniping_inv b0 {#} st"
  shows "sniping_inv b0 (mset actions) st'"
proof -
  obtain rest where rest: "pop_actions (sb_scheduled (sn_books st)) n k = (actions, rest)"
    and st': "st' = st\<lparr>sn_books := sn_books st\<lparr>sb_scheduled := rest\<rparr>\<rparr>"
    using assms(1) by (auto simp: take_actions_def split: prod.splits)
  from rest obtain es where "sb_scheduled (sn_books st) = es @ rest" "map snd es = actions"
    by (rule pop_actions_split)
  then have "due (sn_books st) = due (sn_books st') + mset actions" by (auto simp: st')
  moreover have "books_extend b0 (sn_books st')"
    using assms(2) schedule_extends[of "sn_books st" rest] books_extend_trans by (auto simp: sniping_inv_def st')
  moreover have "books_reserved (sn_books st') = books_reserved (sn_books st)" "sn_states st' = sn_states st"
    by (auto simp: books_reserved_def st')
  ultimately show ?thesis using assms(2) by (simp add: sniping_inv_def)
qed

section \<open>Phases\<close>

lemma take_handled:
  assumes "sniping_inv b0 (add_mset act H) st"
  obtains rx where "require_state (sn_states st) (action_roundtrip act) = Inr rx" and "awaits act rx"
    and "tracks_except (action_roundtrip act) (sn_states st) (due (sn_books st) + H)
      (\<lambda>a. books_reserved (sn_books st) a - held_for act rx a)"
proof -
  have "tracks (sn_states st) (add_mset act (due (sn_books st) + H)) (books_reserved (sn_books st))"
    using assms by (simp add: sniping_inv_def)
  then obtain rx where "dict_get (sn_states st) (action_roundtrip act) = Some rx" "awaits act rx"
    "tracks_except (action_roundtrip act) (sn_states st) (due (sn_books st) + H)
      (\<lambda>a. books_reserved (sn_books st) a - held_for act rx a)"
    by (rule tracks_take)
  then show ?thesis by (intro that[of rx]) (simp_all add: require_state_def)
qed

lemma decide_action_inv:
  assumes run: "decide_action env pos st act = Inr st'" and inv: "sniping_inv b0 (add_mset act H) st"
  shows "sniping_inv b0 H st'"
proof -
  obtain rx where rx: "require_state (sn_states st) (action_roundtrip act) = Inr rx" "awaits act rx"
    "tracks_except (action_roundtrip act) (sn_states st) (due (sn_books st) + H)
      (\<lambda>a. books_reserved (sn_books st) a - held_for act rx a)"
    using inv by (rule take_handled)
  obtain r rx' b where act: "act = SellDecision r"
    and d: "decide_sell env (sn_protocol st) pos rx (sn_books st) = Inr (rx', b)"
    and st': "st' = update_roundtrip r rx' b st"
    using run rx(1) by (cases act) (auto simp: decide_action_def)
  have "handled_to r (ordinal_of pos) 2 (\<lambda>_. 0) rx' (sn_books st) b"
    using decide_sell_handled[OF d] rx(2) act by simp
  moreover have "tracks_except r (sn_states st) (due (sn_books st) + H) (\<lambda>a. books_reserved (sn_books st) a - 0)"
    using rx(3) act by simp
  ultimately show ?thesis
    using inv by (intro sniping_inv_handled) (auto simp: sniping_inv_def st' update_roundtrip_def)
qed

lemma land_action_inv:
  assumes run: "land_action env pos st act = Inr st'" and inv: "sniping_inv b0 (add_mset act H) st"
    and ports: "quotes_valid env"
  shows "sniping_inv b0 H st'"
proof -
  obtain rx where rx: "require_state (sn_states st) (action_roundtrip act) = Inr rx" "awaits act rx"
    "tracks_except (action_roundtrip act) (sn_states st) (due (sn_books st) + H)
      (\<lambda>a. books_reserved (sn_books st) a - held_for act rx a)"
    using inv by (rule take_handled)
  have "\<exists>w rx' b. handled_to (action_roundtrip act) (ordinal_of pos) w (held_for act rx) rx' (sn_books st) b
      \<and> sn_books st' = b \<and> sn_states st' = dict_set (action_roundtrip act) rx' (sn_states st)"
  proof (cases act)
    case (BuyLanding r)
    then obtain ok rx' b where l: "land_buy env (sn_protocol st) pos rx (sn_books st) = Inr (ok, rx', b)"
      and "sn_books st' = b" "sn_states st' = dict_set r rx' (sn_states st)"
      using run rx(1) by (auto simp: land_action_def update_roundtrip_def)
    with land_buy_handled[OF l _ ports, of r] rx(2) BuyLanding show ?thesis by auto
  next
    case (SellLanding r)
    then obtain ok rx' b where l: "land_sell env (sn_protocol st) pos rx (sn_books st) = Inr (ok, rx', b)"
      and "sn_books st' = b" "sn_states st' = dict_set r rx' (sn_states st)"
      using run rx(1) by (auto simp: land_action_def update_roundtrip_def)
    with land_sell_handled[OF l, of r] rx(2) SellLanding show ?thesis unfolding handled_to_def by auto
  next
    case (SellDecision r)
    then show ?thesis using run by (auto simp: land_action_def)
  qed
  then show ?thesis
    using inv rx(3) by (elim exE conjE) (rule sniping_inv_handled, auto simp: sniping_inv_def)
qed

lemma actions_inv:
  assumes "foldE f st actions = Inr st'" and "sniping_inv b0 (mset actions) st"
    and "\<And>st act H st'. f st act = Inr st' \<Longrightarrow> sniping_inv b0 (add_mset act H) st \<Longrightarrow> sniping_inv b0 H st'"
  shows "sniping_inv b0 {#} st'"
  using assms(1,2)
proof (induction actions arbitrary: st)
  case (Cons act actions)
  then obtain st1 where "f st act = Inr st1" and rest: "foldE f st1 actions = Inr st'" by auto
  with assms(3)[OF this(1)] Cons show ?case by simp
qed simp

lemma decision_phase_inv:
  assumes "decision_phase env n pos st = Inr st'" and "sniping_inv b0 {#} st"
  shows "sniping_inv b0 {#} st'"
proof -
  obtain actions st1 where a: "take_actions n DECISION_ACTION st = (actions, st1)" by (metis surj_pair)
  then have "foldE (decide_action env pos) st1 actions = Inr st'" using assms(1) by (simp add: decision_phase_def)
  from actions_inv[OF this take_actions_inv[OF a assms(2)]] decide_action_inv show ?thesis by blast
qed

lemma landing_phase_inv:
  assumes "landing_phase env n pos st = Inr st'" and "sniping_inv b0 {#} st" and "quotes_valid env"
  shows "sniping_inv b0 {#} st'"
proof -
  obtain actions st1 where a: "take_actions n LANDING_ACTION st = (actions, st1)" by (metis surj_pair)
  then have "foldE (land_action env pos) st1 actions = Inr st'" using assms(1) by (simp add: landing_phase_def)
  from actions_inv[OF this take_actions_inv[OF a assms(2)]] land_action_inv[OF _ _ assms(3)] show ?thesis by blast
qed

lemma skip_launch_inv:
  assumes run: "skip_launch n target time d st = Inr st'" and inv: "sniping_inv b0 {#} st"
    and new: "ld_roundtrip_id d \<notin> set (dict_keys (sn_states st))"
  shows "sniping_inv b0 {#} st'"
proof -
  let ?rx = "RoundTripState target time False (ld_cooldown_until_ns d) None COOLDOWN_SKIPPED True"
  let ?st = "st\<lparr>sn_cooldown_skipped := sn_cooldown_skipped st + 1,
    sn_states := dict_set (ld_roundtrip_id d) ?rx (sn_states st)\<rparr>"
  obtain ms where run': "note_audit ms ?st = Inr st'" using run by (simp add: skip_launch_def)
  have "tracks (dict_set (ld_roundtrip_id d) ?rx (sn_states st)) (due (sn_books st)) (books_reserved (sn_books st))"
    using inv new by (intro tracks_end tracks_skip) (auto simp: sniping_inv_def RoundTripState_def)
  then have "sniping_inv b0 {#} ?st" using inv by (simp add: sniping_inv_def)
  with run' show ?thesis by (rule note_audit_inv)
qed

lemma accept_launch_inv:
  assumes run: "accept_launch env target time d st = Inr st'" and inv: "sniping_inv b0 {#} st"
    and new: "ld_roundtrip_id d \<notin> set (dict_keys (sn_states st))"
    and id: "\<And>i. ld_intent d = Some i \<Longrightarrow> ri_roundtrip_id i = ld_roundtrip_id d"
  shows "sniping_inv b0 {#} st'"
proof -
  let ?rx = "\<lambda>i. RoundTripState target time True (ld_cooldown_until_ns d) (Some i) BUY_REFERENCE_REJECTED False"
  obtain i ok rx b where i: "ld_intent d = Some i"
    and a: "accept_buy env (sn_protocol st) (?rx i) (sn_books st) = Inr (ok, rx, b)"
    and st': "sn_books st' = b" "sn_states st' = dict_set (ld_roundtrip_id d) rx (sn_states st)"
    using run by (auto simp: accept_launch_def update_roundtrip_def split: if_splits)
  have "fresh i (?rx i)" by (simp add: fresh_def RoundTripState_def)
  from accept_buy_handled[OF a this] id[OF i]
  have "handled_to (ld_roundtrip_id d) (ri_created_boundary_ordinal i) 4 (\<lambda>_. 0) rx (sn_books st) b" by simp
  moreover have "tracks_except (ld_roundtrip_id d) (sn_states st) (due (sn_books st) + {#})
      (\<lambda>a. books_reserved (sn_books st) a - 0)"
    using inv new by (intro tracks_skip) (auto simp: sniping_inv_def intro: tracks_reserved)
  ultimately show ?thesis
    using inv st' by (intro sniping_inv_handled) (auto simp: sniping_inv_def)
qed

lemma handle_launch_inv:
  assumes run: "handle_launch env n st target = Inr st'" and inv: "sniping_inv b0 {#} st"
    and ports: "decisions_valid env"
  shows "sniping_inv b0 {#} st'"
proof -
  consider (outside) ms where "note_audit ms st = Inr st'"
    | (decided) time d s where "sv_decide env (sn_strategy st) target time = Inr (d, s)"
        "ld_roundtrip_id d \<notin> set (dict_keys (sn_states st))"
        "(if ld_status d = COOLDOWN_SUPPRESSED
          then skip_launch n target time d (st\<lparr>sn_target_count := sn_target_count st + 1, sn_strategy := s\<rparr>)
          else accept_launch env target time d (st\<lparr>sn_target_count := sn_target_count st + 1, sn_strategy := s\<rparr>))
          = Inr st'"
    using run by (auto simp: handle_launch_def Let_def split: if_splits)
  then show ?thesis
  proof cases
    case outside
    then show ?thesis using inv by (rule note_audit_inv)
  next
    case decided
    have inv': "sniping_inv b0 {#} (st\<lparr>sn_target_count := sn_target_count st + 1, sn_strategy := s\<rparr>)"
      using inv by (simp add: sniping_inv_def)
    have id: "\<And>i. ld_intent d = Some i \<Longrightarrow> ri_roundtrip_id i = ld_roundtrip_id d"
      using ports decided(1) unfolding decisions_valid_def by blast
    from decided(3) show ?thesis
      using skip_launch_inv[OF _ inv'] accept_launch_inv[OF _ inv' _ id] decided(2) by (simp split: if_splits)
  qed
qed

section \<open>Boundaries and the loop\<close>

lemma sniping_inv_cong:
  "sniping_inv b0 H st \<Longrightarrow> sn_books st' = sn_books st \<Longrightarrow> sn_states st' = sn_states st \<Longrightarrow> sniping_inv b0 H st'"
  by (simp add: sniping_inv_def)

lemma deliver_group_same:
  "deliver_group n events first st = Inr st' \<Longrightarrow> sn_books st' = sn_books st \<and> sn_states st' = sn_states st"
  by (auto simp: deliver_group_def split: option.splits)

lemma replay_group_inv:
  assumes run: "replay_group env n events st = Inr (pos, launches, st')" and inv: "sniping_inv b0 H st"
  shows "sniping_inv b0 H st'"
proof -
  obtain ms protocol first st1 where a: "note_audit ms (st\<lparr>sn_protocol := protocol,
      sn_event_count := first + int (length events), sn_group_count := sn_group_count st + 1\<rparr>) = Inr st1"
    and d: "deliver_group n events first st1 = Inr st'"
    using run by (auto simp: replay_group_def Let_def)
  have "sniping_inv b0 H st1" using a inv by (rule note_audit_inv[OF _ sniping_inv_cong]) simp_all
  then show ?thesis using deliver_group_same[OF d] by (blast intro: sniping_inv_cong)
qed

lemma open_boundary_inv:
  "open_boundary env n groups st = Inr (pos, launches, groups', st') \<Longrightarrow> sniping_inv b0 H st \<Longrightarrow> sniping_inv b0 H st'"
  using replay_group_inv by (auto simp: open_boundary_def split: if_splits)

lemma close_boundary_inv: "close_boundary env n st = Inr st' \<Longrightarrow> sniping_inv b0 H st \<Longrightarrow> sniping_inv b0 H st'"
  using note_audit_inv by (auto simp: close_boundary_def split: if_splits)

lemma sniping_boundary_inv:
  assumes run: "sniping_boundary env groups st = Inr (groups', st')" and inv: "sniping_inv b0 {#} st"
    and ports: "quotes_valid env" "decisions_valid env"
  shows "sniping_inv b0 {#} st'"
proof -
  obtain n pos launches st1 st2 st3 st4 where o: "open_boundary env n groups st = Inr (pos, launches, groups', st1)"
    and d: "decision_phase env n pos st1 = Inr st2" and l: "foldE (handle_launch env n) st2 launches = Inr st3"
    and s: "landing_phase env n pos st3 = Inr st4" and c: "close_boundary env n st4 = Inr st'"
    using run by (auto simp: sniping_boundary_def)
  have "sniping_inv b0 {#} st2" using decision_phase_inv[OF d open_boundary_inv[OF o inv]] .
  then have "sniping_inv b0 {#} st3"
    by (rule foldE_invariant[where P = "sniping_inv b0 {#}", OF l]) (rule handle_launch_inv[OF _ _ ports(2)])
  then show ?thesis using close_boundary_inv[OF c landing_phase_inv[OF s _ ports(1)]] by blast
qed

lemma sniping_loop_inv:
  assumes "sniping_loop env groups st = Inr st'" and "sniping_inv b0 {#} st"
    and "quotes_valid env" and "decisions_valid env"
  shows "sniping_inv b0 {#} st' \<and> sb_scheduled (sn_books st') = []"
  using assms
proof (induction env groups st rule: sniping_loop.induct)
  case (1 env groups st)
  show ?case
  proof (cases "groups = [] \<and> sb_scheduled (sn_books st) = []")
    case True
    then show ?thesis using 1 by (simp add: sniping_loop.simps)
  next
    case False
    then obtain groups1 st1 where b: "sniping_boundary env groups st = Inr (groups1, st1)"
      and l: "sniping_loop env groups1 st1 = Inr st'"
      using 1(2) sniping_loop.simps[of env groups st] by auto
    from 1(1)[OF False b refl l sniping_boundary_inv[OF b 1(3-5)] 1(4,5)] show ?thesis .
  qed
qed

section \<open>A finished run\<close>

lemma initial_sniping_inv:
  assumes "initial_sniping_state config schedule s p = Inr st"
  shows "sniping_inv (sn_books st) {#} st" and "wallet_ok (sb_accounts (sn_books st))"
    and "PortfolioState (sg_initial_available config) = Inr (sb_portfolio (sn_books st))"
    and "nr_ledger_sink (sb_recorder (sn_books st)) = []" and "nr_cashflows (sb_recorder (sn_books st)) = []"
proof -
  obtain r portfolio accounts where r: "SnipingRecorder = Inr r"
    and p: "PortfolioState (sg_initial_available config) = Inr portfolio"
    and a: "initial_wallet_provisioning_state (sg_initial_uva_state config) (sg_uva_schema_id config) = Inr accounts"
    and st: "sn_books st = \<lparr>sb_portfolio = portfolio, sb_accounts = accounts, sb_recorder = r, sb_scheduled = []\<rparr>"
      "sn_states st = []"
    using assms by (auto simp: initial_sniping_state_def)
  have "kind_key (pf_account_kinds portfolio) {PORTFOLIO_RESERVED} a = (\<lambda>_. False)" for a
    using PortfolioState_inv(2)[OF p] by (fastforce simp: kind_key_def fun_eq_iff split: option.splits)
  then have "kind_total portfolio {PORTFOLIO_RESERVED} a = 0" for a
    by (simp add: kind_total_def balance_sum_def)
  then have "tracks [] {#} (books_reserved (sn_books st))"
    by (simp add: tracks_def keys_distinct_def single_actions_def books_reserved_def held_by_def st)
  then show "sniping_inv (sn_books st) {#} st"
    using PortfolioState_inv(1)[OF p] books_extend_refl by (simp add: sniping_inv_def st)
  show "nr_ledger_sink (sb_recorder (sn_books st)) = []" "nr_cashflows (sb_recorder (sn_books st)) = []"
    using r by (auto simp: SnipingRecorder_def st)
  show "wallet_ok (sb_accounts (sn_books st))" using initial_wallet_ok[OF a] by (simp add: st)
  show "PortfolioState (sg_initial_available config) = Inr (sb_portfolio (sn_books st))" using p by (simp add: st)
qed

lemma run_sniping_parts:
  assumes "run_sniping env src schedule threads s p = Inr (summary, records, st)"
  obtains st0 groups r where "initial_sniping_state (sv_config env) schedule s p = Inr st0"
    and "sniping_loop env groups st0 = Inr st"
    and "finalize_all env (last (tc_times (sv_clock env)) div SECOND) st = Inr (records, r)"
  using assms by (auto simp: run_sniping_def split: if_splits)

lemma finished_run:
  assumes "run_sniping env src schedule threads s p = Inr (summary, records, st)"
    and "quotes_valid env" and "decisions_valid env"
  obtains st0 where "initial_sniping_state (sv_config env) schedule s p = Inr st0"
    and "books_extend (sn_books st0) (sn_books st)" and "portfolio_inv (sb_portfolio (sn_books st))"
    and "tracks (sn_states st) {#} (books_reserved (sn_books st))" and "sb_scheduled (sn_books st) = []"
proof -
  obtain st0 groups r where i: "initial_sniping_state (sv_config env) schedule s p = Inr st0"
    and l: "sniping_loop env groups st0 = Inr st"
    using run_sniping_parts[OF assms(1)] by blast
  from sniping_loop_inv[OF l initial_sniping_inv(1)[OF i] assms(2,3)]
  have inv: "sniping_inv (sn_books st0) {#} st" "sb_scheduled (sn_books st) = []" by auto
  show ?thesis
    by (rule that[OF i]) (use inv sniping_inv_books[OF inv(1)] in \<open>simp_all add: sniping_inv_def\<close>)
qed

lemma finished_states:
  assumes "tracks states {#} res"
  shows "list_all (\<lambda>(r, rx). rx_terminal rx \<and> rx_status rx \<noteq> OPEN_AT_HORIZON) states" and "res a = 0"
proof -
  have "rx_terminal rx \<and> rx_status rx \<noteq> OPEN_AT_HORIZON" if "(r, rx) \<in> set states" for r rx
  proof -
    have "dict_get states r = Some rx" using assms that by (auto simp: tracks_def keys_distinct_def)
    then have "settled_or_due {#} r rx" using assms unfolding tracks_def by blast
    then show ?thesis by (simp add: settled_or_due_def split: if_splits)
  qed
  then show "list_all (\<lambda>(r, rx). rx_terminal rx \<and> rx_status rx \<noteq> OPEN_AT_HORIZON) states"
    by (auto simp: list_all_iff)
  show "res a = 0" using assms by (simp add: tracks_def held_by_def)
qed

lemma RoundTripRecord_id: "RoundTripRecord r = Inr r' \<Longrightarrow> r' = r"
  by (auto simp: RoundTripRecord_def Let_def split: if_splits)

lemma finalize_status:
  "finalize_roundtrip env protocol r rx cash time = Inr rec \<Longrightarrow> rt_roundtrip_id rec = r \<and> rt_status rec = rx_status rx"
  by (auto simp: finalize_roundtrip_def dest!: RoundTripRecord_id)

lemma finalize_all_records:
  assumes "finalize_all env time st = Inr (records, r)"
  shows "map (\<lambda>rec. (rt_roundtrip_id rec, rt_status rec)) records
    = map (\<lambda>(r, rx). (r, rx_status rx)) (sn_states st)"
proof -
  have "map (\<lambda>rec. (rt_roundtrip_id rec, rt_status rec)) recs'
      = map (\<lambda>rec. (rt_roundtrip_id rec, rt_status rec)) recs @ map (\<lambda>(r, rx). (r, rx_status rx)) entries"
    if "foldE (\<lambda>(records, r) (roundtrip, rx).
       bindE (finalize_roundtrip env (sn_protocol st) roundtrip rx
         (cashflow_amount (nr_cashflows r) roundtrip (lu_quote_asset_id (rx_target rx))) time) (\<lambda>rec.
       bindE (snipe_roundtrip r rec) (\<lambda>r. Inr (records @ [rec], r)))) (recs, rec0) entries = Inr (recs', rec1)"
    for recs rec0 recs' rec1 entries
    using that by (induction entries arbitrary: recs rec0) (auto dest!: finalize_status)
  from this[OF assms[unfolded finalize_all_def]] show ?thesis by simp
qed

section \<open>Cash flows of the round trips\<close>

text \<open>The cash-flow view of an asset sums to what the ledger moved through the liquid accounts.\<close>

abbreviation liquid :: "account_kind set" where "liquid \<equiv> {PORTFOLIO_AVAILABLE, PORTFOLIO_RESERVED}"

definition cash_total :: "(digest \<times> asset_id, int) dict \<Rightarrow> asset_id \<Rightarrow> int" where
  "cash_total cash a = balance_sum (\<lambda>(_, asset). asset = a) cash"

lemma cashflow_append_total:
  assumes "cashflow_append cash t = Inr cash'"
  shows "cash_total cash' a = cash_total cash a + kind_net (lt_postings t) liquid a"
proof -
  have "cash_total (foldl (\<lambda>d p. if la_kind (po_account p) \<notin> liquid then d
        else let key = (r, po_asset_id p) in dict_set key (dict_get_default d key 0 + po_amount_atomic p) d) d ps) a
      = cash_total d a + kind_net ps liquid a" for d ps r
    by (induction ps arbitrary: d) (auto simp: cash_total_def balance_sum_set Let_def)
  with assms show ?thesis by (auto simp: cashflow_append_def Let_def split: if_splits)
qed

lemma ledger_moves_cash:
  assumes "foldE portfolio_apply pf ts = Inr pf'" and "foldE cashflow_append cash ts = Inr cash'"
    and "portfolio_inv pf"
  shows "kind_total pf' liquid a - kind_total pf liquid a = cash_total cash' a - cash_total cash a"
  using assms
proof (induction ts arbitrary: pf cash)
  case (Cons t ts)
  then obtain pf1 cash1 where "portfolio_apply pf t = Inr pf1" "cashflow_append cash t = Inr cash1"
    and rest: "foldE portfolio_apply pf1 ts = Inr pf'" "foldE cashflow_append cash1 ts = Inr cash'" by auto
  with Cons portfolio_apply_inv[of pf t pf1] portfolio_apply_kind[of pf t pf1 liquid a]
    cashflow_append_total[of cash t cash1 a]
  show ?case by fastforce
qed simp

end
