(* ===== verification/Sniping_Sample.thy ===== *)
theory Sniping_Sample
  imports Sniping_Invariants Engine_Sample
begin

text \<open>
  A sniping run followed to its end: one launch, whose buy is accepted and reserved and then refused when it
  lands, so that only the network fee is paid. Then the properties of every finished run, with this run as
  their witness.
\<close>

section \<open>The inputs\<close>

definition snipe_position :: "int \<Rightarrow> int \<Rightarrow> int option \<Rightarrow> chain_position" where
  "snipe_position block transaction event = \<lparr>cp_network_id = ''n'',
     cp_position_schema_id = BLOCK32_TRANSACTION32_POSITION_SCHEMA_ID, cp_block_ordinal = block,
     cp_transaction_index = transaction, cp_event_index = event\<rparr>"

definition snipe_clock :: transaction_clock where
  "snipe_clock = \<lparr>tc_network_id = ''n'', tc_position_schema_id = BLOCK32_TRANSACTION32_POSITION_SCHEMA_ID,
     tc_blocks = [0, 1, 2, 3], tc_counts = [1, 600, 1, 1], tc_prefix = [0, 1, 601, 602],
     tc_times = [0, 1000000000, 3000000000, 4000000000], tc_ends = [1, 601, 602, 603]\<rparr>"

definition snipe_launch :: canonical_event where
  "snipe_launch = Token_Launch_Event \<lparr>tl_envelope = run_envelope 0 (CHR ''1''), tl_asset_id = ''M1'',
     tl_developer_id = ''D'', tl_creation_user_id = ''U'', tl_venue_id = ''V'', tl_quote_asset_id = ''SOL'',
     tl_protocol_payload_schema = '''', tl_protocol_payload = [], tl_decimals = None\<rparr>"

definition snipe_target :: launch_target where
  "snipe_target = \<lparr>lu_target_event_id = sample_digest (CHR ''1''), lu_position = snipe_position 0 0 (Some 0),
     lu_asset_id = ''M1'', lu_developer_id = ''D'', lu_creation_user_id = ''U'', lu_venue_id = ''V'',
     lu_quote_asset_id = ''SOL''\<rparr>"

definition snipe_intent :: roundtrip_intent where
  "snipe_intent = \<lparr>ri_roundtrip_id = sample_digest (CHR ''f''), ri_target_event_id = sample_digest (CHR ''1''),
     ri_target_position = snipe_position 0 0 (Some 0), ri_asset_id = ''M1'', ri_developer_id = ''D'',
     ri_creation_user_id = ''U'', ri_venue_id = ''V'', ri_quote_asset_id = ''SOL'',
     ri_gross_buy_budget_atomic = 100, ri_buy_slippage_bps = 100, ri_sell_slippage_bps = 100,
     ri_sell_delay_transactions = 1, ri_created_boundary_ordinal = 1, ri_buy_delay_transactions = 500,
     ri_sell_decision_delay_ns = 2000000000, ri_execution_mode = EXOGENOUS_REPLAY\<rparr>"

definition snipe_quote :: protocol_quote where
  "snipe_quote = \<lparr>pq_side = QUOTE_BUY, pq_input_asset_id = ''SOL'', pq_output_asset_id = ''M1'',
     pq_amount_in = 100, pq_amount_out = 50, pq_venue_input = 98, pq_venue_output = 50, pq_protocol_fee = 1,
     pq_creator_fee = 1, pq_cashback = 0, pq_protocol_fee_account = ''fee:p'', pq_creator_fee_account = ''fee:c'',
     pq_cashback_source_account = ''fee:b'', pq_liquidity = None\<rparr>"

definition snipe_network :: network_cost_quote where
  "snipe_network = \<lparr>nq_fee_asset_id = ''SOL'', nq_base_fee = 5, nq_priority_fee = 2,
     nq_account_requirements = sample_priced\<rparr>"

definition snipe_config :: sniping_config where
  "snipe_config = \<lparr>sg_quote_asset_id = ''SOL'',
     sg_decision_range = \<lparr>br_network_id = ''n'', br_position_schema_id = BLOCK32_TRANSACTION32_POSITION_SCHEMA_ID,
       br_from = 0, br_to = 10\<rparr>,
     sg_initial_available = [(''SOL'', 1000)], sg_initial_uva_state = UVA_FRESH,
     sg_wallet_account_profile_id = ''profile'', sg_uva_schema_id = ''uva'', sg_root_seed = 7,
     sg_maximum_dynamic_items = 10, sg_execution_mode = EXOGENOUS_REPLAY,
     sg_engine_bundle_id = sample_digest (CHR ''e'')\<rparr>"

text \<open>The protocol quotes at second 0 and refuses afterwards.\<close>

definition snipe_env :: "(unit, unit) sniping_env" where
  "snipe_env = \<lparr>sv_sha = (\<lambda>_. replicate 64 (CHR ''0'')), sv_clock = snipe_clock, sv_config = snipe_config,
     sv_buy_delay = 500, sv_sell_decision_delay_ns = 2000000000, sv_sell_delay = 1,
     sv_decide = (\<lambda>s target time. Inr (\<lparr>ld_roundtrip_id = sample_digest (CHR ''f''), ld_status = ELIGIBLE,
       ld_cooldown_until_ns = None, ld_intent = Some snipe_intent\<rparr>, s)),
     sv_apply_group = (\<lambda>p events time. Inr ([snipe_target], p)),
     sv_account_requirements = (\<lambda>p i. Inr (map pr_requirement sample_priced)),
     sv_quote_buy = (\<lambda>p i time. if time = 0 then Inr snipe_quote else Inl (ProtocolExecutionRejected ''GRADUATED'')),
     sv_quote_sell = (\<lambda>p i tokens time. Inl (ProtocolExecutionRejected ''GRADUATED'')),
     sv_valuation_quote = (\<lambda>p i tokens time. Inr None), sv_fee_collector = ''fee:n'',
     sv_cost_buy = (\<lambda>time requirements. Inr snipe_network),
     sv_cost_sell = (\<lambda>time. Inr (snipe_network\<lparr>nq_account_requirements := []\<rparr>)),
     sv_strategy_bundle_id = sample_digest (CHR ''a''), sv_protocol_bundle_id = sample_digest (CHR ''b''),
     sv_network_cost_bundle_id = sample_digest (CHR ''c'')\<rparr>"

definition snipe_source :: sniping_source where
  "snipe_source = \<lparr>so_logical_content_hash = sample_digest (CHR ''8''),
     so_replay_semantics_id = sample_digest (CHR ''9''), so_events = [snipe_launch], so_index = None\<rparr>"

lemma snipe_ports: "quotes_valid snipe_env" "decisions_valid snipe_env"
  by (auto simp: quotes_valid_def decisions_valid_def snipe_env_def snipe_quote_def ProtocolQuote_def
      validate_quote_side_def require_non_negative_def LaunchDecision_def snipe_intent_def split: if_splits)

lemma snipe_env_fields:
  "sv_sha snipe_env = (\<lambda>_. replicate 64 (CHR ''0''))" "sv_clock snipe_env = snipe_clock"
  "sv_config snipe_env = snipe_config" "sv_buy_delay snipe_env = 500"
  "sv_sell_decision_delay_ns snipe_env = 2000000000" "sv_sell_delay snipe_env = 1"
  "sv_decide snipe_env = (\<lambda>s target time. Inr (\<lparr>ld_roundtrip_id = sample_digest (CHR ''f''),
     ld_status = ELIGIBLE, ld_cooldown_until_ns = None, ld_intent = Some snipe_intent\<rparr>, s))"
  "sv_apply_group snipe_env = (\<lambda>p events time. Inr ([snipe_target], p))"
  "sv_account_requirements snipe_env = (\<lambda>p i. Inr (map pr_requirement sample_priced))"
  "sv_quote_buy snipe_env = (\<lambda>p i time. if time = 0 then Inr snipe_quote
     else Inl (ProtocolExecutionRejected ''GRADUATED''))"
  "sv_fee_collector snipe_env = ''fee:n''" "sv_cost_buy snipe_env = (\<lambda>time requirements. Inr snipe_network)"
  by (simp_all add: snipe_env_def)

section \<open>The clock\<close>

lemmas position_evals = snipe_position_def ChainPosition_def require_supported_schema_def checked_uint32_def
  checked_transaction_index_def UINT32_MAX_def UINT64_MAX_def ordinal_of_def position_boundary_ordinal_def
  boundary_ordinal_def Let_def

lemmas clock_evals = snipe_clock_def require_position_def global_transaction_index_def total_transaction_count_def
  bisect_left_def bisect_left_loop_cases bisect_right_def bisect_right_loop_cases

lemma snipe_clock_rows:
  "require_position snipe_clock (snipe_position 0 0 e) = Inr 0"
  "require_position snipe_clock (snipe_position 1 499 e) = Inr 1"
  "require_position snipe_clock (snipe_position 2 0 e) = Inr 2"
  by (simp_all add: clock_evals snipe_position_def Let_def)

lemma snipe_clock_facts:
  "transaction_after snipe_clock (snipe_position 0 0 (Some 0)) 500 = Inr (snipe_position 1 499 None)"
  "transaction_after snipe_clock (snipe_position 2 0 None) 1 = Inr (snipe_position 3 0 None)"
  "block_time_for_position snipe_clock (snipe_position 0 0 e) = Inr 0"
  "block_time_for_position snipe_clock (snipe_position 1 499 e) = Inr 1000000000"
  "block_time_for_block snipe_clock 0 = Inr 0"
  by (simp_all add: transaction_after_def block_time_for_position_def block_time_for_block_def
      global_transaction_index_def snipe_clock_rows)
    (simp_all add: clock_evals position_evals)

lemma snipe_decision:
  "first_nonempty_transaction_at_or_after snipe_clock (snipe_position 1 499 None) 3000000000
    = Inr (snipe_position 2 0 None)"
  by (simp add: first_nonempty_transaction_at_or_after_def snipe_clock_rows)
    (simp add: clock_evals position_evals skip_empty_blocks.simps)

lemma snipe_ordinals: "ordinal_of (snipe_position 0 0 e) = 1" "ordinal_of (snipe_position 1 499 e) = 4294967796"
  by (simp_all add: position_evals)

lemma snipe_boundary_back: "from_boundary_ordinal ''n'' BLOCK32_TRANSACTION32_POSITION_SCHEMA_ID 4294967796 None
    = Inr (snipe_position 1 499 None)"
proof -
  have "boundary_coordinates 4294967796 BLOCK32_TRANSACTION32_POSITION_SCHEMA_ID = Inr (1, 499)"
    by (simp add: boundary_coordinates_iff)
  then show ?thesis by (simp add: from_boundary_ordinal_def position_evals)
qed


section \<open>Reserving and failing the buy\<close>

definition snipe_reserved :: portfolio_state where
  "snipe_reserved = \<lparr>pf_balances = [((''portfolio:available:SOL'', ''SOL''), 843), ((''portfolio:reserved:SOL'', ''SOL''), 157)],
     pf_account_kinds = [(''portfolio:available:SOL'', PORTFOLIO_AVAILABLE), (''portfolio:reserved:SOL'', PORTFOLIO_RESERVED)],
     pf_transaction_count = 1\<rparr>"

definition snipe_settled :: portfolio_state where
  "snipe_settled = \<lparr>pf_balances = [((''portfolio:available:SOL'', ''SOL''), 993), ((''portfolio:reserved:SOL'', ''SOL''), 0),
       ((''fee:n'', ''SOL''), 7)],
     pf_account_kinds = [(''portfolio:available:SOL'', PORTFOLIO_AVAILABLE), (''portfolio:reserved:SOL'', PORTFOLIO_RESERVED),
       (''fee:n'', NETWORK_FEE)],
     pf_transaction_count = 2\<rparr>"

definition snipe_initial :: portfolio_state where
  "snipe_initial = \<lparr>pf_balances = [((''portfolio:available:SOL'', ''SOL''), 1000)],
     pf_account_kinds = [(''portfolio:available:SOL'', PORTFOLIO_AVAILABLE)], pf_transaction_count = 0\<rparr>"

abbreviation snipe_plan :: reservation_plan where
  "snipe_plan \<equiv> sample_plan (sample_digest (CHR ''f'')) ''M1''"

abbreviation snipe_sha :: "bytes \<Rightarrow> string" where "snipe_sha \<equiv> (\<lambda>_. replicate 64 (CHR ''0''))"

lemma snipe_accounts:
  "available_account_id ''SOL'' = Inr ''portfolio:available:SOL''"
  "reserved_account_id ''SOL'' = Inr ''portfolio:reserved:SOL''"
  by (simp_all add: available_account_id_def reserved_account_id_def Identifier_def strip_def is_space_def char_code_def)

lemma snipe_reservation: "buy_reservation snipe_intent snipe_network snipe_plan = [(''SOL'', 157)]"
  by (simp add: buy_reservation_def canonical_asset_amounts_def reserved_asset_amounts_def sample_plan_def
      sample_priced_def snipe_intent_def snipe_network_def transaction_fee_atomic_def asset_totals_def
      dict_get_default_def)

lemma snipe_intent_fields:
  "ri_roundtrip_id snipe_intent = sample_digest (CHR ''f'')" "ri_created_boundary_ordinal snipe_intent = 1"
  "ri_target_position snipe_intent = snipe_position 0 0 (Some 0)" "ri_buy_delay_transactions snipe_intent = 500"
  "ri_quote_asset_id snipe_intent = ''SOL''" "ri_asset_id snipe_intent = ''M1''"
  "ri_gross_buy_budget_atomic snipe_intent = 100" "ri_buy_slippage_bps snipe_intent = 100"
  "ri_execution_mode snipe_intent = EXOGENOUS_REPLAY"
  by (simp_all add: snipe_intent_def)

lemmas snipe_ledger_evals = snipe_intent_fields snipe_accounts snipe_reservation domain_digest_ok sample_digests
  ledger_transaction_of_def LedgerTransaction_def posting_of_def LedgerAccount_def Posting_def strip_def
  is_space_def char_code_def nul_def posting_totals_def dict_get_default_def json_ok_def ledger_document_def
  posting_documents_def posting_document_sort_key_def posting_document_json_def
  portfolio_preview_def preview_posting_def is_portfolio_kind_def portfolio_commit_candidate_def Let_def

definition cash_row :: "posting \<Rightarrow> account_kind \<times> asset_id \<times> int" where
  "cash_row p = (la_kind (po_account p), po_asset_id p, po_amount_atomic p)"

lemma snipe_reserve:
  "\<exists>t c. reserve_buy snipe_sha snipe_intent snipe_network snipe_plan = Inr t \<and> json_ok (ledger_document t)
     \<and> lt_correlation_kind t = ROUNDTRIP \<and> lt_correlation_id t = sample_digest (CHR ''f'')
     \<and> map cash_row (lt_postings t) = [(PORTFOLIO_AVAILABLE, ''SOL'', -157), (PORTFOLIO_RESERVED, ''SOL'', 157)]
     \<and> portfolio_preview snipe_initial t = Inr c \<and> portfolio_commit_candidate snipe_initial c = snipe_reserved"
  by (simp add: reserve_buy_def reserve_amounts_def snipe_ledger_evals snipe_initial_def snipe_reserved_def
      cash_row_def cong: bindE_weak_cong)

lemma snipe_fee: "nq_fee_asset_id snipe_network = ''SOL''" "transaction_fee_atomic snipe_network = 7"
  "nq_account_requirements snipe_network = sample_priced"
  by (simp_all add: snipe_network_def transaction_fee_atomic_def)

lemma snipe_failure:
  "\<exists>t c. failed_buy_settlement snipe_sha snipe_intent 4294967796 snipe_network snipe_plan ''fee:n'' ''GRADUATED''
        = Inr t \<and> json_ok (ledger_document t)
     \<and> lt_correlation_kind t = ROUNDTRIP \<and> lt_correlation_id t = sample_digest (CHR ''f'')
     \<and> map cash_row (lt_postings t) = [(PORTFOLIO_RESERVED, ''SOL'', -157), (PORTFOLIO_AVAILABLE, ''SOL'', 150),
          (NETWORK_FEE, ''SOL'', 7)]
     \<and> portfolio_preview snipe_reserved t = Inr c \<and> portfolio_commit_candidate snipe_reserved c = snipe_settled"
  by (simp add: failed_buy_settlement_def failed_postings_def settle_reserved_amounts_def snipe_fee
      canonical_asset_amounts_def asset_totals_def snipe_ledger_evals snipe_reserved_def snipe_settled_def
      cash_row_def cong: bindE_weak_cong)

section \<open>Recording\<close>

definition snipe_noted :: "sniping_recorder \<Rightarrow> json \<Rightarrow> sniping_recorder" where
  "snipe_noted r v = r\<lparr>nr_audit := stream_fed (nr_audit r) v, nr_audit_sink := nr_audit_sink r @ [v]\<rparr>"

lemma write_audit_ok:
  "json_ok (JObj ms) \<Longrightarrow> write_audit ms b = Inr (b\<lparr>sb_recorder := snipe_noted (sb_recorder b) (JObj ms)\<rparr>)"
  by (simp add: write_audit_def snipe_audit_def json_ok_def stream_append_fed snipe_noted_def)

lemma snipe_ledger_ok:
  assumes "json_ok (ledger_document t)" and "cashflow_append (nr_cashflows r) t = Inr cash"
  shows "\<exists>r'. snipe_ledger r t = Inr r' \<and> nr_cashflows r' = cash \<and> nr_roundtrips r' = nr_roundtrips r
    \<and> nr_ledger_sink r' = nr_ledger_sink r @ [t]"
  using assms by (simp add: snipe_ledger_def json_ok_def stream_append_fed)

lemma cashflow_rows:
  assumes "map cash_row (lt_postings t) = rows" and "lt_correlation_kind t = ROUNDTRIP" and "lt_correlation_id t = d"
  shows "cashflow_append cash t = Inr (foldl (\<lambda>cash (kind, asset, amount).
    if kind \<notin> {PORTFOLIO_AVAILABLE, PORTFOLIO_RESERVED} then cash
    else dict_set (d, asset) (dict_get_default cash (d, asset) 0 + amount) cash) cash rows)"
proof -
  have f: "foldl (\<lambda>c p. if la_kind (po_account p) \<notin> {PORTFOLIO_AVAILABLE, PORTFOLIO_RESERVED} then c
        else let key = (d, po_asset_id p) in dict_set key (dict_get_default c key 0 + po_amount_atomic p) c) cash ps
    = foldl (\<lambda>cash (kind, asset, amount). if kind \<notin> {PORTFOLIO_AVAILABLE, PORTFOLIO_RESERVED} then cash
        else dict_set (d, asset) (dict_get_default cash (d, asset) 0 + amount) cash) cash (map cash_row ps)" for ps
    by (induction ps arbitrary: cash) (simp_all add: cash_row_def Let_def)
  show ?thesis unfolding cashflow_append_def assms(2,3) f assms(1) by simp
qed

definition snipe_start :: "sniping_recorder \<Rightarrow> (unit, unit) sniping_state" where
  "snipe_start r = \<lparr>sn_books = \<lparr>sb_portfolio = snipe_initial, sb_accounts = sample_wallet, sb_recorder = r,
       sb_scheduled = []\<rparr>,
     sn_states = [], sn_strategy = (), sn_protocol = (), sn_merge = None, sn_event_count = 0,
     sn_delivered_count = 0, sn_group_count = 0, sn_target_count = 0, sn_cooldown_skipped = 0,
     sn_accepted_buys = 0, sn_failed_buys = 0, sn_failed_sells = 0\<rparr>"

lemma snipe_initial_state:
  "\<exists>r. initial_sniping_state snipe_config None () () = Inr (snipe_start r) \<and> nr_cashflows r = []"
  by (simp add: initial_sniping_state_def SnipingRecorder_def CanonicalStreamHasher_def snipe_config_def
      PortfolioState_def snipe_accounts initial_wallet_provisioning_state_def snipe_start_def snipe_initial_def
      sample_wallet_ok[unfolded sample_wallet_def] sample_wallet_def strip_def is_space_def char_code_def nul_def)

definition snipe_groups :: "canonical_event list list" where "snipe_groups = [[snipe_launch]]"

lemma snipe_launch_facts:
  "ee_position (event_envelope_of snipe_launch) = snipe_position 0 0 (Some 0)"
  "event_boundary snipe_launch = 1" "event_group snipe_launch = sample_digest (CHR ''1'')"
proof -
  show p: "ee_position (event_envelope_of snipe_launch) = snipe_position 0 0 (Some 0)"
    by (simp add: snipe_launch_def run_envelope_def snipe_position_def)
  show "event_boundary snipe_launch = 1"
    by (simp add: event_boundary_def envelope_boundary_ordinal_def p snipe_ordinals)
  show "event_group snipe_launch = sample_digest (CHR ''1'')"
    by (simp add: event_group_def snipe_launch_def run_envelope_def)
qed

lemma snipe_event_groups: "event_groups snipe_clock [snipe_launch] = Inr snipe_groups"
  by (simp add: event_groups_def scan_groups_def scan_event_def check_event_clock_def snipe_launch_facts
      snipe_clock_rows snipe_groups_def Let_def)
    (simp add: snipe_position_def snipe_clock_def)

lemma snipe_source_fields: "so_events snipe_source = [snipe_launch]" "so_index snipe_source = None"
  by (simp_all add: snipe_source_def)

lemma snipe_config_fields:
  "sg_decision_range snipe_config = \<lparr>br_network_id = ''n'',
     br_position_schema_id = BLOCK32_TRANSACTION32_POSITION_SCHEMA_ID, br_from = 0, br_to = 10\<rparr>"
  "sg_maximum_dynamic_items snipe_config = 10" "sg_execution_mode snipe_config = EXOGENOUS_REPLAY"
  "sg_wallet_account_profile_id snipe_config = ''profile''"
  by (simp_all add: snipe_config_def)

lemma snipe_range: "contains_position (sg_decision_range snipe_config) (snipe_position 0 0 (Some 0)) = Inr True"
  by (simp add: contains_position_def contains_block_def snipe_config_fields snipe_position_def)

lemma snipe_path: "settlement_path snipe_clock 500 2000000000 1 (snipe_position 0 0 (Some 0))
    = Inr (snipe_position 1 499 None, snipe_position 2 0 None, snipe_position 3 0 None)"
  by (simp add: settlement_path_def snipe_clock_facts snipe_decision)

lemma snipe_preflight: "preflight_source_clock_coverage snipe_env snipe_source = Inr (1, 1)"
proof -
  obtain t where t: "snipe_launch = Token_Launch_Event t" "ee_position (tl_envelope t) = snipe_position 0 0 (Some 0)"
    using snipe_launch_facts(1) by (simp add: snipe_launch_def)
  have "preflight_event snipe_env snipe_launch = Inr ()"
    by (simp add: preflight_event_def t snipe_env_fields snipe_range snipe_path)
  moreover have "check_event_clock snipe_clock snipe_launch = Inr ()"
    by (simp add: check_event_clock_def snipe_launch_facts snipe_clock_rows Let_def)
      (simp add: snipe_position_def snipe_clock_def)
  ultimately show ?thesis
    by (simp add: preflight_source_clock_coverage_def scan_groups_def scan_event_def preflight_group_def
        snipe_env_fields snipe_source_fields indexed_count_differs_def Let_def)
qed

section \<open>The first boundary\<close>

definition snipe_opened :: "sniping_recorder \<Rightarrow> (unit, unit) sniping_state" where
  "snipe_opened r = (snipe_start r)\<lparr>sn_event_count := 1, sn_delivered_count := 1, sn_group_count := 1\<rparr>"

lemma snipe_open: "\<exists>r'. open_boundary snipe_env 1 snipe_groups (snipe_start r)
    = Inr (snipe_position 0 0 None, [snipe_target], [], snipe_opened r') \<and> nr_cashflows r' = nr_cashflows r"
proof -
  have p: "sniping_boundary_position [snipe_launch] = Inr (snipe_position 0 0 None)"
    by (simp add: sniping_boundary_position_def snipe_launch_facts) (simp add: position_evals)
  have e: "ee_canonical_event_id (event_envelope_of snipe_launch) = sample_digest (CHR ''1'')"
    by (simp add: snipe_launch_def run_envelope_def)
  have c: "cp_block_ordinal (snipe_position 0 0 None) = 0" by (simp add: snipe_position_def)
  show ?thesis
    by (simp add: open_boundary_def snipe_groups_def group_boundary_def snipe_launch_facts replay_group_def p c e
        snipe_env_fields snipe_clock_facts ensure_single_launch_def note_audit_def write_audit_ok json_ok_def
        deliver_group_def snipe_start_def snipe_opened_def snipe_noted_def Let_def cong: bindE_weak_cong)
qed

definition snipe_waiting :: roundtrip_state where
  "snipe_waiting = (RoundTripState snipe_target 0 True None (Some snipe_intent) BUY_REFERENCE_REJECTED False)
     \<lparr>rx_buy_network := Some snipe_network, rx_account_reservation := Some snipe_plan,
      rx_buy_reference := Some snipe_quote, rx_buy_minimum_out := 49\<rparr>"

definition snipe_action :: "action_key \<times> sniping_action" where
  "snipe_action = ((4294967796, LANDING_ACTION, 1, replicate 64 (CHR ''0'')), BuyLanding (sample_digest (CHR ''f'')))"

lemma snipe_schedule:
  "schedule_action (snipe_position 1 499 None) 1 (replicate 64 (CHR ''0'')) (BuyLanding (sample_digest (CHR ''f''))) b
    = Inr (b\<lparr>sb_scheduled := heappush snipe_action (sb_scheduled b)\<rparr>)"
  by (simp add: schedule_action_def snipe_ordinals snipe_action_def)

lemma snipe_action_id: "action_id snipe_sha r a = Inr (replicate 64 (CHR ''0''))"
  by (simp add: action_id_def domain_digest_ok sample_digests strip_def is_space_def char_code_def nul_def)

lemma snipe_funded: "available snipe_initial ''SOL'' = Inr 1000"
  by (simp add: available_def snipe_accounts balance_of_def snipe_initial_def dict_get_default_def)

lemma snipe_submit:
  assumes "sb_portfolio b = snipe_initial" and "sb_scheduled b = []" and "nr_cashflows (sb_recorder b) = []"
  shows "\<exists>r. (\<forall>rx. submit_buy snipe_env snipe_intent snipe_network snipe_plan (snipe_position 1 499 None) rx b
      = Inr (True, rx, b\<lparr>sb_portfolio := snipe_reserved, sb_scheduled := [snipe_action], sb_recorder := r\<rparr>))
    \<and> nr_cashflows r = [((sample_digest (CHR ''f''), ''SOL''), 0)]"
proof -
  obtain t c where t: "reserve_buy snipe_sha snipe_intent snipe_network snipe_plan = Inr t" "json_ok (ledger_document t)"
      "lt_correlation_kind t = ROUNDTRIP" "lt_correlation_id t = sample_digest (CHR ''f'')"
      "map cash_row (lt_postings t) = [(PORTFOLIO_AVAILABLE, ''SOL'', -157), (PORTFOLIO_RESERVED, ''SOL'', 157)]"
      "portfolio_preview snipe_initial t = Inr c" "portfolio_commit_candidate snipe_initial c = snipe_reserved"
    using snipe_reserve by (elim exE conjE)
  have "cashflow_append [] t = Inr [((sample_digest (CHR ''f''), ''SOL''), 0)]"
    by (simp add: cashflow_rows[OF t(5,3,4)] dict_get_default_def)
  then obtain r where r: "snipe_ledger (sb_recorder b) t = Inr r"
      "nr_cashflows r = [((sample_digest (CHR ''f''), ''SOL''), 0)]"
    using snipe_ledger_ok[OF t(2), of "sb_recorder b"] assms(3) by auto
  have "apply_transaction t b = Inr (b\<lparr>sb_portfolio := snipe_reserved, sb_recorder := r\<rparr>)"
    by (simp add: apply_transaction_def sniping_preview_def assms(1) t(6,7) r)
  then show ?thesis
    using assms(2) r(2)
    by (cases b) (simp add: submit_buy_def snipe_env_fields t(1) snipe_intent_fields snipe_action_id snipe_schedule
      heappush_def snipe_reservation asset_amounts_document_def write_audit_ok json_ok_def snipe_ordinals
      snipe_noted_def cong: bindE_weak_cong)
qed

definition snipe_middle :: "sniping_recorder \<Rightarrow> (unit, unit) sniping_state" where
  "snipe_middle r = (snipe_opened r)\<lparr>sn_books := \<lparr>sb_portfolio = snipe_reserved, sb_accounts = sample_wallet,
       sb_recorder = r, sb_scheduled = [snipe_action]\<rparr>,
     sn_states := [(sample_digest (CHR ''f''), snipe_waiting)], sn_target_count := 1, sn_accepted_buys := 1\<rparr>"

lemma snipe_handle:
  assumes "nr_cashflows r = []"
  shows "\<exists>r'. handle_launch snipe_env 1 (snipe_opened r) snipe_target = Inr (snipe_middle r')
    \<and> nr_cashflows r' = [((sample_digest (CHR ''f''), ''SOL''), 0)]"
proof -
  have t: "lu_position snipe_target = snipe_position 0 0 (Some 0)" by (simp add: snipe_target_def)
  have q: "validate_buy_quote snipe_intent snipe_quote = Inr ()"
    by (simp add: validate_buy_quote_def snipe_intent_fields) (simp add: snipe_quote_def)
  have o: "pq_amount_out snipe_quote = 50" by (simp add: snipe_quote_def)
  let ?b = "\<lparr>sb_portfolio = snipe_initial, sb_accounts = sample_wallet, sb_recorder = r, sb_scheduled = []\<rparr>"
  obtain r' where s: "\<And>rx. submit_buy snipe_env snipe_intent snipe_network snipe_plan (snipe_position 1 499 None) rx ?b
      = Inr (True, rx, ?b\<lparr>sb_portfolio := snipe_reserved, sb_scheduled := [snipe_action], sb_recorder := r'\<rparr>)"
    "nr_cashflows r' = [((sample_digest (CHR ''f''), ''SOL''), 0)]"
    using snipe_submit[of ?b] assms by auto
  show ?thesis
    using s(2)
    by (simp add: handle_launch_def t snipe_env_fields snipe_range snipe_opened_def snipe_start_def snipe_config_fields(2,3)
      snipe_clock_facts accept_launch_def accept_buy_def price_buy_def snipe_fee sample_prepared catch_rejected_def
      submit_quoted_buy_def q o sniping_minimum_output_def snipe_reservation snipe_funded s(1) snipe_intent_fields
      require_field_def update_roundtrip_def snipe_middle_def snipe_waiting_def RoundTripState_def Let_def
      cong: bindE_weak_cong)
qed

lemma snipe_top: "heap_top [snipe_action] = Some snipe_action" "heappop [snipe_action] = []"
  by (simp_all add: heap_top_def heappop_def)

lemma snipe_kept: "n \<noteq> 4294967796 \<or> k < LANDING_ACTION \<Longrightarrow> pop_actions [snipe_action] n k = ([], [snipe_action])"
  using snipe_top(1) by (subst pop_actions.simps) (auto simp: snipe_action_def)

lemma snipe_taken: "pop_actions [snipe_action] 4294967796 LANDING_ACTION = ([BuyLanding (sample_digest (CHR ''f''))], [])"
proof -
  have "pop_actions [] n k = ([], [])" for n k by (subst pop_actions.simps) (simp add: heap_top_def)
  then show ?thesis
    using snipe_top by (subst pop_actions.simps) (simp add: snipe_action_def)
qed

lemma snipe_boundary1:
  assumes "nr_cashflows r = []"
  shows "\<exists>r'. sniping_boundary snipe_env snipe_groups (snipe_start r) = Inr ([], snipe_middle r')
    \<and> nr_cashflows r' = [((sample_digest (CHR ''f''), ''SOL''), 0)]"
proof -
  have n: "next_boundary (group_boundary snipe_groups) (scheduled_boundary (sn_books (snipe_start r))) = Inr 1"
    by (simp add: next_boundary_def group_boundary_def snipe_groups_def snipe_launch_facts scheduled_boundary_def
        snipe_start_def heap_top_def)
  obtain r1 where o: "open_boundary snipe_env 1 snipe_groups (snipe_start r)
      = Inr (snipe_position 0 0 None, [snipe_target], [], snipe_opened r1)" "nr_cashflows r1 = []"
    using snipe_open[of r] assms by metis
  have d: "decision_phase snipe_env 1 (snipe_position 0 0 None) (snipe_opened r1) = Inr (snipe_opened r1)"
    by (simp add: decision_phase_def take_actions_def snipe_opened_def snipe_start_def pop_actions.simps[of "[]"]
        heap_top_def)
  obtain r2 where h: "handle_launch snipe_env 1 (snipe_opened r1) snipe_target = Inr (snipe_middle r2)"
      "nr_cashflows r2 = [((sample_digest (CHR ''f''), ''SOL''), 0)]"
    using snipe_handle o(2) by blast
  have l: "landing_phase snipe_env 1 (snipe_position 0 0 None) (snipe_middle r2) = Inr (snipe_middle r2)"
    by (simp add: landing_phase_def take_actions_def snipe_middle_def snipe_kept)
  obtain r3 where c: "close_boundary snipe_env 1 (snipe_middle r2) = Inr (snipe_middle r3)"
      "nr_cashflows r3 = nr_cashflows r2"
    by (simp add: close_boundary_def snipe_middle_def snipe_opened_def snipe_start_def snipe_env_fields snipe_config_fields note_audit_def
        write_audit_ok json_ok_def snipe_noted_def)
  have "sniping_boundary snipe_env snipe_groups (snipe_start r) = Inr ([], snipe_middle r3)"
    by (simp add: sniping_boundary_def n o(1) d h(1) l c(1))
  then show ?thesis using h(2) c(2) by auto
qed

section \<open>The second boundary\<close>

definition snipe_components :: "account_component list" where
  "snipe_components = [raw_record (rp_components snipe_plan ! 0) (sample_digest (CHR ''f'')) RESERVATION_RELEASED 0 20,
     raw_record (rp_components snipe_plan ! 1) (sample_digest (CHR ''f'')) RESERVATION_RELEASED 0 30]"

definition snipe_failed :: roundtrip_state where
  "snipe_failed = snipe_waiting\<lparr>rx_buy_landing_position := Some (snipe_position 1 499 None),
     rx_buy_failure_code := Some ''GRADUATED'', rx_status := BUY_LANDED_FAILED, rx_terminal := True,
     rx_account_components := snipe_components\<rparr>"

lemma snipe_transition: "apply_buy_account_transition sample_wallet snipe_plan False
    = Inr \<lparr>pt_state = sample_wallet, pt_records = snipe_components\<rparr>"
  by (simp add: apply_buy_account_transition_def sample_wallet_def sample_plan_def sample_priced_def mint_open_def
     failed_buy_record_def existing_wallet_lifecycle_def component_record_def AccountComponentRecord_def
     AccountRequirement_def require_account_u64_def validate_lifecycle_amounts_def INT128_BOUND_def UINT64_MAX_def
     Let_def snipe_components_def account_stable_name_def strip_def is_space_def char_code_def)

definition snipe_after :: "sniping_recorder \<Rightarrow> (unit, unit) sniping_state" where
  "snipe_after r = (snipe_middle r)\<lparr>sn_books := \<lparr>sb_portfolio = snipe_settled, sb_accounts = sample_wallet,
       sb_recorder = r, sb_scheduled = []\<rparr>,
     sn_states := [(sample_digest (CHR ''f''), snipe_failed)], sn_failed_buys := 1\<rparr>"

lemma snipe_fail:
  assumes "sb_portfolio b = snipe_reserved" and "sb_accounts b = sample_wallet"
    and "nr_cashflows (sb_recorder b) = [((sample_digest (CHR ''f''), ''SOL''), 0)]"
  shows "\<exists>r. (\<forall>rx. fail_landed_buy snipe_env snipe_intent (snipe_position 1 499 None) snipe_network snipe_plan
        ''GRADUATED'' rx b
      = Inr (False, rx\<lparr>rx_buy_failure_code := Some ''GRADUATED'', rx_status := BUY_LANDED_FAILED, rx_terminal := True,
           rx_account_components := snipe_components\<rparr>, b\<lparr>sb_portfolio := snipe_settled, sb_recorder := r\<rparr>))
    \<and> nr_cashflows r = [((sample_digest (CHR ''f''), ''SOL''), -7)]"
proof -
  obtain t c where t: "failed_buy_settlement snipe_sha snipe_intent 4294967796 snipe_network snipe_plan ''fee:n''
        ''GRADUATED'' = Inr t" "json_ok (ledger_document t)"
      "lt_correlation_kind t = ROUNDTRIP" "lt_correlation_id t = sample_digest (CHR ''f'')"
      "map cash_row (lt_postings t) = [(PORTFOLIO_RESERVED, ''SOL'', -157), (PORTFOLIO_AVAILABLE, ''SOL'', 150),
          (NETWORK_FEE, ''SOL'', 7)]"
      "portfolio_preview snipe_reserved t = Inr c" "portfolio_commit_candidate snipe_reserved c = snipe_settled"
    using snipe_failure by (elim exE conjE)
  have "cashflow_append [((sample_digest (CHR ''f''), ''SOL''), 0)] t
      = Inr [((sample_digest (CHR ''f''), ''SOL''), -7)]"
    by (simp add: cashflow_rows[OF t(5,3,4)] dict_get_default_def)
  then obtain r where r: "snipe_ledger (sb_recorder b) t = Inr r"
      "nr_cashflows r = [((sample_digest (CHR ''f''), ''SOL''), -7)]"
    using snipe_ledger_ok[OF t(2), of "sb_recorder b"] assms(3) by auto
  have "apply_transaction_with_accounts t \<lparr>pt_state = sample_wallet, pt_records = snipe_components\<rparr> b
      = Inr (b\<lparr>sb_portfolio := snipe_settled, sb_recorder := r\<rparr>)"
    using assms(1,2) r(1) by (cases b)
      (simp add: apply_transaction_with_accounts_def sniping_preview_def t(6,7) wallet_commit_def)
  then show ?thesis
    using assms r(2)
    by (cases b) (simp add: fail_landed_buy_def snipe_env_fields t(1) snipe_intent_fields snipe_transition
      snipe_ordinals write_audit_ok json_ok_def snipe_noted_def cong: bindE_weak_cong)
qed

lemma snipe_land:
  assumes "nr_cashflows r = [((sample_digest (CHR ''f''), ''SOL''), 0)]"
  shows "\<exists>r'. landing_phase snipe_env 4294967796 (snipe_position 1 499 None) (snipe_middle r) = Inr (snipe_after r')
    \<and> nr_cashflows r' = [((sample_digest (CHR ''f''), ''SOL''), -7)]"
proof -
  let ?b = "\<lparr>sb_portfolio = snipe_reserved, sb_accounts = sample_wallet, sb_recorder = r, sb_scheduled = []\<rparr>"
  obtain r' where s: "\<And>rx. fail_landed_buy snipe_env snipe_intent (snipe_position 1 499 None) snipe_network snipe_plan
        ''GRADUATED'' rx ?b
      = Inr (False, rx\<lparr>rx_buy_failure_code := Some ''GRADUATED'', rx_status := BUY_LANDED_FAILED, rx_terminal := True,
           rx_account_components := snipe_components\<rparr>, ?b\<lparr>sb_portfolio := snipe_settled, sb_recorder := r'\<rparr>)"
    "nr_cashflows r' = [((sample_digest (CHR ''f''), ''SOL''), -7)]"
    using snipe_fail[of ?b] assms by auto
  show ?thesis
    using s(2)
    by (simp add: landing_phase_def take_actions_def snipe_middle_def snipe_opened_def snipe_start_def snipe_taken land_action_def require_state_def
      land_buy_def snipe_waiting_def RoundTripState_def require_field_def snipe_env_fields snipe_clock_facts
      catch_rejected_def s(1) update_roundtrip_def snipe_after_def snipe_failed_def count_failure_def Let_def
      SECOND_def cong: bindE_weak_cong)
qed

lemma snipe_boundary2:
  assumes "nr_cashflows r = [((sample_digest (CHR ''f''), ''SOL''), 0)]"
  shows "\<exists>r'. sniping_boundary snipe_env [] (snipe_middle r) = Inr ([], snipe_after r')
    \<and> nr_cashflows r' = [((sample_digest (CHR ''f''), ''SOL''), -7)]"
proof -
  have n: "next_boundary (group_boundary []) (scheduled_boundary (sn_books (snipe_middle r))) = Inr 4294967796"
    by (simp add: next_boundary_def group_boundary_def scheduled_boundary_def snipe_middle_def snipe_top)
      (simp add: snipe_action_def)
  have o: "open_boundary snipe_env 4294967796 [] (snipe_middle r)
      = Inr (snipe_position 1 499 None, [], [], snipe_middle r)"
    using snipe_boundary_back
    by (simp add: open_boundary_def group_boundary_def snipe_env_fields) (simp add: snipe_clock_def)
  have d: "decision_phase snipe_env 4294967796 (snipe_position 1 499 None) (snipe_middle r) = Inr (snipe_middle r)"
    by (simp add: decision_phase_def take_actions_def snipe_middle_def snipe_kept less_action_kind_def)
  obtain r2 where h: "landing_phase snipe_env 4294967796 (snipe_position 1 499 None) (snipe_middle r) = Inr (snipe_after r2)"
      "nr_cashflows r2 = [((sample_digest (CHR ''f''), ''SOL''), -7)]"
    using snipe_land assms by blast
  obtain r3 where c: "close_boundary snipe_env 4294967796 (snipe_after r2) = Inr (snipe_after r3)"
      "nr_cashflows r3 = nr_cashflows r2"
    by (simp add: close_boundary_def snipe_after_def snipe_middle_def snipe_opened_def snipe_start_def snipe_env_fields snipe_config_fields note_audit_def
        write_audit_ok json_ok_def snipe_noted_def)
  have "sniping_boundary snipe_env [] (snipe_middle r) = Inr ([], snipe_after r3)"
    by (simp add: sniping_boundary_def n o d h(1) c(1))
  then show ?thesis using h(2) c(2) by auto
qed

lemma snipe_loop:
  assumes "nr_cashflows r = []"
  shows "\<exists>r'. sniping_loop snipe_env snipe_groups (snipe_start r) = Inr (snipe_after r')
    \<and> nr_cashflows r' = [((sample_digest (CHR ''f''), ''SOL''), -7)]"
proof -
  obtain r1 where r1: "sniping_boundary snipe_env snipe_groups (snipe_start r) = Inr ([], snipe_middle r1)"
      "nr_cashflows r1 = [((sample_digest (CHR ''f''), ''SOL''), 0)]"
    using snipe_boundary1 assms by blast
  obtain r2 where r2: "sniping_boundary snipe_env [] (snipe_middle r1) = Inr ([], snipe_after r2)"
      "nr_cashflows r2 = [((sample_digest (CHR ''f''), ''SOL''), -7)]"
    using snipe_boundary2 r1(2) by blast
  have g: "snipe_groups \<noteq> []" by (simp add: snipe_groups_def)
  have "sniping_loop snipe_env [] (snipe_after r2) = Inr (snipe_after r2)"
    by (subst sniping_loop.simps) (simp add: snipe_after_def)
  moreover
  have w: "sb_scheduled (sn_books (snipe_middle r1)) \<noteq> []" by (simp add: snipe_middle_def)
  have "sniping_loop snipe_env [] (snipe_middle r1) = sniping_loop snipe_env [] (snipe_after r2)"
    by (subst sniping_loop.simps) (simp add: r2(1) w)
  moreover have "sniping_loop snipe_env snipe_groups (snipe_start r) = sniping_loop snipe_env [] (snipe_middle r1)"
    by (subst sniping_loop.simps) (simp add: r1(1) g)
  ultimately show ?thesis using r2(2) by auto
qed

section \<open>The results\<close>

definition snipe_record :: roundtrip_record where
  "snipe_record = \<lparr>rt_roundtrip_id = sample_digest (CHR ''f''), rt_network_id = ''n'',
     rt_position_schema_id = BLOCK32_TRANSACTION32_POSITION_SCHEMA_ID,
     rt_target_event_id = sample_digest (CHR ''1''), rt_target_position = snipe_position 0 0 (Some 0),
     rt_target_time_ns = 0, rt_developer_id = ''D'', rt_creation_user_id = ''U'', rt_asset_id = ''M1'',
     rt_quote_asset_id = ''SOL'', rt_venue_id = ''V'', rt_cooldown_consumed = True, rt_cooldown_until_ns = None,
     rt_status = BUY_LANDED_FAILED,
     rt_buy = Some \<lparr>lg_side = LEG_BUY, lg_decision_position = snipe_position 0 0 (Some 0),
       lg_landing_position = Some (snipe_position 1 499 None), lg_amount_in = None, lg_reference_out = 50,
       lg_landing_out = None, lg_minimum_out = 49, lg_signed_slippage = None, lg_protocol_fee = 0,
       lg_creator_fee = 0, lg_network_base_fee = 5, lg_network_priority_fee = 2,
       lg_failure_code = Some ''GRADUATED''\<rparr>,
     rt_sell = None, rt_acquired = 0, rt_cashback = 0, rt_realized_pnl = Some (-7),
     rt_mtm_status = NOT_APPLICABLE, rt_mtm_value = None, rt_mtm_pnl = None, rt_economic_pnl = Some (-7),
     rt_account_profile_id = ''profile'', rt_account_components = snipe_components,
     rt_execution_mode = EXOGENOUS_REPLAY, rt_sell_reference_liquidity = None, rt_sell_landing_liquidity = None,
     rt_mtm_liquidity = None, rt_settled_venue = 0, rt_settled_synthetic = 0,
     rt_source_schema_id = ROUNDTRIP_RESULT_SCHEMA_V4\<rparr>"

lemma snipe_failed_fields:
  "rx_intent snipe_failed = Some snipe_intent" "rx_buy_reference snipe_failed = Some snipe_quote"
  "rx_buy_landing snipe_failed = None" "rx_buy_landing_position snipe_failed = Some (snipe_position 1 499 None)"
  "rx_buy_network snipe_failed = Some snipe_network" "rx_acquired snipe_failed = 0"
  "rx_buy_minimum_out snipe_failed = 49" "rx_buy_failure_code snipe_failed = Some ''GRADUATED''"
  "rx_sell_reference snipe_failed = None" "rx_sell_landing snipe_failed = None"
  "rx_status snipe_failed = BUY_LANDED_FAILED" "rx_account_components snipe_failed = snipe_components"
  "rx_target snipe_failed = snipe_target" "rx_target_time_ns snipe_failed = 0"
  "rx_cooldown_consumed snipe_failed = True" "rx_cooldown_until_ns snipe_failed = None" "rx_cashback snipe_failed = 0"
  by (simp_all add: snipe_failed_def snipe_waiting_def RoundTripState_def)

lemma snipe_leg: "buy_leg snipe_failed = Inr (rt_buy snipe_record)"
proof -
  have "require_same_chain (snipe_position 0 0 (Some 0)) (snipe_position 1 499 None) = Inr ()"
    by (simp add: require_same_chain_def chain_identity_def snipe_position_def)
  then show ?thesis
    by (simp add: buy_leg_def snipe_failed_fields snipe_record_def snipe_intent_fields snipe_quote_def snipe_network_def
        charged_network_def filled_amount_def charged_amount_def RoundTripLegRecord_def leg_landing_check_def
        leg_slippage_check_def snipe_ordinals require_optional_non_negative_def require_stable_token_def strip_def
        is_space_def char_code_def is_alnum_char_def Let_def)
qed

lemma snipe_component_facts:
  "map ac_scope snipe_components = [MINT, WALLET]" "map ac_lifecycle snipe_components = [RESERVATION_RELEASED, RESERVATION_RELEASED]"
  "map account_component_key snipe_components = [(''MINT'', ''ata'', ''ROUNDTRIP'', replicate 64 (CHR ''f'')),
     (''WALLET'', ''uva'', ''ROUNDTRIP'', replicate 64 (CHR ''f''))]"
  by (simp_all add: snipe_components_def sample_plan_def sample_priced_def account_component_key_def)

lemma snipe_record_valid: "RoundTripRecord snipe_record = Inr snipe_record"
proof -
  have c: "validate_roundtrip_components snipe_record = Inr ()"
    by (simp add: validate_roundtrip_components_def snipe_record_def)
      (simp add: snipe_components_def sample_plan_def sample_priced_def)
  have s: "validate_settled_liquidity snipe_record = Inr ()"
    by (simp add: validate_settled_liquidity_def snipe_record_def successful_sell_def)
  have p: "cp_network_id (rt_target_position snipe_record) = rt_network_id snipe_record"
    "cp_position_schema_id (rt_target_position snipe_record) = rt_position_schema_id snipe_record"
    "require_same_chain (rt_target_position snipe_record) (snipe_position 0 0 (Some 0)) = Inr ()"
    by (simp_all add: snipe_record_def snipe_position_def require_same_chain_def)
  have k: "map account_component_key (rt_account_components snipe_record)
      = [(''MINT'', ''ata'', ''ROUNDTRIP'', replicate 64 (CHR ''f'')), (''WALLET'', ''uva'', ''ROUNDTRIP'', replicate 64 (CHR ''f''))]"
    by (simp add: snipe_record_def snipe_component_facts)
  show ?thesis
    unfolding RoundTripRecord_def c s k
    using p by (simp add: snipe_record_def option_list_def liquidity_values_def require_nonempty_trimmed_def
      strip_def is_space_def char_code_def Let_def less_eq_char_def less_char_def ROUNDTRIP_RESULT_SCHEMA_V4_def
      ROUNDTRIP_RESULT_SCHEMA_V3_def)
qed

lemma snipe_positions: "cp_block_ordinal (snipe_position b i e) = b" "cp_transaction_index (snipe_position b i e) = i"
  "cp_event_index (snipe_position b i e) = e" "cp_network_id (snipe_position b i e) = ''n''"
  "cp_position_schema_id (snipe_position b i e) = BLOCK32_TRANSACTION32_POSITION_SCHEMA_ID"
  by (simp_all add: snipe_position_def)

lemma snipe_document: "json_ok (JObj (roundtrip_document snipe_record))"
  by (simp add: json_ok_def roundtrip_document_def snipe_record_def ROUNDTRIP_RESULT_SCHEMA_V4_def
      ROUNDTRIP_RESULT_SCHEMA_V3_def)
    (simp add: snipe_components_def sample_plan_def sample_priced_def component_document_def optional_leg_def
      leg_document_def position_document_def snipe_positions snipe_ordinals optional_int_def optional_evidence_def
      BLOCK32_TRANSACTION32_POSITION_SCHEMA_ID_def)

lemma snipe_finalized: "finalize_roundtrip snipe_env () (sample_digest (CHR ''f'')) snipe_failed (-7) 4 = Inr snipe_record"
proof -
  have "run_locked_value snipe_components = []"
    by (simp add: run_locked_value_def snipe_components_def sample_plan_def sample_priced_def asset_totals_def)
  then have v: "roundtrip_value snipe_env () snipe_failed (-7) 4 = Inr (realized_valuation snipe_failed (-7) 0)"
    by (simp add: roundtrip_value_def snipe_failed_fields asset_amount_def dict_get_default_def)
  have "finalize_roundtrip snipe_env () (sample_digest (CHR ''f'')) snipe_failed (-7) 4 = RoundTripRecord snipe_record"
    by (simp add: finalize_roundtrip_def snipe_leg v sell_leg_def snipe_failed_fields optional_quote_liquidity_record_def
      settled_venue_funded_atomic_def settled_synthetic_funded_atomic_def snipe_env_fields snipe_config_fields
      realized_valuation_def)
      (simp add: snipe_record_def snipe_target_def snipe_positions)
  then show ?thesis by (simp add: snipe_record_valid)
qed


lemma snipe_last: "last (tc_times snipe_clock) div SECOND = 4"
  by (simp add: snipe_clock_def SECOND_def)

lemma snipe_finalize_all:
  assumes "nr_cashflows r = [((sample_digest (CHR ''f''), ''SOL''), -7)]"
  shows "\<exists>r'. finalize_all snipe_env 4 (snipe_after r) = Inr ([snipe_record], r')"
proof -
  have q: "lu_quote_asset_id snipe_target = ''SOL''" by (simp add: snipe_target_def)
  have "snipe_roundtrip r snipe_record = Inr (r\<lparr>nr_roundtrips := stream_fed (nr_roundtrips r)
      (JObj (roundtrip_document snipe_record)), nr_roundtrip_sink := nr_roundtrip_sink r @ [snipe_record]\<rparr>)"
    using snipe_document by (simp add: snipe_roundtrip_def json_ok_def stream_append_fed)
  then show ?thesis
    by (simp add: finalize_all_def snipe_after_def snipe_failed_fields q assms cashflow_amount_def dict_get_default_def
      snipe_middle_def snipe_opened_def snipe_start_def snipe_finalized)
qed

lemma snipe_summary: "\<exists>s. sniping_summary_of snipe_env snipe_source (snipe_after r) [snipe_record] r' = Inr s
    \<and> sy_realized_cash_pnl_atomic s = -7 \<and> sy_failed_buy_count s = 1 \<and> sy_accepted_buy_count s = 1"
proof -
  have "\<exists>bs h. semantic_balances snipe_settled = Inr bs \<and> balances_stream bs = Inr h"
    by (simp add: semantic_balances_def snipe_settled_def balances_stream_def CanonicalStreamHasher_def
        stream_append_fed strip_def is_space_def char_code_def nul_def less_eq_char_def less_char_def)
  then obtain bs h where bs: "semantic_balances snipe_settled = Inr bs" and h: "balances_stream bs = Inr h" by blast
  have v: "json_validate (sniping_result_document env st a r'' policy lh fh rh bh bs) = Inr ()"
    for env :: "(unit, unit) sniping_env" and st a r'' policy lh fh rh bh
    by (simp add: sniping_result_document_def optional_int_def split: option.split)
  have p: "sb_portfolio (sn_books (snipe_after r)) = snipe_settled" by (simp add: snipe_after_def)
  have a: "ag_realized_cash_pnl (roundtrip_aggregates_of [snipe_record]) = -7"
    by (simp add: roundtrip_aggregates_of_def aggregate_append_def empty_aggregates_def snipe_record_def)
  show ?thesis
    by (simp add: sniping_summary_of_def p bs h snipe_env_fields snipe_config_fields sample_stream_digest
      domain_digest_ok v sample_digests a strip_def is_space_def char_code_def nul_def
      Let_def cong: bindE_weak_cong) (simp add: snipe_after_def snipe_middle_def)
qed

lemma snipe_run: "\<exists>s r. run_sniping snipe_env snipe_source None 1 () () = Inr (s, [snipe_record], snipe_after r)
    \<and> nr_cashflows r = [((sample_digest (CHR ''f''), ''SOL''), -7)]
    \<and> sy_realized_cash_pnl_atomic s = -7 \<and> sy_failed_buy_count s = 1 \<and> sy_accepted_buy_count s = 1"
proof -
  obtain r0 where r0: "initial_sniping_state snipe_config None () () = Inr (snipe_start r0)" "nr_cashflows r0 = []"
    using snipe_initial_state by blast
  obtain r1 where r1: "sniping_loop snipe_env snipe_groups (snipe_start r0) = Inr (snipe_after r1)"
      "nr_cashflows r1 = [((sample_digest (CHR ''f''), ''SOL''), -7)]"
    using snipe_loop r0(2) by blast
  obtain r2 where r2: "finalize_all snipe_env 4 (snipe_after r1) = Inr ([snipe_record], r2)"
    using snipe_finalize_all r1(2) by blast
  obtain s where s: "sniping_summary_of snipe_env snipe_source (snipe_after r1) [snipe_record] r2 = Inr s"
      "sy_realized_cash_pnl_atomic s = -7" "sy_failed_buy_count s = 1" "sy_accepted_buy_count s = 1"
    using snipe_summary by blast
  have c: "validate_chain_contract snipe_clock snipe_config = Inr ()"
    by (simp add: validate_chain_contract_def snipe_config_fields snipe_clock_def)
  have k: "check_sniping_counts snipe_source 1 1 (snipe_after r1) = Inr ()"
    by (simp add: check_sniping_counts_def snipe_after_def snipe_middle_def snipe_opened_def snipe_start_def
        indexed_count_differs_def snipe_source_fields finish_sniping_merge_def)
  have "run_sniping snipe_env snipe_source None 1 () () = Inr (s, [snipe_record], snipe_after r1)"
    by (simp add: run_sniping_def snipe_env_fields c snipe_preflight preflight_sniping_delivery_schedule_def r0(1)
        snipe_source_fields snipe_event_groups r1(1) k snipe_last r2 s(1) cong: bindE_weak_cong)
  then show ?thesis using r1(2) s(2-4) by blast
qed

end
