(* ===== verification/Sniping_Guarantees.thy ===== *)
theory Sniping_Guarantees
  imports Sniping_Sample
begin

text \<open>
  What every finished sniping run guarantees, with the sample run as the witness: every round trip ended, no
  reservation is left, the final balances are the replay of the recorded ledger, the cash-flow view agrees
  with the liquid accounts, and the source was replayed group by group.
\<close>

section \<open>Balances of one kind\<close>

lemma nonneg_sum_zero:
  fixes xs :: "int list"
  shows "sum_list xs = 0 \<Longrightarrow> list_all (\<lambda>v. 0 \<le> v) xs \<Longrightarrow> v \<in> set xs \<Longrightarrow> v = 0"
proof (induction xs)
  case (Cons x xs)
  have "0 \<le> sum_list xs" using Cons.prems(2) by (induction xs) auto
  with Cons show ?case by auto
qed simp

lemma kind_total_zero:
  assumes "portfolio_inv pf" and "kind_total pf {k} a = 0" and "is_portfolio_kind k"
    and "dict_get (pf_account_kinds pf) account = Some k"
  shows "dict_get_default (pf_balances pf) (account, a) 0 = 0"
proof (cases "dict_get (pf_balances pf) (account, a)")
  case (Some v)
  let ?rows = "filter (\<lambda>e. kind_key (pf_account_kinds pf) {k} a (fst e)) (pf_balances pf)"
  have "list_all (\<lambda>v. 0 \<le> v) (map snd ?rows)"
  proof -
    have "0 \<le> snd e" if e: "e \<in> set ?rows" for e
    proof -
      obtain acct asset w where ev: "e = ((acct, asset), w)" by (metis surj_pair)
      with e have "dict_get (pf_balances pf) (acct, asset) = Some w" "dict_get (pf_account_kinds pf) acct = Some k"
        using assms(1) by (auto simp: portfolio_inv_def balances_ok_def kind_key_def split: option.splits)
      then show ?thesis using assms(1,3) by (fastforce simp: ev portfolio_inv_def balances_ok_def)
    qed
    then show ?thesis by (auto simp: list_all_iff)
  qed
  moreover have "((account, a), v) \<in> set ?rows"
    using assms(4) map_of_SomeD[OF Some] by (simp add: kind_key_def)
  then have "v \<in> set (map snd ?rows)" by force
  ultimately have "v = 0"
    using assms(2) unfolding kind_total_def balance_sum_def by (metis nonneg_sum_zero)
  with Some show ?thesis by (simp add: dict_get_default_def)
qed (simp add: dict_get_default_def)

section \<open>Finished runs\<close>



text \<open>C5: Every reservation is released: after a finished run each reserved account of the portfolio has
  balance zero in every asset, whether its orders filled, failed or were never submitted.\<close>

theorem sniping_releases_reservations:
  assumes "run_sniping env src schedule threads strategy protocol = Inr (summary, records, st)"
    and "quotes_valid env" and "decisions_valid env"
    and "dict_get (pf_account_kinds (sb_portfolio (sn_books st))) account = Some PORTFOLIO_RESERVED"
  shows "dict_get_default (pf_balances (sb_portfolio (sn_books st))) (account, a) 0 = 0"
proof -
  obtain st0 where inv: "portfolio_inv (sb_portfolio (sn_books st))"
      "tracks (sn_states st) {#} (books_reserved (sn_books st))"
    using finished_run[OF assms(1-3)] by blast
  from finished_states(2)[OF inv(2)] show ?thesis
    by (intro kind_total_zero[OF inv(1) _ _ assms(4)]) (simp_all add: books_reserved_def is_portfolio_kind_def)
qed

theorem sniping_releases_reservations_witness:
  "\<exists>s rs st. run_sniping snipe_env snipe_source None 1 () () = Inr (s, rs, st) \<and> sy_accepted_buy_count s = 1
     \<and> dict_get (pf_account_kinds (sb_portfolio (sn_books st))) ''portfolio:reserved:SOL'' = Some PORTFOLIO_RESERVED
     \<and> dict_get_default (pf_balances (sb_portfolio (sn_books st))) (''portfolio:reserved:SOL'', ''SOL'') 0 = 0"
proof -
  obtain s r where run: "run_sniping snipe_env snipe_source None 1 () () = Inr (s, [snipe_record], snipe_after r)"
      "sy_accepted_buy_count s = 1"
    using snipe_run by blast
  have k: "dict_get (pf_account_kinds (sb_portfolio (sn_books (snipe_after r)))) ''portfolio:reserved:SOL''
      = Some PORTFOLIO_RESERVED"
    by (simp add: snipe_after_def snipe_settled_def)
  from sniping_releases_reservations[OF run(1) snipe_ports k, of "''SOL''"] k run show ?thesis by blast
qed

text \<open>C6: The recorded ledger is complete: replaying the transactions a finished run recorded on the
  configured portfolio gives the final portfolio. Each recorded transaction balances in every asset, so the
  total of every asset over all accounts is the initial one, and no portfolio account is overdrawn.\<close>

theorem sniping_ledger_replays:
  assumes "run_sniping env src schedule threads strategy protocol = Inr (summary, records, st)"
    and "quotes_valid env" and "decisions_valid env"
    and "PortfolioState (sg_initial_available (sv_config env)) = Inr pf"
  shows "foldE portfolio_apply pf (nr_ledger_sink (sb_recorder (sn_books st))) = Inr (sb_portfolio (sn_books st))
    \<and> list_all valid_transaction (nr_ledger_sink (sb_recorder (sn_books st)))
    \<and> portfolio_inv (sb_portfolio (sn_books st))
    \<and> (\<forall>a. portfolio_total (sb_portfolio (sn_books st)) a = portfolio_total pf a)"
proof -
  obtain st0 where i: "initial_sniping_state (sv_config env) schedule strategy protocol = Inr st0"
    and e: "books_extend (sn_books st0) (sn_books st)" and p: "portfolio_inv (sb_portfolio (sn_books st))"
    using finished_run[OF assms(1-3)] by metis
  have pf: "sb_portfolio (sn_books st0) = pf" using initial_sniping_inv(3)[OF i] assms(4) by simp
  have ts: "foldE portfolio_apply pf (nr_ledger_sink (sb_recorder (sn_books st))) = Inr (sb_portfolio (sn_books st))"
    "list_all valid_transaction (nr_ledger_sink (sb_recorder (sn_books st)))"
    using e initial_sniping_inv(4)[OF i] by (auto simp: books_extend_def pf)
  have "portfolio_total pf' a = portfolio_total pf0 a"
    if "foldE portfolio_apply pf0 ts = Inr pf'" "list_all valid_transaction ts" for pf0 pf' ts a
    using that
    by (induction ts arbitrary: pf0) (auto dest!: portfolio_apply_effect(1)[where a = a] valid_transaction_sum[where a = a])
  with ts p show ?thesis by blast
qed

theorem sniping_ledger_replays_witness:
  "\<exists>s rs st. run_sniping snipe_env snipe_source None 1 () () = Inr (s, rs, st) \<and> sy_accepted_buy_count s = 1
     \<and> foldE portfolio_apply snipe_initial (nr_ledger_sink (sb_recorder (sn_books st))) = Inr snipe_settled
     \<and> portfolio_total snipe_settled ''SOL'' = 1000"
proof -
  obtain s r where run: "run_sniping snipe_env snipe_source None 1 () () = Inr (s, [snipe_record], snipe_after r)"
      "sy_accepted_buy_count s = 1"
    using snipe_run by blast
  have pf: "PortfolioState (sg_initial_available (sv_config snipe_env)) = Inr snipe_initial"
    by (simp add: snipe_env_fields) (simp add: snipe_config_def PortfolioState_def snipe_accounts snipe_initial_def)
  have st: "sb_portfolio (sn_books (snipe_after r)) = snipe_settled" by (simp add: snipe_after_def)
  have total: "portfolio_total snipe_initial ''SOL'' = 1000"
    by (simp add: portfolio_total_def asset_total_def snipe_initial_def)
  note replays = sniping_ledger_replays[OF run(1) snipe_ports pf, unfolded st]
  then have "foldE portfolio_apply snipe_initial (nr_ledger_sink (sb_recorder (sn_books (snipe_after r))))
      = Inr snipe_settled" "portfolio_total snipe_settled ''SOL'' = 1000"
    using total by auto
  then show ?thesis using run by blast
qed

text \<open>C7: The cash-flow view the results are computed from is exact: over a finished run the recorded cash
  flows of all round trips in an asset sum to the change of the liquid balances in that asset.\<close>

theorem sniping_cash_reconciles:
  assumes "run_sniping env src schedule threads strategy protocol = Inr (summary, records, st)"
    and "quotes_valid env" and "decisions_valid env"
    and "PortfolioState (sg_initial_available (sv_config env)) = Inr pf"
  shows "cash_total (nr_cashflows (sb_recorder (sn_books st))) a
    = kind_total (sb_portfolio (sn_books st)) liquid a - kind_total pf liquid a"
proof -
  obtain st0 where i: "initial_sniping_state (sv_config env) schedule strategy protocol = Inr st0"
    and e: "books_extend (sn_books st0) (sn_books st)"
    using finished_run[OF assms(1-3)] by metis
  have pf: "sb_portfolio (sn_books st0) = pf" using initial_sniping_inv(3)[OF i] assms(4) by simp
  obtain ts where ts: "foldE portfolio_apply pf ts = Inr (sb_portfolio (sn_books st))"
      "foldE cashflow_append [] ts = Inr (nr_cashflows (sb_recorder (sn_books st)))"
    using e initial_sniping_inv(5)[OF i] by (auto simp: books_extend_def pf)
  have "portfolio_inv pf" using assms(4) by (rule PortfolioState_inv(1))
  from ledger_moves_cash[OF ts this, of a] show ?thesis by (simp add: cash_total_def balance_sum_def)
qed

theorem sniping_cash_reconciles_witness:
  "\<exists>s r. run_sniping snipe_env snipe_source None 1 () () = Inr (s, [snipe_record], snipe_after r)
     \<and> sy_realized_cash_pnl_atomic s = -7 \<and> cash_total (nr_cashflows r) ''SOL'' = -7"
proof -
  obtain s r where run: "run_sniping snipe_env snipe_source None 1 () () = Inr (s, [snipe_record], snipe_after r)"
      "sy_realized_cash_pnl_atomic s = -7"
    using snipe_run by blast
  have pf: "PortfolioState (sg_initial_available (sv_config snipe_env)) = Inr snipe_initial"
    by (simp add: snipe_env_fields) (simp add: snipe_config_def PortfolioState_def snipe_accounts snipe_initial_def)
  have "kind_total snipe_settled liquid ''SOL'' - kind_total snipe_initial liquid ''SOL'' = -7"
    by (simp add: kind_total_def balance_sum_def kind_key_def snipe_settled_def snipe_initial_def)
  with sniping_cash_reconciles[OF run(1) snipe_ports pf, of "''SOL''"] have "cash_total (nr_cashflows r) ''SOL'' = -7"
    by (simp add: snipe_after_def)
  with run show ?thesis by blast
qed

section \<open>Termination and progress\<close>

text \<open>C13: Each boundary makes progress: it consumes the next historical group, or leaves strictly less
  scheduled work. A launch adds three stages of work at most, so the run always ends.\<close>

theorem sniping_boundary_progress:
  assumes "sniping_boundary env groups st = Inr (groups', st')"
  shows "(groups \<noteq> [] \<and> groups' = tl groups) \<or> (groups' = groups \<and> work_left st' < work_left st)"
  using boundary_consumes[OF assms] synthetic_boundary_decreases[OF assms] by auto

theorem sniping_boundary_progress_witness:
  "\<exists>r r'. sniping_boundary snipe_env [] (snipe_middle r) = Inr ([], snipe_after r')
     \<and> work_left (snipe_after r') < work_left (snipe_middle r)"
proof -
  obtain r r' where run: "sniping_boundary snipe_env [] (snipe_middle r) = Inr ([], snipe_after r')"
    using snipe_boundary2[of "undefined\<lparr>nr_cashflows := [((sample_digest (CHR ''f''), ''SOL''), 0)]\<rparr>"] by auto
  from sniping_boundary_progress[OF run] run show ?thesis by blast
qed

section \<open>The groups of the source\<close>

text \<open>The groups found so far, the open one included.\<close>

definition open_groups :: "canonical_event list list group_scan \<Rightarrow> canonical_event list list" where
  "open_groups s = gs_consumer s @ (if gs_current s = [] then [] else [gs_current s])"

definition same_transaction :: "canonical_event list \<Rightarrow> bool" where
  "same_transaction g \<longleftrightarrow> g \<noteq> [] \<and> (\<forall>e \<in> set g. event_boundary e = event_boundary (hd g) \<and> event_group e = event_group (hd g))"

lemma same_transaction_snoc:
  "same_transaction g \<Longrightarrow> event_boundary e = event_boundary (hd g) \<Longrightarrow> event_group e = event_group (hd g)
    \<Longrightarrow> same_transaction (g @ [e])"
  by (cases g) (auto simp: same_transaction_def)

definition grouped :: "canonical_event list list \<Rightarrow> bool" where
  "grouped gs \<longleftrightarrow> list_all same_transaction gs \<and> sorted_wrt (<) (map (\<lambda>g. event_boundary (hd g)) gs)"

definition scan_inv :: "transaction_clock \<Rightarrow> canonical_event list \<Rightarrow> canonical_event list list group_scan \<Rightarrow> bool" where
  "scan_inv clock seen s \<longleftrightarrow> concat (open_groups s) = seen \<and> grouped (open_groups s)
     \<and> (case gs_identity s of None \<Rightarrow> seen = [] \<and> gs_consumer s = [] \<and> gs_current s = [] \<and> gs_previous_key s = None
        | Some identity \<Rightarrow> gs_current s \<noteq> [] \<and> identity = (event_boundary (hd (gs_current s)), event_group (hd (gs_current s)))
          \<and> (\<exists>g i c. gs_previous_key s = Some (tc_network_id clock, tc_position_schema_id clock, fst identity, g, i, c)))"

lemma scan_event_later:
  assumes "gs_identity s = Some (b, h)" and "gs_previous_key s = Some previous"
    and "\<not> canonical_event_sort_key e \<le> previous"
  shows "scan_event clock consume s e = bindE (check_event_clock clock e) (\<lambda>_.
    if event_boundary e = b \<and> event_group e \<noteq> h then Inl (SnipingEngineError MIXED_TRANSACTION_GROUP)
    else if event_boundary e = b then
      Inr (s\<lparr>gs_previous_key := Some (canonical_event_sort_key e), gs_current := gs_current s @ [e],
        gs_identity := Some (b, h)\<rparr>)
    else bindE (consume (gs_consumer s) (gs_current s)) (\<lambda>consumer.
      Inr (s\<lparr>gs_previous_key := Some (canonical_event_sort_key e), gs_current := [e],
        gs_identity := Some (event_boundary e, event_group e), gs_consumer := consumer\<rparr>)))"
  using assms(3) unfolding scan_event_def Let_def assms(1,2) option.case by (simp add: assms(1))

lemma scan_event_inv:
  assumes run: "scan_event clock (\<lambda>groups g. Inr (groups @ [g])) s e = Inr s'" and inv: "scan_inv clock seen s"
  shows "scan_inv clock (seen @ [e]) s'"
proof (cases "gs_identity s")
  case None
  with assms show ?thesis
    by (auto simp: scan_event_def check_event_clock_def scan_inv_def open_groups_def grouped_def same_transaction_def
        canonical_event_sort_key_def event_boundary_def Let_def split: if_splits)
next
  case (Some identity)
  let ?key = "canonical_event_sort_key e"
  have key: "\<exists>g i c. ?key = (tc_network_id clock, tc_position_schema_id clock, event_boundary e, g, i, c)"
    using run by (auto simp: scan_event_def check_event_clock_def canonical_event_sort_key_def event_boundary_def Let_def
        split: if_splits)
  obtain previous where p: "gs_previous_key s = Some previous"
      "\<exists>g i c. previous = (tc_network_id clock, tc_position_schema_id clock, fst identity, g, i, c)"
    using inv Some by (auto simp: scan_inv_def)
  have less: "\<not> ?key \<le> previous" using run p(1) by (auto simp: scan_event_def Let_def)
  then have le: "fst identity \<le> event_boundary e" using key p(2) by (auto simp: less_eq_prod_simp)
  have seen: "concat (open_groups s) = seen" and g: "grouped (open_groups s)" and cur: "gs_current s \<noteq> []"
    and identity: "identity = (event_boundary (hd (gs_current s)), event_group (hd (gs_current s)))"
    using inv Some by (auto simp: scan_inv_def)
  have same: "same_transaction (gs_current s)" using g cur by (simp add: grouped_def open_groups_def)
  obtain b h where bh: "identity = (b, h)" by (cases identity)
  note later = scan_event_later[OF Some[unfolded bh] p(1) less, of clock "\<lambda>groups g. Inr (groups @ [g])"]
  have one: "same_transaction [e]" by (simp add: same_transaction_def)
  show ?thesis
  proof (cases "event_boundary e = b")
    case True
    then have h: "event_group e = h" and s': "s' = s\<lparr>gs_previous_key := Some ?key,
        gs_current := gs_current s @ [e], gs_identity := Some (b, h)\<rparr>"
      using run[unfolded later] by (auto split: if_splits)
    have "same_transaction (gs_current s @ [e])"
      using same True h identity bh by (intro same_transaction_snoc) simp_all
    then show ?thesis
      using seen g cur identity key True h bh unfolding s' by (simp add: scan_inv_def open_groups_def grouped_def)
  next
    case False
    then have s': "s' = s\<lparr>gs_previous_key := Some ?key, gs_current := [e],
        gs_identity := Some (event_boundary e, event_group e), gs_consumer := gs_consumer s @ [gs_current s]\<rparr>"
      using run[unfolded later] by auto
    have "b < event_boundary e" using False le bh by simp
    then show ?thesis
      using seen g cur identity key one bh unfolding s'
      by (auto simp: scan_inv_def open_groups_def grouped_def sorted_wrt_append)
  qed
qed

text \<open>C25: The grouping of the source loses nothing and mixes nothing: the groups concatenate to the events in
  their order, each group holds the events of one transaction at one boundary, and the boundaries of the
  groups strictly increase.\<close>

theorem event_groups_partition:
  assumes "event_groups clock events = Inr gs"
  shows "concat gs = events \<and> list_all same_transaction gs
    \<and> sorted_wrt (<) (map (\<lambda>g. event_boundary (hd g)) gs)"
proof -
  let ?s0 = "\<lparr>gs_current = [], gs_identity = None, gs_previous_key = None, gs_consumer = []\<rparr>"
  have scan: "scan_inv clock (seen @ es) s'"
    if "foldE (scan_event clock (\<lambda>groups g. Inr (groups @ [g]))) s es = Inr s'" "scan_inv clock seen s" for seen es s s'
    using that
  proof (induction es arbitrary: s seen)
    case (Cons e es)
    then obtain s1 where "scan_event clock (\<lambda>groups g. Inr (groups @ [g])) s e = Inr s1"
      and "foldE (scan_event clock (\<lambda>groups g. Inr (groups @ [g]))) s1 es = Inr s'" by auto
    with Cons.IH[of s1 "seen @ [e]"] scan_event_inv Cons.prems(2) show ?case by simp
  qed simp
  obtain s where s: "foldE (scan_event clock (\<lambda>groups g. Inr (groups @ [g]))) ?s0 events = Inr s"
    and gs: "gs = open_groups s"
    using assms by (auto simp: event_groups_def scan_groups_def open_groups_def split: if_splits)
  have "scan_inv clock [] ?s0" by (simp add: scan_inv_def open_groups_def grouped_def)
  from scan[OF s this] show ?thesis by (simp add: gs scan_inv_def grouped_def)
qed

theorem event_groups_partition_witness:
  "event_groups snipe_clock [snipe_launch] = Inr snipe_groups \<and> concat snipe_groups = [snipe_launch]"
  using event_groups_partition[OF snipe_event_groups] snipe_event_groups by blast

end
