(* ===== verification/Strategies.thy ===== *)
theory Strategies
  imports Copy_Domain Fidelity Sniping_Guarantees
begin

text \<open>
  The three strategies (\<^verbatim>\<open>plugins/strategies\<close>): the first-swap reference strategy, the launch sniper with
  its developer cooldown, and the copy buyer with its permanently consumed mints. What an engine asks of a
  strategy is a locale; each strategy is an interpretation.
\<close>

section \<open>What the engines ask of a strategy\<close>

locale launch_strategy =
  fixes decide :: "'s \<Rightarrow> launch_target \<Rightarrow> int \<Rightarrow> (launch_decision \<times> 's) res"
  assumes decision_sound: "decide s target time = Inr (d, s') \<Longrightarrow> LaunchDecision d = Inr d"
    and decision_names_intent: "decide s target time = Inr (d, s') \<Longrightarrow> ld_intent d = Some i
      \<Longrightarrow> ri_roundtrip_id i = ld_roundtrip_id d"
begin

lemma decides: "sv_decide env = decide \<Longrightarrow> decisions_valid env"
  using decision_sound decision_names_intent by (auto simp: decisions_valid_def)

end

locale swap_strategy =
  fixes on_event :: "'s \<Rightarrow> canonical_event \<Rightarrow> strategy_context \<Rightarrow> (intent list \<times> 's) res"
  assumes intents_sound: "on_event s e c = Inr (its, s') \<Longrightarrow> it \<in> set its \<Longrightarrow>
    (case it of Swap_Intent i \<Rightarrow> SwapExactInIntent i = Inr i | Round_Trip_Intent _ \<Rightarrow> True)"
begin

lemma emits: "ev_on_event env = on_event \<Longrightarrow> intents_valid env"
  using intents_sound by (auto simp: intents_valid_def list_all_iff)

end

section \<open>First swap\<close>

definition FIRST_SWAP_MINIMUM_FIDELITY :: fidelity_requirement where
  "FIRST_SWAP_MINIMUM_FIDELITY = default_requirement\<lparr>fd_identity := ID_EXACT, fd_ordering := TRANSACTION_EXACT,
     fd_state := AFTER_ONLY\<rparr>"

definition FIRST_SWAP_STRATEGY_BUNDLE_ID :: "(bytes \<Rightarrow> string) \<Rightarrow> digest res" where
  "FIRST_SWAP_STRATEGY_BUNDLE_ID sha =
     (let r = FIRST_SWAP_MINIMUM_FIDELITY in
      domain_digest sha ''backtest.first-swap-strategy-bundle.v2'' (JObj
        [(''api_version'', JInt 1),
         (''contract'', JStr ''first-observed-swap-exact-in-v1''),
         (''minimum_fidelity'', JObj
           [(''chain_finality'', JStr (member_value finality_members (fd_chain_finality r))),
            (''completeness'', JStr (member_value completeness_members (fd_completeness r))),
            (''consistency'', JStr (member_value consistency_members (fd_consistency r))),
            (''fees'', JStr (member_value fees_members (fd_fees r))),
            (''identity'', JStr (member_value identity_members (fd_identity r))),
            (''ordering'', JStr (member_value ordering_members (fd_ordering r))),
            (''state'', JStr (member_value state_members (fd_state r)))])]))"

text \<open>A configured strategy keeps its parameters, its identity and whether it submitted.\<close>

record first_swap =
  fw_pool_id :: pool_id
  fw_sold_asset_id :: asset_id
  fw_bought_asset_id :: asset_id
  fw_amount_in_atomic :: int
  fw_minimum_amount_out_atomic :: int
  fw_component_id :: digest
  fw_submitted :: bool

definition FirstSwapStrategy ::
  "(bytes \<Rightarrow> string) \<Rightarrow> pool_id \<Rightarrow> asset_id \<Rightarrow> asset_id \<Rightarrow> int \<Rightarrow> int \<Rightarrow> digest option \<Rightarrow> first_swap res" where
  "FirstSwapStrategy sha pool sold bought amount_in minimum_out bundle =
     (if amount_in \<le> 0 \<or> minimum_out < 0 then
        Inl (ValueError ''strategy amounts are outside their valid range'')
      else
        bindE (case bundle of None \<Rightarrow> FIRST_SWAP_STRATEGY_BUNDLE_ID sha | Some b \<Rightarrow> Inr b) (\<lambda>bundle_id.
        bindE (domain_digest sha ''backtest.configured-strategy-component.v1'' (JObj
            [(''amount_in_atomic'', JInt amount_in), (''bought_asset_id'', JStr bought),
             (''bundle_id'', JStr (digest_hex bundle_id)), (''minimum_amount_out_atomic'', JInt minimum_out),
             (''pool_id'', JStr pool), (''sold_asset_id'', JStr sold)])) (\<lambda>component.
        Inr \<lparr>fw_pool_id = pool, fw_sold_asset_id = sold, fw_bought_asset_id = bought, fw_amount_in_atomic = amount_in,
          fw_minimum_amount_out_atomic = minimum_out, fw_component_id = component, fw_submitted = False\<rparr>)))"

definition on_exact_primitive_swap ::
  "(bytes \<Rightarrow> string) \<Rightarrow> first_swap \<Rightarrow> digest \<Rightarrow> int \<Rightarrow> (intent list \<times> first_swap) res" where
  "on_exact_primitive_swap sha s event_id boundary =
     (if fw_submitted s then Inr ([], s)
      else if boundary < 0 then Inl (ValueError ''decision boundary must be a non-negative integer'')
      else bindE (domain_digest sha ''backtest.strategy-order.v1'' (JObj
          [(''decision_boundary'', JInt boundary), (''event_id'', JStr (digest_hex event_id)), (''sequence'', JInt 0),
           (''strategy_component_id'', JStr (digest_hex (fw_component_id s)))])) (\<lambda>order.
        bindE (SwapExactInIntent \<lparr>in_order_id = digest_hex order, in_pool_id = fw_pool_id s,
            in_sold_asset_id = fw_sold_asset_id s, in_bought_asset_id = fw_bought_asset_id s,
            in_amount_in_atomic = fw_amount_in_atomic s,
            in_minimum_amount_out_atomic = fw_minimum_amount_out_atomic s,
            in_created_boundary_ordinal = boundary\<rparr>) (\<lambda>i.
        Inr ([Swap_Intent i], s\<lparr>fw_submitted := True\<rparr>))))"

definition first_swap_on_event ::
  "(bytes \<Rightarrow> string) \<Rightarrow> first_swap \<Rightarrow> canonical_event \<Rightarrow> strategy_context \<Rightarrow> (intent list \<times> first_swap) res" where
  "first_swap_on_event sha s e c =
     (if fw_submitted s then Inr ([], s)
      else (case e of
          Venue_Trade_Event t \<Rightarrow>
            bindE (trade_pool_id t) (\<lambda>pool.
            if pool \<noteq> fw_pool_id s then Inr ([], s)
            else if mv_pool (sc_observed_market c) (fw_pool_id s) = None then Inr ([], s)
            else on_exact_primitive_swap sha s (ee_canonical_event_id (vt_envelope t))
              (si_boundary_ordinal (sc_instant c)))
        | _ \<Rightarrow> Inr ([], s)))"

definition swap_intent_valid :: "swap_intent \<Rightarrow> bool" where
  "swap_intent_valid i \<longleftrightarrow> in_sold_asset_id i \<noteq> in_bought_asset_id i \<and> 0 < in_amount_in_atomic i
     \<and> 0 \<le> in_minimum_amount_out_atomic i \<and> 0 \<le> in_created_boundary_ordinal i"

lemma SwapExactInIntent_iff: "SwapExactInIntent i = Inr i' \<longleftrightarrow> i' = i \<and> swap_intent_valid i"
  by (auto simp: SwapExactInIntent_def swap_intent_valid_def)

lemma first_swap_emits:
  assumes "first_swap_on_event sha s e c = Inr (its, s')"
  shows "its = [] \<and> s' = s \<or> (\<exists>i. its = [Swap_Intent i] \<and> SwapExactInIntent i = Inr i \<and> \<not> fw_submitted s
    \<and> in_pool_id i = fw_pool_id s \<and> s' = s\<lparr>fw_submitted := True\<rparr>)"
  using assms
  by (auto simp: first_swap_on_event_def on_exact_primitive_swap_def SwapExactInIntent_iff
      split: if_splits canonical_event.splits)

interpretation first: swap_strategy "first_swap_on_event sha"
proof
  fix s e c its s' it
  assume "first_swap_on_event sha s e c = Inr (its, s')" and "it \<in> set its"
  then show "case it of Swap_Intent i \<Rightarrow> SwapExactInIntent i = Inr i | Round_Trip_Intent _ \<Rightarrow> True"
    using first_swap_emits[of sha s e c its s'] by auto
qed

fun first_swap_events ::
  "(bytes \<Rightarrow> string) \<Rightarrow> first_swap \<Rightarrow> (canonical_event \<times> strategy_context) list \<Rightarrow> (intent list \<times> first_swap) res" where
  "first_swap_events sha s [] = Inr ([], s)"
| "first_swap_events sha s ((e, c) # es) =
     bindE (first_swap_on_event sha s e c) (\<lambda>(its, s1).
     bindE (first_swap_events sha s1 es) (\<lambda>(rest, s2). Inr (its @ rest, s2)))"

lemma submitted_silent: "first_swap_events sha s es = Inr (its, s') \<Longrightarrow> fw_submitted s \<Longrightarrow> its = [] \<and> s' = s"
  by (induction es arbitrary: its s') (auto simp: first_swap_on_event_def)

lemma first_swap_once:
  assumes "first_swap_events sha s es = Inr (its, s')"
  shows "length its \<le> 1"
  using assms
proof (induction es arbitrary: s its)
  case (Cons e es)
  obtain ev c where e: "e = (ev, c)" by (cases e)
  obtain its1 s1 its2 where 1: "first_swap_on_event sha s ev c = Inr (its1, s1)"
    and 2: "first_swap_events sha s1 es = Inr (its2, s')" and its: "its = its1 @ its2"
    using Cons.prems by (auto simp: e)
  from first_swap_emits[OF 1] show ?case
    using Cons.IH[OF 2] submitted_silent[OF 2] by (auto simp: its)
qed simp

section \<open>Launch sniping\<close>

definition PUMPFUN_SNIPING_COOLDOWN_NS :: int where "PUMPFUN_SNIPING_COOLDOWN_NS = 600000000000"

definition PUMPFUN_SNIPING_STRATEGY_BUNDLE_ID :: "(bytes \<Rightarrow> string) \<Rightarrow> digest res" where
  "PUMPFUN_SNIPING_STRATEGY_BUNDLE_ID sha =
     domain_digest sha ''backtest.pumpfun-sniping-strategy-bundle.v2'' (JObj
       [(''api_version'', JInt 2), (''buy_delay_transactions'', JInt 500), (''cooldown_seconds'', JInt 600),
        (''execution_modes'', JArr [JStr ''EXOGENOUS_REPLAY'', JStr ''EXOGENOUS_VIRTUAL_SETTLEMENT'']),
        (''sell_all'', JBool True), (''sell_decision_delay_seconds'', JInt 2)])"

record pumpfun_sniping =
  pn_quote_asset_id :: asset_id
  pn_gross_buy_budget_atomic :: int
  pn_buy_slippage_bps :: int
  pn_sell_slippage_bps :: int
  pn_sell_delay_transactions :: int
  pn_execution_mode :: execution_mode
  pn_component_id :: digest

text \<open>The mutable part: the cooldown expiry of each developer.\<close>

type_synonym developer_cooldowns = "(account_id, int) dict"

definition supported_exogenous_modes :: "execution_mode list" where
  "supported_exogenous_modes = [EXOGENOUS_REPLAY, EXOGENOUS_VIRTUAL_SETTLEMENT]"

definition PumpfunSnipingStrategy ::
  "(bytes \<Rightarrow> string) \<Rightarrow> asset_id \<Rightarrow> int \<Rightarrow> int \<Rightarrow> int \<Rightarrow> int \<Rightarrow> execution_mode \<Rightarrow> digest option \<Rightarrow> pumpfun_sniping res" where
  "PumpfunSnipingStrategy sha quote_asset budget buy_bps sell_bps sell_delay mode bundle =
     (if budget \<le> 0 then Inl (ValueError ''gross buy budget must be a positive integer'')
      else if \<not> (0 \<le> buy_bps \<and> buy_bps \<le> 10000) then Inl (ValueError ''buy_slippage_bps must be in [0, 10000]'')
      else if \<not> (0 \<le> sell_bps \<and> sell_bps \<le> 10000) then Inl (ValueError ''sell_slippage_bps must be in [0, 10000]'')
      else if sell_delay < 1 then Inl (ValueError ''sell delay transactions must be positive'')
      else if mode \<notin> set supported_exogenous_modes then
        Inl (ValueError ''unsupported Pump.fun Sniping execution mode'')
      else
        bindE (case bundle of None \<Rightarrow> PUMPFUN_SNIPING_STRATEGY_BUNDLE_ID sha | Some b \<Rightarrow> Inr b) (\<lambda>bundle_id.
        bindE (domain_digest sha ''backtest.configured-pumpfun-sniping-strategy.v2'' (JObj
            [(''bundle_id'', JStr (digest_hex bundle_id)), (''buy_slippage_bps'', JInt buy_bps),
             (''execution_mode'', JStr (execution_mode_value mode)), (''gross_buy_budget_atomic'', JInt budget),
             (''quote_asset_id'', JStr quote_asset), (''sell_delay_transactions'', JInt sell_delay),
             (''sell_slippage_bps'', JInt sell_bps)])) (\<lambda>component.
        Inr \<lparr>pn_quote_asset_id = quote_asset, pn_gross_buy_budget_atomic = budget, pn_buy_slippage_bps = buy_bps,
          pn_sell_slippage_bps = sell_bps, pn_sell_delay_transactions = sell_delay, pn_execution_mode = mode,
          pn_component_id = component\<rparr>)))"

definition launch_roundtrip_id :: "(bytes \<Rightarrow> string) \<Rightarrow> pumpfun_sniping \<Rightarrow> launch_target \<Rightarrow> digest res" where
  "launch_roundtrip_id sha cfg target =
     (let p = lu_position target in
      domain_digest sha ''backtest.pumpfun-sniping-roundtrip.v1'' (JObj
        [(''block_ordinal'', JInt (cp_block_ordinal p)), (''event_index'', optional_int (cp_event_index p)),
         (''network_id'', JStr (cp_network_id p)), (''position_schema_id'', JStr (cp_position_schema_id p)),
         (''strategy_component_id'', JStr (digest_hex (pn_component_id cfg))),
         (''target_event_id'', JStr (digest_hex (lu_target_event_id target))),
         (''transaction_index'', JInt (cp_transaction_index p))]))"

definition launch_intent :: "pumpfun_sniping \<Rightarrow> launch_target \<Rightarrow> digest \<Rightarrow> roundtrip_intent" where
  "launch_intent cfg target roundtrip =
     \<lparr>ri_roundtrip_id = roundtrip, ri_target_event_id = lu_target_event_id target,
      ri_target_position = lu_position target, ri_asset_id = lu_asset_id target,
      ri_developer_id = lu_developer_id target, ri_creation_user_id = lu_creation_user_id target,
      ri_venue_id = lu_venue_id target, ri_quote_asset_id = lu_quote_asset_id target,
      ri_gross_buy_budget_atomic = pn_gross_buy_budget_atomic cfg, ri_buy_slippage_bps = pn_buy_slippage_bps cfg,
      ri_sell_slippage_bps = pn_sell_slippage_bps cfg,
      ri_sell_delay_transactions = pn_sell_delay_transactions cfg,
      ri_created_boundary_ordinal = ordinal_of (lu_position target),
      ri_buy_delay_transactions = PUMPFUN_SNIPING_BUY_DELAY_TRANSACTIONS,
      ri_sell_decision_delay_ns = PUMPFUN_SNIPING_SELL_DECISION_DELAY_NS,
      ri_execution_mode = pn_execution_mode cfg\<rparr>"

definition decide_from_cooldown ::
  "(bytes \<Rightarrow> string) \<Rightarrow> pumpfun_sniping \<Rightarrow> launch_target \<Rightarrow> int \<Rightarrow> int option \<Rightarrow> launch_decision res" where
  "decide_from_cooldown sha cfg target time until =
     (if time < 0 \<or> time mod 1000000000 \<noteq> 0 then
        Inl (ValueError ''decision time must have non-negative second resolution'')
      else if lu_quote_asset_id target \<noteq> pn_quote_asset_id cfg then
        Inl (ProtocolContractError NON_SUPPORTED_QUOTE_ASSET)
      else bindE (launch_roundtrip_id sha cfg target) (\<lambda>roundtrip.
        if (case until of None \<Rightarrow> False | Some u \<Rightarrow> u < 0) then
          Inl (ValueError ''cooldown expiry must be a non-negative integer or None'')
        else if (case until of None \<Rightarrow> False | Some u \<Rightarrow> time < u) then
          LaunchDecision \<lparr>ld_roundtrip_id = roundtrip, ld_status = COOLDOWN_SUPPRESSED,
            ld_cooldown_until_ns = until, ld_intent = None\<rparr>
        else bindE (RoundTripIntent (launch_intent cfg target roundtrip)) (\<lambda>i.
          LaunchDecision \<lparr>ld_roundtrip_id = roundtrip, ld_status = ELIGIBLE,
            ld_cooldown_until_ns = Some (time + PUMPFUN_SNIPING_COOLDOWN_NS), ld_intent = Some i\<rparr>)))"

definition pumpfun_decide ::
  "(bytes \<Rightarrow> string) \<Rightarrow> pumpfun_sniping \<Rightarrow> developer_cooldowns \<Rightarrow> launch_target \<Rightarrow> int
    \<Rightarrow> (launch_decision \<times> developer_cooldowns) res" where
  "pumpfun_decide sha cfg cooldowns target time =
     bindE (decide_from_cooldown sha cfg target time (dict_get cooldowns (lu_developer_id target))) (\<lambda>d.
     if ld_status d = ELIGIBLE then
       (case ld_cooldown_until_ns d of
          None \<Rightarrow> Inl (AssertionError ''eligible cooldown decision has no expiry'')
        | Some until \<Rightarrow> Inr (d, dict_set (lu_developer_id target) until cooldowns))
     else Inr (d, cooldowns))"

lemma LaunchDecision_same: "LaunchDecision d = Inr d' \<Longrightarrow> d' = d"
  by (auto simp: LaunchDecision_def split: if_splits)

lemma RoundTripIntent_same: "RoundTripIntent i = Inr i' \<Longrightarrow> i' = i"
  by (auto simp: RoundTripIntent_def split: if_splits)

lemma decide_from_cooldown_cases:
  assumes "decide_from_cooldown sha cfg target time until = Inr d"
  obtains (suppressed) u where "until = Some u" "time < u" "ld_status d = COOLDOWN_SUPPRESSED" "ld_intent d = None"
      "LaunchDecision d = Inr d"
    | (eligible) "\<forall>u. until = Some u \<longrightarrow> u \<le> time" "ld_status d = ELIGIBLE"
      "ld_cooldown_until_ns d = Some (time + PUMPFUN_SNIPING_COOLDOWN_NS)"
      "ld_intent d = Some (launch_intent cfg target (ld_roundtrip_id d))" "LaunchDecision d = Inr d"
proof -
  consider u r where "until = Some u" "time < u" "LaunchDecision \<lparr>ld_roundtrip_id = r, ld_status = COOLDOWN_SUPPRESSED,
        ld_cooldown_until_ns = until, ld_intent = None\<rparr> = Inr d"
    | r where "\<forall>u. until = Some u \<longrightarrow> u \<le> time" "LaunchDecision \<lparr>ld_roundtrip_id = r, ld_status = ELIGIBLE,
        ld_cooldown_until_ns = Some (time + PUMPFUN_SNIPING_COOLDOWN_NS),
        ld_intent = Some (launch_intent cfg target r)\<rparr> = Inr d"
    using assms by (auto simp: decide_from_cooldown_def dest!: RoundTripIntent_same split: if_splits option.splits)
  then show ?thesis
  proof cases
    case 1
    from LaunchDecision_same[OF 1(3)] 1 show ?thesis by (intro suppressed) auto
  next
    case 2
    from LaunchDecision_same[OF 2(2)] 2 show ?thesis by (intro eligible) auto
  qed
qed

lemma pumpfun_decide_parts:
  assumes "pumpfun_decide sha cfg cd target time = Inr (d, cd')"
  shows "decide_from_cooldown sha cfg target time (dict_get cd (lu_developer_id target)) = Inr d"
    and "ld_status d = ELIGIBLE \<Longrightarrow> cd' = dict_set (lu_developer_id target) (time + PUMPFUN_SNIPING_COOLDOWN_NS) cd"
    and "ld_status d \<noteq> ELIGIBLE \<Longrightarrow> cd' = cd"
proof -
  show d: "decide_from_cooldown sha cfg target time (dict_get cd (lu_developer_id target)) = Inr d"
    using assms by (auto simp: pumpfun_decide_def split: if_splits option.splits)
  show "ld_status d \<noteq> ELIGIBLE \<Longrightarrow> cd' = cd"
    using assms d by (auto simp: pumpfun_decide_def)
  from d show "ld_status d = ELIGIBLE \<Longrightarrow> cd' = dict_set (lu_developer_id target) (time + PUMPFUN_SNIPING_COOLDOWN_NS) cd"
    by (rule decide_from_cooldown_cases) (use assms d in \<open>auto simp: pumpfun_decide_def\<close>)
qed

interpretation pumpfun: launch_strategy "pumpfun_decide sha cfg"
proof
  fix s target time d s' i
  assume run: "pumpfun_decide sha cfg s target time = Inr (d, s')"
  from pumpfun_decide_parts(1)[OF run] show "LaunchDecision d = Inr d" by (rule decide_from_cooldown_cases)
  assume i: "ld_intent d = Some i"
  from pumpfun_decide_parts(1)[OF run] show "ri_roundtrip_id i = ld_roundtrip_id d"
    by (rule decide_from_cooldown_cases) (use i in \<open>auto simp: launch_intent_def\<close>)
qed

fun pumpfun_decisions ::
  "(bytes \<Rightarrow> string) \<Rightarrow> pumpfun_sniping \<Rightarrow> developer_cooldowns \<Rightarrow> (launch_target \<times> int) list \<Rightarrow> launch_decision list res" where
  "pumpfun_decisions sha cfg cd [] = Inr []"
| "pumpfun_decisions sha cfg cd ((target, time) # rest) =
     bindE (pumpfun_decide sha cfg cd target time) (\<lambda>(d, cd).
     bindE (pumpfun_decisions sha cfg cd rest) (\<lambda>ds. Inr (d # ds)))"

lemma cooldown_respected:
  assumes "pumpfun_decisions sha cfg cd requests = Inr ds" and "dict_get cd dev = Some u"
    and "j < length requests" and "lu_developer_id (fst (requests ! j)) = dev" and "ld_status (ds ! j) = ELIGIBLE"
  shows "u \<le> snd (requests ! j)"
  using assms
proof (induction requests arbitrary: cd u ds j)
  case (Cons q requests)
  obtain target time where q: "q = (target, time)" by (cases q)
  obtain d cd1 ds1 where 1: "pumpfun_decide sha cfg cd target time = Inr (d, cd1)"
    and 2: "pumpfun_decisions sha cfg cd1 requests = Inr ds1" and ds: "ds = d # ds1"
    using Cons.prems(1) by (auto simp: q)
  note parts = pumpfun_decide_parts[OF 1]
  have eligible: "u \<le> time" if "lu_developer_id target = dev" "ld_status d = ELIGIBLE"
    using parts(1) by (rule decide_from_cooldown_cases) (use that Cons.prems(2) in auto)
  obtain u1 where u1: "dict_get cd1 dev = Some u1" "u \<le> u1"
  proof (cases "ld_status d = ELIGIBLE \<and> lu_developer_id target = dev")
    case True
    then show ?thesis using eligible parts(2) that[of "time + PUMPFUN_SNIPING_COOLDOWN_NS"]
      by (simp add: dict_get_set PUMPFUN_SNIPING_COOLDOWN_NS_def)
  next
    case False
    then have "dict_get cd1 dev = Some u" using parts(2,3) Cons.prems(2)
      by (cases "ld_status d = ELIGIBLE") (auto simp: dict_get_set)
    then show ?thesis using that[of u] by simp
  qed
  show ?case
  proof (cases j)
    case 0
    then show ?thesis using Cons.prems(4,5) eligible by (simp add: q ds)
  next
    case (Suc k)
    then have "u1 \<le> snd (requests ! k)"
      using Cons.prems(3-5) by (intro Cons.IH[OF 2 u1(1)]) (simp_all add: ds)
    with u1(2) Suc show ?thesis by simp
  qed
qed simp

text \<open>C38: The developer cooldown holds over any sequence of launches the sniper is asked about: two launches of
  one developer it enters are at least six hundred seconds apart, whatever was decided in between.\<close>

theorem cooldown_spaces_entries:
  assumes "pumpfun_decisions sha cfg cooldowns requests = Inr ds" and "i < j" and "j < length requests"
    and "lu_developer_id (fst (requests ! i)) = lu_developer_id (fst (requests ! j))"
    and "ld_status (ds ! i) = ELIGIBLE" and "ld_status (ds ! j) = ELIGIBLE"
  shows "snd (requests ! i) + 600000000000 \<le> snd (requests ! j)"
  using assms
proof (induction requests arbitrary: cooldowns ds i j)
  case (Cons q requests)
  obtain target time where q: "q = (target, time)" by (cases q)
  obtain d cd1 ds1 where 1: "pumpfun_decide sha cfg cooldowns target time = Inr (d, cd1)"
    and 2: "pumpfun_decisions sha cfg cd1 requests = Inr ds1" and ds: "ds = d # ds1"
    using Cons.prems(1) by (auto simp: q)
  obtain k where j: "j = Suc k" using Cons.prems(2) by (cases j) auto
  show ?case
  proof (cases i)
    case 0
    then have "dict_get cd1 (lu_developer_id target) = Some (time + PUMPFUN_SNIPING_COOLDOWN_NS)"
      using pumpfun_decide_parts(2)[OF 1] Cons.prems(5) by (simp add: ds dict_get_set)
    from cooldown_respected[OF 2 this, of k] Cons.prems 0 j show ?thesis
      by (simp add: q ds PUMPFUN_SNIPING_COOLDOWN_NS_def)
  next
    case (Suc n)
    then show ?thesis using Cons.IH[OF 2, of n k] Cons.prems(2-6) j by (simp add: ds)
  qed
qed simp

definition snipe_strategy :: pumpfun_sniping where
  "snipe_strategy = \<lparr>pn_quote_asset_id = ''SOL'', pn_gross_buy_budget_atomic = 100, pn_buy_slippage_bps = 100,
     pn_sell_slippage_bps = 100, pn_sell_delay_transactions = 1, pn_execution_mode = EXOGENOUS_REPLAY,
     pn_component_id = sample_digest (CHR ''c'')\<rparr>"

definition snipe_requests :: "(launch_target \<times> int) list" where
  "snipe_requests = [(snipe_target, 0), (snipe_target, 1000000000), (snipe_target, 700000000000)]"

lemma snipe_decisions: "\<exists>a b c. pumpfun_decisions snipe_sha snipe_strategy [] snipe_requests = Inr [a, b, c]
    \<and> ld_status a = ELIGIBLE \<and> ld_status b = COOLDOWN_SUPPRESSED \<and> ld_status c = ELIGIBLE"
proof -
  have id: "launch_roundtrip_id snipe_sha snipe_strategy snipe_target = Inr (replicate 64 (CHR ''0''))"
    by (simp add: launch_roundtrip_id_def domain_digest_ok sample_digests optional_int_def strip_def is_space_def
        char_code_def nul_def split: option.split)
  have intent: "RoundTripIntent (launch_intent snipe_strategy snipe_target r) = Inr (launch_intent snipe_strategy snipe_target r)" for r
    by (simp add: RoundTripIntent_def launch_intent_def snipe_strategy_def snipe_target_def)
  have q: "lu_quote_asset_id snipe_target = pn_quote_asset_id snipe_strategy" "lu_developer_id snipe_target = ''D''"
    by (simp_all add: snipe_target_def snipe_strategy_def)
  show ?thesis
    by (simp add: snipe_requests_def pumpfun_decide_def decide_from_cooldown_def q id intent LaunchDecision_def
        PUMPFUN_SNIPING_COOLDOWN_NS_def)
qed

theorem cooldown_spaces_entries_witness:
  "\<exists>ds. pumpfun_decisions snipe_sha snipe_strategy [] snipe_requests = Inr ds
     \<and> ld_status (ds ! 0) = ELIGIBLE \<and> ld_status (ds ! 2) = ELIGIBLE
     \<and> snd (snipe_requests ! 0) + 600000000000 \<le> snd (snipe_requests ! 2)"
proof -
  obtain a b c where run: "pumpfun_decisions snipe_sha snipe_strategy [] snipe_requests = Inr [a, b, c]"
      "ld_status a = ELIGIBLE" "ld_status c = ELIGIBLE"
    using snipe_decisions by blast
  have st: "ld_status ([a, b, c] ! 0) = ELIGIBLE" "ld_status ([a, b, c] ! 2) = ELIGIBLE" using run(2,3) by simp_all
  have rows: "(0 :: nat) < 2" "(2 :: nat) < length snipe_requests"
    "lu_developer_id (fst (snipe_requests ! 0)) = lu_developer_id (fst (snipe_requests ! 2))"
    by (simp_all add: snipe_requests_def)
  show ?thesis
    by (intro exI[of _ "[a, b, c]"] conjI run(1) st cooldown_spaces_entries[OF run(1) rows st])
qed

section \<open>Copy buying\<close>

record copy_buy_strategy =
  cy_policy :: copy_policy
  cy_bundle_id :: digest
  cy_wallets :: "account_id list"
  cy_execution_mode :: execution_mode
  cy_quote_asset_id :: asset_id
  cy_maximum_consumed_mints :: int
  cy_component_id :: digest

text \<open>The mutable part: the consumed mints, each listed once.\<close>

type_synonym consumed_mints = "asset_id list"

definition PumpfunCopyBuyStrategy ::
  "(bytes \<Rightarrow> string) \<Rightarrow> account_id list \<Rightarrow> copy_policy \<Rightarrow> digest \<Rightarrow> execution_mode \<Rightarrow> asset_id \<Rightarrow> int \<Rightarrow> copy_buy_strategy res" where
  "PumpfunCopyBuyStrategy sha wallets policy bundle mode quote_asset maximum =
     (if wallets = [] then Inl (ValueError ''signing_wallets must be a nonempty tuple'')
      else if sort (remdups wallets) \<noteq> wallets then Inl (ValueError ''signing_wallets must be sorted and unique'')
      else if maximum < 1 then Inl (ValueError ''maximum_consumed_mints must be a positive integer'')
      else if mode \<notin> set supported_exogenous_modes then Inl (ValueError ''unsupported copy-buy execution mode'')
      else bindE (domain_digest sha ''backtest.configured-pumpfun-copy-buy.v1'' (JObj
          [(''bundle_id'', JStr (digest_hex bundle)), (''signing_wallets'', JArr (map JStr wallets)),
           (''policy'', copy_policy_document policy), (''execution_mode'', JStr (execution_mode_value mode)),
           (''quote_asset_id'', JStr quote_asset)])) (\<lambda>component.
        Inr \<lparr>cy_policy = policy, cy_bundle_id = bundle, cy_wallets = wallets, cy_execution_mode = mode,
          cy_quote_asset_id = quote_asset, cy_maximum_consumed_mints = maximum, cy_component_id = component\<rparr>))"

definition copy_position_id ::
  "(bytes \<Rightarrow> string) \<Rightarrow> copy_buy_strategy \<Rightarrow> copy_signal \<Rightarrow> chain_position \<Rightarrow> digest res" where
  "copy_position_id sha cfg signal decision =
     (let p = cs_position signal in
      domain_digest sha ''backtest.pumpfun-copy-buy-position.v1'' (JObj
        [(''component_id'', JStr (digest_hex (cy_component_id cfg))),
         (''signal_event_id'', JStr (digest_hex (cs_event_id signal))),
         (''signing_wallet'', JStr (cs_signing_wallet signal)),
         (''network_id'', JStr (cp_network_id p)), (''position_schema_id'', JStr (cp_position_schema_id p)),
         (''signal_boundary'', JInt (ordinal_of p)), (''signal_event_index'', optional_int (cp_event_index p)),
         (''decision_boundary'', JInt (ordinal_of decision))]))"

definition copy_decide ::
  "(bytes \<Rightarrow> string) \<Rightarrow> copy_buy_strategy \<Rightarrow> consumed_mints \<Rightarrow> copy_signal \<Rightarrow> chain_position
    \<Rightarrow> (copy_intent option \<times> consumed_mints) res" where
  "copy_decide sha cfg consumed signal decision =
     (if cs_signing_wallet signal \<notin> set (cy_wallets cfg) then Inr (None, consumed)
      else if cs_quote_asset_id signal \<noteq> cy_quote_asset_id cfg then
        Inl (ValueError ''copy signal has an unsupported quote asset'')
      else if cs_asset_id signal \<in> set consumed then Inr (None, consumed)
      else if cy_maximum_consumed_mints cfg \<le> int (length consumed) then
        Inl (ValueError ''copy-buy consumed-mint resource limit exceeded'')
      else bindE (copy_position_id sha cfg signal decision) (\<lambda>position_id.
        bindE (CopyBuyIntent \<lparr>ci_roundtrip_id = position_id, ci_signal = signal, ci_decision_position = decision,
          ci_policy = cy_policy cfg, ci_execution_mode = cy_execution_mode cfg\<rparr>) (\<lambda>i.
        Inr (Some i, consumed @ [cs_asset_id signal]))))"

definition followed :: "copy_buy_strategy \<Rightarrow> copy_signal \<Rightarrow> bool" where
  "followed cfg signal \<longleftrightarrow> cs_signing_wallet signal \<in> set (cy_wallets cfg)"

lemma copy_decide_cases:
  assumes "copy_decide sha cfg consumed signal decision = Inr (out, consumed')"
  obtains (skipped) "\<not> followed cfg signal \<or> cs_asset_id signal \<in> set consumed" "out = None" "consumed' = consumed"
    | (entered) i where "followed cfg signal" "cs_asset_id signal \<notin> set consumed"
      "int (length consumed) < cy_maximum_consumed_mints cfg" "out = Some i"
      "consumed' = consumed @ [cs_asset_id signal]" "ci_signal i = signal" "ci_decision_position i = decision"
      "ci_policy i = cy_policy cfg" "copy_intent_valid i"
proof (cases "followed cfg signal \<and> cs_asset_id signal \<notin> set consumed")
  case True
  then obtain i where "out = Some i" "copy_intent_valid i" "ci_signal i = signal" "ci_decision_position i = decision"
      "ci_policy i = cy_policy cfg" "consumed' = consumed @ [cs_asset_id signal]"
      "int (length consumed) < cy_maximum_consumed_mints cfg"
    using assms by (auto simp: copy_decide_def followed_def CopyBuyIntent_iff split: if_splits)
  with True show ?thesis by (intro entered) simp_all
next
  case False
  then show ?thesis using assms by (intro skipped) (auto simp: copy_decide_def followed_def split: if_splits)
qed

fun copy_decisions ::
  "(bytes \<Rightarrow> string) \<Rightarrow> copy_buy_strategy \<Rightarrow> consumed_mints \<Rightarrow> (copy_signal \<times> chain_position) list
    \<Rightarrow> copy_intent option list res" where
  "copy_decisions sha cfg consumed [] = Inr []"
| "copy_decisions sha cfg consumed ((signal, decision) # rest) =
     bindE (copy_decide sha cfg consumed signal decision) (\<lambda>(out, consumed).
     bindE (copy_decisions sha cfg consumed rest) (\<lambda>outs. Inr (out # outs)))"

lemma copy_entries:
  assumes "copy_decisions sha cfg consumed requests = Inr outs" and "i < length requests"
  shows "(outs ! i \<noteq> None) = (followed cfg (fst (requests ! i)) \<and> cs_asset_id (fst (requests ! i)) \<notin> set consumed
    \<and> (\<forall>j < i. followed cfg (fst (requests ! j)) \<longrightarrow> cs_asset_id (fst (requests ! j)) \<noteq> cs_asset_id (fst (requests ! i))))"
  using assms
proof (induction requests arbitrary: consumed outs i)
  case (Cons q requests)
  obtain signal decision where q: "q = (signal, decision)" by (cases q)
  obtain out consumed1 outs1 where 1: "copy_decide sha cfg consumed signal decision = Inr (out, consumed1)"
    and 2: "copy_decisions sha cfg consumed1 requests = Inr outs1" and outs: "outs = out # outs1"
    using Cons.prems(1) by (auto simp: q)
  show ?case
  proof (cases i)
    case 0
    from 1 show ?thesis by (rule copy_decide_cases) (auto simp: 0 q outs)
  next
    case (Suc k)
    have ih: "(outs1 ! k \<noteq> None) = (followed cfg (fst (requests ! k)) \<and> cs_asset_id (fst (requests ! k)) \<notin> set consumed1
      \<and> (\<forall>j < k. followed cfg (fst (requests ! j)) \<longrightarrow> cs_asset_id (fst (requests ! j)) \<noteq> cs_asset_id (fst (requests ! k))))"
      using Cons.IH[OF 2, of k] Cons.prems(2) Suc by simp
    from 1 have "set consumed1 = set consumed \<union> (if followed cfg signal then {cs_asset_id signal} else {})"
      by (rule copy_decide_cases) auto
    then show ?thesis using ih by (auto simp: Suc q outs less_Suc_eq_0_disj)
  qed
qed simp

text \<open>A mint is entered once per run: the copy buyer enters on a signal exactly when the signal comes from a
  followed wallet and no earlier signal of a followed wallet was for the same mint, whatever became of that
  earlier entry.\<close>

theorem copy_entry_first_signal:
  assumes "copy_decisions sha cfg [] requests = Inr outs" and "i < length requests"
  shows "(outs ! i \<noteq> None) = (followed cfg (fst (requests ! i))
    \<and> \<not> (\<exists>j < i. followed cfg (fst (requests ! j)) \<and> cs_asset_id (fst (requests ! j)) = cs_asset_id (fst (requests ! i))))"
  using copy_entries[OF assms] by auto

definition sample_signal :: "account_id \<Rightarrow> char \<Rightarrow> copy_signal" where
  "sample_signal wallet c = \<lparr>cs_event_id = sample_digest c, cs_position = snipe_position 0 0 (Some 0),
     cs_signing_wallet = wallet, cs_asset_id = ''M1'', cs_venue_id = ''V'', cs_quote_asset_id = ''SOL''\<rparr>"

definition sample_follower :: copy_buy_strategy where
  "sample_follower = \<lparr>cy_policy = sample_policy, cy_bundle_id = sample_digest (CHR ''b''), cy_wallets = [''W1'', ''W2''],
     cy_execution_mode = EXOGENOUS_REPLAY, cy_quote_asset_id = ''SOL'', cy_maximum_consumed_mints = 5,
     cy_component_id = sample_digest (CHR ''c'')\<rparr>"

definition sample_signals :: "(copy_signal \<times> chain_position) list" where
  "sample_signals = [(sample_signal ''X'' (CHR ''1''), snipe_position 1 0 None),
     (sample_signal ''W2'' (CHR ''2''), snipe_position 1 1 None),
     (sample_signal ''W1'' (CHR ''3''), snipe_position 1 2 None)]"

lemma sample_copy_decisions: "\<exists>i. copy_decisions snipe_sha sample_follower [] sample_signals = Inr [None, Some i, None]"
proof -
  have id: "copy_position_id snipe_sha sample_follower s p = Inr (replicate 64 (CHR ''0''))" for s p
    by (simp add: copy_position_id_def domain_digest_ok sample_digests optional_int_def strip_def is_space_def
        char_code_def nul_def split: option.split)
  have o: "ordinal_of (snipe_position 1 1 None) = 4294967298" by (simp add: position_evals)
  have v: "CopyBuyIntent \<lparr>ci_roundtrip_id = r, ci_signal = sample_signal ''W2'' (CHR ''2''),
      ci_decision_position = snipe_position 1 1 None, ci_policy = p, ci_execution_mode = EXOGENOUS_REPLAY\<rparr>
    = Inr \<lparr>ci_roundtrip_id = r, ci_signal = sample_signal ''W2'' (CHR ''2''),
      ci_decision_position = snipe_position 1 1 None, ci_policy = p, ci_execution_mode = EXOGENOUS_REPLAY\<rparr>" for r p
    by (simp add: CopyBuyIntent_iff copy_intent_valid_def sample_signal_def o snipe_ordinals)
      (simp add: chain_identity_def snipe_position_def)
  have w: "cs_signing_wallet (sample_signal a c) = a" "cs_quote_asset_id (sample_signal a c) = ''SOL''"
    "cs_asset_id (sample_signal a c) = ''M1''" for a c
    by (simp_all add: sample_signal_def)
  have f: "cy_wallets sample_follower = [''W1'', ''W2'']" "cy_quote_asset_id sample_follower = ''SOL''"
    "cy_maximum_consumed_mints sample_follower = 5" "cy_execution_mode sample_follower = EXOGENOUS_REPLAY"
    by (simp_all add: sample_follower_def)
  show ?thesis by (simp add: sample_signals_def copy_decide_def w f id v)
qed

theorem copy_entry_first_signal_witness:
  "\<exists>i. copy_decisions snipe_sha sample_follower [] sample_signals = Inr [None, Some i, None]
     \<and> followed sample_follower (fst (sample_signals ! 1))"
proof -
  obtain i where run: "copy_decisions snipe_sha sample_follower [] sample_signals = Inr [None, Some i, None]"
    using sample_copy_decisions by blast
  from copy_entry_first_signal[OF run, of 1] have "followed sample_follower (fst (sample_signals ! 1))"
    by (simp add: sample_signals_def)
  with run show ?thesis by blast
qed

end
