(* ===== verification/Clock_Order.thy ===== *)
theory Clock_Order
  imports Transaction_Clock
begin

text \<open>
  Successful clock lookups as arithmetic on the global transaction index, and their monotonicity: an
  earlier start never resolves later, and it resolves whenever a later start does. The copy-trading
  horizon argument rests on these facts.
\<close>

section \<open>Clock positions in order\<close>

definition clock_at_most :: "transaction_clock \<Rightarrow> chain_position \<Rightarrow> chain_position \<Rightarrow> bool" where
  "clock_at_most c p q \<longleftrightarrow>
     (\<exists>g h. global_transaction_index c p = Inr g \<and> global_transaction_index c q = Inr h \<and> g \<le> h)"

lemma clock_at_most_trans [trans]: "clock_at_most c p q \<Longrightarrow> clock_at_most c q r \<Longrightarrow> clock_at_most c p r"
  by (auto simp: clock_at_most_def)

lemma clock_at_most_self: "clock_at_most c p q \<Longrightarrow> clock_at_most c p p \<and> clock_at_most c q q"
  by (auto simp: clock_at_most_def)

lemma clock_at_most_ordinal:
  assumes "clock_inv c" and "clock_at_most c p q" and "valid_position p" and "valid_position q"
  shows "ordinal_of p \<le> ordinal_of q"
proof -
  obtain g h where g: "global_transaction_index c p = Inr g" "global_transaction_index c q = Inr h" "g \<le> h"
    using assms(2) by (auto simp: clock_at_most_def)
  then have "\<not> ordinal_of q < ordinal_of p"
    using global_index_less_iff[OF assms(1) g(2,1)] ordinal_of_less_iff[OF assms(4,3)] by simp
  then show ?thesis by simp
qed

lemma ordinal_clock_at_most:
  assumes "clock_inv c" and "valid_position p" and "valid_position q" and "ordinal_of p \<le> ordinal_of q"
    and "global_transaction_index c p = Inr g" and "global_transaction_index c q = Inr h"
  shows "g \<le> h"
proof -
  have "\<not> h < g"
    using assms(4) global_index_less_iff[OF assms(1,6,5)] ordinal_of_less_iff[OF assms(3,2)] by simp
  then show ?thesis by simp
qed

lemma row_at_most:
  assumes "clock_inv c" and "clock_at_most c p q" and "require_position c p = Inr i" and "require_position c q = Inr j"
  shows "i \<le> j"
proof (rule ccontr)
  assume "\<not> i \<le> j"
  moreover have s: "sorted_wrt (<) (tc_blocks c)" using assms(1) by (simp add: clock_inv_def Let_def)
  ultimately have "cp_block_ordinal q < cp_block_ordinal p"
    using assms(3,4) require_position_iff[OF assms(1)] sorted_wrt_nth_less[OF s, of j i] by auto
  then have "tc_prefix c ! j + cp_transaction_index q < tc_prefix c ! i + cp_transaction_index p"
    by (intro global_index_mono[OF assms(1,4,3)]) (simp add: less_prod_def)
  then show False
    using assms(2,3,4) by (auto simp: clock_at_most_def global_transaction_index_def)
qed

section \<open>Transaction delays\<close>

definition clock_position :: "transaction_clock \<Rightarrow> int \<Rightarrow> int \<Rightarrow> chain_position" where
  "clock_position c block transaction = \<lparr>cp_network_id = tc_network_id c,
     cp_position_schema_id = tc_position_schema_id c, cp_block_ordinal = block,
     cp_transaction_index = transaction, cp_event_index = None\<rparr>"

lemma ChainPosition_clock: "ChainPosition (tc_network_id c) (tc_position_schema_id c) b t None = Inr q
    \<longleftrightarrow> q = clock_position c b t \<and> valid_position q"
  by (auto simp: valid_position_def clock_position_def ChainPosition_iff)

lemma transaction_after_ok:
  assumes inv: "clock_inv c" and run: "transaction_after c p delay = Inr q"
  obtains g where "1 \<le> delay" and "global_transaction_index c p = Inr g"
    and "global_transaction_index c q = Inr (g + delay)" and "valid_position q"
proof -
  obtain g where g: "1 \<le> delay" "global_transaction_index c p = Inr g" "g + delay < total_transaction_count c"
    and q: "ChainPosition (tc_network_id c) (tc_position_schema_id c) (tc_blocks c ! bisect_right (tc_ends c) (g + delay))
      (g + delay - tc_prefix c ! bisect_right (tc_ends c) (g + delay)) None = Inr q"
    using run by (auto simp: transaction_after_def Let_def bindE_eq_Inr split: if_splits)
  have "0 \<le> g" using global_index_range[OF inv g(2)] by simp
  with g have k: "0 \<le> g + delay" by simp
  note row = transaction_row[OF inv k g(3)]
  have "require_position c q = Inr (bisect_right (tc_ends c) (g + delay))"
    using row q by (simp add: require_position_iff[OF inv] ChainPosition_clock) (simp add: clock_position_def)
  then have "global_transaction_index c q = Inr (g + delay)"
    using q by (simp add: global_transaction_index_def ChainPosition_clock) (simp add: clock_position_def)
  with g show ?thesis using q[unfolded ChainPosition_clock] that by blast
qed

lemma valid_clock_position:
  assumes inv: "clock_inv c" and q: "valid_position q" "require_position c q = Inr j" and "i \<le> j"
    and "0 \<le> t" and "t < tc_counts c ! i"
  shows "valid_position (clock_position c (tc_blocks c ! i) t)"
proof -
  have n: "j < length (tc_blocks c)" "tc_blocks c ! j = cp_block_ordinal q"
    "tc_position_schema_id c = cp_position_schema_id q"
    using q(2) by (auto simp: require_position_iff[OF inv])
  have "tc_blocks c ! i \<le> tc_blocks c ! j"
    using inv n(1) \<open>i \<le> j\<close> by (intro sorted_nth_mono) (auto simp: clock_inv_def Let_def strict_sorted_imp_sorted)
  moreover have "0 \<le> tc_blocks c ! i" "tc_counts c ! i \<le> UINT32_MAX"
    using inv n(1) \<open>i \<le> j\<close> by (auto simp: clock_inv_def Let_def)
  ultimately show ?thesis
    using q(1) n assms(5,6) by (simp add: valid_position_iff clock_position_def uint_bounds)
qed

text \<open>The start may move earlier: the delay then still resolves, and not later.\<close>

lemma transaction_after_mono:
  assumes inv: "clock_inv c" and before: "clock_at_most c p p'" and run: "transaction_after c p' delay = Inr q'"
  obtains q where "transaction_after c p delay = Inr q" and "clock_at_most c q q'" and "valid_position q"
proof -
  obtain g' where d: "1 \<le> delay" and g': "global_transaction_index c p' = Inr g'"
    "global_transaction_index c q' = Inr (g' + delay)" and q': "valid_position q'"
    using transaction_after_ok[OF inv run] by metis
  obtain g where g: "global_transaction_index c p = Inr g" "g \<le> g'"
    using before g'(1) by (auto simp: clock_at_most_def)
  let ?t = "g + delay" let ?k = "bisect_right (tc_ends c) ?t"
  let ?q = "clock_position c (tc_blocks c ! ?k) (?t - tc_prefix c ! ?k)"
  have t: "0 \<le> ?t" "?t < total_transaction_count c"
    using global_index_range[OF inv g(1)] global_index_range[OF inv g'(2)] d g(2) by auto
  note row = transaction_row[OF inv t]
  have rq: "require_position c ?q = Inr ?k"
    using row by (simp add: require_position_iff[OF inv] clock_position_def)
  have gq: "global_transaction_index c ?q = Inr ?t"
    using rq by (simp add: global_transaction_index_def clock_position_def)
  have le: "clock_at_most c ?q q'" using gq g'(2) g(2) by (simp add: clock_at_most_def)
  obtain j where j: "require_position c q' = Inr j"
    using g'(2) by (auto simp: global_transaction_index_def)
  have "valid_position ?q"
    using row by (intro valid_clock_position[OF inv q' j row_at_most[OF inv le rq j]]) auto
  then have "transaction_after c p delay = Inr ?q"
    using d t g(1) by (simp add: transaction_after_def Let_def ChainPosition_clock not_le)
  then show ?thesis using le \<open>valid_position ?q\<close> by (rule that)
qed

section \<open>Duration targets\<close>

lemma first_nonempty_ok:
  assumes inv: "clock_inv c" and row: "require_position c p = Inr r"
    and run: "first_nonempty_transaction_at_or_after c p target = Inr q"
  obtains i where "r < i" and "i < length (tc_blocks c)" and "q = clock_position c (tc_blocks c ! i) 0"
    and "valid_position q" and "require_position c q = Inr i" and "target \<le> tc_times c ! i" and "0 \<le> target"
    and "\<And>j. r < j \<Longrightarrow> j < i \<Longrightarrow> tc_counts c ! j = 0 \<or> tc_times c ! j < target"
proof -
  let ?s = "bisect_left (tc_times c) target (r + 1)"
  let ?i = "skip_empty_blocks c target ?s"
  have target: "0 \<le> target" and i: "?i \<noteq> length (tc_blocks c)"
    and q: "q = clock_position c (tc_blocks c ! ?i) 0" "valid_position q"
    using run row by (auto simp: first_nonempty_transaction_at_or_after_def Let_def ChainPosition_clock split: if_splits)
  have len: "length (tc_times c) = length (tc_blocks c)" "sorted (tc_times c)" "r < length (tc_blocks c)"
    using inv row require_position_iff[OF inv] by (auto simp: clock_inv_def Let_def)
  have b: "splits_at (\<lambda>y. target \<le> y) (tc_times c) (r + 1) ?s"
    using len by (intro bisect_left_spec) auto
  have skip: "?s \<le> ?i" "?i \<le> length (tc_blocks c)" "\<And>j. ?s \<le> j \<Longrightarrow> j < ?i \<Longrightarrow> tc_counts c ! j = 0"
    "?i < length (tc_blocks c) \<Longrightarrow> tc_counts c ! ?i \<noteq> 0 \<and> target \<le> tc_times c ! ?i"
    using skip_empty_blocks_spec[OF inv, of ?s target] b len unfolding splits_at_def by auto
  have "r < ?i" "?i < length (tc_blocks c)" using skip(1,2) b i by (auto simp: splits_at_def)
  moreover have "0 < tc_counts c ! ?i"
    using skip(4) calculation(2) inv by (force simp: clock_inv_def Let_def)
  then have "require_position c q = Inr ?i"
    using calculation(2) by (simp add: require_position_iff[OF inv] q(1)) (simp add: clock_position_def)
  moreover have "tc_counts c ! j = 0 \<or> tc_times c ! j < target" if "r < j" "j < ?i" for j
    using that b skip(3)[of j] unfolding splits_at_def by (cases "j < ?s") (auto simp: not_le)
  ultimately show ?thesis using q skip(4) target by (intro that[of ?i]) auto
qed

lemma first_nonempty_exists:
  assumes inv: "clock_inv c" and row: "require_position c p = Inr r" and target: "0 \<le> target"
    and late: "r < i" "i < length (tc_blocks c)" "tc_counts c ! i \<noteq> 0" "target \<le> tc_times c ! i"
    and q: "valid_position q" "require_position c q = Inr i"
  shows "\<exists>q'. first_nonempty_transaction_at_or_after c p target = Inr q'"
proof -
  let ?s = "bisect_left (tc_times c) target (r + 1)"
  let ?i = "skip_empty_blocks c target ?s"
  have len: "length (tc_times c) = length (tc_blocks c)" "sorted (tc_times c)" "r < length (tc_blocks c)"
    using inv row require_position_iff[OF inv] by (auto simp: clock_inv_def Let_def)
  have b: "splits_at (\<lambda>y. target \<le> y) (tc_times c) (r + 1) ?s"
    using len by (intro bisect_left_spec) auto
  have skip: "?s \<le> ?i" "?i \<le> length (tc_blocks c)" "\<And>j. ?s \<le> j \<Longrightarrow> j < ?i \<Longrightarrow> tc_counts c ! j = 0"
    "?i < length (tc_blocks c) \<Longrightarrow> tc_counts c ! ?i \<noteq> 0"
    using skip_empty_blocks_spec[OF inv, of ?s target] b len unfolding splits_at_def by auto
  have "?s \<le> i"
    using b late len unfolding splits_at_def by (metis Suc_eq_plus1 Suc_leI leD linorder_not_less)
  then have le: "?i \<le> i" using skip(3)[of i] late(3) by (meson linorder_not_less)
  then have "tc_counts c ! ?i \<noteq> 0" "0 \<le> tc_counts c ! ?i"
    using skip(4) late(2) inv by (auto simp: clock_inv_def Let_def)
  then have "valid_position (clock_position c (tc_blocks c ! ?i) 0)"
    by (intro valid_clock_position[OF inv q le]) auto
  then show ?thesis
    using row target le late(2)
    by (simp add: first_nonempty_transaction_at_or_after_def Let_def ChainPosition_clock)
qed

definition clock_times_ok :: "transaction_clock \<Rightarrow> bool" where
  "clock_times_ok c \<longleftrightarrow> list_all (\<lambda>t. 0 \<le> t) (tc_times c)"

lemma CompactTransactionClock_times:
  "CompactTransactionClock network schema blocks counts prefix block_times = Inr c \<Longrightarrow> clock_times_ok c"
  by (auto simp: CompactTransactionClock_def clock_times_ok_def list_all_iff list_ex_iff not_less split: if_splits)

section \<open>Positions at one boundary\<close>

lemma same_boundary:
  assumes "valid_position p" and "valid_position q" and "ordinal_of p = ordinal_of q"
    and "cp_network_id p = cp_network_id q" and "cp_position_schema_id p = cp_position_schema_id q"
  shows "require_position c p = require_position c q"
    and "global_transaction_index c p = global_transaction_index c q"
proof -
  have "cp_block_ordinal p = cp_block_ordinal q \<and> cp_transaction_index p = cp_transaction_index q"
    using ordinal_of_less_iff[OF assms(1,2)] ordinal_of_less_iff[OF assms(2,1)] assms(3)
    by (auto simp: less_prod_def)
  then have "p = q\<lparr>cp_event_index := cp_event_index p\<rparr>"
    using assms(4,5) by (cases p, cases q) simp
  moreover have "require_position c (q\<lparr>cp_event_index := e\<rparr>) = require_position c q" for e
    by (simp add: require_position_def Let_def)
  moreover have "global_transaction_index c (q\<lparr>cp_event_index := e\<rparr>) = global_transaction_index c q" for e
    by (simp add: global_transaction_index_def require_position_def Let_def)
  ultimately show "require_position c p = require_position c q"
    and "global_transaction_index c p = global_transaction_index c q"
    by metis+
qed

lemma clock_at_most_chain:
  assumes "clock_inv c" and "clock_at_most c p q"
  shows "cp_network_id p = tc_network_id c \<and> cp_position_schema_id p = tc_position_schema_id c"
  using assms by (auto simp: clock_at_most_def global_transaction_index_def require_position_iff)

end
