(* ===== verification/Copy_State.thy ===== *)
theory Copy_State
  imports Copy_Domain Clock_Order
begin

text \<open>
  The control state of one copied position (\<^verbatim>\<open>engine/copytrading_state.py\<close>): one entry, a latched exit, at
  most four causal sell attempts, and the settlement horizon that is proved before an entry is attempted.
  Each method returns the new state, or the exception that ends the run.
\<close>

section \<open>State\<close>

datatype copy_position_status =
  BUY_PENDING | BUY_FAILED | OPEN | SELL_PENDING | RETRY_WAIT | EXHAUSTED | CLOSED

fun copy_position_status_value :: "copy_position_status \<Rightarrow> string" where
  "copy_position_status_value BUY_PENDING = ''BUY_PENDING''"
| "copy_position_status_value BUY_FAILED = ''BUY_FAILED''"
| "copy_position_status_value OPEN = ''OPEN''"
| "copy_position_status_value SELL_PENDING = ''SELL_PENDING''"
| "copy_position_status_value RETRY_WAIT = ''RETRY_WAIT''"
| "copy_position_status_value EXHAUSTED = ''EXHAUSTED''"
| "copy_position_status_value CLOSED = ''CLOSED''"

record copy_control =
  ct_position_id :: digest
  ct_asset_id :: asset_id
  ct_buy_decision_position :: chain_position
  ct_policy :: copy_policy
  ct_status :: copy_position_status
  ct_acquired_tokens :: int
  ct_entry_price :: "token_price option"
  ct_buy_fill_position :: "chain_position option"
  ct_deadline :: "chain_position option"
  ct_exit_reason :: "copy_exit_reason option"
  ct_trigger_position :: "chain_position option"
  ct_trigger_price :: "token_price option"
  ct_sell_attempt_count :: int
  ct_attempt_decision :: "chain_position option"
  ct_attempt_landing :: "chain_position option"
  ct_retry_position :: "chain_position option"
  ct_last_evaluation_boundary :: int

definition CopyPositionControl :: "digest \<Rightarrow> asset_id \<Rightarrow> chain_position \<Rightarrow> copy_policy \<Rightarrow> copy_control" where
  "CopyPositionControl position_id asset decision policy =
     \<lparr>ct_position_id = position_id, ct_asset_id = asset, ct_buy_decision_position = decision, ct_policy = policy,
      ct_status = BUY_PENDING, ct_acquired_tokens = 0, ct_entry_price = None, ct_buy_fill_position = None,
      ct_deadline = None, ct_exit_reason = None, ct_trigger_position = None, ct_trigger_price = None,
      ct_sell_attempt_count = 0, ct_attempt_decision = None, ct_attempt_landing = None,
      ct_retry_position = None, ct_last_evaluation_boundary = -1\<rparr>"

definition remaining_tokens :: "copy_control \<Rightarrow> int" where
  "remaining_tokens s = (if ct_status s = CLOSED then 0 else ct_acquired_tokens s)"

section \<open>Guards\<close>

definition require_status :: "copy_control \<Rightarrow> copy_position_status \<Rightarrow> unit res" where
  "require_status s status = raise_if (ct_status s \<noteq> status) (CopyStateError ''unexpected copy position state'')"

definition require_at_or_after :: "chain_position \<Rightarrow> chain_position \<Rightarrow> unit res" where
  "require_at_or_after position start =
     (if (cp_network_id position, cp_position_schema_id position) \<noteq> (cp_network_id start, cp_position_schema_id start) then
        Inl (CopyStateError ''position changed network or position schema'')
      else raise_if (ordinal_of position < ordinal_of start)
        (CopyStateError ''position precedes its causal boundary''))"

definition require_later :: "chain_position \<Rightarrow> chain_position \<Rightarrow> unit res" where
  "require_later position start =
     bindE (require_at_or_after position start) (\<lambda>_.
     raise_if (ordinal_of position = ordinal_of start) (CopyStateError ''landing must be strictly after decision''))"

definition require_attempt :: "copy_control \<Rightarrow> int \<Rightarrow> chain_position \<Rightarrow> bool \<Rightarrow> unit res" where
  "require_attempt s attempt position submitted =
     bindE (require_status s SELL_PENDING) (\<lambda>_.
     bindE (require_integer attempt ''attempt'' 1) (\<lambda>_.
     case ct_attempt_decision s of
       None \<Rightarrow> Inl (CopyStateError ''stale sell attempt notification'')
     | Some decision \<Rightarrow>
         if attempt \<noteq> ct_sell_attempt_count s then Inl (CopyStateError ''stale sell attempt notification'')
         else if submitted then
           bindE (require_later position decision) (\<lambda>_.
           case ct_attempt_landing s of
             None \<Rightarrow> Inl (CopyStateError ''pending sell has no exact landing boundary'')
           | Some landing \<Rightarrow> raise_if (ordinal_of position \<noteq> ordinal_of landing)
               (CopyStateError ''sell landing does not match configured transaction delay''))
         else raise_if (position \<noteq> decision)
           (CopyStateError ''pre-submit failure must use its decision position'')))"

section \<open>Durations and the settlement horizon\<close>

definition holding_deadline :: "transaction_clock \<Rightarrow> chain_position \<Rightarrow> int \<Rightarrow> chain_position res" where
  "holding_deadline clock position duration_ns =
     bindE (require_integer duration_ns ''duration_ns'' 1) (\<lambda>_.
     bindE (block_time_for_position clock position) (\<lambda>time.
     first_nonempty_transaction_at_or_after clock position (time + duration_ns)))"

text \<open>The loop over the attempts: the landing of each, and the next sell decision after it.\<close>

fun settlement_attempts :: "transaction_clock \<Rightarrow> int \<Rightarrow> nat \<Rightarrow> chain_position \<Rightarrow> chain_position res" where
  "settlement_attempts clock delay 0 sell_decision = Inr sell_decision"
| "settlement_attempts clock delay (Suc 0) sell_decision = transaction_after clock sell_decision delay"
| "settlement_attempts clock delay (Suc (Suc n)) sell_decision =
     bindE (transaction_after clock sell_decision delay) (\<lambda>landing.
     bindE (holding_deadline clock landing SELL_RETRY_DELAY_NS) (\<lambda>next_decision.
     settlement_attempts clock delay (Suc n) next_decision))"

definition observation_decision :: "transaction_clock \<Rightarrow> chain_position \<Rightarrow> int \<Rightarrow> chain_position res" where
  "observation_decision clock signal delay = (if delay \<noteq> 0 then transaction_after clock signal delay else Inr signal)"

definition maximum_copy_settlement_position ::
  "transaction_clock \<Rightarrow> chain_position \<Rightarrow> int \<Rightarrow> int \<Rightarrow> int \<Rightarrow> int \<Rightarrow> chain_position res" where
  "maximum_copy_settlement_position clock signal observation_delay buy_delay hold_ns sell_delay =
     bindE (require_integer observation_delay ''observation_delay_transactions'' 0) (\<lambda>_.
     bindE (require_integer buy_delay ''buy_delay_transactions'' 1) (\<lambda>_.
     bindE (require_integer hold_ns ''maximum_hold_ns'' 1) (\<lambda>_.
     bindE (require_integer sell_delay ''sell_delay_transactions'' 1) (\<lambda>_.
     bindE (require_position clock signal) (\<lambda>_.
     bindE (observation_decision clock signal observation_delay) (\<lambda>decision.
     bindE (transaction_after clock decision buy_delay) (\<lambda>buy.
     bindE (holding_deadline clock buy hold_ns) (\<lambda>sell_decision.
     settlement_attempts clock sell_delay (nat MAXIMUM_SELL_ATTEMPTS) sell_decision))))))))"

definition maximum_settlement_position :: "transaction_clock \<Rightarrow> chain_position \<Rightarrow> copy_policy \<Rightarrow> chain_position res" where
  "maximum_settlement_position clock signal policy =
     maximum_copy_settlement_position clock signal (cb_observation_delay_transactions policy)
       (cb_buy_delay_transactions policy) (maximum_hold_ns policy) (cb_sell_delay_transactions policy)"

section \<open>Transitions\<close>

definition fail_buy :: "copy_control \<Rightarrow> copy_control res" where
  "fail_buy s = bindE (require_status s BUY_PENDING) (\<lambda>_. Inr (s\<lparr>ct_status := BUY_FAILED\<rparr>))"

definition copy_fill_buy ::
  "transaction_clock \<Rightarrow> chain_position \<Rightarrow> int \<Rightarrow> int \<Rightarrow> copy_control \<Rightarrow> copy_control res" where
  "copy_fill_buy clock position curve_input tokens s =
     bindE (require_status s BUY_PENDING) (\<lambda>_.
     bindE (require_later position (ct_buy_decision_position s)) (\<lambda>_.
     bindE (transaction_after clock (ct_buy_decision_position s) (cb_buy_delay_transactions (ct_policy s))) (\<lambda>expected.
     if ordinal_of position \<noteq> ordinal_of expected then
       Inl (CopyStateError ''buy landing does not match configured transaction delay'')
     else
       bindE (TokenPrice curve_input tokens) (\<lambda>price.
       bindE (holding_deadline clock position (maximum_hold_ns (ct_policy s))) (\<lambda>deadline.
       Inr (s\<lparr>ct_status := OPEN, ct_acquired_tokens := tokens, ct_entry_price := Some price,
              ct_buy_fill_position := Some position, ct_deadline := Some deadline\<rparr>))))))"

definition latch_exit ::
  "chain_position \<Rightarrow> token_price option \<Rightarrow> chain_position \<Rightarrow> copy_exit_reason option \<Rightarrow> copy_control
    \<Rightarrow> copy_exit_reason option \<times> copy_control" where
  "latch_exit position price deadline priced s =
     (let reason = (if priced = None \<and> ordinal_of deadline \<le> ordinal_of position then Some MAXIMUM_HOLD else priced) in
      case reason of
        None \<Rightarrow> (None, s)
      | Some r \<Rightarrow> (Some r, s\<lparr>ct_exit_reason := Some r, ct_trigger_position := Some position, ct_trigger_price := price\<rparr>))"

definition evaluate_exit ::
  "chain_position \<Rightarrow> token_price option \<Rightarrow> copy_control \<Rightarrow> (copy_exit_reason option \<times> copy_control) res" where
  "evaluate_exit position price s =
     (if ct_status s \<noteq> OPEN then Inr (ct_exit_reason s, s)
      else (case (ct_buy_fill_position s, ct_entry_price s, ct_deadline s) of
          (Some fill_position, Some entry, Some deadline) \<Rightarrow>
            bindE (require_at_or_after position fill_position) (\<lambda>_.
            if ordinal_of position < ct_last_evaluation_boundary s then
              Inl (CopyStateError ''exit evaluation moved backwards'')
            else
              (let s = s\<lparr>ct_last_evaluation_boundary := ordinal_of position\<rparr> in
               if ct_exit_reason s \<noteq> None then Inr (ct_exit_reason s, s)
               else
                 bindE (case price of None \<Rightarrow> Inr None | Some p \<Rightarrow> price_exit (ct_policy s) entry p) (\<lambda>priced.
                 Inr (latch_exit position price deadline priced s))))
        | _ \<Rightarrow> Inl (CopyStateError ''open position has no committed buy'')))"

definition copy_begin_sell :: "transaction_clock \<Rightarrow> chain_position \<Rightarrow> copy_control \<Rightarrow> (int \<times> copy_control) res" where
  "copy_begin_sell clock position s =
     (if ct_status s \<noteq> OPEN \<and> ct_status s \<noteq> RETRY_WAIT then
        Inl (CopyStateError ''position cannot start a sell attempt'')
      else (case (ct_exit_reason s, ct_trigger_position s) of
          (Some _, Some trigger) \<Rightarrow>
            bindE (require_at_or_after position
                (case ct_retry_position s of Some retry \<Rightarrow> retry | None \<Rightarrow> trigger)) (\<lambda>_.
            if MAXIMUM_SELL_ATTEMPTS \<le> ct_sell_attempt_count s then
              Inl (CopyStateError ''sell attempt limit exhausted'')
            else
              bindE (transaction_after clock position (cb_sell_delay_transactions (ct_policy s))) (\<lambda>landing.
              Inr (ct_sell_attempt_count s + 1,
                s\<lparr>ct_status := SELL_PENDING, ct_sell_attempt_count := ct_sell_attempt_count s + 1,
                  ct_attempt_decision := Some position, ct_attempt_landing := Some landing,
                  ct_retry_position := None\<rparr>)))
        | _ \<Rightarrow> Inl (CopyStateError ''sell requires a causal exit trigger'')))"

definition copy_fail_sell ::
  "transaction_clock \<Rightarrow> int \<Rightarrow> chain_position \<Rightarrow> bool \<Rightarrow> copy_control
    \<Rightarrow> (chain_position option \<times> copy_control) res" where
  "copy_fail_sell clock attempt position submitted s =
     bindE (require_attempt s attempt position submitted) (\<lambda>_.
     if ct_sell_attempt_count s = MAXIMUM_SELL_ATTEMPTS then Inr (None, s\<lparr>ct_status := EXHAUSTED\<rparr>)
     else
       bindE (holding_deadline clock position SELL_RETRY_DELAY_NS) (\<lambda>retry.
       Inr (Some retry, s\<lparr>ct_status := RETRY_WAIT, ct_retry_position := Some retry\<rparr>)))"

definition copy_fill_sell :: "int \<Rightarrow> chain_position \<Rightarrow> copy_control \<Rightarrow> copy_control res" where
  "copy_fill_sell attempt position s =
     bindE (require_attempt s attempt position True) (\<lambda>_. Inr (s\<lparr>ct_status := CLOSED\<rparr>))"

end
