(* ===== verification/Copy_Execution.thy ===== *)
theory Copy_Execution
  imports Copy_State Sniping_Orders
begin

text \<open>
  Order execution of the copy-trading engine (\<^verbatim>\<open>engine/copytrading_execution.py\<close>) over the accounting it shares
  with the sniping engine: submitting an entry or a sell attempt, and landing it. The strategy, the protocol
  runtime and the network cost model are ports (\<^verbatim>\<open>engine/copytrading_contracts.py\<close>): functions of the
  environment, the runtime with a state of its own of which the replay keeps two, the historical one and the
  observed one. The callbacks of the executor are those of the run's recorder (\<^verbatim>\<open>engine/copytrading_run.py\<close>).
\<close>

section \<open>Ports\<close>

record ('s, 'p) copy_env =
  cv_sha :: "bytes \<Rightarrow> string"
  cv_clock :: transaction_clock
  cv_signing_wallets :: "account_id list"
  cv_policy :: copy_policy
  cv_decide :: "'s \<Rightarrow> copy_signal \<Rightarrow> chain_position \<Rightarrow> (copy_intent option \<times> 's) res"
  cv_apply_group :: "'p \<Rightarrow> canonical_event list \<Rightarrow> int \<Rightarrow> (copy_signal list \<times> 'p) res"
  cv_current_price :: "'p \<Rightarrow> copy_intent \<Rightarrow> token_price option res"
  cv_account_requirements :: "'p \<Rightarrow> copy_intent \<Rightarrow> account_requirement list res"
  cv_quote_buy :: "'p \<Rightarrow> copy_intent \<Rightarrow> int \<Rightarrow> protocol_quote res"
  cv_quote_sell :: "'p \<Rightarrow> copy_intent \<Rightarrow> int \<Rightarrow> int \<Rightarrow> protocol_quote res"
  cv_valuation_quote :: "'p \<Rightarrow> copy_intent \<Rightarrow> int \<Rightarrow> int \<Rightarrow> valuation_quote option res"
  cv_fee_collector :: account_id
  cv_cost_buy :: "int \<Rightarrow> account_requirement list \<Rightarrow> network_cost_quote res"
  cv_cost_sell :: "int \<Rightarrow> network_cost_quote res"

section \<open>Attempts and positions\<close>

datatype copy_attempt_status = CREATED | SUBMITTED | REJECTED | FAILED | FILLED

fun copy_attempt_status_value :: "copy_attempt_status \<Rightarrow> string" where
  "copy_attempt_status_value CREATED = ''CREATED''"
| "copy_attempt_status_value SUBMITTED = ''SUBMITTED''"
| "copy_attempt_status_value REJECTED = ''REJECTED''"
| "copy_attempt_status_value FAILED = ''FAILED''"
| "copy_attempt_status_value FILLED = ''FILLED''"

record copy_attempt =
  ca_order_id :: order_id
  ca_side :: protocol_quote_side
  ca_number :: int
  ca_decision :: chain_position
  ca_expected_landing :: chain_position
  ca_status :: copy_attempt_status
  ca_landed_at :: "chain_position option"
  ca_reference :: "protocol_quote option"
  ca_landing_quote :: "protocol_quote option"
  ca_minimum_out :: int
  ca_network :: "network_cost_quote option"
  ca_failure_code :: "string option"

definition CopyOrderAttempt ::
  "order_id \<Rightarrow> protocol_quote_side \<Rightarrow> int \<Rightarrow> chain_position \<Rightarrow> chain_position \<Rightarrow> copy_attempt" where
  "CopyOrderAttempt order side number decision landing =
     \<lparr>ca_order_id = order, ca_side = side, ca_number = number, ca_decision = decision,
      ca_expected_landing = landing, ca_status = CREATED, ca_landed_at = None, ca_reference = None,
      ca_landing_quote = None, ca_minimum_out = 0, ca_network = None, ca_failure_code = None\<rparr>"

definition paid_network_fee :: "copy_attempt \<Rightarrow> int" where
  "paid_network_fee a = (case (ca_landed_at a, ca_network a) of
     (Some _, Some network) \<Rightarrow> transaction_fee_atomic network | _ \<Rightarrow> 0)"

record copy_position =
  ce_intent :: copy_intent
  ce_control :: copy_control
  ce_attempts :: "copy_attempt list"
  ce_account_plan :: "reservation_plan option"
  ce_account_components :: "account_component list"

definition CopyExecutionPosition :: "copy_intent \<Rightarrow> copy_position" where
  "CopyExecutionPosition i =
     \<lparr>ce_intent = i, ce_control = CopyPositionControl (ci_roundtrip_id i) (cs_asset_id (ci_signal i))
        (ci_decision_position i) (ci_policy i),
      ce_attempts = [], ce_account_plan = None, ce_account_components = []\<rparr>"

text \<open>The source updates the attempt object inside the list; here it is put back as the last one.\<close>

definition put_attempt :: "copy_attempt \<Rightarrow> copy_position \<Rightarrow> copy_position" where
  "put_attempt a st = st\<lparr>ce_attempts := butlast (ce_attempts st) @ [a]\<rparr>"

section \<open>Books\<close>

definition COPY_LEDGER_STREAM :: string where "COPY_LEDGER_STREAM = ''backtest.copy-ledger-stream.v1''"
definition COPY_AUDIT_STREAM :: string where "COPY_AUDIT_STREAM = ''backtest.copy-audit-stream.v1''"
definition COPY_FILL_STREAM :: string where "COPY_FILL_STREAM = ''backtest.copy-fill-stream.v1''"

text \<open>The part of the recorder the executor writes to; a sink is the list of what it was given.\<close>

record copy_recorder =
  kr_audit :: stream_hasher
  kr_ledger :: stream_hasher
  kr_fills :: stream_hasher
  kr_audit_sink :: "json list"
  kr_ledger_sink :: "ledger_transaction list"
  kr_fill_sink :: "fill list"

definition CopyRecorder :: "copy_recorder res" where
  "CopyRecorder =
     bindE (CanonicalStreamHasher COPY_AUDIT_STREAM) (\<lambda>audit.
     bindE (CanonicalStreamHasher COPY_LEDGER_STREAM) (\<lambda>ledger.
     bindE (CanonicalStreamHasher COPY_FILL_STREAM) (\<lambda>fills.
     Inr \<lparr>kr_audit = audit, kr_ledger = ledger, kr_fills = fills,
       kr_audit_sink = [], kr_ledger_sink = [], kr_fill_sink = []\<rparr>)))"

definition copy_append_audit :: "copy_recorder \<Rightarrow> json \<Rightarrow> copy_recorder res" where
  "copy_append_audit r j =
     bindE (stream_append (kr_audit r) j) (\<lambda>h.
       Inr (r\<lparr>kr_audit := h, kr_audit_sink := kr_audit_sink r @ [j]\<rparr>))"

definition copy_append_ledger :: "copy_recorder \<Rightarrow> ledger_transaction \<Rightarrow> copy_recorder res" where
  "copy_append_ledger r t =
     bindE (stream_append (kr_ledger r) (ledger_document t)) (\<lambda>h.
       Inr (r\<lparr>kr_ledger := h, kr_ledger_sink := kr_ledger_sink r @ [t]\<rparr>))"

definition copy_append_fill :: "copy_recorder \<Rightarrow> fill \<Rightarrow> copy_recorder res" where
  "copy_append_fill r f =
     bindE (stream_append (kr_fills r) (fill_document f)) (\<lambda>h.
       Inr (r\<lparr>kr_fills := h, kr_fill_sink := kr_fill_sink r @ [f]\<rparr>))"

record copy_books =
  kb_portfolio :: portfolio_state
  kb_accounts :: wallet_state
  kb_cashflows :: "(digest \<times> asset_id, int) dict"
  kb_recorder :: copy_recorder

section \<open>Common steps\<close>

definition copy_seconds :: "('s, 'p) copy_env \<Rightarrow> chain_position \<Rightarrow> int res" where
  "copy_seconds env position =
     bindE (block_time_for_position (cv_clock env) position) (\<lambda>t. Inr (t div 1000000000))"

definition copy_order_document :: "digest \<Rightarrow> protocol_quote_side \<Rightarrow> int \<Rightarrow> json" where
  "copy_order_document position_id side number = JObj
     [(''position_id'', JStr (digest_hex position_id)), (''side'', JStr (quote_side_value side)),
      (''attempt'', JInt number)]"

definition new_attempt ::
  "('s, 'p) copy_env \<Rightarrow> copy_position \<Rightarrow> protocol_quote_side \<Rightarrow> int \<Rightarrow> chain_position
    \<Rightarrow> (copy_attempt \<times> copy_position) res" where
  "new_attempt env st side number position =
     (let policy = ci_policy (ce_intent st);
          delay = (if side = QUOTE_BUY then cb_buy_delay_transactions policy else cb_sell_delay_transactions policy) in
      bindE (transaction_after (cv_clock env) position delay) (\<lambda>landing.
      bindE (domain_digest (cv_sha env) ''backtest.pumpfun-copy-order.v1''
          (copy_order_document (ci_roundtrip_id (ce_intent st)) side number)) (\<lambda>identity.
      bindE (ContentDigest (digest_hex identity)) (\<lambda>order.
      let a = CopyOrderAttempt order side number position landing in
      Inr (a, st\<lparr>ce_attempts := ce_attempts st @ [a]\<rparr>)))))"

definition copy_transaction ::
  "('s, 'p) copy_env \<Rightarrow> copy_position \<Rightarrow> copy_attempt \<Rightarrow> int \<Rightarrow> string \<Rightarrow> posting list \<Rightarrow> ledger_transaction res" where
  "copy_transaction env st a boundary operation postings =
     bindE (domain_digest (cv_sha env) ''backtest.pumpfun-copy-ledger.v1'' (JObj
         [(''order_id'', JStr (ca_order_id a)), (''boundary'', JInt boundary), (''operation'', JStr operation)])) (\<lambda>identity.
     LedgerTransaction identity ROUNDTRIP (ci_roundtrip_id (ce_intent st)) boundary postings (''COPY_'' @ operation))"

definition copy_commit ::
  "('s, 'p) copy_env \<Rightarrow> copy_attempt \<Rightarrow> ledger_transaction \<Rightarrow> provisioning_transition option
    \<Rightarrow> copy_position \<Rightarrow> copy_books \<Rightarrow> (copy_position \<times> copy_books) res" where
  "copy_commit env a t transition st b =
     bindE (if take 8 (lt_reason t) = ''SNIPING_'' then
         copy_transaction env st a (lt_boundary_ordinal t) (remove_prefix ''SNIPING_'' (lt_reason t)) (lt_postings t)
       else Inr t) (\<lambda>t.
     bindE (portfolio_preview (kb_portfolio b) t) (\<lambda>candidate.
     bindE (cashflow_append (kb_cashflows b) t) (\<lambda>cashflows.
     bindE (copy_append_ledger (kb_recorder b) t) (\<lambda>recorder.
     Inr (case transition of None \<Rightarrow> st | Some x \<Rightarrow> st\<lparr>ce_account_components := pt_records x\<rparr>,
       b\<lparr>kb_portfolio := portfolio_commit_candidate (kb_portfolio b) candidate,
         kb_accounts := (case transition of None \<Rightarrow> kb_accounts b | Some x \<Rightarrow> wallet_commit (kb_accounts b) x),
         kb_cashflows := cashflows, kb_recorder := recorder\<rparr>)))))"

definition optional_string :: "string option \<Rightarrow> json" where
  "optional_string v = (case v of None \<Rightarrow> JNull | Some s \<Rightarrow> JStr s)"

definition copy_attempt_document :: "copy_position \<Rightarrow> copy_attempt \<Rightarrow> json" where
  "copy_attempt_document st a =
     (let position = (case ca_landed_at a of Some p \<Rightarrow> p | None \<Rightarrow> ca_decision a) in JObj
       [(''schema'', JStr ''pumpfun-copy-order-audit/v1''), (''record_type'', JStr ''COPY_ORDER''),
        (''phase'', JInt (if ca_landed_at a \<noteq> None then 60 else 50)),
        (''position_id'', JStr (digest_hex (ci_roundtrip_id (ce_intent st)))),
        (''order_id'', JStr (digest_hex (ca_order_id a))), (''attempt'', JInt (ca_number a)),
        (''side'', JStr (quote_side_value (ca_side a))), (''boundary_ordinal'', JInt (ordinal_of position)),
        (''status'', JStr (copy_attempt_status_value (ca_status a))),
        (''failure_code'', optional_string (ca_failure_code a))])"

definition record_attempt :: "copy_position \<Rightarrow> copy_attempt \<Rightarrow> copy_books \<Rightarrow> copy_books res" where
  "record_attempt st a b =
     bindE (copy_append_audit (kb_recorder b) (copy_attempt_document st a)) (\<lambda>r. Inr (b\<lparr>kb_recorder := r\<rparr>))"

definition require_network :: "copy_attempt \<Rightarrow> network_cost_quote res" where
  "require_network a = (case ca_network a of
     None \<Rightarrow> Inl (ValueError ''copy attempt has no network fee quote'') | Some n \<Rightarrow> Inr n)"

definition require_landing :: "copy_attempt \<Rightarrow> protocol_quote res" where
  "require_landing a = (case ca_landing_quote a of
     None \<Rightarrow> Inl (ValueError ''copy attempt has no successful landing quote'') | Some q \<Rightarrow> Inr q)"

text \<open>The control state learns of a rejection at its decision, of a landing at its landing.\<close>

definition notify_control ::
  "('s, 'p) copy_env \<Rightarrow> copy_attempt \<Rightarrow> bool \<Rightarrow> copy_control \<Rightarrow> copy_control res" where
  "notify_control env a successful c =
     (let position = (case ca_landed_at a of Some p \<Rightarrow> p | None \<Rightarrow> ca_decision a) in
      if ca_side a = QUOTE_BUY then
        (if \<not> successful then fail_buy c
         else bindE (require_landing a) (\<lambda>q.
           copy_fill_buy (cv_clock env) position (pq_venue_input q) (pq_amount_out q) c))
      else if successful then copy_fill_sell (ca_number a) position c
      else bindE (copy_fail_sell (cv_clock env) (ca_number a) position (ca_landed_at a \<noteq> None) c)
        (\<lambda>(_, c'). Inr c'))"

definition copy_notify ::
  "('s, 'p) copy_env \<Rightarrow> copy_attempt \<Rightarrow> bool \<Rightarrow> copy_position \<Rightarrow> copy_position res" where
  "copy_notify env a successful st =
     bindE (notify_control env a successful (ce_control st)) (\<lambda>c. Inr (st\<lparr>ce_control := c\<rparr>))"

section \<open>Submission\<close>

type_synonym attempted = "copy_attempt \<times> copy_position \<times> copy_books"

definition copy_reject ::
  "('s, 'p) copy_env \<Rightarrow> copy_attempt \<Rightarrow> string \<Rightarrow> copy_position \<Rightarrow> copy_books \<Rightarrow> attempted res" where
  "copy_reject env a code st b =
     (let a = a\<lparr>ca_status := REJECTED, ca_failure_code := Some code\<rparr> in
      bindE (copy_notify env a False st) (\<lambda>st.
      bindE (record_attempt st a b) (\<lambda>b. Inr (a, put_attempt a st, b))))"

definition copy_submit ::
  "('s, 'p) copy_env \<Rightarrow> copy_attempt \<Rightarrow> asset_amounts \<Rightarrow> copy_position \<Rightarrow> copy_books \<Rightarrow> attempted res" where
  "copy_submit env a amounts st b =
     bindE (has_available (kb_portfolio b) amounts) (\<lambda>funded.
     if \<not> funded then copy_reject env a ''INSUFFICIENT_FUNDS'' st b
     else
       bindE (reserve_amounts amounts) (\<lambda>postings.
       bindE (copy_transaction env st a (ordinal_of (ca_decision a)) ''RESERVATION'' postings) (\<lambda>t.
       bindE (copy_commit env a t None st b) (\<lambda>(st, b).
       let a = a\<lparr>ca_status := SUBMITTED\<rparr> in
       bindE (record_attempt st a b) (\<lambda>b. Inr (a, put_attempt a st, b))))))"

definition entry_expected :: "('s, 'p) copy_env \<Rightarrow> copy_intent \<Rightarrow> unit res" where
  "entry_expected env i =
     bindE (maximum_settlement_position (cv_clock env) (cs_position (ci_signal i)) (ci_policy i)) (\<lambda>_.
     bindE (observation_decision (cv_clock env) (cs_position (ci_signal i))
         (cb_observation_delay_transactions (ci_policy i))) (\<lambda>expected.
     raise_if (ordinal_of expected \<noteq> ordinal_of (ci_decision_position i))
       (ValueError ''copy decision does not match observation delay'')))"

definition quoted_buy :: "('s, 'p) copy_env \<Rightarrow> 'p \<Rightarrow> copy_intent \<Rightarrow> int \<Rightarrow> protocol_quote res" where
  "quoted_buy env protocol i seconds =
     bindE (cv_quote_buy env protocol i seconds) (\<lambda>q.
     bindE (validate_buy_quote (shared_intent i) q) (\<lambda>_. Inr q))"

definition quoted_sell :: "('s, 'p) copy_env \<Rightarrow> 'p \<Rightarrow> copy_intent \<Rightarrow> int \<Rightarrow> int \<Rightarrow> protocol_quote res" where
  "quoted_sell env protocol i tokens seconds =
     bindE (cv_quote_sell env protocol i tokens seconds) (\<lambda>q.
     bindE (validate_sell_quote (cv_sha env) (shared_intent i) tokens q) (\<lambda>_. Inr q))"

definition price_entry ::
  "('s, 'p) copy_env \<Rightarrow> 'p \<Rightarrow> copy_intent \<Rightarrow> int \<Rightarrow> copy_books
    \<Rightarrow> (network_cost_quote \<times> reservation_plan \<times> account_component list) res" where
  "price_entry env observed i seconds b =
     bindE (cv_account_requirements env observed i) (\<lambda>requirements.
     bindE (cv_cost_buy env seconds requirements) (\<lambda>network.
     bindE (prepare_account_reservation (kb_accounts b) (ci_roundtrip_id i) (cs_asset_id (ci_signal i))
       (nq_account_requirements network)) (\<lambda>plan.
     bindE (unsubmitted_account_records (kb_accounts b) plan) (\<lambda>records. Inr (network, plan, records)))))"

definition submit_entry ::
  "('s, 'p) copy_env \<Rightarrow> 'p \<Rightarrow> int \<Rightarrow> network_cost_quote \<Rightarrow> reservation_plan \<Rightarrow> copy_attempt \<Rightarrow> copy_position
    \<Rightarrow> copy_books \<Rightarrow> attempted res" where
  "submit_entry env observed seconds network plan a st b =
     (let i = ce_intent st in
      bindE (catch_rejected (quoted_buy env observed i seconds)) (\<lambda>quoted.
      case quoted of
        Inl code \<Rightarrow> copy_reject env a code st b
      | Inr reference \<Rightarrow>
          copy_submit env (a\<lparr>ca_reference := Some reference, ca_minimum_out :=
              sniping_minimum_output (pq_amount_out reference) (cb_buy_slippage_bps (ci_policy i))\<rparr>)
            (buy_reservation (shared_intent i) network plan) st b))"

definition begin_buy ::
  "('s, 'p) copy_env \<Rightarrow> 'p \<Rightarrow> copy_position \<Rightarrow> copy_books \<Rightarrow> attempted res" where
  "begin_buy env observed st b =
     (if ce_attempts st \<noteq> [] then Inl (ValueError ''copy entry cannot be attempted again'')
      else
        bindE (entry_expected env (ce_intent st)) (\<lambda>_.
        bindE (new_attempt env st QUOTE_BUY 0 (ci_decision_position (ce_intent st))) (\<lambda>(a, st).
        bindE (copy_seconds env (ca_decision a)) (\<lambda>seconds.
        bindE (price_entry env observed (ce_intent st) seconds b) (\<lambda>(network, plan, records).
        submit_entry env observed seconds network plan (a\<lparr>ca_network := Some network\<rparr>)
          (st\<lparr>ce_account_plan := Some plan, ce_account_components := records\<rparr>) b)))))"

definition submit_exit ::
  "('s, 'p) copy_env \<Rightarrow> 'p \<Rightarrow> int \<Rightarrow> network_cost_quote \<Rightarrow> copy_attempt \<Rightarrow> copy_position \<Rightarrow> copy_books
    \<Rightarrow> attempted res" where
  "submit_exit env observed seconds network a st b =
     (let i = ce_intent st; tokens = remaining_tokens (ce_control st) in
      bindE (catch_rejected (quoted_sell env observed i tokens seconds)) (\<lambda>quoted.
      case quoted of
        Inl code \<Rightarrow> copy_reject env a code st b
      | Inr reference \<Rightarrow>
          copy_submit env (a\<lparr>ca_reference := Some reference, ca_minimum_out :=
              sniping_minimum_output (pq_amount_out reference) (cb_sell_slippage_bps (ci_policy i))\<rparr>)
            (sell_reservation (shared_intent i) tokens network) st b))"

definition begin_sell ::
  "('s, 'p) copy_env \<Rightarrow> 'p \<Rightarrow> chain_position \<Rightarrow> copy_position \<Rightarrow> copy_books \<Rightarrow> attempted res" where
  "begin_sell env observed position st b =
     bindE (copy_begin_sell (cv_clock env) position (ce_control st)) (\<lambda>(number, control).
     bindE (new_attempt env (st\<lparr>ce_control := control\<rparr>) QUOTE_SELL number position) (\<lambda>(a, st).
     bindE (copy_seconds env position) (\<lambda>seconds.
     bindE (cv_cost_sell env seconds) (\<lambda>network.
     submit_exit env observed seconds network (a\<lparr>ca_network := Some network\<rparr>) st b))))"

section \<open>Landing\<close>

definition landing_quote ::
  "('s, 'p) copy_env \<Rightarrow> 'p \<Rightarrow> copy_position \<Rightarrow> copy_attempt \<Rightarrow> chain_position \<Rightarrow> protocol_quote res" where
  "landing_quote env historical st a position =
     bindE (copy_seconds env position) (\<lambda>seconds.
     if ca_side a = QUOTE_BUY then quoted_buy env historical (ce_intent st) seconds
     else quoted_sell env historical (ce_intent st) (remaining_tokens (ce_control st)) seconds)"

text \<open>The attempt with its landing quote, and the code of its failure if it has one.\<close>

definition quote_landing ::
  "('s, 'p) copy_env \<Rightarrow> 'p \<Rightarrow> copy_position \<Rightarrow> copy_attempt \<Rightarrow> chain_position
    \<Rightarrow> (copy_attempt \<times> string option) res" where
  "quote_landing env historical st a position =
     bindE (catch_rejected (landing_quote env historical st a position)) (\<lambda>quoted.
     Inr (case quoted of
       Inl code \<Rightarrow> (a, Some code)
     | Inr q \<Rightarrow> (a\<lparr>ca_landing_quote := Some q\<rparr>,
         if pq_amount_out q < ca_minimum_out a then Some ''MINIMUM_OUTPUT_NOT_MET'' else None)))"

definition copy_buy_settlement ::
  "('s, 'p) copy_env \<Rightarrow> copy_attempt \<Rightarrow> network_cost_quote \<Rightarrow> string option \<Rightarrow> copy_position \<Rightarrow> copy_books
    \<Rightarrow> (ledger_transaction \<times> provisioning_transition option) res" where
  "copy_buy_settlement env a network failure st b = (case ce_account_plan st of
     None \<Rightarrow> Inl (ValueError ''submitted buy has no account reservation'')
   | Some plan \<Rightarrow>
       bindE (apply_buy_account_transition (kb_accounts b) plan (failure = None)) (\<lambda>transition.
       bindE (case failure of
           Some code \<Rightarrow> failed_buy_settlement (cv_sha env) (shared_intent (ce_intent st))
             (ordinal_of (ca_expected_landing a)) network plan (cv_fee_collector env) code
         | None \<Rightarrow> bindE (require_landing a) (\<lambda>q.
             successful_buy_settlement (cv_sha env) (shared_intent (ce_intent st))
               (ordinal_of (ca_expected_landing a)) q network plan transition (cv_fee_collector env))) (\<lambda>t.
       Inr (t, Some transition))))"

definition copy_sell_settlement ::
  "('s, 'p) copy_env \<Rightarrow> copy_attempt \<Rightarrow> network_cost_quote \<Rightarrow> string option \<Rightarrow> copy_position \<Rightarrow> copy_books
    \<Rightarrow> (ledger_transaction \<times> provisioning_transition option) res" where
  "copy_sell_settlement env a network failure st b =
     (let i = ce_intent st; tokens = remaining_tokens (ce_control st); boundary = ordinal_of (ca_expected_landing a) in
      case failure of
        Some code \<Rightarrow>
          bindE (failed_sell_settlement (cv_sha env) (shared_intent i) boundary tokens network (cv_fee_collector env) code)
            (\<lambda>t. Inr (t, None))
      | None \<Rightarrow>
          bindE (apply_sell_account_transition (kb_accounts b) (ci_roundtrip_id i) (cs_asset_id (ci_signal i))
            (ce_account_components st) True) (\<lambda>transition.
          bindE (require_landing a) (\<lambda>q.
          bindE (successful_sell_settlement (cv_sha env) (shared_intent i) boundary q network tokens transition
            (cv_fee_collector env)) (\<lambda>t. Inr (t, Some transition)))))"

definition copy_fill :: "copy_position \<Rightarrow> copy_attempt \<Rightarrow> fill res" where
  "copy_fill st a =
     bindE (require_landing a) (\<lambda>q.
     bindE (Identifier (cs_venue_id (ci_signal (ce_intent st)))) (\<lambda>pool.
     Fill \<lparr>fl_order_id = ca_order_id a, fl_pool_id = pool, fl_sold_asset_id = pq_input_asset_id q,
       fl_bought_asset_id = pq_output_asset_id q, fl_amount_in_atomic = pq_amount_in q,
       fl_amount_out_atomic = pq_amount_out q, fl_fee_amount_atomic = pq_protocol_fee q + pq_creator_fee q,
       fl_boundary_ordinal = ordinal_of (ca_expected_landing a)\<rparr>))"

definition append_copy_fill :: "copy_position \<Rightarrow> copy_attempt \<Rightarrow> copy_books \<Rightarrow> copy_books res" where
  "append_copy_fill st a b =
     bindE (copy_fill st a) (\<lambda>f.
     bindE (copy_append_fill (kb_recorder b) f) (\<lambda>r. Inr (b\<lparr>kb_recorder := r\<rparr>)))"

definition settle_landing ::
  "('s, 'p) copy_env \<Rightarrow> copy_attempt \<Rightarrow> string option \<Rightarrow> chain_position \<Rightarrow> copy_position \<Rightarrow> copy_books
    \<Rightarrow> attempted res" where
  "settle_landing env a failure position st b =
     bindE (require_network a) (\<lambda>network.
     bindE (if ca_side a = QUOTE_BUY then copy_buy_settlement env a network failure st b
       else copy_sell_settlement env a network failure st b) (\<lambda>(t, transition).
     bindE (copy_commit env a t transition st b) (\<lambda>(st, b).
     let a = a\<lparr>ca_status := (if failure = None then FILLED else FAILED), ca_landed_at := Some position,
       ca_failure_code := failure\<rparr> in
     bindE (copy_notify env a (failure = None) st) (\<lambda>st.
     bindE (record_attempt st a b) (\<lambda>b.
     bindE (if failure = None then append_copy_fill st a b else Inr b) (\<lambda>b.
     Inr (a, put_attempt a st, b)))))))"

definition copy_land ::
  "('s, 'p) copy_env \<Rightarrow> 'p \<Rightarrow> chain_position \<Rightarrow> copy_position \<Rightarrow> copy_books \<Rightarrow> attempted res" where
  "copy_land env historical position st b =
     (if ce_attempts st = [] then Inl (IndexError ''list index out of range'')
      else
        let a = last (ce_attempts st) in
        if ca_status a \<noteq> SUBMITTED \<or> position \<noteq> ca_expected_landing a then
          Inl (ValueError ''copy landing is stale or does not match its exact boundary'')
        else
          bindE (require_network a) (\<lambda>_.
          bindE (quote_landing env historical st a position) (\<lambda>(a, failure).
          settle_landing env a failure position st b)))"

end
