(* ===== verification/Copy_Replay.thy ===== *)
theory Copy_Replay
  imports Copy_Execution Sniping_Source
begin

text \<open>
  The copy-trading replay (\<^verbatim>\<open>engine/copytrading.py\<close>): the historical groups, the delayed deliveries and the
  scheduled actions are merged boundary by boundary; at one boundary history comes first, then the callbacks
  in causal order, then the requests they made, then the landings, then their notifications. A generator of
  the source is the list of what it yields together with the exception that ends it, so that an exception is
  met exactly when the generator is advanced past its last element.
\<close>

section \<open>Generators\<close>

type_synonym 'a generator = "'a list \<times> exn option"

definition next_item :: "'a generator \<Rightarrow> ('a option \<times> 'a generator) res" where
  "next_item g = (case g of
     (x # xs, e) \<Rightarrow> Inr (Some x, (xs, e)) | ([], Some e) \<Rightarrow> Inl e | ([], None) \<Rightarrow> Inr (None, ([], None)))"

record copy_limits =
  cl_maximum_events :: int
  cl_maximum_positions :: int
  cl_maximum_dynamic_items :: int

definition CopyReplayLimits :: "copy_limits \<Rightarrow> copy_limits res" where
  "CopyReplayLimits l =
     (if list_ex (\<lambda>v. v < 1) [cl_maximum_events l, cl_maximum_positions l, cl_maximum_dynamic_items l] then
        Inl (ValueError ''copy replay limits must be positive integers'')
      else Inr l)"

record copy_counts =
  cn_historical_events :: int
  cn_historical_groups :: int
  cn_observed_groups :: int
  cn_positions :: int
  cn_observed_events :: int

definition maximum_group_events :: int where "maximum_group_events = 10000"

text \<open>The capped scan: the cap is checked before the grouper sees the event.\<close>

fun copy_scan ::
  "transaction_clock \<Rightarrow> int \<Rightarrow> (int \<times> digest) option \<Rightarrow> int \<Rightarrow> canonical_event list list group_scan
    \<Rightarrow> canonical_event list \<Rightarrow> canonical_event list generator" where
  "copy_scan clock cap previous members s [] =
     (gs_consumer s @ (if gs_current s = [] then [] else [gs_current s]), None)"
| "copy_scan clock cap previous members s (e # events) =
     (let identity = (event_boundary e, event_group e);
          members = (if previous = Some identity then members + 1 else 1) in
      if cap < members then (gs_consumer s, Some (ValueError ''copy transaction group admission limit exceeded''))
      else (case scan_event clock (\<lambda>groups g. Inr (groups @ [g])) s e of
          Inl x \<Rightarrow> (gs_consumer s, Some x)
        | Inr s' \<Rightarrow> copy_scan clock cap (Some identity) members s' events))"

definition copy_event_groups ::
  "transaction_clock \<Rightarrow> int \<Rightarrow> canonical_event list \<Rightarrow> canonical_event list generator" where
  "copy_event_groups clock cap events =
     (if cap < 1 then ([], Some (ValueError ''copy transaction group cap must be positive''))
      else copy_scan clock cap None 0
        \<lparr>gs_current = [], gs_identity = None, gs_previous_key = None, gs_consumer = []\<rparr> events)"

definition source_groups :: "transaction_clock \<Rightarrow> sniping_source \<Rightarrow> canonical_event list generator" where
  "source_groups clock src = copy_event_groups clock maximum_group_events (so_events src)"

definition group_seconds :: "transaction_clock \<Rightarrow> canonical_event list \<Rightarrow> int res" where
  "group_seconds clock g =
     bindE (block_time_for_block clock (cp_block_ordinal (ee_position (event_envelope_of (hd g))))) (\<lambda>t.
     Inr (t div 1000000000))"

type_synonym delivery = "int \<times> canonical_event list"

text \<open>What one group is delivered as: nothing, its release, or the end of the deliveries.\<close>

datatype delivery_step = SkipGroup | StopDeliveries | Deliver int

definition delay_group :: "transaction_clock \<Rightarrow> int \<Rightarrow> canonical_event list \<Rightarrow> delivery_step res" where
  "delay_group clock delay g =
     bindE (sniping_boundary_position g) (\<lambda>position.
     if cp_transaction_index position < 0 then Inr SkipGroup
     else bindE (global_transaction_index clock position) (\<lambda>index.
       if total_transaction_count clock \<le> index + delay then Inr StopDeliveries
       else bindE (if delay \<noteq> 0 then transaction_after clock position delay else Inr position) (\<lambda>release.
         Inr (Deliver (ordinal_of release)))))"

fun deliveries :: "transaction_clock \<Rightarrow> int \<Rightarrow> canonical_event list list \<Rightarrow> exn option \<Rightarrow> delivery generator" where
  "deliveries clock delay [] e = ([], e)"
| "deliveries clock delay (g # gs) e = (case delay_group clock delay g of
     Inl x \<Rightarrow> ([], Some x)
   | Inr SkipGroup \<Rightarrow> deliveries clock delay gs e
   | Inr StopDeliveries \<Rightarrow> ([], None)
   | Inr (Deliver release) \<Rightarrow> (let (ds, x) = deliveries clock delay gs e in ((release, g) # ds, x)))"

definition source_deliveries :: "transaction_clock \<Rightarrow> int \<Rightarrow> sniping_source \<Rightarrow> delivery generator" where
  "source_deliveries clock delay src = (let (gs, e) = source_groups clock src in deliveries clock delay gs e)"

section \<open>Validation\<close>

definition validate_signal ::
  "('s, 'p) copy_env \<Rightarrow> block_range \<Rightarrow> copy_signal \<Rightarrow> unit res" where
  "validate_signal env decisions signal =
     (if cs_signing_wallet signal \<in> set (cv_signing_wallets env)
         \<and> contains_block decisions (cp_block_ordinal (cs_position signal)) then
        bindE (maximum_settlement_position (cv_clock env) (cs_position signal) (cv_policy env)) (\<lambda>_. Inr ())
      else Inr ())"

definition validate_group ::
  "('s, 'p) copy_env \<Rightarrow> block_range \<Rightarrow> copy_limits \<Rightarrow> int \<times> int \<times> 'p \<Rightarrow> canonical_event list
    \<Rightarrow> (int \<times> int \<times> 'p) res" where
  "validate_group env decisions limits = (\<lambda>(events, groups, protocol) g.
     if cl_maximum_events limits < events + int (length g) then
       Inl (ValueError ''copy source event admission limit exceeded'')
     else
       bindE (group_seconds (cv_clock env) g) (\<lambda>seconds.
       bindE (cv_apply_group env protocol g seconds) (\<lambda>(signals, protocol).
       bindE (foldE (\<lambda>_. validate_signal env decisions) () signals) (\<lambda>_.
       Inr (events + int (length g), groups + 1, protocol)))))"

definition validate_copy_replay ::
  "('s, 'p) copy_env \<Rightarrow> sniping_source \<Rightarrow> block_range \<Rightarrow> 'p \<Rightarrow> copy_limits \<Rightarrow> (int \<times> int) res" where
  "validate_copy_replay env src decisions protocol limits =
     (if (br_network_id decisions, br_position_schema_id decisions)
          \<noteq> (tc_network_id (cv_clock env), tc_position_schema_id (cv_clock env)) then
        Inl (ValueError ''copy decision range and transaction clock have different identities'')
      else
        (let (gs, e) = source_groups (cv_clock env) src in
         bindE (foldE (validate_group env decisions limits) (0, 0, protocol) gs) (\<lambda>(events, groups, _).
         case e of
           Some x \<Rightarrow> Inl x
         | None \<Rightarrow>
             if indexed_count_differs src events then Inl (ValueError ''copy canonical source count mismatch'')
             else Inr (events, groups))))"

section \<open>State\<close>

text \<open>The scheduler key: release, phase, creator and causal identity; the payload does not take part.\<close>

type_synonym copy_action_key = "int \<times> int \<times> int \<times> string"
type_synonym copy_action = "digest \<times> string"

record ('s, 'p) copy_replay =
  cr_history :: "canonical_event list generator"
  cr_next_history :: "canonical_event list option"
  cr_observation :: "delivery generator"
  cr_next_observation :: "delivery option"
  cr_strategy :: 's
  cr_historical :: 'p
  cr_observed :: 'p
  cr_states :: "(digest, copy_position) dict"
  cr_by_venue :: "(venue_id, digest) dict"
  cr_scheduled :: "(copy_action_key \<times> copy_action) list"
  cr_events :: int
  cr_groups :: int
  cr_delivered :: int
  cr_observed_events :: int
  cr_books :: copy_books

type_synonym copy_requests = "(digest, bool) dict"

definition copy_next_boundary :: "('s, 'p) copy_replay \<Rightarrow> int" where
  "copy_next_boundary r = Min (set
     ((case heap_top (cr_scheduled r) of None \<Rightarrow> [] | Some ((release, _), _) \<Rightarrow> [release])
      @ (case cr_next_history r of None \<Rightarrow> [] | Some g \<Rightarrow> [event_boundary (hd g)])
      @ (case cr_next_observation r of None \<Rightarrow> [] | Some (release, _) \<Rightarrow> [release])))"

definition replay_done :: "('s, 'p) copy_replay \<Rightarrow> bool" where
  "replay_done r \<longleftrightarrow> cr_next_history r = None \<and> cr_next_observation r = None \<and> cr_scheduled r = []"

definition position_of :: "('s, 'p) copy_replay \<Rightarrow> digest \<Rightarrow> copy_position res" where
  "position_of r d = (case dict_get (cr_states r) d of None \<Rightarrow> Inl (KeyError d) | Some st \<Rightarrow> Inr st)"

definition put_position :: "copy_position \<Rightarrow> ('s, 'p) copy_replay \<Rightarrow> ('s, 'p) copy_replay" where
  "put_position st r = r\<lparr>cr_states := dict_set (ci_roundtrip_id (ce_intent st)) st (cr_states r)\<rparr>"

definition copy_schedule ::
  "('s, 'p) copy_env \<Rightarrow> copy_position \<Rightarrow> chain_position option \<Rightarrow> chain_position \<Rightarrow> string \<Rightarrow> int
    \<Rightarrow> ('s, 'p) copy_replay \<Rightarrow> ('s, 'p) copy_replay res" where
  "copy_schedule env st release creator kind phase r = (case release of
     None \<Rightarrow> Inl (ValueError ''copy action must be eligible strictly after its creator boundary'')
   | Some due \<Rightarrow>
       if ordinal_of due \<le> ordinal_of creator then
         Inl (ValueError ''copy action must be eligible strictly after its creator boundary'')
       else
         (let id = ci_roundtrip_id (ce_intent st) in
          bindE (domain_digest (cv_sha env) ''backtest.copy-scheduled-action.v1'' (JObj
              [(''position_id'', JStr (digest_hex id)), (''kind'', JStr kind),
               (''attempt'', JInt (ct_sell_attempt_count (ce_control st))),
               (''creator'', JInt (ordinal_of creator))])) (\<lambda>causal.
          Inr (r\<lparr>cr_scheduled := heappush
            ((ordinal_of due, phase, ordinal_of creator, digest_hex causal), (id, kind)) (cr_scheduled r)\<rparr>))))"

section \<open>Exits and callbacks\<close>

definition request_exit :: "digest \<Rightarrow> copy_requests \<Rightarrow> copy_requests" where
  "request_exit d requests = (if dict_get requests d = None then dict_set d False requests else requests)"

definition copy_exit ::
  "('s, 'p) copy_env \<Rightarrow> chain_position \<Rightarrow> digest \<Rightarrow> ('s, 'p) copy_replay \<times> copy_requests
    \<Rightarrow> (('s, 'p) copy_replay \<times> copy_requests) res" where
  "copy_exit env position d = (\<lambda>(r, requests).
     bindE (position_of r d) (\<lambda>st.
     let control = ce_control st in
     if ct_status control = OPEN then
       bindE (cv_current_price env (cr_observed r) (ce_intent st)) (\<lambda>price.
       bindE (evaluate_exit position price control) (\<lambda>(reason, control).
       let r = put_position (st\<lparr>ce_control := control\<rparr>) r in
       Inr (r, if reason = None then requests else request_exit (ci_roundtrip_id (ce_intent st)) requests)))
     else if ct_status control = RETRY_WAIT then
       (case ct_retry_position control of
          None \<Rightarrow> Inr (r, requests)
        | Some retry \<Rightarrow> Inr (r, if ordinal_of position < ordinal_of retry then requests
            else request_exit (ci_roundtrip_id (ce_intent st)) requests))
     else Inr (r, requests)))"

definition affected_venues :: "canonical_event list \<Rightarrow> venue_id list" where
  "affected_venues g = remdups (concat (map (\<lambda>e. case e of
     Token_Launch_Event t \<Rightarrow> [tl_venue_id t] | Venue_Trade_Event t \<Rightarrow> [vt_venue_id t]
   | Venue_Lifecycle_Event v \<Rightarrow> [vl_venue_id v] | Block_Event _ \<Rightarrow> []) g))"

definition copy_entry ::
  "('s, 'p) copy_env \<Rightarrow> block_range \<Rightarrow> copy_limits \<Rightarrow> chain_position
    \<Rightarrow> ('s, 'p) copy_replay \<times> copy_requests \<Rightarrow> copy_signal \<Rightarrow> (('s, 'p) copy_replay \<times> copy_requests) res" where
  "copy_entry env decisions limits position = (\<lambda>(r, requests) signal.
     if \<not> contains_block decisions (cp_block_ordinal (cs_position signal)) then Inr (r, requests)
     else bindE (cv_decide env (cr_strategy r) signal position) (\<lambda>(intent, strategy).
       let r = r\<lparr>cr_strategy := strategy\<rparr> in
       case intent of
         None \<Rightarrow> Inr (r, requests)
       | Some i \<Rightarrow>
           if cl_maximum_positions limits \<le> int (length (cr_states r)) then
             Inl (ValueError ''copy position admission limit exceeded'')
           else Inr (r\<lparr>cr_states := dict_set (ci_roundtrip_id i) (CopyExecutionPosition i) (cr_states r),
                      cr_by_venue := dict_set (cs_venue_id (ci_signal i)) (ci_roundtrip_id i) (cr_by_venue r)\<rparr>,
                    dict_set (ci_roundtrip_id i) True requests)))"

definition market_callback ::
  "('s, 'p) copy_env \<Rightarrow> block_range \<Rightarrow> copy_limits \<Rightarrow> chain_position \<Rightarrow> canonical_event list \<Rightarrow> copy_signal list
    \<Rightarrow> ('s, 'p) copy_replay \<times> copy_requests \<Rightarrow> (('s, 'p) copy_replay \<times> copy_requests) res" where
  "market_callback env decisions limits position g signals = (\<lambda>(r, requests).
     let held = sort_key digest_hex (List.map_filter (dict_get (cr_by_venue r)) (affected_venues g)) in
     bindE (foldE (\<lambda>s d. copy_exit env position d s) (r, requests) held) (\<lambda>s.
     foldE (copy_entry env decisions limits position) s signals))"

datatype copy_callback = MarketCallback "canonical_event list" "copy_signal list" | ActionCallback digest

definition copy_callback_step ::
  "('s, 'p) copy_env \<Rightarrow> block_range \<Rightarrow> copy_limits \<Rightarrow> chain_position
    \<Rightarrow> ('s, 'p) copy_replay \<times> copy_requests \<Rightarrow> (int \<times> string) \<times> copy_callback
    \<Rightarrow> (('s, 'p) copy_replay \<times> copy_requests) res" where
  "copy_callback_step env decisions limits position s c = (case snd c of
     ActionCallback d \<Rightarrow> copy_exit env position d s
   | MarketCallback g signals \<Rightarrow> market_callback env decisions limits position g signals s)"

section \<open>One boundary\<close>

definition replay_history ::
  "('s, 'p) copy_env \<Rightarrow> int \<Rightarrow> ('s, 'p) copy_replay \<Rightarrow> ('s, 'p) copy_replay res" where
  "replay_history env boundary r = (case cr_next_history r of
     None \<Rightarrow> Inr r
   | Some g \<Rightarrow>
       if event_boundary (hd g) \<noteq> boundary then Inr r
       else
         bindE (group_seconds (cv_clock env) g) (\<lambda>seconds.
         bindE (cv_apply_group env (cr_historical r) g seconds) (\<lambda>(_, historical).
         bindE (next_item (cr_history r)) (\<lambda>(following, rest).
         Inr (r\<lparr>cr_history := rest, cr_next_history := following, cr_historical := historical,
                cr_events := cr_events r + int (length g), cr_groups := cr_groups r + 1\<rparr>)))))"

definition replay_observation ::
  "('s, 'p) copy_env \<Rightarrow> int \<Rightarrow> ('s, 'p) copy_replay
    \<Rightarrow> (((int \<times> string) \<times> copy_callback) list \<times> ('s, 'p) copy_replay) res" where
  "replay_observation env boundary r = (case cr_next_observation r of
     None \<Rightarrow> Inr ([], r)
   | Some (release, g) \<Rightarrow>
       if release \<noteq> boundary then Inr ([], r)
       else
         bindE (group_seconds (cv_clock env) g) (\<lambda>seconds.
         bindE (cv_apply_group env (cr_observed r) g seconds) (\<lambda>(signals, observed).
         bindE (next_item (cr_observation r)) (\<lambda>(following, rest).
         Inr ([((event_boundary (hd g), digest_hex (event_group (hd g))), MarketCallback g signals)],
              r\<lparr>cr_observation := rest, cr_next_observation := following, cr_observed := observed,
                cr_delivered := cr_delivered r + 1,
                cr_observed_events := cr_observed_events r + int (length g)\<rparr>)))))"

text \<open>The scheduled decisions of the boundary: the loop pops the heap while its top is one.\<close>

definition decision_due :: "int \<Rightarrow> copy_action_key \<times> copy_action \<Rightarrow> bool" where
  "decision_due boundary a = (fst (fst a) = boundary \<and> fst (snd (fst a)) = 40)"

definition action_callbacks :: "(copy_action_key \<times> copy_action) list \<Rightarrow> ((int \<times> string) \<times> copy_callback) list" where
  "action_callbacks actions = map (\<lambda>((_, _, creator, causal), (d, _)). ((creator, causal), ActionCallback d)) actions"

definition replay_callbacks ::
  "('s, 'p) copy_env \<Rightarrow> block_range \<Rightarrow> copy_limits \<Rightarrow> int \<Rightarrow> chain_position
    \<Rightarrow> ((int \<times> string) \<times> copy_callback) list \<Rightarrow> ('s, 'p) copy_replay
    \<Rightarrow> (('s, 'p) copy_replay \<times> copy_requests) res" where
  "replay_callbacks env decisions limits boundary position market r =
     (let due = takeWhile (decision_due boundary) (cr_scheduled r);
          r = r\<lparr>cr_scheduled := dropWhile (decision_due boundary) (cr_scheduled r)\<rparr> in
      foldE (copy_callback_step env decisions limits position) (r, [])
        (sort_key fst (market @ action_callbacks due)))"

definition schedule_outcome ::
  "('s, 'p) copy_env \<Rightarrow> chain_position \<Rightarrow> copy_attempt \<Rightarrow> copy_position \<Rightarrow> ('s, 'p) copy_replay
    \<Rightarrow> ('s, 'p) copy_replay res" where
  "schedule_outcome env position a st r =
     (if ca_status a = SUBMITTED then
        copy_schedule env st (Some (ca_expected_landing a)) position ''ORDER'' 60 r
      else if ct_status (ce_control st) = RETRY_WAIT then
        copy_schedule env st (ct_retry_position (ce_control st)) position ''RETRY'' 40 r
      else Inr r)"

definition copy_request ::
  "('s, 'p) copy_env \<Rightarrow> chain_position \<Rightarrow> ('s, 'p) copy_replay \<Rightarrow> digest \<times> bool \<Rightarrow> ('s, 'p) copy_replay res" where
  "copy_request env position r = (\<lambda>(d, is_buy).
     bindE (position_of r d) (\<lambda>st.
     bindE (if is_buy then begin_buy env (cr_observed r) st (cr_books r)
       else begin_sell env (cr_observed r) position st (cr_books r)) (\<lambda>(a, st, b).
     schedule_outcome env position a st (put_position st (r\<lparr>cr_books := b\<rparr>)))))"

definition copy_landing ::
  "('s, 'p) copy_env \<Rightarrow> chain_position \<Rightarrow> ('s, 'p) copy_replay \<times> digest list
    \<Rightarrow> copy_action_key \<times> copy_action \<Rightarrow> (('s, 'p) copy_replay \<times> digest list) res" where
  "copy_landing env position = (\<lambda>(r, notified) ((_, phase, _), (d, _)).
     if phase \<noteq> 60 then Inl (ValueError ''copy scheduler attempted to revisit an earlier phase'')
     else
       bindE (position_of r d) (\<lambda>st.
       bindE (copy_land env (cr_historical r) position st (cr_books r)) (\<lambda>(a, st, b).
       Inr (put_position st (r\<lparr>cr_books := b\<rparr>), notified @ [d]))))"

definition replay_landings ::
  "('s, 'p) copy_env \<Rightarrow> int \<Rightarrow> chain_position \<Rightarrow> ('s, 'p) copy_replay
    \<Rightarrow> (('s, 'p) copy_replay \<times> digest list) res" where
  "replay_landings env boundary position r =
     (let due = takeWhile (\<lambda>a. fst (fst a) = boundary) (cr_scheduled r) in
      foldE (copy_landing env position)
        (r\<lparr>cr_scheduled := dropWhile (\<lambda>a. fst (fst a) = boundary) (cr_scheduled r)\<rparr>, []) due)"

text \<open>What an evaluation right after the fill leads to.\<close>

definition schedule_hold ::
  "('s, 'p) copy_env \<Rightarrow> chain_position \<Rightarrow> copy_exit_reason option \<Rightarrow> copy_position \<Rightarrow> ('s, 'p) copy_replay
    \<Rightarrow> ('s, 'p) copy_replay res" where
  "schedule_hold env position reason st r =
     (if reason = None then copy_schedule env st (ct_deadline (ce_control st)) position ''HOLD'' 40 r
      else bindE (transaction_after (cv_clock env) position 1) (\<lambda>due.
        copy_schedule env st (Some due) position ''EXIT'' 40 r))"

definition copy_notification ::
  "('s, 'p) copy_env \<Rightarrow> chain_position \<Rightarrow> ('s, 'p) copy_replay \<Rightarrow> digest \<Rightarrow> ('s, 'p) copy_replay res" where
  "copy_notification env position r d =
     bindE (position_of r d) (\<lambda>st.
     if ct_status (ce_control st) = OPEN then
       bindE (cv_current_price env (cr_observed r) (ce_intent st)) (\<lambda>price.
       bindE (evaluate_exit position price (ce_control st)) (\<lambda>(reason, control).
       let st = st\<lparr>ce_control := control\<rparr> in
       schedule_hold env position reason st (put_position st r)))
     else if ct_status (ce_control st) = RETRY_WAIT then
       copy_schedule env st (ct_retry_position (ce_control st)) position ''RETRY'' 40 r
     else Inr r)"

definition copy_boundary ::
  "('s, 'p) copy_env \<Rightarrow> block_range \<Rightarrow> copy_limits \<Rightarrow> ('s, 'p) copy_replay \<Rightarrow> ('s, 'p) copy_replay res" where
  "copy_boundary env decisions limits r =
     (let boundary = copy_next_boundary r in
      bindE (from_boundary_ordinal (tc_network_id (cv_clock env)) (tc_position_schema_id (cv_clock env)) boundary None)
        (\<lambda>position.
      bindE (replay_history env boundary r) (\<lambda>r.
      bindE (replay_observation env boundary r) (\<lambda>(market, r).
      bindE (replay_callbacks env decisions limits boundary position market r) (\<lambda>(r, requests).
      bindE (foldE (copy_request env position) r requests) (\<lambda>r.
      bindE (replay_landings env boundary position r) (\<lambda>(r, notified).
      bindE (foldE (copy_notification env position) r notified) (\<lambda>r.
      if cl_maximum_dynamic_items limits < int (length (cr_scheduled r)) then
        Inl (ValueError ''copy dynamic scheduler admission limit exceeded'')
      else Inr r))))))))"

section \<open>The run\<close>

text \<open>The loop as the source has it: it may a priori not end.\<close>

partial_function (option) copy_loop ::
  "('s, 'p) copy_env \<Rightarrow> block_range \<Rightarrow> copy_limits \<Rightarrow> ('s, 'p) copy_replay \<Rightarrow> ('s, 'p) copy_replay res option" where
  "copy_loop env decisions limits r =
     (if replay_done r then Some (Inr r)
      else (case copy_boundary env decisions limits r of
          Inl e \<Rightarrow> Some (Inl e)
        | Inr r' \<Rightarrow> copy_loop env decisions limits r'))"

definition start_replay ::
  "('s, 'p) copy_env \<Rightarrow> sniping_source \<Rightarrow> 's \<Rightarrow> 'p \<Rightarrow> copy_books \<Rightarrow> ('s, 'p) copy_replay res" where
  "start_replay env src strategy protocol b =
     bindE (next_item (source_groups (cv_clock env) src)) (\<lambda>(first, history).
     bindE (next_item (source_deliveries (cv_clock env) (cb_observation_delay_transactions (cv_policy env)) src))
       (\<lambda>(observed, observation).
     Inr \<lparr>cr_history = history, cr_next_history = first, cr_observation = observation,
       cr_next_observation = observed, cr_strategy = strategy, cr_historical = protocol, cr_observed = protocol,
       cr_states = [], cr_by_venue = [], cr_scheduled = [], cr_events = 0, cr_groups = 0, cr_delivered = 0,
       cr_observed_events = 0, cr_books = b\<rparr>))"

definition position_order :: "copy_position \<Rightarrow> int \<times> string" where
  "position_order st = (ordinal_of (cs_position (ci_signal (ce_intent st))), digest_hex (ci_roundtrip_id (ce_intent st)))"

definition finish_replay ::
  "(('s, 'p) copy_replay \<Rightarrow> 'a \<Rightarrow> copy_position \<Rightarrow> 'a res) \<Rightarrow> 'a \<Rightarrow> int \<times> int \<Rightarrow> ('s, 'p) copy_replay
    \<Rightarrow> ('a \<times> copy_counts) res" where
  "finish_replay append_position acc expected r =
     (if (cr_events r, cr_groups r) \<noteq> expected then
        Inl (ValueError ''copy source changed between validation and execution'')
      else
        bindE (foldE (\<lambda>acc st.
            if ct_status (ce_control st) \<notin> {copy_position_status.CLOSED, EXHAUSTED, BUY_FAILED} then
              Inl (ValueError ''copy replay ended with an unfinished settlement path'')
            else append_position r acc st) acc (sort_key position_order (map snd (cr_states r)))) (\<lambda>acc.
        Inr (acc, \<lparr>cn_historical_events = cr_events r, cn_historical_groups = cr_groups r,
          cn_observed_groups = cr_delivered r, cn_positions = int (length (cr_states r)),
          cn_observed_events = cr_observed_events r\<rparr>)))"

definition run_copy_replay ::
  "('s, 'p) copy_env \<Rightarrow> sniping_source \<Rightarrow> block_range \<Rightarrow> copy_limits \<Rightarrow> 's \<Rightarrow> 'p \<Rightarrow> copy_books
    \<Rightarrow> (('s, 'p) copy_replay \<Rightarrow> 'a \<Rightarrow> copy_position \<Rightarrow> 'a res) \<Rightarrow> 'a
    \<Rightarrow> (('s, 'p) copy_replay \<times> 'a \<times> copy_counts) res option" where
  "run_copy_replay env src decisions limits strategy protocol b append_position acc =
     (case bindE (validate_copy_replay env src decisions protocol limits) (\<lambda>expected.
           bindE (start_replay env src strategy protocol b) (\<lambda>r. Inr (expected, r))) of
        Inl e \<Rightarrow> Some (Inl e)
      | Inr (expected, r) \<Rightarrow>
          map_option (\<lambda>result. bindE result (\<lambda>r.
            bindE (finish_replay append_position acc expected r) (\<lambda>(acc, counts). Inr (r, acc, counts))))
            (copy_loop env decisions limits r))"

end
