(* ===== verification/Copy_Lifecycle.thy ===== *)
theory Copy_Lifecycle
  imports Copy_State
begin

text \<open>
  The life of one copied position as a step relation over the methods of \<^verbatim>\<open>Copy_State\<close>: its invariant, the
  bound on its transitions, and the proof that the horizon computed for a signal covers every path the
  replay can take, so that no lookup of the clock fails once the entry has been admitted.
\<close>

section \<open>Steps\<close>

text \<open>A step and whether it evaluates the exit rule; only the other steps change the status.\<close>

inductive control_step :: "transaction_clock \<Rightarrow> copy_control \<Rightarrow> bool \<Rightarrow> copy_control \<Rightarrow> bool" for clock where
  buy_failed: "fail_buy s = Inr s' \<Longrightarrow> control_step clock s False s'"
| buy_filled: "copy_fill_buy clock p curve_input tokens s = Inr s' \<Longrightarrow> control_step clock s False s'"
| exit_evaluated: "evaluate_exit p price s = Inr (reason, s') \<Longrightarrow> control_step clock s True s'"
| sell_begun: "copy_begin_sell clock p s = Inr (n, s') \<Longrightarrow> control_step clock s False s'"
| sell_failed: "copy_fail_sell clock n p submitted s = Inr (retry, s') \<Longrightarrow> control_step clock s False s'"
| sell_filled: "copy_fill_sell n p s = Inr s' \<Longrightarrow> control_step clock s False s'"

text \<open>A path and the number of its status-changing steps.\<close>

inductive control_path :: "transaction_clock \<Rightarrow> copy_control \<Rightarrow> nat \<Rightarrow> copy_control \<Rightarrow> bool" for clock s where
  path_start: "control_path clock s 0 s"
| path_step: "control_path clock s n s1 \<Longrightarrow> control_step clock s1 evaluates s2
    \<Longrightarrow> control_path clock s (if evaluates then n else Suc n) s2"

section \<open>The invariant\<close>

definition fresh :: "copy_control \<Rightarrow> bool" where
  "fresh s \<longleftrightarrow> ct_sell_attempt_count s = 0 \<and> ct_acquired_tokens s = 0 \<and> ct_entry_price s = None
     \<and> ct_buy_fill_position s = None \<and> ct_exit_reason s = None \<and> ct_trigger_position s = None
     \<and> ct_retry_position s = None \<and> ct_attempt_landing s = None \<and> ct_attempt_decision s = None \<and> ct_deadline s = None"

definition entered :: "copy_control \<Rightarrow> bool" where
  "entered s \<longleftrightarrow> (\<exists>f e d. ct_buy_fill_position s = Some f \<and> ct_entry_price s = Some e \<and> ct_deadline s = Some d
     \<and> price_ok e \<and> 0 < ct_acquired_tokens s \<and> ordinal_of (ct_buy_decision_position s) < ordinal_of f
     \<and> (ct_exit_reason s = None \<longleftrightarrow> ct_trigger_position s = None)
     \<and> (\<forall>t. ct_trigger_position s = Some t \<longrightarrow> ordinal_of f \<le> ordinal_of t))"

definition selling :: "copy_control \<Rightarrow> bool" where
  "selling s \<longleftrightarrow> entered s \<and> (\<exists>t a l. ct_trigger_position s = Some t \<and> ct_attempt_decision s = Some a
     \<and> ct_attempt_landing s = Some l)"

definition control_inv :: "copy_control \<Rightarrow> bool" where
  "control_inv s \<longleftrightarrow> (let n = ct_sell_attempt_count s in
     case ct_status s of
       BUY_PENDING \<Rightarrow> fresh s
     | BUY_FAILED \<Rightarrow> fresh s
     | OPEN \<Rightarrow> entered s \<and> n = 0 \<and> ct_retry_position s = None \<and> ct_attempt_landing s = None
     | SELL_PENDING \<Rightarrow> selling s \<and> 1 \<le> n \<and> n \<le> 4 \<and> ct_retry_position s = None
     | RETRY_WAIT \<Rightarrow> selling s \<and> 1 \<le> n \<and> n \<le> 3 \<and> ct_retry_position s \<noteq> None
     | EXHAUSTED \<Rightarrow> selling s \<and> n = 4
     | CLOSED \<Rightarrow> selling s \<and> 1 \<le> n \<and> n \<le> 4)"

lemma guards [simp]:
  "require_status s st = Inr u \<longleftrightarrow> ct_status s = st"
  "require_at_or_after p q = Inr u \<longleftrightarrow> cp_network_id p = cp_network_id q
     \<and> cp_position_schema_id p = cp_position_schema_id q \<and> ordinal_of q \<le> ordinal_of p"
  "require_later p q = Inr u \<longleftrightarrow> cp_network_id p = cp_network_id q
     \<and> cp_position_schema_id p = cp_position_schema_id q \<and> ordinal_of q < ordinal_of p"
  by (auto simp: require_status_def require_at_or_after_def require_later_def)

lemma require_attempt_Inr:
  "require_attempt s n p submitted = Inr u \<longleftrightarrow> ct_status s = SELL_PENDING \<and> 1 \<le> n \<and> n = ct_sell_attempt_count s
     \<and> (\<exists>a. ct_attempt_decision s = Some a \<and>
          (if submitted then require_later p a = Inr () \<and> (\<exists>l. ct_attempt_landing s = Some l \<and> ordinal_of p = ordinal_of l)
           else p = a))"
  by (auto simp: require_attempt_def split: option.splits)

lemma fail_buy_Inr: "fail_buy s = Inr s' \<longleftrightarrow> ct_status s = BUY_PENDING \<and> s' = s\<lparr>ct_status := BUY_FAILED\<rparr>"
  by (auto simp: fail_buy_def)

lemma fill_buy_Inr:
  "copy_fill_buy clock p curve_input tokens s = Inr s' \<longleftrightarrow> ct_status s = BUY_PENDING
     \<and> require_later p (ct_buy_decision_position s) = Inr ()
     \<and> (\<exists>x e d. transaction_after clock (ct_buy_decision_position s) (cb_buy_delay_transactions (ct_policy s)) = Inr x
          \<and> ordinal_of p = ordinal_of x \<and> TokenPrice curve_input tokens = Inr e
          \<and> holding_deadline clock p (maximum_hold_ns (ct_policy s)) = Inr d
          \<and> s' = s\<lparr>ct_status := OPEN, ct_acquired_tokens := tokens, ct_entry_price := Some e,
              ct_buy_fill_position := Some p, ct_deadline := Some d\<rparr>)"
  by (auto simp: copy_fill_buy_def)

text \<open>An evaluation outside \<^verbatim>\<open>OPEN\<close> changes nothing; inside it may record the boundary and latch an exit.\<close>

lemma evaluate_exit_Inr:
  assumes "evaluate_exit p price s = Inr (reason, s')"
  obtains (idle) "ct_status s \<noteq> OPEN" and "s' = s"
  | (kept) "ct_status s = OPEN" and "s' = s\<lparr>ct_last_evaluation_boundary := ordinal_of p\<rparr>"
  | (latched) r f where "ct_status s = OPEN" and "ct_exit_reason s = None" and "ct_buy_fill_position s = Some f"
      and "ordinal_of f \<le> ordinal_of p"
      and "s' = s\<lparr>ct_last_evaluation_boundary := ordinal_of p, ct_exit_reason := Some r,
        ct_trigger_position := Some p, ct_trigger_price := price\<rparr>"
proof (cases "ct_status s = OPEN")
  case False
  then have "s' = s" using assms by (simp add: evaluate_exit_def)
  with False show ?thesis by (rule idle)
next
  case True
  obtain f e d where f: "ct_buy_fill_position s = Some f" "ct_entry_price s = Some e" "ct_deadline s = Some d"
    using assms True by (auto simp: evaluate_exit_def split: option.splits)
  have order: "ordinal_of f \<le> ordinal_of p" "\<not> ordinal_of p < ct_last_evaluation_boundary s"
    using assms True f by (auto simp: evaluate_exit_def split: if_splits)
  let ?s = "s\<lparr>ct_last_evaluation_boundary := ordinal_of p\<rparr>"
  show ?thesis
  proof (cases "ct_exit_reason s")
    case (Some r)
    then have "s' = ?s" using assms True f order by (simp add: evaluate_exit_def)
    with True show ?thesis by (rule kept)
  next
    case None
    then obtain priced where "latch_exit p price d priced ?s = (reason, s')"
      using assms True f order by (auto simp: evaluate_exit_def Let_def)
    then have "s' = ?s \<or> (\<exists>r. s' = ?s\<lparr>ct_exit_reason := Some r, ct_trigger_position := Some p, ct_trigger_price := price\<rparr>)"
      by (auto simp: latch_exit_def Let_def split: option.splits if_splits)
    then show ?thesis
    proof
      assume "s' = ?s"
      with True show ?thesis by (rule kept)
    next
      assume "\<exists>r. s' = ?s\<lparr>ct_exit_reason := Some r, ct_trigger_position := Some p, ct_trigger_price := price\<rparr>"
      then obtain r where "s' = ?s\<lparr>ct_exit_reason := Some r, ct_trigger_position := Some p, ct_trigger_price := price\<rparr>" ..
      then show ?thesis by (rule latched[OF True None f(1) order(1)])
    qed
  qed
qed

lemma begin_sell_Inr:
  "copy_begin_sell clock p s = Inr (n, s') \<longleftrightarrow> (ct_status s = OPEN \<or> ct_status s = RETRY_WAIT)
     \<and> ct_exit_reason s \<noteq> None \<and> (\<exists>t l. ct_trigger_position s = Some t
         \<and> require_at_or_after p (case ct_retry_position s of Some r \<Rightarrow> r | None \<Rightarrow> t) = Inr ()
         \<and> ct_sell_attempt_count s < 4
         \<and> transaction_after clock p (cb_sell_delay_transactions (ct_policy s)) = Inr l
         \<and> n = ct_sell_attempt_count s + 1
         \<and> s' = s\<lparr>ct_status := SELL_PENDING, ct_sell_attempt_count := ct_sell_attempt_count s + 1,
             ct_attempt_decision := Some p, ct_attempt_landing := Some l, ct_retry_position := None\<rparr>)"
  by (auto simp: copy_begin_sell_def MAXIMUM_SELL_ATTEMPTS_def split: option.splits)

lemma fail_sell_Inr:
  "copy_fail_sell clock n p submitted s = Inr (retry, s') \<longleftrightarrow> require_attempt s n p submitted = Inr ()
     \<and> (ct_sell_attempt_count s = 4 \<and> retry = None \<and> s' = s\<lparr>ct_status := EXHAUSTED\<rparr>
        \<or> ct_sell_attempt_count s \<noteq> 4 \<and> (\<exists>r. holding_deadline clock p SELL_RETRY_DELAY_NS = Inr r
            \<and> retry = Some r \<and> s' = s\<lparr>ct_status := RETRY_WAIT, ct_retry_position := Some r\<rparr>))"
  by (auto simp: copy_fail_sell_def MAXIMUM_SELL_ATTEMPTS_def)

lemma fill_sell_Inr: "copy_fill_sell n p s = Inr s' \<longleftrightarrow> require_attempt s n p True = Inr ()
    \<and> s' = s\<lparr>ct_status := CLOSED\<rparr>"
  by (auto simp: copy_fill_sell_def)

lemmas control_results = fail_buy_Inr fill_buy_Inr begin_sell_Inr fail_sell_Inr fill_sell_Inr require_attempt_Inr

lemma TokenPrice_tokens: "TokenPrice q t = Inr e \<Longrightarrow> 0 < t"
  by (auto simp: TokenPrice_def Let_def)

lemma step_keeps_inv: "control_step clock s evaluates s' \<Longrightarrow> control_inv s \<Longrightarrow> control_inv s'"
proof (induction rule: control_step.induct)
  case (buy_failed s s')
  then show ?case by (auto simp: control_results control_inv_def fresh_def)
next
  case (buy_filled p curve_input tokens s s')
  then show ?case
    by (auto simp: control_results control_inv_def fresh_def entered_def TokenPrice_reduced dest: TokenPrice_tokens)
next
  case (exit_evaluated p price s reason s')
  from exit_evaluated(1) show ?case
    by (cases rule: evaluate_exit_Inr) (use exit_evaluated(2) in \<open>auto simp: control_inv_def entered_def\<close>)
next
  case (sell_begun p s n s')
  then show ?case
    by (auto simp: control_results control_inv_def entered_def selling_def)
next
  case (sell_failed n p submitted s retry s')
  then show ?case by (auto simp: control_results control_inv_def entered_def selling_def)
next
  case (sell_filled n p s s')
  then show ?case by (auto simp: control_results control_inv_def entered_def selling_def)
qed

section \<open>The bound on a life\<close>

fun status_rank :: "copy_position_status \<Rightarrow> int \<Rightarrow> int" where
  "status_rank BUY_PENDING n = 9"
| "status_rank OPEN n = 8"
| "status_rank SELL_PENDING n = 2 * (4 - n) + 1"
| "status_rank RETRY_WAIT n = 2 * (4 - n)"
| "status_rank _ n = 0"

lemma step_ranks:
  assumes "control_step clock s evaluates s'" and "control_inv s"
  shows "status_rank (ct_status s') (ct_sell_attempt_count s') + (if evaluates then 0 else 1)
    \<le> status_rank (ct_status s) (ct_sell_attempt_count s)"
  using assms
proof (induction rule: control_step.induct)
  case (exit_evaluated p price s reason s')
  from exit_evaluated(1) show ?case by (cases rule: evaluate_exit_Inr) auto
next
  case (sell_begun p s n s')
  then show ?case by (auto simp: control_results control_inv_def)
qed (auto simp: control_results control_inv_def)

text \<open>What a step keeps: the identity always, the entry once filled, the exit once latched.\<close>

definition keeps :: "copy_control \<Rightarrow> copy_control \<Rightarrow> bool" where
  "keeps s s' \<longleftrightarrow> ct_position_id s' = ct_position_id s \<and> ct_asset_id s' = ct_asset_id s
     \<and> ct_policy s' = ct_policy s \<and> ct_buy_decision_position s' = ct_buy_decision_position s
     \<and> ct_sell_attempt_count s \<le> ct_sell_attempt_count s'
     \<and> (ct_buy_fill_position s \<noteq> None \<longrightarrow> ct_buy_fill_position s' = ct_buy_fill_position s
          \<and> ct_acquired_tokens s' = ct_acquired_tokens s \<and> ct_entry_price s' = ct_entry_price s
          \<and> ct_deadline s' = ct_deadline s)
     \<and> (ct_exit_reason s \<noteq> None \<longrightarrow> ct_exit_reason s' = ct_exit_reason s
          \<and> ct_trigger_position s' = ct_trigger_position s \<and> ct_trigger_price s' = ct_trigger_price s)"

lemma control_step_keeps: "control_step clock s evaluates s' \<Longrightarrow> control_inv s \<Longrightarrow> keeps s s'"
proof (induction rule: control_step.induct)
  case (exit_evaluated p price s reason s')
  from exit_evaluated(1) show ?case by (cases rule: evaluate_exit_Inr) (auto simp: keeps_def)
qed (auto simp: control_results control_inv_def keeps_def fresh_def)

lemma keeps_trans: "keeps s s1 \<Longrightarrow> keeps s1 s2 \<Longrightarrow> keeps s s2"
  by (auto simp: keeps_def)

lemma path_facts:
  assumes "control_path clock s n s'" and "control_inv s"
  shows "control_inv s' \<and> keeps s s'
    \<and> status_rank (ct_status s') (ct_sell_attempt_count s') + int n \<le> status_rank (ct_status s) (ct_sell_attempt_count s)"
  using assms
proof (induction rule: control_path.induct)
  case path_start
  then show ?case by (simp add: keeps_def)
next
  case (path_step n s1 evaluates s2)
  then have "control_inv s1" and k: "keeps s s1" by auto
  note step = step_keeps_inv[OF path_step(2) this(1)] control_step_keeps[OF path_step(2) this(1)]
    step_ranks[OF path_step(2) this(1)]
  then show ?case using path_step keeps_trans[OF k] by (cases evaluates) auto
qed

lemma start_inv: "control_inv (CopyPositionControl position_id asset decision policy)"
  by (simp add: control_inv_def CopyPositionControl_def fresh_def)

lemma rank_nonneg: "control_inv s \<Longrightarrow> 0 \<le> status_rank (ct_status s) (ct_sell_attempt_count s)"
  by (cases "ct_status s") (auto simp: control_inv_def Let_def)

text \<open>C11: Whatever sequence of notifications and evaluations a copied position receives, its status changes
  at most nine times and it starts at most four sell attempts; it is given up only after all four. Its fill,
  its entry price and its holding deadline never change once set, and neither does a latched exit; the fill is
  strictly after the entry decision and the exit trigger never before the fill; until it is closed, the
  position holds exactly the tokens it acquired.\<close>

theorem copy_position_lifecycle:
  assumes "control_path clock (CopyPositionControl position_id asset decision policy) n s"
  shows "n \<le> 9 \<and> 0 \<le> ct_sell_attempt_count s \<and> ct_sell_attempt_count s \<le> 4
    \<and> (ct_status s = EXHAUSTED \<longrightarrow> ct_sell_attempt_count s = 4)
    \<and> (ct_status s \<in> {OPEN, SELL_PENDING, RETRY_WAIT, EXHAUSTED} \<longrightarrow> 0 < remaining_tokens s)
    \<and> (\<forall>f. ct_buy_fill_position s = Some f \<longrightarrow> ordinal_of decision < ordinal_of f
         \<and> (\<forall>t. ct_trigger_position s = Some t \<longrightarrow> ordinal_of f \<le> ordinal_of t))
    \<and> (\<forall>m s'. control_path clock s m s' \<longrightarrow> keeps s s' \<and> n + m \<le> 9)"
proof -
  note facts = path_facts[OF assms start_inv]
  then have inv: "control_inv s" and n: "n + status_rank (ct_status s) (ct_sell_attempt_count s) \<le> 9"
    and d: "ct_buy_decision_position s = decision"
    by (auto simp: CopyPositionControl_def keeps_def)
  have "0 \<le> ct_sell_attempt_count s" "ct_sell_attempt_count s \<le> 4"
    "ct_status s = EXHAUSTED \<longrightarrow> ct_sell_attempt_count s = 4"
    "ct_status s \<in> {OPEN, SELL_PENDING, RETRY_WAIT, EXHAUSTED} \<longrightarrow> 0 < remaining_tokens s"
    using inv by (cases "ct_status s"; auto simp: control_inv_def fresh_def selling_def entered_def remaining_tokens_def Let_def)+
  moreover have "\<forall>f. ct_buy_fill_position s = Some f \<longrightarrow> ordinal_of decision < ordinal_of f
      \<and> (\<forall>t. ct_trigger_position s = Some t \<longrightarrow> ordinal_of f \<le> ordinal_of t)"
    using inv d by (cases "ct_status s"; auto simp: control_inv_def fresh_def selling_def entered_def Let_def)
  moreover have "\<forall>m s'. control_path clock s m s' \<longrightarrow> keeps s s' \<and> n + m \<le> 9"
    using path_facts[OF _ inv] rank_nonneg n by fastforce
  moreover have "n \<le> 9" using n rank_nonneg[OF inv] by simp
  ultimately show ?thesis by (intro conjI)
qed

section \<open>Deadlines on the clock\<close>

lemma holding_deadline_ok:
  assumes inv: "clock_inv c" and run: "holding_deadline c p d = Inr q"
  obtains r i where "1 \<le> d" and "require_position c p = Inr r" and "require_position c q = Inr i" and "r < i"
    and "valid_position q" and "tc_times c ! r + d \<le> tc_times c ! i" and "cp_transaction_index q = 0"
    and "\<And>j. r < j \<Longrightarrow> j < i \<Longrightarrow> tc_counts c ! j = 0 \<or> tc_times c ! j < tc_times c ! r + d"
proof -
  obtain r where d: "1 \<le> d" and r: "require_position c p = Inr r"
    and first: "first_nonempty_transaction_at_or_after c p (tc_times c ! r + d) = Inr q"
    using run by (auto simp: holding_deadline_def block_time_for_position_def)
  obtain i where i: "r < i" "q = clock_position c (tc_blocks c ! i) 0" "valid_position q"
    "require_position c q = Inr i" "tc_times c ! r + d \<le> tc_times c ! i"
    "\<And>j. r < j \<Longrightarrow> j < i \<Longrightarrow> tc_counts c ! j = 0 \<or> tc_times c ! j < tc_times c ! r + d"
    using first_nonempty_ok[OF inv r first] by metis
  have "cp_transaction_index q = 0" by (simp add: i(2) clock_position_def)
  from that[OF d r i(4,1,3,5) this i(6)] show ?thesis .
qed

lemma row_index:
  assumes inv: "clock_inv c" and "require_position c p = Inr i"
  shows "global_transaction_index c p = Inr (tc_prefix c ! i + cp_transaction_index p)"
    and "i < length (tc_blocks c)" and "0 < tc_counts c ! i" and "0 \<le> cp_transaction_index p"
  using assms require_position_iff[OF inv, of p i] by (auto simp: global_transaction_index_def)

lemma prefix_at_most:
  assumes inv: "clock_inv c" and "i \<le> j" and "j < length (tc_blocks c)"
  shows "tc_prefix c ! i \<le> tc_prefix c ! j"
proof (cases "i = j")
  case False
  then have "tc_ends c ! i \<le> tc_prefix c ! j" using assms by (intro clock_ends_mono) auto
  moreover have "tc_prefix c ! i \<le> tc_ends c ! i" using assms by (auto simp: clock_inv_def Let_def)
  ultimately show ?thesis by simp
qed simp

lemma holding_deadline_later:
  assumes inv: "clock_inv c" and run: "holding_deadline c p d = Inr q"
  shows "clock_at_most c p q"
proof -
  obtain r i where r: "require_position c p = Inr r" and i: "require_position c q = Inr i" "r < i"
    using holding_deadline_ok[OF inv run] by metis
  have "tc_ends c ! r \<le> tc_prefix c ! i" using inv i row_index(2)[OF inv i(1)] by (intro clock_ends_mono) auto
  then show ?thesis
    using global_index_eq[OF inv r] global_index_eq[OF inv i(1)] by (auto simp: clock_at_most_def)
qed

text \<open>An earlier start has a deadline whenever a later one has, and not a later one.\<close>

lemma holding_deadline_mono:
  assumes inv: "clock_inv c" "clock_times_ok c" and before: "clock_at_most c p p'" and run: "holding_deadline c p' d = Inr q'"
  obtains q where "holding_deadline c p d = Inr q" and "clock_at_most c q q'" and "valid_position q"
proof -
  obtain r' i where d: "1 \<le> d" and r': "require_position c p' = Inr r'"
    and i: "require_position c q' = Inr i" "r' < i" "valid_position q'" "tc_times c ! r' + d \<le> tc_times c ! i"
    using holding_deadline_ok[OF inv(1) run] by metis
  obtain r where r: "require_position c p = Inr r"
    using before by (auto simp: clock_at_most_def global_transaction_index_def)
  have le: "r \<le> r'" by (rule row_at_most[OF inv(1) before r r'])
  have len: "i < length (tc_blocks c)" "0 < tc_counts c ! i" using row_index[OF inv(1) i(1)] by auto
  have times: "tc_times c ! r \<le> tc_times c ! r'" "0 \<le> tc_times c ! r"
    using inv le i(2) len(1) by (auto simp: clock_inv_def clock_times_ok_def list_all_length Let_def intro!: sorted_nth_mono)
  then have "\<exists>q. first_nonempty_transaction_at_or_after c p (tc_times c ! r + d) = Inr q"
    using d le i len by (intro first_nonempty_exists[OF inv(1) r _ _ _ _ _ i(3,1)]) auto
  then obtain q where q: "holding_deadline c p d = Inr q"
    using r d by (auto simp: holding_deadline_def block_time_for_position_def)
  obtain s j where s: "require_position c p = Inr s" and j: "require_position c q = Inr j" "valid_position q"
    "cp_transaction_index q = 0"
    and passed: "\<And>k. s < k \<Longrightarrow> k < j \<Longrightarrow> tc_counts c ! k = 0 \<or> tc_times c ! k < tc_times c ! s + d"
    using holding_deadline_ok[OF inv(1) q] by metis
  have "s = r" using r s by simp
  then have "j \<le> i" using passed[of i] le i(2,4) len times(1) by fastforce
  then have "tc_prefix c ! j \<le> tc_prefix c ! i" by (rule prefix_at_most[OF inv(1) _ len(1)])
  then have "clock_at_most c q q'"
    using row_index[OF inv(1) j(1)] row_index[OF inv(1) i(1)] j(3) by (auto simp: clock_at_most_def)
  with q j(2) show ?thesis using that by blast
qed

lemma transaction_after_later: "clock_inv c \<Longrightarrow> transaction_after c p d = Inr q \<Longrightarrow> clock_at_most c p q"
  by (erule (1) transaction_after_ok) (auto simp: clock_at_most_def)

lemma settlement_attempts_mono:
  assumes inv: "clock_inv c" "clock_times_ok c"
  shows "settlement_attempts c delay n p' = Inr q' \<Longrightarrow> clock_at_most c p p' \<Longrightarrow>
    \<exists>q. settlement_attempts c delay n p = Inr q \<and> clock_at_most c q q'"
proof (induction n arbitrary: p p')
  case (Suc n)
  show ?case
  proof (cases n)
    case 0
    then have "transaction_after c p' delay = Inr q'" using Suc.prems by simp
    from transaction_after_mono[OF inv(1) Suc.prems(2) this] show ?thesis using 0 by auto
  next
    case (Suc k)
    obtain l' r' where l': "transaction_after c p' delay = Inr l'" and r': "holding_deadline c l' SELL_RETRY_DELAY_NS = Inr r'"
      and rest: "settlement_attempts c delay n r' = Inr q'"
      using Suc.prems(1) Suc by auto
    obtain l where l: "transaction_after c p delay = Inr l" "clock_at_most c l l'"
      using transaction_after_mono[OF inv(1) Suc.prems(2) l'] by metis
    obtain r where r: "holding_deadline c l SELL_RETRY_DELAY_NS = Inr r" "clock_at_most c r r'"
      using holding_deadline_mono[OF inv l(2) r'] by metis
    show ?thesis using Suc.IH[OF rest r(2)] l(1) r(1) Suc by simp
  qed
qed auto

section \<open>Timely paths\<close>

text \<open>
  The replay begins the first sell at a boundary not after the holding deadline, and every later one exactly
  at its retry position. What is left of the horizon is the number of attempts still open.
\<close>

definition exit_due :: "transaction_clock \<Rightarrow> copy_control \<Rightarrow> chain_position \<Rightarrow> bool" where
  "exit_due clock s p \<longleftrightarrow> valid_position p \<and> (case ct_retry_position s of
     Some r \<Rightarrow> p = r | None \<Rightarrow> \<exists>d. ct_deadline s = Some d \<and> clock_at_most clock p d)"

inductive timely_path :: "transaction_clock \<Rightarrow> copy_control \<Rightarrow> copy_control \<Rightarrow> bool" for clock s where
  timely_start: "timely_path clock s s"
| timely_failed_buy: "timely_path clock s s1 \<Longrightarrow> fail_buy s1 = Inr s2 \<Longrightarrow> timely_path clock s s2"
| timely_filled_buy: "timely_path clock s s1 \<Longrightarrow> copy_fill_buy clock p curve_input tokens s1 = Inr s2
    \<Longrightarrow> valid_position p \<Longrightarrow> timely_path clock s s2"
| timely_evaluation: "timely_path clock s s1 \<Longrightarrow> evaluate_exit p price s1 = Inr (reason, s2) \<Longrightarrow> timely_path clock s s2"
| timely_sell: "timely_path clock s s1 \<Longrightarrow> copy_begin_sell clock p s1 = Inr (n, s2) \<Longrightarrow> exit_due clock s1 p
    \<Longrightarrow> timely_path clock s s2"
| timely_failed_sell: "timely_path clock s s1 \<Longrightarrow> copy_fail_sell clock n p submitted s1 = Inr (retry, s2)
    \<Longrightarrow> valid_position p \<Longrightarrow> timely_path clock s s2"
| timely_filled_sell: "timely_path clock s s1 \<Longrightarrow> copy_fill_sell n p s1 = Inr s2 \<Longrightarrow> timely_path clock s s2"

lemma timely_steps: "timely_path clock s s' \<Longrightarrow> \<exists>n. control_path clock s n s'"
proof (induction rule: timely_path.induct)
  case timely_start
  then show ?case using path_start by blast
next
  case (timely_evaluation s1 p price reason s2)
  then show ?case using path_step[OF _ exit_evaluated] by blast
qed (blast intro: path_step control_step.intros)+

definition path_covered :: "transaction_clock \<Rightarrow> int \<Rightarrow> nat \<Rightarrow> chain_position \<Rightarrow> chain_position \<Rightarrow> bool" where
  "path_covered c delay n p m \<longleftrightarrow> (\<exists>q. settlement_attempts c delay n p = Inr q \<and> clock_at_most c q m)"

definition landing_covered :: "transaction_clock \<Rightarrow> int \<Rightarrow> nat \<Rightarrow> chain_position \<Rightarrow> chain_position \<Rightarrow> bool" where
  "landing_covered c delay n l m \<longleftrightarrow>
     (if n = 0 then clock_at_most c l m
      else \<exists>r. holding_deadline c l SELL_RETRY_DELAY_NS = Inr r \<and> path_covered c delay n r m)"

lemma path_covered_Suc:
  "path_covered c delay (Suc n) p m \<longleftrightarrow> (\<exists>l. transaction_after c p delay = Inr l \<and> landing_covered c delay n l m)"
  by (cases n) (auto simp: path_covered_def landing_covered_def)

lemma path_covered_earlier:
  assumes "clock_inv c" and "clock_times_ok c" and "path_covered c delay n p' m" and "clock_at_most c p p'"
  shows "path_covered c delay n p m"
  using settlement_attempts_mono[OF assms(1,2) _ assms(4)] assms(3) clock_at_most_trans
  by (fastforce simp: path_covered_def)

lemma landing_covered_at_most:
  assumes inv: "clock_inv c"
  shows "landing_covered c delay n l m \<Longrightarrow> clock_at_most c l m"
proof (induction n arbitrary: l)
  case 0
  then show ?case by (simp add: landing_covered_def)
next
  case (Suc n)
  then obtain r l' where r: "holding_deadline c l SELL_RETRY_DELAY_NS = Inr r"
    and l': "transaction_after c r delay = Inr l'" "landing_covered c delay n l' m"
    by (auto simp: landing_covered_def path_covered_Suc)
  have "clock_at_most c l r" by (rule holding_deadline_later[OF inv r])
  also have "clock_at_most c r l'" by (rule transaction_after_later[OF inv l'(1)])
  also have "clock_at_most c l' m" by (rule Suc.IH[OF l'(2)])
  finally show ?case .
qed

lemma landing_covered_earlier:
  assumes inv: "clock_inv c" "clock_times_ok c" and l: "landing_covered c delay n l m" and p: "clock_at_most c p l"
  shows "landing_covered c delay n p m"
proof (cases n)
  case 0
  then show ?thesis using l p clock_at_most_trans by (auto simp: landing_covered_def)
next
  case (Suc k)
  then obtain r where r: "holding_deadline c l SELL_RETRY_DELAY_NS = Inr r" "path_covered c delay n r m"
    using l by (auto simp: landing_covered_def)
  obtain r' where r': "holding_deadline c p SELL_RETRY_DELAY_NS = Inr r'" "clock_at_most c r' r"
    using holding_deadline_mono[OF inv p r(1)] by metis
  show ?thesis using path_covered_earlier[OF inv r(2) r'(2)] r'(1) Suc by (simp add: landing_covered_def)
qed

lemma same_boundary_deadline:
  assumes "valid_position p" and "valid_position q" and "ordinal_of p = ordinal_of q"
    and "cp_network_id p = cp_network_id q" and "cp_position_schema_id p = cp_position_schema_id q"
  shows "holding_deadline c p d = holding_deadline c q d"
  using same_boundary(1)[OF assms]
  by (simp add: holding_deadline_def block_time_for_position_def first_nonempty_transaction_at_or_after_def)

text \<open>The part of the horizon that a state still needs.\<close>

definition timely_inv :: "transaction_clock \<Rightarrow> chain_position \<Rightarrow> copy_control \<Rightarrow> bool" where
  "timely_inv c m s \<longleftrightarrow>
     (let delay = cb_sell_delay_transactions (ct_policy s); left = nat (4 - ct_sell_attempt_count s) in
      control_inv s \<and> (case ct_status s of
        BUY_PENDING \<Rightarrow> \<exists>b d. transaction_after c (ct_buy_decision_position s) (cb_buy_delay_transactions (ct_policy s)) = Inr b
          \<and> holding_deadline c b (maximum_hold_ns (ct_policy s)) = Inr d \<and> path_covered c delay 4 d m
      | OPEN \<Rightarrow> \<exists>d. ct_deadline s = Some d \<and> path_covered c delay 4 d m
      | SELL_PENDING \<Rightarrow> \<exists>a l. ct_attempt_decision s = Some a \<and> ct_attempt_landing s = Some l \<and> clock_at_most c a l
          \<and> valid_position l \<and> landing_covered c delay left l m
      | RETRY_WAIT \<Rightarrow> \<exists>r. ct_retry_position s = Some r \<and> path_covered c delay left r m
      | _ \<Rightarrow> True))"

lemma landing_chain:
  assumes inv: "clock_inv c" and "clock_at_most c a l" and "require_later p a = Inr ()"
  shows "cp_network_id p = cp_network_id l \<and> cp_position_schema_id p = cp_position_schema_id l"
proof -
  have "clock_at_most c l l" using assms(2) clock_at_most_self by blast
  from clock_at_most_chain[OF inv this] clock_at_most_chain[OF inv assms(2)] show ?thesis
    using assms(3) by simp
qed

text \<open>At its exact boundary an entry opens, and its deadline is the one the horizon was computed with.\<close>

lemma timely_fill_deadline:
  assumes inv: "clock_inv c" and x: "transaction_after c decision delay = Inr x"
    and "valid_position p" and "require_later p decision = Inr ()" and "ordinal_of p = ordinal_of x"
  shows "holding_deadline c p d = holding_deadline c x d"
proof -
  have "valid_position x" using transaction_after_ok[OF inv x] by metis
  moreover note landing_chain[OF inv transaction_after_later[OF inv x] assms(4)]
  ultimately show ?thesis using assms(3,5) by (intro same_boundary_deadline) auto
qed

lemma timely_landing_covered:
  assumes inv: "clock_inv c" "clock_times_ok c" and s: "timely_inv c m s"
    and "require_attempt s n p submitted = Inr ()" and "valid_position p"
  shows "landing_covered c (cb_sell_delay_transactions (ct_policy s)) (nat (4 - ct_sell_attempt_count s)) p m"
proof -
  let ?left = "nat (4 - ct_sell_attempt_count s)" and ?delay = "cb_sell_delay_transactions (ct_policy s)"
  obtain a where a: "ct_status s = SELL_PENDING" "ct_attempt_decision s = Some a"
    and p: "if submitted then require_later p a = Inr () \<and> (\<exists>l. ct_attempt_landing s = Some l \<and> ordinal_of p = ordinal_of l)
      else p = a"
    using assms(4) by (auto simp: require_attempt_Inr)
  obtain l where l: "ct_attempt_landing s = Some l" "clock_at_most c a l" "valid_position l"
    "landing_covered c ?delay ?left l m"
    using s by (simp add: timely_inv_def a Let_def) blast
  have "clock_at_most c p l"
  proof (cases submitted)
    case True
    then have o: "ordinal_of p = ordinal_of l" and later: "require_later p a = Inr ()" using p unfolding l(1) by simp_all
    note chain = landing_chain[OF inv(1) l(2) later]
    have "global_transaction_index c p = global_transaction_index c l"
      by (rule same_boundary(2)[OF assms(5) l(3) o chain[THEN conjunct1] chain[THEN conjunct2]])
    moreover have "clock_at_most c l l" using l(2) clock_at_most_self by blast
    ultimately show ?thesis by (simp add: clock_at_most_def)
  next
    case False
    then show ?thesis using p l(2) by simp
  qed
  then show ?thesis by (rule landing_covered_earlier[OF inv l(4)])
qed

lemma timely_start_covered:
  assumes inv: "clock_inv c" "clock_times_ok c" and s: "timely_inv c m s" and due: "exit_due c s p"
    and status: "ct_status s = OPEN \<or> ct_status s = RETRY_WAIT"
  shows "path_covered c (cb_sell_delay_transactions (ct_policy s)) (nat (4 - ct_sell_attempt_count s)) p m
    \<and> ct_sell_attempt_count s < 4"
proof (cases "ct_status s = OPEN")
  case True
  then have first: "ct_sell_attempt_count s = 0" "ct_retry_position s = None"
    using s by (auto simp: timely_inv_def control_inv_def Let_def)
  obtain d where d: "ct_deadline s = Some d" "path_covered c (cb_sell_delay_transactions (ct_policy s)) 4 d m"
    using s True by (auto simp: timely_inv_def Let_def)
  then have "clock_at_most c p d" using due first by (auto simp: exit_due_def)
  then show ?thesis using path_covered_earlier[OF inv d(2)] first by simp
next
  case False
  then have "ct_status s = RETRY_WAIT" using status by simp
  then show ?thesis using s due by (auto simp: timely_inv_def control_inv_def exit_due_def Let_def)
qed

lemma timely_inv_step:
  assumes inv: "clock_inv c" "clock_times_ok c" and path: "timely_path c s0 s" and start: "timely_inv c m s0"
  shows "timely_inv c m s"
  using path
proof (induction rule: timely_path.induct)
  case timely_start
  then show ?case by (rule start)
next
  case (timely_failed_buy s1 s2)
  then show ?case by (auto simp: control_results timely_inv_def control_inv_def fresh_def)
next
  case (timely_filled_buy s1 p curve_input tokens s2)
  have ci: "control_inv s2"
    using step_keeps_inv[OF buy_filled[OF timely_filled_buy(2)]] timely_filled_buy(4) by (simp add: timely_inv_def Let_def)
  from timely_filled_buy(2) obtain x d where st: "ct_status s1 = BUY_PENDING"
    and x: "transaction_after c (ct_buy_decision_position s1) (cb_buy_delay_transactions (ct_policy s1)) = Inr x"
    and p: "require_later p (ct_buy_decision_position s1) = Inr ()" "ordinal_of p = ordinal_of x"
    and d: "holding_deadline c p (maximum_hold_ns (ct_policy s1)) = Inr d"
    and s2: "ct_status s2 = OPEN" "ct_deadline s2 = Some d" "ct_policy s2 = ct_policy s1"
    by (auto simp: control_results)
  have "holding_deadline c x (maximum_hold_ns (ct_policy s1)) = Inr d"
    using timely_fill_deadline[OF inv(1) x timely_filled_buy(3) p] d by simp
  then have "path_covered c (cb_sell_delay_transactions (ct_policy s1)) 4 d m"
    using timely_filled_buy(4) st x by (auto simp: timely_inv_def Let_def)
  then show ?case using ci s2 by (simp add: timely_inv_def Let_def)
next
  case (timely_evaluation s1 p price reason s2)
  have ci: "control_inv s2"
    using step_keeps_inv[OF exit_evaluated[OF timely_evaluation(2)]] timely_evaluation(3) by (simp add: timely_inv_def Let_def)
  from timely_evaluation(2) show ?case
    by (cases rule: evaluate_exit_Inr) (use ci timely_evaluation(3) in \<open>auto simp: timely_inv_def Let_def\<close>)
next
  case (timely_sell s1 p n s2)
  have ci: "control_inv s2"
    using step_keeps_inv[OF sell_begun[OF timely_sell(2)]] timely_sell(4) by (simp add: timely_inv_def Let_def)
  from timely_sell(2) obtain l where st: "ct_status s1 = OPEN \<or> ct_status s1 = RETRY_WAIT"
    and l: "transaction_after c p (cb_sell_delay_transactions (ct_policy s1)) = Inr l"
    and s2: "ct_status s2 = SELL_PENDING" "ct_policy s2 = ct_policy s1" "ct_attempt_decision s2 = Some p"
      "ct_attempt_landing s2 = Some l" "ct_sell_attempt_count s2 = ct_sell_attempt_count s1 + 1"
    by (auto simp: control_results)
  note covered = timely_start_covered[OF inv timely_sell(4,3) st]
  then have "nat (4 - ct_sell_attempt_count s1) = Suc (nat (4 - ct_sell_attempt_count s2))"
    unfolding s2(5) by arith
  then have "landing_covered c (cb_sell_delay_transactions (ct_policy s1)) (nat (4 - ct_sell_attempt_count s2)) l m"
    using covered l by (auto simp: path_covered_Suc)
  then show ?case
    using ci s2 transaction_after_later[OF inv(1) l] transaction_after_ok[OF inv(1) l] by (auto simp: timely_inv_def Let_def)
next
  case (timely_failed_sell s1 n p submitted retry s2)
  have ci: "control_inv s2"
    using step_keeps_inv[OF sell_failed[OF timely_failed_sell(2)]] timely_failed_sell(4) by (simp add: timely_inv_def Let_def)
  from timely_failed_sell(2) have attempt: "require_attempt s1 n p submitted = Inr ()" by (simp add: fail_sell_Inr)
  note covered = timely_landing_covered[OF inv timely_failed_sell(4) attempt timely_failed_sell(3)]
  from timely_failed_sell(2) consider "ct_status s2 = EXHAUSTED"
    | r where "ct_sell_attempt_count s1 \<noteq> 4" "holding_deadline c p SELL_RETRY_DELAY_NS = Inr r"
      "ct_status s2 = RETRY_WAIT" "ct_retry_position s2 = Some r" "ct_policy s2 = ct_policy s1"
      "ct_sell_attempt_count s2 = ct_sell_attempt_count s1"
    by (auto simp: fail_sell_Inr)
  then show ?case
  proof cases
    case 1
    then show ?thesis using ci by (simp add: timely_inv_def Let_def)
  next
    case 2
    have "nat (4 - ct_sell_attempt_count s1) \<noteq> 0" using ci 2 by (auto simp: control_inv_def Let_def)
    then show ?thesis using ci 2 covered by (auto simp: timely_inv_def landing_covered_def Let_def)
  qed
next
  case (timely_filled_sell s1 n p s2)
  have "control_inv s2"
    using step_keeps_inv[OF sell_filled[OF timely_filled_sell(2)]] timely_filled_sell(3) by (simp add: timely_inv_def Let_def)
  then show ?case using timely_filled_sell by (auto simp: fill_sell_Inr timely_inv_def Let_def)
qed

lemma horizon_start:
  assumes inv: "clock_inv c" and m: "maximum_settlement_position c signal policy = Inr m"
    and d: "observation_decision c signal (cb_observation_delay_transactions policy) = Inr decision"
  shows "timely_inv c m (CopyPositionControl position_id asset decision policy) \<and> valid_position m"
proof -
  obtain b d where b: "transaction_after c decision (cb_buy_delay_transactions policy) = Inr b"
    and d: "holding_deadline c b (maximum_hold_ns policy) = Inr d"
    and q: "settlement_attempts c (cb_sell_delay_transactions policy) 4 d = Inr m"
    using m assms(3)
    by (auto simp: maximum_settlement_position_def maximum_copy_settlement_position_def MAXIMUM_SELL_ATTEMPTS_def)
  have from_last: "\<exists>p. transaction_after c p (cb_sell_delay_transactions policy) = Inr m"
    using q by (auto simp: numeral_eq_Suc)
  then have "valid_position m" "clock_at_most c m m"
    using from_last transaction_after_ok[OF inv] transaction_after_later[OF inv] clock_at_most_self by metis+
  then have "path_covered c (cb_sell_delay_transactions policy) 4 d m" using q by (auto simp: path_covered_def)
  then show ?thesis
    using b d start_inv[of position_id asset decision policy] \<open>valid_position m\<close>
    by (simp add: timely_inv_def CopyPositionControl_def Let_def)
qed

lemma covered_ordinal:
  assumes "clock_inv c" and "landing_covered c delay n l m" and "valid_position l" and "valid_position m"
  shows "ordinal_of l \<le> ordinal_of m"
  by (rule clock_at_most_ordinal[OF assms(1) landing_covered_at_most[OF assms(1,2)] assms(3,4)])

lemma timely_fail_returns:
  assumes inv: "clock_inv c" "clock_times_ok c" and s: "timely_inv c m s"
    and attempt: "require_attempt s n p submitted = Inr ()" and "valid_position p"
  shows "\<exists>r s'. copy_fail_sell c n p submitted s = Inr (r, s')"
proof (cases "ct_sell_attempt_count s = 4")
  case True
  then show ?thesis using attempt by (simp add: fail_sell_Inr)
next
  case False
  have "ct_sell_attempt_count s \<le> 4"
    using s attempt by (auto simp: timely_inv_def control_inv_def require_attempt_Inr Let_def)
  with False have "nat (4 - ct_sell_attempt_count s) \<noteq> 0" by simp
  then show ?thesis
    using timely_landing_covered[OF inv s attempt assms(5)] attempt False
    by (auto simp: landing_covered_def fail_sell_Inr)
qed

lemma timely_begin_returns:
  assumes inv: "clock_inv c" "clock_times_ok c" and s: "timely_inv c m s" and due: "exit_due c s p"
    and status: "ct_status s = OPEN \<or> ct_status s = RETRY_WAIT" and t: "ct_trigger_position s = Some t"
    and causal: "require_at_or_after p (case ct_retry_position s of Some r \<Rightarrow> r | None \<Rightarrow> t) = Inr ()"
  shows "\<exists>n s'. copy_begin_sell c p s = Inr (n, s')"
proof -
  note covered = timely_start_covered[OF inv s due status]
  have "nat (4 - ct_sell_attempt_count s) = Suc (nat (3 - ct_sell_attempt_count s))" using covered by arith
  then obtain l where "transaction_after c p (cb_sell_delay_transactions (ct_policy s)) = Inr l"
    using covered by (auto simp: path_covered_Suc)
  moreover have "ct_exit_reason s \<noteq> None"
    using s status t by (auto simp: timely_inv_def control_inv_def selling_def entered_def Let_def)
  ultimately show ?thesis using status t causal covered by (auto simp: begin_sell_Inr)
qed

text \<open>C12: Once the settlement horizon of a signal has been computed, no lookup of the clock can fail on any
  timely path of the position, however many attempts fail and whatever the market does: every entry at its
  exact boundary opens, every due sell begins, every failure is retried or gives up, and every pending
  instruction lands at or before the horizon.\<close>

theorem copy_settlement_horizon:
  assumes clock: "CompactTransactionClock network schema blocks counts prefix block_times = Inr c"
    and m: "maximum_settlement_position c signal policy = Inr m"
    and "observation_decision c signal (cb_observation_delay_transactions policy) = Inr decision"
    and path: "timely_path c (CopyPositionControl position_id asset decision policy) s"
  shows "(\<forall>l. ct_status s = SELL_PENDING \<and> ct_attempt_landing s = Some l \<longrightarrow> ordinal_of l \<le> ordinal_of m)
    \<and> (\<forall>n p submitted. require_attempt s n p submitted = Inr () \<and> valid_position p
        \<longrightarrow> (\<exists>r s'. copy_fail_sell c n p submitted s = Inr (r, s')))
    \<and> (\<forall>p t. (ct_status s = OPEN \<or> ct_status s = RETRY_WAIT) \<and> exit_due c s p \<and> ct_trigger_position s = Some t
        \<and> require_at_or_after p (case ct_retry_position s of Some r \<Rightarrow> r | None \<Rightarrow> t) = Inr ()
        \<longrightarrow> (\<exists>n s'. copy_begin_sell c p s = Inr (n, s')))
    \<and> (ct_status s = BUY_PENDING \<longrightarrow>
        (\<exists>b. transaction_after c decision (cb_buy_delay_transactions policy) = Inr b
         \<and> (\<forall>p curve_input tokens. valid_position p \<and> require_later p decision = Inr () \<and> ordinal_of p = ordinal_of b
              \<and> 1 \<le> curve_input \<and> 1 \<le> tokens \<longrightarrow> (\<exists>s'. copy_fill_buy c p curve_input tokens s = Inr s'))))"
proof -
  have inv: "clock_inv c" "clock_times_ok c"
    using CompactTransactionClock_inv[OF clock] CompactTransactionClock_times[OF clock] .
  note start = horizon_start[OF inv(1) m assms(3), of position_id asset]
  have s: "timely_inv c m s" by (rule timely_inv_step[OF inv path start[THEN conjunct1]])
  have kept: "ct_policy s = policy" "ct_buy_decision_position s = decision"
    using path_facts[OF _ start_inv] timely_steps[OF path]
    by (auto simp: keeps_def CopyPositionControl_def)
  have 1: "ordinal_of l \<le> ordinal_of m" if "ct_status s = SELL_PENDING" "ct_attempt_landing s = Some l" for l
    using s that covered_ordinal[OF inv(1) _ _ start[THEN conjunct2]] by (auto simp: timely_inv_def Let_def)
  have 2: "\<exists>s'. copy_fill_buy c p curve_input tokens s = Inr s'"
    if st: "ct_status s = BUY_PENDING" and b: "transaction_after c decision (cb_buy_delay_transactions policy) = Inr b"
      and p: "valid_position p" "require_later p decision = Inr ()" "ordinal_of p = ordinal_of b"
      and pos: "1 \<le> curve_input" "1 \<le> tokens" for b p curve_input tokens
  proof -
    obtain d where "holding_deadline c b (maximum_hold_ns policy) = Inr d"
      using s st b kept by (auto simp: timely_inv_def Let_def)
    then have "holding_deadline c p (maximum_hold_ns policy) = Inr d"
      using timely_fill_deadline[OF inv(1) b p] by simp
    then show ?thesis
      using st b p pos kept by (simp add: fill_buy_Inr TokenPrice_def Let_def)
  qed
  have 3: "\<exists>b. transaction_after c decision (cb_buy_delay_transactions policy) = Inr b" if "ct_status s = BUY_PENDING"
    using s that kept by (auto simp: timely_inv_def Let_def)
  show ?thesis
    using 1 2 3 timely_fail_returns[OF inv s] timely_begin_returns[OF inv s] by (intro conjI) blast+
qed

section \<open>A sample clock\<close>

definition horizon_clock :: transaction_clock where
  "horizon_clock = \<lparr>tc_network_id = ''n'', tc_position_schema_id = BLOCK32_TRANSACTION32_POSITION_SCHEMA_ID,
     tc_blocks = [1, 2, 3, 4, 5], tc_counts = [2, 2, 2, 2, 2], tc_prefix = [0, 2, 4, 6, 8],
     tc_times = [0, 2000000000, 4000000000, 6000000000, 8000000000], tc_ends = [2, 4, 6, 8, 10]\<rparr>"

lemma horizon_clock_made:
  "CompactTransactionClock ''n'' BLOCK32_TRANSACTION32_POSITION_SCHEMA_ID [1, 2, 3, 4, 5] [2, 2, 2, 2, 2]
     [0, 2, 4, 6, 8] [0, 2000000000, 4000000000, 6000000000, 8000000000] = Inr horizon_clock"
  by (simp add: CompactTransactionClock_def clock_prefix_step_def horizon_clock_def UINT32_MAX_def
      UINT64_MAX_def NANOSECONDS_PER_SECOND_def)

lemmas clock_evaluation = global_transaction_index_def require_position_def bisect_left_def bisect_left_loop_cases
  bisect_right_def bisect_right_loop_cases Let_def ChainPosition_iff total_transaction_count_def

lemma horizon_rows:
  "b \<in> {1, 2, 3, 4, 5} \<Longrightarrow> t \<in> {0, 1} \<Longrightarrow> require_position horizon_clock (sample_position b t) = Inr (nat (b - 1))"
  by (auto simp: require_position_def horizon_clock_def sample_position_def bisect_left_def bisect_left_loop_cases Let_def)

lemma horizon_after:
  "b \<in> {1, 2, 3, 4, 5} \<Longrightarrow> transaction_after horizon_clock (sample_position b 0) 1 = Inr (sample_position b 1)"
  by (auto simp: transaction_after_def horizon_clock_def sample_position_def clock_evaluation)

lemma horizon_stop: "skip_empty_blocks horizon_clock target i = i" if "i < 5"
proof -
  have "i \<in> {0, 1, 2, 3, 4}" using that by auto
  then have "tc_counts horizon_clock ! i = 2" by (auto simp: horizon_clock_def)
  then show ?thesis by (subst skip_empty_blocks.simps) simp
qed

lemma horizon_deadline:
  assumes "b \<in> {1, 2, 3, 4}" and "0 < d" and "d \<le> 2000000000"
  shows "holding_deadline horizon_clock (sample_position b 1) d = Inr (sample_position (b + 1) 0)"
proof -
  have s: "bisect_left (tc_times horizon_clock) (tc_times horizon_clock ! nat (b - 1) + d) (nat (b - 1) + 1) = nat b"
    using assms by (auto simp: horizon_clock_def bisect_left_def bisect_left_loop_cases)
  have t: "0 \<le> tc_times horizon_clock ! nat (b - 1)" "nat b < 5" "tc_blocks horizon_clock ! nat b = b + 1"
    using assms(1) by (auto simp: horizon_clock_def)
  have "valid_position (clock_position horizon_clock (b + 1) 0)"
    using assms(1) by (auto simp: clock_position_def horizon_clock_def valid_position_iff)
  moreover have "require_position horizon_clock (sample_position b 1) = Inr (nat (b - 1))"
    using assms(1) by (intro horizon_rows) auto
  moreover have "length (tc_blocks horizon_clock) = 5" by (simp add: horizon_clock_def)
  ultimately have "holding_deadline horizon_clock (sample_position b 1) d = Inr (clock_position horizon_clock (b + 1) 0)"
    using t s assms(2) unfolding holding_deadline_def block_time_for_position_def first_nonempty_transaction_at_or_after_def
    by (simp only: require_integer_Inr bindE_Inr horizon_stop ChainPosition_clock Let_def require_integer_def raise_if_def)
       (simp add: ChainPosition_clock)
  then show ?thesis by (simp add: clock_position_def sample_position_def horizon_clock_def)
qed

definition horizon_policy :: copy_policy where
  "horizon_policy = sample_policy\<lparr>cb_maximum_hold_seconds := 1, cb_observation_delay_transactions := 0\<rparr>"

lemma horizon_policy_fields:
  "cb_observation_delay_transactions horizon_policy = 0" "cb_buy_delay_transactions horizon_policy = 1"
  "cb_sell_delay_transactions horizon_policy = 1" "maximum_hold_ns horizon_policy = 1000000000"
  by (simp_all add: horizon_policy_def sample_policy_def maximum_hold_ns_def COPY_NANOSECONDS_PER_SECOND_def)

lemma horizon_maximum:
  "maximum_settlement_position horizon_clock (sample_position 1 0) horizon_policy = Inr (sample_position 5 1)"
proof -
  have four: "nat MAXIMUM_SELL_ATTEMPTS = Suc (Suc (Suc (Suc 0)))" by (simp add: MAXIMUM_SELL_ATTEMPTS_def)
  have path: "settlement_attempts horizon_clock 1 (nat MAXIMUM_SELL_ATTEMPTS) (sample_position 2 0) = Inr (sample_position 5 1)"
    unfolding four by (simp add: horizon_after horizon_deadline SELL_RETRY_DELAY_NS_def)
  show ?thesis
    unfolding maximum_settlement_position_def maximum_copy_settlement_position_def horizon_policy_fields observation_decision_def
    using path by (simp add: horizon_rows horizon_after horizon_deadline require_integer_def)
qed

definition horizon_control :: copy_control where
  "horizon_control = CopyPositionControl ''position'' ''mint'' (sample_position 1 0) horizon_policy"

lemma horizon_ordinals:
  "b \<in> {1, 2, 3, 4, 5} \<Longrightarrow> t \<in> {0, 1} \<Longrightarrow> ordinal_of (sample_position b t) = b * 4294967296 + t + 1"
  using ordinal_of_eq[OF sample_position_valid[of b t]] by (auto simp: sample_position_def)

lemma horizon_chain: "cp_network_id (sample_position b t) = ''n''"
  "cp_position_schema_id (sample_position b t) = BLOCK32_TRANSACTION32_POSITION_SCHEMA_ID"
  by (simp_all add: sample_position_def)

definition horizon_open :: copy_control where
  "horizon_open = horizon_control\<lparr>ct_status := OPEN, ct_acquired_tokens := 5,
     ct_entry_price := Some \<lparr>tp_quote_atomic = 20, tp_token_atomic = 1\<rparr>,
     ct_buy_fill_position := Some (sample_position 1 1), ct_deadline := Some (sample_position 2 0)\<rparr>"

definition horizon_triggered :: copy_control where
  "horizon_triggered = horizon_open\<lparr>ct_last_evaluation_boundary := ordinal_of (sample_position 2 0),
     ct_exit_reason := Some MAXIMUM_HOLD, ct_trigger_position := Some (sample_position 2 0), ct_trigger_price := None\<rparr>"

definition horizon_selling :: copy_control where
  "horizon_selling = horizon_triggered\<lparr>ct_status := SELL_PENDING, ct_sell_attempt_count := 1,
     ct_attempt_decision := Some (sample_position 2 0), ct_attempt_landing := Some (sample_position 2 1),
     ct_retry_position := None\<rparr>"

definition horizon_waiting :: copy_control where
  "horizon_waiting = horizon_selling\<lparr>ct_status := RETRY_WAIT, ct_retry_position := Some (sample_position 3 0)\<rparr>"

lemmas horizon_states = horizon_control_def horizon_open_def horizon_triggered_def horizon_selling_def
  horizon_waiting_def CopyPositionControl_def horizon_policy_fields horizon_chain horizon_ordinals

lemma horizon_steps:
  "copy_fill_buy horizon_clock (sample_position 1 1) 100 5 horizon_control = Inr horizon_open"
  "evaluate_exit (sample_position 2 0) None horizon_open = Inr (Some MAXIMUM_HOLD, horizon_triggered)"
  "copy_begin_sell horizon_clock (sample_position 2 0) horizon_triggered = Inr (1, horizon_selling)"
  "copy_fail_sell horizon_clock 1 (sample_position 2 1) True horizon_selling = Inr (Some (sample_position 3 0), horizon_waiting)"
proof -
  have "TokenPrice 100 5 = Inr \<lparr>tp_quote_atomic = 20, tp_token_atomic = 1\<rparr>"
    by (simp add: TokenPrice_def gcd_non_0_int)
  then show "copy_fill_buy horizon_clock (sample_position 1 1) 100 5 horizon_control = Inr horizon_open"
    by (simp add: fill_buy_Inr horizon_states horizon_after horizon_deadline)
  show "evaluate_exit (sample_position 2 0) None horizon_open = Inr (Some MAXIMUM_HOLD, horizon_triggered)"
    by (simp add: evaluate_exit_def latch_exit_def horizon_states Let_def)
  show "copy_begin_sell horizon_clock (sample_position 2 0) horizon_triggered = Inr (1, horizon_selling)"
    by (simp add: begin_sell_Inr horizon_states horizon_after)
  show "copy_fail_sell horizon_clock 1 (sample_position 2 1) True horizon_selling = Inr (Some (sample_position 3 0), horizon_waiting)"
    by (simp add: fail_sell_Inr require_attempt_Inr horizon_states horizon_deadline SELL_RETRY_DELAY_NS_def)
qed

lemma horizon_valid: "b \<in> {1, 2, 3, 4, 5} \<Longrightarrow> t \<in> {0, 1} \<Longrightarrow> valid_position (sample_position b t)"
  by (intro sample_position_valid) auto

lemma horizon_path: "timely_path horizon_clock horizon_control horizon_waiting"
proof -
  have "timely_path horizon_clock horizon_control horizon_open"
    by (rule timely_filled_buy[OF timely_start horizon_steps(1) horizon_valid]) simp_all
  then have "timely_path horizon_clock horizon_control horizon_triggered"
    by (rule timely_evaluation[OF _ horizon_steps(2)])
  moreover have "clock_at_most horizon_clock (sample_position 2 0) (sample_position 2 0)"
    by (simp add: clock_at_most_def global_transaction_index_def horizon_rows)
  then have "exit_due horizon_clock horizon_triggered (sample_position 2 0)"
    by (simp add: exit_due_def horizon_valid horizon_states)
  ultimately have "timely_path horizon_clock horizon_control horizon_selling"
    by (intro timely_sell[OF _ horizon_steps(3)])
  then show ?thesis by (rule timely_failed_sell[OF _ horizon_steps(4)]) (simp add: horizon_valid)
qed

theorem copy_settlement_horizon_witness:
  "timely_path horizon_clock horizon_control horizon_waiting
   \<and> (\<exists>n s'. copy_begin_sell horizon_clock (sample_position 3 0) horizon_waiting = Inr (n, s'))"
proof -
  have d: "observation_decision horizon_clock (sample_position 1 0) (cb_observation_delay_transactions horizon_policy)
      = Inr (sample_position 1 0)"
    by (simp add: observation_decision_def horizon_policy_fields)
  note all = copy_settlement_horizon[OF horizon_clock_made horizon_maximum d horizon_path[unfolded horizon_control_def]]
  have "exit_due horizon_clock horizon_waiting (sample_position 3 0)"
    by (simp add: exit_due_def horizon_valid horizon_states)
  moreover have "ct_status horizon_waiting = RETRY_WAIT" "ct_trigger_position horizon_waiting = Some (sample_position 2 0)"
    "require_at_or_after (sample_position 3 0) (case ct_retry_position horizon_waiting of
       Some r \<Rightarrow> r | None \<Rightarrow> sample_position 2 0) = Inr ()"
    by (simp_all add: horizon_states)
  ultimately show ?thesis using all horizon_path by blast
qed

theorem copy_position_lifecycle_witness:
  "control_path horizon_clock horizon_control 3 horizon_waiting
   \<and> keeps horizon_waiting horizon_waiting \<and> 0 < remaining_tokens horizon_waiting"
proof -
  have "control_path horizon_clock horizon_control (Suc 0) horizon_open"
    using path_step[OF path_start buy_filled[OF horizon_steps(1)]] by simp
  from path_step[OF this exit_evaluated[OF horizon_steps(2)]]
  have "control_path horizon_clock horizon_control (Suc 0) horizon_triggered" by simp
  from path_step[OF this sell_begun[OF horizon_steps(3)]]
  have "control_path horizon_clock horizon_control (Suc (Suc 0)) horizon_selling" by simp
  from path_step[OF this sell_failed[OF horizon_steps(4)]]
  have path: "control_path horizon_clock horizon_control 3 horizon_waiting" by (simp add: numeral_3_eq_3)
  have "ct_status horizon_waiting = RETRY_WAIT" by (simp add: horizon_states)
  moreover note copy_position_lifecycle[OF path[unfolded horizon_control_def]]
  ultimately have "0 < remaining_tokens horizon_waiting"
    and "\<forall>m s'. control_path horizon_clock horizon_waiting m s' \<longrightarrow> keeps horizon_waiting s' \<and> 3 + m \<le> 9" by simp_all
  then show ?thesis using path path_start by blast
qed

end
