(* ===== verification/Copy_Progress.thy ===== *)
theory Copy_Progress
  imports Copy_Replay Copy_Lifecycle Sniping_Effects
begin

text \<open>
  Every replay ends. Each operation of the executor moves the control state of its position along a path of
  the step relation, so the statuses still to come bound the actions still to be scheduled: a boundary either
  consumes a group of the source or strictly lowers that bound.
\<close>

section \<open>Paths of the executor's operations\<close>

lemma control_path_trans:
  "control_path clock s1 m s2 \<Longrightarrow> control_path clock s n s1 \<Longrightarrow> control_path clock s (n + m) s2"
proof (induction rule: control_path.induct)
  case (path_step m s2 evaluates s3)
  then have "control_path clock s (n + m) s2" by simp
  from control_path.path_step[OF this path_step(2)] show ?case by (cases evaluates) simp_all
qed simp

lemma control_path_one: "control_step clock s False s' \<Longrightarrow> control_path clock s 1 s'"
  using path_step[OF path_start, of clock s False s'] by simp

lemma control_path_evaluation: "evaluate_exit p price s = Inr (reason, s') \<Longrightarrow> control_path clock s 0 s'"
  using path_step[OF path_start exit_evaluated[of p price s reason s']] by simp

lemma copy_notify_path:
  assumes "copy_notify env a successful st = Inr st'"
  shows "ce_intent st' = ce_intent st \<and> ce_attempts st' = ce_attempts st
    \<and> ce_account_plan st' = ce_account_plan st \<and> ce_account_components st' = ce_account_components st
    \<and> control_step (cv_clock env) (ce_control st) False (ce_control st')"
proof -
  obtain c where c: "notify_control env a successful (ce_control st) = Inr c" and st': "st' = st\<lparr>ce_control := c\<rparr>"
    using assms by (auto simp: copy_notify_def)
  have "control_step (cv_clock env) (ce_control st) False c"
    using c unfolding notify_control_def Let_def
    by (auto split: if_splits intro: control_step.intros)
  then show ?thesis using st' by simp
qed

lemma put_attempt_same [simp]: "ce_intent (put_attempt a st) = ce_intent st" "ce_control (put_attempt a st) = ce_control st"
  by (simp_all add: put_attempt_def)

lemma copy_commit_same:
  "copy_commit env a t x st b = Inr (st', b') \<Longrightarrow> ce_intent st' = ce_intent st \<and> ce_control st' = ce_control st
    \<and> ce_attempts st' = ce_attempts st"
  by (auto simp: copy_commit_def split: option.splits)

lemma new_attempt_same:
  "new_attempt env st side number p = Inr (a, st') \<Longrightarrow> ce_intent st' = ce_intent st \<and> ce_control st' = ce_control st
    \<and> ce_attempts st' = ce_attempts st @ [a] \<and> ca_status a = CREATED"
  by (auto simp: new_attempt_def CopyOrderAttempt_def Let_def)

lemma copy_reject_path:
  assumes "copy_reject env a code st b = Inr (a', st', b')"
  shows "ce_intent st' = ce_intent st \<and> ca_status a' = REJECTED
    \<and> control_path (cv_clock env) (ce_control st) 1 (ce_control st')"
proof -
  obtain s1 where "copy_notify env (a\<lparr>ca_status := REJECTED, ca_failure_code := Some code\<rparr>) False st = Inr s1"
    "st' = put_attempt a' s1" "ca_status a' = REJECTED"
    using assms by (auto simp: copy_reject_def Let_def)
  then show ?thesis using copy_notify_path control_path_one by (metis put_attempt_same)
qed

lemma copy_submit_path:
  assumes "copy_submit env a amounts st b = Inr (a', st', b')"
  shows "ce_intent st' = ce_intent st \<and>
    (ca_status a' = SUBMITTED \<and> ce_control st' = ce_control st
     \<or> ca_status a' = REJECTED \<and> control_path (cv_clock env) (ce_control st) 1 (ce_control st'))"
proof -
  obtain funded where "has_available (kb_portfolio b) amounts = Inr funded"
    and run: "(if \<not> funded then copy_reject env a ''INSUFFICIENT_FUNDS'' st b
     else
       bindE (reserve_amounts amounts) (\<lambda>postings.
       bindE (copy_transaction env st a (ordinal_of (ca_decision a)) ''RESERVATION'' postings) (\<lambda>t.
       bindE (copy_commit env a t None st b) (\<lambda>(st, b).
       let a = a\<lparr>ca_status := SUBMITTED\<rparr> in
       bindE (record_attempt st a b) (\<lambda>b. Inr (a, put_attempt a st, b)))))) = Inr (a', st', b')"
    using assms unfolding copy_submit_def by auto
  show ?thesis
  proof (cases funded)
    case False
    then show ?thesis using run copy_reject_path by fastforce
  next
    case True
    then show ?thesis using run by (auto simp: Let_def dest: copy_commit_same)
  qed
qed

lemma submit_entry_path:
  assumes "submit_entry env observed seconds network plan a st b = Inr (a', st', b')"
  shows "ce_intent st' = ce_intent st \<and>
    (ca_status a' = SUBMITTED \<and> ce_control st' = ce_control st
     \<or> ca_status a' = REJECTED \<and> control_path (cv_clock env) (ce_control st) 1 (ce_control st'))"
proof -
  consider code where "copy_reject env a code st b = Inr (a', st', b')"
    | a1 amounts where "copy_submit env a1 amounts st b = Inr (a', st', b')"
    using assms unfolding submit_entry_def Let_def by (auto simp: sum_case_Inr)
  then show ?thesis using copy_reject_path copy_submit_path by cases blast+
qed

lemma submit_exit_path:
  assumes "submit_exit env observed seconds network a st b = Inr (a', st', b')"
  shows "ce_intent st' = ce_intent st \<and>
    (ca_status a' = SUBMITTED \<and> ce_control st' = ce_control st
     \<or> ca_status a' = REJECTED \<and> control_path (cv_clock env) (ce_control st) 1 (ce_control st'))"
proof -
  consider code where "copy_reject env a code st b = Inr (a', st', b')"
    | a1 amounts where "copy_submit env a1 amounts st b = Inr (a', st', b')"
    using assms unfolding submit_exit_def Let_def by (auto simp: sum_case_Inr)
  then show ?thesis using copy_reject_path copy_submit_path by cases blast+
qed

lemma begin_buy_path:
  assumes "begin_buy env observed st b = Inr (a, st', b')"
  shows "ce_intent st' = ce_intent st \<and>
    (ca_status a = SUBMITTED \<and> ce_control st' = ce_control st
     \<or> ca_status a = REJECTED \<and> control_path (cv_clock env) (ce_control st) 1 (ce_control st'))"
proof -
  obtain a1 s1 seconds network plan records where 1: "new_attempt env st QUOTE_BUY 0 (ci_decision_position (ce_intent st)) = Inr (a1, s1)"
    and 2: "submit_entry env observed seconds network plan (a1\<lparr>ca_network := Some network\<rparr>)
      (s1\<lparr>ce_account_plan := Some plan, ce_account_components := records\<rparr>) b = Inr (a, st', b')"
    using assms by (auto simp: begin_buy_def split: if_splits)
  from submit_entry_path[OF 2] new_attempt_same[OF 1] show ?thesis by simp
qed

lemma begin_sell_path:
  assumes "begin_sell env observed p st b = Inr (a, st', b')"
  obtains control where "control_step (cv_clock env) (ce_control st) False control" and "ct_status control = SELL_PENDING"
    and "ce_intent st' = ce_intent st"
    and "ca_status a = SUBMITTED \<and> ce_control st' = control
     \<or> ca_status a = REJECTED \<and> control_path (cv_clock env) control 1 (ce_control st')"
proof -
  obtain number control a1 s1 seconds network where 0: "copy_begin_sell (cv_clock env) p (ce_control st) = Inr (number, control)"
    and 1: "new_attempt env (st\<lparr>ce_control := control\<rparr>) QUOTE_SELL number p = Inr (a1, s1)"
    and 2: "submit_exit env observed seconds network (a1\<lparr>ca_network := Some network\<rparr>) s1 b = Inr (a, st', b')"
    using assms by (auto simp: begin_sell_def)
  have "ct_status control = SELL_PENDING" using 0 by (auto simp: begin_sell_Inr)
  with that[of control] sell_begun[OF 0] submit_exit_path[OF 2] new_attempt_same[OF 1] show ?thesis by simp
qed

lemma copy_land_path:
  assumes "copy_land env historical p st b = Inr (a, st', b')"
  shows "ce_intent st' = ce_intent st \<and> ca_status a \<noteq> SUBMITTED
    \<and> control_step (cv_clock env) (ce_control st) False (ce_control st')"
proof -
  obtain a1 failure where "settle_landing env a1 failure p st b = Inr (a, st', b')"
    using assms by (auto simp: copy_land_def Let_def split: if_splits)
  then obtain t x s1 b1 a2 s2 where 1: "copy_commit env a1 t x st b = Inr (s1, b1)"
    and 2: "copy_notify env a2 (failure = None) s1 = Inr s2" and 3: "st' = put_attempt a s2" "ca_status a \<noteq> SUBMITTED"
    by (auto simp: settle_landing_def Let_def split: if_splits)
  from copy_commit_same[OF 1] copy_notify_path[OF 2] 3 show ?thesis by simp
qed

section \<open>The invariant and the potential of a replay\<close>

definition replay_inv :: "('s, 'p) copy_replay \<Rightarrow> bool" where
  "replay_inv r \<longleftrightarrow> distinct (dict_keys (cr_states r))
     \<and> (\<forall>d st. (d, st) \<in> set (cr_states r) \<longrightarrow> ci_roundtrip_id (ce_intent st) = d \<and> control_inv (ce_control st))"

definition position_rank :: "copy_position \<Rightarrow> int" where
  "position_rank st = status_rank (ct_status (ce_control st)) (ct_sell_attempt_count (ce_control st))"

definition potential :: "('s, 'p) copy_replay \<Rightarrow> int" where
  "potential r = 2 * sum_list (map (\<lambda>e. position_rank (snd e)) (cr_states r)) + int (length (cr_scheduled r))"

definition streams where
  "streams r = (cr_history r, cr_next_history r, cr_observation r, cr_next_observation r)"

lemma position_of_Inr: "position_of r d = Inr st \<longleftrightarrow> dict_get (cr_states r) d = Some st"
  by (auto simp: position_of_def split: option.splits)

lemma sum_update:
  fixes f :: "'b \<Rightarrow> int"
  shows "map_of xs k = Some v \<Longrightarrow> distinct (map fst xs) \<Longrightarrow>
    sum_list (map (\<lambda>e. f (snd e)) (AList.update k w xs)) = sum_list (map (\<lambda>e. f (snd e)) xs) - f v + f w"
proof (induction xs)
  case (Cons x xs)
  then show ?case by (cases x) (auto split: if_splits)
qed simp

lemma set_update: "distinct (map fst xs) \<Longrightarrow> set (AList.update k w xs) = insert (k, w) {e \<in> set xs. fst e \<noteq> k}"
  by (induction xs) (auto split: if_splits, force+)

lemma put_advances:
  assumes inv: "replay_inv r" and st: "position_of r d = Inr st" and same: "ce_intent st' = ce_intent st"
    and path: "control_path clock (ce_control st) n (ce_control st')"
  shows "replay_inv (put_position st' r) \<and> potential (put_position st' r) + 2 * int n \<le> potential r
    \<and> streams (put_position st' r) = streams r"
proof -
  have m: "dict_get (cr_states r) d = Some st" using st by (simp add: position_of_Inr)
  then have "(d, st) \<in> set (cr_states r)" by (rule map_of_SomeD)
  then have d: "ci_roundtrip_id (ce_intent st) = d" and c: "control_inv (ce_control st)"
    using inv by (auto simp: replay_inv_def)
  note facts = path_facts[OF path c]
  have dist: "distinct (map fst (cr_states r))" using inv by (simp add: replay_inv_def)
  have "replay_inv (put_position st' r)"
    using inv facts d same unfolding replay_inv_def put_position_def
    by (auto simp: set_update distinct_update)
  moreover have "potential (put_position st' r) + 2 * int n \<le> potential r"
    using facts sum_update[OF m dist, of position_rank st'] d same
    by (simp add: potential_def put_position_def position_rank_def)
  ultimately show ?thesis by (simp add: streams_def put_position_def)
qed

lemma copy_schedule_effect:
  assumes "copy_schedule env st release creator kind phase r = Inr r'"
  shows "replay_inv r' = replay_inv r" and "potential r' = potential r + 1" and "streams r' = streams r"
    and "cr_states r' = cr_states r"
  using assms unfolding copy_schedule_def replay_inv_def potential_def streams_def heappush_def
  by (auto simp: Let_def split: option.splits if_splits)

lemma books_effect [simp]:
  "replay_inv (r\<lparr>cr_books := b\<rparr>) = replay_inv r" "potential (r\<lparr>cr_books := b\<rparr>) = potential r"
  "streams (r\<lparr>cr_books := b\<rparr>) = streams r" "position_of (r\<lparr>cr_books := b\<rparr>) d = position_of r d"
  by (simp_all add: replay_inv_def potential_def streams_def position_of_def)

section \<open>Effects within a boundary\<close>

definition sells_only :: "copy_requests \<Rightarrow> bool" where
  "sells_only q \<longleftrightarrow> (\<forall>d v. (d, v) \<in> set q \<longrightarrow> \<not> v)"

lemma update_new: "map_of xs k = None \<Longrightarrow> AList.update k v xs = xs @ [(k, v)]"
  by (induction xs) (auto split: if_splits)

lemma request_exit_sells: "sells_only q \<Longrightarrow> sells_only (request_exit d q)"
  by (auto simp: sells_only_def request_exit_def update_new)

lemma exit_effect:
  assumes run: "copy_exit env p d (r, q) = Inr (r', q')" and inv: "replay_inv r"
  shows "replay_inv r'" and "potential r' \<le> potential r" and "streams r' = streams r"
    and "cr_scheduled r' = cr_scheduled r" and "sells_only q \<Longrightarrow> sells_only q'"
proof -
  obtain st where st: "position_of r d = Inr st" using run by (auto simp: copy_exit_def)
  consider (idle) "r' = r" "q' = q \<or> q' = request_exit (ci_roundtrip_id (ce_intent st)) q"
    | (evaluated) price reason control where "evaluate_exit p price (ce_control st) = Inr (reason, control)"
      "r' = put_position (st\<lparr>ce_control := control\<rparr>) r"
      "q' = q \<or> q' = request_exit (ci_roundtrip_id (ce_intent st)) q"
    using run st unfolding copy_exit_def Let_def
    by (auto split: if_splits option.splits)
  then have "replay_inv r' \<and> potential r' \<le> potential r \<and> streams r' = streams r
    \<and> cr_scheduled r' = cr_scheduled r \<and> (sells_only q \<longrightarrow> sells_only q')"
  proof cases
    case idle
    then show ?thesis using inv request_exit_sells by auto
  next
    case evaluated
    have "control_path (cv_clock env) (ce_control st) 0 (ce_control (st\<lparr>ce_control := control\<rparr>))"
      using control_path_evaluation[OF evaluated(1)] by simp
    from put_advances[OF inv st _ this] evaluated(2,3) request_exit_sells show ?thesis
      by (auto simp: put_position_def)
  qed
  then show "replay_inv r'" and "potential r' \<le> potential r" and "streams r' = streams r"
    and "cr_scheduled r' = cr_scheduled r" and "sells_only q \<Longrightarrow> sells_only q'" by auto
qed

lemma replay_inv_entry:
  "replay_inv r \<Longrightarrow> replay_inv (r\<lparr>cr_strategy := s,
     cr_states := dict_set (ci_roundtrip_id i) (CopyExecutionPosition i) (cr_states r), cr_by_venue := v\<rparr>)"
  by (auto simp: replay_inv_def set_update distinct_update CopyExecutionPosition_def start_inv)

lemma entry_effect:
  assumes "copy_entry env decisions limits p (r, q) signal = Inr (r', q')" and "replay_inv r"
  shows "replay_inv r'" and "streams r' = streams r" and "cr_scheduled r' = cr_scheduled r"
proof -
  have "replay_inv (r\<lparr>cr_strategy := s\<rparr>)" for s using assms(2) by (simp add: replay_inv_def)
  then show "replay_inv r'" and "streams r' = streams r" and "cr_scheduled r' = cr_scheduled r"
    using assms replay_inv_entry[OF assms(2)] unfolding copy_entry_def Let_def
    by (auto simp: streams_def split: if_splits option.splits)
qed

definition quiet where
  "quiet r0 s \<longleftrightarrow> replay_inv (fst s) \<and> streams (fst s) = streams r0 \<and> cr_scheduled (fst s) = cr_scheduled r0"

lemma exit_quiet: "copy_exit env p d s = Inr s' \<Longrightarrow> quiet r0 s \<Longrightarrow> quiet r0 s'"
  using exit_effect[of env p d "fst s" "snd s" "fst s'" "snd s'"] by (simp add: quiet_def)

lemma entry_quiet: "copy_entry env decisions limits p s x = Inr s' \<Longrightarrow> quiet r0 s \<Longrightarrow> quiet r0 s'"
  using entry_effect[of env decisions limits p "fst s" "snd s" x "fst s'" "snd s'"] by (simp add: quiet_def)

lemma market_effect:
  assumes "market_callback env decisions limits p g signals s = Inr s'" and "quiet r0 s"
  shows "quiet r0 s'"
proof -
  obtain held s1 where 1: "foldE (\<lambda>s d. copy_exit env p d s) s held = Inr s1"
    and 2: "foldE (copy_entry env decisions limits p) s1 signals = Inr s'"
    using assms(1) by (cases s) (auto simp: market_callback_def Let_def)
  have "quiet r0 s1"
    by (rule foldE_invariant[where P = "quiet r0", OF 1 assms(2)]) (rule exit_quiet)
  then show ?thesis
    by (rule foldE_invariant[where P = "quiet r0", OF 2]) (rule entry_quiet)
qed

lemma callback_quiet:
  assumes "copy_callback_step env decisions limits p s c = Inr s'" and "quiet r0 s"
  shows "quiet r0 s'"
proof (cases "snd c")
  case (MarketCallback g signals)
  then show ?thesis using market_effect assms by (simp add: copy_callback_step_def)
next
  case (ActionCallback d)
  then show ?thesis using exit_quiet assms by (simp add: copy_callback_step_def)
qed

lemma callbacks_quiet:
  assumes "foldE (copy_callback_step env decisions limits p) s cs = Inr s'" and "quiet r0 s"
  shows "quiet r0 s'"
  by (rule foldE_invariant[where P = "quiet r0", OF assms]) (rule callback_quiet)

text \<open>Without a delivery the callbacks are the scheduled ones, and request only sells.\<close>

lemma actions_effect:
  assumes "foldE (copy_callback_step env decisions limits p) (r, q) cs = Inr (r', q')" and "replay_inv r"
    and "sells_only q" and "\<forall>c \<in> set cs. \<exists>d. snd c = ActionCallback d"
  shows "potential r' \<le> potential r \<and> sells_only q'"
  using assms
proof (induction cs arbitrary: r q)
  case (Cons c cs)
  obtain d where d: "snd c = ActionCallback d" using Cons.prems(4) by auto
  obtain r1 q1 where 1: "copy_exit env p d (r, q) = Inr (r1, q1)"
    and 2: "foldE (copy_callback_step env decisions limits p) (r1, q1) cs = Inr (r', q')"
    using Cons.prems(1) d by (fastforce simp: copy_callback_step_def[of _ _ _ _ _ c])
  note effect = exit_effect[OF 1 Cons.prems(2)]
  show ?case using Cons.IH[OF 2 effect(1) effect(5)[OF Cons.prems(3)]] effect(2) Cons.prems(4) by auto
qed simp

lemma request_effect:
  assumes run: "copy_request env p r (d, is_buy) = Inr r'" and inv: "replay_inv r"
  shows "replay_inv r' \<and> streams r' = streams r \<and> (\<not> is_buy \<longrightarrow> potential r' \<le> potential r)"
proof -
  obtain st a st' b where st: "position_of r d = Inr st"
    and op: "(if is_buy then begin_buy env (cr_observed r) st (cr_books r)
       else begin_sell env (cr_observed r) p st (cr_books r)) = Inr (a, st', b)"
    and out: "schedule_outcome env p a st' (put_position st' (r\<lparr>cr_books := b\<rparr>)) = Inr r'"
    using run by (auto simp: copy_request_def)
  let ?r = "put_position st' (r\<lparr>cr_books := b\<rparr>)"
  have sched: "replay_inv r' = replay_inv ?r \<and> streams r' = streams ?r \<and> potential r' \<le> potential ?r + 1"
    using out copy_schedule_effect[of env st' _ p _ _ ?r r'] unfolding schedule_outcome_def by (auto split: if_splits)
  have st1: "position_of (r\<lparr>cr_books := b\<rparr>) d = Inr st" and inv1: "replay_inv (r\<lparr>cr_books := b\<rparr>)" using st inv by simp_all
  show ?thesis
  proof (cases is_buy)
    case True
    then have "begin_buy env (cr_observed r) st (cr_books r) = Inr (a, st', b)" using op by simp
    from begin_buy_path[OF this] obtain n where "ce_intent st' = ce_intent st" "control_path (cv_clock env) (ce_control st) n (ce_control st')"
      using path_start by metis
    from put_advances[OF inv1 st1 this] sched True show ?thesis by simp
  next
    case False
    then have "begin_sell env (cr_observed r) p st (cr_books r) = Inr (a, st', b)" using op by simp
    then obtain n where "ce_intent st' = ce_intent st" "control_path (cv_clock env) (ce_control st) (Suc n) (ce_control st')"
    proof (rule begin_sell_path)
      fix c assume "control_step (cv_clock env) (ce_control st) False c" and i: "ce_intent st' = ce_intent st"
        and e: "ca_status a = SUBMITTED \<and> ce_control st' = c \<or> ca_status a = REJECTED \<and> control_path (cv_clock env) c 1 (ce_control st')"
      then have one: "control_path (cv_clock env) (ce_control st) 1 c" using control_path_one by blast
      show thesis using e
      proof
        assume "ca_status a = SUBMITTED \<and> ce_control st' = c"
        then show thesis using that[of 0] one i by simp
      next
        assume "ca_status a = REJECTED \<and> control_path (cv_clock env) c 1 (ce_control st')"
        then have "control_path (cv_clock env) (ce_control st) (1 + 1) (ce_control st')"
          using control_path_trans[OF _ one] by blast
        then show thesis using that[of 1] i by simp
      qed
    qed
    from put_advances[OF inv1 st1 this] sched show ?thesis by simp
  qed
qed

lemma requests_effect:
  assumes "foldE (copy_request env p) r q = Inr r'" and "replay_inv r"
  shows "replay_inv r' \<and> streams r' = streams r \<and> (sells_only q \<longrightarrow> potential r' \<le> potential r)"
  using assms
proof (induction q arbitrary: r)
  case (Cons x q)
  obtain d v where x: "x = (d, v)" by (cases x)
  obtain r1 where 1: "copy_request env p r (d, v) = Inr r1" and 2: "foldE (copy_request env p) r1 q = Inr r'"
    using Cons.prems(1) by (auto simp: x)
  note effect = request_effect[OF 1 Cons.prems(2)]
  have "sells_only ((d, v) # q) \<Longrightarrow> sells_only q \<and> \<not> v" by (auto simp: sells_only_def)
  then show ?case using Cons.IH[OF 2] effect by (fastforce simp: x)
qed simp

lemma landing_effect:
  assumes run: "copy_landing env p (r, nt) a = Inr (r', nt')" and inv: "replay_inv r"
  shows "replay_inv r' \<and> streams r' = streams r \<and> potential r' + 2 \<le> potential r \<and> length nt' = Suc (length nt)"
proof -
  obtain d st att st' b where st: "position_of r d = Inr st" and op: "copy_land env (cr_historical r) p st (cr_books r) = Inr (att, st', b)"
    and r': "r' = put_position st' (r\<lparr>cr_books := b\<rparr>)" "nt' = nt @ [d]"
    using run by (cases a) (auto simp: copy_landing_def split: if_splits)
  have st1: "position_of (r\<lparr>cr_books := b\<rparr>) d = Inr st" and inv1: "replay_inv (r\<lparr>cr_books := b\<rparr>)" using st inv by simp_all
  from copy_land_path[OF op] have "ce_intent st' = ce_intent st" "control_path (cv_clock env) (ce_control st) 1 (ce_control st')"
    using control_path_one by auto
  from put_advances[OF inv1 st1 this] r' show ?thesis by simp
qed

lemma landings_effect:
  assumes "foldE (copy_landing env p) (r, nt) as = Inr (r', nt')" and "replay_inv r"
  shows "replay_inv r' \<and> streams r' = streams r \<and> potential r' + 2 * int (length as) \<le> potential r
    \<and> length nt' = length nt + length as"
  using assms
proof (induction as arbitrary: r nt)
  case (Cons a as)
  obtain r1 nt1 where 1: "copy_landing env p (r, nt) a = Inr (r1, nt1)"
    and 2: "foldE (copy_landing env p) (r1, nt1) as = Inr (r', nt')"
    using Cons.prems(1) by auto
  from landing_effect[OF 1 Cons.prems(2)] Cons.IH[OF 2] show ?case by auto
qed simp

lemma notification_effect:
  assumes run: "copy_notification env p r d = Inr r'" and inv: "replay_inv r"
  shows "replay_inv r' \<and> streams r' = streams r \<and> potential r' \<le> potential r + 1"
proof -
  obtain st where st: "position_of r d = Inr st" using run by (auto simp: copy_notification_def)
  consider (idle) "r' = r"
    | (waiting) "copy_schedule env st (ct_retry_position (ce_control st)) p ''RETRY'' 40 r = Inr r'"
    | (evaluated) price reason control release kind where "evaluate_exit p price (ce_control st) = Inr (reason, control)"
      "copy_schedule env (st\<lparr>ce_control := control\<rparr>) release p kind 40 (put_position (st\<lparr>ce_control := control\<rparr>) r) = Inr r'"
  proof (cases "ct_status (ce_control st) = OPEN")
    case True
    then obtain price reason control where e: "evaluate_exit p price (ce_control st) = Inr (reason, control)"
      and rest: "schedule_hold env p reason (st\<lparr>ce_control := control\<rparr>) (put_position (st\<lparr>ce_control := control\<rparr>) r) = Inr r'"
      using run st by (auto simp: copy_notification_def Let_def)
    then obtain release kind where "copy_schedule env (st\<lparr>ce_control := control\<rparr>) release p kind 40
        (put_position (st\<lparr>ce_control := control\<rparr>) r) = Inr r'"
      unfolding schedule_hold_def by (cases "reason = None") auto
    then show thesis by (rule evaluated[OF e])
  next
    case False
    then have "r' = r \<or> copy_schedule env st (ct_retry_position (ce_control st)) p ''RETRY'' 40 r = Inr r'"
      using run st unfolding copy_notification_def by (cases "ct_status (ce_control st) = RETRY_WAIT") simp_all
    then show thesis by (rule disjE) (erule idle, erule waiting)
  qed
  then show ?thesis
  proof cases
    case idle
    then show ?thesis using inv by simp
  next
    case waiting
    then show ?thesis using copy_schedule_effect[OF waiting] inv by simp
  next
    case evaluated
    have "control_path (cv_clock env) (ce_control st) 0 (ce_control (st\<lparr>ce_control := control\<rparr>))"
      using control_path_evaluation[OF evaluated(1)] by simp
    from put_advances[OF inv st _ this] copy_schedule_effect[OF evaluated(2)] show ?thesis by simp
  qed
qed

lemma notifications_effect:
  assumes "foldE (copy_notification env p) r ds = Inr r'" and "replay_inv r"
  shows "replay_inv r' \<and> streams r' = streams r \<and> potential r' \<le> potential r + int (length ds)"
  using assms
proof (induction ds arbitrary: r)
  case (Cons d ds)
  obtain r1 where 1: "copy_notification env p r d = Inr r1" and 2: "foldE (copy_notification env p) r1 ds = Inr r'"
    using Cons.prems(1) by auto
  from notification_effect[OF 1 Cons.prems(2)] Cons.IH[OF 2] show ?case by auto
qed simp

section \<open>Progress at a boundary\<close>

definition front_count :: "'a generator \<times> 'b option \<Rightarrow> nat" where
  "front_count = (\<lambda>(g, following). length (fst g) + (if following = None then 0 else 1))"

definition fronts :: "('s, 'p) copy_replay \<Rightarrow> nat" where
  "fronts r = front_count (cr_history r, cr_next_history r) + front_count (cr_observation r, cr_next_observation r)"

lemma fronts_streams: "streams r' = streams r \<Longrightarrow> fronts r' = fronts r"
  by (simp add: streams_def fronts_def)

lemma next_item_count: "next_item g = Inr (following, rest) \<Longrightarrow> front_count (rest, following) = length (fst g)"
  by (auto simp: next_item_def front_count_def split: prod.splits list.splits option.splits)

lemma history_effect:
  assumes "replay_history env boundary r = Inr r'"
  shows "r' = r \<and> (\<forall>g. cr_next_history r = Some g \<longrightarrow> event_boundary (hd g) \<noteq> boundary) \<or> fronts r' < fronts r"
    and "replay_inv r' = replay_inv r"
  using assms next_item_count[of "cr_history r"]
  by (auto simp: replay_history_def fronts_def front_count_def replay_inv_def split: option.splits if_splits)

lemma observation_effect:
  assumes "replay_observation env boundary r = Inr (market, r')"
  shows "r' = r \<and> market = [] \<and> (\<forall>x. cr_next_observation r = Some x \<longrightarrow> fst x \<noteq> boundary) \<or> fronts r' < fronts r"
    and "replay_inv r' = replay_inv r"
  using assms next_item_count[of "cr_observation r"]
  by (auto simp: replay_observation_def fronts_def front_count_def replay_inv_def split: option.splits if_splits)

lemma copy_next_boundary_front:
  assumes "\<not> replay_done r"
  shows "(\<exists>g. cr_next_history r = Some g \<and> event_boundary (hd g) = copy_next_boundary r)
    \<or> (\<exists>x. cr_next_observation r = Some x \<and> fst x = copy_next_boundary r)
    \<or> (\<exists>a as. cr_scheduled r = a # as \<and> fst (fst a) = copy_next_boundary r)"
proof -
  define xs where "xs = (case heap_top (cr_scheduled r) of None \<Rightarrow> [] | Some ((release, _), _) \<Rightarrow> [release])
      @ (case cr_next_history r of None \<Rightarrow> [] | Some g \<Rightarrow> [event_boundary (hd g)])
      @ (case cr_next_observation r of None \<Rightarrow> [] | Some (release, _) \<Rightarrow> [release])"
  have "xs \<noteq> []" using assms by (auto simp: xs_def replay_done_def heap_top_def split: list.splits option.splits)
  then have "copy_next_boundary r \<in> set xs" unfolding copy_next_boundary_def xs_def[symmetric] by (intro Min_in) auto
  then consider "copy_next_boundary r \<in> set (case heap_top (cr_scheduled r) of None \<Rightarrow> [] | Some ((release, _), _) \<Rightarrow> [release])"
    | "copy_next_boundary r \<in> set (case cr_next_history r of None \<Rightarrow> [] | Some g \<Rightarrow> [event_boundary (hd g)])"
    | "copy_next_boundary r \<in> set (case cr_next_observation r of None \<Rightarrow> [] | Some (release, _) \<Rightarrow> [release])"
    unfolding xs_def set_append by blast
  then show ?thesis
  proof cases
    case 1
    then show ?thesis by (cases "cr_scheduled r") (auto simp: heap_top_def)
  next
    case 2
    then show ?thesis by (cases "cr_next_history r") auto
  next
    case 3
    then show ?thesis by (cases "cr_next_observation r") auto
  qed
qed

text \<open>The scheduled part of a boundary strictly lowers the potential when it begins with an action.\<close>

lemma scheduled_effect:
  assumes inv: "replay_inv r" and "cr_scheduled r = a # as" and "fst (fst a) = boundary"
    and c: "replay_callbacks env decisions limits boundary p [] r = Inr (r1, q)"
    and q: "foldE (copy_request env p) r1 q = Inr r2"
    and l: "replay_landings env boundary p r2 = Inr (r3, nt)"
    and n: "foldE (copy_notification env p) r3 nt = Inr r4"
  shows "potential r4 < potential r"
proof -
  let ?due = "takeWhile (decision_due boundary) (cr_scheduled r)"
  let ?r = "r\<lparr>cr_scheduled := dropWhile (decision_due boundary) (cr_scheduled r)\<rparr>"
  have run: "foldE (copy_callback_step env decisions limits p) (?r, []) (sort_key fst (action_callbacks ?due)) = Inr (r1, q)"
    using c by (simp add: replay_callbacks_def Let_def)
  have inv0: "replay_inv ?r" using inv by (simp add: replay_inv_def)
  have "length (cr_scheduled r) = length ?due + length (cr_scheduled ?r)"
    by (simp add: length_append[symmetric] del: length_append)
  then have drop: "potential ?r + int (length ?due) = potential r" by (simp add: potential_def)
  have quiet: "quiet ?r (r1, q)" by (rule callbacks_quiet[OF run]) (use inv0 in \<open>simp add: quiet_def\<close>)
  have acts: "potential r1 \<le> potential ?r \<and> sells_only q"
    by (rule actions_effect[OF run inv0]) (auto simp: sells_only_def action_callbacks_def)
  have 2: "replay_inv r2 \<and> potential r2 \<le> potential r1"
    using requests_effect[OF q] quiet acts by (simp add: quiet_def)
  let ?land = "takeWhile (\<lambda>a. fst (fst a) = boundary) (cr_scheduled r2)"
  let ?r2 = "r2\<lparr>cr_scheduled := dropWhile (\<lambda>a. fst (fst a) = boundary) (cr_scheduled r2)\<rparr>"
  have land: "foldE (copy_landing env p) (?r2, []) ?land = Inr (r3, nt)" using l by (simp add: replay_landings_def Let_def)
  have inv2: "replay_inv ?r2" using 2 by (simp add: replay_inv_def)
  have "length (cr_scheduled r2) = length ?land + length (cr_scheduled ?r2)"
    by (simp add: length_append[symmetric] del: length_append)
  then have drop2: "potential ?r2 + int (length ?land) = potential r2" by (simp add: potential_def)
  have 3: "replay_inv r3 \<and> potential r3 + 2 * int (length ?land) \<le> potential ?r2 \<and> length nt = length ?land"
    using landings_effect[OF land inv2] by simp
  have 4: "potential r4 \<le> potential r3 + int (length nt)" using notifications_effect[OF n] 3 by simp
  show ?thesis
  proof (cases "decision_due boundary a")
    case True
    then have "0 < length ?due" using assms(2) by simp
    then show ?thesis using 2 3 4 acts drop drop2 by linarith
  next
    case False
    then have "?due = []" and same: "?r = r" using assms(2) by simp_all
    then have "q = []" "r1 = r" using run by (auto simp: action_callbacks_def same)
    then have "r2 = r" using q by simp
    then have "0 < length ?land" using assms(2,3) by simp
    then show ?thesis using 2 3 4 acts drop drop2 by linarith
  qed
qed

lemma copy_boundary_parts:
  assumes "copy_boundary env decisions limits r = Inr r'"
  obtains p r1 market r2 r3 q r4 r5 nt where
    "from_boundary_ordinal (tc_network_id (cv_clock env)) (tc_position_schema_id (cv_clock env)) (copy_next_boundary r) None = Inr p"
    and "replay_history env (copy_next_boundary r) r = Inr r1"
    and "replay_observation env (copy_next_boundary r) r1 = Inr (market, r2)"
    and "replay_callbacks env decisions limits (copy_next_boundary r) p market r2 = Inr (r3, q)"
    and "foldE (copy_request env p) r3 q = Inr r4"
    and "replay_landings env (copy_next_boundary r) p r4 = Inr (r5, nt)"
    and "foldE (copy_notification env p) r5 nt = Inr r'"
  using assms unfolding copy_boundary_def Let_def bindE_eq_Inr
  by (elim exE conjE) (auto split: if_splits prod.splits)

lemma drop_inv: "replay_inv (r\<lparr>cr_scheduled := xs\<rparr>) = replay_inv r" "fronts (r\<lparr>cr_scheduled := xs\<rparr>) = fronts r"
  by (simp_all add: replay_inv_def fronts_def)

lemma callbacks_effect:
  assumes "replay_callbacks env decisions limits boundary p market r = Inr (r', q)" and "replay_inv r"
  shows "replay_inv r' \<and> fronts r' = fronts r"
proof -
  let ?r = "r\<lparr>cr_scheduled := dropWhile (decision_due boundary) (cr_scheduled r)\<rparr>"
  obtain cs where "foldE (copy_callback_step env decisions limits p) (?r, []) cs = Inr (r', q)"
    using assms(1) by (auto simp: replay_callbacks_def Let_def)
  then have "quiet ?r (r', q)" by (rule callbacks_quiet) (use assms(2) in \<open>simp add: quiet_def drop_inv\<close>)
  then have "replay_inv r'" "fronts r' = fronts ?r" using fronts_streams by (auto simp: quiet_def)
  then show ?thesis by (simp add: drop_inv)
qed

lemma replay_landings_effect:
  assumes "replay_landings env boundary p r = Inr (r', nt)" and "replay_inv r"
  shows "replay_inv r' \<and> fronts r' = fronts r"
proof -
  let ?r = "r\<lparr>cr_scheduled := dropWhile (\<lambda>a. fst (fst a) = boundary) (cr_scheduled r)\<rparr>"
  obtain due where "foldE (copy_landing env p) (?r, []) due = Inr (r', nt)"
    using assms(1) by (auto simp: replay_landings_def Let_def)
  from landings_effect[OF this] assms(2) fronts_streams[of r' ?r] show ?thesis by (simp add: drop_inv)
qed

lemma boundary_progress:
  assumes run: "copy_boundary env decisions limits r = Inr r'" and inv: "replay_inv r" and more: "\<not> replay_done r"
  shows "replay_inv r' \<and> (fronts r' < fronts r \<or> fronts r' = fronts r \<and> potential r' < potential r)"
  using run
proof (rule copy_boundary_parts)
  fix p r1 market r2 r3 q r4 r5 nt
  assume h: "replay_history env (copy_next_boundary r) r = Inr r1"
    and o: "replay_observation env (copy_next_boundary r) r1 = Inr (market, r2)"
    and c: "replay_callbacks env decisions limits (copy_next_boundary r) p market r2 = Inr (r3, q)"
    and q: "foldE (copy_request env p) r3 q = Inr r4"
    and l: "replay_landings env (copy_next_boundary r) p r4 = Inr (r5, nt)"
    and n: "foldE (copy_notification env p) r5 nt = Inr r'"
  have 2: "replay_inv r2" using history_effect(2)[OF h] observation_effect(2)[OF o] inv by simp
  have 3: "replay_inv r3 \<and> fronts r3 = fronts r2" by (rule callbacks_effect[OF c 2])
  have 4: "replay_inv r4 \<and> fronts r4 = fronts r3" using requests_effect[OF q] 3 fronts_streams[of r4 r3] by simp
  have 5: "replay_inv r5 \<and> fronts r5 = fronts r4" using replay_landings_effect[OF l] 4 by simp
  have 6: "replay_inv r' \<and> fronts r' = fronts r5" using notifications_effect[OF n] 5 fronts_streams[of r' r5] by simp
  show ?thesis
  proof (cases "fronts r2 < fronts r")
    case True
    then show ?thesis using 3 4 5 6 by simp
  next
    case False
    then have 1: "r1 = r" "\<And>g. cr_next_history r = Some g \<Longrightarrow> event_boundary (hd g) \<noteq> copy_next_boundary r"
      using history_effect(1)[OF h] observation_effect(1)[OF o] by auto
    have r2: "r2 = r" "market = []" "\<And>x. cr_next_observation r = Some x \<Longrightarrow> fst x \<noteq> copy_next_boundary r"
      using observation_effect(1)[OF o] 1(1) False by auto
    obtain a rest where a: "cr_scheduled r = a # rest" "fst (fst a) = copy_next_boundary r"
      using copy_next_boundary_front[OF more] 1(2) r2(3) by blast
    have "potential r' < potential r"
      using scheduled_effect[OF inv a _ q l n] c r2(1,2) by simp
    then show ?thesis using 3 4 5 6 r2(1) by simp
  qed
qed

lemma rank_sum_nonneg:
  "\<forall>d st. (d, st) \<in> set xs \<longrightarrow> control_inv (ce_control st) \<Longrightarrow> 0 \<le> sum_list (map (\<lambda>e. position_rank (snd e)) xs)"
proof (induction xs)
  case (Cons x xs)
  then have "control_inv (ce_control (snd x))" by (cases x) auto
  then show ?case using Cons by (simp add: position_rank_def rank_nonneg)
qed simp

lemma potential_nonneg: "replay_inv r \<Longrightarrow> 0 \<le> potential r"
  using rank_sum_nonneg[of "cr_states r"] by (simp add: potential_def replay_inv_def)

lemma copy_loop_returns: "replay_inv r \<Longrightarrow> \<exists>x. copy_loop env decisions limits r = Some x"
proof (induction r rule: wf_induct_rule[OF wf_measures, of "[fronts, \<lambda>r. nat (potential r)]"])
  case (1 r)
  show ?case
  proof (cases "replay_done r")
    case True
    then show ?thesis by (simp add: copy_loop.simps)
  next
    case False
    show ?thesis
    proof (cases "copy_boundary env decisions limits r")
      case (Inl e)
      then show ?thesis using False by (simp add: copy_loop.simps)
    next
      case (Inr r')
      note progress = boundary_progress[OF Inr 1(2) False]
      then have "(r', r) \<in> measures [fronts, \<lambda>r. nat (potential r)]"
        using potential_nonneg[of r'] by auto
      from 1(1)[OF this] progress Inr False show ?thesis by (subst copy_loop.simps) simp
    qed
  qed
qed

lemma start_replay_inv: "start_replay env src strategy protocol b = Inr r \<Longrightarrow> replay_inv r"
  by (auto simp: start_replay_def replay_inv_def)

text \<open>C10: A copy replay always ends: for every source, policy and clock, and whatever the strategy, the venue
  and the cost model answer, the merge of history, deliveries and scheduled actions reaches its end or an
  exception after finitely many boundaries.\<close>

theorem copy_replay_terminates:
  "\<exists>result. run_copy_replay env src decisions limits strategy protocol b append_position acc = Some result"
proof (cases "bindE (validate_copy_replay env src decisions protocol limits) (\<lambda>expected.
    bindE (start_replay env src strategy protocol b) (\<lambda>r. Inr (expected, r)))")
  case (Inl e)
  then show ?thesis by (simp only: run_copy_replay_def sum.case) blast
next
  case (Inr x)
  then obtain expected r where x: "x = (expected, r)" and start: "start_replay env src strategy protocol b = Inr r" by auto
  obtain y where "copy_loop env decisions limits r = Some y"
    using copy_loop_returns[OF start_replay_inv[OF start], of env decisions limits] by (rule exE)
  then show ?thesis unfolding run_copy_replay_def Inr x by simp
qed

section \<open>Invariants of the loop\<close>

lemma copy_loop_invariant:
  assumes "copy_loop env decisions limits r = Some (Inr r')" and "replay_inv r" and "P r"
    and step: "\<And>r r'. P r \<Longrightarrow> replay_inv r \<Longrightarrow> \<not> replay_done r \<Longrightarrow> copy_boundary env decisions limits r = Inr r' \<Longrightarrow> P r'"
  shows "P r' \<and> replay_done r' \<and> replay_inv r'"
  using assms(1,2,3)
proof (induction r rule: wf_induct_rule[OF wf_measures, of "[fronts, \<lambda>r. nat (potential r)]"])
  case (1 r)
  show ?case
  proof (cases "replay_done r")
    case True
    then show ?thesis using 1(2,3,4) by (simp add: copy_loop.simps)
  next
    case False
    then obtain r1 where r1: "copy_boundary env decisions limits r = Inr r1" and f: "copy_loop env decisions limits r1 = Some (Inr r')"
      using 1(2) by (subst (asm) copy_loop.simps) (auto split: sum.splits)
    note progress = boundary_progress[OF r1 1(3) False]
    then have "(r1, r) \<in> measures [fronts, \<lambda>r. nat (potential r)]"
      using potential_nonneg[of r1] by auto
    from 1(1)[OF this f _ step[OF 1(4,3) False r1]] progress show ?thesis by simp
  qed
qed

end
