(* ===== verification/Copy_Settled.thy ===== *)
theory Copy_Settled
  imports Copy_Progress
begin

text \<open>
  Every copied position is settled when the replay ends: between two boundaries a position that is not
  terminal has an action in the scheduler that moves it on, so that the loop cannot run out of work before it.
\<close>

section \<open>Boundaries and positions\<close>

lemma from_boundary_ordinal_of:
  assumes "from_boundary_ordinal network schema v e = Inr p"
  shows "ordinal_of p = v \<and> valid_position p"
proof -
  obtain b t where bt: "boundary_coordinates v schema = Inr (b, t)" and p: "ChainPosition network schema b t e = Inr p"
    using assms by (auto simp: from_boundary_ordinal_def)
  then have "valid_position p" by (auto simp: valid_position_def ChainPosition_iff)
  moreover have "ordinal_of p = b * 2 ^ 32 + t + 1"
    using ordinal_of_eq[OF calculation] p by (simp add: ChainPosition_iff)
  moreover have "b * 2 ^ 32 + t + 1 = v" using bt by (simp add: boundary_coordinates_iff)
  ultimately show ?thesis by simp
qed

section \<open>What arms a position\<close>

definition settled :: "copy_position \<Rightarrow> bool" where
  "settled st \<longleftrightarrow> ct_status (ce_control st) \<in> {copy_position_status.CLOSED, EXHAUSTED, BUY_FAILED}"

definition moves_on :: "copy_control \<Rightarrow> int \<Rightarrow> int \<Rightarrow> bool" where
  "moves_on c phase release = (case ct_status c of
     BUY_PENDING \<Rightarrow> phase = 60
   | SELL_PENDING \<Rightarrow> phase = 60
   | OPEN \<Rightarrow> phase = 40 \<and> (ct_exit_reason c \<noteq> None \<or> (\<exists>d. ct_deadline c = Some d \<and> ordinal_of d \<le> release))
   | RETRY_WAIT \<Rightarrow> phase = 40 \<and> (\<exists>d. ct_retry_position c = Some d \<and> ordinal_of d \<le> release)
   | _ \<Rightarrow> False)"

definition armed_by :: "(copy_action_key \<times> copy_action) list \<Rightarrow> digest \<Rightarrow> copy_position \<Rightarrow> bool" where
  "armed_by actions d st \<longleftrightarrow> settled st
     \<or> (\<exists>release phase rest kind. ((release, phase, rest), (d, kind)) \<in> set actions
          \<and> moves_on (ce_control st) phase release)"

lemma armed_by_more: "armed_by xs d st \<Longrightarrow> set xs \<subseteq> set ys \<Longrightarrow> armed_by ys d st"
  unfolding armed_by_def by blast

text \<open>Evaluating the exit rule keeps a position armed, and an armed decision that is due requests it.\<close>

lemma evaluate_moves_on:
  assumes "evaluate_exit p price c = Inr (reason, c')" and "moves_on c phase release"
  shows "moves_on c' phase release"
  using assms(1) by (cases rule: evaluate_exit_Inr) (use assms(2) in \<open>auto simp: moves_on_def\<close>)

lemma evaluate_reason:
  assumes run: "evaluate_exit p price c = Inr (reason, c')" and "ct_status c = OPEN"
  shows "reason = ct_exit_reason c' \<and> ct_status c' = OPEN \<and> ct_deadline c' = ct_deadline c"
proof -
  obtain f e d where f: "ct_buy_fill_position c = Some f" "ct_entry_price c = Some e" "ct_deadline c = Some d"
    using run assms(2) by (auto simp: evaluate_exit_def split: option.splits)
  have order: "ordinal_of f \<le> ordinal_of p" "\<not> ordinal_of p < ct_last_evaluation_boundary c"
    using run assms(2) f by (auto simp: evaluate_exit_def split: if_splits)
  let ?c = "c\<lparr>ct_last_evaluation_boundary := ordinal_of p\<rparr>"
  show ?thesis
  proof (cases "ct_exit_reason c")
    case (Some r)
    then have "reason = Some r" "c' = ?c" using run assms(2) f order by (simp_all add: evaluate_exit_def)
    then show ?thesis using Some assms(2) by simp
  next
    case None
    then obtain priced where "latch_exit p price d priced ?c = (reason, c')"
      using run assms(2) f order by (auto simp: evaluate_exit_def Let_def)
    then show ?thesis using None assms(2) by (auto simp: latch_exit_def Let_def split: option.splits if_splits)
  qed
qed

lemma evaluate_due:
  assumes run: "evaluate_exit p price c = Inr (reason, c')" and "ct_status c = OPEN"
    and due: "moves_on c 40 (ordinal_of p)"
  shows "reason \<noteq> None"
proof -
  obtain f e d where f: "ct_buy_fill_position c = Some f" "ct_entry_price c = Some e" "ct_deadline c = Some d"
    using run assms(2) by (auto simp: evaluate_exit_def split: option.splits)
  have order: "ordinal_of f \<le> ordinal_of p" "\<not> ordinal_of p < ct_last_evaluation_boundary c"
    using run assms(2) f by (auto simp: evaluate_exit_def split: if_splits)
  let ?c = "c\<lparr>ct_last_evaluation_boundary := ordinal_of p\<rparr>"
  show ?thesis
  proof (cases "ct_exit_reason c")
    case (Some r)
    then have "reason = Some r" using run assms(2) f order by (simp add: evaluate_exit_def)
    then show ?thesis by simp
  next
    case None
    then have "ordinal_of d \<le> ordinal_of p" using due assms(2) f(3) by (simp add: moves_on_def)
    moreover obtain priced where "latch_exit p price d priced ?c = (reason, c')"
      using run assms(2) f order None by (auto simp: evaluate_exit_def Let_def)
    ultimately show ?thesis by (auto simp: latch_exit_def Let_def split: option.splits if_splits)
  qed
qed

section \<open>What the executor's operations lead to\<close>

definition outcome :: "copy_attempt \<Rightarrow> copy_position \<Rightarrow> copy_attempt \<Rightarrow> copy_position \<Rightarrow> bool" where
  "outcome a st a' st' \<longleftrightarrow> ce_intent st' = ce_intent st \<and>
     (ca_status a' = SUBMITTED \<and> ce_control st' = ce_control st
      \<or> ca_status a' = REJECTED \<and> ct_status (ce_control st')
          \<in> (if ca_side a = QUOTE_BUY then {BUY_FAILED} else {RETRY_WAIT, EXHAUSTED}))"

lemma notify_outcome:
  assumes "notify_control env a False c = Inr c'"
  shows "ct_status c' \<in> (if ca_side a = QUOTE_BUY then {BUY_FAILED} else {RETRY_WAIT, EXHAUSTED})"
  using assms by (auto simp: notify_control_def Let_def control_results split: if_splits)

lemma reject_outcome:
  assumes "copy_reject env a code st b = Inr (a', st', b')"
  shows "outcome a st a' st'"
proof -
  obtain c where "notify_control env (a\<lparr>ca_status := REJECTED, ca_failure_code := Some code\<rparr>) False (ce_control st) = Inr c"
    "ce_control st' = c" "ce_intent st' = ce_intent st" "ca_status a' = REJECTED"
    using assms by (auto simp: copy_reject_def copy_notify_def Let_def)
  then show ?thesis using notify_outcome by (fastforce simp: outcome_def)
qed

lemma submit_outcome:
  assumes "copy_submit env a amounts st b = Inr (a', st', b')"
  shows "outcome a st a' st'"
proof -
  obtain funded where "has_available (kb_portfolio b) amounts = Inr funded"
    and run: "(if \<not> funded then copy_reject env a ''INSUFFICIENT_FUNDS'' st b
     else
       bindE (reserve_amounts amounts) (\<lambda>postings.
       bindE (copy_transaction env st a (ordinal_of (ca_decision a)) ''RESERVATION'' postings) (\<lambda>t.
       bindE (copy_commit env a t None st b) (\<lambda>(st, b).
       let a = a\<lparr>ca_status := SUBMITTED\<rparr> in
       bindE (record_attempt st a b) (\<lambda>b. Inr (a, put_attempt a st, b)))))) = Inr (a', st', b')"
    using assms unfolding copy_submit_def by auto
  show ?thesis
  proof (cases funded)
    case False
    then show ?thesis using run reject_outcome by simp
  next
    case True
    then show ?thesis using run by (auto simp: Let_def outcome_def dest: copy_commit_same)
  qed
qed

lemma entry_outcome:
  assumes "submit_entry env observed seconds network plan a st b = Inr (a', st', b')"
  shows "outcome a st a' st'"
proof -
  consider code where "copy_reject env a code st b = Inr (a', st', b')"
    | reference out amounts where "copy_submit env (a\<lparr>ca_reference := reference, ca_minimum_out := out\<rparr>) amounts st b = Inr (a', st', b')"
    using assms unfolding submit_entry_def Let_def by (auto simp: sum_case_Inr)
  then show ?thesis
    by cases (use reject_outcome submit_outcome in \<open>fastforce simp: outcome_def\<close>)+
qed

lemma exit_outcome:
  assumes "submit_exit env observed seconds network a st b = Inr (a', st', b')"
  shows "outcome a st a' st'"
proof -
  consider code where "copy_reject env a code st b = Inr (a', st', b')"
    | reference out amounts where "copy_submit env (a\<lparr>ca_reference := reference, ca_minimum_out := out\<rparr>) amounts st b = Inr (a', st', b')"
    using assms unfolding submit_exit_def Let_def by (auto simp: sum_case_Inr)
  then show ?thesis
    by cases (use reject_outcome submit_outcome in \<open>fastforce simp: outcome_def\<close>)+
qed

lemma begin_buy_outcome:
  assumes "begin_buy env observed st b = Inr (a, st', b')"
  shows "ce_intent st' = ce_intent st \<and> (ca_status a = SUBMITTED \<and> ce_control st' = ce_control st
    \<or> ca_status a = REJECTED \<and> ct_status (ce_control st') = BUY_FAILED)"
proof -
  obtain a1 s1 seconds network plan records where 1: "new_attempt env st QUOTE_BUY 0 (ci_decision_position (ce_intent st)) = Inr (a1, s1)"
    and 2: "submit_entry env observed seconds network plan (a1\<lparr>ca_network := Some network\<rparr>)
      (s1\<lparr>ce_account_plan := Some plan, ce_account_components := records\<rparr>) b = Inr (a, st', b')"
    using assms by (auto simp: begin_buy_def split: if_splits)
  have "ca_side a1 = QUOTE_BUY" using 1 by (auto simp: new_attempt_def CopyOrderAttempt_def Let_def)
  with entry_outcome[OF 2] new_attempt_same[OF 1] show ?thesis by (auto simp: outcome_def)
qed

lemma begin_sell_outcome:
  assumes "begin_sell env observed p st b = Inr (a, st', b')"
  shows "ce_intent st' = ce_intent st \<and> (ca_status a = SUBMITTED \<and> ct_status (ce_control st') = SELL_PENDING
    \<or> ca_status a = REJECTED \<and> ct_status (ce_control st') \<in> {RETRY_WAIT, EXHAUSTED})"
proof -
  obtain number control a1 s1 seconds network where 0: "copy_begin_sell (cv_clock env) p (ce_control st) = Inr (number, control)"
    and 1: "new_attempt env (st\<lparr>ce_control := control\<rparr>) QUOTE_SELL number p = Inr (a1, s1)"
    and 2: "submit_exit env observed seconds network (a1\<lparr>ca_network := Some network\<rparr>) s1 b = Inr (a, st', b')"
    using assms by (auto simp: begin_sell_def)
  have "ct_status control = SELL_PENDING" using 0 by (auto simp: begin_sell_Inr)
  moreover have "ca_side a1 = QUOTE_SELL" using 1 by (auto simp: new_attempt_def CopyOrderAttempt_def Let_def)
  ultimately show ?thesis using exit_outcome[OF 2] new_attempt_same[OF 1] by (auto simp: outcome_def)
qed

lemma land_outcome:
  assumes "copy_land env historical p st b = Inr (a, st', b')"
  shows "ce_intent st' = ce_intent st \<and> ct_status (ce_control st') \<notin> {BUY_PENDING, SELL_PENDING}"
proof -
  obtain a1 failure where "settle_landing env a1 failure p st b = Inr (a, st', b')"
    using assms by (auto simp: copy_land_def Let_def split: if_splits)
  then obtain t x s1 b1 a2 s2 where 1: "copy_commit env a1 t x st b = Inr (s1, b1)"
    and 2: "copy_notify env a2 (failure = None) s1 = Inr s2" and 3: "st' = put_attempt a s2"
    by (auto simp: settle_landing_def Let_def split: if_splits)
  obtain c where "notify_control env a2 (failure = None) (ce_control s1) = Inr c" "ce_control st' = c" "ce_intent st' = ce_intent s1"
    using 2 3 by (auto simp: copy_notify_def)
  moreover have "ct_status c \<notin> {BUY_PENDING, SELL_PENDING}"
    using \<open>notify_control env a2 (failure = None) (ce_control s1) = Inr c\<close>
    by (auto simp: notify_control_def Let_def control_results split: if_splits)
  ultimately show ?thesis using copy_commit_same[OF 1] by simp
qed

section \<open>Covered positions\<close>

definition covered :: "(digest \<Rightarrow> copy_position \<Rightarrow> bool) \<Rightarrow> ('s, 'p) copy_replay \<Rightarrow> bool" where
  "covered X r \<longleftrightarrow> (\<forall>d st. (d, st) \<in> set (cr_states r) \<longrightarrow> armed_by (cr_scheduled r) d st \<or> X d st)"

lemma put_covered:
  assumes "replay_inv r" and "position_of r d = Inr st" and "ce_intent st' = ce_intent st" and "covered X r"
    and "armed_by (cr_scheduled r) d st' \<or> Y d st'" and "\<And>e s. e \<noteq> d \<Longrightarrow> X e s \<Longrightarrow> Y e s"
  shows "covered Y (put_position st' r)"
proof -
  have "(d, st) \<in> set (cr_states r)" using assms(2) by (simp add: position_of_Inr map_of_SomeD)
  then have "ci_roundtrip_id (ce_intent st') = d" using assms(1,3) by (auto simp: replay_inv_def)
  then show ?thesis using assms(1,4,5,6) by (auto simp: covered_def put_position_def replay_inv_def set_update)
qed

lemma position_member: "position_of r d = Inr st \<Longrightarrow> (d, st) \<in> set (cr_states r)"
  by (simp add: position_of_Inr map_of_SomeD)

lemma covered_more: "covered X r \<Longrightarrow> (\<And>d st. X d st \<Longrightarrow> Y d st) \<Longrightarrow> covered Y r"
  by (auto simp: covered_def)

lemma schedule_scheduled:
  assumes "copy_schedule env st release p kind phase r = Inr r'"
  obtains due causal where "release = Some due" and "set (cr_scheduled r') = insert ((ordinal_of due, phase, ordinal_of p, causal),
    (ci_roundtrip_id (ce_intent st), kind)) (set (cr_scheduled r))" and "cr_states r' = cr_states r"
  using assms by (auto simp: copy_schedule_def Let_def heappush_def set_insort_key split: option.splits if_splits)

section \<open>The callbacks\<close>

definition asked :: "copy_requests \<Rightarrow> digest \<Rightarrow> copy_position \<Rightarrow> bool" where
  "asked q d st \<longleftrightarrow> dict_get q d = Some (ct_status (ce_control st) = BUY_PENDING)"

definition called :: "chain_position \<Rightarrow> ((int \<times> string) \<times> copy_callback) list \<Rightarrow> digest \<Rightarrow> copy_position \<Rightarrow> bool" where
  "called p cs d st \<longleftrightarrow> (\<exists>k. (k, ActionCallback d) \<in> set cs) \<and> moves_on (ce_control st) 40 (ordinal_of p)"

text \<open>A request of a known position is a buy exactly when the position has not been bought.\<close>

definition asks_right :: "('s, 'p) copy_replay \<Rightarrow> copy_requests \<Rightarrow> bool" where
  "asks_right r q \<longleftrightarrow> distinct (dict_keys q) \<and> (\<forall>d v st. dict_get q d = Some v \<longrightarrow> (d, st) \<in> set (cr_states r)
     \<longrightarrow> v = (ct_status (ce_control st) = BUY_PENDING))"

definition heard where
  "heard p cs s \<longleftrightarrow> replay_inv (fst s) \<and> asks_right (fst s) (snd s)
     \<and> covered (\<lambda>d st. called p cs d st \<or> asked (snd s) d st) (fst s)"

lemma request_exit_get: "dict_get (request_exit d q) e = (if e = d \<and> dict_get q d = None then Some False else dict_get q e)"
  by (auto simp: request_exit_def dict_get_set)

lemma request_exit_distinct: "distinct (dict_keys q) \<Longrightarrow> distinct (dict_keys (request_exit d q))"
  by (simp add: request_exit_def distinct_update)

text \<open>Putting back a position with the same status keeps the requests right.\<close>

lemma asks_put:
  assumes "replay_inv r" and "asks_right r q" and "position_of r d = Inr st" and "ce_intent st' = ce_intent st"
    and "ct_status (ce_control st') = ct_status (ce_control st)"
  shows "asks_right (put_position st' r) q"
proof -
  have "(d, st) \<in> set (cr_states r)" by (rule position_member[OF assms(3)])
  then have "ci_roundtrip_id (ce_intent st') = d" using assms(1,4) by (auto simp: replay_inv_def)
  then show ?thesis using assms(1,2,5) \<open>(d, st) \<in> set (cr_states r)\<close>
    by (auto simp: asks_right_def put_position_def replay_inv_def set_update)
qed

lemma asks_exit:
  assumes "asks_right r q" and "replay_inv r" and "(d, st) \<in> set (cr_states r)" and "ct_status (ce_control st) \<noteq> BUY_PENDING"
  shows "asks_right r (request_exit d q)" and "asked (request_exit d q) d st"
proof -
  have key: "dict_get (cr_states r) e = Some s" if "(e, s) \<in> set (cr_states r)" for e s
    using that assms(2) by (simp add: replay_inv_def)
  have "v = (ct_status (ce_control s) = BUY_PENDING)"
    if get: "dict_get (request_exit d q) e = Some v" and m: "(e, s) \<in> set (cr_states r)" for e v s
  proof (cases "e = d \<and> dict_get q d = None")
    case True
    then have "s = st" using key[OF m] key[OF assms(3)] by simp
    then show ?thesis using get True assms(4) by (simp add: request_exit_get)
  next
    case False
    then have "dict_get q e = Some v" using get by (simp add: request_exit_get split: if_splits)
    then show ?thesis using m assms(1) unfolding asks_right_def by blast
  qed
  then show "asks_right r (request_exit d q)"
    using assms(1) request_exit_distinct unfolding asks_right_def by blast
  show "asked (request_exit d q) d st"
    using assms by (cases "dict_get q d") (auto simp: asked_def request_exit_get asks_right_def)
qed

lemma asked_more: "asked q d st \<Longrightarrow> asked (request_exit e q) d st"
  by (auto simp: asked_def request_exit_get)

lemma armed_evaluated:
  assumes "armed_by xs d st" and "ct_status (ce_control st) = OPEN" and "evaluate_exit p price (ce_control st) = Inr (reason, c)"
  shows "armed_by xs d (st\<lparr>ce_control := c\<rparr>)"
proof -
  have "\<not> settled st" using assms(2) by (simp add: settled_def)
  then obtain release phase rest kind where "((release, phase, rest), (d, kind)) \<in> set xs" "moves_on (ce_control st) phase release"
    using assms(1) by (auto simp: armed_by_def)
  with evaluate_moves_on[OF assms(3)] have "moves_on (ce_control (st\<lparr>ce_control := c\<rparr>)) phase release" by simp
  with \<open>((release, phase, rest), (d, kind)) \<in> set xs\<close> show ?thesis unfolding armed_by_def by blast
qed

definition answers :: "digest \<Rightarrow> ((int \<times> string) \<times> copy_callback) list \<Rightarrow> ((int \<times> string) \<times> copy_callback) list \<Rightarrow> bool" where
  "answers d cs cs' \<longleftrightarrow> (\<forall>k e. (k, ActionCallback e) \<in> set cs \<longrightarrow> e = d \<or> (\<exists>k'. (k', ActionCallback e) \<in> set cs'))"

lemma answers_same: "answers d cs cs"
  by (auto simp: answers_def)

lemma answers_called: "answers d cs cs' \<Longrightarrow> e \<noteq> d \<Longrightarrow> called p cs e s \<Longrightarrow> called p cs' e s"
  unfolding answers_def called_def by blast

lemma exit_heard_open:
  assumes heard: "heard p cs (r, q)" and ans: "answers d cs cs'" and st: "position_of r d = Inr st"
    and stat: "ct_status (ce_control st) = OPEN" and run: "evaluate_exit p price (ce_control st) = Inr (reason, c)"
  shows "heard p cs' (put_position (st\<lparr>ce_control := c\<rparr>) r, if reason = None then q else request_exit d q)"
proof -
  let ?st = "st\<lparr>ce_control := c\<rparr>"
  let ?q = "if reason = None then q else request_exit d q"
  note c = evaluate_reason[OF run stat]
  have inv: "replay_inv r" and asks: "asks_right r q" and cov: "covered (\<lambda>d st. called p cs d st \<or> asked q d st) r"
    using heard by (simp_all add: heard_def)
  have 1: "replay_inv (put_position ?st r)"
    using put_advances[OF inv st, of ?st undefined 0] control_path_evaluation[OF run] by simp
  have m: "(d, st) \<in> set (cr_states r)" by (rule position_member[OF st])
  then have id: "ci_roundtrip_id (ce_intent st) = d" using inv by (auto simp: replay_inv_def)
  have asks1: "asks_right (put_position ?st r) q"
    by (rule asks_put[OF inv asks st]) (use c stat in simp_all)
  have m1: "(d, ?st) \<in> set (cr_states (put_position ?st r))"
    using id inv by (simp add: put_position_def set_update replay_inv_def)
  have new: "asked (request_exit d q) d ?st" "asks_right (put_position ?st r) (request_exit d q)"
    using asks_exit[OF asks1 1 m1] c by simp_all
  have 3: "covered (\<lambda>d st. called p cs' d st \<or> asked ?q d st) (put_position ?st r)"
  proof (rule put_covered[OF inv st _ cov])
    have "armed_by (cr_scheduled r) d st \<or> called p cs d st \<or> asked q d st" using cov m by (auto simp: covered_def)
    moreover have "reason \<noteq> None" if "called p cs d st"
      using evaluate_due[OF run stat] that by (simp add: called_def)
    moreover have "asked q d ?st" if "asked q d st" using that c stat by (simp add: asked_def)
    ultimately show "armed_by (cr_scheduled r) d ?st \<or> called p cs' d ?st \<or> asked ?q d ?st"
      using armed_evaluated[OF _ stat run] new(1) by auto
    show "called p cs' e s \<or> asked ?q e s" if "e \<noteq> d" and "called p cs e s \<or> asked q e s" for e s
      using that answers_called[OF ans] by (auto simp: asked_more)
  qed simp
  show ?thesis using 1 3 asks1 new(2) by (simp add: heard_def)
qed

lemma exit_heard:
  assumes run: "copy_exit env p d (r, q) = Inr s'" and heard: "heard p cs (r, q)" and ans: "answers d cs cs'"
  shows "heard p cs' s'"
proof -
  obtain st where st: "position_of r d = Inr st" using run by (auto simp: copy_exit_def)
  have inv: "replay_inv r" and asks: "asks_right r q" and cov: "covered (\<lambda>d st. called p cs d st \<or> asked q d st) r"
    using heard by (simp_all add: heard_def)
  have m: "(d, st) \<in> set (cr_states r)" by (rule position_member[OF st])
  then have id: "ci_roundtrip_id (ce_intent st) = d" using inv by (auto simp: replay_inv_def)
  show ?thesis
  proof (cases "ct_status (ce_control st) = OPEN")
    case True
    then obtain price reason c where "evaluate_exit p price (ce_control st) = Inr (reason, c)"
      "s' = (put_position (st\<lparr>ce_control := c\<rparr>) r, if reason = None then q else request_exit d q)"
      using run st id by (auto simp: copy_exit_def Let_def)
    then show ?thesis using exit_heard_open[OF heard ans st True] by simp
  next
    case False
    let ?due = "ct_status (ce_control st) = RETRY_WAIT
      \<and> (\<exists>x. ct_retry_position (ce_control st) = Some x \<and> ordinal_of x \<le> ordinal_of p)"
    have s': "s' = (r, if ?due then request_exit d q else q)"
      using run st id False by (auto simp: copy_exit_def Let_def split: if_splits option.splits)
    have due: "?due" if "called p cs d st"
      using that False by (auto simp: called_def moves_on_def split: copy_position_status.splits)
    have key: "s = st" if "(d, s) \<in> set (cr_states r)" for s
      using that inv st by (simp add: replay_inv_def position_of_Inr)
    have "covered (\<lambda>d st. called p cs' d st \<or> asked (snd s') d st) r"
      unfolding covered_def
    proof (intro allI impI)
      fix e s assume es: "(e, s) \<in> set (cr_states r)"
      then have old: "armed_by (cr_scheduled r) e s \<or> called p cs e s \<or> asked q e s" using cov by (auto simp: covered_def)
      have "asked (snd s') e s" if "asked q e s" using that asked_more by (simp add: s')
      moreover have "called p cs' e s \<or> asked (snd s') e s" if c: "called p cs e s"
      proof (cases "e = d")
        case True
        then have s: "s = st" using key es by simp
        then have ?due using due c True by simp
        then have "ct_status (ce_control st) \<noteq> BUY_PENDING" "snd s' = request_exit d q" by (simp_all add: s')
        then show ?thesis using asks_exit(2)[OF asks inv m] True s by simp
      next
        case False
        then show ?thesis using answers_called[OF ans] c by simp
      qed
      ultimately show "armed_by (cr_scheduled r) e s \<or> called p cs' e s \<or> asked (snd s') e s" using old by blast
    qed
    moreover have "asks_right r (snd s')"
      using asks asks_exit(1)[OF asks inv m] by (cases ?due) (simp_all add: s')
    ultimately show ?thesis using inv by (simp add: heard_def s')
  qed
qed

lemma entry_heard:
  assumes run: "copy_entry env decisions limits p (r, q) signal = Inr s'" and heard: "heard p cs (r, q)"
  shows "heard p cs s'"
proof -
  have inv: "replay_inv r" and asks: "asks_right r q" and cov: "covered (\<lambda>d st. called p cs d st \<or> asked q d st) r"
    using heard by (simp_all add: heard_def)
  consider (same) strategy where "s' = (r\<lparr>cr_strategy := strategy\<rparr>, q)"
    | (entered) i strategy venues where "s' = (r\<lparr>cr_strategy := strategy,
        cr_states := dict_set (ci_roundtrip_id i) (CopyExecutionPosition i) (cr_states r), cr_by_venue := venues\<rparr>,
        dict_set (ci_roundtrip_id i) True q)"
  proof (cases "contains_block decisions (cp_block_ordinal (cs_position signal))")
    case False
    then show thesis using run same[of "cr_strategy r"] by (simp add: copy_entry_def)
  next
    case True
    then obtain intent strategy where "cv_decide env (cr_strategy r) signal p = Inr (intent, strategy)"
      using run by (auto simp: copy_entry_def)
    with run True show thesis
      by (cases intent) (auto simp: copy_entry_def Let_def split: if_splits intro: same entered)
  qed
  then show ?thesis
  proof cases
    case same
    then show ?thesis using inv asks cov by (simp add: heard_def replay_inv_def asks_right_def covered_def)
  next
    case entered
    let ?d = "ci_roundtrip_id i"
    have pend: "ct_status (ce_control (CopyExecutionPosition i)) = BUY_PENDING"
      by (simp add: CopyExecutionPosition_def CopyPositionControl_def)
    have states: "set (cr_states (fst s')) = insert (?d, CopyExecutionPosition i) {e \<in> set (cr_states r). fst e \<noteq> ?d}"
      using inv by (simp add: entered set_update replay_inv_def)
    have get: "dict_get (snd s') e = (if e = ?d then Some True else dict_get q e)" for e
      by (simp add: entered dict_get_set)
    have "asks_right (fst s') (snd s')"
      unfolding asks_right_def states get using asks pend
      by (auto simp: asks_right_def entered distinct_update split: if_splits)
    moreover have "covered (\<lambda>d st. called p cs d st \<or> asked (snd s') d st) (fst s')"
      unfolding covered_def states asked_def get using cov pend
      by (auto simp: covered_def asked_def entered)
    ultimately show ?thesis using replay_inv_entry[OF inv] by (simp add: heard_def entered)
  qed
qed

lemma market_heard:
  assumes "market_callback env decisions limits p g signals s = Inr s'" and "heard p cs s"
  shows "heard p cs s'"
proof -
  obtain held s1 where 1: "foldE (\<lambda>s d. copy_exit env p d s) s held = Inr s1"
    and 2: "foldE (copy_entry env decisions limits p) s1 signals = Inr s'"
    using assms(1) by (cases s) (auto simp: market_callback_def Let_def)
  have "heard p cs s1"
  proof (rule foldE_invariant[where P = "heard p cs", OF 1 assms(2)])
    fix s d s' assume "copy_exit env p d s = Inr s'" and "heard p cs s"
    then show "heard p cs s'" using answers_same exit_heard by (cases s) blast
  qed
  then show ?thesis
  proof (rule foldE_invariant[where P = "heard p cs", OF 2])
    fix s x s' assume "copy_entry env decisions limits p s x = Inr s'" and "heard p cs s"
    then show "heard p cs s'" by (cases s) (auto intro: entry_heard)
  qed
qed

lemma callbacks_heard:
  assumes "foldE (copy_callback_step env decisions limits p) s cs = Inr s'" and "heard p cs s"
  shows "heard p [] s'"
  using assms
proof (induction cs arbitrary: s)
  case (Cons c cs)
  obtain s1 where 1: "copy_callback_step env decisions limits p s c = Inr s1"
    and 2: "foldE (copy_callback_step env decisions limits p) s1 cs = Inr s'"
    using Cons.prems(1) by auto
  have "heard p cs s1"
  proof (cases "snd c")
    case (ActionCallback d)
    then have "copy_exit env p d (fst s, snd s) = Inr s1" using 1 by (simp add: copy_callback_step_def)
    moreover have "answers d (c # cs) cs" using ActionCallback by (fastforce simp: answers_def)
    ultimately show ?thesis using exit_heard Cons.prems(2) by (metis prod.collapse)
  next
    case (MarketCallback g signals)
    then have "market_callback env decisions limits p g signals s = Inr s1" using 1 by (simp add: copy_callback_step_def)
    from market_heard[OF this Cons.prems(2)] have "heard p (c # cs) s1" .
    moreover have "called p (c # cs) d st = called p cs d st" for d st
      using MarketCallback by (cases c) (auto simp: called_def)
    ultimately show ?thesis by (simp add: heard_def)
  qed
  then show ?case by (rule Cons.IH[OF 2])
qed simp

section \<open>Requests, landings and notifications\<close>

text \<open>The replay records the books before it puts a position back.\<close>

lemma covered_books [simp]: "covered X (r\<lparr>cr_books := b\<rparr>) = covered X r"
  by (simp add: covered_def)

text \<open>An operation of the executor and the action it leads to.\<close>

lemma schedule_covers:
  assumes "copy_schedule env st release p kind phase r = Inr r'" and "covered X r"
    and "ci_roundtrip_id (ce_intent st) = d" and "\<And>e s. e \<noteq> d \<Longrightarrow> X e s \<Longrightarrow> Y e s"
    and "\<And>s. (d, s) \<in> set (cr_states r) \<Longrightarrow> s = st"
    and "\<And>due. release = Some due \<Longrightarrow> moves_on (ce_control st) phase (ordinal_of due)"
  shows "covered Y r'"
proof -
  obtain due causal where due: "release = Some due" and new: "set (cr_scheduled r') = insert ((ordinal_of due, phase, ordinal_of p, causal),
    (ci_roundtrip_id (ce_intent st), kind)) (set (cr_scheduled r))" and same: "cr_states r' = cr_states r"
    by (rule schedule_scheduled[OF assms(1)])
  have more: "set (cr_scheduled r) \<subseteq> set (cr_scheduled r')" using new by auto
  show ?thesis unfolding covered_def same
  proof (intro allI impI)
    fix e s assume es: "(e, s) \<in> set (cr_states r)"
    show "armed_by (cr_scheduled r') e s \<or> Y e s"
    proof (cases "e = d")
      case True
      then have "moves_on (ce_control s) phase (ordinal_of due)" using assms(5)[of s] assms(6)[OF due] es by simp
      then have "armed_by (cr_scheduled r') e s" using new assms(3) True unfolding armed_by_def by blast
      then show ?thesis ..
    next
      case False
      then show ?thesis using assms(2,4) es armed_by_more[OF _ more] unfolding covered_def by blast
    qed
  qed
qed

lemma put_at:
  assumes "replay_inv r" and "position_of r d = Inr st" and "ce_intent st' = ce_intent st"
  shows "ci_roundtrip_id (ce_intent st') = d" and "(d, s) \<in> set (cr_states (put_position st' r)) \<Longrightarrow> s = st'"
proof -
  show id: "ci_roundtrip_id (ce_intent st') = d"
    using assms(1,3) position_member[OF assms(2)] by (auto simp: replay_inv_def)
  show "s = st'" if "(d, s) \<in> set (cr_states (put_position st' r))"
    using that assms(1) id by (auto simp: put_position_def set_update replay_inv_def)
qed

lemma outcome_covered:
  assumes inv: "replay_inv r" and st: "position_of r d = Inr st" and same: "ce_intent st' = ce_intent st"
    and cov: "covered X r" and other: "\<And>e s. e \<noteq> d \<Longrightarrow> X e s \<Longrightarrow> Y e s"
    and run: "schedule_outcome env p a st' (put_position st' r) = Inr r'"
    and out: "ca_status a = SUBMITTED \<and> ct_status (ce_control st') \<in> {BUY_PENDING, SELL_PENDING}
      \<or> ca_status a = REJECTED \<and> ct_status (ce_control st') \<in> {BUY_FAILED, RETRY_WAIT, EXHAUSTED}"
  shows "covered Y r'"
proof -
  note at = put_at[OF inv st same]
  let ?Z = "\<lambda>e s. e = d \<or> Y e s"
  have put: "covered ?Z (put_position st' r)" by (rule put_covered[OF inv st same cov]) (auto intro: other)
  consider "copy_schedule env st' (Some (ca_expected_landing a)) p ''ORDER'' 60 (put_position st' r) = Inr r'"
      "ct_status (ce_control st') \<in> {BUY_PENDING, SELL_PENDING}"
    | "copy_schedule env st' (ct_retry_position (ce_control st')) p ''RETRY'' 40 (put_position st' r) = Inr r'"
      "ct_status (ce_control st') = RETRY_WAIT"
    | "r' = put_position st' r" "settled st'"
    using out
  proof
    assume "ca_status a = SUBMITTED \<and> ct_status (ce_control st') \<in> {BUY_PENDING, SELL_PENDING}"
    then show thesis using run that(1) by (simp add: schedule_outcome_def)
  next
    assume r: "ca_status a = REJECTED \<and> ct_status (ce_control st') \<in> {BUY_FAILED, RETRY_WAIT, EXHAUSTED}"
    show thesis
    proof (cases "ct_status (ce_control st') = RETRY_WAIT")
      case True
      then show thesis using run r that(2) by (simp add: schedule_outcome_def)
    next
      case False
      then have "r' = put_position st' r" using run r by (simp add: schedule_outcome_def)
      moreover have "settled st'" using r False by (auto simp: settled_def)
      ultimately show thesis by (rule that(3))
    qed
  qed
  then show ?thesis
  proof cases
    case 1
    show ?thesis
      by (rule schedule_covers[OF 1(1) put at(1)]) (use at(2) 1(2) other in \<open>auto simp: moves_on_def\<close>)
  next
    case 2
    show ?thesis
      by (rule schedule_covers[OF 2(1) put at(1)]) (use at(2) 2(2) other in \<open>auto simp: moves_on_def\<close>)
  next
    case 3
    then show ?thesis using put at(2) by (fastforce simp: covered_def armed_by_def)
  qed
qed

lemma outcome_states:
  "schedule_outcome env p a st r = Inr r' \<Longrightarrow> cr_states r' = cr_states r"
  by (auto simp: schedule_outcome_def dest: copy_schedule_effect(4) split: if_splits)

lemma request_covered:
  assumes run: "copy_request env p r (d, v) = Inr r'" and inv: "replay_inv r"
    and asks: "asks_right r ((d, v) # q)" and cov: "covered (asked ((d, v) # q)) r"
  shows "asks_right r' q \<and> covered (asked q) r'"
proof -
  obtain st a st' b where st: "position_of r d = Inr st"
    and op: "(if v then begin_buy env (cr_observed r) st (cr_books r)
       else begin_sell env (cr_observed r) p st (cr_books r)) = Inr (a, st', b)"
    and out: "schedule_outcome env p a st' (put_position st' (r\<lparr>cr_books := b\<rparr>)) = Inr r'"
    using run by (auto simp: copy_request_def)
  let ?r = "r\<lparr>cr_books := b\<rparr>"
  have m: "(d, st) \<in> set (cr_states r)" by (rule position_member[OF st])
  have "dict_get ((d, v) # q) d = Some v" by simp
  then have v: "v = (ct_status (ce_control st) = BUY_PENDING)" using asks m unfolding asks_right_def by blast
  have result: "ce_intent st' = ce_intent st \<and> (ca_status a = SUBMITTED \<and> ct_status (ce_control st') \<in> {BUY_PENDING, SELL_PENDING}
      \<or> ca_status a = REJECTED \<and> ct_status (ce_control st') \<in> {BUY_FAILED, RETRY_WAIT, EXHAUSTED})"
    using op v begin_buy_outcome[of env "cr_observed r" st "cr_books r" a st' b]
      begin_sell_outcome[of env "cr_observed r" p st "cr_books r" a st' b] by (cases v) auto
  have st1: "position_of ?r d = Inr st" and inv1: "replay_inv ?r" using st inv by simp_all
  have cov1: "covered (asked ((d, v) # q)) ?r" using cov by simp
  have "covered (asked q) r'"
    by (rule outcome_covered[OF inv1 st1 conjunct1[OF result] cov1 _ out conjunct2[OF result]]) (simp add: asked_def)
  moreover have "asks_right r' q"
  proof -
    have "set (cr_states r') = insert (d, st') {e \<in> set (cr_states r). fst e \<noteq> d}"
      using outcome_states[OF out] inv put_at(1)[OF inv1 st1 conjunct1[OF result]]
      by (simp add: put_position_def set_update replay_inv_def)
    moreover have "dict_get q d = None" using asks by (simp add: asks_right_def map_of_eq_None_iff)
    ultimately show ?thesis using asks by (auto simp: asks_right_def split: if_splits)
  qed
  ultimately show ?thesis by simp
qed

lemma requests_covered:
  assumes "foldE (copy_request env p) r q = Inr r'" and "replay_inv r" and "asks_right r q" and "covered (asked q) r"
  shows "covered (\<lambda>_ _. False) r'"
  using assms
proof (induction q arbitrary: r)
  case Nil
  then show ?case by (auto simp: covered_def asked_def)
next
  case (Cons x q)
  obtain d v where x: "x = (d, v)" by (cases x)
  obtain r1 where 1: "copy_request env p r (d, v) = Inr r1" and 2: "foldE (copy_request env p) r1 q = Inr r'"
    using Cons.prems(1) by (auto simp: x)
  have "asks_right r1 q \<and> covered (asked q) r1"
    using request_covered[OF 1 Cons.prems(2)] Cons.prems(3,4) by (simp add: x)
  then show ?case using Cons.IH[OF 2] request_effect[OF 1 Cons.prems(2)] by simp
qed

definition pending :: "(copy_action_key \<times> copy_action) list \<Rightarrow> digest \<Rightarrow> copy_position \<Rightarrow> bool" where
  "pending as d st \<longleftrightarrow> (\<exists>release phase rest kind. ((release, phase, rest), (d, kind)) \<in> set as
     \<and> moves_on (ce_control st) phase release)"

definition landed :: "digest list \<Rightarrow> digest \<Rightarrow> copy_position \<Rightarrow> bool" where
  "landed ds d st \<longleftrightarrow> d \<in> set ds \<and> ct_status (ce_control st) \<notin> {BUY_PENDING, SELL_PENDING}"

lemma landings_covered:
  assumes "foldE (copy_landing env p) (r, nt) as = Inr (r', nt')" and "replay_inv r"
    and "covered (\<lambda>d st. pending as d st \<or> landed nt d st) r"
  shows "covered (landed nt') r'"
  using assms
proof (induction as arbitrary: r nt)
  case Nil
  then show ?case by (simp add: pending_def)
next
  case (Cons a as)
  obtain r1 nt1 where 1: "copy_landing env p (r, nt) a = Inr (r1, nt1)"
    and 2: "foldE (copy_landing env p) (r1, nt1) as = Inr (r', nt')"
    using Cons.prems(1) by auto
  obtain key d kind st att st' b where a: "a = (key, (d, kind))" and st: "position_of r d = Inr st"
    and op: "copy_land env (cr_historical r) p st (cr_books r) = Inr (att, st', b)"
    and r1: "r1 = put_position st' (r\<lparr>cr_books := b\<rparr>)" "nt1 = nt @ [d]"
    using 1 by (cases a) (auto simp: copy_landing_def split: if_splits)
  note out = land_outcome[OF op]
  have "covered (\<lambda>d st. pending as d st \<or> landed nt1 d st) r1"
    unfolding r1(1)
  proof (rule put_covered)
    show "replay_inv (r\<lparr>cr_books := b\<rparr>)" "position_of (r\<lparr>cr_books := b\<rparr>) d = Inr st" using Cons.prems(2) st by simp_all
    show "covered (\<lambda>d st. pending (a # as) d st \<or> landed nt d st) (r\<lparr>cr_books := b\<rparr>)" using Cons.prems(3) by simp
    show "ce_intent st' = ce_intent st" using out by simp
    show "armed_by (cr_scheduled (r\<lparr>cr_books := b\<rparr>)) d st' \<or> pending as d st' \<or> landed nt1 d st'"
      using out by (simp add: landed_def r1(2))
    show "pending as e s \<or> landed nt1 e s" if "e \<noteq> d" "pending (a # as) e s \<or> landed nt e s" for e s
      using that by (auto simp: pending_def landed_def a r1(2))
  qed
  then show ?case using Cons.IH[OF 2] landing_effect[OF 1 Cons.prems(2)] by simp
qed

lemma evaluated_covered:
  assumes inv: "replay_inv r" and st: "position_of r d = Inr st" and stat: "ct_status (ce_control st) = OPEN"
    and run: "evaluate_exit p price (ce_control st) = Inr (reason, c)"
    and hold: "schedule_hold env p reason (st\<lparr>ce_control := c\<rparr>) (put_position (st\<lparr>ce_control := c\<rparr>) r) = Inr r'"
    and cov: "covered X r" and other: "\<And>e s. e \<noteq> d \<Longrightarrow> X e s \<Longrightarrow> Y e s"
  shows "covered Y r'"
proof -
  let ?st = "st\<lparr>ce_control := c\<rparr>"
  have same: "ce_intent ?st = ce_intent st" by simp
  note at = put_at[OF inv st same]
  note c = evaluate_reason[OF run stat]
  have put: "covered (\<lambda>e s. e = d \<or> Y e s) (put_position ?st r)"
    by (rule put_covered[OF inv st same cov]) (auto intro: other)
  show ?thesis
  proof (cases reason)
    case None
    then have "copy_schedule env ?st (ct_deadline (ce_control ?st)) p ''HOLD'' 40 (put_position ?st r) = Inr r'"
      using hold by (simp add: schedule_hold_def)
    then show ?thesis
      by (rule schedule_covers[OF _ put at(1)]) (use at(2) c other in \<open>auto simp: moves_on_def\<close>)
  next
    case (Some x)
    then obtain due where "copy_schedule env ?st (Some due) p ''EXIT'' 40 (put_position ?st r) = Inr r'"
      using hold by (auto simp: schedule_hold_def)
    then show ?thesis
      by (rule schedule_covers[OF _ put at(1)]) (use at(2) c other Some in \<open>auto simp: moves_on_def\<close>)
  qed
qed

lemma notification_covered:
  assumes run: "copy_notification env p r d = Inr r'" and inv: "replay_inv r" and cov: "covered (landed (d # ds)) r"
  shows "covered (landed ds) r'"
proof -
  obtain st where st: "position_of r d = Inr st" using run by (auto simp: copy_notification_def)
  have other: "\<And>e s. e \<noteq> d \<Longrightarrow> landed (d # ds) e s \<Longrightarrow> landed ds e s" by (simp add: landed_def)
  have key: "s = st" if "(d, s) \<in> set (cr_states r)" for s
    using that inv st by (simp add: replay_inv_def position_of_Inr)
  have id: "ci_roundtrip_id (ce_intent st) = d" using put_at(1)[OF inv st refl] .
  show ?thesis
  proof (cases "ct_status (ce_control st) = OPEN")
    case True
    then obtain price reason c where e: "evaluate_exit p price (ce_control st) = Inr (reason, c)"
      and hold: "schedule_hold env p reason (st\<lparr>ce_control := c\<rparr>) (put_position (st\<lparr>ce_control := c\<rparr>) r) = Inr r'"
      using run st by (auto simp: copy_notification_def Let_def)
    show ?thesis by (rule evaluated_covered[OF inv st True e hold cov other])
  next
    case False
    show ?thesis
    proof (cases "ct_status (ce_control st) = RETRY_WAIT")
      case True
      then have "copy_schedule env st (ct_retry_position (ce_control st)) p ''RETRY'' 40 r = Inr r'"
        using run st by (simp add: copy_notification_def)
      then show ?thesis
        by (rule schedule_covers[OF _ cov id other]) (use key True in \<open>auto simp: moves_on_def\<close>)
    next
      case waits: False
      then have r': "r' = r" using run st False by (simp add: copy_notification_def)
      have "settled st" if "landed (d # ds) d st"
        using that False waits by (cases "ct_status (ce_control st)") (simp_all add: landed_def settled_def)
      then have "settled s" if "(d, s) \<in> set (cr_states r)" "landed (d # ds) d s" for s
        using that key by blast
      then show ?thesis using cov other unfolding covered_def r' armed_by_def by metis
    qed
  qed
qed

lemma notifications_covered:
  assumes "foldE (copy_notification env p) r ds = Inr r'" and "replay_inv r" and "covered (landed ds) r"
  shows "covered (\<lambda>_ _. False) r'"
  using assms
proof (induction ds arbitrary: r)
  case Nil
  then show ?case by (simp add: landed_def)
next
  case (Cons d ds)
  obtain r1 where 1: "copy_notification env p r d = Inr r1" and 2: "foldE (copy_notification env p) r1 ds = Inr r'"
    using Cons.prems(1) by auto
  show ?case using Cons.IH[OF 2] notification_effect[OF 1 Cons.prems(2)] notification_covered[OF 1 Cons.prems(2,3)] by simp
qed

section \<open>Every boundary leaves every position armed\<close>

lemma take_or_drop: "x \<in> set xs \<Longrightarrow> x \<in> set (takeWhile P xs) \<or> x \<in> set (dropWhile P xs)"
  by (metis Un_iff set_append takeWhile_dropWhile_id)

lemma armed_split:
  assumes "armed_by xs d st"
  shows "armed_by (dropWhile P xs) d st \<or> pending (takeWhile P xs) d st"
proof (cases "settled st")
  case False
  then obtain release phase rest kind where x: "((release, phase, rest), (d, kind)) \<in> set xs"
    and "moves_on (ce_control st) phase release" using assms by (auto simp: armed_by_def)
  with take_or_drop[OF x, of P] show ?thesis unfolding armed_by_def pending_def by blast
qed (simp add: armed_by_def)

lemma history_keeps:
  "replay_history env boundary r = Inr r' \<Longrightarrow> cr_states r' = cr_states r \<and> cr_scheduled r' = cr_scheduled r"
  by (auto simp: replay_history_def split: option.splits if_splits)

lemma observation_keeps:
  "replay_observation env boundary r = Inr (market, r') \<Longrightarrow> cr_states r' = cr_states r \<and> cr_scheduled r' = cr_scheduled r"
  by (auto simp: replay_observation_def split: option.splits if_splits)

lemma callbacks_covered:
  assumes run: "replay_callbacks env decisions limits boundary p market r = Inr (r', q)" and "ordinal_of p = boundary"
    and inv: "replay_inv r" and cov: "covered (\<lambda>_ _. False) r"
  shows "replay_inv r' \<and> asks_right r' q \<and> covered (asked q) r'"
proof -
  let ?due = "takeWhile (decision_due boundary) (cr_scheduled r)"
  let ?r = "r\<lparr>cr_scheduled := dropWhile (decision_due boundary) (cr_scheduled r)\<rparr>"
  let ?cs = "sort_key fst (market @ action_callbacks ?due)"
  have fold: "foldE (copy_callback_step env decisions limits p) (?r, []) ?cs = Inr (r', q)"
    using run by (simp add: replay_callbacks_def Let_def)
  have "covered (\<lambda>d st. called p ?cs d st \<or> asked [] d st) ?r"
    unfolding covered_def
  proof (intro allI impI)
    fix d st assume "(d, st) \<in> set (cr_states ?r)"
    then have "armed_by (cr_scheduled r) d st" using cov by (simp add: covered_def)
    then consider "armed_by (dropWhile (decision_due boundary) (cr_scheduled r)) d st" | "pending ?due d st"
      using armed_split by blast
    then show "armed_by (cr_scheduled ?r) d st \<or> called p ?cs d st \<or> asked [] d st"
    proof cases
      case 2
      then obtain release phase rest kind where due: "((release, phase, rest), (d, kind)) \<in> set ?due"
        and "moves_on (ce_control st) phase release" by (auto simp: pending_def)
      moreover have "release = boundary" "phase = 40" using set_takeWhileD[OF due] by (auto simp: decision_due_def)
      moreover have "(rest, ActionCallback d) \<in> set ?cs" using due by (force simp: action_callbacks_def)
      ultimately have "called p ?cs d st" unfolding called_def using assms(2) by blast
      then show ?thesis by simp
    qed simp
  qed
  then have "heard p ?cs (?r, [])" using inv by (simp add: heard_def replay_inv_def asks_right_def)
  from callbacks_heard[OF fold this] show ?thesis by (simp add: heard_def called_def)
qed

lemma boundary_covered:
  assumes run: "copy_boundary env decisions limits r = Inr r'" and inv: "replay_inv r" and cov: "covered (\<lambda>_ _. False) r"
  shows "covered (\<lambda>_ _. False) r'"
  using run
proof (rule copy_boundary_parts)
  let ?b = "copy_next_boundary r"
  fix p r1 market r2 r3 q r4 r5 nt
  assume at: "from_boundary_ordinal (tc_network_id (cv_clock env)) (tc_position_schema_id (cv_clock env)) ?b None = Inr p"
    and h: "replay_history env ?b r = Inr r1" and o: "replay_observation env ?b r1 = Inr (market, r2)"
    and c: "replay_callbacks env decisions limits ?b p market r2 = Inr (r3, q)"
    and q: "foldE (copy_request env p) r3 q = Inr r4"
    and l: "replay_landings env ?b p r4 = Inr (r5, nt)"
    and n: "foldE (copy_notification env p) r5 nt = Inr r'"
  have p: "ordinal_of p = ?b" using from_boundary_ordinal_of[OF at] by simp
  have 2: "replay_inv r2" using history_effect(2)[OF h] observation_effect(2)[OF o] inv by simp
  have "covered (\<lambda>_ _. False) r2" using cov history_keeps[OF h] observation_keeps[OF o] by (simp add: covered_def)
  then have 3: "replay_inv r3 \<and> asks_right r3 q \<and> covered (asked q) r3" by (rule callbacks_covered[OF c p 2])
  have 4: "replay_inv r4" "covered (\<lambda>_ _. False) r4" using requests_effect[OF q] requests_covered[OF q] 3 by simp_all
  let ?due = "takeWhile (\<lambda>a. fst (fst a) = ?b) (cr_scheduled r4)"
  let ?r4 = "r4\<lparr>cr_scheduled := dropWhile (\<lambda>a. fst (fst a) = ?b) (cr_scheduled r4)\<rparr>"
  have land: "foldE (copy_landing env p) (?r4, []) ?due = Inr (r5, nt)" using l by (simp add: replay_landings_def Let_def)
  have inv4: "replay_inv ?r4" using 4(1) by (simp add: replay_inv_def)
  have "covered (\<lambda>d st. pending ?due d st \<or> landed [] d st) ?r4"
    unfolding covered_def
  proof (intro allI impI)
    fix d st assume "(d, st) \<in> set (cr_states ?r4)"
    then have "armed_by (cr_scheduled r4) d st" using 4(2) by (simp add: covered_def)
    then show "armed_by (cr_scheduled ?r4) d st \<or> pending ?due d st \<or> landed [] d st"
      using armed_split[of "cr_scheduled r4" d st "\<lambda>a. fst (fst a) = ?b"] by simp blast
  qed
  from landings_covered[OF land inv4 this] have "covered (landed nt) r5" .
  then show ?thesis using notifications_covered[OF n] landings_effect[OF land inv4] by simp
qed

text \<open>C8: A copy replay leaves no position behind: when its loop has ended, every position it opened is closed,
  exhausted or failed to be bought, so the closing check for an unfinished settlement path never fails.\<close>

theorem copy_positions_settle:
  assumes start: "start_replay env src strategy protocol b = Inr r0"
    and ended: "copy_loop env decisions limits r0 = Some (Inr r)"
  shows "(\<forall>d st. (d, st) \<in> set (cr_states r) \<longrightarrow> ct_status (ce_control st) \<in> {copy_position_status.CLOSED, EXHAUSTED, BUY_FAILED})
    \<and> cr_scheduled r = []"
proof -
  have "covered (\<lambda>_ _. False) r0" using start by (auto simp: start_replay_def covered_def)
  from copy_loop_invariant[where P = "covered (\<lambda>_ _. False)", OF ended start_replay_inv[OF start] this] boundary_covered
  have "covered (\<lambda>_ _. False) r" "replay_done r" by blast+
  then show ?thesis by (auto simp: covered_def armed_by_def replay_done_def settled_def)
qed

end
