(* ===== verification/Copy_Results.thy ===== *)
theory Copy_Results
  imports Copy_Replay
begin

text \<open>
  The frozen results of a copy run (\<^verbatim>\<open>engine/copytrading_results.py\<close>): the record of one finalized instruction and
  of one terminal position with everything their constructors check, their documents, and the projection of the
  executor's state onto them when the replay has ended.
\<close>

section \<open>Documents of the parts\<close>

definition COPY_POSITION_SCHEMA :: string where "COPY_POSITION_SCHEMA = ''pumpfun-copy-position/v1''"
definition COPY_POSITION_STREAM :: string where "COPY_POSITION_STREAM = ''backtest.copy-position-stream.v1''"
definition COPY_BALANCE_STREAM :: string where "COPY_BALANCE_STREAM = ''backtest.copy-final-balances.v1''"

definition copy_coordinates_document :: "chain_position option \<Rightarrow> json" where
  "copy_coordinates_document position = (case position of
     None \<Rightarrow> JNull
   | Some p \<Rightarrow> JObj
       [(''network_id'', JStr (cp_network_id p)), (''position_schema_id'', JStr (cp_position_schema_id p)),
        (''block_ordinal'', JInt (cp_block_ordinal p)), (''transaction_index'', JInt (cp_transaction_index p)),
        (''event_index'', optional_int (cp_event_index p))])"

definition copy_price_document :: "token_price option \<Rightarrow> json" where
  "copy_price_document price = (case price of None \<Rightarrow> JNull | Some p \<Rightarrow> token_price_document p)"

definition copy_evidence_document :: "liquidity_evidence option \<Rightarrow> json" where
  "copy_evidence_document evidence = (case evidence of
     None \<Rightarrow> JNull
   | Some e \<Rightarrow> JObj
       [(''policy_id'', JStr (lv_policy_id e)), (''asset_id'', JStr (lv_asset_id e)),
        (''required_output_atomic'', JInt (lv_required_output e)),
        (''observed_available_output_atomic'', JInt (lv_observed_output e)),
        (''synthetic_shortfall_atomic'', JInt (lv_synthetic_shortfall e)),
        (''synthetic_source_account_id'', optional_string (lv_synthetic_source e))])"

definition copy_quote_document :: "protocol_quote option \<Rightarrow> json" where
  "copy_quote_document quoted = (case quoted of
     None \<Rightarrow> JNull
   | Some q \<Rightarrow> JObj
       [(''side'', JStr (quote_side_value (pq_side q))), (''input_asset_id'', JStr (pq_input_asset_id q)),
        (''output_asset_id'', JStr (pq_output_asset_id q)), (''amount_in_atomic'', JInt (pq_amount_in q)),
        (''amount_out_atomic'', JInt (pq_amount_out q)), (''venue_input_atomic'', JInt (pq_venue_input q)),
        (''venue_output_atomic'', JInt (pq_venue_output q)), (''protocol_fee_atomic'', JInt (pq_protocol_fee q)),
        (''creator_fee_atomic'', JInt (pq_creator_fee q)), (''cashback_receivable_atomic'', JInt (pq_cashback q)),
        (''protocol_fee_account_id'', JStr (pq_protocol_fee_account q)),
        (''creator_fee_account_id'', JStr (pq_creator_fee_account q)),
        (''cashback_source_account_id'', JStr (pq_cashback_source_account q)),
        (''liquidity'', copy_evidence_document (pq_liquidity q))])"

section \<open>Attempt records\<close>

record copy_attempt_record =
  xa_order_id :: order_id
  xa_number :: int
  xa_decision :: chain_position
  xa_expected_landing :: chain_position
  xa_status :: copy_attempt_status
  xa_landed_at :: "chain_position option"
  xa_reference :: "protocol_quote option"
  xa_landing_quote :: "protocol_quote option"
  xa_minimum_out :: int
  xa_failure_code :: "string option"
  xa_network_fee_asset_id :: string
  xa_network_base_fee_paid :: int
  xa_network_priority_fee_paid :: int

text \<open>The checks of the outcome: the fees, the quotes and the failure code fit the status.\<close>

definition copy_outcome_check :: "copy_attempt_record \<Rightarrow> unit res" where
  "copy_outcome_check a =
     (let landed = (xa_status a \<noteq> REJECTED) in
      if landed \<noteq> (xa_landed_at a \<noteq> None) then
        Inl (ValueError ''copy result landing and failure stage disagree'')
      else if \<not> landed \<and> (xa_network_base_fee_paid a \<noteq> 0 \<or> xa_network_priority_fee_paid a \<noteq> 0) then
        Inl (ValueError ''copy pre-submit rejection cannot pay a network fee'')
      else if xa_status a = FILLED \<and> (xa_landing_quote a = None \<or> xa_failure_code a \<noteq> None) then
        Inl (ValueError ''copy fill is missing its actual quote'')
      else if xa_status a \<noteq> FILLED \<and> xa_failure_code a = None then
        Inl (ValueError ''copy failed attempt is missing its reason'')
      else if landed \<and> xa_reference a = None then
        Inl (ValueError ''copy landed attempt has no reference quote'')
      else raise_if (xa_status a = FILLED
          \<and> (case xa_landing_quote a of None \<Rightarrow> False | Some q \<Rightarrow> pq_amount_out q < xa_minimum_out a))
        (ValueError ''copy filled quote violates its slippage limit''))"

definition CopyAttemptRecord :: "copy_attempt_record \<Rightarrow> copy_attempt_record res" where
  "CopyAttemptRecord a =
     (if xa_minimum_out a < 0 \<or> xa_network_base_fee_paid a < 0 \<or> xa_network_priority_fee_paid a < 0 then
        Inl (ValueError ''copy attempt contains an invalid nonnegative amount'')
      else
        bindE (require_same_chain (xa_decision a) (xa_expected_landing a)) (\<lambda>_.
        if ordinal_of (xa_expected_landing a) \<le> ordinal_of (xa_decision a) then
          Inl (ValueError ''copy attempt landing is not strictly later'')
        else if xa_landed_at a \<noteq> None \<and> xa_landed_at a \<noteq> Some (xa_expected_landing a) then
          Inl (ValueError ''copy attempt did not land at its exact planned boundary'')
        else if cp_event_index (xa_decision a) \<noteq> None \<or> cp_event_index (xa_expected_landing a) \<noteq> None then
          Inl (ValueError ''copy order coordinates must be transaction boundaries'')
        else if xa_network_fee_asset_id a = [] \<or> xa_network_fee_asset_id a \<noteq> strip (xa_network_fee_asset_id a) then
          Inl (ValueError ''copy attempt is missing its explicit network fee asset'')
        else if xa_status a \<notin> {REJECTED, FAILED, FILLED} then
          Inl (ValueError ''copy result contains an unfinished instruction'')
        else if \<not> (0 \<le> xa_number a \<and> xa_number a \<le> 4) then
          Inl (ValueError ''copy result attempt number exceeds its fixed limit'')
        else bindE (copy_outcome_check a) (\<lambda>_. Inr a)))"

definition actual_quote :: "copy_attempt_record \<Rightarrow> protocol_quote option" where
  "actual_quote a = (if xa_status a = FILLED then xa_landing_quote a else None)"

definition copy_attempt_record_document :: "copy_attempt_record \<Rightarrow> json" where
  "copy_attempt_record_document a = JObj
     [(''order_id'', JStr (digest_hex (xa_order_id a))), (''attempt'', JInt (xa_number a)),
      (''side'', JStr (if xa_number a = 0 then ''BUY'' else ''SELL'')),
      (''decision_position'', copy_coordinates_document (Some (xa_decision a))),
      (''expected_landing_position'', copy_coordinates_document (Some (xa_expected_landing a))),
      (''landing_position'', copy_coordinates_document (xa_landed_at a)),
      (''status'', JStr (copy_attempt_status_value (xa_status a))),
      (''failure_stage'', if xa_failure_code a = None then JNull
        else JStr (if xa_landed_at a \<noteq> None then ''LANDING'' else ''PRE_SUBMIT'')),
      (''failure_code'', optional_string (xa_failure_code a)),
      (''reference_quote'', copy_quote_document (xa_reference a)),
      (''landing_quote'', copy_quote_document (xa_landing_quote a)),
      (''minimum_out_atomic'', JInt (xa_minimum_out a)),
      (''network_fee_asset_id'', JStr (xa_network_fee_asset_id a)),
      (''network_base_fee_paid_atomic'', JInt (xa_network_base_fee_paid a)),
      (''network_priority_fee_paid_atomic'', JInt (xa_network_priority_fee_paid a)),
      (''protocol_fee_paid_atomic'', JInt (case actual_quote a of None \<Rightarrow> 0 | Some q \<Rightarrow> pq_protocol_fee q)),
      (''creator_fee_paid_atomic'', JInt (case actual_quote a of None \<Rightarrow> 0 | Some q \<Rightarrow> pq_creator_fee q))]"

section \<open>Position records\<close>

record copy_position_record =
  xp_intent :: copy_intent
  xp_status :: copy_position_status
  xp_attempts :: "copy_attempt_record list"
  xp_acquired_tokens :: int
  xp_entry_price :: "token_price option"
  xp_exit_reason :: "copy_exit_reason option"
  xp_trigger_position :: "chain_position option"
  xp_trigger_price :: "token_price option"
  xp_account_components :: "account_component list"
  xp_quote_cashflow :: int
  xp_realized_cash_pnl :: "int option"
  xp_cashback_receivable :: int
  xp_mtm_status :: mtm_status
  xp_mtm_liquidation_value :: "int option"
  xp_mtm_quote :: "protocol_quote option"
  xp_economic_pnl :: "int option"

definition record_remaining_tokens :: "copy_position_record \<Rightarrow> int" where
  "record_remaining_tokens r = (if xp_status r = copy_position_status.CLOSED then 0 else xp_acquired_tokens r)"

definition filled_cashback :: "copy_attempt_record list \<Rightarrow> int" where
  "filled_cashback attempts = sum_list (map (\<lambda>a. case actual_quote a of None \<Rightarrow> 0 | Some q \<Rightarrow> pq_cashback q) attempts)"

definition quote_asset_sum :: "copy_intent \<Rightarrow> (asset_id \<times> int) list \<Rightarrow> int" where
  "quote_asset_sum i rows = sum_list (map snd (filter (\<lambda>(asset, _). asset = cs_quote_asset_id (ci_signal i)) rows))"

definition validate_copy_quote :: "copy_position_record \<Rightarrow> protocol_quote_side \<Rightarrow> protocol_quote \<Rightarrow> unit res" where
  "validate_copy_quote r side q =
     (let s = ci_signal (xp_intent r);
          buying = (side = QUOTE_BUY);
          assets = (if buying then (cs_quote_asset_id s, cs_asset_id s) else (cs_asset_id s, cs_quote_asset_id s));
          amount = (if buying then cb_gross_buy_budget_atomic (ci_policy (xp_intent r)) else xp_acquired_tokens r) in
      if pq_side q \<noteq> side \<or> (pq_input_asset_id q, pq_output_asset_id q) \<noteq> assets then
        Inl (ValueError ''copy quote side or asset differs from its position'')
      else raise_if (pq_amount_in q \<noteq> amount)
        (ValueError ''copy quote input differs from fixed budget or full inventory''))"

text \<open>The checks of the entry: a failed entry owns nothing, a successful one has the ratio of its fill.\<close>

definition validate_copy_entry :: "copy_position_record \<Rightarrow> copy_attempt_record \<Rightarrow> unit res" where
  "validate_copy_entry r buy =
     (if xa_decision buy \<noteq> ci_decision_position (xp_intent r) then
        Inl (ValueError ''copy buy decision differs from its observed signal'')
      else
        bindE (if xp_status r = BUY_FAILED then
            (if length (xp_attempts r) \<noteq> 1 \<or> xa_status buy = FILLED then
               Inl (ValueError ''copy failed entry contains a fill or sale'')
             else raise_if (xp_acquired_tokens r \<noteq> 0 \<or> xp_entry_price r \<noteq> None
                 \<or> list_ex (\<lambda>c. ac_paid c \<noteq> 0 \<or> ac_locked_delta c \<noteq> 0 \<or> ac_refunded c \<noteq> 0) (xp_account_components r))
               (ValueError ''copy failed entry cannot own tokens or account deposits''))
          else raise_if (actual_quote buy = None)
            (ValueError ''copy open or closed position has no successful entry'')) (\<lambda>_.
        case actual_quote buy of
          None \<Rightarrow> Inr ()
        | Some q \<Rightarrow>
            bindE (TokenPrice (pq_venue_input q) (pq_amount_out q)) (\<lambda>expected.
            raise_if (xp_entry_price r \<noteq> Some expected \<or> xp_acquired_tokens r \<noteq> pq_amount_out q)
              (ValueError ''copy entry price or tokens differ from the actual fill''))))"

definition attempt_side :: "copy_attempt_record \<Rightarrow> protocol_quote_side" where
  "attempt_side a = (if xa_number a = 0 then QUOTE_BUY else QUOTE_SELL)"

definition validate_copy_identity :: "(bytes \<Rightarrow> string) \<Rightarrow> copy_position_record \<Rightarrow> copy_attempt_record \<Rightarrow> unit res" where
  "validate_copy_identity sha r a =
     bindE (domain_digest sha ''backtest.pumpfun-copy-order.v1''
       (copy_order_document (ci_roundtrip_id (xp_intent r)) (attempt_side a) (xa_number a))) (\<lambda>identity.
     if digest_hex (xa_order_id a) \<noteq> digest_hex identity then
       Inl (ValueError ''copy order identity differs from its position and attempt'')
     else
       bindE (require_same_chain (ci_decision_position (xp_intent r)) (xa_decision a)) (\<lambda>_.
       foldE (\<lambda>_ q. validate_copy_quote r (attempt_side a) q) ()
         (option_list [xa_reference a, xa_landing_quote a])))"

text \<open>The checks of the exits: the trigger fits the sales, and a retry follows the failure it answers.\<close>

definition validate_copy_trigger :: "copy_position_record \<Rightarrow> copy_attempt_record \<Rightarrow> unit res" where
  "validate_copy_trigger r buy = (case xp_trigger_position r of
     None \<Rightarrow> Inr ()
   | Some t \<Rightarrow>
       bindE (require_same_chain (xa_expected_landing buy) t) (\<lambda>_.
       if ordinal_of t < ordinal_of (xa_expected_landing buy) then
         Inl (ValueError ''copy exit trigger precedes the actual buy fill'')
       else (case tl (xp_attempts r) of
           [] \<Rightarrow> Inl (IndexError ''tuple index out of range'')
         | first # _ \<Rightarrow> raise_if (ordinal_of (xa_decision first) < ordinal_of t)
             (ValueError ''copy sell decision precedes its trigger''))))"

definition retry_after :: "copy_attempt_record \<Rightarrow> copy_attempt_record \<Rightarrow> unit res" where
  "retry_after previous current =
     (let failed = (case xa_landed_at previous of Some p \<Rightarrow> p | None \<Rightarrow> xa_decision previous) in
      raise_if (ordinal_of (xa_decision current) \<le> ordinal_of failed)
        (ValueError ''copy retry decision does not follow its prior failure''))"

definition validate_copy_exits :: "copy_position_record \<Rightarrow> copy_attempt_record \<Rightarrow> unit res" where
  "validate_copy_exits r buy =
     (let sells = tl (xp_attempts r) in
      if list_ex (\<lambda>a. xa_status a = FILLED) (butlast sells) then
        Inl (ValueError ''copy position retried after a successful sale'')
      else if (1 < length (xp_attempts r)) \<noteq> (xp_exit_reason r \<noteq> None \<and> xp_trigger_position r \<noteq> None) then
        Inl (ValueError ''copy sale history and latched exit reason disagree'')
      else
        bindE (validate_copy_trigger r buy) (\<lambda>_.
        foldE (\<lambda>_ (previous, current). retry_after previous current) () (zip sells (tl sells))))"

definition validate_copy_execution :: "(bytes \<Rightarrow> string) \<Rightarrow> copy_position_record \<Rightarrow> unit res" where
  "validate_copy_execution sha r =
     (let buy = hd (xp_attempts r) in
      bindE (validate_copy_entry r buy) (\<lambda>_.
      bindE (foldE (\<lambda>_ a. validate_copy_identity sha r a) () (xp_attempts r)) (\<lambda>_.
      validate_copy_exits r buy)))"

definition validate_copy_mark :: "copy_position_record \<Rightarrow> unit res" where
  "validate_copy_mark r =
     (if record_remaining_tokens r = 0 then
        raise_if (xp_mtm_status r \<noteq> NOT_APPLICABLE \<or> xp_mtm_quote r \<noteq> None \<or> xp_mtm_liquidation_value r \<noteq> Some 0)
          (ValueError ''copy flat position cannot contain an open valuation'')
      else if xp_mtm_status r = UNAVAILABLE then
        raise_if (xp_mtm_quote r \<noteq> None \<or> xp_mtm_liquidation_value r \<noteq> None)
          (ValueError ''copy unavailable valuation cannot contain a mark'')
      else if xp_mtm_status r \<notin> {EXECUTABLE, STALE_PRE_MIGRATION} \<or> xp_mtm_liquidation_value r = None then
        Inl (ValueError ''copy open valuation is missing its qualified quote'')
      else (case xp_mtm_quote r of
          None \<Rightarrow> Inl (ValueError ''copy open valuation is missing its qualified quote'')
        | Some q \<Rightarrow> validate_copy_quote r QUOTE_SELL q))"

definition validate_copy_economics :: "copy_position_record \<Rightarrow> unit res" where
  "validate_copy_economics r =
     (let cashback = filled_cashback (xp_attempts r) in
      if xp_cashback_receivable r \<noteq> cashback then
        Inl (ValueError ''copy cashback differs from successful fills'')
      else
        bindE (validate_copy_mark r) (\<lambda>_.
        let locked = quote_asset_sum (xp_intent r) (run_locked_value (xp_account_components r));
            economic = map_option (\<lambda>liquidation. xp_quote_cashflow r + liquidation + cashback + locked)
              (xp_mtm_liquidation_value r) in
        raise_if (xp_economic_pnl r \<noteq> economic)
          (ValueError ''copy economic PnL differs from cash and qualified position value'')))"

definition validate_copy_shape :: "copy_position_record \<Rightarrow> unit res" where
  "validate_copy_shape r =
     (let attempts = xp_attempts r in
      if xp_status r \<notin> {BUY_FAILED, copy_position_status.CLOSED, EXHAUSTED} then
        Inl (ValueError ''copy result contains an unfinished position'')
      else if attempts = [] \<or> 5 < length attempts then
        Inl (ValueError ''copy position must contain one buy and at most four sells'')
      else if map xa_number attempts \<noteq> map int [0..<length attempts] then
        Inl (ValueError ''copy attempt sequence is not canonical'')
      else if xp_status r = EXHAUSTED \<and> length attempts \<noteq> 5 then
        Inl (ValueError ''exhausted copy position must have four sell failures'')
      else if (xa_status (hd attempts) = FILLED) \<noteq> (0 < xp_acquired_tokens r \<and> xp_entry_price r \<noteq> None) then
        Inl (ValueError ''copy entry amounts disagree with buy execution'')
      else if (xp_status r = copy_position_status.CLOSED)
          \<noteq> (0 < xa_number (last attempts) \<and> xa_status (last attempts) = FILLED) then
        Inl (ValueError ''copy position closure disagrees with its last instruction'')
      else raise_if (xp_realized_cash_pnl r
          \<noteq> (if record_remaining_tokens r \<noteq> 0 then None else Some (xp_quote_cashflow r)))
        (ValueError ''copy realized cash differs from committed cashflow''))"

definition CopyPositionRecord :: "(bytes \<Rightarrow> string) \<Rightarrow> copy_position_record \<Rightarrow> copy_position_record res" where
  "CopyPositionRecord sha r =
     bindE (validate_copy_shape r) (\<lambda>_.
     bindE (validate_copy_execution sha r) (\<lambda>_.
     bindE (validate_copy_economics r) (\<lambda>_. Inr r)))"

definition copy_position_record_document :: "copy_position_record \<Rightarrow> json" where
  "copy_position_record_document r =
     (let i = xp_intent r; s = ci_signal i in JObj
       [(''schema'', JStr COPY_POSITION_SCHEMA), (''position_id'', JStr (digest_hex (ci_roundtrip_id i))),
        (''signal_event_id'', JStr (digest_hex (cs_event_id s))), (''signing_wallet'', JStr (cs_signing_wallet s)),
        (''signal_position'', copy_coordinates_document (Some (cs_position s))),
        (''observation_position'', copy_coordinates_document (Some (ci_decision_position i))),
        (''asset_id'', JStr (cs_asset_id s)), (''quote_asset_id'', JStr (cs_quote_asset_id s)),
        (''venue_id'', JStr (cs_venue_id s)), (''policy'', copy_policy_document (ci_policy i)),
        (''execution_mode'', JStr (execution_mode_value (ci_execution_mode i))),
        (''status'', JStr (copy_position_status_value (xp_status r))),
        (''attempts'', JArr (map copy_attempt_record_document (xp_attempts r))),
        (''entry_price'', copy_price_document (xp_entry_price r)),
        (''exit_reason'', optional_string (map_option copy_exit_reason_value (xp_exit_reason r))),
        (''trigger_position'', copy_coordinates_document (xp_trigger_position r)),
        (''trigger_price'', copy_price_document (xp_trigger_price r)),
        (''acquired_tokens_atomic'', JInt (xp_acquired_tokens r)),
        (''remaining_tokens_atomic'', JInt (record_remaining_tokens r)),
        (''account_components'', JArr (map (\<lambda>c. JObj (component_document c)) (xp_account_components r))),
        (''quote_cashflow_atomic'', JInt (xp_quote_cashflow r)),
        (''realized_cash_pnl_atomic'', optional_int (xp_realized_cash_pnl r)),
        (''cashback_receivable_atomic'', JInt (xp_cashback_receivable r)),
        (''mtm_status'', JStr (mtm_status_value (xp_mtm_status r))),
        (''mtm_liquidation_value_atomic'', optional_int (xp_mtm_liquidation_value r)),
        (''mtm_quote'', copy_quote_document (xp_mtm_quote r)),
        (''economic_pnl_atomic'', optional_int (xp_economic_pnl r))])"

section \<open>Freezing\<close>

definition freeze_attempt :: "copy_attempt \<Rightarrow> copy_attempt_record res" where
  "freeze_attempt a = (case ca_network a of
     None \<Rightarrow> Inl (ValueError ''copy finalized instruction has no network cost profile'')
   | Some network \<Rightarrow>
       let paid = (ca_landed_at a \<noteq> None) in
       CopyAttemptRecord \<lparr>xa_order_id = ca_order_id a, xa_number = ca_number a, xa_decision = ca_decision a,
         xa_expected_landing = ca_expected_landing a, xa_status = ca_status a, xa_landed_at = ca_landed_at a,
         xa_reference = ca_reference a, xa_landing_quote = ca_landing_quote a, xa_minimum_out = ca_minimum_out a,
         xa_failure_code = ca_failure_code a, xa_network_fee_asset_id = nq_fee_asset_id network,
         xa_network_base_fee_paid = (if paid then nq_base_fee network else 0),
         xa_network_priority_fee_paid = (if paid then nq_priority_fee network else 0)\<rparr>)"

type_synonym copy_mark = "mtm_status \<times> int option \<times> protocol_quote option"

definition copy_valuation :: "('s, 'p) copy_env \<Rightarrow> 'p \<Rightarrow> copy_position \<Rightarrow> copy_mark res" where
  "copy_valuation env historical st =
     (let i = ce_intent st; tokens = remaining_tokens (ce_control st) in
      if tokens = 0 then Inr (NOT_APPLICABLE, Some 0, None)
      else
        let final_s = last (tc_times (cv_clock env)) div 1000000000 in
        bindE (catch_rejected (cv_valuation_quote env historical i tokens final_s)) (\<lambda>valued.
        case valued of
          Inr (Some v) \<Rightarrow>
            bindE (cv_cost_sell env final_s) (\<lambda>network.
            let fee = (if nq_fee_asset_id network = cs_quote_asset_id (ci_signal i)
                  then transaction_fee_atomic network else 0);
                refund = quote_asset_sum i (refundable_mint_deposits (ce_account_components st)) in
            Inr (if vq_stale_pre_migration v then STALE_PRE_MIGRATION else EXECUTABLE,
              Some (pq_amount_out (vq_quote v) - fee + refund), Some (vq_quote v)))
        | _ \<Rightarrow> Inr (UNAVAILABLE, None, None)))"

definition freeze_copy_position ::
  "('s, 'p) copy_env \<Rightarrow> 'p \<Rightarrow> copy_books \<Rightarrow> copy_position \<Rightarrow> copy_position_record res" where
  "freeze_copy_position env historical b st =
     bindE (mapE freeze_attempt (ce_attempts st)) (\<lambda>records.
     let i = ce_intent st; c = ce_control st;
         cash = cashflow_amount (kb_cashflows b) (ci_roundtrip_id i) (cs_quote_asset_id (ci_signal i));
         cashback = filled_cashback records;
         locked = quote_asset_sum i (run_locked_value (ce_account_components st)) in
     bindE (copy_valuation env historical st) (\<lambda>(status, liquidation, mark).
     CopyPositionRecord (cv_sha env) \<lparr>xp_intent = i, xp_status = ct_status c, xp_attempts = records,
       xp_acquired_tokens = ct_acquired_tokens c, xp_entry_price = ct_entry_price c,
       xp_exit_reason = ct_exit_reason c, xp_trigger_position = ct_trigger_position c,
       xp_trigger_price = ct_trigger_price c, xp_account_components = ce_account_components st,
       xp_quote_cashflow = cash, xp_realized_cash_pnl = (if remaining_tokens c \<noteq> 0 then None else Some cash),
       xp_cashback_receivable = cashback, xp_mtm_status = status, xp_mtm_liquidation_value = liquidation,
       xp_mtm_quote = mark,
       xp_economic_pnl = map_option (\<lambda>l. cash + l + cashback + locked) liquidation\<rparr>))"

end
