(* ===== verification/Copy_Run.thy ===== *)
theory Copy_Run
  imports Copy_Results
begin

text \<open>
  A whole copy run (\<^verbatim>\<open>engine/copytrading_run.py\<close>): the totals over the finished positions with the conservation laws
  their constructor checks, the recorder of positions, and the run with its summary.
\<close>

section \<open>Totals\<close>

record copy_totals =
  ko_position_count :: int
  ko_filled_buy_count :: int
  ko_rejected_buy_count :: int
  ko_failed_buy_count :: int
  ko_closed_position_count :: int
  ko_exhausted_position_count :: int
  ko_sell_attempt_count :: int
  ko_rejected_sell_count :: int
  ko_failed_sell_count :: int
  ko_unvalued_open_position_count :: int
  ko_quote_cashflow :: int
  ko_realized_cash_pnl :: int
  ko_valued_economic_pnl_subtotal :: int
  ko_cashback_receivable :: int
  ko_protocol_fee_paid :: int
  ko_creator_fee_paid :: int
  ko_network_base_fee_paid :: int
  ko_network_priority_fee_paid :: int
  ko_account_deposit_paid :: int
  ko_account_deposit_refunded :: int
  ko_account_deposit_locked :: int
  ko_gross_sell_settlement :: int
  ko_venue_funded_sell :: int
  ko_synthetic_funded_sell :: int

definition empty_totals :: copy_totals where
  "empty_totals = \<lparr>
     ko_position_count = 0, ko_filled_buy_count = 0, ko_rejected_buy_count = 0, ko_failed_buy_count = 0,
     ko_closed_position_count = 0, ko_exhausted_position_count = 0, ko_sell_attempt_count = 0,
     ko_rejected_sell_count = 0, ko_failed_sell_count = 0, ko_unvalued_open_position_count = 0,
     ko_quote_cashflow = 0, ko_realized_cash_pnl = 0, ko_valued_economic_pnl_subtotal = 0,
     ko_cashback_receivable = 0, ko_protocol_fee_paid = 0, ko_creator_fee_paid = 0,
     ko_network_base_fee_paid = 0, ko_network_priority_fee_paid = 0, ko_account_deposit_paid = 0,
     ko_account_deposit_refunded = 0, ko_account_deposit_locked = 0, ko_gross_sell_settlement = 0,
     ko_venue_funded_sell = 0, ko_synthetic_funded_sell = 0\<rparr>"

definition unsigned_totals :: "copy_totals \<Rightarrow> int list" where
  "unsigned_totals t = [
     ko_position_count t, ko_filled_buy_count t, ko_rejected_buy_count t, ko_failed_buy_count t,
     ko_closed_position_count t, ko_exhausted_position_count t, ko_sell_attempt_count t,
     ko_rejected_sell_count t, ko_failed_sell_count t, ko_unvalued_open_position_count t,
     ko_cashback_receivable t, ko_protocol_fee_paid t, ko_creator_fee_paid t, ko_network_base_fee_paid t,
     ko_network_priority_fee_paid t, ko_account_deposit_paid t, ko_account_deposit_refunded t,
     ko_account_deposit_locked t, ko_gross_sell_settlement t, ko_venue_funded_sell t, ko_synthetic_funded_sell t]"

definition CopyFinancialTotals :: "copy_totals \<Rightarrow> copy_totals res" where
  "CopyFinancialTotals t =
     (if list_ex (\<lambda>v. v < 0) (unsigned_totals t) then Inl (ValueError ''invalid copy summary integer'')
      else if ko_position_count t \<noteq> ko_filled_buy_count t + ko_rejected_buy_count t + ko_failed_buy_count t then
        Inl (ValueError ''copy summary buy counts do not reconcile'')
      else if ko_filled_buy_count t \<noteq> ko_closed_position_count t + ko_exhausted_position_count t then
        Inl (ValueError ''copy summary position counts do not reconcile'')
      else if ko_sell_attempt_count t \<noteq> ko_closed_position_count t + ko_rejected_sell_count t + ko_failed_sell_count t then
        Inl (ValueError ''copy summary sell counts do not reconcile'')
      else if \<not> (4 * ko_exhausted_position_count t \<le> ko_sell_attempt_count t
          \<and> ko_sell_attempt_count t \<le> 4 * ko_filled_buy_count t) then
        Inl (ValueError ''copy summary retry count is invalid'')
      else if ko_gross_sell_settlement t \<noteq> ko_venue_funded_sell t + ko_synthetic_funded_sell t then
        Inl (ValueError ''copy summary sell funding does not reconcile'')
      else if ko_exhausted_position_count t < ko_unvalued_open_position_count t then
        Inl (ValueError ''copy summary has more unvalued than open positions'')
      else Inr t)"

definition copy_economic_pnl :: "copy_totals \<Rightarrow> int option" where
  "copy_economic_pnl t =
     (if ko_unvalued_open_position_count t \<noteq> 0 then None else Some (ko_valued_economic_pnl_subtotal t))"

definition copy_totals_document :: "copy_totals \<Rightarrow> json" where
  "copy_totals_document t = JObj [
     (''position_count'', JInt (ko_position_count t)),
     (''filled_buy_count'', JInt (ko_filled_buy_count t)),
     (''rejected_buy_count'', JInt (ko_rejected_buy_count t)),
     (''failed_buy_count'', JInt (ko_failed_buy_count t)),
     (''closed_position_count'', JInt (ko_closed_position_count t)),
     (''exhausted_position_count'', JInt (ko_exhausted_position_count t)),
     (''sell_attempt_count'', JInt (ko_sell_attempt_count t)),
     (''rejected_sell_count'', JInt (ko_rejected_sell_count t)),
     (''failed_sell_count'', JInt (ko_failed_sell_count t)),
     (''unvalued_open_position_count'', JInt (ko_unvalued_open_position_count t)),
     (''quote_cashflow_atomic'', JInt (ko_quote_cashflow t)),
     (''realized_cash_pnl_atomic'', JInt (ko_realized_cash_pnl t)),
     (''valued_economic_pnl_subtotal_atomic'', JInt (ko_valued_economic_pnl_subtotal t)),
     (''cashback_receivable_atomic'', JInt (ko_cashback_receivable t)),
     (''protocol_fee_paid_atomic'', JInt (ko_protocol_fee_paid t)),
     (''creator_fee_paid_atomic'', JInt (ko_creator_fee_paid t)),
     (''network_base_fee_paid_atomic'', JInt (ko_network_base_fee_paid t)),
     (''network_priority_fee_paid_atomic'', JInt (ko_network_priority_fee_paid t)),
     (''account_deposit_paid_atomic'', JInt (ko_account_deposit_paid t)),
     (''account_deposit_refunded_atomic'', JInt (ko_account_deposit_refunded t)),
     (''account_deposit_locked_atomic'', JInt (ko_account_deposit_locked t)),
     (''gross_sell_settlement_atomic'', JInt (ko_gross_sell_settlement t)),
     (''venue_funded_sell_atomic'', JInt (ko_venue_funded_sell t)),
     (''synthetic_funded_sell_atomic'', JInt (ko_synthetic_funded_sell t)),
     (''economic_pnl_atomic'', optional_int (copy_economic_pnl t)),
     (''valuation_status'', JStr (if ko_unvalued_open_position_count t \<noteq> 0 then ''PARTIAL'' else ''COMPLETE''))]"

section \<open>The accumulator\<close>

text \<open>The counters the source selects by the lower-cased status; a status without a counter is a KeyError.\<close>

fun count_buy :: "copy_attempt_status \<Rightarrow> copy_totals \<Rightarrow> copy_totals res" where
  "count_buy FILLED t = Inr (t\<lparr>ko_filled_buy_count := ko_filled_buy_count t + 1\<rparr>)"
| "count_buy REJECTED t = Inr (t\<lparr>ko_rejected_buy_count := ko_rejected_buy_count t + 1\<rparr>)"
| "count_buy FAILED t = Inr (t\<lparr>ko_failed_buy_count := ko_failed_buy_count t + 1\<rparr>)"
| "count_buy CREATED t = Inl (KeyError ''created_buy_count'')"
| "count_buy SUBMITTED t = Inl (KeyError ''submitted_buy_count'')"

fun count_unfilled_sell :: "copy_attempt_status \<Rightarrow> copy_totals \<Rightarrow> copy_totals res" where
  "count_unfilled_sell FILLED t = Inr t"
| "count_unfilled_sell REJECTED t = Inr (t\<lparr>ko_rejected_sell_count := ko_rejected_sell_count t + 1\<rparr>)"
| "count_unfilled_sell FAILED t = Inr (t\<lparr>ko_failed_sell_count := ko_failed_sell_count t + 1\<rparr>)"
| "count_unfilled_sell CREATED t = Inl (KeyError ''created_sell_count'')"
| "count_unfilled_sell SUBMITTED t = Inl (KeyError ''submitted_sell_count'')"

definition add_position :: "copy_position_record \<Rightarrow> copy_totals \<Rightarrow> copy_totals" where
  "add_position r t = t\<lparr>
     ko_closed_position_count := ko_closed_position_count t + of_bool (xp_status r = copy_position_status.CLOSED),
     ko_exhausted_position_count := ko_exhausted_position_count t + of_bool (xp_status r = EXHAUSTED),
     ko_quote_cashflow := ko_quote_cashflow t + xp_quote_cashflow r,
     ko_realized_cash_pnl := ko_realized_cash_pnl t + (case xp_realized_cash_pnl r of None \<Rightarrow> 0 | Some v \<Rightarrow> v),
     ko_cashback_receivable := ko_cashback_receivable t + xp_cashback_receivable r,
     ko_unvalued_open_position_count := ko_unvalued_open_position_count t + of_bool (xp_economic_pnl r = None),
     ko_valued_economic_pnl_subtotal := ko_valued_economic_pnl_subtotal t
       + (case xp_economic_pnl r of None \<Rightarrow> 0 | Some v \<Rightarrow> v)\<rparr>"

definition add_component :: "account_component \<Rightarrow> copy_totals \<Rightarrow> copy_totals" where
  "add_component c t = t\<lparr>
     ko_account_deposit_paid := ko_account_deposit_paid t + ac_paid c,
     ko_account_deposit_refunded := ko_account_deposit_refunded t + ac_refunded c,
     ko_account_deposit_locked := ko_account_deposit_locked t + ac_locked_delta c\<rparr>"

definition add_funding :: "copy_attempt_record \<Rightarrow> protocol_quote \<Rightarrow> copy_totals \<Rightarrow> copy_totals" where
  "add_funding a q t = (case pq_liquidity q of
     None \<Rightarrow> t
   | Some e \<Rightarrow>
       if xa_number a = 0 then t
       else t\<lparr>
         ko_gross_sell_settlement := ko_gross_sell_settlement t + pq_venue_output q,
         ko_venue_funded_sell := ko_venue_funded_sell t + (pq_venue_output q - lv_synthetic_shortfall e),
         ko_synthetic_funded_sell := ko_synthetic_funded_sell t + lv_synthetic_shortfall e\<rparr>)"

definition add_attempt :: "copy_totals \<Rightarrow> copy_attempt_record \<Rightarrow> copy_totals res" where
  "add_attempt t a =
     (let t = t\<lparr>
        ko_network_base_fee_paid := ko_network_base_fee_paid t + xa_network_base_fee_paid a,
        ko_network_priority_fee_paid := ko_network_priority_fee_paid t + xa_network_priority_fee_paid a\<rparr> in
      bindE (if xa_number a = 0 then Inr t
        else count_unfilled_sell (xa_status a) (t\<lparr>ko_sell_attempt_count := ko_sell_attempt_count t + 1\<rparr>)) (\<lambda>t.
      Inr (case actual_quote a of
          None \<Rightarrow> t
        | Some q \<Rightarrow> add_funding a q (t\<lparr>
            ko_protocol_fee_paid := ko_protocol_fee_paid t + pq_protocol_fee q,
            ko_creator_fee_paid := ko_creator_fee_paid t + pq_creator_fee q\<rparr>))))"

definition totals_append :: "copy_totals \<Rightarrow> copy_position_record \<Rightarrow> copy_totals res" where
  "totals_append t r = (case xp_attempts r of
     [] \<Rightarrow> Inl (IndexError ''tuple index out of range'')
   | buy # _ \<Rightarrow>
       bindE (count_buy (xa_status buy) (t\<lparr>ko_position_count := ko_position_count t + 1\<rparr>)) (\<lambda>t.
       foldE add_attempt (fold add_component (xp_account_components r) (add_position r t)) (xp_attempts r)))"

section \<open>The run\<close>

record copy_config =
  cg_quote_asset_id :: asset_id
  cg_initial_quote_balance :: int
  cg_execution_mode :: execution_mode
  cg_engine_bundle_id :: digest
  cg_strategy_bundle_id :: digest
  cg_protocol_bundle_id :: digest
  cg_network_cost_bundle_id :: digest
  cg_initial_accounts :: wallet_state
  cg_limits :: copy_limits
  cg_semantic_config_digest :: digest

record copy_summary =
  cy_result_hash :: digest
  cy_dataset_logical_content_hash :: digest
  cy_replay_semantics_id :: digest
  cy_config :: copy_config
  cy_totals :: copy_totals
  cy_audit_hash :: digest
  cy_ledger_hash :: digest
  cy_fill_hash :: digest
  cy_roundtrip_digest :: digest
  cy_final_balances_digest :: digest
  cy_historical_event_count :: int
  cy_historical_group_count :: int
  cy_delivered_event_count :: int
  cy_ledger_transaction_count :: nat
  cy_fill_count :: nat
  cy_final_balances :: "(string \<times> string \<times> string \<times> int) list"

text \<open>The part of the recorder that holds the positions: their stream, the totals and what the sink was given.\<close>

record copy_positions_recorder =
  kp_stream :: stream_hasher
  kp_totals :: copy_totals
  kp_sink :: "copy_position_record list"

definition append_position :: "copy_positions_recorder \<Rightarrow> copy_position_record \<Rightarrow> copy_positions_recorder res" where
  "append_position p r =
     bindE (stream_append (kp_stream p) (copy_position_record_document r)) (\<lambda>h.
     bindE (totals_append (kp_totals p) r) (\<lambda>t.
     Inr \<lparr>kp_stream = h, kp_totals = t, kp_sink = kp_sink p @ [r]\<rparr>))"

definition finish_position ::
  "('s, 'p) copy_env \<Rightarrow> ('s, 'p) copy_replay \<Rightarrow> copy_positions_recorder \<Rightarrow> copy_position
    \<Rightarrow> copy_positions_recorder res" where
  "finish_position env r p st =
     bindE (freeze_copy_position env (cr_historical r) (cr_books r) st) (append_position p)"

definition copy_balances_stream :: "(string \<times> string \<times> string \<times> int) list \<Rightarrow> stream_hasher res" where
  "copy_balances_stream rows =
     bindE (CanonicalStreamHasher COPY_BALANCE_STREAM) (\<lambda>h.
     foldE stream_append h (map (\<lambda>(account, kind, asset, amount).
       JArr [JStr account, JStr kind, JStr asset, JInt amount]) rows))"

definition copy_result_document ::
  "('s, 'p) copy_env \<Rightarrow> sniping_source \<Rightarrow> copy_config \<Rightarrow> copy_totals \<Rightarrow> copy_counts
    \<Rightarrow> digest \<Rightarrow> digest \<Rightarrow> digest \<Rightarrow> digest \<Rightarrow> digest \<Rightarrow> json" where
  "copy_result_document env src config totals counts audit ledger fills positions balances = JObj
     [(''schema'', JStr ''pumpfun-copy-run-summary/v1''),
      (''dataset_logical_content_hash'', JStr (digest_hex (so_logical_content_hash src))),
      (''replay_semantics_id'', JStr (digest_hex (so_replay_semantics_id src))),
      (''engine_bundle_id'', JStr (digest_hex (cg_engine_bundle_id config))),
      (''strategy_bundle_id'', JStr (digest_hex (cg_strategy_bundle_id config))),
      (''protocol_bundle_id'', JStr (digest_hex (cg_protocol_bundle_id config))),
      (''network_cost_bundle_id'', JStr (digest_hex (cg_network_cost_bundle_id config))),
      (''execution_mode'', JStr (execution_mode_value (cg_execution_mode config))),
      (''policy'', copy_policy_document (cv_policy env)),
      (''semantic_config_digest'', JStr (digest_hex (cg_semantic_config_digest config))),
      (''initial_quote_balance_atomic'', JInt (cg_initial_quote_balance config)),
      (''totals'', copy_totals_document totals), (''audit_hash'', JStr (digest_hex audit)),
      (''ledger_hash'', JStr (digest_hex ledger)), (''fill_hash'', JStr (digest_hex fills)),
      (''position_digest'', JStr (digest_hex positions)), (''final_balances_digest'', JStr (digest_hex balances)),
      (''historical_event_count'', JInt (cn_historical_events counts)),
      (''historical_group_count'', JInt (cn_historical_groups counts))]"

definition copy_summary_of ::
  "('s, 'p) copy_env \<Rightarrow> sniping_source \<Rightarrow> copy_config \<Rightarrow> copy_books \<Rightarrow> copy_positions_recorder \<Rightarrow> copy_counts
    \<Rightarrow> copy_summary res" where
  "copy_summary_of env src config b p counts =
     bindE (semantic_balances (kb_portfolio b)) (\<lambda>rows.
     bindE (copy_balances_stream rows) (\<lambda>stream.
     bindE (CopyFinancialTotals (kp_totals p)) (\<lambda>totals.
     bindE (stream_digest (cv_sha env) (kr_audit (kb_recorder b))) (\<lambda>audit.
     bindE (stream_digest (cv_sha env) (kr_ledger (kb_recorder b))) (\<lambda>ledger.
     bindE (stream_digest (cv_sha env) (kr_fills (kb_recorder b))) (\<lambda>fills.
     bindE (stream_digest (cv_sha env) (kp_stream p)) (\<lambda>positions.
     bindE (stream_digest (cv_sha env) stream) (\<lambda>balances.
     bindE (domain_digest (cv_sha env) ''backtest.copy-run-result.v1''
       (copy_result_document env src config totals counts audit ledger fills positions balances)) (\<lambda>result.
     bindE (ContentDigest (digest_hex (so_logical_content_hash src))) (\<lambda>dataset.
     Inr \<lparr>cy_result_hash = result, cy_dataset_logical_content_hash = dataset,
       cy_replay_semantics_id = so_replay_semantics_id src, cy_config = config, cy_totals = totals,
       cy_audit_hash = audit, cy_ledger_hash = ledger, cy_fill_hash = fills, cy_roundtrip_digest = positions,
       cy_final_balances_digest = balances, cy_historical_event_count = cn_historical_events counts,
       cy_historical_group_count = cn_historical_groups counts,
       cy_delivered_event_count = cn_observed_events counts,
       cy_ledger_transaction_count = sh_count (kr_ledger (kb_recorder b)),
       cy_fill_count = sh_count (kr_fills (kb_recorder b)), cy_final_balances = rows\<rparr>))))))))))"

definition opening_books :: "copy_config \<Rightarrow> copy_books res" where
  "opening_books config =
     bindE CopyRecorder (\<lambda>recorder.
     bindE (PortfolioState [(cg_quote_asset_id config, cg_initial_quote_balance config)]) (\<lambda>portfolio.
     Inr \<lparr>kb_portfolio = portfolio, kb_accounts = cg_initial_accounts config, kb_cashflows = [],
       kb_recorder = recorder\<rparr>))"

text \<open>The summary, and beside it the positions and the final state the sinks have seen.\<close>

definition run_copy_backtest ::
  "('s, 'p) copy_env \<Rightarrow> sniping_source \<Rightarrow> block_range \<Rightarrow> copy_config \<Rightarrow> 's \<Rightarrow> 'p
    \<Rightarrow> (copy_summary \<times> copy_position_record list \<times> ('s, 'p) copy_replay) res option" where
  "run_copy_backtest env src decisions config strategy protocol =
     (case bindE (opening_books config) (\<lambda>b.
           bindE (CanonicalStreamHasher COPY_POSITION_STREAM) (\<lambda>h.
           Inr (b, \<lparr>kp_stream = h, kp_totals = empty_totals, kp_sink = []\<rparr>))) of
        Inl e \<Rightarrow> Some (Inl e)
      | Inr (b, p) \<Rightarrow>
          map_option (\<lambda>result. bindE result (\<lambda>(r, p, counts).
            bindE (copy_summary_of env src config (cr_books r) p counts) (\<lambda>summary.
            Inr (summary, kp_sink p, r))))
            (run_copy_replay env src decisions (cg_limits config) strategy protocol b (finish_position env) p))"

end
