(* ===== verification/Copy_Totals.thy ===== *)
theory Copy_Totals
  imports Copy_Run Engine_Sample Pump_Curve
begin

text \<open>
  The totals of a copy run reconcile: the conservation laws the summary's constructor checks follow from the checks
  of the position records, so that a run whose positions were recorded cannot fail in its summary.
\<close>

section \<open>Attempts\<close>

definition attempt_built :: "copy_attempt_record \<Rightarrow> bool" where
  "attempt_built a \<longleftrightarrow> CopyAttemptRecord a = Inr a
     \<and> list_all (\<lambda>q. ProtocolQuote q = Inr q
         \<and> (case pq_liquidity q of None \<Rightarrow> True | Some e \<Rightarrow> ProtocolLiquidityEvidence e = Inr e))
       (option_list [xa_reference a, xa_landing_quote a])"

definition sold :: "copy_attempt_record \<Rightarrow> bool" where
  "sold a \<longleftrightarrow> xa_number a \<noteq> 0"

definition funded :: "(protocol_quote \<Rightarrow> liquidity_evidence \<Rightarrow> int) \<Rightarrow> copy_attempt_record \<Rightarrow> int" where
  "funded amount a = (case actual_quote a of
     None \<Rightarrow> 0
   | Some q \<Rightarrow> (case pq_liquidity q of None \<Rightarrow> 0 | Some e \<Rightarrow> if sold a then amount q e else 0))"

definition charged :: "(protocol_quote \<Rightarrow> int) \<Rightarrow> copy_attempt_record \<Rightarrow> int" where
  "charged amount a = (case actual_quote a of None \<Rightarrow> 0 | Some q \<Rightarrow> amount q)"

definition sells_with :: "copy_attempt_status \<Rightarrow> copy_attempt_record \<Rightarrow> int" where
  "sells_with s a = of_bool (sold a \<and> xa_status a = s)"

text \<open>What one list of attempts adds to the totals.\<close>

definition attempts_added_by :: "((copy_attempt_record \<Rightarrow> int) \<Rightarrow> int) \<Rightarrow> copy_totals \<Rightarrow> copy_totals" where
  "attempts_added_by summed t = t\<lparr>
     ko_sell_attempt_count := ko_sell_attempt_count t + summed (\<lambda>a. of_bool (sold a)),
     ko_rejected_sell_count := ko_rejected_sell_count t + summed (sells_with REJECTED),
     ko_failed_sell_count := ko_failed_sell_count t + summed (sells_with FAILED),
     ko_protocol_fee_paid := ko_protocol_fee_paid t + summed (charged pq_protocol_fee),
     ko_creator_fee_paid := ko_creator_fee_paid t + summed (charged pq_creator_fee),
     ko_network_base_fee_paid := ko_network_base_fee_paid t + summed xa_network_base_fee_paid,
     ko_network_priority_fee_paid := ko_network_priority_fee_paid t + summed xa_network_priority_fee_paid,
     ko_gross_sell_settlement := ko_gross_sell_settlement t + summed (funded (\<lambda>q e. pq_venue_output q)),
     ko_venue_funded_sell := ko_venue_funded_sell t
       + summed (funded (\<lambda>q e. pq_venue_output q - lv_synthetic_shortfall e)),
     ko_synthetic_funded_sell := ko_synthetic_funded_sell t + summed (funded (\<lambda>q e. lv_synthetic_shortfall e))\<rparr>"

lemma attempts_added_by_fields [simp]:
  "ko_position_count (attempts_added_by summed t) = ko_position_count t"
  "ko_filled_buy_count (attempts_added_by summed t) = ko_filled_buy_count t"
  "ko_rejected_buy_count (attempts_added_by summed t) = ko_rejected_buy_count t"
  "ko_failed_buy_count (attempts_added_by summed t) = ko_failed_buy_count t"
  "ko_closed_position_count (attempts_added_by summed t) = ko_closed_position_count t"
  "ko_exhausted_position_count (attempts_added_by summed t) = ko_exhausted_position_count t"
  "ko_sell_attempt_count (attempts_added_by summed t) = ko_sell_attempt_count t + summed (\<lambda>a. of_bool (sold a))"
  "ko_rejected_sell_count (attempts_added_by summed t) = ko_rejected_sell_count t + summed (sells_with REJECTED)"
  "ko_failed_sell_count (attempts_added_by summed t) = ko_failed_sell_count t + summed (sells_with FAILED)"
  "ko_unvalued_open_position_count (attempts_added_by summed t) = ko_unvalued_open_position_count t"
  "ko_quote_cashflow (attempts_added_by summed t) = ko_quote_cashflow t"
  "ko_realized_cash_pnl (attempts_added_by summed t) = ko_realized_cash_pnl t"
  "ko_valued_economic_pnl_subtotal (attempts_added_by summed t) = ko_valued_economic_pnl_subtotal t"
  "ko_cashback_receivable (attempts_added_by summed t) = ko_cashback_receivable t"
  "ko_protocol_fee_paid (attempts_added_by summed t) = ko_protocol_fee_paid t + summed (charged pq_protocol_fee)"
  "ko_creator_fee_paid (attempts_added_by summed t) = ko_creator_fee_paid t + summed (charged pq_creator_fee)"
  "ko_network_base_fee_paid (attempts_added_by summed t) = ko_network_base_fee_paid t + summed xa_network_base_fee_paid"
  "ko_network_priority_fee_paid (attempts_added_by summed t) = ko_network_priority_fee_paid t + summed xa_network_priority_fee_paid"
  "ko_account_deposit_paid (attempts_added_by summed t) = ko_account_deposit_paid t"
  "ko_account_deposit_refunded (attempts_added_by summed t) = ko_account_deposit_refunded t"
  "ko_account_deposit_locked (attempts_added_by summed t) = ko_account_deposit_locked t"
  "ko_gross_sell_settlement (attempts_added_by summed t) = ko_gross_sell_settlement t + summed (funded (\<lambda>q e. pq_venue_output q))"
  "ko_venue_funded_sell (attempts_added_by summed t) = ko_venue_funded_sell t + summed (funded (\<lambda>q e. pq_venue_output q - lv_synthetic_shortfall e))"
  "ko_synthetic_funded_sell (attempts_added_by summed t) = ko_synthetic_funded_sell t + summed (funded (\<lambda>q e. lv_synthetic_shortfall e))"
  by (simp_all add: attempts_added_by_def)

definition attempts_added :: "copy_attempt_record list \<Rightarrow> copy_totals \<Rightarrow> copy_totals" where
  "attempts_added as t = attempts_added_by (\<lambda>f. sum_list (map f as)) t"

lemma attempts_added_Nil [simp]: "attempts_added [] t = t"
  by (simp add: attempts_added_def attempts_added_by_def)

lemma attempts_added_Cons: "attempts_added (a # as) t = attempts_added as (attempts_added [a] t)"
  by (simp add: attempts_added_def attempts_added_by_def algebra_simps)

lemma terminal_status: "attempt_built a \<Longrightarrow> xa_status a = REJECTED \<or> xa_status a = FAILED \<or> xa_status a = FILLED"
  by (auto simp: attempt_built_def CopyAttemptRecord_def split: if_splits)

lemma add_attempt_added:
  assumes "attempt_built a"
  shows "add_attempt t a = Inr (attempts_added [a] t)"
  using terminal_status[OF assms]
  by (auto simp: add_attempt_def attempts_added_def attempts_added_by_def sells_with_def charged_def funded_def add_funding_def
      actual_quote_def sold_def Let_def split: option.splits)

lemma add_attempts_added:
  "list_all attempt_built as \<Longrightarrow> foldE add_attempt t as = Inr (attempts_added as t)"
proof (induction as arbitrary: t)
  case (Cons a as)
  then have "foldE add_attempt t (a # as) = Inr (attempts_added as (attempts_added [a] t))"
    by (simp add: add_attempt_added)
  then show ?case by (simp only: attempts_added_Cons[of a as])
qed simp

lemma quote_facts:
  assumes "attempt_built a" and "actual_quote a = Some q"
  shows "ProtocolQuote q = Inr q" and "pq_liquidity q = Some e \<Longrightarrow> ProtocolLiquidityEvidence e = Inr e"
  using assms by (auto simp: attempt_built_def actual_quote_def option_list_def split: if_splits option.splits)

lemma charged_nonneg:
  assumes "attempt_built a"
  shows "0 \<le> charged pq_protocol_fee a" "0 \<le> charged pq_creator_fee a" "0 \<le> charged pq_cashback a"
  using ProtocolQuote_amounts[OF quote_facts(1)[OF assms]] by (auto simp: charged_def split: option.splits)

lemma funding_bounds:
  assumes "ProtocolQuote q = Inr q" and "pq_liquidity q = Some e" and "ProtocolLiquidityEvidence e = Inr e"
  shows "0 \<le> lv_synthetic_shortfall e" and "lv_synthetic_shortfall e \<le> pq_venue_output q"
proof -
  have s: "pq_side q = QUOTE_SELL" using ProtocolQuote_buy(3)[OF assms(1)] assms(2) by (cases "pq_side q") auto
  show "0 \<le> lv_synthetic_shortfall e" using ProtocolLiquidityEvidence_shortfall(3)[OF assms(3)] by simp
  have "lv_required_output e = pq_venue_output q"
    using ProtocolQuote_amounts(9)[OF assms(1)] s assms(2) by (auto simp: validate_quote_side_def split: if_splits)
  then show "lv_synthetic_shortfall e \<le> pq_venue_output q"
    using ProtocolLiquidityEvidence_shortfall(4)[OF assms(3)] by simp
qed

lemma funded_nonneg:
  assumes "attempt_built a"
  shows "0 \<le> funded (\<lambda>q e. pq_venue_output q) a" "0 \<le> funded (\<lambda>q e. lv_synthetic_shortfall e) a"
    "0 \<le> funded (\<lambda>q e. pq_venue_output q - lv_synthetic_shortfall e) a"
  using funding_bounds[OF quote_facts(1)[OF assms] _ quote_facts(2)[OF assms]]
  by (fastforce simp: funded_def split: option.splits)+

lemma funded_split:
  "sum_list (map (funded (\<lambda>q e. pq_venue_output q)) as)
     = sum_list (map (funded (\<lambda>q e. pq_venue_output q - lv_synthetic_shortfall e)) as)
       + sum_list (map (funded (\<lambda>q e. lv_synthetic_shortfall e)) as)"
  by (induction as) (auto simp: funded_def split: option.splits)

lemma sum_list_nonneg_on:
  fixes f :: "'a \<Rightarrow> int"
  shows "list_all P xs \<Longrightarrow> (\<And>x. P x \<Longrightarrow> 0 \<le> f x) \<Longrightarrow> 0 \<le> sum_list (map f xs)"
  by (induction xs) auto

section \<open>Positions\<close>

definition record_built :: "(bytes \<Rightarrow> string) \<Rightarrow> copy_position_record \<Rightarrow> bool" where
  "record_built sha r \<longleftrightarrow> CopyPositionRecord sha r = Inr r \<and> list_all attempt_built (xp_attempts r)
     \<and> list_all (\<lambda>c. AccountComponentRecord c = Inr c) (xp_account_components r)"

lemma component_nonneg:
  assumes "AccountComponentRecord c = Inr c"
  shows "0 \<le> ac_paid c" "0 \<le> ac_refunded c" "0 \<le> ac_locked_delta c"
  using assms by (auto simp: AccountComponentRecord_def require_account_u64_def split: if_splits)

lemma components_added:
  "fold add_component cs t = t\<lparr>
     ko_account_deposit_paid := ko_account_deposit_paid t + sum_list (map ac_paid cs),
     ko_account_deposit_refunded := ko_account_deposit_refunded t + sum_list (map ac_refunded cs),
     ko_account_deposit_locked := ko_account_deposit_locked t + sum_list (map ac_locked_delta cs)\<rparr>"
  by (induction cs arbitrary: t) (simp_all add: add_component_def algebra_simps)

lemma components_added_fields [simp]:
  "ko_position_count (fold add_component cs t) = ko_position_count t"
  "ko_filled_buy_count (fold add_component cs t) = ko_filled_buy_count t"
  "ko_rejected_buy_count (fold add_component cs t) = ko_rejected_buy_count t"
  "ko_failed_buy_count (fold add_component cs t) = ko_failed_buy_count t"
  "ko_closed_position_count (fold add_component cs t) = ko_closed_position_count t"
  "ko_exhausted_position_count (fold add_component cs t) = ko_exhausted_position_count t"
  "ko_sell_attempt_count (fold add_component cs t) = ko_sell_attempt_count t"
  "ko_rejected_sell_count (fold add_component cs t) = ko_rejected_sell_count t"
  "ko_failed_sell_count (fold add_component cs t) = ko_failed_sell_count t"
  "ko_unvalued_open_position_count (fold add_component cs t) = ko_unvalued_open_position_count t"
  "ko_quote_cashflow (fold add_component cs t) = ko_quote_cashflow t"
  "ko_realized_cash_pnl (fold add_component cs t) = ko_realized_cash_pnl t"
  "ko_valued_economic_pnl_subtotal (fold add_component cs t) = ko_valued_economic_pnl_subtotal t"
  "ko_cashback_receivable (fold add_component cs t) = ko_cashback_receivable t"
  "ko_protocol_fee_paid (fold add_component cs t) = ko_protocol_fee_paid t"
  "ko_creator_fee_paid (fold add_component cs t) = ko_creator_fee_paid t"
  "ko_network_base_fee_paid (fold add_component cs t) = ko_network_base_fee_paid t"
  "ko_network_priority_fee_paid (fold add_component cs t) = ko_network_priority_fee_paid t"
  "ko_account_deposit_paid (fold add_component cs t) = ko_account_deposit_paid t + sum_list (map ac_paid cs)"
  "ko_account_deposit_refunded (fold add_component cs t) = ko_account_deposit_refunded t + sum_list (map ac_refunded cs)"
  "ko_account_deposit_locked (fold add_component cs t) = ko_account_deposit_locked t + sum_list (map ac_locked_delta cs)"
  "ko_gross_sell_settlement (fold add_component cs t) = ko_gross_sell_settlement t"
  "ko_venue_funded_sell (fold add_component cs t) = ko_venue_funded_sell t"
  "ko_synthetic_funded_sell (fold add_component cs t) = ko_synthetic_funded_sell t"
  by (simp_all add: components_added)

lemma add_position_fields [simp]:
  "ko_position_count (add_position r t) = ko_position_count t"
  "ko_filled_buy_count (add_position r t) = ko_filled_buy_count t"
  "ko_rejected_buy_count (add_position r t) = ko_rejected_buy_count t"
  "ko_failed_buy_count (add_position r t) = ko_failed_buy_count t"
  "ko_closed_position_count (add_position r t) = ko_closed_position_count t + of_bool (xp_status r = copy_position_status.CLOSED)"
  "ko_exhausted_position_count (add_position r t) = ko_exhausted_position_count t + of_bool (xp_status r = EXHAUSTED)"
  "ko_sell_attempt_count (add_position r t) = ko_sell_attempt_count t"
  "ko_rejected_sell_count (add_position r t) = ko_rejected_sell_count t"
  "ko_failed_sell_count (add_position r t) = ko_failed_sell_count t"
  "ko_unvalued_open_position_count (add_position r t) = ko_unvalued_open_position_count t + of_bool (xp_economic_pnl r = None)"
  "ko_quote_cashflow (add_position r t) = ko_quote_cashflow t + xp_quote_cashflow r"
  "ko_realized_cash_pnl (add_position r t) = ko_realized_cash_pnl t + (case xp_realized_cash_pnl r of None \<Rightarrow> 0 | Some v \<Rightarrow> v)"
  "ko_valued_economic_pnl_subtotal (add_position r t) = ko_valued_economic_pnl_subtotal t + (case xp_economic_pnl r of None \<Rightarrow> 0 | Some v \<Rightarrow> v)"
  "ko_cashback_receivable (add_position r t) = ko_cashback_receivable t + xp_cashback_receivable r"
  "ko_protocol_fee_paid (add_position r t) = ko_protocol_fee_paid t"
  "ko_creator_fee_paid (add_position r t) = ko_creator_fee_paid t"
  "ko_network_base_fee_paid (add_position r t) = ko_network_base_fee_paid t"
  "ko_network_priority_fee_paid (add_position r t) = ko_network_priority_fee_paid t"
  "ko_account_deposit_paid (add_position r t) = ko_account_deposit_paid t"
  "ko_account_deposit_refunded (add_position r t) = ko_account_deposit_refunded t"
  "ko_account_deposit_locked (add_position r t) = ko_account_deposit_locked t"
  "ko_gross_sell_settlement (add_position r t) = ko_gross_sell_settlement t"
  "ko_venue_funded_sell (add_position r t) = ko_venue_funded_sell t"
  "ko_synthetic_funded_sell (add_position r t) = ko_synthetic_funded_sell t"
  by (simp_all add: add_position_def)

text \<open>The numbers of a position: its attempts are one buy and the sells, all but the last of which failed.\<close>

lemma record_shape:
  assumes "record_built sha r"
  obtains buy sells where "xp_attempts r = buy # sells" and "xa_number buy = 0" and "list_all sold sells"
    and "length sells \<le> 4" and "xp_status r = EXHAUSTED \<longrightarrow> length sells = 4"
    and "xp_status r \<in> {BUY_FAILED, copy_position_status.CLOSED, EXHAUSTED}"
    and "list_all (\<lambda>a. xa_status a \<noteq> FILLED) (butlast sells)"
    and "xp_status r = copy_position_status.CLOSED \<longleftrightarrow> sells \<noteq> [] \<and> xa_status (last sells) = FILLED"
    and "xp_status r = BUY_FAILED \<longrightarrow> sells = [] \<and> xa_status buy \<noteq> FILLED"
    and "xp_status r \<noteq> BUY_FAILED \<longrightarrow> xa_status buy = FILLED"
proof -
  have shape: "validate_copy_shape r = Inr ()" and execution: "validate_copy_execution sha r = Inr ()"
    using assms by (auto simp: record_built_def CopyPositionRecord_def)
  obtain buy sells where at: "xp_attempts r = buy # sells"
    using shape by (cases "xp_attempts r") (auto simp: validate_copy_shape_def Let_def split: if_splits)
  have numbers: "map xa_number (buy # sells) = map int [0..<Suc (length sells)]"
    using shape at by (auto simp: validate_copy_shape_def Let_def split: if_splits)
  then have n: "xa_number buy = 0" by (simp add: upt_conv_Cons del: upt_Suc)
  have "map xa_number sells = map int [1..<Suc (length sells)]"
    using numbers by (simp add: upt_conv_Cons del: upt_Suc)
  then have "\<forall>x \<in> set (map xa_number sells). 0 < x" by auto
  then have sold: "\<And>a. a \<in> set sells \<Longrightarrow> 0 < xa_number a" by simp
  have entry: "validate_copy_entry r buy = Inr ()" and exits: "validate_copy_exits r buy = Inr ()"
    using execution at by (auto simp: validate_copy_execution_def Let_def)
  show ?thesis
  proof (rule that[OF at n])
    show "list_all sold sells" using sold by (fastforce simp: sold_def list_all_iff)
    show "length sells \<le> 4" "xp_status r = EXHAUSTED \<longrightarrow> length sells = 4"
      "xp_status r \<in> {BUY_FAILED, copy_position_status.CLOSED, EXHAUSTED}"
      using shape at by (auto simp: validate_copy_shape_def Let_def split: if_splits)
    show "list_all (\<lambda>a. xa_status a \<noteq> FILLED) (butlast sells)"
      using exits at by (auto simp: validate_copy_exits_def Let_def list_all_iff list_ex_iff split: if_splits)
    have "xp_status r = copy_position_status.CLOSED
        \<longleftrightarrow> 0 < xa_number (last (buy # sells)) \<and> xa_status (last (buy # sells)) = FILLED"
      using shape at by (auto simp: validate_copy_shape_def Let_def split: if_splits)
    then show "xp_status r = copy_position_status.CLOSED \<longleftrightarrow> sells \<noteq> [] \<and> xa_status (last sells) = FILLED"
      using n sold[of "last sells"] by (cases "sells = []") auto
    show "xp_status r = BUY_FAILED \<longrightarrow> sells = [] \<and> xa_status buy \<noteq> FILLED"
      using entry at by (auto simp: validate_copy_entry_def split: if_splits)
    show "xp_status r \<noteq> BUY_FAILED \<longrightarrow> xa_status buy = FILLED"
      using entry by (auto simp: validate_copy_entry_def actual_quote_def split: if_splits)
  qed
qed

lemma sells_counted:
  assumes "list_all attempt_built sells" and "list_all sold sells" and "list_all (\<lambda>a. xa_status a \<noteq> FILLED) (butlast sells)"
  shows "sum_list (map (\<lambda>a. of_bool (sold a)) sells) = (int (length sells))"
    and "int (length sells) = sum_list (map (sells_with REJECTED) sells) + sum_list (map (sells_with FAILED) sells)
      + of_bool (sells \<noteq> [] \<and> xa_status (last sells) = FILLED)"
  using assms
proof (induction sells)
  case (Cons a sells)
  { case 1 then show ?case using Cons.IH(1) by (cases sells) auto }
  { case 2
    then have "xa_status a = FILLED \<longrightarrow> sells = []" by (cases sells) auto
    moreover have "int (length sells) = sum_list (map (sells_with REJECTED) sells) + sum_list (map (sells_with FAILED) sells)
      + of_bool (sells \<noteq> [] \<and> xa_status (last sells) = FILLED)"
      using Cons.IH(2) 2 by (cases sells) auto
    ultimately show ?case using terminal_status[of a] 2 by (auto simp: sells_with_def[of _ a]) }
qed simp_all

lemma unvalued_exhausted:
  assumes "record_built sha r" and "xp_economic_pnl r = None"
  shows "xp_status r = EXHAUSTED"
proof (rule ccontr)
  assume other: "xp_status r \<noteq> EXHAUSTED"
  obtain buy sells where at: "xp_attempts r = buy # sells" and "xp_status r \<in> {BUY_FAILED, copy_position_status.CLOSED, EXHAUSTED}"
    using record_shape[OF assms(1)] by metis
  moreover have "validate_copy_entry r buy = Inr ()" "validate_copy_economics r = Inr ()"
    using assms(1) at by (auto simp: record_built_def CopyPositionRecord_def validate_copy_execution_def Let_def)
  ultimately have "record_remaining_tokens r = 0"
    using other by (auto simp: record_remaining_tokens_def validate_copy_entry_def split: if_splits)
  then have "xp_mtm_liquidation_value r = Some 0"
    using \<open>validate_copy_economics r = Inr ()\<close>
    by (auto simp: validate_copy_economics_def validate_copy_mark_def Let_def split: if_splits)
  then show False using \<open>validate_copy_economics r = Inr ()\<close> assms(2)
    by (auto simp: validate_copy_economics_def Let_def split: if_splits)
qed

lemma cashback_nonneg:
  assumes "record_built sha r"
  shows "0 \<le> xp_cashback_receivable r"
proof -
  have "xp_cashback_receivable r = filled_cashback (xp_attempts r)"
    using assms by (auto simp: record_built_def CopyPositionRecord_def validate_copy_economics_def Let_def split: if_splits)
  moreover have "filled_cashback (xp_attempts r) = sum_list (map (charged pq_cashback) (xp_attempts r))"
    by (simp add: filled_cashback_def charged_def[abs_def])
  moreover have "0 \<le> sum_list (map (charged pq_cashback) (xp_attempts r))"
    using assms by (intro sum_list_nonneg_on[where P = attempt_built]) (simp_all add: record_built_def charged_nonneg)
  ultimately show ?thesis by simp
qed

section \<open>The accumulator\<close>

definition totals_ok :: "copy_totals \<Rightarrow> bool" where
  "totals_ok t \<longleftrightarrow> list_all (\<lambda>v. 0 \<le> v) (unsigned_totals t)
     \<and> ko_position_count t = ko_filled_buy_count t + ko_rejected_buy_count t + ko_failed_buy_count t
     \<and> ko_filled_buy_count t = ko_closed_position_count t + ko_exhausted_position_count t
     \<and> ko_sell_attempt_count t = ko_closed_position_count t + ko_rejected_sell_count t + ko_failed_sell_count t
     \<and> 4 * ko_exhausted_position_count t \<le> ko_sell_attempt_count t
     \<and> ko_sell_attempt_count t \<le> 4 * ko_filled_buy_count t
     \<and> ko_gross_sell_settlement t = ko_venue_funded_sell t + ko_synthetic_funded_sell t
     \<and> ko_unvalued_open_position_count t \<le> ko_exhausted_position_count t"

lemma CopyFinancialTotals_Inr: "CopyFinancialTotals t = Inr t' \<longleftrightarrow> t' = t \<and> totals_ok t"
proof -
  have "list_ex (\<lambda>v. v < 0) (unsigned_totals t) \<longleftrightarrow> \<not> list_all (\<lambda>v. 0 \<le> v) (unsigned_totals t)"
    by (auto simp: list_all_iff list_ex_iff not_le)
  then show ?thesis by (auto simp: CopyFinancialTotals_def totals_ok_def)
qed

text \<open>The buy's counter, as a number per status.\<close>

lemma count_buy_added:
  assumes "attempt_built a"
  shows "count_buy (xa_status a) t = Inr (t\<lparr>
    ko_filled_buy_count := ko_filled_buy_count t + of_bool (xa_status a = FILLED),
    ko_rejected_buy_count := ko_rejected_buy_count t + of_bool (xa_status a = REJECTED),
    ko_failed_buy_count := ko_failed_buy_count t + of_bool (xa_status a = FAILED)\<rparr>)"
  using terminal_status[OF assms] by auto

definition valued :: "copy_position_record \<Rightarrow> int" where
  "valued r = (case xp_economic_pnl r of None \<Rightarrow> 0 | Some v \<Rightarrow> v)"

definition realized :: "copy_position_record \<Rightarrow> int" where
  "realized r = (case xp_realized_cash_pnl r of None \<Rightarrow> 0 | Some v \<Rightarrow> v)"

lemma totals_append_ok:
  assumes built: "record_built sha r" and ok: "totals_ok t"
  obtains t' where "totals_append t r = Inr t'" and "totals_ok t'"
    and "ko_position_count t' = ko_position_count t + 1"
    and "ko_closed_position_count t' = ko_closed_position_count t + of_bool (xp_status r = copy_position_status.CLOSED)"
    and "ko_quote_cashflow t' = ko_quote_cashflow t + xp_quote_cashflow r"
    and "ko_realized_cash_pnl t' = ko_realized_cash_pnl t + realized r"
    and "ko_unvalued_open_position_count t' = ko_unvalued_open_position_count t + of_bool (xp_economic_pnl r = None)"
    and "ko_valued_economic_pnl_subtotal t' = ko_valued_economic_pnl_subtotal t + valued r"
proof -
  obtain buy sells where at: "xp_attempts r = buy # sells" and n: "xa_number buy = 0" and s: "list_all sold sells"
    and len: "length sells \<le> 4" "xp_status r = EXHAUSTED \<longrightarrow> length sells = 4"
    and st: "xp_status r \<in> {BUY_FAILED, copy_position_status.CLOSED, EXHAUSTED}"
    and mid: "list_all (\<lambda>a. xa_status a \<noteq> FILLED) (butlast sells)"
    and closed: "xp_status r = copy_position_status.CLOSED \<longleftrightarrow> sells \<noteq> [] \<and> xa_status (last sells) = FILLED"
    and failed: "xp_status r = BUY_FAILED \<longrightarrow> sells = [] \<and> xa_status buy \<noteq> FILLED"
    and bought: "xp_status r \<noteq> BUY_FAILED \<longrightarrow> xa_status buy = FILLED"
    by (rule record_shape[OF built])
  have as: "list_all attempt_built (buy # sells)" using built at by (simp add: record_built_def)
  have cs: "list_all (\<lambda>c. AccountComponentRecord c = Inr c) (xp_account_components r)"
    using built by (simp add: record_built_def)
  define S :: "(copy_attempt_record \<Rightarrow> int) \<Rightarrow> int" where "S = (\<lambda>f. sum_list (map f (buy # sells)))"
  define D :: "(account_component \<Rightarrow> int) \<Rightarrow> int" where "D = (\<lambda>f. sum_list (map f (xp_account_components r)))"
  have sells: "S (\<lambda>a. of_bool (sold a)) = int (length sells)"
    "int (length sells) = S (sells_with REJECTED) + S (sells_with FAILED) + of_bool (xp_status r = copy_position_status.CLOSED)"
    using sells_counted[OF _ s mid] as n closed by (auto simp: sold_def sells_with_def S_def)
  have pos: "0 \<le> S (sells_with REJECTED)" "0 \<le> S (sells_with FAILED)"
    unfolding S_def by (rule sum_list_nonneg_on[where P = "\<lambda>_. True"]; simp add: list_all_iff sells_with_def)+
  have fees: "0 \<le> S (charged pq_protocol_fee)" "0 \<le> S (charged pq_creator_fee)"
    "0 \<le> S (funded (\<lambda>q e. pq_venue_output q - lv_synthetic_shortfall e))"
    "0 \<le> S (funded (\<lambda>q e. lv_synthetic_shortfall e))"
    unfolding S_def by (rule sum_list_nonneg_on[OF as]; simp add: charged_nonneg funded_nonneg)+
  have net: "0 \<le> S xa_network_base_fee_paid" "0 \<le> S xa_network_priority_fee_paid"
    unfolding S_def by (rule sum_list_nonneg_on[OF as]; auto simp: attempt_built_def CopyAttemptRecord_def split: if_splits)+
  have dep: "0 \<le> D ac_paid" "0 \<le> D ac_refunded" "0 \<le> D ac_locked_delta"
    unfolding D_def by (rule sum_list_nonneg_on[OF cs]; simp add: component_nonneg)+
  have funds: "S (funded (\<lambda>q e. pq_venue_output q)) = S (funded (\<lambda>q e. pq_venue_output q - lv_synthetic_shortfall e))
      + S (funded (\<lambda>q e. lv_synthetic_shortfall e))"
    unfolding S_def by (rule funded_split)
  let ?t = "attempts_added (buy # sells) (fold add_component (xp_account_components r) (add_position r
    (t\<lparr>ko_position_count := ko_position_count t + 1,
      ko_filled_buy_count := ko_filled_buy_count t + of_bool (xa_status buy = FILLED),
      ko_rejected_buy_count := ko_rejected_buy_count t + of_bool (xa_status buy = REJECTED),
      ko_failed_buy_count := ko_failed_buy_count t + of_bool (xa_status buy = FAILED)\<rparr>)))"
  have added: "attempts_added (buy # sells) u = attempts_added_by S u" for u
    by (simp add: attempts_added_def S_def)
  note dep = dep[unfolded D_def]
  have kinds: "of_bool (xa_status buy = FILLED) + of_bool (xa_status buy = REJECTED) + of_bool (xa_status buy = FAILED) = (1::int)"
    using terminal_status[of buy] as by auto
  have filled: "of_bool (xa_status buy = FILLED)
      = of_bool (xp_status r = copy_position_status.CLOSED) + (of_bool (xp_status r = EXHAUSTED) :: int)"
    using st failed bought by auto
  have tries: "4 * of_bool (xp_status r = EXHAUSTED) \<le> int (length sells)"
    "int (length sells) \<le> 4 * of_bool (xa_status buy = FILLED)"
    using len failed st by (auto simp: filled)
  have unvalued: "of_bool (xp_economic_pnl r = None) \<le> (of_bool (xp_status r = EXHAUSTED) :: int)"
    using unvalued_exhausted[OF built] by auto
  show ?thesis
  proof (rule that)
    show "totals_append t r = Inr ?t"
      using as by (simp add: totals_append_def at count_buy_added add_attempts_added del: foldE.simps)
    have nn: "list_all (\<lambda>v. 0 \<le> v) (unsigned_totals t)" using ok by (simp add: totals_ok_def)
    have "list_all (\<lambda>v. 0 \<le> v) (unsigned_totals ?t)"
      using nn unfolding unsigned_totals_def
      by (simp add: added sells(1) pos fees net dep cashback_nonneg[OF built] funds)
    moreover have "ko_position_count ?t = ko_filled_buy_count ?t + ko_rejected_buy_count ?t + ko_failed_buy_count ?t"
      "ko_filled_buy_count ?t = ko_closed_position_count ?t + ko_exhausted_position_count ?t"
      using ok kinds filled unfolding totals_ok_def by (simp_all add: added)
    moreover have "ko_sell_attempt_count ?t = ko_closed_position_count ?t + ko_rejected_sell_count ?t + ko_failed_sell_count ?t"
      using ok sells unfolding totals_ok_def by (simp add: added)
    moreover have "4 * ko_exhausted_position_count ?t \<le> ko_sell_attempt_count ?t"
      using ok sells(1) tries(1) unfolding totals_ok_def by (simp add: added)
    moreover have "ko_sell_attempt_count ?t \<le> 4 * ko_filled_buy_count ?t"
      using ok sells(1) tries(2) unfolding totals_ok_def by (simp add: added)
    moreover have "ko_gross_sell_settlement ?t = ko_venue_funded_sell ?t + ko_synthetic_funded_sell ?t"
      using ok funds unfolding totals_ok_def by (simp add: added)
    moreover have "ko_unvalued_open_position_count ?t \<le> ko_exhausted_position_count ?t"
      using ok unvalued unfolding totals_ok_def by (simp add: added)
    ultimately show "totals_ok ?t" unfolding totals_ok_def by (intro conjI)
  qed (simp_all add: added valued_def realized_def)
qed


lemma totals_fold:
  assumes "totals_ok t" and "list_all (record_built sha) rs"
  shows "\<exists>t'. foldE totals_append t rs = Inr t' \<and> totals_ok t'
    \<and> ko_position_count t' = ko_position_count t + int (length rs)
    \<and> ko_closed_position_count t' = ko_closed_position_count t
        + int (length (filter (\<lambda>r. xp_status r = copy_position_status.CLOSED) rs))
    \<and> ko_quote_cashflow t' = ko_quote_cashflow t + sum_list (map xp_quote_cashflow rs)
    \<and> ko_realized_cash_pnl t' = ko_realized_cash_pnl t + sum_list (map realized rs)
    \<and> ko_unvalued_open_position_count t' = ko_unvalued_open_position_count t
        + int (length (filter (\<lambda>r. xp_economic_pnl r = None) rs))
    \<and> ko_valued_economic_pnl_subtotal t' = ko_valued_economic_pnl_subtotal t + sum_list (map valued rs)"
  using assms
proof (induction rs arbitrary: t)
  case (Cons r rs)
  obtain u where u: "totals_append t r = Inr u" "totals_ok u"
    "ko_position_count u = ko_position_count t + 1"
    "ko_closed_position_count u = ko_closed_position_count t + of_bool (xp_status r = copy_position_status.CLOSED)"
    "ko_quote_cashflow u = ko_quote_cashflow t + xp_quote_cashflow r"
    "ko_realized_cash_pnl u = ko_realized_cash_pnl t + realized r"
    "ko_unvalued_open_position_count u = ko_unvalued_open_position_count t + of_bool (xp_economic_pnl r = None)"
    "ko_valued_economic_pnl_subtotal u = ko_valued_economic_pnl_subtotal t + valued r"
    using totals_append_ok[of sha r t] Cons.prems by auto
  then show ?case using Cons.IH[OF u(2)] Cons.prems(2) by auto
qed simp

text \<open>C9: The totals of recorded positions always reconcile, so the summary's constructor accepts them: every record
  counts once, the cash and realized columns are the sums over the records, and the economic result is complete
  exactly when every position was valued, and then it is the sum of their results.\<close>

theorem copy_totals_reconcile:
  assumes "list_all (record_built sha) rs"
  shows "\<exists>t. foldE totals_append empty_totals rs = Inr t \<and> CopyFinancialTotals t = Inr t
    \<and> ko_position_count t = int (length rs)
    \<and> ko_closed_position_count t = int (length (filter (\<lambda>r. xp_status r = copy_position_status.CLOSED) rs))
    \<and> ko_quote_cashflow t = sum_list (map xp_quote_cashflow rs)
    \<and> ko_realized_cash_pnl t = sum_list (map realized rs)
    \<and> copy_economic_pnl t
        = (if \<exists>r \<in> set rs. xp_economic_pnl r = None then None else Some (sum_list (map (the \<circ> xp_economic_pnl) rs)))"
proof -
  have start: "totals_ok empty_totals" by (simp add: totals_ok_def unsigned_totals_def empty_totals_def)
  have "ko_position_count empty_totals = 0" "ko_closed_position_count empty_totals = 0"
    "ko_unvalued_open_position_count empty_totals = 0" "ko_quote_cashflow empty_totals = 0"
    "ko_realized_cash_pnl empty_totals = 0" "ko_valued_economic_pnl_subtotal empty_totals = 0"
    by (simp_all add: empty_totals_def)
  then obtain t where run: "foldE totals_append empty_totals rs = Inr t" and "totals_ok t"
    and counts: "ko_position_count t = int (length rs)"
      "ko_closed_position_count t = int (length (filter (\<lambda>r. xp_status r = copy_position_status.CLOSED) rs))"
      "ko_unvalued_open_position_count t = int (length (filter (\<lambda>r. xp_economic_pnl r = None) rs))"
    and sums: "ko_quote_cashflow t = sum_list (map xp_quote_cashflow rs)"
      "ko_realized_cash_pnl t = sum_list (map realized rs)" "ko_valued_economic_pnl_subtotal t = sum_list (map valued rs)"
    using totals_fold[OF start assms] by auto
  have "(\<exists>r \<in> set rs. xp_economic_pnl r = None) \<longleftrightarrow> filter (\<lambda>r. xp_economic_pnl r = None) rs \<noteq> []"
    by (auto simp: filter_empty_conv)
  moreover have "sum_list (map valued rs) = sum_list (map (the \<circ> xp_economic_pnl) rs)"
    if "\<forall>r \<in> set rs. xp_economic_pnl r \<noteq> None" using that by (induction rs) (auto simp: valued_def)
  ultimately have "copy_economic_pnl t
      = (if \<exists>r \<in> set rs. xp_economic_pnl r = None then None else Some (sum_list (map (the \<circ> xp_economic_pnl) rs)))"
    using counts(3) sums(3) by (auto simp: copy_economic_pnl_def)
  then show ?thesis using run \<open>totals_ok t\<close> counts(1,2) sums(1,2) by (auto simp: CopyFinancialTotals_Inr)
qed

section \<open>Sample records\<close>

definition sample_place :: "int \<Rightarrow> int option \<Rightarrow> chain_position" where
  "sample_place n e = \<lparr>cp_network_id = ''n'', cp_position_schema_id = BLOCK32_TRANSACTION32_POSITION_SCHEMA_ID,
     cp_block_ordinal = 0, cp_transaction_index = n, cp_event_index = e\<rparr>"

definition sample_copy_intent :: "int \<Rightarrow> copy_intent" where
  "sample_copy_intent budget = \<lparr>ci_roundtrip_id = sample_digest (CHR ''a''),
     ci_signal = \<lparr>cs_event_id = sample_digest (CHR ''b''), cs_position = sample_place 0 (Some 0),
       cs_signing_wallet = ''w'', cs_asset_id = ''T'', cs_venue_id = ''v'', cs_quote_asset_id = ''Q''\<rparr>,
     ci_decision_position = sample_place 1 None,
     ci_policy = \<lparr>cb_gross_buy_budget_atomic = budget, cb_take_profit_bps = 1000, cb_stop_loss_bps = 1000,
       cb_maximum_hold_seconds = 60, cb_observation_delay_transactions = 0, cb_buy_delay_transactions = 1,
       cb_sell_delay_transactions = 1, cb_buy_slippage_bps = 100, cb_sell_slippage_bps = 100\<rparr>,
     ci_execution_mode = EXOGENOUS_REPLAY\<rparr>"

definition sample_buy_quote :: protocol_quote where
  "sample_buy_quote = \<lparr>pq_side = QUOTE_BUY, pq_input_asset_id = ''Q'', pq_output_asset_id = ''T'', pq_amount_in = 100,
     pq_amount_out = 49, pq_venue_input = 98, pq_venue_output = 49, pq_protocol_fee = 1, pq_creator_fee = 1,
     pq_cashback = 1, pq_protocol_fee_account = ''f'', pq_creator_fee_account = ''c'',
     pq_cashback_source_account = ''s'', pq_liquidity = None\<rparr>"

definition sample_sell_quote :: protocol_quote where
  "sample_sell_quote = \<lparr>pq_side = QUOTE_SELL, pq_input_asset_id = ''T'', pq_output_asset_id = ''Q'', pq_amount_in = 49,
     pq_amount_out = 118, pq_venue_input = 49, pq_venue_output = 120, pq_protocol_fee = 1, pq_creator_fee = 1,
     pq_cashback = 0, pq_protocol_fee_account = ''f'', pq_creator_fee_account = ''c'',
     pq_cashback_source_account = ''s'',
     pq_liquidity = Some \<lparr>lv_policy_id = ''p'', lv_asset_id = ''Q'', lv_required_output = 120,
       lv_observed_output = 100, lv_synthetic_shortfall = 20, lv_synthetic_source = Some ''x''\<rparr>\<rparr>"

definition sample_attempt :: "int \<Rightarrow> int \<Rightarrow> protocol_quote \<Rightarrow> copy_attempt_record" where
  "sample_attempt number at_index q = \<lparr>xa_order_id = replicate 64 (CHR ''0''), xa_number = number,
     xa_decision = sample_place at_index None, xa_expected_landing = sample_place (at_index + 1) None,
     xa_status = FILLED, xa_landed_at = Some (sample_place (at_index + 1) None), xa_reference = Some q,
     xa_landing_quote = Some q, xa_minimum_out = pq_amount_out q, xa_failure_code = None,
     xa_network_fee_asset_id = ''Q'', xa_network_base_fee_paid = 2, xa_network_priority_fee_paid = 1\<rparr>"

text \<open>One position bought and sold with a profit, one rejected before submission.\<close>

definition sample_closed :: copy_position_record where
  "sample_closed = \<lparr>xp_intent = sample_copy_intent 100, xp_status = copy_position_status.CLOSED,
     xp_attempts = [sample_attempt 0 1 sample_buy_quote, sample_attempt 1 3 sample_sell_quote],
     xp_acquired_tokens = 49, xp_entry_price = Some \<lparr>tp_quote_atomic = 2, tp_token_atomic = 1\<rparr>,
     xp_exit_reason = Some TAKE_PROFIT, xp_trigger_position = Some (sample_place 3 None),
     xp_trigger_price = Some \<lparr>tp_quote_atomic = 3, tp_token_atomic = 1\<rparr>, xp_account_components = [],
     xp_quote_cashflow = 12, xp_realized_cash_pnl = Some 12, xp_cashback_receivable = 1,
     xp_mtm_status = NOT_APPLICABLE, xp_mtm_liquidation_value = Some 0, xp_mtm_quote = None,
     xp_economic_pnl = Some 13\<rparr>"

definition sample_rejected :: copy_position_record where
  "sample_rejected = \<lparr>xp_intent = sample_copy_intent 100, xp_status = BUY_FAILED,
     xp_attempts = [(sample_attempt 0 1 sample_buy_quote)\<lparr>xa_status := REJECTED, xa_landed_at := None,
       xa_reference := None, xa_landing_quote := None, xa_failure_code := Some ''NO_LIQUIDITY'',
       xa_network_base_fee_paid := 0, xa_network_priority_fee_paid := 0\<rparr>],
     xp_acquired_tokens = 0, xp_entry_price = None, xp_exit_reason = None, xp_trigger_position = None,
     xp_trigger_price = None, xp_account_components = [], xp_quote_cashflow = 0, xp_realized_cash_pnl = Some 0,
     xp_cashback_receivable = 0, xp_mtm_status = NOT_APPLICABLE, xp_mtm_liquidation_value = Some 0,
     xp_mtm_quote = None, xp_economic_pnl = Some 0\<rparr>"

abbreviation zero_sha :: "bytes \<Rightarrow> string" where "zero_sha \<equiv> \<lambda>_. replicate 64 (CHR ''0'')"

lemma sample_quotes_made: "ProtocolQuote sample_buy_quote = Inr sample_buy_quote"
  "ProtocolQuote sample_sell_quote = Inr sample_sell_quote"
  by (simp_all add: ProtocolQuote_def sample_buy_quote_def sample_sell_quote_def validate_quote_side_def raise_if_def
      require_non_negative_def)

lemma sample_place_ordinal: "0 \<le> n \<Longrightarrow> n \<le> 10 \<Longrightarrow> ordinal_of (sample_place n None) = n + 1"
  by (subst ordinal_of_eq) (simp_all add: sample_place_def valid_position_iff UINT32_MAX_def)

lemma sample_place_fields:
  "cp_event_index (sample_place n e) = e" "chain_identity (sample_place n e) = (''n'', BLOCK32_TRANSACTION32_POSITION_SCHEMA_ID)"
  by (simp_all add: sample_place_def chain_identity_def)

lemma sample_order_identity:
  "domain_digest zero_sha ''backtest.pumpfun-copy-order.v1''
     (copy_order_document (sample_digest (CHR ''a'')) side number) = Inr (replicate 64 (CHR ''0''))"
proof -
  have "json_validate (copy_order_document (sample_digest (CHR ''a'')) side number) = Inr ()"
    by (cases side) (simp_all add: copy_order_document_def sample_digest_def)
  then show ?thesis
    by (simp add: domain_digest_ok sample_digests strip_def is_space_def char_code_def nul_def)
qed

lemmas sample_record_evals = sample_place_ordinal sample_place_fields attempt_built_def CopyAttemptRecord_def
  require_same_chain_def copy_outcome_check_def sample_attempt_def option_list_def sample_quotes_made
  strip_def is_space_def char_code_def raise_if_def Let_def

lemma sample_attempts_built:
  "attempt_built (sample_attempt 0 1 sample_buy_quote)" "attempt_built (sample_attempt 1 3 sample_sell_quote)"
  "list_all attempt_built (xp_attempts sample_rejected)"
  by (simp_all add: sample_record_evals sample_rejected_def)
    (simp_all add: sample_buy_quote_def sample_sell_quote_def ProtocolLiquidityEvidence_def require_non_negative_def
      strip_def is_space_def char_code_def raise_if_def)

lemmas sample_position_evals = sample_record_evals sample_order_identity sample_copy_intent_def actual_quote_def
  validate_copy_shape_def validate_copy_execution_def validate_copy_entry_def validate_copy_identity_def
  validate_copy_quote_def validate_copy_exits_def validate_copy_trigger_def retry_after_def attempt_side_def
  validate_copy_economics_def validate_copy_mark_def record_remaining_tokens_def filled_cashback_def
  quote_asset_sum_def run_locked_value_def asset_totals_def

lemma sample_rejected_built: "record_built zero_sha sample_rejected"
proof -
  have "CopyPositionRecord zero_sha sample_rejected = Inr sample_rejected"
    by (simp add: CopyPositionRecord_def sample_rejected_def sample_position_evals)
  then show ?thesis using sample_attempts_built(3) by (simp add: record_built_def) (simp add: sample_rejected_def)
qed

lemma sample_closed_built: "record_built zero_sha sample_closed"
proof -
  have price: "TokenPrice 98 49 = Inr \<lparr>tp_quote_atomic = 2, tp_token_atomic = 1\<rparr>"
    by (simp add: TokenPrice_def Let_def gcd_non_0_int)
  have "CopyPositionRecord zero_sha sample_closed = Inr sample_closed"
    by (simp add: CopyPositionRecord_def sample_closed_def sample_position_evals)
      (simp add: sample_buy_quote_def sample_sell_quote_def price)
  then show ?thesis using sample_attempts_built(1,2) by (simp add: record_built_def) (simp add: sample_closed_def)
qed

theorem copy_totals_reconcile_witness:
  "\<exists>t. foldE totals_append empty_totals [sample_closed, sample_rejected] = Inr t \<and> CopyFinancialTotals t = Inr t
     \<and> ko_position_count t = 2 \<and> ko_closed_position_count t = 1 \<and> ko_quote_cashflow t = 12
     \<and> copy_economic_pnl t = Some 13"
proof -
  have "list_all (record_built zero_sha) [sample_closed, sample_rejected]"
    using sample_closed_built sample_rejected_built by simp
  from copy_totals_reconcile[OF this] show ?thesis
    by (elim ex_forward) (simp add: sample_closed_def sample_rejected_def)
qed

section \<open>An entry that spends less than its budget\<close>

text \<open>C39: An entry quote may spend less than the budget: the check at submission allows it, and the bonding curve
  returns such quotes when the fees round the budget up. But the record of a position demands that its entry
  spent exactly the budget, so a position with such a quote can never be frozen and its run ends in an error.\<close>

theorem copy_underspent_entry_unrecordable:
  assumes "pq_side q = QUOTE_BUY" and "pq_input_asset_id q = cs_quote_asset_id (ci_signal (ce_intent st))"
    and "pq_output_asset_id q = cs_asset_id (ci_signal (ce_intent st))"
    and less: "pq_amount_in q < cb_gross_buy_budget_atomic (ci_policy (ce_intent st))"
    and entry: "ce_attempts st = a # later" "ca_reference a = Some q"
  shows "validate_buy_quote (shared_intent (ce_intent st)) q = Inr ()
    \<and> (\<exists>e. freeze_copy_position env historical b st = Inl e)"
proof
  show "validate_buy_quote (shared_intent (ce_intent st)) q = Inr ()"
    using assms(1-4) by (simp add: validate_buy_quote_def shared_intent_def Let_def raise_if_def)
  show "\<exists>e. freeze_copy_position env historical b st = Inl e"
  proof (rule ccontr)
    assume "\<nexists>e. freeze_copy_position env historical b st = Inl e"
    then obtain r where run: "freeze_copy_position env historical b st = Inr r"
      by (cases "freeze_copy_position env historical b st") auto
    obtain buy records where "freeze_attempt a = Inr buy" and at: "xp_attempts r = buy # records"
      and i: "xp_intent r = ce_intent st" and made: "CopyPositionRecord (cv_sha env) r = Inr r"
      using run entry(1) by (auto simp: freeze_copy_position_def CopyPositionRecord_def Let_def split: prod.splits)
    then have q: "xa_reference buy = Some q"
      using entry(2) by (auto simp: freeze_attempt_def CopyAttemptRecord_def Let_def split: option.splits if_splits)
    have "xa_number buy = 0"
      using made at by (auto simp: CopyPositionRecord_def validate_copy_shape_def Let_def upt_conv_Cons
          simp del: upt_Suc split: if_splits)
    then have "validate_copy_quote r QUOTE_BUY q = Inr ()"
      using made at q by (auto simp: CopyPositionRecord_def validate_copy_execution_def validate_copy_identity_def
          attempt_side_def option_list_def Let_def split: if_splits)
    then show False using less i by (auto simp: validate_copy_quote_def Let_def split: if_splits)
  qed
qed

text \<open>What the sample curve quotes for a budget of 2026, as the quote of a position.\<close>

definition sample_underspent_quote :: protocol_quote where
  "sample_underspent_quote = sample_buy_quote\<lparr>pq_amount_in := 2025, pq_amount_out := 62470, pq_venue_input := 2000,
     pq_venue_output := 62470, pq_protocol_fee := 19, pq_creator_fee := 6, pq_cashback := 6\<rparr>"

definition sample_underspent :: copy_position where
  "sample_underspent = (CopyExecutionPosition (sample_copy_intent 2026))\<lparr>ce_attempts :=
     [(CopyOrderAttempt (replicate 64 (CHR ''0'')) QUOTE_BUY 0 (sample_place 1 None) (sample_place 2 None))
       \<lparr>ca_reference := Some sample_underspent_quote\<rparr>]\<rparr>"

theorem copy_underspent_entry_unrecordable_witness:
  "(\<exists>bought. buy_quote sample_curve 2026 sample_fees 15 = Inr bought
     \<and> pq_amount_in sample_underspent_quote = bq_gross_spent bought
     \<and> pq_venue_input sample_underspent_quote = bq_net_curve bought
     \<and> pq_amount_out sample_underspent_quote = bq_tokens_out bought)
   \<and> ProtocolQuote sample_underspent_quote = Inr sample_underspent_quote
   \<and> (\<forall>env historical b. \<exists>e. freeze_copy_position env historical b sample_underspent = Inl e)"
proof (intro conjI)
  show "\<exists>bought. buy_quote sample_curve 2026 sample_fees 15 = Inr bought
     \<and> pq_amount_in sample_underspent_quote = bq_gross_spent bought
     \<and> pq_venue_input sample_underspent_quote = bq_net_curve bought
     \<and> pq_amount_out sample_underspent_quote = bq_tokens_out bought"
    by (simp add: buy_quote_def sample_curve_def sample_fees_def quote_evals sample_underspent_quote_def)
  show "ProtocolQuote sample_underspent_quote = Inr sample_underspent_quote"
    by (simp add: ProtocolQuote_def sample_underspent_quote_def sample_buy_quote_def validate_quote_side_def
        raise_if_def require_non_negative_def)
  have i: "ce_intent sample_underspent = sample_copy_intent 2026"
    by (simp add: sample_underspent_def CopyExecutionPosition_def)
  have entry: "ce_attempts sample_underspent = [hd (ce_attempts sample_underspent)]"
    "ca_reference (hd (ce_attempts sample_underspent)) = Some sample_underspent_quote"
    by (simp_all add: sample_underspent_def)
  have quoted: "pq_side sample_underspent_quote = QUOTE_BUY"
    "pq_input_asset_id sample_underspent_quote = cs_quote_asset_id (ci_signal (ce_intent sample_underspent))"
    "pq_output_asset_id sample_underspent_quote = cs_asset_id (ci_signal (ce_intent sample_underspent))"
    "pq_amount_in sample_underspent_quote < cb_gross_buy_budget_atomic (ci_policy (ce_intent sample_underspent))"
    by (simp_all add: i sample_copy_intent_def sample_underspent_quote_def sample_buy_quote_def)
  show "\<forall>env historical b. \<exists>e. freeze_copy_position env historical b sample_underspent = Inl e"
    by (intro allI) (rule conjunct2[OF copy_underspent_entry_unrecordable[OF quoted entry]])
qed

end
