(* ===== verification/Copy_Sample.thy ===== *)
theory Copy_Sample
  imports Copy_Settled Copy_Totals
begin

text \<open>
  A copy replay followed to its end: one purchase of a followed wallet is observed, the entry is priced and its
  accounts planned, the venue refuses the reference quote, and the position ends with its failed buy recorded.
\<close>

section \<open>The inputs\<close>

definition settle_event :: canonical_event where
  "settle_event = Token_Launch_Event \<lparr>tl_envelope = (run_envelope 0 (CHR ''1''))
       \<lparr>ee_position := (sample_position 1 0)\<lparr>cp_event_index := Some 0\<rparr>\<rparr>,
     tl_asset_id = ''T'', tl_developer_id = ''w'', tl_creation_user_id = ''w'', tl_venue_id = ''v'',
     tl_quote_asset_id = ''SOL'', tl_protocol_payload_schema = '''', tl_protocol_payload = [], tl_decimals = None\<rparr>"

definition settle_intent :: copy_intent where
  "settle_intent = \<lparr>ci_roundtrip_id = sample_digest (CHR ''a''),
     ci_signal = \<lparr>cs_event_id = sample_digest (CHR ''1''),
       cs_position = (sample_position 1 0)\<lparr>cp_event_index := Some 0\<rparr>, cs_signing_wallet = ''w'',
       cs_asset_id = ''T'', cs_venue_id = ''v'', cs_quote_asset_id = ''SOL''\<rparr>,
     ci_decision_position = sample_position 1 0, ci_policy = horizon_policy, ci_execution_mode = EXOGENOUS_REPLAY\<rparr>"

definition settle_network :: network_cost_quote where
  "settle_network = \<lparr>nq_fee_asset_id = ''SOL'', nq_base_fee = 5, nq_priority_fee = 2,
     nq_account_requirements = sample_priced\<rparr>"

definition settle_env :: "(unit, unit) copy_env" where
  "settle_env = \<lparr>cv_sha = zero_sha, cv_clock = horizon_clock, cv_signing_wallets = [''w''], cv_policy = horizon_policy,
     cv_decide = (\<lambda>s signal position. Inr (Some settle_intent, s)),
     cv_apply_group = (\<lambda>p g seconds. Inr ([ci_signal settle_intent], p)),
     cv_current_price = (\<lambda>p i. Inr None), cv_account_requirements = (\<lambda>p i. Inr (map pr_requirement sample_priced)),
     cv_quote_buy = (\<lambda>p i seconds. Inl (ProtocolExecutionRejected ''GRADUATED'')),
     cv_quote_sell = (\<lambda>p i tokens seconds. Inl (ProtocolExecutionRejected ''GRADUATED'')),
     cv_valuation_quote = (\<lambda>p i tokens seconds. Inr None), cv_fee_collector = ''fee:n'',
     cv_cost_buy = (\<lambda>seconds requirements. Inr settle_network),
     cv_cost_sell = (\<lambda>seconds. Inr (settle_network\<lparr>nq_account_requirements := []\<rparr>))\<rparr>"

definition settle_source :: sniping_source where
  "settle_source = \<lparr>so_logical_content_hash = sample_digest (CHR ''8''),
     so_replay_semantics_id = sample_digest (CHR ''9''), so_events = [settle_event], so_index = None\<rparr>"

definition settle_range :: block_range where
  "settle_range = \<lparr>br_network_id = ''n'', br_position_schema_id = BLOCK32_TRANSACTION32_POSITION_SCHEMA_ID,
     br_from = 0, br_to = 10\<rparr>"

definition settle_limits :: copy_limits where
  "settle_limits = \<lparr>cl_maximum_events = 10, cl_maximum_positions = 10, cl_maximum_dynamic_items = 10\<rparr>"

lemma settle_ports:
  "cv_sha settle_env = zero_sha" "cv_clock settle_env = horizon_clock" "cv_policy settle_env = horizon_policy"
  "cv_decide settle_env = (\<lambda>s signal position. Inr (Some settle_intent, s))"
  "cv_apply_group settle_env = (\<lambda>p g seconds. Inr ([ci_signal settle_intent], p))"
  "cv_account_requirements settle_env = (\<lambda>p i. Inr (map pr_requirement sample_priced))"
  "cv_quote_buy settle_env = (\<lambda>p i seconds. Inl (ProtocolExecutionRejected ''GRADUATED''))"
  "cv_cost_buy settle_env = (\<lambda>seconds requirements. Inr settle_network)"
  by (simp_all add: settle_env_def)

section \<open>Coordinates\<close>

abbreviation settle_place :: chain_position where "settle_place \<equiv> (sample_position 1 0)\<lparr>cp_event_index := Some 0\<rparr>"

lemma settle_event_facts:
  "ee_position (event_envelope_of settle_event) = settle_place" "event_boundary settle_event = 4294967297"
  "event_group settle_event = sample_digest (CHR ''1'')"
proof -
  show p: "ee_position (event_envelope_of settle_event) = settle_place" by (simp add: settle_event_def)
  have "ordinal_of settle_place = 4294967297"
    by (subst ordinal_of_eq) (simp_all add: valid_position_iff sample_position_def)
  then show "event_boundary settle_event = 4294967297" by (simp add: event_boundary_def envelope_boundary_ordinal_def p)
  show "event_group settle_event = sample_digest (CHR ''1'')"
    by (simp add: event_group_def settle_event_def run_envelope_def)
qed

lemma settle_require: "require_position horizon_clock settle_place = Inr 0"
  "require_position horizon_clock (sample_position 1 0) = Inr 0"
  by (simp_all add: require_position_def horizon_clock_def sample_position_def bisect_left_def bisect_left_loop_cases Let_def)

lemma settle_groups: "source_groups horizon_clock settle_source = ([[settle_event]], None)"
  by (simp add: source_groups_def copy_event_groups_def maximum_group_events_def settle_source_def scan_event_def
      check_event_clock_def settle_event_facts settle_require Let_def)
    (simp add: sample_position_def horizon_clock_def)

lemma settle_boundary: "sniping_boundary_position [settle_event] = Inr (sample_position 1 0)"
  by (simp add: sniping_boundary_position_def settle_event_facts Let_def ChainPosition_iff) (simp add: sample_position_def)

lemma settle_ordinal: "ordinal_of (sample_position 1 0) = 4294967297"
  using horizon_ordinals[of 1 0] by simp

lemma settle_deliveries: "source_deliveries horizon_clock 0 settle_source = ([(4294967297, [settle_event])], None)"
proof -
  have "delay_group horizon_clock 0 [settle_event] = Inr (Deliver 4294967297)"
    by (simp add: delay_group_def settle_boundary global_transaction_index_def settle_require settle_ordinal
        total_transaction_count_def) (simp add: horizon_clock_def sample_position_def)
  then show ?thesis by (simp add: source_deliveries_def settle_groups)
qed

lemma settle_back: "from_boundary_ordinal ''n'' BLOCK32_TRANSACTION32_POSITION_SCHEMA_ID 4294967297 None = Inr (sample_position 1 0)"
proof -
  have "boundary_coordinates 4294967297 BLOCK32_TRANSACTION32_POSITION_SCHEMA_ID = Inr (1, 0)"
    by (simp add: boundary_coordinates_iff)
  then show ?thesis by (simp add: from_boundary_ordinal_def ChainPosition_iff) (simp add: sample_position_def)
qed

lemma settle_seconds: "group_seconds horizon_clock [settle_event] = Inr 0" "copy_seconds settle_env (sample_position 1 0) = Inr 0"
proof -
  have time: "tc_times horizon_clock ! 0 = 0" by (simp add: horizon_clock_def)
  have "block_time_for_block horizon_clock 1 = Inr 0"
    by (simp add: block_time_for_block_def horizon_clock_def bisect_left_def bisect_left_loop_cases)
  then show "group_seconds horizon_clock [settle_event] = Inr 0"
    by (simp add: group_seconds_def settle_event_facts) (simp add: sample_position_def)
  show "copy_seconds settle_env (sample_position 1 0) = Inr 0"
    by (simp add: copy_seconds_def block_time_for_position_def settle_ports settle_require time)
qed

lemma settle_horizon: "maximum_settlement_position horizon_clock settle_place horizon_policy = Inr (sample_position 5 1)"
proof -
  have "transaction_after horizon_clock settle_place 1 = transaction_after horizon_clock (sample_position 1 0) 1"
    by (simp add: transaction_after_def global_transaction_index_def settle_require)
  then show ?thesis
    using horizon_maximum
    by (simp add: maximum_settlement_position_def maximum_copy_settlement_position_def observation_decision_def
        horizon_policy_fields settle_require require_integer_def)
qed

section \<open>The entry\<close>

definition settle_attempt :: copy_attempt where
  "settle_attempt = CopyOrderAttempt (replicate 64 (CHR ''0'')) QUOTE_BUY 0 (sample_position 1 0) (sample_position 1 1)"

lemma settle_intent_fields:
  "ci_roundtrip_id settle_intent = sample_digest (CHR ''a'')" "ci_decision_position settle_intent = sample_position 1 0"
  "ci_policy settle_intent = horizon_policy" "cs_position (ci_signal settle_intent) = settle_place"
  "cs_asset_id (ci_signal settle_intent) = ''T''" "cs_venue_id (ci_signal settle_intent) = ''v''"
  by (simp_all add: settle_intent_def)

lemma settle_new_attempt:
  assumes "ce_intent st = settle_intent"
  shows "new_attempt settle_env st QUOTE_BUY 0 (sample_position 1 0)
    = Inr (settle_attempt, st\<lparr>ce_attempts := ce_attempts st @ [settle_attempt]\<rparr>)"
  using assms
  by (simp add: new_attempt_def settle_ports settle_intent_fields horizon_policy_fields horizon_after
      sample_order_identity[unfolded sample_digest_def] sample_digest_def settle_attempt_def sample_digests Let_def)

lemma settle_records: "\<exists>records. unsubmitted_account_records sample_wallet (sample_plan r mint) = Inr records"
  by (simp add: unsubmitted_account_records_def sample_plan_def sample_priced_def sample_wallet_def component_record_def
      existing_wallet_lifecycle_def uva_exists_def AccountComponentRecord_def AccountRequirement_def
      account_stable_name_def require_account_u64_def validate_lifecycle_amounts_def INT128_BOUND_def UINT64_MAX_def
      strip_def is_space_def char_code_def)

lemma settle_price:
  assumes "kb_accounts b = sample_wallet"
  shows "\<exists>plan records. price_entry settle_env () settle_intent 0 b = Inr (settle_network, plan, records)"
proof -
  obtain records where "unsubmitted_account_records sample_wallet (sample_plan (sample_digest (CHR ''a'')) ''T'') = Inr records"
    using settle_records by blast
  then show ?thesis
    by (simp add: price_entry_def settle_ports settle_intent_fields assms sample_prepared settle_network_def)
qed

definition settle_rejected :: "copy_attempt" where
  "settle_rejected = settle_attempt\<lparr>ca_status := REJECTED, ca_network := Some settle_network, ca_failure_code := Some ''GRADUATED''\<rparr>"

lemma settle_recorded:
  assumes "ce_intent st = settle_intent"
  shows "\<exists>b'. record_attempt st settle_rejected b = Inr b'"
proof -
  have "json_ok (copy_attempt_document st settle_rejected)"
    by (simp add: json_ok_def copy_attempt_document_def settle_rejected_def settle_attempt_def CopyOrderAttempt_def
        assms settle_intent_fields settle_ordinal optional_string_def)
  then show ?thesis by (simp add: record_attempt_def copy_append_audit_def json_ok_def stream_append_fed)
qed

lemma settle_submit:
  assumes "ce_intent st = settle_intent" and "ct_status (ce_control st) = BUY_PENDING"
  shows "\<exists>st' b'. submit_entry settle_env () 0 settle_network plan (settle_attempt\<lparr>ca_network := Some settle_network\<rparr>) st b
      = Inr (settle_rejected, st', b') \<and> ce_intent st' = settle_intent \<and> ct_status (ce_control st') = BUY_FAILED"
proof -
  let ?st = "st\<lparr>ce_control := (ce_control st)\<lparr>ct_status := BUY_FAILED\<rparr>\<rparr>"
  have r: "settle_attempt\<lparr>ca_network := Some settle_network, ca_status := REJECTED, ca_failure_code := Some ''GRADUATED''\<rparr>
      = settle_rejected" by (simp add: settle_rejected_def settle_attempt_def CopyOrderAttempt_def)
  have n: "copy_notify settle_env settle_rejected False st = Inr ?st"
    by (simp add: copy_notify_def notify_control_def settle_rejected_def settle_attempt_def CopyOrderAttempt_def
        fail_buy_def require_status_def assms(2) raise_if_def)
  obtain b' where "record_attempt ?st settle_rejected b = Inr b'" using settle_recorded[of ?st] assms(1) by auto
  then have "copy_reject settle_env (settle_attempt\<lparr>ca_network := Some settle_network\<rparr>) ''GRADUATED'' st b
      = Inr (settle_rejected, put_attempt settle_rejected ?st, b')"
    by (simp add: copy_reject_def r n Let_def)
  then show ?thesis
    using assms(1) by (simp add: submit_entry_def quoted_buy_def settle_ports catch_rejected_def Let_def)
qed

lemma settle_buy:
  assumes "kb_accounts b = sample_wallet"
  shows "\<exists>st' b'. begin_buy settle_env () (CopyExecutionPosition settle_intent) b = Inr (settle_rejected, st', b')
    \<and> ce_intent st' = settle_intent \<and> ct_status (ce_control st') = BUY_FAILED"
proof -
  let ?st = "CopyExecutionPosition settle_intent"
  have st: "ce_intent ?st = settle_intent" "ce_attempts ?st = []" "ct_status (ce_control ?st) = BUY_PENDING"
    by (simp_all add: CopyExecutionPosition_def CopyPositionControl_def)
  obtain plan records where p: "price_entry settle_env () settle_intent 0 b = Inr (settle_network, plan, records)"
    using settle_price[OF assms] by blast
  have e: "entry_expected settle_env settle_intent = Inr ()"
    by (simp add: entry_expected_def settle_ports settle_intent_fields settle_horizon observation_decision_def
        horizon_policy_fields settle_ordinal) (use settle_event_facts in \<open>simp add: event_boundary_def envelope_boundary_ordinal_def\<close>)
  have d: "ca_decision settle_attempt = sample_position 1 0" by (simp add: settle_attempt_def CopyOrderAttempt_def)
  obtain st' b' where "submit_entry settle_env () 0 settle_network plan (settle_attempt\<lparr>ca_network := Some settle_network\<rparr>)
      (?st\<lparr>ce_attempts := [settle_attempt], ce_account_plan := Some plan, ce_account_components := records\<rparr>) b
      = Inr (settle_rejected, st', b')" "ce_intent st' = settle_intent" "ct_status (ce_control st') = BUY_FAILED"
    using settle_submit[of "?st\<lparr>ce_attempts := [settle_attempt], ce_account_plan := Some plan, ce_account_components := records\<rparr>" plan b]
      st by auto
  then show ?thesis
    by (simp add: begin_buy_def st e settle_intent_fields settle_new_attempt[of ?st] d settle_seconds p)
qed

section \<open>The run\<close>

definition settle_start :: "copy_books \<Rightarrow> (unit, unit) copy_replay" where
  "settle_start b = \<lparr>cr_history = ([], None), cr_next_history = Some [settle_event], cr_observation = ([], None),
     cr_next_observation = Some (4294967297, [settle_event]), cr_strategy = (), cr_historical = (), cr_observed = (),
     cr_states = [], cr_by_venue = [], cr_scheduled = [], cr_events = 0, cr_groups = 0, cr_delivered = 0,
     cr_observed_events = 0, cr_books = b\<rparr>"

lemma settle_starts: "start_replay settle_env settle_source () () b = Inr (settle_start b)"
  by (simp add: start_replay_def settle_ports settle_groups settle_deliveries horizon_policy_fields next_item_def
      settle_start_def)

definition settle_seen :: "copy_books \<Rightarrow> (unit, unit) copy_replay" where
  "settle_seen b = (settle_start b)\<lparr>cr_next_history := None, cr_next_observation := None, cr_events := 1, cr_groups := 1,
     cr_delivered := 1, cr_observed_events := 1\<rparr>"

lemma settle_next: "copy_next_boundary (settle_start b) = 4294967297"
  by (simp add: copy_next_boundary_def settle_start_def heap_top_def settle_event_facts)

definition settle_market :: "((int \<times> string) \<times> copy_callback) list" where
  "settle_market = [((4294967297, replicate 64 (CHR ''1'')), MarketCallback [settle_event] [ci_signal settle_intent])]"

lemma settle_reads:
  "\<exists>r1. replay_history settle_env 4294967297 (settle_start b) = Inr r1
     \<and> replay_observation settle_env 4294967297 r1 = Inr (settle_market, settle_seen b)"
  by (simp add: replay_history_def replay_observation_def settle_start_def settle_seen_def settle_event_facts
      settle_seconds settle_ports next_item_def settle_market_def)

definition settle_entered :: "copy_books \<Rightarrow> (unit, unit) copy_replay" where
  "settle_entered b = (settle_seen b)\<lparr>cr_states := [(sample_digest (CHR ''a''), CopyExecutionPosition settle_intent)],
     cr_by_venue := [(''v'', sample_digest (CHR ''a''))]\<rparr>"

lemma settle_callbacks:
  "replay_callbacks settle_env settle_range settle_limits 4294967297 (sample_position 1 0) settle_market (settle_seen b)
    = Inr (settle_entered b, [(sample_digest (CHR ''a''), True)])"
proof -
  have v: "List.map_filter (\<lambda>x. None) xs = ([] :: digest list)" for xs :: "venue_id list"
    by (induction xs) (simp_all add: List.map_filter_simps)
  have c: "contains_block settle_range (cp_block_ordinal (sample_position 1 0))"
    by (simp add: contains_block_def settle_range_def sample_position_def)
  show ?thesis
    by (simp add: replay_callbacks_def settle_market_def action_callbacks_def settle_seen_def settle_start_def
        copy_callback_step_def market_callback_def v copy_entry_def settle_intent_fields c settle_ports settle_limits_def
        settle_entered_def Let_def)
qed

lemma settle_bounded:
  assumes "kb_accounts b = sample_wallet"
  shows "\<exists>r st. copy_boundary settle_env settle_range settle_limits (settle_start b) = Inr r \<and> replay_done r
    \<and> cr_states r = [(sample_digest (CHR ''a''), st)]"
proof -
  obtain r1 where reads: "replay_history settle_env 4294967297 (settle_start b) = Inr r1"
    "replay_observation settle_env 4294967297 r1 = Inr (settle_market, settle_seen b)" using settle_reads by blast
  obtain st b' where buy: "begin_buy settle_env () (CopyExecutionPosition settle_intent) b = Inr (settle_rejected, st, b')"
    "ce_intent st = settle_intent" "ct_status (ce_control st) = BUY_FAILED" using settle_buy[OF assms] by blast
  have s: "ca_status settle_rejected = REJECTED" by (simp add: settle_rejected_def)
  have b: "cr_books (settle_entered b) = b" "cr_scheduled (settle_entered b) = []"
    "cr_states (settle_entered b) = [(sample_digest (CHR ''a''), CopyExecutionPosition settle_intent)]"
    "cr_next_history (settle_entered b) = None" "cr_next_observation (settle_entered b) = None"
    by (simp_all add: settle_entered_def settle_seen_def settle_start_def)
  let ?r = "put_position st ((settle_entered b)\<lparr>cr_books := b'\<rparr>)"
  have request: "copy_request settle_env (sample_position 1 0) (settle_entered b) (sample_digest (CHR ''a''), True) = Inr ?r"
    by (simp add: copy_request_def position_of_def b buy schedule_outcome_def s)
  have final: "cr_scheduled ?r = []" "cr_states ?r = [(sample_digest (CHR ''a''), st)]" "replay_done ?r"
    by (simp_all add: put_position_def b buy settle_intent_fields replay_done_def)
  have chain: "tc_network_id horizon_clock = ''n''" "tc_position_schema_id horizon_clock = BLOCK32_TRANSACTION32_POSITION_SCHEMA_ID"
    by (simp_all add: horizon_clock_def)
  have "copy_boundary settle_env settle_range settle_limits (settle_start b) = Inr ?r"
    by (simp add: copy_boundary_def settle_next settle_back settle_ports chain reads settle_callbacks request
        replay_landings_def final(1) Let_def) (simp add: settle_limits_def)
  then show ?thesis using final by blast
qed

theorem copy_positions_settle_witness:
  "\<exists>b r r0 st. start_replay settle_env settle_source () () b = Inr r0
     \<and> copy_loop settle_env settle_range settle_limits r0 = Some (Inr r)
     \<and> cr_states r = [(sample_digest (CHR ''a''), st)]
     \<and> ct_status (ce_control st) \<in> {copy_position_status.CLOSED, EXHAUSTED, BUY_FAILED}"
proof -
  obtain b :: copy_books where b: "kb_accounts b = sample_wallet" by (meson copy_books.select_convs(2))
  obtain r st where r: "copy_boundary settle_env settle_range settle_limits (settle_start b) = Inr r" "replay_done r"
    "cr_states r = [(sample_digest (CHR ''a''), st)]" using settle_bounded[OF b] by blast
  have "\<not> replay_done (settle_start b)" by (simp add: replay_done_def settle_start_def)
  then have loop: "copy_loop settle_env settle_range settle_limits (settle_start b) = Some (Inr r)"
    using r by (subst copy_loop.simps) (simp add: copy_loop.simps)
  from copy_positions_settle[OF settle_starts loop] r(3) settle_starts loop show ?thesis by (auto 0 3)
qed

end
