(* ===== verification/Pump_Payload.thy ===== *)
theory Pump_Payload
  imports Pump_Curve Market_Events Account_Lifecycle
begin

text \<open>
  The canonical payloads of the Pump protocol: the curve state codec, the seven-integer primitive state and
  the eligibility checks (\<^verbatim>\<open>plugins/protocols/pumpfun/sniping.py\<close>), the signer-bearing copy payload
  (\<^verbatim>\<open>copybuy_payload.py\<close>), the account requirements of a coin mode (\<^verbatim>\<open>accounts.py\<close>) and the display
  capitalisation (\<^verbatim>\<open>market_charts.py\<close>). Payload texts are read with \<open>json_loads\<close>, so a text with a
  floating-point field counts as unreadable.
\<close>

section \<open>Values of the closed enumerations\<close>

fun mode_value :: "pump_mode \<Rightarrow> string" where
  "mode_value MODE_NORMAL = ''NORMAL''"
| "mode_value MODE_TOKEN_2022 = ''TOKEN_2022''"
| "mode_value MODE_CASHBACK = ''CASHBACK''"
| "mode_value MODE_MAYHEM = ''MAYHEM''"
| "mode_value MODE_UNKNOWN = ''UNKNOWN''"

definition PumpMode :: "string \<Rightarrow> pump_mode res" where
  "PumpMode v =
     (case find (\<lambda>m. mode_value m = v) [MODE_NORMAL, MODE_TOKEN_2022, MODE_CASHBACK, MODE_MAYHEM, MODE_UNKNOWN] of
        None \<Rightarrow> Inl (ValueError ''not a valid PumpMode'') | Some m \<Rightarrow> Inr m)"

fun curve_lifecycle_value :: "curve_lifecycle \<Rightarrow> string" where
  "curve_lifecycle_value CURVE_ACTIVE = ''ACTIVE''"
| "curve_lifecycle_value CURVE_COMPLETE = ''COMPLETED''"
| "curve_lifecycle_value CURVE_MIGRATED = ''MIGRATED''"
| "curve_lifecycle_value CURVE_UNKNOWN = ''UNKNOWN''"

definition PumpCurveLifecycle :: "string \<Rightarrow> curve_lifecycle res" where
  "PumpCurveLifecycle v =
     (case find (\<lambda>l. curve_lifecycle_value l = v) [CURVE_ACTIVE, CURVE_COMPLETE, CURVE_MIGRATED, CURVE_UNKNOWN] of
        None \<Rightarrow> Inl (ValueError ''not a valid PumpCurveLifecycle'') | Some l \<Rightarrow> Inr l)"

section \<open>The curve state codec\<close>

definition state_field_names :: "string list" where
  "state_field_names =
     [''lifecycle'', ''mode'', ''real_sol_reserves_lamports'', ''real_token_reserves_atomic'',
      ''token_total_supply_atomic'', ''virtual_sol_reserves_lamports'', ''virtual_token_reserves_atomic'']"

definition state_document :: "curve_state \<Rightarrow> json" where
  "state_document s = JObj
     [(''lifecycle'', JStr (curve_lifecycle_value (pc_lifecycle s))), (''mode'', JStr (mode_value (pc_mode s))),
      (''real_sol_reserves_lamports'', JInt (pc_real_sol s)),
      (''real_token_reserves_atomic'', JInt (pc_real_token s)),
      (''token_total_supply_atomic'', JInt (pc_token_supply s)),
      (''virtual_sol_reserves_lamports'', JInt (pc_virtual_sol s)),
      (''virtual_token_reserves_atomic'', JInt (pc_virtual_token s))]"

definition encode_state :: "curve_state \<Rightarrow> bytes res" where
  "encode_state s = canonical_json_bytes (state_document s)"

definition state_integer :: "(string, json) dict \<Rightarrow> string \<Rightarrow> int res" where
  "state_integer d field =
     (case dict_get d field of
        None \<Rightarrow> Inl (KeyError field)
      | Some (JInt i) \<Rightarrow> Inr i
      | Some _ \<Rightarrow> Inl (TypeError (field @ '' must be an integer'')))"

definition state_string :: "(string, json) dict \<Rightarrow> string \<Rightarrow> string res" where
  "state_string d field =
     (case dict_get d field of
        None \<Rightarrow> Inl (KeyError field)
      | Some (JStr s) \<Rightarrow> Inr s
      | Some _ \<Rightarrow> Inl (TypeError (field @ '' must be a string'')))"

text \<open>\<^verbatim>\<open>except (TypeError, ValueError)\<close>, with the malformed-payload error raised instead.\<close>

definition or_malformed :: "'a res \<Rightarrow> 'a res" where
  "or_malformed m =
     (case m of
        Inl (TypeError _) \<Rightarrow> Inl (ProtocolContractError MALFORMED_PROTOCOL_PAYLOAD)
      | Inl (ValueError _) \<Rightarrow> Inl (ProtocolContractError MALFORMED_PROTOCOL_PAYLOAD)
      | r \<Rightarrow> r)"

definition state_of_dict :: "(string, json) dict \<Rightarrow> curve_state res" where
  "state_of_dict d =
     bindE (state_integer d ''virtual_token_reserves_atomic'') (\<lambda>virtual_token.
     bindE (state_integer d ''virtual_sol_reserves_lamports'') (\<lambda>virtual_sol.
     bindE (state_integer d ''real_token_reserves_atomic'') (\<lambda>real_token.
     bindE (state_integer d ''real_sol_reserves_lamports'') (\<lambda>real_sol.
     bindE (state_integer d ''token_total_supply_atomic'') (\<lambda>supply.
     bindE (bindE (state_string d ''lifecycle'') PumpCurveLifecycle) (\<lambda>lifecycle.
     bindE (bindE (state_string d ''mode'') PumpMode) (\<lambda>mode.
     PumpCurveStateV1 \<lparr>pc_virtual_token = virtual_token, pc_virtual_sol = virtual_sol, pc_real_token = real_token,
       pc_real_sol = real_sol, pc_token_supply = supply, pc_lifecycle = lifecycle, pc_mode = mode\<rparr>)))))))"

definition decode_state :: "bytes \<Rightarrow> curve_state res" where
  "decode_state payload =
     (case json_loads payload of
        Some (JObj kvs) \<Rightarrow>
          (let d = dict_of_pairs kvs in
           if set (dict_keys d) \<noteq> set state_field_names then
             Inl (ProtocolContractError MALFORMED_PROTOCOL_PAYLOAD)
           else bindE (canonical_json_bytes (JObj d)) (\<lambda>bs.
             if bs \<noteq> payload then Inl (ProtocolContractError MALFORMED_PROTOCOL_PAYLOAD)
             else or_malformed (state_of_dict d)))
      | _ \<Rightarrow> Inl (ProtocolContractError MALFORMED_PROTOCOL_PAYLOAD))"

section \<open>Eligibility and primitive states\<close>

definition require_known_state :: "curve_state \<Rightarrow> unit res" where
  "require_known_state s =
     (if pc_mode s = MODE_UNKNOWN then Inl (ProtocolContractError UNKNOWN_PROGRAM_MODE)
      else raise_if (pc_lifecycle s = CURVE_UNKNOWN) (ProtocolContractError PROTOCOL_UNKNOWN_LIFECYCLE))"

definition require_eligible_launch_state :: "curve_state \<Rightarrow> unit res" where
  "require_eligible_launch_state s =
     bindE (require_known_state s) (\<lambda>_.
     if pc_mode s = MODE_MAYHEM then Inl (ProtocolContractError EXCLUDED_PROGRAM_MODE)
     else raise_if (pc_lifecycle s \<noteq> CURVE_ACTIVE) (ProtocolContractError PROTOCOL_UNKNOWN_LIFECYCLE))"

type_synonym primitive_state = "int list"

definition primitive_lifecycle_codes :: "(curve_lifecycle \<times> int) list" where
  "primitive_lifecycle_codes = [(CURVE_ACTIVE, 1), (CURVE_COMPLETE, 2), (CURVE_MIGRATED, 3)]"

definition primitive_lifecycle_values :: "(int \<times> curve_lifecycle) list" where
  "primitive_lifecycle_values = map (\<lambda>(key, v). (v, key)) primitive_lifecycle_codes"

definition primitive_mode_codes :: "(pump_mode \<times> int) list" where
  "primitive_mode_codes = [(MODE_NORMAL, 1), (MODE_TOKEN_2022, 2), (MODE_CASHBACK, 3), (MODE_MAYHEM, 4)]"

definition primitive_mode_values :: "(int \<times> pump_mode) list" where
  "primitive_mode_values = map (\<lambda>(key, v). (v, key)) primitive_mode_codes"

definition decode_primitive_state_payload :: "bytes \<Rightarrow> primitive_state res" where
  "decode_primitive_state_payload payload =
     bindE (decode_state payload) (\<lambda>s.
     bindE (require_known_state s) (\<lambda>_.
     case (dict_get primitive_lifecycle_codes (pc_lifecycle s), dict_get primitive_mode_codes (pc_mode s)) of
       (Some lifecycle_code, Some mode_code) \<Rightarrow>
         Inr [pc_virtual_token s, pc_virtual_sol s, pc_real_token s, pc_real_sol s, pc_token_supply s,
           lifecycle_code, mode_code]
     | _ \<Rightarrow> Inl (ProtocolContractError UNKNOWN_PROGRAM_MODE)))"

definition state_from_primitive :: "primitive_state \<Rightarrow> curve_state res" where
  "state_from_primitive p =
     (case p of
        [virtual_token, virtual_sol, real_token, real_sol, supply, lifecycle_code, mode_code] \<Rightarrow>
          (case dict_get primitive_lifecycle_values lifecycle_code of
             None \<Rightarrow> Inl (ProtocolContractError PROTOCOL_UNKNOWN_LIFECYCLE)
           | Some lifecycle \<Rightarrow>
               (case dict_get primitive_mode_values mode_code of
                  None \<Rightarrow> Inl (ProtocolContractError UNKNOWN_PROGRAM_MODE)
                | Some mode \<Rightarrow>
                    PumpCurveStateV1 \<lparr>pc_virtual_token = virtual_token, pc_virtual_sol = virtual_sol,
                      pc_real_token = real_token, pc_real_sol = real_sol, pc_token_supply = supply,
                      pc_lifecycle = lifecycle, pc_mode = mode\<rparr>))
      | _ \<Rightarrow> Inl (TypeError ''primitive Pump state must be a seven-integer tuple''))"

definition primitive_state_is_active :: "primitive_state \<Rightarrow> bool res" where
  "primitive_state_is_active p = bindE (state_from_primitive p) (\<lambda>s. Inr (pc_lifecycle s = CURVE_ACTIVE))"

definition primitive_state_is_migrated :: "primitive_state \<Rightarrow> bool res" where
  "primitive_state_is_migrated p = bindE (state_from_primitive p) (\<lambda>s. Inr (pc_lifecycle s = CURVE_MIGRATED))"

definition validate_primitive_launch_state :: "primitive_state \<Rightarrow> unit res" where
  "validate_primitive_launch_state p = bindE (state_from_primitive p) require_eligible_launch_state"

definition validate_primitive_lifecycle_state :: "primitive_state \<Rightarrow> int \<Rightarrow> unit res" where
  "validate_primitive_lifecycle_state p kind_code =
     (case dict_get [(1, CURVE_COMPLETE), (2, CURVE_MIGRATED)] kind_code of
        None \<Rightarrow> Inl (ProtocolContractError PROTOCOL_UNKNOWN_LIFECYCLE)
      | Some expected \<Rightarrow> bindE (state_from_primitive p) (\<lambda>s.
          raise_if (pc_lifecycle s \<noteq> expected) (ProtocolContractError PROTOCOL_UNKNOWN_LIFECYCLE)))"

section \<open>Public keys\<close>

text \<open>Source identifiers (\<^verbatim>\<open>live_normalizer.py\<close>); the normalisation error is a \<open>ValueError\<close> subclass.\<close>

definition strip_fixed_nul :: "string \<Rightarrow> string res" where
  "strip_fixed_nul v =
     (let stripped = rev (dropWhile (\<lambda>c. c = nul) (rev v)) in
      if stripped = [] \<or> nul \<in> set stripped then
        Inl (ValueError ''source identifier contains invalid NUL padding'')
      else Inr stripped)"

definition base58_bytes :: "string \<Rightarrow> bytes" where
  "base58_bytes v =
     (let n = base58_decode v in
      replicate (leading_ones v) nul @ (if n = 0 then [] else big_endian ((bit_length n + 7) div 8) n))"

definition base58_identifier :: "string \<Rightarrow> nat \<Rightarrow> string res" where
  "base58_identifier v decoded_bytes =
     bindE (strip_fixed_nul v) (\<lambda>t.
     if t \<noteq> strip t \<or> \<not> list_all (\<lambda>c. c \<in> set base58_alphabet) t then
       Inl (ValueError ''source identifier is not canonical base58 text'')
     else if length (base58_bytes t) \<noteq> decoded_bytes then
       Inl (ValueError ''source identifier has an unexpected decoded width'')
     else Inr t)"

definition public_key :: "string \<Rightarrow> string res" where
  "public_key v =
     (case base58_identifier v 32 of Inl (ValueError _) \<Rightarrow> Inl (ValueError ''IDENTIFIER_INVALID'') | r \<Rightarrow> r)"

section \<open>The copy payload\<close>

definition COPYBUY_TRADE_PAYLOAD_SCHEMA :: string where
  "COPYBUY_TRADE_PAYLOAD_SCHEMA = ''pumpfun-copybuy-trade-payload-v1''"

record copybuy_payload =
  cy_signing_wallet :: account_id
  cy_state_after :: curve_state

definition CopyBuyTradePayload :: "copybuy_payload \<Rightarrow> copybuy_payload res" where
  "CopyBuyTradePayload p =
     bindE (public_key (cy_signing_wallet p)) (\<lambda>key.
     if key \<noteq> cy_signing_wallet p then Inl (ValueError ''signing_wallet must be canonical'') else Inr p)"

definition encode_copybuy_payload :: "copybuy_payload \<Rightarrow> bytes res" where
  "encode_copybuy_payload p =
     bindE (encode_state (cy_state_after p)) (\<lambda>bs.
     case json_loads bs of
       None \<Rightarrow> Inl (ValueError ''state payload is not JSON'')
     | Some v \<Rightarrow>
         canonical_json_bytes (JObj [(''signing_wallet'', JStr (cy_signing_wallet p)), (''state_after'', v)]))"

definition copybuy_payload_of_dict :: "(string, json) dict \<Rightarrow> copybuy_payload res" where
  "copybuy_payload_of_dict d =
     (case (dict_get d ''signing_wallet'', dict_get d ''state_after'') of
        (Some (JStr wallet), Some v) \<Rightarrow>
          bindE (Identifier wallet) (\<lambda>wallet.
          bindE (canonical_json_bytes v) (\<lambda>bs.
          bindE (decode_state bs) (\<lambda>s.
          CopyBuyTradePayload \<lparr>cy_signing_wallet = wallet, cy_state_after = s\<rparr>)))
      | _ \<Rightarrow> Inl (TypeError ''identifier must be a string''))"

definition decode_copybuy_trade_payload :: "bytes \<Rightarrow> copybuy_payload res" where
  "decode_copybuy_trade_payload payload =
     or_malformed (case json_loads payload of
        Some (JObj kvs) \<Rightarrow>
          (let d = dict_of_pairs kvs in
           if set (dict_keys d) \<noteq> {''signing_wallet'', ''state_after''} then
             Inl (ValueError ''copy-buy payload fields do not match its schema'')
           else bindE (canonical_json_bytes (JObj d)) (\<lambda>bs.
             if bs \<noteq> payload then Inl (ValueError ''copy-buy payload is not canonical'')
             else copybuy_payload_of_dict d))
      | _ \<Rightarrow> Inl (ValueError ''copy-buy payload fields do not match its schema''))"

section \<open>Account requirements\<close>

definition PUMPFUN_LEGACY_ATA_SCHEMA_ID :: string where
  "PUMPFUN_LEGACY_ATA_SCHEMA_ID = ''solana-associated-token-account-legacy-v1''"

definition PUMPFUN_TOKEN_2022_ATA_SCHEMA_ID :: string where
  "PUMPFUN_TOKEN_2022_ATA_SCHEMA_ID = ''solana-associated-token-account-token-2022-immutable-owner-v1''"

definition PUMPFUN_UVA_SCHEMA_ID :: string where
  "PUMPFUN_UVA_SCHEMA_ID = ''pumpfun-user-volume-accumulator-v1''"

definition ata_schema_of :: "pump_mode \<Rightarrow> string res" where
  "ata_schema_of mode =
     (if mode = MODE_NORMAL then Inr PUMPFUN_LEGACY_ATA_SCHEMA_ID
      else if mode \<in> {MODE_TOKEN_2022, MODE_CASHBACK} then Inr PUMPFUN_TOKEN_2022_ATA_SCHEMA_ID
      else if mode = MODE_MAYHEM then Inl (ProtocolContractError EXCLUDED_PROGRAM_MODE)
      else Inl (ProtocolContractError UNKNOWN_PROGRAM_MODE))"

definition pumpfun_account_requirements :: "pump_mode \<Rightarrow> account_requirement list res" where
  "pumpfun_account_requirements mode =
     bindE (ata_schema_of mode) (\<lambda>ata_schema.
     bindE (AccountRequirement \<lparr>ar_schema_id = ata_schema, ar_scope = MINT,
       ar_release_policy = CLOSE_ON_SUCCESSFUL_SELL\<rparr>) (\<lambda>ata.
     bindE (AccountRequirement \<lparr>ar_schema_id = PUMPFUN_UVA_SCHEMA_ID, ar_scope = WALLET,
       ar_release_policy = RUN_LOCKED\<rparr>) (\<lambda>uva.
     Inr (sort_key account_requirement_key [ata, uva]))))"

section \<open>Market capitalisation\<close>

datatype market_lifecycle = MARKET_ACTIVE | MARKET_COMPLETED | MARKET_MIGRATED

definition MarketLifecycle :: "string \<Rightarrow> market_lifecycle res" where
  "MarketLifecycle v =
     (if v = ''ACTIVE'' then Inr MARKET_ACTIVE
      else if v = ''COMPLETED'' then Inr MARKET_COMPLETED
      else if v = ''MIGRATED'' then Inr MARKET_MIGRATED
      else Inl (ValueError ''not a valid MarketLifecycle''))"

record market_cap_state =
  mc_market_cap :: int
  mc_lifecycle :: market_lifecycle
  mc_signing_wallet :: "account_id option"

definition MarketCapState :: "market_cap_state \<Rightarrow> market_cap_state res" where
  "MarketCapState m =
     (if \<not> (0 \<le> mc_market_cap m \<and> mc_market_cap m < 2 ^ 128) then
        Inl (ValueError ''market capitalization must be UInt128'')
      else Inr m)"

text \<open>Schema ids of the launch, trade and lifecycle payloads (\<^verbatim>\<open>sniping.py\<close>).\<close>

definition PUMPFUN_LAUNCH_PAYLOAD_SCHEMA_ID :: string where
  "PUMPFUN_LAUNCH_PAYLOAD_SCHEMA_ID = ''pump-launch-state-v1''"

definition PUMPFUN_TRADE_PAYLOAD_SCHEMA_ID :: string where
  "PUMPFUN_TRADE_PAYLOAD_SCHEMA_ID = ''pump-trade-state-v1''"

definition PUMPFUN_LIFECYCLE_PAYLOAD_SCHEMA_ID :: string where
  "PUMPFUN_LIFECYCLE_PAYLOAD_SCHEMA_ID = ''pump-lifecycle-state-v1''"

definition capitalisation :: "curve_state \<Rightarrow> account_id option \<Rightarrow> market_cap_state res" where
  "capitalisation s signer =
     (if pc_mode s \<in> {MODE_MAYHEM, MODE_UNKNOWN} then Inl (ValueError ''unsupported market-chart mode'')
      else bindE (MarketLifecycle (curve_lifecycle_value (pc_lifecycle s))) (\<lambda>lifecycle.
        MarketCapState \<lparr>mc_market_cap = pc_virtual_sol s * pc_token_supply s div pc_virtual_token s,
          mc_lifecycle = lifecycle, mc_signing_wallet = signer\<rparr>))"

fun pump_market_cap_state :: "canonical_event \<Rightarrow> market_cap_state res" where
  "pump_market_cap_state (Venue_Trade_Event t) =
     (if vt_protocol_payload_schema t = COPYBUY_TRADE_PAYLOAD_SCHEMA then
        bindE (decode_copybuy_trade_payload (vt_protocol_payload t)) (\<lambda>p.
          capitalisation (cy_state_after p) (Some (cy_signing_wallet p)))
      else Inl (ValueError ''unsupported market-chart payload''))"
| "pump_market_cap_state (Token_Launch_Event l) =
     (if tl_protocol_payload_schema l = PUMPFUN_LAUNCH_PAYLOAD_SCHEMA_ID then
        bindE (decode_state (tl_protocol_payload l)) (\<lambda>s. capitalisation s None)
      else Inl (ValueError ''unsupported market-chart payload''))"
| "pump_market_cap_state (Venue_Lifecycle_Event l) =
     (if vl_protocol_payload_schema l = PUMPFUN_LIFECYCLE_PAYLOAD_SCHEMA_ID then
        bindE (decode_state (vl_protocol_payload l)) (\<lambda>s. capitalisation s None)
      else Inl (ValueError ''unsupported market-chart payload''))"
| "pump_market_cap_state (Block_Event b) = Inl (ValueError ''unsupported market-chart payload'')"

definition pump_strategy_market_cap_state :: "canonical_event \<Rightarrow> market_cap_state res" where
  "pump_strategy_market_cap_state e =
     (case e of
        Venue_Trade_Event t \<Rightarrow>
          if vt_protocol_payload_schema t = PUMPFUN_TRADE_PAYLOAD_SCHEMA_ID then
            bindE (decode_state (vt_protocol_payload t)) (\<lambda>s. capitalisation s None)
          else pump_market_cap_state e
      | _ \<Rightarrow> pump_market_cap_state e)"

section \<open>Lemmas\<close>

lemma dict_of_pairs_distinct: "distinct (dict_keys (dict_of_pairs kvs))"
proof -
  have "distinct (dict_keys d) \<Longrightarrow> distinct (dict_keys (foldl (\<lambda>d (k, v). dict_set k v d) d kvs))"
    for d :: "(string, 'a) dict"
    by (induction kvs arbitrary: d) (auto intro: distinct_update)
  then show ?thesis by (simp add: dict_of_pairs_def)
qed

text \<open>An object is known up to key order by the normalised values of its keys.\<close>

lemma jnorm_obj_cong:
  assumes "distinct (map fst a)" "distinct (map fst b)"
    and "\<And>k. map_option jnorm (map_of a k) = map_option jnorm (map_of b k)"
  shows "jnorm (JObj a) = jnorm (JObj b)"
proof -
  let ?n = "map (\<lambda>(k, v). (k, jnorm v))"
  have keys: "map fst (?n d) = map fst d" for d :: "(string \<times> json) list" by (simp add: comp_def case_prod_unfold)
  have d: "distinct (map fst (?n a))" "distinct (map fst (?n b))" unfolding keys by (rule assms)+
  have "map_of (?n a) = map_of (?n b)" using assms(3) by (auto simp: map_of_map)
  then have "set (?n a) = set (?n b)" using d by (simp add: map_of_inject_set del: set_map)
  then have m: "mset (?n a) = mset (?n b)"
    using d by (metis distinct_map set_eq_iff_mset_eq_distinct)
  have "inj_on fst (set (?n a))" using d(1) by (simp only: distinct_map)
  then have "sort_key fst (?n a) = sort_key fst (?n b)"
    by (intro sort_key_inj_key_eq) (simp_all add: m del: mset_map set_map)
  then show ?thesis by simp
qed

lemma canonical_bytes_jnorm:
  assumes "canonical_json_bytes v = Inr bs"
  shows "canonical_json_bytes w = Inr bs \<longleftrightarrow> json_plain w \<and> jnorm w = jnorm v"
proof -
  have v: "json_plain v" "bs = utf8 (render (jnorm v))" using assms by (simp_all add: canonical_json_bytes_Inr)
  have "jnorm w = jnorm v" if "json_plain w" "utf8 (render (jnorm v)) = utf8 (render (jnorm w))"
    using render_inj[OF jnorm_plain[OF that(1)] jnorm_plain[OF v(1)]] utf8_inj[OF that(2)] by simp
  then show ?thesis using v by (auto simp: canonical_json_bytes_Inr)
qed

lemma or_malformed_Inr [simp]: "or_malformed m = Inr x \<longleftrightarrow> m = Inr x"
  by (auto simp: or_malformed_def split: sum.splits exn.splits)

lemma PumpMode_iff: "PumpMode v = Inr m \<longleftrightarrow> v = mode_value m"
  by (cases m) (auto simp: PumpMode_def)

lemma PumpCurveLifecycle_iff: "PumpCurveLifecycle v = Inr l \<longleftrightarrow> v = curve_lifecycle_value l"
  by (cases l) (auto simp: PumpCurveLifecycle_def)

lemma state_integer_Inr: "state_integer d f = Inr i \<longleftrightarrow> dict_get d f = Some (JInt i)"
  by (auto simp: state_integer_def split: option.splits json.splits)

lemma state_string_Inr: "state_string d f = Inr s \<longleftrightarrow> dict_get d f = Some (JStr s)"
  by (auto simp: state_string_def split: option.splits json.splits)

lemma PumpCurveStateV1_same: "PumpCurveStateV1 s = Inr s' \<Longrightarrow> s' = s"
  by (auto simp: PumpCurveStateV1_def split: if_splits)

definition state_items :: "curve_state \<Rightarrow> (string \<times> json) list" where
  "state_items s = json_items (state_document s)"

lemma state_items:
  "state_document s = JObj (state_items s)" "distinct (map fst (state_items s))"
  "set (map fst (state_items s)) = set state_field_names" "jnorm (state_document s) = state_document s"
  "json_plain (state_document s)" "dict_of_pairs (state_items s) = state_items s"
  by (simp_all add: state_items_def state_document_def state_field_names_def dict_of_pairs_def)

lemma state_eta: "\<lparr>pc_virtual_token = pc_virtual_token s, pc_virtual_sol = pc_virtual_sol s,
    pc_real_token = pc_real_token s, pc_real_sol = pc_real_sol s, pc_token_supply = pc_token_supply s,
    pc_lifecycle = pc_lifecycle s, pc_mode = pc_mode s\<rparr> = s"
  by simp

text \<open>A dictionary yields a state exactly when it is the state's document and the state is valid.\<close>

lemma state_of_dict_iff:
  assumes "set (dict_keys d) = set state_field_names"
  shows "state_of_dict d = Inr s \<longleftrightarrow> PumpCurveStateV1 s = Inr s \<and> map_of d = map_of (state_items s)"
proof
  assume s: "state_of_dict d = Inr s"
  then have valid: "PumpCurveStateV1 s = Inr s"
    and get: "dict_get d ''virtual_token_reserves_atomic'' = Some (JInt (pc_virtual_token s))"
      "dict_get d ''virtual_sol_reserves_lamports'' = Some (JInt (pc_virtual_sol s))"
      "dict_get d ''real_token_reserves_atomic'' = Some (JInt (pc_real_token s))"
      "dict_get d ''real_sol_reserves_lamports'' = Some (JInt (pc_real_sol s))"
      "dict_get d ''token_total_supply_atomic'' = Some (JInt (pc_token_supply s))"
      "dict_get d ''lifecycle'' = Some (JStr (curve_lifecycle_value (pc_lifecycle s)))"
      "dict_get d ''mode'' = Some (JStr (mode_value (pc_mode s)))"
    by (auto simp: state_of_dict_def state_integer_Inr state_string_Inr PumpMode_iff PumpCurveLifecycle_iff
        dest: PumpCurveStateV1_same)
  have "map_of d k = map_of (state_items s) k" if "k \<in> set state_field_names" for k
  proof -
    have "list_all (\<lambda>k. map_of d k = map_of (state_items s) k) state_field_names"
      by (simp add: get state_items_def state_document_def state_field_names_def)
    with that show ?thesis by (simp add: list_all_iff)
  qed
  moreover have "map_of d k = map_of (state_items s) k" if "k \<notin> set state_field_names" for k
    using that assms state_items(3)[of s] by (metis map_of_eq_None_iff set_map)
  ultimately show "PumpCurveStateV1 s = Inr s \<and> map_of d = map_of (state_items s)" using valid by blast
next
  assume s: "PumpCurveStateV1 s = Inr s \<and> map_of d = map_of (state_items s)"
  have "PumpCurveLifecycle (curve_lifecycle_value l) = Inr l" "PumpMode (mode_value m) = Inr m" for l m
    by (simp_all add: PumpCurveLifecycle_iff PumpMode_iff)
  then show "state_of_dict d = Inr s"
    using s by (simp add: state_eta state_of_dict_def state_integer_def state_string_def state_items_def state_document_def)
qed

lemma decode_state_iff: "decode_state bs = Inr s \<longleftrightarrow> PumpCurveStateV1 s = Inr s \<and> encode_state s = Inr bs"
proof
  assume "decode_state bs = Inr s"
  then obtain kvs where d: "set (dict_keys (dict_of_pairs kvs)) = set state_field_names"
      "canonical_json_bytes (JObj (dict_of_pairs kvs)) = Inr bs" "state_of_dict (dict_of_pairs kvs) = Inr s"
    by (auto simp: decode_state_def Let_def split: option.splits json.splits if_splits)
  then have s: "PumpCurveStateV1 s = Inr s" "map_of (dict_of_pairs kvs) = map_of (state_items s)"
    by (simp_all add: state_of_dict_iff)
  have "jnorm (JObj (state_items s)) = jnorm (JObj (dict_of_pairs kvs))"
    by (rule jnorm_obj_cong[OF state_items(2) dict_of_pairs_distinct]) (simp add: s(2))
  then show "PumpCurveStateV1 s = Inr s \<and> encode_state s = Inr bs"
    using s(1) state_items(1,5)[of s] by (simp add: encode_state_def canonical_bytes_jnorm[OF d(2)])
next
  assume s: "PumpCurveStateV1 s = Inr s \<and> encode_state s = Inr bs"
  then have bs: "canonical_json_bytes (state_document s) = Inr bs" by (simp add: encode_state_def)
  have "json_loads bs = Some (JObj (state_items s))"
    using json_loads_canonical[OF bs] state_items(1,4) by simp
  moreover have "state_of_dict (state_items s) = Inr s"
    using s state_items(3)[of s] by (simp add: state_of_dict_iff)
  ultimately show "decode_state bs = Inr s"
    using bs state_items(1,3,6)[of s] by (simp add: decode_state_def Let_def)
qed

lemma primitive_codes:
  "dict_get primitive_lifecycle_codes l = Some c \<Longrightarrow> dict_get primitive_lifecycle_values c = Some l"
  "dict_get primitive_mode_codes m = Some c \<Longrightarrow> dict_get primitive_mode_values c = Some m"
  by (auto simp: primitive_lifecycle_codes_def primitive_lifecycle_values_def primitive_mode_codes_def
      primitive_mode_values_def split: if_splits)

lemma decode_primitive:
  assumes "decode_primitive_state_payload bs = Inr p"
  obtains s where "decode_state bs = Inr s" "state_from_primitive p = Inr s" "require_known_state s = Inr ()"
proof -
  obtain s lc mc where s: "decode_state bs = Inr s" "require_known_state s = Inr ()"
      "dict_get primitive_lifecycle_codes (pc_lifecycle s) = Some lc" "dict_get primitive_mode_codes (pc_mode s) = Some mc"
      "p = [pc_virtual_token s, pc_virtual_sol s, pc_real_token s, pc_real_sol s, pc_token_supply s, lc, mc]"
    using assms by (auto simp: decode_primitive_state_payload_def split: option.splits)
  have "state_from_primitive p = Inr s"
    using s primitive_codes by (simp add: state_from_primitive_def decode_state_iff state_eta)
  with s(1,2) show ?thesis using that by blast
qed

lemma CopyBuyTradePayload_iff:
  "CopyBuyTradePayload p = Inr p' \<longleftrightarrow> p' = p \<and> public_key (cy_signing_wallet p) = Inr (cy_signing_wallet p)"
  by (auto simp: CopyBuyTradePayload_def)

definition copy_document :: "copybuy_payload \<Rightarrow> (string \<times> json) list" where
  "copy_document p = [(''signing_wallet'', JStr (cy_signing_wallet p)),
     (''state_after'', state_document (cy_state_after p))]"

lemma copy_document:
  "jnorm (JObj (copy_document p)) = JObj (copy_document p)" "json_plain (JObj (copy_document p))"
  "dict_of_pairs (copy_document p) = copy_document p" "distinct (map fst (copy_document p))"
  by (simp_all add: copy_document_def state_items(4,5) dict_of_pairs_def)

lemma encode_copybuy_payload_eq:
  "encode_copybuy_payload p = canonical_json_bytes (JObj (copy_document p))"
proof -
  have "encode_state (cy_state_after p) = Inr (utf8 (render (state_document (cy_state_after p))))"
    by (simp add: encode_state_def canonical_json_bytes_Inr state_items(4,5))
  moreover from this have "json_loads (utf8 (render (state_document (cy_state_after p)))) = Some (state_document (cy_state_after p))"
    by (metis encode_state_def json_loads_canonical state_items(4))
  ultimately show ?thesis by (simp add: encode_copybuy_payload_def copy_document_def)
qed

lemma copy_eta: "\<lparr>cy_signing_wallet = cy_signing_wallet p, cy_state_after = cy_state_after p\<rparr> = p"
  by simp

definition copybuy_payload_ok :: "copybuy_payload \<Rightarrow> bool" where
  "copybuy_payload_ok p \<longleftrightarrow> Identifier (cy_signing_wallet p) = Inr (cy_signing_wallet p)
     \<and> CopyBuyTradePayload p = Inr p \<and> PumpCurveStateV1 (cy_state_after p) = Inr (cy_state_after p)"

lemma decode_copybuy_iff:
  "decode_copybuy_trade_payload bs = Inr p \<longleftrightarrow> copybuy_payload_ok p \<and> encode_copybuy_payload p = Inr bs"
proof
  assume "decode_copybuy_trade_payload bs = Inr p"
  then obtain kvs where d: "set (dict_keys (dict_of_pairs kvs)) = {''signing_wallet'', ''state_after''}"
      "canonical_json_bytes (JObj (dict_of_pairs kvs)) = Inr bs" "copybuy_payload_of_dict (dict_of_pairs kvs) = Inr p"
    by (auto simp: decode_copybuy_trade_payload_def Let_def split: option.splits json.splits if_splits)
  from d(3) obtain w w' v b s where p: "dict_get (dict_of_pairs kvs) ''signing_wallet'' = Some (JStr w)"
      "dict_get (dict_of_pairs kvs) ''state_after'' = Some v" "Identifier w = Inr w'" "canonical_json_bytes v = Inr b"
      "decode_state b = Inr s" "p = \<lparr>cy_signing_wallet = w', cy_state_after = s\<rparr>" "CopyBuyTradePayload p = Inr p"
    by (auto simp: copybuy_payload_of_dict_def CopyBuyTradePayload_iff split: option.splits json.splits)
  have w: "w' = w" using p(3) by (rule Identifier_Inr[THEN conjunct1])
  have s: "PumpCurveStateV1 s = Inr s" "canonical_json_bytes (state_document s) = Inr b"
    using p(5) by (simp_all add: decode_state_iff encode_state_def)
  then have v: "jnorm (state_document s) = jnorm v" using canonical_bytes_jnorm[OF p(4)] by simp
  have "jnorm (JObj (copy_document p)) = jnorm (JObj (dict_of_pairs kvs))"
  proof (rule jnorm_obj_cong[OF copy_document(4) dict_of_pairs_distinct])
    fix k
    show "map_option jnorm (map_of (copy_document p) k) = map_option jnorm (dict_get (dict_of_pairs kvs) k)"
    proof (cases "k \<in> {''signing_wallet'', ''state_after''}")
      case True
      then show ?thesis using p(1,2,6) v by (auto simp: copy_document_def w)
    next
      case False
      then have "k \<notin> set (dict_keys (dict_of_pairs kvs))" by (simp only: d(1) not_False_eq_True)
      then have "dict_get (dict_of_pairs kvs) k = None" by (simp add: map_of_eq_None_iff)
      with False show ?thesis by (simp add: copy_document_def)
    qed
  qed
  then have "encode_copybuy_payload p = Inr bs"
    unfolding encode_copybuy_payload_eq canonical_bytes_jnorm[OF d(2)] using copy_document(2) by blast
  then show "copybuy_payload_ok p \<and> encode_copybuy_payload p = Inr bs"
    using p s by (simp add: w copybuy_payload_ok_def)
next
  assume p: "copybuy_payload_ok p \<and> encode_copybuy_payload p = Inr bs"
  then have bs: "canonical_json_bytes (JObj (copy_document p)) = Inr bs" by (simp add: encode_copybuy_payload_eq)
  then have loads: "json_loads bs = Some (JObj (copy_document p))"
    using json_loads_canonical copy_document(1) by metis
  have "encode_state (cy_state_after p) = Inr (utf8 (render (state_document (cy_state_after p))))"
    by (simp add: encode_state_def canonical_json_bytes_Inr state_items(4,5))
  moreover from this have "decode_state (utf8 (render (state_document (cy_state_after p)))) = Inr (cy_state_after p)"
    using p by (simp add: decode_state_iff copybuy_payload_ok_def)
  ultimately have "copybuy_payload_of_dict (copy_document p) = Inr p"
    using p by (simp add: copybuy_payload_of_dict_def copy_document_def encode_state_def copybuy_payload_ok_def
        copy_eta)
  moreover have "set (dict_keys (copy_document p)) = {''signing_wallet'', ''state_after''}"
    by (simp add: copy_document_def)
  ultimately show "decode_copybuy_trade_payload bs = Inr p"
    using bs by (simp add: decode_copybuy_trade_payload_def loads copy_document(3) Let_def)
qed

lemma pumpfun_account_requirements_Inr:
  assumes "pumpfun_account_requirements mode = Inr rs"
  shows "map ar_scope rs = [MINT, WALLET]" "list_all (\<lambda>r. AccountRequirement r = Inr r) rs"
    "rs = sort_key account_requirement_key rs" "mode \<in> {MODE_NORMAL, MODE_TOKEN_2022, MODE_CASHBACK}"
proof -
  obtain schema where s: "ata_schema_of mode = Inr schema"
      "AccountRequirement \<lparr>ar_schema_id = schema, ar_scope = MINT, ar_release_policy = CLOSE_ON_SUCCESSFUL_SELL\<rparr>
        = Inr \<lparr>ar_schema_id = schema, ar_scope = MINT, ar_release_policy = CLOSE_ON_SUCCESSFUL_SELL\<rparr>"
      "AccountRequirement \<lparr>ar_schema_id = PUMPFUN_UVA_SCHEMA_ID, ar_scope = WALLET, ar_release_policy = RUN_LOCKED\<rparr>
        = Inr \<lparr>ar_schema_id = PUMPFUN_UVA_SCHEMA_ID, ar_scope = WALLET, ar_release_policy = RUN_LOCKED\<rparr>"
      "rs = [\<lparr>ar_schema_id = schema, ar_scope = MINT, ar_release_policy = CLOSE_ON_SUCCESSFUL_SELL\<rparr>,
        \<lparr>ar_schema_id = PUMPFUN_UVA_SCHEMA_ID, ar_scope = WALLET, ar_release_policy = RUN_LOCKED\<rparr>]"
    using assms
    by (auto simp: pumpfun_account_requirements_def AccountRequirement_def account_requirement_key_def)
  from s(2-4) show "map ar_scope rs = [MINT, WALLET]" "list_all (\<lambda>r. AccountRequirement r = Inr r) rs"
      "rs = sort_key account_requirement_key rs"
    by (simp_all add: account_requirement_key_def)
  show "mode \<in> {MODE_NORMAL, MODE_TOKEN_2022, MODE_CASHBACK}"
    using s(1) by (auto simp: ata_schema_of_def split: if_splits)
qed

section \<open>Properties\<close>

text \<open>C24: Both payload codecs are exact. A curve payload decodes to a state just when the state is valid and the
  payload is its encoding, and a copy payload decodes just when its signer is a canonical account, its state is
  valid and the payload is its encoding: every accepted payload is the only encoding of what it decodes to.\<close>

theorem pump_payloads_exact:
  "(decode_state bs = Inr s \<longleftrightarrow> PumpCurveStateV1 s = Inr s \<and> encode_state s = Inr bs)
   \<and> (decode_copybuy_trade_payload bs = Inr p \<longleftrightarrow>
        (Identifier (cy_signing_wallet p) = Inr (cy_signing_wallet p)
         \<and> public_key (cy_signing_wallet p) = Inr (cy_signing_wallet p)
         \<and> PumpCurveStateV1 (cy_state_after p) = Inr (cy_state_after p))
        \<and> encode_copybuy_payload p = Inr bs)"
  by (simp add: decode_state_iff decode_copybuy_iff copybuy_payload_ok_def CopyBuyTradePayload_iff)

end
