(* ===== verification/Pump_Runtime.thy ===== *)
theory Pump_Runtime
  imports Pump_Payload Copy_Domain
begin

text \<open>
  The Pump protocol runtime (\<^verbatim>\<open>plugins/protocols/pumpfun/sniping.py\<close>) and its copy variant
  (\<^verbatim>\<open>copybuy.py\<close>): the atomic reduction of one transaction group, the quotes and the valuation
  of an intent against the reduced curve, and the same quotes from a primitive state. The curves are the state;
  the arguments of the runtime's constructor are a record. The locale \<open>quoting_protocol\<close> is what
  the engines rely on when they quote an intent, and this runtime provides it.
\<close>

section \<open>The runtime\<close>

definition PUMPFUN_PROTOCOL_NAME :: string where "PUMPFUN_PROTOCOL_NAME = ''pumpfun''"

fun sell_liquidity_policy_value :: "sell_liquidity_policy \<Rightarrow> string" where
  "sell_liquidity_policy_value REAL_RESERVE_CAPPED_V1 = REAL_RESERVE_CAPPED_LIQUIDITY_POLICY_ID"
| "sell_liquidity_policy_value VIRTUAL_RESERVE_OUTPUT_WITH_EXPLICIT_SYNTHETIC_SHORTFALL_V1 =
     VIRTUAL_RESERVE_EXPLICIT_SHORTFALL_LIQUIDITY_POLICY_ID"

definition PumpSellLiquidityPolicy :: "string \<Rightarrow> sell_liquidity_policy res" where
  "PumpSellLiquidityPolicy v =
     (case find (\<lambda>p. sell_liquidity_policy_value p = v)
        [REAL_RESERVE_CAPPED_V1, VIRTUAL_RESERVE_OUTPUT_WITH_EXPLICIT_SYNTHETIC_SHORTFALL_V1] of
        None \<Rightarrow> Inl (ValueError ''not a valid PumpSellLiquidityPolicy'') | Some p \<Rightarrow> Inr p)"

definition pumpfun_sniping_protocol_bundle_id :: "(bytes \<Rightarrow> string) \<Rightarrow> digest res" where
  "pumpfun_sniping_protocol_bundle_id sha =
     domain_digest sha ''backtest.pumpfun-sniping-protocol-bundle.v2'' (JObj
       [(''launch_payload_schema'', JStr PUMPFUN_LAUNCH_PAYLOAD_SCHEMA_ID),
        (''lifecycle_payload_schema'', JStr PUMPFUN_LIFECYCLE_PAYLOAD_SCHEMA_ID),
        (''math_state_schema'', JStr ''pump-curve-state-v1''),
        (''sell_liquidity_policies'', JArr (map JStr (sort (map sell_liquidity_policy_value
           [REAL_RESERVE_CAPPED_V1, VIRTUAL_RESERVE_OUTPUT_WITH_EXPLICIT_SYNTHETIC_SHORTFALL_V1])))),
        (''trade_payload_schema'', JStr PUMPFUN_TRADE_PAYLOAD_SCHEMA_ID)])"

definition copybuy_protocol_bundle_id :: "(bytes \<Rightarrow> string) \<Rightarrow> digest res" where
  "copybuy_protocol_bundle_id sha =
     bindE (pumpfun_sniping_protocol_bundle_id sha) (\<lambda>shared.
     domain_digest sha ''backtest.pumpfun-copy-protocol-bundle.v1'' (JObj
       [(''shared_curve_bundle'', JStr (digest_hex shared)),
        (''trade_payload_schema'', JStr COPYBUY_TRADE_PAYLOAD_SCHEMA)]))"

record pump_runtime =
  pu_quote_asset_id :: asset_id
  pu_fee_profile :: fee_profile
  pu_protocol_version :: string
  pu_bundle_id :: digest

definition PumpfunSnipingProtocolRuntime ::
  "(bytes \<Rightarrow> string) \<Rightarrow> asset_id \<Rightarrow> fee_profile \<Rightarrow> string \<Rightarrow> digest option \<Rightarrow> pump_runtime res" where
  "PumpfunSnipingProtocolRuntime sha quote_asset profile version bundle =
     (if version = [] \<or> version \<noteq> strip version then
        Inl (ValueError ''protocol_version must be non-empty and trimmed'')
      else bindE (case bundle of None \<Rightarrow> pumpfun_sniping_protocol_bundle_id sha | Some b \<Rightarrow> Inr b) (\<lambda>b.
        Inr \<lparr>pu_quote_asset_id = quote_asset, pu_fee_profile = profile, pu_protocol_version = version,
          pu_bundle_id = b\<rparr>))"

definition PumpfunCopyBuyProtocolRuntime ::
  "(bytes \<Rightarrow> string) \<Rightarrow> asset_id \<Rightarrow> fee_profile \<Rightarrow> string \<Rightarrow> digest option \<Rightarrow> pump_runtime res" where
  "PumpfunCopyBuyProtocolRuntime sha quote_asset profile version bundle =
     bindE (case bundle of None \<Rightarrow> copybuy_protocol_bundle_id sha | Some b \<Rightarrow> Inr b) (\<lambda>b.
       PumpfunSnipingProtocolRuntime sha quote_asset profile version (Some b))"

record curve_record =
  uc_asset_id :: asset_id
  uc_quote_asset_id :: asset_id
  uc_state :: curve_state
  uc_last_active :: "curve_state option"
  uc_last_active_at :: "int option"

type_synonym curves = "(venue_id, curve_record) dict"

definition require_curve :: "curves \<Rightarrow> venue_id \<Rightarrow> curve_record res" where
  "require_curve curves venue =
     (case dict_get curves venue of
        None \<Rightarrow> Inl (ProtocolContractError UNKNOWN_VENUE) | Some r \<Rightarrow> Inr r)"

section \<open>Reducing a transaction group\<close>

definition launch_target_of :: "token_launch_event \<Rightarrow> launch_target" where
  "launch_target_of l =
     \<lparr>lu_target_event_id = ee_canonical_event_id (tl_envelope l), lu_position = ee_position (tl_envelope l),
      lu_asset_id = tl_asset_id l, lu_developer_id = tl_developer_id l,
      lu_creation_user_id = tl_creation_user_id l, lu_venue_id = tl_venue_id l,
      lu_quote_asset_id = tl_quote_asset_id l\<rparr>"

definition reduce_launch ::
  "pump_runtime \<Rightarrow> int \<Rightarrow> launch_target list \<times> curves \<Rightarrow> token_launch_event \<Rightarrow> (launch_target list \<times> curves) res" where
  "reduce_launch rt time acc l =
     (case acc of (launches, candidate) \<Rightarrow>
        if tl_protocol_payload_schema l \<noteq> PUMPFUN_LAUNCH_PAYLOAD_SCHEMA_ID then
          Inl (ProtocolContractError UNSUPPORTED_PAYLOAD_SCHEMA)
        else if tl_quote_asset_id l \<noteq> pu_quote_asset_id rt then
          Inl (ProtocolContractError NON_SUPPORTED_QUOTE_ASSET)
        else if tl_venue_id l \<in> set (dict_keys candidate) then
          Inl (ProtocolContractError INCONSISTENT_VENUE_IDENTITY)
        else
          bindE (decode_state (tl_protocol_payload l)) (\<lambda>s.
          bindE (require_eligible_launch_state s) (\<lambda>_.
          Inr (launches @ [launch_target_of l],
               dict_set (tl_venue_id l) \<lparr>uc_asset_id = tl_asset_id l, uc_quote_asset_id = tl_quote_asset_id l,
                 uc_state = s, uc_last_active = Some s, uc_last_active_at = Some time\<rparr> candidate))))"

definition reduce_trade :: "int \<Rightarrow> curves \<Rightarrow> venue_trade_event \<Rightarrow> curves res" where
  "reduce_trade time candidate t =
     (if vt_protocol_payload_schema t \<noteq> PUMPFUN_TRADE_PAYLOAD_SCHEMA_ID then
        Inl (ProtocolContractError UNSUPPORTED_PAYLOAD_SCHEMA)
      else
        bindE (require_curve candidate (vt_venue_id t)) (\<lambda>r.
        if {vt_sold_asset_id t, vt_bought_asset_id t} \<noteq> {uc_asset_id r, uc_quote_asset_id r} then
          Inl (ProtocolContractError INCONSISTENT_VENUE_IDENTITY)
        else
          bindE (decode_state (vt_protocol_payload t)) (\<lambda>s.
          bindE (require_known_state s) (\<lambda>_.
          Inr (dict_set (vt_venue_id t) (r\<lparr>uc_state := s,
                 uc_last_active := (if pc_lifecycle s = CURVE_ACTIVE then Some s else uc_last_active r),
                 uc_last_active_at := (if pc_lifecycle s = CURVE_ACTIVE then Some time else uc_last_active_at r)\<rparr>)
               candidate)))))"

fun lifecycle_of_kind :: "venue_lifecycle_kind \<Rightarrow> curve_lifecycle option" where
  "lifecycle_of_kind venue_lifecycle_kind.COMPLETED = Some CURVE_COMPLETE"
| "lifecycle_of_kind venue_lifecycle_kind.MIGRATED = Some CURVE_MIGRATED"
| "lifecycle_of_kind venue_lifecycle_kind.CLOSED = None"

definition reduce_lifecycle :: "curves \<Rightarrow> venue_lifecycle_event \<Rightarrow> curves res" where
  "reduce_lifecycle candidate v =
     (if vl_protocol_payload_schema v \<noteq> PUMPFUN_LIFECYCLE_PAYLOAD_SCHEMA_ID then
        Inl (ProtocolContractError UNSUPPORTED_PAYLOAD_SCHEMA)
      else
        bindE (require_curve candidate (vl_venue_id v)) (\<lambda>r.
        bindE (decode_state (vl_protocol_payload v)) (\<lambda>s.
        bindE (require_known_state s) (\<lambda>_.
        if Some (pc_lifecycle s) \<noteq> lifecycle_of_kind (vl_lifecycle_kind v) then
          Inl (ProtocolContractError PROTOCOL_UNKNOWN_LIFECYCLE)
        else Inr (dict_set (vl_venue_id v) (r\<lparr>uc_state := s\<rparr>) candidate)))))"

definition reduce_event ::
  "pump_runtime \<Rightarrow> int \<Rightarrow> launch_target list \<times> curves \<Rightarrow> canonical_event \<Rightarrow> (launch_target list \<times> curves) res" where
  "reduce_event rt time acc e =
     (let v = event_envelope_of e in
      if event_kind_of e = BLOCK \<or> ee_protocol v \<noteq> PUMPFUN_PROTOCOL_NAME then Inr acc
      else if ee_protocol_version v \<noteq> pu_protocol_version rt then
        Inl (ProtocolContractError UNSUPPORTED_PROTOCOL_VERSION)
      else if ee_ordering_fidelity v \<noteq> INSTRUCTION_EXACT then
        Inl (ProtocolContractError INCONSISTENT_VENUE_IDENTITY)
      else (case e of
          Token_Launch_Event l \<Rightarrow> reduce_launch rt time acc l
        | Venue_Trade_Event t \<Rightarrow> bindE (reduce_trade time (snd acc) t) (\<lambda>c. Inr (fst acc, c))
        | Venue_Lifecycle_Event l \<Rightarrow> bindE (reduce_lifecycle (snd acc) l) (\<lambda>c. Inr (fst acc, c))
        | Block_Event b \<Rightarrow> Inl (ProtocolContractError UNSUPPORTED_PAYLOAD_SCHEMA)))"

definition apply_historical_group ::
  "pump_runtime \<Rightarrow> curves \<Rightarrow> canonical_event list \<Rightarrow> int \<Rightarrow> (launch_target list \<times> curves) res" where
  "apply_historical_group rt curves events time =
     (case events of
        [] \<Rightarrow> Inl (ValueError ''historical group must be non-empty'')
      | e # _ \<Rightarrow>
          if time < 0 then Inl (ValueError ''historical group effective time must be non-negative'')
          else if list_ex (\<lambda>x. event_boundary x \<noteq> event_boundary e \<or> event_group x \<noteq> event_group e) events then
            Inl (ProtocolContractError INCONSISTENT_VENUE_IDENTITY)
          else foldE (reduce_event rt time) ([], curves) events)"

section \<open>Quotes\<close>

fun quote_error_value :: "pump_quote_error_code \<Rightarrow> string" where
  "quote_error_value UNSUPPORTED_PROGRAM_VERSION = ''UNSUPPORTED_PROGRAM_VERSION''"
| "quote_error_value UNSUPPORTED_FORMULA_VERSION = ''UNSUPPORTED_FORMULA_VERSION''"
| "quote_error_value PROFILE_NOT_EFFECTIVE = ''PROFILE_NOT_EFFECTIVE''"
| "quote_error_value UNKNOWN_MODE = ''UNKNOWN_MODE''"
| "quote_error_value UNKNOWN_LIFECYCLE = ''UNKNOWN_LIFECYCLE''"
| "quote_error_value CURVE_COMPLETED = ''CURVE_COMPLETED''"
| "quote_error_value PUMPSWAP_ROUTING_FORBIDDEN = ''PUMPSWAP_ROUTING_FORBIDDEN''"
| "quote_error_value INPUT_OUT_OF_BOUNDS = ''INPUT_OUT_OF_BOUNDS''"
| "quote_error_value OUTPUT_OUT_OF_BOUNDS = ''OUTPUT_OUT_OF_BOUNDS''"
| "quote_error_value INSUFFICIENT_REAL_TOKEN_RESERVES = ''INSUFFICIENT_REAL_TOKEN_RESERVES''"
| "quote_error_value INSUFFICIENT_REAL_SOL_RESERVES = ''INSUFFICIENT_REAL_SOL_RESERVES''"
| "quote_error_value ARITHMETIC_OVERFLOW = ''ARITHMETIC_OVERFLOW''"

fun mapped_quote_error :: "pump_quote_error_code \<Rightarrow> exn" where
  "mapped_quote_error PROFILE_NOT_EFFECTIVE = ProtocolContractError PROTOCOL_PROFILE_NOT_EFFECTIVE"
| "mapped_quote_error UNKNOWN_MODE = ProtocolContractError UNKNOWN_PROGRAM_MODE"
| "mapped_quote_error UNKNOWN_LIFECYCLE = ProtocolContractError PROTOCOL_UNKNOWN_LIFECYCLE"
| "mapped_quote_error UNSUPPORTED_PROGRAM_VERSION = ProtocolContractError UNSUPPORTED_PROTOCOL_VERSION"
| "mapped_quote_error UNSUPPORTED_FORMULA_VERSION = ProtocolContractError UNSUPPORTED_PROTOCOL_VERSION"
| "mapped_quote_error code = ProtocolExecutionRejected (quote_error_value code)"

definition raise_mapped_quote_error :: "'a res \<Rightarrow> 'a res" where
  "raise_mapped_quote_error m = (case m of Inl (PumpQuoteError code) \<Rightarrow> Inl (mapped_quote_error code) | r \<Rightarrow> r)"

fun protocol_route_value :: "protocol_fee_route \<Rightarrow> string" where
  "protocol_route_value NORMAL_RECIPIENT = ''NORMAL_RECIPIENT''"
| "protocol_route_value MAYHEM_RECIPIENT = ''MAYHEM_RECIPIENT''"

fun creator_route_value :: "creator_fee_route \<Rightarrow> string" where
  "creator_route_value CREATOR_VAULT = ''CREATOR_VAULT''"
| "creator_route_value CASHBACK_RECEIVABLE = ''CASHBACK_RECEIVABLE''"

text \<open>\<^verbatim>\<open>str.lower\<close> of ASCII text.\<close>

definition str_lower :: "string \<Rightarrow> string" where
  "str_lower s = map (\<lambda>c. if is_upper c then char_of (char_code c + 32) else c) s"

definition fee_accounts :: "venue_id \<Rightarrow> string \<Rightarrow> string \<Rightarrow> (account_id \<times> account_id \<times> account_id) res" where
  "fee_accounts venue protocol_route creator_route =
     (let route_prefix = ''pumpfun:'' @ venue in
      bindE (Identifier (''creator-fee:'' @ route_prefix @ '':'' @ str_lower creator_route)) (\<lambda>creator.
      bindE (Identifier (''protocol-fee:'' @ route_prefix @ '':'' @ str_lower protocol_route)) (\<lambda>protocol.
      bindE (Identifier (''cashback-source:'' @ route_prefix @ '':'' @ str_lower creator_route)) (\<lambda>cashback.
      Inr (protocol, creator, cashback)))))"

definition routed_accounts :: "venue_id \<Rightarrow> fee_breakdown \<Rightarrow> (account_id \<times> account_id \<times> account_id) res" where
  "routed_accounts venue fees =
     fee_accounts venue (protocol_route_value (fr_protocol_route (fb_routing fees)))
       (creator_route_value (fr_creator_route (fb_routing fees)))"

definition buy_contract :: "roundtrip_intent \<Rightarrow> pump_buy_quote \<Rightarrow> protocol_quote res" where
  "buy_contract i q =
     bindE (routed_accounts (ri_venue_id i) (bq_fees q)) (\<lambda>(protocol, creator, cashback).
     ProtocolQuote \<lparr>pq_side = QUOTE_BUY, pq_input_asset_id = ri_quote_asset_id i,
       pq_output_asset_id = ri_asset_id i, pq_amount_in = bq_gross_spent q, pq_amount_out = bq_tokens_out q,
       pq_venue_input = bq_net_curve q, pq_venue_output = bq_tokens_out q,
       pq_protocol_fee = fb_protocol (bq_fees q), pq_creator_fee = fb_creator (bq_fees q),
       pq_cashback = (case fb_cashback (bq_fees q) of None \<Rightarrow> 0 | Some v \<Rightarrow> v),
       pq_protocol_fee_account = protocol, pq_creator_fee_account = creator,
       pq_cashback_source_account = cashback, pq_liquidity = None\<rparr>)"

definition synthetic_liquidity_account :: "(bytes \<Rightarrow> string) \<Rightarrow> roundtrip_intent \<Rightarrow> account_id res" where
  "synthetic_liquidity_account sha i =
     synthetic_liquidity_account_id sha PUMPFUN_PROTOCOL_NAME (cp_network_id (ri_target_position i)) (ri_venue_id i)"

definition sell_contract :: "(bytes \<Rightarrow> string) \<Rightarrow> roundtrip_intent \<Rightarrow> pump_sell_quote \<Rightarrow> protocol_quote res" where
  "sell_contract sha i q =
     bindE (routed_accounts (ri_venue_id i) (sq_fees q)) (\<lambda>(protocol, creator, cashback).
     bindE (if 0 < sq_synthetic_shortfall q then bindE (synthetic_liquidity_account sha i) (\<lambda>a. Inr (Some a))
            else Inr None) (\<lambda>synthetic.
     bindE (ProtocolLiquidityEvidence \<lparr>lv_policy_id = sell_liquidity_policy_value (sq_liquidity_policy q),
       lv_asset_id = ri_quote_asset_id i, lv_required_output = sq_gross_curve q,
       lv_observed_output = sq_observed_real_sol q, lv_synthetic_shortfall = sq_synthetic_shortfall q,
       lv_synthetic_source = synthetic\<rparr>) (\<lambda>evidence.
     ProtocolQuote \<lparr>pq_side = QUOTE_SELL, pq_input_asset_id = ri_asset_id i,
       pq_output_asset_id = ri_quote_asset_id i, pq_amount_in = sq_tokens_in q, pq_amount_out = sq_sol_out q,
       pq_venue_input = sq_tokens_in q, pq_venue_output = sq_gross_curve q,
       pq_protocol_fee = fb_protocol (sq_fees q), pq_creator_fee = fb_creator (sq_fees q),
       pq_cashback = (case fb_cashback (sq_fees q) of None \<Rightarrow> 0 | Some v \<Rightarrow> v),
       pq_protocol_fee_account = protocol, pq_creator_fee_account = creator,
       pq_cashback_source_account = cashback, pq_liquidity = Some evidence\<rparr>)))"

definition sell_liquidity_policy_of :: "execution_mode \<Rightarrow> sell_liquidity_policy res" where
  "sell_liquidity_policy_of mode = bindE (liquidity_policy_id_for_execution_mode mode) PumpSellLiquidityPolicy"

definition quote_buy_state ::
  "pump_runtime \<Rightarrow> roundtrip_intent \<Rightarrow> curve_state \<Rightarrow> int \<Rightarrow> protocol_quote res" where
  "quote_buy_state rt i s time =
     bindE (raise_mapped_quote_error (buy_quote s (ri_gross_buy_budget_atomic i) (pu_fee_profile rt) time))
       (buy_contract i)"

definition quote_sell_state ::
  "(bytes \<Rightarrow> string) \<Rightarrow> pump_runtime \<Rightarrow> roundtrip_intent \<Rightarrow> curve_state \<Rightarrow> int \<Rightarrow> int \<Rightarrow> protocol_quote res" where
  "quote_sell_state sha rt i s tokens time =
     bindE (raise_mapped_quote_error (bindE (sell_liquidity_policy_of (ri_execution_mode i))
         (sell_quote s tokens (pu_fee_profile rt) time)))
       (sell_contract sha i)"

definition intent_curve :: "pump_runtime \<Rightarrow> curves \<Rightarrow> roundtrip_intent \<Rightarrow> curve_record res" where
  "intent_curve rt curves i =
     bindE (require_curve curves (ri_venue_id i)) (\<lambda>r.
     if uc_asset_id r \<noteq> ri_asset_id i \<or> uc_quote_asset_id r \<noteq> ri_quote_asset_id i
         \<or> uc_quote_asset_id r \<noteq> pu_quote_asset_id rt then
       Inl (ProtocolContractError INCONSISTENT_VENUE_IDENTITY)
     else Inr r)"

definition pump_quote_buy ::
  "pump_runtime \<Rightarrow> curves \<Rightarrow> roundtrip_intent \<Rightarrow> int \<Rightarrow> protocol_quote res" where
  "pump_quote_buy rt curves i time =
     bindE (intent_curve rt curves i) (\<lambda>r. quote_buy_state rt i (uc_state r) time)"

definition pump_quote_sell ::
  "(bytes \<Rightarrow> string) \<Rightarrow> pump_runtime \<Rightarrow> curves \<Rightarrow> roundtrip_intent \<Rightarrow> int \<Rightarrow> int \<Rightarrow> protocol_quote res" where
  "pump_quote_sell sha rt curves i tokens time =
     bindE (intent_curve rt curves i) (\<lambda>r. quote_sell_state sha rt i (uc_state r) tokens time)"

definition pump_account_requirements ::
  "pump_runtime \<Rightarrow> curves \<Rightarrow> roundtrip_intent \<Rightarrow> account_requirement list res" where
  "pump_account_requirements rt curves i =
     bindE (intent_curve rt curves i) (\<lambda>r. pumpfun_account_requirements (pc_mode (uc_state r)))"

definition pump_valuation_quote ::
  "(bytes \<Rightarrow> string) \<Rightarrow> pump_runtime \<Rightarrow> curves \<Rightarrow> roundtrip_intent \<Rightarrow> int \<Rightarrow> int \<Rightarrow> valuation_quote option res" where
  "pump_valuation_quote sha rt curves i tokens time =
     bindE (intent_curve rt curves i) (\<lambda>r.
     if pc_lifecycle (uc_state r) = CURVE_ACTIVE then
       bindE (pump_quote_sell sha rt curves i tokens time) (\<lambda>q.
         Inr (Some \<lparr>vq_quote = q, vq_stale_pre_migration = False\<rparr>))
     else (case uc_last_active r of
         Some previous \<Rightarrow>
           if pc_lifecycle (uc_state r) \<noteq> CURVE_MIGRATED then Inr None
           else (case uc_last_active_at r of
               None \<Rightarrow> Inl (ProtocolContractError PROTOCOL_UNKNOWN_LIFECYCLE)
             | Some since \<Rightarrow> bindE (quote_sell_state sha rt i previous tokens since) (\<lambda>q.
                 Inr (Some \<lparr>vq_quote = q, vq_stale_pre_migration = True\<rparr>)))
       | None \<Rightarrow> Inr None))"

section \<open>Quotes from primitive states\<close>

definition quote_buy_from_primitive_state ::
  "pump_runtime \<Rightarrow> roundtrip_intent \<Rightarrow> primitive_state \<Rightarrow> int \<Rightarrow> protocol_quote res" where
  "quote_buy_from_primitive_state rt i p time =
     bindE (state_from_primitive p) (\<lambda>s. quote_buy_state rt i s time)"

definition account_requirements_from_primitive_state :: "primitive_state \<Rightarrow> account_requirement list res" where
  "account_requirements_from_primitive_state p =
     bindE (state_from_primitive p) (\<lambda>s. pumpfun_account_requirements (pc_mode s))"

definition quote_sell_from_primitive_state ::
  "(bytes \<Rightarrow> string) \<Rightarrow> pump_runtime \<Rightarrow> roundtrip_intent \<Rightarrow> primitive_state \<Rightarrow> int \<Rightarrow> int \<Rightarrow> protocol_quote res" where
  "quote_sell_from_primitive_state sha rt i p tokens time =
     bindE (state_from_primitive p) (\<lambda>s. quote_sell_state sha rt i s tokens time)"

definition valuation_quote_from_primitive_state ::
  "(bytes \<Rightarrow> string) \<Rightarrow> pump_runtime \<Rightarrow> roundtrip_intent \<Rightarrow> primitive_state \<Rightarrow> primitive_state option \<Rightarrow> int option
    \<Rightarrow> int \<Rightarrow> int \<Rightarrow> valuation_quote option res" where
  "valuation_quote_from_primitive_state sha rt i p last_active last_active_at tokens time =
     bindE (state_from_primitive p) (\<lambda>current.
     if pc_lifecycle current = CURVE_ACTIVE then
       bindE (quote_sell_state sha rt i current tokens time) (\<lambda>q.
         Inr (Some \<lparr>vq_quote = q, vq_stale_pre_migration = False\<rparr>))
     else (case last_active of
         Some previous \<Rightarrow>
           if pc_lifecycle current \<noteq> CURVE_MIGRATED then Inr None
           else (case last_active_at of
               None \<Rightarrow> Inl (ProtocolContractError PROTOCOL_UNKNOWN_LIFECYCLE)
             | Some since \<Rightarrow> bindE (state_from_primitive previous) (\<lambda>s.
                 bindE (quote_sell_state sha rt i s tokens since) (\<lambda>q.
                 Inr (Some \<lparr>vq_quote = q, vq_stale_pre_migration = True\<rparr>))))
       | None \<Rightarrow> Inr None))"

section \<open>The copy variant\<close>

definition copy_signal_of :: "venue_trade_event \<Rightarrow> account_id \<Rightarrow> copy_signal res" where
  "copy_signal_of t wallet =
     CopyBuySignal \<lparr>cs_event_id = ee_canonical_event_id (vt_envelope t), cs_position = ee_position (vt_envelope t),
       cs_signing_wallet = wallet, cs_asset_id = vt_bought_asset_id t, cs_venue_id = vt_venue_id t,
       cs_quote_asset_id = vt_sold_asset_id t\<rparr>"

definition project_copy_event ::
  "pump_runtime \<Rightarrow> canonical_event list \<times> copy_signal list \<Rightarrow> canonical_event
    \<Rightarrow> (canonical_event list \<times> copy_signal list) res" where
  "project_copy_event rt acc e =
     (case acc of (state_events, signals) \<Rightarrow>
      (case e of
         Venue_Trade_Event t \<Rightarrow>
           if vt_protocol_payload_schema t \<noteq> COPYBUY_TRADE_PAYLOAD_SCHEMA then
             Inl (ProtocolContractError UNSUPPORTED_PAYLOAD_SCHEMA)
           else
             bindE (decode_copybuy_trade_payload (vt_protocol_payload t)) (\<lambda>p.
             bindE (encode_state (cy_state_after p)) (\<lambda>bs.
             bindE (VenueTradeEvent (t\<lparr>vt_protocol_payload_schema := PUMPFUN_TRADE_PAYLOAD_SCHEMA_ID,
               vt_protocol_payload := bs\<rparr>)) (\<lambda>t'.
             if vt_sold_asset_id t = pu_quote_asset_id rt then
               bindE (copy_signal_of t (cy_signing_wallet p)) (\<lambda>s.
                 Inr (state_events @ [Venue_Trade_Event t'], signals @ [s]))
             else Inr (state_events @ [Venue_Trade_Event t'], signals))))
       | _ \<Rightarrow> Inr (state_events @ [e], signals)))"

definition pump_apply_copy_group ::
  "pump_runtime \<Rightarrow> curves \<Rightarrow> canonical_event list \<Rightarrow> int \<Rightarrow> (copy_signal list \<times> curves) res" where
  "pump_apply_copy_group rt curves events time =
     bindE (foldE (project_copy_event rt) ([], []) events) (\<lambda>(state_events, signals).
     bindE (apply_historical_group rt curves state_events time) (\<lambda>(_, curves). Inr (signals, curves)))"

definition pump_current_price :: "pump_runtime \<Rightarrow> curves \<Rightarrow> copy_intent \<Rightarrow> token_price option res" where
  "pump_current_price rt curves i =
     bindE (intent_curve rt curves (shared_intent i)) (\<lambda>r.
     if pc_lifecycle (uc_state r) \<noteq> CURVE_ACTIVE then Inr None
     else bindE (TokenPrice (pc_virtual_sol (uc_state r)) (pc_virtual_token (uc_state r))) (\<lambda>p. Inr (Some p)))"

section \<open>Lemmas\<close>

lemma strip_same:
  assumes "s \<noteq> []" "\<not> is_space (hd s)" "\<not> is_space (last s)"
  shows "strip s = s"
proof -
  have "dropWhile is_space s = s" using assms(1,2) by (cases s) auto
  moreover have "dropWhile is_space (rev s) = rev s"
    using assms(1,3) by (cases "rev s") (auto simp: hd_rev[symmetric])
  ultimately show ?thesis by (simp add: strip_def)
qed

lemma framed_identifier:
  assumes "Identifier v = Inr v" and "length a + length v + length b \<le> 256"
    and "a \<noteq> []" "\<not> is_space (hd a)" "list_all (\<lambda>c. 32 \<le> char_code c) a"
    and "b \<noteq> []" "\<not> is_space (last b)" "list_all (\<lambda>c. 32 \<le> char_code c) b"
  shows "Identifier (a @ v @ b) = Inr (a @ v @ b)"
proof -
  have v: "list_all (\<lambda>c. 32 \<le> char_code c) v"
    using assms(1) by (auto simp: Identifier_def list_ex_iff list_all_iff not_less split: if_splits)
  have "strip (a @ v @ b) = a @ v @ b" by (rule strip_same) (use assms in auto)
  moreover have "list_all (\<lambda>c. 32 \<le> char_code c) (a @ v @ b)" using assms v by simp
  then have "\<not> list_ex (\<lambda>c. char_code c < 32) (a @ v @ b)" by (auto simp: list_ex_iff list_all_iff not_less)
  ultimately show ?thesis using assms by (simp add: Identifier_def)
qed

text \<open>A venue identifier short enough for the account names derived from it.\<close>

definition venue_fits :: "venue_id \<Rightarrow> bool" where
  "venue_fits v \<longleftrightarrow> Identifier v = Inr v \<and> length v \<le> 212"

lemma lowered_routes:
  "str_lower (protocol_route_value r) \<in> {''normal_recipient'', ''mayhem_recipient''}"
  "str_lower (creator_route_value c) \<in> {''creator_vault'', ''cashback_receivable''}"
  by (cases r; hypsubst; code_simp) (cases c; hypsubst; code_simp)

lemma routed_accounts_ok:
  assumes "venue_fits venue"
  shows "\<exists>accounts. routed_accounts venue fees = Inr accounts"
proof -
  have ok: "Identifier (prefix @ (''pumpfun:'' @ venue) @ '':'' @ route)
      = Inr (prefix @ (''pumpfun:'' @ venue) @ '':'' @ route)"
    if "prefix \<in> {''creator-fee:'', ''protocol-fee:'', ''cashback-source:''}"
      "route \<in> {''normal_recipient'', ''mayhem_recipient'', ''creator_vault'', ''cashback_receivable''}" for prefix route
  proof -
    have v: "Identifier venue = Inr venue" "length venue \<le> 212" using assms by (simp_all add: venue_fits_def)
    have "Identifier ((prefix @ ''pumpfun:'') @ venue @ ('':'' @ route))
      = Inr ((prefix @ ''pumpfun:'') @ venue @ ('':'' @ route))"
      by (rule framed_identifier[OF v(1)]) (use that v(2) in \<open>auto simp: is_space_def char_code_def\<close>)
    then show ?thesis by simp
  qed
  show ?thesis
    using lowered_routes(1)[of "fr_protocol_route (fb_routing fees)"]
      lowered_routes(2)[of "fr_creator_route (fb_routing fees)"]
    by (auto simp: routed_accounts_def fee_accounts_def Let_def ok simp del: append.simps append_assoc)
qed

text \<open>The failures the engines are prepared for.\<close>

definition protocol_outcome :: "'a res \<Rightarrow> bool" where
  "protocol_outcome m \<longleftrightarrow> (case m of Inl (ProtocolContractError _) \<Rightarrow> True
     | Inl (ProtocolExecutionRejected _) \<Rightarrow> True | Inl _ \<Rightarrow> False | Inr _ \<Rightarrow> True)"

lemma protocol_outcome_intros:
  "protocol_outcome (Inl (ProtocolContractError c))" "protocol_outcome (Inr x)"
  by (simp_all add: protocol_outcome_def)

lemma mapped_outcome:
  assumes "quote_error_typed m" and "\<And>q. m = Inr q \<Longrightarrow> protocol_outcome (f q)"
  shows "protocol_outcome (bindE (raise_mapped_quote_error m) f)"
proof (cases m)
  case (Inl e)
  with assms(1) obtain c where "e = PumpQuoteError c" by (auto simp: quote_error_typed_def split: exn.splits)
  then show ?thesis
    by (cases c) (simp_all add: Inl raise_mapped_quote_error_def protocol_outcome_def)
qed (use assms(2) in \<open>simp add: raise_mapped_quote_error_def\<close>)

lemma raise_mapped_Inr [simp]: "raise_mapped_quote_error m = Inr q \<longleftrightarrow> m = Inr q"
  by (auto simp: raise_mapped_quote_error_def split: sum.splits exn.splits)

lemma fee_breakdown_of_parts:
  assumes "fee_breakdown_of mode pf cf = Inr f"
  shows "fb_protocol f = pf" "fb_creator f = cf" "0 \<le> pf" "0 \<le> cf" "fb_cashback f \<in> {None, Some cf}"
  using assms by (auto simp: fee_breakdown_of_def PumpFeeBreakdown_def require_u64_def split: if_splits)

lemma buy_contract_ok:
  assumes "buy_quote s (ri_gross_buy_budget_atomic i) p t = Inr q"
    and "PumpFeeProfile p = Inr p" "ri_asset_id i \<noteq> ri_quote_asset_id i" "venue_fits (ri_venue_id i)"
  shows "\<exists>pq. buy_contract i q = Inr pq \<and> ProtocolQuote pq = Inr pq \<and> validate_buy_quote i pq = Inr ()"
proof (rule buy_quote_Inr[OF assms(1)])
  fix n pf cf net curve fees
  assume n: "n = ri_gross_buy_budget_atomic i * 10000 div (10000 + (fp_protocol_fee_bps p + fp_creator_fee_bps p))"
    and fee: "fee_ceil n (fp_protocol_fee_bps p) = Inr pf" "fee_ceil n (fp_creator_fee_bps p) = Inr cf"
    and q: "net = n - max 0 (n + pf + cf - ri_gross_buy_budget_atomic i)"
      "curve = (if fp_buy_formula p = PUMP_BUY_EXACT_GROSS_SOL_FORMULA_V1 then net - 1 else net)" "0 < curve"
      "0 < bq_tokens_out q" "fee_breakdown_of (pc_mode s) pf cf = Inr fees" "bq_fees q = fees" "bq_net_curve q = net"
      "bq_gross_spent q = net + pf + cf"
  note f = fee_breakdown_of_parts[OF q(5)]
  obtain protocol creator cashback where a: "routed_accounts (ri_venue_id i) (bq_fees q) = Inr (protocol, creator, cashback)"
    using routed_accounts_ok[OF assms(4)] by (metis prod_cases3)
  have net: "0 < net" "net + pf + cf \<le> ri_gross_buy_budget_atomic i"
    using q(1-3) by (auto split: if_splits)
  define pq where "pq = \<lparr>pq_side = QUOTE_BUY, pq_input_asset_id = ri_quote_asset_id i,
     pq_output_asset_id = ri_asset_id i, pq_amount_in = bq_gross_spent q, pq_amount_out = bq_tokens_out q,
     pq_venue_input = bq_net_curve q, pq_venue_output = bq_tokens_out q,
     pq_protocol_fee = fb_protocol (bq_fees q), pq_creator_fee = fb_creator (bq_fees q),
     pq_cashback = (case fb_cashback (bq_fees q) of None \<Rightarrow> 0 | Some v \<Rightarrow> v),
     pq_protocol_fee_account = protocol, pq_creator_fee_account = creator,
     pq_cashback_source_account = cashback, pq_liquidity = None\<rparr>"
  have "ProtocolQuote pq = Inr pq"
    using f net q(4,6-8) assms(3) by (auto simp: pq_def ProtocolQuote_def validate_quote_side_def)
  moreover have "validate_buy_quote i pq = Inr ()"
    using net q(6-8) by (simp add: pq_def validate_buy_quote_def)
  ultimately show ?thesis by (simp add: buy_contract_def a pq_def)
qed

lemma sell_policy_modes:
  assumes "sell_liquidity_policy_of mode = Inr policy"
  shows "liquidity_policy_id_for_execution_mode mode = Inr (sell_liquidity_policy_value policy)"
    "policy = REAL_RESERVE_CAPPED_V1 \<longleftrightarrow> mode = EXOGENOUS_REPLAY"
    "mode \<in> {EXOGENOUS_REPLAY, EXOGENOUS_VIRTUAL_SETTLEMENT}"
  using assms
  by (cases mode; simp add: sell_liquidity_policy_of_def PumpSellLiquidityPolicy_def
      REAL_RESERVE_CAPPED_LIQUIDITY_POLICY_ID_def VIRTUAL_RESERVE_EXPLICIT_SHORTFALL_LIQUIDITY_POLICY_ID_def; force)+

lemma policy_text:
  "sell_liquidity_policy_value policy \<noteq> [] \<and> strip (sell_liquidity_policy_value policy) = sell_liquidity_policy_value policy
   \<and> length (sell_liquidity_policy_value policy) \<le> 128
   \<and> \<not> list_ex (\<lambda>c. char_code c < 32 \<or> 126 < char_code c) (sell_liquidity_policy_value policy)"
  by (cases policy; hypsubst; code_simp)

lemma synthetic_account_ok:
  assumes "\<And>x. ContentDigest (sha x) = Inr (sha x)"
  shows "\<exists>account. synthetic_liquidity_account sha i = Inr account"
proof -
  let ?doc = "JObj [(''network_id'', JStr (cp_network_id (ri_target_position i))), (''venue_id'', JStr (ri_venue_id i))]"
  define d where "d = sha (utf8 ''backtest.pumpfun-synthetic-liquidity-account.v1'' @ nul # utf8 (render ?doc))"
  have dig: "domain_digest sha ''backtest.pumpfun-synthetic-liquidity-account.v1'' ?doc = Inr d"
    by (simp add: domain_digest_def assms d_def canonical_json_bytes_Inr strip_def is_space_def nul_def)
  have hex: "length (digest_hex d) = 64" "list_all is_lower_hex (digest_hex d)"
    using digest_hex_valid assms unfolding d_def by blast+
  then have "digest_hex d \<noteq> []" "\<not> is_space (last (digest_hex d))"
    "list_all (\<lambda>c. 32 \<le> char_code c) (digest_hex d)"
    using last_in_set[of "digest_hex d"]
    by (fastforce simp: list_all_iff is_lower_hex_def is_space_def char_code_def Let_def)+
  then have "Identifier (''synthetic-liquidity:pumpfun:'' @ digest_hex d) = Inr (''synthetic-liquidity:pumpfun:'' @ digest_hex d)"
    using hex(1) strip_same[of "''synthetic-liquidity:pumpfun:'' @ digest_hex d"]
    by (auto simp: Identifier_def list_ex_iff list_all_iff is_space_def char_code_def)
  then show ?thesis
    using dig by (simp add: synthetic_liquidity_account_def synthetic_liquidity_account_id_def PUMPFUN_PROTOCOL_NAME_def
        is_upper_def char_code_def is_alnum_char_def)
qed

lemma policy_evidence:
  assumes "0 < gross" "0 \<le> held" and "source = (if held < gross then Some account else None)"
  shows "ProtocolLiquidityEvidence \<lparr>lv_policy_id = sell_liquidity_policy_value policy, lv_asset_id = asset,
      lv_required_output = gross, lv_observed_output = held, lv_synthetic_shortfall = max 0 (gross - held),
      lv_synthetic_source = source\<rparr>
    = Inr \<lparr>lv_policy_id = sell_liquidity_policy_value policy, lv_asset_id = asset,
      lv_required_output = gross, lv_observed_output = held, lv_synthetic_shortfall = max 0 (gross - held),
      lv_synthetic_source = source\<rparr>"
  using assms policy_text[of policy] by (auto simp: ProtocolLiquidityEvidence_def max_def)

lemma sell_contract_ok:
  assumes "sell_quote s tokens p t policy = Inr q" and "sell_liquidity_policy_of (ri_execution_mode i) = Inr policy"
    and "PumpFeeProfile p = Inr p" "PumpCurveStateV1 s = Inr s" "ri_asset_id i \<noteq> ri_quote_asset_id i"
    "venue_fits (ri_venue_id i)" and sha: "\<And>x. ContentDigest (sha x) = Inr (sha x)"
  shows "\<exists>pq. sell_contract sha i q = Inr pq \<and> ProtocolQuote pq = Inr pq \<and> validate_sell_quote sha i tokens pq = Inr ()"
proof (rule sell_quote_Inr[OF assms(1)])
  fix gross pf cf fees
  assume q: "1 \<le> tokens" "0 < gross" "pf + cf < gross" "fee_breakdown_of (pc_mode s) pf cf = Inr fees"
      "policy = REAL_RESERVE_CAPPED_V1 \<Longrightarrow> gross \<le> pc_real_sol s"
      "q = \<lparr>sq_formula = PUMP_SELL_EXACT_TOKEN_IN_FORMULA_V1, sq_tokens_in = tokens, sq_gross_curve = gross,
        sq_sol_out = gross - (pf + cf), sq_liquidity_policy = policy, sq_observed_real_sol = pc_real_sol s,
        sq_synthetic_shortfall = max 0 (gross - pc_real_sol s), sq_fees = fees\<rparr>"
  note f = fee_breakdown_of_parts[OF q(4)] and mode = sell_policy_modes[OF assms(2)]
  have real: "0 \<le> pc_real_sol s" using valid_curve_bounds(7)[OF assms(4)] .
  obtain protocol creator cashback where a: "routed_accounts (ri_venue_id i) fees = Inr (protocol, creator, cashback)"
    using routed_accounts_ok[OF assms(6)] by (metis prod_cases3)
  obtain account where acc: "synthetic_liquidity_account sha i = Inr account"
    using synthetic_account_ok[of sha i] sha by blast
  define source where "source = (if pc_real_sol s < gross then Some account else None)"
  define e where "e = \<lparr>lv_policy_id = sell_liquidity_policy_value policy, lv_asset_id = ri_quote_asset_id i,
     lv_required_output = gross, lv_observed_output = pc_real_sol s,
     lv_synthetic_shortfall = max 0 (gross - pc_real_sol s), lv_synthetic_source = source\<rparr>"
  define pq where "pq = \<lparr>pq_side = QUOTE_SELL, pq_input_asset_id = ri_asset_id i,
     pq_output_asset_id = ri_quote_asset_id i, pq_amount_in = tokens, pq_amount_out = gross - (pf + cf),
     pq_venue_input = tokens, pq_venue_output = gross, pq_protocol_fee = fb_protocol fees,
     pq_creator_fee = fb_creator fees, pq_cashback = (case fb_cashback fees of None \<Rightarrow> 0 | Some v \<Rightarrow> v),
     pq_protocol_fee_account = protocol, pq_creator_fee_account = creator,
     pq_cashback_source_account = cashback, pq_liquidity = Some e\<rparr>"
  have e: "ProtocolLiquidityEvidence e = Inr e" unfolding e_def by (rule policy_evidence[OF q(2) real]) (simp add: source_def)
  have quote: "ProtocolQuote pq = Inr pq"
    using f q(1-3) assms(5) by (auto simp: pq_def e_def ProtocolQuote_def validate_quote_side_def)
  have contract: "sell_contract sha i q = ProtocolQuote pq"
    using e acc by (cases "pc_real_sol s < gross") (simp_all add: sell_contract_def q(6) a pq_def e_def source_def)
  have capped: "gross \<le> pc_real_sol s" if "ri_execution_mode i = EXOGENOUS_REPLAY" using that q(5) mode(2) by simp
  have expected: "expected_source sha i (max 0 (gross - pc_real_sol s)) = Inr source"
    using acc by (simp add: expected_source_def source_def synthetic_liquidity_account_def PUMPFUN_PROTOCOL_NAME_def)
  have "validate_sell_quote sha i tokens pq = Inr ()"
    using mode(1,3) capped expected
    by (auto simp: validate_sell_quote_def pq_def e_def source_def Let_def)
  with quote contract show ?thesis by simp
qed

section \<open>The state of the runtime\<close>

definition known_curve :: "curve_state \<Rightarrow> bool" where
  "known_curve s \<longleftrightarrow> PumpCurveStateV1 s = Inr s \<and> require_known_state s = Inr ()"

definition curve_ok :: "pump_runtime \<Rightarrow> curve_record \<Rightarrow> bool" where
  "curve_ok rt r \<longleftrightarrow> known_curve (uc_state r) \<and> uc_quote_asset_id r = pu_quote_asset_id rt
     \<and> (pc_lifecycle (uc_state r) = CURVE_ACTIVE \<longrightarrow> uc_last_active r = Some (uc_state r))
     \<and> (case (uc_last_active r, uc_last_active_at r) of
          (Some s, Some t) \<Rightarrow> known_curve s \<and> pc_lifecycle s = CURVE_ACTIVE \<and> 0 \<le> t
        | _ \<Rightarrow> False)"

definition curves_ok :: "pump_runtime \<Rightarrow> curves \<Rightarrow> bool" where
  "curves_ok rt curves \<longleftrightarrow> distinct (dict_keys curves) \<and> list_all (curve_ok rt) (map snd curves)"

lemma curves_ok_get: "curves_ok rt curves \<Longrightarrow> require_curve curves v = Inr r \<Longrightarrow> curve_ok rt r"
  by (auto simp: curves_ok_def require_curve_def list_all_iff split: option.splits dest!: map_of_SomeD)

lemma require_curve_key: "require_curve curves v = Inr r \<Longrightarrow> v \<in> set (dict_keys curves)"
  by (auto simp: require_curve_def split: option.splits dest!: map_of_SomeD intro: rev_image_eqI)

lemma curves_ok_set:
  assumes "curves_ok rt curves" and "curve_ok rt r"
  shows "curves_ok rt (dict_set v r curves)"
proof -
  have "set (dict_set v r curves) \<subseteq> insert (v, r) (set curves)" by (induction curves) auto
  with assms show ?thesis by (fastforce simp: curves_ok_def list_all_iff distinct_update)
qed

lemma decoded_known: "decode_state bs = Inr s \<Longrightarrow> require_known_state s = Inr () \<Longrightarrow> known_curve s"
  by (simp add: known_curve_def decode_state_iff)

text \<open>The launches the protocol sees in a group, in order.\<close>

fun pump_launch :: "canonical_event \<Rightarrow> token_launch_event option" where
  "pump_launch (Token_Launch_Event l) =
     (if ee_protocol (tl_envelope l) = PUMPFUN_PROTOCOL_NAME then Some l else None)"
| "pump_launch e = None"

definition pump_launches :: "canonical_event list \<Rightarrow> token_launch_event list" where
  "pump_launches events = List.map_filter pump_launch events"

lemma launch_effect:
  assumes "reduce_launch rt time (ls, c) l = Inr (ls', c')" and "curves_ok rt c" and "0 \<le> time"
  shows "curves_ok rt c' \<and> ls' = ls @ [launch_target_of l] \<and> dict_keys c' = dict_keys c @ [tl_venue_id l]
    \<and> tl_quote_asset_id l = pu_quote_asset_id rt \<and> lu_venue_id (launch_target_of l) = tl_venue_id l
    \<and> lu_quote_asset_id (launch_target_of l) = tl_quote_asset_id l"
proof -
  obtain s where s: "tl_quote_asset_id l = pu_quote_asset_id rt" "tl_venue_id l \<notin> set (dict_keys c)"
      "decode_state (tl_protocol_payload l) = Inr s" "require_eligible_launch_state s = Inr ()"
      "ls' = ls @ [launch_target_of l]"
      "c' = dict_set (tl_venue_id l) \<lparr>uc_asset_id = tl_asset_id l, uc_quote_asset_id = tl_quote_asset_id l,
         uc_state = s, uc_last_active = Some s, uc_last_active_at = Some time\<rparr> c"
    using assms(1) by (auto simp: reduce_launch_def split: if_splits)
  have "known_curve s" "pc_lifecycle s = CURVE_ACTIVE"
    using s(3,4) decoded_known by (auto simp: require_eligible_launch_state_def split: if_splits)
  then have "curves_ok rt c'"
    unfolding s(6) using s(1) assms(3) by (intro curves_ok_set[OF assms(2)]) (simp add: curve_ok_def)
  then show ?thesis using s by (simp add: update_keys launch_target_of_def)
qed

lemma trade_effect:
  assumes "reduce_trade time c t = Inr c'" and "curves_ok rt c" and "0 \<le> time"
  shows "curves_ok rt c' \<and> dict_keys c' = dict_keys c"
proof -
  obtain r s where r: "require_curve c (vt_venue_id t) = Inr r" "decode_state (vt_protocol_payload t) = Inr s"
      "require_known_state s = Inr ()"
      "c' = dict_set (vt_venue_id t) (r\<lparr>uc_state := s,
         uc_last_active := (if pc_lifecycle s = CURVE_ACTIVE then Some s else uc_last_active r),
         uc_last_active_at := (if pc_lifecycle s = CURVE_ACTIVE then Some time else uc_last_active_at r)\<rparr>) c"
    using assms(1) by (auto simp: reduce_trade_def split: if_splits)
  have "curves_ok rt c'"
    unfolding r(4)
    by (rule curves_ok_set[OF assms(2)])
      (use curves_ok_get[OF assms(2) r(1)] decoded_known[OF r(2,3)] assms(3) in
        \<open>auto simp: curve_ok_def split: option.splits\<close>)
  then show ?thesis
    using require_curve_key[OF r(1)] unfolding r(4) by (simp add: update_keys)
qed

lemma lifecycle_effect:
  assumes "reduce_lifecycle c v = Inr c'" and "curves_ok rt c"
  shows "curves_ok rt c' \<and> dict_keys c' = dict_keys c"
proof -
  obtain r s where r: "require_curve c (vl_venue_id v) = Inr r" "decode_state (vl_protocol_payload v) = Inr s"
      "require_known_state s = Inr ()" "Some (pc_lifecycle s) = lifecycle_of_kind (vl_lifecycle_kind v)"
      "c' = dict_set (vl_venue_id v) (r\<lparr>uc_state := s\<rparr>) c"
    using assms(1) by (auto simp: reduce_lifecycle_def split: if_splits)
  have "pc_lifecycle s \<noteq> CURVE_ACTIVE" using r(4) by (cases "vl_lifecycle_kind v") auto
  then have "curves_ok rt c'"
    unfolding r(5)
    by (intro curves_ok_set[OF assms(2)])
      (use curves_ok_get[OF assms(2) r(1)] decoded_known[OF r(2,3)] in \<open>auto simp: curve_ok_def split: option.splits\<close>)
  then show ?thesis
    using require_curve_key[OF r(1)] unfolding r(5) by (simp add: update_keys)
qed

lemma reduce_event_effect:
  assumes "reduce_event rt time (ls, c) e = Inr (ls', c')" and "curves_ok rt c" and "0 \<le> time"
  shows "curves_ok rt c' \<and> ls' = ls @ map launch_target_of (pump_launches [e])
    \<and> dict_keys c' = dict_keys c @ map lu_venue_id (map launch_target_of (pump_launches [e]))
    \<and> list_all (\<lambda>l. lu_quote_asset_id l = pu_quote_asset_id rt) (map launch_target_of (pump_launches [e]))"
proof -
  show ?thesis
  proof (cases "event_kind_of e = BLOCK \<or> ee_protocol (event_envelope_of e) \<noteq> PUMPFUN_PROTOCOL_NAME")
    case True
    then have "pump_launch e = None" by (cases e) auto
    with True assms show ?thesis by (simp add: reduce_event_def pump_launches_def map_filter_simps)
  next
    case False
    show ?thesis
    proof (cases e)
      case (Token_Launch_Event l)
      with False assms(1) have l: "reduce_launch rt time (ls, c) l = Inr (ls', c')" "pump_launch e = Some l"
        by (auto simp: reduce_event_def Let_def split: if_splits)
      from launch_effect[OF l(1) assms(2,3)] show ?thesis
        by (simp add: pump_launches_def map_filter_simps l(2))
    next
      case (Venue_Trade_Event t)
      with False assms(1) have l: "reduce_trade time c t = Inr c'" "ls' = ls" "pump_launch e = None"
        by (auto simp: reduce_event_def Let_def split: if_splits)
      from trade_effect[OF l(1) assms(2,3)] l show ?thesis
        by (simp add: pump_launches_def map_filter_simps)
    next
      case (Venue_Lifecycle_Event t)
      with False assms(1) have l: "reduce_lifecycle c t = Inr c'" "ls' = ls" "pump_launch e = None"
        by (auto simp: reduce_event_def Let_def split: if_splits)
      from lifecycle_effect[OF l(1) assms(2)] l show ?thesis
        by (simp add: pump_launches_def map_filter_simps)
    qed (use False in simp)
  qed
qed

lemma reduce_group_effect:
  assumes "foldE (reduce_event rt time) (ls, c) events = Inr (ls', c')" and "curves_ok rt c" and "0 \<le> time"
  shows "curves_ok rt c' \<and> ls' = ls @ map launch_target_of (pump_launches events)
    \<and> dict_keys c' = dict_keys c @ map lu_venue_id (map launch_target_of (pump_launches events))
    \<and> list_all (\<lambda>l. lu_quote_asset_id l = pu_quote_asset_id rt) (map launch_target_of (pump_launches events))"
  using assms(1,2)
proof (induction events arbitrary: ls c)
  case (Cons e es)
  then obtain ls1 c1 where s: "reduce_event rt time (ls, c) e = Inr (ls1, c1)"
      "foldE (reduce_event rt time) (ls1, c1) es = Inr (ls', c')" by auto
  note a = reduce_event_effect[OF s(1) Cons.prems(2) assms(3)]
  have split: "pump_launches (e # es) = pump_launches [e] @ pump_launches es"
    by (simp add: pump_launches_def map_filter_def)
  from Cons.IH[OF s(2)] a show ?case by (simp add: split)
qed (simp add: pump_launches_def map_filter_simps)

section \<open>What an engine relies on\<close>

text \<open>
  A protocol that quotes intents: on an intent fit for it, at a time inside the unsigned epoch seconds, a quote
  is a validated record that the engine's own check accepts, or a failure the engine is prepared for.
\<close>

definition epoch_second :: "int \<Rightarrow> bool" where
  "epoch_second t \<longleftrightarrow> 0 \<le> t \<and> t \<le> UINT64_MAX"

locale quoting_protocol =
  fixes sha :: "bytes \<Rightarrow> string"
    and fit :: "roundtrip_intent \<Rightarrow> bool"
    and buy :: "roundtrip_intent \<Rightarrow> int \<Rightarrow> exn + protocol_quote"
    and sell :: "roundtrip_intent \<Rightarrow> int \<Rightarrow> int \<Rightarrow> exn + protocol_quote"
  assumes buy_outcome: "fit i \<Longrightarrow> epoch_second t \<Longrightarrow> protocol_outcome (buy i t)"
    and sell_outcome: "fit i \<Longrightarrow> epoch_second t \<Longrightarrow> protocol_outcome (sell i n t)"
    and buy_valid: "fit i \<Longrightarrow> buy i t = Inr q \<Longrightarrow> ProtocolQuote q = Inr q \<and> validate_buy_quote i q = Inr ()"
    and sell_valid: "fit i \<Longrightarrow> sell i n t = Inr q \<Longrightarrow> ProtocolQuote q = Inr q \<and> validate_sell_quote sha i n q = Inr ()"
begin

lemma checked_buy: "fit i \<Longrightarrow> bindE (buy i t) (\<lambda>q. bindE (validate_buy_quote i q) (\<lambda>_. Inr q)) = buy i t"
  using buy_valid by (cases "buy i t") auto

lemma checked_sell:
  "fit i \<Longrightarrow> bindE (sell i n t) (\<lambda>q. bindE (validate_sell_quote sha i n q) (\<lambda>_. Inr q)) = sell i n t"
  using sell_valid by (cases "sell i n t") auto

lemma no_mismatch:
  assumes "fit i" "epoch_second t"
  shows "bindE (buy i t) (\<lambda>q. bindE (validate_buy_quote i q) (\<lambda>_. Inr q)) \<noteq> Inl (SnipingEngineError e)"
    and "bindE (sell i n t) (\<lambda>q. bindE (validate_sell_quote sha i n q) (\<lambda>_. Inr q)) \<noteq> Inl (SnipingEngineError e)"
  using buy_outcome[OF assms] sell_outcome[OF assms, of n] checked_buy[OF assms(1)] checked_sell[OF assms(1)]
  by (auto simp: protocol_outcome_def)

lemma buy_bounded:
  assumes "fit i" "buy i t = Inr q"
  shows "0 < pq_amount_out q" "pq_amount_in q \<le> ri_gross_buy_budget_atomic i"
    "pq_amount_in q = pq_venue_input q + pq_protocol_fee q + pq_creator_fee q"
  using buy_valid[OF assms] ProtocolQuote_amounts(2)[of q] ProtocolQuote_buy(1)[of q]
  by (auto simp: validate_buy_quote_def)

end

text \<open>An intent and a runtime state whose quotes the engines can rely on.\<close>

definition pump_fit ::
  "(bytes \<Rightarrow> string) \<Rightarrow> pump_runtime \<Rightarrow> curves \<Rightarrow> roundtrip_intent \<Rightarrow> bool" where
  "pump_fit sha rt curves i \<longleftrightarrow> PumpFeeProfile (pu_fee_profile rt) = Inr (pu_fee_profile rt) \<and> curves_ok rt curves
     \<and> ri_asset_id i \<noteq> ri_quote_asset_id i \<and> venue_fits (ri_venue_id i)
     \<and> ri_execution_mode i \<in> {EXOGENOUS_REPLAY, EXOGENOUS_VIRTUAL_SETTLEMENT}
     \<and> (\<forall>x. ContentDigest (sha x) = Inr (sha x))"

lemma intent_curve_Inr:
  assumes "intent_curve rt curves i = Inr r" and "curves_ok rt curves"
  shows "curve_ok rt r"
  using assms curves_ok_get by (auto simp: intent_curve_def split: if_splits)

lemma intent_curve_outcome: "(\<And>r. intent_curve rt curves i = Inr r \<Longrightarrow> protocol_outcome (f r)) \<Longrightarrow>
    protocol_outcome (bindE (intent_curve rt curves i) f)"
  by (cases "intent_curve rt curves i")
    (auto simp: intent_curve_def require_curve_def bindE_eq_Inl protocol_outcome_def split: option.splits if_splits)

lemma quote_buy_state_contract:
  assumes "PumpCurveStateV1 s = Inr s" and fit: "pump_fit sha rt curves i"
  shows "epoch_second t \<Longrightarrow> protocol_outcome (quote_buy_state rt i s t)"
    and "quote_buy_state rt i s t = Inr q \<Longrightarrow> ProtocolQuote q = Inr q \<and> validate_buy_quote i q = Inr ()"
proof -
  have p: "PumpFeeProfile (pu_fee_profile rt) = Inr (pu_fee_profile rt)"
    and i: "ri_asset_id i \<noteq> ri_quote_asset_id i" "venue_fits (ri_venue_id i)"
    using fit by (simp_all add: pump_fit_def)
  show "protocol_outcome (quote_buy_state rt i s t)" if "epoch_second t"
    unfolding quote_buy_state_def
  proof (rule mapped_outcome)
    show "quote_error_typed (buy_quote s (ri_gross_buy_budget_atomic i) (pu_fee_profile rt) t)"
      by (rule buy_quote_typed[OF assms(1) p]) (use that in \<open>simp_all add: epoch_second_def\<close>)
  next
    fix q assume "buy_quote s (ri_gross_buy_budget_atomic i) (pu_fee_profile rt) t = Inr q"
    then show "protocol_outcome (buy_contract i q)"
      using buy_contract_ok[OF _ p i] by (metis protocol_outcome_intros(2))
  qed
  show "ProtocolQuote q = Inr q \<and> validate_buy_quote i q = Inr ()" if "quote_buy_state rt i s t = Inr q"
    using that buy_contract_ok[OF _ p i] unfolding quote_buy_state_def bindE_eq_Inr raise_mapped_Inr
    by (metis sum.inject(2))
qed

lemma policies_exist:
  "\<exists>p. sell_liquidity_policy_of EXOGENOUS_REPLAY = Inr p"
  "\<exists>p. sell_liquidity_policy_of EXOGENOUS_VIRTUAL_SETTLEMENT = Inr p"
  by (simp_all add: sell_liquidity_policy_of_def PumpSellLiquidityPolicy_def)

lemma quote_sell_state_contract:
  assumes "PumpCurveStateV1 s = Inr s" and fit: "pump_fit sha rt curves i"
  shows "epoch_second t \<Longrightarrow> protocol_outcome (quote_sell_state sha rt i s n t)"
    and "quote_sell_state sha rt i s n t = Inr q \<Longrightarrow> ProtocolQuote q = Inr q \<and> validate_sell_quote sha i n q = Inr ()"
proof -
  have p: "PumpFeeProfile (pu_fee_profile rt) = Inr (pu_fee_profile rt)"
    and i: "ri_asset_id i \<noteq> ri_quote_asset_id i" "venue_fits (ri_venue_id i)"
    and sha: "\<And>x. ContentDigest (sha x) = Inr (sha x)"
    using fit by (simp_all add: pump_fit_def)
  obtain policy where policy: "sell_liquidity_policy_of (ri_execution_mode i) = Inr policy"
    using fit policies_exist by (auto simp: pump_fit_def)
  have ok: "\<exists>pq. sell_contract sha i q = Inr pq \<and> ProtocolQuote pq = Inr pq \<and> validate_sell_quote sha i n pq = Inr ()"
    if "sell_quote s n (pu_fee_profile rt) t policy = Inr q" for q
    by (rule sell_contract_ok[OF that policy p assms(1) i sha])
  show "protocol_outcome (quote_sell_state sha rt i s n t)" if "epoch_second t"
    unfolding quote_sell_state_def policy bindE_Inr
  proof (rule mapped_outcome)
    show "quote_error_typed (sell_quote s n (pu_fee_profile rt) t policy)"
      by (rule sell_quote_typed[OF assms(1) p]) (use that in \<open>simp_all add: epoch_second_def\<close>)
  next
    fix q assume "sell_quote s n (pu_fee_profile rt) t policy = Inr q"
    from ok[OF this] show "protocol_outcome (sell_contract sha i q)" by (auto simp: protocol_outcome_intros)
  qed
  show "ProtocolQuote q = Inr q \<and> validate_sell_quote sha i n q = Inr ()" if "quote_sell_state sha rt i s n t = Inr q"
    using that ok unfolding quote_sell_state_def policy bindE_Inr bindE_eq_Inr raise_mapped_Inr by fastforce
qed

interpretation pump: quoting_protocol sha "pump_fit sha rt curves" "pump_quote_buy rt curves"
  "pump_quote_sell sha rt curves" for sha rt curves
proof unfold_locales
  fix i t n q
  assume fit: "pump_fit sha rt curves i"
  then have state: "PumpCurveStateV1 (uc_state r) = Inr (uc_state r)" if "intent_curve rt curves i = Inr r" for r
    using intent_curve_Inr[OF that] by (simp add: pump_fit_def curve_ok_def known_curve_def)
  note buy = quote_buy_state_contract[OF state fit] and sell = quote_sell_state_contract[OF state fit]
  show "protocol_outcome (pump_quote_buy rt curves i t)" if "epoch_second t"
    unfolding pump_quote_buy_def by (rule intent_curve_outcome) (rule buy(1)[OF _ that])
  show "protocol_outcome (pump_quote_sell sha rt curves i n t)" if "epoch_second t"
    unfolding pump_quote_sell_def by (rule intent_curve_outcome) (rule sell(1)[OF _ that])
  show "ProtocolQuote q = Inr q \<and> validate_buy_quote i q = Inr ()" if "pump_quote_buy rt curves i t = Inr q"
    using that buy(2) by (auto simp: pump_quote_buy_def)
  show "ProtocolQuote q = Inr q \<and> validate_sell_quote sha i n q = Inr ()" if "pump_quote_sell sha rt curves i n t = Inr q"
    using that sell(2) by (auto simp: pump_quote_sell_def)
qed

section \<open>Copy groups\<close>

fun event_trades :: "canonical_event \<Rightarrow> venue_trade_event list" where
  "event_trades (Venue_Trade_Event t) = [t]"
| "event_trades e = []"

text \<open>The trades of a group that sold the quote asset: the purchases a copied wallet may have made.\<close>

definition source_buys :: "pump_runtime \<Rightarrow> canonical_event list \<Rightarrow> venue_trade_event list" where
  "source_buys rt events = filter (\<lambda>t. vt_sold_asset_id t = pu_quote_asset_id rt) (concat (map event_trades events))"

definition signal_of_trade :: "venue_trade_event \<Rightarrow> copy_signal \<Rightarrow> bool" where
  "signal_of_trade t s \<longleftrightarrow> (\<exists>p. decode_copybuy_trade_payload (vt_protocol_payload t) = Inr p
     \<and> copy_signal_of t (cy_signing_wallet p) = Inr s)"

lemma project_copy_event_signals:
  assumes "project_copy_event rt (es, ss) e = Inr (es', ss')"
  shows "\<exists>new. ss' = ss @ new \<and> list_all2 signal_of_trade (source_buys rt [e]) new
    \<and> (\<exists>e'. es' = es @ [e'] \<and> event_envelope_of e' = event_envelope_of e)"
  using assms
  by (cases e) (auto simp: project_copy_event_def source_buys_def signal_of_trade_def VenueTradeEvent_def Let_def
      split: if_splits)

lemma project_copy_group_signals:
  assumes "foldE (project_copy_event rt) (es, ss) events = Inr (es', ss')"
  shows "\<exists>new. ss' = ss @ new \<and> list_all2 signal_of_trade (source_buys rt events) new"
  using assms
proof (induction events arbitrary: es ss)
  case (Cons e events)
  then obtain es1 ss1 where s: "project_copy_event rt (es, ss) e = Inr (es1, ss1)"
      "foldE (project_copy_event rt) (es1, ss1) events = Inr (es', ss')" by auto
  have split: "source_buys rt (e # events) = source_buys rt [e] @ source_buys rt events"
    by (simp add: source_buys_def)
  from project_copy_event_signals[OF s(1)] Cons.IH[OF s(2)] show ?case
    unfolding split by (metis append.assoc list_all2_appendI)
qed (simp add: source_buys_def)

lemma historical_group_start:
  assumes "apply_historical_group rt curves events time = Inr (launches, curves')"
  shows "0 \<le> time" "foldE (reduce_event rt time) ([], curves) events = Inr (launches, curves')"
  using assms by (auto simp: apply_historical_group_def split: list.splits if_splits)

section \<open>A sample venue\<close>

definition pump_sample_sha :: "bytes \<Rightarrow> string" where
  "pump_sample_sha = (\<lambda>_. replicate 64 (CHR ''0''))"

definition pump_sample_runtime :: pump_runtime where
  "pump_sample_runtime = \<lparr>pu_quote_asset_id = ''SOL'', pu_fee_profile = sample_fees, pu_protocol_version = ''v1'',
     pu_bundle_id = ''b''\<rparr>"

definition pump_sample_payload :: bytes where
  "pump_sample_payload = utf8 (render (state_document sample_curve))"

definition pump_sample_envelope :: event_envelope where
  "pump_sample_envelope = sample_envelope\<lparr>ee_protocol := ''pumpfun'', ee_protocol_version := ''v1''\<rparr>"

definition pump_sample_launch :: token_launch_event where
  "pump_sample_launch = \<lparr>tl_envelope = pump_sample_envelope, tl_asset_id = ''MINT'', tl_developer_id = ''dev'',
     tl_creation_user_id = ''user'', tl_venue_id = ''VENUE'', tl_quote_asset_id = ''SOL'',
     tl_protocol_payload_schema = PUMPFUN_LAUNCH_PAYLOAD_SCHEMA_ID, tl_protocol_payload = pump_sample_payload,
     tl_decimals = None\<rparr>"

definition pump_sample_record :: curve_record where
  "pump_sample_record = \<lparr>uc_asset_id = ''MINT'', uc_quote_asset_id = ''SOL'', uc_state = sample_curve,
     uc_last_active = Some sample_curve, uc_last_active_at = Some 15\<rparr>"

definition pump_sample_curves :: curves where
  "pump_sample_curves = [(''VENUE'', pump_sample_record)]"

definition pump_sample_intent :: roundtrip_intent where
  "pump_sample_intent = \<lparr>ri_roundtrip_id = ''r'', ri_target_event_id = ''e'',
     ri_target_position = ee_position sample_envelope, ri_asset_id = ''MINT'', ri_developer_id = ''dev'',
     ri_creation_user_id = ''user'', ri_venue_id = ''VENUE'', ri_quote_asset_id = ''SOL'',
     ri_gross_buy_budget_atomic = 1000, ri_buy_slippage_bps = 0, ri_sell_slippage_bps = 0,
     ri_sell_delay_transactions = 1, ri_created_boundary_ordinal = 0, ri_buy_delay_transactions = 500,
     ri_sell_decision_delay_ns = 2000000000, ri_execution_mode = EXOGENOUS_VIRTUAL_SETTLEMENT\<rparr>"

lemma sample_known: "known_curve sample_curve" "pc_lifecycle sample_curve = CURVE_ACTIVE" "pc_mode sample_curve = MODE_CASHBACK"
  by (simp_all add: known_curve_def sample_curve_valid require_known_state_def) (simp_all add: sample_curve_def)

lemma sample_decoded:
  "decode_state pump_sample_payload = Inr sample_curve" 
  "\<exists>p. decode_primitive_state_payload pump_sample_payload = Inr p"
proof -
  show "decode_state pump_sample_payload = Inr sample_curve"
    by (simp add: decode_state_iff sample_curve_valid encode_state_def pump_sample_payload_def
        canonical_json_bytes_Inr state_items(4,5))
  then show "\<exists>p. decode_primitive_state_payload pump_sample_payload = Inr p"
    using sample_known by (simp add: decode_primitive_state_payload_def known_curve_def primitive_lifecycle_codes_def
        primitive_mode_codes_def)
qed

lemma sample_curves_ok: "curves_ok pump_sample_runtime pump_sample_curves"
  using sample_known
  by (simp add: curves_ok_def pump_sample_curves_def curve_ok_def pump_sample_record_def pump_sample_runtime_def)

lemma sample_fields:
  "uc_state pump_sample_record = sample_curve" "pu_fee_profile pump_sample_runtime = sample_fees"
  "ri_gross_buy_budget_atomic pump_sample_intent = 1000" "pu_quote_asset_id pump_sample_runtime = ''SOL''"
  by (simp_all add: pump_sample_record_def pump_sample_runtime_def pump_sample_intent_def)

lemma sample_intent_curve:
  "intent_curve pump_sample_runtime pump_sample_curves pump_sample_intent = Inr pump_sample_record"
  by (simp add: intent_curve_def require_curve_def pump_sample_curves_def pump_sample_intent_def
      pump_sample_record_def pump_sample_runtime_def)

lemma sample_pump_fit: "pump_fit pump_sample_sha pump_sample_runtime pump_sample_curves pump_sample_intent"
proof -
  have "ContentDigest (pump_sample_sha x) = Inr (pump_sample_sha x)" for x
    by (simp add: pump_sample_sha_def ContentDigest_def Identifier_def sha256_re_def digest_hex_def sha256_prefix_def
        strip_def is_space_def char_code_def is_lower_hex_def Let_def list_all_iff list_ex_iff)
  moreover have "venue_fits ''VENUE''"
    by (simp add: venue_fits_def Identifier_def strip_def is_space_def char_code_def)
  moreover have "pu_fee_profile pump_sample_runtime = sample_fees" "ri_venue_id pump_sample_intent = ''VENUE''"
    "ri_asset_id pump_sample_intent = ''MINT''" "ri_quote_asset_id pump_sample_intent = ''SOL''"
    "ri_execution_mode pump_sample_intent = EXOGENOUS_VIRTUAL_SETTLEMENT"
    by (simp_all add: pump_sample_runtime_def pump_sample_intent_def)
  ultimately show ?thesis using sample_curves_ok sample_fees_valid by (simp add: pump_fit_def)
qed

lemma sample_group:
  "apply_historical_group pump_sample_runtime [] [Token_Launch_Event pump_sample_launch] 15
    = Inr ([launch_target_of pump_sample_launch], pump_sample_curves)"
proof -
  have "require_eligible_launch_state sample_curve = Inr ()"
    using sample_known by (simp add: require_eligible_launch_state_def known_curve_def)
  then show ?thesis
    by (simp add: apply_historical_group_def reduce_event_def reduce_launch_def sample_decoded(1)
        pump_sample_launch_def pump_sample_envelope_def sample_envelope_def pump_sample_runtime_def
        PUMPFUN_PROTOCOL_NAME_def pump_sample_curves_def pump_sample_record_def Let_def)
qed

definition pump_sample_wallet :: account_id where
  "pump_sample_wallet = ''11111111111111111111111111111111''"

definition pump_sample_copy_payload :: bytes where
  "pump_sample_copy_payload = utf8 (render (JObj
     (copy_document \<lparr>cy_signing_wallet = pump_sample_wallet, cy_state_after = sample_curve\<rparr>)))"

definition pump_sample_buy :: venue_trade_event where
  "pump_sample_buy = \<lparr>vt_envelope = pump_sample_envelope, vt_venue_id = ''VENUE'', vt_sold_asset_id = ''SOL'',
     vt_bought_asset_id = ''MINT'', vt_sold_amount_atomic = 5, vt_bought_amount_atomic = 7, vt_fee_components = [],
     vt_protocol_payload_schema = COPYBUY_TRADE_PAYLOAD_SCHEMA, vt_protocol_payload = pump_sample_copy_payload\<rparr>"

lemma sample_copy_payload:
  "decode_copybuy_trade_payload pump_sample_copy_payload
    = Inr \<lparr>cy_signing_wallet = pump_sample_wallet, cy_state_after = sample_curve\<rparr>"
proof -
  have "public_key pump_sample_wallet = Inr pump_sample_wallet"
    by (simp add: public_key_def base58_identifier_def strip_fixed_nul_def pump_sample_wallet_def nul_def strip_def
        is_space_def base58_alphabet_def base58_bytes_def base58_decode_def leading_ones_def Let_def)
  moreover have "Identifier pump_sample_wallet = Inr pump_sample_wallet"
    by (simp add: pump_sample_wallet_def Identifier_def strip_def is_space_def char_code_def)
  moreover have "json_plain (JObj (copy_document p))" "jnorm (JObj (copy_document p)) = JObj (copy_document p)" for p
    by (rule copy_document)+
  ultimately show ?thesis
    by (simp add: decode_copybuy_iff copybuy_payload_ok_def CopyBuyTradePayload_iff sample_curve_valid
        encode_copybuy_payload_eq canonical_json_bytes_Inr pump_sample_copy_payload_def del: jnorm.simps json_plain.simps render.simps)
qed

lemma sample_copy_group:
  "\<exists>s curves. pump_apply_copy_group pump_sample_runtime pump_sample_curves [Venue_Trade_Event pump_sample_buy] 16
      = Inr ([s], curves)"
proof -
  have known: "require_known_state sample_curve = Inr ()" using sample_known by (simp add: known_curve_def)
  have enc: "encode_state sample_curve = Inr pump_sample_payload" using sample_decoded(1) by (simp add: decode_state_iff)
  show ?thesis
    by (simp add: pump_apply_copy_group_def project_copy_event_def pump_sample_buy_def sample_copy_payload enc
        VenueTradeEvent_def pump_sample_runtime_def copy_signal_of_def CopyBuySignal_def pump_sample_envelope_def
        sample_envelope_def apply_historical_group_def reduce_event_def PUMPFUN_PROTOCOL_NAME_def
        reduce_trade_def require_curve_def pump_sample_curves_def pump_sample_record_def sample_decoded(1) known Let_def
        insert_commute)
qed

section \<open>Properties\<close>



text \<open>C15: Reducing a group keeps every curve well formed: known lifecycle and mode, reserves inside their bounds, the
  runtime's quote asset, and an ACTIVE last active state with its time, which is the current state while
  the curve is active. The launch targets are the protocol's launches of the group in order, each opens a venue
  that was not known, and no venue disappears.\<close>

theorem pump_group_reduces:
  assumes "curves_ok rt curves" and "apply_historical_group rt curves events time = Inr (launches, curves')"
  shows "curves_ok rt curves' \<and> launches = map launch_target_of (pump_launches events)
    \<and> dict_keys curves' = dict_keys curves @ map lu_venue_id launches
    \<and> list_all (\<lambda>l. lu_quote_asset_id l = pu_quote_asset_id rt) launches"
  using reduce_group_effect[OF historical_group_start(2)[OF assms(2)] assms(1) historical_group_start(1)[OF assms(2)]]
  by simp

theorem pump_group_reduces_witness:
  "curves_ok pump_sample_runtime pump_sample_curves \<and> dict_keys pump_sample_curves = [''VENUE'']"
  using pump_group_reduces[OF _ sample_group] by (simp add: curves_ok_def launch_target_of_def pump_sample_launch_def)

text \<open>C22: The optimised path agrees with the runtime. When an intent's curve and its last active state were decoded
  from payloads, the quotes, the account requirements and the valuation computed from the seven-integer states of
  the same payloads are those of the runtime, failures included.\<close>

theorem primitive_quotes_agree:
  assumes "intent_curve rt curves i = Inr r"
    and "decode_state bs = Inr (uc_state r)" and "decode_primitive_state_payload bs = Inr p"
    and "uc_last_active r = Some s" and "decode_state bs' = Inr s" and "decode_primitive_state_payload bs' = Inr p'"
  shows "quote_buy_from_primitive_state rt i p t = pump_quote_buy rt curves i t
    \<and> quote_sell_from_primitive_state sha rt i p n t = pump_quote_sell sha rt curves i n t
    \<and> account_requirements_from_primitive_state p = pump_account_requirements rt curves i
    \<and> valuation_quote_from_primitive_state sha rt i p (Some p') (uc_last_active_at r) n t
        = pump_valuation_quote sha rt curves i n t"
proof -
  have "state_from_primitive p = Inr (uc_state r)" "state_from_primitive p' = Inr s"
    using assms(2,3,5,6) by (metis decode_primitive Inr_inject)+
  with assms(1,4) show ?thesis
    by (simp add: quote_buy_from_primitive_state_def pump_quote_buy_def quote_sell_from_primitive_state_def
        pump_quote_sell_def account_requirements_from_primitive_state_def pump_account_requirements_def
        valuation_quote_from_primitive_state_def pump_valuation_quote_def split: option.splits)
qed

theorem primitive_quotes_agree_witness:
  "\<exists>p. decode_primitive_state_payload pump_sample_payload = Inr p
     \<and> quote_buy_from_primitive_state pump_sample_runtime pump_sample_intent p 15
         = pump_quote_buy pump_sample_runtime pump_sample_curves pump_sample_intent 15"
proof -
  obtain p where p: "decode_primitive_state_payload pump_sample_payload = Inr p" using sample_decoded(2) by blast
  have r: "decode_state pump_sample_payload = Inr (uc_state pump_sample_record)"
    "uc_last_active pump_sample_record = Some sample_curve"
    by (simp_all add: sample_decoded(1) pump_sample_record_def)
  from primitive_quotes_agree[OF sample_intent_curve r(1) p r(2) sample_decoded(1) p] p show ?thesis by blast
qed

text \<open>C40: A copy group emits one signal for each trade that sold the quote asset, in order, with the signer its payload
  names and the identity and position of the original event, and leaves the curves well formed.\<close>

theorem copy_signals_exact:
  assumes "curves_ok rt curves" and "pump_apply_copy_group rt curves events time = Inr (signals, curves')"
  shows "curves_ok rt curves'
    \<and> list_all2 (\<lambda>t s. \<exists>p. decode_copybuy_trade_payload (vt_protocol_payload t) = Inr p
        \<and> cs_signing_wallet s = cy_signing_wallet p \<and> cs_event_id s = ee_canonical_event_id (vt_envelope t)
        \<and> cs_position s = ee_position (vt_envelope t) \<and> cs_asset_id s = vt_bought_asset_id t
        \<and> CopyBuySignal s = Inr s) (source_buys rt events) signals"
proof -
  obtain es launches where run: "foldE (project_copy_event rt) ([], []) events = Inr (es, signals)"
      "apply_historical_group rt curves es time = Inr (launches, curves')"
    using assms(2) by (auto simp: pump_apply_copy_group_def)
  have "curves_ok rt curves'"
    using reduce_group_effect[OF historical_group_start(2)[OF run(2)] assms(1) historical_group_start(1)[OF run(2)]]
    by simp
  moreover have "list_all2 signal_of_trade (source_buys rt events) signals"
    using project_copy_group_signals[OF run(1)] by simp
  then have "list_all2 (\<lambda>t s. \<exists>p. decode_copybuy_trade_payload (vt_protocol_payload t) = Inr p
      \<and> cs_signing_wallet s = cy_signing_wallet p \<and> cs_event_id s = ee_canonical_event_id (vt_envelope t)
      \<and> cs_position s = ee_position (vt_envelope t) \<and> cs_asset_id s = vt_bought_asset_id t
      \<and> CopyBuySignal s = Inr s) (source_buys rt events) signals"
    by (rule list_all2_mono) (auto simp: signal_of_trade_def copy_signal_of_def CopyBuySignal_def split: if_splits)
  ultimately show ?thesis by blast
qed

theorem copy_signals_exact_witness:
  "\<exists>s curves. pump_apply_copy_group pump_sample_runtime pump_sample_curves [Venue_Trade_Event pump_sample_buy] 16
      = Inr ([s], curves) \<and> curves_ok pump_sample_runtime curves \<and> cs_signing_wallet s = pump_sample_wallet"
proof -
  obtain s curves where run: "pump_apply_copy_group pump_sample_runtime pump_sample_curves
      [Venue_Trade_Event pump_sample_buy] 16 = Inr ([s], curves)"
    using sample_copy_group by blast
  have "source_buys pump_sample_runtime [Venue_Trade_Event pump_sample_buy] = [pump_sample_buy]"
    by (simp add: source_buys_def sample_fields) (simp add: pump_sample_buy_def)
  with copy_signals_exact[OF sample_curves_ok run] sample_copy_payload run show ?thesis
    by (auto simp: pump_sample_buy_def)
qed

end
