(* ===== verification/Pump_Ports.thy ===== *)
theory Pump_Ports
  imports Pump_Runtime Sniping_Effects Copy_Execution
begin

text \<open>
  The Pump runtime in the protocol port of the two launchpad engines: the environments whose protocol functions are
  the runtime's, and what the engines' own quote checks then amount to.
\<close>

definition pump_sniping_env :: "pump_runtime \<Rightarrow> ('s, curves) sniping_env \<Rightarrow> ('s, curves) sniping_env" where
  "pump_sniping_env rt env = env\<lparr>sv_apply_group := apply_historical_group rt,
     sv_account_requirements := pump_account_requirements rt, sv_quote_buy := pump_quote_buy rt,
     sv_quote_sell := pump_quote_sell (sv_sha env) rt, sv_valuation_quote := pump_valuation_quote (sv_sha env) rt,
     sv_protocol_bundle_id := pu_bundle_id rt\<rparr>"

definition pump_copy_env :: "pump_runtime \<Rightarrow> ('s, curves) copy_env \<Rightarrow> ('s, curves) copy_env" where
  "pump_copy_env rt env = env\<lparr>cv_apply_group := pump_apply_copy_group rt,
     cv_current_price := pump_current_price rt,
     cv_account_requirements := (\<lambda>p i. pump_account_requirements rt p (shared_intent i)),
     cv_quote_buy := (\<lambda>p i. pump_quote_buy rt p (shared_intent i)),
     cv_quote_sell := (\<lambda>p i. pump_quote_sell (cv_sha env) rt p (shared_intent i)),
     cv_valuation_quote := (\<lambda>p i. pump_valuation_quote (cv_sha env) rt p (shared_intent i))\<rparr>"

lemma ProtocolQuote_again: "ProtocolQuote q = Inr q' \<Longrightarrow> ProtocolQuote q' = Inr q'"
  by (auto simp: ProtocolQuote_def split: if_splits)

text \<open>The hypothesis on the quote ports under which the sniping engine's guarantees are stated.\<close>

lemma pump_quotes_valid: "quotes_valid (pump_sniping_env rt env)"
proof -
  have "ProtocolQuote q = Inr q" if "buy_contract i b = Inr q" for i b q
    using that ProtocolQuote_again by (auto simp: buy_contract_def)
  moreover have "ProtocolQuote q = Inr q" if "sell_contract sha i b = Inr q" for sha i b q
    using that ProtocolQuote_again by (auto simp: sell_contract_def)
  ultimately show ?thesis
    by (auto simp: quotes_valid_def pump_sniping_env_def pump_quote_buy_def pump_quote_sell_def quote_buy_state_def
        quote_sell_state_def)
qed

text \<open>On an intent fit for the protocol the copy engine's check of a quote never refuses one.\<close>

lemma pump_copy_quotes:
  assumes "pump_fit (cv_sha env) rt p (shared_intent i)"
  shows "quoted_buy (pump_copy_env rt env) p i t = pump_quote_buy rt p (shared_intent i) t"
    and "quoted_sell (pump_copy_env rt env) p i n t = pump_quote_sell (cv_sha env) rt p (shared_intent i) n t"
  using pump.checked_buy[OF assms] pump.checked_sell[OF assms]
  by (simp_all add: quoted_buy_def quoted_sell_def pump_copy_env_def)

end
