(* ===== verification/Roundtrip_Codec.thy ===== *)
theory Roundtrip_Codec
  imports Roundtrips
begin

text \<open>
  Reading canonical round-trip results back (\<^verbatim>\<open>roundtrip_record_from_document\<close> of
  \<^verbatim>\<open>domain/roundtrips.py\<close>): the strict decoder of both stored schemas, with the final comparison of the
  decoded record's document against the input. Equality of documents ignores the order of keys, so it
  compares normal forms.
\<close>

section \<open>Typed reads\<close>

definition result_object :: "json \<Rightarrow> string \<Rightarrow> (string, json) dict res" where
  "result_object v field = (case v of JObj d \<Rightarrow> Inr d | _ \<Rightarrow> Inl (ValueError (field @ '' must be an object'')))"

definition result_string :: "json \<Rightarrow> string \<Rightarrow> string res" where
  "result_string v field = (case v of JStr s \<Rightarrow> Inr s | _ \<Rightarrow> Inl (ValueError (field @ '' must be a string'')))"

definition result_integer :: "json \<Rightarrow> string \<Rightarrow> int res" where
  "result_integer v field = (case v of JInt i \<Rightarrow> Inr i | _ \<Rightarrow> Inl (ValueError (field @ '' must be an integer'')))"

definition result_optional_integer :: "json \<Rightarrow> string \<Rightarrow> int option res" where
  "result_optional_integer v field =
     (case v of JNull \<Rightarrow> Inr None | _ \<Rightarrow> bindE (result_integer v field) (\<lambda>i. Inr (Some i)))"

definition result_boolean :: "json \<Rightarrow> string \<Rightarrow> bool res" where
  "result_boolean v field = (case v of JBool b \<Rightarrow> Inr b | _ \<Rightarrow> Inl (ValueError (field @ '' must be a boolean'')))"

text \<open>\<^verbatim>\<open>document[key]\<close>.\<close>

definition member_of :: "(string, json) dict \<Rightarrow> string \<Rightarrow> json res" where
  "member_of d key = (case dict_get d key of None \<Rightarrow> Inl (KeyError key) | Some v \<Rightarrow> Inr v)"

definition read_text :: "(string, json) dict \<Rightarrow> string \<Rightarrow> string \<Rightarrow> string res" where
  "read_text d key field = bindE (member_of d key) (\<lambda>v. result_string v field)"

definition read_number :: "(string, json) dict \<Rightarrow> string \<Rightarrow> string \<Rightarrow> int res" where
  "read_number d key field = bindE (member_of d key) (\<lambda>v. result_integer v field)"

definition read_optional :: "(string, json) dict \<Rightarrow> string \<Rightarrow> string \<Rightarrow> int option res" where
  "read_optional d key field = bindE (member_of d key) (\<lambda>v. result_optional_integer v field)"

section \<open>Parts of a record\<close>

definition position_from_document :: "json \<Rightarrow> string \<Rightarrow> string \<Rightarrow> chain_position res" where
  "position_from_document v network schema =
     bindE (result_object v ''chain position'') (\<lambda>d.
     if set (dict_keys d) \<noteq> {''block_ordinal'', ''boundary_ordinal'', ''event_index'', ''transaction_index''} then
       Inl (ValueError ''chain position schema is invalid'')
     else
       bindE (read_number d ''block_ordinal'' ''block ordinal'') (\<lambda>block.
       bindE (read_number d ''transaction_index'' ''transaction index'') (\<lambda>transaction.
       bindE (read_optional d ''event_index'' ''event index'') (\<lambda>event.
       bindE (ChainPosition network schema block transaction event) (\<lambda>p.
       bindE (read_number d ''boundary_ordinal'' ''boundary ordinal'') (\<lambda>boundary.
       if ordinal_of p \<noteq> boundary then
         Inl (ValueError ''chain position boundary ordinal is inconsistent'')
       else Inr p))))))"

definition leg_keys :: "string list" where
  "leg_keys = [''amount_in_atomic'', ''creator_fee_atomic'', ''decision_position'', ''failure_code'',
     ''landing_out_atomic'', ''landing_position'', ''minimum_out_atomic'', ''network_base_fee_atomic'',
     ''network_priority_fee_atomic'', ''protocol_fee_atomic'', ''reference_out_atomic'', ''side'',
     ''signed_slippage_atomic'']"

fun leg_object_name :: "leg_side \<Rightarrow> string" where
  "leg_object_name LEG_BUY = ''buy leg''"
| "leg_object_name LEG_SELL = ''sell leg''"

definition leg_from_document ::
  "(string, json) dict \<Rightarrow> string \<Rightarrow> string \<Rightarrow> leg_side \<Rightarrow> roundtrip_leg res" where
  "leg_from_document d network schema expected_side =
     bindE (read_text d ''side'' ''round-trip leg side'') (\<lambda>side.
     bindE (enum_of_value ''RoundTripLegSide'' leg_side_value [LEG_BUY, LEG_SELL] side) (\<lambda>side.
     if side \<noteq> expected_side then Inl (ValueError ''round-trip leg appears under the wrong side'')
     else
       bindE (member_of d ''landing_position'') (\<lambda>landing.
       bindE (bindE (member_of d ''decision_position'') (\<lambda>v. position_from_document v network schema)) (\<lambda>decision.
       bindE (if landing = JNull then Inr None
              else bindE (position_from_document landing network schema) (\<lambda>p. Inr (Some p))) (\<lambda>landed.
       bindE (read_optional d ''amount_in_atomic'' ''leg input amount'') (\<lambda>amount_in.
       bindE (read_number d ''reference_out_atomic'' ''reference output'') (\<lambda>reference_out.
       bindE (read_optional d ''landing_out_atomic'' ''landing output'') (\<lambda>landing_out.
       bindE (read_number d ''minimum_out_atomic'' ''minimum output'') (\<lambda>minimum_out.
       bindE (read_optional d ''signed_slippage_atomic'' ''signed slippage'') (\<lambda>slippage.
       bindE (read_number d ''protocol_fee_atomic'' ''protocol fee'') (\<lambda>protocol_fee.
       bindE (read_number d ''creator_fee_atomic'' ''creator fee'') (\<lambda>creator_fee.
       bindE (read_number d ''network_base_fee_atomic'' ''network base fee'') (\<lambda>base_fee.
       bindE (read_number d ''network_priority_fee_atomic'' ''network priority fee'') (\<lambda>priority_fee.
       bindE (bindE (member_of d ''failure_code'') (\<lambda>v. if v = JNull then Inr None
           else bindE (result_string v ''failure code'') (\<lambda>s. Inr (Some s)))) (\<lambda>failure.
       RoundTripLegRecord \<lparr>lg_side = side, lg_decision_position = decision, lg_landing_position = landed,
         lg_amount_in = amount_in, lg_reference_out = reference_out, lg_landing_out = landing_out,
         lg_minimum_out = minimum_out, lg_signed_slippage = slippage, lg_protocol_fee = protocol_fee,
         lg_creator_fee = creator_fee, lg_network_base_fee = base_fee, lg_network_priority_fee = priority_fee,
         lg_failure_code = failure\<rparr>)))))))))))))))"

definition optional_leg_from_document :: "json \<Rightarrow> string \<Rightarrow> string \<Rightarrow> leg_side \<Rightarrow> roundtrip_leg option res" where
  "optional_leg_from_document v network schema expected_side =
     (if v = JNull then Inr None
      else bindE (result_object v (leg_object_name expected_side)) (\<lambda>d.
        if set (dict_keys d) \<noteq> set leg_keys then Inl (ValueError ''round-trip leg schema is invalid'')
        else bindE (leg_from_document d network schema expected_side) (\<lambda>l. Inr (Some l))))"

definition optional_liquidity_from_document :: "json \<Rightarrow> quote_evidence option res" where
  "optional_liquidity_from_document v =
     (if v = JNull then Inr None
      else bindE (result_object v ''quote liquidity evidence'') (\<lambda>d.
        if set (dict_keys d) \<noteq> {''asset_id'', ''observed_available_output_atomic'', ''policy_id'',
            ''required_output_atomic'', ''synthetic_shortfall_atomic''} then
          Inl (ValueError ''quote liquidity evidence schema is invalid'')
        else
          bindE (read_text d ''policy_id'' ''liquidity policy ID'') (\<lambda>policy.
          bindE (bindE (read_text d ''asset_id'' ''liquidity asset ID'') Identifier) (\<lambda>asset.
          bindE (read_number d ''required_output_atomic'' ''required output'') (\<lambda>required.
          bindE (read_number d ''observed_available_output_atomic'' ''observed available output'') (\<lambda>observed.
          bindE (read_number d ''synthetic_shortfall_atomic'' ''synthetic shortfall'') (\<lambda>shortfall.
          bindE (QuoteLiquidityEvidenceRecord \<lparr>qe_policy_id = policy, qe_asset_id = asset,
            qe_required_output = required, qe_observed_output = observed, qe_synthetic_shortfall = shortfall\<rparr>) (\<lambda>e.
          if jnorm (evidence_document e) \<noteq> jnorm (JObj d) then
            Inl (ValueError ''quote liquidity evidence does not round-trip exactly'')
          else Inr (Some e)))))))))"

definition account_components_from_document :: "json \<Rightarrow> account_component list res" where
  "account_components_from_document v =
     (case v of JArr items \<Rightarrow> mapE account_component_from_document items
      | _ \<Rightarrow> Inl (ValueError ''account components must be an array''))"

section \<open>Records\<close>

definition legacy_roundtrip_keys :: "string list" where
  "legacy_roundtrip_keys =
     [''acquired_token_amount_atomic'', ''account_components'', ''account_profile_id'', ''asset_id'', ''buy'',
      ''cashback_receivable_atomic'', ''cooldown_consumed'', ''cooldown_until_ns'', ''creation_user_id'',
      ''developer_id'', ''economic_pnl_atomic'', ''mtm_cash_pnl_atomic'', ''mtm_liquidation_value_atomic'',
      ''mtm_status'', ''network_id'', ''position_schema_id'', ''quote_asset_id'', ''realized_cash_pnl_atomic'',
      ''roundtrip_id'', ''sell'', ''status'', ''target_event_id'', ''target_position'', ''target_time_ns'',
      ''venue_id'']"

definition v4_roundtrip_keys :: "string list" where
  "v4_roundtrip_keys = legacy_roundtrip_keys @ v4_only_fields"

definition roundtrip_statuses :: "roundtrip_status list" where
  "roundtrip_statuses = [COOLDOWN_SKIPPED, BUY_REFERENCE_REJECTED, BUY_PRE_SUBMIT_INSUFFICIENT_FUNDS,
     BUY_LANDED_FAILED, SELL_REFERENCE_UNAVAILABLE_OPEN, SELL_PRE_SUBMIT_INSUFFICIENT_FUNDS_OPEN,
     SELL_LANDED_FAILED_OPEN, OPEN_AT_HORIZON, CLOSED]"

definition v4_execution_mode :: "(string, json) dict \<Rightarrow> bool \<Rightarrow> execution_mode res" where
  "v4_execution_mode d legacy =
     (if legacy then Inr EXOGENOUS_REPLAY
      else bindE (read_text d ''execution_mode'' ''execution mode'')
        (enum_of_value ''ExecutionMode'' execution_mode_value
          [EXOGENOUS_REPLAY, EXOGENOUS_VIRTUAL_SETTLEMENT, SHADOW_STATE_REPLAY, CONDITIONAL_PROTOCOL_REPLAY]))"

definition v4_liquidity :: "(string, json) dict \<Rightarrow> bool \<Rightarrow> string \<Rightarrow> quote_evidence option res" where
  "v4_liquidity d legacy key =
     (if legacy then Inr None else bindE (member_of d key) optional_liquidity_from_document)"

definition v4_funding :: "(string, json) dict \<Rightarrow> bool \<Rightarrow> string \<Rightarrow> string \<Rightarrow> int res" where
  "v4_funding d legacy key field = (if legacy then Inr 0 else read_number d key field)"

text \<open>The constructor call of the decoder, its arguments in the order of the call.\<close>

definition roundtrip_fields_from_document :: "(string, json) dict \<Rightarrow> string \<Rightarrow> roundtrip_record res" where
  "roundtrip_fields_from_document d schema_id =
     (let legacy = (schema_id = ROUNDTRIP_RESULT_SCHEMA_V3) in
     bindE (bindE (read_text d ''network_id'' ''network ID'') NetworkId) (\<lambda>network.
     bindE (bindE (read_text d ''position_schema_id'' ''position schema ID'') PositionSchemaId) (\<lambda>schema.
     bindE (bindE (read_text d ''roundtrip_id'' ''roundtrip ID'') ContentDigest) (\<lambda>roundtrip.
     bindE (bindE (read_text d ''target_event_id'' ''target event ID'') ContentDigest) (\<lambda>target_event.
     bindE (bindE (member_of d ''target_position'') (\<lambda>v. position_from_document v network schema)) (\<lambda>target.
     bindE (read_number d ''target_time_ns'' ''target time'') (\<lambda>time.
     bindE (bindE (read_text d ''developer_id'' ''developer ID'') Identifier) (\<lambda>developer.
     bindE (bindE (read_text d ''creation_user_id'' ''creation user ID'') Identifier) (\<lambda>creation_user.
     bindE (bindE (read_text d ''asset_id'' ''asset ID'') Identifier) (\<lambda>asset.
     bindE (bindE (read_text d ''quote_asset_id'' ''quote asset ID'') Identifier) (\<lambda>quote_asset.
     bindE (bindE (read_text d ''venue_id'' ''venue ID'') Identifier) (\<lambda>venue.
     bindE (bindE (member_of d ''cooldown_consumed'') (\<lambda>v. result_boolean v ''cooldown consumed'')) (\<lambda>consumed.
     bindE (read_optional d ''cooldown_until_ns'' ''cooldown expiry'') (\<lambda>until.
     bindE (bindE (read_text d ''status'' ''round-trip status'')
       (enum_of_value ''RoundTripStatus'' roundtrip_status_value roundtrip_statuses)) (\<lambda>status.
     bindE (bindE (member_of d ''buy'') (\<lambda>v. optional_leg_from_document v network schema LEG_BUY)) (\<lambda>buy.
     bindE (bindE (member_of d ''sell'') (\<lambda>v. optional_leg_from_document v network schema LEG_SELL)) (\<lambda>sell.
     bindE (read_number d ''acquired_token_amount_atomic'' ''acquired token amount'') (\<lambda>acquired.
     bindE (read_number d ''cashback_receivable_atomic'' ''cashback receivable'') (\<lambda>cashback.
     bindE (read_optional d ''realized_cash_pnl_atomic'' ''realized cash PnL'') (\<lambda>realized.
     bindE (bindE (read_text d ''mtm_status'' ''MTM status'')
       (enum_of_value ''MtmStatus'' mtm_status_value [NOT_APPLICABLE, EXECUTABLE, STALE_PRE_MIGRATION, UNAVAILABLE]))
       (\<lambda>mtm_status.
     bindE (read_optional d ''mtm_liquidation_value_atomic'' ''MTM liquidation value'') (\<lambda>mtm_value.
     bindE (read_optional d ''mtm_cash_pnl_atomic'' ''MTM cash PnL'') (\<lambda>mtm_pnl.
     bindE (read_optional d ''economic_pnl_atomic'' ''economic PnL'') (\<lambda>economic.
     bindE (read_text d ''account_profile_id'' ''account profile ID'') (\<lambda>profile.
     bindE (bindE (member_of d ''account_components'') account_components_from_document) (\<lambda>components.
     bindE (v4_execution_mode d legacy) (\<lambda>mode.
     bindE (v4_liquidity d legacy ''sell_reference_liquidity'') (\<lambda>sell_reference.
     bindE (v4_liquidity d legacy ''sell_landing_liquidity'') (\<lambda>sell_landing.
     bindE (v4_liquidity d legacy ''mtm_liquidity'') (\<lambda>mtm_liquidity.
     bindE (v4_funding d legacy ''settled_venue_funded_atomic'' ''settled venue funding'') (\<lambda>venue_funded.
     bindE (v4_funding d legacy ''settled_synthetic_funded_atomic'' ''settled synthetic funding'') (\<lambda>synthetic_funded.
     RoundTripRecord \<lparr>rt_roundtrip_id = roundtrip, rt_network_id = network, rt_position_schema_id = schema,
       rt_target_event_id = target_event, rt_target_position = target, rt_target_time_ns = time,
       rt_developer_id = developer, rt_creation_user_id = creation_user, rt_asset_id = asset,
       rt_quote_asset_id = quote_asset, rt_venue_id = venue, rt_cooldown_consumed = consumed,
       rt_cooldown_until_ns = until, rt_status = status, rt_buy = buy, rt_sell = sell, rt_acquired = acquired,
       rt_cashback = cashback, rt_realized_pnl = realized, rt_mtm_status = mtm_status, rt_mtm_value = mtm_value,
       rt_mtm_pnl = mtm_pnl, rt_economic_pnl = economic, rt_account_profile_id = profile,
       rt_account_components = components, rt_execution_mode = mode,
       rt_sell_reference_liquidity = sell_reference, rt_sell_landing_liquidity = sell_landing,
       rt_mtm_liquidity = mtm_liquidity, rt_settled_venue = venue_funded,
       rt_settled_synthetic = synthetic_funded, rt_source_schema_id = schema_id\<rparr>))))))))))))))))))))))))))))))))"

definition roundtrip_record_from_document :: "json \<Rightarrow> string \<Rightarrow> roundtrip_record res" where
  "roundtrip_record_from_document v schema_id =
     bindE (result_object v ''round-trip record'') (\<lambda>d.
     if schema_id \<notin> {ROUNDTRIP_RESULT_SCHEMA_V3, ROUNDTRIP_RESULT_SCHEMA_V4} then
       Inl (ValueError ''unsupported round-trip record schema'')
     else if set (dict_keys d) \<noteq> set (if schema_id = ROUNDTRIP_RESULT_SCHEMA_V4 then v4_roundtrip_keys
         else legacy_roundtrip_keys) then
       Inl (ValueError ''round-trip record schema is invalid'')
     else
       bindE (roundtrip_fields_from_document d schema_id) (\<lambda>r.
       bindE (if schema_id = ROUNDTRIP_RESULT_SCHEMA_V4 then validate_roundtrip_record_v4 r else Inr ()) (\<lambda>_.
       if jnorm (JObj (roundtrip_document r)) \<noteq> jnorm (JObj d) then
         Inl (ValueError ''round-trip record does not round-trip exactly'')
       else Inr r)))"

section \<open>Lemmas\<close>

lemma optional_int_read [simp]: "result_optional_integer (optional_int v) n = Inr v"
  by (cases v) (simp_all add: result_optional_integer_def optional_int_def result_integer_def)

lemma position_read:
  assumes "valid_position p" and "cp_network_id p = network" "cp_position_schema_id p = schema"
  shows "position_from_document (position_document p) network schema = Inr p"
  using assms by (simp add: position_from_document_def position_document_def result_object_def read_number_def
      read_optional_def member_of_def result_integer_def valid_position_def)

text \<open>What a leg must satisfy to be stored: it was constructed, on valid positions of the record's chain.\<close>

definition leg_stored :: "string \<Rightarrow> string \<Rightarrow> leg_side \<Rightarrow> roundtrip_leg \<Rightarrow> bool" where
  "leg_stored network schema side l \<longleftrightarrow> RoundTripLegRecord l = Inr l \<and> lg_side l = side
     \<and> list_all (\<lambda>p. valid_position p \<and> cp_network_id p = network \<and> cp_position_schema_id p = schema)
         (lg_decision_position l # (case lg_landing_position l of None \<Rightarrow> [] | Some p \<Rightarrow> [p]))"

lemma leg_reads:
  fixes l
  defines "d \<equiv> json_items (leg_document l)"
  shows "read_text d ''side'' n = Inr (leg_side_value (lg_side l))"
    "member_of d ''landing_position'' = Inr (case lg_landing_position l of None \<Rightarrow> JNull | Some p \<Rightarrow> position_document p)"
    "member_of d ''decision_position'' = Inr (position_document (lg_decision_position l))"
    "read_optional d ''amount_in_atomic'' n = Inr (lg_amount_in l)"
    "read_number d ''reference_out_atomic'' n = Inr (lg_reference_out l)"
    "read_optional d ''landing_out_atomic'' n = Inr (lg_landing_out l)"
    "read_number d ''minimum_out_atomic'' n = Inr (lg_minimum_out l)"
    "read_optional d ''signed_slippage_atomic'' n = Inr (lg_signed_slippage l)"
    "read_number d ''protocol_fee_atomic'' n = Inr (lg_protocol_fee l)"
    "read_number d ''creator_fee_atomic'' n = Inr (lg_creator_fee l)"
    "read_number d ''network_base_fee_atomic'' n = Inr (lg_network_base_fee l)"
    "read_number d ''network_priority_fee_atomic'' n = Inr (lg_network_priority_fee l)"
    "member_of d ''failure_code'' = Inr (case lg_failure_code l of None \<Rightarrow> JNull | Some c \<Rightarrow> JStr c)"
  by (simp_all add: d_def leg_document_def read_text_def read_number_def read_optional_def member_of_def
      result_string_def result_integer_def)

lemma leg_eta:
  "\<lparr>lg_side = lg_side l, lg_decision_position = lg_decision_position l, lg_landing_position = lg_landing_position l,
     lg_amount_in = lg_amount_in l, lg_reference_out = lg_reference_out l, lg_landing_out = lg_landing_out l,
     lg_minimum_out = lg_minimum_out l, lg_signed_slippage = lg_signed_slippage l, lg_protocol_fee = lg_protocol_fee l,
     lg_creator_fee = lg_creator_fee l, lg_network_base_fee = lg_network_base_fee l,
     lg_network_priority_fee = lg_network_priority_fee l, lg_failure_code = lg_failure_code l\<rparr> = l"
  by (cases l) simp

lemma evidence_eta:
  "\<lparr>qe_policy_id = qe_policy_id e, qe_asset_id = qe_asset_id e, qe_required_output = qe_required_output e,
     qe_observed_output = qe_observed_output e, qe_synthetic_shortfall = qe_synthetic_shortfall e\<rparr> = e"
  by (cases e) simp

lemma evidence_read:
  assumes "QuoteLiquidityEvidenceRecord e = Inr e" and "Identifier (qe_asset_id e) = Inr (qe_asset_id e)"
  shows "optional_liquidity_from_document (evidence_document e) = Inr (Some e)"
proof -
  let ?d = "json_items (evidence_document e)"
  have reads: "read_text ?d ''policy_id'' n = Inr (qe_policy_id e)" "read_text ?d ''asset_id'' n = Inr (qe_asset_id e)"
    "read_number ?d ''required_output_atomic'' n = Inr (qe_required_output e)"
    "read_number ?d ''observed_available_output_atomic'' n = Inr (qe_observed_output e)"
    "read_number ?d ''synthetic_shortfall_atomic'' n = Inr (qe_synthetic_shortfall e)" for n
    by (simp_all add: evidence_document_def read_text_def read_number_def member_of_def result_string_def
        result_integer_def)
  have d: "evidence_document e \<noteq> JNull" "\<And>n. result_object (evidence_document e) n = Inr ?d"
    "set (dict_keys ?d) = {''asset_id'', ''observed_available_output_atomic'', ''policy_id'',
       ''required_output_atomic'', ''synthetic_shortfall_atomic''}" "JObj ?d = evidence_document e"
    by (auto simp: evidence_document_def result_object_def)
  show ?thesis
    unfolding optional_liquidity_from_document_def d(2) bindE_Inr d(3) reads assms evidence_eta d(4)
    using d(1) by simp
qed

lemma leg_read:
  assumes "leg_stored network schema side l"
  shows "optional_leg_from_document (leg_document l) network schema side = Inr (Some l)"
proof -
  let ?d = "json_items (leg_document l)"
  have doc: "result_object (leg_document l) n = Inr ?d" "set (dict_keys ?d) = set leg_keys" for n
    by (simp_all add: leg_document_def leg_keys_def result_object_def)
  have side: "enum_of_value n leg_side_value [LEG_BUY, LEG_SELL] (leg_side_value s) = Inr s" for n s
    by (cases s) (simp_all add: enum_of_value_def)
  have made: "RoundTripLegRecord l = Inr l" "lg_side l = side" using assms by (simp_all add: leg_stored_def)
  have decision: "position_from_document (position_document (lg_decision_position l)) network schema
      = Inr (lg_decision_position l)"
    using assms by (intro position_read) (simp_all add: leg_stored_def)
  have landing: "(if (case lg_landing_position l of None \<Rightarrow> JNull | Some p \<Rightarrow> position_document p) = JNull then Inr None
      else bindE (position_from_document (case lg_landing_position l of None \<Rightarrow> JNull | Some p \<Rightarrow> position_document p)
        network schema) (\<lambda>p. Inr (Some p))) = Inr (lg_landing_position l)"
    using assms position_read
    by (cases "lg_landing_position l") (simp_all add: leg_stored_def, simp add: position_document_def)
  have failure: "(if (case lg_failure_code l of None \<Rightarrow> JNull | Some c \<Rightarrow> JStr c) = JNull then Inr None
      else bindE (result_string (case lg_failure_code l of None \<Rightarrow> JNull | Some c \<Rightarrow> JStr c) n) (\<lambda>s. Inr (Some s)))
      = Inr (lg_failure_code l)" for n
    by (cases "lg_failure_code l") (simp_all add: result_string_def)
  have leg: "leg_from_document ?d network schema side = Inr l"
    unfolding leg_from_document_def leg_reads bindE_Inr side decision landing failure leg_eta made(1)
    by (simp only: made(2) HOL.simp_thms if_False)
  have "leg_document l \<noteq> JNull" by (simp add: leg_document_def)
  then show ?thesis
    unfolding optional_leg_from_document_def doc bindE_Inr leg by simp
qed

lemma optional_leg_read:
  assumes "\<And>l. leg = Some l \<Longrightarrow> leg_stored network schema side l"
  shows "optional_leg_from_document (optional_leg leg) network schema side = Inr leg"
  using assms leg_read by (cases leg) (simp_all add: optional_leg_def optional_leg_from_document_def)

definition evidence_stored :: "quote_evidence \<Rightarrow> bool" where
  "evidence_stored e \<longleftrightarrow> QuoteLiquidityEvidenceRecord e = Inr e \<and> Identifier (qe_asset_id e) = Inr (qe_asset_id e)"

lemma optional_evidence_read:
  assumes "\<And>e. q = Some e \<Longrightarrow> evidence_stored e"
  shows "optional_liquidity_from_document (optional_evidence q) = Inr q"
  using assms evidence_read
  by (cases q) (simp_all add: optional_evidence_def optional_liquidity_from_document_def evidence_stored_def)

definition component_stored :: "account_component \<Rightarrow> bool" where
  "component_stored c \<longleftrightarrow> AccountComponentRecord c = Inr c \<and> Identifier (ac_asset_id c) = Inr (ac_asset_id c)
     \<and> ContentDigest (ac_attribution_id c) = Inr (ac_attribution_id c)"

text \<open>A component as it is read back: its digest without the optional prefix.\<close>

definition bare_component :: "account_component \<Rightarrow> account_component" where
  "bare_component c = c\<lparr>ac_attribution_id := digest_hex (ac_attribution_id c)\<rparr>"

lemma components_read:
  assumes "list_all component_stored cs"
  shows "mapE account_component_from_document (map (\<lambda>c. JObj (component_document c)) cs) = Inr (map bare_component cs)"
  using assms
  by (induction cs) (simp_all add: component_stored_def bare_component_def account_component_roundtrip)

definition full_roundtrip_document :: "roundtrip_record \<Rightarrow> (string, json) dict" where
  "full_roundtrip_document r =
     [(''acquired_token_amount_atomic'', JInt (rt_acquired r)),
        (''account_components'', JArr (map (\<lambda>c. JObj (component_document c)) (rt_account_components r))),
        (''account_profile_id'', JStr (rt_account_profile_id r)),
        (''asset_id'', JStr (rt_asset_id r)),
        (''buy'', optional_leg (rt_buy r)),
        (''cashback_receivable_atomic'', JInt (rt_cashback r)),
        (''cooldown_consumed'', JBool (rt_cooldown_consumed r)),
        (''cooldown_until_ns'', optional_int (rt_cooldown_until_ns r)),
        (''creation_user_id'', JStr (rt_creation_user_id r)),
        (''developer_id'', JStr (rt_developer_id r)),
        (''economic_pnl_atomic'', optional_int (rt_economic_pnl r)),
        (''execution_mode'', JStr (execution_mode_value (rt_execution_mode r))),
        (''mtm_liquidity'', optional_evidence (rt_mtm_liquidity r)),
        (''mtm_cash_pnl_atomic'', optional_int (rt_mtm_pnl r)),
        (''mtm_liquidation_value_atomic'', optional_int (rt_mtm_value r)),
        (''mtm_status'', JStr (mtm_status_value (rt_mtm_status r))),
        (''network_id'', JStr (rt_network_id r)),
        (''position_schema_id'', JStr (rt_position_schema_id r)),
        (''quote_asset_id'', JStr (rt_quote_asset_id r)),
        (''realized_cash_pnl_atomic'', optional_int (rt_realized_pnl r)),
        (''roundtrip_id'', JStr (digest_hex (rt_roundtrip_id r))),
        (''sell'', optional_leg (rt_sell r)),
        (''sell_landing_liquidity'', optional_evidence (rt_sell_landing_liquidity r)),
        (''sell_reference_liquidity'', optional_evidence (rt_sell_reference_liquidity r)),
        (''settled_synthetic_funded_atomic'', JInt (rt_settled_synthetic r)),
        (''settled_venue_funded_atomic'', JInt (rt_settled_venue r)),
        (''status'', JStr (roundtrip_status_value (rt_status r))),
        (''target_event_id'', JStr (digest_hex (rt_target_event_id r))),
        (''target_position'', position_document (rt_target_position r)),
        (''target_time_ns'', JInt (rt_target_time_ns r)),
        (''venue_id'', JStr (rt_venue_id r))]"

lemma roundtrip_document_full:
  "roundtrip_document r = (if rt_source_schema_id r = ROUNDTRIP_RESULT_SCHEMA_V3
     then filter (\<lambda>(k, _). k \<notin> set v4_only_fields) (full_roundtrip_document r) else full_roundtrip_document r)"
  by (simp only: roundtrip_document_def full_roundtrip_document_def Let_def)

lemma map_of_filter_keys:
  "map_of (filter (\<lambda>(k, _). k \<notin> S) xs) k = (if k \<in> S then None else map_of xs k)"
  by (induction xs) auto

lemma roundtrip_member:
  "k \<notin> set v4_only_fields \<or> rt_source_schema_id r \<noteq> ROUNDTRIP_RESULT_SCHEMA_V3 \<Longrightarrow>
   dict_get (roundtrip_document r) k = map_of (full_roundtrip_document r) k"
  by (auto simp: roundtrip_document_full map_of_filter_keys)

lemma roundtrip_reads:
  fixes r
  defines "d \<equiv> roundtrip_document r"
  shows "member_of d ''network_id'' = Inr (JStr (rt_network_id r))"
    "member_of d ''position_schema_id'' = Inr (JStr (rt_position_schema_id r))"
    "member_of d ''roundtrip_id'' = Inr (JStr (digest_hex (rt_roundtrip_id r)))"
    "member_of d ''target_event_id'' = Inr (JStr (digest_hex (rt_target_event_id r)))"
    "member_of d ''target_position'' = Inr (position_document (rt_target_position r))"
    "member_of d ''target_time_ns'' = Inr (JInt (rt_target_time_ns r))"
    "member_of d ''developer_id'' = Inr (JStr (rt_developer_id r))"
    "member_of d ''creation_user_id'' = Inr (JStr (rt_creation_user_id r))"
    "member_of d ''asset_id'' = Inr (JStr (rt_asset_id r))"
    "member_of d ''quote_asset_id'' = Inr (JStr (rt_quote_asset_id r))"
    "member_of d ''venue_id'' = Inr (JStr (rt_venue_id r))"
    "member_of d ''cooldown_consumed'' = Inr (JBool (rt_cooldown_consumed r))"
    "member_of d ''cooldown_until_ns'' = Inr (optional_int (rt_cooldown_until_ns r))"
    "member_of d ''status'' = Inr (JStr (roundtrip_status_value (rt_status r)))"
    "member_of d ''buy'' = Inr (optional_leg (rt_buy r))"
    "member_of d ''sell'' = Inr (optional_leg (rt_sell r))"
    "member_of d ''acquired_token_amount_atomic'' = Inr (JInt (rt_acquired r))"
    "member_of d ''cashback_receivable_atomic'' = Inr (JInt (rt_cashback r))"
    "member_of d ''realized_cash_pnl_atomic'' = Inr (optional_int (rt_realized_pnl r))"
    "member_of d ''mtm_status'' = Inr (JStr (mtm_status_value (rt_mtm_status r)))"
    "member_of d ''mtm_liquidation_value_atomic'' = Inr (optional_int (rt_mtm_value r))"
    "member_of d ''mtm_cash_pnl_atomic'' = Inr (optional_int (rt_mtm_pnl r))"
    "member_of d ''economic_pnl_atomic'' = Inr (optional_int (rt_economic_pnl r))"
    "member_of d ''account_profile_id'' = Inr (JStr (rt_account_profile_id r))"
    "member_of d ''account_components''
       = Inr (JArr (map (\<lambda>c. JObj (component_document c)) (rt_account_components r)))"
  by (simp_all add: d_def member_of_def roundtrip_member v4_only_fields_def full_roundtrip_document_def)

lemma v4_reads:
  fixes r
  defines "d \<equiv> roundtrip_document r"
  assumes "rt_source_schema_id r \<noteq> ROUNDTRIP_RESULT_SCHEMA_V3"
  shows "member_of d ''execution_mode'' = Inr (JStr (execution_mode_value (rt_execution_mode r)))"
    "member_of d ''mtm_liquidity'' = Inr (optional_evidence (rt_mtm_liquidity r))"
    "member_of d ''sell_landing_liquidity'' = Inr (optional_evidence (rt_sell_landing_liquidity r))"
    "member_of d ''sell_reference_liquidity'' = Inr (optional_evidence (rt_sell_reference_liquidity r))"
    "member_of d ''settled_synthetic_funded_atomic'' = Inr (JInt (rt_settled_synthetic r))"
    "member_of d ''settled_venue_funded_atomic'' = Inr (JInt (rt_settled_venue r))"
  using assms by (simp_all add: d_def member_of_def roundtrip_member full_roundtrip_document_def)

lemma roundtrip_keys:
  "rt_source_schema_id r = ROUNDTRIP_RESULT_SCHEMA_V3 \<Longrightarrow>
     set (dict_keys (roundtrip_document r)) = set legacy_roundtrip_keys"
  "rt_source_schema_id r \<noteq> ROUNDTRIP_RESULT_SCHEMA_V3 \<Longrightarrow>
     set (dict_keys (roundtrip_document r)) = set v4_roundtrip_keys"
  by (auto simp: roundtrip_document_full full_roundtrip_document_def legacy_roundtrip_keys_def
      v4_roundtrip_keys_def v4_only_fields_def)

lemma enum_of_status: "enum_of_value n roundtrip_status_value roundtrip_statuses (roundtrip_status_value m) = Inr m"
  by (cases m) (simp_all add: enum_of_value_def roundtrip_statuses_def)

lemma enum_of_mtm:
  "enum_of_value n mtm_status_value [NOT_APPLICABLE, EXECUTABLE, STALE_PRE_MIGRATION, UNAVAILABLE]
     (mtm_status_value m) = Inr m"
  by (cases m) (simp_all add: enum_of_value_def)

lemma enum_of_mode:
  "enum_of_value n execution_mode_value [EXOGENOUS_REPLAY, EXOGENOUS_VIRTUAL_SETTLEMENT, SHADOW_STATE_REPLAY,
     CONDITIONAL_PROTOCOL_REPLAY] (execution_mode_value m) = Inr m"
  by (cases m) (simp_all add: enum_of_value_def)

section \<open>Stored records\<close>

definition bare_record :: "roundtrip_record \<Rightarrow> roundtrip_record" where
  "bare_record r = r\<lparr>rt_roundtrip_id := digest_hex (rt_roundtrip_id r),
     rt_target_event_id := digest_hex (rt_target_event_id r),
     rt_account_components := map bare_component (rt_account_components r)\<rparr>"

text \<open>A record as the engines build it: every value in it was constructed, and a record of the current schema
  passed its completeness checks.\<close>

definition roundtrip_stored :: "roundtrip_record \<Rightarrow> bool" where
  "roundtrip_stored r \<longleftrightarrow> RoundTripRecord r = Inr r
     \<and> NetworkId (rt_network_id r) = Inr (rt_network_id r)
     \<and> PositionSchemaId (rt_position_schema_id r) = Inr (rt_position_schema_id r)
     \<and> list_all (\<lambda>d. ContentDigest d = Inr d) [rt_roundtrip_id r, rt_target_event_id r]
     \<and> list_all (\<lambda>i. Identifier i = Inr i)
         [rt_developer_id r, rt_creation_user_id r, rt_asset_id r, rt_quote_asset_id r, rt_venue_id r]
     \<and> valid_position (rt_target_position r)
     \<and> (case rt_buy r of None \<Rightarrow> True
        | Some l \<Rightarrow> leg_stored (rt_network_id r) (rt_position_schema_id r) LEG_BUY l)
     \<and> (case rt_sell r of None \<Rightarrow> True
        | Some l \<Rightarrow> leg_stored (rt_network_id r) (rt_position_schema_id r) LEG_SELL l)
     \<and> list_all component_stored (rt_account_components r) \<and> list_all evidence_stored (liquidity_values r)
     \<and> (rt_source_schema_id r = ROUNDTRIP_RESULT_SCHEMA_V4 \<longrightarrow> validate_roundtrip_record_v4 r = Inr ())"

lemma bare_component_same:
  "component_stored c \<Longrightarrow> component_document (bare_component c) = component_document c"
  "component_stored c \<Longrightarrow> account_component_key (bare_component c) = account_component_key c"
  "ac_scope (bare_component c) = ac_scope c" "ac_lifecycle (bare_component c) = ac_lifecycle c"
  by (simp_all add: component_stored_def bare_component_def component_document_def account_component_key_def
      digest_hex_plain)

lemma bare_components:
  assumes "list_all component_stored cs"
  shows "map account_component_key (map bare_component cs) = map account_component_key cs"
    "map (\<lambda>c. JObj (component_document c)) (map bare_component cs) = map (\<lambda>c. JObj (component_document c)) cs"
  using assms by (induction cs) (simp_all add: bare_component_same)

lemma bare_filters:
  "length (filter (\<lambda>c. ac_scope c = sc) (map bare_component cs)) = length (filter (\<lambda>c. ac_scope c = sc) cs)"
  "list_ex (\<lambda>c. ac_lifecycle c \<in> S) (filter (\<lambda>c. ac_scope c = sc) (map bare_component cs))
     = list_ex (\<lambda>c. ac_lifecycle c \<in> S) (filter (\<lambda>c. ac_scope c = sc) cs)"
  "list_ex (\<lambda>c. ac_lifecycle c = lf) (filter (\<lambda>c. ac_scope c = sc) (map bare_component cs))
     = list_ex (\<lambda>c. ac_lifecycle c = lf) (filter (\<lambda>c. ac_scope c = sc) cs)"
  by (induction cs) (simp_all add: bare_component_same)

lemma bare_fields:
  "rt_network_id (bare_record r) = rt_network_id r" "rt_position_schema_id (bare_record r) = rt_position_schema_id r"
  "rt_target_position (bare_record r) = rt_target_position r" "rt_target_time_ns (bare_record r) = rt_target_time_ns r"
  "rt_developer_id (bare_record r) = rt_developer_id r" "rt_creation_user_id (bare_record r) = rt_creation_user_id r"
  "rt_asset_id (bare_record r) = rt_asset_id r" "rt_quote_asset_id (bare_record r) = rt_quote_asset_id r"
  "rt_venue_id (bare_record r) = rt_venue_id r" "rt_cooldown_consumed (bare_record r) = rt_cooldown_consumed r"
  "rt_cooldown_until_ns (bare_record r) = rt_cooldown_until_ns r" "rt_status (bare_record r) = rt_status r"
  "rt_buy (bare_record r) = rt_buy r" "rt_sell (bare_record r) = rt_sell r"
  "rt_acquired (bare_record r) = rt_acquired r" "rt_cashback (bare_record r) = rt_cashback r"
  "rt_realized_pnl (bare_record r) = rt_realized_pnl r" "rt_mtm_status (bare_record r) = rt_mtm_status r"
  "rt_mtm_value (bare_record r) = rt_mtm_value r" "rt_mtm_pnl (bare_record r) = rt_mtm_pnl r"
  "rt_economic_pnl (bare_record r) = rt_economic_pnl r" "rt_account_profile_id (bare_record r) = rt_account_profile_id r"
  "rt_execution_mode (bare_record r) = rt_execution_mode r"
  "rt_sell_reference_liquidity (bare_record r) = rt_sell_reference_liquidity r"
  "rt_sell_landing_liquidity (bare_record r) = rt_sell_landing_liquidity r"
  "rt_mtm_liquidity (bare_record r) = rt_mtm_liquidity r" "rt_settled_venue (bare_record r) = rt_settled_venue r"
  "rt_settled_synthetic (bare_record r) = rt_settled_synthetic r"
  "rt_source_schema_id (bare_record r) = rt_source_schema_id r"
  "rt_account_components (bare_record r) = map bare_component (rt_account_components r)"
  "rt_roundtrip_id (bare_record r) = digest_hex (rt_roundtrip_id r)"
  "rt_target_event_id (bare_record r) = digest_hex (rt_target_event_id r)"
  by (simp_all add: bare_record_def)

lemma bare_checks:
  "liquidity_values (bare_record r) = liquidity_values r" "successful_sell (bare_record r) = successful_sell r"
  "validate_roundtrip_components (bare_record r) = validate_roundtrip_components r"
  "validate_settled_liquidity (bare_record r) = validate_settled_liquidity r"
  "validate_legacy_v3_projection (bare_record r) = validate_legacy_v3_projection r"
  "validate_v4_sell (bare_record r) = validate_v4_sell r" "validate_v4_closed (bare_record r) = validate_v4_closed r"
  "validate_roundtrip_record_v4 (bare_record r) = validate_roundtrip_record_v4 r"
proof -
  show l: "liquidity_values (bare_record r) = liquidity_values r"
    by (simp only: liquidity_values_def bare_fields)
  show s: "successful_sell (bare_record r) = successful_sell r" by (simp only: successful_sell_def bare_fields)
  show "validate_roundtrip_components (bare_record r) = validate_roundtrip_components r"
    by (simp only: validate_roundtrip_components_def bare_fields bare_filters Let_def map_is_Nil_conv)
  show "validate_settled_liquidity (bare_record r) = validate_settled_liquidity r"
    by (simp only: validate_settled_liquidity_def bare_fields s)
  show "validate_legacy_v3_projection (bare_record r) = validate_legacy_v3_projection r"
    by (simp only: validate_legacy_v3_projection_def bare_fields l)
  show v: "validate_v4_sell (bare_record r) = validate_v4_sell r" "validate_v4_closed (bare_record r) = validate_v4_closed r"
    by (simp_all only: validate_v4_sell_def validate_v4_closed_def bare_fields)
  show "validate_roundtrip_record_v4 (bare_record r) = validate_roundtrip_record_v4 r"
    by (simp only: validate_roundtrip_record_v4_def bare_fields l v)
qed

lemma RoundTripRecord_same: "RoundTripRecord r = Inr r' \<Longrightarrow> r' = r"
  by (auto simp: RoundTripRecord_def Let_def split: if_splits)

lemma bare_constructed:
  assumes "RoundTripRecord r = Inr r" and "list_all component_stored (rt_account_components r)"
  shows "RoundTripRecord (bare_record r) = Inr (bare_record r)"
proof -
  have "(RoundTripRecord (bare_record r) = Inr (bare_record r)) = (RoundTripRecord r = Inr r)"
    unfolding RoundTripRecord_def bare_fields bare_checks bare_components(1)[OF assms(2)]
    by (auto simp: Let_def)
  with assms(1) show ?thesis by simp
qed

lemma bare_document:
  assumes "roundtrip_stored r"
  shows "roundtrip_document (bare_record r) = roundtrip_document r"
proof -
  have "list_all component_stored (rt_account_components r)" using assms by (simp add: roundtrip_stored_def)
  then have "full_roundtrip_document (bare_record r) = full_roundtrip_document r"
    using assms unfolding full_roundtrip_document_def bare_fields
    by (simp add: bare_components(2)[simplified] digest_hex_plain roundtrip_stored_def)
  then show ?thesis by (simp only: roundtrip_document_full bare_fields)
qed

lemma bare_record_expand:
  "\<lparr>rt_roundtrip_id = digest_hex (rt_roundtrip_id r), rt_network_id = rt_network_id r,
     rt_position_schema_id = rt_position_schema_id r, rt_target_event_id = digest_hex (rt_target_event_id r),
     rt_target_position = rt_target_position r, rt_target_time_ns = rt_target_time_ns r,
     rt_developer_id = rt_developer_id r, rt_creation_user_id = rt_creation_user_id r, rt_asset_id = rt_asset_id r,
     rt_quote_asset_id = rt_quote_asset_id r, rt_venue_id = rt_venue_id r,
     rt_cooldown_consumed = rt_cooldown_consumed r, rt_cooldown_until_ns = rt_cooldown_until_ns r,
     rt_status = rt_status r, rt_buy = rt_buy r, rt_sell = rt_sell r, rt_acquired = rt_acquired r,
     rt_cashback = rt_cashback r, rt_realized_pnl = rt_realized_pnl r, rt_mtm_status = rt_mtm_status r,
     rt_mtm_value = rt_mtm_value r, rt_mtm_pnl = rt_mtm_pnl r, rt_economic_pnl = rt_economic_pnl r,
     rt_account_profile_id = rt_account_profile_id r,
     rt_account_components = map bare_component (rt_account_components r),
     rt_execution_mode = rt_execution_mode r, rt_sell_reference_liquidity = rt_sell_reference_liquidity r,
     rt_sell_landing_liquidity = rt_sell_landing_liquidity r, rt_mtm_liquidity = rt_mtm_liquidity r,
     rt_settled_venue = rt_settled_venue r, rt_settled_synthetic = rt_settled_synthetic r,
     rt_source_schema_id = rt_source_schema_id r\<rparr> = bare_record r"
  by (cases r) (simp add: bare_record_def)

lemma legacy_values:
  assumes "RoundTripRecord r = Inr r" and "rt_source_schema_id r = ROUNDTRIP_RESULT_SCHEMA_V3"
  shows "rt_execution_mode r = EXOGENOUS_REPLAY" "rt_sell_reference_liquidity r = None"
    "rt_sell_landing_liquidity r = None" "rt_mtm_liquidity r = None" "rt_settled_venue r = 0" "rt_settled_synthetic r = 0"
proof -
  have "validate_legacy_v3_projection r = Inr ()"
    using assms by (auto simp: RoundTripRecord_def Let_def split: if_splits)
  then show "rt_execution_mode r = EXOGENOUS_REPLAY" "rt_sell_reference_liquidity r = None"
    "rt_sell_landing_liquidity r = None" "rt_mtm_liquidity r = None" "rt_settled_venue r = 0" "rt_settled_synthetic r = 0"
    by (auto simp: validate_legacy_v3_projection_def liquidity_values_def option_list_def
        split: if_splits option.splits)
qed

lemma v4_parts:
  fixes r
  defines "d \<equiv> roundtrip_document r" and "legacy \<equiv> rt_source_schema_id r = ROUNDTRIP_RESULT_SCHEMA_V3"
  assumes "roundtrip_stored r"
  shows "v4_execution_mode d legacy = Inr (rt_execution_mode r)"
    "v4_liquidity d legacy ''sell_reference_liquidity'' = Inr (rt_sell_reference_liquidity r)"
    "v4_liquidity d legacy ''sell_landing_liquidity'' = Inr (rt_sell_landing_liquidity r)"
    "v4_liquidity d legacy ''mtm_liquidity'' = Inr (rt_mtm_liquidity r)"
    "v4_funding d legacy ''settled_venue_funded_atomic'' n = Inr (rt_settled_venue r)"
    "v4_funding d legacy ''settled_synthetic_funded_atomic'' n = Inr (rt_settled_synthetic r)"
proof -
  have made: "RoundTripRecord r = Inr r" and ev: "list_all evidence_stored (liquidity_values r)"
    using assms(3) by (simp_all add: roundtrip_stored_def)
  have "optional_liquidity_from_document (optional_evidence (rt_sell_reference_liquidity r)) = Inr (rt_sell_reference_liquidity r)"
    "optional_liquidity_from_document (optional_evidence (rt_sell_landing_liquidity r)) = Inr (rt_sell_landing_liquidity r)"
    "optional_liquidity_from_document (optional_evidence (rt_mtm_liquidity r)) = Inr (rt_mtm_liquidity r)"
    using ev by (auto intro!: optional_evidence_read simp: liquidity_values_def option_list_def list_all_iff)
  note reads = this
  show "v4_execution_mode d legacy = Inr (rt_execution_mode r)"
    "v4_liquidity d legacy ''sell_reference_liquidity'' = Inr (rt_sell_reference_liquidity r)"
    "v4_liquidity d legacy ''sell_landing_liquidity'' = Inr (rt_sell_landing_liquidity r)"
    "v4_liquidity d legacy ''mtm_liquidity'' = Inr (rt_mtm_liquidity r)"
    "v4_funding d legacy ''settled_venue_funded_atomic'' n = Inr (rt_settled_venue r)"
    "v4_funding d legacy ''settled_synthetic_funded_atomic'' n = Inr (rt_settled_synthetic r)"
    using made
    by (cases "rt_source_schema_id r = ROUNDTRIP_RESULT_SCHEMA_V3";
        simp add: d_def legacy_def v4_execution_mode_def v4_liquidity_def v4_funding_def legacy_values v4_reads
          read_text_def read_number_def result_string_def result_integer_def enum_of_mode reads)+
qed

lemma fields_read:
  assumes "roundtrip_stored r"
  shows "roundtrip_fields_from_document (roundtrip_document r) (rt_source_schema_id r) = Inr (bare_record r)"
proof -
  let ?d = "roundtrip_document r"
  have texts: "read_text ?d ''network_id'' n = Inr (rt_network_id r)"
    "read_text ?d ''position_schema_id'' n = Inr (rt_position_schema_id r)"
    "read_text ?d ''roundtrip_id'' n = Inr (digest_hex (rt_roundtrip_id r))"
    "read_text ?d ''target_event_id'' n = Inr (digest_hex (rt_target_event_id r))"
    "read_text ?d ''developer_id'' n = Inr (rt_developer_id r)"
    "read_text ?d ''creation_user_id'' n = Inr (rt_creation_user_id r)"
    "read_text ?d ''asset_id'' n = Inr (rt_asset_id r)" "read_text ?d ''quote_asset_id'' n = Inr (rt_quote_asset_id r)"
    "read_text ?d ''venue_id'' n = Inr (rt_venue_id r)"
    "read_text ?d ''status'' n = Inr (roundtrip_status_value (rt_status r))"
    "read_text ?d ''mtm_status'' n = Inr (mtm_status_value (rt_mtm_status r))"
    "read_text ?d ''account_profile_id'' n = Inr (rt_account_profile_id r)" for n
    by (simp_all add: read_text_def roundtrip_reads result_string_def)
  have numbers: "read_number ?d ''target_time_ns'' n = Inr (rt_target_time_ns r)"
    "read_number ?d ''acquired_token_amount_atomic'' n = Inr (rt_acquired r)"
    "read_number ?d ''cashback_receivable_atomic'' n = Inr (rt_cashback r)"
    "read_optional ?d ''cooldown_until_ns'' n = Inr (rt_cooldown_until_ns r)"
    "read_optional ?d ''realized_cash_pnl_atomic'' n = Inr (rt_realized_pnl r)"
    "read_optional ?d ''mtm_liquidation_value_atomic'' n = Inr (rt_mtm_value r)"
    "read_optional ?d ''mtm_cash_pnl_atomic'' n = Inr (rt_mtm_pnl r)"
    "read_optional ?d ''economic_pnl_atomic'' n = Inr (rt_economic_pnl r)"
    "result_boolean (JBool (rt_cooldown_consumed r)) n = Inr (rt_cooldown_consumed r)" for n
    by (simp_all add: read_number_def read_optional_def roundtrip_reads result_integer_def result_boolean_def)
  have made: "RoundTripRecord r = Inr r" "list_all component_stored (rt_account_components r)"
    and chain: "NetworkId (rt_network_id r) = Inr (rt_network_id r)"
      "PositionSchemaId (rt_position_schema_id r) = Inr (rt_position_schema_id r)"
    and ids: "Identifier (rt_developer_id r) = Inr (rt_developer_id r)"
      "Identifier (rt_creation_user_id r) = Inr (rt_creation_user_id r)" "Identifier (rt_asset_id r) = Inr (rt_asset_id r)"
      "Identifier (rt_quote_asset_id r) = Inr (rt_quote_asset_id r)" "Identifier (rt_venue_id r) = Inr (rt_venue_id r)"
    using assms by (simp_all add: roundtrip_stored_def)
  have digests: "ContentDigest (digest_hex (rt_roundtrip_id r)) = Inr (digest_hex (rt_roundtrip_id r))"
    "ContentDigest (digest_hex (rt_target_event_id r)) = Inr (digest_hex (rt_target_event_id r))"
    using assms by (simp_all add: roundtrip_stored_def digest_hex_plain)
  have "cp_network_id (rt_target_position r) = rt_network_id r"
    "cp_position_schema_id (rt_target_position r) = rt_position_schema_id r"
    using made(1) by (auto simp: RoundTripRecord_def split: if_splits)
  then have target: "position_from_document (position_document (rt_target_position r)) (rt_network_id r)
      (rt_position_schema_id r) = Inr (rt_target_position r)"
    using assms by (intro position_read) (simp_all add: roundtrip_stored_def)
  have legs: "optional_leg_from_document (optional_leg (rt_buy r)) (rt_network_id r) (rt_position_schema_id r) LEG_BUY
      = Inr (rt_buy r)"
    "optional_leg_from_document (optional_leg (rt_sell r)) (rt_network_id r) (rt_position_schema_id r) LEG_SELL
      = Inr (rt_sell r)"
    using assms by (auto intro!: optional_leg_read simp: roundtrip_stored_def)
  have components: "account_components_from_document (JArr (map (\<lambda>c. JObj (component_document c)) (rt_account_components r)))
      = Inr (map bare_component (rt_account_components r))"
    by (simp add: account_components_from_document_def components_read[OF made(2)])
  show ?thesis
    unfolding roundtrip_fields_from_document_def Let_def texts bindE_Inr chain digests roundtrip_reads target numbers
      ids enum_of_status legs enum_of_mtm components v4_parts[OF assms] bare_record_expand
    by (rule bare_constructed[OF made])
qed

lemma fields_made:
  assumes "roundtrip_fields_from_document d schema_id = Inr x"
  shows "RoundTripRecord x = Inr x" "rt_source_schema_id x = schema_id"
proof -
  obtain r where r: "RoundTripRecord r = Inr x" "rt_source_schema_id r = schema_id"
    using assms by (auto simp: roundtrip_fields_from_document_def Let_def bindE_eq_Inr)
  have "x = r" by (rule RoundTripRecord_same[OF r(1)])
  with r show "RoundTripRecord x = Inr x" "rt_source_schema_id x = schema_id" by simp_all
qed

section \<open>Properties\<close>

text \<open>C23: the decoder of stored round trips is strict and exact. Every record the engines build is read back from its
  own document under its own schema, its digests without the optional prefix; and whatever the decoder accepts
  is a constructed record of the schema asked for, complete if that schema is the current one, whose document is the
  input up to the order of keys.\<close>

theorem roundtrip_codec_exact:
  "(roundtrip_stored r \<longrightarrow>
      roundtrip_record_from_document (JObj (roundtrip_document r)) (rt_source_schema_id r) = Inr (bare_record r))
   \<and> (roundtrip_record_from_document v schema_id = Inr x \<longrightarrow>
      RoundTripRecord x = Inr x \<and> rt_source_schema_id x = schema_id
      \<and> (schema_id = ROUNDTRIP_RESULT_SCHEMA_V4 \<longrightarrow> validate_roundtrip_record_v4 x = Inr ())
      \<and> jnorm (JObj (roundtrip_document x)) = jnorm v)"
proof (intro conjI impI)
  assume r: "roundtrip_stored r"
  have schema: "rt_source_schema_id r \<in> {ROUNDTRIP_RESULT_SCHEMA_V3, ROUNDTRIP_RESULT_SCHEMA_V4}"
    using r by (auto simp: roundtrip_stored_def RoundTripRecord_def split: if_splits)
  moreover have "ROUNDTRIP_RESULT_SCHEMA_V3 \<noteq> ROUNDTRIP_RESULT_SCHEMA_V4"
    by (simp add: ROUNDTRIP_RESULT_SCHEMA_V3_def ROUNDTRIP_RESULT_SCHEMA_V4_def)
  ultimately show "roundtrip_record_from_document (JObj (roundtrip_document r)) (rt_source_schema_id r) = Inr (bare_record r)"
    using r roundtrip_keys[of r] fields_read[OF r] bare_document[OF r]
    by (auto simp: roundtrip_record_from_document_def result_object_def bare_checks roundtrip_stored_def)
next
  assume "roundtrip_record_from_document v schema_id = Inr x"
  then obtain d where d: "v = JObj d" "roundtrip_fields_from_document d schema_id = Inr x"
    "(if schema_id = ROUNDTRIP_RESULT_SCHEMA_V4 then validate_roundtrip_record_v4 x else Inr ()) = Inr ()"
    "jnorm (JObj (roundtrip_document x)) = jnorm (JObj d)"
    by (auto simp: roundtrip_record_from_document_def result_object_def bindE_eq_Inr split: json.splits if_splits)
  then show "RoundTripRecord x = Inr x" "rt_source_schema_id x = schema_id"
    "schema_id = ROUNDTRIP_RESULT_SCHEMA_V4 \<Longrightarrow> validate_roundtrip_record_v4 x = Inr ()"
    "jnorm (JObj (roundtrip_document x)) = jnorm v"
    using fields_made[OF d(2)] by simp_all
qed

section \<open>A closed round trip\<close>

definition codec_position :: "int \<Rightarrow> int option \<Rightarrow> chain_position" where
  "codec_position i e = \<lparr>cp_network_id = ''chain:g0'', cp_position_schema_id = BLOCK32_TRANSACTION32_POSITION_SCHEMA_ID,
     cp_block_ordinal = 1, cp_transaction_index = i, cp_event_index = e\<rparr>"

definition codec_leg :: "leg_side \<Rightarrow> int \<Rightarrow> roundtrip_leg" where
  "codec_leg side i = \<lparr>lg_side = side, lg_decision_position = codec_position i (Some 0),
     lg_landing_position = Some (codec_position (i + 1) None), lg_amount_in = Some 100, lg_reference_out = 90,
     lg_landing_out = Some 88, lg_minimum_out = 80, lg_signed_slippage = Some (- 2), lg_protocol_fee = 1,
     lg_creator_fee = 1, lg_network_base_fee = 5, lg_network_priority_fee = 2, lg_failure_code = None\<rparr>"

definition codec_evidence :: "int \<Rightarrow> quote_evidence" where
  "codec_evidence n = \<lparr>qe_policy_id = ''real-reserve-capped-v1'', qe_asset_id = ''SOL'', qe_required_output = n,
     qe_observed_output = 100, qe_synthetic_shortfall = 0\<rparr>"

definition codec_record :: roundtrip_record where
  "codec_record = \<lparr>rt_roundtrip_id = sha256_prefix @ replicate 64 CHR ''a'', rt_network_id = ''chain:g0'',
     rt_position_schema_id = BLOCK32_TRANSACTION32_POSITION_SCHEMA_ID,
     rt_target_event_id = replicate 64 CHR ''a'', rt_target_position = codec_position 0 (Some 0),
     rt_target_time_ns = 7, rt_developer_id = ''D'', rt_creation_user_id = ''U'', rt_asset_id = ''M1'',
     rt_quote_asset_id = ''SOL'', rt_venue_id = ''V'', rt_cooldown_consumed = True, rt_cooldown_until_ns = Some 9,
     rt_status = CLOSED, rt_buy = Some (codec_leg LEG_BUY 0), rt_sell = Some (codec_leg LEG_SELL 4),
     rt_acquired = 88, rt_cashback = 0, rt_realized_pnl = Some (- 26), rt_mtm_status = NOT_APPLICABLE,
     rt_mtm_value = None, rt_mtm_pnl = None, rt_economic_pnl = Some (- 26), rt_account_profile_id = ''profile'',
     rt_account_components = [sample_component, sample_component\<lparr>ac_scope := WALLET,
       ac_release_policy := RUN_LOCKED, ac_refunded := 0, ac_locked_delta := 5, ac_lifecycle := CREATED_LOCKED\<rparr>],
     rt_execution_mode = EXOGENOUS_REPLAY, rt_sell_reference_liquidity = Some (codec_evidence 92),
     rt_sell_landing_liquidity = Some (codec_evidence 90), rt_mtm_liquidity = None, rt_settled_venue = 90,
     rt_settled_synthetic = 0, rt_source_schema_id = ROUNDTRIP_RESULT_SCHEMA_V4\<rparr>"

lemma codec_positions:
  "0 \<le> i \<Longrightarrow> i < 100 \<Longrightarrow> (\<forall>j. e = Some j \<longrightarrow> j = 0) \<Longrightarrow> valid_position (codec_position i e)"
  "0 \<le> i \<Longrightarrow> i < 100 \<Longrightarrow> (\<forall>j. e = Some j \<longrightarrow> j = 0) \<Longrightarrow> ordinal_of (codec_position i e) = 2 ^ 32 + i + 1"
  "cp_network_id (codec_position i e) = ''chain:g0''"
  "cp_position_schema_id (codec_position i e) = BLOCK32_TRANSACTION32_POSITION_SCHEMA_ID"
  "require_same_chain (codec_position i e) (codec_position j f) = Inr ()"
proof -
  show v: "valid_position (codec_position i e)" if "0 \<le> i" "i < 100" "\<forall>j. e = Some j \<longrightarrow> j = 0"
    using that by (auto simp: valid_position_iff codec_position_def)
  show "ordinal_of (codec_position i e) = 2 ^ 32 + i + 1" if "0 \<le> i" "i < 100" "\<forall>j. e = Some j \<longrightarrow> j = 0"
    using ordinal_of_eq[OF v[OF that]] by (simp add: codec_position_def)
qed (simp_all add: codec_position_def require_same_chain_def chain_identity_def)

lemma codec_leg_stored:
  "0 \<le> i \<Longrightarrow> i < 10 \<Longrightarrow>
   leg_stored ''chain:g0'' BLOCK32_TRANSACTION32_POSITION_SCHEMA_ID side (codec_leg side i)"
  by (simp add: leg_stored_def codec_leg_def codec_positions RoundTripLegRecord_def leg_landing_check_def
      leg_slippage_check_def require_non_negative_def require_optional_non_negative_def)

lemma codec_digest:
  "ContentDigest (sha256_prefix @ replicate 64 CHR ''a'') = Inr (sha256_prefix @ replicate 64 CHR ''a'')"
  "ContentDigest (replicate 64 CHR ''a'') = Inr (replicate 64 CHR ''a'')"
proof -
  let ?d = "sha256_prefix @ replicate 64 CHR ''a''"
  have "strip ?d = ?d" by (simp add: strip_def sha256_prefix_def is_space_def dropWhile_eq_self_iff)
  moreover have "sha256_re ?d"
    unfolding sha256_re_def digest_hex_prefixed by (simp add: is_lower_hex_def char_code_def list_all_iff Let_def)
  ultimately show d: "ContentDigest ?d = Inr ?d"
    unfolding ContentDigest_def Identifier_def by (simp add: list_ex_iff char_code_def sha256_prefix_def)
  show "ContentDigest (replicate 64 CHR ''a'') = Inr (replicate 64 CHR ''a'')"
    using digest_hex_plain(1)[OF d] by (simp only: digest_hex_prefixed)
qed

lemma codec_components: "list_all component_stored (rt_account_components codec_record)"
  by (simp add: codec_record_def component_stored_def)
    (simp add: sample_component_def codec_digest AccountComponentRecord_def
      AccountRequirement_def account_stable_name_def require_account_u64_def validate_lifecycle_amounts_def
      INT128_BOUND_def UINT64_MAX_def Let_def strip_def is_space_def char_code_def Identifier_def)

lemma codec_liquidity: "liquidity_values codec_record = [codec_evidence 92, codec_evidence 90]"
  by (simp add: liquidity_values_def option_list_def codec_record_def)

lemma codec_evidences: "list_all evidence_stored (liquidity_values codec_record)"
  by (simp add: codec_liquidity evidence_stored_def codec_evidence_def QuoteLiquidityEvidenceRecord_def
      require_nonempty_trimmed_def require_non_negative_def Identifier_def strip_def is_space_def char_code_def)

lemma codec_made: "RoundTripRecord codec_record = Inr codec_record"
proof -
  have k: "map account_component_key (rt_account_components codec_record)
      = [(''MINT'', ''ata'', ''ROUNDTRIP'', replicate 64 CHR ''a''), (''WALLET'', ''ata'', ''ROUNDTRIP'', replicate 64 CHR ''a'')]"
    by (simp add: codec_record_def account_component_key_def sample_component_def digest_hex_prefixed)
  have c: "validate_roundtrip_components codec_record = Inr ()"
    by (simp add: validate_roundtrip_components_def codec_record_def) (simp add: sample_component_def)
  have s: "validate_settled_liquidity codec_record = Inr ()"
    by (simp add: validate_settled_liquidity_def codec_record_def successful_sell_def codec_leg_def codec_evidence_def
        require_non_negative_def)
  have p: "cp_network_id (rt_target_position codec_record) = rt_network_id codec_record"
    "cp_position_schema_id (rt_target_position codec_record) = rt_position_schema_id codec_record"
    by (simp_all add: codec_record_def codec_positions)
  show ?thesis
    unfolding RoundTripRecord_def c s k codec_liquidity
    using p by (simp add: codec_record_def codec_leg_def codec_positions option_list_def codec_evidence_def
      require_nonempty_trimmed_def require_non_negative_def strip_def is_space_def char_code_def Let_def
      less_eq_char_def less_char_def ROUNDTRIP_RESULT_SCHEMA_V4_def ROUNDTRIP_RESULT_SCHEMA_V3_def)
qed

lemma codec_complete: "validate_roundtrip_record_v4 codec_record = Inr ()"
  unfolding validate_roundtrip_record_v4_def codec_liquidity
  by (simp add: codec_record_def validate_v4_sell_def validate_v4_closed_def expected_policy_def codec_leg_def
      codec_evidence_def)

lemma codec_stored: "roundtrip_stored codec_record"
proof -
  have "NetworkId ''chain:g0'' = Inr ''chain:g0''" by code_simp
  moreover have "PositionSchemaId BLOCK32_TRANSACTION32_POSITION_SCHEMA_ID = Inr BLOCK32_TRANSACTION32_POSITION_SCHEMA_ID"
    by code_simp
  moreover have "Identifier ''D'' = Inr ''D''" "Identifier ''U'' = Inr ''U''" "Identifier ''M1'' = Inr ''M1''"
    "Identifier ''SOL'' = Inr ''SOL''" "Identifier ''V'' = Inr ''V''"
    by code_simp+
  ultimately show ?thesis
    unfolding roundtrip_stored_def
    using codec_made codec_components codec_evidences codec_complete codec_leg_stored[of 0 LEG_BUY]
      codec_leg_stored[of 4 LEG_SELL]
    by (simp add: codec_record_def codec_digest codec_positions)
qed

theorem roundtrip_codec_exact_witness:
  "roundtrip_record_from_document (JObj (roundtrip_document codec_record)) ROUNDTRIP_RESULT_SCHEMA_V4
     = Inr (bare_record codec_record)
   \<and> RoundTripRecord (bare_record codec_record) = Inr (bare_record codec_record)
   \<and> validate_roundtrip_record_v4 (bare_record codec_record) = Inr ()"
proof -
  have schema: "rt_source_schema_id codec_record = ROUNDTRIP_RESULT_SCHEMA_V4" by (simp add: codec_record_def)
  have read: "roundtrip_record_from_document (JObj (roundtrip_document codec_record)) ROUNDTRIP_RESULT_SCHEMA_V4
     = Inr (bare_record codec_record)"
    using roundtrip_codec_exact[of codec_record] codec_stored unfolding schema by blast
  then show ?thesis
    using roundtrip_codec_exact[of codec_record "JObj (roundtrip_document codec_record)" ROUNDTRIP_RESULT_SCHEMA_V4
      "bare_record codec_record"] by blast
qed

end
