(* ===== verification/Spec2Isabelle.thy ===== *)
theory Spec2Isabelle
  imports Causal_Data Fidelity Transaction_Clock Engine_Sample Pump_Curve Solana_Costs Strategies Copy_Sample Pump_Ports
    Roundtrip_Codec
begin

text \<open>
  \<^bold>\<open>The program.\<close> The repository is a deterministic, causal backtest engine for on-chain markets. A source of
  canonical historical events is replayed boundary by boundary; a strategy sees only what was observable at its
  boundary; its orders land at a later chain position; every effect on balances is a double-entry transaction;
  and everything a run decides is recorded in hashed streams. Three engines share these parts: the reference
  engine (one venue, one strategy), the sniping engine (a round trip per launch) and the copytrading engine
  (one position per followed buy signal). The theories below follow the Python modules of
  \<^verbatim>\<open>src/src/backtest\<close>; each opens with the file it models, and each definition keeps the name of the
  function, method or class it translates.

  \<^bold>\<open>How code becomes definitions.\<close> A frozen dataclass is a record with a constructor of the class's name that
  runs \<^verbatim>\<open>__post_init__\<close> and returns \<^verbatim>\<open>exn + 'a\<close>: every raise is a branch \<^verbatim>\<open>Inl\<close>, with the exception class of
  the source (\<^verbatim>\<open>Prelude\<close>). A mutable object is a record passed through its methods. Python integers are \<^verbatim>\<open>int\<close>,
  with the 32-, 64-, 128- and 256-bit checks of the source written out. A dict is an association list in insertion order,
  a heap the list \<^verbatim>\<open>heapq\<close> keeps, summarised by the locale \<^verbatim>\<open>min_heap\<close>. Loops are structural recursion over what they
  consume, \<^verbatim>\<open>function\<close> with a termination proof, or \<^verbatim>\<open>partial_function (option)\<close> for the copytrading loop, whose
  termination is a theorem. No definition takes fuel.

  \<^bold>\<open>Parameters.\<close> What is not source code of the repository is an argument: SHA-256 (\<^verbatim>\<open>sha\<close>) and HMAC, and the ports
  an engine calls (strategy, protocol, network costs, event source), which the code declares as protocols. Their results are
  arbitrary; a theorem that needs more says so in a hypothesis, and its witness instantiates it.

  \<^bold>\<open>Domain values.\<close>
  \<^verbatim>\<open>Identifiers\<close> (domain/identifiers.py): every identifier's validation.
  \<^verbatim>\<open>Chain\<close> (domain/chain.py, domain/time.py): boundary ordinals and their inverse, positions, block and slot
  ranges; the locale \<^verbatim>\<open>half_open_split\<close> for splitting a range, interpreted for blocks and slots.
  \<^verbatim>\<open>Canonical_Json\<close> (domain/hashing.py, engine/audit.py): the canonical encoding, injective up to key order, and the framed
  record stream.
  \<^verbatim>\<open>Market_Events\<close> (domain/market_events.py, domain/event_hashing.py): canonical events, their documents and payloads.
  \<^verbatim>\<open>Fidelity\<close> (domain/fidelity.py): the lattice of source fidelity.
  \<^verbatim>\<open>Ledger\<close> (domain/ledger.py, engine/portfolio.py): balanced transactions and the portfolio reducer; the locale
  \<^verbatim>\<open>preview_commit\<close> is the optimistic preview/commit contract that the portfolio, the market state and the wallet
  accounts share.

  \<^bold>\<open>Engine components.\<close>
  \<^verbatim>\<open>Scheduler\<close> (engine/scheduler.py): keys, phases, the heap and \<^verbatim>\<open>pop_ready\<close>.
  \<^verbatim>\<open>Causal_Data\<close> (engine/causal_data.py, engine/rng.py): as-of scalar views without lookahead and keyed draws.
  \<^verbatim>\<open>Transaction_Clock\<close>, \<^verbatim>\<open>Clock_Order\<close> (engine/transaction_clock.py): the block table and its lookups, exact and monotone.
  \<^verbatim>\<open>Venue_State\<close> (domain/intents.py, domain/execution.py, engine/state.py): intents, plans, fills and market state.
  \<^verbatim>\<open>Constant_Product\<close> (plugins/execution/constant_product.py, plugins/risk/static.py): the reference venue, interpreting the engine's
  execution contract \<^verbatim>\<open>venue_execution\<close>.
  \<^verbatim>\<open>Account_Lifecycle\<close>, \<^verbatim>\<open>Wallet_Accounts\<close> (domain/account_requirements.py, engine/wallet_accounts.py): which wallet accounts a trade
  opens, what their deposits cost, and their refunds.
  \<^verbatim>\<open>Roundtrips\<close> (domain/roundtrips.py): the canonical result of a round trip; \<^verbatim>\<open>Roundtrip_Codec\<close>: the strict decoder of its
  stored documents, exact in both directions.

  \<^bold>\<open>Plugins.\<close>
  \<^verbatim>\<open>Pump_Curve\<close> (plugins/protocols/pumpfun/model.py): checked-integer quotes of the bonding curve.
  \<^verbatim>\<open>Pump_Payload\<close> (the payload codecs of plugins/protocols/pumpfun, accounts.py, market_charts.py): the curve state's
  canonical text, the primitive states, the copy payload with its base58 signer, account requirements. A payload text is read as
  canonical JSON only, so a floating-point field counts as unreadable.
  \<^verbatim>\<open>Pump_Runtime\<close> (sniping.py and copybuy.py there): the atomic reduction of a transaction group, quotes and valuations; it
  interprets the locale \<^verbatim>\<open>quoting_protocol\<close>. \<^verbatim>\<open>Pump_Ports\<close> plugs it into the protocol ports of the two launchpad engines.
  \<^verbatim>\<open>Solana_Costs\<close> (plugins/networks/solana/costs.py): fee formulas and account deposits.
  \<^verbatim>\<open>Strategies\<close> (plugins/strategies): the three strategies, interpreting the locales \<^verbatim>\<open>swap_strategy\<close> and
  \<^verbatim>\<open>launch_strategy\<close>.

  \<^bold>\<open>The reference engine\<close> (engine/reference.py, engine/replay.py). \<^verbatim>\<open>Replay_Timeline\<close> holds the boundary timeline and the merge of the
  observation and event streams, \<^verbatim>\<open>Reference_Engine\<close> the phases of one boundary and the loop, \<^verbatim>\<open>Engine_Sample\<close> a run followed to
  its end and the theorems of every run: assets are conserved, orders settle, fills follow their reservation.

  \<^bold>\<open>The sniping engine\<close> (engine/sniping.py, engine/sniping_contracts.py). \<^verbatim>\<open>Sniping_Contracts\<close>: what crosses the ports.
  \<^verbatim>\<open>Sniping_Settlement\<close>: the postings of each effect. \<^verbatim>\<open>Sniping_Orders\<close>: the four handlers of a round trip.
  \<^verbatim>\<open>Sniping_Effects\<close>: what they do to the books. \<^verbatim>\<open>Sniping_Source\<close>: grouping and preflight. \<^verbatim>\<open>Sniping_Engine\<close>,
  \<^verbatim>\<open>Sniping_Results\<close>, \<^verbatim>\<open>Sniping_Run\<close>: the merge loop, the records and the whole run. \<^verbatim>\<open>Sniping_Invariants\<close>,
  \<^verbatim>\<open>Sniping_Sample\<close>, \<^verbatim>\<open>Sniping_Guarantees\<close>: scheduled actions and reservations match the open round trips at every
  boundary, hence every finished run is settled and its ledger replays.

  \<^bold>\<open>The copytrading engine\<close> (domain/copytrading.py, engine/copytrading*.py). \<^verbatim>\<open>Copy_Domain\<close>: prices, policy, signal, intent.
  \<^verbatim>\<open>Copy_State\<close>: the control state of a position; \<^verbatim>\<open>Copy_Lifecycle\<close> its step relation \<^verbatim>\<open>control_step\<close>, invariant, and the bound
  on its paths. \<^verbatim>\<open>Copy_Execution\<close>: the executor. \<^verbatim>\<open>Copy_Replay\<close>: the lazy delivery merge and the replay loop.
  \<^verbatim>\<open>Copy_Progress\<close>: each boundary consumes a group or a delivery of the source, or lowers the sum over positions of the status
  changes still to come plus the actions scheduled; hence the loop ends and \<^verbatim>\<open>partial_function\<close> never yields \<^verbatim>\<open>None\<close>.
  \<^verbatim>\<open>Copy_Results\<close>, \<^verbatim>\<open>Copy_Run\<close>: the records of a run, their documents, the wallet's totals, and the whole run. \<^verbatim>\<open>Copy_Totals\<close>: the
  totals reconcile with the results. \<^verbatim>\<open>Copy_Settled\<close>: every position is settled when the loop ends. \<^verbatim>\<open>Copy_Sample\<close>: a run
  evaluated to its end.

  \<^bold>\<open>Termination.\<close> The binary searches, the range splits and the heap pops end by a measure on indices or on the heap. The
  sniping loop ends because a boundary consumes a historical group or, between groups, lowers the rank of the scheduled
  work. The copytrading loop is a partial function because its source may be replayed in any order the ports allow; the potential argument
  of \<^verbatim>\<open>Copy_Progress\<close> shows it returns.

  \<^bold>\<open>Not modelled.\<close> Adapters (files, SQLite, ClickHouse, HTTP, Arrow and numpy columns), the application layer's orchestration,
  the interfaces, bootstrap and runtime: they move bytes, call services or libraries, or wire the parts above together.
  Of pump.fun, the live normalizer, the projector and the copy snapshot validator, which feed the adapters, are left out.
  \<^verbatim>\<open>isinstance\<close> checks that the types of the model discharge are not restated.
\<close>

end
